(* ===== verification/Prelude.thy ===== *)
theory Prelude
  imports Main "HOL-Library.Word"
begin

section \<open>Shared types, results and lemmas\<close>

text \<open>
  What every component of the model shares: the EVM's machine types as words, the two kinds
  of failing result (a Solidity revert or panic, a Go error or panic) as sum types with their
  sequencing functions, Solidity's checked arithmetic, and lemmas on words and on sums over
  mappings with finitely many nonzero entries.
\<close>

subsection \<open>Machine types\<close>

type_synonym uint256 = "256 word"
type_synonym uint32 = "32 word"
type_synonym uint64 = "64 word"
type_synonym bytes32 = "256 word"
type_synonym address = "160 word"
type_synonym byte = "8 word"
type_synonym bytes = "byte list"

named_theorems inv_rules \<open>inversion rules: what a successful operation has checked and done\<close>
named_theorems frame_rules \<open>what an operation leaves unchanged\<close>

subsection \<open>Results of Solidity code\<close>

text \<open>
  A call either succeeds with \<open>Inr\<close>, or reverts the whole transaction with \<open>Inl\<close>: with a
  reason string (\<open>require\<close>), with a compiler-inserted panic code (0x11 is arithmetic
  overflow or underflow), or with the bytes an external contract reverted with. State
  changes are returned only with \<open>Inr\<close>, so a revert discards them, as the EVM does.
\<close>

datatype sol_error =
    Revert string
  | SolPanic nat
  | ExternalRevert bytes

definition bindE :: "'e + 'a \<Rightarrow> ('a \<Rightarrow> 'e + 'b) \<Rightarrow> 'e + 'b" where
  "bindE r k = (case r of Inl e \<Rightarrow> Inl e | Inr x \<Rightarrow> k x)"

definition requireE :: "bool \<Rightarrow> string \<Rightarrow> (sol_error + 'a) \<Rightarrow> sol_error + 'a" where
  "requireE c msg k = (if c then k else Inl (Revert msg))"

lemma bindE_simps [simp]:
  "bindE (Inl e) k = Inl e"
  "bindE (Inr x) k = k x"
  by (simp_all add: bindE_def)

lemma bindE_Inr_conv [simp]: "bindE r k = Inr y \<longleftrightarrow> (\<exists>x. r = Inr x \<and> k x = Inr y)"
  by (cases r) auto

lemma bindE_Inl_conv: "bindE r k = Inl e \<longleftrightarrow> r = Inl e \<or> (\<exists>x. r = Inr x \<and> k x = Inl e)"
  by (cases r) auto

lemma requireE_simps [simp]:
  "requireE True msg k = k"
  "requireE False msg k = Inl (Revert msg)"
  by (simp_all add: requireE_def)

lemma requireE_Inr_conv [simp]: "requireE c msg k = Inr y \<longleftrightarrow> c \<and> k = Inr y"
  by (simp add: requireE_def)

lemma requireE_fails: "\<not> c \<Longrightarrow> requireE c msg k = Inl (Revert msg)"
  by simp

subsection \<open>Checked arithmetic (Solidity 0.8)\<close>

definition checked_add :: "uint256 \<Rightarrow> uint256 \<Rightarrow> sol_error + uint256" where
  "checked_add a b = (if unat a + unat b < 2 ^ 256 then Inr (a + b) else Inl (SolPanic 17))"

definition checked_sub :: "uint256 \<Rightarrow> uint256 \<Rightarrow> sol_error + uint256" where
  "checked_sub a b = (if b \<le> a then Inr (a - b) else Inl (SolPanic 17))"

lemma checked_add_Inr: "checked_add a b = Inr c \<longleftrightarrow> unat a + unat b < 2 ^ 256 \<and> c = a + b"
  by (auto simp: checked_add_def)

lemma checked_add_unat: "checked_add a b = Inr c \<Longrightarrow> unat c = unat a + unat b"
  by (auto simp: checked_add_Inr unat_word_ariths)

lemma checked_add_mono: "checked_add a b = Inr c \<Longrightarrow> a \<le> c"
  by (simp add: word_le_nat_alt checked_add_unat)

lemma checked_sub_Inr: "checked_sub a b = Inr c \<longleftrightarrow> b \<le> a \<and> c = a - b"
  by (auto simp: checked_sub_def)

lemma checked_sub_unat: "checked_sub a b = Inr c \<Longrightarrow> unat c = unat a - unat b"
  by (auto simp: checked_sub_Inr unat_sub)

lemma unat_lt_256 [simp]: "unat (a :: uint256) < 2 ^ 256"
  using unsigned_less [of a, where ?'a = nat] by simp

lemma unat_word256_plus_1:
  "unat (a :: uint256) + 1 < 2 ^ 256 \<Longrightarrow> unat (a + 1) = Suc (unat a)"
  by (simp add: unat_word_ariths)

lemma unat_sub_word: "(b :: uint256) \<le> a \<Longrightarrow> unat (a - b) = unat a - unat b"
  by (simp add: unat_sub)

subsection \<open>Results of Go code\<close>

text \<open>
  A Go function that returns \<open>(T, error)\<close> is modelled with \<open>Inl (GoError msg)\<close> for a
  non-nil error and \<open>Inr\<close> for a value with a nil error; a run-time panic (an index or a
  slice bound out of range, a failed type assertion, \<open>log.Panic\<close>) is \<open>Inl (GoPanic msg)\<close>.
\<close>

datatype go_error =
    GoError string
  | GoPanic string

text \<open>\<open>errors.Wrap(err, msg)\<close> of github.com/pkg/errors: the message, a colon, the cause.\<close>

fun wrapE :: "string \<Rightarrow> go_error + 'a \<Rightarrow> go_error + 'a" where
  "wrapE msg (Inl (GoError s)) = Inl (GoError (msg @ '': '' @ s))"
| "wrapE msg (Inl (GoPanic s)) = Inl (GoPanic s)"
| "wrapE msg (Inr x) = Inr x"

lemma wrapE_Inr_conv [simp]: "wrapE msg r = Inr x \<longleftrightarrow> r = Inr x"
  by (cases "(msg, r)" rule: wrapE.cases) auto

subsection \<open>Sums over mappings with finite support\<close>

text \<open>
  A Solidity mapping is a total function whose entries are zero until they are written.
  \<open>total f\<close> adds up its nonzero entries.
\<close>

definition support :: "('k \<Rightarrow> nat) \<Rightarrow> 'k set" where
  "support f = {k. f k \<noteq> 0}"

definition total :: "('k \<Rightarrow> nat) \<Rightarrow> nat" where
  "total f = sum f (support f)"

lemma support_upd: "support (f(k := n)) \<subseteq> insert k (support f)"
  by (auto simp: support_def)

lemma finite_support_upd [simp, intro]: "finite (support f) \<Longrightarrow> finite (support (f(k := n)))"
  using support_upd by (rule finite_subset) simp

lemma total_superset: "finite A \<Longrightarrow> support f \<subseteq> A \<Longrightarrow> total f = sum f A"
  unfolding total_def by (rule sum.mono_neutral_left) (auto simp: support_def)

lemma total_upd: "finite (support f) \<Longrightarrow> total (f(k := n)) + f k = total f + n"
proof -
  assume fin: "finite (support f)"
  let ?A = "insert k (support f)"
  have "total (f(k := n)) = sum (f(k := n)) ?A"
    using fin by (intro total_superset) (auto simp: support_def)
  also have "\<dots> = n + sum (f(k := n)) (?A - {k})"
    using fin by (subst sum.remove [of _ k]) auto
  also have "sum (f(k := n)) (?A - {k}) = sum f (?A - {k})"
    by (rule sum.cong) auto
  finally have new: "total (f(k := n)) = n + sum f (?A - {k})" .
  have "total f = sum f ?A"
    using fin by (intro total_superset) auto
  also have "\<dots> = f k + sum f (?A - {k})"
    using fin by (subst sum.remove [of _ k]) auto
  finally show ?thesis using new by simp
qed

lemma total_ge: "finite (support f) \<Longrightarrow> f k \<le> total f"
  using total_upd [of f k 0] by simp

lemma total_zero [simp]: "total (\<lambda>_. 0) = 0" "support (\<lambda>_. 0) = {}"
  by (simp_all add: total_def support_def)

end
