(* ===== verification/Receipt_Queue.thy ===== *)
theory Receipt_Queue
  imports Prelude
begin

section \<open>ReceiptQueue.sol: the FIFO of outstanding receipts\<close>

text \<open>
  Models the library \<open>contracts/src/Teleporter/ReceiptQueue.sol\<close>. The queue is a window
  \<open>[first, last)\<close> of a mapping from indices to receipts; \<open>last++\<close>, \<open>first + 1\<close> and
  \<open>last - first\<close> are checked additions and subtractions. The locale \<open>fifo\<close> states what a
  client relies on; the interpretation at the end shows that the library provides it.
\<close>

subsection \<open>Data and operations\<close>

record TeleporterMessageReceipt =
  receivedMessageID :: uint256
  relayerRewardAddress :: address

record TeleporterMessageReceiptQueue =
  q_first :: uint256
  q_last :: uint256
  q_data :: "uint256 \<Rightarrow> TeleporterMessageReceipt"

definition zero_receipt :: TeleporterMessageReceipt where
  "zero_receipt = \<lparr>receivedMessageID = 0, relayerRewardAddress = 0\<rparr>"

definition empty_queue :: TeleporterMessageReceiptQueue where
  "empty_queue = \<lparr>q_first = 0, q_last = 0, q_data = (\<lambda>_. zero_receipt)\<rparr>"

definition MAXIMUM_RECEIPT_COUNT :: uint256 where
  "MAXIMUM_RECEIPT_COUNT = 5"

definition enqueue ::
  "TeleporterMessageReceiptQueue \<Rightarrow> TeleporterMessageReceipt
    \<Rightarrow> sol_error + TeleporterMessageReceiptQueue" where
  "enqueue q r =
     bindE (checked_add (q_last q) 1) (\<lambda>n.
     Inr (q\<lparr>q_data := (q_data q)(q_last q := r), q_last := n\<rparr>))"

definition dequeue ::
  "TeleporterMessageReceiptQueue
    \<Rightarrow> sol_error + (TeleporterMessageReceipt \<times> TeleporterMessageReceiptQueue)" where
  "dequeue q =
     (let fst0 = q_first q in
      requireE (q_last q \<noteq> fst0) ''ReceiptQueue: empty queue'' (
      let result = q_data q fst0;
          q' = q\<lparr>q_data := (q_data q)(fst0 := zero_receipt)\<rparr>
      in bindE (checked_add fst0 1) (\<lambda>n.
         Inr (result, q'\<lparr>q_first := n\<rparr>))))"

definition queue_size :: "TeleporterMessageReceiptQueue \<Rightarrow> sol_error + uint256" where
  "queue_size q = checked_sub (q_last q) (q_first q)"

text \<open>The loop \<open>for (i = 0; i < resultSize; ++i) result[i] = dequeue(queue)\<close>.\<close>

fun dequeue_loop ::
  "nat \<Rightarrow> TeleporterMessageReceiptQueue
    \<Rightarrow> sol_error + (TeleporterMessageReceipt list \<times> TeleporterMessageReceiptQueue)" where
  "dequeue_loop 0 q = Inr ([], q)"
| "dequeue_loop (Suc n) q =
     bindE (dequeue q) (\<lambda>(r, q1).
     bindE (dequeue_loop n q1) (\<lambda>(rs, q2).
     Inr (r # rs, q2)))"

definition getOutstandingReceiptsToSend ::
  "TeleporterMessageReceiptQueue
    \<Rightarrow> sol_error + (TeleporterMessageReceipt list \<times> TeleporterMessageReceiptQueue)" where
  "getOutstandingReceiptsToSend q =
     bindE (queue_size q) (\<lambda>sz.
     let resultSize = min MAXIMUM_RECEIPT_COUNT sz in
     if resultSize = 0 then Inr ([], q)
     else dequeue_loop (unat resultSize) q)"

definition queue_getReceiptAtIndex ::
  "TeleporterMessageReceiptQueue \<Rightarrow> uint256 \<Rightarrow> sol_error + TeleporterMessageReceipt" where
  "queue_getReceiptAtIndex q i =
     bindE (queue_size q) (\<lambda>sz.
     requireE (i < sz) ''ReceiptQueue: index out of bounds'' (
     bindE (checked_add (q_first q) i) (\<lambda>j.
     Inr (q_data q j))))"

subsection \<open>The interface a client relies on\<close>

text \<open>
  \<open>contents\<close> reads a queue as the list of its elements, oldest first; \<open>room\<close> says that an
  insertion does not run out of indices.
\<close>

locale fifo =
  fixes enq :: "'q \<Rightarrow> 'a \<Rightarrow> 'e + 'q"
    and deq :: "'q \<Rightarrow> 'e + ('a \<times> 'q)"
    and contents :: "'q \<Rightarrow> 'a list"
    and wf :: "'q \<Rightarrow> bool"
    and room :: "'q \<Rightarrow> bool"
  assumes enq_room: "wf q \<Longrightarrow> room q \<Longrightarrow> \<exists>q'. enq q x = Inr q'"
    and enq_contents: "wf q \<Longrightarrow> enq q x = Inr q' \<Longrightarrow> contents q' = contents q @ [x]"
    and enq_wf: "wf q \<Longrightarrow> enq q x = Inr q' \<Longrightarrow> wf q'"
    and deq_cons: "wf q \<Longrightarrow> contents q = x # xs \<Longrightarrow>
          \<exists>q'. deq q = Inr (x, q') \<and> contents q' = xs \<and> wf q'"
    and deq_empty: "wf q \<Longrightarrow> contents q = [] \<Longrightarrow> \<exists>e. deq q = Inl e"
begin

lemma deq_Inr:
  assumes "wf q" and "deq q = Inr (x, q')"
  shows "contents q = x # contents q' \<and> wf q'"
proof (cases "contents q")
  case Nil
  with deq_empty [OF assms(1)] assms(2) show ?thesis by auto
next
  case (Cons y ys)
  with deq_cons [OF assms(1)] assms(2) show ?thesis by auto
qed

text \<open>Taking out one element after another, as the client's loop does.\<close>

fun deq_many :: "nat \<Rightarrow> 'q \<Rightarrow> 'e + ('a list \<times> 'q)" where
  "deq_many 0 q = Inr ([], q)"
| "deq_many (Suc n) q =
     bindE (deq q) (\<lambda>(r, q1). bindE (deq_many n q1) (\<lambda>(rs, q2). Inr (r # rs, q2)))"

lemma deq_many_take:
  "wf q \<Longrightarrow> n \<le> length (contents q) \<Longrightarrow>
    \<exists>q'. deq_many n q = Inr (take n (contents q), q')
      \<and> contents q' = drop n (contents q) \<and> wf q'"
proof (induction n arbitrary: q)
  case 0
  then show ?case by simp
next
  case (Suc n)
  then obtain x xs where c: "contents q = x # xs"
    by (cases "contents q") auto
  from deq_cons [OF Suc.prems(1) c] obtain q1 where
    q1: "deq q = Inr (x, q1)" "contents q1 = xs" "wf q1" by blast
  have "n \<le> length (contents q1)" using Suc.prems(2) c q1(2) by simp
  from Suc.IH [OF q1(3) this] obtain q2 where
    "deq_many n q1 = Inr (take n xs, q2)" "contents q2 = drop n xs" "wf q2"
    using q1(2) by auto
  with q1 c show ?case by simp
qed

lemma deq_many_wf: "wf q \<Longrightarrow> deq_many n q = Inr (rs, q') \<Longrightarrow> wf q'"
proof (induction n arbitrary: q rs)
  case 0
  then show ?case by simp
next
  case (Suc n)
  then show ?case by (auto dest: deq_Inr)
qed

end

subsection \<open>The library provides the interface\<close>

text \<open>
  A queue is well formed when \<open>first\<close> does not pass \<open>last\<close>; its contents are the cells
  between them.
\<close>

definition queue_wf :: "TeleporterMessageReceiptQueue \<Rightarrow> bool" where
  "queue_wf q \<longleftrightarrow> q_first q \<le> q_last q"

definition queue_list :: "TeleporterMessageReceiptQueue \<Rightarrow> TeleporterMessageReceipt list" where
  "queue_list q = map (\<lambda>i. q_data q (word_of_nat i)) [unat (q_first q)..<unat (q_last q)]"

definition queue_room :: "TeleporterMessageReceiptQueue \<Rightarrow> bool" where
  "queue_room q \<longleftrightarrow> unat (q_last q) + 1 < 2 ^ 256"

lemma queue_list_cong:
  "(\<And>i. unat (q_first q) \<le> i \<Longrightarrow> i < unat (q_last q) \<Longrightarrow>
      f (word_of_nat i) = q_data q (word_of_nat i)) \<Longrightarrow>
    map (\<lambda>i. f (word_of_nat i)) [unat (q_first q)..<unat (q_last q)] = queue_list q"
  by (simp add: queue_list_def)

lemma word_of_nat_eq_iff_256:
  "i < 2 ^ 256 \<Longrightarrow> (word_of_nat i = (w :: uint256)) \<longleftrightarrow> i = unat w"
  by (auto simp: unsigned_of_nat take_bit_nat_eq_self)

lemma length_queue_list: "length (queue_list q) = unat (q_last q) - unat (q_first q)"
  by (simp add: queue_list_def)

lemma queue_list_empty_iff: "queue_wf q \<Longrightarrow> queue_list q = [] \<longleftrightarrow> q_first q = q_last q"
  by (auto simp: queue_wf_def word_le_nat_alt queue_list_def word_unat_eq_iff)

lemma enqueue_contents:
  assumes "queue_wf q" and "enqueue q r = Inr q'"
  shows "queue_list q' = queue_list q @ [r] \<and> queue_wf q'"
proof -
  let ?l = "unat (q_last q)" and ?f = "unat (q_first q)"
  from assms(2) have fit: "?l + 1 < 2 ^ 256"
    and q': "q' = q\<lparr>q_data := (q_data q)(q_last q := r), q_last := q_last q + 1\<rparr>"
    by (auto simp: enqueue_def checked_add_Inr)
  have last': "unat (q_last q + 1) = Suc ?l"
    using fit by (rule unat_word256_plus_1)
  have le: "?f \<le> ?l" using assms(1) by (simp add: queue_wf_def word_le_nat_alt)
  have "queue_list q' = map (\<lambda>i. ((q_data q)(q_last q := r)) (word_of_nat i)) ([?f..<?l] @ [?l])"
    using le by (simp add: queue_list_def q' last')
  also have "\<dots> = queue_list q @ [r]"
    using fit by (auto simp: queue_list_def word_of_nat_eq_iff_256)
  finally show ?thesis
    using le by (simp add: queue_wf_def q' word_le_nat_alt last')
qed

lemma dequeue_contents:
  assumes wf: "queue_wf q" and c: "queue_list q = x # xs"
  shows "\<exists>q'. dequeue q = Inr (x, q') \<and> queue_list q' = xs \<and> queue_wf q'"
proof -
  let ?l = "unat (q_last q)" and ?f = "unat (q_first q)"
  from c have lt: "?f < ?l" using length_queue_list [of q] by simp
  have fit: "?f + 1 < 2 ^ 256" using lt unat_lt_256 [of "q_last q"] by linarith
  have first': "unat (q_first q + 1) = Suc ?f" using fit by (rule unat_word256_plus_1)
  define q' where "q' = q\<lparr>q_data := (q_data q)(q_first q := zero_receipt), q_first := q_first q + 1\<rparr>"
  have split: "[?f..<?l] = ?f # [Suc ?f..<?l]" using lt by (simp add: upt_conv_Cons)
  have x: "x = q_data q (q_first q)"
    and xs: "xs = map (\<lambda>i. q_data q (word_of_nat i)) [Suc ?f..<?l]"
    using c by (auto simp: queue_list_def split)
  have "q_last q \<noteq> q_first q" using lt by auto
  then have "dequeue q = Inr (x, q')"
    using fit by (simp add: dequeue_def q'_def x checked_add_def Let_def)
  moreover have "queue_list q' = xs"
    using unat_lt_256 [of "q_last q"]
    by (auto simp: queue_list_def q'_def first' xs word_of_nat_eq_iff_256)
  moreover have "queue_wf q'"
    using lt by (simp add: queue_wf_def q'_def word_le_nat_alt first')
  ultimately show ?thesis by blast
qed

interpretation rq: fifo enqueue dequeue queue_list queue_wf queue_room
proof unfold_locales
  fix q x
  assume "queue_wf q" and "queue_room q"
  then show "\<exists>q'. enqueue q x = Inr q'"
    by (simp add: enqueue_def queue_room_def checked_add_def)
next
  fix q
  assume "queue_wf q" and "queue_list q = []"
  then show "\<exists>e. dequeue q = Inl e"
    by (simp add: dequeue_def queue_list_empty_iff)
qed (use enqueue_contents dequeue_contents in blast)+

subsection \<open>Functional behaviour of the operations\<close>

lemma dequeue_loop_deq_many: "dequeue_loop n q = rq.deq_many n q"
  by (induction n arbitrary: q) (simp_all only: dequeue_loop.simps rq.deq_many.simps)

lemma queue_size_wf: "queue_wf q \<Longrightarrow> \<exists>n. queue_size q = Inr n \<and> unat n = length (queue_list q)"
  by (simp add: queue_size_def checked_sub_def queue_wf_def length_queue_list unat_sub)

lemma unat_min_5: "unat (min (5 :: uint256) n) = min 5 (unat n)"
  by (simp add: min_def word_le_nat_alt)

lemma outstanding_refines_take:
  assumes "queue_wf q"
  shows "\<exists>q'. getOutstandingReceiptsToSend q = Inr (take 5 (queue_list q), q')
    \<and> queue_list q' = drop 5 (queue_list q) \<and> queue_wf q'"
proof -
  obtain n where n: "queue_size q = Inr n" "unat n = length (queue_list q)"
    using queue_size_wf [OF assms] by blast
  let ?k = "min (5 :: uint256) n" and ?m = "min 5 (length (queue_list q))"
  have k: "unat ?k = ?m" using n(2) by (simp add: unat_min_5)
  show ?thesis
  proof (cases "?k = 0")
    case True
    then have "?m = 0" using k by simp
    then have "queue_list q = []" by (auto simp: min_def split: if_splits)
    then show ?thesis using True n assms
      by (simp add: getOutstandingReceiptsToSend_def MAXIMUM_RECEIPT_COUNT_def)
  next
    case False
    have "?m \<le> length (queue_list q)" by simp
    from rq.deq_many_take [OF assms this] obtain q' where
      q': "rq.deq_many ?m q = Inr (take ?m (queue_list q), q')"
          "queue_list q' = drop ?m (queue_list q)" "queue_wf q'" by blast
    have "getOutstandingReceiptsToSend q = Inr (take ?m (queue_list q), q')"
      using False n k q'(1)
      by (simp add: getOutstandingReceiptsToSend_def MAXIMUM_RECEIPT_COUNT_def
            dequeue_loop_deq_many)
    with q' show ?thesis by (auto simp: min_def)
  qed
qed

lemma getReceiptAtIndex_nth:
  assumes "queue_wf q"
  shows "queue_getReceiptAtIndex q i =
    (if unat i < length (queue_list q) then Inr (queue_list q ! unat i)
     else Inl (Revert ''ReceiptQueue: index out of bounds''))"
proof -
  obtain n where n: "queue_size q = Inr n" "unat n = length (queue_list q)"
    using queue_size_wf [OF assms] by blast
  show ?thesis
  proof (cases "i < n")
    case True
    then have lt: "unat i < length (queue_list q)" using n by (simp add: word_less_nat_alt)
    then have "unat (q_first q) + unat i < unat (q_last q)" by (simp add: length_queue_list)
    then have fit: "unat (q_first q) + unat i < 2 ^ 256"
      using unat_lt_256 [of "q_last q"] by linarith
    have "word_of_nat (unat (q_first q) + unat i) = q_first q + i" by simp
    with True lt fit n(1) show ?thesis
      by (simp add: queue_getReceiptAtIndex_def checked_add_def queue_list_def)
  next
    case False
    with n show ?thesis by (simp add: queue_getReceiptAtIndex_def word_less_nat_alt)
  qed
qed

text \<open>Adding several receipts, one call after another.\<close>

fun enqueue_all ::
  "TeleporterMessageReceiptQueue \<Rightarrow> TeleporterMessageReceipt list
    \<Rightarrow> sol_error + TeleporterMessageReceiptQueue" where
  "enqueue_all q [] = Inr q"
| "enqueue_all q (r # rs) = bindE (enqueue q r) (\<lambda>q'. enqueue_all q' rs)"

lemma enqueue_all_contents:
  "queue_wf q \<Longrightarrow> enqueue_all q rs = Inr q' \<Longrightarrow>
    queue_list q' = queue_list q @ rs \<and> queue_wf q'"
proof (induction rs arbitrary: q)
  case (Cons r rs)
  then obtain q1 where q1: "enqueue q r = Inr q1" "enqueue_all q1 rs = Inr q'" by auto
  with Cons.IH [of q1] enqueue_contents [OF Cons.prems(1) q1(1)] show ?case by simp
qed simp

end
