(* ===== verification/Reentrancy_Guards.thy ===== *)
theory Reentrancy_Guards
  imports Prelude
begin

section \<open>ReentrancyGuards.sol: the sender and the receiver guard\<close>

text \<open>
  Models \<open>contracts/src/Teleporter/ReentrancyGuards.sol\<close>. The two guard words are the first
  fields of the contract's storage, and \<open>TeleporterMessenger\<close> inherits them by record
  extension. A modifier is a function of the body it wraps. The locale \<open>nonreentrant\<close> is the
  contract of one such modifier; both modifiers of the code interpret it.
\<close>

record guards =
  sendEntered :: uint256
  receiveEntered :: uint256

definition NOT_ENTERED :: uint256 where
  "NOT_ENTERED = 1"

definition ENTERED :: uint256 where
  "ENTERED = 2"

lemma ENTERED_neq [simp]: "ENTERED \<noteq> NOT_ENTERED" "NOT_ENTERED \<noteq> ENTERED"
  by (simp_all add: ENTERED_def NOT_ENTERED_def)

definition senderNonReentrant ::
  "('a guards_scheme \<Rightarrow> sol_error + ('r \<times> 'a guards_scheme))
    \<Rightarrow> 'a guards_scheme \<Rightarrow> sol_error + ('r \<times> 'a guards_scheme)" where
  "senderNonReentrant body w =
     requireE (sendEntered w = NOT_ENTERED) ''ReentrancyGuards: sender reentrancy'' (
     bindE (body (w\<lparr>sendEntered := ENTERED\<rparr>)) (\<lambda>(r, w').
     Inr (r, w'\<lparr>sendEntered := NOT_ENTERED\<rparr>)))"

definition receiverNonReentrant ::
  "('a guards_scheme \<Rightarrow> sol_error + ('r \<times> 'a guards_scheme))
    \<Rightarrow> 'a guards_scheme \<Rightarrow> sol_error + ('r \<times> 'a guards_scheme)" where
  "receiverNonReentrant body w =
     requireE (receiveEntered w = NOT_ENTERED) ''ReentrancyGuards: receiver reentrancy'' (
     bindE (body (w\<lparr>receiveEntered := ENTERED\<rparr>)) (\<lambda>(r, w').
     Inr (r, w'\<lparr>receiveEntered := NOT_ENTERED\<rparr>)))"

definition guards_constructor :: "'a guards_scheme \<Rightarrow> 'a guards_scheme" where
  "guards_constructor w = w\<lparr>sendEntered := NOT_ENTERED, receiveEntered := NOT_ENTERED\<rparr>"

subsection \<open>The contract of a guard\<close>

locale nonreentrant =
  fixes entered :: "'s \<Rightarrow> uint256"
    and enter :: "'s \<Rightarrow> 's"
    and leave :: "'s \<Rightarrow> 's"
    and modifier :: "('s \<Rightarrow> sol_error + ('r \<times> 's)) \<Rightarrow> 's \<Rightarrow> sol_error + ('r \<times> 's)"
    and reason :: string
  assumes blocked: "entered s \<noteq> NOT_ENTERED \<Longrightarrow> modifier body s = Inl (Revert reason)"
    and runs: "entered s = NOT_ENTERED \<Longrightarrow>
          modifier body s = bindE (body (enter s)) (\<lambda>(r, t). Inr (r, leave t))"
    and entered_enter: "entered (enter s) = ENTERED"
    and entered_leave: "entered (leave s) = NOT_ENTERED"
begin

lemma nested_reverts: "modifier body (enter s) = Inl (Revert reason)"
  by (rule blocked) (simp add: entered_enter)

lemma Inr_elim:
  assumes "modifier body s = Inr (r, s')"
  obtains t where "entered s = NOT_ENTERED" and "body (enter s) = Inr (r, t)" and "s' = leave t"
proof (cases "entered s = NOT_ENTERED")
  case True
  with assms runs [OF True] that show ?thesis by (auto split: prod.splits)
next
  case False
  with assms blocked [OF False] show ?thesis by simp
qed

lemma released: "modifier body s = Inr (r, s') \<Longrightarrow> entered s' = NOT_ENTERED"
  by (erule Inr_elim) (simp add: entered_leave)

lemma recursive_call_reverts:
  "entered s = NOT_ENTERED \<Longrightarrow> modifier (\<lambda>t. modifier body t) s = Inl (Revert reason)"
  by (simp add: runs nested_reverts)

end

interpretation send_guard:
  nonreentrant sendEntered "\<lambda>w. w\<lparr>sendEntered := ENTERED\<rparr>" "\<lambda>w. w\<lparr>sendEntered := NOT_ENTERED\<rparr>"
    senderNonReentrant "''ReentrancyGuards: sender reentrancy''"
  by unfold_locales (simp_all add: senderNonReentrant_def)

interpretation receive_guard:
  nonreentrant receiveEntered "\<lambda>w. w\<lparr>receiveEntered := ENTERED\<rparr>"
    "\<lambda>w. w\<lparr>receiveEntered := NOT_ENTERED\<rparr>"
    receiverNonReentrant "''ReentrancyGuards: receiver reentrancy''"
  by unfold_locales (simp_all add: receiverNonReentrant_def)

end
