(* ===== verification/Messenger_State.thy ===== *)
theory Messenger_State
  imports Receipt_Queue Reentrancy_Guards
begin

section \<open>TeleporterMessenger.sol: data, storage and environment\<close>

text \<open>
  The structs of \<open>ITeleporterMessenger.sol\<close>, the storage of \<open>TeleporterMessenger.sol\<close>, and
  what the contract calls but does not define. The storage record extends the guards, as the
  contract inherits them; \<open>world\<close> adds the contract's event log and \<open>outside\<close>, the state of
  every other account of the chain. The fields of \<open>env\<close> are parameters of the model: the
  caller, the ABI codec, the hash function, the warp precompile, and the contracts that are
  called. A call to another contract takes and returns the whole world, because the callee
  may call back into the messenger before it returns.
\<close>

subsection \<open>Structs\<close>

record TeleporterFeeInfo =
  feeTokenAddress :: address
  feeAmount :: uint256

record TeleporterMessageInput =
  in_destinationBlockchainID :: bytes32
  in_destinationAddress :: address
  in_feeInfo :: TeleporterFeeInfo
  in_requiredGasLimit :: uint256
  in_allowedRelayerAddresses :: "address list"
  in_message :: bytes

record TeleporterMessage =
  messageID :: uint256
  senderAddress :: address
  destinationBlockchainID :: bytes32
  destinationAddress :: address
  requiredGasLimit :: uint256
  allowedRelayerAddresses :: "address list"
  receipts :: "TeleporterMessageReceipt list"
  messageBytes :: bytes

record SentMessageInfo =
  messageHash :: bytes32
  feeInfo :: TeleporterFeeInfo

record WarpMessage =
  sourceChainID :: bytes32
  originSenderAddress :: address
  payload :: bytes

definition zero_feeInfo :: TeleporterFeeInfo where
  "zero_feeInfo = \<lparr>feeTokenAddress = 0, feeAmount = 0\<rparr>"

definition zero_sentInfo :: SentMessageInfo where
  "zero_sentInfo = \<lparr>messageHash = 0, feeInfo = zero_feeInfo\<rparr>"

subsection \<open>Events\<close>

datatype messenger_event =
    LogSendCrossChainMessage bytes32 uint256 TeleporterMessage TeleporterFeeInfo
  | LogAddFeeAmount bytes32 uint256 TeleporterFeeInfo
  | LogMessageExecutionFailed bytes32 uint256 TeleporterMessage
  | LogMessageExecuted bytes32 uint256
  | LogReceiveCrossChainMessage bytes32 uint256 address address TeleporterMessage
  | LogRelayerRewardsRedeemed address address uint256

subsection \<open>Storage\<close>

record messenger = guards +
  blockchainID :: bytes32
  latestMessageIDs :: "bytes32 \<Rightarrow> uint256"
  receiptQueues :: "bytes32 \<Rightarrow> TeleporterMessageReceiptQueue"
  sentMessageInfo :: "bytes32 \<Rightarrow> uint256 \<Rightarrow> SentMessageInfo"
  receivedFailedMessageHashes :: "bytes32 \<Rightarrow> uint256 \<Rightarrow> bytes32"
  relayerRewardAddresses :: "bytes32 \<Rightarrow> uint256 \<Rightarrow> address"
  relayerRewardAmounts :: "address \<Rightarrow> address \<Rightarrow> uint256"

record 'x world = messenger +
  logs :: "messenger_event list"
  outside :: 'x

text \<open>The storage right after deployment: every word zero, then the guards' constructor.\<close>

definition deployed :: "'x \<Rightarrow> 'x world" where
  "deployed x = guards_constructor
     \<lparr>sendEntered = 0, receiveEntered = 0, blockchainID = 0,
      latestMessageIDs = (\<lambda>_. 0), receiptQueues = (\<lambda>_. empty_queue),
      sentMessageInfo = (\<lambda>_ _. zero_sentInfo),
      receivedFailedMessageHashes = (\<lambda>_ _. 0),
      relayerRewardAddresses = (\<lambda>_ _. 0), relayerRewardAmounts = (\<lambda>_ _. 0),
      logs = [], outside = x\<rparr>"

definition emit :: "messenger_event \<Rightarrow> 'x world \<Rightarrow> 'x world" where
  "emit e w = w\<lparr>logs := logs w @ [e]\<rparr>"

text \<open>Writing one entry of a nested mapping.\<close>

definition upd2 :: "('a \<Rightarrow> 'b \<Rightarrow> 'c) \<Rightarrow> 'a \<Rightarrow> 'b \<Rightarrow> 'c \<Rightarrow> 'a \<Rightarrow> 'b \<Rightarrow> 'c" where
  "upd2 f a b c = f(a := (f a)(b := c))"

lemma upd2_apply [simp]: "upd2 f a b c x y = (if x = a \<and> y = b then c else f x y)"
  by (simp add: upd2_def)

lemma upd2_same: "upd2 f a b (f a b) = f"
  by (auto simp: upd2_def)

subsection \<open>What the contract calls\<close>

record 'x env =
  this_address :: address
  msg_sender :: address
  abi_encode :: "TeleporterMessage \<Rightarrow> bytes"
  abi_decode :: "bytes \<Rightarrow> TeleporterMessage option"
  encode_receive_call :: "bytes32 \<Rightarrow> address \<Rightarrow> bytes \<Rightarrow> bytes"
  keccak256 :: "bytes \<Rightarrow> bytes32"
  gasleft :: "'x world \<Rightarrow> uint256"
  code_length :: "address \<Rightarrow> 'x world \<Rightarrow> uint256"
  call_contract :: "address \<Rightarrow> uint256 \<Rightarrow> bytes \<Rightarrow> 'x world \<Rightarrow> sol_error + 'x world"
  token_balanceOf :: "address \<Rightarrow> address \<Rightarrow> 'x world \<Rightarrow> sol_error + uint256"
  token_transferFrom ::
    "address \<Rightarrow> address \<Rightarrow> address \<Rightarrow> uint256 \<Rightarrow> 'x world \<Rightarrow> sol_error + 'x world"
  token_transfer :: "address \<Rightarrow> address \<Rightarrow> uint256 \<Rightarrow> 'x world \<Rightarrow> sol_error + 'x world"
  sendWarpMessage :: "bytes \<Rightarrow> 'x \<Rightarrow> sol_error + 'x"
  getVerifiedWarpMessage :: "uint32 \<Rightarrow> 'x \<Rightarrow> WarpMessage \<times> bool"
  getBlockchainID :: "'x \<Rightarrow> bytes32"

subsection \<open>SafeERC20TransferFrom.sol\<close>

text \<open>
  \<open>safeTransferFrom\<close> pulls tokens from the caller and reports by how much the contract's own
  balance grew. The two balance reads surround the transfer, during which the token may call
  back.
\<close>

definition safeTransferFrom ::
  "'x env \<Rightarrow> address \<Rightarrow> uint256 \<Rightarrow> 'x world \<Rightarrow> sol_error + (uint256 \<times> 'x world)" where
  "safeTransferFrom E erc20 amt w =
     bindE (token_balanceOf E erc20 (this_address E) w) (\<lambda>balanceBefore.
     bindE (token_transferFrom E erc20 (msg_sender E) (this_address E) amt w) (\<lambda>w1.
     bindE (token_balanceOf E erc20 (this_address E) w1) (\<lambda>balanceAfter.
     requireE (balanceAfter > balanceBefore) ''SafeERC20TransferFrom: balance not increased'' (
     bindE (checked_sub balanceAfter balanceBefore) (\<lambda>d.
     Inr (d, w1))))))"

lemma safeTransferFrom_Inr [inv_rules]:
  assumes "safeTransferFrom E t a w = Inr (d, w1)"
  obtains b0 b1 where
    "token_balanceOf E t (this_address E) w = Inr b0"
    "token_transferFrom E t (msg_sender E) (this_address E) a w = Inr w1"
    "token_balanceOf E t (this_address E) w1 = Inr b1"
    "b0 < b1" "unat d = unat b1 - unat b0"
proof -
  from assms obtain b0 b1 where
    r: "token_balanceOf E t (this_address E) w = Inr b0"
       "token_transferFrom E t (msg_sender E) (this_address E) a w = Inr w1"
       "token_balanceOf E t (this_address E) w1 = Inr b1"
       "b0 < b1" and d: "checked_sub b1 b0 = Inr d"
    by (auto simp: safeTransferFrom_def)
  show ?thesis using that [OF r checked_sub_unat [OF d]] .
qed

lemma safeTransferFrom_positive: "safeTransferFrom E t a w = Inr (d, w1) \<Longrightarrow> 0 < d"
  by (erule safeTransferFrom_Inr) (simp add: word_less_nat_alt)

end
