(* ===== verification/Messenger_Ops.thy ===== *)
theory Messenger_Ops
  imports Messenger_State
begin

section \<open>TeleporterMessenger.sol: the operations\<close>

text \<open>
  One definition per function of \<open>contracts/src/Teleporter/TeleporterMessenger.sol\<close>, in the
  order in which they call each other: helpers, sending, receiving, rewards, getters. The
  argument \<open>E\<close> is the environment of the call, \<open>w\<close> the world it starts from.
\<close>

subsection \<open>Helpers\<close>

definition getNextMessageID_internal :: "bytes32 \<Rightarrow> 'x world \<Rightarrow> sol_error + uint256" where
  "getNextMessageID_internal chain w = checked_add (latestMessageIDs w chain) 1"

definition messageReceived_internal :: "bytes32 \<Rightarrow> uint256 \<Rightarrow> 'x world \<Rightarrow> bool" where
  "messageReceived_internal chain mid w \<longleftrightarrow> relayerRewardAddresses w chain mid \<noteq> 0"

text \<open>The loop over \<open>allowedRelayers\<close> returns at the first match.\<close>

fun allowed_relayer_loop :: "address \<Rightarrow> address list \<Rightarrow> bool" where
  "allowed_relayer_loop deliverer [] = False"
| "allowed_relayer_loop deliverer (a # as) =
     (if a = deliverer then True else allowed_relayer_loop deliverer as)"

definition checkIsAllowedRelayer :: "address \<Rightarrow> address list \<Rightarrow> bool" where
  "checkIsAllowedRelayer deliverer allowed =
     (if length allowed = 0 then True else allowed_relayer_loop deliverer allowed)"

definition sendTeleporterMessage ::
  "'x env \<Rightarrow> TeleporterMessageInput \<Rightarrow> TeleporterMessageReceipt list \<Rightarrow> 'x world
    \<Rightarrow> sol_error + (uint256 \<times> 'x world)" where
  "sendTeleporterMessage E inp rs w =
     bindE (getNextMessageID_internal (in_destinationBlockchainID inp) w) (\<lambda>mid.
     let msg = \<lparr>messageID = mid,
                senderAddress = msg_sender E,
                destinationBlockchainID = in_destinationBlockchainID inp,
                destinationAddress = in_destinationAddress inp,
                requiredGasLimit = in_requiredGasLimit inp,
                allowedRelayerAddresses = in_allowedRelayerAddresses inp,
                receipts = rs,
                messageBytes = in_message inp\<rparr>;
         encoded = abi_encode E msg;
         w1 = w\<lparr>latestMessageIDs :=
                  (latestMessageIDs w)(in_destinationBlockchainID inp := mid)\<rparr>
     in bindE
       (if 0 < feeAmount (in_feeInfo inp)
        then requireE (feeTokenAddress (in_feeInfo inp) \<noteq> 0)
               ''TeleporterMessenger: zero fee asset contract address''
               (safeTransferFrom E (feeTokenAddress (in_feeInfo inp))
                  (feeAmount (in_feeInfo inp)) w1)
        else Inr (0, w1))
     (\<lambda>(adjusted, w2).
     let adjustedFeeInfo =
           \<lparr>feeTokenAddress = feeTokenAddress (in_feeInfo inp), feeAmount = adjusted\<rparr>;
         w3 = w2\<lparr>sentMessageInfo :=
                  upd2 (sentMessageInfo w2) (in_destinationBlockchainID inp) mid
                    \<lparr>messageHash = keccak256 E encoded, feeInfo = adjustedFeeInfo\<rparr>\<rparr>;
         w4 = emit (LogSendCrossChainMessage (in_destinationBlockchainID inp) mid msg
                     adjustedFeeInfo) w3
     in bindE (sendWarpMessage E encoded (outside w4)) (\<lambda>x.
     Inr (mid, w4\<lparr>outside := x\<rparr>))))"

definition markReceipt ::
  "bytes32 \<Rightarrow> uint256 \<Rightarrow> address \<Rightarrow> 'x world \<Rightarrow> sol_error + 'x world" where
  "markReceipt chain mid rewardAddress w =
     (let info = sentMessageInfo w chain mid in
      if messageHash info = 0 then Inr w
      else
        let w1 = w\<lparr>sentMessageInfo := upd2 (sentMessageInfo w) chain mid zero_sentInfo\<rparr>;
            token = feeTokenAddress (feeInfo info)
        in bindE (checked_add (relayerRewardAmounts w1 rewardAddress token)
                    (feeAmount (feeInfo info))) (\<lambda>n.
           Inr (w1\<lparr>relayerRewardAmounts :=
                     upd2 (relayerRewardAmounts w1) rewardAddress token n\<rparr>)))"

fun markReceipts ::
  "bytes32 \<Rightarrow> TeleporterMessageReceipt list \<Rightarrow> 'x world \<Rightarrow> sol_error + 'x world" where
  "markReceipts chain [] w = Inr w"
| "markReceipts chain (r # rs) w =
     bindE (markReceipt chain (receivedMessageID r) (relayerRewardAddress r) w) (\<lambda>w1.
     markReceipts chain rs w1)"

text \<open>
  The low-level call yields false when the callee fails; the EVM then undoes everything the
  callee did.
\<close>

definition tryExecuteMessage ::
  "'x env \<Rightarrow> address \<Rightarrow> uint256 \<Rightarrow> bytes \<Rightarrow> 'x world \<Rightarrow> bool \<times> 'x world" where
  "tryExecuteMessage E target gasLimit pl w =
     (case call_contract E target gasLimit pl w of
        Inl _ \<Rightarrow> (False, w)
      | Inr w' \<Rightarrow> (True, w'))"

definition storeFailedMessageExecution ::
  "'x env \<Rightarrow> bytes32 \<Rightarrow> TeleporterMessage \<Rightarrow> 'x world \<Rightarrow> 'x world" where
  "storeFailedMessageExecution E origin msg w =
     emit (LogMessageExecutionFailed origin (messageID msg) msg)
       (w\<lparr>receivedFailedMessageHashes :=
           upd2 (receivedFailedMessageHashes w) origin (messageID msg)
             (keccak256 E (abi_encode E msg))\<rparr>)"

definition handleInitialMessageExecution ::
  "'x env \<Rightarrow> bytes32 \<Rightarrow> TeleporterMessage \<Rightarrow> 'x world \<Rightarrow> sol_error + 'x world" where
  "handleInitialMessageExecution E origin msg w =
     requireE (gasleft E w \<ge> requiredGasLimit msg) ''TeleporterMessenger: insufficient gas'' (
     if code_length E (destinationAddress msg) w = 0
     then Inr (storeFailedMessageExecution E origin msg w)
     else
       let pl = encode_receive_call E origin (senderAddress msg) (messageBytes msg);
           (success, w1) =
             tryExecuteMessage E (destinationAddress msg) (requiredGasLimit msg) pl w
       in if \<not> success then Inr (storeFailedMessageExecution E origin msg w1)
          else Inr (emit (LogMessageExecuted origin (messageID msg)) w1))"

subsection \<open>Sending\<close>

definition sendCrossChainMessage ::
  "'x env \<Rightarrow> TeleporterMessageInput \<Rightarrow> 'x world \<Rightarrow> sol_error + (uint256 \<times> 'x world)" where
  "sendCrossChainMessage E inp = senderNonReentrant (\<lambda>w.
     bindE (getOutstandingReceiptsToSend (receiptQueues w (in_destinationBlockchainID inp)))
     (\<lambda>(rs, q).
     sendTeleporterMessage E inp rs
       (w\<lparr>receiptQueues := (receiptQueues w)(in_destinationBlockchainID inp := q)\<rparr>)))"

definition retrySendCrossChainMessage ::
  "'x env \<Rightarrow> bytes32 \<Rightarrow> TeleporterMessage \<Rightarrow> 'x world \<Rightarrow> sol_error + (unit \<times> 'x world)" where
  "retrySendCrossChainMessage E chain msg = senderNonReentrant (\<lambda>w.
     let existing = sentMessageInfo w chain (messageID msg) in
     requireE (messageHash existing \<noteq> 0) ''TeleporterMessenger: message not found'' (
     let encoded = abi_encode E msg in
     requireE (keccak256 E encoded = messageHash existing)
       ''TeleporterMessenger: invalid message hash'' (
     let w1 = emit (LogSendCrossChainMessage chain (messageID msg) msg (feeInfo existing)) w
     in bindE (sendWarpMessage E encoded (outside w1)) (\<lambda>x.
     Inr ((), w1\<lparr>outside := x\<rparr>)))))"

definition addFeeAmount ::
  "'x env \<Rightarrow> bytes32 \<Rightarrow> uint256 \<Rightarrow> address \<Rightarrow> uint256 \<Rightarrow> 'x world
    \<Rightarrow> sol_error + (unit \<times> 'x world)" where
  "addFeeAmount E chain mid token additional = senderNonReentrant (\<lambda>w.
     requireE (additional > 0) ''TeleporterMessenger: zero additional fee amount'' (
     requireE (token \<noteq> 0) ''TeleporterMessenger: zero fee asset contract address'' (
     requireE (messageHash (sentMessageInfo w chain mid) \<noteq> 0)
       ''TeleporterMessenger: message not found'' (
     requireE (feeTokenAddress (feeInfo (sentMessageInfo w chain mid)) = token)
       ''TeleporterMessenger: invalid fee asset contract address'' (
     bindE (safeTransferFrom E token additional w) (\<lambda>(adjusted, w1).
     let info = sentMessageInfo w1 chain mid in
     bindE (checked_add (feeAmount (feeInfo info)) adjusted) (\<lambda>n.
     let info' = info\<lparr>feeInfo := (feeInfo info)\<lparr>feeAmount := n\<rparr>\<rparr>;
         w2 = w1\<lparr>sentMessageInfo := upd2 (sentMessageInfo w1) chain mid info'\<rparr>
     in Inr ((), emit (LogAddFeeAmount chain mid
                        (feeInfo (sentMessageInfo w2 chain mid))) w2))))))))"

text \<open>The loop that looks up the receipt of each requested message.\<close>

fun collectReceipts ::
  "bytes32 \<Rightarrow> uint256 list \<Rightarrow> 'x world \<Rightarrow> sol_error + TeleporterMessageReceipt list" where
  "collectReceipts origin [] w = Inr []"
| "collectReceipts origin (mid # mids) w =
     (let rewardAddress = relayerRewardAddresses w origin mid in
      requireE (rewardAddress \<noteq> 0) ''TeleporterMessenger: receipt not found'' (
      bindE (collectReceipts origin mids w) (\<lambda>rs.
      Inr (\<lparr>receivedMessageID = mid, relayerRewardAddress = rewardAddress\<rparr> # rs))))"

definition sendSpecifiedReceipts ::
  "'x env \<Rightarrow> bytes32 \<Rightarrow> uint256 list \<Rightarrow> TeleporterFeeInfo \<Rightarrow> address list \<Rightarrow> 'x world
    \<Rightarrow> sol_error + (uint256 \<times> 'x world)" where
  "sendSpecifiedReceipts E origin mids fee allowed = senderNonReentrant (\<lambda>w.
     bindE (collectReceipts origin mids w) (\<lambda>rs.
     sendTeleporterMessage E
       \<lparr>in_destinationBlockchainID = origin, in_destinationAddress = 0,
        in_feeInfo = fee, in_requiredGasLimit = 0,
        in_allowedRelayerAddresses = allowed, in_message = []\<rparr> rs w))"

subsection \<open>Receiving\<close>

definition receiveCrossChainMessage ::
  "'x env \<Rightarrow> uint32 \<Rightarrow> address \<Rightarrow> 'x world \<Rightarrow> sol_error + (unit \<times> 'x world)" where
  "receiveCrossChainMessage E messageIndex rewardAddress = receiverNonReentrant (\<lambda>w.
     requireE (rewardAddress \<noteq> 0) ''TeleporterMessenger: zero relayer reward address'' (
     let (warpMessage, success) = getVerifiedWarpMessage E messageIndex (outside w) in
     requireE success ''TeleporterMessenger: invalid warp message'' (
     requireE (originSenderAddress warpMessage = this_address E)
       ''TeleporterMessenger: invalid origin sender address'' (
     let (chain, w1) =
           (if blockchainID w = 0
            then (getBlockchainID E (outside w),
                  w\<lparr>blockchainID := getBlockchainID E (outside w)\<rparr>)
            else (blockchainID w, w))
     in case abi_decode E (payload warpMessage) of
          None \<Rightarrow> Inl (ExternalRevert [])
        | Some msg \<Rightarrow>
     requireE (destinationBlockchainID msg = chain)
       ''TeleporterMessenger: invalid destination chain ID'' (
     requireE (\<not> messageReceived_internal (sourceChainID warpMessage) (messageID msg) w1)
       ''TeleporterMessenger: message already delivered'' (
     requireE (checkIsAllowedRelayer (msg_sender E) (allowedRelayerAddresses msg))
       ''TeleporterMessenger: unauthorized relayer'' (
     let w2 = w1\<lparr>relayerRewardAddresses :=
               upd2 (relayerRewardAddresses w1) (sourceChainID warpMessage) (messageID msg)
                 rewardAddress\<rparr>
     in bindE (if 0 < length (messageBytes msg)
               then handleInitialMessageExecution E (sourceChainID warpMessage) msg w2
               else Inr w2) (\<lambda>w3.
     bindE (markReceipts (sourceChainID warpMessage) (receipts msg) w3) (\<lambda>w4.
     bindE (enqueue (receiptQueues w4 (sourceChainID warpMessage))
              \<lparr>receivedMessageID = messageID msg, relayerRewardAddress = rewardAddress\<rparr>) (\<lambda>q.
     Inr ((), emit (LogReceiveCrossChainMessage (sourceChainID warpMessage) (messageID msg)
                     (msg_sender E) rewardAddress msg)
               (w4\<lparr>receiptQueues :=
                    (receiptQueues w4)(sourceChainID warpMessage := q)\<rparr>))))))))))))"

definition retryMessageExecution ::
  "'x env \<Rightarrow> bytes32 \<Rightarrow> TeleporterMessage \<Rightarrow> 'x world \<Rightarrow> sol_error + (unit \<times> 'x world)" where
  "retryMessageExecution E origin msg = receiverNonReentrant (\<lambda>w.
     let failedMessageHash = receivedFailedMessageHashes w origin (messageID msg) in
     requireE (failedMessageHash \<noteq> 0) ''TeleporterMessenger: message not found'' (
     requireE (keccak256 E (abi_encode E msg) = failedMessageHash)
       ''TeleporterMessenger: invalid message hash'' (
     requireE (code_length E (destinationAddress msg) w > 0)
       ''TeleporterMessenger: destination address has no code'' (
     let w1 = emit (LogMessageExecuted origin (messageID msg)) w;
         w2 = w1\<lparr>receivedFailedMessageHashes :=
                upd2 (receivedFailedMessageHashes w1) origin (messageID msg) 0\<rparr>;
         pl = encode_receive_call E origin (senderAddress msg) (messageBytes msg);
         (success, w3) = tryExecuteMessage E (destinationAddress msg) (gasleft E w2) pl w2
     in requireE success ''TeleporterMessenger: retry execution failed'' (
     Inr ((), w3))))))"

subsection \<open>Rewards\<close>

definition redeemRelayerRewards ::
  "'x env \<Rightarrow> address \<Rightarrow> 'x world \<Rightarrow> sol_error + (unit \<times> 'x world)" where
  "redeemRelayerRewards E feeAsset w =
     (let rewardAmount = relayerRewardAmounts w (msg_sender E) feeAsset in
      requireE (rewardAmount > 0) ''TeleporterMessenger: no reward to redeem'' (
      let w1 = w\<lparr>relayerRewardAmounts :=
                 upd2 (relayerRewardAmounts w) (msg_sender E) feeAsset 0\<rparr>;
          w2 = emit (LogRelayerRewardsRedeemed (msg_sender E) feeAsset rewardAmount) w1
      in bindE (token_transfer E feeAsset (msg_sender E) rewardAmount w2) (\<lambda>w3.
      Inr ((), w3))))"

subsection \<open>Getters\<close>

definition getMessageHash :: "bytes32 \<Rightarrow> uint256 \<Rightarrow> 'x world \<Rightarrow> bytes32" where
  "getMessageHash chain mid w = messageHash (sentMessageInfo w chain mid)"

definition messageReceived :: "bytes32 \<Rightarrow> uint256 \<Rightarrow> 'x world \<Rightarrow> bool" where
  "messageReceived origin mid w = messageReceived_internal origin mid w"

definition getRelayerRewardAddress :: "bytes32 \<Rightarrow> uint256 \<Rightarrow> 'x world \<Rightarrow> address" where
  "getRelayerRewardAddress origin mid w = relayerRewardAddresses w origin mid"

definition checkRelayerRewardAmount :: "address \<Rightarrow> address \<Rightarrow> 'x world \<Rightarrow> uint256" where
  "checkRelayerRewardAmount relayer feeAsset w = relayerRewardAmounts w relayer feeAsset"

definition getFeeInfo :: "bytes32 \<Rightarrow> uint256 \<Rightarrow> 'x world \<Rightarrow> address \<times> uint256" where
  "getFeeInfo chain mid w =
     (let fi = feeInfo (sentMessageInfo w chain mid) in (feeTokenAddress fi, feeAmount fi))"

definition getNextMessageID :: "bytes32 \<Rightarrow> 'x world \<Rightarrow> sol_error + uint256" where
  "getNextMessageID chain w = getNextMessageID_internal chain w"

definition getReceiptQueueSize :: "bytes32 \<Rightarrow> 'x world \<Rightarrow> sol_error + uint256" where
  "getReceiptQueueSize origin w = queue_size (receiptQueues w origin)"

definition getReceiptAtIndex ::
  "bytes32 \<Rightarrow> uint256 \<Rightarrow> 'x world \<Rightarrow> sol_error + TeleporterMessageReceipt" where
  "getReceiptAtIndex origin i w = queue_getReceiptAtIndex (receiptQueues w origin) i"

end
