(* ===== verification/Messenger_Inversion.thy ===== *)
theory Messenger_Inversion
  imports Messenger_Ops
begin

section \<open>What a successful operation has checked and done\<close>

text \<open>
  One inversion rule per operation: if it returned, these guards held, these calls returned,
  and the final world is this update of the world after the last call. Every later proof about
  a successful operation starts from its rule here.
\<close>

lemma allowed_relayer_loop_iff: "allowed_relayer_loop d as \<longleftrightarrow> d \<in> set as"
  by (induction as) auto

lemma checkIsAllowedRelayer_iff: "checkIsAllowedRelayer d as \<longleftrightarrow> as = [] \<or> d \<in> set as"
  by (simp add: checkIsAllowedRelayer_def allowed_relayer_loop_iff)

lemma sendTeleporterMessage_Inr [inv_rules]:
  assumes "sendTeleporterMessage E inp rs w = Inr (mid, w')"
  obtains msg adj w2 x where
    "unat (latestMessageIDs w (in_destinationBlockchainID inp)) + 1 < 2 ^ 256"
    "mid = latestMessageIDs w (in_destinationBlockchainID inp) + 1"
    "msg = \<lparr>messageID = mid, senderAddress = msg_sender E,
        destinationBlockchainID = in_destinationBlockchainID inp,
        destinationAddress = in_destinationAddress inp,
        requiredGasLimit = in_requiredGasLimit inp,
        allowedRelayerAddresses = in_allowedRelayerAddresses inp,
        receipts = rs, messageBytes = in_message inp\<rparr>"
    "if 0 < feeAmount (in_feeInfo inp)
     then feeTokenAddress (in_feeInfo inp) \<noteq> 0 \<and>
       safeTransferFrom E (feeTokenAddress (in_feeInfo inp)) (feeAmount (in_feeInfo inp))
         (w\<lparr>latestMessageIDs := (latestMessageIDs w)(in_destinationBlockchainID inp := mid)\<rparr>)
         = Inr (adj, w2)
     else adj = 0 \<and>
       w2 = w\<lparr>latestMessageIDs := (latestMessageIDs w)(in_destinationBlockchainID inp := mid)\<rparr>"
    "sendWarpMessage E (abi_encode E msg) (outside w2) = Inr x"
    "w' = w2\<lparr>sentMessageInfo := upd2 (sentMessageInfo w2) (in_destinationBlockchainID inp) mid
           \<lparr>messageHash = keccak256 E (abi_encode E msg),
            feeInfo = \<lparr>feeTokenAddress = feeTokenAddress (in_feeInfo inp), feeAmount = adj\<rparr>\<rparr>,
         logs := logs w2 @ [LogSendCrossChainMessage (in_destinationBlockchainID inp) mid msg
           \<lparr>feeTokenAddress = feeTokenAddress (in_feeInfo inp), feeAmount = adj\<rparr>],
         outside := x\<rparr>"
  using assms
  by (auto simp: sendTeleporterMessage_def getNextMessageID_internal_def checked_add_Inr Let_def
      emit_def split: if_splits)

lemma markReceipt_Inr [inv_rules]:
  assumes "markReceipt chain mid ra w = Inr w'"
  obtains (absent) "messageHash (sentMessageInfo w chain mid) = 0" "w' = w"
  | (paid) n where "messageHash (sentMessageInfo w chain mid) \<noteq> 0"
      "checked_add
         (relayerRewardAmounts w ra (feeTokenAddress (feeInfo (sentMessageInfo w chain mid))))
         (feeAmount (feeInfo (sentMessageInfo w chain mid))) = Inr n"
      "w' = w\<lparr>sentMessageInfo := upd2 (sentMessageInfo w) chain mid zero_sentInfo,
           relayerRewardAmounts := upd2 (relayerRewardAmounts w) ra
             (feeTokenAddress (feeInfo (sentMessageInfo w chain mid))) n\<rparr>"
  using assms by (auto simp: markReceipt_def Let_def split: if_splits)

lemma handleInitialMessageExecution_Inr [inv_rules]:
  assumes "handleInitialMessageExecution E origin msg w = Inr w'"
  obtains (failed) "requiredGasLimit msg \<le> gasleft E w"
      "code_length E (destinationAddress msg) w = 0 \<or>
       (\<exists>e. call_contract E (destinationAddress msg) (requiredGasLimit msg)
         (encode_receive_call E origin (senderAddress msg) (messageBytes msg)) w = Inl e)"
      "w' = storeFailedMessageExecution E origin msg w"
  | (executed) w1 where "requiredGasLimit msg \<le> gasleft E w"
      "code_length E (destinationAddress msg) w \<noteq> 0"
      "call_contract E (destinationAddress msg) (requiredGasLimit msg)
         (encode_receive_call E origin (senderAddress msg) (messageBytes msg)) w = Inr w1"
      "w' = emit (LogMessageExecuted origin (messageID msg)) w1"
  using assms
  by (auto simp: handleInitialMessageExecution_def tryExecuteMessage_def Let_def
      split: if_splits sum.splits)

lemma sendCrossChainMessage_Inr [inv_rules]:
  assumes "sendCrossChainMessage E inp w = Inr (mid, w')"
  obtains rs q w1 where "sendEntered w = NOT_ENTERED"
    "getOutstandingReceiptsToSend (receiptQueues w (in_destinationBlockchainID inp))
       = Inr (rs, q)"
    "sendTeleporterMessage E inp rs
       (w\<lparr>sendEntered := ENTERED,
          receiptQueues := (receiptQueues w)(in_destinationBlockchainID inp := q)\<rparr>)
       = Inr (mid, w1)"
    "w' = w1\<lparr>sendEntered := NOT_ENTERED\<rparr>"
  using assms unfolding sendCrossChainMessage_def
  by (elim send_guard.Inr_elim) (auto split: prod.splits)

lemma retrySendCrossChainMessage_Inr [inv_rules]:
  assumes "retrySendCrossChainMessage E chain msg w = Inr (u, w')"
  obtains x where "sendEntered w = NOT_ENTERED"
    "messageHash (sentMessageInfo w chain (messageID msg)) \<noteq> 0"
    "keccak256 E (abi_encode E msg) = messageHash (sentMessageInfo w chain (messageID msg))"
    "sendWarpMessage E (abi_encode E msg) (outside w) = Inr x"
    "w' = w\<lparr>sendEntered := NOT_ENTERED,
         logs := logs w @ [LogSendCrossChainMessage chain (messageID msg) msg
           (feeInfo (sentMessageInfo w chain (messageID msg)))],
         outside := x\<rparr>"
  using assms unfolding retrySendCrossChainMessage_def
  by (elim send_guard.Inr_elim) (auto simp: Let_def emit_def)

lemma addFeeAmount_Inr [inv_rules]:
  assumes "addFeeAmount E chain mid token additional w = Inr (u, w')"
  obtains adj w1 n where "sendEntered w = NOT_ENTERED" "0 < additional" "token \<noteq> 0"
    "messageHash (sentMessageInfo w chain mid) \<noteq> 0"
    "feeTokenAddress (feeInfo (sentMessageInfo w chain mid)) = token"
    "safeTransferFrom E token additional (w\<lparr>sendEntered := ENTERED\<rparr>) = Inr (adj, w1)"
    "checked_add (feeAmount (feeInfo (sentMessageInfo w1 chain mid))) adj = Inr n"
    "w' = w1\<lparr>sendEntered := NOT_ENTERED,
         sentMessageInfo := upd2 (sentMessageInfo w1) chain mid
           ((sentMessageInfo w1 chain mid)\<lparr>feeInfo :=
             (feeInfo (sentMessageInfo w1 chain mid))\<lparr>feeAmount := n\<rparr>\<rparr>),
         logs := logs w1 @ [LogAddFeeAmount chain mid
           ((feeInfo (sentMessageInfo w1 chain mid))\<lparr>feeAmount := n\<rparr>)]\<rparr>"
  using assms unfolding addFeeAmount_def
  by (elim send_guard.Inr_elim) (auto simp: Let_def emit_def)

lemma sendSpecifiedReceipts_Inr [inv_rules]:
  assumes "sendSpecifiedReceipts E origin mids fee allowed w = Inr (mid, w')"
  obtains rs w1 where "sendEntered w = NOT_ENTERED"
    "collectReceipts origin mids (w\<lparr>sendEntered := ENTERED\<rparr>) = Inr rs"
    "sendTeleporterMessage E
       \<lparr>in_destinationBlockchainID = origin, in_destinationAddress = 0,
        in_feeInfo = fee, in_requiredGasLimit = 0,
        in_allowedRelayerAddresses = allowed, in_message = []\<rparr> rs
       (w\<lparr>sendEntered := ENTERED\<rparr>) = Inr (mid, w1)"
    "w' = w1\<lparr>sendEntered := NOT_ENTERED\<rparr>"
  using assms unfolding sendSpecifiedReceipts_def
  by (elim send_guard.Inr_elim) auto

lemma receiveCrossChainMessage_Inr [inv_rules]:
  assumes "receiveCrossChainMessage E idx ra w = Inr (u, w')"
  obtains wm msg chain w2 w3 w4 q where
    "receiveEntered w = NOT_ENTERED" "ra \<noteq> 0"
    "getVerifiedWarpMessage E idx (outside w) = (wm, True)"
    "originSenderAddress wm = this_address E"
    "chain = (if blockchainID w = 0 then getBlockchainID E (outside w) else blockchainID w)"
    "abi_decode E (payload wm) = Some msg"
    "destinationBlockchainID msg = chain"
    "relayerRewardAddresses w (sourceChainID wm) (messageID msg) = 0"
    "checkIsAllowedRelayer (msg_sender E) (allowedRelayerAddresses msg)"
    "w2 = w\<lparr>receiveEntered := ENTERED, blockchainID := chain,
         relayerRewardAddresses :=
           upd2 (relayerRewardAddresses w) (sourceChainID wm) (messageID msg) ra\<rparr>"
    "if messageBytes msg = [] then w3 = w2
     else handleInitialMessageExecution E (sourceChainID wm) msg w2 = Inr w3"
    "markReceipts (sourceChainID wm) (receipts msg) w3 = Inr w4"
    "enqueue (receiptQueues w4 (sourceChainID wm))
       \<lparr>receivedMessageID = messageID msg, relayerRewardAddress = ra\<rparr> = Inr q"
    "w' = w4\<lparr>receiveEntered := NOT_ENTERED,
         receiptQueues := (receiptQueues w4)(sourceChainID wm := q),
         logs := logs w4 @ [LogReceiveCrossChainMessage (sourceChainID wm) (messageID msg)
           (msg_sender E) ra msg]\<rparr>"
proof -
  obtain wm s where wm: "getVerifiedWarpMessage E idx (outside w) = (wm, s)" by fastforce
  from assms show ?thesis
    unfolding receiveCrossChainMessage_def
    apply (elim receive_guard.Inr_elim)
    apply (cases "blockchainID w = 0"; cases "abi_decode E (payload wm)";
        cases "messageBytes (the (abi_decode E (payload wm))) = []")
    apply (auto simp: wm Let_def emit_def messageReceived_internal_def intro!: that)
    done
qed

lemma retryMessageExecution_Inr [inv_rules]:
  assumes "retryMessageExecution E origin msg w = Inr (u, w')"
  obtains w2 w3 where "receiveEntered w = NOT_ENTERED"
    "receivedFailedMessageHashes w origin (messageID msg) \<noteq> 0"
    "keccak256 E (abi_encode E msg) = receivedFailedMessageHashes w origin (messageID msg)"
    "code_length E (destinationAddress msg) (w\<lparr>receiveEntered := ENTERED\<rparr>) > 0"
    "w2 = w\<lparr>receiveEntered := ENTERED,
         logs := logs w @ [LogMessageExecuted origin (messageID msg)],
         receivedFailedMessageHashes :=
           upd2 (receivedFailedMessageHashes w) origin (messageID msg) 0\<rparr>"
    "call_contract E (destinationAddress msg) (gasleft E w2)
       (encode_receive_call E origin (senderAddress msg) (messageBytes msg)) w2 = Inr w3"
    "w' = w3\<lparr>receiveEntered := NOT_ENTERED\<rparr>"
  using assms unfolding retryMessageExecution_def
  by (elim receive_guard.Inr_elim)
    (auto simp: Let_def emit_def tryExecuteMessage_def split: sum.splits)

lemma redeemRelayerRewards_Inr [inv_rules]:
  assumes "redeemRelayerRewards E token w = Inr (u, w')"
  obtains w2 where "0 < relayerRewardAmounts w (msg_sender E) token"
    "w2 = w\<lparr>relayerRewardAmounts :=
           upd2 (relayerRewardAmounts w) (msg_sender E) token 0,
         logs := logs w @ [LogRelayerRewardsRedeemed (msg_sender E) token
           (relayerRewardAmounts w (msg_sender E) token)]\<rparr>"
    "token_transfer E token (msg_sender E) (relayerRewardAmounts w (msg_sender E) token) w2
       = Inr w'"
  using assms by (auto simp: redeemRelayerRewards_def Let_def emit_def)

lemma collectReceipts_Inr:
  "collectReceipts origin mids w = Inr rs \<longleftrightarrow>
    (\<forall>m \<in> set mids. relayerRewardAddresses w origin m \<noteq> 0) \<and>
    rs = map (\<lambda>m. \<lparr>receivedMessageID = m,
      relayerRewardAddress = relayerRewardAddresses w origin m\<rparr>) mids"
  by (induction mids arbitrary: rs) (auto simp: Let_def)

text \<open>The message that \<open>sendTeleporterMessage\<close> assembles.\<close>

definition sent_message ::
  "'x env \<Rightarrow> TeleporterMessageInput \<Rightarrow> uint256 \<Rightarrow> TeleporterMessageReceipt list \<Rightarrow> TeleporterMessage"
  where
  "sent_message E inp mid rs =
     \<lparr>messageID = mid, senderAddress = msg_sender E,
      destinationBlockchainID = in_destinationBlockchainID inp,
      destinationAddress = in_destinationAddress inp,
      requiredGasLimit = in_requiredGasLimit inp,
      allowedRelayerAddresses = in_allowedRelayerAddresses inp,
      receipts = rs, messageBytes = in_message inp\<rparr>"

lemma sendTeleporterMessage_records:
  assumes "sendTeleporterMessage E inp rs w = Inr (mid, w')"
  shows "\<exists>fee. feeTokenAddress fee = feeTokenAddress (in_feeInfo inp) \<and>
    (feeAmount (in_feeInfo inp) = 0 \<longleftrightarrow> feeAmount fee = 0) \<and>
    last (logs w') = LogSendCrossChainMessage (in_destinationBlockchainID inp) mid
      (sent_message E inp mid rs) fee \<and>
    sentMessageInfo w' (in_destinationBlockchainID inp) mid =
      \<lparr>messageHash = keccak256 E (abi_encode E (sent_message E inp mid rs)), feeInfo = fee\<rparr> \<and>
    (feeAmount (in_feeInfo inp) \<noteq> 0 \<longrightarrow> (\<exists>w2.
       safeTransferFrom E (feeTokenAddress (in_feeInfo inp)) (feeAmount (in_feeInfo inp))
         (w\<lparr>latestMessageIDs := (latestMessageIDs w)(in_destinationBlockchainID inp := mid)\<rparr>)
       = Inr (feeAmount fee, w2)))"
  using assms
proof (rule sendTeleporterMessage_Inr, goal_cases)
  case (1 msg adj w2 x)
  have "(feeAmount (in_feeInfo inp) = 0) = (adj = 0)"
    using 1(4) safeTransferFrom_positive by (fastforce simp: word_neq_0_conv split: if_splits)
  moreover have "feeAmount (in_feeInfo inp) \<noteq> 0 \<longrightarrow> (\<exists>w2.
       safeTransferFrom E (feeTokenAddress (in_feeInfo inp)) (feeAmount (in_feeInfo inp))
         (w\<lparr>latestMessageIDs := (latestMessageIDs w)(in_destinationBlockchainID inp := mid)\<rparr>)
       = Inr (adj, w2))"
    using 1(4) by (auto simp: word_neq_0_conv)
  ultimately show ?case
    by (intro exI [of _ "\<lparr>feeTokenAddress = feeTokenAddress (in_feeInfo inp), feeAmount = adj\<rparr>"])
      (simp add: 1(3,6) sent_message_def)
qed

lemma collectReceipts_missing:
  "\<exists>m \<in> set mids. relayerRewardAddresses w origin m = 0 \<Longrightarrow>
    collectReceipts origin mids w = Inl (Revert ''TeleporterMessenger: receipt not found'')"
proof (induction mids)
  case (Cons a mids)
  then show ?case by (cases "relayerRewardAddresses w origin a = 0") (auto simp: Let_def)
qed simp

end
