(* ===== verification/Messenger_Reentrancy.thy ===== *)
theory Messenger_Reentrancy
  imports Messenger_Inversion
begin

section \<open>Everything that can happen to a messenger, reentrancy included\<close>

text \<open>
  \<open>interacts\<close> relates a world to every world that can follow it: other accounts act on their
  own (\<open>elsewhere\<close>), and anyone calls one of the seven state-changing functions of the
  messenger (\<open>operation\<close>), in an environment whose calls to tokens and to message recipients
  may themselves do anything that \<open>interacts\<close> allows before they return. The relation is the
  least one closed under these rules, so a call nests to any finite depth, and every operation
  may be re-entered wherever the code makes an external call.

  Three parameters restrict the environment where a theorem needs it: \<open>Out\<close> the moves of other
  accounts, \<open>Pay\<close> what a token transfer by the messenger does to the state outside, and
  \<open>Hon\<close> further assumptions on an environment, such as an honest balance query.
\<close>

datatype messenger_op =
    SendMessage TeleporterMessageInput
  | RetrySend bytes32 TeleporterMessage
  | AddFee bytes32 uint256 address uint256
  | SendReceipts bytes32 "uint256 list" TeleporterFeeInfo "address list"
  | Receive uint32 address
  | RetryExecution bytes32 TeleporterMessage
  | Redeem address

fun run_op :: "'x env \<Rightarrow> messenger_op \<Rightarrow> 'x world \<Rightarrow> sol_error + 'x world" where
  "run_op E (SendMessage inp) w = map_sum id snd (sendCrossChainMessage E inp w)"
| "run_op E (RetrySend chain msg) w = map_sum id snd (retrySendCrossChainMessage E chain msg w)"
| "run_op E (AddFee chain mid token amt) w =
     map_sum id snd (addFeeAmount E chain mid token amt w)"
| "run_op E (SendReceipts origin mids fee allowed) w =
     map_sum id snd (sendSpecifiedReceipts E origin mids fee allowed w)"
| "run_op E (Receive idx ra) w = map_sum id snd (receiveCrossChainMessage E idx ra w)"
| "run_op E (RetryExecution origin msg) w =
     map_sum id snd (retryMessageExecution E origin msg w)"
| "run_op E (Redeem token) w = map_sum id snd (redeemRelayerRewards E token w)"

lemma map_sum_snd_Inr: "map_sum id snd r = Inr w \<longleftrightarrow> (\<exists>v. r = Inr (v, w))"
  by (cases r) auto

lemma run_op_Inr [inv_rules]:
  assumes "run_op E op w = Inr w'"
  obtains (send) inp mid where "sendCrossChainMessage E inp w = Inr (mid, w')"
  | (receipts) origin mids fee allowed mid where
      "sendSpecifiedReceipts E origin mids fee allowed w = Inr (mid, w')"
  | (fee) chain mid token amt u where "addFeeAmount E chain mid token amt w = Inr (u, w')"
  | (resend) chain msg u where "retrySendCrossChainMessage E chain msg w = Inr (u, w')"
  | (receive) idx ra u where "receiveCrossChainMessage E idx ra w = Inr (u, w')"
  | (retry) origin msg u where "retryMessageExecution E origin msg w = Inr (u, w')"
  | (redeem) token u where "redeemRelayerRewards E token w = Inr (u, w')"
  using assms by (cases op) (auto simp: map_sum_snd_Inr)

text \<open>Every external call that returns leads to a world in relation \<open>R\<close>.\<close>

definition externals ::
  "('x world \<Rightarrow> 'x world \<Rightarrow> bool) \<Rightarrow> ('x \<Rightarrow> 'x \<Rightarrow> bool)
    \<Rightarrow> (address \<Rightarrow> address \<Rightarrow> uint256 \<Rightarrow> 'x \<Rightarrow> 'x \<Rightarrow> bool) \<Rightarrow> 'x env \<Rightarrow> bool" where
  "externals R Out Pay E \<longleftrightarrow>
     (\<forall>target g pl a b. call_contract E target g pl a = Inr b \<longrightarrow> R a b) \<and>
     (\<forall>t from to amt a b. token_transferFrom E t from to amt a = Inr b \<longrightarrow> R a b) \<and>
     (\<forall>t to amt a b. token_transfer E t to amt a = Inr b \<longrightarrow>
        (\<exists>x. Pay t to amt (outside a) x \<and> R (a\<lparr>outside := x\<rparr>) b)) \<and>
     (\<forall>bs x y. sendWarpMessage E bs x = Inr y \<longrightarrow> Out x y)"

lemma externalsD:
  assumes "externals R Out Pay E"
  shows "call_contract E target g pl a = Inr b \<Longrightarrow> R a b"
    and "token_transferFrom E t from to amt a = Inr b \<Longrightarrow> R a b"
    and "token_transfer E t to amt a = Inr b \<Longrightarrow>
      \<exists>x. Pay t to amt (outside a) x \<and> R (a\<lparr>outside := x\<rparr>) b"
    and "sendWarpMessage E bs x = Inr y \<Longrightarrow> Out x y"
  using assms unfolding externals_def by simp_all

lemma externals_weaken:
  assumes "\<And>a b. R a b \<Longrightarrow> S a b" and "externals R Out Pay E"
  shows "externals S Out Pay E"
  unfolding externals_def
  by (intro conjI allI impI; (drule externalsD [OF assms(2)])?)
    (auto intro: assms(1))

lemma externals_mono [mono]: "R \<le> S \<Longrightarrow> externals R Out Pay E \<longrightarrow> externals S Out Pay E"
  by (auto elim!: externals_weaken [rotated])

inductive interacts ::
  "('x \<Rightarrow> 'x \<Rightarrow> bool) \<Rightarrow> (address \<Rightarrow> address \<Rightarrow> uint256 \<Rightarrow> 'x \<Rightarrow> 'x \<Rightarrow> bool) \<Rightarrow> ('x env \<Rightarrow> bool)
    \<Rightarrow> 'x world \<Rightarrow> 'x world \<Rightarrow> bool"
  for Out :: "'x \<Rightarrow> 'x \<Rightarrow> bool"
    and Pay :: "address \<Rightarrow> address \<Rightarrow> uint256 \<Rightarrow> 'x \<Rightarrow> 'x \<Rightarrow> bool"
    and Hon :: "'x env \<Rightarrow> bool" where
  stop: "interacts Out Pay Hon w w"
| elsewhere: "Out (outside w) x \<Longrightarrow> interacts Out Pay Hon (w\<lparr>outside := x\<rparr>) w'
    \<Longrightarrow> interacts Out Pay Hon w w'"
| operation: "Hon E \<Longrightarrow> externals (interacts Out Pay Hon) Out Pay E
    \<Longrightarrow> run_op E op w = Inr w1 \<Longrightarrow> interacts Out Pay Hon w1 w'
    \<Longrightarrow> interacts Out Pay Hon w w'"

lemma interacts_trans:
  "interacts Out Pay Hon u v \<Longrightarrow> interacts Out Pay Hon v w \<Longrightarrow> interacts Out Pay Hon u w"
proof (induction rule: interacts.induct)
  case (operation E op w w1 w')
  have "externals (interacts Out Pay Hon) Out Pay E"
    using operation.IH(1) by (rule externals_weaken [rotated]) simp
  then show ?case
    using operation.hyps operation.IH operation.prems by (blast intro: interacts.operation)
qed (blast intro: interacts.intros)+

lemma interacts_op:
  "Hon E \<Longrightarrow> externals (interacts Out Pay Hon) Out Pay E \<Longrightarrow> run_op E op w = Inr w'
    \<Longrightarrow> interacts Out Pay Hon w w'"
  by (rule interacts.operation [OF _ _ _ interacts.stop])

lemma interacts_weaken:
  assumes "interacts Out Pay Hon w w'" and "\<And>E. Hon E \<Longrightarrow> Hon' E"
  shows "interacts Out Pay Hon' w w'"
  using assms(1)
proof (induction rule: interacts.induct)
  case (operation E op w w1 w')
  have "externals (interacts Out Pay Hon') Out Pay E"
    using operation.IH(1) by (rule externals_weaken [rotated]) simp
  then show ?case
    using operation.hyps operation.IH assms(2) by (blast intro: interacts.operation)
qed (blast intro: interacts.intros)+

subsection \<open>Lifting a fact about one operation to every interaction\<close>

text \<open>
  The contract between the operations and a safety relation \<open>Q\<close>: \<open>Q\<close> is reflexive and
  transitive, tolerates other accounts' moves, and holds across an operation whenever it holds
  across every external call that operation makes.
\<close>

locale call_closed =
  fixes Out :: "'x \<Rightarrow> 'x \<Rightarrow> bool"
    and Pay :: "address \<Rightarrow> address \<Rightarrow> uint256 \<Rightarrow> 'x \<Rightarrow> 'x \<Rightarrow> bool"
    and Hon :: "'x env \<Rightarrow> bool"
    and Q :: "'x world \<Rightarrow> 'x world \<Rightarrow> bool"
  assumes Q_refl: "Q w w"
    and Q_trans: "Q u v \<Longrightarrow> Q v w \<Longrightarrow> Q u w"
    and Q_out: "Out (outside w) x \<Longrightarrow> Q w (w\<lparr>outside := x\<rparr>)"
    and Q_op: "Hon E \<Longrightarrow> externals Q Out Pay E \<Longrightarrow> run_op E op w = Inr w' \<Longrightarrow> Q w w'"
begin

lemma lift: "interacts Out Pay Hon w w' \<Longrightarrow> Q w w'"
proof (induction rule: interacts.induct)
  case (stop w)
  show ?case by (rule Q_refl)
next
  case (elsewhere w x w')
  then show ?case by (blast intro: Q_trans Q_out)
next
  case (operation E op w w1 w')
  have "externals Q Out Pay E"
    using operation.IH(1) by (rule externals_weaken [rotated]) simp
  then have "Q w w1" using operation.hyps by (blast intro: Q_op)
  then show ?case using operation.IH(2) by (rule Q_trans)
qed

lemma lift_externals:
  "externals (interacts Out Pay Hon) Out Pay E \<Longrightarrow> externals Q Out Pay E"
  by (erule externals_weaken [rotated]) (rule lift)

end

end
