(* ===== verification/Messenger_Safety.thy ===== *)
theory Messenger_Safety
  imports Messenger_Reentrancy
begin

section \<open>Safety of the messenger under arbitrary reentrancy\<close>

text \<open>
  Five relations between a world and its successors, each an interpretation of
  \<open>call_closed\<close>: message IDs only grow; a delivery is never forgotten or reassigned; while the
  sender guard is held no message is added or repriced; while the receiver guard is held nothing
  about delivered messages changes; and no message is executed twice.
\<close>

subsection \<open>The steps of an operation between its external calls\<close>

lemma safeTransferFrom_steps:
  "externals Q Out Pay E \<Longrightarrow> safeTransferFrom E t a w = Inr (d, w1) \<Longrightarrow> Q w w1"
  by (auto elim!: safeTransferFrom_Inr dest: externalsD)

lemma sendTeleporterMessage_steps:
  assumes "externals Q Out Pay E" and refl: "\<And>w. Q w w"
    and "sendTeleporterMessage E inp rs w = Inr (mid, w')"
  obtains msg adj w2 x where
    "unat (latestMessageIDs w (in_destinationBlockchainID inp)) + 1 < 2 ^ 256"
    "mid = latestMessageIDs w (in_destinationBlockchainID inp) + 1"
    "Q (w\<lparr>latestMessageIDs := (latestMessageIDs w)(in_destinationBlockchainID inp := mid)\<rparr>) w2"
    "Out (outside w2) x"
    "w' = w2\<lparr>sentMessageInfo := upd2 (sentMessageInfo w2) (in_destinationBlockchainID inp) mid
           \<lparr>messageHash = keccak256 E (abi_encode E msg),
            feeInfo = \<lparr>feeTokenAddress = feeTokenAddress (in_feeInfo inp), feeAmount = adj\<rparr>\<rparr>,
         logs := logs w2 @ [LogSendCrossChainMessage (in_destinationBlockchainID inp) mid msg
           \<lparr>feeTokenAddress = feeTokenAddress (in_feeInfo inp), feeAmount = adj\<rparr>],
         outside := x\<rparr>"
  using assms(3)
proof (rule sendTeleporterMessage_Inr, goal_cases)
  case (1 msg adj w2 x)
  have "Q (w\<lparr>latestMessageIDs := (latestMessageIDs w)(in_destinationBlockchainID inp := mid)\<rparr>) w2"
    using 1(5) refl safeTransferFrom_steps [OF assms(1)] by (auto split: if_splits)
  with 1 externalsD(4) [OF assms(1)] show ?case by (intro that [of w2 x msg adj]) auto
qed

lemma handleInitialMessageExecution_steps:
  assumes "externals Q Out Pay E" and refl: "\<And>w. Q w w"
    and "handleInitialMessageExecution E origin msg w = Inr w'"
  obtains w1 where "Q w w1"
    "(w1 = w \<and> w' = storeFailedMessageExecution E origin msg w) \<or>
     w' = emit (LogMessageExecuted origin (messageID msg)) w1"
  using assms(3)
proof (cases rule: handleInitialMessageExecution_Inr)
  case failed
  then show ?thesis using refl that by blast
next
  case (executed w1)
  then show ?thesis using externalsD(1) [OF assms(1)] that by blast
qed

lemma markReceipts_Inr:
  "markReceipts chain rs w = Inr w' \<Longrightarrow>
    \<exists>S R. w' = w\<lparr>sentMessageInfo := S, relayerRewardAmounts := R\<rparr> \<and>
      (\<forall>c m. S c m = sentMessageInfo w c m \<or> S c m = zero_sentInfo)"
proof (induction rs arbitrary: w)
  case Nil
  then have "w' = w\<lparr>sentMessageInfo := sentMessageInfo w,
    relayerRewardAmounts := relayerRewardAmounts w\<rparr>" by simp
  then show ?case by blast
next
  case (Cons r rs)
  then obtain w1 where w1: "markReceipt chain (receivedMessageID r) (relayerRewardAddress r) w = Inr w1"
    and "markReceipts chain rs w1 = Inr w'" by auto
  with Cons.IH obtain S R where w': "w' = w1\<lparr>sentMessageInfo := S, relayerRewardAmounts := R\<rparr>"
    and S: "\<And>c m. S c m = sentMessageInfo w1 c m \<or> S c m = zero_sentInfo" by blast
  from w1 show ?case
  proof (cases rule: markReceipt_Inr)
    case absent
    then show ?thesis using w' S by blast
  next
    case (paid n)
    have "w' = w\<lparr>sentMessageInfo := S, relayerRewardAmounts := R\<rparr>"
      by (simp add: w' paid(3))
    moreover have "S c m = sentMessageInfo w c m \<or> S c m = zero_sentInfo" for c m
      using S [of c m] by (auto simp: paid(3) split: if_splits)
    ultimately show ?thesis by blast
  qed
qed

lemma markReceipts_frame:
  assumes "markReceipts chain rs w = Inr w'"
  shows "latestMessageIDs w' = latestMessageIDs w" "receiptQueues w' = receiptQueues w"
    "receivedFailedMessageHashes w' = receivedFailedMessageHashes w"
    "relayerRewardAddresses w' = relayerRewardAddresses w" "blockchainID w' = blockchainID w"
    "sendEntered w' = sendEntered w" "receiveEntered w' = receiveEntered w"
    "logs w' = logs w" "outside w' = outside w"
  using markReceipts_Inr [OF assms] by auto

lemma markReceipts_sent:
  "markReceipts chain rs w = Inr w' \<Longrightarrow>
    sentMessageInfo w' c m = sentMessageInfo w c m \<or> sentMessageInfo w' c m = zero_sentInfo"
  by (drule markReceipts_Inr, elim exE conjE) simp

lemmas step_frame = markReceipts_frame storeFailedMessageExecution_def emit_def

lemma receiveCrossChainMessage_steps:
  assumes "externals Q Out Pay E" and refl: "\<And>w. Q w w"
    and "receiveCrossChainMessage E idx ra w = Inr (u, w')"
  obtains origin msg chain w2 w3 w4 q where
    "receiveEntered w = NOT_ENTERED" "ra \<noteq> 0"
    "blockchainID w \<noteq> 0 \<Longrightarrow> chain = blockchainID w"
    "relayerRewardAddresses w origin (messageID msg) = 0"
    "w2 = w\<lparr>receiveEntered := ENTERED, blockchainID := chain,
         relayerRewardAddresses := upd2 (relayerRewardAddresses w) origin (messageID msg) ra\<rparr>"
    "w3 = w2 \<or> w3 = storeFailedMessageExecution E origin msg w2 \<or>
     (\<exists>v. Q w2 v \<and> w3 = emit (LogMessageExecuted origin (messageID msg)) v)"
    "markReceipts origin (receipts msg) w3 = Inr w4"
    "enqueue (receiptQueues w4 origin)
       \<lparr>receivedMessageID = messageID msg, relayerRewardAddress = ra\<rparr> = Inr q"
    "w' = w4\<lparr>receiveEntered := NOT_ENTERED,
         receiptQueues := (receiptQueues w4)(origin := q),
         logs := logs w4 @ [LogReceiveCrossChainMessage origin (messageID msg)
           (msg_sender E) ra msg]\<rparr>"
  using assms(3)
proof (rule receiveCrossChainMessage_Inr, goal_cases)
  case (1 wm msg chain w2 w3 w4 q)
  have "w3 = w2 \<or> w3 = storeFailedMessageExecution E (sourceChainID wm) msg w2 \<or>
     (\<exists>v. Q w2 v \<and> w3 = emit (LogMessageExecuted (sourceChainID wm) (messageID msg)) v)"
    using 1(12) by (auto split: if_splits elim!: handleInitialMessageExecution_steps [OF assms(1,2)])
  with 1 show ?case by (intro that [of chain "sourceChainID wm" msg w2 w3 w4 q]) auto
qed

lemma redeemRelayerRewards_steps:
  assumes "externals Q Out Pay E"
    and "redeemRelayerRewards E token w = Inr (u, w')"
  obtains x where "0 < relayerRewardAmounts w (msg_sender E) token"
    "Pay token (msg_sender E) (relayerRewardAmounts w (msg_sender E) token) (outside w) x"
    "Q (w\<lparr>relayerRewardAmounts :=
           upd2 (relayerRewardAmounts w) (msg_sender E) token 0,
         logs := logs w @ [LogRelayerRewardsRedeemed (msg_sender E) token
           (relayerRewardAmounts w (msg_sender E) token)],
         outside := x\<rparr>) w'"
  using assms(2)
  by (rule redeemRelayerRewards_Inr) (auto dest!: externalsD(3) [OF assms(1)] intro: that)

subsection \<open>Message IDs only grow\<close>

definition ids_grow :: "'x world \<Rightarrow> 'x world \<Rightarrow> bool" where
  "ids_grow w w' \<longleftrightarrow> (\<forall>c. latestMessageIDs w c \<le> latestMessageIDs w' c)"

lemma ids_grow_cong: "latestMessageIDs w' = latestMessageIDs w \<Longrightarrow> ids_grow w w'"
  by (simp add: ids_grow_def)

lemma ids_grow_trans: "ids_grow u v \<Longrightarrow> ids_grow v w \<Longrightarrow> ids_grow u w"
  unfolding ids_grow_def by (blast intro: order_trans)

lemma word_le_plus_1: "unat (a :: uint256) + 1 < 2 ^ 256 \<Longrightarrow> a \<le> a + 1"
  by (simp add: word_le_nat_alt unat_word256_plus_1)

lemma ids_grow_send:
  assumes "externals ids_grow Out Pay E" and "sendTeleporterMessage E inp rs w = Inr (mid, w')"
  shows "ids_grow w w' \<and> mid \<le> latestMessageIDs w' (in_destinationBlockchainID inp)
    \<and> latestMessageIDs w (in_destinationBlockchainID inp) < mid"
  using assms(1) ids_grow_cong [OF refl] assms(2)
proof (rule sendTeleporterMessage_steps, goal_cases)
  case (1 msg adj w2 x)
  let ?w1 = "w\<lparr>latestMessageIDs := (latestMessageIDs w)(in_destinationBlockchainID inp := mid)\<rparr>"
  have lt: "latestMessageIDs w (in_destinationBlockchainID inp) < mid"
    using 1(1,2) by (simp add: word_less_nat_alt unat_word256_plus_1)
  then have "ids_grow w ?w1" by (simp add: ids_grow_def order.strict_implies_order)
  moreover have "ids_grow w2 w'" by (rule ids_grow_cong) (simp add: 1(5))
  ultimately have "ids_grow w w'" using 1(3) by (blast intro: ids_grow_trans)
  moreover have "mid \<le> latestMessageIDs w' (in_destinationBlockchainID inp)"
    using 1(3) by (auto simp: ids_grow_def 1(5) dest: spec [of _ "in_destinationBlockchainID inp"])
  ultimately show ?case using lt by blast
qed

lemma ids_grow_op:
  assumes ext: "externals ids_grow Out Pay E" and op: "run_op E op w = Inr w'"
  shows "ids_grow w w'"
  using op
proof (cases rule: run_op_Inr)
  case send
  then show ?thesis
    by (rule sendCrossChainMessage_Inr) (auto dest!: ids_grow_send [OF ext] simp: ids_grow_def)
next
  case receipts
  then show ?thesis
    by (rule sendSpecifiedReceipts_Inr) (auto dest!: ids_grow_send [OF ext] simp: ids_grow_def)
next
  case fee
  then show ?thesis
    by (rule addFeeAmount_Inr) (auto dest!: safeTransferFrom_steps [OF ext] simp: ids_grow_def)
next
  case resend
  then show ?thesis
    by (rule retrySendCrossChainMessage_Inr) (auto simp: ids_grow_def)
next
  case receive
  then show ?thesis
    by (rule receiveCrossChainMessage_steps [OF ext ids_grow_cong [OF refl]])
      (auto simp: ids_grow_def step_frame)
next
  case retry
  then show ?thesis
    by (rule retryMessageExecution_Inr) (auto simp: ids_grow_def dest!: externalsD(1) [OF ext])
next
  case redeem
  then show ?thesis
    by (rule redeemRelayerRewards_steps [OF ext]) (auto simp: ids_grow_def)
qed

interpretation ids: call_closed Out Pay Hon ids_grow for Out Pay Hon
  by unfold_locales
    (auto intro: ids_grow_cong ids_grow_trans ids_grow_op)

subsection \<open>A delivery is never forgotten\<close>

definition deliveries_kept :: "'x world \<Rightarrow> 'x world \<Rightarrow> bool" where
  "deliveries_kept w w' \<longleftrightarrow>
     (\<forall>c m. relayerRewardAddresses w c m \<noteq> 0 \<longrightarrow>
        relayerRewardAddresses w' c m = relayerRewardAddresses w c m) \<and>
     (blockchainID w \<noteq> 0 \<longrightarrow> blockchainID w' = blockchainID w)"

lemma deliveries_kept_cong:
  "relayerRewardAddresses w' = relayerRewardAddresses w \<Longrightarrow> blockchainID w' = blockchainID w
    \<Longrightarrow> deliveries_kept w w'"
  by (simp add: deliveries_kept_def)

lemma deliveries_kept_trans:
  "deliveries_kept u v \<Longrightarrow> deliveries_kept v w \<Longrightarrow> deliveries_kept u w"
  unfolding deliveries_kept_def by (metis (no_types, lifting))

lemma deliveries_kept_send:
  assumes "externals deliveries_kept Out Pay E"
    and "sendTeleporterMessage E inp rs w = Inr (mid, w')"
  shows "deliveries_kept w w'"
  using assms(1) deliveries_kept_cong [OF refl refl] assms(2)
  by (rule sendTeleporterMessage_steps) (auto simp: deliveries_kept_def)

lemma deliveries_kept_op:
  assumes ext: "externals deliveries_kept Out Pay E" and op: "run_op E op w = Inr w'"
  shows "deliveries_kept w w'"
  using op
proof (cases rule: run_op_Inr)
  case send
  then show ?thesis
    by (rule sendCrossChainMessage_Inr) (auto dest!: deliveries_kept_send [OF ext] simp: deliveries_kept_def)
next
  case receipts
  then show ?thesis
    by (rule sendSpecifiedReceipts_Inr) (auto dest!: deliveries_kept_send [OF ext] simp: deliveries_kept_def)
next
  case fee
  then show ?thesis
    by (rule addFeeAmount_Inr) (auto dest!: safeTransferFrom_steps [OF ext] simp: deliveries_kept_def)
next
  case resend
  then show ?thesis
    by (rule retrySendCrossChainMessage_Inr) (auto simp: deliveries_kept_def)
next
  case receive
  then show ?thesis
  proof (rule receiveCrossChainMessage_steps [OF ext deliveries_kept_cong [OF refl refl]], goal_cases)
    case (1 origin msg chain w2 w3 w4 q)
    have "deliveries_kept w w2" using 1(3,4,5) by (auto simp: deliveries_kept_def)
    moreover have "deliveries_kept w2 w3"
      using 1(6) by (auto simp: deliveries_kept_def step_frame)
    moreover have "deliveries_kept w3 w'"
      using 1(7) by (auto simp: 1(9) step_frame intro!: deliveries_kept_cong)
    ultimately show ?case by (blast intro: deliveries_kept_trans)
  qed
next
  case retry
  then show ?thesis
    by (rule retryMessageExecution_Inr) (auto simp: deliveries_kept_def dest!: externalsD(1) [OF ext])
next
  case redeem
  then show ?thesis
    by (rule redeemRelayerRewards_steps [OF ext]) (auto simp: deliveries_kept_def)
qed

interpretation deliveries: call_closed Out Pay Hon deliveries_kept for Out Pay Hon
  by unfold_locales
    (auto intro: deliveries_kept_cong deliveries_kept_trans deliveries_kept_op)

lemma deliveries_kept_receive_sets:
  assumes "externals deliveries_kept Out Pay E"
    and "receiveCrossChainMessage E idx ra w = Inr (u, w')"
    and "getVerifiedWarpMessage E idx (outside w) = (wm, True)"
    and "abi_decode E (payload wm) = Some msg"
  shows "ra \<noteq> 0 \<and> relayerRewardAddresses w' (sourceChainID wm) (messageID msg) = ra"
  using assms(2)
proof (rule receiveCrossChainMessage_Inr, goal_cases)
  case (1 wm' msg' chain w2 w3 w4 q)
  have eq: "wm' = wm" "msg' = msg" using 1(3,6) assms(3,4) by auto
  have "deliveries_kept w2 w3"
    using 1(11) by (auto split: if_splits simp: eq step_frame deliveries_kept_def
      elim!: handleInitialMessageExecution_Inr dest!: externalsD(1) [OF assms(1)])
  then have "relayerRewardAddresses w3 (sourceChainID wm) (messageID msg) = ra"
    using 1(2,10) by (simp add: deliveries_kept_def eq)
  then show ?case using 1(2) by (simp add: 1(14) markReceipts_frame [OF 1(12)])
qed

lemma ids_grow_sendCross:
  assumes "externals ids_grow Out Pay E" and "sendCrossChainMessage E inp w = Inr (mid, w')"
  shows "latestMessageIDs w (in_destinationBlockchainID inp) < mid \<and>
    mid \<le> latestMessageIDs w' (in_destinationBlockchainID inp)"
  using assms(2) by (rule sendCrossChainMessage_Inr) (auto dest!: ids_grow_send [OF assms(1)])

text \<open>Receipts for messages without an entry are ignored; processed ones have none left.\<close>

lemma markReceipts_absent:
  "(\<forall>r \<in> set rs. messageHash (sentMessageInfo w c (receivedMessageID r)) = 0) \<Longrightarrow>
    markReceipts c rs w = Inr w"
  by (induction rs) (simp_all add: markReceipt_def)

lemma markReceipts_clears:
  "markReceipts c rs w = Inr w' \<Longrightarrow> r \<in> set rs \<Longrightarrow>
    messageHash (sentMessageInfo w' c (receivedMessageID r)) = 0"
proof (induction rs arbitrary: w)
  case Nil
  then show ?case by simp
next
  case (Cons s rs)
  then obtain w1 where w1: "markReceipt c (receivedMessageID s) (relayerRewardAddress s) w = Inr w1"
    "markReceipts c rs w1 = Inr w'" by auto
  have "messageHash (sentMessageInfo w1 c (receivedMessageID s)) = 0"
    using w1(1) by (rule markReceipt_Inr) (simp_all add: zero_sentInfo_def)
  moreover have "sentMessageInfo w' c m = sentMessageInfo w1 c m \<or>
      sentMessageInfo w' c m = zero_sentInfo" for m
    using w1(2) by (rule markReceipts_sent)
  ultimately have "messageHash (sentMessageInfo w' c (receivedMessageID s)) = 0"
    by (metis SentMessageInfo.select_convs(1) zero_sentInfo_def)
  with Cons w1(2) show ?case by auto
qed

end
