(* ===== verification/Messenger_Locks.thy ===== *)
theory Messenger_Locks
  imports Messenger_Safety
begin

section \<open>What the two guards protect\<close>

text \<open>
  While the sender guard is held, no reentrant call can send a message, change a fee or release
  the guard: a stored message stays as it is or is deleted by its receipt. While the receiver
  guard is held, no reentrant call can deliver or retry a message. The second fact is what makes
  a message execute at most once.
\<close>

subsection \<open>Under the sender guard\<close>

definition sent_shrinks ::
  "(bytes32 \<Rightarrow> uint256 \<Rightarrow> SentMessageInfo) \<Rightarrow> (bytes32 \<Rightarrow> uint256 \<Rightarrow> SentMessageInfo) \<Rightarrow> bool" where
  "sent_shrinks f g \<longleftrightarrow> (\<forall>c m. g c m = f c m \<or> g c m = zero_sentInfo)"

lemma sent_shrinks_refl [simp]: "sent_shrinks f f"
  by (simp add: sent_shrinks_def)

lemma sent_shrinks_trans [trans]: "sent_shrinks f g \<Longrightarrow> sent_shrinks g h \<Longrightarrow> sent_shrinks f h"
  unfolding sent_shrinks_def by metis

definition sender_locked :: "'x world \<Rightarrow> 'x world \<Rightarrow> bool" where
  "sender_locked w w' \<longleftrightarrow> (sendEntered w = ENTERED \<longrightarrow>
     sendEntered w' = ENTERED \<and>
     latestMessageIDs w' = latestMessageIDs w \<and>
     sent_shrinks (sentMessageInfo w) (sentMessageInfo w'))"

lemma sender_locked_cong:
  "sendEntered w' = sendEntered w \<Longrightarrow> latestMessageIDs w' = latestMessageIDs w
    \<Longrightarrow> sentMessageInfo w' = sentMessageInfo w \<Longrightarrow> sender_locked w w'"
  by (simp add: sender_locked_def)

lemma sender_locked_trans: "sender_locked u v \<Longrightarrow> sender_locked v w \<Longrightarrow> sender_locked u w"
  by (auto simp: sender_locked_def intro: sent_shrinks_trans)

lemma sender_locked_open: "sendEntered w = NOT_ENTERED \<Longrightarrow> sender_locked w w'"
  by (simp add: sender_locked_def)

lemma sender_locked_markReceipts:
  "markReceipts c rs w = Inr w' \<Longrightarrow> sender_locked w w'"
  by (simp add: sender_locked_def markReceipts_frame sent_shrinks_def markReceipts_sent)

lemma sender_locked_op:
  assumes ext: "externals sender_locked Out Pay E" and op: "run_op E op w = Inr w'"
  shows "sender_locked w w'"
  using op
proof (cases rule: run_op_Inr)
  case send
  then show ?thesis by (rule sendCrossChainMessage_Inr) (rule sender_locked_open)
next
  case receipts
  then show ?thesis by (rule sendSpecifiedReceipts_Inr) (rule sender_locked_open)
next
  case fee
  then show ?thesis by (rule addFeeAmount_Inr) (rule sender_locked_open)
next
  case resend
  then show ?thesis by (rule retrySendCrossChainMessage_Inr) (rule sender_locked_open)
next
  case receive
  then show ?thesis
  proof (rule receiveCrossChainMessage_steps [OF ext sender_locked_cong [OF refl refl refl]], goal_cases)
    case (1 origin msg chain w2 w3 w4 q)
    have "sender_locked w w2" by (rule sender_locked_cong) (simp_all add: 1(5))
    moreover have "sender_locked w2 w3"
      using 1(6) by (auto simp: sender_locked_def step_frame)
    moreover have "sender_locked w3 w4" using 1(7) by (rule sender_locked_markReceipts)
    moreover have "sender_locked w4 w'" by (rule sender_locked_cong) (simp_all add: 1(9))
    ultimately show ?case by (blast intro: sender_locked_trans)
  qed
next
  case retry
  then show ?thesis
    by (rule retryMessageExecution_Inr)
      (auto simp: sender_locked_def dest!: externalsD(1) [OF ext])
next
  case redeem
  then show ?thesis
    by (rule redeemRelayerRewards_steps [OF ext]) (auto simp: sender_locked_def)
qed

interpretation slock: call_closed Out Pay Hon sender_locked for Out Pay Hon
  by unfold_locales (auto intro: sender_locked_cong sender_locked_trans sender_locked_op)

subsection \<open>Under the receiver guard\<close>

definition executions :: "'x world \<Rightarrow> bytes32 \<Rightarrow> uint256 \<Rightarrow> nat" where
  "executions w = (\<lambda>c m. count_list (logs w) (LogMessageExecuted c m))"

definition receiver_locked :: "'x world \<Rightarrow> 'x world \<Rightarrow> bool" where
  "receiver_locked w w' \<longleftrightarrow> (receiveEntered w = ENTERED \<longrightarrow>
     receiveEntered w' = ENTERED \<and>
     blockchainID w' = blockchainID w \<and>
     relayerRewardAddresses w' = relayerRewardAddresses w \<and>
     receivedFailedMessageHashes w' = receivedFailedMessageHashes w \<and>
     executions w' = executions w)"

lemma executions_cong: "logs w' = logs w \<Longrightarrow> executions w' = executions w"
  by (simp add: executions_def)

lemma executions_snoc:
  "logs w' = logs w @ [e] \<Longrightarrow>
    executions w' c m = executions w c m + (if e = LogMessageExecuted c m then 1 else 0)"
  by (simp add: executions_def)

lemma executions_snoc_other:
  "logs w' = logs w @ [e] \<Longrightarrow> (\<And>c m. e \<noteq> LogMessageExecuted c m) \<Longrightarrow>
    executions w' = executions w"
  by (simp add: executions_def)

lemma receiver_locked_cong:
  "receiveEntered w' = receiveEntered w \<Longrightarrow> blockchainID w' = blockchainID w
    \<Longrightarrow> relayerRewardAddresses w' = relayerRewardAddresses w
    \<Longrightarrow> receivedFailedMessageHashes w' = receivedFailedMessageHashes w
    \<Longrightarrow> executions w' = executions w \<Longrightarrow> receiver_locked w w'"
  by (simp add: receiver_locked_def)

lemma receiver_locked_trans:
  "receiver_locked u v \<Longrightarrow> receiver_locked v w \<Longrightarrow> receiver_locked u w"
  by (simp add: receiver_locked_def)

lemma receiver_locked_open: "receiveEntered w = NOT_ENTERED \<Longrightarrow> receiver_locked w w'"
  by (simp add: receiver_locked_def)

lemma receiver_locked_refl: "receiver_locked w w"
  by (rule receiver_locked_cong) simp_all

lemma receiver_locked_send:
  assumes "externals receiver_locked Out Pay E"
    and "sendTeleporterMessage E inp rs w = Inr (mid, w')"
  shows "receiver_locked w w'"
  using assms(1) receiver_locked_refl assms(2)
proof (rule sendTeleporterMessage_steps, goal_cases)
  case (1 msg adj w2 x)
  have "receiver_locked w
    (w\<lparr>latestMessageIDs := (latestMessageIDs w)(in_destinationBlockchainID inp := mid)\<rparr>)"
    by (rule receiver_locked_cong) (simp_all add: executions_def)
  moreover have "receiver_locked w2 w'"
    by (rule receiver_locked_cong)
      (simp_all add: 1(5) executions_snoc_other [where w = w2])
  ultimately show ?case using 1(3) by (blast intro: receiver_locked_trans)
qed

text \<open>Reading and writing the sender guard and the queues is invisible to the receiver side.\<close>

lemma receiver_locked_bracket:
  assumes "receiver_locked (w\<lparr>sendEntered := a, receiptQueues := q\<rparr>) w1"
  shows "receiver_locked w (w1\<lparr>sendEntered := b\<rparr>)"
  using assms by (simp add: receiver_locked_def executions_def)

lemma receiver_locked_op:
  assumes ext: "externals receiver_locked Out Pay E" and op: "run_op E op w = Inr w'"
  shows "receiver_locked w w'"
  using op
proof (cases rule: run_op_Inr)
  case send
  then show ?thesis
    by (rule sendCrossChainMessage_Inr)
      (auto dest!: receiver_locked_send [OF ext] intro: receiver_locked_bracket)
next
  case receipts
  then show ?thesis
    by (rule sendSpecifiedReceipts_Inr)
      (auto dest!: receiver_locked_send [OF ext] simp: receiver_locked_def executions_def)
next
  case fee
  then show ?thesis
    by (rule addFeeAmount_Inr)
      (auto dest!: safeTransferFrom_steps [OF ext] simp: receiver_locked_def executions_def)
next
  case resend
  then show ?thesis
    by (rule retrySendCrossChainMessage_Inr)
      (auto simp: receiver_locked_def executions_def)
next
  case receive
  then show ?thesis
    by (rule receiveCrossChainMessage_Inr) (rule receiver_locked_open)
next
  case retry
  then show ?thesis by (rule retryMessageExecution_Inr) (rule receiver_locked_open)
next
  case redeem
  then show ?thesis
    by (rule redeemRelayerRewards_steps [OF ext])
      (auto simp: receiver_locked_def executions_def)
qed

lemma receiver_locked_outside: "receiver_locked w (w\<lparr>outside := x\<rparr>)"
  by (rule receiver_locked_cong) (simp_all add: executions_def)

interpretation rlock: call_closed Out Pay Hon receiver_locked for Out Pay Hon
  by unfold_locales
    (blast intro: receiver_locked_refl receiver_locked_trans receiver_locked_op
      receiver_locked_outside)+

end
