(* ===== verification/Messenger_Execution.thy ===== *)
theory Messenger_Execution
  imports Messenger_Locks
begin

section \<open>A message executes at most once\<close>

text \<open>
  The invariant \<open>exec_inv\<close> ties the event log to the storage: a message has at most one
  \<open>MessageExecuted\<close> event; a message that waits for a retry has none and has been delivered; a
  message that was never delivered has none. Every operation keeps it, reentrancy included,
  because the receiver guard freezes all of it during the call to the recipient.
\<close>

definition exec_inv :: "'x world \<Rightarrow> bool" where
  "exec_inv w \<longleftrightarrow> (\<forall>c m.
     executions w c m \<le> 1 \<and>
     (receivedFailedMessageHashes w c m \<noteq> 0 \<longrightarrow>
        executions w c m = 0 \<and> relayerRewardAddresses w c m \<noteq> 0) \<and>
     (relayerRewardAddresses w c m = 0 \<longrightarrow> executions w c m = 0))"

definition exec_safe :: "'x world \<Rightarrow> 'x world \<Rightarrow> bool" where
  "exec_safe w w' \<longleftrightarrow> receiver_locked w w' \<and> (exec_inv w \<longrightarrow> exec_inv w')"

lemma exec_inv_cong:
  "executions w' = executions w \<Longrightarrow>
    receivedFailedMessageHashes w' = receivedFailedMessageHashes w \<Longrightarrow>
    relayerRewardAddresses w' = relayerRewardAddresses w \<Longrightarrow> exec_inv w' = exec_inv w"
  by (simp add: exec_inv_def)

lemma exec_inv_transfer:
  "exec_inv w \<Longrightarrow> executions w' = executions w \<Longrightarrow>
    receivedFailedMessageHashes w' = receivedFailedMessageHashes w \<Longrightarrow>
    relayerRewardAddresses w' = relayerRewardAddresses w \<Longrightarrow> exec_inv w'"
  using exec_inv_cong by blast

lemma exec_inv_deployed: "exec_inv (deployed x)"
  by (simp add: exec_inv_def executions_def deployed_def guards_constructor_def)

lemma exec_safe_refl: "exec_safe w w"
  by (simp add: exec_safe_def receiver_locked_refl)

lemma exec_safe_trans: "exec_safe u v \<Longrightarrow> exec_safe v w \<Longrightarrow> exec_safe u w"
  by (auto simp: exec_safe_def intro: receiver_locked_trans)

lemma exec_safe_externals:
  "externals exec_safe Out Pay E \<Longrightarrow> externals receiver_locked Out Pay E"
  by (erule externals_weaken [rotated]) (simp add: exec_safe_def)

lemma exec_safe_D: "exec_safe w w' \<Longrightarrow> exec_inv w \<Longrightarrow> exec_inv w'"
  by (simp add: exec_safe_def)

lemma exec_inv_send:
  assumes "externals exec_safe Out Pay E" and "sendTeleporterMessage E inp rs w = Inr (mid, w')"
    and "exec_inv w"
  shows "exec_inv w'"
  using assms(1) exec_safe_refl assms(2)
proof (rule sendTeleporterMessage_steps, goal_cases)
  case (1 msg adj w2 x)
  have "exec_inv (w\<lparr>latestMessageIDs := (latestMessageIDs w)(in_destinationBlockchainID inp := mid)\<rparr>)"
    by (rule exec_inv_transfer [OF assms(3)]) (simp_all add: executions_def)
  then have "exec_inv w2" using exec_safe_D [OF 1(3)] by simp
  then show ?case by (rule exec_inv_transfer) (simp_all add: 1(5) executions_def)
qed

lemma exec_inv_markReceipts:
  assumes "markReceipts c rs w = Inr w'" shows "exec_inv w' = exec_inv w"
  by (rule exec_inv_cong) (simp_all add: markReceipts_frame [OF assms] executions_def)

lemma exec_inv_delivered:
  "exec_inv w \<Longrightarrow> relayerRewardAddresses w c m = 0 \<Longrightarrow> ra \<noteq> 0 \<Longrightarrow>
    exec_inv (w\<lparr>relayerRewardAddresses := upd2 (relayerRewardAddresses w) c m ra\<rparr>)"
  by (auto simp: exec_inv_def executions_def)

text \<open>Executing a message that has no execution yet, no failure recorded, and is delivered.\<close>

lemma exec_inv_execute:
  assumes "exec_inv w" and "executions w c m = 0"
    and "receivedFailedMessageHashes w c m = 0" and "relayerRewardAddresses w c m \<noteq> 0"
  shows "exec_inv (w\<lparr>logs := logs w @ [LogMessageExecuted c m]\<rparr>)"
  using assms by (auto simp: exec_inv_def executions_def)

lemma exec_inv_fail:
  assumes "exec_inv w" and "executions w c m = 0" and "relayerRewardAddresses w c m \<noteq> 0"
  shows "exec_inv (w\<lparr>receivedFailedMessageHashes := upd2 (receivedFailedMessageHashes w) c m h\<rparr>)"
  using assms by (auto simp: exec_inv_def executions_def)

lemma exec_inv_retry:
  assumes "exec_inv w" and "receivedFailedMessageHashes w c m \<noteq> 0"
  shows "exec_inv (w\<lparr>logs := logs w @ [LogMessageExecuted c m],
      receivedFailedMessageHashes := upd2 (receivedFailedMessageHashes w) c m 0\<rparr>)"
  using assms by (auto simp: exec_inv_def executions_def)

lemma exec_inv_receive:
  assumes ext: "externals exec_safe Out Pay E"
    and rc: "receiveCrossChainMessage E idx ra w = Inr (u, w')" and inv: "exec_inv w"
  shows "exec_inv w'"
  using ext exec_safe_refl rc
proof (rule receiveCrossChainMessage_steps, goal_cases)
  case (1 origin msg chain w2 w3 w4 q)
  let ?m = "messageID msg"
  have inv2: "exec_inv w2"
    using exec_inv_delivered [OF inv 1(4,2)]
    by (rule exec_inv_transfer) (simp_all add: 1(5) executions_def)
  have fresh: "executions w origin ?m = 0" "receivedFailedMessageHashes w origin ?m = 0"
    using inv 1(4) by (auto simp: exec_inv_def)
  then have fresh2: "executions w2 origin ?m = 0" "receivedFailedMessageHashes w2 origin ?m = 0"
      "relayerRewardAddresses w2 origin ?m \<noteq> 0" "receiveEntered w2 = ENTERED"
    using 1(2) by (simp_all add: 1(5) executions_def)
  have "exec_inv w3"
    using 1(6)
  proof (elim disjE exE conjE)
    assume "w3 = w2" then show ?thesis using inv2 by simp
  next
    assume "w3 = storeFailedMessageExecution E origin msg w2"
    then show ?thesis
      using exec_inv_fail [OF inv2 fresh2(1,3), of "keccak256 E (abi_encode E msg)"]
      by (elim exec_inv_transfer) (simp_all add: storeFailedMessageExecution_def emit_def executions_def)
  next
    fix v assume v: "exec_safe w2 v" "w3 = emit (LogMessageExecuted origin ?m) v"
    then have "receiver_locked w2 v" and "exec_inv v"
      using inv2 by (auto simp: exec_safe_def)
    then show ?thesis
      using fresh2 by (simp add: v(2) emit_def receiver_locked_def exec_inv_execute)
  qed
  then have "exec_inv w4" using exec_inv_markReceipts [OF 1(7)] by simp
  then show ?case by (rule exec_inv_transfer) (simp_all add: 1(9) executions_def)
qed

lemma exec_safe_op:
  assumes ext: "externals exec_safe Out Pay E" and op: "run_op E op w = Inr w'"
  shows "exec_safe w w'"
  unfolding exec_safe_def
proof (intro conjI impI)
  show "receiver_locked w w'"
    using exec_safe_externals [OF ext] op by (rule receiver_locked_op)
  assume inv: "exec_inv w"
  show "exec_inv w'"
    using op
  proof (cases rule: run_op_Inr)
    case send
    then show ?thesis
    proof (rule sendCrossChainMessage_Inr, goal_cases)
      case (1 rs q w1)
      have "exec_inv w1"
        by (rule exec_inv_send [OF ext 1(3)], rule exec_inv_transfer [OF inv])
          (simp_all add: executions_def)
      then show ?case by (rule exec_inv_transfer) (simp_all add: 1(4) executions_def)
    qed
  next
    case receipts
    then show ?thesis
    proof (rule sendSpecifiedReceipts_Inr, goal_cases)
      case (1 rs w1)
      have "exec_inv w1"
        by (rule exec_inv_send [OF ext 1(3)], rule exec_inv_transfer [OF inv])
          (simp_all add: executions_def)
      then show ?case by (rule exec_inv_transfer) (simp_all add: 1(4) executions_def)
    qed
  next
    case fee
    then show ?thesis
    proof (rule addFeeAmount_Inr, goal_cases)
      case (1 adj w1 n)
      have "exec_inv w1"
        by (rule exec_safe_D [OF safeTransferFrom_steps [OF ext 1(6)]],
            rule exec_inv_transfer [OF inv]) (simp_all add: executions_def)
      then show ?case by (rule exec_inv_transfer) (simp_all add: 1(8) executions_def)
    qed
  next
    case resend
    then show ?thesis
      by (rule retrySendCrossChainMessage_Inr)
        (rule exec_inv_transfer [OF inv], simp_all add: executions_def)
  next
    case receive
    then show ?thesis using inv by (rule exec_inv_receive [OF ext])
  next
    case retry
    then show ?thesis
    proof (rule retryMessageExecution_Inr, goal_cases)
      case (1 w2 w3)
      have "exec_inv w2" using exec_inv_retry [OF inv 1(2)]
        by (rule exec_inv_transfer) (simp_all add: 1(5) executions_def)
      then have "exec_inv w3" using externalsD(1) [OF ext 1(6)] exec_safe_D by blast
      then show ?case by (rule exec_inv_transfer) (simp_all add: 1(7) executions_def)
    qed
  next
    case redeem
    then show ?thesis
    proof (rule redeemRelayerRewards_steps [OF ext], goal_cases)
      case (1 x)
      show ?case
        by (rule exec_safe_D [OF 1(3)], rule exec_inv_transfer [OF inv])
          (simp_all add: executions_def)
    qed
  qed
qed

lemma exec_safe_outside: "exec_safe w (w\<lparr>outside := x\<rparr>)"
  by (auto simp: exec_safe_def receiver_locked_outside executions_def intro: exec_inv_transfer)

interpretation exec: call_closed Out Pay Hon exec_safe for Out Pay Hon
  by unfold_locales (blast intro: exec_safe_refl exec_safe_trans exec_safe_op exec_safe_outside)+

end
