(* ===== verification/Messenger_Solvency.thy ===== *)
theory Messenger_Solvency
  imports Messenger_Locks
begin

section \<open>The messenger can always pay what it owes\<close>

text \<open>
  For one token \<open>T\<close>, what the messenger owes is the fees of its unacknowledged messages plus
  the rewards it has credited. If \<open>T\<close> reports the messenger's balance truthfully, takes exactly
  the transferred amount from it when the messenger pays, and nobody else can take from it, then
  the messenger owes no more of \<open>T\<close> than it holds, whatever the token, the recipients and the
  other callers do in between. The sender guard is what makes the balance difference around a
  transfer count each token once.
\<close>

subsection \<open>Liabilities\<close>

definition fee_of :: "address \<Rightarrow> SentMessageInfo \<Rightarrow> nat" where
  "fee_of T info =
     (if feeTokenAddress (feeInfo info) = T then unat (feeAmount (feeInfo info)) else 0)"

definition fee_table :: "address \<Rightarrow> 'x world \<Rightarrow> bytes32 \<times> uint256 \<Rightarrow> nat" where
  "fee_table T w = (\<lambda>(c, m). fee_of T (sentMessageInfo w c m))"

definition reward_table :: "address \<Rightarrow> 'x world \<Rightarrow> address \<Rightarrow> nat" where
  "reward_table T w = (\<lambda>r. unat (relayerRewardAmounts w r T))"

definition liabilities :: "address \<Rightarrow> 'x world \<Rightarrow> nat" where
  "liabilities T w = total (fee_table T w) + total (reward_table T w)"

definition finite_tables :: "address \<Rightarrow> 'x world \<Rightarrow> bool" where
  "finite_tables T w \<longleftrightarrow> finite (support (fee_table T w)) \<and> finite (support (reward_table T w))"

lemma fee_of_zero [simp]: "fee_of T zero_sentInfo = 0"
  by (simp add: fee_of_def zero_sentInfo_def zero_feeInfo_def)

lemma tables_cong:
  assumes "sentMessageInfo w' = sentMessageInfo w"
    and "relayerRewardAmounts w' = relayerRewardAmounts w"
  shows "fee_table T w' = fee_table T w" "reward_table T w' = reward_table T w"
    "liabilities T w' = liabilities T w" "finite_tables T w' = finite_tables T w"
  using assms by (simp_all add: fee_table_def reward_table_def liabilities_def finite_tables_def)

lemma fee_table_upd:
  "sentMessageInfo w' = upd2 (sentMessageInfo w) c m info \<Longrightarrow>
    fee_table T w' = (fee_table T w)((c, m) := fee_of T info)"
  by (auto simp: fee_table_def)

lemma reward_table_upd:
  "relayerRewardAmounts w' = upd2 (relayerRewardAmounts w) r t n \<Longrightarrow>
    reward_table T w' = (if t = T then (reward_table T w)(r := unat n) else reward_table T w)"
  by (auto simp: reward_table_def)

lemma liabilities_deployed: "liabilities T (deployed x) = 0 \<and> finite_tables T (deployed x)"
proof -
  have "fee_table T (deployed x) = (\<lambda>_. 0)"
    by (auto simp: fee_table_def deployed_def guards_constructor_def)
  moreover have "reward_table T (deployed x) = (\<lambda>_. 0)"
    by (auto simp: reward_table_def deployed_def guards_constructor_def)
  ultimately show ?thesis by (simp add: liabilities_def finite_tables_def)
qed

text \<open>Writing one fee entry changes the liabilities by the difference of that entry.\<close>

lemma liabilities_set_fee:
  assumes "finite_tables T w"
    and "sentMessageInfo w' = upd2 (sentMessageInfo w) c m info"
    and "relayerRewardAmounts w' = relayerRewardAmounts w"
  shows "finite_tables T w'"
    and "liabilities T w' + fee_of T (sentMessageInfo w c m) = liabilities T w + fee_of T info"
proof -
  have ft: "fee_table T w' = (fee_table T w)((c, m) := fee_of T info)"
    using assms(2) by (rule fee_table_upd)
  have rt: "reward_table T w' = reward_table T w" by (simp add: reward_table_def assms(3))
  have fin: "finite (support (fee_table T w))" using assms(1) by (simp add: finite_tables_def)
  show "finite_tables T w'"
    using assms(1) by (simp add: finite_tables_def ft rt finite_support_upd)
  have "fee_table T w (c, m) = fee_of T (sentMessageInfo w c m)" by (simp add: fee_table_def)
  with total_upd [OF fin, of "(c, m)" "fee_of T info"]
  show "liabilities T w' + fee_of T (sentMessageInfo w c m) = liabilities T w + fee_of T info"
    by (simp add: liabilities_def ft rt)
qed

lemma liabilities_set_reward:
  assumes "finite_tables T w"
    and "relayerRewardAmounts w' = upd2 (relayerRewardAmounts w) r t n"
    and "sentMessageInfo w' = sentMessageInfo w"
  shows "finite_tables T w'"
    and "liabilities T w' + (if t = T then unat (relayerRewardAmounts w r T) else 0)
      = liabilities T w + (if t = T then unat n else 0)"
proof -
  have rt: "reward_table T w' = (if t = T then (reward_table T w)(r := unat n) else reward_table T w)"
    using assms(2) by (rule reward_table_upd)
  have ft: "fee_table T w' = fee_table T w" by (simp add: fee_table_def assms(3))
  have fin: "finite (support (reward_table T w))" using assms(1) by (simp add: finite_tables_def)
  show "finite_tables T w'"
    using assms(1) by (simp add: finite_tables_def ft rt finite_support_upd)
  have "reward_table T w r = unat (relayerRewardAmounts w r T)" by (simp add: reward_table_def)
  with total_upd [OF fin, of r "unat n"]
  show "liabilities T w' + (if t = T then unat (relayerRewardAmounts w r T) else 0)
      = liabilities T w + (if t = T then unat n else 0)"
    by (simp add: liabilities_def ft rt)
qed

text \<open>A receipt turns the fee of its message into a reward: the sum does not change.\<close>

lemma markReceipt_liabilities:
  assumes "finite_tables T w" and "markReceipt c m ra w = Inr w'"
  shows "finite_tables T w' \<and> liabilities T w' = liabilities T w"
  using assms(2)
proof (cases rule: markReceipt_Inr)
  case absent
  then show ?thesis using assms(1) by simp
next
  case (paid n)
  let ?info = "sentMessageInfo w c m"
  let ?t = "feeTokenAddress (feeInfo ?info)"
  define v where "v = w\<lparr>sentMessageInfo := upd2 (sentMessageInfo w) c m zero_sentInfo\<rparr>"
  have v: "finite_tables T v" "liabilities T v + fee_of T ?info = liabilities T w"
    using liabilities_set_fee [OF assms(1), of v c m zero_sentInfo] by (simp_all add: v_def)
  have w': "relayerRewardAmounts w' = upd2 (relayerRewardAmounts v) ra ?t n"
    "sentMessageInfo w' = sentMessageInfo v"
    by (simp_all add: v_def paid(3))
  have n: "unat n = unat (relayerRewardAmounts v ra ?t) + unat (feeAmount (feeInfo ?info))"
    using checked_add_unat [OF paid(2)] by (simp add: v_def)
  show ?thesis
    using v n liabilities_set_reward [OF v(1) w'] by (auto simp: fee_of_def split: if_splits)
qed

lemma markReceipts_liabilities:
  "finite_tables T w \<Longrightarrow> markReceipts c rs w = Inr w' \<Longrightarrow>
    finite_tables T w' \<and> liabilities T w' = liabilities T w"
proof (induction rs arbitrary: w)
  case Nil
  then show ?case by simp
next
  case (Cons r rs)
  then show ?case using markReceipt_liabilities by fastforce
qed

subsection \<open>An honest token\<close>

text \<open>
  \<open>led x\<close> is the messenger's balance of \<open>T\<close> in the state \<open>x\<close> of the other accounts.
\<close>

definition keeps_balance :: "('x \<Rightarrow> nat) \<Rightarrow> 'x \<Rightarrow> 'x \<Rightarrow> bool" where
  "keeps_balance led x y \<longleftrightarrow> led x \<le> led y"

definition pays_exactly ::
  "address \<Rightarrow> ('x \<Rightarrow> nat) \<Rightarrow> address \<Rightarrow> address \<Rightarrow> uint256 \<Rightarrow> 'x \<Rightarrow> 'x \<Rightarrow> bool" where
  "pays_exactly T led t to amt x y \<longleftrightarrow>
     led x \<le> led y + (if t = T then unat amt else 0)"

definition reports_balance :: "address \<Rightarrow> ('x \<Rightarrow> nat) \<Rightarrow> 'x env \<Rightarrow> bool" where
  "reports_balance T led E \<longleftrightarrow>
     (\<forall>w b. token_balanceOf E T (this_address E) w = Inr b \<longrightarrow> unat b = led (outside w))"

subsection \<open>Solvency\<close>

definition solvent :: "address \<Rightarrow> ('x \<Rightarrow> nat) \<Rightarrow> 'x world \<Rightarrow> bool" where
  "solvent T led w \<longleftrightarrow> liabilities T w \<le> led (outside w)"

definition solv_safe :: "address \<Rightarrow> ('x \<Rightarrow> nat) \<Rightarrow> 'x world \<Rightarrow> 'x world \<Rightarrow> bool" where
  "solv_safe T led w w' \<longleftrightarrow> sender_locked w w' \<and>
     (finite_tables T w \<longrightarrow> finite_tables T w' \<and>
        (sendEntered w = ENTERED \<longrightarrow> liabilities T w' \<le> liabilities T w) \<and>
        (solvent T led w \<longrightarrow> solvent T led w'))"

lemma solv_safe_trans: "solv_safe T led u v \<Longrightarrow> solv_safe T led v w \<Longrightarrow> solv_safe T led u w"
  by (auto simp: solv_safe_def sender_locked_def intro: sent_shrinks_trans)

lemma solv_safe_refl: "solv_safe T led w w"
  by (simp add: solv_safe_def sender_locked_cong)

lemma solv_safe_externals:
  "externals (solv_safe T led) Out Pay E \<Longrightarrow> externals sender_locked Out Pay E"
  by (erule externals_weaken [rotated]) (simp add: solv_safe_def)

text \<open>A step that moves no money of the messenger.\<close>

lemma solv_safe_cong:
  assumes "sendEntered w' = sendEntered w" "latestMessageIDs w' = latestMessageIDs w"
    "sentMessageInfo w' = sentMessageInfo w" "relayerRewardAmounts w' = relayerRewardAmounts w"
    "led (outside w) \<le> led (outside w')"
  shows "solv_safe T led w w'"
  using assms tables_cong [OF assms(3,4)]
  by (auto simp: solv_safe_def solvent_def intro: sender_locked_cong)

text \<open>
  The heart of the argument: pulling a fee in. Between the two balance reads the guard keeps the
  liabilities from growing, so crediting the difference leaves them covered.
\<close>

lemma fee_pulled_in:
  assumes ext: "externals (solv_safe T led) Out Pay E" and hon: "reports_balance T led E"
    and pull: "safeTransferFrom E t amt w = Inr (adj, w1)"
    and inv: "finite_tables T w" "sendEntered w = ENTERED" "solvent T led w"
  shows "finite_tables T w1 \<and>
    liabilities T w1 + (if t = T then unat adj else 0) \<le> led (outside w1)"
proof -
  have Q: "solv_safe T led w w1" using ext pull by (rule safeTransferFrom_steps)
  then have fin: "finite_tables T w1" and shrink: "liabilities T w1 \<le> liabilities T w"
    and sol: "liabilities T w1 \<le> led (outside w1)"
    using inv by (auto simp: solv_safe_def solvent_def)
  show ?thesis
  proof (cases "t = T")
    case True
    from pull show ?thesis
    proof (rule safeTransferFrom_Inr)
      fix b0 b1
      assume b: "token_balanceOf E t (this_address E) w = Inr b0"
        "token_balanceOf E t (this_address E) w1 = Inr b1" "b0 < b1" "unat adj = unat b1 - unat b0"
      have "unat b0 = led (outside w)" "unat b1 = led (outside w1)"
        using hon b(1,2) True by (auto simp: reports_balance_def)
      then show ?thesis
        using b(3,4) shrink inv(3) fin True by (simp add: solvent_def word_less_nat_alt)
    qed
  next
    case False
    then show ?thesis using fin sol by simp
  qed
qed

lemma fee_of_le: "fee_of T info \<le> unat (feeAmount (feeInfo info))"
  by (simp add: fee_of_def)

lemma solv_send:
  assumes ext: "externals (solv_safe T led) (keeps_balance led) Pay E"
    and hon: "reports_balance T led E"
    and send: "sendTeleporterMessage E inp rs w = Inr (mid, w')"
    and fin: "finite_tables T w" and locked: "sendEntered w = ENTERED"
  shows "finite_tables T w' \<and> (solvent T led w \<longrightarrow> solvent T led w')"
  using send
proof (rule sendTeleporterMessage_Inr, goal_cases)
  case (1 msg adj w2 x)
  let ?t = "feeTokenAddress (in_feeInfo inp)"
  let ?w1 = "w\<lparr>latestMessageIDs := (latestMessageIDs w)(in_destinationBlockchainID inp := mid)\<rparr>"
  let ?info = "\<lparr>messageHash = keccak256 E (abi_encode E msg),
            feeInfo = \<lparr>feeTokenAddress = ?t, feeAmount = adj\<rparr>\<rparr>"
  have fin1: "finite_tables T ?w1" and liab1: "liabilities T ?w1 = liabilities T w"
    using fin tables_cong [of ?w1 w] by simp_all
  have Q: "solv_safe T led ?w1 w2"
    using 1(4) solv_safe_refl safeTransferFrom_steps [OF ext] by (auto split: if_splits)
  then have fin2: "finite_tables T w2" using fin1 by (simp add: solv_safe_def)
  have w': "sentMessageInfo w' = upd2 (sentMessageInfo w2) (in_destinationBlockchainID inp) mid ?info"
    "relayerRewardAmounts w' = relayerRewardAmounts w2" "outside w' = x"
    by (simp_all add: 1(6))
  note set_fee = liabilities_set_fee [OF fin2 w'(1,2)]
  have out: "led (outside w2) \<le> led x"
    using externalsD(4) [OF ext 1(5)] by (simp add: keeps_balance_def)
  have "solvent T led w'" if sol: "solvent T led w"
  proof -
    have sol1: "solvent T led ?w1" using sol liab1 by (simp add: solvent_def)
    have "liabilities T w2 + (if ?t = T then unat adj else 0) \<le> led (outside w2)"
    proof (cases "0 < feeAmount (in_feeInfo inp)")
      case True
      then have "safeTransferFrom E ?t (feeAmount (in_feeInfo inp)) ?w1 = Inr (adj, w2)"
        using 1(4) by simp
      from fee_pulled_in [OF ext hon this fin1 _ sol1] locked show ?thesis by simp
    next
      case False
      then show ?thesis using 1(4) sol1 by (simp add: solvent_def)
    qed
    moreover have "liabilities T w' \<le> liabilities T w2 + (if ?t = T then unat adj else 0)"
      using set_fee(2) by (simp add: fee_of_def split: if_splits)
    ultimately show ?thesis using out by (simp add: solvent_def w'(3))
  qed
  then show ?case using set_fee(1) by blast
qed

lemma solv_addFee:
  assumes ext: "externals (solv_safe T led) (keeps_balance led) Pay E"
    and hon: "reports_balance T led E" and T: "T \<noteq> 0"
    and add: "addFeeAmount E chain mid token amt w = Inr (u, w')"
    and fin: "finite_tables T w"
  shows "finite_tables T w' \<and> (solvent T led w \<longrightarrow> solvent T led w')"
  using add
proof (rule addFeeAmount_Inr, goal_cases)
  case (1 adj w1 n)
  let ?w0 = "w\<lparr>sendEntered := ENTERED\<rparr>"
  let ?old = "sentMessageInfo w1 chain mid"
  let ?new = "?old\<lparr>feeInfo := (feeInfo ?old)\<lparr>feeAmount := n\<rparr>\<rparr>"
  have fin0: "finite_tables T ?w0" and liab0: "liabilities T ?w0 = liabilities T w"
    using fin tables_cong [of ?w0 w] by simp_all
  have Q: "solv_safe T led ?w0 w1" using ext 1(6) by (rule safeTransferFrom_steps)
  then have fin1: "finite_tables T w1" using fin0 by (simp add: solv_safe_def)
  have "sender_locked ?w0 w1" using Q by (simp add: solv_safe_def)
  then have "sent_shrinks (sentMessageInfo w) (sentMessageInfo w1)"
    by (simp add: sender_locked_def)
  then have "?old = sentMessageInfo w chain mid \<or> ?old = zero_sentInfo"
    by (simp add: sent_shrinks_def)
  then have tok: "feeTokenAddress (feeInfo ?old) = T \<Longrightarrow> token = T"
    using 1(5) T by (auto simp: zero_sentInfo_def zero_feeInfo_def)
  have n: "unat n = unat (feeAmount (feeInfo ?old)) + unat adj"
    using 1(7) by (rule checked_add_unat)
  have w': "sentMessageInfo w' = upd2 (sentMessageInfo w1) chain mid ?new"
    "relayerRewardAmounts w' = relayerRewardAmounts w1" "outside w' = outside w1"
    by (simp_all add: 1(8))
  note set_fee = liabilities_set_fee [OF fin1 w'(1,2)]
  have "solvent T led w'" if sol: "solvent T led w"
  proof -
    have "liabilities T w1 + (if token = T then unat adj else 0) \<le> led (outside w1)"
      using fee_pulled_in [OF ext hon 1(6) fin0] sol liab0 by (simp add: solvent_def)
    moreover have "liabilities T w' \<le> liabilities T w1 + (if token = T then unat adj else 0)"
      using set_fee(2) tok n by (auto simp: fee_of_def split: if_splits)
    ultimately show ?thesis by (simp add: solvent_def w'(3))
  qed
  then show ?case using set_fee(1) by blast
qed

lemma solv_receive:
  assumes ext: "externals (solv_safe T led) Out Pay E"
    and rc: "receiveCrossChainMessage E idx ra w = Inr (u, w')"
    and fin: "finite_tables T w"
  shows "finite_tables T w' \<and>
    (sendEntered w = ENTERED \<longrightarrow> liabilities T w' \<le> liabilities T w) \<and>
    (solvent T led w \<longrightarrow> solvent T led w')"
  using ext solv_safe_refl rc
proof (rule receiveCrossChainMessage_steps, goal_cases)
  case (1 origin msg chain w2 w3 w4 q)
  have "solv_safe T led w w2" by (rule solv_safe_cong) (simp_all add: 1(5))
  moreover have "solv_safe T led w2 w3"
    using 1(6)
  proof (elim disjE exE conjE)
    fix v assume v: "solv_safe T led w2 v" "w3 = emit (LogMessageExecuted origin (messageID msg)) v"
    have "solv_safe T led v w3" by (rule solv_safe_cong) (simp_all add: v(2) emit_def)
    with v(1) show ?thesis by (rule solv_safe_trans)
  qed (auto simp: storeFailedMessageExecution_def emit_def intro: solv_safe_refl solv_safe_cong)
  ultimately have Q: "solv_safe T led w w3" by (rule solv_safe_trans)
  then have fin3: "finite_tables T w3" using fin by (simp add: solv_safe_def)
  have w': "liabilities T w' = liabilities T w4" "finite_tables T w' = finite_tables T w4"
    "outside w' = outside w4"
    using tables_cong [of w' w4] by (simp_all add: 1(9))
  have "outside w4 = outside w3" using 1(7) by (simp add: markReceipts_frame)
  with Q fin w' markReceipts_liabilities [OF fin3 1(7)] show ?case
    by (simp add: solv_safe_def solvent_def)
qed

lemma solv_redeem:
  assumes ext: "externals (solv_safe T led) Out (pays_exactly T led) E"
    and rd: "redeemRelayerRewards E token w = Inr (u, w')"
    and fin: "finite_tables T w"
  shows "finite_tables T w' \<and>
    (sendEntered w = ENTERED \<longrightarrow> liabilities T w' \<le> liabilities T w) \<and>
    (solvent T led w \<longrightarrow> solvent T led w')"
  using ext rd
proof (rule redeemRelayerRewards_steps, goal_cases)
  case (1 x)
  let ?r = "relayerRewardAmounts w (msg_sender E) token"
  let ?v = "w\<lparr>relayerRewardAmounts := upd2 (relayerRewardAmounts w) (msg_sender E) token 0,
         logs := logs w @ [LogRelayerRewardsRedeemed (msg_sender E) token ?r], outside := x\<rparr>"
  have v: "finite_tables T ?v"
    "liabilities T ?v + (if token = T then unat ?r else 0) = liabilities T w"
    using liabilities_set_reward [OF fin, of ?v "msg_sender E" token 0]
    by (auto split: if_splits)
  have "led (outside w) \<le> led x + (if token = T then unat ?r else 0)"
    using 1(2) by (simp add: pays_exactly_def)
  then have "solvent T led w \<longrightarrow> solvent T led ?v" using v(2) by (auto simp: solvent_def)
  with 1(3) v show ?case by (auto simp: solv_safe_def)
qed

lemma solv_safe_unlocked:
  assumes "sendEntered w = NOT_ENTERED"
    and "finite_tables T w \<Longrightarrow> finite_tables T w' \<and> (solvent T led w \<longrightarrow> solvent T led w')"
  shows "solv_safe T led w w'"
  using assms by (auto simp: solv_safe_def sender_locked_open)

lemma solvent_transfer:
  "solvent T led w \<Longrightarrow> sentMessageInfo w' = sentMessageInfo w \<Longrightarrow>
    relayerRewardAmounts w' = relayerRewardAmounts w \<Longrightarrow>
    led (outside w) \<le> led (outside w') \<Longrightarrow> solvent T led w'"
  using tables_cong(3) [of w' w T] by (simp add: solvent_def)

lemma solv_send_bracket:
  assumes ext: "externals (solv_safe T led) (keeps_balance led) Pay E"
    and hon: "reports_balance T led E"
    and send: "sendTeleporterMessage E inp rs w0 = Inr (mid, w1)"
    and w0: "sendEntered w0 = ENTERED" "sentMessageInfo w0 = sentMessageInfo w"
      "relayerRewardAmounts w0 = relayerRewardAmounts w" "outside w0 = outside w"
    and w: "sendEntered w = NOT_ENTERED"
  shows "solv_safe T led w (w1\<lparr>sendEntered := NOT_ENTERED\<rparr>)"
proof (rule solv_safe_unlocked [OF w])
  assume "finite_tables T w"
  then have fin: "finite_tables T w0" using tables_cong(4) [OF w0(2,3), of T] by simp
  note step = solv_send [OF ext hon send fin w0(1)]
  have a: "solvent T led w \<Longrightarrow> solvent T led w0"
    using solvent_transfer [of T led w w0] w0 by simp
  have b: "solvent T led w1 \<Longrightarrow> solvent T led (w1\<lparr>sendEntered := NOT_ENTERED\<rparr>)"
    using solvent_transfer [of T led w1 "w1\<lparr>sendEntered := NOT_ENTERED\<rparr>"] by simp
  have c: "finite_tables T (w1\<lparr>sendEntered := NOT_ENTERED\<rparr>) = finite_tables T w1"
    by (rule tables_cong(4)) simp_all
  from step a b c show "finite_tables T (w1\<lparr>sendEntered := NOT_ENTERED\<rparr>) \<and>
      (solvent T led w \<longrightarrow> solvent T led (w1\<lparr>sendEntered := NOT_ENTERED\<rparr>))"
    by blast
qed

lemma solv_safe_op:
  assumes T: "T \<noteq> 0" and hon: "reports_balance T led E"
    and ext: "externals (solv_safe T led) (keeps_balance led) (pays_exactly T led) E"
    and op: "run_op E op w = Inr w'"
  shows "solv_safe T led w w'"
  using op
proof (cases rule: run_op_Inr)
  case send
  then show ?thesis
    by (rule sendCrossChainMessage_Inr) (auto intro: solv_send_bracket [OF ext hon])
next
  case receipts
  then show ?thesis
    by (rule sendSpecifiedReceipts_Inr) (auto intro: solv_send_bracket [OF ext hon])
next
  case (fee chain mid token amt u)
  have "sendEntered w = NOT_ENTERED" using fee by (rule addFeeAmount_Inr)
  then show ?thesis using solv_addFee [OF ext hon T fee] by (rule solv_safe_unlocked)
next
  case resend
  then show ?thesis
  proof (rule retrySendCrossChainMessage_Inr, goal_cases)
    case (1 x)
    have "led (outside w) \<le> led x"
      using externalsD(4) [OF ext 1(4)] by (simp add: keeps_balance_def)
    then have "solv_safe T led w w'"
      using 1(1) by (intro solv_safe_cong) (simp_all add: 1(5))
    then show ?case .
  qed
next
  case (receive idx ra u)
  have "sender_locked w w'"
    using solv_safe_externals [OF ext] op by (rule sender_locked_op)
  then show ?thesis using solv_receive [OF ext receive] by (simp add: solv_safe_def)
next
  case (retry origin msg u)
  then show ?thesis
  proof (rule retryMessageExecution_Inr, goal_cases)
    case (1 w2 w3)
    have "solv_safe T led w w2" by (rule solv_safe_cong) (simp_all add: 1(5))
    moreover have "solv_safe T led w2 w3" using externalsD(1) [OF ext 1(6)] .
    moreover have "solv_safe T led w3 w'" by (rule solv_safe_cong) (simp_all add: 1(7))
    ultimately show ?case by (blast intro: solv_safe_trans)
  qed
next
  case (redeem token u)
  have "sender_locked w w'"
    using solv_safe_externals [OF ext] op by (rule sender_locked_op)
  then show ?thesis using solv_redeem [OF ext redeem] by (simp add: solv_safe_def)
qed

lemma solv_safe_outside: "led (outside w) \<le> led x \<Longrightarrow> solv_safe T led w (w\<lparr>outside := x\<rparr>)"
  by (rule solv_safe_cong) simp_all

definition honest_token :: "address \<Rightarrow> ('x \<Rightarrow> nat) \<Rightarrow> 'x env \<Rightarrow> bool" where
  "honest_token T led E \<longleftrightarrow> T \<noteq> 0 \<and> reports_balance T led E"

interpretation solv: call_closed "keeps_balance led" "pays_exactly T led" "honest_token T led"
    "solv_safe T led" for T led
  by unfold_locales
    (auto simp: honest_token_def keeps_balance_def
      intro: solv_safe_refl solv_safe_trans solv_safe_outside solv_safe_op)

end
