(* ===== verification/Messenger_Queues.thy ===== *)
theory Messenger_Queues
  imports Messenger_Safety
begin

section \<open>The receipt queues of a reachable messenger are well formed\<close>

text \<open>
  \<open>queues_ok\<close> says that every receipt queue is a window of valid indices. Every operation keeps
  it, reentrancy included, so that reading or emptying a queue never reverts.
\<close>

definition queues_ok :: "'x world \<Rightarrow> bool" where
  "queues_ok w \<longleftrightarrow> (\<forall>c. queue_wf (receiptQueues w c))"

definition queues_kept :: "'x world \<Rightarrow> 'x world \<Rightarrow> bool" where
  "queues_kept w w' \<longleftrightarrow> (queues_ok w \<longrightarrow> queues_ok w')"

lemma queues_ok_transfer:
  "queues_ok w \<Longrightarrow> receiptQueues w' = receiptQueues w \<Longrightarrow> queues_ok w'"
  by (simp add: queues_ok_def)

lemma queues_ok_upd:
  "queues_ok w \<Longrightarrow> queue_wf q \<Longrightarrow> receiptQueues w' = (receiptQueues w)(c := q) \<Longrightarrow> queues_ok w'"
  by (simp add: queues_ok_def)

lemma queues_ok_deployed: "queues_ok (deployed x)"
  by (simp add: queues_ok_def deployed_def guards_constructor_def empty_queue_def queue_wf_def)

lemma queues_kept_refl: "queues_kept w w"
  by (simp add: queues_kept_def)

lemma queues_kept_trans: "queues_kept u v \<Longrightarrow> queues_kept v w \<Longrightarrow> queues_kept u w"
  by (simp add: queues_kept_def)

lemma queues_kept_cong: "receiptQueues w' = receiptQueues w \<Longrightarrow> queues_kept w w'"
  by (simp add: queues_kept_def queues_ok_def)

lemma queues_kept_outside: "queues_kept w (w\<lparr>outside := x\<rparr>)"
  by (rule queues_kept_cong) simp

lemma queues_keptD: "queues_kept w w' \<Longrightarrow> queues_ok w \<Longrightarrow> queues_ok w'"
  by (simp add: queues_kept_def)

lemma queues_kept_send:
  assumes "externals queues_kept Out Pay E"
    and "sendTeleporterMessage E inp rs w = Inr (mid, w')"
  shows "queues_kept w w'"
  using assms(1) queues_kept_refl assms(2)
  by (rule sendTeleporterMessage_steps) (simp add: queues_kept_def queues_ok_def)

lemma outstanding_wf:
  "queue_wf q \<Longrightarrow> getOutstandingReceiptsToSend q = Inr (rs, q') \<Longrightarrow> queue_wf q'"
  using outstanding_refines_take [of q] by auto

lemma queues_kept_op:
  assumes ext: "externals queues_kept Out Pay E" and op: "run_op E op w = Inr w'"
  shows "queues_kept w w'"
  using op
proof (cases rule: run_op_Inr)
  case (send inp mid)
  then show ?thesis
  proof (rule sendCrossChainMessage_Inr, goal_cases)
    case (1 rs q w1)
    let ?v = "w\<lparr>sendEntered := ENTERED,
      receiptQueues := (receiptQueues w)(in_destinationBlockchainID inp := q)\<rparr>"
    have "queues_kept w ?v"
      using outstanding_wf [OF _ 1(2)] by (simp add: queues_kept_def queues_ok_def)
    moreover have "queues_kept ?v w1" by (rule queues_kept_send [OF ext 1(3)])
    moreover have "queues_kept w1 w'" by (rule queues_kept_cong) (simp add: 1(4))
    ultimately show ?case by (blast intro: queues_kept_trans)
  qed
next
  case receipts
  then show ?thesis
    by (rule sendSpecifiedReceipts_Inr)
      (auto dest!: queues_kept_send [OF ext] simp: queues_kept_def queues_ok_def)
next
  case fee
  then show ?thesis
    by (rule addFeeAmount_Inr)
      (auto dest!: safeTransferFrom_steps [OF ext] simp: queues_kept_def queues_ok_def)
next
  case resend
  then show ?thesis by (rule retrySendCrossChainMessage_Inr) (rule queues_kept_cong, simp)
next
  case receive
  show ?thesis
    using ext queues_kept_refl receive
  proof (rule receiveCrossChainMessage_steps, goal_cases)
    case prems: (1 origin msg chain w2 w3 w4 q)
    have "queues_ok w'" if ok: "queues_ok w"
    proof -
      have "queues_ok w2" using ok by (rule queues_ok_transfer) (simp add: prems(5))
      moreover have "queues_kept w2 w3"
        using prems(6) queues_kept_refl by (auto simp: step_frame queues_kept_def queues_ok_def)
      ultimately have "queues_ok w3" by (rule queues_keptD [rotated])
      then have w4: "queues_ok w4" by (rule queues_ok_transfer) (simp add: markReceipts_frame [OF prems(7)])
      then have "queue_wf q" using enqueue_contents prems(8) by (auto simp: queues_ok_def)
      with w4 show ?thesis by (rule queues_ok_upd) (simp add: prems(9))
    qed
    then show ?case by (simp add: queues_kept_def)
  qed
next
  case retry
  then show ?thesis
    by (rule retryMessageExecution_Inr)
      (auto dest!: externalsD(1) [OF ext] simp: queues_kept_def queues_ok_def)
next
  case redeem
  show ?thesis
    by (rule redeemRelayerRewards_steps [OF ext redeem])
      (simp add: queues_kept_def queues_ok_def)
qed

interpretation queues: call_closed Out Pay Hon queues_kept for Out Pay Hon
  by unfold_locales
    (blast intro: queues_kept_refl queues_kept_trans queues_kept_op queues_kept_outside)+

end
