(* ===== verification/Messenger_Example.thy ===== *)
theory Messenger_Example
  imports Messenger_Execution Messenger_Solvency Messenger_Queues
begin

section \<open>A concrete environment\<close>

text \<open>
  One environment in which every operation of the messenger runs: the state outside is the
  messenger's balance of the token at address 9, encodings are short byte strings, and the Warp
  precompile delivers one message. It shows that the hypotheses of the correctness theorems can
  hold, and lets each of them be evaluated on a run of the model.
\<close>

definition demo_fee :: "uint256 \<Rightarrow> TeleporterFeeInfo" where
  "demo_fee n = \<lparr>feeTokenAddress = 9, feeAmount = n\<rparr>"

definition demo_message :: TeleporterMessage where
  "demo_message = \<lparr>messageID = 3, senderAddress = 6, destinationBlockchainID = 5,
     destinationAddress = 8, requiredGasLimit = 100, allowedRelayerAddresses = [2],
     receipts = [], messageBytes = [65]\<rparr>"

definition demo_input :: "uint256 \<Rightarrow> TeleporterMessageInput" where
  "demo_input n = \<lparr>in_destinationBlockchainID = 7, in_destinationAddress = 8,
     in_feeInfo = demo_fee n, in_requiredGasLimit = 100, in_allowedRelayerAddresses = [],
     in_message = [66]\<rparr>"

definition demo_env :: "nat env" where
  "demo_env =
     \<lparr>this_address = 1, msg_sender = 2,
      abi_encode = (\<lambda>m. [ucast (messageID m)]),
      abi_decode = (\<lambda>bs. Some demo_message),
      encode_receive_call = (\<lambda>c a bs. bs),
      keccak256 = (\<lambda>bs. word_of_nat (1 + horner_sum unat 256 bs)),
      gasleft = (\<lambda>w. 1000), code_length = (\<lambda>a w. 1),
      call_contract = (\<lambda>a g bs w. Inr w),
      token_balanceOf = (\<lambda>t a w. if outside w < 2 ^ 256 then Inr (word_of_nat (outside w))
        else Inl (Revert [])),
      token_transferFrom = (\<lambda>t a b n w. Inr (w\<lparr>outside := outside w + unat n\<rparr>)),
      token_transfer = (\<lambda>t a n w. if t \<noteq> 9 then Inr w
        else if unat n \<le> outside w then Inr (w\<lparr>outside := outside w - unat n\<rparr>)
        else Inl (Revert [])),
      sendWarpMessage = (\<lambda>bs x. Inr x),
      getVerifiedWarpMessage = (\<lambda>i x. (\<lparr>sourceChainID = 7, originSenderAddress = 1,
        payload = []\<rparr>, True)),
      getBlockchainID = (\<lambda>x. 5)\<rparr>"

subsection \<open>Runs of the concrete environment\<close>

abbreviation demo_out :: "nat \<Rightarrow> nat \<Rightarrow> bool" where
  "demo_out \<equiv> keeps_balance id"

abbreviation demo_pay :: "address \<Rightarrow> address \<Rightarrow> uint256 \<Rightarrow> nat \<Rightarrow> nat \<Rightarrow> bool" where
  "demo_pay \<equiv> pays_exactly 9 id"

abbreviation demo_reach :: "nat world \<Rightarrow> nat world \<Rightarrow> bool" where
  "demo_reach \<equiv> interacts demo_out demo_pay (honest_token 9 id)"

lemma demo_env_simps [simp]:
  "this_address demo_env = 1" "msg_sender demo_env = 2"
  "abi_encode demo_env m = [ucast (messageID m)]" "abi_decode demo_env bs = Some demo_message"
  "encode_receive_call demo_env c a bs = bs"
  "keccak256 demo_env bs = word_of_nat (1 + horner_sum unat 256 bs)"
  "gasleft demo_env w = 1000" "code_length demo_env a w = 1"
  "call_contract demo_env a g bs w = Inr w"
  "token_balanceOf demo_env t a w =
     (if outside w < 2 ^ 256 then Inr (word_of_nat (outside w)) else Inl (Revert []))"
  "token_transferFrom demo_env t a b n w = Inr (w\<lparr>outside := outside w + unat n\<rparr>)"
  "token_transfer demo_env t a n w = (if t \<noteq> 9 then Inr w
     else if unat n \<le> outside w then Inr (w\<lparr>outside := outside w - unat n\<rparr>)
     else Inl (Revert []))"
  "sendWarpMessage demo_env bs x = Inr x"
  "getVerifiedWarpMessage demo_env i x =
     (\<lparr>sourceChainID = 7, originSenderAddress = 1, payload = []\<rparr>, True)"
  "getBlockchainID demo_env x = 5"
  by (simp_all add: demo_env_def)

lemma demo_honest: "honest_token 9 id demo_env"
  by (simp add: honest_token_def reports_balance_def unsigned_of_nat take_bit_nat_eq_self)

lemma demo_reach_outside: "outside w \<le> x \<Longrightarrow> demo_reach w (w\<lparr>outside := x\<rparr>)"
  by (rule interacts.elsewhere [OF _ interacts.stop]) (simp add: keeps_balance_def)

lemma demo_pays:
  assumes "token_transfer demo_env t a n w = Inr w'"
  shows "\<exists>x. demo_pay t a n (outside w) x \<and> demo_reach (w\<lparr>outside := x\<rparr>) w'"
proof -
  have "demo_pay t a n (outside w) (outside w') \<and> w\<lparr>outside := outside w'\<rparr> = w'"
    using assms by (auto simp: pays_exactly_def split: if_splits)
  then show ?thesis by (metis interacts.stop)
qed

lemma demo_externals: "externals demo_reach demo_out demo_pay demo_env"
  unfolding externals_def
  by (intro conjI allI impI, erule_tac [3] demo_pays)
    (auto simp: keeps_balance_def intro: interacts.stop demo_reach_outside)

definition demo_world :: "nat world" where
  "demo_world = deployed 100"

lemma demo_world_simps [simp]:
  "sendEntered demo_world = NOT_ENTERED" "receiveEntered demo_world = NOT_ENTERED"
  "blockchainID demo_world = 0" "latestMessageIDs demo_world c = 0"
  "receiptQueues demo_world c = empty_queue" "sentMessageInfo demo_world c m = zero_sentInfo"
  "receivedFailedMessageHashes demo_world c m = 0" "relayerRewardAddresses demo_world c m = 0"
  "relayerRewardAmounts demo_world r t = 0" "logs demo_world = []" "outside demo_world = 100"
  by (simp_all add: demo_world_def deployed_def guards_constructor_def)

lemma demo_op:
  "run_op demo_env op w = Inr w' \<Longrightarrow> demo_reach w w'"
  by (rule interacts_op [OF demo_honest demo_externals])

lemmas demo_steps = senderNonReentrant_def receiverNonReentrant_def
  sendTeleporterMessage_def getNextMessageID_internal_def checked_add_def checked_sub_def
  safeTransferFrom_def getOutstandingReceiptsToSend_def queue_size_def MAXIMUM_RECEIPT_COUNT_def
  demo_input_def demo_fee_def demo_message_def emit_def messageReceived_internal_def
  checkIsAllowedRelayer_def handleInitialMessageExecution_def tryExecuteMessage_def
  enqueue_def empty_queue_def zero_receipt_def storeFailedMessageExecution_def Let_def

definition demo_sent :: "nat world" where
  "demo_sent = snd (projr (sendCrossChainMessage demo_env (demo_input 4) demo_world))"

definition demo_received :: "nat world" where
  "demo_received = snd (projr (receiveCrossChainMessage demo_env 0 2 demo_world))"

lemma demo_send:
  "sendCrossChainMessage demo_env (demo_input 4) demo_world = Inr (1, demo_sent)"
  unfolding demo_sent_def
  by (simp add: sendCrossChainMessage_def demo_steps)

lemma demo_receive:
  "receiveCrossChainMessage demo_env 0 2 demo_world = Inr ((), demo_received)"
  unfolding demo_received_def
  by (simp add: receiveCrossChainMessage_def demo_steps)

lemma demo_send_again:
  "\<exists>mid w. sendCrossChainMessage demo_env (demo_input 4) demo_sent = Inr (mid, w)"
  unfolding demo_sent_def
  by (simp add: sendCrossChainMessage_def demo_steps)

lemma demo_values [simp]:
  "queue_list empty_queue = []" "queue_wf empty_queue"
  "in_destinationBlockchainID (demo_input n) = 7" "in_feeInfo (demo_input n) = demo_fee n"
  "feeAmount (demo_fee n) = n" "feeTokenAddress (demo_fee n) = 9"
  "messageID (sent_message E inp mid rs) = mid"
  by (simp_all add: queue_list_def queue_wf_def empty_queue_def demo_input_def demo_fee_def
      sent_message_def)

text \<open>
  A token whose transfer, before it moves the tokens, delivers the receipt of message 1 to the
  messenger, crediting the relayer at address 4.
\<close>

definition demo_receipt :: "uint256 \<Rightarrow> TeleporterMessageReceipt" where
  "demo_receipt m = \<lparr>receivedMessageID = m, relayerRewardAddress = 4\<rparr>"

definition demo_receipt_env :: "nat env" where
  "demo_receipt_env = demo_env\<lparr>abi_decode :=
     (\<lambda>bs. Some (demo_message\<lparr>receipts := [\<lparr>receivedMessageID = 1, relayerRewardAddress = 4\<rparr>],
       messageBytes := []\<rparr>))\<rparr>"

definition demo_reentrant_env :: "nat env" where
  "demo_reentrant_env = demo_env\<lparr>token_transferFrom := (\<lambda>t a b n w.
     bindE (receiveCrossChainMessage demo_receipt_env 0 2 w) (\<lambda>(u, w1).
     Inr (w1\<lparr>outside := outside w1 + unat n\<rparr>)))\<rparr>"

end
