(* ===== verification/Messenger_Correctness.thy ===== *)
theory Messenger_Correctness
  imports Messenger_Example
begin

section \<open>What the messenger guarantees\<close>

text \<open>
  The properties of the messenger, each followed by a run of the model that satisfies its
  hypotheses. The statements about interactions hold for every finite sequence of calls by
  anyone, with every external call free to re-enter the messenger.
\<close>

subsection \<open>What a list of receipts is worth\<close>

text \<open>The first receipt for each message, and what those for outstanding messages credit.\<close>

fun first_receipts :: "TeleporterMessageReceipt list \<Rightarrow> TeleporterMessageReceipt list" where
  "first_receipts [] = []"
| "first_receipts (r # rs) =
     r # filter (\<lambda>s. receivedMessageID s \<noteq> receivedMessageID r) (first_receipts rs)"

definition receipt_credit ::
  "'x world \<Rightarrow> bytes32 \<Rightarrow> TeleporterMessageReceipt \<Rightarrow> address \<Rightarrow> address \<Rightarrow> nat" where
  "receipt_credit w c x relayer token =
     (let info = sentMessageInfo w c (receivedMessageID x) in
      if messageHash info \<noteq> 0 \<and> relayerRewardAddress x = relayer \<and> feeTokenAddress (feeInfo info) = token
      then unat (feeAmount (feeInfo info)) else 0)"

definition credit ::
  "'x world \<Rightarrow> bytes32 \<Rightarrow> TeleporterMessageReceipt list \<Rightarrow> address \<Rightarrow> address \<Rightarrow> nat" where
  "credit w c rs relayer token = (\<Sum>x\<leftarrow>first_receipts rs. receipt_credit w c x relayer token)"

lemma credit_Cons:
  assumes "messageHash (sentMessageInfo w1 c (receivedMessageID r)) = 0"
    and "\<And>m. m \<noteq> receivedMessageID r \<Longrightarrow> sentMessageInfo w1 c m = sentMessageInfo w c m"
  shows "credit w c (r # rs) relayer token = receipt_credit w c r relayer token + credit w1 c rs relayer token"
proof -
  have "(\<Sum>x\<leftarrow>filter (\<lambda>s. receivedMessageID s \<noteq> receivedMessageID r) xs. receipt_credit w c x relayer token)
      = (\<Sum>x\<leftarrow>xs. receipt_credit w1 c x relayer token)" for xs
    using assms by (induction xs) (auto simp: receipt_credit_def Let_def)
  then show ?thesis by (simp add: credit_def)
qed

lemma markReceipt_effect:
  assumes "markReceipt c (receivedMessageID x) (relayerRewardAddress x) w = Inr w1"
  shows "unat (relayerRewardAmounts w1 r t) = unat (relayerRewardAmounts w r t) + receipt_credit w c x r t"
    and "sentMessageInfo w1 = (if messageHash (sentMessageInfo w c (receivedMessageID x)) = 0
      then sentMessageInfo w else upd2 (sentMessageInfo w) c (receivedMessageID x) zero_sentInfo)"
proof -
  from assms have "unat (relayerRewardAmounts w1 r t) = unat (relayerRewardAmounts w r t) + receipt_credit w c x r t \<and>
    sentMessageInfo w1 = (if messageHash (sentMessageInfo w c (receivedMessageID x)) = 0
      then sentMessageInfo w else upd2 (sentMessageInfo w) c (receivedMessageID x) zero_sentInfo)"
  proof (cases rule: markReceipt_Inr)
    case absent
    then show ?thesis by (simp add: receipt_credit_def)
  next
    case (paid n)
    then show ?thesis
      using checked_add_unat [OF paid(2)] by (auto simp: receipt_credit_def Let_def)
  qed
  then show "unat (relayerRewardAmounts w1 r t) = unat (relayerRewardAmounts w r t) + receipt_credit w c x r t"
    "sentMessageInfo w1 = (if messageHash (sentMessageInfo w c (receivedMessageID x)) = 0
      then sentMessageInfo w else upd2 (sentMessageInfo w) c (receivedMessageID x) zero_sentInfo)" by simp_all
qed

lemma markReceipts_effect:
  "markReceipts c rs w = Inr w1 \<Longrightarrow>
    (\<forall>r t. unat (relayerRewardAmounts w1 r t) = unat (relayerRewardAmounts w r t) + credit w c rs r t) \<and>
    (\<forall>c' m. sentMessageInfo w1 c' m = (if c' = c \<and> m \<in> receivedMessageID ` set rs \<and>
       messageHash (sentMessageInfo w c m) \<noteq> 0 then zero_sentInfo else sentMessageInfo w c' m))"
proof (induction rs arbitrary: w)
  case Nil
  then show ?case by (simp add: credit_def)
next
  case (Cons x rs)
  then obtain v where v: "markReceipt c (receivedMessageID x) (relayerRewardAddress x) w = Inr v"
    and w1: "markReceipts c rs v = Inr w1" by auto
  note e = markReceipt_effect [OF v] and IH = Cons.IH [OF w1]
  have "messageHash (sentMessageInfo v c (receivedMessageID x)) = 0"
    "\<And>m. m \<noteq> receivedMessageID x \<Longrightarrow> sentMessageInfo v c m = sentMessageInfo w c m"
    by (simp_all add: e(2) zero_sentInfo_def)
  from credit_Cons [OF this] e(1) IH
  have "\<forall>r t. unat (relayerRewardAmounts w1 r t) = unat (relayerRewardAmounts w r t) + credit w c (x # rs) r t"
    by simp
  moreover have "sentMessageInfo w1 c' m = (if c' = c \<and> m \<in> receivedMessageID ` set (x # rs) \<and>
       messageHash (sentMessageInfo w c m) \<noteq> 0 then zero_sentInfo else sentMessageInfo w c' m)" for c' m
    using IH [THEN conjunct2, rule_format, of c' m] by (auto simp: e(2) zero_sentInfo_def)
  ultimately show ?case by blast
qed

text \<open>Processing receipts can only fail by an overflow of a reward.\<close>

lemma markReceipts_succeeds:
  "(\<And>r t. unat (relayerRewardAmounts w r t) + credit w c rs r t < 2 ^ 256) \<Longrightarrow>
    \<exists>w1. markReceipts c rs w = Inr w1"
proof (induction rs arbitrary: w)
  case (Cons x rs)
  have le: "receipt_credit w c x r t \<le> credit w c (x # rs) r t" for r t
    by (simp add: credit_def)
  have "\<exists>v. markReceipt c (receivedMessageID x) (relayerRewardAddress x) w = Inr v"
    using Cons.prems [of "relayerRewardAddress x" "feeTokenAddress (feeInfo (sentMessageInfo w c (receivedMessageID x)))"]
      le [of "relayerRewardAddress x" "feeTokenAddress (feeInfo (sentMessageInfo w c (receivedMessageID x)))"]
    by (auto simp: markReceipt_def Let_def receipt_credit_def checked_add_Inr split: if_splits)
  then obtain v where v: "markReceipt c (receivedMessageID x) (relayerRewardAddress x) w = Inr v" ..
  note e = markReceipt_effect [OF v]
  have "messageHash (sentMessageInfo v c (receivedMessageID x)) = 0"
    "\<And>m. m \<noteq> receivedMessageID x \<Longrightarrow> sentMessageInfo v c m = sentMessageInfo w c m"
    by (simp_all add: e(2) zero_sentInfo_def)
  note cc = credit_Cons [OF this]
  have "unat (relayerRewardAmounts v r t) + credit v c rs r t < 2 ^ 256" for r t
    using Cons.prems [of r t] cc [of rs r t] e(1) [of r t] by simp
  then obtain w1 where "markReceipts c rs v = Inr w1" using Cons.IH by blast
  then show ?case using v by auto
qed simp

subsection \<open>Deliveries and executions\<close>

text \<open>
  C1: After a successful delivery, however long the messenger runs and however often it is
  re-entered, no further call delivers a message with the same source chain and ID again: it
  reverts, and the deliverer recorded first stays.
\<close>

theorem delivered_once:
  assumes rc: "receiveCrossChainMessage E idx ra w = Inr (u, w1)"
    and ext: "externals (interacts Out Pay Hon) Out Pay E"
    and wm: "getVerifiedWarpMessage E idx (outside w) = (wm, True)"
    and msg: "abi_decode E (payload wm) = Some msg"
    and later: "interacts Out Pay Hon w1 w2"
    and wm': "getVerifiedWarpMessage E' idx' (outside w2) = (wm', True)"
    and msg': "abi_decode E' (payload wm') = Some msg'"
    and same: "sourceChainID wm' = sourceChainID wm" "messageID msg' = messageID msg"
  shows "getRelayerRewardAddress (sourceChainID wm) (messageID msg) w2 = ra \<and>
    messageReceived (sourceChainID wm) (messageID msg) w2 \<and>
    (\<exists>e. receiveCrossChainMessage E' idx' ra' w2 = Inl e)"
proof -
  have ext': "externals deliveries_kept Out Pay E"
    using ext by (rule deliveries.lift_externals)
  have first: "ra \<noteq> 0 \<and> relayerRewardAddresses w1 (sourceChainID wm) (messageID msg) = ra"
    using ext' rc wm msg by (rule deliveries_kept_receive_sets)
  have kept: "deliveries_kept w1 w2" using later by (rule deliveries.lift)
  then have r: "relayerRewardAddresses w2 (sourceChainID wm) (messageID msg) = ra"
    using first by (simp add: deliveries_kept_def)
  have "receiveCrossChainMessage E' idx' ra' w2 \<noteq> Inr (v, w3)" for v w3
    using first r wm' msg' same by (auto elim!: receiveCrossChainMessage_Inr)
  then have "\<exists>e. receiveCrossChainMessage E' idx' ra' w2 = Inl e"
    by (cases "receiveCrossChainMessage E' idx' ra' w2") auto
  with r first show ?thesis
    by (simp add: getRelayerRewardAddress_def messageReceived_def messageReceived_internal_def)
qed

theorem delivered_once_witness:
  "getRelayerRewardAddress 7 3 demo_received = 2 \<and> messageReceived 7 3 demo_received \<and>
    (\<exists>e. receiveCrossChainMessage demo_env 1 4 demo_received = Inl e)"
  using delivered_once [OF demo_receive demo_externals _ _ interacts.stop,
      of "\<lparr>sourceChainID = 7, originSenderAddress = 1, payload = []\<rparr>" demo_message
        demo_env 1 "\<lparr>sourceChainID = 7, originSenderAddress = 1, payload = []\<rparr>" demo_message 4]
  by (simp add: demo_message_def)

text \<open>
  C2: From deployment on, whatever anyone calls and however the calls nest, every message of a
  source chain is executed at most once; a message waiting for a retry has not been executed yet
  and has been delivered.
\<close>

theorem executed_at_most_once:
  assumes "interacts Out Pay Hon (deployed x) w"
  shows "count_list (logs w) (LogMessageExecuted origin mid) \<le> 1 \<and>
    (receivedFailedMessageHashes w origin mid \<noteq> 0 \<longrightarrow>
       count_list (logs w) (LogMessageExecuted origin mid) = 0 \<and> messageReceived origin mid w)"
proof -
  have "exec_safe (deployed x) w" using assms by (rule exec.lift)
  then have "exec_inv w" using exec_inv_deployed by (rule exec_safe_D)
  then show ?thesis
    by (simp add: exec_inv_def executions_def messageReceived_def messageReceived_internal_def)
qed

theorem executed_at_most_once_witness:
  "count_list (logs demo_received) (LogMessageExecuted 7 3) \<le> 1"
  using executed_at_most_once [of demo_out demo_pay "honest_token 9 id" 100 demo_received 7 3]
    demo_op [of "Receive 0 2" demo_world demo_received]
  by (simp add: demo_receive flip: demo_world_def)

text \<open>
  C17: While the messenger is delivering or retrying a message, nothing that the recipient, or
  anyone it calls, does can change which messages are delivered, executed or waiting for a
  retry, nor which chain the messenger believes to be on: in particular every nested delivery
  or retry reverts.
\<close>

theorem receiving_is_exclusive:
  assumes "receiveEntered w = ENTERED" and "interacts Out Pay Hon w w'"
  shows "receiveEntered w' = ENTERED \<and> blockchainID w' = blockchainID w \<and>
    relayerRewardAddresses w' = relayerRewardAddresses w \<and>
    receivedFailedMessageHashes w' = receivedFailedMessageHashes w \<and>
    executions w' = executions w \<and>
    receiveCrossChainMessage E idx ra w'
      = Inl (Revert ''ReentrancyGuards: receiver reentrancy'') \<and>
    retryMessageExecution E origin msg w'
      = Inl (Revert ''ReentrancyGuards: receiver reentrancy'')"
proof -
  have l: "receiver_locked w w'" using assms(2) by (rule rlock.lift)
  then have e: "receiveEntered w' \<noteq> NOT_ENTERED" using assms(1) by (simp add: receiver_locked_def)
  have "receiveCrossChainMessage E idx ra w'
      = Inl (Revert ''ReentrancyGuards: receiver reentrancy'')"
    unfolding receiveCrossChainMessage_def by (rule receive_guard.blocked [OF e])
  moreover have "retryMessageExecution E origin msg w'
      = Inl (Revert ''ReentrancyGuards: receiver reentrancy'')"
    unfolding retryMessageExecution_def by (rule receive_guard.blocked [OF e])
  ultimately show ?thesis using l assms(1) by (simp add: receiver_locked_def)
qed

theorem receiving_is_exclusive_witness:
  "receiveCrossChainMessage demo_env 0 2 (demo_world\<lparr>receiveEntered := ENTERED\<rparr>)
     = Inl (Revert ''ReentrancyGuards: receiver reentrancy'')"
  using receiving_is_exclusive [OF _ interacts.stop, of "demo_world\<lparr>receiveEntered := ENTERED\<rparr>"]
  by simp

subsection \<open>Sending\<close>

text \<open>
  A run in which messages are sent to the chain \<open>c\<close>: \<open>ids\<close> are the IDs that sends returned, in
  order, by either of the two sending functions, with any interaction before, between and after.
\<close>

definition closed_env ::
  "('x \<Rightarrow> 'x \<Rightarrow> bool) \<Rightarrow> (address \<Rightarrow> address \<Rightarrow> uint256 \<Rightarrow> 'x \<Rightarrow> 'x \<Rightarrow> bool) \<Rightarrow> ('x env \<Rightarrow> bool)
    \<Rightarrow> 'x env \<Rightarrow> bool" where
  "closed_env Out Pay Hon E \<longleftrightarrow> externals (interacts Out Pay Hon) Out Pay E"

inductive numbered_run ::
  "('x \<Rightarrow> 'x \<Rightarrow> bool) \<Rightarrow> (address \<Rightarrow> address \<Rightarrow> uint256 \<Rightarrow> 'x \<Rightarrow> 'x \<Rightarrow> bool) \<Rightarrow> ('x env \<Rightarrow> bool)
    \<Rightarrow> bytes32 \<Rightarrow> 'x world \<Rightarrow> uint256 list \<Rightarrow> 'x world \<Rightarrow> bool"
  for Out Pay Hon c w where
  quiet: "interacts Out Pay Hon w w' \<Longrightarrow> numbered_run Out Pay Hon c w [] w'"
| message: "numbered_run Out Pay Hon c w ids v \<Longrightarrow> closed_env Out Pay Hon E \<Longrightarrow>
    sendCrossChainMessage E inp v = Inr (mid, v') \<Longrightarrow> in_destinationBlockchainID inp = c \<Longrightarrow>
    interacts Out Pay Hon v' w' \<Longrightarrow> numbered_run Out Pay Hon c w (ids @ [mid]) w'"
| receipts_only: "numbered_run Out Pay Hon c w ids v \<Longrightarrow> closed_env Out Pay Hon E \<Longrightarrow>
    sendSpecifiedReceipts E c mids fee allowed v = Inr (mid, v') \<Longrightarrow>
    interacts Out Pay Hon v' w' \<Longrightarrow> numbered_run Out Pay Hon c w (ids @ [mid]) w'"

lemma ids_grow_receipts:
  assumes "externals ids_grow Out Pay E" and "sendSpecifiedReceipts E c mids fee allowed w = Inr (mid, w')"
  shows "latestMessageIDs w c < mid" "mid \<le> latestMessageIDs w' c"
  using assms(2)
  by (rule sendSpecifiedReceipts_Inr, fastforce dest!: ids_grow_send [OF assms(1)])+

lemma numbered_run_ids:
  assumes "numbered_run Out Pay Hon c w ids w'"
  shows "sorted_wrt (<) ids \<and> (\<forall>m \<in> set ids. latestMessageIDs w c < m \<and> m \<le> latestMessageIDs w' c) \<and>
    latestMessageIDs w c \<le> latestMessageIDs w' c"
  using assms
proof (induction rule: numbered_run.induct)
  case (quiet w')
  then show ?case using ids.lift ids_grow_def by fastforce
next
  case (message ids v E inp mid v' w')
  have e: "externals ids_grow Out Pay E" using message.hyps(2) unfolding closed_env_def by (rule ids.lift_externals)
  have "latestMessageIDs v c < mid" "mid \<le> latestMessageIDs v' c" "latestMessageIDs v' c \<le> latestMessageIDs w' c"
    using ids_grow_sendCross [OF e message.hyps(3)] message.hyps(4) ids.lift [OF message.hyps(5)]
    by (auto simp: ids_grow_def)
  then show ?case using message.IH by (fastforce simp: sorted_wrt_append)
next
  case (receipts_only ids v E mids fee allowed mid v' w')
  have e: "externals ids_grow Out Pay E" using receipts_only.hyps(2) unfolding closed_env_def by (rule ids.lift_externals)
  have "latestMessageIDs v c < mid" "mid \<le> latestMessageIDs v' c" "latestMessageIDs v' c \<le> latestMessageIDs w' c"
    using ids_grow_receipts [OF e receipts_only.hyps(3)] ids.lift [OF receipts_only.hyps(4)]
    by (auto simp: ids_grow_def)
  then show ?case using receipts_only.IH by (fastforce simp: sorted_wrt_append)
qed

text \<open>
  C19: The message IDs of one destination strictly increase over any run of the contract: the IDs
  that the two sending functions return, in any order, with any interaction before, between and
  after the sends, are strictly increasing and larger than all earlier ones, so an ID is never used
  twice for a destination.
\<close>

theorem message_ids_increase:
  assumes "numbered_run Out Pay Hon c w ids w'"
  shows "sorted_wrt (<) ids \<and> (\<forall>m \<in> set ids. latestMessageIDs w c < m \<and> m \<le> latestMessageIDs w' c)"
  using numbered_run_ids [OF assms] by blast

theorem message_ids_increase_witness:
  "\<exists>mid w. sendSpecifiedReceipts demo_env 7 [] (demo_fee 0) [] demo_sent = Inr (mid, w) \<and> 1 < mid"
proof -
  have "\<exists>mid w. sendSpecifiedReceipts demo_env 7 [] (demo_fee 0) [] demo_sent = Inr (mid, w)"
    unfolding demo_sent_def
    by (simp add: sendCrossChainMessage_def sendSpecifiedReceipts_def demo_steps)
  then obtain mid w where r: "sendSpecifiedReceipts demo_env 7 [] (demo_fee 0) [] demo_sent = Inr (mid, w)"
    by blast
  have "numbered_run demo_out demo_pay (honest_token 9 id) 7 demo_world ([] @ [1]) demo_sent"
    by (rule numbered_run.message [OF numbered_run.quiet demo_externals [folded closed_env_def] demo_send])
      (simp_all add: interacts.stop)
  then have "numbered_run demo_out demo_pay (honest_token 9 id) 7 demo_world (([] @ [1]) @ [mid]) w"
    by (rule numbered_run.receipts_only [OF _ demo_externals [folded closed_env_def] r interacts.stop])
  from message_ids_increase [OF this] r show ?thesis by auto
qed

text \<open>
  C15: A successful send records under the new ID the hash of exactly the message it logs, with
  the caller's arguments and the fee that the transfer of it actually delivered, and the message carries the
  (at most five) oldest receipts that were waiting for the destination, in order.
\<close>

theorem send_carries_oldest_receipts:
  assumes "sendCrossChainMessage E inp w = Inr (mid, w')"
    and "queue_wf (receiptQueues w (in_destinationBlockchainID inp))"
  shows "\<exists>fee. feeTokenAddress fee = feeTokenAddress (in_feeInfo inp) \<and>
    (feeAmount (in_feeInfo inp) = 0 \<longleftrightarrow> feeAmount fee = 0) \<and>
    last (logs w') = LogSendCrossChainMessage (in_destinationBlockchainID inp) mid
      (sent_message E inp mid
        (take 5 (queue_list (receiptQueues w (in_destinationBlockchainID inp))))) fee \<and>
    sentMessageInfo w' (in_destinationBlockchainID inp) mid =
      \<lparr>messageHash = keccak256 E (abi_encode E (sent_message E inp mid
         (take 5 (queue_list (receiptQueues w (in_destinationBlockchainID inp)))))),
       feeInfo = fee\<rparr> \<and>
    (feeAmount (in_feeInfo inp) \<noteq> 0 \<longrightarrow> (\<exists>q w2.
       queue_list q = drop 5 (queue_list (receiptQueues w (in_destinationBlockchainID inp))) \<and>
       safeTransferFrom E (feeTokenAddress (in_feeInfo inp)) (feeAmount (in_feeInfo inp))
         (w\<lparr>sendEntered := ENTERED,
            receiptQueues := (receiptQueues w)(in_destinationBlockchainID inp := q),
            latestMessageIDs := (latestMessageIDs w)(in_destinationBlockchainID inp := mid)\<rparr>)
       = Inr (feeAmount fee, w2)))"
proof -
  from assms(1) obtain rs q w1 where
    q: "getOutstandingReceiptsToSend (receiptQueues w (in_destinationBlockchainID inp)) = Inr (rs, q)"
    and s: "sendTeleporterMessage E inp rs
       (w\<lparr>sendEntered := ENTERED,
          receiptQueues := (receiptQueues w)(in_destinationBlockchainID inp := q)\<rparr>)
       = Inr (mid, w1)"
    and w': "w' = w1\<lparr>sendEntered := NOT_ENTERED\<rparr>"
    by (rule sendCrossChainMessage_Inr)
  have rs: "rs = take 5 (queue_list (receiptQueues w (in_destinationBlockchainID inp)))"
    and ql: "queue_list q = drop 5 (queue_list (receiptQueues w (in_destinationBlockchainID inp)))"
    using outstanding_refines_take [OF assms(2)] q by auto
  from sendTeleporterMessage_records [OF s] obtain fee where fee:
    "feeTokenAddress fee = feeTokenAddress (in_feeInfo inp)"
    "feeAmount (in_feeInfo inp) = 0 \<longleftrightarrow> feeAmount fee = 0"
    "last (logs w1) = LogSendCrossChainMessage (in_destinationBlockchainID inp) mid
      (sent_message E inp mid rs) fee"
    "sentMessageInfo w1 (in_destinationBlockchainID inp) mid =
      \<lparr>messageHash = keccak256 E (abi_encode E (sent_message E inp mid rs)), feeInfo = fee\<rparr>"
    "feeAmount (in_feeInfo inp) \<noteq> 0 \<longrightarrow> (\<exists>w2.
       safeTransferFrom E (feeTokenAddress (in_feeInfo inp)) (feeAmount (in_feeInfo inp))
         (w\<lparr>sendEntered := ENTERED,
            receiptQueues := (receiptQueues w)(in_destinationBlockchainID inp := q),
            latestMessageIDs := (latestMessageIDs w)(in_destinationBlockchainID inp := mid)\<rparr>)
       = Inr (feeAmount fee, w2))" by auto
  show ?thesis
    by (rule exI [of _ fee]) (use fee ql in \<open>simp add: w' rs; blast\<close>)
qed

theorem send_carries_oldest_receipts_witness:
  "\<exists>fee. last (logs demo_sent) =
    LogSendCrossChainMessage 7 1 (sent_message demo_env (demo_input 4) 1 []) fee"
  using send_carries_oldest_receipts [OF demo_send]
  by auto

text \<open>
  Without a fee, a send to a chain with free IDs always succeeds once the Warp precompile
  accepts the message: it removes exactly the receipts it carries from the queue and changes
  nothing else but the ID counter, the new entry and the log.
\<close>

theorem send_without_fee:
  assumes "sendEntered w = NOT_ENTERED"
    and "queue_wf (receiptQueues w c)"
    and "unat (latestMessageIDs w c) + 1 < 2 ^ 256"
    and "c = in_destinationBlockchainID inp" and "feeAmount (in_feeInfo inp) = 0"
    and "mid = latestMessageIDs w c + 1"
    and "msg = sent_message E inp mid (take 5 (queue_list (receiptQueues w c)))"
    and "sendWarpMessage E (abi_encode E msg) (outside w) = Inr x"
  shows "\<exists>q. queue_list q = drop 5 (queue_list (receiptQueues w c)) \<and>
    sendCrossChainMessage E inp w = Inr (mid,
      w\<lparr>latestMessageIDs := (latestMessageIDs w)(c := mid),
        receiptQueues := (receiptQueues w)(c := q),
        sentMessageInfo := upd2 (sentMessageInfo w) c mid
          \<lparr>messageHash = keccak256 E (abi_encode E msg), feeInfo = (in_feeInfo inp)\<rparr>,
        logs := logs w @ [LogSendCrossChainMessage c mid msg (in_feeInfo inp)],
        outside := x\<rparr>)"
proof -
  obtain q where q: "getOutstandingReceiptsToSend (receiptQueues w c)
      = Inr (take 5 (queue_list (receiptQueues w c)), q)"
    "queue_list q = drop 5 (queue_list (receiptQueues w c))"
    using outstanding_refines_take [OF assms(2)] by blast
  have fee: "\<lparr>feeTokenAddress = feeTokenAddress (in_feeInfo inp), feeAmount = 0\<rparr> = in_feeInfo inp"
    using assms(5) by simp
  let ?w = "w\<lparr>latestMessageIDs := (latestMessageIDs w)(c := mid),
        receiptQueues := (receiptQueues w)(c := q),
        sentMessageInfo := upd2 (sentMessageInfo w) c mid
          \<lparr>messageHash = keccak256 E (abi_encode E msg), feeInfo = (in_feeInfo inp)\<rparr>,
        logs := logs w @ [LogSendCrossChainMessage c mid msg (in_feeInfo inp)],
        outside := x\<rparr>"
  have "sendTeleporterMessage E inp (take 5 (queue_list (receiptQueues w c)))
      (w\<lparr>sendEntered := ENTERED, receiptQueues := (receiptQueues w)(c := q)\<rparr>)
      = Inr (mid, ?w\<lparr>sendEntered := ENTERED\<rparr>)"
    using assms(3,5,8)
    by (auto simp: sendTeleporterMessage_def getNextMessageID_internal_def checked_add_def
        emit_def Let_def sent_message_def assms(6,7) fee simp flip: assms(4)
        intro: world.equality)
  then have "sendCrossChainMessage E inp w
      = Inr (mid, ?w\<lparr>sendEntered := ENTERED, sendEntered := NOT_ENTERED\<rparr>)"
    using assms(1) q(1)
    by (simp add: sendCrossChainMessage_def send_guard.runs flip: assms(4))
  also have "?w\<lparr>sendEntered := ENTERED, sendEntered := NOT_ENTERED\<rparr> = ?w"
    using assms(1) by (intro world.equality) simp_all
  finally show ?thesis using q(2) by blast
qed

theorem send_without_fee_witness:
  "\<exists>w'. sendCrossChainMessage demo_env (demo_input 0) demo_world = Inr (1, w') \<and> outside w' = 100"
proof -
  have "sendEntered demo_world = NOT_ENTERED" "queue_wf (receiptQueues demo_world 7)"
    "unat (latestMessageIDs demo_world 7) + 1 < 2 ^ 256"
    "7 = in_destinationBlockchainID (demo_input 0)" "feeAmount (in_feeInfo (demo_input 0)) = 0"
    "1 = latestMessageIDs demo_world 7 + 1"
    by simp_all
  note send = send_without_fee [OF this refl]
  have "sendWarpMessage demo_env bs (outside demo_world) = Inr 100" for bs by simp
  from send [OF this] show ?thesis by auto
qed

text \<open>
  C18: While a message is being sent or its fee raised, nothing that the token contract does can
  allocate a message ID, or create or change a sent-message entry: entries can only disappear,
  when a receipt for them is delivered. In particular a nested send, resend or fee increase
  reverts.
\<close>

theorem sending_is_exclusive:
  assumes "sendEntered w = ENTERED" and "interacts Out Pay Hon w w'"
  shows "sendEntered w' = ENTERED \<and> latestMessageIDs w' = latestMessageIDs w \<and>
    (\<forall>c m. sentMessageInfo w' c m = sentMessageInfo w c m \<or>
       sentMessageInfo w' c m = zero_sentInfo) \<and>
    sendCrossChainMessage E inp w' = Inl (Revert ''ReentrancyGuards: sender reentrancy'') \<and>
    retrySendCrossChainMessage E c msg w'
      = Inl (Revert ''ReentrancyGuards: sender reentrancy'') \<and>
    addFeeAmount E c mid t amt w' = Inl (Revert ''ReentrancyGuards: sender reentrancy'') \<and>
    sendSpecifiedReceipts E c mids fee allowed w'
      = Inl (Revert ''ReentrancyGuards: sender reentrancy'')"
proof -
  have l: "sender_locked w w'" using assms(2) by (rule slock.lift)
  then have e: "sendEntered w' \<noteq> NOT_ENTERED" using assms(1) by (simp add: sender_locked_def)
  note blocked = send_guard.blocked [OF e]
  show ?thesis
    using l assms(1)
    by (simp add: sender_locked_def sent_shrinks_def blocked sendCrossChainMessage_def
        retrySendCrossChainMessage_def addFeeAmount_def sendSpecifiedReceipts_def)
qed

theorem sending_is_exclusive_witness:
  "sendCrossChainMessage demo_env (demo_input 0) (demo_world\<lparr>sendEntered := ENTERED\<rparr>)
     = Inl (Revert ''ReentrancyGuards: sender reentrancy'')"
  using sending_is_exclusive [OF _ interacts.stop, of "demo_world\<lparr>sendEntered := ENTERED\<rparr>"]
  by simp

text \<open>
  A message that was sent can be sent again by anyone, with the same contents and at no fee,
  as long as no receipt for it has arrived: the call logs the message again with its current fee
  and changes neither entries nor IDs nor queues.
\<close>

theorem sent_message_can_be_resent:
  assumes "sentMessageInfo w c (messageID msg) = \<lparr>messageHash = keccak256 E (abi_encode E msg), feeInfo = fee\<rparr>"
    and "keccak256 E (abi_encode E msg) \<noteq> 0" and "sendEntered w = NOT_ENTERED"
    and "sendWarpMessage E (abi_encode E msg) (outside w) = Inr x"
  shows "retrySendCrossChainMessage E c msg w = Inr ((),
      w\<lparr>logs := logs w @ [LogSendCrossChainMessage c (messageID msg) msg fee], outside := x\<rparr>)"
proof -
  have "retrySendCrossChainMessage E c msg w = Inr ((), w\<lparr>sendEntered := NOT_ENTERED,
      logs := logs w @ [LogSendCrossChainMessage c (messageID msg) msg fee], outside := x\<rparr>)"
    using assms by (simp add: retrySendCrossChainMessage_def send_guard.runs emit_def Let_def)
  also have "w\<lparr>sendEntered := NOT_ENTERED,
      logs := logs w @ [LogSendCrossChainMessage c (messageID msg) msg fee], outside := x\<rparr>
    = w\<lparr>logs := logs w @ [LogSendCrossChainMessage c (messageID msg) msg fee], outside := x\<rparr>"
    using assms(3) by (intro world.equality) simp_all
  finally show ?thesis .
qed

theorem sent_message_can_be_resent_witness:
  "\<exists>w. retrySendCrossChainMessage demo_env 7 (sent_message demo_env (demo_input 4) 1 []) demo_sent
     = Inr ((), w)"
  using sent_message_can_be_resent [of demo_sent 7 "sent_message demo_env (demo_input 4) 1 []"
      demo_env "demo_fee 4" "outside demo_sent"]
  unfolding demo_sent_def
  by (simp add: sendCrossChainMessage_def demo_steps sent_message_def)

text \<open>
  \<open>sendSpecifiedReceipts\<close> carries exactly the requested receipts: if it succeeds, every
  requested message had been delivered, the message sent lists those messages in the requested
  order with the relayers recorded for them, and it has no payload; if one of them was never
  delivered, the call reverts.
\<close>

theorem specified_receipts_are_genuine:
  "(\<forall>mid w'. sendSpecifiedReceipts E origin mids fee allowed w = Inr (mid, w') \<longrightarrow>
     (\<forall>m \<in> set mids. messageReceived origin m w) \<and>
     (\<exists>fee' msg. last (logs w') = LogSendCrossChainMessage origin mid msg fee' \<and>
        messageBytes msg = [] \<and> allowedRelayerAddresses msg = allowed \<and>
        map receivedMessageID (receipts msg) = mids \<and>
        map relayerRewardAddress (receipts msg)
          = map (\<lambda>m. getRelayerRewardAddress origin m w) mids)) \<and>
   (sendEntered w = NOT_ENTERED \<and> \<not> (\<forall>m \<in> set mids. messageReceived origin m w) \<longrightarrow>
     sendSpecifiedReceipts E origin mids fee allowed w
       = Inl (Revert ''TeleporterMessenger: receipt not found''))"
proof (rule conjI; (intro allI impI)?)
  fix mid w'
  assume s: "sendSpecifiedReceipts E origin mids fee allowed w = Inr (mid, w')"
  show "(\<forall>m \<in> set mids. messageReceived origin m w) \<and>
     (\<exists>fee' msg. last (logs w') = LogSendCrossChainMessage origin mid msg fee' \<and>
        messageBytes msg = [] \<and> allowedRelayerAddresses msg = allowed \<and>
        map receivedMessageID (receipts msg) = mids \<and>
        map relayerRewardAddress (receipts msg)
          = map (\<lambda>m. getRelayerRewardAddress origin m w) mids)"
    using s
  proof (rule sendSpecifiedReceipts_Inr, goal_cases)
    case (1 rs w1)
    from 1(2) have c: "\<forall>m \<in> set mids. messageReceived origin m w"
      "map receivedMessageID rs = mids"
      "map relayerRewardAddress rs = map (\<lambda>m. getRelayerRewardAddress origin m w) mids"
      by (simp_all add: collectReceipts_Inr messageReceived_def messageReceived_internal_def
          getRelayerRewardAddress_def o_def)
    from sendTeleporterMessage_records [OF 1(3)] obtain fee' where
      "last (logs w') = LogSendCrossChainMessage origin mid
        (sent_message E \<lparr>in_destinationBlockchainID = origin, in_destinationAddress = 0,
          in_feeInfo = fee, in_requiredGasLimit = 0,
          in_allowedRelayerAddresses = allowed, in_message = []\<rparr> mid rs) fee'"
      by (auto simp: 1(4))
    with c show ?case by (auto simp: sent_message_def)
  qed
next
  assume a: "sendEntered w = NOT_ENTERED \<and> \<not> (\<forall>m \<in> set mids. messageReceived origin m w)"
  then have "collectReceipts origin mids (w\<lparr>sendEntered := ENTERED\<rparr>)
      = Inl (Revert ''TeleporterMessenger: receipt not found'')"
    by (intro collectReceipts_missing)
      (simp add: messageReceived_def messageReceived_internal_def)
  with a show "sendSpecifiedReceipts E origin mids fee allowed w
       = Inl (Revert ''TeleporterMessenger: receipt not found'')"
    by (simp add: sendSpecifiedReceipts_def send_guard.runs)
qed

theorem specified_receipts_are_genuine_witness:
  "sendSpecifiedReceipts demo_env 7 [3, 4] (demo_fee 0) [] demo_received
     = Inl (Revert ''TeleporterMessenger: receipt not found'')"
  using specified_receipts_are_genuine [of demo_env 7 "[3, 4]" "demo_fee 0" "[]" demo_received]
  unfolding demo_received_def
  by (simp add: receiveCrossChainMessage_def demo_steps messageReceived_def)

subsection \<open>Receiving\<close>

text \<open>
  C20: A recipient that reverts, runs out of gas or does not exist cannot block a delivery: the
  message is delivered all the same, its hash is kept for a retry, nothing is counted as executed,
  the receipts it carries are paid, and the receipt for the relayer is appended to the queue of the
  source chain. This is for any delivery that passes the contract's checks, the first one included,
  as long as the rewards it pays do not exceed the range of a \<open>uint256\<close>.
\<close>

theorem failing_recipient_is_delivered:
  assumes "receiveEntered w = NOT_ENTERED" and "ra \<noteq> 0"
    and "getVerifiedWarpMessage E idx (outside w) = (wm, True)"
    and "originSenderAddress wm = this_address E"
    and "abi_decode E (payload wm) = Some msg"
    and "chain = (if blockchainID w = 0 then getBlockchainID E (outside w) else blockchainID w)"
    and "destinationBlockchainID msg = chain"
    and "\<not> messageReceived (sourceChainID wm) (messageID msg) w"
    and "checkIsAllowedRelayer (msg_sender E) (allowedRelayerAddresses msg)"
    and "messageBytes msg \<noteq> []"
    and "w2 = w\<lparr>receiveEntered := ENTERED, blockchainID := chain, relayerRewardAddresses :=
      upd2 (relayerRewardAddresses w) (sourceChainID wm) (messageID msg) ra\<rparr>"
    and "requiredGasLimit msg \<le> gasleft E w2"
    and "code_length E (destinationAddress msg) w2 = 0 \<or>
      call_contract E (destinationAddress msg) (requiredGasLimit msg)
        (encode_receive_call E (sourceChainID wm) (senderAddress msg) (messageBytes msg)) w2 = Inl e"
    and "\<And>r t. unat (relayerRewardAmounts w r t) +
      credit w (sourceChainID wm) (receipts msg) r t < 2 ^ 256"
    and "queue_wf (receiptQueues w (sourceChainID wm))"
    and "queue_room (receiptQueues w (sourceChainID wm))"
  shows "\<exists>w'. receiveCrossChainMessage E idx ra w = Inr ((), w') \<and>
    getRelayerRewardAddress (sourceChainID wm) (messageID msg) w' = ra \<and>
    receivedFailedMessageHashes w' (sourceChainID wm) (messageID msg)
      = keccak256 E (abi_encode E msg) \<and>
    executions w' = executions w \<and>
    (\<forall>r t. unat (checkRelayerRewardAmount r t w') = unat (checkRelayerRewardAmount r t w) +
      credit w (sourceChainID wm) (receipts msg) r t) \<and>
    queue_list (receiptQueues w' (sourceChainID wm))
      = queue_list (receiptQueues w (sourceChainID wm))
        @ [\<lparr>receivedMessageID = messageID msg, relayerRewardAddress = ra\<rparr>]"
proof -
  let ?c = "sourceChainID wm"
  let ?r = "\<lparr>receivedMessageID = messageID msg, relayerRewardAddress = ra\<rparr>"
  let ?w3 = "storeFailedMessageExecution E ?c msg w2"
  have same: "sentMessageInfo ?w3 = sentMessageInfo w" "relayerRewardAmounts ?w3 = relayerRewardAmounts w"
    by (simp_all add: storeFailedMessageExecution_def emit_def assms(11))
  then have cr: "credit ?w3 ?c (receipts msg) r t = credit w ?c (receipts msg) r t" for r t
    by (simp add: credit_def receipt_credit_def)
  obtain w4 where w4: "markReceipts ?c (receipts msg) ?w3 = Inr w4"
    using markReceipts_succeeds [of ?w3 ?c "receipts msg"] assms(14) by (auto simp: same cr)
  note mr = markReceipts_frame [OF w4]
  obtain q where q: "enqueue (receiptQueues w ?c) ?r = Inr q"
    using rq.enq_room assms(15,16) by blast
  then have ql: "queue_list q = queue_list (receiptQueues w ?c) @ [?r]"
    using enqueue_contents assms(15) by blast
  have q4: "enqueue (receiptQueues w4 ?c) ?r = Inr q"
    using q by (simp add: mr storeFailedMessageExecution_def emit_def assms(11))
  have h: "handleInitialMessageExecution E ?c msg w2 = Inr ?w3"
    using assms(12,13) by (auto simp: handleInitialMessageExecution_def tryExecuteMessage_def Let_def)
  let ?w' = "emit (LogReceiveCrossChainMessage ?c (messageID msg) (msg_sender E) ra msg)
    (w4\<lparr>receiptQueues := (receiptQueues w4)(?c := q)\<rparr>)\<lparr>receiveEntered := NOT_ENTERED\<rparr>"
  have "receiveCrossChainMessage E idx ra w = Inr ((), ?w')"
    using assms(1-10) h q4 w4
    by (cases "blockchainID w = 0")
      (simp_all add: receiveCrossChainMessage_def receive_guard.runs messageReceived_def
        messageReceived_internal_def Let_def assms(11))
  moreover have "executions ?w' = executions w"
    by (simp add: executions_def emit_def storeFailedMessageExecution_def assms(11) mr)
  moreover have "getRelayerRewardAddress ?c (messageID msg) ?w' = ra"
    "receivedFailedMessageHashes ?w' ?c (messageID msg) = keccak256 E (abi_encode E msg)"
    by (simp_all add: emit_def storeFailedMessageExecution_def assms(11) getRelayerRewardAddress_def mr)
  moreover have "\<forall>r t. unat (checkRelayerRewardAmount r t ?w') = unat (checkRelayerRewardAmount r t w) +
      credit w ?c (receipts msg) r t"
    using markReceipts_effect [OF w4]
    by (simp add: emit_def checkRelayerRewardAmount_def same cr)
  moreover have "queue_list (receiptQueues ?w' ?c) = queue_list (receiptQueues w ?c) @ [?r]"
    using ql by (simp add: emit_def)
  ultimately show ?thesis by blast
qed

lemma demo_sent_simps:
  "receiveEntered demo_sent = NOT_ENTERED" "blockchainID demo_sent = 0"
  "relayerRewardAddresses demo_sent c m = 0" "relayerRewardAmounts demo_sent r t = 0"
  "receiptQueues demo_sent c = empty_queue"
  "messageHash (sentMessageInfo demo_sent 7 1) = 2" "feeInfo (sentMessageInfo demo_sent 7 1) = demo_fee 4"
  by (simp_all add: demo_sent_def sendCrossChainMessage_def demo_steps sent_message_def)

theorem failing_recipient_is_delivered_witness:
  "\<exists>w'. receiveCrossChainMessage (demo_env\<lparr>abi_decode := \<lambda>bs. Some
        (demo_message\<lparr>receipts := [demo_receipt 1]\<rparr>), call_contract := \<lambda>a g bs w. Inl (Revert [])\<rparr>) 0 2
      demo_sent = Inr ((), w') \<and> unat (checkRelayerRewardAmount 4 9 w') = 4"
proof -
  let ?m = "demo_message\<lparr>receipts := [demo_receipt 1]\<rparr>"
  let ?E = "demo_env\<lparr>abi_decode := \<lambda>bs. Some ?m, call_contract := \<lambda>a g bs w. Inl (Revert [])\<rparr>"
  let ?wm = "\<lparr>sourceChainID = 7, originSenderAddress = 1, payload = []\<rparr>"
  have c: "credit demo_sent 7 [demo_receipt 1] r t = (if r = 4 \<and> t = 9 then 4 else 0)" for r t
    by (simp add: credit_def receipt_credit_def demo_receipt_def demo_sent_simps demo_fee_def)
  have room: "unat (relayerRewardAmounts demo_sent r t) + credit demo_sent (sourceChainID ?wm) (receipts ?m) r t
      < 2 ^ 256" for r t
    by (simp add: c demo_sent_simps)
  have pre: "receiveEntered demo_sent = NOT_ENTERED" "(2 :: address) \<noteq> 0"
    "getVerifiedWarpMessage ?E 0 (outside demo_sent) = (?wm, True)"
    "originSenderAddress ?wm = this_address ?E" "abi_decode ?E (payload ?wm) = Some ?m"
    "5 = (if blockchainID demo_sent = 0 then getBlockchainID ?E (outside demo_sent) else blockchainID demo_sent)"
    "destinationBlockchainID ?m = 5"
    "\<not> messageReceived (sourceChainID ?wm) (messageID ?m) demo_sent"
    "checkIsAllowedRelayer (msg_sender ?E) (allowedRelayerAddresses ?m)" "messageBytes ?m \<noteq> []"
    by (simp_all add: demo_sent_simps demo_message_def messageReceived_def messageReceived_internal_def
        checkIsAllowedRelayer_def)
  let ?w = "demo_sent\<lparr>receiveEntered := ENTERED, blockchainID := 5, relayerRewardAddresses :=
      upd2 (relayerRewardAddresses demo_sent) (sourceChainID ?wm) (messageID ?m) 2\<rparr>"
  have gas: "requiredGasLimit ?m \<le> gasleft ?E ?w" by (simp add: demo_message_def)
  have fails: "code_length ?E (destinationAddress ?m) ?w = 0 \<or>
      call_contract ?E (destinationAddress ?m) (requiredGasLimit ?m)
        (encode_receive_call ?E (sourceChainID ?wm) (senderAddress ?m) (messageBytes ?m)) ?w = Inl (Revert [])"
    by simp
  have q: "queue_wf (receiptQueues demo_sent (sourceChainID ?wm))"
    "queue_room (receiptQueues demo_sent (sourceChainID ?wm))"
    by (simp_all add: demo_sent_simps) (simp add: queue_room_def empty_queue_def)
  from failing_recipient_is_delivered [OF pre refl gas fails room q] show ?thesis
    by (auto simp: c checkRelayerRewardAmount_def demo_sent_simps)
qed

text \<open>
  C21: A message whose execution failed can be retried by anyone with the same contents, and once
  its recipient accepts it, the retry succeeds, counts as its execution, and can never be
  repeated, whatever the recipient does during the call.
\<close>

theorem failed_message_executes_on_retry:
  assumes "receiveEntered w = NOT_ENTERED"
    and "receivedFailedMessageHashes w origin (messageID msg) = keccak256 E (abi_encode E msg)"
    and "keccak256 E (abi_encode E msg) \<noteq> 0"
    and "0 < code_length E (destinationAddress msg) (w\<lparr>receiveEntered := ENTERED\<rparr>)"
    and "w2 = w\<lparr>receiveEntered := ENTERED,
      logs := logs w @ [LogMessageExecuted origin (messageID msg)],
      receivedFailedMessageHashes :=
        upd2 (receivedFailedMessageHashes w) origin (messageID msg) 0\<rparr>"
    and "call_contract E (destinationAddress msg) (gasleft E w2)
      (encode_receive_call E origin (senderAddress msg) (messageBytes msg)) w2 = Inr w3"
    and "interacts Out Pay Hon w2 w3"
  shows "\<exists>w'. retryMessageExecution E origin msg w = Inr ((), w') \<and>
    executions w' origin (messageID msg) = executions w origin (messageID msg) + 1 \<and>
    receivedFailedMessageHashes w' origin (messageID msg) = 0 \<and>
    retryMessageExecution E' origin msg w' = Inl (Revert ''TeleporterMessenger: message not found'')"
proof -
  let ?w' = "w3\<lparr>receiveEntered := NOT_ENTERED\<rparr>"
  have l: "receiver_locked w2 w3" using assms(7) by (rule rlock.lift)
  have r: "retryMessageExecution E origin msg w = Inr ((), ?w')"
    using assms(1-6)
    by (simp add: retryMessageExecution_def receive_guard.runs Let_def emit_def
        tryExecuteMessage_def)
  have ex: "executions w3 = executions w2" "receivedFailedMessageHashes w3 = receivedFailedMessageHashes w2"
    using l by (simp_all add: receiver_locked_def assms(5))
  have "executions ?w' = executions w2" using ex(1) by (simp add: executions_def)
  moreover have "executions w2 origin (messageID msg) = executions w origin (messageID msg) + 1"
    by (simp add: executions_def assms(5))
  moreover have gone: "receivedFailedMessageHashes ?w' origin (messageID msg) = 0"
    using ex(2) by (simp add: assms(5))
  moreover have "retryMessageExecution E' origin msg ?w'
      = Inl (Revert ''TeleporterMessenger: message not found'')"
    using gone by (simp add: retryMessageExecution_def receive_guard.runs)
  ultimately show ?thesis using r by (intro exI [of _ ?w']) simp
qed

theorem failed_message_executes_on_retry_witness:
  "\<exists>w'. retryMessageExecution demo_env 7 demo_message
     (demo_world\<lparr>receivedFailedMessageHashes := (\<lambda>c m. 4)\<rparr>) = Inr ((), w')"
proof -
  let ?w = "demo_world\<lparr>receivedFailedMessageHashes := (\<lambda>c m. 4)\<rparr>"
  have "receiveEntered ?w = NOT_ENTERED"
    "receivedFailedMessageHashes ?w 7 (messageID demo_message)
       = keccak256 demo_env (abi_encode demo_env demo_message)"
    "keccak256 demo_env (abi_encode demo_env demo_message) \<noteq> 0"
    "0 < code_length demo_env (destinationAddress demo_message) (?w\<lparr>receiveEntered := ENTERED\<rparr>)"
    by (simp_all add: demo_message_def)
  from failed_message_executes_on_retry [OF this refl demo_env_simps(9) interacts.stop]
  show ?thesis by blast
qed

subsection \<open>Fees and rewards\<close>

text \<open>
  C5: From deployment on, the fees of the unacknowledged messages and the rewards credited to
  relayers in a token never exceed the messenger's balance of it, whatever anyone calls and
  however the token, the recipients and the messenger call each other, as long as the token
  reports that balance truthfully, pays exactly what the messenger transfers, and lets nobody
  else take from it. Every single reward can therefore be paid.
\<close>

theorem messenger_stays_solvent:
  assumes "interacts (keeps_balance led) (pays_exactly T led) (honest_token T led) (deployed x) w"
  shows "finite_tables T w \<and> liabilities T w \<le> led (outside w) \<and>
    unat (checkRelayerRewardAmount relayer T w) \<le> led (outside w)"
proof -
  have "solv_safe T led (deployed x) w" using assms by (rule solv.lift)
  then have fin: "finite_tables T w" and s: "liabilities T w \<le> led (outside w)"
    using liabilities_deployed [of T x] by (auto simp: solv_safe_def solvent_def)
  have "unat (relayerRewardAmounts w relayer T) \<le> total (reward_table T w)"
    using total_ge [of "reward_table T w" relayer] fin
    by (simp add: finite_tables_def reward_table_def)
  then have "unat (relayerRewardAmounts w relayer T) \<le> liabilities T w"
    by (simp add: liabilities_def)
  with fin s show ?thesis by (simp add: checkRelayerRewardAmount_def)
qed

theorem messenger_stays_solvent_witness:
  "liabilities 9 demo_sent \<le> outside demo_sent"
  using messenger_stays_solvent [of id 9 100 demo_sent 0]
    demo_op [of "SendMessage (demo_input 4)" demo_world demo_sent]
  by (simp add: demo_send flip: demo_world_def)

text \<open>
  C13: Receipts pay, and pay once. Processing the receipts of a delivered message credits to every
  relayer, in every token, exactly the fees of the outstanding messages for which the receipts name
  it first, and deletes the entries of exactly these messages; the same messages' receipts again,
  for any relayer, change nothing; and what the messenger owes stays the same in every token.
\<close>

theorem receipts_pay_once:
  assumes "markReceipts c rs w = Inr w1"
    and "set (map receivedMessageID rs') \<subseteq> set (map receivedMessageID rs)"
  shows "(\<forall>r t. unat (checkRelayerRewardAmount r t w1) =
      unat (checkRelayerRewardAmount r t w) + credit w c rs r t) \<and>
    (\<forall>c' m. sentMessageInfo w1 c' m = (if c' = c \<and> m \<in> receivedMessageID ` set rs \<and>
       messageHash (sentMessageInfo w c m) \<noteq> 0 then zero_sentInfo else sentMessageInfo w c' m)) \<and>
    markReceipts c rs' w1 = Inr w1 \<and>
    (\<forall>T. finite_tables T w \<longrightarrow> liabilities T w1 = liabilities T w)"
proof -
  have "\<forall>m \<in> set (map receivedMessageID rs). messageHash (sentMessageInfo w1 c m) = 0"
    using markReceipts_clears [OF assms(1)] by auto
  then have "markReceipts c rs' w1 = Inr w1"
    using assms(2) by (intro markReceipts_absent) auto
  moreover have "\<forall>T. finite_tables T w \<longrightarrow> liabilities T w1 = liabilities T w"
    using markReceipts_liabilities [OF _ assms(1)] by blast
  ultimately show ?thesis
    using markReceipts_effect [OF assms(1)] unfolding checkRelayerRewardAmount_def by blast
qed

theorem receipts_pay_once_witness:
  "\<exists>w. markReceipts 7 [\<lparr>receivedMessageID = 1, relayerRewardAddress = 4\<rparr>] demo_sent = Inr w \<and>
    checkRelayerRewardAmount 4 9 w = 4 \<and>
    markReceipts 7 [\<lparr>receivedMessageID = 1, relayerRewardAddress = 6\<rparr>] w = Inr w"
proof -
  obtain w where w: "markReceipts 7 [\<lparr>receivedMessageID = 1, relayerRewardAddress = 4\<rparr>] demo_sent
      = Inr w" "checkRelayerRewardAmount 4 9 w = 4"
    unfolding demo_sent_def
    by (simp add: sendCrossChainMessage_def demo_steps markReceipt_def checkRelayerRewardAmount_def)
  show ?thesis
    using receipts_pay_once [OF w(1), of "[\<lparr>receivedMessageID = 1, relayerRewardAddress = 6\<rparr>]"] w
    by auto
qed

text \<open>
  C14: Redeeming pays the relayer exactly the amount credited to it, and the credit is already
  zero when the token is called: a token that calls back cannot have it paid again.
\<close>

theorem redeem_pays_once:
  assumes "redeemRelayerRewards E token w = Inr (u, w')"
  shows "\<exists>w1. 0 < checkRelayerRewardAmount (msg_sender E) token w \<and>
    token_transfer E token (msg_sender E) (checkRelayerRewardAmount (msg_sender E) token w) w1
      = Inr w' \<and>
    checkRelayerRewardAmount (msg_sender E) token w1 = 0 \<and>
    (\<forall>r t. (r, t) \<noteq> (msg_sender E, token) \<longrightarrow>
       checkRelayerRewardAmount r t w1 = checkRelayerRewardAmount r t w) \<and>
    redeemRelayerRewards E token w1 = Inl (Revert ''TeleporterMessenger: no reward to redeem'')"
  using assms
proof (rule redeemRelayerRewards_Inr, goal_cases)
  case (1 w2)
  then show ?case
    by (intro exI [of _ w2])
      (simp add: checkRelayerRewardAmount_def redeemRelayerRewards_def)
qed

theorem redeem_pays_once_witness:
  "\<exists>w. redeemRelayerRewards demo_env 9 (demo_world\<lparr>relayerRewardAmounts := (\<lambda>r t. 30)\<rparr>)
     = Inr ((), w) \<and> outside w = 70"
proof -
  let ?w = "demo_world\<lparr>relayerRewardAmounts := (\<lambda>r t. 30)\<rparr>"
  obtain w where w: "redeemRelayerRewards demo_env 9 ?w = Inr ((), w)"
    by (simp add: redeemRelayerRewards_def Let_def emit_def)
  obtain w1 where "token_transfer demo_env 9 2 30 w1 = Inr w"
    using redeem_pays_once [OF w] by (auto simp: checkRelayerRewardAmount_def)
  have "outside w = 70" using w by (auto simp: redeemRelayerRewards_def Let_def emit_def)
  with w show ?thesis by blast
qed

text \<open>
  Raising a fee adds to the message's fee exactly the tokens that arrived, for the token the
  message already uses, provided the message is still unacknowledged when the transfer returns.
\<close>

theorem addFee_adds_what_arrived:
  assumes "addFeeAmount E c mid token amt w = Inr (u, w')"
    and "externals (interacts Out Pay Hon) Out Pay E"
  shows "\<exists>adj w1. safeTransferFrom E token amt (w\<lparr>sendEntered := ENTERED\<rparr>) = Inr (adj, w1) \<and>
    getMessageHash c mid w \<noteq> 0 \<and> fst (getFeeInfo c mid w) = token \<and>
    (getMessageHash c mid w1 \<noteq> 0 \<longrightarrow>
      getMessageHash c mid w' = getMessageHash c mid w \<and>
      fst (getFeeInfo c mid w') = token \<and>
      unat (snd (getFeeInfo c mid w')) = unat (snd (getFeeInfo c mid w)) + unat adj)"
  using assms(1)
proof (rule addFeeAmount_Inr, goal_cases)
  case (1 adj w1 n)
  have "externals sender_locked Out Pay E" using assms(2) by (rule slock.lift_externals)
  then have "sender_locked (w\<lparr>sendEntered := ENTERED\<rparr>) w1"
    using 1(6) by (rule safeTransferFrom_steps)
  then have "sentMessageInfo w1 c mid = sentMessageInfo w c mid \<or>
      sentMessageInfo w1 c mid = zero_sentInfo"
    by (simp add: sender_locked_def sent_shrinks_def)
  then show ?case
    using 1 checked_add_unat [OF 1(7)]
    by (auto simp: getMessageHash_def getFeeInfo_def Let_def zero_sentInfo_def)
qed

theorem addFee_adds_what_arrived_witness:
  "\<exists>w. addFeeAmount demo_env 7 1 9 5 demo_sent = Inr ((), w)
    \<and> fst (getFeeInfo 7 1 demo_sent) = 9"
proof -
  obtain w where w: "addFeeAmount demo_env 7 1 9 5 demo_sent = Inr ((), w)"
    unfolding demo_sent_def
    by (simp add: sendCrossChainMessage_def demo_steps addFeeAmount_def)
  with addFee_adds_what_arrived [OF w demo_externals] show ?thesis by blast
qed

text \<open>
  The proviso is needed: when the token's transfer delivers the receipt of the very message,
  \<open>addFeeAmount\<close> still succeeds, but the fee it pulled in is booked on the deleted entry, under
  token address zero and without a message hash. The relayer is credited only the old fee, the
  messenger owes nobody the new one, and no later receipt can release it.
\<close>

theorem addFee_lost_to_reentrant_receipt:
  "\<exists>w. addFeeAmount demo_reentrant_env 7 1 9 5 demo_sent = Inr ((), w) \<and>
    outside w = outside demo_sent + 5 \<and>
    getMessageHash 7 1 w = 0 \<and> getFeeInfo 7 1 w = (0, 5) \<and>
    checkRelayerRewardAmount 4 9 w = 4 \<and>
    (\<forall>relayer. markReceipt 7 1 relayer w = Inr w)"
  unfolding demo_sent_def
  by (simp add: sendCrossChainMessage_def demo_steps addFeeAmount_def demo_reentrant_env_def demo_receipt_env_def
      receiveCrossChainMessage_def markReceipt_def checkRelayerRewardAmount_def getFeeInfo_def
      getMessageHash_def zero_sentInfo_def zero_feeInfo_def)

subsection \<open>Views\<close>

text \<open>
  On every reachable messenger, the queue of each chain can be read: the size getter returns
  the number of waiting receipts, the index getter returns the receipt at that position and
  reverts beyond the end, and taking out the receipts to send never fails.
\<close>

theorem receipt_queue_views:
  assumes "interacts Out Pay Hon (deployed x) w"
  shows "\<exists>rs. (\<exists>n. getReceiptQueueSize c w = Inr n \<and> unat n = length rs) \<and>
    (\<forall>i. getReceiptAtIndex c i w = (if unat i < length rs then Inr (rs ! unat i)
       else Inl (Revert ''ReceiptQueue: index out of bounds''))) \<and>
    (\<exists>q. getOutstandingReceiptsToSend (receiptQueues w c) = Inr (take 5 rs, q) \<and>
       queue_list q = drop 5 rs)"
proof -
  have "queues_kept (deployed x) w" using assms by (rule queues.lift)
  then have "queues_ok w" using queues_ok_deployed by (rule queues_keptD)
  then have wf: "queue_wf (receiptQueues w c)" by (simp add: queues_ok_def)
  show ?thesis
    using queue_size_wf [OF wf] getReceiptAtIndex_nth [OF wf] outstanding_refines_take [OF wf]
    by (intro exI [of _ "queue_list (receiptQueues w c)"])
      (auto simp: getReceiptQueueSize_def getReceiptAtIndex_def)
qed

theorem receipt_queue_views_witness:
  "\<exists>n. getReceiptQueueSize 7 demo_received = Inr n"
  using receipt_queue_views [of demo_out demo_pay "honest_token 9 id" 100 demo_received 7]
    demo_op [of "Receive 0 2" demo_world demo_received]
  by (simp add: demo_receive flip: demo_world_def) blast

text \<open>
  C16: The receipt queue is a first-in first-out queue: from a well-formed queue, adding any
  receipts and then taking out as many as there are returns the old contents followed by the new
  ones, in order, and leaves the queue empty and well formed.
\<close>

theorem receipt_queue_fifo:
  "queue_wf q \<Longrightarrow> enqueue_all q rs = Inr q' \<Longrightarrow>
    \<exists>q''. dequeue_loop (length (queue_list q) + length rs) q' = Inr (queue_list q @ rs, q'') \<and>
      queue_list q'' = [] \<and> queue_wf q''"
proof -
  assume wf: "queue_wf q" and e: "enqueue_all q rs = Inr q'"
  have q': "queue_list q' = queue_list q @ rs \<and> queue_wf q'"
    using wf e by (rule enqueue_all_contents)
  then show ?thesis
    using rq.deq_many_take [of q' "length (queue_list q')"] by (simp add: dequeue_loop_deq_many)
qed

theorem receipt_queue_fifo_witness:
  "\<exists>q' q''. dequeue_loop 2 q' = Inr ([demo_receipt 1, demo_receipt 2], q'')"
proof -
  obtain q' where q': "enqueue_all empty_queue [demo_receipt 1, demo_receipt 2] = Inr q'"
    by (simp add: enqueue_def empty_queue_def checked_add_def)
  show ?thesis
    using receipt_queue_fifo [OF demo_values(2) q'] by (auto simp: numeral_2_eq_2)
qed

text \<open>
  A relayer may deliver a message exactly when the message allows everyone or names it.
\<close>

theorem allowed_relayers:
  "checkIsAllowedRelayer deliverer allowed \<longleftrightarrow> allowed = [] \<or> deliverer \<in> set allowed"
  by (rule checkIsAllowedRelayer_iff)

end
