(* ===== verification/Message_Notes.thy ===== *)
theory Message_Notes
  imports Messenger_State "HOL-Library.Multiset"
begin

section \<open>Messages that a messenger has noted\<close>

text \<open>
  The applications of two chains are related by the messages that the messengers carry between
  them. The messenger notes which messages an application has sent and which it was made to
  execute; here are the lists of bytes exchanged with one peer, and what it means that the
  messages between two applications are delivered, each at most once.
\<close>

datatype message_note = Sent bytes32 address bytes | Executed bytes32 address bytes

definition sent_to :: "bytes32 \<Rightarrow> address \<Rightarrow> message_note list \<Rightarrow> bytes list" where
  "sent_to c b h = concat (map (\<lambda>n. case n of
      Sent c' b' m \<Rightarrow> if c' = c \<and> b' = b then [m] else [] | _ \<Rightarrow> []) h)"

definition executed_from :: "bytes32 \<Rightarrow> address \<Rightarrow> message_note list \<Rightarrow> bytes list" where
  "executed_from c b h = concat (map (\<lambda>n. case n of
      Executed c' b' m \<Rightarrow> if c' = c \<and> b' = b then [m] else [] | _ \<Rightarrow> []) h)"

lemma history_append [simp]:
  "sent_to c b (h @ h') = sent_to c b h @ sent_to c b h'"
  "executed_from c b (h @ h') = executed_from c b h @ executed_from c b h'"
  "sent_to c b [] = []" "executed_from c b [] = []"
  by (simp_all add: sent_to_def executed_from_def)

lemma history_single [simp]:
  "sent_to c b [Sent c' b' m] = (if c' = c \<and> b' = b then [m] else [])"
  "executed_from c b [Executed c' b' m] = (if c' = c \<and> b' = b then [m] else [])"
  "sent_to c b [Executed c' b' m] = []" "executed_from c b [Sent c' b' m] = []"
  by (simp_all add: sent_to_def executed_from_def)

text \<open>
  \<open>h\<close> is the history of the application at \<open>(c, b)\<close>, \<open>h'\<close> that of the one at \<open>(c', b')\<close>: what one
  executes from the other, the other has sent to it, and no sent message is executed twice.
\<close>

definition delivered ::
  "message_note list \<Rightarrow> bytes32 \<Rightarrow> address \<Rightarrow> message_note list \<Rightarrow> bytes32 \<Rightarrow> address \<Rightarrow> bool" where
  "delivered h c b h' c' b' \<longleftrightarrow>
     mset (executed_from c b h') \<subseteq># mset (sent_to c' b' h) \<and>
     mset (executed_from c' b' h) \<subseteq># mset (sent_to c b h')"

lemma sum_list_subset:
  assumes "mset xs \<subseteq># mset ys" and "\<And>x. 0 \<le> (f x :: int)"
  shows "sum_list (map f xs) \<le> sum_list (map f ys)"
proof -
  from assms(1) obtain Z where "mset ys = mset xs + Z" by (auto simp: subset_mset.le_iff_add)
  moreover have "0 \<le> sum_mset (image_mset f Z)" using assms(2) by (induction Z) auto
  ultimately have "sum_mset (image_mset f (mset xs)) \<le> sum_mset (image_mset f (mset ys))" by simp
  then show ?thesis by (simp flip: mset_map add: sum_mset_sum_list)
qed

lemma delivered_sums:
  assumes "delivered h c b h' c' b'" and "\<And>x. 0 \<le> (f x :: int)"
  shows "sum_list (map f (executed_from c b h')) \<le> sum_list (map f (sent_to c' b' h))"
    and "sum_list (map f (executed_from c' b' h)) \<le> sum_list (map f (sent_to c b h'))"
  using assms by (auto simp: delivered_def intro: sum_list_subset)

lemma delivered_sets:
  assumes "delivered h c b h' c' b'"
  shows "set (executed_from c b h') \<subseteq> set (sent_to c' b' h)"
    and "set (executed_from c' b' h) \<subseteq> set (sent_to c b h')"
  using assms by (auto simp: delivered_def dest: mset_subset_eqD)

text \<open>
  The documented behaviour of \<open>ReentrancyGuard\<close>, one entry at a time, for its two halves.
\<close>

definition guard_pair ::
  "(uint256 \<Rightarrow> bool) \<Rightarrow> (uint256 \<Rightarrow> sol_error + uint256) \<Rightarrow> (uint256 \<Rightarrow> uint256) \<Rightarrow> bool" where
  "guard_pair ent before after \<longleftrightarrow>
     (\<forall>g g'. before g = Inr g' \<longrightarrow> \<not> ent g \<and> ent g') \<and> (\<forall>g. \<not> ent (after g))"

text \<open>Checked arithmetic, read as integers.\<close>

lemma checked_add_uint: "checked_add a b = Inr c \<Longrightarrow> uint c = uint a + uint b"
  by (drule checked_add_unat) (metis of_nat_add uint_nat)

lemma checked_sub_uint: "checked_sub a b = Inr c \<Longrightarrow> uint c = uint a - uint b"
  by (auto simp: checked_sub_Inr uint_sub_if_size word_le_def)

end
