(* ===== verification/Messenger_Delivery.thy ===== *)
theory Messenger_Delivery
  imports Messenger_Example Message_Notes
begin

section \<open>From one messenger to another\<close>

text \<open>
  What the messenger of one chain logs as sent, and what the messenger of another chain logs as
  received. A message ID determines the hash of the message it was sent with, also when a message
  is sent again; a message is received at most once, and only if it is genuine. Both are invariants
  of everything that can happen to a messenger.
\<close>

subsection \<open>What a messenger has logged\<close>

definition sent_of :: "messenger_event \<Rightarrow> (bytes32 \<times> uint256 \<times> TeleporterMessage) list" where
  "sent_of e = (case e of LogSendCrossChainMessage c m msg fee \<Rightarrow> [(c, m, msg)] | _ \<Rightarrow> [])"

definition received_of :: "messenger_event \<Rightarrow> (bytes32 \<times> uint256 \<times> TeleporterMessage) list" where
  "received_of e = (case e of LogReceiveCrossChainMessage c m deliverer ra msg \<Rightarrow> [(c, m, msg)] | _ \<Rightarrow> [])"

definition sends :: "'x world \<Rightarrow> (bytes32 \<times> uint256 \<times> TeleporterMessage) list" where
  "sends w = concat (map sent_of (logs w))"

definition receives :: "'x world \<Rightarrow> (bytes32 \<times> uint256 \<times> TeleporterMessage) list" where
  "receives w = concat (map received_of (logs w))"

lemma sends_logs: "logs w' = logs w @ es \<Longrightarrow> sends w' = sends w @ concat (map sent_of es)"
  by (simp add: sends_def)

lemma receives_logs: "logs w' = logs w @ es \<Longrightarrow> receives w' = receives w @ concat (map received_of es)"
  by (simp add: receives_def)

lemma logged_cong: "logs w' = logs w \<Longrightarrow> sends w' = sends w" "logs w' = logs w \<Longrightarrow> receives w' = receives w"
  by (simp_all add: sends_def receives_def)

lemmas event_kinds [simp] = sent_of_def received_of_def

subsection \<open>The sending side\<close>

text \<open>\<open>h\<close> is the hash of an encoded message.\<close>

definition sent_inv :: "(TeleporterMessage \<Rightarrow> bytes32) \<Rightarrow> 'x world \<Rightarrow> bool" where
  "sent_inv h w \<longleftrightarrow>
     (\<forall>c m msg. (c, m, msg) \<in> set (sends w) \<longrightarrow> messageID msg = m \<and> m \<le> latestMessageIDs w c \<and>
        (\<exists>msg'. (c, m, msg') \<in> set (sends w) \<and> destinationBlockchainID msg' = c)) \<and>
     (\<forall>c m msg msg'. (c, m, msg) \<in> set (sends w) \<longrightarrow> (c, m, msg') \<in> set (sends w) \<longrightarrow> h msg = h msg') \<and>
     (\<forall>c m. messageHash (sentMessageInfo w c m) \<noteq> 0 \<longrightarrow>
        (\<exists>msg. (c, m, msg) \<in> set (sends w) \<and> messageHash (sentMessageInfo w c m) = h msg))"

definition hashes_with :: "(TeleporterMessage \<Rightarrow> bytes32) \<Rightarrow> 'x env \<Rightarrow> bool" where
  "hashes_with h E \<longleftrightarrow> (\<forall>msg. keccak256 E (abi_encode E msg) = h msg)"

definition sent_safe :: "(TeleporterMessage \<Rightarrow> bytes32) \<Rightarrow> 'x world \<Rightarrow> 'x world \<Rightarrow> bool" where
  "sent_safe h w w' \<longleftrightarrow> sender_locked w w' \<and> (sendEntered w = ENTERED \<longrightarrow> sends w' = sends w) \<and>
     (sent_inv h w \<longrightarrow> sent_inv h w')"

lemma sent_invD:
  assumes "sent_inv h w"
  shows "(c, m, msg) \<in> set (sends w) \<Longrightarrow> messageID msg = m \<and> m \<le> latestMessageIDs w c \<and>
      (\<exists>msg'. (c, m, msg') \<in> set (sends w) \<and> destinationBlockchainID msg' = c)"
    and "(c, m, msg) \<in> set (sends w) \<Longrightarrow> (c, m, msg') \<in> set (sends w) \<Longrightarrow> h msg = h msg'"
    and "messageHash (sentMessageInfo w c m) \<noteq> 0 \<Longrightarrow>
      \<exists>msg. (c, m, msg) \<in> set (sends w) \<and> messageHash (sentMessageInfo w c m) = h msg"
  using assms unfolding sent_inv_def by blast+

lemma sent_invI:
  assumes "\<And>c m msg. (c, m, msg) \<in> set (sends w) \<Longrightarrow> messageID msg = m \<and>
      m \<le> latestMessageIDs w c \<and> (\<exists>msg'. (c, m, msg') \<in> set (sends w) \<and> destinationBlockchainID msg' = c)"
    and "\<And>c m msg msg'. (c, m, msg) \<in> set (sends w) \<Longrightarrow> (c, m, msg') \<in> set (sends w) \<Longrightarrow> h msg = h msg'"
    and "\<And>c m. messageHash (sentMessageInfo w c m) \<noteq> 0 \<Longrightarrow>
      \<exists>msg. (c, m, msg) \<in> set (sends w) \<and> messageHash (sentMessageInfo w c m) = h msg"
  shows "sent_inv h w"
  using assms unfolding sent_inv_def by blast

lemma sent_inv_shrink:
  assumes inv: "sent_inv h w" and sends: "set (sends w') = set (sends w)"
    and ids: "\<And>c. latestMessageIDs w c \<le> latestMessageIDs w' c"
    and hash: "\<And>c m. messageHash (sentMessageInfo w' c m) = messageHash (sentMessageInfo w c m) \<or>
      messageHash (sentMessageInfo w' c m) = 0"
  shows "sent_inv h w'"
proof (rule sent_invI, unfold sends)
  fix c m msg assume "(c, m, msg) \<in> set (sends w)"
  from sent_invD(1) [OF inv this] ids [of c]
  show "messageID msg = m \<and> m \<le> latestMessageIDs w' c \<and>
      (\<exists>msg'. (c, m, msg') \<in> set (sends w) \<and> destinationBlockchainID msg' = c)"
    by (auto intro: order_trans)
next
  fix c m assume "messageHash (sentMessageInfo w' c m) \<noteq> 0"
  with hash [of c m] sent_invD(3) [OF inv, of c m]
  show "\<exists>msg. (c, m, msg) \<in> set (sends w) \<and> messageHash (sentMessageInfo w' c m) = h msg" by auto
qed (rule sent_invD(2) [OF inv])

text \<open>Sending a message, with a new ID or again with the same hash.\<close>

lemma sent_inv_add:
  assumes inv: "sent_inv h w" and sends: "sends w' = sends w @ [(c, messageID msg, msg)]"
    and ids: "latestMessageIDs w' = latestMessageIDs w" "messageID msg \<le> latestMessageIDs w c"
    and same: "\<And>msg'. (c, messageID msg, msg') \<in> set (sends w) \<Longrightarrow> h msg' = h msg"
    and dest: "destinationBlockchainID msg = c \<or> (\<exists>msg'. (c, messageID msg, msg') \<in> set (sends w))"
    and hash: "\<And>c' m. messageHash (sentMessageInfo w' c' m) = messageHash (sentMessageInfo w c' m) \<or>
      c' = c \<and> m = messageID msg \<and> messageHash (sentMessageInfo w' c' m) = h msg"
  shows "sent_inv h w'"
proof (rule sent_invI, unfold sends set_append ids)
  fix c' m msg1 assume "(c', m, msg1) \<in> set (sends w) \<union> set [(c, messageID msg, msg)]"
  then show "messageID msg1 = m \<and> m \<le> latestMessageIDs w c' \<and>
      (\<exists>msg'. (c', m, msg') \<in> set (sends w) \<union> set [(c, messageID msg, msg)] \<and>
        destinationBlockchainID msg' = c')"
  proof
    assume "(c', m, msg1) \<in> set (sends w)"
    from sent_invD(1) [OF inv this] show ?thesis by blast
  next
    assume "(c', m, msg1) \<in> set [(c, messageID msg, msg)]"
    then have "c' = c" "m = messageID msg" "msg1 = msg" by simp_all
    moreover have "\<exists>msg'. (c, messageID msg, msg') \<in> set (sends w) \<union> set [(c, messageID msg, msg)] \<and>
        destinationBlockchainID msg' = c"
      using dest
    proof
      assume "\<exists>msg'. (c, messageID msg, msg') \<in> set (sends w)"
      then obtain msg' where "(c, messageID msg, msg') \<in> set (sends w)" ..
      from sent_invD(1) [OF inv this] show ?thesis by blast
    qed auto
    ultimately show ?thesis using ids(2) by simp
  qed
next
  fix c' m msg1 msg2
  assume "(c', m, msg1) \<in> set (sends w) \<union> set [(c, messageID msg, msg)]"
    "(c', m, msg2) \<in> set (sends w) \<union> set [(c, messageID msg, msg)]"
  then show "h msg1 = h msg2"
  proof (elim UnE)
    assume "(c', m, msg1) \<in> set (sends w)" "(c', m, msg2) \<in> set (sends w)"
    then show ?thesis by (rule sent_invD(2) [OF inv])
  qed (use same in auto)
next
  fix c' m assume f: "messageHash (sentMessageInfo w' c' m) \<noteq> 0"
  from hash [of c' m]
  show "\<exists>msg1. (c', m, msg1) \<in> set (sends w) \<union> set [(c, messageID msg, msg)] \<and>
      messageHash (sentMessageInfo w' c' m) = h msg1"
  proof
    assume eq: "messageHash (sentMessageInfo w' c' m) = messageHash (sentMessageInfo w c' m)"
    then have "messageHash (sentMessageInfo w c' m) \<noteq> 0" using f by simp
    from sent_invD(3) [OF inv this] show ?thesis unfolding eq by blast
  qed auto
qed

lemma sent_inv_cong:
  assumes "sent_inv h w" "logs w' = logs w" "latestMessageIDs w' = latestMessageIDs w"
    and "sentMessageInfo w' = sentMessageInfo w"
  shows "sent_inv h w'"
  by (rule sent_inv_shrink [OF assms(1)]) (simp_all add: logged_cong(1) [OF assms(2)] assms(3,4))

lemma sent_safe_refl: "sent_safe h w w"
  by (simp add: sent_safe_def sender_locked_cong)

lemma sent_safe_trans:
  assumes "sent_safe h u v" and "sent_safe h v w" shows "sent_safe h u w"
proof -
  have "sender_locked u v" "sender_locked v w" using assms by (simp_all add: sent_safe_def)
  then have l: "sender_locked u w" by (rule sender_locked_trans)
  have "sendEntered u = ENTERED \<longrightarrow> sendEntered v = ENTERED"
    using \<open>sender_locked u v\<close> by (simp add: sender_locked_def)
  then show ?thesis using assms l unfolding sent_safe_def by auto
qed

lemma sent_safe_externals: "externals (sent_safe h) Out Pay E \<Longrightarrow> externals sender_locked Out Pay E"
  by (erule externals_weaken [rotated]) (simp add: sent_safe_def)

lemma zero_hash [simp]: "messageHash zero_sentInfo = 0"
  by (simp add: zero_sentInfo_def)

text \<open>A call from inside a sending function changes nothing but to clear entries.\<close>

lemma sent_safe_locked:
  assumes "sent_safe h w w'" and "sendEntered w = ENTERED"
  shows "sends w' = sends w" "latestMessageIDs w' = latestMessageIDs w"
    and "messageHash (sentMessageInfo w' c m) = messageHash (sentMessageInfo w c m) \<or>
      messageHash (sentMessageInfo w' c m) = 0"
    and "sendEntered w' = ENTERED"
proof -
  have l: "sends w' = sends w" "latestMessageIDs w' = latestMessageIDs w" "sendEntered w' = ENTERED"
    "sent_shrinks (sentMessageInfo w) (sentMessageInfo w')"
    using assms by (simp_all add: sent_safe_def sender_locked_def)
  then have "sentMessageInfo w' c m = sentMessageInfo w c m \<or> sentMessageInfo w' c m = zero_sentInfo"
    by (simp add: sent_shrinks_def)
  then show "messageHash (sentMessageInfo w' c m) = messageHash (sentMessageInfo w c m) \<or>
      messageHash (sentMessageInfo w' c m) = 0" by auto
  show "sends w' = sends w" "latestMessageIDs w' = latestMessageIDs w" "sendEntered w' = ENTERED"
    by (fact l)+
qed

lemma sent_inv_send:
  assumes ext: "externals (sent_safe h) Out Pay E" and hash: "hashes_with h E"
    and send: "sendTeleporterMessage E inp rs w = Inr (mid, w')"
    and entered: "sendEntered w = ENTERED" and inv: "sent_inv h w"
  shows "sent_inv h w'"
  using send
proof (rule sendTeleporterMessage_Inr, goal_cases)
  case (1 msg adj w2 x)
  let ?c = "in_destinationBlockchainID inp"
  let ?w1 = "w\<lparr>latestMessageIDs := (latestMessageIDs w)(?c := mid)\<rparr>"
  have new: "latestMessageIDs w ?c < mid"
    using 1(1,2) by (simp add: word_less_nat_alt unat_word256_plus_1)
  have "sent_safe h ?w1 w2"
    using 1(4) safeTransferFrom_steps [OF ext] sent_safe_refl by (auto split: if_splits)
  note L = sent_safe_locked [OF this]
  have w2: "sends w2 = sends w" "latestMessageIDs w2 = (latestMessageIDs w)(?c := mid)"
    "\<And>c m. messageHash (sentMessageInfo w2 c m) = messageHash (sentMessageInfo w c m) \<or>
      messageHash (sentMessageInfo w2 c m) = 0"
    using L entered by (simp_all add: sends_def)
  have inv2: "sent_inv h w2"
    by (rule sent_inv_shrink [OF inv _ _ w2(3)])
      (use new in \<open>simp_all add: w2(1,2) order.strict_implies_order\<close>)
  have fresh: "(?c, mid, msg') \<notin> set (sends w2)" for msg'
    using sent_invD(1) [OF inv] new unfolding w2(1) by (metis leD)
  have s: "sends w' = sends w2 @ [(?c, mid, msg)]"
    by (simp add: sends_def 1(6))
  have m: "messageID msg = mid" "destinationBlockchainID msg = ?c" "keccak256 E (abi_encode E msg) = h msg"
    using hash by (simp_all add: 1(3) hashes_with_def)
  show ?case
  proof (rule sent_inv_add [OF inv2, where c = ?c and msg = msg], goal_cases)
    case (6 c' m)
    then show ?case using m(3) by (cases "c' = ?c \<and> m = mid") (auto simp: 1(6) m(1))
  qed (use s fresh in \<open>auto simp: 1(6) m(1,2) w2(2)\<close>)
qed

text \<open>A step that sends nothing and at most clears entries, and one that only the open guard allows.\<close>

lemma sent_safe_shrink:
  assumes "sender_locked w w'" and "sends w' = sends w"
    and "latestMessageIDs w' = latestMessageIDs w"
    and "\<And>c m. messageHash (sentMessageInfo w' c m) = messageHash (sentMessageInfo w c m) \<or>
      messageHash (sentMessageInfo w' c m) = 0"
  shows "sent_safe h w w'"
  using assms sent_inv_shrink [of h w w'] by (simp add: sent_safe_def)

lemma sent_safe_cong:
  assumes "sendEntered w' = sendEntered w" and "sends w' = sends w"
    and "latestMessageIDs w' = latestMessageIDs w" and "sentMessageInfo w' = sentMessageInfo w"
  shows "sent_safe h w w'"
  by (rule sent_safe_shrink) (simp_all add: assms sender_locked_cong)

lemma sent_safe_open:
  "sendEntered w = NOT_ENTERED \<Longrightarrow> (sent_inv h w \<Longrightarrow> sent_inv h w') \<Longrightarrow> sent_safe h w w'"
  by (simp add: sent_safe_def sender_locked_open)

lemma sent_safe_markReceipts:
  assumes "markReceipts c rs w = Inr w'" shows "sent_safe h w w'"
proof (rule sent_safe_shrink)
  fix c' m show "messageHash (sentMessageInfo w' c' m) = messageHash (sentMessageInfo w c' m) \<or>
      messageHash (sentMessageInfo w' c' m) = 0"
    using markReceipts_sent [OF assms, of c' m] by auto
qed (use assms in \<open>simp_all add: sends_def markReceipts_frame sender_locked_markReceipts\<close>)

lemma sent_safe_op:
  assumes ext: "externals (sent_safe h) Out Pay E" and hash: "hashes_with h E"
    and op: "run_op E op w = Inr w'"
  shows "sent_safe h w w'"
  using op
proof (cases rule: run_op_Inr)
  case send
  then show ?thesis
  proof (rule sendCrossChainMessage_Inr, goal_cases)
    case (1 rs q w1)
    show ?case
    proof (rule sent_safe_open [OF 1(1)])
      assume inv: "sent_inv h w"
      have "sent_inv h w1"
        by (rule sent_inv_send [OF ext hash 1(3)], simp, rule sent_inv_cong [OF inv]) simp_all
      then show "sent_inv h w'" by (rule sent_inv_cong) (simp_all add: 1(4))
    qed
  qed
next
  case receipts
  then show ?thesis
  proof (rule sendSpecifiedReceipts_Inr, goal_cases)
    case (1 rs w1)
    show ?case
    proof (rule sent_safe_open [OF 1(1)])
      assume inv: "sent_inv h w"
      have "sent_inv h w1"
        by (rule sent_inv_send [OF ext hash 1(3)], simp, rule sent_inv_cong [OF inv]) simp_all
      then show "sent_inv h w'" by (rule sent_inv_cong) (simp_all add: 1(4))
    qed
  qed
next
  case fee
  then show ?thesis
  proof (rule addFeeAmount_Inr, goal_cases)
    case (1 adj w1 n)
    show ?case
    proof (rule sent_safe_open [OF 1(1)])
      assume "sent_inv h w"
      then have "sent_inv h (w\<lparr>sendEntered := ENTERED\<rparr>)" by (rule sent_inv_cong) simp_all
      then have "sent_inv h w1"
        using safeTransferFrom_steps [OF ext 1(6)] by (simp add: sent_safe_def)
      then show "sent_inv h w'"
        by (rule sent_inv_shrink) (simp_all add: 1(8) sends_def)
    qed
  qed
next
  case (resend chain msg u)
  then show ?thesis
  proof (rule retrySendCrossChainMessage_Inr, goal_cases)
    case (1 x)
    show ?case
    proof (rule sent_safe_open [OF 1(1)])
      assume inv: "sent_inv h w"
      from sent_invD(3) [OF inv 1(2)] obtain msg' where
        m: "(chain, messageID msg, msg') \<in> set (sends w)"
        "messageHash (sentMessageInfo w chain (messageID msg)) = h msg'" by blast
      have e: "h msg' = h msg" using m(2) 1(3) hash by (simp add: hashes_with_def)
      show "sent_inv h w'"
      proof (rule sent_inv_add [OF inv, where c = chain and msg = msg], goal_cases)
        case (4 msg1)
        then show ?case using sent_invD(2) [OF inv m(1) 4] e by simp
      qed (use m(1) sent_invD(1) [OF inv m(1)] in \<open>auto simp: sends_def 1(5)\<close>)
    qed
  qed
next
  case receive
  then show ?thesis
  proof (rule receiveCrossChainMessage_steps [OF ext sent_safe_refl], goal_cases)
    case (1 origin msg chain w2 w3 w4 q)
    have "sent_safe h w w2" by (rule sent_safe_cong) (simp_all add: 1(5) sends_def)
    moreover have "sent_safe h w2 w3"
      using 1(6)
    proof (elim disjE exE conjE)
      fix v assume v: "sent_safe h w2 v" "w3 = emit (LogMessageExecuted origin (messageID msg)) v"
      have "sent_safe h v w3" by (rule sent_safe_cong) (simp_all add: v(2) emit_def sends_def)
      with v(1) show ?thesis by (rule sent_safe_trans)
    qed (auto intro!: sent_safe_cong simp: storeFailedMessageExecution_def emit_def sends_def)
    moreover have "sent_safe h w3 w4" using 1(7) by (rule sent_safe_markReceipts)
    moreover have "sent_safe h w4 w'" by (rule sent_safe_cong) (simp_all add: 1(9) sends_def)
    ultimately show ?case by (blast intro: sent_safe_trans)
  qed
next
  case retry
  then show ?thesis
  proof (rule retryMessageExecution_Inr, goal_cases)
    case (1 w2 w3)
    have "sent_safe h w w2" by (rule sent_safe_cong) (simp_all add: 1(5) sends_def)
    moreover have "sent_safe h w2 w3" using 1(6) by (rule externalsD(1) [OF ext])
    moreover have "sent_safe h w3 w'" by (rule sent_safe_cong) (simp_all add: 1(7) sends_def)
    ultimately show ?case by (blast intro: sent_safe_trans)
  qed
next
  case redeem
  then show ?thesis
  proof (rule redeemRelayerRewards_steps [OF ext], goal_cases)
    case (1 x)
    show ?case by (rule sent_safe_trans [OF sent_safe_cong 1(3)]) (simp_all add: sends_def)
  qed
qed

interpretation sent: call_closed Out Pay "hashes_with h" "sent_safe h" for Out Pay h
  by unfold_locales (fact sent_safe_refl, rule sent_safe_trans, assumption+,
    rule sent_safe_cong, simp_all add: sends_def sent_safe_op)

lemma sent_inv_deployed: "sent_inv h (deployed x)"
  by (simp add: sent_inv_def sends_def deployed_def guards_constructor_def)

subsection \<open>The receiving side\<close>

text \<open>
  \<open>genuine_warp c sent own E\<close>: the chain is \<open>own\<close>, decoding undoes the encoding of a message for which
  \<open>sent\<close> holds, and the warp precompile verifies from the messenger of the chain \<open>c\<close> only the payloads of such messages.
\<close>

definition genuine_warp ::
  "bytes32 \<Rightarrow> (TeleporterMessage \<Rightarrow> bool) \<Rightarrow> bytes32 \<Rightarrow> 'x env \<Rightarrow> bool" where
  "genuine_warp c sent own E \<longleftrightarrow>
     (\<forall>x. getBlockchainID E x = own) \<and>
     (\<forall>msg. sent msg \<longrightarrow> abi_decode E (abi_encode E msg) = Some msg) \<and>
     (\<forall>idx x wm. getVerifiedWarpMessage E idx x = (wm, True) \<longrightarrow> sourceChainID wm = c \<longrightarrow>
        originSenderAddress wm = this_address E \<longrightarrow> (\<exists>msg. payload wm = abi_encode E msg \<and> sent msg))"

text \<open>The messages received are genuine and distinct; outside a call every delivery has been logged.\<close>

definition received_genuine ::
  "bytes32 \<Rightarrow> (TeleporterMessage \<Rightarrow> bool) \<Rightarrow> bytes32 \<Rightarrow> 'x world \<Rightarrow> bool" where
  "received_genuine c sent own w \<longleftrightarrow> (blockchainID w = 0 \<or> blockchainID w = own) \<and>
     (\<forall>c' m msg. (c', m, msg) \<in> set (receives w) \<longrightarrow> messageID msg = m \<and>
        destinationBlockchainID msg = own \<and> relayerRewardAddresses w c' m \<noteq> 0 \<and> (c' = c \<longrightarrow> sent msg)) \<and>
     distinct (map (\<lambda>(c, m, msg). (c, m)) (receives w))"

definition deliveries_logged :: "(TeleporterMessage \<Rightarrow> bytes32) \<Rightarrow> 'x world \<Rightarrow> bool" where
  "deliveries_logged h w \<longleftrightarrow> (receiveEntered w = NOT_ENTERED \<longrightarrow> (\<forall>c m.
     (relayerRewardAddresses w c m \<noteq> 0 \<longrightarrow> (\<exists>msg. (c, m, msg) \<in> set (receives w))) \<and>
     (receivedFailedMessageHashes w c m \<noteq> 0 \<longrightarrow>
        (\<exists>msg. (c, m, msg) \<in> set (receives w) \<and> receivedFailedMessageHashes w c m = h msg))))"

definition recv_safe :: "(TeleporterMessage \<Rightarrow> bytes32) \<Rightarrow> bytes32 \<Rightarrow> (TeleporterMessage \<Rightarrow> bool) \<Rightarrow> bytes32
    \<Rightarrow> 'x world \<Rightarrow> 'x world \<Rightarrow> bool" where
  "recv_safe h c sent own w w' \<longleftrightarrow> receiver_locked w w' \<and>
     (receiveEntered w = ENTERED \<longrightarrow> receives w' = receives w) \<and>
     (receiveEntered w = NOT_ENTERED \<longrightarrow> receiveEntered w' = NOT_ENTERED) \<and>
     (received_genuine c sent own w \<longrightarrow> received_genuine c sent own w') \<and>
     (deliveries_logged h w \<longrightarrow> deliveries_logged h w')"

definition recv_env :: "(TeleporterMessage \<Rightarrow> bytes32) \<Rightarrow> bytes32 \<Rightarrow> (TeleporterMessage \<Rightarrow> bool) \<Rightarrow> bytes32
    \<Rightarrow> 'x env \<Rightarrow> bool" where
  "recv_env h c sent own E \<longleftrightarrow> hashes_with h E \<and> genuine_warp c sent own E"

text \<open>The part of a world that the receiving side depends on.\<close>

definition receiver_part where
  "receiver_part w = (receiveEntered w, blockchainID w, relayerRewardAddresses w,
     receivedFailedMessageHashes w, executions w, receives w)"

lemma recv_safe_cong: "receiver_part w' = receiver_part w \<Longrightarrow> recv_safe h c sent own w w'"
  by (simp add: receiver_part_def recv_safe_def receiver_locked_def received_genuine_def
      deliveries_logged_def)

lemma recv_safe_refl: "recv_safe h c sent own w w"
  by (rule recv_safe_cong) (rule refl)

lemma recv_safe_trans:
  assumes "recv_safe h c sent own u v" and "recv_safe h c sent own v w"
  shows "recv_safe h c sent own u w"
proof -
  have "receiver_locked u v" "receiver_locked v w" using assms by (simp_all add: recv_safe_def)
  then have l: "receiver_locked u w" by (rule receiver_locked_trans)
  have "receiveEntered u = ENTERED \<longrightarrow> receiveEntered v = ENTERED"
    using \<open>receiver_locked u v\<close> by (simp add: receiver_locked_def)
  then show ?thesis using assms l unfolding recv_safe_def by auto
qed

lemma recv_safe_send:
  assumes ext: "externals (recv_safe h c sent own) Out Pay E"
    and "sendTeleporterMessage E inp rs w = Inr (mid, w')"
  shows "recv_safe h c sent own w w'"
  using ext recv_safe_refl assms(2)
proof (rule sendTeleporterMessage_steps, goal_cases)
  case (1 msg adj w2 x)
  let ?w1 = "w\<lparr>latestMessageIDs := (latestMessageIDs w)(in_destinationBlockchainID inp := mid)\<rparr>"
  have "recv_safe h c sent own w ?w1"
    by (rule recv_safe_cong) (simp add: receiver_part_def executions_def receives_def)
  moreover have "recv_safe h c sent own w2 w'"
    by (rule recv_safe_cong) (simp add: receiver_part_def executions_def receives_def 1(5))
  ultimately show ?case using 1(3) by (blast intro: recv_safe_trans)
qed

lemma recv_safe_markReceipts:
  "markReceipts c' rs w = Inr w' \<Longrightarrow> recv_safe h c sent own w w'"
  by (rule recv_safe_cong) (simp add: receiver_part_def executions_def receives_def markReceipts_frame)

lemma recv_safe_locked:
  assumes "recv_safe h c sent own w w'" and "receiveEntered w = ENTERED"
  shows "receiver_part w' = receiver_part w"
  using assms by (simp add: recv_safe_def receiver_locked_def receiver_part_def)

text \<open>The execution of a delivered message, under the guard.\<close>

lemma recv_execution:
  assumes ext: "externals (recv_safe h c sent own) Out Pay E"
    and entered: "receiveEntered w2 = ENTERED"
    and run: "if messageBytes msg = [] then w3 = w2
      else handleInitialMessageExecution E origin msg w2 = Inr w3"
  shows "receives w3 = receives w2" "relayerRewardAddresses w3 = relayerRewardAddresses w2"
    and "blockchainID w3 = blockchainID w2"
    and "receivedFailedMessageHashes w3 = receivedFailedMessageHashes w2 \<or>
      receivedFailedMessageHashes w3 =
        upd2 (receivedFailedMessageHashes w2) origin (messageID msg) (keccak256 E (abi_encode E msg))"
proof -
  have "\<exists>v. receiver_part v = receiver_part w2 \<and> (w3 = v \<or> w3 = storeFailedMessageExecution E origin msg v \<or>
      w3 = emit (LogMessageExecuted origin (messageID msg)) v)"
  proof (cases "messageBytes msg = []")
    case False
    then have "handleInitialMessageExecution E origin msg w2 = Inr w3" using run by simp
    then show ?thesis
    proof (rule handleInitialMessageExecution_steps [OF ext recv_safe_refl])
      fix v assume v: "recv_safe h c sent own w2 v"
        "v = w2 \<and> w3 = storeFailedMessageExecution E origin msg w2 \<or>
         w3 = emit (LogMessageExecuted origin (messageID msg)) v"
      then show ?thesis using recv_safe_locked [OF v(1) entered] by blast
    qed
  qed (use run in auto)
  then obtain v where v: "receiver_part v = receiver_part w2" "w3 = v \<or>
      w3 = storeFailedMessageExecution E origin msg v \<or> w3 = emit (LogMessageExecuted origin (messageID msg)) v"
    by blast
  have eq: "receives v = receives w2" "relayerRewardAddresses v = relayerRewardAddresses w2"
    "blockchainID v = blockchainID w2" "receivedFailedMessageHashes v = receivedFailedMessageHashes w2"
    using v(1) by (simp_all add: receiver_part_def)
  have "receives w3 = receives v" "relayerRewardAddresses w3 = relayerRewardAddresses v"
    "blockchainID w3 = blockchainID v" "receivedFailedMessageHashes w3 = receivedFailedMessageHashes v \<or>
      receivedFailedMessageHashes w3 =
        upd2 (receivedFailedMessageHashes v) origin (messageID msg) (keccak256 E (abi_encode E msg))"
    using v(2) by (auto simp: storeFailedMessageExecution_def emit_def receives_def)
  then show "receives w3 = receives w2" "relayerRewardAddresses w3 = relayerRewardAddresses w2"
    "blockchainID w3 = blockchainID w2"
    "receivedFailedMessageHashes w3 = receivedFailedMessageHashes w2 \<or>
      receivedFailedMessageHashes w3 =
        upd2 (receivedFailedMessageHashes w2) origin (messageID msg) (keccak256 E (abi_encode E msg))"
    unfolding eq by blast+
qed

lemma recv_safe_receive:
  assumes ext: "externals (recv_safe h c sent own) Out Pay E" and env: "recv_env h c sent own E"
    and "receiveCrossChainMessage E idx ra w = Inr (u, w')"
  shows "recv_safe h c sent own w w'"
  using assms(3)
proof (rule receiveCrossChainMessage_Inr, goal_cases)
  case (1 wm msg chain w2 w3 w4 q)
  let ?c = "sourceChainID wm" and ?m = "messageID msg"
  have "receiveEntered w2 = ENTERED" by (simp add: 1(10))
  note ex = recv_execution [OF ext this 1(11)]
  note mr = markReceipts_frame [OF 1(12)]
  have rec: "receives w' = receives w @ [(?c, ?m, msg)]"
    using ex(1) by (simp add: 1(14) receives_def mr 1(10))
  have addr: "relayerRewardAddresses w' = upd2 (relayerRewardAddresses w) ?c ?m ra"
    using ex(2) by (simp add: 1(14) mr 1(10))
  have chain: "blockchainID w' = chain" using ex(3) by (simp add: 1(14) mr 1(10))
  have own: "blockchainID w = 0 \<or> blockchainID w = own \<Longrightarrow> chain = own"
    using env by (auto simp: 1(5) recv_env_def genuine_warp_def)
  have genuine: "?c = c \<longrightarrow> sent msg"
    using env 1(3,4,6) by (fastforce simp: recv_env_def genuine_warp_def)
  have hash: "keccak256 E (abi_encode E msg) = h msg"
    using env by (simp add: recv_env_def hashes_with_def)
  have failed: "receivedFailedMessageHashes w' c' m = receivedFailedMessageHashes w c' m \<or>
      c' = ?c \<and> m = ?m \<and> receivedFailedMessageHashes w' c' m = h msg" for c' m
    using ex(4) by (cases "c' = ?c \<and> m = ?m") (auto simp: 1(14) mr 1(10) hash)
  have "received_genuine c sent own w'" if inv: "received_genuine c sent own w"
    using inv own 1(2,7,8) genuine unfolding received_genuine_def rec addr chain by auto
  moreover have "deliveries_logged h w'" if inv: "deliveries_logged h w"
    unfolding deliveries_logged_def
  proof (intro impI allI conjI)
    fix c' m assume "relayerRewardAddresses w' c' m \<noteq> 0"
    then show "\<exists>msg. (c', m, msg) \<in> set (receives w')"
      using inv 1(1) unfolding deliveries_logged_def rec addr by (auto split: if_splits)
  next
    fix c' m assume f: "receivedFailedMessageHashes w' c' m \<noteq> 0"
    from failed [of c' m]
    show "\<exists>msg. (c', m, msg) \<in> set (receives w') \<and> receivedFailedMessageHashes w' c' m = h msg"
    proof
      assume eq: "receivedFailedMessageHashes w' c' m = receivedFailedMessageHashes w c' m"
      with f inv 1(1) obtain msg' where "(c', m, msg') \<in> set (receives w)"
        "receivedFailedMessageHashes w c' m = h msg'" unfolding deliveries_logged_def by metis
      then show ?thesis using eq by (auto simp: rec)
    qed (auto simp: rec)
  qed
  moreover have "receiveEntered w' = NOT_ENTERED" by (simp add: 1(14))
  ultimately show ?case using 1(1) by (simp add: recv_safe_def receiver_locked_open)
qed

lemma recv_safe_retry:
  assumes ext: "externals (recv_safe h c sent own) Out Pay E"
    and "retryMessageExecution E origin msg w = Inr (u, w')"
  shows "recv_safe h c sent own w w'"
  using assms(2)
proof (rule retryMessageExecution_Inr, goal_cases)
  case (1 w2 w3)
  have "receiver_part w3 = receiver_part w2"
    using externalsD(1) [OF ext 1(6)] by (rule recv_safe_locked) (simp add: 1(5))
  then have eq: "receives w' = receives w" "relayerRewardAddresses w' = relayerRewardAddresses w"
    "blockchainID w' = blockchainID w" "receivedFailedMessageHashes w' =
      upd2 (receivedFailedMessageHashes w) origin (messageID msg) 0" "receiveEntered w' = NOT_ENTERED"
    by (simp_all add: receiver_part_def 1(5,7) receives_def)
  have "received_genuine c sent own w \<longrightarrow> received_genuine c sent own w'"
    by (simp add: received_genuine_def eq)
  moreover have "deliveries_logged h w \<longrightarrow> deliveries_logged h w'"
    using 1(1) by (auto simp: deliveries_logged_def eq)
  ultimately show ?case using 1(1) by (simp add: recv_safe_def receiver_locked_open eq(5))
qed

lemma recv_safe_op:
  assumes ext: "externals (recv_safe h c sent own) Out Pay E" and env: "recv_env h c sent own E"
    and op: "run_op E op w = Inr w'"
  shows "recv_safe h c sent own w w'"
  using op
proof (cases rule: run_op_Inr)
  case send
  then show ?thesis
  proof (rule sendCrossChainMessage_Inr, goal_cases)
    case (1 rs q w1)
    show ?case
      by (rule recv_safe_trans [OF recv_safe_cong
            recv_safe_trans [OF recv_safe_send [OF ext 1(3)] recv_safe_cong]])
        (simp_all add: 1(4) receiver_part_def executions_def receives_def)
  qed
next
  case receipts
  then show ?thesis
  proof (rule sendSpecifiedReceipts_Inr, goal_cases)
    case (1 rs w1)
    show ?case
      by (rule recv_safe_trans [OF recv_safe_cong
            recv_safe_trans [OF recv_safe_send [OF ext 1(3)] recv_safe_cong]])
        (simp_all add: 1(4) receiver_part_def executions_def receives_def)
  qed
next
  case fee
  then show ?thesis
  proof (rule addFeeAmount_Inr, goal_cases)
    case (1 adj w1 n)
    show ?case
      by (rule recv_safe_trans [OF recv_safe_cong
            recv_safe_trans [OF safeTransferFrom_steps [OF ext 1(6)] recv_safe_cong]])
        (simp_all add: 1(8) receiver_part_def executions_def receives_def)
  qed
next
  case resend
  then show ?thesis
    by (rule retrySendCrossChainMessage_Inr)
      (rule recv_safe_cong, simp add: receiver_part_def executions_def receives_def)
next
  case receive
  then show ?thesis by (rule recv_safe_receive [OF ext env])
next
  case retry
  then show ?thesis by (rule recv_safe_retry [OF ext])
next
  case redeem
  then show ?thesis
  proof (rule redeemRelayerRewards_steps [OF ext], goal_cases)
    case (1 x)
    show ?case
      by (rule recv_safe_trans [OF recv_safe_cong 1(3)])
        (simp add: receiver_part_def executions_def receives_def)
  qed
qed

interpretation recv: call_closed Out Pay "recv_env h c sent own" "recv_safe h c sent own"
  for Out Pay h c sent own
  by unfold_locales (fact recv_safe_refl, rule recv_safe_trans, assumption+, rule recv_safe_cong,
    simp_all add: receiver_part_def executions_def receives_def recv_safe_op)

lemma received_deployed: "received_genuine c sent own (deployed x)" "deliveries_logged h (deployed x)"
  by (simp_all add: received_genuine_def deliveries_logged_def receives_def deployed_def
      guards_constructor_def)

subsection \<open>What crosses from one chain to the other\<close>

definition was_sent :: "'x world \<Rightarrow> TeleporterMessage \<Rightarrow> bool" where
  "was_sent w msg \<longleftrightarrow> msg \<in> set (map (snd \<circ> snd) (sends w))"

definition sent_messages :: "bytes32 \<Rightarrow> 'x world \<Rightarrow> TeleporterMessage list" where
  "sent_messages c w = map (snd \<circ> snd) (filter (\<lambda>(c', m, msg). c' = c) (remdups (sends w)))"

definition received_messages :: "bytes32 \<Rightarrow> 'x world \<Rightarrow> TeleporterMessage list" where
  "received_messages c w = map (snd \<circ> snd) (filter (\<lambda>(c', m, msg). c' = c) (receives w))"

lemma set_was_sent: "was_sent w msg \<longleftrightarrow> (\<exists>c m. (c, m, msg) \<in> set (sends w))"
  by (force simp: was_sent_def)

lemma set_sent_messages: "msg \<in> set (sent_messages c w) \<longleftrightarrow> (\<exists>m. (c, m, msg) \<in> set (sends w))"
  by (force simp: sent_messages_def)

lemma set_received_messages:
  "msg \<in> set (received_messages c w) \<longleftrightarrow> (\<exists>m. (c, m, msg) \<in> set (receives w))"
  by (force simp: received_messages_def)

text \<open>What a messenger has sent when no two of its messages have the same hash.\<close>

lemma sent_entry:
  assumes "sent_inv h w" and "inj_on h {msg. was_sent w msg}" and "(c, m, msg) \<in> set (sends w)"
  shows "messageID msg = m" "destinationBlockchainID msg = c"
    and "(c, m, msg') \<in> set (sends w) \<Longrightarrow> msg' = msg"
proof -
  have unique: "msg1 = msg2" if "(c, m, msg1) \<in> set (sends w)" "(c, m, msg2) \<in> set (sends w)" for msg1 msg2
    using assms(2) sent_invD(2) [OF assms(1) that] by (rule inj_onD) (use that in \<open>auto simp: set_was_sent\<close>)
  from sent_invD(1) [OF assms(1,3)] unique [OF assms(3)]
  show "messageID msg = m" "destinationBlockchainID msg = c" by auto
  show "(c, m, msg') \<in> set (sends w) \<Longrightarrow> msg' = msg" by (rule unique [OF _ assms(3)])
qed

lemma distinct_sent_messages:
  assumes "sent_inv h w" and "inj_on h {msg. was_sent w msg}"
  shows "distinct (map messageID (sent_messages c w))"
proof -
  let ?l = "filter (\<lambda>(c', m, msg). c' = c) (remdups (sends w))"
  have "inj_on (messageID \<circ> (snd \<circ> snd)) (set ?l)"
  proof (rule inj_onI)
    fix x y assume xy: "x \<in> set ?l" "y \<in> set ?l" "(messageID \<circ> (snd \<circ> snd)) x = (messageID \<circ> (snd \<circ> snd)) y"
    obtain a m msg a' m' msg' where "x = (a, m, msg)" "y = (a', m', msg')"
      by (cases x, cases y) blast
    moreover from this xy(1,2) have "a = c" "a' = c" by auto
    ultimately have x: "x = (c, m, msg)" and y: "y = (c, m', msg')" by simp_all
    have "(c, m, msg) \<in> set (sends w)" "(c, m', msg') \<in> set (sends w)" using xy(1,2) x y by auto
    note e = this
    have "m = m'" using sent_entry(1) [OF assms e(1)] sent_entry(1) [OF assms e(2)] xy(3) x y by simp
    then show "x = y" using sent_entry(3) [OF assms e(1), of msg'] e(2) by (simp add: x y)
  qed
  then have "distinct (map (messageID \<circ> (snd \<circ> snd)) ?l)" by (simp add: distinct_map)
  then show ?thesis by (simp add: sent_messages_def)
qed

lemma distinct_received_messages:
  assumes "received_genuine c sent own w"
  shows "distinct (map messageID (received_messages c w))"
proof -
  let ?l = "filter (\<lambda>(c', m, msg). c' = c) (receives w)"
  have "distinct (map (\<lambda>(c, m, msg). (c, m)) ?l)"
    using assms by (simp add: received_genuine_def distinct_map_filter)
  moreover have "map (\<lambda>(c, m, msg). (c, m)) ?l = map (Pair c) (map (messageID \<circ> (snd \<circ> snd)) ?l)"
    using assms by (auto simp: received_genuine_def)
  ultimately have "distinct (map (messageID \<circ> (snd \<circ> snd)) ?l)" by (simp only: distinct_map)
  then show ?thesis by (simp add: received_messages_def)
qed

lemma received_was_sent:
  assumes "sent_inv h wS" and "inj_on h {msg. was_sent wS msg}"
    and "received_genuine c (was_sent wS) own wD" and "(c, m, msg) \<in> set (receives wD)"
  shows "(own, m, msg) \<in> set (sends wS)"
proof -
  from assms(3,4) have r: "messageID msg = m" "destinationBlockchainID msg = own" "was_sent wS msg"
    by (auto simp: received_genuine_def)
  then obtain c' m' where e: "(c', m', msg) \<in> set (sends wS)" by (auto simp: set_was_sent)
  from sent_entry(1,2) [OF assms(1,2) e] r(1,2) e show ?thesis by simp
qed

lemma mset_distinct_subset: "distinct xs \<Longrightarrow> set xs \<subseteq> set ys \<Longrightarrow> mset xs \<subseteq># mset ys"
  by (metis List.finite_set mset_set_set subset_imp_msubset_mset_set mset_remdups_subset_eq
      set_remdups distinct_remdups subset_mset.order_trans)

lemma received_subset_sent:
  assumes "sent_inv h wS" and "inj_on h {msg. was_sent wS msg}"
    and "received_genuine c (was_sent wS) own wD"
  shows "mset (received_messages c wD) \<subseteq># mset (sent_messages own wS)"
proof (rule mset_distinct_subset)
  show "distinct (received_messages c wD)"
    using distinct_received_messages [OF assms(3)] by (simp add: distinct_map)
  show "set (received_messages c wD) \<subseteq> set (sent_messages own wS)"
  proof
    fix msg assume "msg \<in> set (received_messages c wD)"
    then obtain m where "(c, m, msg) \<in> set (receives wD)" by (auto simp: set_received_messages)
    from received_was_sent [OF assms this]
    show "msg \<in> set (sent_messages own wS)" by (auto simp: set_sent_messages)
  qed
qed

subsection \<open>Two messengers\<close>

text \<open>What every run of a messenger from its deployment has logged.\<close>

lemma recv_env_hashes: "recv_env h c sent own E \<Longrightarrow> hashes_with h E"
  by (simp add: recv_env_def)

lemma run_sent_inv: "interacts Out Pay (hashes_with h) (deployed x) w \<Longrightarrow> sent_inv h w"
  using sent.lift [where h = h] sent_inv_deployed by (fastforce simp: sent_safe_def)

lemma run_received:
  assumes "interacts Out Pay (recv_env h c sent own) (deployed x) w"
  shows "received_genuine c sent own w" "deliveries_logged h w" "receiveEntered w = NOT_ENTERED"
  using recv.lift [OF assms] received_deployed [where x = x]
  by (auto simp: recv_safe_def deployed_def guards_constructor_def)

lemma run_executions:
  assumes "interacts Out Pay Hon (deployed x) w"
  shows "executions w c m \<le> 1" "executions w c m \<noteq> 0 \<Longrightarrow> relayerRewardAddresses w c m \<noteq> 0"
  using exec.lift [OF assms] exec_inv_deployed [of x] by (auto simp: exec_safe_def exec_inv_def)

end
