(* ===== verification/Messenger_Crossing.thy ===== *)
theory Messenger_Crossing
  imports Messenger_Delivery
begin

section \<open>Two messengers: what crosses, and how often\<close>

text \<open>
  The composition of the messengers of two chains, each with any number of operations, nested
  calls included. The warp precompile of a chain verifies from the other messenger only what that
  messenger has sent, and no two messages that it has sent have the same hash. Then every message
  crosses at most once and unaltered.
\<close>

lemma retry_was_received:
  assumes "deliveries_logged h w" and "hashes_with h E" and "receiveEntered w = NOT_ENTERED"
    and "received_genuine c' sent own w" and "retryMessageExecution E c msg w = Inr (u, w')"
  shows "\<exists>msg' \<in> set (received_messages c w). messageID msg' = messageID msg \<and> h msg' = h msg"
  using assms(5)
proof (rule retryMessageExecution_Inr, goal_cases)
  case (1 w2 w3)
  from assms(1,3) 1(2) obtain msg' where m: "(c, messageID msg, msg') \<in> set (receives w)"
    "receivedFailedMessageHashes w c (messageID msg) = h msg'"
    unfolding deliveries_logged_def by metis
  then have "h msg' = h msg" using assms(2) 1(3) by (simp add: hashes_with_def)
  moreover have "messageID msg' = messageID msg" using assms(4) m(1) by (auto simp: received_genuine_def)
  moreover have "msg' \<in> set (received_messages c w)" using m(1) by (auto simp: set_received_messages)
  ultimately show ?thesis by blast
qed

lemma executed_was_received:
  assumes "interacts Out Pay (recv_env h c' sent own) (deployed x) w" and "executions w c m \<noteq> 0"
  shows "m \<in> set (map messageID (received_messages c w))"
proof -
  have "relayerRewardAddresses w c m \<noteq> 0" using run_executions(2) [OF assms(1)] assms(2) by simp
  then obtain msg where r: "(c, m, msg) \<in> set (receives w)"
    using run_received(2,3) [OF assms(1)] unfolding deliveries_logged_def by metis
  then have "messageID msg = m" using run_received(1) [OF assms(1)] by (auto simp: received_genuine_def)
  then show ?thesis using r by (force simp: set_received_messages)
qed

text \<open>
  C3: Messages cross from one chain to another at most once and unaltered. Let a messenger have
  done anything on the chain \<open>chainS\<close>, and another anything on \<open>chainD\<close>, where warp verifies only
  what the first has sent. The messages received are among those sent to \<open>chainD\<close>, each received
  once; those sent have different IDs, also when they are sent again; every message is executed at
  most once, and only if it was received; and a retry can only execute a message with the hash of
  one that was received.
\<close>

theorem messages_cross_once:
  assumes source: "interacts OutS PayS (hashes_with h) (deployed xS) wS"
    and hashes: "inj_on h {msg. was_sent wS msg}"
    and dest: "interacts OutD PayD (recv_env h chainS (was_sent wS) chainD) (deployed xD) wD"
  shows "mset (received_messages chainS wD) \<subseteq># mset (sent_messages chainD wS) \<and>
    distinct (map messageID (sent_messages chainD wS)) \<and>
    (\<forall>m. executions wD chainS m \<le> 1 \<and>
       (executions wD chainS m = 1 \<longrightarrow> m \<in> set (map messageID (received_messages chainS wD)))) \<and>
    (\<forall>E msg u w'. hashes_with h E \<longrightarrow> retryMessageExecution E chainS msg wD = Inr (u, w') \<longrightarrow>
       (\<exists>msg' \<in> set (received_messages chainS wD). messageID msg' = messageID msg \<and> h msg' = h msg))"
proof -
  note sent = run_sent_inv [OF source] and received = run_received [OF dest]
  have "mset (received_messages chainS wD) \<subseteq># mset (sent_messages chainD wS)"
    using sent hashes received(1) by (rule received_subset_sent)
  moreover have "distinct (map messageID (sent_messages chainD wS))"
    using sent hashes by (rule distinct_sent_messages)
  moreover have "executions wD chainS m \<le> 1 \<and>
      (executions wD chainS m = 1 \<longrightarrow> m \<in> set (map messageID (received_messages chainS wD)))" for m
    using run_executions(1) [OF dest] executed_was_received [OF dest, of chainS m] by simp
  ultimately show ?thesis
    using retry_was_received [OF received(2) _ received(3,1)] by blast
qed

text \<open>A run: the messenger of chain 5 sends a message, the one of chain 7 receives and executes it.\<close>

definition cross_message :: TeleporterMessage where
  "cross_message = sent_message demo_env (demo_input 4) 1 []"

definition demo_hash :: "TeleporterMessage \<Rightarrow> bytes32" where
  "demo_hash msg = keccak256 demo_env (abi_encode demo_env msg)"

definition no_warp :: "nat env" where
  "no_warp = demo_env\<lparr>getVerifiedWarpMessage := (\<lambda>i x. (\<lparr>sourceChainID = 0,
     originSenderAddress = 0, payload = []\<rparr>, False))\<rparr>"

definition cross_env :: "nat env" where
  "cross_env = demo_env\<lparr>abi_decode := (\<lambda>bs. if bs = [1] then Some cross_message else None),
     getVerifiedWarpMessage := (\<lambda>i x. (\<lparr>sourceChainID = 5, originSenderAddress = 1,
       payload = [1]\<rparr>, True)),
     getBlockchainID := (\<lambda>x. 7)\<rparr>"

definition crossed :: "nat world" where
  "crossed = snd (projr (receiveCrossChainMessage cross_env 0 2 demo_world))"

lemma cross_receive: "receiveCrossChainMessage cross_env 0 2 demo_world = Inr ((), crossed)"
  unfolding crossed_def
  by (simp add: receiveCrossChainMessage_def demo_steps cross_env_def cross_message_def sent_message_def)

lemma no_warp_send: "sendCrossChainMessage no_warp (demo_input 4) demo_world = Inr (1, demo_sent)"
  unfolding demo_sent_def
  by (simp add: sendCrossChainMessage_def demo_steps no_warp_def)

lemma demo_sent_logs: "sends demo_sent = [(7, 1, cross_message)]" "receives demo_sent = []"
  unfolding demo_sent_def
  by (simp_all add: sends_def receives_def sendCrossChainMessage_def demo_steps cross_message_def
      sent_message_def)

lemma crossed_logs:
  "receives crossed = [(5, 1, cross_message)]" "sends crossed = []" "executions crossed 5 1 = 1"
  unfolding crossed_def
  by (simp_all add: sends_def receives_def executions_def receiveCrossChainMessage_def demo_steps
      cross_env_def cross_message_def sent_message_def)

abbreviation anything_outside :: "(nat env \<Rightarrow> bool) \<Rightarrow> nat world \<Rightarrow> nat world \<Rightarrow> bool" where
  "anything_outside \<equiv> interacts (\<lambda>_ _. True) (\<lambda>_ _ _ _ _. True)"

lemma demo_run:
  assumes "Hon E" and "run_op E op demo_world = Inr w"
    and "call_contract E = call_contract demo_env" "token_transferFrom E = token_transferFrom demo_env"
    and "token_transfer E = token_transfer demo_env" "sendWarpMessage E = sendWarpMessage demo_env"
  shows "anything_outside Hon (deployed 100) w"
  unfolding demo_world_def [symmetric]
proof (rule interacts_op [where E = E and op = op])
  have out: "anything_outside Hon v (v\<lparr>outside := x\<rparr>)" for v x
    by (rule interacts.elsewhere [OF _ interacts.stop]) simp
  have pay: "\<exists>x. anything_outside Hon (v\<lparr>outside := x\<rparr>) v'"
    if "token_transfer demo_env t to amt v = Inr v'" for t to amt v v'
    using that by (intro exI [of _ "outside v'"]) (auto intro: interacts.stop split: if_splits)
  show "externals (anything_outside Hon) (\<lambda>_ _. True) (\<lambda>_ _ _ _ _. True) E"
    unfolding externals_def assms(3-6) using pay by (auto intro: interacts.stop out)
qed (fact assms)+

lemma sent_run: "Hon no_warp \<Longrightarrow> anything_outside Hon (deployed 100) demo_sent"
  by (rule demo_run [where E = no_warp and op = "SendMessage (demo_input 4)"])
    (simp_all add: no_warp_send, simp_all add: no_warp_def demo_env_def)

lemma crossed_run: "Hon cross_env \<Longrightarrow> anything_outside Hon (deployed 100) crossed"
  by (rule demo_run [where E = cross_env and op = "Receive 0 2"])
    (simp_all add: cross_receive, simp_all add: cross_env_def demo_env_def)

lemma no_warp_hashes: "hashes_with demo_hash no_warp"
  by (simp add: hashes_with_def demo_hash_def no_warp_def)

lemma demo_was_sent: "was_sent demo_sent msg \<longleftrightarrow> msg = cross_message" "\<not> was_sent crossed msg"
  by (simp_all add: was_sent_def demo_sent_logs crossed_logs)

lemma cross_env_genuine: "recv_env demo_hash 5 (was_sent demo_sent) 7 cross_env"
proof -
  have "\<exists>msg. msg = cross_message \<and> [1] = abi_encode demo_env msg"
    by (simp add: cross_message_def sent_message_def)
  then show ?thesis
    by (auto simp: recv_env_def genuine_warp_def hashes_with_def demo_hash_def demo_was_sent
        cross_env_def cross_message_def sent_message_def)
qed

lemma no_warp_genuine: "recv_env demo_hash 7 (was_sent crossed) 5 no_warp"
  unfolding recv_env_def by (simp add: no_warp_hashes) (simp add: genuine_warp_def demo_was_sent no_warp_def)

lemma demo_no_collision: "inj_on demo_hash {msg. was_sent demo_sent msg}"
  "inj_on demo_hash {msg. was_sent crossed msg}"
  by (simp_all add: demo_was_sent)

lemma demo_runs:
  "anything_outside (hashes_with demo_hash) (deployed 100) demo_sent"
  "anything_outside (recv_env demo_hash 7 (was_sent crossed) 5) (deployed 100) demo_sent"
  "anything_outside (recv_env demo_hash 5 (was_sent demo_sent) 7) (deployed 100) crossed"
  by (rule sent_run, rule no_warp_hashes) (rule sent_run, rule no_warp_genuine,
    rule crossed_run, rule cross_env_genuine)

theorem messages_cross_once_witness:
  "received_messages 5 crossed = [cross_message] \<and>
   mset (received_messages 5 crossed) \<subseteq># mset (sent_messages 7 demo_sent) \<and>
   executions crossed 5 1 = 1 \<and> 1 \<in> set (map messageID (received_messages 5 crossed))"
  using messages_cross_once [OF demo_runs(1) demo_no_collision(1) demo_runs(3)] crossed_logs
  by (simp add: received_messages_def)

end
