(* ===== verification/Registry.thy ===== *)
theory Registry
  imports Messenger_State
begin

section \<open>TeleporterRegistry.sol: the protocol versions\<close>

text \<open>
  Models \<open>contracts/src/Teleporter/upgrades/TeleporterRegistry.sol\<close>: the storage, the
  constructor, \<open>addProtocolVersion\<close> and the getters. The Warp precompile's answer and the ABI
  decoder are arguments. The invariant \<open>registry_inv\<close> says what the two mappings and
  \<open>latestVersion\<close> have to do with each other; the locale \<open>version_table\<close> is what the
  upgradeable applications rely on.
\<close>

subsection \<open>Storage and operations\<close>

record ProtocolRegistryEntry =
  entry_version :: uint256
  entry_protocolAddress :: address

datatype registry_event =
    LogAddProtocolVersion uint256 address
  | LogLatestVersionUpdated uint256 uint256

record registry =
  reg_blockchainID :: bytes32
  latestVersion :: uint256
  versionToAddress :: "uint256 \<Rightarrow> address"
  addressToVersion :: "address \<Rightarrow> uint256"
  reg_logs :: "registry_event list"

definition VALIDATORS_SOURCE_ADDRESS :: address where
  "VALIDATORS_SOURCE_ADDRESS = 0"

definition MAX_VERSION_INCREMENT :: uint256 where
  "MAX_VERSION_INCREMENT = 500"

definition addToRegistry ::
  "ProtocolRegistryEntry \<Rightarrow> 'a registry_scheme \<Rightarrow> sol_error + 'a registry_scheme" where
  "addToRegistry entry r =
     requireE (entry_version entry \<noteq> 0) ''TeleporterRegistry: zero version'' (
     requireE (versionToAddress r (entry_version entry) = 0)
       ''TeleporterRegistry: version already exists'' (
     requireE (entry_protocolAddress entry \<noteq> 0) ''TeleporterRegistry: zero protocol address'' (
     bindE (checked_add (latestVersion r) MAX_VERSION_INCREMENT) (\<lambda>limit.
     requireE (entry_version entry \<le> limit) ''TeleporterRegistry: version increment too high'' (
     let r1 = r\<lparr>versionToAddress :=
           (versionToAddress r)(entry_version entry := entry_protocolAddress entry)\<rparr>;
         r2 = (if entry_version entry > addressToVersion r1 (entry_protocolAddress entry)
           then r1\<lparr>addressToVersion :=
             (addressToVersion r1)(entry_protocolAddress entry := entry_version entry)\<rparr>
           else r1);
         r3 = r2\<lparr>reg_logs := reg_logs r2 @
           [LogAddProtocolVersion (entry_version entry) (entry_protocolAddress entry)]\<rparr>
     in Inr (if entry_version entry > latestVersion r3
         then r3\<lparr>latestVersion := entry_version entry, reg_logs := reg_logs r3 @
           [LogLatestVersionUpdated (latestVersion r3) (entry_version entry)]\<rparr>
         else r3))))))"

text \<open>The constructor's loop over the initial entries.\<close>

fun addAllToRegistry ::
  "ProtocolRegistryEntry list \<Rightarrow> 'a registry_scheme \<Rightarrow> sol_error + 'a registry_scheme" where
  "addAllToRegistry [] r = Inr r"
| "addAllToRegistry (entry # es) r = bindE (addToRegistry entry r) (addAllToRegistry es)"

definition registry_constructor ::
  "bytes32 \<Rightarrow> ProtocolRegistryEntry list \<Rightarrow> sol_error + registry" where
  "registry_constructor chain initialEntries =
     addAllToRegistry initialEntries
       \<lparr>reg_blockchainID = chain, latestVersion = 0, versionToAddress = (\<lambda>_. 0),
        addressToVersion = (\<lambda>_. 0), reg_logs = []\<rparr>"

text \<open>
  \<open>verified\<close> is what the precompile returns for the given index, \<open>decode\<close> the ABI decoding of
  the payload, which fails on malformed bytes.
\<close>

definition addProtocolVersion ::
  "address \<Rightarrow> (uint32 \<Rightarrow> WarpMessage \<times> bool)
    \<Rightarrow> (bytes \<Rightarrow> (ProtocolRegistryEntry \<times> address) option)
    \<Rightarrow> uint32 \<Rightarrow> 'a registry_scheme \<Rightarrow> sol_error + 'a registry_scheme" where
  "addProtocolVersion this verified decode messageIndex r =
     (let (msg, success) = verified messageIndex in
      requireE success ''TeleporterRegistry: invalid warp message'' (
      requireE (sourceChainID msg = reg_blockchainID r)
        ''TeleporterRegistry: invalid source chain ID'' (
      requireE (originSenderAddress msg = VALIDATORS_SOURCE_ADDRESS)
        ''TeleporterRegistry: invalid origin sender address'' (
      case decode (payload msg) of
        None \<Rightarrow> Inl (ExternalRevert [])
      | Some (entry, destinationAddress') \<Rightarrow>
          requireE (destinationAddress' = this)
            ''TeleporterRegistry: invalid destination address'' (
          addToRegistry entry r)))))"

definition getAddressFromVersion :: "uint256 \<Rightarrow> 'a registry_scheme \<Rightarrow> sol_error + address" where
  "getAddressFromVersion version r =
     requireE (version \<noteq> 0) ''TeleporterRegistry: zero version'' (
     requireE (versionToAddress r version \<noteq> 0) ''TeleporterRegistry: version not found'' (
     Inr (versionToAddress r version)))"

definition getLatestTeleporter :: "'a registry_scheme \<Rightarrow> sol_error + address" where
  "getLatestTeleporter r = getAddressFromVersion (latestVersion r) r"

definition getTeleporterFromVersion :: "uint256 \<Rightarrow> 'a registry_scheme \<Rightarrow> sol_error + address" where
  "getTeleporterFromVersion version r = getAddressFromVersion version r"

definition getVersionFromAddress :: "address \<Rightarrow> 'a registry_scheme \<Rightarrow> sol_error + uint256" where
  "getVersionFromAddress protocolAddress r =
     requireE (protocolAddress \<noteq> 0) ''TeleporterRegistry: zero protocol address'' (
     requireE (addressToVersion r protocolAddress \<noteq> 0)
       ''TeleporterRegistry: protocol address not found'' (
     Inr (addressToVersion r protocolAddress)))"

subsection \<open>What a successful registration does\<close>

lemma addToRegistry_Inr [inv_rules]:
  assumes "addToRegistry entry r = Inr r'"
  obtains v a where "v = entry_version entry" "a = entry_protocolAddress entry"
    "v \<noteq> 0" "a \<noteq> 0" "versionToAddress r v = 0"
    "unat v \<le> unat (latestVersion r) + 500"
    "versionToAddress r' = (versionToAddress r)(v := a)"
    "addressToVersion r' = (addressToVersion r)(a := max v (addressToVersion r a))"
    "latestVersion r' = max v (latestVersion r)"
    "reg_blockchainID r' = reg_blockchainID r"
proof -
  let ?v = "entry_version entry" and ?a = "entry_protocolAddress entry"
  from assms obtain l where
    g: "?v \<noteq> 0" "versionToAddress r ?v = 0" "?a \<noteq> 0"
      "checked_add (latestVersion r) MAX_VERSION_INCREMENT = Inr l" "?v \<le> l"
    by (auto simp: addToRegistry_def)
  have "unat l = unat (latestVersion r) + 500"
    using checked_add_unat [OF g(4)] by (simp add: MAX_VERSION_INCREMENT_def)
  then have le: "unat ?v \<le> unat (latestVersion r) + 500"
    using g(5) by (simp add: word_le_nat_alt)
  have "versionToAddress r' = (versionToAddress r)(?v := ?a)"
    "addressToVersion r' = (addressToVersion r)(?a := max ?v (addressToVersion r ?a))"
    "latestVersion r' = max ?v (latestVersion r)" "reg_blockchainID r' = reg_blockchainID r"
    using assms g by (auto simp: addToRegistry_def Let_def max_def fun_eq_iff split: if_splits)
  then show ?thesis using that g le by blast
qed

lemma addProtocolVersion_Inr [inv_rules]:
  assumes "addProtocolVersion this verified decode i r = Inr r'"
  obtains msg entry where "verified i = (msg, True)" "sourceChainID msg = reg_blockchainID r"
    "originSenderAddress msg = VALIDATORS_SOURCE_ADDRESS"
    "decode (payload msg) = Some (entry, this)" "addToRegistry entry r = Inr r'"
  using assms
  by (auto simp: addProtocolVersion_def split: prod.splits option.splits)

subsection \<open>The invariant\<close>

definition registry_inv :: "'a registry_scheme \<Rightarrow> bool" where
  "registry_inv r \<longleftrightarrow>
     versionToAddress r 0 = 0 \<and> addressToVersion r 0 = 0 \<and>
     (\<forall>v. versionToAddress r v \<noteq> 0 \<longrightarrow> v \<le> latestVersion r \<and>
        v \<le> addressToVersion r (versionToAddress r v)) \<and>
     (\<forall>a. addressToVersion r a \<noteq> 0 \<longrightarrow> versionToAddress r (addressToVersion r a) = a) \<and>
     (latestVersion r \<noteq> 0 \<longrightarrow> versionToAddress r (latestVersion r) \<noteq> 0)"

lemma addToRegistry_inv:
  assumes "registry_inv r" and "addToRegistry entry r = Inr r'"
  shows "registry_inv r'"
  using assms(2)
proof (rule addToRegistry_Inr, goal_cases)
  case (1 v a)
  have inv: "versionToAddress r 0 = 0" "addressToVersion r 0 = 0"
    "\<And>v. versionToAddress r v \<noteq> 0 \<Longrightarrow> v \<le> latestVersion r"
    "\<And>v. versionToAddress r v \<noteq> 0 \<Longrightarrow> v \<le> addressToVersion r (versionToAddress r v)"
    "\<And>a. addressToVersion r a \<noteq> 0 \<Longrightarrow> versionToAddress r (addressToVersion r a) = a"
    "latestVersion r \<noteq> 0 \<Longrightarrow> versionToAddress r (latestVersion r) \<noteq> 0"
    using assms(1) by (simp_all add: registry_inv_def)
  have av: "addressToVersion r b \<noteq> v" for b
    using inv(5) [of b] 1(3,5) inv(2) by metis
  show ?case
    unfolding registry_inv_def
  proof (intro conjI allI impI)
    fix u
    assume u: "versionToAddress r' u \<noteq> 0"
    then show "u \<le> latestVersion r'"
      using inv(3) [of u] 1(7,9) by (auto simp: le_max_iff_disj split: if_splits)
    show "u \<le> addressToVersion r' (versionToAddress r' u)"
      using u inv(4) [of u] 1(7,8) by (auto simp: le_max_iff_disj split: if_splits)
  next
    fix b
    assume b: "addressToVersion r' b \<noteq> 0"
    show "versionToAddress r' (addressToVersion r' b) = b"
    proof (cases "b = a")
      case True
      then show ?thesis
        using b inv(5) [of a] av [of a] 1(3,7,8) by (auto simp: max_def split: if_splits)
    next
      case False
      then show ?thesis using b inv(5) [of b] av [of b] 1(7,8) by auto
    qed
  next
    assume "latestVersion r' \<noteq> 0"
    show "versionToAddress r' (latestVersion r') \<noteq> 0"
      using inv(6) 1(3,4,7,9) by (cases "latestVersion r = 0") (auto simp: max_def)
  qed (use inv(1,2) 1(3,4,7,8) in auto)
qed

lemma addAllToRegistry_inv:
  "registry_inv r \<Longrightarrow> addAllToRegistry es r = Inr r' \<Longrightarrow> registry_inv r'"
  by (induction es arbitrary: r) (auto intro: addToRegistry_inv)

lemma registry_constructor_inv: "registry_constructor chain es = Inr r \<Longrightarrow> registry_inv r"
  unfolding registry_constructor_def
  by (erule addAllToRegistry_inv [rotated]) (simp add: registry_inv_def)

subsection \<open>Evolution\<close>

text \<open>
  \<open>registry_evolves r r'\<close>: some number of successful \<open>addProtocolVersion\<close> calls, with any
  Warp messages, lead from \<open>r\<close> to \<open>r'\<close>.
\<close>

inductive registry_evolves :: "address \<Rightarrow> 'a registry_scheme \<Rightarrow> 'a registry_scheme \<Rightarrow> bool"
  for this :: address where
  none: "registry_evolves this r r"
| more: "registry_evolves this r r1 \<Longrightarrow> addProtocolVersion this verified decode i r1 = Inr r2
    \<Longrightarrow> registry_evolves this r r2"

definition registry_grows :: "'a registry_scheme \<Rightarrow> 'a registry_scheme \<Rightarrow> bool" where
  "registry_grows r r' \<longleftrightarrow>
     (\<forall>v. versionToAddress r v \<noteq> 0 \<longrightarrow> versionToAddress r' v = versionToAddress r v) \<and>
     (\<forall>a. addressToVersion r a \<le> addressToVersion r' a) \<and>
     latestVersion r \<le> latestVersion r' \<and> reg_blockchainID r' = reg_blockchainID r"

lemma le_zero_word: "(a :: uint256) \<le> b \<Longrightarrow> a \<noteq> 0 \<Longrightarrow> b \<noteq> 0"
  by (auto simp: word_le_nat_alt word_unat_eq_iff)

lemma registry_grows_refl: "registry_grows r r"
  by (simp add: registry_grows_def)

lemma registry_grows_trans: "registry_grows r s \<Longrightarrow> registry_grows s t \<Longrightarrow> registry_grows r t"
  unfolding registry_grows_def by (metis order_trans)

lemma addToRegistry_grows: "addToRegistry entry r = Inr r' \<Longrightarrow> registry_grows r r'"
  by (erule addToRegistry_Inr) (auto simp: registry_grows_def)

lemma registry_evolves_grows:
  "registry_evolves this r r' \<Longrightarrow> registry_grows r r' \<and> (registry_inv r \<longrightarrow> registry_inv r')"
proof (induction rule: registry_evolves.induct)
  case (none r)
  then show ?case by (simp add: registry_grows_refl)
next
  case (more r r1 verified decode i r2)
  from more.hyps(2) obtain entry where "addToRegistry entry r1 = Inr r2"
    by (rule addProtocolVersion_Inr)
  then show ?case
    using more.IH registry_grows_trans addToRegistry_grows addToRegistry_inv by blast
qed

subsection \<open>What an application relies on\<close>

text \<open>
  The contract of the registry towards its clients: \<open>latest\<close> bounds every version that
  \<open>version_of\<close> reports, a reported version resolves back to the address it was asked for, and
  while the registry evolves, a resolved version keeps its address and reported versions and the
  latest version never decrease.
\<close>

locale version_table =
  fixes ok :: "'r \<Rightarrow> bool"
    and evolves :: "'r \<Rightarrow> 'r \<Rightarrow> bool"
    and latest :: "'r \<Rightarrow> uint256"
    and version_of :: "address \<Rightarrow> 'r \<Rightarrow> sol_error + uint256"
    and address_of :: "uint256 \<Rightarrow> 'r \<Rightarrow> sol_error + address"
  assumes ok_evolves: "ok r \<Longrightarrow> evolves r r' \<Longrightarrow> ok r'"
    and latest_mono: "evolves r r' \<Longrightarrow> latest r \<le> latest r'"
    and version_resolves: "ok r \<Longrightarrow> version_of a r = Inr v \<Longrightarrow> address_of v r = Inr a"
    and version_bound: "ok r \<Longrightarrow> address_of v r = Inr a \<Longrightarrow>
          v \<le> latest r \<and> (\<exists>u. version_of a r = Inr u \<and> v \<le> u)"
    and address_stable: "evolves r r' \<Longrightarrow> address_of v r = Inr a \<Longrightarrow> address_of v r' = Inr a"
    and version_mono: "ok r \<Longrightarrow> evolves r r' \<Longrightarrow> version_of a r = Inr v \<Longrightarrow>
          \<exists>u. version_of a r' = Inr u \<and> v \<le> u"
begin

lemma version_le_latest: "ok r \<Longrightarrow> version_of a r = Inr v \<Longrightarrow> v \<le> latest r"
  using version_resolves version_bound by blast

text \<open>The version of an address is the largest one that resolves to it.\<close>

lemma version_greatest:
  "ok r \<Longrightarrow> version_of a r = Inr v \<Longrightarrow> address_of u r = Inr a \<Longrightarrow> u \<le> v"
  using version_bound by fastforce

text \<open>What was accepted for a minimum version stays accepted for it.\<close>

lemma minimum_stable:
  "ok r \<Longrightarrow> evolves r r' \<Longrightarrow> version_of a r = Inr v \<Longrightarrow> m \<le> v \<Longrightarrow>
    \<exists>u. version_of a r' = Inr u \<and> m \<le> u"
  using version_mono order_trans by blast

end

interpretation vt: version_table registry_inv "registry_evolves this" latestVersion
    getVersionFromAddress getAddressFromVersion for this
proof unfold_locales
  fix r :: "'a registry_scheme" and v a
  assume "registry_inv r" and "getAddressFromVersion v r = Inr a"
  then show "v \<le> latestVersion r \<and> (\<exists>u. getVersionFromAddress a r = Inr u \<and> v \<le> u)"
    by (auto simp: registry_inv_def getAddressFromVersion_def getVersionFromAddress_def)
next
  fix r r' :: "'a registry_scheme" and v a
  assume "registry_evolves this r r'" and "getAddressFromVersion v r = Inr a"
  then show "getAddressFromVersion v r' = Inr a"
    using registry_evolves_grows [of this r r']
    by (auto simp: registry_grows_def getAddressFromVersion_def)
next
  fix r r' :: "'a registry_scheme" and a v
  assume "registry_evolves this r r'" and "getVersionFromAddress a r = Inr v"
  then show "\<exists>u. getVersionFromAddress a r' = Inr u \<and> v \<le> u"
    using registry_evolves_grows [of this r r'] le_zero_word
    by (fastforce simp: registry_grows_def getVersionFromAddress_def)
qed (auto simp: registry_inv_def getAddressFromVersion_def getVersionFromAddress_def
    registry_grows_def dest: registry_evolves_grows)

end
