(* ===== verification/Upgradeable.thy ===== *)
theory Upgradeable
  imports Registry
begin

section \<open>TeleporterUpgradeable.sol and TeleporterOwnerUpgradeable.sol\<close>

text \<open>
  The base contract of applications that follow the registry. Its world extends the registry's
  storage, since the application reads it by external calls, with the application's own:
  the paused messengers, the minimum version, the log, the owner, and \<open>app\<close>, the state of the
  inheriting contract. The virtual functions are arguments: \<open>receiveHook\<close> stands for
  \<open>_receiveTeleporterMessage\<close>; the owner check is the one of OpenZeppelin's \<open>Ownable\<close>, as
  \<open>checkOwner\<close>.
\<close>

datatype upgradeable_event =
    LogMinTeleporterVersionUpdated uint256 uint256
  | LogTeleporterAddressPaused address
  | LogTeleporterAddressUnpaused address

record 'app upgradeable = registry +
  minTeleporterVersion :: uint256
  pausedTeleporterAddresses :: "address \<Rightarrow> bool"
  upg_logs :: "upgradeable_event list"
  app :: 'app

definition upgradeable_constructor ::
  "address \<Rightarrow> 'app upgradeable \<Rightarrow> sol_error + 'app upgradeable" where
  "upgradeable_constructor registryAddress u =
     requireE (registryAddress \<noteq> 0)
       ''TeleporterUpgradeable: zero teleporter registry address'' (
     Inr (u\<lparr>minTeleporterVersion := latestVersion u,
           pausedTeleporterAddresses := (\<lambda>_. False), upg_logs := []\<rparr>))"

definition isTeleporterAddressPaused :: "address \<Rightarrow> 'app upgradeable \<Rightarrow> bool" where
  "isTeleporterAddressPaused a u = pausedTeleporterAddresses u a"

definition getMinTeleporterVersion :: "'app upgradeable \<Rightarrow> uint256" where
  "getMinTeleporterVersion u = minTeleporterVersion u"

definition receiveTeleporterMessage ::
  "(bytes32 \<Rightarrow> address \<Rightarrow> bytes \<Rightarrow> 'app upgradeable \<Rightarrow> sol_error + 'app upgradeable)
    \<Rightarrow> address \<Rightarrow> bytes32 \<Rightarrow> address \<Rightarrow> bytes \<Rightarrow> 'app upgradeable
    \<Rightarrow> sol_error + 'app upgradeable" where
  "receiveTeleporterMessage receiveHook sender originBlockchainID originSender msg u =
     bindE (getVersionFromAddress sender u) (\<lambda>version.
     requireE (version \<ge> minTeleporterVersion u)
       ''TeleporterUpgradeable: invalid Teleporter sender'' (
     requireE (\<not> isTeleporterAddressPaused sender u)
       ''TeleporterUpgradeable: Teleporter address paused'' (
     receiveHook originBlockchainID originSender msg u)))"

definition setMinTeleporterVersion ::
  "uint256 \<Rightarrow> 'app upgradeable \<Rightarrow> sol_error + 'app upgradeable" where
  "setMinTeleporterVersion version u =
     (let latestTeleporterVersion = latestVersion u;
          oldMinTeleporterVersion = minTeleporterVersion u in
      requireE (version \<le> latestTeleporterVersion)
        ''TeleporterUpgradeable: invalid Teleporter version'' (
      requireE (version > oldMinTeleporterVersion)
        ''TeleporterUpgradeable: not greater than current minimum version'' (
      Inr (u\<lparr>minTeleporterVersion := version, upg_logs := upg_logs u @
        [LogMinTeleporterVersionUpdated oldMinTeleporterVersion version]\<rparr>))))"

text \<open>\<open>_checkTeleporterUpgradeAccess\<close> as TeleporterOwnerUpgradeable overrides it.\<close>

definition checkTeleporterUpgradeAccess ::
  "(address \<Rightarrow> 'app \<Rightarrow> sol_error + unit) \<Rightarrow> address \<Rightarrow> 'app upgradeable \<Rightarrow> sol_error + unit" where
  "checkTeleporterUpgradeAccess checkOwner sender u = checkOwner sender (app u)"

definition updateMinTeleporterVersion ::
  "(address \<Rightarrow> 'app \<Rightarrow> sol_error + unit) \<Rightarrow> address \<Rightarrow> uint256 \<Rightarrow> 'app upgradeable
    \<Rightarrow> sol_error + 'app upgradeable" where
  "updateMinTeleporterVersion checkOwner sender version u =
     bindE (checkTeleporterUpgradeAccess checkOwner sender u) (\<lambda>_.
     setMinTeleporterVersion version u)"

definition pauseTeleporterAddress ::
  "(address \<Rightarrow> 'app \<Rightarrow> sol_error + unit) \<Rightarrow> address \<Rightarrow> address \<Rightarrow> 'app upgradeable
    \<Rightarrow> sol_error + 'app upgradeable" where
  "pauseTeleporterAddress checkOwner sender a u =
     bindE (checkTeleporterUpgradeAccess checkOwner sender u) (\<lambda>_.
     requireE (a \<noteq> 0) ''TeleporterUpgradeable: zero Teleporter address'' (
     requireE (\<not> isTeleporterAddressPaused a u)
       ''TeleporterUpgradeable: address already paused'' (
     Inr (u\<lparr>pausedTeleporterAddresses := (pausedTeleporterAddresses u)(a := True),
           upg_logs := upg_logs u @ [LogTeleporterAddressPaused a]\<rparr>))))"

definition unpauseTeleporterAddress ::
  "(address \<Rightarrow> 'app \<Rightarrow> sol_error + unit) \<Rightarrow> address \<Rightarrow> address \<Rightarrow> 'app upgradeable
    \<Rightarrow> sol_error + 'app upgradeable" where
  "unpauseTeleporterAddress checkOwner sender a u =
     bindE (checkTeleporterUpgradeAccess checkOwner sender u) (\<lambda>_.
     requireE (a \<noteq> 0) ''TeleporterUpgradeable: zero Teleporter address'' (
     requireE (isTeleporterAddressPaused a u)
       ''TeleporterUpgradeable: address not paused'' (
     Inr (u\<lparr>upg_logs := upg_logs u @ [LogTeleporterAddressUnpaused a],
           pausedTeleporterAddresses := (pausedTeleporterAddresses u)(a := False)\<rparr>))))"

definition getTeleporterMessenger :: "'app upgradeable \<Rightarrow> sol_error + address" where
  "getTeleporterMessenger u =
     bindE (getLatestTeleporter u) (\<lambda>teleporter.
     requireE (\<not> isTeleporterAddressPaused teleporter u)
       ''TeleporterUpgradeable: Teleporter sending paused'' (
     Inr teleporter))"

subsection \<open>Evolution of an application\<close>

text \<open>
  One step: the registry adds a version, the owner raises the minimum version, pauses or
  unpauses a messenger, or the inheriting contract changes its own state.
\<close>

inductive upgrade_step ::
  "address \<Rightarrow> (address \<Rightarrow> 'app \<Rightarrow> sol_error + unit) \<Rightarrow> 'app upgradeable \<Rightarrow> 'app upgradeable \<Rightarrow> bool"
  for reg :: address and checkOwner :: "address \<Rightarrow> 'app \<Rightarrow> sol_error + unit" where
  registers: "addProtocolVersion reg verified decode i u = Inr u'
    \<Longrightarrow> upgrade_step reg checkOwner u u'"
| raises: "updateMinTeleporterVersion checkOwner sender version u = Inr u'
    \<Longrightarrow> upgrade_step reg checkOwner u u'"
| pauses: "pauseTeleporterAddress checkOwner sender a u = Inr u' \<Longrightarrow> upgrade_step reg checkOwner u u'"
| unpauses: "unpauseTeleporterAddress checkOwner sender a u = Inr u'
    \<Longrightarrow> upgrade_step reg checkOwner u u'"
| acts: "upgrade_step reg checkOwner u (u\<lparr>app := x\<rparr>)"

inductive_cases upgrade_step_cases: "upgrade_step reg checkOwner u u'"

definition upgrade_inv :: "'app upgradeable \<Rightarrow> bool" where
  "upgrade_inv u \<longleftrightarrow> registry_inv u \<and> minTeleporterVersion u \<le> latestVersion u"

lemma setMinTeleporterVersion_Inr [inv_rules]:
  assumes "setMinTeleporterVersion version u = Inr u'"
  obtains "version \<le> latestVersion u" "minTeleporterVersion u < version"
    "u' = u\<lparr>minTeleporterVersion := version, upg_logs := upg_logs u @
      [LogMinTeleporterVersionUpdated (minTeleporterVersion u) version]\<rparr>"
  using assms by (auto simp: setMinTeleporterVersion_def Let_def)

lemma addToRegistry_app:
  "addToRegistry entry u = Inr u' \<Longrightarrow>
    minTeleporterVersion u' = minTeleporterVersion u \<and>
    pausedTeleporterAddresses u' = pausedTeleporterAddresses u"
  by (auto simp: addToRegistry_def Let_def split: if_splits)

lemma registry_inv_app:
  "registry_inv (u\<lparr>minTeleporterVersion := v\<rparr>) = registry_inv u"
  "registry_inv (u\<lparr>pausedTeleporterAddresses := f\<rparr>) = registry_inv u"
  "registry_inv (u\<lparr>upg_logs := l\<rparr>) = registry_inv u"
  "registry_inv (u\<lparr>app := x\<rparr>) = registry_inv u"
  by (simp_all add: registry_inv_def)

lemma upgrade_step_inv:
  assumes "upgrade_step reg checkOwner u u'"
  shows "(upgrade_inv u \<longrightarrow> upgrade_inv u') \<and> registry_grows u u' \<and>
    minTeleporterVersion u \<le> minTeleporterVersion u'"
  using assms
proof cases
  case (registers verified decode i)
  from registers obtain entry where e: "addToRegistry entry u = Inr u'"
    by (rule addProtocolVersion_Inr)
  have g: "registry_grows u u'" using e by (rule addToRegistry_grows)
  then show ?thesis
    using addToRegistry_app [OF e] addToRegistry_inv [OF _ e] order_trans
    by (auto simp: upgrade_inv_def registry_grows_def)
next
  case (raises sender version)
  then have "setMinTeleporterVersion version u = Inr u'"
    by (simp add: updateMinTeleporterVersion_def)
  then show ?thesis
    by (rule setMinTeleporterVersion_Inr)
      (simp add: upgrade_inv_def registry_inv_app registry_grows_def)
next
  case pauses
  then show ?thesis
    by (auto simp: pauseTeleporterAddress_def upgrade_inv_def registry_inv_app registry_grows_def)
next
  case unpauses
  then show ?thesis
    by (auto simp: unpauseTeleporterAddress_def upgrade_inv_def registry_inv_app registry_grows_def)
next
  case (acts x)
  then show ?thesis by (simp add: upgrade_inv_def registry_inv_app registry_grows_def)
qed

lemma upgrade_steps_inv:
  "(upgrade_step reg checkOwner)\<^sup>*\<^sup>* u u' \<Longrightarrow>
    (upgrade_inv u \<longrightarrow> upgrade_inv u') \<and> registry_grows u u' \<and>
    minTeleporterVersion u \<le> minTeleporterVersion u'"
proof (induction rule: rtranclp_induct)
  case base
  then show ?case by (simp add: registry_grows_refl)
next
  case (step v w)
  then show ?case
    using upgrade_step_inv [OF step.hyps(2)] registry_grows_trans order_trans by blast
qed

lemma receiveTeleporterMessage_Inr [inv_rules]:
  assumes "receiveTeleporterMessage receiveHook sender chain a msg u = Inr u'"
  obtains v where "getVersionFromAddress sender u = Inr v" "minTeleporterVersion u \<le> v"
    "\<not> isTeleporterAddressPaused sender u" "receiveHook chain a msg u = Inr u'"
  using assms by (auto simp: receiveTeleporterMessage_def)

end
