(* ===== verification/Contract_Calls.thy ===== *)
theory Contract_Calls
  imports Upgradeable
begin

section \<open>A contract among other accounts\<close>

text \<open>
  What can happen to a contract of any kind, for the smaller applications. \<open>get\<close> and \<open>put\<close> access the
  part of the state that belongs to the other accounts. An environment \<open>E\<close> offers the contract a set of
  calls \<open>cs E\<close>, each with what it does to the other accounts: nothing in particular, or an effect
  with other activity before and after it. Any of these calls may call the contract again, so what
  they may do is what the relation itself allows. \<open>Eff\<close> says what an effect means, \<open>called\<close> is
  the effect of entering an operation, \<open>away\<close> that of everything else.
\<close>

definition external_calls ::
  "('w \<Rightarrow> 'w \<Rightarrow> bool) \<Rightarrow> ('w \<Rightarrow> 'x) \<Rightarrow> ('x \<Rightarrow> 'w \<Rightarrow> 'w) \<Rightarrow> ('eff \<Rightarrow> 'x \<Rightarrow> 'x \<Rightarrow> bool)
    \<Rightarrow> (('w \<Rightarrow> sol_error + 'w) \<times> 'eff option) set \<Rightarrow> bool" where
  "external_calls R get put Eff cs \<longleftrightarrow>
     (\<forall>c \<in> cs. \<forall>a b. fst c a = Inr b \<longrightarrow>
        (case snd c of
           None \<Rightarrow> R a b
         | Some e \<Rightarrow> \<exists>a1 x. R a a1 \<and> Eff e (get a1) x \<and> R (put x a1) b))"

lemma external_callsD:
  assumes "external_calls R get put Eff cs"
  shows "(f, None) \<in> cs \<Longrightarrow> f a = Inr b \<Longrightarrow> R a b"
    and "(f, Some e) \<in> cs \<Longrightarrow> f a = Inr b \<Longrightarrow>
      \<exists>a1 x. R a a1 \<and> Eff e (get a1) x \<and> R (put x a1) b"
  using assms by (force simp: external_calls_def)+

lemma external_calls_weaken:
  assumes "\<And>a b. R a b \<Longrightarrow> S a b" "\<And>e x y. Eff e x y \<Longrightarrow> Eff' e x y"
    and "external_calls R get put Eff cs"
  shows "external_calls S get put Eff' cs"
  unfolding external_calls_def
proof (intro ballI allI impI)
  fix c a b assume c: "c \<in> cs" "fst c a = Inr b"
  show "case snd c of None \<Rightarrow> S a b
      | Some e \<Rightarrow> \<exists>a1 x. S a a1 \<and> Eff' e (get a1) x \<and> S (put x a1) b"
  proof (cases "snd c")
    case None
    with c(1) have "(fst c, None) \<in> cs" by (metis prod.collapse)
    from external_callsD(1) [OF assms(3) this c(2)] show ?thesis by (simp add: None assms(1))
  next
    case (Some e)
    with c(1) have "(fst c, Some e) \<in> cs" by (metis prod.collapse)
    from external_callsD(2) [OF assms(3) this c(2)] show ?thesis
      by (auto simp: Some intro: assms(1,2))
  qed
qed

lemma external_calls_mono [mono]:
  "R \<le> S \<Longrightarrow> external_calls R get put Eff cs \<longrightarrow> external_calls S get put Eff cs"
  by (auto elim!: external_calls_weaken [rotated 2])

inductive happens ::
  "('e \<Rightarrow> (('w \<Rightarrow> sol_error + 'w) \<times> 'eff option) set) \<Rightarrow> ('e \<Rightarrow> 'op \<Rightarrow> 'w \<Rightarrow> sol_error + 'w)
    \<Rightarrow> ('w \<Rightarrow> 'x) \<Rightarrow> ('x \<Rightarrow> 'w \<Rightarrow> 'w) \<Rightarrow> ('e \<Rightarrow> 'op \<Rightarrow> 'eff) \<Rightarrow> 'eff
    \<Rightarrow> ('eff \<Rightarrow> 'x \<Rightarrow> 'x \<Rightarrow> bool) \<Rightarrow> ('e \<Rightarrow> bool) \<Rightarrow> 'w \<Rightarrow> 'w \<Rightarrow> bool"
  for cs :: "'e \<Rightarrow> (('w \<Rightarrow> sol_error + 'w) \<times> 'eff option) set"
    and run :: "'e \<Rightarrow> 'op \<Rightarrow> 'w \<Rightarrow> sol_error + 'w"
    and get :: "'w \<Rightarrow> 'x" and put :: "'x \<Rightarrow> 'w \<Rightarrow> 'w"
    and called :: "'e \<Rightarrow> 'op \<Rightarrow> 'eff" and away :: 'eff
    and Eff :: "'eff \<Rightarrow> 'x \<Rightarrow> 'x \<Rightarrow> bool" and Hon :: "'e \<Rightarrow> bool" where
  stop: "happens cs run get put called away Eff Hon u u"
| elsewhere: "Eff away (get u) x \<Longrightarrow> happens cs run get put called away Eff Hon (put x u) u'
    \<Longrightarrow> happens cs run get put called away Eff Hon u u'"
| operation: "Hon E
    \<Longrightarrow> external_calls (happens cs run get put called away Eff Hon) get put Eff (cs E)
    \<Longrightarrow> Eff (called E op) (get u) x \<Longrightarrow> run E op (put x u) = Inr v
    \<Longrightarrow> happens cs run get put called away Eff Hon v u'
    \<Longrightarrow> happens cs run get put called away Eff Hon u u'"

locale contract_closed =
  fixes cs :: "'e \<Rightarrow> (('w \<Rightarrow> sol_error + 'w) \<times> 'eff option) set"
    and run :: "'e \<Rightarrow> 'op \<Rightarrow> 'w \<Rightarrow> sol_error + 'w"
    and get :: "'w \<Rightarrow> 'x" and put :: "'x \<Rightarrow> 'w \<Rightarrow> 'w"
    and called :: "'e \<Rightarrow> 'op \<Rightarrow> 'eff" and away :: 'eff
    and Eff :: "'eff \<Rightarrow> 'x \<Rightarrow> 'x \<Rightarrow> bool" and Hon :: "'e \<Rightarrow> bool"
    and Q :: "'w \<Rightarrow> 'w \<Rightarrow> bool"
  assumes Q_refl: "Q u u"
    and Q_trans: "Q u v \<Longrightarrow> Q v w \<Longrightarrow> Q u w"
    and Q_away: "Eff away (get u) x \<Longrightarrow> Q u (put x u)"
    and Q_op: "Hon E \<Longrightarrow> external_calls Q get put Eff (cs E) \<Longrightarrow> Eff (called E op) (get u) x \<Longrightarrow>
      run E op (put x u) = Inr v \<Longrightarrow> Q u v"
begin

lemma lift: "happens cs run get put called away Eff Hon u u' \<Longrightarrow> Q u u'"
proof (induction rule: happens.induct)
  case (stop u)
  show ?case by (rule Q_refl)
next
  case (elsewhere u x u')
  then show ?case by (blast intro: Q_trans Q_away)
next
  case (operation E op u x v u')
  have "external_calls Q get put Eff (cs E)"
    using operation.IH(1) by (rule external_calls_weaken [rotated 2]) simp_all
  then show ?case using operation.hyps operation.IH(2) by (blast intro: Q_op Q_trans)
qed

end

end
