(* ===== verification/Demo_Codec.thy ===== *)
theory Demo_Codec
  imports Prelude "HOL-Library.Countable"
begin

section \<open>A codec for the examples\<close>

text \<open>
  The ABI codec is a parameter of the contracts. The examples on which their properties are checked
  use this one: the arguments are numbered, and their number is the length of the encoding.
\<close>

definition demo_encode :: "'a::countable \<Rightarrow> bytes" where
  "demo_encode x = replicate (to_nat x) 0"

definition demo_decode :: "bytes \<Rightarrow> 'a::countable option" where
  "demo_decode d = Some (from_nat (length d))"

lemma demo_decode_encode [simp]: "demo_decode (demo_encode x) = Some x"
  by (simp add: demo_decode_def demo_encode_def)

end
