(* ===== verification/Messenger_Calls.thy ===== *)
theory Messenger_Calls
  imports Messenger_Crossing Contract_Calls Demo_Codec
begin

section \<open>The calls that a messenger makes to the applications\<close>

text \<open>
  What an application is made to execute is the list of calls that the messenger makes to it and
  that return. Here these calls are recorded as they happen: \<open>V\<close> reads off the rest of the world the
  calls, with target and call data, that the messenger has made so far. The runs are those of
  \<open>happens\<close>, in which a call to a recipient adds itself to the record and may, before and after,
  do anything, calls to the messenger included. All messages that anyone asks to retry are
  in a set \<open>M\<close>, so that a property can require that no two of them have the same hash.
\<close>

datatype call_effect = Calls address bytes | Asked messenger_op | Around

fun called_by :: "call_effect \<Rightarrow> (address \<times> bytes) list" where
  "called_by (Calls t d) = [(t, d)]"
| "called_by _ = []"

fun asked_in :: "TeleporterMessage set \<Rightarrow> call_effect \<Rightarrow> bool" where
  "asked_in M (Asked (RetryExecution c msg)) \<longleftrightarrow> msg \<in> M"
| "asked_in M _ \<longleftrightarrow> True"

definition calls_effect ::
  "('x \<Rightarrow> (address \<times> bytes) list) \<Rightarrow> TeleporterMessage set \<Rightarrow> call_effect \<Rightarrow> 'x \<Rightarrow> 'x \<Rightarrow> bool" where
  "calls_effect V M eff x y \<longleftrightarrow> V y = V x @ called_by eff \<and> asked_in M eff"

definition messenger_calls ::
  "'x env \<Rightarrow> (('x world \<Rightarrow> sol_error + 'x world) \<times> call_effect option) set" where
  "messenger_calls E =
     {(token_transferFrom E t p q amt, None) | t p q amt. True} \<union>
     {(token_transfer E t q amt, None) | t q amt. True} \<union>
     {(call_contract E t g d, Some (Calls t d)) | t g d. True}"

abbreviation set_outside :: "'x \<Rightarrow> 'x world \<Rightarrow> 'x world" where
  "set_outside x w \<equiv> w\<lparr>outside := x\<rparr>"

abbreviation calls_happen ::
  "('x \<Rightarrow> (address \<times> bytes) list) \<Rightarrow> TeleporterMessage set \<Rightarrow> ('x env \<Rightarrow> bool)
    \<Rightarrow> 'x world \<Rightarrow> 'x world \<Rightarrow> bool" where
  "calls_happen V M Hon \<equiv> happens messenger_calls run_op outside set_outside (\<lambda>E. Asked) Around
     (calls_effect V M) Hon"

lemma messenger_callsD:
  assumes "external_calls R outside set_outside Eff (messenger_calls E)"
  shows "token_transferFrom E t p q amt a = Inr b \<Longrightarrow> R a b"
    and "token_transfer E t q amt a = Inr b \<Longrightarrow> R a b"
    and "call_contract E t g d a = Inr b \<Longrightarrow>
      \<exists>a1 x. R a a1 \<and> Eff (Calls t d) (outside a1) x \<and> R (set_outside x a1) b"
proof -
  have cs: "(token_transferFrom E t p q amt, None) \<in> messenger_calls E"
    "(token_transfer E t q amt, None) \<in> messenger_calls E"
    "(call_contract E t g d, Some (Calls t d)) \<in> messenger_calls E"
    unfolding messenger_calls_def by blast+
  show "token_transferFrom E t p q amt a = Inr b \<Longrightarrow> R a b" by (rule external_callsD(1) [OF assms cs(1)])
  show "token_transfer E t q amt a = Inr b \<Longrightarrow> R a b" by (rule external_callsD(1) [OF assms cs(2)])
  show "call_contract E t g d a = Inr b \<Longrightarrow>
      \<exists>a1 x. R a a1 \<and> Eff (Calls t d) (outside a1) x \<and> R (set_outside x a1) b"
    by (rule external_callsD(2) [OF assms cs(3)])
qed

text \<open>These runs are among those of \<open>interacts\<close>, so all that is known of those holds.\<close>

abbreviation any_out :: "'x \<Rightarrow> 'x \<Rightarrow> bool" where
  "any_out \<equiv> \<lambda>_ _. True"

abbreviation same_pay :: "address \<Rightarrow> address \<Rightarrow> uint256 \<Rightarrow> 'x \<Rightarrow> 'x \<Rightarrow> bool" where
  "same_pay \<equiv> \<lambda>_ _ _ x y. y = x"

lemma messenger_externals:
  assumes "external_calls Q outside set_outside Eff (messenger_calls E)"
    and "\<And>a b. Q a b \<Longrightarrow> R a b" and "\<And>a x. R a (set_outside x a)"
    and "\<And>a b c. R a b \<Longrightarrow> R b c \<Longrightarrow> R a c"
  shows "externals R any_out same_pay E"
  unfolding externals_def
proof (intro conjI allI impI)
  fix t g d a b assume "call_contract E t g d a = Inr b"
  from messenger_callsD(3) [OF assms(1) this] show "R a b" by (blast intro: assms(2-4))
next
  fix t q amt a b assume "token_transfer E t q amt a = Inr b"
  then have "R a b" by (blast intro: assms(2) messenger_callsD(2) [OF assms(1)])
  then show "\<exists>x. x = outside a \<and> R (set_outside x a) b" by simp
qed (blast intro: assms(2) messenger_callsD(1) [OF assms(1)])+

lemma calls_happen_interacts:
  assumes "calls_happen V M Hon u v"
  shows "interacts any_out same_pay Hon u v"
  using assms
proof (induction rule: happens.induct)
  case (operation E op u x v u')
  have e: "externals (interacts any_out same_pay Hon) any_out same_pay E"
    by (rule messenger_externals [OF operation.IH(1)])
      (blast intro: interacts.stop interacts.elsewhere [where Out = any_out] interacts_trans)+
  have "interacts any_out same_pay Hon (set_outside x u) u'"
    using operation.hyps(1) e operation.hyps(3) operation.IH(2) by (rule interacts.operation)
  then show ?case by (rule interacts.elsewhere [where Out = any_out, OF TrueI])
qed (blast intro: interacts.stop interacts.elsewhere [where Out = any_out])+

subsection \<open>Every call is for a message of its own\<close>

text \<open>
  \<open>cd\<close> decodes call data. The calls made so far are those of a list of messages with different IDs,
  each received from its chain, or asked for with the hash of one that was, and none of them
  waiting for a retry.
\<close>

definition for_message ::
  "(TeleporterMessage \<Rightarrow> bytes32) \<Rightarrow> TeleporterMessage set \<Rightarrow> 'x world \<Rightarrow> bytes32 \<Rightarrow> TeleporterMessage \<Rightarrow> bool"
  where
  "for_message h M w c msg \<longleftrightarrow> relayerRewardAddresses w c (messageID msg) \<noteq> 0 \<and>
     receivedFailedMessageHashes w c (messageID msg) = 0 \<and>
     (\<exists>msg'. (c, messageID msg, msg') \<in> set (receives w) \<and> (msg' = msg \<or> msg \<in> M \<and> h msg' = h msg))"

definition call_of :: "bytes32 \<times> TeleporterMessage \<Rightarrow> address \<times> (bytes32 \<times> address \<times> bytes) option" where
  "call_of cm = (destinationAddress (snd cm),
     Some (fst cm, senderAddress (snd cm), messageBytes (snd cm)))"

definition calls_inv ::
  "('x \<Rightarrow> (address \<times> bytes) list) \<Rightarrow> (bytes \<Rightarrow> (bytes32 \<times> address \<times> bytes) option)
    \<Rightarrow> (TeleporterMessage \<Rightarrow> bytes32) \<Rightarrow> TeleporterMessage set \<Rightarrow> 'x world \<Rightarrow> bool" where
  "calls_inv V cd h M w \<longleftrightarrow> (\<exists>L. map (apsnd cd) (V (outside w)) = map call_of L \<and>
     distinct (map (apsnd messageID) L) \<and> (\<forall>cm \<in> set L. for_message h M w (fst cm) (snd cm)))"

definition calls_env ::
  "('x \<Rightarrow> (address \<times> bytes) list) \<Rightarrow> (bytes \<Rightarrow> (bytes32 \<times> address \<times> bytes) option)
    \<Rightarrow> (TeleporterMessage \<Rightarrow> bytes32) \<Rightarrow> bytes32 \<Rightarrow> (TeleporterMessage \<Rightarrow> bool) \<Rightarrow> bytes32
    \<Rightarrow> 'x env \<Rightarrow> bool" where
  "calls_env V cd h c sent own E \<longleftrightarrow> recv_env h c sent own E \<and>
     (\<forall>c s m. cd (encode_receive_call E c s m) = Some (c, s, m)) \<and>
     (\<forall>bs x y. sendWarpMessage E bs x = Inr y \<longrightarrow> V y = V x)"

definition calls_safe where
  "calls_safe V cd h M c sent own u v \<longleftrightarrow> recv_safe h c sent own u v \<and> exec_safe u v \<and>
     (receiveEntered u = ENTERED \<longrightarrow> V (outside v) = V (outside u)) \<and>
     (deliveries_logged h u \<longrightarrow> exec_inv u \<longrightarrow> calls_inv V cd h M u \<longrightarrow> calls_inv V cd h M v)"

lemma calls_inv_cong:
  "receiver_part v = receiver_part u \<Longrightarrow> V (outside v) = V (outside u) \<Longrightarrow>
    calls_inv V cd h M v = calls_inv V cd h M u"
  by (simp add: calls_inv_def for_message_def receiver_part_def)

lemma exec_safe_part: "receiver_part v = receiver_part u \<Longrightarrow> exec_safe u v"
  by (auto simp: exec_safe_def receiver_part_def receiver_locked_def intro: exec_inv_transfer)

lemma calls_safe_cong:
  "receiver_part v = receiver_part u \<Longrightarrow> V (outside v) = V (outside u) \<Longrightarrow>
    calls_safe V cd h M c sent own u v"
  using calls_inv_cong [of v u V cd h M] exec_safe_part [of v u] recv_safe_cong [of v u h c sent own]
  unfolding calls_safe_def by blast

lemma calls_safe_refl: "calls_safe V cd h M c sent own u u"
  by (rule calls_safe_cong) simp_all

lemma calls_safe_trans:
  assumes "calls_safe V cd h M c sent own u v" "calls_safe V cd h M c sent own v w"
  shows "calls_safe V cd h M c sent own u w"
proof -
  have "recv_safe h c sent own u v" "recv_safe h c sent own v w" "exec_safe u v" "exec_safe v w"
    using assms by (simp_all add: calls_safe_def)
  note r = this
  have "recv_safe h c sent own u w" "exec_safe u w"
    using r recv_safe_trans exec_safe_trans by blast+
  moreover have "receiveEntered u = ENTERED \<longrightarrow> receiveEntered v = ENTERED"
    using r(3) by (simp add: exec_safe_def receiver_locked_def)
  moreover have "deliveries_logged h u \<longrightarrow> deliveries_logged h v" "exec_inv u \<longrightarrow> exec_inv v"
    using r(1,3) by (simp_all add: recv_safe_def exec_safe_def)
  ultimately show ?thesis using assms by (auto simp: calls_safe_def)
qed

definition receiver_safe where
  "receiver_safe h c sent own u v \<longleftrightarrow> recv_safe h c sent own u v \<and> exec_safe u v"

lemma calls_safe_outside: "receiver_safe h c sent own a (set_outside x a)"
  by (simp add: receiver_safe_def recv_safe_cong exec_safe_outside receiver_part_def executions_def
      receives_def)

lemma receiver_safe_trans:
  "receiver_safe h c sent own u v \<Longrightarrow> receiver_safe h c sent own v w \<Longrightarrow> receiver_safe h c sent own u w"
  by (auto simp: receiver_safe_def intro: recv_safe_trans exec_safe_trans)

text \<open>An environment whose calls keep the calls of a messenger.\<close>

definition calls_closed_env where
  "calls_closed_env V cd h M c sent own E \<longleftrightarrow> calls_env V cd h c sent own E \<and>
     external_calls (calls_safe V cd h M c sent own) outside set_outside (calls_effect V M)
       (messenger_calls E)"

lemma calls_closed_envD:
  assumes "calls_closed_env V cd h M c sent own E"
  shows "recv_env h c sent own E" "hashes_with h E"
    and "cd (encode_receive_call E c' s m) = Some (c', s, m)"
    and "sendWarpMessage E bs x = Inr y \<Longrightarrow> V y = V x"
    and "external_calls (calls_safe V cd h M c sent own) outside set_outside (calls_effect V M)
       (messenger_calls E)"
    and "externals (receiver_safe h c sent own) any_out same_pay E"
proof -
  have e: "external_calls (calls_safe V cd h M c sent own) outside set_outside (calls_effect V M)
      (messenger_calls E)" and env: "calls_env V cd h c sent own E"
    using assms by (simp_all add: calls_closed_env_def)
  show "recv_env h c sent own E" "hashes_with h E" "cd (encode_receive_call E c' s m) = Some (c', s, m)"
    "sendWarpMessage E bs x = Inr y \<Longrightarrow> V y = V x"
    using env by (auto simp: calls_env_def recv_env_def)
  show "external_calls (calls_safe V cd h M c sent own) outside set_outside (calls_effect V M)
      (messenger_calls E)" by (fact e)
  show "externals (receiver_safe h c sent own) any_out same_pay E"
    by (rule messenger_externals [OF e]) (simp add: calls_safe_def receiver_safe_def,
      rule calls_safe_outside, rule receiver_safe_trans)
qed

lemma receiver_safe_op:
  assumes "calls_closed_env V cd h M c sent own E" "run_op E op w = Inr w'"
  shows "recv_safe h c sent own w w'" "exec_safe w w'"
proof -
  have "externals (recv_safe h c sent own) any_out same_pay E" "externals exec_safe any_out same_pay E"
    by (rule externals_weaken [OF _ calls_closed_envD(6) [OF assms(1)]], simp add: receiver_safe_def)+
  then show "recv_safe h c sent own w w'" "exec_safe w w'"
    using recv_safe_op [OF _ calls_closed_envD(1) [OF assms(1)] assms(2)] exec_safe_op [OF _ assms(2)]
    by blast+
qed

text \<open>
  The operations that call no recipient are the same when such calls fail, and then nothing at
  all changes the record.
\<close>

definition no_recipients :: "'x env \<Rightarrow> 'x env" where
  "no_recipients E = E\<lparr>call_contract := \<lambda>_ _ _ _. Inl (Revert [])\<rparr>"

lemma no_recipients_run [simp]:
  "sendCrossChainMessage (no_recipients E) = sendCrossChainMessage E"
  "sendSpecifiedReceipts (no_recipients E) = sendSpecifiedReceipts E"
  "retrySendCrossChainMessage (no_recipients E) = retrySendCrossChainMessage E"
  "addFeeAmount (no_recipients E) = addFeeAmount E"
  "redeemRelayerRewards (no_recipients E) = redeemRelayerRewards E"
proof -
  have sel: "this_address (no_recipients E) = this_address E" "msg_sender (no_recipients E) = msg_sender E"
    "abi_encode (no_recipients E) = abi_encode E" "keccak256 (no_recipients E) = keccak256 E"
    "token_balanceOf (no_recipients E) = token_balanceOf E"
    "token_transferFrom (no_recipients E) = token_transferFrom E"
    "token_transfer (no_recipients E) = token_transfer E"
    "sendWarpMessage (no_recipients E) = sendWarpMessage E" by (simp_all add: no_recipients_def)
  have f: "safeTransferFrom (no_recipients E) = safeTransferFrom E"
    by (intro ext) (unfold safeTransferFrom_def sel, rule refl)
  have s: "sendTeleporterMessage (no_recipients E) = sendTeleporterMessage E"
    by (intro ext) (unfold sendTeleporterMessage_def f sel, rule refl)
  show "sendCrossChainMessage (no_recipients E) = sendCrossChainMessage E"
    by (intro ext) (unfold sendCrossChainMessage_def s, rule refl)
  show "sendSpecifiedReceipts (no_recipients E) = sendSpecifiedReceipts E"
    by (intro ext) (unfold sendSpecifiedReceipts_def s, rule refl)
  show "retrySendCrossChainMessage (no_recipients E) = retrySendCrossChainMessage E"
    by (intro ext) (unfold retrySendCrossChainMessage_def sel, rule refl)
  show "addFeeAmount (no_recipients E) = addFeeAmount E"
    by (intro ext) (unfold addFeeAmount_def f, rule refl)
  show "redeemRelayerRewards (no_recipients E) = redeemRelayerRewards E"
    by (intro ext) (unfold redeemRelayerRewards_def sel, rule refl)
qed

abbreviation same_calls :: "('x \<Rightarrow> (address \<times> bytes) list) \<Rightarrow> 'x \<Rightarrow> 'x \<Rightarrow> bool" where
  "same_calls V \<equiv> \<lambda>x y. V y = V x"

lemma no_recipients_externals:
  assumes "calls_closed_env V cd h M c sent own E"
  shows "externals (calls_safe V cd h M c sent own) (same_calls V) same_pay (no_recipients E)"
  using messenger_callsD(1,2) [OF calls_closed_envD(5) [OF assms]] calls_closed_envD(4) [OF assms]
  by (auto simp: externals_def no_recipients_def)

lemma calls_safe_send:
  assumes ext: "externals (calls_safe V cd h M c sent own) (same_calls V) same_pay E"
    and "sendTeleporterMessage E inp rs w = Inr (mid, w')"
  shows "calls_safe V cd h M c sent own w w'"
  using ext calls_safe_refl assms(2)
proof (rule sendTeleporterMessage_steps, goal_cases)
  case (1 msg adj w2 x)
  let ?w1 = "w\<lparr>latestMessageIDs := (latestMessageIDs w)(in_destinationBlockchainID inp := mid)\<rparr>"
  have "calls_safe V cd h M c sent own w ?w1"
    by (rule calls_safe_cong) (simp_all add: receiver_part_def executions_def receives_def)
  moreover have "calls_safe V cd h M c sent own w2 w'"
    by (rule calls_safe_cong) (simp_all add: receiver_part_def executions_def receives_def 1(4,5))
  ultimately show ?case using 1(3) by (blast intro: calls_safe_trans)
qed

lemma calls_safe_other:
  assumes ext: "externals (calls_safe V cd h M c sent own) (same_calls V) same_pay E"
    and op: "run_op E op w = Inr w'" and "\<forall>idx ra. op \<noteq> Receive idx ra" "\<forall>c msg. op \<noteq> RetryExecution c msg"
  shows "calls_safe V cd h M c sent own w w'"
  using op
proof (cases op)
  case (SendMessage inp)
  then obtain mid where "sendCrossChainMessage E inp w = Inr (mid, w')"
    using op by (auto simp: map_sum_snd_Inr)
  then show ?thesis
  proof (rule sendCrossChainMessage_Inr, goal_cases)
    case (1 rs q w1)
    show ?case
      by (rule calls_safe_trans [OF calls_safe_cong
            calls_safe_trans [OF calls_safe_send [OF ext 1(3)] calls_safe_cong]])
        (simp_all add: 1(4) receiver_part_def executions_def receives_def)
  qed
next
  case (SendReceipts origin mids fee allowed)
  then obtain mid where "sendSpecifiedReceipts E origin mids fee allowed w = Inr (mid, w')"
    using op by (auto simp: map_sum_snd_Inr)
  then show ?thesis
  proof (rule sendSpecifiedReceipts_Inr, goal_cases)
    case (1 rs w1)
    show ?case
      by (rule calls_safe_trans [OF calls_safe_cong
            calls_safe_trans [OF calls_safe_send [OF ext 1(3)] calls_safe_cong]])
        (simp_all add: 1(4) receiver_part_def executions_def receives_def)
  qed
next
  case (AddFee chain mid t amt)
  then obtain u where "addFeeAmount E chain mid t amt w = Inr (u, w')"
    using op by (auto simp: map_sum_snd_Inr)
  then show ?thesis
  proof (rule addFeeAmount_Inr, goal_cases)
    case (1 adj w1 n)
    show ?case
      by (rule calls_safe_trans [OF calls_safe_cong
            calls_safe_trans [OF safeTransferFrom_steps [OF ext 1(6)] calls_safe_cong]])
        (simp_all add: 1(8) receiver_part_def executions_def receives_def)
  qed
next
  case (RetrySend chain msg)
  then obtain u where "retrySendCrossChainMessage E chain msg w = Inr (u, w')"
    using op by (auto simp: map_sum_snd_Inr)
  then show ?thesis
  proof (rule retrySendCrossChainMessage_Inr, goal_cases)
    case (1 x)
    then show ?case
      using externalsD(4) [OF ext 1(4)]
      by (intro calls_safe_cong) (simp_all add: receiver_part_def executions_def receives_def)
  qed
next
  case (Redeem token)
  then obtain u where "redeemRelayerRewards E token w = Inr (u, w')"
    using op by (auto simp: map_sum_snd_Inr)
  then show ?thesis
  proof (rule redeemRelayerRewards_steps [OF ext], goal_cases)
    case (1 x)
    show ?case
      by (rule calls_safe_trans [OF calls_safe_cong 1(3)])
        (simp_all add: 1(2) receiver_part_def executions_def receives_def)
  qed
qed (use assms(3,4) in auto)

subsection \<open>The two operations that call a recipient\<close>

text \<open>A call under the guard adds itself to the record, and nothing else.\<close>

lemma recipient_call:
  assumes env: "calls_closed_env V cd h M c sent own E"
    and "call_contract E t g d a = Inr b" and "receiveEntered a = ENTERED"
  shows "V (outside b) = V (outside a) @ [(t, d)]" "receiver_part b = receiver_part a"
proof -
  from messenger_callsD(3) [OF calls_closed_envD(5) [OF env] assms(2)] obtain a1 x where
    a1: "calls_safe V cd h M c sent own a a1" and x: "calls_effect V M (Calls t d) (outside a1) x"
    and b: "calls_safe V cd h M c sent own (set_outside x a1) b" by blast
  have p1: "receiver_part a1 = receiver_part a" "V (outside a1) = V (outside a)"
    using a1 assms(3) recv_safe_locked [of h c sent own a a1] by (simp_all add: calls_safe_def)
  then have "receiveEntered a1 = ENTERED" using assms(3) by (simp add: receiver_part_def)
  then have "receiver_part b = receiver_part (set_outside x a1)" "V (outside b) = V x"
    using b recv_safe_locked [of h c sent own "set_outside x a1" b] by (simp_all add: calls_safe_def)
  then show "V (outside b) = V (outside a) @ [(t, d)]" "receiver_part b = receiver_part a"
    using p1 x by (simp_all add: calls_effect_def receiver_part_def executions_def receives_def)
qed

text \<open>Another call for a message that has none yet.\<close>

lemma calls_inv_add:
  assumes inv: "calls_inv V cd h M w" and calls: "V (outside w') = V (outside w) @ cs"
    and cs: "map (apsnd cd) cs = map call_of L0"
    and old: "\<And>c' msg'. for_message h M w c' msg' \<Longrightarrow> for_message h M w' c' msg' \<and>
      (c', messageID msg') \<notin> apsnd messageID ` set L0"
    and new: "\<And>cm. cm \<in> set L0 \<Longrightarrow> for_message h M w' (fst cm) (snd cm)"
    and "distinct (map (apsnd messageID) L0)"
  shows "calls_inv V cd h M w'"
proof -
  from inv obtain L where L: "map (apsnd cd) (V (outside w)) = map call_of L"
    "distinct (map (apsnd messageID) L)" "\<forall>cm \<in> set L. for_message h M w (fst cm) (snd cm)"
    unfolding calls_inv_def by blast
  have "apsnd messageID cm \<notin> apsnd messageID ` set L0" if "cm \<in> set L" for cm
    using old [of "fst cm" "snd cm"] L(3) that by (simp add: apsnd_def map_prod_def split_def)
  then have "set (map (apsnd messageID) L) \<inter> set (map (apsnd messageID) L0) = {}"
    unfolding set_map by blast
  then have "distinct (map (apsnd messageID) (L @ L0))"
    unfolding map_append distinct_append using L(2) assms(6) by blast
  moreover have "map (apsnd cd) (V (outside w')) = map call_of (L @ L0)"
    by (simp add: calls L(1) cs)
  moreover have "\<forall>cm \<in> set (L @ L0). for_message h M w' (fst cm) (snd cm)"
    using L(3) old new by auto
  ultimately show ?thesis unfolding calls_inv_def by blast
qed

lemma calls_inv_receive:
  assumes env: "calls_closed_env V cd h M c sent own E"
    and run: "receiveCrossChainMessage E idx ra w = Inr (u, w')"
    and exec: "exec_inv w" and inv: "calls_inv V cd h M w"
  shows "calls_inv V cd h M w'"
  using run
proof (rule receiveCrossChainMessage_Inr, goal_cases)
  case (1 wm msg chain w2 w3 w4 q)
  let ?c = "sourceChainID wm" and ?m = "messageID msg"
  note mr = markReceipts_frame [OF 1(12)]
  have fresh: "receivedFailedMessageHashes w ?c ?m = 0" using exec 1(8) unfolding exec_inv_def by blast
  have entered: "receiveEntered w2 = ENTERED" by (simp add: 1(10))
  have step: "\<exists>cs L0. V (outside w3) = V (outside w) @ cs \<and> map (apsnd cd) cs = map call_of L0 \<and>
      receives w3 = receives w \<and> relayerRewardAddresses w3 = relayerRewardAddresses w2 \<and>
      (L0 = [] \<and> receivedFailedMessageHashes w3 = receivedFailedMessageHashes w \<or>
       L0 = [] \<and> receivedFailedMessageHashes w3 =
         upd2 (receivedFailedMessageHashes w) ?c ?m (keccak256 E (abi_encode E msg)) \<or>
       L0 = [(?c, msg)] \<and> receivedFailedMessageHashes w3 = receivedFailedMessageHashes w)"
  proof (cases "messageBytes msg = []")
    case True
    then have "w3 = w2" using 1(11) by simp
    then show ?thesis by (intro exI [of _ "[]"]) (simp add: 1(10) receives_def)
  next
    case False
    then have "handleInitialMessageExecution E ?c msg w2 = Inr w3" using 1(11) by simp
    then show ?thesis
    proof (cases rule: handleInitialMessageExecution_Inr)
      case failed
      then show ?thesis
        by (intro exI [of _ "[]"])
          (simp add: 1(10) receives_def storeFailedMessageExecution_def emit_def)
    next
      case (executed w1)
      from recipient_call [OF env executed(3) entered]
      have "V (outside w1) = V (outside w) @ [(destinationAddress msg,
          encode_receive_call E ?c (senderAddress msg) (messageBytes msg))]"
        "receiver_part w1 = receiver_part w2" by (simp_all add: 1(10))
      then show ?thesis
        by (intro exI [of _ "[(destinationAddress msg,
            encode_receive_call E ?c (senderAddress msg) (messageBytes msg))]"] exI [of _ "[(?c, msg)]"])
          (simp add: executed(4) emit_def receiver_part_def receives_def 1(10) call_of_def
            calls_closed_envD(3) [OF env])
    qed
  qed
  then obtain cs L0 where s: "V (outside w3) = V (outside w) @ cs" "map (apsnd cd) cs = map call_of L0"
      "receives w3 = receives w" "relayerRewardAddresses w3 = relayerRewardAddresses w2"
      "L0 = [] \<and> receivedFailedMessageHashes w3 = receivedFailedMessageHashes w \<or>
       L0 = [] \<and> receivedFailedMessageHashes w3 =
         upd2 (receivedFailedMessageHashes w) ?c ?m (keccak256 E (abi_encode E msg)) \<or>
       L0 = [(?c, msg)] \<and> receivedFailedMessageHashes w3 = receivedFailedMessageHashes w" by blast
  have w': "V (outside w') = V (outside w) @ cs" "receives w' = receives w @ [(?c, ?m, msg)]"
    "relayerRewardAddresses w' = upd2 (relayerRewardAddresses w) ?c ?m ra"
    "receivedFailedMessageHashes w' = receivedFailedMessageHashes w3"
    using s by (simp_all add: 1(14) mr receives_def 1(10))
  show ?case
  proof (rule calls_inv_add [OF inv w'(1) s(2)])
    fix c' msg' assume f: "for_message h M w c' msg'"
    then have "(c', messageID msg') \<noteq> (?c, ?m)" using 1(8) by (auto simp: for_message_def)
    then show "for_message h M w' c' msg' \<and> (c', messageID msg') \<notin> apsnd messageID ` set L0"
      using f s(5) by (auto simp: for_message_def w')
  next
    fix cm assume "cm \<in> set L0"
    then show "for_message h M w' (fst cm) (snd cm)"
      using s(5) fresh 1(2) by (auto simp: for_message_def w')
  qed (use s(5) in auto)
qed

lemma calls_inv_retry:
  assumes env: "calls_closed_env V cd h M c sent own E"
    and run: "retryMessageExecution E origin msg w = Inr (u, w')" and "msg \<in> M"
    and logged: "deliveries_logged h w" and exec: "exec_inv w" and inv: "calls_inv V cd h M w"
  shows "calls_inv V cd h M w'"
  using run
proof (rule retryMessageExecution_Inr, goal_cases)
  case (1 w2 w3)
  let ?m = "messageID msg"
  let ?d = "(destinationAddress msg, encode_receive_call E origin (senderAddress msg) (messageBytes msg))"
  have entered: "receiveEntered w2 = ENTERED" by (simp add: 1(5))
  note call = recipient_call [OF env 1(6) entered]
  have w': "V (outside w') = V (outside w) @ [?d]" "receives w' = receives w"
    "relayerRewardAddresses w' = relayerRewardAddresses w"
    "receivedFailedMessageHashes w' = upd2 (receivedFailedMessageHashes w) origin ?m 0"
    using call by (simp_all add: 1(5,7) receiver_part_def receives_def)
  have rew: "relayerRewardAddresses w origin ?m \<noteq> 0" using exec 1(2) unfolding exec_inv_def by blast
  obtain msg' where m: "(origin, ?m, msg') \<in> set (receives w)" "h msg' = h msg"
    using logged 1(1-3) calls_closed_envD(2) [OF env] unfolding deliveries_logged_def hashes_with_def
    by metis
  show ?case
  proof (rule calls_inv_add [OF inv w'(1), of "[(origin, msg)]"])
    show "map (apsnd cd) [?d] = map call_of [(origin, msg)]"
      by (simp add: call_of_def calls_closed_envD(3) [OF env])
  next
    fix c' msg1 assume f: "for_message h M w c' msg1"
    then have "(c', messageID msg1) \<noteq> (origin, ?m)" using 1(2) by (auto simp: for_message_def)
    then show "for_message h M w' c' msg1 \<and> (c', messageID msg1) \<notin> apsnd messageID ` set [(origin, msg)]"
      using f by (auto simp: for_message_def w')
  next
    fix cm assume "cm \<in> set [(origin, msg)]"
    then show "for_message h M w' (fst cm) (snd cm)"
      using rew m assms(3) by (auto simp: for_message_def w')
  qed simp
qed

lemma calls_safe_op:
  assumes env: "calls_closed_env V cd h M c sent own E" and run: "run_op E op w = Inr w'"
    and asked: "asked_in M (Asked op)"
  shows "calls_safe V cd h M c sent own w w'"
proof -
  note safe = receiver_safe_op [OF env run]
  have open_guard: ?thesis if "receiveEntered w = NOT_ENTERED"
    "deliveries_logged h w \<Longrightarrow> exec_inv w \<Longrightarrow> calls_inv V cd h M w \<Longrightarrow> calls_inv V cd h M w'"
    using that safe by (simp add: calls_safe_def)
  show ?thesis
  proof (cases "(\<exists>idx ra. op = Receive idx ra) \<or> (\<exists>c msg. op = RetryExecution c msg)")
    case True
    then show ?thesis
    proof (elim disjE exE)
      fix idx ra assume "op = Receive idx ra"
      then obtain u where r: "receiveCrossChainMessage E idx ra w = Inr (u, w')"
        using run by (auto simp: map_sum_snd_Inr)
      then have "receiveEntered w = NOT_ENTERED" by (rule receiveCrossChainMessage_Inr)
      then show ?thesis using calls_inv_receive [OF env r] by (rule open_guard)
    next
      fix c' msg assume o: "op = RetryExecution c' msg"
      then obtain u where r: "retryMessageExecution E c' msg w = Inr (u, w')"
        using run by (auto simp: map_sum_snd_Inr)
      then have "receiveEntered w = NOT_ENTERED" by (rule retryMessageExecution_Inr)
      moreover have "msg \<in> M" using asked by (simp add: o)
      ultimately show ?thesis using calls_inv_retry [OF env r] by (intro open_guard)
    qed
  next
    case False
    have "run_op (no_recipients E) op w = run_op E op w"
      using False by (cases op) simp_all
    with run have "run_op (no_recipients E) op w = Inr w'" by simp
    from calls_safe_other [OF no_recipients_externals [OF env] this] False show ?thesis by blast
  qed
qed

lemma calls_safe_around:
  assumes "V x = V (outside u)"
  shows "calls_safe V cd h M c sent own u (set_outside x u)"
  using assms by (intro calls_safe_cong) (simp_all add: receiver_part_def executions_def receives_def)

interpretation messenger_records: contract_closed messenger_calls run_op outside set_outside
    "\<lambda>E. Asked" Around "calls_effect V M" "calls_env V cd h c sent own" "calls_safe V cd h M c sent own"
  for V M cd h c sent own
proof unfold_locales
  fix E op u x v
  assume a: "calls_env V cd h c sent own E"
    "external_calls (calls_safe V cd h M c sent own) outside set_outside (calls_effect V M)
      (messenger_calls E)"
    "calls_effect V M (Asked op) (outside u) x" "run_op E op (set_outside x u) = Inr v"
  then have "calls_closed_env V cd h M c sent own E" "asked_in M (Asked op)" "V x = V (outside u)"
    by (simp_all add: calls_closed_env_def calls_effect_def)
  then have "calls_safe V cd h M c sent own (set_outside x u) v"
    "calls_safe V cd h M c sent own u (set_outside x u)"
    using a(4) by (intro calls_safe_op calls_safe_around; simp)+
  then show "calls_safe V cd h M c sent own u v" by (rule calls_safe_trans [rotated])
next
  fix u :: "'a world" and x :: 'a assume "calls_effect V M Around (outside u) x"
  then show "calls_safe V cd h M c sent own u (set_outside x u)"
    by (intro calls_safe_around) (simp add: calls_effect_def)
qed (fact calls_safe_refl, rule calls_safe_trans)

lemma calls_inv_deployed: "V x = [] \<Longrightarrow> calls_inv V cd h M (deployed x)"
  by (simp add: calls_inv_def deployed_def guards_constructor_def)

subsection \<open>What the applications of two chains are made to execute\<close>

text \<open>
  What the messenger has noted for the application at the address \<open>b\<close> of its chain: the messages that
  it has sent for it, and the calls that it has made to it.
\<close>

definition app_notes ::
  "('x \<Rightarrow> (address \<times> bytes) list) \<Rightarrow> (bytes \<Rightarrow> (bytes32 \<times> address \<times> bytes) option) \<Rightarrow> 'x world
    \<Rightarrow> address \<Rightarrow> message_note list" where
  "app_notes V cd w b =
     map (\<lambda>(c, m, msg). Sent c (destinationAddress msg) (messageBytes msg))
       (filter (\<lambda>(c, m, msg). senderAddress msg = b) (remdups (sends w))) @
     concat (map (\<lambda>(t, d). case cd d of Some (c, s, m) \<Rightarrow> if t = b then [Executed c s m] else [] | None \<Rightarrow> [])
       (V (outside w)))"

definition between :: "address \<Rightarrow> address \<Rightarrow> TeleporterMessage \<Rightarrow> bool" where
  "between b b' msg \<longleftrightarrow> senderAddress msg = b \<and> destinationAddress msg = b'"

lemma sent_to_Cons:
  "sent_to c b (n # ns) = (case n of Sent c' b' m \<Rightarrow> if c' = c \<and> b' = b then [m] else [] | _ \<Rightarrow> []) @
    sent_to c b ns"
  by (simp add: sent_to_def)

lemma sent_to_sent:
  "sent_to c b' (map (\<lambda>(c, m, msg). Sent c (destinationAddress msg) (messageBytes msg))
      (filter (\<lambda>(c, m, msg). senderAddress msg = b) l)) =
    map messageBytes (filter (between b b') (map (snd \<circ> snd) (filter (\<lambda>(c', m, msg). c' = c) l)))"
proof (induction l)
  case (Cons x l)
  then show ?case by (cases x) (simp add: sent_to_Cons between_def)
qed simp

lemma no_sent_calls:
  "sent_to c b (concat (map (\<lambda>(t, d). case cd d of Some (c, s, m) \<Rightarrow> if t = b' then [Executed c s m] else []
      | None \<Rightarrow> []) l)) = []"
  by (induction l) (auto split: option.split)

lemma no_executed_sends:
  "executed_from c b (map (\<lambda>(c, m, msg). Sent c (f msg) (g msg)) l) = []"
  by (induction l) (auto simp: executed_from_def)

lemma sent_to_app:
  "sent_to c b' (app_notes V cd w b) = map messageBytes (filter (between b b') (sent_messages c w))"
  unfolding app_notes_def sent_messages_def history_append no_sent_calls sent_to_sent by simp

lemma executed_from_calls:
  "map (apsnd cd) l = map call_of L \<Longrightarrow>
    executed_from c b (concat (map (\<lambda>(t, d). case cd d of Some (c, s, m) \<Rightarrow> if t = b' then [Executed c s m] else []
      | None \<Rightarrow> []) l)) =
    map messageBytes (filter (between b b') (map snd (filter (\<lambda>(c', msg). c' = c) L)))"
proof (induction l arbitrary: L)
  case (Cons x l)
  then obtain cm L' where "L = cm # L'" "apsnd cd x = call_of cm" "map (apsnd cd) l = map call_of L'"
    by auto
  with Cons.IH [OF this(3)] show ?case
    by (cases x, cases cm) (auto simp: call_of_def between_def)
qed simp

text \<open>The calls for messages of the chain \<open>c\<close>, when the messages asked for and those sent do not collide.\<close>

lemma executed_from_app:
  assumes inv: "calls_inv V cd h M w" and genuine: "received_genuine c (was_sent ws) own w"
    and sent: "sent_inv h ws" and inj: "inj_on h M" and known: "{msg. was_sent ws msg} \<subseteq> M"
  shows "mset (executed_from c b (app_notes V cd w b')) \<subseteq># mset (sent_to own b' (app_notes V' cd ws b))"
proof -
  from inv obtain L where L: "map (apsnd cd) (V (outside w)) = map call_of L"
    "distinct (map (apsnd messageID) L)" "\<forall>cm \<in> set L. for_message h M w (fst cm) (snd cm)"
    unfolding calls_inv_def by blast
  let ?L = "map snd (filter (\<lambda>(c', msg). c' = c) L)"
  have r: "(c, messageID msg, msg) \<in> set (receives w)" if "(c, msg) \<in> set L" for msg
  proof -
    from L(3) that obtain msg' where m: "(c, messageID msg, msg') \<in> set (receives w)"
      "msg' = msg \<or> msg \<in> M \<and> h msg' = h msg" by (auto simp: for_message_def)
    then have "was_sent ws msg'" using genuine by (auto simp: received_genuine_def)
    then have "msg' \<in> M" using known by auto
    then have "msg' = msg" using m(2) inj by (auto dest: inj_onD)
    with m(1) show ?thesis by simp
  qed
  have inj': "inj_on h {msg. was_sent ws msg}" using inj known by (rule inj_on_subset)
  have "distinct ?L"
  proof -
    have "distinct (filter (\<lambda>(c', msg). c' = c) L)" using L(2) by (simp add: distinct_map)
    moreover have "inj_on snd (set (filter (\<lambda>(c', msg). c' = c) L))" by (auto simp: inj_on_def)
    ultimately show ?thesis by (simp add: distinct_map)
  qed
  moreover have "set ?L \<subseteq> set (sent_messages own ws)"
  proof
    fix msg assume "msg \<in> set ?L"
    then have "(c, msg) \<in> set L" by auto
    from received_was_sent [OF sent inj' genuine r [OF this]]
    show "msg \<in> set (sent_messages own ws)" by (auto simp: set_sent_messages)
  qed
  ultimately have "mset ?L \<subseteq># mset (sent_messages own ws)" by (rule mset_distinct_subset)
  then have "mset (map messageBytes (filter (between b b') ?L))
      \<subseteq># mset (map messageBytes (filter (between b b') (sent_messages own ws)))"
    by (simp add: image_mset_subseteq_mono multiset_filter_mono)
  moreover have "executed_from c b (app_notes V cd w b') = map messageBytes (filter (between b b') ?L)"
    unfolding app_notes_def history_append no_executed_sends append_Nil by (rule executed_from_calls [OF L(1)])
  ultimately show ?thesis unfolding sent_to_app by simp
qed

text \<open>What is known of a messenger in such a run.\<close>

lemma calls_run:
  assumes "calls_happen V M (calls_env V cd h c sent own) (deployed x) w" and "V x = []"
  shows "calls_inv V cd h M w" "received_genuine c sent own w" "sent_inv h w"
proof -
  have d: "deliveries_logged h (deployed x)" "exec_inv (deployed x)" "calls_inv V cd h M (deployed x)"
    by (rule received_deployed(2), rule exec_inv_deployed, rule calls_inv_deployed, rule assms(2))
  show "calls_inv V cd h M w"
    using messenger_records.lift [OF assms(1)] d unfolding calls_safe_def by blast
  have i: "interacts any_out same_pay (calls_env V cd h c sent own) (deployed x) w"
    by (rule calls_happen_interacts [OF assms(1)])
  then have r: "interacts any_out same_pay (recv_env h c sent own) (deployed x) w"
    by (rule interacts_weaken) (simp add: calls_env_def)
  then show "received_genuine c sent own w" by (rule run_received)
  have "interacts any_out same_pay (hashes_with h) (deployed x) w"
    using r by (rule interacts_weaken) (rule recv_env_hashes)
  then show "sent_inv h w" by (rule run_sent_inv)
qed

text \<open>
  C4: The messengers of two chains deliver. Let the warp precompile of each chain verify only what the
  messenger of the other chain has sent, and let no two of the messages that were sent, or that
  anyone asked to retry, have the same hash. Then between any two addresses of the two chains,
  the calls that the messenger has made to the one, deliveries and retries together, are calls with
  payloads that the other has sent, no more of them than were sent: the property
  \<open>delivered\<close> of the messages that the theorems on the token bridges assume.
\<close>

theorem messengers_deliver:
  assumes "calls_happen V1 M (calls_env V1 cd h c2 (was_sent w2) c1) (deployed x1) w1" and "V1 x1 = []"
    and "calls_happen V2 M (calls_env V2 cd h c1 (was_sent w1) c2) (deployed x2) w2" and "V2 x2 = []"
    and "inj_on h M" and "{msg. was_sent w1 msg} \<subseteq> M" and "{msg. was_sent w2 msg} \<subseteq> M"
  shows "delivered (app_notes V1 cd w1 b1) c1 b1 (app_notes V2 cd w2 b2) c2 b2"
proof -
  note r1 = calls_run [OF assms(1,2)] and r2 = calls_run [OF assms(3,4)]
  show ?thesis
    unfolding delivered_def
    using executed_from_app [OF r2(1,2) r1(3) assms(5,6), of b1 b2]
      executed_from_app [OF r1(1,2) r2(3) assms(5,7), of b2 b1] by blast
qed

text \<open>A run: the messenger of chain 5 sends a message, the one of chain 7 calls its recipient.\<close>

definition record_codec :: "bytes \<Rightarrow> (bytes32 \<times> address \<times> bytes) option" where
  "record_codec = demo_decode"

definition record_env :: "(address \<times> bytes) list env" where
  "record_env =
     \<lparr>this_address = 1, msg_sender = 2, abi_encode = (\<lambda>m. [ucast (messageID m)]),
      abi_decode = (\<lambda>bs. None), encode_receive_call = (\<lambda>c a bs. demo_encode (c, a, bs)),
      keccak256 = (\<lambda>bs. word_of_nat (1 + horner_sum unat 256 bs)),
      gasleft = (\<lambda>w. 1000), code_length = (\<lambda>a w. 1),
      call_contract = (\<lambda>a g bs w. Inr (w\<lparr>outside := outside w @ [(a, bs)]\<rparr>)),
      token_balanceOf = (\<lambda>t a w. Inl (Revert [])), token_transferFrom = (\<lambda>t a b n w. Inl (Revert [])),
      token_transfer = (\<lambda>t a n w. Inl (Revert [])), sendWarpMessage = (\<lambda>bs x. Inr x),
      getVerifiedWarpMessage = (\<lambda>i x. (\<lparr>sourceChainID = 0, originSenderAddress = 0, payload = []\<rparr>, False)),
      getBlockchainID = (\<lambda>x. 5)\<rparr>"

definition record_message :: TeleporterMessage where
  "record_message = sent_message record_env (demo_input 0) 1 []"

definition record_env7 :: "(address \<times> bytes) list env" where
  "record_env7 = record_env\<lparr>abi_decode := (\<lambda>bs. if bs = [1] then Some record_message else None),
     getVerifiedWarpMessage := (\<lambda>i x. (\<lparr>sourceChainID = 5, originSenderAddress = 1, payload = [1]\<rparr>, True)),
     getBlockchainID := (\<lambda>x. 7)\<rparr>"

definition record_hash :: "TeleporterMessage \<Rightarrow> bytes32" where
  "record_hash msg = keccak256 record_env (abi_encode record_env msg)"

definition record_sent :: "(address \<times> bytes) list world" where
  "record_sent = snd (projr (sendCrossChainMessage record_env (demo_input 0) (deployed [])))"

definition record_called :: "(address \<times> bytes) list world" where
  "record_called = snd (projr (receiveCrossChainMessage record_env7 0 2 (deployed [])))"

lemmas record_eval = demo_steps record_env_def record_env7_def deployed_def guards_constructor_def
  zero_sentInfo_def sent_message_def record_message_def

lemma record_run:
  "sendCrossChainMessage record_env (demo_input 0) (deployed []) = Inr (1, record_sent)"
  "receiveCrossChainMessage record_env7 0 2 (deployed []) = Inr ((), record_called)"
  by (simp_all add: record_sent_def record_called_def sendCrossChainMessage_def
      receiveCrossChainMessage_def record_eval)

lemma record_logs:
  "sends record_sent = [(7, 1, record_message)]" "outside record_sent = []" "sends record_called = []"
  "outside record_called = [(8, demo_encode (5 :: bytes32, 2 :: address, [66] :: bytes))]"
  by (simp_all add: record_sent_def record_called_def sends_def sendCrossChainMessage_def
      receiveCrossChainMessage_def record_eval)

lemma record_step:
  assumes "Hon E" and "run_op E op (deployed []) = Inr w" and "asked_in M (Asked op)"
    and "call_contract E = call_contract record_env" "token_transferFrom E = token_transferFrom record_env"
    and "token_transfer E = token_transfer record_env"
  shows "calls_happen id M Hon (deployed []) w"
proof (rule happens.operation [where Hon = Hon and E = E and op = op and x = "[]"])
  show "external_calls (calls_happen id M Hon) outside set_outside (calls_effect id M) (messenger_calls E)"
    unfolding external_calls_def messenger_calls_def assms(4-6)
  proof (intro ballI allI impI, elim UnE CollectE exE conjE, goal_cases)
    case (3 c a b t g d)
    then have "b = set_outside (outside a @ [(t, d)]) a" by (simp add: record_env_def)
    then show ?case
      using 3 by (auto simp: calls_effect_def intro!: exI [of _ a] happens.stop)
  qed (simp_all add: record_env_def)
  show "calls_effect id M (Asked op) (outside (deployed [])) []"
    using assms(3) by (simp add: calls_effect_def deployed_def guards_constructor_def)
  show "run_op E op (set_outside [] (deployed [])) = Inr w"
    using assms(2) by (simp add: deployed_def guards_constructor_def)
qed (fact assms(1), rule happens.stop)

lemma record_was_sent: "was_sent record_sent msg \<longleftrightarrow> msg = record_message" "\<not> was_sent record_called msg"
  by (simp_all add: was_sent_def record_logs)

lemma record_envs:
  "calls_env id record_codec record_hash 7 (was_sent record_called) 5 record_env"
  "calls_env id record_codec record_hash 5 (was_sent record_sent) 7 record_env7"
  by (simp_all add: calls_env_def recv_env_def hashes_with_def genuine_warp_def record_hash_def
      record_was_sent record_codec_def) (simp_all add: record_env_def record_env7_def record_message_def sent_message_def)

theorem messengers_deliver_witness:
  "executed_from 5 2 (app_notes id record_codec record_called 8) = [[66]] \<and>
   delivered (app_notes id record_codec record_sent 2) 5 2 (app_notes id record_codec record_called 8) 7 8"
proof
  have run1: "calls_happen id {record_message} (calls_env id record_codec record_hash 7 (was_sent record_called) 5)
      (deployed []) record_sent"
    by (rule record_step [where op = "SendMessage (demo_input 0)"], rule record_envs(1)) (simp_all add: record_run)
  have run2: "calls_happen id {record_message} (calls_env id record_codec record_hash 5 (was_sent record_sent) 7)
      (deployed []) record_called"
    by (rule record_step [where op = "Receive 0 2"], rule record_envs(2))
      (simp_all add: record_run, simp_all add: record_env7_def)
  show "delivered (app_notes id record_codec record_sent 2) 5 2
      (app_notes id record_codec record_called 8) 7 8"
    by (rule messengers_deliver [OF run1 _ run2]) (simp_all add: record_was_sent)
  show "executed_from 5 2 (app_notes id record_codec record_called 8) = [[66]]"
    by (simp add: app_notes_def record_logs record_codec_def)
qed

end
