(* ===== verification/Upgrade_Correctness.thy ===== *)
theory Upgrade_Correctness
  imports Upgradeable
begin

section \<open>What the registry and the upgrade mechanism guarantee\<close>

subsection \<open>A concrete registry\<close>

definition demo_entry :: "uint256 \<Rightarrow> address \<Rightarrow> ProtocolRegistryEntry" where
  "demo_entry v a = \<lparr>entry_version = v, entry_protocolAddress = a\<rparr>"

definition demo_registry :: registry where
  "demo_registry = projr (registry_constructor 5 [demo_entry 1 11, demo_entry 3 13])"

definition demo_registry_next :: registry where
  "demo_registry_next = projr (addToRegistry (demo_entry 2 13) demo_registry)"

definition demo_offchain :: "uint32 \<Rightarrow> WarpMessage \<times> bool" where
  "demo_offchain i = (\<lparr>sourceChainID = 5, originSenderAddress = 0, payload = []\<rparr>, True)"

lemmas demo_registry_defs = demo_registry_def demo_registry_next_def registry_constructor_def
  addToRegistry_def checked_add_def demo_entry_def MAX_VERSION_INCREMENT_def
  demo_offchain_def VALIDATORS_SOURCE_ADDRESS_def

lemma demo_constructed:
  "registry_constructor 5 [demo_entry 1 11, demo_entry 3 13] = Inr demo_registry"
  by (simp add: demo_registry_defs)

lemma demo_added:
  "addProtocolVersion 77 demo_offchain (\<lambda>bs. Some (demo_entry 2 13, 77)) 0 demo_registry
     = Inr demo_registry_next"
  by (simp add: addProtocolVersion_def demo_registry_defs)

lemma demo_evolves: "registry_evolves 77 demo_registry demo_registry_next"
  using registry_evolves.none demo_added by (rule registry_evolves.more)

subsection \<open>The registry\<close>

text \<open>
  C39: On every registry that the constructor and any later registrations produce, the getters
  are consistent: the version reported for an address is the greatest version registered for it
  and resolves back to it, no registered version exceeds the latest one, and the latest messenger
  exists as soon as anything has been registered.
\<close>

theorem registry_getters_consistent:
  assumes "registry_constructor chain es = Inr r0" and "registry_evolves this r0 r"
  shows "(getVersionFromAddress a r = Inr v \<longleftrightarrow>
      getAddressFromVersion v r = Inr a \<and> (\<forall>u. getAddressFromVersion u r = Inr a \<longrightarrow> u \<le> v)) \<and>
    (getAddressFromVersion v r = Inr a \<longrightarrow> v \<le> latestVersion r \<and>
      (\<exists>b. getLatestTeleporter r = Inr b))"
proof -
  have inv: "registry_inv r"
    using registry_evolves_grows [OF assms(2)] registry_constructor_inv [OF assms(1)] by blast
  have "getVersionFromAddress a r = Inr v" if "getAddressFromVersion v r = Inr a"
    and "\<forall>u. getAddressFromVersion u r = Inr a \<longrightarrow> u \<le> v"
    using vt.version_bound [OF inv that(1)] vt.version_resolves [OF inv] that(2)
    by (metis order_antisym)
  moreover have "\<exists>b. getLatestTeleporter r = Inr b" if "getAddressFromVersion v r = Inr a"
    using inv that
    by (auto simp: registry_inv_def getLatestTeleporter_def getAddressFromVersion_def)
  ultimately show ?thesis
    using vt.version_resolves [OF inv] vt.version_greatest [OF inv] vt.version_bound [OF inv]
    by blast
qed

theorem registry_getters_consistent_witness:
  "getVersionFromAddress 13 demo_registry_next = Inr 3 \<and>
   getAddressFromVersion 2 demo_registry_next = Inr 13 \<and> 2 \<le> latestVersion demo_registry_next"
proof -
  have a: "getAddressFromVersion 2 demo_registry_next = Inr 13"
    "getVersionFromAddress 13 demo_registry_next = Inr 3"
    by (simp_all add: getAddressFromVersion_def getVersionFromAddress_def demo_registry_defs)
  then show ?thesis
    using registry_getters_consistent [OF demo_constructed demo_evolves, of 13 2] by simp
qed

text \<open>
  The registry is append-only: a version keeps the address it was registered with for ever,
  the version of an address and the latest version never decrease, and one registration raises
  the latest version by at most 500. Registering a version a second time reverts.
\<close>

theorem registry_append_only:
  assumes "registry_evolves this r r'"
  shows "(getAddressFromVersion v r = Inr a \<longrightarrow> getAddressFromVersion v r' = Inr a \<and>
      (\<forall>b. b \<noteq> 0 \<longrightarrow> v \<noteq> 0 \<longrightarrow> addToRegistry \<lparr>entry_version = v, entry_protocolAddress = b\<rparr> r'
        = Inl (Revert ''TeleporterRegistry: version already exists''))) \<and>
    (addressToVersion r a \<le> addressToVersion r' a) \<and> latestVersion r \<le> latestVersion r' \<and>
    (\<forall>entry r''. addToRegistry entry r' = Inr r'' \<longrightarrow>
      unat (latestVersion r'') \<le> unat (latestVersion r') + 500)"
proof -
  have g: "registry_grows r r'" using registry_evolves_grows [OF assms] by simp
  have s: "getAddressFromVersion v r' = Inr a" if "getAddressFromVersion v r = Inr a"
    using assms that by (rule vt.address_stable)
  then have "addToRegistry \<lparr>entry_version = v, entry_protocolAddress = b\<rparr> r'
      = Inl (Revert ''TeleporterRegistry: version already exists'')"
    if "getAddressFromVersion v r = Inr a" "v \<noteq> 0" for b
    using that by (auto simp: addToRegistry_def getAddressFromVersion_def)
  moreover have "unat (latestVersion r'') \<le> unat (latestVersion r') + 500"
    if "addToRegistry entry r' = Inr r''" for entry r''
    using that by (rule addToRegistry_Inr) (auto simp: max_def)
  ultimately show ?thesis using s g by (auto simp: registry_grows_def)
qed

theorem registry_append_only_witness:
  "getAddressFromVersion 3 demo_registry_next = Inr 13 \<and>
   latestVersion demo_registry \<le> latestVersion demo_registry_next"
proof -
  have "getAddressFromVersion 3 demo_registry = Inr 13"
    by (simp add: getAddressFromVersion_def demo_registry_defs)
  then show ?thesis using registry_append_only [OF demo_evolves, of 3 13] by blast
qed

subsection \<open>Upgradeable applications\<close>

text \<open>
  C38: An application accepts a message only from a messenger that the registry knows under a
  version at least the application's minimum and that is not paused; and whatever happens to the
  registry and the application afterwards, its minimum version never decreases and never exceeds
  the latest registered version. So a messenger whose version is below a minimum once set is
  locked out until the registry gives it a higher version.
\<close>

theorem only_current_messengers_deliver:
  assumes "upgrade_inv u" and "(upgrade_step reg checkOwner)\<^sup>*\<^sup>* u u'"
  shows "getMinTeleporterVersion u \<le> getMinTeleporterVersion u' \<and>
    getMinTeleporterVersion u' \<le> latestVersion u' \<and>
    (receiveTeleporterMessage receiveHook sender chain a msg u' = Inr u'' \<longrightarrow>
      (\<exists>v. getAddressFromVersion v u' = Inr sender \<and> getMinTeleporterVersion u \<le> v \<and>
        \<not> isTeleporterAddressPaused sender u' \<and> receiveHook chain a msg u' = Inr u''))"
proof -
  have i: "upgrade_inv u'" "minTeleporterVersion u \<le> minTeleporterVersion u'"
    using upgrade_steps_inv [OF assms(2)] assms(1) by simp_all
  have "\<exists>v. getAddressFromVersion v u' = Inr sender \<and> minTeleporterVersion u \<le> v \<and>
      \<not> isTeleporterAddressPaused sender u' \<and> receiveHook chain a msg u' = Inr u''"
    if "receiveTeleporterMessage receiveHook sender chain a msg u' = Inr u''"
    using that
  proof (rule receiveTeleporterMessage_Inr, goal_cases)
    case (1 v)
    have "registry_inv u'" using i(1) by (simp add: upgrade_inv_def)
    then have "getAddressFromVersion v u' = Inr sender"
      using 1(1) by (rule vt.version_resolves)
    then show ?case using 1 i(2) by (blast intro: order_trans)
  qed
  with i show ?thesis by (simp add: getMinTeleporterVersion_def upgrade_inv_def)
qed

definition demo_upgradeable :: "nat upgradeable" where
  "demo_upgradeable = projr (upgradeable_constructor 77
     \<lparr>reg_blockchainID = 5, latestVersion = 3, versionToAddress = (\<lambda>v. if v = 3 then 13 else 0),
      addressToVersion = (\<lambda>a. if a = 13 then 3 else 0), reg_logs = [],
      minTeleporterVersion = 0, pausedTeleporterAddresses = (\<lambda>_. False), upg_logs = [], app = 0\<rparr>)"

lemma demo_upgradeable_inv: "upgrade_inv demo_upgradeable"
  by (simp add: upgrade_inv_def registry_inv_def demo_upgradeable_def upgradeable_constructor_def)

theorem only_current_messengers_deliver_witness:
  "\<exists>u. receiveTeleporterMessage (\<lambda>c a m u. Inr (u\<lparr>app := length m\<rparr>)) 13 7 8 [1, 2] demo_upgradeable
     = Inr u \<and> getMinTeleporterVersion demo_upgradeable \<le> 3"
proof -
  obtain u where u: "receiveTeleporterMessage (\<lambda>c a m u. Inr (u\<lparr>app := length m\<rparr>)) 13 7 8 [1, 2]
      demo_upgradeable = Inr u"
    by (simp add: receiveTeleporterMessage_def getVersionFromAddress_def demo_upgradeable_def
        upgradeable_constructor_def isTeleporterAddressPaused_def)
  have "latestVersion demo_upgradeable = 3"
    by (simp add: demo_upgradeable_def upgradeable_constructor_def)
  then show ?thesis
    using only_current_messengers_deliver [OF demo_upgradeable_inv rtranclp.rtrancl_refl, of
      "\<lambda>c a m u. Inr (u\<lparr>app := length m\<rparr>)" 13 7 8 "[1, 2]" u] u by auto
qed

text \<open>
  Pausing a messenger takes effect at once and in both directions: it can no longer deliver to
  the application, and when it is the latest one the application refuses to send through it.
  Unpausing restores exactly the pauses from before.
\<close>

theorem pausing_works:
  assumes "pauseTeleporterAddress checkOwner sender a u = Inr u1"
  shows "(\<exists>e. receiveTeleporterMessage receiveHook a chain origin msg u1 = Inl e) \<and>
    getTeleporterMessenger u1 \<noteq> Inr a \<and>
    (\<exists>u2. unpauseTeleporterAddress checkOwner sender a u1 = Inr u2 \<and>
      pausedTeleporterAddresses u2 = pausedTeleporterAddresses u)"
proof -
  from assms have p: "isTeleporterAddressPaused a u1" "a \<noteq> 0" "app u1 = app u"
    "checkOwner sender (app u) = Inr ()"
    "\<not> pausedTeleporterAddresses u a"
    "pausedTeleporterAddresses u1 = (pausedTeleporterAddresses u)(a := True)"
    by (auto simp: pauseTeleporterAddress_def isTeleporterAddressPaused_def
        checkTeleporterUpgradeAccess_def)
  have "receiveTeleporterMessage receiveHook a chain origin msg u1 \<noteq> Inr u'" for u'
    using p(1) by (auto elim!: receiveTeleporterMessage_Inr)
  then have "\<exists>e. receiveTeleporterMessage receiveHook a chain origin msg u1 = Inl e"
    by (cases "receiveTeleporterMessage receiveHook a chain origin msg u1") auto
  moreover have "getTeleporterMessenger u1 \<noteq> Inr a"
    using p(1) by (auto simp: getTeleporterMessenger_def)
  moreover have "((pausedTeleporterAddresses u)(a := True))(a := False)
      = pausedTeleporterAddresses u" using p(5) by (auto simp: fun_eq_iff)
  ultimately show ?thesis
    using p by (simp add: unpauseTeleporterAddress_def checkTeleporterUpgradeAccess_def)
qed

theorem pausing_works_witness:
  "\<exists>u. pauseTeleporterAddress (\<lambda>s x. Inr ()) 2 13 demo_upgradeable = Inr u \<and>
     getTeleporterMessenger u \<noteq> Inr 13"
proof -
  obtain u where u: "pauseTeleporterAddress (\<lambda>s x. Inr ()) 2 13 demo_upgradeable = Inr u"
    by (simp add: pauseTeleporterAddress_def checkTeleporterUpgradeAccess_def
        isTeleporterAddressPaused_def demo_upgradeable_def upgradeable_constructor_def)
  with pausing_works [OF u] show ?thesis by blast
qed

end
