(* ===== verification/Go_Bind.thy ===== *)
theory Go_Bind
  imports Prelude
begin

section \<open>What abigen-generated Go bindings are made of\<close>

text \<open>
  The generated bindings under \<open>abi-bindings/go\<close> instantiate a handful of code patterns over the
  packages \<open>accounts/abi\<close> and \<open>accounts/abi/bind\<close> of subnet-evm. Those packages are parameters:
  the fields of \<open>bound_contract\<close> and \<open>bind_lib\<close>. This theory models what the generated code does
  around them: dynamically typed values and their assertions, the read-only call, the log
  iterator with its \<open>select\<close> statements, and the loop of a log subscription.
\<close>

subsection \<open>Dynamically typed values\<close>

text \<open>
  \<open>interface{}\<close> values with the dynamic types that the bindings use. A \<open>*big.Int\<close> is an
  integer, a \<open>[32]byte\<close> a 256-bit word. \<open>GStruct\<close> carries the name of the struct type; the ABI
  decoder makes structs of unnamed types, with the name \<open>''''\<close>.
\<close>

datatype go_value =
    GBool bool
  | GUint8 byte
  | GUint32 uint32
  | GBigInt int
  | GAddress address
  | GBytes32 bytes32
  | GBytes bytes
  | GString string
  | GSlice "go_value list"
  | GStruct string "go_value list"

datatype go_type =
    TBool
  | TUint8
  | TUint32
  | TBigInt
  | TAddress
  | TBytes32
  | TBytes
  | TString
  | TSlice go_type
  | TStruct string "go_type list"

fun has_type :: "go_value \<Rightarrow> go_type \<Rightarrow> bool"
  and have_types :: "go_value list \<Rightarrow> go_type list \<Rightarrow> bool"
  and all_have_type :: "go_value list \<Rightarrow> go_type \<Rightarrow> bool" where
  "has_type (GBool b) T = (T = TBool)"
| "has_type (GUint8 n) T = (T = TUint8)"
| "has_type (GUint32 n) T = (T = TUint32)"
| "has_type (GBigInt n) T = (T = TBigInt)"
| "has_type (GAddress a) T = (T = TAddress)"
| "has_type (GBytes32 b) T = (T = TBytes32)"
| "has_type (GBytes bs) T = (T = TBytes)"
| "has_type (GString s) T = (T = TString)"
| "has_type (GSlice vs) T = (case T of TSlice U \<Rightarrow> all_have_type vs U | _ \<Rightarrow> False)"
| "has_type (GStruct n vs) T = (case T of TStruct m Ts \<Rightarrow> n = m \<and> have_types vs Ts | _ \<Rightarrow> False)"
| "have_types [] Ts = (Ts = [])"
| "have_types (v # vs) Ts = (case Ts of [] \<Rightarrow> False | T # Us \<Rightarrow> has_type v T \<and> have_types vs Us)"
| "all_have_type [] T = True"
| "all_have_type (v # vs) T = (has_type v T \<and> all_have_type vs T)"

text \<open>The type with its struct names dropped, as the ABI describes it.\<close>

fun abi_shape :: "go_type \<Rightarrow> go_type" where
  "abi_shape (TSlice T) = TSlice (abi_shape T)"
| "abi_shape (TStruct n Ts) = TStruct [] (map abi_shape Ts)"
| "abi_shape T = T"

text \<open>
  Type assertions \<open>v.(*T)\<close> followed by the dereference: a value of another dynamic type panics.
\<close>

definition type_panic :: "go_error + 'a" where
  "type_panic = Inl (GoPanic ''interface conversion'')"

fun as_bool :: "go_value \<Rightarrow> go_error + bool" where
  "as_bool (GBool b) = Inr b"
| "as_bool v = type_panic"

fun as_uint8 :: "go_value \<Rightarrow> go_error + byte" where
  "as_uint8 (GUint8 n) = Inr n"
| "as_uint8 v = type_panic"

fun as_uint32 :: "go_value \<Rightarrow> go_error + uint32" where
  "as_uint32 (GUint32 n) = Inr n"
| "as_uint32 v = type_panic"

fun as_bigint :: "go_value \<Rightarrow> go_error + int" where
  "as_bigint (GBigInt n) = Inr n"
| "as_bigint v = type_panic"

fun as_address :: "go_value \<Rightarrow> go_error + address" where
  "as_address (GAddress a) = Inr a"
| "as_address v = type_panic"

fun as_bytes32 :: "go_value \<Rightarrow> go_error + bytes32" where
  "as_bytes32 (GBytes32 b) = Inr b"
| "as_bytes32 v = type_panic"

fun as_bytes :: "go_value \<Rightarrow> go_error + bytes" where
  "as_bytes (GBytes bs) = Inr bs"
| "as_bytes v = type_panic"

fun as_string :: "go_value \<Rightarrow> go_error + string" where
  "as_string (GString s) = Inr s"
| "as_string v = type_panic"

fun mapE :: "('a \<Rightarrow> 'e + 'b) \<Rightarrow> 'a list \<Rightarrow> 'e + 'b list" where
  "mapE f [] = Inr []"
| "mapE f (x # xs) = bindE (f x) (\<lambda>y. bindE (mapE f xs) (\<lambda>ys. Inr (y # ys)))"

fun as_slice :: "(go_value \<Rightarrow> go_error + 'a) \<Rightarrow> go_value \<Rightarrow> go_error + 'a list" where
  "as_slice as (GSlice vs) = mapE as vs"
| "as_slice as v = type_panic"

fun as_struct :: "string \<Rightarrow> go_value \<Rightarrow> go_error + go_value list" where
  "as_struct n (GStruct m vs) = (if n = m then Inr vs else type_panic)"
| "as_struct n v = type_panic"

text \<open>Indexing a slice: out of range panics.\<close>

definition go_index :: "'a list \<Rightarrow> nat \<Rightarrow> go_error + 'a" where
  "go_index xs i =
     (if i < length xs then Inr (xs ! i) else Inl (GoPanic ''index out of range''))"

subsection \<open>The library\<close>

record log =
  log_Address :: address
  log_Topics :: "bytes32 list"
  log_Data :: bytes

text \<open>
  A channel of logs with its subscription: the logs waiting in the channel, and, once the
  subscription has ended, the error it ended with (\<open>None\<close> for nil).
\<close>

record log_stream =
  stream_logs :: "log list"
  stream_end :: "go_error option option"

text \<open>
  \<open>'s\<close> is the state of the chain, \<open>'o\<close> the option structs, \<open>'tx\<close> the transactions.
  \<open>bc_UnpackLog\<close> fills a new struct of the given type from a log.
\<close>

record ('s, 'o, 'tx) bound_contract =
  bc_Call :: "'o \<Rightarrow> string \<Rightarrow> go_value list \<Rightarrow> 's \<Rightarrow> go_error + go_value list"
  bc_Transact :: "'o \<Rightarrow> string \<Rightarrow> go_value list \<Rightarrow> 's \<Rightarrow> go_error + ('tx \<times> 's)"
  bc_RawTransact :: "'o \<Rightarrow> bytes \<Rightarrow> 's \<Rightarrow> go_error + ('tx \<times> 's)"
  bc_Transfer :: "'o \<Rightarrow> 's \<Rightarrow> go_error + ('tx \<times> 's)"
  bc_FilterLogs :: "'o \<Rightarrow> string \<Rightarrow> go_value list list \<Rightarrow> 's \<Rightarrow> go_error + log_stream"
  bc_WatchLogs :: "'o \<Rightarrow> string \<Rightarrow> go_value list list \<Rightarrow> 's \<Rightarrow> go_error + log_stream"
  bc_UnpackLog :: "go_type \<Rightarrow> string \<Rightarrow> log \<Rightarrow> go_error + go_value"
  bc_ConvertType :: "go_value \<Rightarrow> go_type \<Rightarrow> go_error + go_value"

text \<open>
  A contract's metadata: its ABI, with the Go types of the inputs and outputs of each method and
  of the fields of each event, and which fields are indexed. The bytecode is represented by the
  contract's name.
\<close>

record abi_meta =
  meta_name :: string
  meta_constructor :: "go_type list"
  meta_methods :: "(string \<times> go_type list \<times> go_type list) list"
  meta_events :: "(string \<times> (go_type \<times> bool) list) list"

text \<open>
  \<open>'abi\<close> are parsed ABIs, \<open>'k\<close> backends; \<open>None\<close> is a nil pointer or interface. Deploying
  yields the new address, the transaction and the bound contract.
\<close>

record ('s, 'o, 'tx, 'abi, 'k) bind_lib =
  lib_GetAbi :: "abi_meta \<Rightarrow> go_error + 'abi option"
  lib_NewBoundContract :: "address \<Rightarrow> 'abi \<Rightarrow> 'k option \<Rightarrow> 'k option \<Rightarrow> 'k option
    \<Rightarrow> ('s, 'o, 'tx) bound_contract"
  lib_DeployContract :: "'o \<Rightarrow> 'abi \<Rightarrow> string \<Rightarrow> 'k \<Rightarrow> go_value list \<Rightarrow> 's
    \<Rightarrow> go_error + (address \<times> 'tx \<times> ('s, 'o, 'tx) bound_contract \<times> 's)"

subsection \<open>Read-only calls\<close>

text \<open>\<open>*abi.ConvertType(out[i], new(T)).(*T)\<close>\<close>

definition go_out ::
  "('s, 'o, 'tx) bound_contract \<Rightarrow> go_value list \<Rightarrow> nat \<Rightarrow> go_type
    \<Rightarrow> (go_value \<Rightarrow> go_error + 'a) \<Rightarrow> go_error + 'a" where
  "go_out c out i T as =
     bindE (go_index out i) (\<lambda>v. bindE (bc_ConvertType c v T) as)"

subsection \<open>Structs that are filled in place\<close>

text \<open>
  \<open>new(T)\<close> makes a struct of zero values, and \<open>UnpackLog\<close> sets its fields through the pointer. Its
  memory is typed, so there is no assertion: a field that is not set to a value of its type keeps
  its zero value. \<open>filled as T v i\<close> is field \<open>i\<close>, of type \<open>T\<close>, of the struct filled as \<open>v\<close>.
\<close>

fun zero_value :: "go_type \<Rightarrow> go_value" where
  "zero_value TBool = GBool False"
| "zero_value TUint8 = GUint8 0"
| "zero_value TUint32 = GUint32 0"
| "zero_value TBigInt = GBigInt 0"
| "zero_value TAddress = GAddress 0"
| "zero_value TBytes32 = GBytes32 0"
| "zero_value TBytes = GBytes []"
| "zero_value TString = GString []"
| "zero_value (TSlice T) = GSlice []"
| "zero_value (TStruct n Ts) = GStruct n (map zero_value Ts)"

definition filled ::
  "(go_value \<Rightarrow> go_error + 'a) \<Rightarrow> go_type \<Rightarrow> go_value \<Rightarrow> nat \<Rightarrow> 'a" where
  "filled as T v i =
     (case (case v of GStruct n vs \<Rightarrow> bindE (go_index vs i) as | _ \<Rightarrow> type_panic) of
        Inr x \<Rightarrow> x
      | Inl e \<Rightarrow> projr (as (zero_value T)))"

subsection \<open>Iterators over filtered logs\<close>

text \<open>
  The state of an iterator. \<open>it_Event\<close> is \<open>None\<close> before the first event and while the struct
  of a log that failed to unpack is unusable. \<open>it_logs\<close> and \<open>it_end\<close> are the channel and the
  end of the subscription as they are when \<open>Next\<close> is called.
\<close>

record 'e iterator =
  it_Event :: "'e option"
  it_event :: string
  it_logs :: "log list"
  it_end :: "go_error option option"
  it_done :: bool
  it_fail :: "go_error option"
  it_open :: bool

datatype 'e next_result =
    Returns bool "'e iterator"
  | Blocks
  | Panics string

definition new_iterator :: "string \<Rightarrow> log_stream \<Rightarrow> 'e iterator" where
  "new_iterator event s =
     \<lparr>it_Event = None, it_event = event, it_logs = stream_logs s, it_end = stream_end s,
      it_done = False, it_fail = None, it_open = True\<rparr>"

text \<open>The branch that received a log.\<close>

definition next_log ::
  "(string \<Rightarrow> log \<Rightarrow> go_error + 'e) \<Rightarrow> log \<Rightarrow> 'e iterator \<Rightarrow> 'e next_result" where
  "next_log unpack l it =
     (case unpack (it_event it) l of
        Inl (GoPanic msg) \<Rightarrow> Panics msg
      | Inl err \<Rightarrow> Returns False (it\<lparr>it_Event := None, it_fail := Some err\<rparr>)
      | Inr ev \<Rightarrow> Returns True (it\<lparr>it_Event := Some ev\<rparr>))"

text \<open>\<open>Next\<close> on an iterator that has failed or whose subscription has ended.\<close>

definition next_stopped ::
  "(string \<Rightarrow> log \<Rightarrow> go_error + 'e) \<Rightarrow> 'e iterator \<Rightarrow> 'e next_result" where
  "next_stopped unpack it =
     (if it_fail it \<noteq> None then Returns False it
      else case it_logs it of
        l # ls \<Rightarrow> next_log unpack l (it\<lparr>it_logs := ls\<rparr>)
      | [] \<Rightarrow> Returns False it)"

text \<open>
  \<open>Next\<close>. When both a log and the end of the subscription are ready, \<open>select\<close> may take
  either: \<open>pick\<close> says whether it takes the log. When neither is, it blocks.
\<close>

definition iterator_Next ::
  "(string \<Rightarrow> log \<Rightarrow> go_error + 'e) \<Rightarrow> bool \<Rightarrow> 'e iterator \<Rightarrow> 'e next_result" where
  "iterator_Next unpack pick it =
     (if it_fail it \<noteq> None then Returns False it
      else if it_done it then next_stopped unpack it
      else case it_logs it of
        l # ls \<Rightarrow>
          (case it_end it of
             None \<Rightarrow> next_log unpack l (it\<lparr>it_logs := ls\<rparr>)
           | Some err \<Rightarrow>
               if pick then next_log unpack l (it\<lparr>it_logs := ls\<rparr>)
               else next_stopped unpack (it\<lparr>it_done := True, it_fail := err\<rparr>))
      | [] \<Rightarrow>
          (case it_end it of
             None \<Rightarrow> Blocks
           | Some err \<Rightarrow> next_stopped unpack (it\<lparr>it_done := True, it_fail := err\<rparr>)))"

definition iterator_Error :: "'e iterator \<Rightarrow> go_error option" where
  "iterator_Error it = it_fail it"

text \<open>\<open>Close\<close> unsubscribes and returns nil.\<close>

definition iterator_Close :: "'e iterator \<Rightarrow> go_error option \<times> 'e iterator" where
  "iterator_Close it = (None, it\<lparr>it_open := False\<rparr>)"

subsection \<open>Log subscriptions\<close>

text \<open>
  The goroutine behind a \<open>Watch\<close> method. It waits for a log, the end of the subscription or a
  quit signal; it unpacks a log it received and offers the event to the sink. The second
  component of a state lists the events the sink has taken.
\<close>

datatype 'e watch_state =
    Waiting "'e list"
  | Offering 'e "'e list"
  | Ended "go_error option" "'e list"

datatype watch_label =
    GotLog log
  | SinkTook
  | SubEnded "go_error option"
  | Quit

inductive watch_step ::
  "(log \<Rightarrow> go_error + 'e) \<Rightarrow> 'e watch_state \<Rightarrow> watch_label \<Rightarrow> 'e watch_state \<Rightarrow> bool"
  for unpack :: "log \<Rightarrow> go_error + 'e" where
  got: "unpack l = Inr e \<Longrightarrow> watch_step unpack (Waiting es) (GotLog l) (Offering e es)"
| bad: "unpack l = Inl (GoError msg) \<Longrightarrow>
    watch_step unpack (Waiting es) (GotLog l) (Ended (Some (GoError msg)) es)"
| took: "watch_step unpack (Offering e es) SinkTook (Waiting (es @ [e]))"
| ended_waiting: "watch_step unpack (Waiting es) (SubEnded err) (Ended err es)"
| ended_offering: "watch_step unpack (Offering e es) (SubEnded err) (Ended err es)"
| quit_waiting: "watch_step unpack (Waiting es) Quit (Ended None es)"
| quit_offering: "watch_step unpack (Offering e es) Quit (Ended None es)"

inductive_cases watch_step_Waiting: "watch_step unpack (Waiting es) a S"
inductive_cases watch_step_Offering: "watch_step unpack (Offering e es) a S"
inductive_cases watch_step_Ended: "watch_step unpack (Ended err es) a S"

text \<open>A subscription: its log stream and the unpacking function of its loop.\<close>

record 'e watcher =
  watch_stream :: log_stream
  watch_unpack :: "log \<Rightarrow> go_error + 'e"
  watch_init :: "'e watch_state"

definition new_watcher :: "(log \<Rightarrow> go_error + 'e) \<Rightarrow> log_stream \<Rightarrow> 'e watcher" where
  "new_watcher unpack s = \<lparr>watch_stream = s, watch_unpack = unpack, watch_init = Waiting []\<rparr>"

end
