(* ===== verification/Go_Typing.thy ===== *)
theory Go_Typing
  imports Go_Bind
begin

section \<open>Well-typed use of a bound contract\<close>

text \<open>
  \<open>abi_contract\<close> states what the generated code relies on when it uses a contract bound to an
  ABI: a call with arguments of the ABI's types fails with an error or returns values of the
  ABI's types, and \<open>ConvertType\<close> turns a decoded value into the named Go type of the same shape.
  The lemmas of the locale show that code which follows the ABI never panics.
\<close>

subsection \<open>Shapes of values and types\<close>

lemma have_types_list_all2: "have_types vs Ts = list_all2 has_type vs Ts"
proof (induction vs arbitrary: Ts)
  case Nil
  then show ?case by (auto simp: list_all2_Nil)
next
  case (Cons v vs)
  then show ?case by (cases Ts) auto
qed

lemma all_have_type_list_all: "all_have_type vs T = (\<forall>v \<in> set vs. has_type v T)"
  by (induction vs) auto

fun strip :: "go_value \<Rightarrow> go_value" where
  "strip (GSlice vs) = GSlice (map strip vs)"
| "strip (GStruct n vs) = GStruct [] (map strip vs)"
| "strip v = v"

text \<open>\<open>ConvertType\<close>: the value with the struct names of the type.\<close>

fun retag :: "go_value \<Rightarrow> go_type \<Rightarrow> go_value"
  and retags :: "go_value list \<Rightarrow> go_type list \<Rightarrow> go_value list"
  and retag_all :: "go_value list \<Rightarrow> go_type \<Rightarrow> go_value list" where
  "retag (GSlice vs) T = (case T of TSlice U \<Rightarrow> GSlice (retag_all vs U) | _ \<Rightarrow> GSlice vs)"
| "retag (GStruct n vs) T =
     (case T of TStruct m Ts \<Rightarrow> GStruct m (retags vs Ts) | _ \<Rightarrow> GStruct n vs)"
| "retag (GBool b) T = GBool b"
| "retag (GUint8 n) T = GUint8 n"
| "retag (GUint32 n) T = GUint32 n"
| "retag (GBigInt n) T = GBigInt n"
| "retag (GAddress a) T = GAddress a"
| "retag (GBytes32 b) T = GBytes32 b"
| "retag (GBytes bs) T = GBytes bs"
| "retag (GString s) T = GString s"
| "retags [] Ts = []"
| "retags (v # vs) Ts = (case Ts of [] \<Rightarrow> v # vs | T # Us \<Rightarrow> retag v T # retags vs Us)"
| "retag_all [] T = []"
| "retag_all (v # vs) T = retag v T # retag_all vs T"

lemma has_type_retag:
  "has_type (strip v) (abi_shape T) \<Longrightarrow> has_type (retag v T) T"
  "list_all2 (\<lambda>v T. has_type (strip v) (abi_shape T)) vs Ts \<Longrightarrow> have_types (retags vs Ts) Ts"
  "\<forall>v \<in> set vs. has_type (strip v) (abi_shape T) \<Longrightarrow> all_have_type (retag_all vs T) T"
proof (induction v T and vs Ts and vs T rule: retag_retags_retag_all.induct)
  case (1 vs T)
  then show ?case by (cases T) (auto simp: all_have_type_list_all)
next
  case (2 n vs T)
  then show ?case
    by (cases T) (auto simp: have_types_list_all2 list.rel_map)
next
  case (12 v vs Ts)
  then show ?case by (cases Ts) auto
next
  case (3 b T) then show ?case by (cases T) auto
next
  case (4 b T) then show ?case by (cases T) auto
next
  case (5 b T) then show ?case by (cases T) auto
next
  case (6 b T) then show ?case by (cases T) auto
next
  case (7 b T) then show ?case by (cases T) auto
next
  case (8 b T) then show ?case by (cases T) auto
next
  case (9 b T) then show ?case by (cases T) auto
next
  case (10 b T) then show ?case by (cases T) auto
qed (auto simp: list_all2_Cons1)

lemma abi_shape_idem [simp]: "abi_shape (abi_shape T) = abi_shape T"
  by (induction T) auto

lemma has_type_strip:
  "has_type v T \<Longrightarrow> has_type (strip v) (abi_shape T)"
  "have_types vs Ts \<Longrightarrow> list_all2 (\<lambda>v T. has_type (strip v) (abi_shape T)) vs Ts"
  "all_have_type vs T \<Longrightarrow> \<forall>v \<in> set vs. has_type (strip v) (abi_shape T)"
proof (induction v T and vs Ts and vs T rule: has_type_have_types_all_have_type.induct)
  case (9 vs T)
  then show ?case by (cases T) (auto simp: all_have_type_list_all)
next
  case (10 n vs T)
  then show ?case by (cases T) (auto simp: have_types_list_all2 list.rel_map)
next
  case (12 v vs Ts)
  then show ?case by (cases Ts) auto
qed auto

lemma have_types_strip:
  "have_types vs Ts \<Longrightarrow> Ts = map abi_shape Ts \<Longrightarrow> have_types (map strip vs) Ts"
proof -
  assume "have_types vs Ts" and id: "Ts = map abi_shape Ts"
  then have "list_all2 (\<lambda>v T. has_type (strip v) (abi_shape T)) vs Ts"
    by (intro has_type_strip(2))
  then have "list_all2 has_type (map strip vs) (map abi_shape Ts)" by (simp add: list.rel_map)
  then show ?thesis using id by (simp add: have_types_list_all2)
qed

subsection \<open>Assertions succeed on values of their type\<close>

lemma has_type_as [simp]:
  "has_type v TBool \<Longrightarrow> \<exists>b. as_bool v = Inr b"
  "has_type v TUint8 \<Longrightarrow> \<exists>n. as_uint8 v = Inr n"
  "has_type v TUint32 \<Longrightarrow> \<exists>n. as_uint32 v = Inr n"
  "has_type v TBigInt \<Longrightarrow> \<exists>i. as_bigint v = Inr i"
  "has_type v TAddress \<Longrightarrow> \<exists>a. as_address v = Inr a"
  "has_type v TBytes32 \<Longrightarrow> \<exists>b. as_bytes32 v = Inr b"
  "has_type v TBytes \<Longrightarrow> \<exists>bs. as_bytes v = Inr bs"
  "has_type v TString \<Longrightarrow> \<exists>s. as_string v = Inr s"
  by (cases v; simp split: go_type.splits)+

lemma mapE_Inr: "(\<forall>x \<in> set xs. \<exists>y. f x = Inr y) \<Longrightarrow> \<exists>ys. mapE f xs = Inr ys"
  by (induction xs) auto

lemma mapE_map: "(\<And>x. f (g x) = Inr x) \<Longrightarrow> mapE f (map g xs) = Inr xs"
  by (induction xs) auto

lemma has_type_as_slice:
  "has_type v (TSlice T) \<Longrightarrow> (\<And>u. has_type u T \<Longrightarrow> \<exists>x. as u = Inr x) \<Longrightarrow>
    \<exists>xs. as_slice as v = Inr xs"
  by (cases v) (auto simp: all_have_type_list_all intro: mapE_Inr)

lemma has_type_struct:
  "has_type v (TStruct n Ts) \<longleftrightarrow> (\<exists>vs. v = GStruct n vs \<and> list_all2 has_type vs Ts)"
  by (cases v) (auto simp: have_types_list_all2)

lemma go_index_Inr [simp]: "go_index xs i = Inr x \<longleftrightarrow> i < length xs \<and> x = xs ! i"
  by (auto simp: go_index_def)

text \<open>Reading field \<open>i\<close> of a list of typed values.\<close>

lemma typed_field:
  "list_all2 has_type vs Ts \<Longrightarrow> i < length Ts \<Longrightarrow> Ts ! i = T \<Longrightarrow>
    (\<And>v. has_type v T \<Longrightarrow> \<exists>x. as v = Inr x) \<Longrightarrow>
    \<exists>x. bindE (go_index vs i) as = Inr x"
  by (auto simp: list_all2_conv_all_nth)

subsection \<open>Values of a given type\<close>

lemma has_type_iff [simp]:
  "has_type v TBool \<longleftrightarrow> (\<exists>b. v = GBool b)"
  "has_type v TUint8 \<longleftrightarrow> (\<exists>n. v = GUint8 n)"
  "has_type v TUint32 \<longleftrightarrow> (\<exists>n. v = GUint32 n)"
  "has_type v TBigInt \<longleftrightarrow> (\<exists>i. v = GBigInt i)"
  "has_type v TAddress \<longleftrightarrow> (\<exists>a. v = GAddress a)"
  "has_type v TBytes32 \<longleftrightarrow> (\<exists>b. v = GBytes32 b)"
  "has_type v TBytes \<longleftrightarrow> (\<exists>bs. v = GBytes bs)"
  "has_type v TString \<longleftrightarrow> (\<exists>s. v = GString s)"
  "has_type v (TSlice T) \<longleftrightarrow> (\<exists>vs. v = GSlice vs \<and> (\<forall>u \<in> set vs. has_type u T))"
  by (cases v; simp add: all_have_type_list_all)+

lemma strip_iff [simp]:
  "strip v = GBool b \<longleftrightarrow> v = GBool b"
  "strip v = GUint32 n \<longleftrightarrow> v = GUint32 n"
  "strip v = GBigInt i \<longleftrightarrow> v = GBigInt i"
  "strip v = GAddress a \<longleftrightarrow> v = GAddress a"
  "strip v = GBytes32 x \<longleftrightarrow> v = GBytes32 x"
  "strip v = GBytes bs \<longleftrightarrow> v = GBytes bs"
  "strip v = GString s \<longleftrightarrow> v = GString s"
  by (cases v; simp)+

lemma mapE_as_atoms [simp]:
  "\<forall>u \<in> set vs. \<exists>a. u = GAddress a \<Longrightarrow> \<exists>xs. mapE as_address vs = Inr xs"
  "\<forall>u \<in> set vs. \<exists>i. u = GBigInt i \<Longrightarrow> \<exists>xs. mapE as_bigint vs = Inr xs"
  by (rule mapE_Inr, fastforce)+

lemma have_types_cons [simp]:
  "have_types vs (T # Ts) \<longleftrightarrow> (\<exists>u us. vs = u # us \<and> has_type u T \<and> have_types us Ts)"
  "have_types vs [] \<longleftrightarrow> vs = []"
  by (cases vs; simp)+

subsection \<open>The interface\<close>

definition panics :: "go_error + 'a \<Rightarrow> bool" where
  "panics r \<longleftrightarrow> (\<exists>msg. r = Inl (GoPanic msg))"

lemma panics_simps [simp]:
  "\<not> panics (Inr x)" "\<not> panics (Inl (GoError msg))" "panics (Inl (GoPanic msg))"
  by (simp_all add: panics_def)

lemma panics_bindE: "panics (bindE r k) \<longleftrightarrow> panics r \<or> (\<exists>x. r = Inr x \<and> panics (k x))"
  by (cases r) (auto simp: panics_def)

text \<open>A call that follows the ABI: arguments and expected outputs have the method's types.\<close>

definition follows_abi :: "abi_meta \<Rightarrow> string \<Rightarrow> go_value list \<Rightarrow> go_type list \<Rightarrow> bool" where
  "follows_abi meta name args Us \<longleftrightarrow>
     (case map_of (meta_methods meta) name of
        None \<Rightarrow> False
      | Some (ins, outs) \<Rightarrow> have_types (map strip args) ins \<and> outs = map abi_shape Us)"

definition accepts_args :: "abi_meta \<Rightarrow> string \<Rightarrow> go_value list \<Rightarrow> bool" where
  "accepts_args meta name args \<longleftrightarrow>
     (case map_of (meta_methods meta) name of
        None \<Rightarrow> False
      | Some (ins, outs) \<Rightarrow> have_types (map strip args) ins)"

locale abi_contract =
  fixes meta :: abi_meta
    and c :: "('s, 'o, 'tx) bound_contract"
  assumes call_typed: "map_of (meta_methods meta) name = Some (ins, outs) \<Longrightarrow>
      have_types (map strip args) ins \<Longrightarrow>
      \<not> panics (bc_Call c opts name args s) \<and>
      (\<forall>out. bc_Call c opts name args s = Inr out \<longrightarrow> have_types out outs)"
    and transact_typed: "map_of (meta_methods meta) name = Some (ins, outs) \<Longrightarrow>
      have_types (map strip args) ins \<Longrightarrow> \<not> panics (bc_Transact c opts name args s)"
    and convert: "has_type (strip v) (abi_shape T) \<Longrightarrow> bc_ConvertType c v T = Inr (retag v T)"
begin

lemma go_out_ok:
  assumes "have_types out outs" and "i < length outs" and "outs ! i = abi_shape T"
    and "\<And>v. has_type v T \<Longrightarrow> \<exists>x. as v = Inr x"
  shows "\<exists>x. go_out c out i T as = Inr x"
proof -
  from assms(1,2) have i: "i < length out" and "has_type (out ! i) (outs ! i)"
    by (auto simp: have_types_list_all2 list_all2_conv_all_nth)
  then have "has_type (strip (out ! i)) (abi_shape T)"
    using has_type_strip(1) [of "out ! i" "outs ! i"] by (simp add: assms(3))
  from convert [OF this] has_type_retag(1) [OF this] assms(4) i show ?thesis
    by (auto simp: go_out_def)
qed

lemma call1_ok:
  assumes f: "follows_abi meta name args [T]"
    and "\<And>v. has_type v T \<Longrightarrow> \<exists>x. as v = Inr x"
  shows "\<not> panics (bindE (bc_Call c opts name args s) (\<lambda>out.
    bindE (go_out c out 0 T as) (\<lambda>x. Inr (f x))))"
proof -
  from f obtain ins where "map_of (meta_methods meta) name = Some (ins, [abi_shape T])"
    and "have_types (map strip args) ins"
    by (auto simp: follows_abi_def split: option.splits)
  note t = call_typed [OF this, of opts s]
  have "\<exists>x. go_out c out 0 T as = Inr x" if "bc_Call c opts name args s = Inr out" for out
    using t that by (intro go_out_ok [where outs = "[abi_shape T]"] assms(2)) auto
  with t show ?thesis by (fastforce simp: panics_bindE)
qed

lemma call2_ok:
  assumes f: "follows_abi meta name args [T, U]"
    and "\<And>v. has_type v T \<Longrightarrow> \<exists>x. as v = Inr x" and "\<And>v. has_type v U \<Longrightarrow> \<exists>x. as' v = Inr x"
  shows "\<not> panics (bindE (bc_Call c opts name args s) (\<lambda>out.
    bindE (go_out c out 0 T as) (\<lambda>x. bindE (go_out c out 1 U as') (\<lambda>y. Inr (f x y)))))"
proof -
  let ?outs = "[abi_shape T, abi_shape U]"
  from f obtain ins where "map_of (meta_methods meta) name = Some (ins, ?outs)"
    and "have_types (map strip args) ins"
    by (auto simp: follows_abi_def split: option.splits)
  note t = call_typed [OF this, of opts s]
  have "(\<exists>x. go_out c out 0 T as = Inr x) \<and> (\<exists>y. go_out c out 1 U as' = Inr y)"
    if "bc_Call c opts name args s = Inr out" for out
    using t that
    by (intro conjI go_out_ok [where outs = ?outs] assms(2,3)) auto
  with t show ?thesis by (fastforce simp: panics_bindE)
qed

lemma transact_args_ok: "accepts_args meta name args \<Longrightarrow> \<not> panics (bc_Transact c opts name args s)"
  by (auto simp: accepts_args_def dest: transact_typed split: option.splits)

lemma transact_ok: "follows_abi meta name args Us \<Longrightarrow> \<not> panics (bc_Transact c opts name args s)"
  by (auto simp: follows_abi_def dest: transact_typed split: option.splits)

end

end
