(* ===== verification/Bind_TeleporterMessenger.thy ===== *)
theory Bind_TeleporterMessenger
  imports Go_Bind
begin

section \<open>The Go binding of TeleporterMessenger\<close>

text \<open>
  One definition per type and function of
  \<open>abi-bindings/go/Teleporter/TeleporterMessenger/TeleporterMessenger.go\<close>,
  in the order of the file: structs, the ABI of the metadata, the facets of the bound contract, the
  read-only methods, the transactions, and for each event its struct, iterator, filter,
  subscription and parser. The option structs, the chain and the library are parameters.
\<close>

subsection \<open>Structs\<close>

record Go_TeleporterFeeInfo =
  Go_TeleporterFeeInfo_FeeTokenAddress :: address
  Go_TeleporterFeeInfo_Amount :: int

definition T_TeleporterFeeInfo :: go_type where
  "T_TeleporterFeeInfo = TStruct ''TeleporterFeeInfo'' [TAddress, TBigInt]"

definition of_TeleporterFeeInfo :: "Go_TeleporterFeeInfo \<Rightarrow> go_value" where
  "of_TeleporterFeeInfo x = GStruct ''TeleporterFeeInfo''
     [GAddress (Go_TeleporterFeeInfo_FeeTokenAddress x),
      GBigInt (Go_TeleporterFeeInfo_Amount x)]"

definition as_TeleporterFeeInfo :: "go_value \<Rightarrow> go_error + Go_TeleporterFeeInfo" where
  "as_TeleporterFeeInfo v =
     bindE (as_struct ''TeleporterFeeInfo'' v) (\<lambda>vs.
     bindE (bindE (go_index vs 0) as_address) (\<lambda>x0.
     bindE (bindE (go_index vs 1) as_bigint) (\<lambda>x1.
     Inr \<lparr>Go_TeleporterFeeInfo_FeeTokenAddress = x0,
       Go_TeleporterFeeInfo_Amount = x1\<rparr>)))"

record Go_TeleporterMessageInput =
  Go_TeleporterMessageInput_DestinationBlockchainID :: bytes32
  Go_TeleporterMessageInput_DestinationAddress :: address
  Go_TeleporterMessageInput_FeeInfo :: Go_TeleporterFeeInfo
  Go_TeleporterMessageInput_RequiredGasLimit :: int
  Go_TeleporterMessageInput_AllowedRelayerAddresses :: "address list"
  Go_TeleporterMessageInput_Message :: bytes

definition T_TeleporterMessageInput :: go_type where
  "T_TeleporterMessageInput = TStruct ''TeleporterMessageInput'' [TBytes32, TAddress,
      T_TeleporterFeeInfo, TBigInt, TSlice TAddress, TBytes]"

definition of_TeleporterMessageInput :: "Go_TeleporterMessageInput \<Rightarrow> go_value" where
  "of_TeleporterMessageInput x = GStruct ''TeleporterMessageInput''
     [GBytes32 (Go_TeleporterMessageInput_DestinationBlockchainID x),
      GAddress (Go_TeleporterMessageInput_DestinationAddress x),
      of_TeleporterFeeInfo (Go_TeleporterMessageInput_FeeInfo x),
      GBigInt (Go_TeleporterMessageInput_RequiredGasLimit x),
      GSlice (map GAddress (Go_TeleporterMessageInput_AllowedRelayerAddresses x)),
      GBytes (Go_TeleporterMessageInput_Message x)]"

definition as_TeleporterMessageInput :: "go_value \<Rightarrow> go_error + Go_TeleporterMessageInput" where
  "as_TeleporterMessageInput v =
     bindE (as_struct ''TeleporterMessageInput'' v) (\<lambda>vs.
     bindE (bindE (go_index vs 0) as_bytes32) (\<lambda>x0.
     bindE (bindE (go_index vs 1) as_address) (\<lambda>x1.
     bindE (bindE (go_index vs 2) as_TeleporterFeeInfo) (\<lambda>x2.
     bindE (bindE (go_index vs 3) as_bigint) (\<lambda>x3.
     bindE (bindE (go_index vs 4) (as_slice as_address)) (\<lambda>x4.
     bindE (bindE (go_index vs 5) as_bytes) (\<lambda>x5.
     Inr \<lparr>Go_TeleporterMessageInput_DestinationBlockchainID = x0,
       Go_TeleporterMessageInput_DestinationAddress = x1,
       Go_TeleporterMessageInput_FeeInfo = x2,
       Go_TeleporterMessageInput_RequiredGasLimit = x3,
       Go_TeleporterMessageInput_AllowedRelayerAddresses = x4,
       Go_TeleporterMessageInput_Message = x5\<rparr>)))))))"

record Go_TeleporterMessageReceipt =
  Go_TeleporterMessageReceipt_ReceivedMessageID :: int
  Go_TeleporterMessageReceipt_RelayerRewardAddress :: address

definition T_TeleporterMessageReceipt :: go_type where
  "T_TeleporterMessageReceipt = TStruct ''TeleporterMessageReceipt'' [TBigInt, TAddress]"

definition of_TeleporterMessageReceipt :: "Go_TeleporterMessageReceipt \<Rightarrow> go_value" where
  "of_TeleporterMessageReceipt x = GStruct ''TeleporterMessageReceipt''
     [GBigInt (Go_TeleporterMessageReceipt_ReceivedMessageID x),
      GAddress (Go_TeleporterMessageReceipt_RelayerRewardAddress x)]"

definition as_TeleporterMessageReceipt :: "go_value \<Rightarrow> go_error + Go_TeleporterMessageReceipt"
    where
  "as_TeleporterMessageReceipt v =
     bindE (as_struct ''TeleporterMessageReceipt'' v) (\<lambda>vs.
     bindE (bindE (go_index vs 0) as_bigint) (\<lambda>x0.
     bindE (bindE (go_index vs 1) as_address) (\<lambda>x1.
     Inr \<lparr>Go_TeleporterMessageReceipt_ReceivedMessageID = x0,
       Go_TeleporterMessageReceipt_RelayerRewardAddress = x1\<rparr>)))"

record Go_TeleporterMessage =
  Go_TeleporterMessage_MessageID :: int
  Go_TeleporterMessage_SenderAddress :: address
  Go_TeleporterMessage_DestinationBlockchainID :: bytes32
  Go_TeleporterMessage_DestinationAddress :: address
  Go_TeleporterMessage_RequiredGasLimit :: int
  Go_TeleporterMessage_AllowedRelayerAddresses :: "address list"
  Go_TeleporterMessage_Receipts :: "Go_TeleporterMessageReceipt list"
  Go_TeleporterMessage_Message :: bytes

definition T_TeleporterMessage :: go_type where
  "T_TeleporterMessage = TStruct ''TeleporterMessage'' [TBigInt, TAddress, TBytes32, TAddress,
      TBigInt, TSlice TAddress, TSlice T_TeleporterMessageReceipt, TBytes]"

definition of_TeleporterMessage :: "Go_TeleporterMessage \<Rightarrow> go_value" where
  "of_TeleporterMessage x = GStruct ''TeleporterMessage''
     [GBigInt (Go_TeleporterMessage_MessageID x),
      GAddress (Go_TeleporterMessage_SenderAddress x),
      GBytes32 (Go_TeleporterMessage_DestinationBlockchainID x),
      GAddress (Go_TeleporterMessage_DestinationAddress x),
      GBigInt (Go_TeleporterMessage_RequiredGasLimit x),
      GSlice (map GAddress (Go_TeleporterMessage_AllowedRelayerAddresses x)),
      GSlice (map of_TeleporterMessageReceipt (Go_TeleporterMessage_Receipts x)),
      GBytes (Go_TeleporterMessage_Message x)]"

definition as_TeleporterMessage :: "go_value \<Rightarrow> go_error + Go_TeleporterMessage" where
  "as_TeleporterMessage v =
     bindE (as_struct ''TeleporterMessage'' v) (\<lambda>vs.
     bindE (bindE (go_index vs 0) as_bigint) (\<lambda>x0.
     bindE (bindE (go_index vs 1) as_address) (\<lambda>x1.
     bindE (bindE (go_index vs 2) as_bytes32) (\<lambda>x2.
     bindE (bindE (go_index vs 3) as_address) (\<lambda>x3.
     bindE (bindE (go_index vs 4) as_bigint) (\<lambda>x4.
     bindE (bindE (go_index vs 5) (as_slice as_address)) (\<lambda>x5.
     bindE (bindE (go_index vs 6) (as_slice as_TeleporterMessageReceipt)) (\<lambda>x6.
     bindE (bindE (go_index vs 7) as_bytes) (\<lambda>x7.
     Inr \<lparr>Go_TeleporterMessage_MessageID = x0,
       Go_TeleporterMessage_SenderAddress = x1,
       Go_TeleporterMessage_DestinationBlockchainID = x2,
       Go_TeleporterMessage_DestinationAddress = x3,
       Go_TeleporterMessage_RequiredGasLimit = x4,
       Go_TeleporterMessage_AllowedRelayerAddresses = x5,
       Go_TeleporterMessage_Receipts = x6,
       Go_TeleporterMessage_Message = x7\<rparr>)))))))))"

subsection \<open>The ABI\<close>

definition TeleporterMessengerMetaData :: abi_meta where
  "TeleporterMessengerMetaData =
     \<lparr>meta_name = ''TeleporterMessenger'',
      meta_constructor = [],
      meta_methods = [
        (''WARP_MESSENGER'', [], [TAddress]),
        (''addFeeAmount'', [TBytes32, TBigInt, TAddress, TBigInt], []),
        (''blockchainID'', [], [TBytes32]),
        (''checkRelayerRewardAmount'', [TAddress, TAddress], [TBigInt]),
        (''getFeeInfo'', [TBytes32, TBigInt], [TAddress, TBigInt]),
        (''getMessageHash'', [TBytes32, TBigInt], [TBytes32]),
        (''getNextMessageID'', [TBytes32], [TBigInt]),
        (''getReceiptAtIndex'', [TBytes32, TBigInt], [TStruct [] [TBigInt, TAddress]]),
        (''getReceiptQueueSize'', [TBytes32], [TBigInt]),
        (''getRelayerRewardAddress'', [TBytes32, TBigInt], [TAddress]),
        (''latestMessageIDs'', [TBytes32], [TBigInt]),
        (''messageReceived'', [TBytes32, TBigInt], [TBool]),
        (''receiptQueues'', [TBytes32], [TBigInt, TBigInt]),
        (''receiveCrossChainMessage'', [TUint32, TAddress], []),
        (''receivedFailedMessageHashes'', [TBytes32, TBigInt], [TBytes32]),
        (''redeemRelayerRewards'', [TAddress], []),
        (''retryMessageExecution'', [TBytes32, TStruct [] [TBigInt, TAddress, TBytes32, TAddress,
            TBigInt, TSlice TAddress, TSlice (TStruct [] [TBigInt, TAddress]), TBytes]], []),
        (''retrySendCrossChainMessage'', [TBytes32, TStruct [] [TBigInt, TAddress, TBytes32,
            TAddress, TBigInt, TSlice TAddress, TSlice (TStruct [] [TBigInt, TAddress]),
            TBytes]], []),
        (''sendCrossChainMessage'', [TStruct [] [TBytes32, TAddress, TStruct [] [TAddress,
            TBigInt], TBigInt, TSlice TAddress, TBytes]], [TBigInt]),
        (''sendSpecifiedReceipts'', [TBytes32, TSlice TBigInt, TStruct [] [TAddress, TBigInt],
            TSlice TAddress], [TBigInt]),
        (''sentMessageInfo'', [TBytes32, TBigInt], [TBytes32, TStruct [] [TAddress, TBigInt]])],
      meta_events = [
        (''AddFeeAmount'', [(TBytes32, True), (TBigInt, True), (TStruct [] [TAddress, TBigInt],
            False)]),
        (''MessageExecuted'', [(TBytes32, True), (TBigInt, True)]),
        (''MessageExecutionFailed'', [(TBytes32, True), (TBigInt, True), (TStruct [] [TBigInt,
            TAddress, TBytes32, TAddress, TBigInt, TSlice TAddress, TSlice (TStruct [] [TBigInt,
            TAddress]), TBytes], False)]),
        (''ReceiveCrossChainMessage'', [(TBytes32, True), (TBigInt, True), (TAddress, True),
            (TAddress, False), (TStruct [] [TBigInt, TAddress, TBytes32, TAddress, TBigInt,
            TSlice TAddress, TSlice (TStruct [] [TBigInt, TAddress]), TBytes], False)]),
        (''RelayerRewardsRedeemed'', [(TAddress, True), (TAddress, True), (TBigInt, False)]),
        (''SendCrossChainMessage'', [(TBytes32, True), (TBigInt, True), (TStruct [] [TBigInt,
            TAddress, TBytes32, TAddress, TBigInt, TSlice TAddress, TSlice (TStruct [] [TBigInt,
            TAddress]), TBytes], False), (TStruct [] [TAddress, TBigInt], False)])]\<rparr>"

subsection \<open>The bound contract and its facets\<close>

record ('s, 'o, 'tx) TeleporterMessengerCaller =
  TeleporterMessengerCaller_contract :: "('s, 'o, 'tx) bound_contract"

record ('s, 'o, 'tx) TeleporterMessengerTransactor =
  TeleporterMessengerTransactor_contract :: "('s, 'o, 'tx) bound_contract"

record ('s, 'o, 'tx) TeleporterMessengerFilterer =
  TeleporterMessengerFilterer_contract :: "('s, 'o, 'tx) bound_contract"

record ('s, 'o, 'tx) TeleporterMessenger =
  TeleporterMessenger_Caller :: "('s, 'o, 'tx) TeleporterMessengerCaller"
  TeleporterMessenger_Transactor :: "('s, 'o, 'tx) TeleporterMessengerTransactor"
  TeleporterMessenger_Filterer :: "('s, 'o, 'tx) TeleporterMessengerFilterer"

record ('s, 'o, 'tx) TeleporterMessengerSession =
  TeleporterMessengerSession_Contract :: "('s, 'o, 'tx) TeleporterMessenger"
  TeleporterMessengerSession_CallOpts :: 'o
  TeleporterMessengerSession_TransactOpts :: 'o

record ('s, 'o, 'tx) TeleporterMessengerCallerSession =
  TeleporterMessengerCallerSession_Contract :: "('s, 'o, 'tx) TeleporterMessengerCaller"
  TeleporterMessengerCallerSession_CallOpts :: 'o

record ('s, 'o, 'tx) TeleporterMessengerTransactorSession =
  TeleporterMessengerTransactorSession_Contract :: "('s, 'o, 'tx) TeleporterMessengerTransactor"
  TeleporterMessengerTransactorSession_TransactOpts :: 'o

record ('s, 'o, 'tx) TeleporterMessengerRaw =
  TeleporterMessengerRaw_Contract :: "('s, 'o, 'tx) TeleporterMessenger"

record ('s, 'o, 'tx) TeleporterMessengerCallerRaw =
  TeleporterMessengerCallerRaw_Contract :: "('s, 'o, 'tx) TeleporterMessengerCaller"

record ('s, 'o, 'tx) TeleporterMessengerTransactorRaw =
  TeleporterMessengerTransactorRaw_Contract :: "('s, 'o, 'tx) TeleporterMessengerTransactor"

definition bindTeleporterMessenger ::
  "('s, 'o, 'tx, 'abi, 'k) bind_lib \<Rightarrow> address \<Rightarrow> 'k option \<Rightarrow> 'k option \<Rightarrow> 'k option
    \<Rightarrow> go_error + ('s, 'o, 'tx) bound_contract" where
  "bindTeleporterMessenger lib addr caller transactor filterer =
     bindE (lib_GetAbi lib TeleporterMessengerMetaData) (\<lambda>parsed.
     case parsed of
       None \<Rightarrow> Inl (GoPanic ''nil pointer dereference'')
     | Some abi \<Rightarrow> Inr (lib_NewBoundContract lib addr abi caller transactor filterer))"

definition DeployTeleporterMessenger ::
  "('s, 'o, 'tx, 'abi, 'k) bind_lib \<Rightarrow> 'o \<Rightarrow> 'k \<Rightarrow> 's
    \<Rightarrow> go_error + (address \<times> 'tx \<times> ('s, 'o, 'tx) TeleporterMessenger \<times> 's)" where
  "DeployTeleporterMessenger lib auth backend s =
     bindE (lib_GetAbi lib TeleporterMessengerMetaData) (\<lambda>parsed.
     case parsed of
       None \<Rightarrow> Inl (GoError ''GetABI returned nil'')
     | Some abi \<Rightarrow>
         bindE (lib_DeployContract lib auth abi (meta_name TeleporterMessengerMetaData) backend
             [] s)
         (\<lambda>(addr, tx, c, s').
         Inr (addr, tx, \<lparr>TeleporterMessenger_Caller = \<lparr>TeleporterMessengerCaller_contract = c\<rparr>,
         TeleporterMessenger_Transactor = \<lparr>TeleporterMessengerTransactor_contract = c\<rparr>,
         TeleporterMessenger_Filterer = \<lparr>TeleporterMessengerFilterer_contract = c\<rparr>\<rparr>, s')))"

definition NewTeleporterMessenger ::
  "('s, 'o, 'tx, 'abi, 'k) bind_lib \<Rightarrow> address \<Rightarrow> 'k \<Rightarrow> go_error + ('s, 'o, 'tx)
      TeleporterMessenger" where
  "NewTeleporterMessenger lib addr backend =
     bindE (bindTeleporterMessenger lib addr (Some backend) (Some backend) (Some backend)) (\<lambda>c.
     Inr \<lparr>TeleporterMessenger_Caller = \<lparr>TeleporterMessengerCaller_contract = c\<rparr>,
         TeleporterMessenger_Transactor = \<lparr>TeleporterMessengerTransactor_contract = c\<rparr>,
         TeleporterMessenger_Filterer = \<lparr>TeleporterMessengerFilterer_contract = c\<rparr>\<rparr>)"

definition NewTeleporterMessengerCaller ::
  "('s, 'o, 'tx, 'abi, 'k) bind_lib \<Rightarrow> address \<Rightarrow> 'k \<Rightarrow> go_error + ('s, 'o, 'tx)
      TeleporterMessengerCaller" where
  "NewTeleporterMessengerCaller lib addr b =
     bindE (bindTeleporterMessenger lib addr (Some b) None None) (\<lambda>c.
     Inr \<lparr>TeleporterMessengerCaller_contract = c\<rparr>)"

definition NewTeleporterMessengerTransactor ::
  "('s, 'o, 'tx, 'abi, 'k) bind_lib \<Rightarrow> address \<Rightarrow> 'k \<Rightarrow> go_error + ('s, 'o, 'tx)
      TeleporterMessengerTransactor" where
  "NewTeleporterMessengerTransactor lib addr b =
     bindE (bindTeleporterMessenger lib addr None (Some b) None) (\<lambda>c.
     Inr \<lparr>TeleporterMessengerTransactor_contract = c\<rparr>)"

definition NewTeleporterMessengerFilterer ::
  "('s, 'o, 'tx, 'abi, 'k) bind_lib \<Rightarrow> address \<Rightarrow> 'k \<Rightarrow> go_error + ('s, 'o, 'tx)
      TeleporterMessengerFilterer" where
  "NewTeleporterMessengerFilterer lib addr b =
     bindE (bindTeleporterMessenger lib addr None None (Some b)) (\<lambda>c.
     Inr \<lparr>TeleporterMessengerFilterer_contract = c\<rparr>)"

definition TeleporterMessengerRaw_Call ::
  "('s, 'o, 'tx) TeleporterMessengerRaw \<Rightarrow> 'o \<Rightarrow> string \<Rightarrow> go_value list \<Rightarrow> 's
    \<Rightarrow> go_error + go_value list" where
  "TeleporterMessengerRaw_Call r opts method params s =
     bc_Call (TeleporterMessengerCaller_contract (TeleporterMessenger_Caller
         (TeleporterMessengerRaw_Contract r))) opts method params s"

definition TeleporterMessengerRaw_Transfer ::
  "('s, 'o, 'tx) TeleporterMessengerRaw \<Rightarrow> 'o \<Rightarrow> 's \<Rightarrow> go_error + ('tx \<times> 's)" where
  "TeleporterMessengerRaw_Transfer r opts s =
     bc_Transfer (TeleporterMessengerTransactor_contract (TeleporterMessenger_Transactor
         (TeleporterMessengerRaw_Contract r))) opts s"

definition TeleporterMessengerRaw_Transact ::
  "('s, 'o, 'tx) TeleporterMessengerRaw \<Rightarrow> 'o \<Rightarrow> string \<Rightarrow> go_value list \<Rightarrow> 's
    \<Rightarrow> go_error + ('tx \<times> 's)" where
  "TeleporterMessengerRaw_Transact r opts method params s =
     bc_Transact (TeleporterMessengerTransactor_contract (TeleporterMessenger_Transactor
         (TeleporterMessengerRaw_Contract r))) opts method params s"

definition TeleporterMessengerCallerRaw_Call ::
  "('s, 'o, 'tx) TeleporterMessengerCallerRaw \<Rightarrow> 'o \<Rightarrow> string \<Rightarrow> go_value list \<Rightarrow> 's
    \<Rightarrow> go_error + go_value list" where
  "TeleporterMessengerCallerRaw_Call r opts method params s =
     bc_Call (TeleporterMessengerCaller_contract (TeleporterMessengerCallerRaw_Contract r)) opts
         method params s"

definition TeleporterMessengerTransactorRaw_Transfer ::
  "('s, 'o, 'tx) TeleporterMessengerTransactorRaw \<Rightarrow> 'o \<Rightarrow> 's \<Rightarrow> go_error + ('tx \<times> 's)" where
  "TeleporterMessengerTransactorRaw_Transfer r opts s =
     bc_Transfer (TeleporterMessengerTransactor_contract
         (TeleporterMessengerTransactorRaw_Contract r)) opts s"

definition TeleporterMessengerTransactorRaw_Transact ::
  "('s, 'o, 'tx) TeleporterMessengerTransactorRaw \<Rightarrow> 'o \<Rightarrow> string \<Rightarrow> go_value list \<Rightarrow> 's
    \<Rightarrow> go_error + ('tx \<times> 's)" where
  "TeleporterMessengerTransactorRaw_Transact r opts method params s =
     bc_Transact (TeleporterMessengerTransactor_contract
         (TeleporterMessengerTransactorRaw_Contract r)) opts method params s"

subsection \<open>Read-only methods\<close>

definition TeleporterMessengerCaller_WARPMESSENGER ::
  "('s, 'o, 'tx) TeleporterMessengerCaller \<Rightarrow> 'o \<Rightarrow> 's
    \<Rightarrow> go_error + address" where
  "TeleporterMessengerCaller_WARPMESSENGER c opts s =
     bindE (bc_Call (TeleporterMessengerCaller_contract c) opts ''WARP_MESSENGER'' [] s) (\<lambda>out.
     bindE (go_out (TeleporterMessengerCaller_contract c) out 0 TAddress as_address) (\<lambda>out0.
     Inr out0))"

definition TeleporterMessengerSession_WARPMESSENGER ::
  "('s, 'o, 'tx) TeleporterMessengerSession \<Rightarrow> 's
    \<Rightarrow> go_error + address" where
  "TeleporterMessengerSession_WARPMESSENGER ss s =
     TeleporterMessengerCaller_WARPMESSENGER (TeleporterMessenger_Caller
         (TeleporterMessengerSession_Contract ss))
       (TeleporterMessengerSession_CallOpts ss) s"

definition TeleporterMessengerCallerSession_WARPMESSENGER ::
  "('s, 'o, 'tx) TeleporterMessengerCallerSession \<Rightarrow> 's
    \<Rightarrow> go_error + address" where
  "TeleporterMessengerCallerSession_WARPMESSENGER ss s =
     TeleporterMessengerCaller_WARPMESSENGER (TeleporterMessengerCallerSession_Contract ss)
       (TeleporterMessengerCallerSession_CallOpts ss) s"

definition TeleporterMessengerCaller_BlockchainID ::
  "('s, 'o, 'tx) TeleporterMessengerCaller \<Rightarrow> 'o \<Rightarrow> 's
    \<Rightarrow> go_error + bytes32" where
  "TeleporterMessengerCaller_BlockchainID c opts s =
     bindE (bc_Call (TeleporterMessengerCaller_contract c) opts ''blockchainID'' [] s) (\<lambda>out.
     bindE (go_out (TeleporterMessengerCaller_contract c) out 0 TBytes32 as_bytes32) (\<lambda>out0.
     Inr out0))"

definition TeleporterMessengerSession_BlockchainID ::
  "('s, 'o, 'tx) TeleporterMessengerSession \<Rightarrow> 's
    \<Rightarrow> go_error + bytes32" where
  "TeleporterMessengerSession_BlockchainID ss s =
     TeleporterMessengerCaller_BlockchainID (TeleporterMessenger_Caller
         (TeleporterMessengerSession_Contract ss))
       (TeleporterMessengerSession_CallOpts ss) s"

definition TeleporterMessengerCallerSession_BlockchainID ::
  "('s, 'o, 'tx) TeleporterMessengerCallerSession \<Rightarrow> 's
    \<Rightarrow> go_error + bytes32" where
  "TeleporterMessengerCallerSession_BlockchainID ss s =
     TeleporterMessengerCaller_BlockchainID (TeleporterMessengerCallerSession_Contract ss)
       (TeleporterMessengerCallerSession_CallOpts ss) s"

definition TeleporterMessengerCaller_CheckRelayerRewardAmount ::
  "('s, 'o, 'tx) TeleporterMessengerCaller \<Rightarrow> 'o \<Rightarrow> address \<Rightarrow> address \<Rightarrow> 's
    \<Rightarrow> go_error + int" where
  "TeleporterMessengerCaller_CheckRelayerRewardAmount c opts relayer feeAsset s =
     bindE (bc_Call (TeleporterMessengerCaller_contract c) opts ''checkRelayerRewardAmount''
         [GAddress relayer, GAddress feeAsset] s) (\<lambda>out.
     bindE (go_out (TeleporterMessengerCaller_contract c) out 0 TBigInt as_bigint) (\<lambda>out0.
     Inr out0))"

definition TeleporterMessengerSession_CheckRelayerRewardAmount ::
  "('s, 'o, 'tx) TeleporterMessengerSession \<Rightarrow> address \<Rightarrow> address \<Rightarrow> 's
    \<Rightarrow> go_error + int" where
  "TeleporterMessengerSession_CheckRelayerRewardAmount ss relayer feeAsset s =
     TeleporterMessengerCaller_CheckRelayerRewardAmount (TeleporterMessenger_Caller
         (TeleporterMessengerSession_Contract ss))
       (TeleporterMessengerSession_CallOpts ss) relayer feeAsset s"

definition TeleporterMessengerCallerSession_CheckRelayerRewardAmount ::
  "('s, 'o, 'tx) TeleporterMessengerCallerSession \<Rightarrow> address \<Rightarrow> address \<Rightarrow> 's
    \<Rightarrow> go_error + int" where
  "TeleporterMessengerCallerSession_CheckRelayerRewardAmount ss relayer feeAsset s =
     TeleporterMessengerCaller_CheckRelayerRewardAmount
         (TeleporterMessengerCallerSession_Contract ss)
       (TeleporterMessengerCallerSession_CallOpts ss) relayer feeAsset s"

definition TeleporterMessengerCaller_GetFeeInfo ::
  "('s, 'o, 'tx) TeleporterMessengerCaller \<Rightarrow> 'o \<Rightarrow> bytes32 \<Rightarrow> int \<Rightarrow> 's
    \<Rightarrow> go_error + (address \<times> int)" where
  "TeleporterMessengerCaller_GetFeeInfo c opts destinationBlockchainID messageID s =
     bindE (bc_Call (TeleporterMessengerCaller_contract c) opts ''getFeeInfo'' [GBytes32
         destinationBlockchainID, GBigInt messageID] s) (\<lambda>out.
     bindE (go_out (TeleporterMessengerCaller_contract c) out 0 TAddress as_address) (\<lambda>out0.
     bindE (go_out (TeleporterMessengerCaller_contract c) out 1 TBigInt as_bigint) (\<lambda>out1.
     Inr (out0, out1))))"

definition TeleporterMessengerSession_GetFeeInfo ::
  "('s, 'o, 'tx) TeleporterMessengerSession \<Rightarrow> bytes32 \<Rightarrow> int \<Rightarrow> 's
    \<Rightarrow> go_error + (address \<times> int)" where
  "TeleporterMessengerSession_GetFeeInfo ss destinationBlockchainID messageID s =
     TeleporterMessengerCaller_GetFeeInfo (TeleporterMessenger_Caller
         (TeleporterMessengerSession_Contract ss))
       (TeleporterMessengerSession_CallOpts ss) destinationBlockchainID messageID s"

definition TeleporterMessengerCallerSession_GetFeeInfo ::
  "('s, 'o, 'tx) TeleporterMessengerCallerSession \<Rightarrow> bytes32 \<Rightarrow> int \<Rightarrow> 's
    \<Rightarrow> go_error + (address \<times> int)" where
  "TeleporterMessengerCallerSession_GetFeeInfo ss destinationBlockchainID messageID s =
     TeleporterMessengerCaller_GetFeeInfo (TeleporterMessengerCallerSession_Contract ss)
       (TeleporterMessengerCallerSession_CallOpts ss) destinationBlockchainID messageID s"

definition TeleporterMessengerCaller_GetMessageHash ::
  "('s, 'o, 'tx) TeleporterMessengerCaller \<Rightarrow> 'o \<Rightarrow> bytes32 \<Rightarrow> int \<Rightarrow> 's
    \<Rightarrow> go_error + bytes32" where
  "TeleporterMessengerCaller_GetMessageHash c opts destinationBlockchainID messageID s =
     bindE (bc_Call (TeleporterMessengerCaller_contract c) opts ''getMessageHash'' [GBytes32
         destinationBlockchainID, GBigInt messageID] s) (\<lambda>out.
     bindE (go_out (TeleporterMessengerCaller_contract c) out 0 TBytes32 as_bytes32) (\<lambda>out0.
     Inr out0))"

definition TeleporterMessengerSession_GetMessageHash ::
  "('s, 'o, 'tx) TeleporterMessengerSession \<Rightarrow> bytes32 \<Rightarrow> int \<Rightarrow> 's
    \<Rightarrow> go_error + bytes32" where
  "TeleporterMessengerSession_GetMessageHash ss destinationBlockchainID messageID s =
     TeleporterMessengerCaller_GetMessageHash (TeleporterMessenger_Caller
         (TeleporterMessengerSession_Contract ss))
       (TeleporterMessengerSession_CallOpts ss) destinationBlockchainID messageID s"

definition TeleporterMessengerCallerSession_GetMessageHash ::
  "('s, 'o, 'tx) TeleporterMessengerCallerSession \<Rightarrow> bytes32 \<Rightarrow> int \<Rightarrow> 's
    \<Rightarrow> go_error + bytes32" where
  "TeleporterMessengerCallerSession_GetMessageHash ss destinationBlockchainID messageID s =
     TeleporterMessengerCaller_GetMessageHash (TeleporterMessengerCallerSession_Contract ss)
       (TeleporterMessengerCallerSession_CallOpts ss) destinationBlockchainID messageID s"

definition TeleporterMessengerCaller_GetNextMessageID ::
  "('s, 'o, 'tx) TeleporterMessengerCaller \<Rightarrow> 'o \<Rightarrow> bytes32 \<Rightarrow> 's
    \<Rightarrow> go_error + int" where
  "TeleporterMessengerCaller_GetNextMessageID c opts destinationBlockchainID s =
     bindE (bc_Call (TeleporterMessengerCaller_contract c) opts ''getNextMessageID'' [GBytes32
         destinationBlockchainID] s) (\<lambda>out.
     bindE (go_out (TeleporterMessengerCaller_contract c) out 0 TBigInt as_bigint) (\<lambda>out0.
     Inr out0))"

definition TeleporterMessengerSession_GetNextMessageID ::
  "('s, 'o, 'tx) TeleporterMessengerSession \<Rightarrow> bytes32 \<Rightarrow> 's
    \<Rightarrow> go_error + int" where
  "TeleporterMessengerSession_GetNextMessageID ss destinationBlockchainID s =
     TeleporterMessengerCaller_GetNextMessageID (TeleporterMessenger_Caller
         (TeleporterMessengerSession_Contract ss))
       (TeleporterMessengerSession_CallOpts ss) destinationBlockchainID s"

definition TeleporterMessengerCallerSession_GetNextMessageID ::
  "('s, 'o, 'tx) TeleporterMessengerCallerSession \<Rightarrow> bytes32 \<Rightarrow> 's
    \<Rightarrow> go_error + int" where
  "TeleporterMessengerCallerSession_GetNextMessageID ss destinationBlockchainID s =
     TeleporterMessengerCaller_GetNextMessageID (TeleporterMessengerCallerSession_Contract ss)
       (TeleporterMessengerCallerSession_CallOpts ss) destinationBlockchainID s"

definition TeleporterMessengerCaller_GetReceiptAtIndex ::
  "('s, 'o, 'tx) TeleporterMessengerCaller \<Rightarrow> 'o \<Rightarrow> bytes32 \<Rightarrow> int \<Rightarrow> 's
    \<Rightarrow> go_error + Go_TeleporterMessageReceipt" where
  "TeleporterMessengerCaller_GetReceiptAtIndex c opts originBlockchainID index s =
     bindE (bc_Call (TeleporterMessengerCaller_contract c) opts ''getReceiptAtIndex'' [GBytes32
         originBlockchainID, GBigInt index] s) (\<lambda>out.
     bindE (go_out (TeleporterMessengerCaller_contract c) out 0 T_TeleporterMessageReceipt
         as_TeleporterMessageReceipt) (\<lambda>out0.
     Inr out0))"

definition TeleporterMessengerSession_GetReceiptAtIndex ::
  "('s, 'o, 'tx) TeleporterMessengerSession \<Rightarrow> bytes32 \<Rightarrow> int \<Rightarrow> 's
    \<Rightarrow> go_error + Go_TeleporterMessageReceipt" where
  "TeleporterMessengerSession_GetReceiptAtIndex ss originBlockchainID index s =
     TeleporterMessengerCaller_GetReceiptAtIndex (TeleporterMessenger_Caller
         (TeleporterMessengerSession_Contract ss))
       (TeleporterMessengerSession_CallOpts ss) originBlockchainID index s"

definition TeleporterMessengerCallerSession_GetReceiptAtIndex ::
  "('s, 'o, 'tx) TeleporterMessengerCallerSession \<Rightarrow> bytes32 \<Rightarrow> int \<Rightarrow> 's
    \<Rightarrow> go_error + Go_TeleporterMessageReceipt" where
  "TeleporterMessengerCallerSession_GetReceiptAtIndex ss originBlockchainID index s =
     TeleporterMessengerCaller_GetReceiptAtIndex (TeleporterMessengerCallerSession_Contract ss)
       (TeleporterMessengerCallerSession_CallOpts ss) originBlockchainID index s"

definition TeleporterMessengerCaller_GetReceiptQueueSize ::
  "('s, 'o, 'tx) TeleporterMessengerCaller \<Rightarrow> 'o \<Rightarrow> bytes32 \<Rightarrow> 's
    \<Rightarrow> go_error + int" where
  "TeleporterMessengerCaller_GetReceiptQueueSize c opts originBlockchainID s =
     bindE (bc_Call (TeleporterMessengerCaller_contract c) opts ''getReceiptQueueSize'' [GBytes32
         originBlockchainID] s) (\<lambda>out.
     bindE (go_out (TeleporterMessengerCaller_contract c) out 0 TBigInt as_bigint) (\<lambda>out0.
     Inr out0))"

definition TeleporterMessengerSession_GetReceiptQueueSize ::
  "('s, 'o, 'tx) TeleporterMessengerSession \<Rightarrow> bytes32 \<Rightarrow> 's
    \<Rightarrow> go_error + int" where
  "TeleporterMessengerSession_GetReceiptQueueSize ss originBlockchainID s =
     TeleporterMessengerCaller_GetReceiptQueueSize (TeleporterMessenger_Caller
         (TeleporterMessengerSession_Contract ss))
       (TeleporterMessengerSession_CallOpts ss) originBlockchainID s"

definition TeleporterMessengerCallerSession_GetReceiptQueueSize ::
  "('s, 'o, 'tx) TeleporterMessengerCallerSession \<Rightarrow> bytes32 \<Rightarrow> 's
    \<Rightarrow> go_error + int" where
  "TeleporterMessengerCallerSession_GetReceiptQueueSize ss originBlockchainID s =
     TeleporterMessengerCaller_GetReceiptQueueSize (TeleporterMessengerCallerSession_Contract ss)
       (TeleporterMessengerCallerSession_CallOpts ss) originBlockchainID s"

definition TeleporterMessengerCaller_GetRelayerRewardAddress ::
  "('s, 'o, 'tx) TeleporterMessengerCaller \<Rightarrow> 'o \<Rightarrow> bytes32 \<Rightarrow> int \<Rightarrow> 's
    \<Rightarrow> go_error + address" where
  "TeleporterMessengerCaller_GetRelayerRewardAddress c opts originBlockchainID messageID s =
     bindE (bc_Call (TeleporterMessengerCaller_contract c) opts ''getRelayerRewardAddress''
         [GBytes32 originBlockchainID, GBigInt messageID] s) (\<lambda>out.
     bindE (go_out (TeleporterMessengerCaller_contract c) out 0 TAddress as_address) (\<lambda>out0.
     Inr out0))"

definition TeleporterMessengerSession_GetRelayerRewardAddress ::
  "('s, 'o, 'tx) TeleporterMessengerSession \<Rightarrow> bytes32 \<Rightarrow> int \<Rightarrow> 's
    \<Rightarrow> go_error + address" where
  "TeleporterMessengerSession_GetRelayerRewardAddress ss originBlockchainID messageID s =
     TeleporterMessengerCaller_GetRelayerRewardAddress (TeleporterMessenger_Caller
         (TeleporterMessengerSession_Contract ss))
       (TeleporterMessengerSession_CallOpts ss) originBlockchainID messageID s"

definition TeleporterMessengerCallerSession_GetRelayerRewardAddress ::
  "('s, 'o, 'tx) TeleporterMessengerCallerSession \<Rightarrow> bytes32 \<Rightarrow> int \<Rightarrow> 's
    \<Rightarrow> go_error + address" where
  "TeleporterMessengerCallerSession_GetRelayerRewardAddress ss originBlockchainID messageID s =
     TeleporterMessengerCaller_GetRelayerRewardAddress (TeleporterMessengerCallerSession_Contract
         ss)
       (TeleporterMessengerCallerSession_CallOpts ss) originBlockchainID messageID s"

definition TeleporterMessengerCaller_LatestMessageIDs ::
  "('s, 'o, 'tx) TeleporterMessengerCaller \<Rightarrow> 'o \<Rightarrow> bytes32 \<Rightarrow> 's
    \<Rightarrow> go_error + int" where
  "TeleporterMessengerCaller_LatestMessageIDs c opts destinationBlockchainID s =
     bindE (bc_Call (TeleporterMessengerCaller_contract c) opts ''latestMessageIDs'' [GBytes32
         destinationBlockchainID] s) (\<lambda>out.
     bindE (go_out (TeleporterMessengerCaller_contract c) out 0 TBigInt as_bigint) (\<lambda>out0.
     Inr out0))"

definition TeleporterMessengerSession_LatestMessageIDs ::
  "('s, 'o, 'tx) TeleporterMessengerSession \<Rightarrow> bytes32 \<Rightarrow> 's
    \<Rightarrow> go_error + int" where
  "TeleporterMessengerSession_LatestMessageIDs ss destinationBlockchainID s =
     TeleporterMessengerCaller_LatestMessageIDs (TeleporterMessenger_Caller
         (TeleporterMessengerSession_Contract ss))
       (TeleporterMessengerSession_CallOpts ss) destinationBlockchainID s"

definition TeleporterMessengerCallerSession_LatestMessageIDs ::
  "('s, 'o, 'tx) TeleporterMessengerCallerSession \<Rightarrow> bytes32 \<Rightarrow> 's
    \<Rightarrow> go_error + int" where
  "TeleporterMessengerCallerSession_LatestMessageIDs ss destinationBlockchainID s =
     TeleporterMessengerCaller_LatestMessageIDs (TeleporterMessengerCallerSession_Contract ss)
       (TeleporterMessengerCallerSession_CallOpts ss) destinationBlockchainID s"

definition TeleporterMessengerCaller_MessageReceived ::
  "('s, 'o, 'tx) TeleporterMessengerCaller \<Rightarrow> 'o \<Rightarrow> bytes32 \<Rightarrow> int \<Rightarrow> 's
    \<Rightarrow> go_error + bool" where
  "TeleporterMessengerCaller_MessageReceived c opts originBlockchainID messageID s =
     bindE (bc_Call (TeleporterMessengerCaller_contract c) opts ''messageReceived'' [GBytes32
         originBlockchainID, GBigInt messageID] s) (\<lambda>out.
     bindE (go_out (TeleporterMessengerCaller_contract c) out 0 TBool as_bool) (\<lambda>out0.
     Inr out0))"

definition TeleporterMessengerSession_MessageReceived ::
  "('s, 'o, 'tx) TeleporterMessengerSession \<Rightarrow> bytes32 \<Rightarrow> int \<Rightarrow> 's
    \<Rightarrow> go_error + bool" where
  "TeleporterMessengerSession_MessageReceived ss originBlockchainID messageID s =
     TeleporterMessengerCaller_MessageReceived (TeleporterMessenger_Caller
         (TeleporterMessengerSession_Contract ss))
       (TeleporterMessengerSession_CallOpts ss) originBlockchainID messageID s"

definition TeleporterMessengerCallerSession_MessageReceived ::
  "('s, 'o, 'tx) TeleporterMessengerCallerSession \<Rightarrow> bytes32 \<Rightarrow> int \<Rightarrow> 's
    \<Rightarrow> go_error + bool" where
  "TeleporterMessengerCallerSession_MessageReceived ss originBlockchainID messageID s =
     TeleporterMessengerCaller_MessageReceived (TeleporterMessengerCallerSession_Contract ss)
       (TeleporterMessengerCallerSession_CallOpts ss) originBlockchainID messageID s"

record TeleporterMessenger_ReceiptQueuesResult =
  TeleporterMessenger_ReceiptQueuesResult_First :: int
  TeleporterMessenger_ReceiptQueuesResult_Last :: int

definition TeleporterMessengerCaller_ReceiptQueues ::
  "('s, 'o, 'tx) TeleporterMessengerCaller \<Rightarrow> 'o \<Rightarrow> bytes32 \<Rightarrow> 's
    \<Rightarrow> go_error + TeleporterMessenger_ReceiptQueuesResult" where
  "TeleporterMessengerCaller_ReceiptQueues c opts sourceBlockchainID s =
     bindE (bc_Call (TeleporterMessengerCaller_contract c) opts ''receiptQueues'' [GBytes32
         sourceBlockchainID] s) (\<lambda>out.
     bindE (go_out (TeleporterMessengerCaller_contract c) out 0 TBigInt as_bigint) (\<lambda>out0.
     bindE (go_out (TeleporterMessengerCaller_contract c) out 1 TBigInt as_bigint) (\<lambda>out1.
     Inr \<lparr>TeleporterMessenger_ReceiptQueuesResult_First = out0,
         TeleporterMessenger_ReceiptQueuesResult_Last = out1\<rparr>)))"

definition TeleporterMessengerSession_ReceiptQueues ::
  "('s, 'o, 'tx) TeleporterMessengerSession \<Rightarrow> bytes32 \<Rightarrow> 's
    \<Rightarrow> go_error + TeleporterMessenger_ReceiptQueuesResult" where
  "TeleporterMessengerSession_ReceiptQueues ss sourceBlockchainID s =
     TeleporterMessengerCaller_ReceiptQueues (TeleporterMessenger_Caller
         (TeleporterMessengerSession_Contract ss))
       (TeleporterMessengerSession_CallOpts ss) sourceBlockchainID s"

definition TeleporterMessengerCallerSession_ReceiptQueues ::
  "('s, 'o, 'tx) TeleporterMessengerCallerSession \<Rightarrow> bytes32 \<Rightarrow> 's
    \<Rightarrow> go_error + TeleporterMessenger_ReceiptQueuesResult" where
  "TeleporterMessengerCallerSession_ReceiptQueues ss sourceBlockchainID s =
     TeleporterMessengerCaller_ReceiptQueues (TeleporterMessengerCallerSession_Contract ss)
       (TeleporterMessengerCallerSession_CallOpts ss) sourceBlockchainID s"

definition TeleporterMessengerCaller_ReceivedFailedMessageHashes ::
  "('s, 'o, 'tx) TeleporterMessengerCaller \<Rightarrow> 'o \<Rightarrow> bytes32 \<Rightarrow> int \<Rightarrow> 's
    \<Rightarrow> go_error + bytes32" where
  "TeleporterMessengerCaller_ReceivedFailedMessageHashes c opts sourceBlockchainID messageID s =
     bindE (bc_Call (TeleporterMessengerCaller_contract c) opts ''receivedFailedMessageHashes''
         [GBytes32 sourceBlockchainID, GBigInt messageID] s) (\<lambda>out.
     bindE (go_out (TeleporterMessengerCaller_contract c) out 0 TBytes32 as_bytes32) (\<lambda>out0.
     Inr out0))"

definition TeleporterMessengerSession_ReceivedFailedMessageHashes ::
  "('s, 'o, 'tx) TeleporterMessengerSession \<Rightarrow> bytes32 \<Rightarrow> int \<Rightarrow> 's
    \<Rightarrow> go_error + bytes32" where
  "TeleporterMessengerSession_ReceivedFailedMessageHashes ss sourceBlockchainID messageID s =
     TeleporterMessengerCaller_ReceivedFailedMessageHashes (TeleporterMessenger_Caller
         (TeleporterMessengerSession_Contract ss))
       (TeleporterMessengerSession_CallOpts ss) sourceBlockchainID messageID s"

definition TeleporterMessengerCallerSession_ReceivedFailedMessageHashes ::
  "('s, 'o, 'tx) TeleporterMessengerCallerSession \<Rightarrow> bytes32 \<Rightarrow> int \<Rightarrow> 's
    \<Rightarrow> go_error + bytes32" where
  "TeleporterMessengerCallerSession_ReceivedFailedMessageHashes ss sourceBlockchainID messageID s
      =
     TeleporterMessengerCaller_ReceivedFailedMessageHashes
         (TeleporterMessengerCallerSession_Contract ss)
       (TeleporterMessengerCallerSession_CallOpts ss) sourceBlockchainID messageID s"

record TeleporterMessenger_SentMessageInfoResult =
  TeleporterMessenger_SentMessageInfoResult_MessageHash :: bytes32
  TeleporterMessenger_SentMessageInfoResult_FeeInfo :: Go_TeleporterFeeInfo

definition TeleporterMessengerCaller_SentMessageInfo ::
  "('s, 'o, 'tx) TeleporterMessengerCaller \<Rightarrow> 'o \<Rightarrow> bytes32 \<Rightarrow> int \<Rightarrow> 's
    \<Rightarrow> go_error + TeleporterMessenger_SentMessageInfoResult" where
  "TeleporterMessengerCaller_SentMessageInfo c opts destinationBlockchainID messageID s =
     bindE (bc_Call (TeleporterMessengerCaller_contract c) opts ''sentMessageInfo'' [GBytes32
         destinationBlockchainID, GBigInt messageID] s) (\<lambda>out.
     bindE (go_out (TeleporterMessengerCaller_contract c) out 0 TBytes32 as_bytes32) (\<lambda>out0.
     bindE (go_out (TeleporterMessengerCaller_contract c) out 1 T_TeleporterFeeInfo
         as_TeleporterFeeInfo) (\<lambda>out1.
     Inr \<lparr>TeleporterMessenger_SentMessageInfoResult_MessageHash = out0,
         TeleporterMessenger_SentMessageInfoResult_FeeInfo = out1\<rparr>)))"

definition TeleporterMessengerSession_SentMessageInfo ::
  "('s, 'o, 'tx) TeleporterMessengerSession \<Rightarrow> bytes32 \<Rightarrow> int \<Rightarrow> 's
    \<Rightarrow> go_error + TeleporterMessenger_SentMessageInfoResult" where
  "TeleporterMessengerSession_SentMessageInfo ss destinationBlockchainID messageID s =
     TeleporterMessengerCaller_SentMessageInfo (TeleporterMessenger_Caller
         (TeleporterMessengerSession_Contract ss))
       (TeleporterMessengerSession_CallOpts ss) destinationBlockchainID messageID s"

definition TeleporterMessengerCallerSession_SentMessageInfo ::
  "('s, 'o, 'tx) TeleporterMessengerCallerSession \<Rightarrow> bytes32 \<Rightarrow> int \<Rightarrow> 's
    \<Rightarrow> go_error + TeleporterMessenger_SentMessageInfoResult" where
  "TeleporterMessengerCallerSession_SentMessageInfo ss destinationBlockchainID messageID s =
     TeleporterMessengerCaller_SentMessageInfo (TeleporterMessengerCallerSession_Contract ss)
       (TeleporterMessengerCallerSession_CallOpts ss) destinationBlockchainID messageID s"

subsection \<open>Transactions\<close>

definition TeleporterMessengerTransactor_AddFeeAmount ::
  "('s, 'o, 'tx) TeleporterMessengerTransactor \<Rightarrow> 'o \<Rightarrow> bytes32 \<Rightarrow> int \<Rightarrow> address \<Rightarrow> int \<Rightarrow> 's
    \<Rightarrow> go_error + ('tx \<times> 's)" where
  "TeleporterMessengerTransactor_AddFeeAmount c opts destinationBlockchainID messageID
      feeTokenAddress additionalFeeAmount s =
     bc_Transact (TeleporterMessengerTransactor_contract c) opts ''addFeeAmount''
       [GBytes32 destinationBlockchainID, GBigInt messageID, GAddress feeTokenAddress, GBigInt
           additionalFeeAmount] s"

definition TeleporterMessengerSession_AddFeeAmount ::
  "('s, 'o, 'tx) TeleporterMessengerSession \<Rightarrow> bytes32 \<Rightarrow> int \<Rightarrow> address \<Rightarrow> int \<Rightarrow> 's
    \<Rightarrow> go_error + ('tx \<times> 's)" where
  "TeleporterMessengerSession_AddFeeAmount ss destinationBlockchainID messageID feeTokenAddress
      additionalFeeAmount s =
     TeleporterMessengerTransactor_AddFeeAmount (TeleporterMessenger_Transactor
         (TeleporterMessengerSession_Contract ss))
       (TeleporterMessengerSession_TransactOpts ss) destinationBlockchainID messageID
           feeTokenAddress additionalFeeAmount s"

definition TeleporterMessengerTransactorSession_AddFeeAmount ::
  "('s, 'o, 'tx) TeleporterMessengerTransactorSession \<Rightarrow> bytes32 \<Rightarrow> int \<Rightarrow> address \<Rightarrow> int \<Rightarrow> 's
    \<Rightarrow> go_error + ('tx \<times> 's)" where
  "TeleporterMessengerTransactorSession_AddFeeAmount ss destinationBlockchainID messageID
      feeTokenAddress additionalFeeAmount s =
     TeleporterMessengerTransactor_AddFeeAmount (TeleporterMessengerTransactorSession_Contract ss)
       (TeleporterMessengerTransactorSession_TransactOpts ss) destinationBlockchainID messageID
           feeTokenAddress additionalFeeAmount s"

definition TeleporterMessengerTransactor_ReceiveCrossChainMessage ::
  "('s, 'o, 'tx) TeleporterMessengerTransactor \<Rightarrow> 'o \<Rightarrow> uint32 \<Rightarrow> address \<Rightarrow> 's
    \<Rightarrow> go_error + ('tx \<times> 's)" where
  "TeleporterMessengerTransactor_ReceiveCrossChainMessage c opts messageIndex
      relayerRewardAddress s =
     bc_Transact (TeleporterMessengerTransactor_contract c) opts ''receiveCrossChainMessage''
       [GUint32 messageIndex, GAddress relayerRewardAddress] s"

definition TeleporterMessengerSession_ReceiveCrossChainMessage ::
  "('s, 'o, 'tx) TeleporterMessengerSession \<Rightarrow> uint32 \<Rightarrow> address \<Rightarrow> 's
    \<Rightarrow> go_error + ('tx \<times> 's)" where
  "TeleporterMessengerSession_ReceiveCrossChainMessage ss messageIndex relayerRewardAddress s =
     TeleporterMessengerTransactor_ReceiveCrossChainMessage (TeleporterMessenger_Transactor
         (TeleporterMessengerSession_Contract ss))
       (TeleporterMessengerSession_TransactOpts ss) messageIndex relayerRewardAddress s"

definition TeleporterMessengerTransactorSession_ReceiveCrossChainMessage ::
  "('s, 'o, 'tx) TeleporterMessengerTransactorSession \<Rightarrow> uint32 \<Rightarrow> address \<Rightarrow> 's
    \<Rightarrow> go_error + ('tx \<times> 's)" where
  "TeleporterMessengerTransactorSession_ReceiveCrossChainMessage ss messageIndex
      relayerRewardAddress s =
     TeleporterMessengerTransactor_ReceiveCrossChainMessage
         (TeleporterMessengerTransactorSession_Contract ss)
       (TeleporterMessengerTransactorSession_TransactOpts ss) messageIndex relayerRewardAddress s"

definition TeleporterMessengerTransactor_RedeemRelayerRewards ::
  "('s, 'o, 'tx) TeleporterMessengerTransactor \<Rightarrow> 'o \<Rightarrow> address \<Rightarrow> 's
    \<Rightarrow> go_error + ('tx \<times> 's)" where
  "TeleporterMessengerTransactor_RedeemRelayerRewards c opts feeAsset s =
     bc_Transact (TeleporterMessengerTransactor_contract c) opts ''redeemRelayerRewards''
       [GAddress feeAsset] s"

definition TeleporterMessengerSession_RedeemRelayerRewards ::
  "('s, 'o, 'tx) TeleporterMessengerSession \<Rightarrow> address \<Rightarrow> 's
    \<Rightarrow> go_error + ('tx \<times> 's)" where
  "TeleporterMessengerSession_RedeemRelayerRewards ss feeAsset s =
     TeleporterMessengerTransactor_RedeemRelayerRewards (TeleporterMessenger_Transactor
         (TeleporterMessengerSession_Contract ss))
       (TeleporterMessengerSession_TransactOpts ss) feeAsset s"

definition TeleporterMessengerTransactorSession_RedeemRelayerRewards ::
  "('s, 'o, 'tx) TeleporterMessengerTransactorSession \<Rightarrow> address \<Rightarrow> 's
    \<Rightarrow> go_error + ('tx \<times> 's)" where
  "TeleporterMessengerTransactorSession_RedeemRelayerRewards ss feeAsset s =
     TeleporterMessengerTransactor_RedeemRelayerRewards
         (TeleporterMessengerTransactorSession_Contract ss)
       (TeleporterMessengerTransactorSession_TransactOpts ss) feeAsset s"

definition TeleporterMessengerTransactor_RetryMessageExecution ::
  "('s, 'o, 'tx) TeleporterMessengerTransactor \<Rightarrow> 'o \<Rightarrow> bytes32 \<Rightarrow> Go_TeleporterMessage \<Rightarrow> 's
    \<Rightarrow> go_error + ('tx \<times> 's)" where
  "TeleporterMessengerTransactor_RetryMessageExecution c opts originBlockchainID message s =
     bc_Transact (TeleporterMessengerTransactor_contract c) opts ''retryMessageExecution''
       [GBytes32 originBlockchainID, of_TeleporterMessage message] s"

definition TeleporterMessengerSession_RetryMessageExecution ::
  "('s, 'o, 'tx) TeleporterMessengerSession \<Rightarrow> bytes32 \<Rightarrow> Go_TeleporterMessage \<Rightarrow> 's
    \<Rightarrow> go_error + ('tx \<times> 's)" where
  "TeleporterMessengerSession_RetryMessageExecution ss originBlockchainID message s =
     TeleporterMessengerTransactor_RetryMessageExecution (TeleporterMessenger_Transactor
         (TeleporterMessengerSession_Contract ss))
       (TeleporterMessengerSession_TransactOpts ss) originBlockchainID message s"

definition TeleporterMessengerTransactorSession_RetryMessageExecution ::
  "('s, 'o, 'tx) TeleporterMessengerTransactorSession \<Rightarrow> bytes32 \<Rightarrow> Go_TeleporterMessage \<Rightarrow> 's
    \<Rightarrow> go_error + ('tx \<times> 's)" where
  "TeleporterMessengerTransactorSession_RetryMessageExecution ss originBlockchainID message s =
     TeleporterMessengerTransactor_RetryMessageExecution
         (TeleporterMessengerTransactorSession_Contract ss)
       (TeleporterMessengerTransactorSession_TransactOpts ss) originBlockchainID message s"

definition TeleporterMessengerTransactor_RetrySendCrossChainMessage ::
  "('s, 'o, 'tx) TeleporterMessengerTransactor \<Rightarrow> 'o \<Rightarrow> bytes32 \<Rightarrow> Go_TeleporterMessage \<Rightarrow> 's
    \<Rightarrow> go_error + ('tx \<times> 's)" where
  "TeleporterMessengerTransactor_RetrySendCrossChainMessage c opts destinationBlockchainID
      message s =
     bc_Transact (TeleporterMessengerTransactor_contract c) opts ''retrySendCrossChainMessage''
       [GBytes32 destinationBlockchainID, of_TeleporterMessage message] s"

definition TeleporterMessengerSession_RetrySendCrossChainMessage ::
  "('s, 'o, 'tx) TeleporterMessengerSession \<Rightarrow> bytes32 \<Rightarrow> Go_TeleporterMessage \<Rightarrow> 's
    \<Rightarrow> go_error + ('tx \<times> 's)" where
  "TeleporterMessengerSession_RetrySendCrossChainMessage ss destinationBlockchainID message s =
     TeleporterMessengerTransactor_RetrySendCrossChainMessage (TeleporterMessenger_Transactor
         (TeleporterMessengerSession_Contract ss))
       (TeleporterMessengerSession_TransactOpts ss) destinationBlockchainID message s"

definition TeleporterMessengerTransactorSession_RetrySendCrossChainMessage ::
  "('s, 'o, 'tx) TeleporterMessengerTransactorSession \<Rightarrow> bytes32 \<Rightarrow> Go_TeleporterMessage \<Rightarrow> 's
    \<Rightarrow> go_error + ('tx \<times> 's)" where
  "TeleporterMessengerTransactorSession_RetrySendCrossChainMessage ss destinationBlockchainID
      message s =
     TeleporterMessengerTransactor_RetrySendCrossChainMessage
         (TeleporterMessengerTransactorSession_Contract ss)
       (TeleporterMessengerTransactorSession_TransactOpts ss) destinationBlockchainID message s"

definition TeleporterMessengerTransactor_SendCrossChainMessage ::
  "('s, 'o, 'tx) TeleporterMessengerTransactor \<Rightarrow> 'o \<Rightarrow> Go_TeleporterMessageInput \<Rightarrow> 's
    \<Rightarrow> go_error + ('tx \<times> 's)" where
  "TeleporterMessengerTransactor_SendCrossChainMessage c opts messageInput s =
     bc_Transact (TeleporterMessengerTransactor_contract c) opts ''sendCrossChainMessage''
       [of_TeleporterMessageInput messageInput] s"

definition TeleporterMessengerSession_SendCrossChainMessage ::
  "('s, 'o, 'tx) TeleporterMessengerSession \<Rightarrow> Go_TeleporterMessageInput \<Rightarrow> 's
    \<Rightarrow> go_error + ('tx \<times> 's)" where
  "TeleporterMessengerSession_SendCrossChainMessage ss messageInput s =
     TeleporterMessengerTransactor_SendCrossChainMessage (TeleporterMessenger_Transactor
         (TeleporterMessengerSession_Contract ss))
       (TeleporterMessengerSession_TransactOpts ss) messageInput s"

definition TeleporterMessengerTransactorSession_SendCrossChainMessage ::
  "('s, 'o, 'tx) TeleporterMessengerTransactorSession \<Rightarrow> Go_TeleporterMessageInput \<Rightarrow> 's
    \<Rightarrow> go_error + ('tx \<times> 's)" where
  "TeleporterMessengerTransactorSession_SendCrossChainMessage ss messageInput s =
     TeleporterMessengerTransactor_SendCrossChainMessage
         (TeleporterMessengerTransactorSession_Contract ss)
       (TeleporterMessengerTransactorSession_TransactOpts ss) messageInput s"

definition TeleporterMessengerTransactor_SendSpecifiedReceipts ::
  "('s, 'o, 'tx) TeleporterMessengerTransactor \<Rightarrow> 'o \<Rightarrow> bytes32 \<Rightarrow> int list \<Rightarrow> Go_TeleporterFeeInfo \<Rightarrow>
      address list \<Rightarrow> 's
    \<Rightarrow> go_error + ('tx \<times> 's)" where
  "TeleporterMessengerTransactor_SendSpecifiedReceipts c opts originBlockchainID messageIDs
      feeInfo allowedRelayerAddresses s =
     bc_Transact (TeleporterMessengerTransactor_contract c) opts ''sendSpecifiedReceipts''
       [GBytes32 originBlockchainID, GSlice (map GBigInt messageIDs), of_TeleporterFeeInfo
           feeInfo, GSlice (map GAddress allowedRelayerAddresses)] s"

definition TeleporterMessengerSession_SendSpecifiedReceipts ::
  "('s, 'o, 'tx) TeleporterMessengerSession \<Rightarrow> bytes32 \<Rightarrow> int list \<Rightarrow> Go_TeleporterFeeInfo \<Rightarrow> address
      list \<Rightarrow> 's
    \<Rightarrow> go_error + ('tx \<times> 's)" where
  "TeleporterMessengerSession_SendSpecifiedReceipts ss originBlockchainID messageIDs feeInfo
      allowedRelayerAddresses s =
     TeleporterMessengerTransactor_SendSpecifiedReceipts (TeleporterMessenger_Transactor
         (TeleporterMessengerSession_Contract ss))
       (TeleporterMessengerSession_TransactOpts ss) originBlockchainID messageIDs feeInfo
           allowedRelayerAddresses s"

definition TeleporterMessengerTransactorSession_SendSpecifiedReceipts ::
  "('s, 'o, 'tx) TeleporterMessengerTransactorSession \<Rightarrow> bytes32 \<Rightarrow> int list \<Rightarrow> Go_TeleporterFeeInfo
      \<Rightarrow> address list \<Rightarrow> 's
    \<Rightarrow> go_error + ('tx \<times> 's)" where
  "TeleporterMessengerTransactorSession_SendSpecifiedReceipts ss originBlockchainID messageIDs
      feeInfo allowedRelayerAddresses s =
     TeleporterMessengerTransactor_SendSpecifiedReceipts
         (TeleporterMessengerTransactorSession_Contract ss)
       (TeleporterMessengerTransactorSession_TransactOpts ss) originBlockchainID messageIDs
           feeInfo allowedRelayerAddresses s"

subsection \<open>Events\<close>

text \<open>The event \<open>AddFeeAmount\<close>.\<close>

record TeleporterMessengerAddFeeAmount =
  TeleporterMessengerAddFeeAmount_DestinationBlockchainID :: bytes32
  TeleporterMessengerAddFeeAmount_MessageID :: int
  TeleporterMessengerAddFeeAmount_UpdatedFeeInfo :: Go_TeleporterFeeInfo
  TeleporterMessengerAddFeeAmount_Raw :: log

definition filled_TeleporterMessengerAddFeeAmount :: "go_value \<Rightarrow> log \<Rightarrow>
    TeleporterMessengerAddFeeAmount" where
  "filled_TeleporterMessengerAddFeeAmount v raw =
     \<lparr>TeleporterMessengerAddFeeAmount_DestinationBlockchainID = filled as_bytes32 TBytes32 v 0,
       TeleporterMessengerAddFeeAmount_MessageID = filled as_bigint TBigInt v 1,
       TeleporterMessengerAddFeeAmount_UpdatedFeeInfo = filled as_TeleporterFeeInfo
           T_TeleporterFeeInfo v 2,
       TeleporterMessengerAddFeeAmount_Raw = raw\<rparr>"

definition unpack_TeleporterMessengerAddFeeAmount ::
  "('s, 'o, 'tx) bound_contract \<Rightarrow> string \<Rightarrow> log \<Rightarrow> go_error + TeleporterMessengerAddFeeAmount" where
  "unpack_TeleporterMessengerAddFeeAmount c event raw =
     bindE (bc_UnpackLog c (TStruct ''TeleporterMessengerAddFeeAmount'' [TBytes32, TBigInt,
         T_TeleporterFeeInfo]) event raw) (\<lambda>v.
     Inr (filled_TeleporterMessengerAddFeeAmount v raw))"

definition TeleporterMessengerAddFeeAmountIterator_Next ::
  "('s, 'o, 'tx) bound_contract \<Rightarrow> bool \<Rightarrow> TeleporterMessengerAddFeeAmount iterator \<Rightarrow>
      TeleporterMessengerAddFeeAmount next_result" where
  "TeleporterMessengerAddFeeAmountIterator_Next c = iterator_Next
      (unpack_TeleporterMessengerAddFeeAmount c)"

definition TeleporterMessengerAddFeeAmountIterator_Error ::
  "TeleporterMessengerAddFeeAmount iterator \<Rightarrow> go_error option" where
  "TeleporterMessengerAddFeeAmountIterator_Error = iterator_Error"

definition TeleporterMessengerAddFeeAmountIterator_Close ::
  "TeleporterMessengerAddFeeAmount iterator \<Rightarrow> go_error option \<times> TeleporterMessengerAddFeeAmount
      iterator" where
  "TeleporterMessengerAddFeeAmountIterator_Close = iterator_Close"

definition TeleporterMessengerFilterer_FilterAddFeeAmount ::
  "('s, 'o, 'tx) TeleporterMessengerFilterer \<Rightarrow> 'o \<Rightarrow> bytes32 list \<Rightarrow> int list \<Rightarrow> 's
    \<Rightarrow> go_error + TeleporterMessengerAddFeeAmount iterator" where
  "TeleporterMessengerFilterer_FilterAddFeeAmount c opts destinationBlockchainID messageID s =
     bindE (bc_FilterLogs (TeleporterMessengerFilterer_contract c) opts ''AddFeeAmount'' [map
         GBytes32 destinationBlockchainID, map GBigInt messageID] s) (\<lambda>stream.
     Inr (new_iterator ''AddFeeAmount'' stream))"

definition TeleporterMessengerFilterer_WatchAddFeeAmount ::
  "('s, 'o, 'tx) TeleporterMessengerFilterer \<Rightarrow> 'o \<Rightarrow> bytes32 list \<Rightarrow> int list \<Rightarrow> 's
    \<Rightarrow> go_error + TeleporterMessengerAddFeeAmount watcher" where
  "TeleporterMessengerFilterer_WatchAddFeeAmount c opts destinationBlockchainID messageID s =
     bindE (bc_WatchLogs (TeleporterMessengerFilterer_contract c) opts ''AddFeeAmount'' [map
         GBytes32 destinationBlockchainID, map GBigInt messageID] s) (\<lambda>stream.
     Inr (new_watcher (unpack_TeleporterMessengerAddFeeAmount
         (TeleporterMessengerFilterer_contract c) ''AddFeeAmount'') stream))"

definition TeleporterMessengerFilterer_ParseAddFeeAmount ::
  "('s, 'o, 'tx) TeleporterMessengerFilterer \<Rightarrow> log \<Rightarrow> go_error + TeleporterMessengerAddFeeAmount"
      where
  "TeleporterMessengerFilterer_ParseAddFeeAmount c raw = unpack_TeleporterMessengerAddFeeAmount
      (TeleporterMessengerFilterer_contract c) ''AddFeeAmount'' raw"

text \<open>The event \<open>MessageExecuted\<close>.\<close>

record TeleporterMessengerMessageExecuted =
  TeleporterMessengerMessageExecuted_OriginBlockchainID :: bytes32
  TeleporterMessengerMessageExecuted_MessageID :: int
  TeleporterMessengerMessageExecuted_Raw :: log

definition filled_TeleporterMessengerMessageExecuted :: "go_value \<Rightarrow> log \<Rightarrow>
    TeleporterMessengerMessageExecuted" where
  "filled_TeleporterMessengerMessageExecuted v raw =
     \<lparr>TeleporterMessengerMessageExecuted_OriginBlockchainID = filled as_bytes32 TBytes32 v 0,
       TeleporterMessengerMessageExecuted_MessageID = filled as_bigint TBigInt v 1,
       TeleporterMessengerMessageExecuted_Raw = raw\<rparr>"

definition unpack_TeleporterMessengerMessageExecuted ::
  "('s, 'o, 'tx) bound_contract \<Rightarrow> string \<Rightarrow> log \<Rightarrow> go_error + TeleporterMessengerMessageExecuted"
      where
  "unpack_TeleporterMessengerMessageExecuted c event raw =
     bindE (bc_UnpackLog c (TStruct ''TeleporterMessengerMessageExecuted'' [TBytes32, TBigInt])
         event raw) (\<lambda>v.
     Inr (filled_TeleporterMessengerMessageExecuted v raw))"

definition TeleporterMessengerMessageExecutedIterator_Next ::
  "('s, 'o, 'tx) bound_contract \<Rightarrow> bool \<Rightarrow> TeleporterMessengerMessageExecuted iterator \<Rightarrow>
      TeleporterMessengerMessageExecuted next_result" where
  "TeleporterMessengerMessageExecutedIterator_Next c = iterator_Next
      (unpack_TeleporterMessengerMessageExecuted c)"

definition TeleporterMessengerMessageExecutedIterator_Error ::
  "TeleporterMessengerMessageExecuted iterator \<Rightarrow> go_error option" where
  "TeleporterMessengerMessageExecutedIterator_Error = iterator_Error"

definition TeleporterMessengerMessageExecutedIterator_Close ::
  "TeleporterMessengerMessageExecuted iterator \<Rightarrow> go_error option \<times>
      TeleporterMessengerMessageExecuted iterator" where
  "TeleporterMessengerMessageExecutedIterator_Close = iterator_Close"

definition TeleporterMessengerFilterer_FilterMessageExecuted ::
  "('s, 'o, 'tx) TeleporterMessengerFilterer \<Rightarrow> 'o \<Rightarrow> bytes32 list \<Rightarrow> int list \<Rightarrow> 's
    \<Rightarrow> go_error + TeleporterMessengerMessageExecuted iterator" where
  "TeleporterMessengerFilterer_FilterMessageExecuted c opts originBlockchainID messageID s =
     bindE (bc_FilterLogs (TeleporterMessengerFilterer_contract c) opts ''MessageExecuted'' [map
         GBytes32 originBlockchainID, map GBigInt messageID] s) (\<lambda>stream.
     Inr (new_iterator ''MessageExecuted'' stream))"

definition TeleporterMessengerFilterer_WatchMessageExecuted ::
  "('s, 'o, 'tx) TeleporterMessengerFilterer \<Rightarrow> 'o \<Rightarrow> bytes32 list \<Rightarrow> int list \<Rightarrow> 's
    \<Rightarrow> go_error + TeleporterMessengerMessageExecuted watcher" where
  "TeleporterMessengerFilterer_WatchMessageExecuted c opts originBlockchainID messageID s =
     bindE (bc_WatchLogs (TeleporterMessengerFilterer_contract c) opts ''MessageExecuted'' [map
         GBytes32 originBlockchainID, map GBigInt messageID] s) (\<lambda>stream.
     Inr (new_watcher (unpack_TeleporterMessengerMessageExecuted
         (TeleporterMessengerFilterer_contract c) ''MessageExecuted'') stream))"

definition TeleporterMessengerFilterer_ParseMessageExecuted ::
  "('s, 'o, 'tx) TeleporterMessengerFilterer \<Rightarrow> log \<Rightarrow> go_error +
      TeleporterMessengerMessageExecuted" where
  "TeleporterMessengerFilterer_ParseMessageExecuted c raw =
      unpack_TeleporterMessengerMessageExecuted (TeleporterMessengerFilterer_contract c)
      ''MessageExecuted'' raw"

text \<open>The event \<open>MessageExecutionFailed\<close>.\<close>

record TeleporterMessengerMessageExecutionFailed =
  TeleporterMessengerMessageExecutionFailed_OriginBlockchainID :: bytes32
  TeleporterMessengerMessageExecutionFailed_MessageID :: int
  TeleporterMessengerMessageExecutionFailed_Message :: Go_TeleporterMessage
  TeleporterMessengerMessageExecutionFailed_Raw :: log

definition filled_TeleporterMessengerMessageExecutionFailed :: "go_value \<Rightarrow> log \<Rightarrow>
    TeleporterMessengerMessageExecutionFailed" where
  "filled_TeleporterMessengerMessageExecutionFailed v raw =
     \<lparr>TeleporterMessengerMessageExecutionFailed_OriginBlockchainID = filled as_bytes32 TBytes32 v
         0,
       TeleporterMessengerMessageExecutionFailed_MessageID = filled as_bigint TBigInt v 1,
       TeleporterMessengerMessageExecutionFailed_Message = filled as_TeleporterMessage
           T_TeleporterMessage v 2,
       TeleporterMessengerMessageExecutionFailed_Raw = raw\<rparr>"

definition unpack_TeleporterMessengerMessageExecutionFailed ::
  "('s, 'o, 'tx) bound_contract \<Rightarrow> string \<Rightarrow> log \<Rightarrow> go_error +
      TeleporterMessengerMessageExecutionFailed" where
  "unpack_TeleporterMessengerMessageExecutionFailed c event raw =
     bindE (bc_UnpackLog c (TStruct ''TeleporterMessengerMessageExecutionFailed'' [TBytes32,
         TBigInt, T_TeleporterMessage]) event raw) (\<lambda>v.
     Inr (filled_TeleporterMessengerMessageExecutionFailed v raw))"

definition TeleporterMessengerMessageExecutionFailedIterator_Next ::
  "('s, 'o, 'tx) bound_contract \<Rightarrow> bool \<Rightarrow> TeleporterMessengerMessageExecutionFailed iterator \<Rightarrow>
      TeleporterMessengerMessageExecutionFailed next_result" where
  "TeleporterMessengerMessageExecutionFailedIterator_Next c = iterator_Next
      (unpack_TeleporterMessengerMessageExecutionFailed c)"

definition TeleporterMessengerMessageExecutionFailedIterator_Error ::
  "TeleporterMessengerMessageExecutionFailed iterator \<Rightarrow> go_error option" where
  "TeleporterMessengerMessageExecutionFailedIterator_Error = iterator_Error"

definition TeleporterMessengerMessageExecutionFailedIterator_Close ::
  "TeleporterMessengerMessageExecutionFailed iterator \<Rightarrow> go_error option \<times>
      TeleporterMessengerMessageExecutionFailed iterator" where
  "TeleporterMessengerMessageExecutionFailedIterator_Close = iterator_Close"

definition TeleporterMessengerFilterer_FilterMessageExecutionFailed ::
  "('s, 'o, 'tx) TeleporterMessengerFilterer \<Rightarrow> 'o \<Rightarrow> bytes32 list \<Rightarrow> int list \<Rightarrow> 's
    \<Rightarrow> go_error + TeleporterMessengerMessageExecutionFailed iterator" where
  "TeleporterMessengerFilterer_FilterMessageExecutionFailed c opts originBlockchainID messageID s
      =
     bindE (bc_FilterLogs (TeleporterMessengerFilterer_contract c) opts
         ''MessageExecutionFailed'' [map GBytes32 originBlockchainID, map GBigInt messageID] s)
         (\<lambda>stream.
     Inr (new_iterator ''MessageExecutionFailed'' stream))"

definition TeleporterMessengerFilterer_WatchMessageExecutionFailed ::
  "('s, 'o, 'tx) TeleporterMessengerFilterer \<Rightarrow> 'o \<Rightarrow> bytes32 list \<Rightarrow> int list \<Rightarrow> 's
    \<Rightarrow> go_error + TeleporterMessengerMessageExecutionFailed watcher" where
  "TeleporterMessengerFilterer_WatchMessageExecutionFailed c opts originBlockchainID messageID s =
     bindE (bc_WatchLogs (TeleporterMessengerFilterer_contract c) opts ''MessageExecutionFailed''
         [map GBytes32 originBlockchainID, map GBigInt messageID] s) (\<lambda>stream.
     Inr (new_watcher (unpack_TeleporterMessengerMessageExecutionFailed
         (TeleporterMessengerFilterer_contract c) ''MessageExecutionFailed'') stream))"

definition TeleporterMessengerFilterer_ParseMessageExecutionFailed ::
  "('s, 'o, 'tx) TeleporterMessengerFilterer \<Rightarrow> log \<Rightarrow> go_error +
      TeleporterMessengerMessageExecutionFailed" where
  "TeleporterMessengerFilterer_ParseMessageExecutionFailed c raw =
      unpack_TeleporterMessengerMessageExecutionFailed (TeleporterMessengerFilterer_contract c)
      ''MessageExecutionFailed'' raw"

text \<open>The event \<open>ReceiveCrossChainMessage\<close>.\<close>

record TeleporterMessengerReceiveCrossChainMessage =
  TeleporterMessengerReceiveCrossChainMessage_OriginBlockchainID :: bytes32
  TeleporterMessengerReceiveCrossChainMessage_MessageID :: int
  TeleporterMessengerReceiveCrossChainMessage_Deliverer :: address
  TeleporterMessengerReceiveCrossChainMessage_RewardRedeemer :: address
  TeleporterMessengerReceiveCrossChainMessage_Message :: Go_TeleporterMessage
  TeleporterMessengerReceiveCrossChainMessage_Raw :: log

definition filled_TeleporterMessengerReceiveCrossChainMessage :: "go_value \<Rightarrow> log \<Rightarrow>
    TeleporterMessengerReceiveCrossChainMessage" where
  "filled_TeleporterMessengerReceiveCrossChainMessage v raw =
     \<lparr>TeleporterMessengerReceiveCrossChainMessage_OriginBlockchainID = filled as_bytes32 TBytes32
         v 0,
       TeleporterMessengerReceiveCrossChainMessage_MessageID = filled as_bigint TBigInt v 1,
       TeleporterMessengerReceiveCrossChainMessage_Deliverer = filled as_address TAddress v 2,
       TeleporterMessengerReceiveCrossChainMessage_RewardRedeemer = filled as_address TAddress v
           3,
       TeleporterMessengerReceiveCrossChainMessage_Message = filled as_TeleporterMessage
           T_TeleporterMessage v 4,
       TeleporterMessengerReceiveCrossChainMessage_Raw = raw\<rparr>"

definition unpack_TeleporterMessengerReceiveCrossChainMessage ::
  "('s, 'o, 'tx) bound_contract \<Rightarrow> string \<Rightarrow> log \<Rightarrow> go_error +
      TeleporterMessengerReceiveCrossChainMessage" where
  "unpack_TeleporterMessengerReceiveCrossChainMessage c event raw =
     bindE (bc_UnpackLog c (TStruct ''TeleporterMessengerReceiveCrossChainMessage'' [TBytes32,
         TBigInt, TAddress, TAddress, T_TeleporterMessage]) event raw) (\<lambda>v.
     Inr (filled_TeleporterMessengerReceiveCrossChainMessage v raw))"

definition TeleporterMessengerReceiveCrossChainMessageIterator_Next ::
  "('s, 'o, 'tx) bound_contract \<Rightarrow> bool \<Rightarrow> TeleporterMessengerReceiveCrossChainMessage iterator \<Rightarrow>
      TeleporterMessengerReceiveCrossChainMessage next_result" where
  "TeleporterMessengerReceiveCrossChainMessageIterator_Next c = iterator_Next
      (unpack_TeleporterMessengerReceiveCrossChainMessage c)"

definition TeleporterMessengerReceiveCrossChainMessageIterator_Error ::
  "TeleporterMessengerReceiveCrossChainMessage iterator \<Rightarrow> go_error option" where
  "TeleporterMessengerReceiveCrossChainMessageIterator_Error = iterator_Error"

definition TeleporterMessengerReceiveCrossChainMessageIterator_Close ::
  "TeleporterMessengerReceiveCrossChainMessage iterator \<Rightarrow> go_error option \<times>
      TeleporterMessengerReceiveCrossChainMessage iterator" where
  "TeleporterMessengerReceiveCrossChainMessageIterator_Close = iterator_Close"

definition TeleporterMessengerFilterer_FilterReceiveCrossChainMessage ::
  "('s, 'o, 'tx) TeleporterMessengerFilterer \<Rightarrow> 'o \<Rightarrow> bytes32 list \<Rightarrow> int list \<Rightarrow> address list \<Rightarrow> 's
    \<Rightarrow> go_error + TeleporterMessengerReceiveCrossChainMessage iterator" where
  "TeleporterMessengerFilterer_FilterReceiveCrossChainMessage c opts originBlockchainID messageID
      deliverer s =
     bindE (bc_FilterLogs (TeleporterMessengerFilterer_contract c) opts
         ''ReceiveCrossChainMessage'' [map GBytes32 originBlockchainID, map GBigInt messageID,
         map GAddress deliverer] s) (\<lambda>stream.
     Inr (new_iterator ''ReceiveCrossChainMessage'' stream))"

definition TeleporterMessengerFilterer_WatchReceiveCrossChainMessage ::
  "('s, 'o, 'tx) TeleporterMessengerFilterer \<Rightarrow> 'o \<Rightarrow> bytes32 list \<Rightarrow> int list \<Rightarrow> address list \<Rightarrow> 's
    \<Rightarrow> go_error + TeleporterMessengerReceiveCrossChainMessage watcher" where
  "TeleporterMessengerFilterer_WatchReceiveCrossChainMessage c opts originBlockchainID messageID
      deliverer s =
     bindE (bc_WatchLogs (TeleporterMessengerFilterer_contract c) opts
         ''ReceiveCrossChainMessage'' [map GBytes32 originBlockchainID, map GBigInt messageID,
         map GAddress deliverer] s) (\<lambda>stream.
     Inr (new_watcher (unpack_TeleporterMessengerReceiveCrossChainMessage
         (TeleporterMessengerFilterer_contract c) ''ReceiveCrossChainMessage'') stream))"

definition TeleporterMessengerFilterer_ParseReceiveCrossChainMessage ::
  "('s, 'o, 'tx) TeleporterMessengerFilterer \<Rightarrow> log \<Rightarrow> go_error +
      TeleporterMessengerReceiveCrossChainMessage" where
  "TeleporterMessengerFilterer_ParseReceiveCrossChainMessage c raw =
      unpack_TeleporterMessengerReceiveCrossChainMessage (TeleporterMessengerFilterer_contract c)
      ''ReceiveCrossChainMessage'' raw"

text \<open>The event \<open>RelayerRewardsRedeemed\<close>.\<close>

record TeleporterMessengerRelayerRewardsRedeemed =
  TeleporterMessengerRelayerRewardsRedeemed_Redeemer :: address
  TeleporterMessengerRelayerRewardsRedeemed_Asset :: address
  TeleporterMessengerRelayerRewardsRedeemed_Amount :: int
  TeleporterMessengerRelayerRewardsRedeemed_Raw :: log

definition filled_TeleporterMessengerRelayerRewardsRedeemed :: "go_value \<Rightarrow> log \<Rightarrow>
    TeleporterMessengerRelayerRewardsRedeemed" where
  "filled_TeleporterMessengerRelayerRewardsRedeemed v raw =
     \<lparr>TeleporterMessengerRelayerRewardsRedeemed_Redeemer = filled as_address TAddress v 0,
       TeleporterMessengerRelayerRewardsRedeemed_Asset = filled as_address TAddress v 1,
       TeleporterMessengerRelayerRewardsRedeemed_Amount = filled as_bigint TBigInt v 2,
       TeleporterMessengerRelayerRewardsRedeemed_Raw = raw\<rparr>"

definition unpack_TeleporterMessengerRelayerRewardsRedeemed ::
  "('s, 'o, 'tx) bound_contract \<Rightarrow> string \<Rightarrow> log \<Rightarrow> go_error +
      TeleporterMessengerRelayerRewardsRedeemed" where
  "unpack_TeleporterMessengerRelayerRewardsRedeemed c event raw =
     bindE (bc_UnpackLog c (TStruct ''TeleporterMessengerRelayerRewardsRedeemed'' [TAddress,
         TAddress, TBigInt]) event raw) (\<lambda>v.
     Inr (filled_TeleporterMessengerRelayerRewardsRedeemed v raw))"

definition TeleporterMessengerRelayerRewardsRedeemedIterator_Next ::
  "('s, 'o, 'tx) bound_contract \<Rightarrow> bool \<Rightarrow> TeleporterMessengerRelayerRewardsRedeemed iterator \<Rightarrow>
      TeleporterMessengerRelayerRewardsRedeemed next_result" where
  "TeleporterMessengerRelayerRewardsRedeemedIterator_Next c = iterator_Next
      (unpack_TeleporterMessengerRelayerRewardsRedeemed c)"

definition TeleporterMessengerRelayerRewardsRedeemedIterator_Error ::
  "TeleporterMessengerRelayerRewardsRedeemed iterator \<Rightarrow> go_error option" where
  "TeleporterMessengerRelayerRewardsRedeemedIterator_Error = iterator_Error"

definition TeleporterMessengerRelayerRewardsRedeemedIterator_Close ::
  "TeleporterMessengerRelayerRewardsRedeemed iterator \<Rightarrow> go_error option \<times>
      TeleporterMessengerRelayerRewardsRedeemed iterator" where
  "TeleporterMessengerRelayerRewardsRedeemedIterator_Close = iterator_Close"

definition TeleporterMessengerFilterer_FilterRelayerRewardsRedeemed ::
  "('s, 'o, 'tx) TeleporterMessengerFilterer \<Rightarrow> 'o \<Rightarrow> address list \<Rightarrow> address list \<Rightarrow> 's
    \<Rightarrow> go_error + TeleporterMessengerRelayerRewardsRedeemed iterator" where
  "TeleporterMessengerFilterer_FilterRelayerRewardsRedeemed c opts redeemer asset s =
     bindE (bc_FilterLogs (TeleporterMessengerFilterer_contract c) opts
         ''RelayerRewardsRedeemed'' [map GAddress redeemer, map GAddress asset] s) (\<lambda>stream.
     Inr (new_iterator ''RelayerRewardsRedeemed'' stream))"

definition TeleporterMessengerFilterer_WatchRelayerRewardsRedeemed ::
  "('s, 'o, 'tx) TeleporterMessengerFilterer \<Rightarrow> 'o \<Rightarrow> address list \<Rightarrow> address list \<Rightarrow> 's
    \<Rightarrow> go_error + TeleporterMessengerRelayerRewardsRedeemed watcher" where
  "TeleporterMessengerFilterer_WatchRelayerRewardsRedeemed c opts redeemer asset s =
     bindE (bc_WatchLogs (TeleporterMessengerFilterer_contract c) opts ''RelayerRewardsRedeemed''
         [map GAddress redeemer, map GAddress asset] s) (\<lambda>stream.
     Inr (new_watcher (unpack_TeleporterMessengerRelayerRewardsRedeemed
         (TeleporterMessengerFilterer_contract c) ''RelayerRewardsRedeemed'') stream))"

definition TeleporterMessengerFilterer_ParseRelayerRewardsRedeemed ::
  "('s, 'o, 'tx) TeleporterMessengerFilterer \<Rightarrow> log \<Rightarrow> go_error +
      TeleporterMessengerRelayerRewardsRedeemed" where
  "TeleporterMessengerFilterer_ParseRelayerRewardsRedeemed c raw =
      unpack_TeleporterMessengerRelayerRewardsRedeemed (TeleporterMessengerFilterer_contract c)
      ''RelayerRewardsRedeemed'' raw"

text \<open>The event \<open>SendCrossChainMessage\<close>.\<close>

record TeleporterMessengerSendCrossChainMessage =
  TeleporterMessengerSendCrossChainMessage_DestinationBlockchainID :: bytes32
  TeleporterMessengerSendCrossChainMessage_MessageID :: int
  TeleporterMessengerSendCrossChainMessage_Message :: Go_TeleporterMessage
  TeleporterMessengerSendCrossChainMessage_FeeInfo :: Go_TeleporterFeeInfo
  TeleporterMessengerSendCrossChainMessage_Raw :: log

definition filled_TeleporterMessengerSendCrossChainMessage :: "go_value \<Rightarrow> log \<Rightarrow>
    TeleporterMessengerSendCrossChainMessage" where
  "filled_TeleporterMessengerSendCrossChainMessage v raw =
     \<lparr>TeleporterMessengerSendCrossChainMessage_DestinationBlockchainID = filled as_bytes32
         TBytes32 v 0,
       TeleporterMessengerSendCrossChainMessage_MessageID = filled as_bigint TBigInt v 1,
       TeleporterMessengerSendCrossChainMessage_Message = filled as_TeleporterMessage
           T_TeleporterMessage v 2,
       TeleporterMessengerSendCrossChainMessage_FeeInfo = filled as_TeleporterFeeInfo
           T_TeleporterFeeInfo v 3,
       TeleporterMessengerSendCrossChainMessage_Raw = raw\<rparr>"

definition unpack_TeleporterMessengerSendCrossChainMessage ::
  "('s, 'o, 'tx) bound_contract \<Rightarrow> string \<Rightarrow> log \<Rightarrow> go_error +
      TeleporterMessengerSendCrossChainMessage" where
  "unpack_TeleporterMessengerSendCrossChainMessage c event raw =
     bindE (bc_UnpackLog c (TStruct ''TeleporterMessengerSendCrossChainMessage'' [TBytes32,
         TBigInt, T_TeleporterMessage, T_TeleporterFeeInfo]) event raw) (\<lambda>v.
     Inr (filled_TeleporterMessengerSendCrossChainMessage v raw))"

definition TeleporterMessengerSendCrossChainMessageIterator_Next ::
  "('s, 'o, 'tx) bound_contract \<Rightarrow> bool \<Rightarrow> TeleporterMessengerSendCrossChainMessage iterator \<Rightarrow>
      TeleporterMessengerSendCrossChainMessage next_result" where
  "TeleporterMessengerSendCrossChainMessageIterator_Next c = iterator_Next
      (unpack_TeleporterMessengerSendCrossChainMessage c)"

definition TeleporterMessengerSendCrossChainMessageIterator_Error ::
  "TeleporterMessengerSendCrossChainMessage iterator \<Rightarrow> go_error option" where
  "TeleporterMessengerSendCrossChainMessageIterator_Error = iterator_Error"

definition TeleporterMessengerSendCrossChainMessageIterator_Close ::
  "TeleporterMessengerSendCrossChainMessage iterator \<Rightarrow> go_error option \<times>
      TeleporterMessengerSendCrossChainMessage iterator" where
  "TeleporterMessengerSendCrossChainMessageIterator_Close = iterator_Close"

definition TeleporterMessengerFilterer_FilterSendCrossChainMessage ::
  "('s, 'o, 'tx) TeleporterMessengerFilterer \<Rightarrow> 'o \<Rightarrow> bytes32 list \<Rightarrow> int list \<Rightarrow> 's
    \<Rightarrow> go_error + TeleporterMessengerSendCrossChainMessage iterator" where
  "TeleporterMessengerFilterer_FilterSendCrossChainMessage c opts destinationBlockchainID
      messageID s =
     bindE (bc_FilterLogs (TeleporterMessengerFilterer_contract c) opts ''SendCrossChainMessage''
         [map GBytes32 destinationBlockchainID, map GBigInt messageID] s) (\<lambda>stream.
     Inr (new_iterator ''SendCrossChainMessage'' stream))"

definition TeleporterMessengerFilterer_WatchSendCrossChainMessage ::
  "('s, 'o, 'tx) TeleporterMessengerFilterer \<Rightarrow> 'o \<Rightarrow> bytes32 list \<Rightarrow> int list \<Rightarrow> 's
    \<Rightarrow> go_error + TeleporterMessengerSendCrossChainMessage watcher" where
  "TeleporterMessengerFilterer_WatchSendCrossChainMessage c opts destinationBlockchainID
      messageID s =
     bindE (bc_WatchLogs (TeleporterMessengerFilterer_contract c) opts ''SendCrossChainMessage''
         [map GBytes32 destinationBlockchainID, map GBigInt messageID] s) (\<lambda>stream.
     Inr (new_watcher (unpack_TeleporterMessengerSendCrossChainMessage
         (TeleporterMessengerFilterer_contract c) ''SendCrossChainMessage'') stream))"

definition TeleporterMessengerFilterer_ParseSendCrossChainMessage ::
  "('s, 'o, 'tx) TeleporterMessengerFilterer \<Rightarrow> log \<Rightarrow> go_error +
      TeleporterMessengerSendCrossChainMessage" where
  "TeleporterMessengerFilterer_ParseSendCrossChainMessage c raw =
      unpack_TeleporterMessengerSendCrossChainMessage (TeleporterMessengerFilterer_contract c)
      ''SendCrossChainMessage'' raw"

end
