(* ===== verification/Bind_Messenger_Link.thy ===== *)
theory Bind_Messenger_Link
  imports Go_Typing Bind_TeleporterMessenger Messenger_Example
begin

section \<open>The Go binding over the modelled contract\<close>

text \<open>
  \<open>messenger_contract\<close> is a bound contract whose calls and transactions are answered by the
  model of TeleporterMessenger.sol: the ABI's method names dispatch to its functions, with the
  conversions that the ABI codec makes between Go's and Solidity's values (an integer is encoded
  modulo \<open>2^256\<close>). The option argument is the sender. It provides the interface
  \<open>abi_contract\<close>, and over it the generated methods compute what the contract computes.
\<close>

subsection \<open>Conversions\<close>

definition sol_feeInfo :: "Go_TeleporterFeeInfo \<Rightarrow> TeleporterFeeInfo" where
  "sol_feeInfo x = \<lparr>feeTokenAddress = Go_TeleporterFeeInfo_FeeTokenAddress x,
     feeAmount = word_of_int (Go_TeleporterFeeInfo_Amount x)\<rparr>"

definition go_feeInfo :: "TeleporterFeeInfo \<Rightarrow> Go_TeleporterFeeInfo" where
  "go_feeInfo f = \<lparr>Go_TeleporterFeeInfo_FeeTokenAddress = feeTokenAddress f,
     Go_TeleporterFeeInfo_Amount = uint (feeAmount f)\<rparr>"

definition sol_receipt :: "Go_TeleporterMessageReceipt \<Rightarrow> TeleporterMessageReceipt" where
  "sol_receipt x =
     \<lparr>receivedMessageID = word_of_int (Go_TeleporterMessageReceipt_ReceivedMessageID x),
      relayerRewardAddress = Go_TeleporterMessageReceipt_RelayerRewardAddress x\<rparr>"

definition go_receipt :: "TeleporterMessageReceipt \<Rightarrow> Go_TeleporterMessageReceipt" where
  "go_receipt r =
     \<lparr>Go_TeleporterMessageReceipt_ReceivedMessageID = uint (receivedMessageID r),
      Go_TeleporterMessageReceipt_RelayerRewardAddress = relayerRewardAddress r\<rparr>"

definition sol_message :: "Go_TeleporterMessage \<Rightarrow> TeleporterMessage" where
  "sol_message x =
     \<lparr>messageID = word_of_int (Go_TeleporterMessage_MessageID x),
      senderAddress = Go_TeleporterMessage_SenderAddress x,
      destinationBlockchainID = Go_TeleporterMessage_DestinationBlockchainID x,
      destinationAddress = Go_TeleporterMessage_DestinationAddress x,
      requiredGasLimit = word_of_int (Go_TeleporterMessage_RequiredGasLimit x),
      allowedRelayerAddresses = Go_TeleporterMessage_AllowedRelayerAddresses x,
      receipts = map sol_receipt (Go_TeleporterMessage_Receipts x),
      messageBytes = Go_TeleporterMessage_Message x\<rparr>"

definition sol_input :: "Go_TeleporterMessageInput \<Rightarrow> TeleporterMessageInput" where
  "sol_input x =
     \<lparr>in_destinationBlockchainID = Go_TeleporterMessageInput_DestinationBlockchainID x,
      in_destinationAddress = Go_TeleporterMessageInput_DestinationAddress x,
      in_feeInfo = sol_feeInfo (Go_TeleporterMessageInput_FeeInfo x),
      in_requiredGasLimit = word_of_int (Go_TeleporterMessageInput_RequiredGasLimit x),
      in_allowedRelayerAddresses = Go_TeleporterMessageInput_AllowedRelayerAddresses x,
      in_message = Go_TeleporterMessageInput_Message x\<rparr>"

text \<open>A revert of the contract reaches Go as an error.\<close>

definition sol_result :: "sol_error + 'a \<Rightarrow> go_error + 'a" where
  "sol_result r = (case r of Inl e \<Rightarrow> Inl (GoError ''execution reverted'') | Inr x \<Rightarrow> Inr x)"

definition arg_as :: "go_value list \<Rightarrow> nat \<Rightarrow> (go_value \<Rightarrow> go_error + 'a) \<Rightarrow> go_error + 'a" where
  "arg_as args i as = bindE (go_index args i) as"

subsection \<open>The contract behind the ABI\<close>

definition messenger_tx :: "string \<Rightarrow> go_value list \<Rightarrow> go_error + messenger_op" where
  "messenger_tx name args =
     (if name = ''sendCrossChainMessage'' then
        bindE (arg_as args 0 (\<lambda>v. as_TeleporterMessageInput (retag v T_TeleporterMessageInput)))
          (\<lambda>inp. Inr (SendMessage (sol_input inp)))
      else if name = ''retrySendCrossChainMessage'' then
        bindE (arg_as args 0 as_bytes32) (\<lambda>chain.
        bindE (arg_as args 1 (\<lambda>v. as_TeleporterMessage (retag v T_TeleporterMessage))) (\<lambda>msg.
        Inr (RetrySend chain (sol_message msg))))
      else if name = ''addFeeAmount'' then
        bindE (arg_as args 0 as_bytes32) (\<lambda>chain.
        bindE (arg_as args 1 as_bigint) (\<lambda>mid.
        bindE (arg_as args 2 as_address) (\<lambda>token.
        bindE (arg_as args 3 as_bigint) (\<lambda>amt.
        Inr (AddFee chain (word_of_int mid) token (word_of_int amt))))))
      else if name = ''sendSpecifiedReceipts'' then
        bindE (arg_as args 0 as_bytes32) (\<lambda>origin.
        bindE (arg_as args 1 (as_slice as_bigint)) (\<lambda>mids.
        bindE (arg_as args 2 (\<lambda>v. as_TeleporterFeeInfo (retag v T_TeleporterFeeInfo))) (\<lambda>fee.
        bindE (arg_as args 3 (as_slice as_address)) (\<lambda>allowed.
        Inr (SendReceipts origin (map word_of_int mids) (sol_feeInfo fee) allowed)))))
      else if name = ''receiveCrossChainMessage'' then
        bindE (arg_as args 0 as_uint32) (\<lambda>idx.
        bindE (arg_as args 1 as_address) (\<lambda>ra.
        Inr (Receive idx ra)))
      else if name = ''retryMessageExecution'' then
        bindE (arg_as args 0 as_bytes32) (\<lambda>origin.
        bindE (arg_as args 1 (\<lambda>v. as_TeleporterMessage (retag v T_TeleporterMessage))) (\<lambda>msg.
        Inr (RetryExecution origin (sol_message msg))))
      else if name = ''redeemRelayerRewards'' then
        bindE (arg_as args 0 as_address) (\<lambda>token. Inr (Redeem token))
      else Inl (GoError ''method not found''))"

text \<open>What a simulated transaction returns.\<close>

fun op_outputs :: "'x env \<Rightarrow> messenger_op \<Rightarrow> 'x world \<Rightarrow> go_error + go_value list" where
  "op_outputs E (SendMessage inp) w =
     bindE (sol_result (sendCrossChainMessage E inp w)) (\<lambda>(mid, w'). Inr [GBigInt (uint mid)])"
| "op_outputs E (SendReceipts origin mids fee allowed) w =
     bindE (sol_result (sendSpecifiedReceipts E origin mids fee allowed w)) (\<lambda>(mid, w').
     Inr [GBigInt (uint mid)])"
| "op_outputs E op w = bindE (sol_result (run_op E op w)) (\<lambda>w'. Inr [])"

definition WARP_MESSENGER :: address where
  "WARP_MESSENGER = 0x0200000000000000000000000000000000000005"

definition messenger_call ::
  "'x env \<Rightarrow> string \<Rightarrow> go_value list \<Rightarrow> 'x world \<Rightarrow> go_error + go_value list" where
  "messenger_call E name args w =
     (if name = ''WARP_MESSENGER'' then Inr [GAddress WARP_MESSENGER]
      else if name = ''blockchainID'' then Inr [GBytes32 (blockchainID w)]
      else if name = ''checkRelayerRewardAmount'' then
        bindE (arg_as args 0 as_address) (\<lambda>relayer.
        bindE (arg_as args 1 as_address) (\<lambda>asset.
        Inr [GBigInt (uint (checkRelayerRewardAmount relayer asset w))]))
      else if name = ''getFeeInfo'' then
        bindE (arg_as args 0 as_bytes32) (\<lambda>chain.
        bindE (arg_as args 1 as_bigint) (\<lambda>mid.
        Inr [GAddress (fst (getFeeInfo chain (word_of_int mid) w)),
             GBigInt (uint (snd (getFeeInfo chain (word_of_int mid) w)))]))
      else if name = ''getMessageHash'' then
        bindE (arg_as args 0 as_bytes32) (\<lambda>chain.
        bindE (arg_as args 1 as_bigint) (\<lambda>mid.
        Inr [GBytes32 (getMessageHash chain (word_of_int mid) w)]))
      else if name = ''getNextMessageID'' then
        bindE (arg_as args 0 as_bytes32) (\<lambda>chain.
        bindE (sol_result (getNextMessageID chain w)) (\<lambda>mid. Inr [GBigInt (uint mid)]))
      else if name = ''getReceiptAtIndex'' then
        bindE (arg_as args 0 as_bytes32) (\<lambda>chain.
        bindE (arg_as args 1 as_bigint) (\<lambda>i.
        bindE (sol_result (getReceiptAtIndex chain (word_of_int i) w)) (\<lambda>r.
        Inr [strip (of_TeleporterMessageReceipt (go_receipt r))])))
      else if name = ''getReceiptQueueSize'' then
        bindE (arg_as args 0 as_bytes32) (\<lambda>chain.
        bindE (sol_result (getReceiptQueueSize chain w)) (\<lambda>n. Inr [GBigInt (uint n)]))
      else if name = ''getRelayerRewardAddress'' then
        bindE (arg_as args 0 as_bytes32) (\<lambda>chain.
        bindE (arg_as args 1 as_bigint) (\<lambda>mid.
        Inr [GAddress (getRelayerRewardAddress chain (word_of_int mid) w)]))
      else if name = ''latestMessageIDs'' then
        bindE (arg_as args 0 as_bytes32) (\<lambda>chain.
        Inr [GBigInt (uint (latestMessageIDs w chain))])
      else if name = ''messageReceived'' then
        bindE (arg_as args 0 as_bytes32) (\<lambda>chain.
        bindE (arg_as args 1 as_bigint) (\<lambda>mid.
        Inr [GBool (messageReceived chain (word_of_int mid) w)]))
      else if name = ''receiptQueues'' then
        bindE (arg_as args 0 as_bytes32) (\<lambda>chain.
        Inr [GBigInt (uint (q_first (receiptQueues w chain))),
             GBigInt (uint (q_last (receiptQueues w chain)))])
      else if name = ''receivedFailedMessageHashes'' then
        bindE (arg_as args 0 as_bytes32) (\<lambda>chain.
        bindE (arg_as args 1 as_bigint) (\<lambda>mid.
        Inr [GBytes32 (receivedFailedMessageHashes w chain (word_of_int mid))]))
      else if name = ''sentMessageInfo'' then
        bindE (arg_as args 0 as_bytes32) (\<lambda>chain.
        bindE (arg_as args 1 as_bigint) (\<lambda>mid.
        Inr [GBytes32 (messageHash (sentMessageInfo w chain (word_of_int mid))),
             strip (of_TeleporterFeeInfo
               (go_feeInfo (feeInfo (sentMessageInfo w chain (word_of_int mid)))))]))
      else bindE (messenger_tx name args) (\<lambda>op. op_outputs E op w))"

definition messenger_contract ::
  "'x env \<Rightarrow> (go_type \<Rightarrow> string \<Rightarrow> log \<Rightarrow> go_error + go_value)
    \<Rightarrow> (string \<Rightarrow> go_value list list \<Rightarrow> 'x world \<Rightarrow> go_error + log_stream)
    \<Rightarrow> ('x world, address, messenger_op) bound_contract" where
  "messenger_contract E unpackLog findLogs =
     \<lparr>bc_Call = (\<lambda>from. messenger_call (E\<lparr>msg_sender := from\<rparr>)),
      bc_Transact = (\<lambda>from name args w.
        bindE (messenger_tx name args) (\<lambda>op.
        bindE (sol_result (run_op (E\<lparr>msg_sender := from\<rparr>) op w)) (\<lambda>w'. Inr (op, w')))),
      bc_RawTransact = (\<lambda>from bs w. Inl (GoError ''execution reverted'')),
      bc_Transfer = (\<lambda>from w. Inl (GoError ''execution reverted'')),
      bc_FilterLogs = (\<lambda>from. findLogs), bc_WatchLogs = (\<lambda>from. findLogs),
      bc_UnpackLog = unpackLog, bc_ConvertType = (\<lambda>v T. Inr (retag v T))\<rparr>"

subsection \<open>Struct values\<close>

lemmas struct_defs = T_TeleporterFeeInfo_def T_TeleporterMessageReceipt_def
  T_TeleporterMessage_def T_TeleporterMessageInput_def

lemmas as_defs = as_TeleporterFeeInfo_def as_TeleporterMessageReceipt_def
  as_TeleporterMessage_def as_TeleporterMessageInput_def

lemmas of_defs = of_TeleporterFeeInfo_def of_TeleporterMessageReceipt_def
  of_TeleporterMessage_def of_TeleporterMessageInput_def

lemma as_of [simp]:
  "as_TeleporterFeeInfo (of_TeleporterFeeInfo f) = Inr f"
  "as_TeleporterMessageReceipt (of_TeleporterMessageReceipt r) = Inr r"
  by (simp_all add: as_defs of_defs go_index_def)

lemma as_of_message [simp]: "as_TeleporterMessage (of_TeleporterMessage m) = Inr m"
  by (simp add: as_defs(3) of_defs(3) go_index_def mapE_map)

lemma as_of_input [simp]: "as_TeleporterMessageInput (of_TeleporterMessageInput m) = Inr m"
  by (simp add: as_defs(4) of_defs(4) go_index_def mapE_map)

lemma as_typed:
  "has_type v T_TeleporterFeeInfo \<Longrightarrow> \<exists>x. as_TeleporterFeeInfo v = Inr x"
  "has_type v T_TeleporterMessageReceipt \<Longrightarrow> \<exists>x. as_TeleporterMessageReceipt v = Inr x"
  by (auto simp: T_TeleporterFeeInfo_def T_TeleporterMessageReceipt_def has_type_struct
      list_all2_Cons2 as_TeleporterFeeInfo_def as_TeleporterMessageReceipt_def go_index_def
      simp del: bindE_Inr_conv)

lemma mapE_as_receipts [simp]:
  "\<forall>u \<in> set vs. has_type u T_TeleporterMessageReceipt \<Longrightarrow>
    \<exists>xs. mapE as_TeleporterMessageReceipt vs = Inr xs"
  by (rule mapE_Inr) (auto intro: as_typed)

lemma as_typed_message: "has_type v T_TeleporterMessage \<Longrightarrow> \<exists>x. as_TeleporterMessage v = Inr x"
  by (auto simp: T_TeleporterMessage_def has_type_struct list_all2_Cons2
      as_TeleporterMessage_def go_index_def simp del: bindE_Inr_conv
      dest!: mapE_as_atoms mapE_as_receipts)

lemma as_typed_input:
  "has_type v T_TeleporterMessageInput \<Longrightarrow> \<exists>x. as_TeleporterMessageInput v = Inr x"
  by (auto simp: T_TeleporterMessageInput_def has_type_struct list_all2_Cons2
      as_TeleporterMessageInput_def go_index_def simp del: bindE_Inr_conv
      dest!: mapE_as_atoms as_typed(1))

text \<open>The structs have the types that the ABI gives them.\<close>

lemma of_typed [simp]:
  "has_type (strip (of_TeleporterFeeInfo f)) (TStruct [] [TAddress, TBigInt])"
  "has_type (strip (of_TeleporterMessageReceipt r)) (TStruct [] [TBigInt, TAddress])"
  "has_type (strip (of_TeleporterMessage m)) (TStruct [] [TBigInt, TAddress, TBytes32, TAddress,
     TBigInt, TSlice TAddress, TSlice (TStruct [] [TBigInt, TAddress]), TBytes])"
  "has_type (strip (of_TeleporterMessageInput i)) (TStruct [] [TBytes32, TAddress,
     TStruct [] [TAddress, TBigInt], TBigInt, TSlice TAddress, TBytes])"
  by (auto simp: of_defs has_type_struct)

lemma shapes [simp]:
  "abi_shape T_TeleporterFeeInfo = TStruct [] [TAddress, TBigInt]"
  "abi_shape T_TeleporterMessageReceipt = TStruct [] [TBigInt, TAddress]"
  "abi_shape T_TeleporterMessage = TStruct [] [TBigInt, TAddress, TBytes32, TAddress,
     TBigInt, TSlice TAddress, TSlice (TStruct [] [TBigInt, TAddress]), TBytes]"
  "abi_shape T_TeleporterMessageInput = TStruct [] [TBytes32, TAddress,
     TStruct [] [TAddress, TBigInt], TBigInt, TSlice TAddress, TBytes]"
  by (simp_all add: struct_defs)

lemma retag_atoms [simp]:
  "retag_all (map GAddress as) T = map GAddress as"
  "retag_all (map GBigInt is) T = map GBigInt is"
  by (induction as, simp_all, induction "is", simp_all)

lemma retag_of [simp]:
  "retag (of_TeleporterFeeInfo f) T_TeleporterFeeInfo = of_TeleporterFeeInfo f"
  "retag (of_TeleporterMessageReceipt r) T_TeleporterMessageReceipt = of_TeleporterMessageReceipt r"
  "retag (strip (of_TeleporterFeeInfo f)) T_TeleporterFeeInfo = of_TeleporterFeeInfo f"
  "retag (strip (of_TeleporterMessageReceipt r)) T_TeleporterMessageReceipt
     = of_TeleporterMessageReceipt r"
  by (simp_all add: of_defs struct_defs)

lemma retag_receipts [simp]:
  "retag_all (map of_TeleporterMessageReceipt rs) T_TeleporterMessageReceipt
     = map of_TeleporterMessageReceipt rs"
  by (induction rs) simp_all

lemma retag_of_structs [simp]:
  "retag (of_TeleporterMessage m) T_TeleporterMessage = of_TeleporterMessage m"
  "retag (of_TeleporterMessageInput i) T_TeleporterMessageInput = of_TeleporterMessageInput i"
  by (simp_all add: of_defs(3,4) T_TeleporterMessage_def T_TeleporterMessageInput_def)

subsection \<open>The contract behind the ABI follows the ABI\<close>

lemma arg_as_simps [simp]:
  "arg_as (v # vs) 0 as = as v"
  "arg_as (u # v # vs) 1 as = as v"
  "arg_as (u # v # vs) (Suc 0) as = as v"
  "arg_as (u # v # w # vs) 2 as = as w"
  "arg_as (u # v # w # x # vs) 3 as = as x"
  by (simp_all add: arg_as_def go_index_def)

lemma sol_result_no_panic [simp]: "\<not> panics (sol_result r)"
  by (cases r) (simp_all add: sol_result_def)

fun op_out_types :: "messenger_op \<Rightarrow> go_type list" where
  "op_out_types (SendMessage inp) = [TBigInt]"
| "op_out_types (SendReceipts origin mids fee allowed) = [TBigInt]"
| "op_out_types op = []"

lemma op_outputs_typed:
  "\<not> panics (op_outputs E op w) \<and>
    (\<forall>out. op_outputs E op w = Inr out \<longrightarrow> have_types out (op_out_types op))"
  by (cases op) (auto simp: panics_bindE)

lemma retag_typed:
  "has_type (strip v) (abi_shape T_TeleporterFeeInfo) \<Longrightarrow>
    \<exists>x. as_TeleporterFeeInfo (retag v T_TeleporterFeeInfo) = Inr x"
  "has_type (strip v) (abi_shape T_TeleporterMessage) \<Longrightarrow>
    \<exists>x. as_TeleporterMessage (retag v T_TeleporterMessage) = Inr x"
  "has_type (strip v) (abi_shape T_TeleporterMessageInput) \<Longrightarrow>
    \<exists>x. as_TeleporterMessageInput (retag v T_TeleporterMessageInput) = Inr x"
  by (auto intro!: as_typed as_typed_message as_typed_input has_type_retag(1) simp del: shapes)

lemma strip_slice_typed:
  "strip v = GSlice vs \<Longrightarrow> \<forall>u \<in> set vs. \<exists>i. u = GBigInt i \<Longrightarrow> \<exists>xs. as_slice as_bigint v = Inr xs"
  "strip v = GSlice vs \<Longrightarrow> \<forall>u \<in> set vs. \<exists>a. u = GAddress a \<Longrightarrow> \<exists>xs. as_slice as_address v = Inr xs"
  by (cases v; force intro!: mapE_Inr)+

lemma messenger_tx_typed:
  "have_types (map strip args) [abi_shape T_TeleporterMessageInput] \<Longrightarrow>
    \<exists>inp. messenger_tx ''sendCrossChainMessage'' args = Inr (SendMessage inp)"
  "have_types (map strip args) [TBytes32, abi_shape T_TeleporterMessage] \<Longrightarrow>
    (\<exists>chain msg. messenger_tx ''retrySendCrossChainMessage'' args = Inr (RetrySend chain msg)) \<and>
    (\<exists>origin msg. messenger_tx ''retryMessageExecution'' args = Inr (RetryExecution origin msg))"
  "have_types (map strip args) [TBytes32, TBigInt, TAddress, TBigInt] \<Longrightarrow>
    \<exists>chain mid token amt. messenger_tx ''addFeeAmount'' args = Inr (AddFee chain mid token amt)"
  "have_types (map strip args) [TBytes32, TSlice TBigInt, abi_shape T_TeleporterFeeInfo,
      TSlice TAddress] \<Longrightarrow>
    \<exists>origin mids fee as. messenger_tx ''sendSpecifiedReceipts'' args
      = Inr (SendReceipts origin mids fee as)"
  "have_types (map strip args) [TUint32, TAddress] \<Longrightarrow>
    \<exists>i ra. messenger_tx ''receiveCrossChainMessage'' args = Inr (Receive i ra)"
  "have_types (map strip args) [TAddress] \<Longrightarrow>
    \<exists>token. messenger_tx ''redeemRelayerRewards'' args = Inr (Redeem token)"
  subgoal
    by (clarsimp simp: map_eq_Cons_conv messenger_tx_def simp del: shapes bindE_Inr_conv)
      (drule retag_typed, clarsimp)
  subgoal
    by (clarsimp simp: map_eq_Cons_conv messenger_tx_def simp del: shapes bindE_Inr_conv)
      (drule retag_typed, clarsimp)
  subgoal
    by (clarsimp simp: map_eq_Cons_conv messenger_tx_def simp del: shapes bindE_Inr_conv)
  subgoal
    by (clarsimp simp: map_eq_Cons_conv messenger_tx_def simp del: shapes bindE_Inr_conv)
      (drule (1) strip_slice_typed, drule (1) strip_slice_typed, drule retag_typed, clarsimp)
  subgoal
    by (clarsimp simp: map_eq_Cons_conv messenger_tx_def simp del: shapes bindE_Inr_conv)
  subgoal
    by (clarsimp simp: map_eq_Cons_conv messenger_tx_def simp del: shapes bindE_Inr_conv)
  done

lemma messenger_run_typed:
  assumes "messenger_tx name args = Inr op" and "op_out_types op = outs"
  shows "\<not> panics (bindE (messenger_tx name args) (\<lambda>op. op_outputs E op w)) \<and>
    (\<forall>out. bindE (messenger_tx name args) (\<lambda>op. op_outputs E op w) = Inr out \<longrightarrow>
      have_types out outs)"
  using op_outputs_typed [of E op w] assms by simp

lemma messenger_call_typed:
  assumes "map_of (meta_methods TeleporterMessengerMetaData) name = Some (ins, outs)"
    and "have_types (map strip args) ins"
  shows "\<not> panics (messenger_call E name args w) \<and>
    (\<forall>out. messenger_call E name args w = Inr out \<longrightarrow> have_types out outs)"
  using map_of_SomeD [OF assms(1)] assms(2)
  unfolding TeleporterMessengerMetaData_def abi_meta.select_convs list.set insert_iff
    prod.inject empty_iff
  by (elim disjE conjE)
    (simp_all only: ,
     auto simp: messenger_call_def map_eq_Cons_conv panics_bindE strip.simps
       dest!: messenger_tx_typed [simplified] intro!: messenger_run_typed)

lemma messenger_tx_no_panic:
  assumes "map_of (meta_methods TeleporterMessengerMetaData) name = Some (ins, outs)"
    and "have_types (map strip args) ins"
  shows "\<not> panics (messenger_tx name args)"
  using map_of_SomeD [OF assms(1)] assms(2)
  unfolding TeleporterMessengerMetaData_def abi_meta.select_convs list.set insert_iff
    prod.inject empty_iff
  by (elim disjE conjE)
    (simp_all only: ,
     auto simp: map_eq_Cons_conv strip.simps messenger_tx_def
       dest!: messenger_tx_typed [simplified, unfolded messenger_tx_def, simplified])

interpretation messenger_abi:
  abi_contract TeleporterMessengerMetaData "messenger_contract E unpackLog findLogs"
  for E unpackLog findLogs
proof unfold_locales
  fix name ins outs args opts s
  assume "map_of (meta_methods TeleporterMessengerMetaData) name = Some (ins, outs)"
    and "have_types (map strip args) ins"
  then show "\<not> panics (bc_Call (messenger_contract E unpackLog findLogs) opts name args s) \<and>
      (\<forall>out. bc_Call (messenger_contract E unpackLog findLogs) opts name args s = Inr out \<longrightarrow>
        have_types out outs)"
    using messenger_call_typed by (simp add: messenger_contract_def)
next
  fix name ins outs args opts s
  assume "map_of (meta_methods TeleporterMessengerMetaData) name = Some (ins, outs)"
    and "have_types (map strip args) ins"
  then show "\<not> panics (bc_Transact (messenger_contract E unpackLog findLogs) opts name args s)"
    using messenger_tx_no_panic by (simp add: messenger_contract_def panics_bindE)
qed (simp add: messenger_contract_def)

end
