(* ===== verification/Bind_Correctness.thy ===== *)
theory Bind_Correctness
  imports Bind_Messenger_Link
begin

section \<open>What the Go binding of the messenger guarantees\<close>

subsection \<open>Calls and transactions\<close>

lemmas caller_defs = TeleporterMessengerCaller_WARPMESSENGER_def
  TeleporterMessengerCaller_BlockchainID_def TeleporterMessengerCaller_CheckRelayerRewardAmount_def
  TeleporterMessengerCaller_GetFeeInfo_def TeleporterMessengerCaller_GetMessageHash_def
  TeleporterMessengerCaller_GetNextMessageID_def TeleporterMessengerCaller_GetReceiptAtIndex_def
  TeleporterMessengerCaller_GetReceiptQueueSize_def
  TeleporterMessengerCaller_GetRelayerRewardAddress_def
  TeleporterMessengerCaller_LatestMessageIDs_def TeleporterMessengerCaller_MessageReceived_def
  TeleporterMessengerCaller_ReceiptQueues_def
  TeleporterMessengerCaller_ReceivedFailedMessageHashes_def
  TeleporterMessengerCaller_SentMessageInfo_def

lemmas transactor_defs = TeleporterMessengerTransactor_AddFeeAmount_def
  TeleporterMessengerTransactor_ReceiveCrossChainMessage_def
  TeleporterMessengerTransactor_RedeemRelayerRewards_def
  TeleporterMessengerTransactor_RetryMessageExecution_def
  TeleporterMessengerTransactor_RetrySendCrossChainMessage_def
  TeleporterMessengerTransactor_SendCrossChainMessage_def
  TeleporterMessengerTransactor_SendSpecifiedReceipts_def

lemma mapE_bigints: "mapE as_bigint (map (\<lambda>x. GBigInt (f x)) xs) = Inr (map f xs)"
  by (induction xs) simp_all

text \<open>
  Every read-only method of the binding uses the method's ABI name, passes arguments of the
  ABI's input types and reads outputs of the ABI's output types: over any contract that follows
  the ABI it returns a value or an error and never panics.
\<close>

theorem binding_calls_never_panic:
  assumes "abi_contract TeleporterMessengerMetaData c"
    and "k = \<lparr>TeleporterMessengerCaller_contract = c\<rparr>"
  shows "\<not> panics (TeleporterMessengerCaller_WARPMESSENGER k opts s) \<and>
    \<not> panics (TeleporterMessengerCaller_BlockchainID k opts s) \<and>
    \<not> panics (TeleporterMessengerCaller_CheckRelayerRewardAmount k opts relayer asset s) \<and>
    \<not> panics (TeleporterMessengerCaller_GetFeeInfo k opts chain mid s) \<and>
    \<not> panics (TeleporterMessengerCaller_GetMessageHash k opts chain mid s) \<and>
    \<not> panics (TeleporterMessengerCaller_GetNextMessageID k opts chain s) \<and>
    \<not> panics (TeleporterMessengerCaller_GetReceiptAtIndex k opts chain i s) \<and>
    \<not> panics (TeleporterMessengerCaller_GetReceiptQueueSize k opts chain s) \<and>
    \<not> panics (TeleporterMessengerCaller_GetRelayerRewardAddress k opts chain mid s) \<and>
    \<not> panics (TeleporterMessengerCaller_LatestMessageIDs k opts chain s) \<and>
    \<not> panics (TeleporterMessengerCaller_MessageReceived k opts chain mid s) \<and>
    \<not> panics (TeleporterMessengerCaller_ReceiptQueues k opts chain s) \<and>
    \<not> panics (TeleporterMessengerCaller_ReceivedFailedMessageHashes k opts chain mid s) \<and>
    \<not> panics (TeleporterMessengerCaller_SentMessageInfo k opts chain mid s)"
proof -
  note one = abi_contract.call1_ok [OF assms(1)]
  note two = abi_contract.call2_ok [OF assms(1)]
  show ?thesis
    unfolding caller_defs assms(2) TeleporterMessengerCaller.select_convs
    by (intro conjI one two)
      (simp_all add: follows_abi_def TeleporterMessengerMetaData_def as_typed)
qed

theorem binding_calls_never_panic_witness:
  "\<not> panics (TeleporterMessengerCaller_GetReceiptAtIndex
     \<lparr>TeleporterMessengerCaller_contract =
        messenger_contract demo_env (\<lambda>T e l. Inl (GoError [])) (\<lambda>e r w. Inl (GoError []))\<rparr>
     0 7 0 demo_received)"
  using binding_calls_never_panic [OF messenger_abi.abi_contract_axioms refl] by blast

text \<open>
  Every transaction method of the binding likewise calls the ABI method of its name with
  arguments of the ABI's types, and never panics.
\<close>

theorem binding_transactions_never_panic:
  assumes "abi_contract TeleporterMessengerMetaData c"
    and "k = \<lparr>TeleporterMessengerTransactor_contract = c\<rparr>"
  shows "\<not> panics (TeleporterMessengerTransactor_AddFeeAmount k opts chain mid token amt s) \<and>
    \<not> panics (TeleporterMessengerTransactor_ReceiveCrossChainMessage k opts idx ra s) \<and>
    \<not> panics (TeleporterMessengerTransactor_RedeemRelayerRewards k opts token s) \<and>
    \<not> panics (TeleporterMessengerTransactor_RetryMessageExecution k opts chain msg s) \<and>
    \<not> panics (TeleporterMessengerTransactor_RetrySendCrossChainMessage k opts chain msg s) \<and>
    \<not> panics (TeleporterMessengerTransactor_SendCrossChainMessage k opts inp s) \<and>
    \<not> panics (TeleporterMessengerTransactor_SendSpecifiedReceipts k opts chain mids fee allowed s)"
proof -
  note ok = abi_contract.transact_ok [OF assms(1), where Us = "[]"]
    abi_contract.transact_ok [OF assms(1), where Us = "[TBigInt]"]
  show ?thesis
    unfolding transactor_defs assms(2) TeleporterMessengerTransactor.select_convs
    by (intro conjI; (rule ok(1), simp add: follows_abi_def TeleporterMessengerMetaData_def; fail)?;
      rule ok(2), simp add: follows_abi_def TeleporterMessengerMetaData_def)
qed

theorem binding_transactions_never_panic_witness:
  "\<not> panics (TeleporterMessengerTransactor_RedeemRelayerRewards
     \<lparr>TeleporterMessengerTransactor_contract =
        messenger_contract demo_env (\<lambda>T e l. Inl (GoError [])) (\<lambda>e r w. Inl (GoError []))\<rparr>
     2 9 demo_received)"
  using binding_transactions_never_panic [OF messenger_abi.abi_contract_axioms refl] by blast

text \<open>
  C25: Over the contract of this development, the read-only methods of the binding return what
  the contract's getters and public variables hold, as Go values.
\<close>

theorem binding_reads_the_contract:
  assumes "k = \<lparr>TeleporterMessengerCaller_contract = messenger_contract E unpackLog findLogs\<rparr>"
  shows "TeleporterMessengerCaller_BlockchainID k from w = Inr (blockchainID w) \<and>
    TeleporterMessengerCaller_CheckRelayerRewardAmount k from relayer asset w
      = Inr (uint (checkRelayerRewardAmount relayer asset w)) \<and>
    TeleporterMessengerCaller_GetFeeInfo k from chain (uint mid) w
      = Inr (fst (getFeeInfo chain mid w), uint (snd (getFeeInfo chain mid w))) \<and>
    TeleporterMessengerCaller_GetMessageHash k from chain (uint mid) w
      = Inr (getMessageHash chain mid w) \<and>
    TeleporterMessengerCaller_GetNextMessageID k from chain w
      = bindE (sol_result (getNextMessageID chain w)) (\<lambda>n. Inr (uint n)) \<and>
    TeleporterMessengerCaller_GetReceiptAtIndex k from chain (uint i) w
      = bindE (sol_result (getReceiptAtIndex chain i w)) (\<lambda>r. Inr (go_receipt r)) \<and>
    TeleporterMessengerCaller_GetReceiptQueueSize k from chain w
      = bindE (sol_result (getReceiptQueueSize chain w)) (\<lambda>n. Inr (uint n)) \<and>
    TeleporterMessengerCaller_GetRelayerRewardAddress k from chain (uint mid) w
      = Inr (getRelayerRewardAddress chain mid w) \<and>
    TeleporterMessengerCaller_LatestMessageIDs k from chain w
      = Inr (uint (latestMessageIDs w chain)) \<and>
    TeleporterMessengerCaller_MessageReceived k from chain (uint mid) w
      = Inr (messageReceived chain mid w) \<and>
    TeleporterMessengerCaller_ReceivedFailedMessageHashes k from chain (uint mid) w
      = Inr (receivedFailedMessageHashes w chain mid) \<and>
    TeleporterMessengerCaller_ReceiptQueues k from chain w
      = Inr \<lparr>TeleporterMessenger_ReceiptQueuesResult_First = uint (q_first (receiptQueues w chain)),
          TeleporterMessenger_ReceiptQueuesResult_Last = uint (q_last (receiptQueues w chain))\<rparr> \<and>
    TeleporterMessengerCaller_SentMessageInfo k from chain (uint mid) w
      = Inr \<lparr>TeleporterMessenger_SentMessageInfoResult_MessageHash
            = messageHash (sentMessageInfo w chain mid),
          TeleporterMessenger_SentMessageInfoResult_FeeInfo
            = go_feeInfo (feeInfo (sentMessageInfo w chain mid))\<rparr> \<and>
    TeleporterMessengerCaller_WARPMESSENGER k from w = Inr WARP_MESSENGER"
  unfolding caller_defs assms TeleporterMessengerCaller.select_convs
  by (intro conjI;
      simp add: messenger_contract_def messenger_call_def go_out_def go_index_def sol_result_def
        split: sum.splits)

theorem binding_reads_the_contract_witness:
  "TeleporterMessengerCaller_MessageReceived
     \<lparr>TeleporterMessengerCaller_contract =
        messenger_contract demo_env (\<lambda>T e l. Inl (GoError [])) (\<lambda>e r w. Inl (GoError []))\<rparr>
     0 7 3 demo_received = Inr True"
proof -
  have "uint (3 :: uint256) = 3" by simp
  moreover have "messageReceived 7 3 demo_received"
    unfolding demo_received_def
    by (simp add: receiveCrossChainMessage_def demo_steps messageReceived_def)
  ultimately show ?thesis
    using binding_reads_the_contract [OF refl, of demo_env "\<lambda>T e l. Inl (GoError [])"
        "\<lambda>e r w. Inl (GoError [])" 0 demo_received 0 0 7 3] by simp
qed

text \<open>
  C24: Over the contract of this development, each transaction method of the binding runs exactly
  the contract function of its name, as the given sender and with its arguments encoded, and
  returns an error when the contract reverts.
\<close>

theorem binding_transacts_on_the_contract:
  assumes "k = \<lparr>TeleporterMessengerTransactor_contract = messenger_contract E unpackLog findLogs\<rparr>"
    and "\<And>op. transacts op = bindE (sol_result (run_op (E\<lparr>msg_sender := from\<rparr>) op w)) (\<lambda>w'. Inr (op, w'))"
  shows "TeleporterMessengerTransactor_SendCrossChainMessage k from inp w
      = transacts (SendMessage (sol_input inp)) \<and>
    TeleporterMessengerTransactor_RetrySendCrossChainMessage k from chain msg w
      = transacts (RetrySend chain (sol_message msg)) \<and>
    TeleporterMessengerTransactor_AddFeeAmount k from chain (uint mid) token (uint amt) w
      = transacts (AddFee chain mid token amt) \<and>
    TeleporterMessengerTransactor_SendSpecifiedReceipts k from chain (map uint mids) fee allowed w
      = transacts (SendReceipts chain mids (sol_feeInfo fee) allowed) \<and>
    TeleporterMessengerTransactor_ReceiveCrossChainMessage k from idx ra w
      = transacts (Receive idx ra) \<and>
    TeleporterMessengerTransactor_RetryMessageExecution k from chain msg w
      = transacts (RetryExecution chain (sol_message msg)) \<and>
    TeleporterMessengerTransactor_RedeemRelayerRewards k from token w
      = transacts (Redeem token)"
  unfolding transactor_defs assms TeleporterMessengerTransactor.select_convs
  by (intro conjI;
      simp add: messenger_contract_def messenger_tx_def mapE_bigints mapE_map o_def)

theorem binding_transacts_on_the_contract_witness:
  "\<exists>w. TeleporterMessengerTransactor_ReceiveCrossChainMessage
     \<lparr>TeleporterMessengerTransactor_contract =
        messenger_contract demo_env (\<lambda>T e l. Inl (GoError [])) (\<lambda>e r w. Inl (GoError []))\<rparr>
     2 0 2 demo_world = Inr (Receive 0 2, w)"
proof -
  note t = binding_transacts_on_the_contract [OF refl refl,
      THEN conjunct2, THEN conjunct2, THEN conjunct2, THEN conjunct2, THEN conjunct1]
  have e: "demo_env\<lparr>msg_sender := 2\<rparr> = demo_env" by (simp add: demo_env_def)
  show ?thesis by (simp add: t e demo_receive sol_result_def)
qed

subsection \<open>Iterators\<close>

text \<open>
  Calling \<open>Next\<close> until it returns false, with the choices that \<open>select\<close> makes: the events
  seen while it returned true, and what the last call did, if the choices sufficed.
\<close>

fun drain :: "(bool \<Rightarrow> 'e iterator \<Rightarrow> 'e next_result) \<Rightarrow> bool list \<Rightarrow> 'e iterator
    \<Rightarrow> 'e list \<times> 'e next_result option" where
  "drain next [] it = ([], None)"
| "drain next (p # ps) it =
     (case next p it of
        Returns True it' \<Rightarrow>
          let (es, r) = drain next ps it' in ((case it_Event it' of Some e \<Rightarrow> [e] | None \<Rightarrow> []) @ es, r)
      | r \<Rightarrow> ([], Some r))"

text \<open>
  What one complete iteration over the logs \<open>ls\<close> of a subscription may do: it yields the
  unpacked first \<open>n\<close> logs, in order, and stops because all logs were yielded and the
  subscription ended without an error, because the next log does not unpack, or because the
  subscription ended with an error, which \<open>Error\<close> then returns; or it waits for more logs of an
  open subscription.
\<close>

definition iteration_ok ::
  "(log \<Rightarrow> go_error + 'e) \<Rightarrow> log list \<Rightarrow> go_error option option \<Rightarrow> nat
    \<Rightarrow> 'e list \<Rightarrow> 'e next_result option \<Rightarrow> bool" where
  "iteration_ok unpack ls end_of calls es result \<longleftrightarrow>
     (\<exists>n \<le> length ls. mapE unpack (take n ls) = Inr es \<and>
       (case result of
          None \<Rightarrow> calls \<le> n
        | Some Blocks \<Rightarrow> n = length ls \<and> end_of = None
        | Some (Panics msg) \<Rightarrow> n < length ls \<and> unpack (ls ! n) = Inl (GoPanic msg)
        | Some (Returns b it) \<Rightarrow> \<not> b \<and>
            (case it_fail it of
               None \<Rightarrow> n = length ls \<and> end_of = Some None
             | Some err \<Rightarrow> end_of = Some (Some err) \<or>
                 (n < length ls \<and> unpack (ls ! n) = Inl err))))"

lemma mapE_length: "mapE f xs = Inr ys \<Longrightarrow> length ys = length xs"
  by (induction xs arbitrary: ys) auto

lemma iteration_ok_Cons:
  assumes "unpack l = Inr e" and "iteration_ok unpack ls end_of calls es result"
  shows "iteration_ok unpack (l # ls) end_of (Suc calls) (e # es) result"
proof -
  from assms(2) obtain n where "n \<le> length ls" "mapE unpack (take n ls) = Inr es"
    "case result of
          None \<Rightarrow> calls \<le> n
        | Some Blocks \<Rightarrow> n = length ls \<and> end_of = None
        | Some (Panics msg) \<Rightarrow> n < length ls \<and> unpack (ls ! n) = Inl (GoPanic msg)
        | Some (Returns b it) \<Rightarrow> \<not> b \<and>
            (case it_fail it of
               None \<Rightarrow> n = length ls \<and> end_of = Some None
             | Some err \<Rightarrow> end_of = Some (Some err) \<or>
                 (n < length ls \<and> unpack (ls ! n) = Inl err))"
    unfolding iteration_ok_def by blast
  with assms(1) show ?thesis
    unfolding iteration_ok_def
    by (intro exI [of _ "Suc n"]) (auto split: option.splits next_result.splits)
qed

lemma iteration_ok_Nil:
  "(case result of None \<Rightarrow> calls = 0 | Some Blocks \<Rightarrow> ls = [] \<and> end_of = None
      | Some (Panics msg) \<Rightarrow> ls \<noteq> [] \<and> unpack (hd ls) = Inl (GoPanic msg)
      | Some (Returns b it) \<Rightarrow> \<not> b \<and> (case it_fail it of
           None \<Rightarrow> ls = [] \<and> end_of = Some None
         | Some err \<Rightarrow> end_of = Some (Some err) \<or> (ls \<noteq> [] \<and> unpack (hd ls) = Inl err)))
    \<Longrightarrow> iteration_ok unpack ls end_of calls [] result"
  unfolding iteration_ok_def
  by (intro exI [of _ 0]) (auto simp: hd_conv_nth split: option.splits next_result.splits)

lemma next_log_cases:
  obtains (event) e where "unpack (it_event it) l = Inr e"
      "next_log unpack l it = Returns True (it\<lparr>it_Event := Some e\<rparr>)"
  | (error) msg where "unpack (it_event it) l = Inl (GoError msg)"
      "next_log unpack l it = Returns False (it\<lparr>it_Event := None, it_fail := Some (GoError msg)\<rparr>)"
  | (panic) msg where "unpack (it_event it) l = Inl (GoPanic msg)"
      "next_log unpack l it = Panics msg"
proof (cases "unpack (it_event it) l")
  case (Inl err)
  then show ?thesis using that by (cases err) (simp_all add: next_log_def)
next
  case (Inr e)
  then show ?thesis using that by (simp add: next_log_def)
qed

lemma iterator_Next_eqs:
  "it_fail it = None \<Longrightarrow> it_done it \<Longrightarrow> iterator_Next unpack p it = next_stopped unpack it"
  "it_fail it = None \<Longrightarrow> \<not> it_done it \<Longrightarrow> it_logs it = l # ls \<Longrightarrow> it_end it = None \<or> p \<Longrightarrow>
    iterator_Next unpack p it = next_log unpack l (it\<lparr>it_logs := ls\<rparr>)"
  "it_fail it = None \<Longrightarrow> \<not> it_done it \<Longrightarrow> it_logs it = l # ls \<Longrightarrow> it_end it = Some err \<Longrightarrow> \<not> p \<Longrightarrow>
    iterator_Next unpack p it = next_stopped unpack (it\<lparr>it_done := True, it_fail := err\<rparr>)"
  "it_fail it = None \<Longrightarrow> \<not> it_done it \<Longrightarrow> it_logs it = [] \<Longrightarrow> it_end it = Some err \<Longrightarrow>
    iterator_Next unpack p it = next_stopped unpack (it\<lparr>it_done := True, it_fail := err\<rparr>)"
  "it_fail it = None \<Longrightarrow> \<not> it_done it \<Longrightarrow> it_logs it = [] \<Longrightarrow> it_end it = None \<Longrightarrow>
    iterator_Next unpack p it = Blocks"
  "it_fail it = Some e \<Longrightarrow> next_stopped unpack it = Returns False it"
  "it_fail it = None \<Longrightarrow> it_logs it = [] \<Longrightarrow> next_stopped unpack it = Returns False it"
  "it_fail it = None \<Longrightarrow> it_logs it = l # ls \<Longrightarrow>
    next_stopped unpack it = next_log unpack l (it\<lparr>it_logs := ls\<rparr>)"
  by (auto simp: iterator_Next_def next_stopped_def split: option.splits)

lemma drain_ok:
  assumes "it_fail it = None" and "it_done it \<Longrightarrow> it_end it = Some None"
  shows "case drain (iterator_Next unpack) ps it of (es, r) \<Rightarrow>
    iteration_ok (unpack (it_event it)) (it_logs it) (it_end it) (length ps) es r"
  using assms
proof (induction ps arbitrary: it)
  case Nil
  then show ?case by (simp add: iteration_ok_Nil)
next
  case (Cons p ps)
  have log: "case (case next_log unpack l it' of Returns True it'' \<Rightarrow>
        (let (es, r) = drain (iterator_Next unpack) ps it'' in
          ((case it_Event it'' of Some e \<Rightarrow> [e] | None \<Rightarrow> []) @ es, r)) | r \<Rightarrow> ([], Some r))
      of (es, r) \<Rightarrow> iteration_ok (unpack (it_event it)) (it_logs it) (it_end it) (length (p # ps)) es r"
    if l: "it_logs it = l # ls" and it': "it_logs it' = ls" "it_event it' = it_event it"
      "it_end it' = it_end it" "it_fail it' = None" "it_done it' \<Longrightarrow> it_end it = Some None"
    for l ls it'
  proof (cases rule: next_log_cases [of unpack it' l])
    case (event e)
    let ?it = "it'\<lparr>it_Event := Some e\<rparr>"
    have "case drain (iterator_Next unpack) ps ?it of (es, r) \<Rightarrow>
      iteration_ok (unpack (it_event ?it)) (it_logs ?it) (it_end ?it) (length ps) es r"
      using it' by (intro Cons.IH) simp_all
    then show ?thesis
      using event it' l by (auto simp: Let_def split: prod.splits intro: iteration_ok_Cons)
  qed (use l it' in \<open>simp_all add: iteration_ok_Nil\<close>)
  show ?case
  proof (cases "it_logs it")
    case Nil
    then show ?thesis
      using Cons.prems
      by (cases "it_done it"; cases "it_end it"; cases "the (it_end it)")
        (simp_all add: iterator_Next_eqs iteration_ok_Nil)
  next
    case (Cons l ls)
    note log' = log [OF Cons, of "it\<lparr>it_logs := ls\<rparr>"]
      log [OF Cons, of "it\<lparr>it_done := True, it_fail := None, it_logs := ls\<rparr>"]
    show ?thesis
      using Cons.prems Cons log'
      by (cases "it_done it"; cases "it_end it"; cases "the (it_end it)"; cases p)
        (simp_all add: iterator_Next_eqs iteration_ok_Nil)
  qed
qed

text \<open>
  C28: An event iterator yields the unpacked logs of its subscription in order and without gaps,
  whatever \<open>select\<close> chooses when a log and the end of the subscription are ready together. With
  more calls than logs it stops or blocks; it blocks only while the subscription is open and all
  its logs have been yielded; when it stops without an error, it has yielded all logs, and an
  error it stops with is the subscription's or the one of the first log that does not unpack.
\<close>

theorem iterator_yields_logs_in_order:
  assumes "drain (iterator_Next unpack) picks (new_iterator event stream) = (es, r)"
  shows "iteration_ok (unpack event) (stream_logs stream) (stream_end stream) (length picks) es r \<and>
    (length (stream_logs stream) < length picks \<longrightarrow> r \<noteq> None) \<and>
    (\<forall>it err. r = Some (Returns False it) \<and> iterator_Error it = Some err \<longrightarrow>
      (\<forall>p. iterator_Next unpack p it = Returns False it))"
proof -
  have "iteration_ok (unpack event) (stream_logs stream) (stream_end stream) (length picks) es r"
    using drain_ok [of "new_iterator event stream" unpack picks] assms
    by (simp add: new_iterator_def)
  then show ?thesis
    by (cases r) (auto simp: iteration_ok_def iterator_Error_def iterator_Next_def)
qed

definition demo_log :: "bytes32 \<Rightarrow> log" where
  "demo_log b = \<lparr>log_Address = 1, log_Topics = [b], log_Data = []\<rparr>"

definition demo_unpack :: "string \<Rightarrow> log \<Rightarrow> go_error + bytes32" where
  "demo_unpack event l = bindE (go_index (log_Topics l) 0) (\<lambda>t.
     if t = 0 then Inl (GoError ''event signature mismatch'') else Inr t)"

theorem iterator_yields_logs_in_order_witness:
  "\<exists>r. drain (iterator_Next demo_unpack) [True, False, True]
      (new_iterator ''E'' \<lparr>stream_logs = [demo_log 1, demo_log 2], stream_end = Some None\<rparr>)
     = ([1, 2], r) \<and> r \<noteq> None"
proof -
  have "drain (iterator_Next demo_unpack) [True, False, True]
      (new_iterator ''E'' \<lparr>stream_logs = [demo_log 1, demo_log 2], stream_end = Some None\<rparr>)
     = ([1, 2], snd (drain (iterator_Next demo_unpack) [True, False, True]
      (new_iterator ''E'' \<lparr>stream_logs = [demo_log 1, demo_log 2], stream_end = Some None\<rparr>)))"
    by (simp add: new_iterator_def iterator_Next_def next_stopped_def next_log_def demo_log_def
        demo_unpack_def go_index_def)
  from iterator_yields_logs_in_order [OF this] this show ?thesis by auto
qed

subsection \<open>Subscriptions\<close>

inductive watch_run ::
  "(log \<Rightarrow> go_error + 'e) \<Rightarrow> 'e watch_state \<Rightarrow> watch_label list \<Rightarrow> 'e watch_state \<Rightarrow> bool"
  for unpack :: "log \<Rightarrow> go_error + 'e" where
  start: "watch_run unpack S [] S"
| go: "watch_run unpack S as T \<Longrightarrow> watch_step unpack T a U \<Longrightarrow> watch_run unpack S (as @ [a]) U"

fun received_logs :: "watch_label list \<Rightarrow> log list" where
  "received_logs [] = []"
| "received_logs (GotLog l # as) = l # received_logs as"
| "received_logs (a # as) = received_logs as"

lemma received_logs_append: "received_logs (as @ bs) = received_logs as @ received_logs bs"
  by (induction as rule: received_logs.induct) simp_all

lemma mapE_snoc: "mapE f xs = Inr ys \<Longrightarrow> f x = Inr y \<Longrightarrow> mapE f (xs @ [x]) = Inr (ys @ [y])"
  by (induction xs arbitrary: ys) auto

text \<open>What the sink has seen, as a function of the logs received so far.\<close>

fun watch_ok :: "(log \<Rightarrow> go_error + 'e) \<Rightarrow> log list \<Rightarrow> 'e watch_state \<Rightarrow> bool" where
  "watch_ok unpack ls (Waiting es) = (mapE unpack ls = Inr es)"
| "watch_ok unpack ls (Offering e es) = (ls \<noteq> [] \<and> unpack (last ls) = Inr e \<and>
     mapE unpack (butlast ls) = Inr es)"
| "watch_ok unpack ls (Ended err es) =
     (mapE unpack ls = Inr es \<or> ls \<noteq> [] \<and> mapE unpack (butlast ls) = Inr es)"

lemma watch_step_ok:
  assumes "watch_step unpack S a T" and "watch_ok unpack ls S"
  shows "watch_ok unpack (ls @ received_logs [a]) T"
  using assms
proof cases
  case (took e es)
  then show ?thesis
    using assms(2) mapE_snoc [of unpack "butlast ls" es "last ls" e] by simp
qed auto

lemma watch_run_ok:
  "watch_run unpack S as T \<Longrightarrow> watch_ok unpack [] S \<Longrightarrow> watch_ok unpack (received_logs as) T"
proof (induction rule: watch_run.induct)
  case (start S)
  then show ?case by simp
next
  case (go S as T a U)
  then show ?case using watch_step_ok received_logs_append by metis
qed

text \<open>
  C29: A log subscription hands the sink the unpacked logs it received, in order, each once: while
  it runs, all of them but at most the one it is offering; when it has ended, for whatever
  reason, all but at most the last.
\<close>

theorem watcher_delivers_in_order:
  assumes "watch_run (watch_unpack w) (watch_init w) as S"
    and "w = new_watcher unpack stream"
  shows "case S of
      Waiting es \<Rightarrow> mapE unpack (received_logs as) = Inr es
    | Offering e es \<Rightarrow> mapE unpack (received_logs as) = Inr (es @ [e])
    | Ended err es \<Rightarrow> mapE unpack (received_logs as) = Inr es \<or>
        mapE unpack (butlast (received_logs as)) = Inr es"
proof -
  have "watch_run unpack (Waiting []) as S"
    using assms by (simp add: new_watcher_def)
  from watch_run_ok [OF this] have "watch_ok unpack (received_logs as) S" by simp
  then show ?thesis
    using mapE_snoc [of unpack "butlast (received_logs as)" _ "last (received_logs as)"]
    by (cases S) auto
qed

theorem watcher_delivers_in_order_witness:
  "mapE (demo_unpack ''E'') (received_logs [GotLog (demo_log 3), SinkTook]) = Inr [3]"
proof -
  let ?u = "demo_unpack ''E''"
  let ?w = "new_watcher ?u \<lparr>stream_logs = [], stream_end = None\<rparr>"
  have a: "watch_step ?u (Waiting []) (GotLog (demo_log 3)) (Offering 3 [])"
    by (rule watch_step.got) (simp add: demo_unpack_def demo_log_def go_index_def)
  have b: "watch_step ?u (Offering 3 []) SinkTook (Waiting ([] @ [3]))"
    by (rule watch_step.took)
  have "watch_run (watch_unpack ?w) (watch_init ?w) (([] @ [GotLog (demo_log 3)]) @ [SinkTook])
      (Waiting ([] @ [3]))"
    unfolding new_watcher_def watcher.select_convs
    using watch_run.go [OF watch_run.go [OF watch_run.start a] b] .
  from watcher_delivers_in_order [OF this refl] show ?thesis by simp
qed

fun watch_sunk :: "'e watch_state \<Rightarrow> 'e list" where
  "watch_sunk (Waiting es) = es"
| "watch_sunk (Offering e es) = es"
| "watch_sunk (Ended err es) = es"

fun watch_ended :: "'e watch_state \<Rightarrow> bool" where
  "watch_ended (Ended err es) = True"
| "watch_ended _ = False"

fun watch_steps_left :: "nat \<Rightarrow> nat \<Rightarrow> 'e watch_state \<Rightarrow> bool" where
  "watch_steps_left k n (Waiting es) \<longleftrightarrow> k = 2 * n"
| "watch_steps_left k n (Offering e es) \<longleftrightarrow> k + 1 = 2 * n"
| "watch_steps_left k n (Ended err es) \<longleftrightarrow> k \<le> 2 * n + 1"

lemma watch_run_steps:
  "watch_run unpack S as T \<Longrightarrow> watch_steps_left 0 0 S \<Longrightarrow>
    watch_steps_left (length as) (length (received_logs as)) T"
proof (induction rule: watch_run.induct)
  case (go S as T a U)
  then have "watch_steps_left (length as) (length (received_logs as)) T" by blast
  with go.hyps(2) show ?case by cases (auto simp: received_logs_append)
qed simp

text \<open>
  C30: A watch loop makes progress and can always be stopped. Every step receives a log, hands an event
  to the sink or ends the loop, so with \<open>n\<close> logs received the loop has made at most \<open>2 n + 1\<close>
  steps. Until it has ended, a request to quit or the end of the subscription, whichever comes,
  ends it in one step, also while an event is being offered to a sink that never takes it, and
  hands nothing more to the sink. When it has ended, it does nothing more.
\<close>

theorem watch_loop_ends:
  assumes "watch_run (watch_unpack w) (watch_init w) as S" and "w = new_watcher unpack stream"
  shows "length as \<le> 2 * length (received_logs as) + 1 \<and>
    (\<not> watch_ended S \<longrightarrow>
      (\<forall>T. watch_step unpack S Quit T \<longleftrightarrow> T = Ended None (watch_sunk S)) \<and>
      (\<forall>err T. watch_step unpack S (SubEnded err) T \<longleftrightarrow> T = Ended err (watch_sunk S))) \<and>
    (watch_ended S \<longrightarrow> (\<forall>a T. \<not> watch_step unpack S a T))"
proof -
  have "watch_run unpack (Waiting []) as S" using assms by (simp add: new_watcher_def)
  from watch_run_steps [OF this] have "watch_steps_left (length as) (length (received_logs as)) S" by simp
  then have "length as \<le> 2 * length (received_logs as) + 1" by (cases S) auto
  then show ?thesis
    by (cases S) (auto intro: watch_step.intros
        elim: watch_step_Waiting watch_step_Offering watch_step_Ended)
qed

theorem watch_loop_ends_witness:
  "watch_step (demo_unpack ''E'') (Offering 3 []) Quit (Ended None [])"
proof -
  let ?u = "demo_unpack ''E''"
  let ?w = "new_watcher ?u \<lparr>stream_logs = [], stream_end = None\<rparr>"
  have "watch_step ?u (Waiting []) (GotLog (demo_log 3)) (Offering 3 [])"
    by (rule watch_step.got) (simp add: demo_unpack_def demo_log_def go_index_def)
  then have "watch_run (watch_unpack ?w) (watch_init ?w) ([] @ [GotLog (demo_log 3)]) (Offering 3 [])"
    unfolding new_watcher_def watcher.select_convs by (rule watch_run.go [OF watch_run.start])
  from watch_loop_ends [OF this refl] show ?thesis by simp
qed

end
