(* ===== verification/Go_Event.thy ===== *)
theory Go_Event
  imports Bind_TeleporterMessenger Go_Typing
begin

section \<open>event.go and packing.go: decoding the messenger's events and messages\<close>

text \<open>
  The hand-written part of the package \<open>abi-bindings/go/Teleporter/TeleporterMessenger\<close>. The
  functions of subnet-evm's \<open>accounts/abi\<close> that it calls are the fields of \<open>abi_pkg\<close>; Go's
  \<open>strings.ToLower\<close> maps an ASCII string byte by byte and leaves other strings to Unicode tables,
  which are the argument \<open>unicode_lower\<close>.
\<close>

subsection \<open>Go's standard library\<close>

definition ascii_lower :: "char \<Rightarrow> char" where
  "ascii_lower c =
     (if 65 \<le> (of_char c :: nat) \<and> (of_char c :: nat) \<le> 90 then char_of (of_char c + 32 :: nat) else c)"

definition is_ascii :: "string \<Rightarrow> bool" where
  "is_ascii s \<longleftrightarrow> (\<forall>c \<in> set s. (of_char c :: nat) < 128)"

definition strings_ToLower :: "(string \<Rightarrow> string) \<Rightarrow> string \<Rightarrow> string" where
  "strings_ToLower unicode_lower s =
     (if is_ascii s then map ascii_lower s else unicode_lower s)"

subsection \<open>The ABI package\<close>

record abi_argument =
  arg_Type :: go_type
  arg_Indexed :: bool

text \<open>
  A parsed ABI. A missing entry of the Go map \<open>Events\<close> reads as an event without inputs, so
  \<open>abi_Events\<close> is total.
\<close>

record go_abi =
  abi_Pack :: "string \<Rightarrow> go_value list \<Rightarrow> go_error + bytes"
  abi_PackOutput :: "string \<Rightarrow> go_value list \<Rightarrow> go_error + bytes"
  abi_UnpackIntoInterface :: "go_value \<Rightarrow> string \<Rightarrow> bytes \<Rightarrow> go_error + go_value"
  abi_Events :: "string \<Rightarrow> abi_argument list"
  abi_EventByID :: "bytes32 \<Rightarrow> go_error + string"

record abi_pkg =
  pkg_NewType :: "go_type \<Rightarrow> go_error + go_type"
  pkg_GetAbi :: "abi_meta \<Rightarrow> go_error + go_abi option"
  pkg_ArgsPack :: "go_type \<Rightarrow> go_value \<Rightarrow> go_error + bytes"
  pkg_ArgsUnpack :: "go_type \<Rightarrow> bytes \<Rightarrow> go_error + go_value list"
  pkg_ArgsCopy :: "go_type \<Rightarrow> go_value list \<Rightarrow> go_error + go_value"
  pkg_ParseTopics :: "go_value \<Rightarrow> abi_argument list \<Rightarrow> bytes32 list \<Rightarrow> go_error + go_value"

definition nil_panic :: "go_error + 'a" where
  "nil_panic = Inl (GoPanic ''nil pointer dereference'')"

text \<open>Using the result of \<open>GetAbi\<close>: an error is wrapped, a nil pointer panics when it is used.\<close>

definition with_abi :: "abi_pkg \<Rightarrow> (go_abi \<Rightarrow> go_error + 'a) \<Rightarrow> go_error + 'a" where
  "with_abi pkg k =
     bindE (wrapE ''failed to get abi'' (pkg_GetAbi pkg TeleporterMessengerMetaData)) (\<lambda>p.
     case p of None \<Rightarrow> nil_panic | Some abi \<Rightarrow> k abi)"

subsection \<open>packing.go\<close>

definition teleporterMessage_components :: go_type where
  "teleporterMessage_components = TStruct []
     [TBigInt, TAddress, TBytes32, TAddress, TBigInt, TSlice TAddress,
      TSlice (TStruct [] [TBigInt, TAddress]), TBytes]"

text \<open>The package's \<open>init\<close>: the type of a message, or a panic.\<close>

definition packing_init :: "abi_pkg \<Rightarrow> go_error + go_type" where
  "packing_init pkg =
     (case pkg_NewType pkg teleporterMessage_components of
        Inl e \<Rightarrow> Inl (GoPanic ''failed to create TeleporterMessage ABI type'')
      | Inr T \<Rightarrow> Inr T)"

definition PackTeleporterMessage ::
  "abi_pkg \<Rightarrow> go_type \<Rightarrow> Go_TeleporterMessage \<Rightarrow> go_error + bytes" where
  "PackTeleporterMessage pkg teleporterMessageType message =
     pkg_ArgsPack pkg teleporterMessageType (of_TeleporterMessage message)"

definition UnpackTeleporterMessage ::
  "abi_pkg \<Rightarrow> go_type \<Rightarrow> bytes \<Rightarrow> go_error + Go_TeleporterMessage" where
  "UnpackTeleporterMessage pkg teleporterMessageType messageBytes =
     bindE (wrapE ''failed to unpack to teleporter message with err''
              (pkg_ArgsUnpack pkg teleporterMessageType messageBytes)) (\<lambda>unpacked.
     bindE (pkg_ArgsCopy pkg (TStruct ''teleporterMessageArg'' [T_TeleporterMessage]) unpacked)
     (\<lambda>arg. bindE (as_struct ''teleporterMessageArg'' arg) (\<lambda>fields.
     bindE (go_index fields 0) as_TeleporterMessage)))"

definition PackSendCrossChainMessage ::
  "abi_pkg \<Rightarrow> Go_TeleporterMessageInput \<Rightarrow> go_error + bytes" where
  "PackSendCrossChainMessage pkg input =
     with_abi pkg (\<lambda>abi. abi_Pack abi ''sendCrossChainMessage'' [of_TeleporterMessageInput input])"

definition PackRetryMessageExecution ::
  "abi_pkg \<Rightarrow> bytes32 \<Rightarrow> Go_TeleporterMessage \<Rightarrow> go_error + bytes" where
  "PackRetryMessageExecution pkg originChainID message =
     with_abi pkg (\<lambda>abi. abi_Pack abi ''retryMessageExecution''
       [GBytes32 originChainID, of_TeleporterMessage message])"

definition PackReceiveCrossChainMessage ::
  "abi_pkg \<Rightarrow> uint32 \<Rightarrow> address \<Rightarrow> go_error + bytes" where
  "PackReceiveCrossChainMessage pkg messageIndex relayerRewardAddress =
     with_abi pkg (\<lambda>abi. abi_Pack abi ''receiveCrossChainMessage''
       [GUint32 messageIndex, GAddress relayerRewardAddress])"

definition PackMessageReceived :: "abi_pkg \<Rightarrow> bytes32 \<Rightarrow> int \<Rightarrow> go_error + bytes" where
  "PackMessageReceived pkg originChainID messageID =
     with_abi pkg (\<lambda>abi. abi_Pack abi ''messageReceived''
       [GBytes32 originChainID, GBigInt messageID])"

definition UnpackMessageReceivedResult :: "abi_pkg \<Rightarrow> bytes \<Rightarrow> go_error + bool" where
  "UnpackMessageReceivedResult pkg result =
     with_abi pkg (\<lambda>abi.
       bindE (abi_UnpackIntoInterface abi (GBool False) ''messageReceived'' result) as_bool)"

definition PackMessageReceivedOutput :: "abi_pkg \<Rightarrow> bool \<Rightarrow> go_error + bytes" where
  "PackMessageReceivedOutput pkg success =
     with_abi pkg (\<lambda>abi. abi_PackOutput abi ''messageReceived'' [GBool success])"

text \<open>\<open>topics[1:]\<close> of an empty slice is out of range.\<close>

definition topics_from_1 :: "bytes32 list \<Rightarrow> go_error + bytes32 list" where
  "topics_from_1 topics =
     (case topics of [] \<Rightarrow> Inl (GoPanic ''slice bounds out of range [1:0]'') | t # ts \<Rightarrow> Inr ts)"

text \<open>\<open>UnpackEvent\<close> returns the struct that it filled through the pointer \<open>out\<close>.\<close>

definition UnpackEvent ::
  "abi_pkg \<Rightarrow> go_value \<Rightarrow> string \<Rightarrow> bytes32 list \<Rightarrow> bytes \<Rightarrow> go_error + go_value" where
  "UnpackEvent pkg out event topics data =
     with_abi pkg (\<lambda>abi.
     bindE (if length data > 0 then abi_UnpackIntoInterface abi out event data else Inr out)
     (\<lambda>out1.
     let indexed = filter arg_Indexed (abi_Events abi event) in
     bindE (topics_from_1 topics) (\<lambda>rest.
     pkg_ParseTopics pkg out1 indexed rest)))"

subsection \<open>event.go\<close>

type_synonym Event = byte

definition Unknown :: Event where "Unknown = 0"
definition SendCrossChainMessage :: Event where "SendCrossChainMessage = 1"
definition ReceiveCrossChainMessage :: Event where "ReceiveCrossChainMessage = 2"
definition AddFeeAmount :: Event where "AddFeeAmount = 3"
definition MessageExecutionFailed :: Event where "MessageExecutionFailed = 4"
definition MessageExecuted :: Event where "MessageExecuted = 5"
definition RelayerRewardsRedeemed :: Event where "RelayerRewardsRedeemed = 6"

lemmas event_consts = Unknown_def SendCrossChainMessage_def ReceiveCrossChainMessage_def
  AddFeeAmount_def MessageExecutionFailed_def MessageExecuted_def RelayerRewardsRedeemed_def

definition Event_String :: "Event \<Rightarrow> string" where
  "Event_String e =
     (if e = SendCrossChainMessage then ''SendCrossChainMessage''
      else if e = ReceiveCrossChainMessage then ''ReceiveCrossChainMessage''
      else if e = AddFeeAmount then ''AddFeeAmount''
      else if e = MessageExecutionFailed then ''MessageExecutionFailed''
      else if e = MessageExecuted then ''MessageExecuted''
      else if e = RelayerRewardsRedeemed then ''RelayerRewardsRedeemed''
      else ''Unknown'')"

definition ToEvent :: "(string \<Rightarrow> string) \<Rightarrow> string \<Rightarrow> go_error + Event" where
  "ToEvent unicode_lower e =
     (let lower = strings_ToLower unicode_lower; s = lower e in
      if s = lower ''SendCrossChainMessage'' then Inr SendCrossChainMessage
      else if s = lower ''ReceiveCrossChainMessage'' then Inr ReceiveCrossChainMessage
      else if s = lower ''AddFeeAmount'' then Inr AddFeeAmount
      else if s = lower ''MessageExecutionFailed'' then Inr MessageExecutionFailed
      else if s = lower ''MessageExecuted'' then Inr MessageExecuted
      else if s = lower ''RelayerRewardsRedeemed'' then Inr RelayerRewardsRedeemed
      else Inl (GoError (''unknown event '' @ e)))"

text \<open>The struct that the log of an event is parsed into, without its field \<open>Raw\<close>.\<close>

definition event_type :: "Event \<Rightarrow> go_type option" where
  "event_type e =
     (if e = SendCrossChainMessage then Some (TStruct ''TeleporterMessengerSendCrossChainMessage''
        [TBytes32, TBigInt, T_TeleporterMessage, T_TeleporterFeeInfo])
      else if e = ReceiveCrossChainMessage then
        Some (TStruct ''TeleporterMessengerReceiveCrossChainMessage''
          [TBytes32, TBigInt, TAddress, TAddress, T_TeleporterMessage])
      else if e = AddFeeAmount then Some (TStruct ''TeleporterMessengerAddFeeAmount''
        [TBytes32, TBigInt, T_TeleporterFeeInfo])
      else if e = MessageExecutionFailed then
        Some (TStruct ''TeleporterMessengerMessageExecutionFailed''
          [TBytes32, TBigInt, T_TeleporterMessage])
      else if e = MessageExecuted then Some (TStruct ''TeleporterMessengerMessageExecuted''
        [TBytes32, TBigInt])
      else if e = RelayerRewardsRedeemed then
        Some (TStruct ''TeleporterMessengerRelayerRewardsRedeemed'' [TAddress, TAddress, TBigInt])
      else None)"

definition FilterTeleporterEvents ::
  "(string \<Rightarrow> string) \<Rightarrow> abi_pkg \<Rightarrow> bytes32 list \<Rightarrow> bytes \<Rightarrow> string \<Rightarrow> go_error + go_value" where
  "FilterTeleporterEvents unicode_lower pkg topics data event =
     bindE (ToEvent unicode_lower event) (\<lambda>e.
     case event_type e of
       None \<Rightarrow> Inl (GoError (''unknown event '' @ Event_String e))
     | Some T \<Rightarrow> UnpackEvent pkg (zero_value T) (Event_String e) topics data)"

end
