(* ===== verification/Event_Correctness.thy ===== *)
theory Event_Correctness
  imports Go_Event Demo_Codec
begin

section \<open>What event.go and packing.go guarantee\<close>

subsection \<open>Event names\<close>

lemma is_ascii_names [simp]:
  "is_ascii ''SendCrossChainMessage''" "is_ascii ''ReceiveCrossChainMessage''"
  "is_ascii ''AddFeeAmount''" "is_ascii ''MessageExecutionFailed''"
  "is_ascii ''MessageExecuted''" "is_ascii ''RelayerRewardsRedeemed''"
  by (simp_all add: is_ascii_def)

lemma lower_names [simp]:
  "map ascii_lower ''SendCrossChainMessage'' = ''sendcrosschainmessage''"
  "map ascii_lower ''ReceiveCrossChainMessage'' = ''receivecrosschainmessage''"
  "map ascii_lower ''AddFeeAmount'' = ''addfeeamount''"
  "map ascii_lower ''MessageExecutionFailed'' = ''messageexecutionfailed''"
  "map ascii_lower ''MessageExecuted'' = ''messageexecuted''"
  "map ascii_lower ''RelayerRewardsRedeemed'' = ''relayerrewardsredeemed''"
  by (simp_all add: ascii_lower_def char_of_def bit_0)

definition known_event :: "Event \<Rightarrow> bool" where
  "known_event e \<longleftrightarrow> e \<in> {SendCrossChainMessage, ReceiveCrossChainMessage, AddFeeAmount,
     MessageExecutionFailed, MessageExecuted, RelayerRewardsRedeemed}"

definition event_of_lower :: "string \<Rightarrow> Event option" where
  "event_of_lower l =
     (if l = ''sendcrosschainmessage'' then Some SendCrossChainMessage
      else if l = ''receivecrosschainmessage'' then Some ReceiveCrossChainMessage
      else if l = ''addfeeamount'' then Some AddFeeAmount
      else if l = ''messageexecutionfailed'' then Some MessageExecutionFailed
      else if l = ''messageexecuted'' then Some MessageExecuted
      else if l = ''relayerrewardsredeemed'' then Some RelayerRewardsRedeemed
      else None)"

lemma ToEvent_lower:
  "ToEvent unicode_lower s =
     (case event_of_lower (strings_ToLower unicode_lower s) of
        Some e \<Rightarrow> Inr e | None \<Rightarrow> Inl (GoError (''unknown event '' @ s)))"
  by (simp only: ToEvent_def event_of_lower_def strings_ToLower_def is_ascii_names lower_names
      if_True Let_def) (simp split: if_splits)

lemma known_event_cases:
  "known_event e \<Longrightarrow> P SendCrossChainMessage \<Longrightarrow> P ReceiveCrossChainMessage \<Longrightarrow>
    P AddFeeAmount \<Longrightarrow> P MessageExecutionFailed \<Longrightarrow> P MessageExecuted \<Longrightarrow>
    P RelayerRewardsRedeemed \<Longrightarrow> P e"
  by (auto simp: known_event_def)

lemma lower_event_name:
  "map ascii_lower (Event_String SendCrossChainMessage) = ''sendcrosschainmessage''"
  "map ascii_lower (Event_String ReceiveCrossChainMessage) = ''receivecrosschainmessage''"
  "map ascii_lower (Event_String AddFeeAmount) = ''addfeeamount''"
  "map ascii_lower (Event_String MessageExecutionFailed) = ''messageexecutionfailed''"
  "map ascii_lower (Event_String MessageExecuted) = ''messageexecuted''"
  "map ascii_lower (Event_String RelayerRewardsRedeemed) = ''relayerrewardsredeemed''"
  by (simp_all add: Event_String_def event_consts ascii_lower_def char_of_def bit_0)

lemma known_name:
  "known_event e \<Longrightarrow> is_ascii (Event_String e) \<and>
    event_of_lower (map ascii_lower (Event_String e)) = Some e"
  by (erule known_event_cases; simp only: lower_event_name)
    (simp_all add: event_of_lower_def Event_String_def event_consts)

lemma ToEvent_name: "known_event e \<Longrightarrow> ToEvent unicode_lower (Event_String e) = Inr e"
  by (frule known_name) (simp add: ToEvent_lower strings_ToLower_def)

lemma event_of_lower_Some:
  "event_of_lower l = Some e \<longleftrightarrow> known_event e \<and> l = map ascii_lower (Event_String e)"
proof
  assume "event_of_lower l = Some e"
  then show "known_event e \<and> l = map ascii_lower (Event_String e)"
    unfolding event_of_lower_def
    by (simp only: split: if_splits) (auto simp only: option.inject lower_event_name known_event_def)
next
  assume "known_event e \<and> l = map ascii_lower (Event_String e)"
  then show "event_of_lower l = Some e" using known_name by blast
qed

text \<open>
  Event names are recognised up to the case of ASCII letters and nothing else is: an ASCII
  string denotes an event exactly when it equals the event's name up to case, every other ASCII
  string is an error, and the name of every known event is read back as that event.
\<close>

theorem event_names:
  "(known_event e \<longrightarrow> ToEvent unicode_lower (Event_String e) = Inr e) \<and>
   (is_ascii s \<longrightarrow>
     (ToEvent unicode_lower s = Inr e \<longleftrightarrow>
        known_event e \<and> map ascii_lower s = map ascii_lower (Event_String e)) \<and>
     ((\<forall>d. \<not> (known_event d \<and> map ascii_lower s = map ascii_lower (Event_String d))) \<longrightarrow>
        ToEvent unicode_lower s = Inl (GoError (''unknown event '' @ s))))"
proof -
  have "ToEvent unicode_lower (Event_String e) = Inr e" if "known_event e"
    using that by (rule ToEvent_name)
  moreover have "ToEvent unicode_lower s = (case event_of_lower (map ascii_lower s) of
      Some e \<Rightarrow> Inr e | None \<Rightarrow> Inl (GoError (''unknown event '' @ s)))" if "is_ascii s"
    using that by (simp add: ToEvent_lower strings_ToLower_def)
  ultimately show ?thesis
    by (cases "event_of_lower (map ascii_lower s)")
      (auto simp add: event_of_lower_Some simp flip: event_of_lower_Some)
qed

theorem event_names_witness:
  "ToEvent id ''sendCROSSchainMessage'' = Inr SendCrossChainMessage \<and>
   ToEvent id ''BlockPublished'' = Inl (GoError ''unknown event BlockPublished'')"
proof -
  have a: "is_ascii ''sendCROSSchainMessage''" "is_ascii ''BlockPublished''"
    by (simp_all add: is_ascii_def)
  have l: "map ascii_lower ''sendCROSSchainMessage'' = ''sendcrosschainmessage''"
    "map ascii_lower ''BlockPublished'' = ''blockpublished''"
    by (simp_all add: ascii_lower_def char_of_def bit_0)
  have k: "known_event SendCrossChainMessage" by (simp add: known_event_def)
  have "map ascii_lower ''sendCROSSchainMessage''
      = map ascii_lower (Event_String SendCrossChainMessage)"
    by (simp only: l lower_event_name)
  with k have 1: "ToEvent id ''sendCROSSchainMessage'' = Inr SendCrossChainMessage"
    by (intro event_names [THEN conjunct2, THEN mp, OF a(1), THEN conjunct1, THEN iffD2] conjI)
  have un: "map ascii_lower ''BlockPublished'' \<noteq> map ascii_lower (Event_String d)"
    if "known_event d" for d
    using that by (rule known_event_cases; simp only: l lower_event_name) simp_all
  have "\<forall>d. \<not> (known_event d \<and>
      map ascii_lower ''BlockPublished'' = map ascii_lower (Event_String d))"
    by (intro allI notI, elim conjE, erule notE [OF un])
  then have "ToEvent id ''BlockPublished''
      = Inl (GoError (''unknown event '' @ ''BlockPublished''))"
    by (rule event_names [THEN conjunct2, THEN mp, OF a(2), THEN conjunct2, THEN mp])
  with 1 show ?thesis by simp
qed

subsection \<open>Parsing a log\<close>

lemma has_type_zero: "has_type (zero_value T) T"
proof (induction T)
  case (TStruct n Ts)
  then show ?case by (auto simp: has_type_struct list_all2_map1 list_all2_same)
qed auto

text \<open>
  What the ABI package does to a struct it fills: it keeps its type. Nothing in it panics.
\<close>

definition fills_structs :: "abi_pkg \<Rightarrow> bool" where
  "fills_structs pkg \<longleftrightarrow>
     (\<forall>m. \<not> panics (pkg_GetAbi pkg m) \<and> pkg_GetAbi pkg m \<noteq> Inr None) \<and>
     (\<forall>m abi out event data T. pkg_GetAbi pkg m = Inr (Some abi) \<longrightarrow> has_type out T \<longrightarrow>
        \<not> panics (abi_UnpackIntoInterface abi out event data) \<and>
        (\<forall>v. abi_UnpackIntoInterface abi out event data = Inr v \<longrightarrow> has_type v T)) \<and>
     (\<forall>out args topics T. has_type out T \<longrightarrow> \<not> panics (pkg_ParseTopics pkg out args topics) \<and>
        (\<forall>v. pkg_ParseTopics pkg out args topics = Inr v \<longrightarrow> has_type v T))"

lemma panics_wrapE [simp]: "panics (wrapE msg r) = panics r"
  by (cases "(msg, r)" rule: wrapE.cases) (simp_all add: panics_def)

lemma fills_structsD:
  assumes "fills_structs pkg"
  shows "\<exists>r. pkg_GetAbi pkg m = Inr (Some r) \<or> (\<exists>msg. pkg_GetAbi pkg m = Inl (GoError msg))"
    and "pkg_GetAbi pkg m = Inr (Some abi) \<Longrightarrow> has_type out T \<Longrightarrow>
      \<not> panics (abi_UnpackIntoInterface abi out event data)"
    and "pkg_GetAbi pkg m = Inr (Some abi) \<Longrightarrow> has_type out T \<Longrightarrow>
      abi_UnpackIntoInterface abi out event data = Inr v \<Longrightarrow> has_type v T"
    and "has_type out T \<Longrightarrow> \<not> panics (pkg_ParseTopics pkg out args topics)"
    and "has_type out T \<Longrightarrow> pkg_ParseTopics pkg out args topics = Inr v \<Longrightarrow> has_type v T"
proof -
  have "\<not> panics (pkg_GetAbi pkg m)" "pkg_GetAbi pkg m \<noteq> Inr None"
    using assms unfolding fills_structs_def by blast+
  then show "\<exists>r. pkg_GetAbi pkg m = Inr (Some r) \<or> (\<exists>msg. pkg_GetAbi pkg m = Inl (GoError msg))"
    by (cases "pkg_GetAbi pkg m") (auto simp: panics_def, metis go_error.exhaust)
qed (use assms in \<open>unfold fills_structs_def, blast+\<close>)

lemma UnpackEvent_typed:
  assumes f: "fills_structs pkg" and out: "has_type out T"
  shows "(panics (UnpackEvent pkg out event topics data) \<longrightarrow> topics = []) \<and>
    (\<forall>v. UnpackEvent pkg out event topics data = Inr v \<longrightarrow> has_type v T \<and> topics \<noteq> [])"
proof -
  from fills_structsD(1) [OF f] consider (abi) abi where
      "pkg_GetAbi pkg TeleporterMessengerMetaData = Inr (Some abi)"
    | (error) msg where "pkg_GetAbi pkg TeleporterMessengerMetaData = Inl (GoError msg)"
    by blast
  then show ?thesis
  proof cases
    case error
    then show ?thesis by (simp add: UnpackEvent_def with_abi_def)
  next
    case abi
    let ?fill = "if length data > 0 then abi_UnpackIntoInterface abi out event data else Inr out"
    have fill: "\<not> panics ?fill" "\<And>v. ?fill = Inr v \<Longrightarrow> has_type v T"
      using fills_structsD(2,3) [OF f abi out] out by (auto split: if_splits)
    have "UnpackEvent pkg out event topics data = bindE ?fill (\<lambda>out1.
        bindE (topics_from_1 topics) (\<lambda>rest.
        pkg_ParseTopics pkg out1 (filter arg_Indexed (abi_Events abi event)) rest))"
      by (simp add: UnpackEvent_def with_abi_def abi Let_def)
    then show ?thesis
      using fill fills_structsD(4,5) [OF f]
      by (cases ?fill; cases topics) (auto simp: topics_from_1_def panics_bindE)
  qed
qed

lemma filter_events_no_panic:
  assumes "fills_structs pkg"
  shows "panics (FilterTeleporterEvents unicode_lower pkg topics data event) \<Longrightarrow> topics = []"
proof -
  have "\<not> panics (ToEvent unicode_lower event)"
    by (simp add: ToEvent_lower split: option.splits)
  moreover have "panics (UnpackEvent pkg (zero_value T) n topics data) \<Longrightarrow> topics = []" for T n
    using UnpackEvent_typed [OF assms has_type_zero] by blast
  ultimately show "panics (FilterTeleporterEvents unicode_lower pkg topics data event) \<Longrightarrow> topics = []"
    by (auto simp: FilterTeleporterEvents_def panics_bindE split: option.splits)
qed

text \<open>
  C32: Parsing a log returns a struct of the Go type of the named event; a name that denotes no
  event is an error; and the only panic is the one for a log without topics, of which the code
  takes the slice from index 1 without looking at the length.
\<close>

theorem filter_events_typed:
  assumes "fills_structs pkg"
  shows "(\<forall>v. FilterTeleporterEvents unicode_lower pkg topics data event = Inr v \<longrightarrow>
      (\<exists>e T. ToEvent unicode_lower event = Inr e \<and> event_type e = Some T \<and> has_type v T)) \<and>
    (\<forall>err. ToEvent unicode_lower event = Inl err \<longrightarrow>
      FilterTeleporterEvents unicode_lower pkg topics data event = Inl err) \<and>
    (panics (FilterTeleporterEvents unicode_lower pkg topics data event) \<longrightarrow> topics = []) \<and>
    (topics = [] \<longrightarrow>
      (\<forall>v. FilterTeleporterEvents unicode_lower pkg topics data event \<noteq> Inr v))"
proof -
  have "UnpackEvent pkg (zero_value T) n topics data = Inr v \<Longrightarrow> has_type v T"
    "UnpackEvent pkg (zero_value T) n [] data \<noteq> Inr v" for T n v
    using UnpackEvent_typed [OF assms has_type_zero] by blast+
  then show ?thesis
    using filter_events_no_panic [OF assms, of unicode_lower topics data event]
    by (auto simp: FilterTeleporterEvents_def split: option.splits)
qed

definition demo_pkg :: abi_pkg where
  "demo_pkg = \<lparr>pkg_NewType = Inr,
     pkg_GetAbi = (\<lambda>m. Inr (Some \<lparr>abi_Pack = (\<lambda>n vs. Inr []), abi_PackOutput = (\<lambda>n vs. Inr
        (case vs of [GBool True] \<Rightarrow> [1] | _ \<Rightarrow> [0])),
        abi_UnpackIntoInterface = (\<lambda>out n bs. Inr (case out of GBool b \<Rightarrow> GBool (bs = [1]) | _ \<Rightarrow> out)),
        abi_Events = (\<lambda>n. []), abi_EventByID = (\<lambda>t. Inr ''MessageExecuted'')\<rparr>)),
     pkg_ArgsPack = (\<lambda>T v. Inr []), pkg_ArgsUnpack = (\<lambda>T bs. Inr [strip (zero_value T)]),
     pkg_ArgsCopy = (\<lambda>T vs. case T of TStruct n Ts \<Rightarrow> Inr (GStruct n (retags vs Ts))
        | _ \<Rightarrow> Inl (GoError ''not a struct'')),
     pkg_ParseTopics = (\<lambda>out args topics. Inr out)\<rparr>"

lemma demo_pkg_fills: "fills_structs demo_pkg"
  by (auto simp: fills_structs_def demo_pkg_def split: go_value.splits)

theorem filter_events_typed_witness:
  "\<exists>v T. FilterTeleporterEvents id demo_pkg [5, 7, 1] [] ''MessageExecuted'' = Inr v \<and>
     event_type MessageExecuted = Some T \<and> has_type v T"
proof -
  have n: "Event_String MessageExecuted = ''MessageExecuted''"
    by (simp add: Event_String_def event_consts)
  have e: "ToEvent id ''MessageExecuted'' = Inr MessageExecuted"
    using ToEvent_name [of MessageExecuted id] by (simp add: n known_event_def)
  have T: "event_type MessageExecuted
      = Some (TStruct ''TeleporterMessengerMessageExecuted'' [TBytes32, TBigInt])"
    by (simp add: event_type_def event_consts)
  obtain v where v: "FilterTeleporterEvents id demo_pkg [5, 7, 1] [] ''MessageExecuted''
      = Inr v"
    by (simp add: FilterTeleporterEvents_def e n T UnpackEvent_def with_abi_def demo_pkg_def
        topics_from_1_def)
  then show ?thesis
    using filter_events_typed [OF demo_pkg_fills, of id "[5, 7, 1]" "[]"
        "''MessageExecuted''"] e by auto
qed

subsection \<open>Packing\<close>

text \<open>
  What the ABI codec promises. An integer is encoded as a word of 256 bits, so it comes back modulo
  \<open>2 ^ 256\<close>. Packing a value of the shape of a type and unpacking it again yields the value with
  wrapped integers and unnamed structs; \<open>Copy\<close> fills a struct with the unpacked values.
\<close>

fun wrapped :: "go_value \<Rightarrow> go_value" where
  "wrapped (GBigInt n) = GBigInt (n mod 2 ^ 256)"
| "wrapped (GSlice vs) = GSlice (map wrapped vs)"
| "wrapped (GStruct n vs) = GStruct n (map wrapped vs)"
| "wrapped v = v"

definition codec_wraps :: "abi_pkg \<Rightarrow> bool" where
  "codec_wraps pkg \<longleftrightarrow>
     (\<forall>T v bs. has_type (strip v) T \<longrightarrow> pkg_ArgsPack pkg T v = Inr bs \<longrightarrow>
        pkg_ArgsUnpack pkg T bs = Inr [wrapped (strip v)]) \<and>
     (\<forall>n T v. has_type (strip v) (abi_shape T) \<longrightarrow>
        pkg_ArgsCopy pkg (TStruct n [T]) [v] = Inr (GStruct n [retag v T]))"

lemma codec_wrapsD:
  assumes "codec_wraps pkg"
  shows "pkg_ArgsPack pkg T v = Inr bs \<Longrightarrow> has_type (strip v) T \<Longrightarrow>
      pkg_ArgsUnpack pkg T bs = Inr [wrapped (strip v)]"
    and "has_type (strip v) (abi_shape U) \<Longrightarrow>
      pkg_ArgsCopy pkg (TStruct n [U]) [v] = Inr (GStruct n [retag v U])"
  using assms by (simp_all add: codec_wraps_def)

lemma strip_strip [simp]: "strip (strip v) = strip v"
  by (induction v) auto

lemma retag_strip_receipts [simp]:
  "retag_all (map (strip \<circ> of_TeleporterMessageReceipt) rs) T_TeleporterMessageReceipt
     = map of_TeleporterMessageReceipt rs"
  by (induction rs)
    (simp_all add: of_TeleporterMessageReceipt_def T_TeleporterMessageReceipt_def)

lemma retag_strip_addresses [simp]:
  "retag_all (map (strip \<circ> GAddress) as) TAddress = map GAddress as"
  by (induction as) simp_all

lemma retag_strip_message:
  "retag (strip (of_TeleporterMessage m)) T_TeleporterMessage = of_TeleporterMessage m"
  by (simp add: of_TeleporterMessage_def T_TeleporterMessage_def)

lemma message_typed:
  "has_type (strip (of_TeleporterMessage m)) teleporterMessage_components"
  "abi_shape T_TeleporterMessage = teleporterMessage_components"
  by (auto simp: of_TeleporterMessage_def teleporterMessage_components_def has_type_struct
      of_TeleporterMessageReceipt_def T_TeleporterMessage_def T_TeleporterMessageReceipt_def)

lemma message_as_of: "as_TeleporterMessage (of_TeleporterMessage m) = Inr m"
proof -
  have r: "as_TeleporterMessageReceipt (of_TeleporterMessageReceipt x) = Inr x" for x
    by (simp add: as_TeleporterMessageReceipt_def of_TeleporterMessageReceipt_def go_index_def)
  show ?thesis
    by (simp add: as_TeleporterMessage_def of_TeleporterMessage_def go_index_def mapE_map r)
qed

text \<open>A message with its integers as words.\<close>

definition wrapped_receipt :: "Go_TeleporterMessageReceipt \<Rightarrow> Go_TeleporterMessageReceipt" where
  "wrapped_receipt r = r\<lparr>Go_TeleporterMessageReceipt_ReceivedMessageID :=
     Go_TeleporterMessageReceipt_ReceivedMessageID r mod 2 ^ 256\<rparr>"

definition wrapped_message :: "Go_TeleporterMessage \<Rightarrow> Go_TeleporterMessage" where
  "wrapped_message m = m\<lparr>
     Go_TeleporterMessage_MessageID := Go_TeleporterMessage_MessageID m mod 2 ^ 256,
     Go_TeleporterMessage_RequiredGasLimit := Go_TeleporterMessage_RequiredGasLimit m mod 2 ^ 256,
     Go_TeleporterMessage_Receipts := map wrapped_receipt (Go_TeleporterMessage_Receipts m)\<rparr>"

definition message_in_range :: "Go_TeleporterMessage \<Rightarrow> bool" where
  "message_in_range m \<longleftrightarrow> Go_TeleporterMessage_MessageID m \<in> {0..<2 ^ 256} \<and>
     Go_TeleporterMessage_RequiredGasLimit m \<in> {0..<2 ^ 256} \<and>
     (\<forall>r \<in> set (Go_TeleporterMessage_Receipts m).
        Go_TeleporterMessageReceipt_ReceivedMessageID r \<in> {0..<2 ^ 256})"

lemma wrapped_in_range:
  assumes "message_in_range m" shows "wrapped_message m = m"
proof -
  have "map wrapped_receipt (Go_TeleporterMessage_Receipts m) = Go_TeleporterMessage_Receipts m"
    using assms by (intro map_idI) (simp add: message_in_range_def wrapped_receipt_def)
  then show ?thesis using assms by (simp add: message_in_range_def wrapped_message_def)
qed

lemma wrapped_struct: "wrapped (strip (of_TeleporterMessage m)) = strip (of_TeleporterMessage (wrapped_message m))"
  by (simp add: of_TeleporterMessage_def of_TeleporterMessageReceipt_def wrapped_message_def
      wrapped_receipt_def)

lemma message_unpacks:
  assumes "codec_wraps pkg"
    and p: "PackTeleporterMessage pkg teleporterMessage_components msg = Inr bs"
  shows "UnpackTeleporterMessage pkg teleporterMessage_components bs = Inr (wrapped_message msg)"
proof -
  let ?v = "strip (of_TeleporterMessage (wrapped_message msg))"
  have "pkg_ArgsUnpack pkg teleporterMessage_components bs = Inr [?v]"
    using codec_wrapsD(1) [OF assms(1) p [unfolded PackTeleporterMessage_def] message_typed(1)]
    by (simp only: wrapped_struct)
  moreover have "pkg_ArgsCopy pkg (TStruct ''teleporterMessageArg'' [T_TeleporterMessage]) [?v]
      = Inr (GStruct ''teleporterMessageArg'' [retag ?v T_TeleporterMessage])"
    by (rule codec_wrapsD(2) [OF assms(1)]) (simp only: strip_strip message_typed)
  ultimately show ?thesis
    by (simp add: UnpackTeleporterMessage_def retag_strip_message message_as_of go_index_def)
qed

text \<open>
  C31: A Teleporter message survives its encoding. What \<open>PackTeleporterMessage\<close> encodes,
  \<open>UnpackTeleporterMessage\<close> decodes to the same message, with all its fields, its relayers and its
  receipts in order, but for the integers, which come back modulo \<open>2 ^ 256\<close>: a message with IDs and
  a gas limit of 256 bits comes back as it is. So two messages with the same encoding agree in all
  fields up to such a multiple.
\<close>

theorem message_round_trip:
  assumes "codec_wraps pkg"
    and "PackTeleporterMessage pkg teleporterMessage_components msg = Inr bs"
  shows "UnpackTeleporterMessage pkg teleporterMessage_components bs = Inr (wrapped_message msg) \<and>
    (message_in_range msg \<longrightarrow>
      UnpackTeleporterMessage pkg teleporterMessage_components bs = Inr msg) \<and>
    (\<forall>msg'. PackTeleporterMessage pkg teleporterMessage_components msg' = Inr bs \<longrightarrow>
      wrapped_message msg' = wrapped_message msg)"
proof (intro conjI impI allI)
  show u: "UnpackTeleporterMessage pkg teleporterMessage_components bs = Inr (wrapped_message msg)"
    using assms by (rule message_unpacks)
  show "UnpackTeleporterMessage pkg teleporterMessage_components bs = Inr msg" if "message_in_range msg"
    using u wrapped_in_range [OF that] by simp
  show "wrapped_message msg' = wrapped_message msg"
    if "PackTeleporterMessage pkg teleporterMessage_components msg' = Inr bs" for msg'
    using u message_unpacks [OF assms(1) that] by simp
qed

definition demo_codec :: "go_value \<Rightarrow> abi_pkg" where
  "demo_codec v = demo_pkg\<lparr>
     pkg_ArgsPack := (\<lambda>T u. if strip u = strip v then Inr [1] else Inl (GoError ''not the value'')),
     pkg_ArgsUnpack := (\<lambda>T bs. if bs = [1] then Inr [strip v] else Inl (GoError ''bad bytes''))\<rparr>"

definition demo_go_message :: Go_TeleporterMessage where
  "demo_go_message = \<lparr>Go_TeleporterMessage_MessageID = 3, Go_TeleporterMessage_SenderAddress = 6,
     Go_TeleporterMessage_DestinationBlockchainID = 5, Go_TeleporterMessage_DestinationAddress = 8,
     Go_TeleporterMessage_RequiredGasLimit = 100,
     Go_TeleporterMessage_AllowedRelayerAddresses = [2],
     Go_TeleporterMessage_Receipts = [\<lparr>Go_TeleporterMessageReceipt_ReceivedMessageID = 1,
       Go_TeleporterMessageReceipt_RelayerRewardAddress = 4\<rparr>],
     Go_TeleporterMessage_Message = [65]\<rparr>"

text \<open>A codec for all values of all types: the values are numbered.\<close>

instance go_value :: countable
  by countable_datatype

definition numbered_codec :: abi_pkg where
  "numbered_codec = demo_pkg\<lparr>
     pkg_ArgsPack := (\<lambda>T v. if has_type (strip v) T then Inr (demo_encode (wrapped (strip v)))
       else Inl (GoError ''abi: cannot use value'')),
     pkg_ArgsUnpack := (\<lambda>T bs. case demo_decode bs of
       Some v \<Rightarrow> if has_type v T then Inr [v] else Inl (GoError ''abi: improperly encoded'')
     | None \<Rightarrow> Inl (GoError ''abi: improperly encoded''))\<rparr>"

lemma wrapped_typed:
  "has_type v T \<Longrightarrow> has_type (wrapped v) T"
  "have_types vs Ts \<Longrightarrow> have_types (map wrapped vs) Ts"
  "all_have_type vs T \<Longrightarrow> all_have_type (map wrapped vs) T"
  by (induction v T and vs Ts and vs T rule: has_type_have_types_all_have_type.induct)
    (auto split: go_type.splits list.splits)

lemma numbered_codec_wraps: "codec_wraps numbered_codec"
  by (auto simp: codec_wraps_def numbered_codec_def demo_pkg_def wrapped_typed)

theorem message_round_trip_witness:
  "\<exists>bs. PackTeleporterMessage numbered_codec teleporterMessage_components demo_go_message = Inr bs \<and>
     UnpackTeleporterMessage numbered_codec teleporterMessage_components bs = Inr demo_go_message"
proof -
  obtain bs where p: "PackTeleporterMessage numbered_codec teleporterMessage_components demo_go_message
      = Inr bs"
    by (simp add: PackTeleporterMessage_def numbered_codec_def message_typed)
  have "message_in_range demo_go_message" by (simp add: message_in_range_def demo_go_message_def)
  with message_round_trip [OF numbered_codec_wraps p] p show ?thesis by blast
qed

end
