(* ===== verification/Bind_TeleporterRegistry.thy ===== *)
theory Bind_TeleporterRegistry
  imports Go_Bind
begin

section \<open>The Go binding of TeleporterRegistry\<close>

text \<open>
  One definition per type and function of
  \<open>abi-bindings/go/Teleporter/upgrades/TeleporterRegistry/TeleporterRegistry.go\<close>,
  in the order of the file: structs, the ABI of the metadata, the facets of the bound contract, the
  read-only methods, the transactions, and for each event its struct, iterator, filter,
  subscription and parser. The option structs, the chain and the library are parameters.
\<close>

subsection \<open>Structs\<close>

record Go_ProtocolRegistryEntry =
  Go_ProtocolRegistryEntry_Version :: int
  Go_ProtocolRegistryEntry_ProtocolAddress :: address

definition T_ProtocolRegistryEntry :: go_type where
  "T_ProtocolRegistryEntry = TStruct ''ProtocolRegistryEntry'' [TBigInt, TAddress]"

definition of_ProtocolRegistryEntry :: "Go_ProtocolRegistryEntry \<Rightarrow> go_value" where
  "of_ProtocolRegistryEntry x = GStruct ''ProtocolRegistryEntry''
     [GBigInt (Go_ProtocolRegistryEntry_Version x),
      GAddress (Go_ProtocolRegistryEntry_ProtocolAddress x)]"

definition as_ProtocolRegistryEntry :: "go_value \<Rightarrow> go_error + Go_ProtocolRegistryEntry" where
  "as_ProtocolRegistryEntry v =
     bindE (as_struct ''ProtocolRegistryEntry'' v) (\<lambda>vs.
     bindE (bindE (go_index vs 0) as_bigint) (\<lambda>x0.
     bindE (bindE (go_index vs 1) as_address) (\<lambda>x1.
     Inr \<lparr>Go_ProtocolRegistryEntry_Version = x0,
       Go_ProtocolRegistryEntry_ProtocolAddress = x1\<rparr>)))"

subsection \<open>The ABI\<close>

definition TeleporterRegistryMetaData :: abi_meta where
  "TeleporterRegistryMetaData =
     \<lparr>meta_name = ''TeleporterRegistry'',
      meta_constructor = [TSlice (TStruct [] [TBigInt, TAddress])],
      meta_methods = [
        (''MAX_VERSION_INCREMENT'', [], [TBigInt]),
        (''VALIDATORS_SOURCE_ADDRESS'', [], [TAddress]),
        (''WARP_MESSENGER'', [], [TAddress]),
        (''addProtocolVersion'', [TUint32], []),
        (''blockchainID'', [], [TBytes32]),
        (''getAddressFromVersion'', [TBigInt], [TAddress]),
        (''getLatestTeleporter'', [], [TAddress]),
        (''getTeleporterFromVersion'', [TBigInt], [TAddress]),
        (''getVersionFromAddress'', [TAddress], [TBigInt]),
        (''latestVersion'', [], [TBigInt])],
      meta_events = [
        (''AddProtocolVersion'', [(TBigInt, True), (TAddress, True)]),
        (''LatestVersionUpdated'', [(TBigInt, True), (TBigInt, True)])]\<rparr>"

subsection \<open>The bound contract and its facets\<close>

record ('s, 'o, 'tx) TeleporterRegistryCaller =
  TeleporterRegistryCaller_contract :: "('s, 'o, 'tx) bound_contract"

record ('s, 'o, 'tx) TeleporterRegistryTransactor =
  TeleporterRegistryTransactor_contract :: "('s, 'o, 'tx) bound_contract"

record ('s, 'o, 'tx) TeleporterRegistryFilterer =
  TeleporterRegistryFilterer_contract :: "('s, 'o, 'tx) bound_contract"

record ('s, 'o, 'tx) TeleporterRegistry =
  TeleporterRegistry_Caller :: "('s, 'o, 'tx) TeleporterRegistryCaller"
  TeleporterRegistry_Transactor :: "('s, 'o, 'tx) TeleporterRegistryTransactor"
  TeleporterRegistry_Filterer :: "('s, 'o, 'tx) TeleporterRegistryFilterer"

record ('s, 'o, 'tx) TeleporterRegistrySession =
  TeleporterRegistrySession_Contract :: "('s, 'o, 'tx) TeleporterRegistry"
  TeleporterRegistrySession_CallOpts :: 'o
  TeleporterRegistrySession_TransactOpts :: 'o

record ('s, 'o, 'tx) TeleporterRegistryCallerSession =
  TeleporterRegistryCallerSession_Contract :: "('s, 'o, 'tx) TeleporterRegistryCaller"
  TeleporterRegistryCallerSession_CallOpts :: 'o

record ('s, 'o, 'tx) TeleporterRegistryTransactorSession =
  TeleporterRegistryTransactorSession_Contract :: "('s, 'o, 'tx) TeleporterRegistryTransactor"
  TeleporterRegistryTransactorSession_TransactOpts :: 'o

record ('s, 'o, 'tx) TeleporterRegistryRaw =
  TeleporterRegistryRaw_Contract :: "('s, 'o, 'tx) TeleporterRegistry"

record ('s, 'o, 'tx) TeleporterRegistryCallerRaw =
  TeleporterRegistryCallerRaw_Contract :: "('s, 'o, 'tx) TeleporterRegistryCaller"

record ('s, 'o, 'tx) TeleporterRegistryTransactorRaw =
  TeleporterRegistryTransactorRaw_Contract :: "('s, 'o, 'tx) TeleporterRegistryTransactor"

definition bindTeleporterRegistry ::
  "('s, 'o, 'tx, 'abi, 'k) bind_lib \<Rightarrow> address \<Rightarrow> 'k option \<Rightarrow> 'k option \<Rightarrow> 'k option
    \<Rightarrow> go_error + ('s, 'o, 'tx) bound_contract" where
  "bindTeleporterRegistry lib addr caller transactor filterer =
     bindE (lib_GetAbi lib TeleporterRegistryMetaData) (\<lambda>parsed.
     case parsed of
       None \<Rightarrow> Inl (GoPanic ''nil pointer dereference'')
     | Some abi \<Rightarrow> Inr (lib_NewBoundContract lib addr abi caller transactor filterer))"

definition DeployTeleporterRegistry ::
  "('s, 'o, 'tx, 'abi, 'k) bind_lib \<Rightarrow> 'o \<Rightarrow> 'k \<Rightarrow> Go_ProtocolRegistryEntry list \<Rightarrow> 's
    \<Rightarrow> go_error + (address \<times> 'tx \<times> ('s, 'o, 'tx) TeleporterRegistry \<times> 's)" where
  "DeployTeleporterRegistry lib auth backend initialEntries s =
     bindE (lib_GetAbi lib TeleporterRegistryMetaData) (\<lambda>parsed.
     case parsed of
       None \<Rightarrow> Inl (GoError ''GetABI returned nil'')
     | Some abi \<Rightarrow>
         bindE (lib_DeployContract lib auth abi (meta_name TeleporterRegistryMetaData) backend
             [GSlice (map of_ProtocolRegistryEntry initialEntries)] s)
         (\<lambda>(addr, tx, c, s').
         Inr (addr, tx, \<lparr>TeleporterRegistry_Caller = \<lparr>TeleporterRegistryCaller_contract = c\<rparr>,
         TeleporterRegistry_Transactor = \<lparr>TeleporterRegistryTransactor_contract = c\<rparr>,
         TeleporterRegistry_Filterer = \<lparr>TeleporterRegistryFilterer_contract = c\<rparr>\<rparr>, s')))"

definition NewTeleporterRegistry ::
  "('s, 'o, 'tx, 'abi, 'k) bind_lib \<Rightarrow> address \<Rightarrow> 'k \<Rightarrow> go_error + ('s, 'o, 'tx) TeleporterRegistry"
      where
  "NewTeleporterRegistry lib addr backend =
     bindE (bindTeleporterRegistry lib addr (Some backend) (Some backend) (Some backend)) (\<lambda>c.
     Inr \<lparr>TeleporterRegistry_Caller = \<lparr>TeleporterRegistryCaller_contract = c\<rparr>,
         TeleporterRegistry_Transactor = \<lparr>TeleporterRegistryTransactor_contract = c\<rparr>,
         TeleporterRegistry_Filterer = \<lparr>TeleporterRegistryFilterer_contract = c\<rparr>\<rparr>)"

definition NewTeleporterRegistryCaller ::
  "('s, 'o, 'tx, 'abi, 'k) bind_lib \<Rightarrow> address \<Rightarrow> 'k \<Rightarrow> go_error + ('s, 'o, 'tx)
      TeleporterRegistryCaller" where
  "NewTeleporterRegistryCaller lib addr b =
     bindE (bindTeleporterRegistry lib addr (Some b) None None) (\<lambda>c.
     Inr \<lparr>TeleporterRegistryCaller_contract = c\<rparr>)"

definition NewTeleporterRegistryTransactor ::
  "('s, 'o, 'tx, 'abi, 'k) bind_lib \<Rightarrow> address \<Rightarrow> 'k \<Rightarrow> go_error + ('s, 'o, 'tx)
      TeleporterRegistryTransactor" where
  "NewTeleporterRegistryTransactor lib addr b =
     bindE (bindTeleporterRegistry lib addr None (Some b) None) (\<lambda>c.
     Inr \<lparr>TeleporterRegistryTransactor_contract = c\<rparr>)"

definition NewTeleporterRegistryFilterer ::
  "('s, 'o, 'tx, 'abi, 'k) bind_lib \<Rightarrow> address \<Rightarrow> 'k \<Rightarrow> go_error + ('s, 'o, 'tx)
      TeleporterRegistryFilterer" where
  "NewTeleporterRegistryFilterer lib addr b =
     bindE (bindTeleporterRegistry lib addr None None (Some b)) (\<lambda>c.
     Inr \<lparr>TeleporterRegistryFilterer_contract = c\<rparr>)"

definition TeleporterRegistryRaw_Call ::
  "('s, 'o, 'tx) TeleporterRegistryRaw \<Rightarrow> 'o \<Rightarrow> string \<Rightarrow> go_value list \<Rightarrow> 's
    \<Rightarrow> go_error + go_value list" where
  "TeleporterRegistryRaw_Call r opts method params s =
     bc_Call (TeleporterRegistryCaller_contract (TeleporterRegistry_Caller
         (TeleporterRegistryRaw_Contract r))) opts method params s"

definition TeleporterRegistryRaw_Transfer ::
  "('s, 'o, 'tx) TeleporterRegistryRaw \<Rightarrow> 'o \<Rightarrow> 's \<Rightarrow> go_error + ('tx \<times> 's)" where
  "TeleporterRegistryRaw_Transfer r opts s =
     bc_Transfer (TeleporterRegistryTransactor_contract (TeleporterRegistry_Transactor
         (TeleporterRegistryRaw_Contract r))) opts s"

definition TeleporterRegistryRaw_Transact ::
  "('s, 'o, 'tx) TeleporterRegistryRaw \<Rightarrow> 'o \<Rightarrow> string \<Rightarrow> go_value list \<Rightarrow> 's
    \<Rightarrow> go_error + ('tx \<times> 's)" where
  "TeleporterRegistryRaw_Transact r opts method params s =
     bc_Transact (TeleporterRegistryTransactor_contract (TeleporterRegistry_Transactor
         (TeleporterRegistryRaw_Contract r))) opts method params s"

definition TeleporterRegistryCallerRaw_Call ::
  "('s, 'o, 'tx) TeleporterRegistryCallerRaw \<Rightarrow> 'o \<Rightarrow> string \<Rightarrow> go_value list \<Rightarrow> 's
    \<Rightarrow> go_error + go_value list" where
  "TeleporterRegistryCallerRaw_Call r opts method params s =
     bc_Call (TeleporterRegistryCaller_contract (TeleporterRegistryCallerRaw_Contract r)) opts
         method params s"

definition TeleporterRegistryTransactorRaw_Transfer ::
  "('s, 'o, 'tx) TeleporterRegistryTransactorRaw \<Rightarrow> 'o \<Rightarrow> 's \<Rightarrow> go_error + ('tx \<times> 's)" where
  "TeleporterRegistryTransactorRaw_Transfer r opts s =
     bc_Transfer (TeleporterRegistryTransactor_contract (TeleporterRegistryTransactorRaw_Contract
         r)) opts s"

definition TeleporterRegistryTransactorRaw_Transact ::
  "('s, 'o, 'tx) TeleporterRegistryTransactorRaw \<Rightarrow> 'o \<Rightarrow> string \<Rightarrow> go_value list \<Rightarrow> 's
    \<Rightarrow> go_error + ('tx \<times> 's)" where
  "TeleporterRegistryTransactorRaw_Transact r opts method params s =
     bc_Transact (TeleporterRegistryTransactor_contract (TeleporterRegistryTransactorRaw_Contract
         r)) opts method params s"

subsection \<open>Read-only methods\<close>

definition TeleporterRegistryCaller_MAXVERSIONINCREMENT ::
  "('s, 'o, 'tx) TeleporterRegistryCaller \<Rightarrow> 'o \<Rightarrow> 's
    \<Rightarrow> go_error + int" where
  "TeleporterRegistryCaller_MAXVERSIONINCREMENT c opts s =
     bindE (bc_Call (TeleporterRegistryCaller_contract c) opts ''MAX_VERSION_INCREMENT'' [] s)
         (\<lambda>out.
     bindE (go_out (TeleporterRegistryCaller_contract c) out 0 TBigInt as_bigint) (\<lambda>out0.
     Inr out0))"

definition TeleporterRegistrySession_MAXVERSIONINCREMENT ::
  "('s, 'o, 'tx) TeleporterRegistrySession \<Rightarrow> 's
    \<Rightarrow> go_error + int" where
  "TeleporterRegistrySession_MAXVERSIONINCREMENT ss s =
     TeleporterRegistryCaller_MAXVERSIONINCREMENT (TeleporterRegistry_Caller
         (TeleporterRegistrySession_Contract ss))
       (TeleporterRegistrySession_CallOpts ss) s"

definition TeleporterRegistryCallerSession_MAXVERSIONINCREMENT ::
  "('s, 'o, 'tx) TeleporterRegistryCallerSession \<Rightarrow> 's
    \<Rightarrow> go_error + int" where
  "TeleporterRegistryCallerSession_MAXVERSIONINCREMENT ss s =
     TeleporterRegistryCaller_MAXVERSIONINCREMENT (TeleporterRegistryCallerSession_Contract ss)
       (TeleporterRegistryCallerSession_CallOpts ss) s"

definition TeleporterRegistryCaller_VALIDATORSSOURCEADDRESS ::
  "('s, 'o, 'tx) TeleporterRegistryCaller \<Rightarrow> 'o \<Rightarrow> 's
    \<Rightarrow> go_error + address" where
  "TeleporterRegistryCaller_VALIDATORSSOURCEADDRESS c opts s =
     bindE (bc_Call (TeleporterRegistryCaller_contract c) opts ''VALIDATORS_SOURCE_ADDRESS'' []
         s) (\<lambda>out.
     bindE (go_out (TeleporterRegistryCaller_contract c) out 0 TAddress as_address) (\<lambda>out0.
     Inr out0))"

definition TeleporterRegistrySession_VALIDATORSSOURCEADDRESS ::
  "('s, 'o, 'tx) TeleporterRegistrySession \<Rightarrow> 's
    \<Rightarrow> go_error + address" where
  "TeleporterRegistrySession_VALIDATORSSOURCEADDRESS ss s =
     TeleporterRegistryCaller_VALIDATORSSOURCEADDRESS (TeleporterRegistry_Caller
         (TeleporterRegistrySession_Contract ss))
       (TeleporterRegistrySession_CallOpts ss) s"

definition TeleporterRegistryCallerSession_VALIDATORSSOURCEADDRESS ::
  "('s, 'o, 'tx) TeleporterRegistryCallerSession \<Rightarrow> 's
    \<Rightarrow> go_error + address" where
  "TeleporterRegistryCallerSession_VALIDATORSSOURCEADDRESS ss s =
     TeleporterRegistryCaller_VALIDATORSSOURCEADDRESS (TeleporterRegistryCallerSession_Contract
         ss)
       (TeleporterRegistryCallerSession_CallOpts ss) s"

definition TeleporterRegistryCaller_WARPMESSENGER ::
  "('s, 'o, 'tx) TeleporterRegistryCaller \<Rightarrow> 'o \<Rightarrow> 's
    \<Rightarrow> go_error + address" where
  "TeleporterRegistryCaller_WARPMESSENGER c opts s =
     bindE (bc_Call (TeleporterRegistryCaller_contract c) opts ''WARP_MESSENGER'' [] s) (\<lambda>out.
     bindE (go_out (TeleporterRegistryCaller_contract c) out 0 TAddress as_address) (\<lambda>out0.
     Inr out0))"

definition TeleporterRegistrySession_WARPMESSENGER ::
  "('s, 'o, 'tx) TeleporterRegistrySession \<Rightarrow> 's
    \<Rightarrow> go_error + address" where
  "TeleporterRegistrySession_WARPMESSENGER ss s =
     TeleporterRegistryCaller_WARPMESSENGER (TeleporterRegistry_Caller
         (TeleporterRegistrySession_Contract ss))
       (TeleporterRegistrySession_CallOpts ss) s"

definition TeleporterRegistryCallerSession_WARPMESSENGER ::
  "('s, 'o, 'tx) TeleporterRegistryCallerSession \<Rightarrow> 's
    \<Rightarrow> go_error + address" where
  "TeleporterRegistryCallerSession_WARPMESSENGER ss s =
     TeleporterRegistryCaller_WARPMESSENGER (TeleporterRegistryCallerSession_Contract ss)
       (TeleporterRegistryCallerSession_CallOpts ss) s"

definition TeleporterRegistryCaller_BlockchainID ::
  "('s, 'o, 'tx) TeleporterRegistryCaller \<Rightarrow> 'o \<Rightarrow> 's
    \<Rightarrow> go_error + bytes32" where
  "TeleporterRegistryCaller_BlockchainID c opts s =
     bindE (bc_Call (TeleporterRegistryCaller_contract c) opts ''blockchainID'' [] s) (\<lambda>out.
     bindE (go_out (TeleporterRegistryCaller_contract c) out 0 TBytes32 as_bytes32) (\<lambda>out0.
     Inr out0))"

definition TeleporterRegistrySession_BlockchainID ::
  "('s, 'o, 'tx) TeleporterRegistrySession \<Rightarrow> 's
    \<Rightarrow> go_error + bytes32" where
  "TeleporterRegistrySession_BlockchainID ss s =
     TeleporterRegistryCaller_BlockchainID (TeleporterRegistry_Caller
         (TeleporterRegistrySession_Contract ss))
       (TeleporterRegistrySession_CallOpts ss) s"

definition TeleporterRegistryCallerSession_BlockchainID ::
  "('s, 'o, 'tx) TeleporterRegistryCallerSession \<Rightarrow> 's
    \<Rightarrow> go_error + bytes32" where
  "TeleporterRegistryCallerSession_BlockchainID ss s =
     TeleporterRegistryCaller_BlockchainID (TeleporterRegistryCallerSession_Contract ss)
       (TeleporterRegistryCallerSession_CallOpts ss) s"

definition TeleporterRegistryCaller_GetAddressFromVersion ::
  "('s, 'o, 'tx) TeleporterRegistryCaller \<Rightarrow> 'o \<Rightarrow> int \<Rightarrow> 's
    \<Rightarrow> go_error + address" where
  "TeleporterRegistryCaller_GetAddressFromVersion c opts version s =
     bindE (bc_Call (TeleporterRegistryCaller_contract c) opts ''getAddressFromVersion'' [GBigInt
         version] s) (\<lambda>out.
     bindE (go_out (TeleporterRegistryCaller_contract c) out 0 TAddress as_address) (\<lambda>out0.
     Inr out0))"

definition TeleporterRegistrySession_GetAddressFromVersion ::
  "('s, 'o, 'tx) TeleporterRegistrySession \<Rightarrow> int \<Rightarrow> 's
    \<Rightarrow> go_error + address" where
  "TeleporterRegistrySession_GetAddressFromVersion ss version s =
     TeleporterRegistryCaller_GetAddressFromVersion (TeleporterRegistry_Caller
         (TeleporterRegistrySession_Contract ss))
       (TeleporterRegistrySession_CallOpts ss) version s"

definition TeleporterRegistryCallerSession_GetAddressFromVersion ::
  "('s, 'o, 'tx) TeleporterRegistryCallerSession \<Rightarrow> int \<Rightarrow> 's
    \<Rightarrow> go_error + address" where
  "TeleporterRegistryCallerSession_GetAddressFromVersion ss version s =
     TeleporterRegistryCaller_GetAddressFromVersion (TeleporterRegistryCallerSession_Contract ss)
       (TeleporterRegistryCallerSession_CallOpts ss) version s"

definition TeleporterRegistryCaller_GetLatestTeleporter ::
  "('s, 'o, 'tx) TeleporterRegistryCaller \<Rightarrow> 'o \<Rightarrow> 's
    \<Rightarrow> go_error + address" where
  "TeleporterRegistryCaller_GetLatestTeleporter c opts s =
     bindE (bc_Call (TeleporterRegistryCaller_contract c) opts ''getLatestTeleporter'' [] s)
         (\<lambda>out.
     bindE (go_out (TeleporterRegistryCaller_contract c) out 0 TAddress as_address) (\<lambda>out0.
     Inr out0))"

definition TeleporterRegistrySession_GetLatestTeleporter ::
  "('s, 'o, 'tx) TeleporterRegistrySession \<Rightarrow> 's
    \<Rightarrow> go_error + address" where
  "TeleporterRegistrySession_GetLatestTeleporter ss s =
     TeleporterRegistryCaller_GetLatestTeleporter (TeleporterRegistry_Caller
         (TeleporterRegistrySession_Contract ss))
       (TeleporterRegistrySession_CallOpts ss) s"

definition TeleporterRegistryCallerSession_GetLatestTeleporter ::
  "('s, 'o, 'tx) TeleporterRegistryCallerSession \<Rightarrow> 's
    \<Rightarrow> go_error + address" where
  "TeleporterRegistryCallerSession_GetLatestTeleporter ss s =
     TeleporterRegistryCaller_GetLatestTeleporter (TeleporterRegistryCallerSession_Contract ss)
       (TeleporterRegistryCallerSession_CallOpts ss) s"

definition TeleporterRegistryCaller_GetTeleporterFromVersion ::
  "('s, 'o, 'tx) TeleporterRegistryCaller \<Rightarrow> 'o \<Rightarrow> int \<Rightarrow> 's
    \<Rightarrow> go_error + address" where
  "TeleporterRegistryCaller_GetTeleporterFromVersion c opts version s =
     bindE (bc_Call (TeleporterRegistryCaller_contract c) opts ''getTeleporterFromVersion''
         [GBigInt version] s) (\<lambda>out.
     bindE (go_out (TeleporterRegistryCaller_contract c) out 0 TAddress as_address) (\<lambda>out0.
     Inr out0))"

definition TeleporterRegistrySession_GetTeleporterFromVersion ::
  "('s, 'o, 'tx) TeleporterRegistrySession \<Rightarrow> int \<Rightarrow> 's
    \<Rightarrow> go_error + address" where
  "TeleporterRegistrySession_GetTeleporterFromVersion ss version s =
     TeleporterRegistryCaller_GetTeleporterFromVersion (TeleporterRegistry_Caller
         (TeleporterRegistrySession_Contract ss))
       (TeleporterRegistrySession_CallOpts ss) version s"

definition TeleporterRegistryCallerSession_GetTeleporterFromVersion ::
  "('s, 'o, 'tx) TeleporterRegistryCallerSession \<Rightarrow> int \<Rightarrow> 's
    \<Rightarrow> go_error + address" where
  "TeleporterRegistryCallerSession_GetTeleporterFromVersion ss version s =
     TeleporterRegistryCaller_GetTeleporterFromVersion (TeleporterRegistryCallerSession_Contract
         ss)
       (TeleporterRegistryCallerSession_CallOpts ss) version s"

definition TeleporterRegistryCaller_GetVersionFromAddress ::
  "('s, 'o, 'tx) TeleporterRegistryCaller \<Rightarrow> 'o \<Rightarrow> address \<Rightarrow> 's
    \<Rightarrow> go_error + int" where
  "TeleporterRegistryCaller_GetVersionFromAddress c opts protocolAddress s =
     bindE (bc_Call (TeleporterRegistryCaller_contract c) opts ''getVersionFromAddress''
         [GAddress protocolAddress] s) (\<lambda>out.
     bindE (go_out (TeleporterRegistryCaller_contract c) out 0 TBigInt as_bigint) (\<lambda>out0.
     Inr out0))"

definition TeleporterRegistrySession_GetVersionFromAddress ::
  "('s, 'o, 'tx) TeleporterRegistrySession \<Rightarrow> address \<Rightarrow> 's
    \<Rightarrow> go_error + int" where
  "TeleporterRegistrySession_GetVersionFromAddress ss protocolAddress s =
     TeleporterRegistryCaller_GetVersionFromAddress (TeleporterRegistry_Caller
         (TeleporterRegistrySession_Contract ss))
       (TeleporterRegistrySession_CallOpts ss) protocolAddress s"

definition TeleporterRegistryCallerSession_GetVersionFromAddress ::
  "('s, 'o, 'tx) TeleporterRegistryCallerSession \<Rightarrow> address \<Rightarrow> 's
    \<Rightarrow> go_error + int" where
  "TeleporterRegistryCallerSession_GetVersionFromAddress ss protocolAddress s =
     TeleporterRegistryCaller_GetVersionFromAddress (TeleporterRegistryCallerSession_Contract ss)
       (TeleporterRegistryCallerSession_CallOpts ss) protocolAddress s"

definition TeleporterRegistryCaller_LatestVersion ::
  "('s, 'o, 'tx) TeleporterRegistryCaller \<Rightarrow> 'o \<Rightarrow> 's
    \<Rightarrow> go_error + int" where
  "TeleporterRegistryCaller_LatestVersion c opts s =
     bindE (bc_Call (TeleporterRegistryCaller_contract c) opts ''latestVersion'' [] s) (\<lambda>out.
     bindE (go_out (TeleporterRegistryCaller_contract c) out 0 TBigInt as_bigint) (\<lambda>out0.
     Inr out0))"

definition TeleporterRegistrySession_LatestVersion ::
  "('s, 'o, 'tx) TeleporterRegistrySession \<Rightarrow> 's
    \<Rightarrow> go_error + int" where
  "TeleporterRegistrySession_LatestVersion ss s =
     TeleporterRegistryCaller_LatestVersion (TeleporterRegistry_Caller
         (TeleporterRegistrySession_Contract ss))
       (TeleporterRegistrySession_CallOpts ss) s"

definition TeleporterRegistryCallerSession_LatestVersion ::
  "('s, 'o, 'tx) TeleporterRegistryCallerSession \<Rightarrow> 's
    \<Rightarrow> go_error + int" where
  "TeleporterRegistryCallerSession_LatestVersion ss s =
     TeleporterRegistryCaller_LatestVersion (TeleporterRegistryCallerSession_Contract ss)
       (TeleporterRegistryCallerSession_CallOpts ss) s"

subsection \<open>Transactions\<close>

definition TeleporterRegistryTransactor_AddProtocolVersion ::
  "('s, 'o, 'tx) TeleporterRegistryTransactor \<Rightarrow> 'o \<Rightarrow> uint32 \<Rightarrow> 's
    \<Rightarrow> go_error + ('tx \<times> 's)" where
  "TeleporterRegistryTransactor_AddProtocolVersion c opts messageIndex s =
     bc_Transact (TeleporterRegistryTransactor_contract c) opts ''addProtocolVersion''
       [GUint32 messageIndex] s"

definition TeleporterRegistrySession_AddProtocolVersion ::
  "('s, 'o, 'tx) TeleporterRegistrySession \<Rightarrow> uint32 \<Rightarrow> 's
    \<Rightarrow> go_error + ('tx \<times> 's)" where
  "TeleporterRegistrySession_AddProtocolVersion ss messageIndex s =
     TeleporterRegistryTransactor_AddProtocolVersion (TeleporterRegistry_Transactor
         (TeleporterRegistrySession_Contract ss))
       (TeleporterRegistrySession_TransactOpts ss) messageIndex s"

definition TeleporterRegistryTransactorSession_AddProtocolVersion ::
  "('s, 'o, 'tx) TeleporterRegistryTransactorSession \<Rightarrow> uint32 \<Rightarrow> 's
    \<Rightarrow> go_error + ('tx \<times> 's)" where
  "TeleporterRegistryTransactorSession_AddProtocolVersion ss messageIndex s =
     TeleporterRegistryTransactor_AddProtocolVersion
         (TeleporterRegistryTransactorSession_Contract ss)
       (TeleporterRegistryTransactorSession_TransactOpts ss) messageIndex s"

subsection \<open>Events\<close>

text \<open>The event \<open>AddProtocolVersion\<close>.\<close>

record TeleporterRegistryAddProtocolVersion =
  TeleporterRegistryAddProtocolVersion_Version :: int
  TeleporterRegistryAddProtocolVersion_ProtocolAddress :: address
  TeleporterRegistryAddProtocolVersion_Raw :: log

definition filled_TeleporterRegistryAddProtocolVersion :: "go_value \<Rightarrow> log \<Rightarrow>
    TeleporterRegistryAddProtocolVersion" where
  "filled_TeleporterRegistryAddProtocolVersion v raw =
     \<lparr>TeleporterRegistryAddProtocolVersion_Version = filled as_bigint TBigInt v 0,
       TeleporterRegistryAddProtocolVersion_ProtocolAddress = filled as_address TAddress v 1,
       TeleporterRegistryAddProtocolVersion_Raw = raw\<rparr>"

definition unpack_TeleporterRegistryAddProtocolVersion ::
  "('s, 'o, 'tx) bound_contract \<Rightarrow> string \<Rightarrow> log \<Rightarrow> go_error + TeleporterRegistryAddProtocolVersion"
      where
  "unpack_TeleporterRegistryAddProtocolVersion c event raw =
     bindE (bc_UnpackLog c (TStruct ''TeleporterRegistryAddProtocolVersion'' [TBigInt, TAddress])
         event raw) (\<lambda>v.
     Inr (filled_TeleporterRegistryAddProtocolVersion v raw))"

definition TeleporterRegistryAddProtocolVersionIterator_Next ::
  "('s, 'o, 'tx) bound_contract \<Rightarrow> bool \<Rightarrow> TeleporterRegistryAddProtocolVersion iterator \<Rightarrow>
      TeleporterRegistryAddProtocolVersion next_result" where
  "TeleporterRegistryAddProtocolVersionIterator_Next c = iterator_Next
      (unpack_TeleporterRegistryAddProtocolVersion c)"

definition TeleporterRegistryAddProtocolVersionIterator_Error ::
  "TeleporterRegistryAddProtocolVersion iterator \<Rightarrow> go_error option" where
  "TeleporterRegistryAddProtocolVersionIterator_Error = iterator_Error"

definition TeleporterRegistryAddProtocolVersionIterator_Close ::
  "TeleporterRegistryAddProtocolVersion iterator \<Rightarrow> go_error option \<times>
      TeleporterRegistryAddProtocolVersion iterator" where
  "TeleporterRegistryAddProtocolVersionIterator_Close = iterator_Close"

definition TeleporterRegistryFilterer_FilterAddProtocolVersion ::
  "('s, 'o, 'tx) TeleporterRegistryFilterer \<Rightarrow> 'o \<Rightarrow> int list \<Rightarrow> address list \<Rightarrow> 's
    \<Rightarrow> go_error + TeleporterRegistryAddProtocolVersion iterator" where
  "TeleporterRegistryFilterer_FilterAddProtocolVersion c opts version protocolAddress s =
     bindE (bc_FilterLogs (TeleporterRegistryFilterer_contract c) opts ''AddProtocolVersion''
         [map GBigInt version, map GAddress protocolAddress] s) (\<lambda>stream.
     Inr (new_iterator ''AddProtocolVersion'' stream))"

definition TeleporterRegistryFilterer_WatchAddProtocolVersion ::
  "('s, 'o, 'tx) TeleporterRegistryFilterer \<Rightarrow> 'o \<Rightarrow> int list \<Rightarrow> address list \<Rightarrow> 's
    \<Rightarrow> go_error + TeleporterRegistryAddProtocolVersion watcher" where
  "TeleporterRegistryFilterer_WatchAddProtocolVersion c opts version protocolAddress s =
     bindE (bc_WatchLogs (TeleporterRegistryFilterer_contract c) opts ''AddProtocolVersion'' [map
         GBigInt version, map GAddress protocolAddress] s) (\<lambda>stream.
     Inr (new_watcher (unpack_TeleporterRegistryAddProtocolVersion
         (TeleporterRegistryFilterer_contract c) ''AddProtocolVersion'') stream))"

definition TeleporterRegistryFilterer_ParseAddProtocolVersion ::
  "('s, 'o, 'tx) TeleporterRegistryFilterer \<Rightarrow> log \<Rightarrow> go_error +
      TeleporterRegistryAddProtocolVersion" where
  "TeleporterRegistryFilterer_ParseAddProtocolVersion c raw =
      unpack_TeleporterRegistryAddProtocolVersion (TeleporterRegistryFilterer_contract c)
      ''AddProtocolVersion'' raw"

text \<open>The event \<open>LatestVersionUpdated\<close>.\<close>

record TeleporterRegistryLatestVersionUpdated =
  TeleporterRegistryLatestVersionUpdated_OldVersion :: int
  TeleporterRegistryLatestVersionUpdated_NewVersion :: int
  TeleporterRegistryLatestVersionUpdated_Raw :: log

definition filled_TeleporterRegistryLatestVersionUpdated :: "go_value \<Rightarrow> log \<Rightarrow>
    TeleporterRegistryLatestVersionUpdated" where
  "filled_TeleporterRegistryLatestVersionUpdated v raw =
     \<lparr>TeleporterRegistryLatestVersionUpdated_OldVersion = filled as_bigint TBigInt v 0,
       TeleporterRegistryLatestVersionUpdated_NewVersion = filled as_bigint TBigInt v 1,
       TeleporterRegistryLatestVersionUpdated_Raw = raw\<rparr>"

definition unpack_TeleporterRegistryLatestVersionUpdated ::
  "('s, 'o, 'tx) bound_contract \<Rightarrow> string \<Rightarrow> log \<Rightarrow> go_error +
      TeleporterRegistryLatestVersionUpdated" where
  "unpack_TeleporterRegistryLatestVersionUpdated c event raw =
     bindE (bc_UnpackLog c (TStruct ''TeleporterRegistryLatestVersionUpdated'' [TBigInt,
         TBigInt]) event raw) (\<lambda>v.
     Inr (filled_TeleporterRegistryLatestVersionUpdated v raw))"

definition TeleporterRegistryLatestVersionUpdatedIterator_Next ::
  "('s, 'o, 'tx) bound_contract \<Rightarrow> bool \<Rightarrow> TeleporterRegistryLatestVersionUpdated iterator \<Rightarrow>
      TeleporterRegistryLatestVersionUpdated next_result" where
  "TeleporterRegistryLatestVersionUpdatedIterator_Next c = iterator_Next
      (unpack_TeleporterRegistryLatestVersionUpdated c)"

definition TeleporterRegistryLatestVersionUpdatedIterator_Error ::
  "TeleporterRegistryLatestVersionUpdated iterator \<Rightarrow> go_error option" where
  "TeleporterRegistryLatestVersionUpdatedIterator_Error = iterator_Error"

definition TeleporterRegistryLatestVersionUpdatedIterator_Close ::
  "TeleporterRegistryLatestVersionUpdated iterator \<Rightarrow> go_error option \<times>
      TeleporterRegistryLatestVersionUpdated iterator" where
  "TeleporterRegistryLatestVersionUpdatedIterator_Close = iterator_Close"

definition TeleporterRegistryFilterer_FilterLatestVersionUpdated ::
  "('s, 'o, 'tx) TeleporterRegistryFilterer \<Rightarrow> 'o \<Rightarrow> int list \<Rightarrow> int list \<Rightarrow> 's
    \<Rightarrow> go_error + TeleporterRegistryLatestVersionUpdated iterator" where
  "TeleporterRegistryFilterer_FilterLatestVersionUpdated c opts oldVersion newVersion s =
     bindE (bc_FilterLogs (TeleporterRegistryFilterer_contract c) opts ''LatestVersionUpdated''
         [map GBigInt oldVersion, map GBigInt newVersion] s) (\<lambda>stream.
     Inr (new_iterator ''LatestVersionUpdated'' stream))"

definition TeleporterRegistryFilterer_WatchLatestVersionUpdated ::
  "('s, 'o, 'tx) TeleporterRegistryFilterer \<Rightarrow> 'o \<Rightarrow> int list \<Rightarrow> int list \<Rightarrow> 's
    \<Rightarrow> go_error + TeleporterRegistryLatestVersionUpdated watcher" where
  "TeleporterRegistryFilterer_WatchLatestVersionUpdated c opts oldVersion newVersion s =
     bindE (bc_WatchLogs (TeleporterRegistryFilterer_contract c) opts ''LatestVersionUpdated''
         [map GBigInt oldVersion, map GBigInt newVersion] s) (\<lambda>stream.
     Inr (new_watcher (unpack_TeleporterRegistryLatestVersionUpdated
         (TeleporterRegistryFilterer_contract c) ''LatestVersionUpdated'') stream))"

definition TeleporterRegistryFilterer_ParseLatestVersionUpdated ::
  "('s, 'o, 'tx) TeleporterRegistryFilterer \<Rightarrow> log \<Rightarrow> go_error +
      TeleporterRegistryLatestVersionUpdated" where
  "TeleporterRegistryFilterer_ParseLatestVersionUpdated c raw =
      unpack_TeleporterRegistryLatestVersionUpdated (TeleporterRegistryFilterer_contract c)
      ''LatestVersionUpdated'' raw"

end
