(* ===== verification/Bind_BlockHashPublisher.thy ===== *)
theory Bind_BlockHashPublisher
  imports Go_Bind
begin

section \<open>The Go binding of BlockHashPublisher\<close>

text \<open>
  One definition per type and function of
  \<open>abi-bindings/go/CrossChainApplications/VerifiedBlockHash/BlockHashPublisher/BlockHashPublisher.go\<close>,
  in the order of the file: structs, the ABI of the metadata, the facets of the bound contract, the
  read-only methods, the transactions, and for each event its struct, iterator, filter,
  subscription and parser. The option structs, the chain and the library are parameters.
\<close>

subsection \<open>The ABI\<close>

definition BlockHashPublisherMetaData :: abi_meta where
  "BlockHashPublisherMetaData =
     \<lparr>meta_name = ''BlockHashPublisher'',
      meta_constructor = [TAddress],
      meta_methods = [
        (''RECEIVE_BLOCK_HASH_REQUIRED_GAS_LIMIT'', [], [TBigInt]),
        (''publishLatestBlockHash'', [TBytes32, TAddress], [TBigInt]),
        (''teleporterRegistry'', [], [TAddress])],
      meta_events = [
        (''PublishBlockHash'', [(TBytes32, True), (TAddress, True), (TBigInt, True), (TBytes32,
            False)])]\<rparr>"

subsection \<open>The bound contract and its facets\<close>

record ('s, 'o, 'tx) BlockHashPublisherCaller =
  BlockHashPublisherCaller_contract :: "('s, 'o, 'tx) bound_contract"

record ('s, 'o, 'tx) BlockHashPublisherTransactor =
  BlockHashPublisherTransactor_contract :: "('s, 'o, 'tx) bound_contract"

record ('s, 'o, 'tx) BlockHashPublisherFilterer =
  BlockHashPublisherFilterer_contract :: "('s, 'o, 'tx) bound_contract"

record ('s, 'o, 'tx) BlockHashPublisher =
  BlockHashPublisher_Caller :: "('s, 'o, 'tx) BlockHashPublisherCaller"
  BlockHashPublisher_Transactor :: "('s, 'o, 'tx) BlockHashPublisherTransactor"
  BlockHashPublisher_Filterer :: "('s, 'o, 'tx) BlockHashPublisherFilterer"

record ('s, 'o, 'tx) BlockHashPublisherSession =
  BlockHashPublisherSession_Contract :: "('s, 'o, 'tx) BlockHashPublisher"
  BlockHashPublisherSession_CallOpts :: 'o
  BlockHashPublisherSession_TransactOpts :: 'o

record ('s, 'o, 'tx) BlockHashPublisherCallerSession =
  BlockHashPublisherCallerSession_Contract :: "('s, 'o, 'tx) BlockHashPublisherCaller"
  BlockHashPublisherCallerSession_CallOpts :: 'o

record ('s, 'o, 'tx) BlockHashPublisherTransactorSession =
  BlockHashPublisherTransactorSession_Contract :: "('s, 'o, 'tx) BlockHashPublisherTransactor"
  BlockHashPublisherTransactorSession_TransactOpts :: 'o

record ('s, 'o, 'tx) BlockHashPublisherRaw =
  BlockHashPublisherRaw_Contract :: "('s, 'o, 'tx) BlockHashPublisher"

record ('s, 'o, 'tx) BlockHashPublisherCallerRaw =
  BlockHashPublisherCallerRaw_Contract :: "('s, 'o, 'tx) BlockHashPublisherCaller"

record ('s, 'o, 'tx) BlockHashPublisherTransactorRaw =
  BlockHashPublisherTransactorRaw_Contract :: "('s, 'o, 'tx) BlockHashPublisherTransactor"

definition bindBlockHashPublisher ::
  "('s, 'o, 'tx, 'abi, 'k) bind_lib \<Rightarrow> address \<Rightarrow> 'k option \<Rightarrow> 'k option \<Rightarrow> 'k option
    \<Rightarrow> go_error + ('s, 'o, 'tx) bound_contract" where
  "bindBlockHashPublisher lib addr caller transactor filterer =
     bindE (lib_GetAbi lib BlockHashPublisherMetaData) (\<lambda>parsed.
     case parsed of
       None \<Rightarrow> Inl (GoPanic ''nil pointer dereference'')
     | Some abi \<Rightarrow> Inr (lib_NewBoundContract lib addr abi caller transactor filterer))"

definition DeployBlockHashPublisher ::
  "('s, 'o, 'tx, 'abi, 'k) bind_lib \<Rightarrow> 'o \<Rightarrow> 'k \<Rightarrow> address \<Rightarrow> 's
    \<Rightarrow> go_error + (address \<times> 'tx \<times> ('s, 'o, 'tx) BlockHashPublisher \<times> 's)" where
  "DeployBlockHashPublisher lib auth backend teleporterRegistryAddress s =
     bindE (lib_GetAbi lib BlockHashPublisherMetaData) (\<lambda>parsed.
     case parsed of
       None \<Rightarrow> Inl (GoError ''GetABI returned nil'')
     | Some abi \<Rightarrow>
         bindE (lib_DeployContract lib auth abi (meta_name BlockHashPublisherMetaData) backend
             [GAddress teleporterRegistryAddress] s)
         (\<lambda>(addr, tx, c, s').
         Inr (addr, tx, \<lparr>BlockHashPublisher_Caller = \<lparr>BlockHashPublisherCaller_contract = c\<rparr>,
         BlockHashPublisher_Transactor = \<lparr>BlockHashPublisherTransactor_contract = c\<rparr>,
         BlockHashPublisher_Filterer = \<lparr>BlockHashPublisherFilterer_contract = c\<rparr>\<rparr>, s')))"

definition NewBlockHashPublisher ::
  "('s, 'o, 'tx, 'abi, 'k) bind_lib \<Rightarrow> address \<Rightarrow> 'k \<Rightarrow> go_error + ('s, 'o, 'tx) BlockHashPublisher"
      where
  "NewBlockHashPublisher lib addr backend =
     bindE (bindBlockHashPublisher lib addr (Some backend) (Some backend) (Some backend)) (\<lambda>c.
     Inr \<lparr>BlockHashPublisher_Caller = \<lparr>BlockHashPublisherCaller_contract = c\<rparr>,
         BlockHashPublisher_Transactor = \<lparr>BlockHashPublisherTransactor_contract = c\<rparr>,
         BlockHashPublisher_Filterer = \<lparr>BlockHashPublisherFilterer_contract = c\<rparr>\<rparr>)"

definition NewBlockHashPublisherCaller ::
  "('s, 'o, 'tx, 'abi, 'k) bind_lib \<Rightarrow> address \<Rightarrow> 'k \<Rightarrow> go_error + ('s, 'o, 'tx)
      BlockHashPublisherCaller" where
  "NewBlockHashPublisherCaller lib addr b =
     bindE (bindBlockHashPublisher lib addr (Some b) None None) (\<lambda>c.
     Inr \<lparr>BlockHashPublisherCaller_contract = c\<rparr>)"

definition NewBlockHashPublisherTransactor ::
  "('s, 'o, 'tx, 'abi, 'k) bind_lib \<Rightarrow> address \<Rightarrow> 'k \<Rightarrow> go_error + ('s, 'o, 'tx)
      BlockHashPublisherTransactor" where
  "NewBlockHashPublisherTransactor lib addr b =
     bindE (bindBlockHashPublisher lib addr None (Some b) None) (\<lambda>c.
     Inr \<lparr>BlockHashPublisherTransactor_contract = c\<rparr>)"

definition NewBlockHashPublisherFilterer ::
  "('s, 'o, 'tx, 'abi, 'k) bind_lib \<Rightarrow> address \<Rightarrow> 'k \<Rightarrow> go_error + ('s, 'o, 'tx)
      BlockHashPublisherFilterer" where
  "NewBlockHashPublisherFilterer lib addr b =
     bindE (bindBlockHashPublisher lib addr None None (Some b)) (\<lambda>c.
     Inr \<lparr>BlockHashPublisherFilterer_contract = c\<rparr>)"

definition BlockHashPublisherRaw_Call ::
  "('s, 'o, 'tx) BlockHashPublisherRaw \<Rightarrow> 'o \<Rightarrow> string \<Rightarrow> go_value list \<Rightarrow> 's
    \<Rightarrow> go_error + go_value list" where
  "BlockHashPublisherRaw_Call r opts method params s =
     bc_Call (BlockHashPublisherCaller_contract (BlockHashPublisher_Caller
         (BlockHashPublisherRaw_Contract r))) opts method params s"

definition BlockHashPublisherRaw_Transfer ::
  "('s, 'o, 'tx) BlockHashPublisherRaw \<Rightarrow> 'o \<Rightarrow> 's \<Rightarrow> go_error + ('tx \<times> 's)" where
  "BlockHashPublisherRaw_Transfer r opts s =
     bc_Transfer (BlockHashPublisherTransactor_contract (BlockHashPublisher_Transactor
         (BlockHashPublisherRaw_Contract r))) opts s"

definition BlockHashPublisherRaw_Transact ::
  "('s, 'o, 'tx) BlockHashPublisherRaw \<Rightarrow> 'o \<Rightarrow> string \<Rightarrow> go_value list \<Rightarrow> 's
    \<Rightarrow> go_error + ('tx \<times> 's)" where
  "BlockHashPublisherRaw_Transact r opts method params s =
     bc_Transact (BlockHashPublisherTransactor_contract (BlockHashPublisher_Transactor
         (BlockHashPublisherRaw_Contract r))) opts method params s"

definition BlockHashPublisherCallerRaw_Call ::
  "('s, 'o, 'tx) BlockHashPublisherCallerRaw \<Rightarrow> 'o \<Rightarrow> string \<Rightarrow> go_value list \<Rightarrow> 's
    \<Rightarrow> go_error + go_value list" where
  "BlockHashPublisherCallerRaw_Call r opts method params s =
     bc_Call (BlockHashPublisherCaller_contract (BlockHashPublisherCallerRaw_Contract r)) opts
         method params s"

definition BlockHashPublisherTransactorRaw_Transfer ::
  "('s, 'o, 'tx) BlockHashPublisherTransactorRaw \<Rightarrow> 'o \<Rightarrow> 's \<Rightarrow> go_error + ('tx \<times> 's)" where
  "BlockHashPublisherTransactorRaw_Transfer r opts s =
     bc_Transfer (BlockHashPublisherTransactor_contract (BlockHashPublisherTransactorRaw_Contract
         r)) opts s"

definition BlockHashPublisherTransactorRaw_Transact ::
  "('s, 'o, 'tx) BlockHashPublisherTransactorRaw \<Rightarrow> 'o \<Rightarrow> string \<Rightarrow> go_value list \<Rightarrow> 's
    \<Rightarrow> go_error + ('tx \<times> 's)" where
  "BlockHashPublisherTransactorRaw_Transact r opts method params s =
     bc_Transact (BlockHashPublisherTransactor_contract (BlockHashPublisherTransactorRaw_Contract
         r)) opts method params s"

subsection \<open>Read-only methods\<close>

definition BlockHashPublisherCaller_RECEIVEBLOCKHASHREQUIREDGASLIMIT ::
  "('s, 'o, 'tx) BlockHashPublisherCaller \<Rightarrow> 'o \<Rightarrow> 's
    \<Rightarrow> go_error + int" where
  "BlockHashPublisherCaller_RECEIVEBLOCKHASHREQUIREDGASLIMIT c opts s =
     bindE (bc_Call (BlockHashPublisherCaller_contract c) opts
         ''RECEIVE_BLOCK_HASH_REQUIRED_GAS_LIMIT'' [] s) (\<lambda>out.
     bindE (go_out (BlockHashPublisherCaller_contract c) out 0 TBigInt as_bigint) (\<lambda>out0.
     Inr out0))"

definition BlockHashPublisherSession_RECEIVEBLOCKHASHREQUIREDGASLIMIT ::
  "('s, 'o, 'tx) BlockHashPublisherSession \<Rightarrow> 's
    \<Rightarrow> go_error + int" where
  "BlockHashPublisherSession_RECEIVEBLOCKHASHREQUIREDGASLIMIT ss s =
     BlockHashPublisherCaller_RECEIVEBLOCKHASHREQUIREDGASLIMIT (BlockHashPublisher_Caller
         (BlockHashPublisherSession_Contract ss))
       (BlockHashPublisherSession_CallOpts ss) s"

definition BlockHashPublisherCallerSession_RECEIVEBLOCKHASHREQUIREDGASLIMIT ::
  "('s, 'o, 'tx) BlockHashPublisherCallerSession \<Rightarrow> 's
    \<Rightarrow> go_error + int" where
  "BlockHashPublisherCallerSession_RECEIVEBLOCKHASHREQUIREDGASLIMIT ss s =
     BlockHashPublisherCaller_RECEIVEBLOCKHASHREQUIREDGASLIMIT
         (BlockHashPublisherCallerSession_Contract ss)
       (BlockHashPublisherCallerSession_CallOpts ss) s"

definition BlockHashPublisherCaller_TeleporterRegistry ::
  "('s, 'o, 'tx) BlockHashPublisherCaller \<Rightarrow> 'o \<Rightarrow> 's
    \<Rightarrow> go_error + address" where
  "BlockHashPublisherCaller_TeleporterRegistry c opts s =
     bindE (bc_Call (BlockHashPublisherCaller_contract c) opts ''teleporterRegistry'' [] s) (\<lambda>out.
     bindE (go_out (BlockHashPublisherCaller_contract c) out 0 TAddress as_address) (\<lambda>out0.
     Inr out0))"

definition BlockHashPublisherSession_TeleporterRegistry ::
  "('s, 'o, 'tx) BlockHashPublisherSession \<Rightarrow> 's
    \<Rightarrow> go_error + address" where
  "BlockHashPublisherSession_TeleporterRegistry ss s =
     BlockHashPublisherCaller_TeleporterRegistry (BlockHashPublisher_Caller
         (BlockHashPublisherSession_Contract ss))
       (BlockHashPublisherSession_CallOpts ss) s"

definition BlockHashPublisherCallerSession_TeleporterRegistry ::
  "('s, 'o, 'tx) BlockHashPublisherCallerSession \<Rightarrow> 's
    \<Rightarrow> go_error + address" where
  "BlockHashPublisherCallerSession_TeleporterRegistry ss s =
     BlockHashPublisherCaller_TeleporterRegistry (BlockHashPublisherCallerSession_Contract ss)
       (BlockHashPublisherCallerSession_CallOpts ss) s"

subsection \<open>Transactions\<close>

definition BlockHashPublisherTransactor_PublishLatestBlockHash ::
  "('s, 'o, 'tx) BlockHashPublisherTransactor \<Rightarrow> 'o \<Rightarrow> bytes32 \<Rightarrow> address \<Rightarrow> 's
    \<Rightarrow> go_error + ('tx \<times> 's)" where
  "BlockHashPublisherTransactor_PublishLatestBlockHash c opts destinationBlockchainID
      destinationAddress s =
     bc_Transact (BlockHashPublisherTransactor_contract c) opts ''publishLatestBlockHash''
       [GBytes32 destinationBlockchainID, GAddress destinationAddress] s"

definition BlockHashPublisherSession_PublishLatestBlockHash ::
  "('s, 'o, 'tx) BlockHashPublisherSession \<Rightarrow> bytes32 \<Rightarrow> address \<Rightarrow> 's
    \<Rightarrow> go_error + ('tx \<times> 's)" where
  "BlockHashPublisherSession_PublishLatestBlockHash ss destinationBlockchainID destinationAddress
      s =
     BlockHashPublisherTransactor_PublishLatestBlockHash (BlockHashPublisher_Transactor
         (BlockHashPublisherSession_Contract ss))
       (BlockHashPublisherSession_TransactOpts ss) destinationBlockchainID destinationAddress s"

definition BlockHashPublisherTransactorSession_PublishLatestBlockHash ::
  "('s, 'o, 'tx) BlockHashPublisherTransactorSession \<Rightarrow> bytes32 \<Rightarrow> address \<Rightarrow> 's
    \<Rightarrow> go_error + ('tx \<times> 's)" where
  "BlockHashPublisherTransactorSession_PublishLatestBlockHash ss destinationBlockchainID
      destinationAddress s =
     BlockHashPublisherTransactor_PublishLatestBlockHash
         (BlockHashPublisherTransactorSession_Contract ss)
       (BlockHashPublisherTransactorSession_TransactOpts ss) destinationBlockchainID
           destinationAddress s"

subsection \<open>Events\<close>

text \<open>The event \<open>PublishBlockHash\<close>.\<close>

record BlockHashPublisherPublishBlockHash =
  BlockHashPublisherPublishBlockHash_DestinationBlockchainID :: bytes32
  BlockHashPublisherPublishBlockHash_DestinationAddress :: address
  BlockHashPublisherPublishBlockHash_BlockHeight :: int
  BlockHashPublisherPublishBlockHash_BlockHash :: bytes32
  BlockHashPublisherPublishBlockHash_Raw :: log

definition filled_BlockHashPublisherPublishBlockHash :: "go_value \<Rightarrow> log \<Rightarrow>
    BlockHashPublisherPublishBlockHash" where
  "filled_BlockHashPublisherPublishBlockHash v raw =
     \<lparr>BlockHashPublisherPublishBlockHash_DestinationBlockchainID = filled as_bytes32 TBytes32 v 0,
       BlockHashPublisherPublishBlockHash_DestinationAddress = filled as_address TAddress v 1,
       BlockHashPublisherPublishBlockHash_BlockHeight = filled as_bigint TBigInt v 2,
       BlockHashPublisherPublishBlockHash_BlockHash = filled as_bytes32 TBytes32 v 3,
       BlockHashPublisherPublishBlockHash_Raw = raw\<rparr>"

definition unpack_BlockHashPublisherPublishBlockHash ::
  "('s, 'o, 'tx) bound_contract \<Rightarrow> string \<Rightarrow> log \<Rightarrow> go_error + BlockHashPublisherPublishBlockHash"
      where
  "unpack_BlockHashPublisherPublishBlockHash c event raw =
     bindE (bc_UnpackLog c (TStruct ''BlockHashPublisherPublishBlockHash'' [TBytes32, TAddress,
         TBigInt, TBytes32]) event raw) (\<lambda>v.
     Inr (filled_BlockHashPublisherPublishBlockHash v raw))"

definition BlockHashPublisherPublishBlockHashIterator_Next ::
  "('s, 'o, 'tx) bound_contract \<Rightarrow> bool \<Rightarrow> BlockHashPublisherPublishBlockHash iterator \<Rightarrow>
      BlockHashPublisherPublishBlockHash next_result" where
  "BlockHashPublisherPublishBlockHashIterator_Next c = iterator_Next
      (unpack_BlockHashPublisherPublishBlockHash c)"

definition BlockHashPublisherPublishBlockHashIterator_Error ::
  "BlockHashPublisherPublishBlockHash iterator \<Rightarrow> go_error option" where
  "BlockHashPublisherPublishBlockHashIterator_Error = iterator_Error"

definition BlockHashPublisherPublishBlockHashIterator_Close ::
  "BlockHashPublisherPublishBlockHash iterator \<Rightarrow> go_error option \<times>
      BlockHashPublisherPublishBlockHash iterator" where
  "BlockHashPublisherPublishBlockHashIterator_Close = iterator_Close"

definition BlockHashPublisherFilterer_FilterPublishBlockHash ::
  "('s, 'o, 'tx) BlockHashPublisherFilterer \<Rightarrow> 'o \<Rightarrow> bytes32 list \<Rightarrow> address list \<Rightarrow> int list \<Rightarrow> 's
    \<Rightarrow> go_error + BlockHashPublisherPublishBlockHash iterator" where
  "BlockHashPublisherFilterer_FilterPublishBlockHash c opts destinationBlockchainID
      destinationAddress blockHeight s =
     bindE (bc_FilterLogs (BlockHashPublisherFilterer_contract c) opts ''PublishBlockHash'' [map
         GBytes32 destinationBlockchainID, map GAddress destinationAddress, map GBigInt
         blockHeight] s) (\<lambda>stream.
     Inr (new_iterator ''PublishBlockHash'' stream))"

definition BlockHashPublisherFilterer_WatchPublishBlockHash ::
  "('s, 'o, 'tx) BlockHashPublisherFilterer \<Rightarrow> 'o \<Rightarrow> bytes32 list \<Rightarrow> address list \<Rightarrow> int list \<Rightarrow> 's
    \<Rightarrow> go_error + BlockHashPublisherPublishBlockHash watcher" where
  "BlockHashPublisherFilterer_WatchPublishBlockHash c opts destinationBlockchainID
      destinationAddress blockHeight s =
     bindE (bc_WatchLogs (BlockHashPublisherFilterer_contract c) opts ''PublishBlockHash'' [map
         GBytes32 destinationBlockchainID, map GAddress destinationAddress, map GBigInt
         blockHeight] s) (\<lambda>stream.
     Inr (new_watcher (unpack_BlockHashPublisherPublishBlockHash
         (BlockHashPublisherFilterer_contract c) ''PublishBlockHash'') stream))"

definition BlockHashPublisherFilterer_ParsePublishBlockHash ::
  "('s, 'o, 'tx) BlockHashPublisherFilterer \<Rightarrow> log \<Rightarrow> go_error +
      BlockHashPublisherPublishBlockHash" where
  "BlockHashPublisherFilterer_ParsePublishBlockHash c raw =
      unpack_BlockHashPublisherPublishBlockHash (BlockHashPublisherFilterer_contract c)
      ''PublishBlockHash'' raw"

end
