(* ===== verification/Bind_BlockHashReceiver.thy ===== *)
theory Bind_BlockHashReceiver
  imports Go_Bind
begin

section \<open>The Go binding of BlockHashReceiver\<close>

text \<open>
  One definition per type and function of
  \<open>abi-bindings/go/CrossChainApplications/VerifiedBlockHash/BlockHashReceiver/BlockHashReceiver.go\<close>,
  in the order of the file: structs, the ABI of the metadata, the facets of the bound contract, the
  read-only methods, the transactions, and for each event its struct, iterator, filter,
  subscription and parser. The option structs, the chain and the library are parameters.
\<close>

subsection \<open>The ABI\<close>

definition BlockHashReceiverMetaData :: abi_meta where
  "BlockHashReceiverMetaData =
     \<lparr>meta_name = ''BlockHashReceiver'',
      meta_constructor = [TAddress, TBytes32, TAddress],
      meta_methods = [
        (''getLatestBlockInfo'', [], [TBigInt, TBytes32]),
        (''getMinTeleporterVersion'', [], [TBigInt]),
        (''isTeleporterAddressPaused'', [TAddress], [TBool]),
        (''latestBlockHash'', [], [TBytes32]),
        (''latestBlockHeight'', [], [TBigInt]),
        (''owner'', [], [TAddress]),
        (''pauseTeleporterAddress'', [TAddress], []),
        (''receiveTeleporterMessage'', [TBytes32, TAddress, TBytes], []),
        (''renounceOwnership'', [], []),
        (''sourceBlockchainID'', [], [TBytes32]),
        (''sourcePublisherContractAddress'', [], [TAddress]),
        (''teleporterRegistry'', [], [TAddress]),
        (''transferOwnership'', [TAddress], []),
        (''unpauseTeleporterAddress'', [TAddress], []),
        (''updateMinTeleporterVersion'', [TBigInt], [])],
      meta_events = [
        (''MinTeleporterVersionUpdated'', [(TBigInt, True), (TBigInt, True)]),
        (''OwnershipTransferred'', [(TAddress, True), (TAddress, True)]),
        (''ReceiveBlockHash'', [(TBytes32, True), (TAddress, True), (TBigInt, True), (TBytes32,
            False)]),
        (''TeleporterAddressPaused'', [(TAddress, True)]),
        (''TeleporterAddressUnpaused'', [(TAddress, True)])]\<rparr>"

subsection \<open>The bound contract and its facets\<close>

record ('s, 'o, 'tx) BlockHashReceiverCaller =
  BlockHashReceiverCaller_contract :: "('s, 'o, 'tx) bound_contract"

record ('s, 'o, 'tx) BlockHashReceiverTransactor =
  BlockHashReceiverTransactor_contract :: "('s, 'o, 'tx) bound_contract"

record ('s, 'o, 'tx) BlockHashReceiverFilterer =
  BlockHashReceiverFilterer_contract :: "('s, 'o, 'tx) bound_contract"

record ('s, 'o, 'tx) BlockHashReceiver =
  BlockHashReceiver_Caller :: "('s, 'o, 'tx) BlockHashReceiverCaller"
  BlockHashReceiver_Transactor :: "('s, 'o, 'tx) BlockHashReceiverTransactor"
  BlockHashReceiver_Filterer :: "('s, 'o, 'tx) BlockHashReceiverFilterer"

record ('s, 'o, 'tx) BlockHashReceiverSession =
  BlockHashReceiverSession_Contract :: "('s, 'o, 'tx) BlockHashReceiver"
  BlockHashReceiverSession_CallOpts :: 'o
  BlockHashReceiverSession_TransactOpts :: 'o

record ('s, 'o, 'tx) BlockHashReceiverCallerSession =
  BlockHashReceiverCallerSession_Contract :: "('s, 'o, 'tx) BlockHashReceiverCaller"
  BlockHashReceiverCallerSession_CallOpts :: 'o

record ('s, 'o, 'tx) BlockHashReceiverTransactorSession =
  BlockHashReceiverTransactorSession_Contract :: "('s, 'o, 'tx) BlockHashReceiverTransactor"
  BlockHashReceiverTransactorSession_TransactOpts :: 'o

record ('s, 'o, 'tx) BlockHashReceiverRaw =
  BlockHashReceiverRaw_Contract :: "('s, 'o, 'tx) BlockHashReceiver"

record ('s, 'o, 'tx) BlockHashReceiverCallerRaw =
  BlockHashReceiverCallerRaw_Contract :: "('s, 'o, 'tx) BlockHashReceiverCaller"

record ('s, 'o, 'tx) BlockHashReceiverTransactorRaw =
  BlockHashReceiverTransactorRaw_Contract :: "('s, 'o, 'tx) BlockHashReceiverTransactor"

definition bindBlockHashReceiver ::
  "('s, 'o, 'tx, 'abi, 'k) bind_lib \<Rightarrow> address \<Rightarrow> 'k option \<Rightarrow> 'k option \<Rightarrow> 'k option
    \<Rightarrow> go_error + ('s, 'o, 'tx) bound_contract" where
  "bindBlockHashReceiver lib addr caller transactor filterer =
     bindE (lib_GetAbi lib BlockHashReceiverMetaData) (\<lambda>parsed.
     case parsed of
       None \<Rightarrow> Inl (GoPanic ''nil pointer dereference'')
     | Some abi \<Rightarrow> Inr (lib_NewBoundContract lib addr abi caller transactor filterer))"

definition DeployBlockHashReceiver ::
  "('s, 'o, 'tx, 'abi, 'k) bind_lib \<Rightarrow> 'o \<Rightarrow> 'k \<Rightarrow> address \<Rightarrow> bytes32 \<Rightarrow> address \<Rightarrow> 's
    \<Rightarrow> go_error + (address \<times> 'tx \<times> ('s, 'o, 'tx) BlockHashReceiver \<times> 's)" where
  "DeployBlockHashReceiver lib auth backend teleporterRegistryAddress publisherBlockchainID
      publisherContractAddress s =
     bindE (lib_GetAbi lib BlockHashReceiverMetaData) (\<lambda>parsed.
     case parsed of
       None \<Rightarrow> Inl (GoError ''GetABI returned nil'')
     | Some abi \<Rightarrow>
         bindE (lib_DeployContract lib auth abi (meta_name BlockHashReceiverMetaData) backend
             [GAddress teleporterRegistryAddress, GBytes32 publisherBlockchainID, GAddress
             publisherContractAddress] s)
         (\<lambda>(addr, tx, c, s').
         Inr (addr, tx, \<lparr>BlockHashReceiver_Caller = \<lparr>BlockHashReceiverCaller_contract = c\<rparr>,
         BlockHashReceiver_Transactor = \<lparr>BlockHashReceiverTransactor_contract = c\<rparr>,
         BlockHashReceiver_Filterer = \<lparr>BlockHashReceiverFilterer_contract = c\<rparr>\<rparr>, s')))"

definition NewBlockHashReceiver ::
  "('s, 'o, 'tx, 'abi, 'k) bind_lib \<Rightarrow> address \<Rightarrow> 'k \<Rightarrow> go_error + ('s, 'o, 'tx) BlockHashReceiver"
      where
  "NewBlockHashReceiver lib addr backend =
     bindE (bindBlockHashReceiver lib addr (Some backend) (Some backend) (Some backend)) (\<lambda>c.
     Inr \<lparr>BlockHashReceiver_Caller = \<lparr>BlockHashReceiverCaller_contract = c\<rparr>,
         BlockHashReceiver_Transactor = \<lparr>BlockHashReceiverTransactor_contract = c\<rparr>,
         BlockHashReceiver_Filterer = \<lparr>BlockHashReceiverFilterer_contract = c\<rparr>\<rparr>)"

definition NewBlockHashReceiverCaller ::
  "('s, 'o, 'tx, 'abi, 'k) bind_lib \<Rightarrow> address \<Rightarrow> 'k \<Rightarrow> go_error + ('s, 'o, 'tx)
      BlockHashReceiverCaller" where
  "NewBlockHashReceiverCaller lib addr b =
     bindE (bindBlockHashReceiver lib addr (Some b) None None) (\<lambda>c.
     Inr \<lparr>BlockHashReceiverCaller_contract = c\<rparr>)"

definition NewBlockHashReceiverTransactor ::
  "('s, 'o, 'tx, 'abi, 'k) bind_lib \<Rightarrow> address \<Rightarrow> 'k \<Rightarrow> go_error + ('s, 'o, 'tx)
      BlockHashReceiverTransactor" where
  "NewBlockHashReceiverTransactor lib addr b =
     bindE (bindBlockHashReceiver lib addr None (Some b) None) (\<lambda>c.
     Inr \<lparr>BlockHashReceiverTransactor_contract = c\<rparr>)"

definition NewBlockHashReceiverFilterer ::
  "('s, 'o, 'tx, 'abi, 'k) bind_lib \<Rightarrow> address \<Rightarrow> 'k \<Rightarrow> go_error + ('s, 'o, 'tx)
      BlockHashReceiverFilterer" where
  "NewBlockHashReceiverFilterer lib addr b =
     bindE (bindBlockHashReceiver lib addr None None (Some b)) (\<lambda>c.
     Inr \<lparr>BlockHashReceiverFilterer_contract = c\<rparr>)"

definition BlockHashReceiverRaw_Call ::
  "('s, 'o, 'tx) BlockHashReceiverRaw \<Rightarrow> 'o \<Rightarrow> string \<Rightarrow> go_value list \<Rightarrow> 's
    \<Rightarrow> go_error + go_value list" where
  "BlockHashReceiverRaw_Call r opts method params s =
     bc_Call (BlockHashReceiverCaller_contract (BlockHashReceiver_Caller
         (BlockHashReceiverRaw_Contract r))) opts method params s"

definition BlockHashReceiverRaw_Transfer ::
  "('s, 'o, 'tx) BlockHashReceiverRaw \<Rightarrow> 'o \<Rightarrow> 's \<Rightarrow> go_error + ('tx \<times> 's)" where
  "BlockHashReceiverRaw_Transfer r opts s =
     bc_Transfer (BlockHashReceiverTransactor_contract (BlockHashReceiver_Transactor
         (BlockHashReceiverRaw_Contract r))) opts s"

definition BlockHashReceiverRaw_Transact ::
  "('s, 'o, 'tx) BlockHashReceiverRaw \<Rightarrow> 'o \<Rightarrow> string \<Rightarrow> go_value list \<Rightarrow> 's
    \<Rightarrow> go_error + ('tx \<times> 's)" where
  "BlockHashReceiverRaw_Transact r opts method params s =
     bc_Transact (BlockHashReceiverTransactor_contract (BlockHashReceiver_Transactor
         (BlockHashReceiverRaw_Contract r))) opts method params s"

definition BlockHashReceiverCallerRaw_Call ::
  "('s, 'o, 'tx) BlockHashReceiverCallerRaw \<Rightarrow> 'o \<Rightarrow> string \<Rightarrow> go_value list \<Rightarrow> 's
    \<Rightarrow> go_error + go_value list" where
  "BlockHashReceiverCallerRaw_Call r opts method params s =
     bc_Call (BlockHashReceiverCaller_contract (BlockHashReceiverCallerRaw_Contract r)) opts
         method params s"

definition BlockHashReceiverTransactorRaw_Transfer ::
  "('s, 'o, 'tx) BlockHashReceiverTransactorRaw \<Rightarrow> 'o \<Rightarrow> 's \<Rightarrow> go_error + ('tx \<times> 's)" where
  "BlockHashReceiverTransactorRaw_Transfer r opts s =
     bc_Transfer (BlockHashReceiverTransactor_contract (BlockHashReceiverTransactorRaw_Contract
         r)) opts s"

definition BlockHashReceiverTransactorRaw_Transact ::
  "('s, 'o, 'tx) BlockHashReceiverTransactorRaw \<Rightarrow> 'o \<Rightarrow> string \<Rightarrow> go_value list \<Rightarrow> 's
    \<Rightarrow> go_error + ('tx \<times> 's)" where
  "BlockHashReceiverTransactorRaw_Transact r opts method params s =
     bc_Transact (BlockHashReceiverTransactor_contract (BlockHashReceiverTransactorRaw_Contract
         r)) opts method params s"

subsection \<open>Read-only methods\<close>

definition BlockHashReceiverCaller_GetLatestBlockInfo ::
  "('s, 'o, 'tx) BlockHashReceiverCaller \<Rightarrow> 'o \<Rightarrow> 's
    \<Rightarrow> go_error + (int \<times> bytes32)" where
  "BlockHashReceiverCaller_GetLatestBlockInfo c opts s =
     bindE (bc_Call (BlockHashReceiverCaller_contract c) opts ''getLatestBlockInfo'' [] s) (\<lambda>out.
     bindE (go_out (BlockHashReceiverCaller_contract c) out 0 TBigInt as_bigint) (\<lambda>out0.
     bindE (go_out (BlockHashReceiverCaller_contract c) out 1 TBytes32 as_bytes32) (\<lambda>out1.
     Inr (out0, out1))))"

definition BlockHashReceiverSession_GetLatestBlockInfo ::
  "('s, 'o, 'tx) BlockHashReceiverSession \<Rightarrow> 's
    \<Rightarrow> go_error + (int \<times> bytes32)" where
  "BlockHashReceiverSession_GetLatestBlockInfo ss s =
     BlockHashReceiverCaller_GetLatestBlockInfo (BlockHashReceiver_Caller
         (BlockHashReceiverSession_Contract ss))
       (BlockHashReceiverSession_CallOpts ss) s"

definition BlockHashReceiverCallerSession_GetLatestBlockInfo ::
  "('s, 'o, 'tx) BlockHashReceiverCallerSession \<Rightarrow> 's
    \<Rightarrow> go_error + (int \<times> bytes32)" where
  "BlockHashReceiverCallerSession_GetLatestBlockInfo ss s =
     BlockHashReceiverCaller_GetLatestBlockInfo (BlockHashReceiverCallerSession_Contract ss)
       (BlockHashReceiverCallerSession_CallOpts ss) s"

definition BlockHashReceiverCaller_GetMinTeleporterVersion ::
  "('s, 'o, 'tx) BlockHashReceiverCaller \<Rightarrow> 'o \<Rightarrow> 's
    \<Rightarrow> go_error + int" where
  "BlockHashReceiverCaller_GetMinTeleporterVersion c opts s =
     bindE (bc_Call (BlockHashReceiverCaller_contract c) opts ''getMinTeleporterVersion'' [] s)
         (\<lambda>out.
     bindE (go_out (BlockHashReceiverCaller_contract c) out 0 TBigInt as_bigint) (\<lambda>out0.
     Inr out0))"

definition BlockHashReceiverSession_GetMinTeleporterVersion ::
  "('s, 'o, 'tx) BlockHashReceiverSession \<Rightarrow> 's
    \<Rightarrow> go_error + int" where
  "BlockHashReceiverSession_GetMinTeleporterVersion ss s =
     BlockHashReceiverCaller_GetMinTeleporterVersion (BlockHashReceiver_Caller
         (BlockHashReceiverSession_Contract ss))
       (BlockHashReceiverSession_CallOpts ss) s"

definition BlockHashReceiverCallerSession_GetMinTeleporterVersion ::
  "('s, 'o, 'tx) BlockHashReceiverCallerSession \<Rightarrow> 's
    \<Rightarrow> go_error + int" where
  "BlockHashReceiverCallerSession_GetMinTeleporterVersion ss s =
     BlockHashReceiverCaller_GetMinTeleporterVersion (BlockHashReceiverCallerSession_Contract ss)
       (BlockHashReceiverCallerSession_CallOpts ss) s"

definition BlockHashReceiverCaller_IsTeleporterAddressPaused ::
  "('s, 'o, 'tx) BlockHashReceiverCaller \<Rightarrow> 'o \<Rightarrow> address \<Rightarrow> 's
    \<Rightarrow> go_error + bool" where
  "BlockHashReceiverCaller_IsTeleporterAddressPaused c opts teleporterAddress s =
     bindE (bc_Call (BlockHashReceiverCaller_contract c) opts ''isTeleporterAddressPaused''
         [GAddress teleporterAddress] s) (\<lambda>out.
     bindE (go_out (BlockHashReceiverCaller_contract c) out 0 TBool as_bool) (\<lambda>out0.
     Inr out0))"

definition BlockHashReceiverSession_IsTeleporterAddressPaused ::
  "('s, 'o, 'tx) BlockHashReceiverSession \<Rightarrow> address \<Rightarrow> 's
    \<Rightarrow> go_error + bool" where
  "BlockHashReceiverSession_IsTeleporterAddressPaused ss teleporterAddress s =
     BlockHashReceiverCaller_IsTeleporterAddressPaused (BlockHashReceiver_Caller
         (BlockHashReceiverSession_Contract ss))
       (BlockHashReceiverSession_CallOpts ss) teleporterAddress s"

definition BlockHashReceiverCallerSession_IsTeleporterAddressPaused ::
  "('s, 'o, 'tx) BlockHashReceiverCallerSession \<Rightarrow> address \<Rightarrow> 's
    \<Rightarrow> go_error + bool" where
  "BlockHashReceiverCallerSession_IsTeleporterAddressPaused ss teleporterAddress s =
     BlockHashReceiverCaller_IsTeleporterAddressPaused (BlockHashReceiverCallerSession_Contract
         ss)
       (BlockHashReceiverCallerSession_CallOpts ss) teleporterAddress s"

definition BlockHashReceiverCaller_LatestBlockHash ::
  "('s, 'o, 'tx) BlockHashReceiverCaller \<Rightarrow> 'o \<Rightarrow> 's
    \<Rightarrow> go_error + bytes32" where
  "BlockHashReceiverCaller_LatestBlockHash c opts s =
     bindE (bc_Call (BlockHashReceiverCaller_contract c) opts ''latestBlockHash'' [] s) (\<lambda>out.
     bindE (go_out (BlockHashReceiverCaller_contract c) out 0 TBytes32 as_bytes32) (\<lambda>out0.
     Inr out0))"

definition BlockHashReceiverSession_LatestBlockHash ::
  "('s, 'o, 'tx) BlockHashReceiverSession \<Rightarrow> 's
    \<Rightarrow> go_error + bytes32" where
  "BlockHashReceiverSession_LatestBlockHash ss s =
     BlockHashReceiverCaller_LatestBlockHash (BlockHashReceiver_Caller
         (BlockHashReceiverSession_Contract ss))
       (BlockHashReceiverSession_CallOpts ss) s"

definition BlockHashReceiverCallerSession_LatestBlockHash ::
  "('s, 'o, 'tx) BlockHashReceiverCallerSession \<Rightarrow> 's
    \<Rightarrow> go_error + bytes32" where
  "BlockHashReceiverCallerSession_LatestBlockHash ss s =
     BlockHashReceiverCaller_LatestBlockHash (BlockHashReceiverCallerSession_Contract ss)
       (BlockHashReceiverCallerSession_CallOpts ss) s"

definition BlockHashReceiverCaller_LatestBlockHeight ::
  "('s, 'o, 'tx) BlockHashReceiverCaller \<Rightarrow> 'o \<Rightarrow> 's
    \<Rightarrow> go_error + int" where
  "BlockHashReceiverCaller_LatestBlockHeight c opts s =
     bindE (bc_Call (BlockHashReceiverCaller_contract c) opts ''latestBlockHeight'' [] s) (\<lambda>out.
     bindE (go_out (BlockHashReceiverCaller_contract c) out 0 TBigInt as_bigint) (\<lambda>out0.
     Inr out0))"

definition BlockHashReceiverSession_LatestBlockHeight ::
  "('s, 'o, 'tx) BlockHashReceiverSession \<Rightarrow> 's
    \<Rightarrow> go_error + int" where
  "BlockHashReceiverSession_LatestBlockHeight ss s =
     BlockHashReceiverCaller_LatestBlockHeight (BlockHashReceiver_Caller
         (BlockHashReceiverSession_Contract ss))
       (BlockHashReceiverSession_CallOpts ss) s"

definition BlockHashReceiverCallerSession_LatestBlockHeight ::
  "('s, 'o, 'tx) BlockHashReceiverCallerSession \<Rightarrow> 's
    \<Rightarrow> go_error + int" where
  "BlockHashReceiverCallerSession_LatestBlockHeight ss s =
     BlockHashReceiverCaller_LatestBlockHeight (BlockHashReceiverCallerSession_Contract ss)
       (BlockHashReceiverCallerSession_CallOpts ss) s"

definition BlockHashReceiverCaller_Owner ::
  "('s, 'o, 'tx) BlockHashReceiverCaller \<Rightarrow> 'o \<Rightarrow> 's
    \<Rightarrow> go_error + address" where
  "BlockHashReceiverCaller_Owner c opts s =
     bindE (bc_Call (BlockHashReceiverCaller_contract c) opts ''owner'' [] s) (\<lambda>out.
     bindE (go_out (BlockHashReceiverCaller_contract c) out 0 TAddress as_address) (\<lambda>out0.
     Inr out0))"

definition BlockHashReceiverSession_Owner ::
  "('s, 'o, 'tx) BlockHashReceiverSession \<Rightarrow> 's
    \<Rightarrow> go_error + address" where
  "BlockHashReceiverSession_Owner ss s =
     BlockHashReceiverCaller_Owner (BlockHashReceiver_Caller (BlockHashReceiverSession_Contract
         ss))
       (BlockHashReceiverSession_CallOpts ss) s"

definition BlockHashReceiverCallerSession_Owner ::
  "('s, 'o, 'tx) BlockHashReceiverCallerSession \<Rightarrow> 's
    \<Rightarrow> go_error + address" where
  "BlockHashReceiverCallerSession_Owner ss s =
     BlockHashReceiverCaller_Owner (BlockHashReceiverCallerSession_Contract ss)
       (BlockHashReceiverCallerSession_CallOpts ss) s"

definition BlockHashReceiverCaller_SourceBlockchainID ::
  "('s, 'o, 'tx) BlockHashReceiverCaller \<Rightarrow> 'o \<Rightarrow> 's
    \<Rightarrow> go_error + bytes32" where
  "BlockHashReceiverCaller_SourceBlockchainID c opts s =
     bindE (bc_Call (BlockHashReceiverCaller_contract c) opts ''sourceBlockchainID'' [] s) (\<lambda>out.
     bindE (go_out (BlockHashReceiverCaller_contract c) out 0 TBytes32 as_bytes32) (\<lambda>out0.
     Inr out0))"

definition BlockHashReceiverSession_SourceBlockchainID ::
  "('s, 'o, 'tx) BlockHashReceiverSession \<Rightarrow> 's
    \<Rightarrow> go_error + bytes32" where
  "BlockHashReceiverSession_SourceBlockchainID ss s =
     BlockHashReceiverCaller_SourceBlockchainID (BlockHashReceiver_Caller
         (BlockHashReceiverSession_Contract ss))
       (BlockHashReceiverSession_CallOpts ss) s"

definition BlockHashReceiverCallerSession_SourceBlockchainID ::
  "('s, 'o, 'tx) BlockHashReceiverCallerSession \<Rightarrow> 's
    \<Rightarrow> go_error + bytes32" where
  "BlockHashReceiverCallerSession_SourceBlockchainID ss s =
     BlockHashReceiverCaller_SourceBlockchainID (BlockHashReceiverCallerSession_Contract ss)
       (BlockHashReceiverCallerSession_CallOpts ss) s"

definition BlockHashReceiverCaller_SourcePublisherContractAddress ::
  "('s, 'o, 'tx) BlockHashReceiverCaller \<Rightarrow> 'o \<Rightarrow> 's
    \<Rightarrow> go_error + address" where
  "BlockHashReceiverCaller_SourcePublisherContractAddress c opts s =
     bindE (bc_Call (BlockHashReceiverCaller_contract c) opts ''sourcePublisherContractAddress''
         [] s) (\<lambda>out.
     bindE (go_out (BlockHashReceiverCaller_contract c) out 0 TAddress as_address) (\<lambda>out0.
     Inr out0))"

definition BlockHashReceiverSession_SourcePublisherContractAddress ::
  "('s, 'o, 'tx) BlockHashReceiverSession \<Rightarrow> 's
    \<Rightarrow> go_error + address" where
  "BlockHashReceiverSession_SourcePublisherContractAddress ss s =
     BlockHashReceiverCaller_SourcePublisherContractAddress (BlockHashReceiver_Caller
         (BlockHashReceiverSession_Contract ss))
       (BlockHashReceiverSession_CallOpts ss) s"

definition BlockHashReceiverCallerSession_SourcePublisherContractAddress ::
  "('s, 'o, 'tx) BlockHashReceiverCallerSession \<Rightarrow> 's
    \<Rightarrow> go_error + address" where
  "BlockHashReceiverCallerSession_SourcePublisherContractAddress ss s =
     BlockHashReceiverCaller_SourcePublisherContractAddress
         (BlockHashReceiverCallerSession_Contract ss)
       (BlockHashReceiverCallerSession_CallOpts ss) s"

definition BlockHashReceiverCaller_TeleporterRegistry ::
  "('s, 'o, 'tx) BlockHashReceiverCaller \<Rightarrow> 'o \<Rightarrow> 's
    \<Rightarrow> go_error + address" where
  "BlockHashReceiverCaller_TeleporterRegistry c opts s =
     bindE (bc_Call (BlockHashReceiverCaller_contract c) opts ''teleporterRegistry'' [] s) (\<lambda>out.
     bindE (go_out (BlockHashReceiverCaller_contract c) out 0 TAddress as_address) (\<lambda>out0.
     Inr out0))"

definition BlockHashReceiverSession_TeleporterRegistry ::
  "('s, 'o, 'tx) BlockHashReceiverSession \<Rightarrow> 's
    \<Rightarrow> go_error + address" where
  "BlockHashReceiverSession_TeleporterRegistry ss s =
     BlockHashReceiverCaller_TeleporterRegistry (BlockHashReceiver_Caller
         (BlockHashReceiverSession_Contract ss))
       (BlockHashReceiverSession_CallOpts ss) s"

definition BlockHashReceiverCallerSession_TeleporterRegistry ::
  "('s, 'o, 'tx) BlockHashReceiverCallerSession \<Rightarrow> 's
    \<Rightarrow> go_error + address" where
  "BlockHashReceiverCallerSession_TeleporterRegistry ss s =
     BlockHashReceiverCaller_TeleporterRegistry (BlockHashReceiverCallerSession_Contract ss)
       (BlockHashReceiverCallerSession_CallOpts ss) s"

subsection \<open>Transactions\<close>

definition BlockHashReceiverTransactor_PauseTeleporterAddress ::
  "('s, 'o, 'tx) BlockHashReceiverTransactor \<Rightarrow> 'o \<Rightarrow> address \<Rightarrow> 's
    \<Rightarrow> go_error + ('tx \<times> 's)" where
  "BlockHashReceiverTransactor_PauseTeleporterAddress c opts teleporterAddress s =
     bc_Transact (BlockHashReceiverTransactor_contract c) opts ''pauseTeleporterAddress''
       [GAddress teleporterAddress] s"

definition BlockHashReceiverSession_PauseTeleporterAddress ::
  "('s, 'o, 'tx) BlockHashReceiverSession \<Rightarrow> address \<Rightarrow> 's
    \<Rightarrow> go_error + ('tx \<times> 's)" where
  "BlockHashReceiverSession_PauseTeleporterAddress ss teleporterAddress s =
     BlockHashReceiverTransactor_PauseTeleporterAddress (BlockHashReceiver_Transactor
         (BlockHashReceiverSession_Contract ss))
       (BlockHashReceiverSession_TransactOpts ss) teleporterAddress s"

definition BlockHashReceiverTransactorSession_PauseTeleporterAddress ::
  "('s, 'o, 'tx) BlockHashReceiverTransactorSession \<Rightarrow> address \<Rightarrow> 's
    \<Rightarrow> go_error + ('tx \<times> 's)" where
  "BlockHashReceiverTransactorSession_PauseTeleporterAddress ss teleporterAddress s =
     BlockHashReceiverTransactor_PauseTeleporterAddress
         (BlockHashReceiverTransactorSession_Contract ss)
       (BlockHashReceiverTransactorSession_TransactOpts ss) teleporterAddress s"

definition BlockHashReceiverTransactor_ReceiveTeleporterMessage ::
  "('s, 'o, 'tx) BlockHashReceiverTransactor \<Rightarrow> 'o \<Rightarrow> bytes32 \<Rightarrow> address \<Rightarrow> bytes \<Rightarrow> 's
    \<Rightarrow> go_error + ('tx \<times> 's)" where
  "BlockHashReceiverTransactor_ReceiveTeleporterMessage c opts originBlockchainID
      originSenderAddress message s =
     bc_Transact (BlockHashReceiverTransactor_contract c) opts ''receiveTeleporterMessage''
       [GBytes32 originBlockchainID, GAddress originSenderAddress, GBytes message] s"

definition BlockHashReceiverSession_ReceiveTeleporterMessage ::
  "('s, 'o, 'tx) BlockHashReceiverSession \<Rightarrow> bytes32 \<Rightarrow> address \<Rightarrow> bytes \<Rightarrow> 's
    \<Rightarrow> go_error + ('tx \<times> 's)" where
  "BlockHashReceiverSession_ReceiveTeleporterMessage ss originBlockchainID originSenderAddress
      message s =
     BlockHashReceiverTransactor_ReceiveTeleporterMessage (BlockHashReceiver_Transactor
         (BlockHashReceiverSession_Contract ss))
       (BlockHashReceiverSession_TransactOpts ss) originBlockchainID originSenderAddress message
           s"

definition BlockHashReceiverTransactorSession_ReceiveTeleporterMessage ::
  "('s, 'o, 'tx) BlockHashReceiverTransactorSession \<Rightarrow> bytes32 \<Rightarrow> address \<Rightarrow> bytes \<Rightarrow> 's
    \<Rightarrow> go_error + ('tx \<times> 's)" where
  "BlockHashReceiverTransactorSession_ReceiveTeleporterMessage ss originBlockchainID
      originSenderAddress message s =
     BlockHashReceiverTransactor_ReceiveTeleporterMessage
         (BlockHashReceiverTransactorSession_Contract ss)
       (BlockHashReceiverTransactorSession_TransactOpts ss) originBlockchainID
           originSenderAddress message s"

definition BlockHashReceiverTransactor_RenounceOwnership ::
  "('s, 'o, 'tx) BlockHashReceiverTransactor \<Rightarrow> 'o \<Rightarrow> 's
    \<Rightarrow> go_error + ('tx \<times> 's)" where
  "BlockHashReceiverTransactor_RenounceOwnership c opts s =
     bc_Transact (BlockHashReceiverTransactor_contract c) opts ''renounceOwnership''
       [] s"

definition BlockHashReceiverSession_RenounceOwnership ::
  "('s, 'o, 'tx) BlockHashReceiverSession \<Rightarrow> 's
    \<Rightarrow> go_error + ('tx \<times> 's)" where
  "BlockHashReceiverSession_RenounceOwnership ss s =
     BlockHashReceiverTransactor_RenounceOwnership (BlockHashReceiver_Transactor
         (BlockHashReceiverSession_Contract ss))
       (BlockHashReceiverSession_TransactOpts ss) s"

definition BlockHashReceiverTransactorSession_RenounceOwnership ::
  "('s, 'o, 'tx) BlockHashReceiverTransactorSession \<Rightarrow> 's
    \<Rightarrow> go_error + ('tx \<times> 's)" where
  "BlockHashReceiverTransactorSession_RenounceOwnership ss s =
     BlockHashReceiverTransactor_RenounceOwnership (BlockHashReceiverTransactorSession_Contract
         ss)
       (BlockHashReceiverTransactorSession_TransactOpts ss) s"

definition BlockHashReceiverTransactor_TransferOwnership ::
  "('s, 'o, 'tx) BlockHashReceiverTransactor \<Rightarrow> 'o \<Rightarrow> address \<Rightarrow> 's
    \<Rightarrow> go_error + ('tx \<times> 's)" where
  "BlockHashReceiverTransactor_TransferOwnership c opts newOwner s =
     bc_Transact (BlockHashReceiverTransactor_contract c) opts ''transferOwnership''
       [GAddress newOwner] s"

definition BlockHashReceiverSession_TransferOwnership ::
  "('s, 'o, 'tx) BlockHashReceiverSession \<Rightarrow> address \<Rightarrow> 's
    \<Rightarrow> go_error + ('tx \<times> 's)" where
  "BlockHashReceiverSession_TransferOwnership ss newOwner s =
     BlockHashReceiverTransactor_TransferOwnership (BlockHashReceiver_Transactor
         (BlockHashReceiverSession_Contract ss))
       (BlockHashReceiverSession_TransactOpts ss) newOwner s"

definition BlockHashReceiverTransactorSession_TransferOwnership ::
  "('s, 'o, 'tx) BlockHashReceiverTransactorSession \<Rightarrow> address \<Rightarrow> 's
    \<Rightarrow> go_error + ('tx \<times> 's)" where
  "BlockHashReceiverTransactorSession_TransferOwnership ss newOwner s =
     BlockHashReceiverTransactor_TransferOwnership (BlockHashReceiverTransactorSession_Contract
         ss)
       (BlockHashReceiverTransactorSession_TransactOpts ss) newOwner s"

definition BlockHashReceiverTransactor_UnpauseTeleporterAddress ::
  "('s, 'o, 'tx) BlockHashReceiverTransactor \<Rightarrow> 'o \<Rightarrow> address \<Rightarrow> 's
    \<Rightarrow> go_error + ('tx \<times> 's)" where
  "BlockHashReceiverTransactor_UnpauseTeleporterAddress c opts teleporterAddress s =
     bc_Transact (BlockHashReceiverTransactor_contract c) opts ''unpauseTeleporterAddress''
       [GAddress teleporterAddress] s"

definition BlockHashReceiverSession_UnpauseTeleporterAddress ::
  "('s, 'o, 'tx) BlockHashReceiverSession \<Rightarrow> address \<Rightarrow> 's
    \<Rightarrow> go_error + ('tx \<times> 's)" where
  "BlockHashReceiverSession_UnpauseTeleporterAddress ss teleporterAddress s =
     BlockHashReceiverTransactor_UnpauseTeleporterAddress (BlockHashReceiver_Transactor
         (BlockHashReceiverSession_Contract ss))
       (BlockHashReceiverSession_TransactOpts ss) teleporterAddress s"

definition BlockHashReceiverTransactorSession_UnpauseTeleporterAddress ::
  "('s, 'o, 'tx) BlockHashReceiverTransactorSession \<Rightarrow> address \<Rightarrow> 's
    \<Rightarrow> go_error + ('tx \<times> 's)" where
  "BlockHashReceiverTransactorSession_UnpauseTeleporterAddress ss teleporterAddress s =
     BlockHashReceiverTransactor_UnpauseTeleporterAddress
         (BlockHashReceiverTransactorSession_Contract ss)
       (BlockHashReceiverTransactorSession_TransactOpts ss) teleporterAddress s"

definition BlockHashReceiverTransactor_UpdateMinTeleporterVersion ::
  "('s, 'o, 'tx) BlockHashReceiverTransactor \<Rightarrow> 'o \<Rightarrow> int \<Rightarrow> 's
    \<Rightarrow> go_error + ('tx \<times> 's)" where
  "BlockHashReceiverTransactor_UpdateMinTeleporterVersion c opts version s =
     bc_Transact (BlockHashReceiverTransactor_contract c) opts ''updateMinTeleporterVersion''
       [GBigInt version] s"

definition BlockHashReceiverSession_UpdateMinTeleporterVersion ::
  "('s, 'o, 'tx) BlockHashReceiverSession \<Rightarrow> int \<Rightarrow> 's
    \<Rightarrow> go_error + ('tx \<times> 's)" where
  "BlockHashReceiverSession_UpdateMinTeleporterVersion ss version s =
     BlockHashReceiverTransactor_UpdateMinTeleporterVersion (BlockHashReceiver_Transactor
         (BlockHashReceiverSession_Contract ss))
       (BlockHashReceiverSession_TransactOpts ss) version s"

definition BlockHashReceiverTransactorSession_UpdateMinTeleporterVersion ::
  "('s, 'o, 'tx) BlockHashReceiverTransactorSession \<Rightarrow> int \<Rightarrow> 's
    \<Rightarrow> go_error + ('tx \<times> 's)" where
  "BlockHashReceiverTransactorSession_UpdateMinTeleporterVersion ss version s =
     BlockHashReceiverTransactor_UpdateMinTeleporterVersion
         (BlockHashReceiverTransactorSession_Contract ss)
       (BlockHashReceiverTransactorSession_TransactOpts ss) version s"

subsection \<open>Events\<close>

text \<open>The event \<open>MinTeleporterVersionUpdated\<close>.\<close>

record BlockHashReceiverMinTeleporterVersionUpdated =
  BlockHashReceiverMinTeleporterVersionUpdated_OldMinTeleporterVersion :: int
  BlockHashReceiverMinTeleporterVersionUpdated_NewMinTeleporterVersion :: int
  BlockHashReceiverMinTeleporterVersionUpdated_Raw :: log

definition filled_BlockHashReceiverMinTeleporterVersionUpdated :: "go_value \<Rightarrow> log \<Rightarrow>
    BlockHashReceiverMinTeleporterVersionUpdated" where
  "filled_BlockHashReceiverMinTeleporterVersionUpdated v raw =
     \<lparr>BlockHashReceiverMinTeleporterVersionUpdated_OldMinTeleporterVersion = filled as_bigint
         TBigInt v 0,
       BlockHashReceiverMinTeleporterVersionUpdated_NewMinTeleporterVersion = filled as_bigint
           TBigInt v 1,
       BlockHashReceiverMinTeleporterVersionUpdated_Raw = raw\<rparr>"

definition unpack_BlockHashReceiverMinTeleporterVersionUpdated ::
  "('s, 'o, 'tx) bound_contract \<Rightarrow> string \<Rightarrow> log \<Rightarrow> go_error +
      BlockHashReceiverMinTeleporterVersionUpdated" where
  "unpack_BlockHashReceiverMinTeleporterVersionUpdated c event raw =
     bindE (bc_UnpackLog c (TStruct ''BlockHashReceiverMinTeleporterVersionUpdated'' [TBigInt,
         TBigInt]) event raw) (\<lambda>v.
     Inr (filled_BlockHashReceiverMinTeleporterVersionUpdated v raw))"

definition BlockHashReceiverMinTeleporterVersionUpdatedIterator_Next ::
  "('s, 'o, 'tx) bound_contract \<Rightarrow> bool \<Rightarrow> BlockHashReceiverMinTeleporterVersionUpdated iterator \<Rightarrow>
      BlockHashReceiverMinTeleporterVersionUpdated next_result" where
  "BlockHashReceiverMinTeleporterVersionUpdatedIterator_Next c = iterator_Next
      (unpack_BlockHashReceiverMinTeleporterVersionUpdated c)"

definition BlockHashReceiverMinTeleporterVersionUpdatedIterator_Error ::
  "BlockHashReceiverMinTeleporterVersionUpdated iterator \<Rightarrow> go_error option" where
  "BlockHashReceiverMinTeleporterVersionUpdatedIterator_Error = iterator_Error"

definition BlockHashReceiverMinTeleporterVersionUpdatedIterator_Close ::
  "BlockHashReceiverMinTeleporterVersionUpdated iterator \<Rightarrow> go_error option \<times>
      BlockHashReceiverMinTeleporterVersionUpdated iterator" where
  "BlockHashReceiverMinTeleporterVersionUpdatedIterator_Close = iterator_Close"

definition BlockHashReceiverFilterer_FilterMinTeleporterVersionUpdated ::
  "('s, 'o, 'tx) BlockHashReceiverFilterer \<Rightarrow> 'o \<Rightarrow> int list \<Rightarrow> int list \<Rightarrow> 's
    \<Rightarrow> go_error + BlockHashReceiverMinTeleporterVersionUpdated iterator" where
  "BlockHashReceiverFilterer_FilterMinTeleporterVersionUpdated c opts oldMinTeleporterVersion
      newMinTeleporterVersion s =
     bindE (bc_FilterLogs (BlockHashReceiverFilterer_contract c) opts
         ''MinTeleporterVersionUpdated'' [map GBigInt oldMinTeleporterVersion, map GBigInt
         newMinTeleporterVersion] s) (\<lambda>stream.
     Inr (new_iterator ''MinTeleporterVersionUpdated'' stream))"

definition BlockHashReceiverFilterer_WatchMinTeleporterVersionUpdated ::
  "('s, 'o, 'tx) BlockHashReceiverFilterer \<Rightarrow> 'o \<Rightarrow> int list \<Rightarrow> int list \<Rightarrow> 's
    \<Rightarrow> go_error + BlockHashReceiverMinTeleporterVersionUpdated watcher" where
  "BlockHashReceiverFilterer_WatchMinTeleporterVersionUpdated c opts oldMinTeleporterVersion
      newMinTeleporterVersion s =
     bindE (bc_WatchLogs (BlockHashReceiverFilterer_contract c) opts
         ''MinTeleporterVersionUpdated'' [map GBigInt oldMinTeleporterVersion, map GBigInt
         newMinTeleporterVersion] s) (\<lambda>stream.
     Inr (new_watcher (unpack_BlockHashReceiverMinTeleporterVersionUpdated
         (BlockHashReceiverFilterer_contract c) ''MinTeleporterVersionUpdated'') stream))"

definition BlockHashReceiverFilterer_ParseMinTeleporterVersionUpdated ::
  "('s, 'o, 'tx) BlockHashReceiverFilterer \<Rightarrow> log \<Rightarrow> go_error +
      BlockHashReceiverMinTeleporterVersionUpdated" where
  "BlockHashReceiverFilterer_ParseMinTeleporterVersionUpdated c raw =
      unpack_BlockHashReceiverMinTeleporterVersionUpdated (BlockHashReceiverFilterer_contract c)
      ''MinTeleporterVersionUpdated'' raw"

text \<open>The event \<open>OwnershipTransferred\<close>.\<close>

record BlockHashReceiverOwnershipTransferred =
  BlockHashReceiverOwnershipTransferred_PreviousOwner :: address
  BlockHashReceiverOwnershipTransferred_NewOwner :: address
  BlockHashReceiverOwnershipTransferred_Raw :: log

definition filled_BlockHashReceiverOwnershipTransferred :: "go_value \<Rightarrow> log \<Rightarrow>
    BlockHashReceiverOwnershipTransferred" where
  "filled_BlockHashReceiverOwnershipTransferred v raw =
     \<lparr>BlockHashReceiverOwnershipTransferred_PreviousOwner = filled as_address TAddress v 0,
       BlockHashReceiverOwnershipTransferred_NewOwner = filled as_address TAddress v 1,
       BlockHashReceiverOwnershipTransferred_Raw = raw\<rparr>"

definition unpack_BlockHashReceiverOwnershipTransferred ::
  "('s, 'o, 'tx) bound_contract \<Rightarrow> string \<Rightarrow> log \<Rightarrow> go_error +
      BlockHashReceiverOwnershipTransferred" where
  "unpack_BlockHashReceiverOwnershipTransferred c event raw =
     bindE (bc_UnpackLog c (TStruct ''BlockHashReceiverOwnershipTransferred'' [TAddress,
         TAddress]) event raw) (\<lambda>v.
     Inr (filled_BlockHashReceiverOwnershipTransferred v raw))"

definition BlockHashReceiverOwnershipTransferredIterator_Next ::
  "('s, 'o, 'tx) bound_contract \<Rightarrow> bool \<Rightarrow> BlockHashReceiverOwnershipTransferred iterator \<Rightarrow>
      BlockHashReceiverOwnershipTransferred next_result" where
  "BlockHashReceiverOwnershipTransferredIterator_Next c = iterator_Next
      (unpack_BlockHashReceiverOwnershipTransferred c)"

definition BlockHashReceiverOwnershipTransferredIterator_Error ::
  "BlockHashReceiverOwnershipTransferred iterator \<Rightarrow> go_error option" where
  "BlockHashReceiverOwnershipTransferredIterator_Error = iterator_Error"

definition BlockHashReceiverOwnershipTransferredIterator_Close ::
  "BlockHashReceiverOwnershipTransferred iterator \<Rightarrow> go_error option \<times>
      BlockHashReceiverOwnershipTransferred iterator" where
  "BlockHashReceiverOwnershipTransferredIterator_Close = iterator_Close"

definition BlockHashReceiverFilterer_FilterOwnershipTransferred ::
  "('s, 'o, 'tx) BlockHashReceiverFilterer \<Rightarrow> 'o \<Rightarrow> address list \<Rightarrow> address list \<Rightarrow> 's
    \<Rightarrow> go_error + BlockHashReceiverOwnershipTransferred iterator" where
  "BlockHashReceiverFilterer_FilterOwnershipTransferred c opts previousOwner newOwner s =
     bindE (bc_FilterLogs (BlockHashReceiverFilterer_contract c) opts ''OwnershipTransferred''
         [map GAddress previousOwner, map GAddress newOwner] s) (\<lambda>stream.
     Inr (new_iterator ''OwnershipTransferred'' stream))"

definition BlockHashReceiverFilterer_WatchOwnershipTransferred ::
  "('s, 'o, 'tx) BlockHashReceiverFilterer \<Rightarrow> 'o \<Rightarrow> address list \<Rightarrow> address list \<Rightarrow> 's
    \<Rightarrow> go_error + BlockHashReceiverOwnershipTransferred watcher" where
  "BlockHashReceiverFilterer_WatchOwnershipTransferred c opts previousOwner newOwner s =
     bindE (bc_WatchLogs (BlockHashReceiverFilterer_contract c) opts ''OwnershipTransferred''
         [map GAddress previousOwner, map GAddress newOwner] s) (\<lambda>stream.
     Inr (new_watcher (unpack_BlockHashReceiverOwnershipTransferred
         (BlockHashReceiverFilterer_contract c) ''OwnershipTransferred'') stream))"

definition BlockHashReceiverFilterer_ParseOwnershipTransferred ::
  "('s, 'o, 'tx) BlockHashReceiverFilterer \<Rightarrow> log \<Rightarrow> go_error +
      BlockHashReceiverOwnershipTransferred" where
  "BlockHashReceiverFilterer_ParseOwnershipTransferred c raw =
      unpack_BlockHashReceiverOwnershipTransferred (BlockHashReceiverFilterer_contract c)
      ''OwnershipTransferred'' raw"

text \<open>The event \<open>ReceiveBlockHash\<close>.\<close>

record BlockHashReceiverReceiveBlockHash =
  BlockHashReceiverReceiveBlockHash_OriginBlockchainID :: bytes32
  BlockHashReceiverReceiveBlockHash_OriginSenderAddress :: address
  BlockHashReceiverReceiveBlockHash_BlockHeight :: int
  BlockHashReceiverReceiveBlockHash_BlockHash :: bytes32
  BlockHashReceiverReceiveBlockHash_Raw :: log

definition filled_BlockHashReceiverReceiveBlockHash :: "go_value \<Rightarrow> log \<Rightarrow>
    BlockHashReceiverReceiveBlockHash" where
  "filled_BlockHashReceiverReceiveBlockHash v raw =
     \<lparr>BlockHashReceiverReceiveBlockHash_OriginBlockchainID = filled as_bytes32 TBytes32 v 0,
       BlockHashReceiverReceiveBlockHash_OriginSenderAddress = filled as_address TAddress v 1,
       BlockHashReceiverReceiveBlockHash_BlockHeight = filled as_bigint TBigInt v 2,
       BlockHashReceiverReceiveBlockHash_BlockHash = filled as_bytes32 TBytes32 v 3,
       BlockHashReceiverReceiveBlockHash_Raw = raw\<rparr>"

definition unpack_BlockHashReceiverReceiveBlockHash ::
  "('s, 'o, 'tx) bound_contract \<Rightarrow> string \<Rightarrow> log \<Rightarrow> go_error + BlockHashReceiverReceiveBlockHash"
      where
  "unpack_BlockHashReceiverReceiveBlockHash c event raw =
     bindE (bc_UnpackLog c (TStruct ''BlockHashReceiverReceiveBlockHash'' [TBytes32, TAddress,
         TBigInt, TBytes32]) event raw) (\<lambda>v.
     Inr (filled_BlockHashReceiverReceiveBlockHash v raw))"

definition BlockHashReceiverReceiveBlockHashIterator_Next ::
  "('s, 'o, 'tx) bound_contract \<Rightarrow> bool \<Rightarrow> BlockHashReceiverReceiveBlockHash iterator \<Rightarrow>
      BlockHashReceiverReceiveBlockHash next_result" where
  "BlockHashReceiverReceiveBlockHashIterator_Next c = iterator_Next
      (unpack_BlockHashReceiverReceiveBlockHash c)"

definition BlockHashReceiverReceiveBlockHashIterator_Error ::
  "BlockHashReceiverReceiveBlockHash iterator \<Rightarrow> go_error option" where
  "BlockHashReceiverReceiveBlockHashIterator_Error = iterator_Error"

definition BlockHashReceiverReceiveBlockHashIterator_Close ::
  "BlockHashReceiverReceiveBlockHash iterator \<Rightarrow> go_error option \<times>
      BlockHashReceiverReceiveBlockHash iterator" where
  "BlockHashReceiverReceiveBlockHashIterator_Close = iterator_Close"

definition BlockHashReceiverFilterer_FilterReceiveBlockHash ::
  "('s, 'o, 'tx) BlockHashReceiverFilterer \<Rightarrow> 'o \<Rightarrow> bytes32 list \<Rightarrow> address list \<Rightarrow> int list \<Rightarrow> 's
    \<Rightarrow> go_error + BlockHashReceiverReceiveBlockHash iterator" where
  "BlockHashReceiverFilterer_FilterReceiveBlockHash c opts originBlockchainID originSenderAddress
      blockHeight s =
     bindE (bc_FilterLogs (BlockHashReceiverFilterer_contract c) opts ''ReceiveBlockHash'' [map
         GBytes32 originBlockchainID, map GAddress originSenderAddress, map GBigInt blockHeight]
         s) (\<lambda>stream.
     Inr (new_iterator ''ReceiveBlockHash'' stream))"

definition BlockHashReceiverFilterer_WatchReceiveBlockHash ::
  "('s, 'o, 'tx) BlockHashReceiverFilterer \<Rightarrow> 'o \<Rightarrow> bytes32 list \<Rightarrow> address list \<Rightarrow> int list \<Rightarrow> 's
    \<Rightarrow> go_error + BlockHashReceiverReceiveBlockHash watcher" where
  "BlockHashReceiverFilterer_WatchReceiveBlockHash c opts originBlockchainID originSenderAddress
      blockHeight s =
     bindE (bc_WatchLogs (BlockHashReceiverFilterer_contract c) opts ''ReceiveBlockHash'' [map
         GBytes32 originBlockchainID, map GAddress originSenderAddress, map GBigInt blockHeight]
         s) (\<lambda>stream.
     Inr (new_watcher (unpack_BlockHashReceiverReceiveBlockHash
         (BlockHashReceiverFilterer_contract c) ''ReceiveBlockHash'') stream))"

definition BlockHashReceiverFilterer_ParseReceiveBlockHash ::
  "('s, 'o, 'tx) BlockHashReceiverFilterer \<Rightarrow> log \<Rightarrow> go_error + BlockHashReceiverReceiveBlockHash"
      where
  "BlockHashReceiverFilterer_ParseReceiveBlockHash c raw =
      unpack_BlockHashReceiverReceiveBlockHash (BlockHashReceiverFilterer_contract c)
      ''ReceiveBlockHash'' raw"

text \<open>The event \<open>TeleporterAddressPaused\<close>.\<close>

record BlockHashReceiverTeleporterAddressPaused =
  BlockHashReceiverTeleporterAddressPaused_TeleporterAddress :: address
  BlockHashReceiverTeleporterAddressPaused_Raw :: log

definition filled_BlockHashReceiverTeleporterAddressPaused :: "go_value \<Rightarrow> log \<Rightarrow>
    BlockHashReceiverTeleporterAddressPaused" where
  "filled_BlockHashReceiverTeleporterAddressPaused v raw =
     \<lparr>BlockHashReceiverTeleporterAddressPaused_TeleporterAddress = filled as_address TAddress v 0,
       BlockHashReceiverTeleporterAddressPaused_Raw = raw\<rparr>"

definition unpack_BlockHashReceiverTeleporterAddressPaused ::
  "('s, 'o, 'tx) bound_contract \<Rightarrow> string \<Rightarrow> log \<Rightarrow> go_error +
      BlockHashReceiverTeleporterAddressPaused" where
  "unpack_BlockHashReceiverTeleporterAddressPaused c event raw =
     bindE (bc_UnpackLog c (TStruct ''BlockHashReceiverTeleporterAddressPaused'' [TAddress])
         event raw) (\<lambda>v.
     Inr (filled_BlockHashReceiverTeleporterAddressPaused v raw))"

definition BlockHashReceiverTeleporterAddressPausedIterator_Next ::
  "('s, 'o, 'tx) bound_contract \<Rightarrow> bool \<Rightarrow> BlockHashReceiverTeleporterAddressPaused iterator \<Rightarrow>
      BlockHashReceiverTeleporterAddressPaused next_result" where
  "BlockHashReceiverTeleporterAddressPausedIterator_Next c = iterator_Next
      (unpack_BlockHashReceiverTeleporterAddressPaused c)"

definition BlockHashReceiverTeleporterAddressPausedIterator_Error ::
  "BlockHashReceiverTeleporterAddressPaused iterator \<Rightarrow> go_error option" where
  "BlockHashReceiverTeleporterAddressPausedIterator_Error = iterator_Error"

definition BlockHashReceiverTeleporterAddressPausedIterator_Close ::
  "BlockHashReceiverTeleporterAddressPaused iterator \<Rightarrow> go_error option \<times>
      BlockHashReceiverTeleporterAddressPaused iterator" where
  "BlockHashReceiverTeleporterAddressPausedIterator_Close = iterator_Close"

definition BlockHashReceiverFilterer_FilterTeleporterAddressPaused ::
  "('s, 'o, 'tx) BlockHashReceiverFilterer \<Rightarrow> 'o \<Rightarrow> address list \<Rightarrow> 's
    \<Rightarrow> go_error + BlockHashReceiverTeleporterAddressPaused iterator" where
  "BlockHashReceiverFilterer_FilterTeleporterAddressPaused c opts teleporterAddress s =
     bindE (bc_FilterLogs (BlockHashReceiverFilterer_contract c) opts ''TeleporterAddressPaused''
         [map GAddress teleporterAddress] s) (\<lambda>stream.
     Inr (new_iterator ''TeleporterAddressPaused'' stream))"

definition BlockHashReceiverFilterer_WatchTeleporterAddressPaused ::
  "('s, 'o, 'tx) BlockHashReceiverFilterer \<Rightarrow> 'o \<Rightarrow> address list \<Rightarrow> 's
    \<Rightarrow> go_error + BlockHashReceiverTeleporterAddressPaused watcher" where
  "BlockHashReceiverFilterer_WatchTeleporterAddressPaused c opts teleporterAddress s =
     bindE (bc_WatchLogs (BlockHashReceiverFilterer_contract c) opts ''TeleporterAddressPaused''
         [map GAddress teleporterAddress] s) (\<lambda>stream.
     Inr (new_watcher (unpack_BlockHashReceiverTeleporterAddressPaused
         (BlockHashReceiverFilterer_contract c) ''TeleporterAddressPaused'') stream))"

definition BlockHashReceiverFilterer_ParseTeleporterAddressPaused ::
  "('s, 'o, 'tx) BlockHashReceiverFilterer \<Rightarrow> log \<Rightarrow> go_error +
      BlockHashReceiverTeleporterAddressPaused" where
  "BlockHashReceiverFilterer_ParseTeleporterAddressPaused c raw =
      unpack_BlockHashReceiverTeleporterAddressPaused (BlockHashReceiverFilterer_contract c)
      ''TeleporterAddressPaused'' raw"

text \<open>The event \<open>TeleporterAddressUnpaused\<close>.\<close>

record BlockHashReceiverTeleporterAddressUnpaused =
  BlockHashReceiverTeleporterAddressUnpaused_TeleporterAddress :: address
  BlockHashReceiverTeleporterAddressUnpaused_Raw :: log

definition filled_BlockHashReceiverTeleporterAddressUnpaused :: "go_value \<Rightarrow> log \<Rightarrow>
    BlockHashReceiverTeleporterAddressUnpaused" where
  "filled_BlockHashReceiverTeleporterAddressUnpaused v raw =
     \<lparr>BlockHashReceiverTeleporterAddressUnpaused_TeleporterAddress = filled as_address TAddress v
         0,
       BlockHashReceiverTeleporterAddressUnpaused_Raw = raw\<rparr>"

definition unpack_BlockHashReceiverTeleporterAddressUnpaused ::
  "('s, 'o, 'tx) bound_contract \<Rightarrow> string \<Rightarrow> log \<Rightarrow> go_error +
      BlockHashReceiverTeleporterAddressUnpaused" where
  "unpack_BlockHashReceiverTeleporterAddressUnpaused c event raw =
     bindE (bc_UnpackLog c (TStruct ''BlockHashReceiverTeleporterAddressUnpaused'' [TAddress])
         event raw) (\<lambda>v.
     Inr (filled_BlockHashReceiverTeleporterAddressUnpaused v raw))"

definition BlockHashReceiverTeleporterAddressUnpausedIterator_Next ::
  "('s, 'o, 'tx) bound_contract \<Rightarrow> bool \<Rightarrow> BlockHashReceiverTeleporterAddressUnpaused iterator \<Rightarrow>
      BlockHashReceiverTeleporterAddressUnpaused next_result" where
  "BlockHashReceiverTeleporterAddressUnpausedIterator_Next c = iterator_Next
      (unpack_BlockHashReceiverTeleporterAddressUnpaused c)"

definition BlockHashReceiverTeleporterAddressUnpausedIterator_Error ::
  "BlockHashReceiverTeleporterAddressUnpaused iterator \<Rightarrow> go_error option" where
  "BlockHashReceiverTeleporterAddressUnpausedIterator_Error = iterator_Error"

definition BlockHashReceiverTeleporterAddressUnpausedIterator_Close ::
  "BlockHashReceiverTeleporterAddressUnpaused iterator \<Rightarrow> go_error option \<times>
      BlockHashReceiverTeleporterAddressUnpaused iterator" where
  "BlockHashReceiverTeleporterAddressUnpausedIterator_Close = iterator_Close"

definition BlockHashReceiverFilterer_FilterTeleporterAddressUnpaused ::
  "('s, 'o, 'tx) BlockHashReceiverFilterer \<Rightarrow> 'o \<Rightarrow> address list \<Rightarrow> 's
    \<Rightarrow> go_error + BlockHashReceiverTeleporterAddressUnpaused iterator" where
  "BlockHashReceiverFilterer_FilterTeleporterAddressUnpaused c opts teleporterAddress s =
     bindE (bc_FilterLogs (BlockHashReceiverFilterer_contract c) opts
         ''TeleporterAddressUnpaused'' [map GAddress teleporterAddress] s) (\<lambda>stream.
     Inr (new_iterator ''TeleporterAddressUnpaused'' stream))"

definition BlockHashReceiverFilterer_WatchTeleporterAddressUnpaused ::
  "('s, 'o, 'tx) BlockHashReceiverFilterer \<Rightarrow> 'o \<Rightarrow> address list \<Rightarrow> 's
    \<Rightarrow> go_error + BlockHashReceiverTeleporterAddressUnpaused watcher" where
  "BlockHashReceiverFilterer_WatchTeleporterAddressUnpaused c opts teleporterAddress s =
     bindE (bc_WatchLogs (BlockHashReceiverFilterer_contract c) opts
         ''TeleporterAddressUnpaused'' [map GAddress teleporterAddress] s) (\<lambda>stream.
     Inr (new_watcher (unpack_BlockHashReceiverTeleporterAddressUnpaused
         (BlockHashReceiverFilterer_contract c) ''TeleporterAddressUnpaused'') stream))"

definition BlockHashReceiverFilterer_ParseTeleporterAddressUnpaused ::
  "('s, 'o, 'tx) BlockHashReceiverFilterer \<Rightarrow> log \<Rightarrow> go_error +
      BlockHashReceiverTeleporterAddressUnpaused" where
  "BlockHashReceiverFilterer_ParseTeleporterAddressUnpaused c raw =
      unpack_BlockHashReceiverTeleporterAddressUnpaused (BlockHashReceiverFilterer_contract c)
      ''TeleporterAddressUnpaused'' raw"

end
