(* ===== verification/Bind_ExampleCrossChainMessenger.thy ===== *)
theory Bind_ExampleCrossChainMessenger
  imports Go_Bind
begin

section \<open>The Go binding of ExampleCrossChainMessenger\<close>

text \<open>
  One definition per type and function of
  \<open>abi-bindings/go/CrossChainApplications/ExampleMessenger/ExampleCrossChainMessenger/ExampleCrossChainMessenger.go\<close>,
  in the order of the file: structs, the ABI of the metadata, the facets of the bound contract, the
  read-only methods, the transactions, and for each event its struct, iterator, filter,
  subscription and parser. The option structs, the chain and the library are parameters.
\<close>

subsection \<open>The ABI\<close>

definition ExampleCrossChainMessengerMetaData :: abi_meta where
  "ExampleCrossChainMessengerMetaData =
     \<lparr>meta_name = ''ExampleCrossChainMessenger'',
      meta_constructor = [TAddress],
      meta_methods = [
        (''getCurrentMessage'', [TBytes32], [TAddress, TString]),
        (''getMinTeleporterVersion'', [], [TBigInt]),
        (''isTeleporterAddressPaused'', [TAddress], [TBool]),
        (''owner'', [], [TAddress]),
        (''pauseTeleporterAddress'', [TAddress], []),
        (''receiveTeleporterMessage'', [TBytes32, TAddress, TBytes], []),
        (''renounceOwnership'', [], []),
        (''sendMessage'', [TBytes32, TAddress, TAddress, TBigInt, TBigInt, TString], [TBigInt]),
        (''teleporterRegistry'', [], [TAddress]),
        (''transferOwnership'', [TAddress], []),
        (''unpauseTeleporterAddress'', [TAddress], []),
        (''updateMinTeleporterVersion'', [TBigInt], [])],
      meta_events = [
        (''MinTeleporterVersionUpdated'', [(TBigInt, True), (TBigInt, True)]),
        (''OwnershipTransferred'', [(TAddress, True), (TAddress, True)]),
        (''ReceiveMessage'', [(TBytes32, True), (TAddress, True), (TString, False)]),
        (''SendMessage'', [(TBytes32, True), (TAddress, True), (TAddress, False), (TBigInt,
            False), (TBigInt, False), (TString, False)]),
        (''TeleporterAddressPaused'', [(TAddress, True)]),
        (''TeleporterAddressUnpaused'', [(TAddress, True)])]\<rparr>"

subsection \<open>The bound contract and its facets\<close>

record ('s, 'o, 'tx) ExampleCrossChainMessengerCaller =
  ExampleCrossChainMessengerCaller_contract :: "('s, 'o, 'tx) bound_contract"

record ('s, 'o, 'tx) ExampleCrossChainMessengerTransactor =
  ExampleCrossChainMessengerTransactor_contract :: "('s, 'o, 'tx) bound_contract"

record ('s, 'o, 'tx) ExampleCrossChainMessengerFilterer =
  ExampleCrossChainMessengerFilterer_contract :: "('s, 'o, 'tx) bound_contract"

record ('s, 'o, 'tx) ExampleCrossChainMessenger =
  ExampleCrossChainMessenger_Caller :: "('s, 'o, 'tx) ExampleCrossChainMessengerCaller"
  ExampleCrossChainMessenger_Transactor :: "('s, 'o, 'tx) ExampleCrossChainMessengerTransactor"
  ExampleCrossChainMessenger_Filterer :: "('s, 'o, 'tx) ExampleCrossChainMessengerFilterer"

record ('s, 'o, 'tx) ExampleCrossChainMessengerSession =
  ExampleCrossChainMessengerSession_Contract :: "('s, 'o, 'tx) ExampleCrossChainMessenger"
  ExampleCrossChainMessengerSession_CallOpts :: 'o
  ExampleCrossChainMessengerSession_TransactOpts :: 'o

record ('s, 'o, 'tx) ExampleCrossChainMessengerCallerSession =
  ExampleCrossChainMessengerCallerSession_Contract :: "('s, 'o, 'tx) ExampleCrossChainMessengerCaller"
  ExampleCrossChainMessengerCallerSession_CallOpts :: 'o

record ('s, 'o, 'tx) ExampleCrossChainMessengerTransactorSession =
  ExampleCrossChainMessengerTransactorSession_Contract :: "('s, 'o, 'tx) ExampleCrossChainMessengerTransactor"
  ExampleCrossChainMessengerTransactorSession_TransactOpts :: 'o

record ('s, 'o, 'tx) ExampleCrossChainMessengerRaw =
  ExampleCrossChainMessengerRaw_Contract :: "('s, 'o, 'tx) ExampleCrossChainMessenger"

record ('s, 'o, 'tx) ExampleCrossChainMessengerCallerRaw =
  ExampleCrossChainMessengerCallerRaw_Contract :: "('s, 'o, 'tx) ExampleCrossChainMessengerCaller"

record ('s, 'o, 'tx) ExampleCrossChainMessengerTransactorRaw =
  ExampleCrossChainMessengerTransactorRaw_Contract :: "('s, 'o, 'tx) ExampleCrossChainMessengerTransactor"

definition bindExampleCrossChainMessenger ::
  "('s, 'o, 'tx, 'abi, 'k) bind_lib \<Rightarrow> address \<Rightarrow> 'k option \<Rightarrow> 'k option \<Rightarrow> 'k option
    \<Rightarrow> go_error + ('s, 'o, 'tx) bound_contract" where
  "bindExampleCrossChainMessenger lib addr caller transactor filterer =
     bindE (lib_GetAbi lib ExampleCrossChainMessengerMetaData) (\<lambda>parsed.
     case parsed of
       None \<Rightarrow> Inl (GoPanic ''nil pointer dereference'')
     | Some abi \<Rightarrow> Inr (lib_NewBoundContract lib addr abi caller transactor filterer))"

definition DeployExampleCrossChainMessenger ::
  "('s, 'o, 'tx, 'abi, 'k) bind_lib \<Rightarrow> 'o \<Rightarrow> 'k \<Rightarrow> address \<Rightarrow> 's
    \<Rightarrow> go_error + (address \<times> 'tx \<times> ('s, 'o, 'tx) ExampleCrossChainMessenger \<times> 's)" where
  "DeployExampleCrossChainMessenger lib auth backend teleporterRegistryAddress s =
     bindE (lib_GetAbi lib ExampleCrossChainMessengerMetaData) (\<lambda>parsed.
     case parsed of
       None \<Rightarrow> Inl (GoError ''GetABI returned nil'')
     | Some abi \<Rightarrow>
         bindE (lib_DeployContract lib auth abi (meta_name ExampleCrossChainMessengerMetaData)
             backend [GAddress teleporterRegistryAddress] s)
         (\<lambda>(addr, tx, c, s').
         Inr (addr, tx, \<lparr>ExampleCrossChainMessenger_Caller =
             \<lparr>ExampleCrossChainMessengerCaller_contract = c\<rparr>,
         ExampleCrossChainMessenger_Transactor = \<lparr>ExampleCrossChainMessengerTransactor_contract =
             c\<rparr>,
         ExampleCrossChainMessenger_Filterer = \<lparr>ExampleCrossChainMessengerFilterer_contract =
             c\<rparr>\<rparr>, s')))"

definition NewExampleCrossChainMessenger ::
  "('s, 'o, 'tx, 'abi, 'k) bind_lib \<Rightarrow> address \<Rightarrow> 'k \<Rightarrow> go_error + ('s, 'o, 'tx)
      ExampleCrossChainMessenger" where
  "NewExampleCrossChainMessenger lib addr backend =
     bindE (bindExampleCrossChainMessenger lib addr (Some backend) (Some backend) (Some backend))
         (\<lambda>c.
     Inr \<lparr>ExampleCrossChainMessenger_Caller = \<lparr>ExampleCrossChainMessengerCaller_contract = c\<rparr>,
         ExampleCrossChainMessenger_Transactor = \<lparr>ExampleCrossChainMessengerTransactor_contract =
             c\<rparr>,
         ExampleCrossChainMessenger_Filterer = \<lparr>ExampleCrossChainMessengerFilterer_contract =
             c\<rparr>\<rparr>)"

definition NewExampleCrossChainMessengerCaller ::
  "('s, 'o, 'tx, 'abi, 'k) bind_lib \<Rightarrow> address \<Rightarrow> 'k \<Rightarrow> go_error + ('s, 'o, 'tx)
      ExampleCrossChainMessengerCaller" where
  "NewExampleCrossChainMessengerCaller lib addr b =
     bindE (bindExampleCrossChainMessenger lib addr (Some b) None None) (\<lambda>c.
     Inr \<lparr>ExampleCrossChainMessengerCaller_contract = c\<rparr>)"

definition NewExampleCrossChainMessengerTransactor ::
  "('s, 'o, 'tx, 'abi, 'k) bind_lib \<Rightarrow> address \<Rightarrow> 'k \<Rightarrow> go_error + ('s, 'o, 'tx)
      ExampleCrossChainMessengerTransactor" where
  "NewExampleCrossChainMessengerTransactor lib addr b =
     bindE (bindExampleCrossChainMessenger lib addr None (Some b) None) (\<lambda>c.
     Inr \<lparr>ExampleCrossChainMessengerTransactor_contract = c\<rparr>)"

definition NewExampleCrossChainMessengerFilterer ::
  "('s, 'o, 'tx, 'abi, 'k) bind_lib \<Rightarrow> address \<Rightarrow> 'k \<Rightarrow> go_error + ('s, 'o, 'tx)
      ExampleCrossChainMessengerFilterer" where
  "NewExampleCrossChainMessengerFilterer lib addr b =
     bindE (bindExampleCrossChainMessenger lib addr None None (Some b)) (\<lambda>c.
     Inr \<lparr>ExampleCrossChainMessengerFilterer_contract = c\<rparr>)"

definition ExampleCrossChainMessengerRaw_Call ::
  "('s, 'o, 'tx) ExampleCrossChainMessengerRaw \<Rightarrow> 'o \<Rightarrow> string \<Rightarrow> go_value list \<Rightarrow> 's
    \<Rightarrow> go_error + go_value list" where
  "ExampleCrossChainMessengerRaw_Call r opts method params s =
     bc_Call (ExampleCrossChainMessengerCaller_contract (ExampleCrossChainMessenger_Caller
         (ExampleCrossChainMessengerRaw_Contract r))) opts method params s"

definition ExampleCrossChainMessengerRaw_Transfer ::
  "('s, 'o, 'tx) ExampleCrossChainMessengerRaw \<Rightarrow> 'o \<Rightarrow> 's \<Rightarrow> go_error + ('tx \<times> 's)" where
  "ExampleCrossChainMessengerRaw_Transfer r opts s =
     bc_Transfer (ExampleCrossChainMessengerTransactor_contract
         (ExampleCrossChainMessenger_Transactor (ExampleCrossChainMessengerRaw_Contract r))) opts
         s"

definition ExampleCrossChainMessengerRaw_Transact ::
  "('s, 'o, 'tx) ExampleCrossChainMessengerRaw \<Rightarrow> 'o \<Rightarrow> string \<Rightarrow> go_value list \<Rightarrow> 's
    \<Rightarrow> go_error + ('tx \<times> 's)" where
  "ExampleCrossChainMessengerRaw_Transact r opts method params s =
     bc_Transact (ExampleCrossChainMessengerTransactor_contract
         (ExampleCrossChainMessenger_Transactor (ExampleCrossChainMessengerRaw_Contract r))) opts
         method params s"

definition ExampleCrossChainMessengerCallerRaw_Call ::
  "('s, 'o, 'tx) ExampleCrossChainMessengerCallerRaw \<Rightarrow> 'o \<Rightarrow> string \<Rightarrow> go_value list \<Rightarrow> 's
    \<Rightarrow> go_error + go_value list" where
  "ExampleCrossChainMessengerCallerRaw_Call r opts method params s =
     bc_Call (ExampleCrossChainMessengerCaller_contract
         (ExampleCrossChainMessengerCallerRaw_Contract r)) opts method params s"

definition ExampleCrossChainMessengerTransactorRaw_Transfer ::
  "('s, 'o, 'tx) ExampleCrossChainMessengerTransactorRaw \<Rightarrow> 'o \<Rightarrow> 's \<Rightarrow> go_error + ('tx \<times> 's)" where
  "ExampleCrossChainMessengerTransactorRaw_Transfer r opts s =
     bc_Transfer (ExampleCrossChainMessengerTransactor_contract
         (ExampleCrossChainMessengerTransactorRaw_Contract r)) opts s"

definition ExampleCrossChainMessengerTransactorRaw_Transact ::
  "('s, 'o, 'tx) ExampleCrossChainMessengerTransactorRaw \<Rightarrow> 'o \<Rightarrow> string \<Rightarrow> go_value list \<Rightarrow> 's
    \<Rightarrow> go_error + ('tx \<times> 's)" where
  "ExampleCrossChainMessengerTransactorRaw_Transact r opts method params s =
     bc_Transact (ExampleCrossChainMessengerTransactor_contract
         (ExampleCrossChainMessengerTransactorRaw_Contract r)) opts method params s"

subsection \<open>Read-only methods\<close>

definition ExampleCrossChainMessengerCaller_GetCurrentMessage ::
  "('s, 'o, 'tx) ExampleCrossChainMessengerCaller \<Rightarrow> 'o \<Rightarrow> bytes32 \<Rightarrow> 's
    \<Rightarrow> go_error + (address \<times> string)" where
  "ExampleCrossChainMessengerCaller_GetCurrentMessage c opts originBlockchainID s =
     bindE (bc_Call (ExampleCrossChainMessengerCaller_contract c) opts ''getCurrentMessage''
         [GBytes32 originBlockchainID] s) (\<lambda>out.
     bindE (go_out (ExampleCrossChainMessengerCaller_contract c) out 0 TAddress as_address)
         (\<lambda>out0.
     bindE (go_out (ExampleCrossChainMessengerCaller_contract c) out 1 TString as_string) (\<lambda>out1.
     Inr (out0, out1))))"

definition ExampleCrossChainMessengerSession_GetCurrentMessage ::
  "('s, 'o, 'tx) ExampleCrossChainMessengerSession \<Rightarrow> bytes32 \<Rightarrow> 's
    \<Rightarrow> go_error + (address \<times> string)" where
  "ExampleCrossChainMessengerSession_GetCurrentMessage ss originBlockchainID s =
     ExampleCrossChainMessengerCaller_GetCurrentMessage (ExampleCrossChainMessenger_Caller
         (ExampleCrossChainMessengerSession_Contract ss))
       (ExampleCrossChainMessengerSession_CallOpts ss) originBlockchainID s"

definition ExampleCrossChainMessengerCallerSession_GetCurrentMessage ::
  "('s, 'o, 'tx) ExampleCrossChainMessengerCallerSession \<Rightarrow> bytes32 \<Rightarrow> 's
    \<Rightarrow> go_error + (address \<times> string)" where
  "ExampleCrossChainMessengerCallerSession_GetCurrentMessage ss originBlockchainID s =
     ExampleCrossChainMessengerCaller_GetCurrentMessage
         (ExampleCrossChainMessengerCallerSession_Contract ss)
       (ExampleCrossChainMessengerCallerSession_CallOpts ss) originBlockchainID s"

definition ExampleCrossChainMessengerCaller_GetMinTeleporterVersion ::
  "('s, 'o, 'tx) ExampleCrossChainMessengerCaller \<Rightarrow> 'o \<Rightarrow> 's
    \<Rightarrow> go_error + int" where
  "ExampleCrossChainMessengerCaller_GetMinTeleporterVersion c opts s =
     bindE (bc_Call (ExampleCrossChainMessengerCaller_contract c) opts
         ''getMinTeleporterVersion'' [] s) (\<lambda>out.
     bindE (go_out (ExampleCrossChainMessengerCaller_contract c) out 0 TBigInt as_bigint) (\<lambda>out0.
     Inr out0))"

definition ExampleCrossChainMessengerSession_GetMinTeleporterVersion ::
  "('s, 'o, 'tx) ExampleCrossChainMessengerSession \<Rightarrow> 's
    \<Rightarrow> go_error + int" where
  "ExampleCrossChainMessengerSession_GetMinTeleporterVersion ss s =
     ExampleCrossChainMessengerCaller_GetMinTeleporterVersion (ExampleCrossChainMessenger_Caller
         (ExampleCrossChainMessengerSession_Contract ss))
       (ExampleCrossChainMessengerSession_CallOpts ss) s"

definition ExampleCrossChainMessengerCallerSession_GetMinTeleporterVersion ::
  "('s, 'o, 'tx) ExampleCrossChainMessengerCallerSession \<Rightarrow> 's
    \<Rightarrow> go_error + int" where
  "ExampleCrossChainMessengerCallerSession_GetMinTeleporterVersion ss s =
     ExampleCrossChainMessengerCaller_GetMinTeleporterVersion
         (ExampleCrossChainMessengerCallerSession_Contract ss)
       (ExampleCrossChainMessengerCallerSession_CallOpts ss) s"

definition ExampleCrossChainMessengerCaller_IsTeleporterAddressPaused ::
  "('s, 'o, 'tx) ExampleCrossChainMessengerCaller \<Rightarrow> 'o \<Rightarrow> address \<Rightarrow> 's
    \<Rightarrow> go_error + bool" where
  "ExampleCrossChainMessengerCaller_IsTeleporterAddressPaused c opts teleporterAddress s =
     bindE (bc_Call (ExampleCrossChainMessengerCaller_contract c) opts
         ''isTeleporterAddressPaused'' [GAddress teleporterAddress] s) (\<lambda>out.
     bindE (go_out (ExampleCrossChainMessengerCaller_contract c) out 0 TBool as_bool) (\<lambda>out0.
     Inr out0))"

definition ExampleCrossChainMessengerSession_IsTeleporterAddressPaused ::
  "('s, 'o, 'tx) ExampleCrossChainMessengerSession \<Rightarrow> address \<Rightarrow> 's
    \<Rightarrow> go_error + bool" where
  "ExampleCrossChainMessengerSession_IsTeleporterAddressPaused ss teleporterAddress s =
     ExampleCrossChainMessengerCaller_IsTeleporterAddressPaused
         (ExampleCrossChainMessenger_Caller (ExampleCrossChainMessengerSession_Contract ss))
       (ExampleCrossChainMessengerSession_CallOpts ss) teleporterAddress s"

definition ExampleCrossChainMessengerCallerSession_IsTeleporterAddressPaused ::
  "('s, 'o, 'tx) ExampleCrossChainMessengerCallerSession \<Rightarrow> address \<Rightarrow> 's
    \<Rightarrow> go_error + bool" where
  "ExampleCrossChainMessengerCallerSession_IsTeleporterAddressPaused ss teleporterAddress s =
     ExampleCrossChainMessengerCaller_IsTeleporterAddressPaused
         (ExampleCrossChainMessengerCallerSession_Contract ss)
       (ExampleCrossChainMessengerCallerSession_CallOpts ss) teleporterAddress s"

definition ExampleCrossChainMessengerCaller_Owner ::
  "('s, 'o, 'tx) ExampleCrossChainMessengerCaller \<Rightarrow> 'o \<Rightarrow> 's
    \<Rightarrow> go_error + address" where
  "ExampleCrossChainMessengerCaller_Owner c opts s =
     bindE (bc_Call (ExampleCrossChainMessengerCaller_contract c) opts ''owner'' [] s) (\<lambda>out.
     bindE (go_out (ExampleCrossChainMessengerCaller_contract c) out 0 TAddress as_address)
         (\<lambda>out0.
     Inr out0))"

definition ExampleCrossChainMessengerSession_Owner ::
  "('s, 'o, 'tx) ExampleCrossChainMessengerSession \<Rightarrow> 's
    \<Rightarrow> go_error + address" where
  "ExampleCrossChainMessengerSession_Owner ss s =
     ExampleCrossChainMessengerCaller_Owner (ExampleCrossChainMessenger_Caller
         (ExampleCrossChainMessengerSession_Contract ss))
       (ExampleCrossChainMessengerSession_CallOpts ss) s"

definition ExampleCrossChainMessengerCallerSession_Owner ::
  "('s, 'o, 'tx) ExampleCrossChainMessengerCallerSession \<Rightarrow> 's
    \<Rightarrow> go_error + address" where
  "ExampleCrossChainMessengerCallerSession_Owner ss s =
     ExampleCrossChainMessengerCaller_Owner (ExampleCrossChainMessengerCallerSession_Contract ss)
       (ExampleCrossChainMessengerCallerSession_CallOpts ss) s"

definition ExampleCrossChainMessengerCaller_TeleporterRegistry ::
  "('s, 'o, 'tx) ExampleCrossChainMessengerCaller \<Rightarrow> 'o \<Rightarrow> 's
    \<Rightarrow> go_error + address" where
  "ExampleCrossChainMessengerCaller_TeleporterRegistry c opts s =
     bindE (bc_Call (ExampleCrossChainMessengerCaller_contract c) opts ''teleporterRegistry'' []
         s) (\<lambda>out.
     bindE (go_out (ExampleCrossChainMessengerCaller_contract c) out 0 TAddress as_address)
         (\<lambda>out0.
     Inr out0))"

definition ExampleCrossChainMessengerSession_TeleporterRegistry ::
  "('s, 'o, 'tx) ExampleCrossChainMessengerSession \<Rightarrow> 's
    \<Rightarrow> go_error + address" where
  "ExampleCrossChainMessengerSession_TeleporterRegistry ss s =
     ExampleCrossChainMessengerCaller_TeleporterRegistry (ExampleCrossChainMessenger_Caller
         (ExampleCrossChainMessengerSession_Contract ss))
       (ExampleCrossChainMessengerSession_CallOpts ss) s"

definition ExampleCrossChainMessengerCallerSession_TeleporterRegistry ::
  "('s, 'o, 'tx) ExampleCrossChainMessengerCallerSession \<Rightarrow> 's
    \<Rightarrow> go_error + address" where
  "ExampleCrossChainMessengerCallerSession_TeleporterRegistry ss s =
     ExampleCrossChainMessengerCaller_TeleporterRegistry
         (ExampleCrossChainMessengerCallerSession_Contract ss)
       (ExampleCrossChainMessengerCallerSession_CallOpts ss) s"

subsection \<open>Transactions\<close>

definition ExampleCrossChainMessengerTransactor_PauseTeleporterAddress ::
  "('s, 'o, 'tx) ExampleCrossChainMessengerTransactor \<Rightarrow> 'o \<Rightarrow> address \<Rightarrow> 's
    \<Rightarrow> go_error + ('tx \<times> 's)" where
  "ExampleCrossChainMessengerTransactor_PauseTeleporterAddress c opts teleporterAddress s =
     bc_Transact (ExampleCrossChainMessengerTransactor_contract c) opts ''pauseTeleporterAddress''
       [GAddress teleporterAddress] s"

definition ExampleCrossChainMessengerSession_PauseTeleporterAddress ::
  "('s, 'o, 'tx) ExampleCrossChainMessengerSession \<Rightarrow> address \<Rightarrow> 's
    \<Rightarrow> go_error + ('tx \<times> 's)" where
  "ExampleCrossChainMessengerSession_PauseTeleporterAddress ss teleporterAddress s =
     ExampleCrossChainMessengerTransactor_PauseTeleporterAddress
         (ExampleCrossChainMessenger_Transactor (ExampleCrossChainMessengerSession_Contract ss))
       (ExampleCrossChainMessengerSession_TransactOpts ss) teleporterAddress s"

definition ExampleCrossChainMessengerTransactorSession_PauseTeleporterAddress ::
  "('s, 'o, 'tx) ExampleCrossChainMessengerTransactorSession \<Rightarrow> address \<Rightarrow> 's
    \<Rightarrow> go_error + ('tx \<times> 's)" where
  "ExampleCrossChainMessengerTransactorSession_PauseTeleporterAddress ss teleporterAddress s =
     ExampleCrossChainMessengerTransactor_PauseTeleporterAddress
         (ExampleCrossChainMessengerTransactorSession_Contract ss)
       (ExampleCrossChainMessengerTransactorSession_TransactOpts ss) teleporterAddress s"

definition ExampleCrossChainMessengerTransactor_ReceiveTeleporterMessage ::
  "('s, 'o, 'tx) ExampleCrossChainMessengerTransactor \<Rightarrow> 'o \<Rightarrow> bytes32 \<Rightarrow> address \<Rightarrow> bytes \<Rightarrow> 's
    \<Rightarrow> go_error + ('tx \<times> 's)" where
  "ExampleCrossChainMessengerTransactor_ReceiveTeleporterMessage c opts originBlockchainID
      originSenderAddress message s =
     bc_Transact (ExampleCrossChainMessengerTransactor_contract c) opts
         ''receiveTeleporterMessage''
       [GBytes32 originBlockchainID, GAddress originSenderAddress, GBytes message] s"

definition ExampleCrossChainMessengerSession_ReceiveTeleporterMessage ::
  "('s, 'o, 'tx) ExampleCrossChainMessengerSession \<Rightarrow> bytes32 \<Rightarrow> address \<Rightarrow> bytes \<Rightarrow> 's
    \<Rightarrow> go_error + ('tx \<times> 's)" where
  "ExampleCrossChainMessengerSession_ReceiveTeleporterMessage ss originBlockchainID
      originSenderAddress message s =
     ExampleCrossChainMessengerTransactor_ReceiveTeleporterMessage
         (ExampleCrossChainMessenger_Transactor (ExampleCrossChainMessengerSession_Contract ss))
       (ExampleCrossChainMessengerSession_TransactOpts ss) originBlockchainID originSenderAddress
           message s"

definition ExampleCrossChainMessengerTransactorSession_ReceiveTeleporterMessage ::
  "('s, 'o, 'tx) ExampleCrossChainMessengerTransactorSession \<Rightarrow> bytes32 \<Rightarrow> address \<Rightarrow> bytes \<Rightarrow> 's
    \<Rightarrow> go_error + ('tx \<times> 's)" where
  "ExampleCrossChainMessengerTransactorSession_ReceiveTeleporterMessage ss originBlockchainID
      originSenderAddress message s =
     ExampleCrossChainMessengerTransactor_ReceiveTeleporterMessage
         (ExampleCrossChainMessengerTransactorSession_Contract ss)
       (ExampleCrossChainMessengerTransactorSession_TransactOpts ss) originBlockchainID
           originSenderAddress message s"

definition ExampleCrossChainMessengerTransactor_RenounceOwnership ::
  "('s, 'o, 'tx) ExampleCrossChainMessengerTransactor \<Rightarrow> 'o \<Rightarrow> 's
    \<Rightarrow> go_error + ('tx \<times> 's)" where
  "ExampleCrossChainMessengerTransactor_RenounceOwnership c opts s =
     bc_Transact (ExampleCrossChainMessengerTransactor_contract c) opts ''renounceOwnership''
       [] s"

definition ExampleCrossChainMessengerSession_RenounceOwnership ::
  "('s, 'o, 'tx) ExampleCrossChainMessengerSession \<Rightarrow> 's
    \<Rightarrow> go_error + ('tx \<times> 's)" where
  "ExampleCrossChainMessengerSession_RenounceOwnership ss s =
     ExampleCrossChainMessengerTransactor_RenounceOwnership
         (ExampleCrossChainMessenger_Transactor (ExampleCrossChainMessengerSession_Contract ss))
       (ExampleCrossChainMessengerSession_TransactOpts ss) s"

definition ExampleCrossChainMessengerTransactorSession_RenounceOwnership ::
  "('s, 'o, 'tx) ExampleCrossChainMessengerTransactorSession \<Rightarrow> 's
    \<Rightarrow> go_error + ('tx \<times> 's)" where
  "ExampleCrossChainMessengerTransactorSession_RenounceOwnership ss s =
     ExampleCrossChainMessengerTransactor_RenounceOwnership
         (ExampleCrossChainMessengerTransactorSession_Contract ss)
       (ExampleCrossChainMessengerTransactorSession_TransactOpts ss) s"

definition ExampleCrossChainMessengerTransactor_SendMessage ::
  "('s, 'o, 'tx) ExampleCrossChainMessengerTransactor \<Rightarrow> 'o \<Rightarrow> bytes32 \<Rightarrow> address \<Rightarrow> address \<Rightarrow> int \<Rightarrow>
      int \<Rightarrow> string \<Rightarrow> 's
    \<Rightarrow> go_error + ('tx \<times> 's)" where
  "ExampleCrossChainMessengerTransactor_SendMessage c opts destinationBlockchainID
      destinationAddress feeTokenAddress feeAmount requiredGasLimit message s =
     bc_Transact (ExampleCrossChainMessengerTransactor_contract c) opts ''sendMessage''
       [GBytes32 destinationBlockchainID, GAddress destinationAddress, GAddress feeTokenAddress,
           GBigInt feeAmount, GBigInt requiredGasLimit, GString message] s"

definition ExampleCrossChainMessengerSession_SendMessage ::
  "('s, 'o, 'tx) ExampleCrossChainMessengerSession \<Rightarrow> bytes32 \<Rightarrow> address \<Rightarrow> address \<Rightarrow> int \<Rightarrow> int \<Rightarrow>
      string \<Rightarrow> 's
    \<Rightarrow> go_error + ('tx \<times> 's)" where
  "ExampleCrossChainMessengerSession_SendMessage ss destinationBlockchainID destinationAddress
      feeTokenAddress feeAmount requiredGasLimit message s =
     ExampleCrossChainMessengerTransactor_SendMessage (ExampleCrossChainMessenger_Transactor
         (ExampleCrossChainMessengerSession_Contract ss))
       (ExampleCrossChainMessengerSession_TransactOpts ss) destinationBlockchainID
           destinationAddress feeTokenAddress feeAmount requiredGasLimit message s"

definition ExampleCrossChainMessengerTransactorSession_SendMessage ::
  "('s, 'o, 'tx) ExampleCrossChainMessengerTransactorSession \<Rightarrow> bytes32 \<Rightarrow> address \<Rightarrow> address \<Rightarrow> int
      \<Rightarrow> int \<Rightarrow> string \<Rightarrow> 's
    \<Rightarrow> go_error + ('tx \<times> 's)" where
  "ExampleCrossChainMessengerTransactorSession_SendMessage ss destinationBlockchainID
      destinationAddress feeTokenAddress feeAmount requiredGasLimit message s =
     ExampleCrossChainMessengerTransactor_SendMessage
         (ExampleCrossChainMessengerTransactorSession_Contract ss)
       (ExampleCrossChainMessengerTransactorSession_TransactOpts ss) destinationBlockchainID
           destinationAddress feeTokenAddress feeAmount requiredGasLimit message s"

definition ExampleCrossChainMessengerTransactor_TransferOwnership ::
  "('s, 'o, 'tx) ExampleCrossChainMessengerTransactor \<Rightarrow> 'o \<Rightarrow> address \<Rightarrow> 's
    \<Rightarrow> go_error + ('tx \<times> 's)" where
  "ExampleCrossChainMessengerTransactor_TransferOwnership c opts newOwner s =
     bc_Transact (ExampleCrossChainMessengerTransactor_contract c) opts ''transferOwnership''
       [GAddress newOwner] s"

definition ExampleCrossChainMessengerSession_TransferOwnership ::
  "('s, 'o, 'tx) ExampleCrossChainMessengerSession \<Rightarrow> address \<Rightarrow> 's
    \<Rightarrow> go_error + ('tx \<times> 's)" where
  "ExampleCrossChainMessengerSession_TransferOwnership ss newOwner s =
     ExampleCrossChainMessengerTransactor_TransferOwnership
         (ExampleCrossChainMessenger_Transactor (ExampleCrossChainMessengerSession_Contract ss))
       (ExampleCrossChainMessengerSession_TransactOpts ss) newOwner s"

definition ExampleCrossChainMessengerTransactorSession_TransferOwnership ::
  "('s, 'o, 'tx) ExampleCrossChainMessengerTransactorSession \<Rightarrow> address \<Rightarrow> 's
    \<Rightarrow> go_error + ('tx \<times> 's)" where
  "ExampleCrossChainMessengerTransactorSession_TransferOwnership ss newOwner s =
     ExampleCrossChainMessengerTransactor_TransferOwnership
         (ExampleCrossChainMessengerTransactorSession_Contract ss)
       (ExampleCrossChainMessengerTransactorSession_TransactOpts ss) newOwner s"

definition ExampleCrossChainMessengerTransactor_UnpauseTeleporterAddress ::
  "('s, 'o, 'tx) ExampleCrossChainMessengerTransactor \<Rightarrow> 'o \<Rightarrow> address \<Rightarrow> 's
    \<Rightarrow> go_error + ('tx \<times> 's)" where
  "ExampleCrossChainMessengerTransactor_UnpauseTeleporterAddress c opts teleporterAddress s =
     bc_Transact (ExampleCrossChainMessengerTransactor_contract c) opts
         ''unpauseTeleporterAddress''
       [GAddress teleporterAddress] s"

definition ExampleCrossChainMessengerSession_UnpauseTeleporterAddress ::
  "('s, 'o, 'tx) ExampleCrossChainMessengerSession \<Rightarrow> address \<Rightarrow> 's
    \<Rightarrow> go_error + ('tx \<times> 's)" where
  "ExampleCrossChainMessengerSession_UnpauseTeleporterAddress ss teleporterAddress s =
     ExampleCrossChainMessengerTransactor_UnpauseTeleporterAddress
         (ExampleCrossChainMessenger_Transactor (ExampleCrossChainMessengerSession_Contract ss))
       (ExampleCrossChainMessengerSession_TransactOpts ss) teleporterAddress s"

definition ExampleCrossChainMessengerTransactorSession_UnpauseTeleporterAddress ::
  "('s, 'o, 'tx) ExampleCrossChainMessengerTransactorSession \<Rightarrow> address \<Rightarrow> 's
    \<Rightarrow> go_error + ('tx \<times> 's)" where
  "ExampleCrossChainMessengerTransactorSession_UnpauseTeleporterAddress ss teleporterAddress s =
     ExampleCrossChainMessengerTransactor_UnpauseTeleporterAddress
         (ExampleCrossChainMessengerTransactorSession_Contract ss)
       (ExampleCrossChainMessengerTransactorSession_TransactOpts ss) teleporterAddress s"

definition ExampleCrossChainMessengerTransactor_UpdateMinTeleporterVersion ::
  "('s, 'o, 'tx) ExampleCrossChainMessengerTransactor \<Rightarrow> 'o \<Rightarrow> int \<Rightarrow> 's
    \<Rightarrow> go_error + ('tx \<times> 's)" where
  "ExampleCrossChainMessengerTransactor_UpdateMinTeleporterVersion c opts version s =
     bc_Transact (ExampleCrossChainMessengerTransactor_contract c) opts
         ''updateMinTeleporterVersion''
       [GBigInt version] s"

definition ExampleCrossChainMessengerSession_UpdateMinTeleporterVersion ::
  "('s, 'o, 'tx) ExampleCrossChainMessengerSession \<Rightarrow> int \<Rightarrow> 's
    \<Rightarrow> go_error + ('tx \<times> 's)" where
  "ExampleCrossChainMessengerSession_UpdateMinTeleporterVersion ss version s =
     ExampleCrossChainMessengerTransactor_UpdateMinTeleporterVersion
         (ExampleCrossChainMessenger_Transactor (ExampleCrossChainMessengerSession_Contract ss))
       (ExampleCrossChainMessengerSession_TransactOpts ss) version s"

definition ExampleCrossChainMessengerTransactorSession_UpdateMinTeleporterVersion ::
  "('s, 'o, 'tx) ExampleCrossChainMessengerTransactorSession \<Rightarrow> int \<Rightarrow> 's
    \<Rightarrow> go_error + ('tx \<times> 's)" where
  "ExampleCrossChainMessengerTransactorSession_UpdateMinTeleporterVersion ss version s =
     ExampleCrossChainMessengerTransactor_UpdateMinTeleporterVersion
         (ExampleCrossChainMessengerTransactorSession_Contract ss)
       (ExampleCrossChainMessengerTransactorSession_TransactOpts ss) version s"

subsection \<open>Events\<close>

text \<open>The event \<open>MinTeleporterVersionUpdated\<close>.\<close>

record ExampleCrossChainMessengerMinTeleporterVersionUpdated =
  ExampleCrossChainMessengerMinTeleporterVersionUpdated_OldMinTeleporterVersion :: int
  ExampleCrossChainMessengerMinTeleporterVersionUpdated_NewMinTeleporterVersion :: int
  ExampleCrossChainMessengerMinTeleporterVersionUpdated_Raw :: log

definition filled_ExampleCrossChainMessengerMinTeleporterVersionUpdated :: "go_value \<Rightarrow> log \<Rightarrow>
    ExampleCrossChainMessengerMinTeleporterVersionUpdated" where
  "filled_ExampleCrossChainMessengerMinTeleporterVersionUpdated v raw =
     \<lparr>ExampleCrossChainMessengerMinTeleporterVersionUpdated_OldMinTeleporterVersion = filled
         as_bigint TBigInt v 0,
       ExampleCrossChainMessengerMinTeleporterVersionUpdated_NewMinTeleporterVersion = filled
           as_bigint TBigInt v 1,
       ExampleCrossChainMessengerMinTeleporterVersionUpdated_Raw = raw\<rparr>"

definition unpack_ExampleCrossChainMessengerMinTeleporterVersionUpdated ::
  "('s, 'o, 'tx) bound_contract \<Rightarrow> string \<Rightarrow> log \<Rightarrow> go_error +
      ExampleCrossChainMessengerMinTeleporterVersionUpdated" where
  "unpack_ExampleCrossChainMessengerMinTeleporterVersionUpdated c event raw =
     bindE (bc_UnpackLog c (TStruct ''ExampleCrossChainMessengerMinTeleporterVersionUpdated''
         [TBigInt, TBigInt]) event raw) (\<lambda>v.
     Inr (filled_ExampleCrossChainMessengerMinTeleporterVersionUpdated v raw))"

definition ExampleCrossChainMessengerMinTeleporterVersionUpdatedIterator_Next ::
  "('s, 'o, 'tx) bound_contract \<Rightarrow> bool \<Rightarrow> ExampleCrossChainMessengerMinTeleporterVersionUpdated
      iterator \<Rightarrow> ExampleCrossChainMessengerMinTeleporterVersionUpdated next_result" where
  "ExampleCrossChainMessengerMinTeleporterVersionUpdatedIterator_Next c = iterator_Next
      (unpack_ExampleCrossChainMessengerMinTeleporterVersionUpdated c)"

definition ExampleCrossChainMessengerMinTeleporterVersionUpdatedIterator_Error ::
  "ExampleCrossChainMessengerMinTeleporterVersionUpdated iterator \<Rightarrow> go_error option" where
  "ExampleCrossChainMessengerMinTeleporterVersionUpdatedIterator_Error = iterator_Error"

definition ExampleCrossChainMessengerMinTeleporterVersionUpdatedIterator_Close ::
  "ExampleCrossChainMessengerMinTeleporterVersionUpdated iterator \<Rightarrow> go_error option \<times>
      ExampleCrossChainMessengerMinTeleporterVersionUpdated iterator" where
  "ExampleCrossChainMessengerMinTeleporterVersionUpdatedIterator_Close = iterator_Close"

definition ExampleCrossChainMessengerFilterer_FilterMinTeleporterVersionUpdated ::
  "('s, 'o, 'tx) ExampleCrossChainMessengerFilterer \<Rightarrow> 'o \<Rightarrow> int list \<Rightarrow> int list \<Rightarrow> 's
    \<Rightarrow> go_error + ExampleCrossChainMessengerMinTeleporterVersionUpdated iterator" where
  "ExampleCrossChainMessengerFilterer_FilterMinTeleporterVersionUpdated c opts
      oldMinTeleporterVersion newMinTeleporterVersion s =
     bindE (bc_FilterLogs (ExampleCrossChainMessengerFilterer_contract c) opts
         ''MinTeleporterVersionUpdated'' [map GBigInt oldMinTeleporterVersion, map GBigInt
         newMinTeleporterVersion] s) (\<lambda>stream.
     Inr (new_iterator ''MinTeleporterVersionUpdated'' stream))"

definition ExampleCrossChainMessengerFilterer_WatchMinTeleporterVersionUpdated ::
  "('s, 'o, 'tx) ExampleCrossChainMessengerFilterer \<Rightarrow> 'o \<Rightarrow> int list \<Rightarrow> int list \<Rightarrow> 's
    \<Rightarrow> go_error + ExampleCrossChainMessengerMinTeleporterVersionUpdated watcher" where
  "ExampleCrossChainMessengerFilterer_WatchMinTeleporterVersionUpdated c opts
      oldMinTeleporterVersion newMinTeleporterVersion s =
     bindE (bc_WatchLogs (ExampleCrossChainMessengerFilterer_contract c) opts
         ''MinTeleporterVersionUpdated'' [map GBigInt oldMinTeleporterVersion, map GBigInt
         newMinTeleporterVersion] s) (\<lambda>stream.
     Inr (new_watcher (unpack_ExampleCrossChainMessengerMinTeleporterVersionUpdated
         (ExampleCrossChainMessengerFilterer_contract c) ''MinTeleporterVersionUpdated'')
         stream))"

definition ExampleCrossChainMessengerFilterer_ParseMinTeleporterVersionUpdated ::
  "('s, 'o, 'tx) ExampleCrossChainMessengerFilterer \<Rightarrow> log \<Rightarrow> go_error +
      ExampleCrossChainMessengerMinTeleporterVersionUpdated" where
  "ExampleCrossChainMessengerFilterer_ParseMinTeleporterVersionUpdated c raw =
      unpack_ExampleCrossChainMessengerMinTeleporterVersionUpdated
      (ExampleCrossChainMessengerFilterer_contract c) ''MinTeleporterVersionUpdated'' raw"

text \<open>The event \<open>OwnershipTransferred\<close>.\<close>

record ExampleCrossChainMessengerOwnershipTransferred =
  ExampleCrossChainMessengerOwnershipTransferred_PreviousOwner :: address
  ExampleCrossChainMessengerOwnershipTransferred_NewOwner :: address
  ExampleCrossChainMessengerOwnershipTransferred_Raw :: log

definition filled_ExampleCrossChainMessengerOwnershipTransferred :: "go_value \<Rightarrow> log \<Rightarrow>
    ExampleCrossChainMessengerOwnershipTransferred" where
  "filled_ExampleCrossChainMessengerOwnershipTransferred v raw =
     \<lparr>ExampleCrossChainMessengerOwnershipTransferred_PreviousOwner = filled as_address TAddress v
         0,
       ExampleCrossChainMessengerOwnershipTransferred_NewOwner = filled as_address TAddress v 1,
       ExampleCrossChainMessengerOwnershipTransferred_Raw = raw\<rparr>"

definition unpack_ExampleCrossChainMessengerOwnershipTransferred ::
  "('s, 'o, 'tx) bound_contract \<Rightarrow> string \<Rightarrow> log \<Rightarrow> go_error +
      ExampleCrossChainMessengerOwnershipTransferred" where
  "unpack_ExampleCrossChainMessengerOwnershipTransferred c event raw =
     bindE (bc_UnpackLog c (TStruct ''ExampleCrossChainMessengerOwnershipTransferred'' [TAddress,
         TAddress]) event raw) (\<lambda>v.
     Inr (filled_ExampleCrossChainMessengerOwnershipTransferred v raw))"

definition ExampleCrossChainMessengerOwnershipTransferredIterator_Next ::
  "('s, 'o, 'tx) bound_contract \<Rightarrow> bool \<Rightarrow> ExampleCrossChainMessengerOwnershipTransferred iterator
      \<Rightarrow> ExampleCrossChainMessengerOwnershipTransferred next_result" where
  "ExampleCrossChainMessengerOwnershipTransferredIterator_Next c = iterator_Next
      (unpack_ExampleCrossChainMessengerOwnershipTransferred c)"

definition ExampleCrossChainMessengerOwnershipTransferredIterator_Error ::
  "ExampleCrossChainMessengerOwnershipTransferred iterator \<Rightarrow> go_error option" where
  "ExampleCrossChainMessengerOwnershipTransferredIterator_Error = iterator_Error"

definition ExampleCrossChainMessengerOwnershipTransferredIterator_Close ::
  "ExampleCrossChainMessengerOwnershipTransferred iterator \<Rightarrow> go_error option \<times>
      ExampleCrossChainMessengerOwnershipTransferred iterator" where
  "ExampleCrossChainMessengerOwnershipTransferredIterator_Close = iterator_Close"

definition ExampleCrossChainMessengerFilterer_FilterOwnershipTransferred ::
  "('s, 'o, 'tx) ExampleCrossChainMessengerFilterer \<Rightarrow> 'o \<Rightarrow> address list \<Rightarrow> address list \<Rightarrow> 's
    \<Rightarrow> go_error + ExampleCrossChainMessengerOwnershipTransferred iterator" where
  "ExampleCrossChainMessengerFilterer_FilterOwnershipTransferred c opts previousOwner newOwner s =
     bindE (bc_FilterLogs (ExampleCrossChainMessengerFilterer_contract c) opts
         ''OwnershipTransferred'' [map GAddress previousOwner, map GAddress newOwner] s) (\<lambda>stream.
     Inr (new_iterator ''OwnershipTransferred'' stream))"

definition ExampleCrossChainMessengerFilterer_WatchOwnershipTransferred ::
  "('s, 'o, 'tx) ExampleCrossChainMessengerFilterer \<Rightarrow> 'o \<Rightarrow> address list \<Rightarrow> address list \<Rightarrow> 's
    \<Rightarrow> go_error + ExampleCrossChainMessengerOwnershipTransferred watcher" where
  "ExampleCrossChainMessengerFilterer_WatchOwnershipTransferred c opts previousOwner newOwner s =
     bindE (bc_WatchLogs (ExampleCrossChainMessengerFilterer_contract c) opts
         ''OwnershipTransferred'' [map GAddress previousOwner, map GAddress newOwner] s) (\<lambda>stream.
     Inr (new_watcher (unpack_ExampleCrossChainMessengerOwnershipTransferred
         (ExampleCrossChainMessengerFilterer_contract c) ''OwnershipTransferred'') stream))"

definition ExampleCrossChainMessengerFilterer_ParseOwnershipTransferred ::
  "('s, 'o, 'tx) ExampleCrossChainMessengerFilterer \<Rightarrow> log \<Rightarrow> go_error +
      ExampleCrossChainMessengerOwnershipTransferred" where
  "ExampleCrossChainMessengerFilterer_ParseOwnershipTransferred c raw =
      unpack_ExampleCrossChainMessengerOwnershipTransferred
      (ExampleCrossChainMessengerFilterer_contract c) ''OwnershipTransferred'' raw"

text \<open>The event \<open>ReceiveMessage\<close>.\<close>

record ExampleCrossChainMessengerReceiveMessage =
  ExampleCrossChainMessengerReceiveMessage_OriginBlockchainID :: bytes32
  ExampleCrossChainMessengerReceiveMessage_OriginSenderAddress :: address
  ExampleCrossChainMessengerReceiveMessage_Message :: string
  ExampleCrossChainMessengerReceiveMessage_Raw :: log

definition filled_ExampleCrossChainMessengerReceiveMessage :: "go_value \<Rightarrow> log \<Rightarrow>
    ExampleCrossChainMessengerReceiveMessage" where
  "filled_ExampleCrossChainMessengerReceiveMessage v raw =
     \<lparr>ExampleCrossChainMessengerReceiveMessage_OriginBlockchainID = filled as_bytes32 TBytes32 v
         0,
       ExampleCrossChainMessengerReceiveMessage_OriginSenderAddress = filled as_address TAddress
           v 1,
       ExampleCrossChainMessengerReceiveMessage_Message = filled as_string TString v 2,
       ExampleCrossChainMessengerReceiveMessage_Raw = raw\<rparr>"

definition unpack_ExampleCrossChainMessengerReceiveMessage ::
  "('s, 'o, 'tx) bound_contract \<Rightarrow> string \<Rightarrow> log \<Rightarrow> go_error +
      ExampleCrossChainMessengerReceiveMessage" where
  "unpack_ExampleCrossChainMessengerReceiveMessage c event raw =
     bindE (bc_UnpackLog c (TStruct ''ExampleCrossChainMessengerReceiveMessage'' [TBytes32,
         TAddress, TString]) event raw) (\<lambda>v.
     Inr (filled_ExampleCrossChainMessengerReceiveMessage v raw))"

definition ExampleCrossChainMessengerReceiveMessageIterator_Next ::
  "('s, 'o, 'tx) bound_contract \<Rightarrow> bool \<Rightarrow> ExampleCrossChainMessengerReceiveMessage iterator \<Rightarrow>
      ExampleCrossChainMessengerReceiveMessage next_result" where
  "ExampleCrossChainMessengerReceiveMessageIterator_Next c = iterator_Next
      (unpack_ExampleCrossChainMessengerReceiveMessage c)"

definition ExampleCrossChainMessengerReceiveMessageIterator_Error ::
  "ExampleCrossChainMessengerReceiveMessage iterator \<Rightarrow> go_error option" where
  "ExampleCrossChainMessengerReceiveMessageIterator_Error = iterator_Error"

definition ExampleCrossChainMessengerReceiveMessageIterator_Close ::
  "ExampleCrossChainMessengerReceiveMessage iterator \<Rightarrow> go_error option \<times>
      ExampleCrossChainMessengerReceiveMessage iterator" where
  "ExampleCrossChainMessengerReceiveMessageIterator_Close = iterator_Close"

definition ExampleCrossChainMessengerFilterer_FilterReceiveMessage ::
  "('s, 'o, 'tx) ExampleCrossChainMessengerFilterer \<Rightarrow> 'o \<Rightarrow> bytes32 list \<Rightarrow> address list \<Rightarrow> 's
    \<Rightarrow> go_error + ExampleCrossChainMessengerReceiveMessage iterator" where
  "ExampleCrossChainMessengerFilterer_FilterReceiveMessage c opts originBlockchainID
      originSenderAddress s =
     bindE (bc_FilterLogs (ExampleCrossChainMessengerFilterer_contract c) opts ''ReceiveMessage''
         [map GBytes32 originBlockchainID, map GAddress originSenderAddress] s) (\<lambda>stream.
     Inr (new_iterator ''ReceiveMessage'' stream))"

definition ExampleCrossChainMessengerFilterer_WatchReceiveMessage ::
  "('s, 'o, 'tx) ExampleCrossChainMessengerFilterer \<Rightarrow> 'o \<Rightarrow> bytes32 list \<Rightarrow> address list \<Rightarrow> 's
    \<Rightarrow> go_error + ExampleCrossChainMessengerReceiveMessage watcher" where
  "ExampleCrossChainMessengerFilterer_WatchReceiveMessage c opts originBlockchainID
      originSenderAddress s =
     bindE (bc_WatchLogs (ExampleCrossChainMessengerFilterer_contract c) opts ''ReceiveMessage''
         [map GBytes32 originBlockchainID, map GAddress originSenderAddress] s) (\<lambda>stream.
     Inr (new_watcher (unpack_ExampleCrossChainMessengerReceiveMessage
         (ExampleCrossChainMessengerFilterer_contract c) ''ReceiveMessage'') stream))"

definition ExampleCrossChainMessengerFilterer_ParseReceiveMessage ::
  "('s, 'o, 'tx) ExampleCrossChainMessengerFilterer \<Rightarrow> log \<Rightarrow> go_error +
      ExampleCrossChainMessengerReceiveMessage" where
  "ExampleCrossChainMessengerFilterer_ParseReceiveMessage c raw =
      unpack_ExampleCrossChainMessengerReceiveMessage
      (ExampleCrossChainMessengerFilterer_contract c) ''ReceiveMessage'' raw"

text \<open>The event \<open>SendMessage\<close>.\<close>

record ExampleCrossChainMessengerSendMessage =
  ExampleCrossChainMessengerSendMessage_DestinationBlockchainID :: bytes32
  ExampleCrossChainMessengerSendMessage_DestinationAddress :: address
  ExampleCrossChainMessengerSendMessage_FeeTokenAddress :: address
  ExampleCrossChainMessengerSendMessage_FeeAmount :: int
  ExampleCrossChainMessengerSendMessage_RequiredGasLimit :: int
  ExampleCrossChainMessengerSendMessage_Message :: string
  ExampleCrossChainMessengerSendMessage_Raw :: log

definition filled_ExampleCrossChainMessengerSendMessage :: "go_value \<Rightarrow> log \<Rightarrow>
    ExampleCrossChainMessengerSendMessage" where
  "filled_ExampleCrossChainMessengerSendMessage v raw =
     \<lparr>ExampleCrossChainMessengerSendMessage_DestinationBlockchainID = filled as_bytes32 TBytes32
         v 0,
       ExampleCrossChainMessengerSendMessage_DestinationAddress = filled as_address TAddress v 1,
       ExampleCrossChainMessengerSendMessage_FeeTokenAddress = filled as_address TAddress v 2,
       ExampleCrossChainMessengerSendMessage_FeeAmount = filled as_bigint TBigInt v 3,
       ExampleCrossChainMessengerSendMessage_RequiredGasLimit = filled as_bigint TBigInt v 4,
       ExampleCrossChainMessengerSendMessage_Message = filled as_string TString v 5,
       ExampleCrossChainMessengerSendMessage_Raw = raw\<rparr>"

definition unpack_ExampleCrossChainMessengerSendMessage ::
  "('s, 'o, 'tx) bound_contract \<Rightarrow> string \<Rightarrow> log \<Rightarrow> go_error +
      ExampleCrossChainMessengerSendMessage" where
  "unpack_ExampleCrossChainMessengerSendMessage c event raw =
     bindE (bc_UnpackLog c (TStruct ''ExampleCrossChainMessengerSendMessage'' [TBytes32,
         TAddress, TAddress, TBigInt, TBigInt, TString]) event raw) (\<lambda>v.
     Inr (filled_ExampleCrossChainMessengerSendMessage v raw))"

definition ExampleCrossChainMessengerSendMessageIterator_Next ::
  "('s, 'o, 'tx) bound_contract \<Rightarrow> bool \<Rightarrow> ExampleCrossChainMessengerSendMessage iterator \<Rightarrow>
      ExampleCrossChainMessengerSendMessage next_result" where
  "ExampleCrossChainMessengerSendMessageIterator_Next c = iterator_Next
      (unpack_ExampleCrossChainMessengerSendMessage c)"

definition ExampleCrossChainMessengerSendMessageIterator_Error ::
  "ExampleCrossChainMessengerSendMessage iterator \<Rightarrow> go_error option" where
  "ExampleCrossChainMessengerSendMessageIterator_Error = iterator_Error"

definition ExampleCrossChainMessengerSendMessageIterator_Close ::
  "ExampleCrossChainMessengerSendMessage iterator \<Rightarrow> go_error option \<times>
      ExampleCrossChainMessengerSendMessage iterator" where
  "ExampleCrossChainMessengerSendMessageIterator_Close = iterator_Close"

definition ExampleCrossChainMessengerFilterer_FilterSendMessage ::
  "('s, 'o, 'tx) ExampleCrossChainMessengerFilterer \<Rightarrow> 'o \<Rightarrow> bytes32 list \<Rightarrow> address list \<Rightarrow> 's
    \<Rightarrow> go_error + ExampleCrossChainMessengerSendMessage iterator" where
  "ExampleCrossChainMessengerFilterer_FilterSendMessage c opts destinationBlockchainID
      destinationAddress s =
     bindE (bc_FilterLogs (ExampleCrossChainMessengerFilterer_contract c) opts ''SendMessage''
         [map GBytes32 destinationBlockchainID, map GAddress destinationAddress] s) (\<lambda>stream.
     Inr (new_iterator ''SendMessage'' stream))"

definition ExampleCrossChainMessengerFilterer_WatchSendMessage ::
  "('s, 'o, 'tx) ExampleCrossChainMessengerFilterer \<Rightarrow> 'o \<Rightarrow> bytes32 list \<Rightarrow> address list \<Rightarrow> 's
    \<Rightarrow> go_error + ExampleCrossChainMessengerSendMessage watcher" where
  "ExampleCrossChainMessengerFilterer_WatchSendMessage c opts destinationBlockchainID
      destinationAddress s =
     bindE (bc_WatchLogs (ExampleCrossChainMessengerFilterer_contract c) opts ''SendMessage''
         [map GBytes32 destinationBlockchainID, map GAddress destinationAddress] s) (\<lambda>stream.
     Inr (new_watcher (unpack_ExampleCrossChainMessengerSendMessage
         (ExampleCrossChainMessengerFilterer_contract c) ''SendMessage'') stream))"

definition ExampleCrossChainMessengerFilterer_ParseSendMessage ::
  "('s, 'o, 'tx) ExampleCrossChainMessengerFilterer \<Rightarrow> log \<Rightarrow> go_error +
      ExampleCrossChainMessengerSendMessage" where
  "ExampleCrossChainMessengerFilterer_ParseSendMessage c raw =
      unpack_ExampleCrossChainMessengerSendMessage (ExampleCrossChainMessengerFilterer_contract
      c) ''SendMessage'' raw"

text \<open>The event \<open>TeleporterAddressPaused\<close>.\<close>

record ExampleCrossChainMessengerTeleporterAddressPaused =
  ExampleCrossChainMessengerTeleporterAddressPaused_TeleporterAddress :: address
  ExampleCrossChainMessengerTeleporterAddressPaused_Raw :: log

definition filled_ExampleCrossChainMessengerTeleporterAddressPaused :: "go_value \<Rightarrow> log \<Rightarrow>
    ExampleCrossChainMessengerTeleporterAddressPaused" where
  "filled_ExampleCrossChainMessengerTeleporterAddressPaused v raw =
     \<lparr>ExampleCrossChainMessengerTeleporterAddressPaused_TeleporterAddress = filled as_address
         TAddress v 0,
       ExampleCrossChainMessengerTeleporterAddressPaused_Raw = raw\<rparr>"

definition unpack_ExampleCrossChainMessengerTeleporterAddressPaused ::
  "('s, 'o, 'tx) bound_contract \<Rightarrow> string \<Rightarrow> log \<Rightarrow> go_error +
      ExampleCrossChainMessengerTeleporterAddressPaused" where
  "unpack_ExampleCrossChainMessengerTeleporterAddressPaused c event raw =
     bindE (bc_UnpackLog c (TStruct ''ExampleCrossChainMessengerTeleporterAddressPaused''
         [TAddress]) event raw) (\<lambda>v.
     Inr (filled_ExampleCrossChainMessengerTeleporterAddressPaused v raw))"

definition ExampleCrossChainMessengerTeleporterAddressPausedIterator_Next ::
  "('s, 'o, 'tx) bound_contract \<Rightarrow> bool \<Rightarrow> ExampleCrossChainMessengerTeleporterAddressPaused
      iterator \<Rightarrow> ExampleCrossChainMessengerTeleporterAddressPaused next_result" where
  "ExampleCrossChainMessengerTeleporterAddressPausedIterator_Next c = iterator_Next
      (unpack_ExampleCrossChainMessengerTeleporterAddressPaused c)"

definition ExampleCrossChainMessengerTeleporterAddressPausedIterator_Error ::
  "ExampleCrossChainMessengerTeleporterAddressPaused iterator \<Rightarrow> go_error option" where
  "ExampleCrossChainMessengerTeleporterAddressPausedIterator_Error = iterator_Error"

definition ExampleCrossChainMessengerTeleporterAddressPausedIterator_Close ::
  "ExampleCrossChainMessengerTeleporterAddressPaused iterator \<Rightarrow> go_error option \<times>
      ExampleCrossChainMessengerTeleporterAddressPaused iterator" where
  "ExampleCrossChainMessengerTeleporterAddressPausedIterator_Close = iterator_Close"

definition ExampleCrossChainMessengerFilterer_FilterTeleporterAddressPaused ::
  "('s, 'o, 'tx) ExampleCrossChainMessengerFilterer \<Rightarrow> 'o \<Rightarrow> address list \<Rightarrow> 's
    \<Rightarrow> go_error + ExampleCrossChainMessengerTeleporterAddressPaused iterator" where
  "ExampleCrossChainMessengerFilterer_FilterTeleporterAddressPaused c opts teleporterAddress s =
     bindE (bc_FilterLogs (ExampleCrossChainMessengerFilterer_contract c) opts
         ''TeleporterAddressPaused'' [map GAddress teleporterAddress] s) (\<lambda>stream.
     Inr (new_iterator ''TeleporterAddressPaused'' stream))"

definition ExampleCrossChainMessengerFilterer_WatchTeleporterAddressPaused ::
  "('s, 'o, 'tx) ExampleCrossChainMessengerFilterer \<Rightarrow> 'o \<Rightarrow> address list \<Rightarrow> 's
    \<Rightarrow> go_error + ExampleCrossChainMessengerTeleporterAddressPaused watcher" where
  "ExampleCrossChainMessengerFilterer_WatchTeleporterAddressPaused c opts teleporterAddress s =
     bindE (bc_WatchLogs (ExampleCrossChainMessengerFilterer_contract c) opts
         ''TeleporterAddressPaused'' [map GAddress teleporterAddress] s) (\<lambda>stream.
     Inr (new_watcher (unpack_ExampleCrossChainMessengerTeleporterAddressPaused
         (ExampleCrossChainMessengerFilterer_contract c) ''TeleporterAddressPaused'') stream))"

definition ExampleCrossChainMessengerFilterer_ParseTeleporterAddressPaused ::
  "('s, 'o, 'tx) ExampleCrossChainMessengerFilterer \<Rightarrow> log \<Rightarrow> go_error +
      ExampleCrossChainMessengerTeleporterAddressPaused" where
  "ExampleCrossChainMessengerFilterer_ParseTeleporterAddressPaused c raw =
      unpack_ExampleCrossChainMessengerTeleporterAddressPaused
      (ExampleCrossChainMessengerFilterer_contract c) ''TeleporterAddressPaused'' raw"

text \<open>The event \<open>TeleporterAddressUnpaused\<close>.\<close>

record ExampleCrossChainMessengerTeleporterAddressUnpaused =
  ExampleCrossChainMessengerTeleporterAddressUnpaused_TeleporterAddress :: address
  ExampleCrossChainMessengerTeleporterAddressUnpaused_Raw :: log

definition filled_ExampleCrossChainMessengerTeleporterAddressUnpaused :: "go_value \<Rightarrow> log \<Rightarrow>
    ExampleCrossChainMessengerTeleporterAddressUnpaused" where
  "filled_ExampleCrossChainMessengerTeleporterAddressUnpaused v raw =
     \<lparr>ExampleCrossChainMessengerTeleporterAddressUnpaused_TeleporterAddress = filled as_address
         TAddress v 0,
       ExampleCrossChainMessengerTeleporterAddressUnpaused_Raw = raw\<rparr>"

definition unpack_ExampleCrossChainMessengerTeleporterAddressUnpaused ::
  "('s, 'o, 'tx) bound_contract \<Rightarrow> string \<Rightarrow> log \<Rightarrow> go_error +
      ExampleCrossChainMessengerTeleporterAddressUnpaused" where
  "unpack_ExampleCrossChainMessengerTeleporterAddressUnpaused c event raw =
     bindE (bc_UnpackLog c (TStruct ''ExampleCrossChainMessengerTeleporterAddressUnpaused''
         [TAddress]) event raw) (\<lambda>v.
     Inr (filled_ExampleCrossChainMessengerTeleporterAddressUnpaused v raw))"

definition ExampleCrossChainMessengerTeleporterAddressUnpausedIterator_Next ::
  "('s, 'o, 'tx) bound_contract \<Rightarrow> bool \<Rightarrow> ExampleCrossChainMessengerTeleporterAddressUnpaused
      iterator \<Rightarrow> ExampleCrossChainMessengerTeleporterAddressUnpaused next_result" where
  "ExampleCrossChainMessengerTeleporterAddressUnpausedIterator_Next c = iterator_Next
      (unpack_ExampleCrossChainMessengerTeleporterAddressUnpaused c)"

definition ExampleCrossChainMessengerTeleporterAddressUnpausedIterator_Error ::
  "ExampleCrossChainMessengerTeleporterAddressUnpaused iterator \<Rightarrow> go_error option" where
  "ExampleCrossChainMessengerTeleporterAddressUnpausedIterator_Error = iterator_Error"

definition ExampleCrossChainMessengerTeleporterAddressUnpausedIterator_Close ::
  "ExampleCrossChainMessengerTeleporterAddressUnpaused iterator \<Rightarrow> go_error option \<times>
      ExampleCrossChainMessengerTeleporterAddressUnpaused iterator" where
  "ExampleCrossChainMessengerTeleporterAddressUnpausedIterator_Close = iterator_Close"

definition ExampleCrossChainMessengerFilterer_FilterTeleporterAddressUnpaused ::
  "('s, 'o, 'tx) ExampleCrossChainMessengerFilterer \<Rightarrow> 'o \<Rightarrow> address list \<Rightarrow> 's
    \<Rightarrow> go_error + ExampleCrossChainMessengerTeleporterAddressUnpaused iterator" where
  "ExampleCrossChainMessengerFilterer_FilterTeleporterAddressUnpaused c opts teleporterAddress s =
     bindE (bc_FilterLogs (ExampleCrossChainMessengerFilterer_contract c) opts
         ''TeleporterAddressUnpaused'' [map GAddress teleporterAddress] s) (\<lambda>stream.
     Inr (new_iterator ''TeleporterAddressUnpaused'' stream))"

definition ExampleCrossChainMessengerFilterer_WatchTeleporterAddressUnpaused ::
  "('s, 'o, 'tx) ExampleCrossChainMessengerFilterer \<Rightarrow> 'o \<Rightarrow> address list \<Rightarrow> 's
    \<Rightarrow> go_error + ExampleCrossChainMessengerTeleporterAddressUnpaused watcher" where
  "ExampleCrossChainMessengerFilterer_WatchTeleporterAddressUnpaused c opts teleporterAddress s =
     bindE (bc_WatchLogs (ExampleCrossChainMessengerFilterer_contract c) opts
         ''TeleporterAddressUnpaused'' [map GAddress teleporterAddress] s) (\<lambda>stream.
     Inr (new_watcher (unpack_ExampleCrossChainMessengerTeleporterAddressUnpaused
         (ExampleCrossChainMessengerFilterer_contract c) ''TeleporterAddressUnpaused'') stream))"

definition ExampleCrossChainMessengerFilterer_ParseTeleporterAddressUnpaused ::
  "('s, 'o, 'tx) ExampleCrossChainMessengerFilterer \<Rightarrow> log \<Rightarrow> go_error +
      ExampleCrossChainMessengerTeleporterAddressUnpaused" where
  "ExampleCrossChainMessengerFilterer_ParseTeleporterAddressUnpaused c raw =
      unpack_ExampleCrossChainMessengerTeleporterAddressUnpaused
      (ExampleCrossChainMessengerFilterer_contract c) ''TeleporterAddressUnpaused'' raw"

end
