(* ===== verification/Bind_ERC20Bridge.thy ===== *)
theory Bind_ERC20Bridge
  imports Go_Bind
begin

section \<open>The Go binding of ERC20Bridge\<close>

text \<open>
  One definition per type and function of
  \<open>abi-bindings/go/CrossChainApplications/ERC20Bridge/ERC20Bridge/ERC20Bridge.go\<close>,
  in the order of the file: structs, the ABI of the metadata, the facets of the bound contract, the
  read-only methods, the transactions, and for each event its struct, iterator, filter,
  subscription and parser. The option structs, the chain and the library are parameters.
\<close>

subsection \<open>The ABI\<close>

definition ERC20BridgeMetaData :: abi_meta where
  "ERC20BridgeMetaData =
     \<lparr>meta_name = ''ERC20Bridge'',
      meta_constructor = [TAddress],
      meta_methods = [
        (''CREATE_BRIDGE_TOKENS_REQUIRED_GAS'', [], [TBigInt]),
        (''MINT_BRIDGE_TOKENS_REQUIRED_GAS'', [], [TBigInt]),
        (''TRANSFER_BRIDGE_TOKENS_REQUIRED_GAS'', [], [TBigInt]),
        (''WARP_PRECOMPILE_ADDRESS'', [], [TAddress]),
        (''bridgeTokens'', [TBytes32, TAddress, TAddress, TAddress, TBigInt, TBigInt, TBigInt],
            []),
        (''bridgedBalances'', [TBytes32, TAddress, TAddress], [TBigInt]),
        (''currentBlockchainID'', [], [TBytes32]),
        (''encodeCreateBridgeTokenData'', [TAddress, TString, TString, TUint8], [TBytes]),
        (''encodeMintBridgeTokensData'', [TAddress, TAddress, TBigInt], [TBytes]),
        (''encodeTransferBridgeTokensData'', [TBytes32, TAddress, TAddress, TAddress, TBigInt,
            TBigInt], [TBytes]),
        (''getMinTeleporterVersion'', [], [TBigInt]),
        (''isTeleporterAddressPaused'', [TAddress], [TBool]),
        (''nativeToWrappedTokens'', [TBytes32, TAddress, TAddress], [TAddress]),
        (''owner'', [], [TAddress]),
        (''pauseTeleporterAddress'', [TAddress], []),
        (''receiveTeleporterMessage'', [TBytes32, TAddress, TBytes], []),
        (''renounceOwnership'', [], []),
        (''submitCreateBridgeToken'', [TBytes32, TAddress, TAddress, TAddress, TBigInt], []),
        (''submittedBridgeTokenCreations'', [TBytes32, TAddress, TAddress], [TBool]),
        (''teleporterRegistry'', [], [TAddress]),
        (''transferOwnership'', [TAddress], []),
        (''unpauseTeleporterAddress'', [TAddress], []),
        (''updateMinTeleporterVersion'', [TBigInt], []),
        (''wrappedTokenContracts'', [TAddress], [TBool])],
      meta_events = [
        (''BridgeTokens'', [(TAddress, True), (TBytes32, True), (TBigInt, True), (TAddress,
            False), (TAddress, False), (TBigInt, False)]),
        (''CreateBridgeToken'', [(TBytes32, True), (TAddress, True), (TAddress, True), (TAddress,
            False)]),
        (''MinTeleporterVersionUpdated'', [(TBigInt, True), (TBigInt, True)]),
        (''MintBridgeTokens'', [(TAddress, True), (TAddress, False), (TBigInt, False)]),
        (''OwnershipTransferred'', [(TAddress, True), (TAddress, True)]),
        (''SubmitCreateBridgeToken'', [(TBytes32, True), (TAddress, True), (TAddress, True),
            (TBigInt, False)]),
        (''TeleporterAddressPaused'', [(TAddress, True)]),
        (''TeleporterAddressUnpaused'', [(TAddress, True)])]\<rparr>"

subsection \<open>The bound contract and its facets\<close>

record ('s, 'o, 'tx) ERC20BridgeCaller =
  ERC20BridgeCaller_contract :: "('s, 'o, 'tx) bound_contract"

record ('s, 'o, 'tx) ERC20BridgeTransactor =
  ERC20BridgeTransactor_contract :: "('s, 'o, 'tx) bound_contract"

record ('s, 'o, 'tx) ERC20BridgeFilterer =
  ERC20BridgeFilterer_contract :: "('s, 'o, 'tx) bound_contract"

record ('s, 'o, 'tx) ERC20Bridge =
  ERC20Bridge_Caller :: "('s, 'o, 'tx) ERC20BridgeCaller"
  ERC20Bridge_Transactor :: "('s, 'o, 'tx) ERC20BridgeTransactor"
  ERC20Bridge_Filterer :: "('s, 'o, 'tx) ERC20BridgeFilterer"

record ('s, 'o, 'tx) ERC20BridgeSession =
  ERC20BridgeSession_Contract :: "('s, 'o, 'tx) ERC20Bridge"
  ERC20BridgeSession_CallOpts :: 'o
  ERC20BridgeSession_TransactOpts :: 'o

record ('s, 'o, 'tx) ERC20BridgeCallerSession =
  ERC20BridgeCallerSession_Contract :: "('s, 'o, 'tx) ERC20BridgeCaller"
  ERC20BridgeCallerSession_CallOpts :: 'o

record ('s, 'o, 'tx) ERC20BridgeTransactorSession =
  ERC20BridgeTransactorSession_Contract :: "('s, 'o, 'tx) ERC20BridgeTransactor"
  ERC20BridgeTransactorSession_TransactOpts :: 'o

record ('s, 'o, 'tx) ERC20BridgeRaw =
  ERC20BridgeRaw_Contract :: "('s, 'o, 'tx) ERC20Bridge"

record ('s, 'o, 'tx) ERC20BridgeCallerRaw =
  ERC20BridgeCallerRaw_Contract :: "('s, 'o, 'tx) ERC20BridgeCaller"

record ('s, 'o, 'tx) ERC20BridgeTransactorRaw =
  ERC20BridgeTransactorRaw_Contract :: "('s, 'o, 'tx) ERC20BridgeTransactor"

definition bindERC20Bridge ::
  "('s, 'o, 'tx, 'abi, 'k) bind_lib \<Rightarrow> address \<Rightarrow> 'k option \<Rightarrow> 'k option \<Rightarrow> 'k option
    \<Rightarrow> go_error + ('s, 'o, 'tx) bound_contract" where
  "bindERC20Bridge lib addr caller transactor filterer =
     bindE (lib_GetAbi lib ERC20BridgeMetaData) (\<lambda>parsed.
     case parsed of
       None \<Rightarrow> Inl (GoPanic ''nil pointer dereference'')
     | Some abi \<Rightarrow> Inr (lib_NewBoundContract lib addr abi caller transactor filterer))"

definition DeployERC20Bridge ::
  "('s, 'o, 'tx, 'abi, 'k) bind_lib \<Rightarrow> 'o \<Rightarrow> 'k \<Rightarrow> address \<Rightarrow> 's
    \<Rightarrow> go_error + (address \<times> 'tx \<times> ('s, 'o, 'tx) ERC20Bridge \<times> 's)" where
  "DeployERC20Bridge lib auth backend teleporterRegistryAddress s =
     bindE (lib_GetAbi lib ERC20BridgeMetaData) (\<lambda>parsed.
     case parsed of
       None \<Rightarrow> Inl (GoError ''GetABI returned nil'')
     | Some abi \<Rightarrow>
         bindE (lib_DeployContract lib auth abi (meta_name ERC20BridgeMetaData) backend [GAddress
             teleporterRegistryAddress] s)
         (\<lambda>(addr, tx, c, s').
         Inr (addr, tx, \<lparr>ERC20Bridge_Caller = \<lparr>ERC20BridgeCaller_contract = c\<rparr>,
         ERC20Bridge_Transactor = \<lparr>ERC20BridgeTransactor_contract = c\<rparr>,
         ERC20Bridge_Filterer = \<lparr>ERC20BridgeFilterer_contract = c\<rparr>\<rparr>, s')))"

definition NewERC20Bridge ::
  "('s, 'o, 'tx, 'abi, 'k) bind_lib \<Rightarrow> address \<Rightarrow> 'k \<Rightarrow> go_error + ('s, 'o, 'tx) ERC20Bridge" where
  "NewERC20Bridge lib addr backend =
     bindE (bindERC20Bridge lib addr (Some backend) (Some backend) (Some backend)) (\<lambda>c.
     Inr \<lparr>ERC20Bridge_Caller = \<lparr>ERC20BridgeCaller_contract = c\<rparr>,
         ERC20Bridge_Transactor = \<lparr>ERC20BridgeTransactor_contract = c\<rparr>,
         ERC20Bridge_Filterer = \<lparr>ERC20BridgeFilterer_contract = c\<rparr>\<rparr>)"

definition NewERC20BridgeCaller ::
  "('s, 'o, 'tx, 'abi, 'k) bind_lib \<Rightarrow> address \<Rightarrow> 'k \<Rightarrow> go_error + ('s, 'o, 'tx) ERC20BridgeCaller"
      where
  "NewERC20BridgeCaller lib addr b =
     bindE (bindERC20Bridge lib addr (Some b) None None) (\<lambda>c.
     Inr \<lparr>ERC20BridgeCaller_contract = c\<rparr>)"

definition NewERC20BridgeTransactor ::
  "('s, 'o, 'tx, 'abi, 'k) bind_lib \<Rightarrow> address \<Rightarrow> 'k \<Rightarrow> go_error + ('s, 'o, 'tx)
      ERC20BridgeTransactor" where
  "NewERC20BridgeTransactor lib addr b =
     bindE (bindERC20Bridge lib addr None (Some b) None) (\<lambda>c.
     Inr \<lparr>ERC20BridgeTransactor_contract = c\<rparr>)"

definition NewERC20BridgeFilterer ::
  "('s, 'o, 'tx, 'abi, 'k) bind_lib \<Rightarrow> address \<Rightarrow> 'k \<Rightarrow> go_error + ('s, 'o, 'tx)
      ERC20BridgeFilterer" where
  "NewERC20BridgeFilterer lib addr b =
     bindE (bindERC20Bridge lib addr None None (Some b)) (\<lambda>c.
     Inr \<lparr>ERC20BridgeFilterer_contract = c\<rparr>)"

definition ERC20BridgeRaw_Call ::
  "('s, 'o, 'tx) ERC20BridgeRaw \<Rightarrow> 'o \<Rightarrow> string \<Rightarrow> go_value list \<Rightarrow> 's
    \<Rightarrow> go_error + go_value list" where
  "ERC20BridgeRaw_Call r opts method params s =
     bc_Call (ERC20BridgeCaller_contract (ERC20Bridge_Caller (ERC20BridgeRaw_Contract r))) opts
         method params s"

definition ERC20BridgeRaw_Transfer ::
  "('s, 'o, 'tx) ERC20BridgeRaw \<Rightarrow> 'o \<Rightarrow> 's \<Rightarrow> go_error + ('tx \<times> 's)" where
  "ERC20BridgeRaw_Transfer r opts s =
     bc_Transfer (ERC20BridgeTransactor_contract (ERC20Bridge_Transactor (ERC20BridgeRaw_Contract
         r))) opts s"

definition ERC20BridgeRaw_Transact ::
  "('s, 'o, 'tx) ERC20BridgeRaw \<Rightarrow> 'o \<Rightarrow> string \<Rightarrow> go_value list \<Rightarrow> 's
    \<Rightarrow> go_error + ('tx \<times> 's)" where
  "ERC20BridgeRaw_Transact r opts method params s =
     bc_Transact (ERC20BridgeTransactor_contract (ERC20Bridge_Transactor (ERC20BridgeRaw_Contract
         r))) opts method params s"

definition ERC20BridgeCallerRaw_Call ::
  "('s, 'o, 'tx) ERC20BridgeCallerRaw \<Rightarrow> 'o \<Rightarrow> string \<Rightarrow> go_value list \<Rightarrow> 's
    \<Rightarrow> go_error + go_value list" where
  "ERC20BridgeCallerRaw_Call r opts method params s =
     bc_Call (ERC20BridgeCaller_contract (ERC20BridgeCallerRaw_Contract r)) opts method params s"

definition ERC20BridgeTransactorRaw_Transfer ::
  "('s, 'o, 'tx) ERC20BridgeTransactorRaw \<Rightarrow> 'o \<Rightarrow> 's \<Rightarrow> go_error + ('tx \<times> 's)" where
  "ERC20BridgeTransactorRaw_Transfer r opts s =
     bc_Transfer (ERC20BridgeTransactor_contract (ERC20BridgeTransactorRaw_Contract r)) opts s"

definition ERC20BridgeTransactorRaw_Transact ::
  "('s, 'o, 'tx) ERC20BridgeTransactorRaw \<Rightarrow> 'o \<Rightarrow> string \<Rightarrow> go_value list \<Rightarrow> 's
    \<Rightarrow> go_error + ('tx \<times> 's)" where
  "ERC20BridgeTransactorRaw_Transact r opts method params s =
     bc_Transact (ERC20BridgeTransactor_contract (ERC20BridgeTransactorRaw_Contract r)) opts
         method params s"

subsection \<open>Read-only methods\<close>

definition ERC20BridgeCaller_CREATEBRIDGETOKENSREQUIREDGAS ::
  "('s, 'o, 'tx) ERC20BridgeCaller \<Rightarrow> 'o \<Rightarrow> 's
    \<Rightarrow> go_error + int" where
  "ERC20BridgeCaller_CREATEBRIDGETOKENSREQUIREDGAS c opts s =
     bindE (bc_Call (ERC20BridgeCaller_contract c) opts ''CREATE_BRIDGE_TOKENS_REQUIRED_GAS'' []
         s) (\<lambda>out.
     bindE (go_out (ERC20BridgeCaller_contract c) out 0 TBigInt as_bigint) (\<lambda>out0.
     Inr out0))"

definition ERC20BridgeSession_CREATEBRIDGETOKENSREQUIREDGAS ::
  "('s, 'o, 'tx) ERC20BridgeSession \<Rightarrow> 's
    \<Rightarrow> go_error + int" where
  "ERC20BridgeSession_CREATEBRIDGETOKENSREQUIREDGAS ss s =
     ERC20BridgeCaller_CREATEBRIDGETOKENSREQUIREDGAS (ERC20Bridge_Caller
         (ERC20BridgeSession_Contract ss))
       (ERC20BridgeSession_CallOpts ss) s"

definition ERC20BridgeCallerSession_CREATEBRIDGETOKENSREQUIREDGAS ::
  "('s, 'o, 'tx) ERC20BridgeCallerSession \<Rightarrow> 's
    \<Rightarrow> go_error + int" where
  "ERC20BridgeCallerSession_CREATEBRIDGETOKENSREQUIREDGAS ss s =
     ERC20BridgeCaller_CREATEBRIDGETOKENSREQUIREDGAS (ERC20BridgeCallerSession_Contract ss)
       (ERC20BridgeCallerSession_CallOpts ss) s"

definition ERC20BridgeCaller_MINTBRIDGETOKENSREQUIREDGAS ::
  "('s, 'o, 'tx) ERC20BridgeCaller \<Rightarrow> 'o \<Rightarrow> 's
    \<Rightarrow> go_error + int" where
  "ERC20BridgeCaller_MINTBRIDGETOKENSREQUIREDGAS c opts s =
     bindE (bc_Call (ERC20BridgeCaller_contract c) opts ''MINT_BRIDGE_TOKENS_REQUIRED_GAS'' [] s)
         (\<lambda>out.
     bindE (go_out (ERC20BridgeCaller_contract c) out 0 TBigInt as_bigint) (\<lambda>out0.
     Inr out0))"

definition ERC20BridgeSession_MINTBRIDGETOKENSREQUIREDGAS ::
  "('s, 'o, 'tx) ERC20BridgeSession \<Rightarrow> 's
    \<Rightarrow> go_error + int" where
  "ERC20BridgeSession_MINTBRIDGETOKENSREQUIREDGAS ss s =
     ERC20BridgeCaller_MINTBRIDGETOKENSREQUIREDGAS (ERC20Bridge_Caller
         (ERC20BridgeSession_Contract ss))
       (ERC20BridgeSession_CallOpts ss) s"

definition ERC20BridgeCallerSession_MINTBRIDGETOKENSREQUIREDGAS ::
  "('s, 'o, 'tx) ERC20BridgeCallerSession \<Rightarrow> 's
    \<Rightarrow> go_error + int" where
  "ERC20BridgeCallerSession_MINTBRIDGETOKENSREQUIREDGAS ss s =
     ERC20BridgeCaller_MINTBRIDGETOKENSREQUIREDGAS (ERC20BridgeCallerSession_Contract ss)
       (ERC20BridgeCallerSession_CallOpts ss) s"

definition ERC20BridgeCaller_TRANSFERBRIDGETOKENSREQUIREDGAS ::
  "('s, 'o, 'tx) ERC20BridgeCaller \<Rightarrow> 'o \<Rightarrow> 's
    \<Rightarrow> go_error + int" where
  "ERC20BridgeCaller_TRANSFERBRIDGETOKENSREQUIREDGAS c opts s =
     bindE (bc_Call (ERC20BridgeCaller_contract c) opts ''TRANSFER_BRIDGE_TOKENS_REQUIRED_GAS''
         [] s) (\<lambda>out.
     bindE (go_out (ERC20BridgeCaller_contract c) out 0 TBigInt as_bigint) (\<lambda>out0.
     Inr out0))"

definition ERC20BridgeSession_TRANSFERBRIDGETOKENSREQUIREDGAS ::
  "('s, 'o, 'tx) ERC20BridgeSession \<Rightarrow> 's
    \<Rightarrow> go_error + int" where
  "ERC20BridgeSession_TRANSFERBRIDGETOKENSREQUIREDGAS ss s =
     ERC20BridgeCaller_TRANSFERBRIDGETOKENSREQUIREDGAS (ERC20Bridge_Caller
         (ERC20BridgeSession_Contract ss))
       (ERC20BridgeSession_CallOpts ss) s"

definition ERC20BridgeCallerSession_TRANSFERBRIDGETOKENSREQUIREDGAS ::
  "('s, 'o, 'tx) ERC20BridgeCallerSession \<Rightarrow> 's
    \<Rightarrow> go_error + int" where
  "ERC20BridgeCallerSession_TRANSFERBRIDGETOKENSREQUIREDGAS ss s =
     ERC20BridgeCaller_TRANSFERBRIDGETOKENSREQUIREDGAS (ERC20BridgeCallerSession_Contract ss)
       (ERC20BridgeCallerSession_CallOpts ss) s"

definition ERC20BridgeCaller_WARPPRECOMPILEADDRESS ::
  "('s, 'o, 'tx) ERC20BridgeCaller \<Rightarrow> 'o \<Rightarrow> 's
    \<Rightarrow> go_error + address" where
  "ERC20BridgeCaller_WARPPRECOMPILEADDRESS c opts s =
     bindE (bc_Call (ERC20BridgeCaller_contract c) opts ''WARP_PRECOMPILE_ADDRESS'' [] s) (\<lambda>out.
     bindE (go_out (ERC20BridgeCaller_contract c) out 0 TAddress as_address) (\<lambda>out0.
     Inr out0))"

definition ERC20BridgeSession_WARPPRECOMPILEADDRESS ::
  "('s, 'o, 'tx) ERC20BridgeSession \<Rightarrow> 's
    \<Rightarrow> go_error + address" where
  "ERC20BridgeSession_WARPPRECOMPILEADDRESS ss s =
     ERC20BridgeCaller_WARPPRECOMPILEADDRESS (ERC20Bridge_Caller (ERC20BridgeSession_Contract ss))
       (ERC20BridgeSession_CallOpts ss) s"

definition ERC20BridgeCallerSession_WARPPRECOMPILEADDRESS ::
  "('s, 'o, 'tx) ERC20BridgeCallerSession \<Rightarrow> 's
    \<Rightarrow> go_error + address" where
  "ERC20BridgeCallerSession_WARPPRECOMPILEADDRESS ss s =
     ERC20BridgeCaller_WARPPRECOMPILEADDRESS (ERC20BridgeCallerSession_Contract ss)
       (ERC20BridgeCallerSession_CallOpts ss) s"

definition ERC20BridgeCaller_BridgedBalances ::
  "('s, 'o, 'tx) ERC20BridgeCaller \<Rightarrow> 'o \<Rightarrow> bytes32 \<Rightarrow> address \<Rightarrow> address \<Rightarrow> 's
    \<Rightarrow> go_error + int" where
  "ERC20BridgeCaller_BridgedBalances c opts destinationBlockchainID destinationBridgeAddress
      nativeTokenContract s =
     bindE (bc_Call (ERC20BridgeCaller_contract c) opts ''bridgedBalances'' [GBytes32
         destinationBlockchainID, GAddress destinationBridgeAddress, GAddress
         nativeTokenContract] s) (\<lambda>out.
     bindE (go_out (ERC20BridgeCaller_contract c) out 0 TBigInt as_bigint) (\<lambda>out0.
     Inr out0))"

definition ERC20BridgeSession_BridgedBalances ::
  "('s, 'o, 'tx) ERC20BridgeSession \<Rightarrow> bytes32 \<Rightarrow> address \<Rightarrow> address \<Rightarrow> 's
    \<Rightarrow> go_error + int" where
  "ERC20BridgeSession_BridgedBalances ss destinationBlockchainID destinationBridgeAddress
      nativeTokenContract s =
     ERC20BridgeCaller_BridgedBalances (ERC20Bridge_Caller (ERC20BridgeSession_Contract ss))
       (ERC20BridgeSession_CallOpts ss) destinationBlockchainID destinationBridgeAddress
           nativeTokenContract s"

definition ERC20BridgeCallerSession_BridgedBalances ::
  "('s, 'o, 'tx) ERC20BridgeCallerSession \<Rightarrow> bytes32 \<Rightarrow> address \<Rightarrow> address \<Rightarrow> 's
    \<Rightarrow> go_error + int" where
  "ERC20BridgeCallerSession_BridgedBalances ss destinationBlockchainID destinationBridgeAddress
      nativeTokenContract s =
     ERC20BridgeCaller_BridgedBalances (ERC20BridgeCallerSession_Contract ss)
       (ERC20BridgeCallerSession_CallOpts ss) destinationBlockchainID destinationBridgeAddress
           nativeTokenContract s"

definition ERC20BridgeCaller_CurrentBlockchainID ::
  "('s, 'o, 'tx) ERC20BridgeCaller \<Rightarrow> 'o \<Rightarrow> 's
    \<Rightarrow> go_error + bytes32" where
  "ERC20BridgeCaller_CurrentBlockchainID c opts s =
     bindE (bc_Call (ERC20BridgeCaller_contract c) opts ''currentBlockchainID'' [] s) (\<lambda>out.
     bindE (go_out (ERC20BridgeCaller_contract c) out 0 TBytes32 as_bytes32) (\<lambda>out0.
     Inr out0))"

definition ERC20BridgeSession_CurrentBlockchainID ::
  "('s, 'o, 'tx) ERC20BridgeSession \<Rightarrow> 's
    \<Rightarrow> go_error + bytes32" where
  "ERC20BridgeSession_CurrentBlockchainID ss s =
     ERC20BridgeCaller_CurrentBlockchainID (ERC20Bridge_Caller (ERC20BridgeSession_Contract ss))
       (ERC20BridgeSession_CallOpts ss) s"

definition ERC20BridgeCallerSession_CurrentBlockchainID ::
  "('s, 'o, 'tx) ERC20BridgeCallerSession \<Rightarrow> 's
    \<Rightarrow> go_error + bytes32" where
  "ERC20BridgeCallerSession_CurrentBlockchainID ss s =
     ERC20BridgeCaller_CurrentBlockchainID (ERC20BridgeCallerSession_Contract ss)
       (ERC20BridgeCallerSession_CallOpts ss) s"

definition ERC20BridgeCaller_EncodeCreateBridgeTokenData ::
  "('s, 'o, 'tx) ERC20BridgeCaller \<Rightarrow> 'o \<Rightarrow> address \<Rightarrow> string \<Rightarrow> string \<Rightarrow> byte \<Rightarrow> 's
    \<Rightarrow> go_error + bytes" where
  "ERC20BridgeCaller_EncodeCreateBridgeTokenData c opts nativeContractAddress nativeName
      nativeSymbol nativeDecimals s =
     bindE (bc_Call (ERC20BridgeCaller_contract c) opts ''encodeCreateBridgeTokenData'' [GAddress
         nativeContractAddress, GString nativeName, GString nativeSymbol, GUint8 nativeDecimals]
         s) (\<lambda>out.
     bindE (go_out (ERC20BridgeCaller_contract c) out 0 TBytes as_bytes) (\<lambda>out0.
     Inr out0))"

definition ERC20BridgeSession_EncodeCreateBridgeTokenData ::
  "('s, 'o, 'tx) ERC20BridgeSession \<Rightarrow> address \<Rightarrow> string \<Rightarrow> string \<Rightarrow> byte \<Rightarrow> 's
    \<Rightarrow> go_error + bytes" where
  "ERC20BridgeSession_EncodeCreateBridgeTokenData ss nativeContractAddress nativeName
      nativeSymbol nativeDecimals s =
     ERC20BridgeCaller_EncodeCreateBridgeTokenData (ERC20Bridge_Caller
         (ERC20BridgeSession_Contract ss))
       (ERC20BridgeSession_CallOpts ss) nativeContractAddress nativeName nativeSymbol
           nativeDecimals s"

definition ERC20BridgeCallerSession_EncodeCreateBridgeTokenData ::
  "('s, 'o, 'tx) ERC20BridgeCallerSession \<Rightarrow> address \<Rightarrow> string \<Rightarrow> string \<Rightarrow> byte \<Rightarrow> 's
    \<Rightarrow> go_error + bytes" where
  "ERC20BridgeCallerSession_EncodeCreateBridgeTokenData ss nativeContractAddress nativeName
      nativeSymbol nativeDecimals s =
     ERC20BridgeCaller_EncodeCreateBridgeTokenData (ERC20BridgeCallerSession_Contract ss)
       (ERC20BridgeCallerSession_CallOpts ss) nativeContractAddress nativeName nativeSymbol
           nativeDecimals s"

definition ERC20BridgeCaller_EncodeMintBridgeTokensData ::
  "('s, 'o, 'tx) ERC20BridgeCaller \<Rightarrow> 'o \<Rightarrow> address \<Rightarrow> address \<Rightarrow> int \<Rightarrow> 's
    \<Rightarrow> go_error + bytes" where
  "ERC20BridgeCaller_EncodeMintBridgeTokensData c opts nativeContractAddress recipient
      bridgeAmount s =
     bindE (bc_Call (ERC20BridgeCaller_contract c) opts ''encodeMintBridgeTokensData'' [GAddress
         nativeContractAddress, GAddress recipient, GBigInt bridgeAmount] s) (\<lambda>out.
     bindE (go_out (ERC20BridgeCaller_contract c) out 0 TBytes as_bytes) (\<lambda>out0.
     Inr out0))"

definition ERC20BridgeSession_EncodeMintBridgeTokensData ::
  "('s, 'o, 'tx) ERC20BridgeSession \<Rightarrow> address \<Rightarrow> address \<Rightarrow> int \<Rightarrow> 's
    \<Rightarrow> go_error + bytes" where
  "ERC20BridgeSession_EncodeMintBridgeTokensData ss nativeContractAddress recipient bridgeAmount
      s =
     ERC20BridgeCaller_EncodeMintBridgeTokensData (ERC20Bridge_Caller
         (ERC20BridgeSession_Contract ss))
       (ERC20BridgeSession_CallOpts ss) nativeContractAddress recipient bridgeAmount s"

definition ERC20BridgeCallerSession_EncodeMintBridgeTokensData ::
  "('s, 'o, 'tx) ERC20BridgeCallerSession \<Rightarrow> address \<Rightarrow> address \<Rightarrow> int \<Rightarrow> 's
    \<Rightarrow> go_error + bytes" where
  "ERC20BridgeCallerSession_EncodeMintBridgeTokensData ss nativeContractAddress recipient
      bridgeAmount s =
     ERC20BridgeCaller_EncodeMintBridgeTokensData (ERC20BridgeCallerSession_Contract ss)
       (ERC20BridgeCallerSession_CallOpts ss) nativeContractAddress recipient bridgeAmount s"

definition ERC20BridgeCaller_EncodeTransferBridgeTokensData ::
  "('s, 'o, 'tx) ERC20BridgeCaller \<Rightarrow> 'o \<Rightarrow> bytes32 \<Rightarrow> address \<Rightarrow> address \<Rightarrow> address \<Rightarrow> int \<Rightarrow> int \<Rightarrow> 's
    \<Rightarrow> go_error + bytes" where
  "ERC20BridgeCaller_EncodeTransferBridgeTokensData c opts destinationBlockchainID
      destinationBridgeAddress nativeContractAddress recipient amount feeAmount s =
     bindE (bc_Call (ERC20BridgeCaller_contract c) opts ''encodeTransferBridgeTokensData''
         [GBytes32 destinationBlockchainID, GAddress destinationBridgeAddress, GAddress
         nativeContractAddress, GAddress recipient, GBigInt amount, GBigInt feeAmount] s) (\<lambda>out.
     bindE (go_out (ERC20BridgeCaller_contract c) out 0 TBytes as_bytes) (\<lambda>out0.
     Inr out0))"

definition ERC20BridgeSession_EncodeTransferBridgeTokensData ::
  "('s, 'o, 'tx) ERC20BridgeSession \<Rightarrow> bytes32 \<Rightarrow> address \<Rightarrow> address \<Rightarrow> address \<Rightarrow> int \<Rightarrow> int \<Rightarrow> 's
    \<Rightarrow> go_error + bytes" where
  "ERC20BridgeSession_EncodeTransferBridgeTokensData ss destinationBlockchainID
      destinationBridgeAddress nativeContractAddress recipient amount feeAmount s =
     ERC20BridgeCaller_EncodeTransferBridgeTokensData (ERC20Bridge_Caller
         (ERC20BridgeSession_Contract ss))
       (ERC20BridgeSession_CallOpts ss) destinationBlockchainID destinationBridgeAddress
           nativeContractAddress recipient amount feeAmount s"

definition ERC20BridgeCallerSession_EncodeTransferBridgeTokensData ::
  "('s, 'o, 'tx) ERC20BridgeCallerSession \<Rightarrow> bytes32 \<Rightarrow> address \<Rightarrow> address \<Rightarrow> address \<Rightarrow> int \<Rightarrow> int \<Rightarrow> 's
    \<Rightarrow> go_error + bytes" where
  "ERC20BridgeCallerSession_EncodeTransferBridgeTokensData ss destinationBlockchainID
      destinationBridgeAddress nativeContractAddress recipient amount feeAmount s =
     ERC20BridgeCaller_EncodeTransferBridgeTokensData (ERC20BridgeCallerSession_Contract ss)
       (ERC20BridgeCallerSession_CallOpts ss) destinationBlockchainID destinationBridgeAddress
           nativeContractAddress recipient amount feeAmount s"

definition ERC20BridgeCaller_GetMinTeleporterVersion ::
  "('s, 'o, 'tx) ERC20BridgeCaller \<Rightarrow> 'o \<Rightarrow> 's
    \<Rightarrow> go_error + int" where
  "ERC20BridgeCaller_GetMinTeleporterVersion c opts s =
     bindE (bc_Call (ERC20BridgeCaller_contract c) opts ''getMinTeleporterVersion'' [] s) (\<lambda>out.
     bindE (go_out (ERC20BridgeCaller_contract c) out 0 TBigInt as_bigint) (\<lambda>out0.
     Inr out0))"

definition ERC20BridgeSession_GetMinTeleporterVersion ::
  "('s, 'o, 'tx) ERC20BridgeSession \<Rightarrow> 's
    \<Rightarrow> go_error + int" where
  "ERC20BridgeSession_GetMinTeleporterVersion ss s =
     ERC20BridgeCaller_GetMinTeleporterVersion (ERC20Bridge_Caller (ERC20BridgeSession_Contract
         ss))
       (ERC20BridgeSession_CallOpts ss) s"

definition ERC20BridgeCallerSession_GetMinTeleporterVersion ::
  "('s, 'o, 'tx) ERC20BridgeCallerSession \<Rightarrow> 's
    \<Rightarrow> go_error + int" where
  "ERC20BridgeCallerSession_GetMinTeleporterVersion ss s =
     ERC20BridgeCaller_GetMinTeleporterVersion (ERC20BridgeCallerSession_Contract ss)
       (ERC20BridgeCallerSession_CallOpts ss) s"

definition ERC20BridgeCaller_IsTeleporterAddressPaused ::
  "('s, 'o, 'tx) ERC20BridgeCaller \<Rightarrow> 'o \<Rightarrow> address \<Rightarrow> 's
    \<Rightarrow> go_error + bool" where
  "ERC20BridgeCaller_IsTeleporterAddressPaused c opts teleporterAddress s =
     bindE (bc_Call (ERC20BridgeCaller_contract c) opts ''isTeleporterAddressPaused'' [GAddress
         teleporterAddress] s) (\<lambda>out.
     bindE (go_out (ERC20BridgeCaller_contract c) out 0 TBool as_bool) (\<lambda>out0.
     Inr out0))"

definition ERC20BridgeSession_IsTeleporterAddressPaused ::
  "('s, 'o, 'tx) ERC20BridgeSession \<Rightarrow> address \<Rightarrow> 's
    \<Rightarrow> go_error + bool" where
  "ERC20BridgeSession_IsTeleporterAddressPaused ss teleporterAddress s =
     ERC20BridgeCaller_IsTeleporterAddressPaused (ERC20Bridge_Caller (ERC20BridgeSession_Contract
         ss))
       (ERC20BridgeSession_CallOpts ss) teleporterAddress s"

definition ERC20BridgeCallerSession_IsTeleporterAddressPaused ::
  "('s, 'o, 'tx) ERC20BridgeCallerSession \<Rightarrow> address \<Rightarrow> 's
    \<Rightarrow> go_error + bool" where
  "ERC20BridgeCallerSession_IsTeleporterAddressPaused ss teleporterAddress s =
     ERC20BridgeCaller_IsTeleporterAddressPaused (ERC20BridgeCallerSession_Contract ss)
       (ERC20BridgeCallerSession_CallOpts ss) teleporterAddress s"

definition ERC20BridgeCaller_NativeToWrappedTokens ::
  "('s, 'o, 'tx) ERC20BridgeCaller \<Rightarrow> 'o \<Rightarrow> bytes32 \<Rightarrow> address \<Rightarrow> address \<Rightarrow> 's
    \<Rightarrow> go_error + address" where
  "ERC20BridgeCaller_NativeToWrappedTokens c opts nativeBlockchainID nativeBridgeAddress
      nativeTokenAddress s =
     bindE (bc_Call (ERC20BridgeCaller_contract c) opts ''nativeToWrappedTokens'' [GBytes32
         nativeBlockchainID, GAddress nativeBridgeAddress, GAddress nativeTokenAddress] s) (\<lambda>out.
     bindE (go_out (ERC20BridgeCaller_contract c) out 0 TAddress as_address) (\<lambda>out0.
     Inr out0))"

definition ERC20BridgeSession_NativeToWrappedTokens ::
  "('s, 'o, 'tx) ERC20BridgeSession \<Rightarrow> bytes32 \<Rightarrow> address \<Rightarrow> address \<Rightarrow> 's
    \<Rightarrow> go_error + address" where
  "ERC20BridgeSession_NativeToWrappedTokens ss nativeBlockchainID nativeBridgeAddress
      nativeTokenAddress s =
     ERC20BridgeCaller_NativeToWrappedTokens (ERC20Bridge_Caller (ERC20BridgeSession_Contract ss))
       (ERC20BridgeSession_CallOpts ss) nativeBlockchainID nativeBridgeAddress nativeTokenAddress
           s"

definition ERC20BridgeCallerSession_NativeToWrappedTokens ::
  "('s, 'o, 'tx) ERC20BridgeCallerSession \<Rightarrow> bytes32 \<Rightarrow> address \<Rightarrow> address \<Rightarrow> 's
    \<Rightarrow> go_error + address" where
  "ERC20BridgeCallerSession_NativeToWrappedTokens ss nativeBlockchainID nativeBridgeAddress
      nativeTokenAddress s =
     ERC20BridgeCaller_NativeToWrappedTokens (ERC20BridgeCallerSession_Contract ss)
       (ERC20BridgeCallerSession_CallOpts ss) nativeBlockchainID nativeBridgeAddress
           nativeTokenAddress s"

definition ERC20BridgeCaller_Owner ::
  "('s, 'o, 'tx) ERC20BridgeCaller \<Rightarrow> 'o \<Rightarrow> 's
    \<Rightarrow> go_error + address" where
  "ERC20BridgeCaller_Owner c opts s =
     bindE (bc_Call (ERC20BridgeCaller_contract c) opts ''owner'' [] s) (\<lambda>out.
     bindE (go_out (ERC20BridgeCaller_contract c) out 0 TAddress as_address) (\<lambda>out0.
     Inr out0))"

definition ERC20BridgeSession_Owner ::
  "('s, 'o, 'tx) ERC20BridgeSession \<Rightarrow> 's
    \<Rightarrow> go_error + address" where
  "ERC20BridgeSession_Owner ss s =
     ERC20BridgeCaller_Owner (ERC20Bridge_Caller (ERC20BridgeSession_Contract ss))
       (ERC20BridgeSession_CallOpts ss) s"

definition ERC20BridgeCallerSession_Owner ::
  "('s, 'o, 'tx) ERC20BridgeCallerSession \<Rightarrow> 's
    \<Rightarrow> go_error + address" where
  "ERC20BridgeCallerSession_Owner ss s =
     ERC20BridgeCaller_Owner (ERC20BridgeCallerSession_Contract ss)
       (ERC20BridgeCallerSession_CallOpts ss) s"

definition ERC20BridgeCaller_SubmittedBridgeTokenCreations ::
  "('s, 'o, 'tx) ERC20BridgeCaller \<Rightarrow> 'o \<Rightarrow> bytes32 \<Rightarrow> address \<Rightarrow> address \<Rightarrow> 's
    \<Rightarrow> go_error + bool" where
  "ERC20BridgeCaller_SubmittedBridgeTokenCreations c opts destinationBlockchainID
      destinationBridgeAddress nativeTokenContract s =
     bindE (bc_Call (ERC20BridgeCaller_contract c) opts ''submittedBridgeTokenCreations''
         [GBytes32 destinationBlockchainID, GAddress destinationBridgeAddress, GAddress
         nativeTokenContract] s) (\<lambda>out.
     bindE (go_out (ERC20BridgeCaller_contract c) out 0 TBool as_bool) (\<lambda>out0.
     Inr out0))"

definition ERC20BridgeSession_SubmittedBridgeTokenCreations ::
  "('s, 'o, 'tx) ERC20BridgeSession \<Rightarrow> bytes32 \<Rightarrow> address \<Rightarrow> address \<Rightarrow> 's
    \<Rightarrow> go_error + bool" where
  "ERC20BridgeSession_SubmittedBridgeTokenCreations ss destinationBlockchainID
      destinationBridgeAddress nativeTokenContract s =
     ERC20BridgeCaller_SubmittedBridgeTokenCreations (ERC20Bridge_Caller
         (ERC20BridgeSession_Contract ss))
       (ERC20BridgeSession_CallOpts ss) destinationBlockchainID destinationBridgeAddress
           nativeTokenContract s"

definition ERC20BridgeCallerSession_SubmittedBridgeTokenCreations ::
  "('s, 'o, 'tx) ERC20BridgeCallerSession \<Rightarrow> bytes32 \<Rightarrow> address \<Rightarrow> address \<Rightarrow> 's
    \<Rightarrow> go_error + bool" where
  "ERC20BridgeCallerSession_SubmittedBridgeTokenCreations ss destinationBlockchainID
      destinationBridgeAddress nativeTokenContract s =
     ERC20BridgeCaller_SubmittedBridgeTokenCreations (ERC20BridgeCallerSession_Contract ss)
       (ERC20BridgeCallerSession_CallOpts ss) destinationBlockchainID destinationBridgeAddress
           nativeTokenContract s"

definition ERC20BridgeCaller_TeleporterRegistry ::
  "('s, 'o, 'tx) ERC20BridgeCaller \<Rightarrow> 'o \<Rightarrow> 's
    \<Rightarrow> go_error + address" where
  "ERC20BridgeCaller_TeleporterRegistry c opts s =
     bindE (bc_Call (ERC20BridgeCaller_contract c) opts ''teleporterRegistry'' [] s) (\<lambda>out.
     bindE (go_out (ERC20BridgeCaller_contract c) out 0 TAddress as_address) (\<lambda>out0.
     Inr out0))"

definition ERC20BridgeSession_TeleporterRegistry ::
  "('s, 'o, 'tx) ERC20BridgeSession \<Rightarrow> 's
    \<Rightarrow> go_error + address" where
  "ERC20BridgeSession_TeleporterRegistry ss s =
     ERC20BridgeCaller_TeleporterRegistry (ERC20Bridge_Caller (ERC20BridgeSession_Contract ss))
       (ERC20BridgeSession_CallOpts ss) s"

definition ERC20BridgeCallerSession_TeleporterRegistry ::
  "('s, 'o, 'tx) ERC20BridgeCallerSession \<Rightarrow> 's
    \<Rightarrow> go_error + address" where
  "ERC20BridgeCallerSession_TeleporterRegistry ss s =
     ERC20BridgeCaller_TeleporterRegistry (ERC20BridgeCallerSession_Contract ss)
       (ERC20BridgeCallerSession_CallOpts ss) s"

definition ERC20BridgeCaller_WrappedTokenContracts ::
  "('s, 'o, 'tx) ERC20BridgeCaller \<Rightarrow> 'o \<Rightarrow> address \<Rightarrow> 's
    \<Rightarrow> go_error + bool" where
  "ERC20BridgeCaller_WrappedTokenContracts c opts bridgeToken s =
     bindE (bc_Call (ERC20BridgeCaller_contract c) opts ''wrappedTokenContracts'' [GAddress
         bridgeToken] s) (\<lambda>out.
     bindE (go_out (ERC20BridgeCaller_contract c) out 0 TBool as_bool) (\<lambda>out0.
     Inr out0))"

definition ERC20BridgeSession_WrappedTokenContracts ::
  "('s, 'o, 'tx) ERC20BridgeSession \<Rightarrow> address \<Rightarrow> 's
    \<Rightarrow> go_error + bool" where
  "ERC20BridgeSession_WrappedTokenContracts ss bridgeToken s =
     ERC20BridgeCaller_WrappedTokenContracts (ERC20Bridge_Caller (ERC20BridgeSession_Contract ss))
       (ERC20BridgeSession_CallOpts ss) bridgeToken s"

definition ERC20BridgeCallerSession_WrappedTokenContracts ::
  "('s, 'o, 'tx) ERC20BridgeCallerSession \<Rightarrow> address \<Rightarrow> 's
    \<Rightarrow> go_error + bool" where
  "ERC20BridgeCallerSession_WrappedTokenContracts ss bridgeToken s =
     ERC20BridgeCaller_WrappedTokenContracts (ERC20BridgeCallerSession_Contract ss)
       (ERC20BridgeCallerSession_CallOpts ss) bridgeToken s"

subsection \<open>Transactions\<close>

definition ERC20BridgeTransactor_BridgeTokens ::
  "('s, 'o, 'tx) ERC20BridgeTransactor \<Rightarrow> 'o \<Rightarrow> bytes32 \<Rightarrow> address \<Rightarrow> address \<Rightarrow> address \<Rightarrow> int \<Rightarrow> int \<Rightarrow>
      int \<Rightarrow> 's
    \<Rightarrow> go_error + ('tx \<times> 's)" where
  "ERC20BridgeTransactor_BridgeTokens c opts destinationBlockchainID destinationBridgeAddress
      tokenContractAddress recipient totalAmount primaryFeeAmount secondaryFeeAmount s =
     bc_Transact (ERC20BridgeTransactor_contract c) opts ''bridgeTokens''
       [GBytes32 destinationBlockchainID, GAddress destinationBridgeAddress, GAddress
           tokenContractAddress, GAddress recipient, GBigInt totalAmount, GBigInt
           primaryFeeAmount, GBigInt secondaryFeeAmount] s"

definition ERC20BridgeSession_BridgeTokens ::
  "('s, 'o, 'tx) ERC20BridgeSession \<Rightarrow> bytes32 \<Rightarrow> address \<Rightarrow> address \<Rightarrow> address \<Rightarrow> int \<Rightarrow> int \<Rightarrow> int \<Rightarrow> 's
    \<Rightarrow> go_error + ('tx \<times> 's)" where
  "ERC20BridgeSession_BridgeTokens ss destinationBlockchainID destinationBridgeAddress
      tokenContractAddress recipient totalAmount primaryFeeAmount secondaryFeeAmount s =
     ERC20BridgeTransactor_BridgeTokens (ERC20Bridge_Transactor (ERC20BridgeSession_Contract ss))
       (ERC20BridgeSession_TransactOpts ss) destinationBlockchainID destinationBridgeAddress
           tokenContractAddress recipient totalAmount primaryFeeAmount secondaryFeeAmount s"

definition ERC20BridgeTransactorSession_BridgeTokens ::
  "('s, 'o, 'tx) ERC20BridgeTransactorSession \<Rightarrow> bytes32 \<Rightarrow> address \<Rightarrow> address \<Rightarrow> address \<Rightarrow> int \<Rightarrow> int
      \<Rightarrow> int \<Rightarrow> 's
    \<Rightarrow> go_error + ('tx \<times> 's)" where
  "ERC20BridgeTransactorSession_BridgeTokens ss destinationBlockchainID destinationBridgeAddress
      tokenContractAddress recipient totalAmount primaryFeeAmount secondaryFeeAmount s =
     ERC20BridgeTransactor_BridgeTokens (ERC20BridgeTransactorSession_Contract ss)
       (ERC20BridgeTransactorSession_TransactOpts ss) destinationBlockchainID
           destinationBridgeAddress tokenContractAddress recipient totalAmount primaryFeeAmount
           secondaryFeeAmount s"

definition ERC20BridgeTransactor_PauseTeleporterAddress ::
  "('s, 'o, 'tx) ERC20BridgeTransactor \<Rightarrow> 'o \<Rightarrow> address \<Rightarrow> 's
    \<Rightarrow> go_error + ('tx \<times> 's)" where
  "ERC20BridgeTransactor_PauseTeleporterAddress c opts teleporterAddress s =
     bc_Transact (ERC20BridgeTransactor_contract c) opts ''pauseTeleporterAddress''
       [GAddress teleporterAddress] s"

definition ERC20BridgeSession_PauseTeleporterAddress ::
  "('s, 'o, 'tx) ERC20BridgeSession \<Rightarrow> address \<Rightarrow> 's
    \<Rightarrow> go_error + ('tx \<times> 's)" where
  "ERC20BridgeSession_PauseTeleporterAddress ss teleporterAddress s =
     ERC20BridgeTransactor_PauseTeleporterAddress (ERC20Bridge_Transactor
         (ERC20BridgeSession_Contract ss))
       (ERC20BridgeSession_TransactOpts ss) teleporterAddress s"

definition ERC20BridgeTransactorSession_PauseTeleporterAddress ::
  "('s, 'o, 'tx) ERC20BridgeTransactorSession \<Rightarrow> address \<Rightarrow> 's
    \<Rightarrow> go_error + ('tx \<times> 's)" where
  "ERC20BridgeTransactorSession_PauseTeleporterAddress ss teleporterAddress s =
     ERC20BridgeTransactor_PauseTeleporterAddress (ERC20BridgeTransactorSession_Contract ss)
       (ERC20BridgeTransactorSession_TransactOpts ss) teleporterAddress s"

definition ERC20BridgeTransactor_ReceiveTeleporterMessage ::
  "('s, 'o, 'tx) ERC20BridgeTransactor \<Rightarrow> 'o \<Rightarrow> bytes32 \<Rightarrow> address \<Rightarrow> bytes \<Rightarrow> 's
    \<Rightarrow> go_error + ('tx \<times> 's)" where
  "ERC20BridgeTransactor_ReceiveTeleporterMessage c opts originBlockchainID originSenderAddress
      message s =
     bc_Transact (ERC20BridgeTransactor_contract c) opts ''receiveTeleporterMessage''
       [GBytes32 originBlockchainID, GAddress originSenderAddress, GBytes message] s"

definition ERC20BridgeSession_ReceiveTeleporterMessage ::
  "('s, 'o, 'tx) ERC20BridgeSession \<Rightarrow> bytes32 \<Rightarrow> address \<Rightarrow> bytes \<Rightarrow> 's
    \<Rightarrow> go_error + ('tx \<times> 's)" where
  "ERC20BridgeSession_ReceiveTeleporterMessage ss originBlockchainID originSenderAddress message
      s =
     ERC20BridgeTransactor_ReceiveTeleporterMessage (ERC20Bridge_Transactor
         (ERC20BridgeSession_Contract ss))
       (ERC20BridgeSession_TransactOpts ss) originBlockchainID originSenderAddress message s"

definition ERC20BridgeTransactorSession_ReceiveTeleporterMessage ::
  "('s, 'o, 'tx) ERC20BridgeTransactorSession \<Rightarrow> bytes32 \<Rightarrow> address \<Rightarrow> bytes \<Rightarrow> 's
    \<Rightarrow> go_error + ('tx \<times> 's)" where
  "ERC20BridgeTransactorSession_ReceiveTeleporterMessage ss originBlockchainID
      originSenderAddress message s =
     ERC20BridgeTransactor_ReceiveTeleporterMessage (ERC20BridgeTransactorSession_Contract ss)
       (ERC20BridgeTransactorSession_TransactOpts ss) originBlockchainID originSenderAddress
           message s"

definition ERC20BridgeTransactor_RenounceOwnership ::
  "('s, 'o, 'tx) ERC20BridgeTransactor \<Rightarrow> 'o \<Rightarrow> 's
    \<Rightarrow> go_error + ('tx \<times> 's)" where
  "ERC20BridgeTransactor_RenounceOwnership c opts s =
     bc_Transact (ERC20BridgeTransactor_contract c) opts ''renounceOwnership''
       [] s"

definition ERC20BridgeSession_RenounceOwnership ::
  "('s, 'o, 'tx) ERC20BridgeSession \<Rightarrow> 's
    \<Rightarrow> go_error + ('tx \<times> 's)" where
  "ERC20BridgeSession_RenounceOwnership ss s =
     ERC20BridgeTransactor_RenounceOwnership (ERC20Bridge_Transactor (ERC20BridgeSession_Contract
         ss))
       (ERC20BridgeSession_TransactOpts ss) s"

definition ERC20BridgeTransactorSession_RenounceOwnership ::
  "('s, 'o, 'tx) ERC20BridgeTransactorSession \<Rightarrow> 's
    \<Rightarrow> go_error + ('tx \<times> 's)" where
  "ERC20BridgeTransactorSession_RenounceOwnership ss s =
     ERC20BridgeTransactor_RenounceOwnership (ERC20BridgeTransactorSession_Contract ss)
       (ERC20BridgeTransactorSession_TransactOpts ss) s"

definition ERC20BridgeTransactor_SubmitCreateBridgeToken ::
  "('s, 'o, 'tx) ERC20BridgeTransactor \<Rightarrow> 'o \<Rightarrow> bytes32 \<Rightarrow> address \<Rightarrow> address \<Rightarrow> address \<Rightarrow> int \<Rightarrow> 's
    \<Rightarrow> go_error + ('tx \<times> 's)" where
  "ERC20BridgeTransactor_SubmitCreateBridgeToken c opts destinationBlockchainID
      destinationBridgeAddress nativeToken messageFeeAsset messageFeeAmount s =
     bc_Transact (ERC20BridgeTransactor_contract c) opts ''submitCreateBridgeToken''
       [GBytes32 destinationBlockchainID, GAddress destinationBridgeAddress, GAddress
           nativeToken, GAddress messageFeeAsset, GBigInt messageFeeAmount] s"

definition ERC20BridgeSession_SubmitCreateBridgeToken ::
  "('s, 'o, 'tx) ERC20BridgeSession \<Rightarrow> bytes32 \<Rightarrow> address \<Rightarrow> address \<Rightarrow> address \<Rightarrow> int \<Rightarrow> 's
    \<Rightarrow> go_error + ('tx \<times> 's)" where
  "ERC20BridgeSession_SubmitCreateBridgeToken ss destinationBlockchainID destinationBridgeAddress
      nativeToken messageFeeAsset messageFeeAmount s =
     ERC20BridgeTransactor_SubmitCreateBridgeToken (ERC20Bridge_Transactor
         (ERC20BridgeSession_Contract ss))
       (ERC20BridgeSession_TransactOpts ss) destinationBlockchainID destinationBridgeAddress
           nativeToken messageFeeAsset messageFeeAmount s"

definition ERC20BridgeTransactorSession_SubmitCreateBridgeToken ::
  "('s, 'o, 'tx) ERC20BridgeTransactorSession \<Rightarrow> bytes32 \<Rightarrow> address \<Rightarrow> address \<Rightarrow> address \<Rightarrow> int \<Rightarrow> 's
    \<Rightarrow> go_error + ('tx \<times> 's)" where
  "ERC20BridgeTransactorSession_SubmitCreateBridgeToken ss destinationBlockchainID
      destinationBridgeAddress nativeToken messageFeeAsset messageFeeAmount s =
     ERC20BridgeTransactor_SubmitCreateBridgeToken (ERC20BridgeTransactorSession_Contract ss)
       (ERC20BridgeTransactorSession_TransactOpts ss) destinationBlockchainID
           destinationBridgeAddress nativeToken messageFeeAsset messageFeeAmount s"

definition ERC20BridgeTransactor_TransferOwnership ::
  "('s, 'o, 'tx) ERC20BridgeTransactor \<Rightarrow> 'o \<Rightarrow> address \<Rightarrow> 's
    \<Rightarrow> go_error + ('tx \<times> 's)" where
  "ERC20BridgeTransactor_TransferOwnership c opts newOwner s =
     bc_Transact (ERC20BridgeTransactor_contract c) opts ''transferOwnership''
       [GAddress newOwner] s"

definition ERC20BridgeSession_TransferOwnership ::
  "('s, 'o, 'tx) ERC20BridgeSession \<Rightarrow> address \<Rightarrow> 's
    \<Rightarrow> go_error + ('tx \<times> 's)" where
  "ERC20BridgeSession_TransferOwnership ss newOwner s =
     ERC20BridgeTransactor_TransferOwnership (ERC20Bridge_Transactor (ERC20BridgeSession_Contract
         ss))
       (ERC20BridgeSession_TransactOpts ss) newOwner s"

definition ERC20BridgeTransactorSession_TransferOwnership ::
  "('s, 'o, 'tx) ERC20BridgeTransactorSession \<Rightarrow> address \<Rightarrow> 's
    \<Rightarrow> go_error + ('tx \<times> 's)" where
  "ERC20BridgeTransactorSession_TransferOwnership ss newOwner s =
     ERC20BridgeTransactor_TransferOwnership (ERC20BridgeTransactorSession_Contract ss)
       (ERC20BridgeTransactorSession_TransactOpts ss) newOwner s"

definition ERC20BridgeTransactor_UnpauseTeleporterAddress ::
  "('s, 'o, 'tx) ERC20BridgeTransactor \<Rightarrow> 'o \<Rightarrow> address \<Rightarrow> 's
    \<Rightarrow> go_error + ('tx \<times> 's)" where
  "ERC20BridgeTransactor_UnpauseTeleporterAddress c opts teleporterAddress s =
     bc_Transact (ERC20BridgeTransactor_contract c) opts ''unpauseTeleporterAddress''
       [GAddress teleporterAddress] s"

definition ERC20BridgeSession_UnpauseTeleporterAddress ::
  "('s, 'o, 'tx) ERC20BridgeSession \<Rightarrow> address \<Rightarrow> 's
    \<Rightarrow> go_error + ('tx \<times> 's)" where
  "ERC20BridgeSession_UnpauseTeleporterAddress ss teleporterAddress s =
     ERC20BridgeTransactor_UnpauseTeleporterAddress (ERC20Bridge_Transactor
         (ERC20BridgeSession_Contract ss))
       (ERC20BridgeSession_TransactOpts ss) teleporterAddress s"

definition ERC20BridgeTransactorSession_UnpauseTeleporterAddress ::
  "('s, 'o, 'tx) ERC20BridgeTransactorSession \<Rightarrow> address \<Rightarrow> 's
    \<Rightarrow> go_error + ('tx \<times> 's)" where
  "ERC20BridgeTransactorSession_UnpauseTeleporterAddress ss teleporterAddress s =
     ERC20BridgeTransactor_UnpauseTeleporterAddress (ERC20BridgeTransactorSession_Contract ss)
       (ERC20BridgeTransactorSession_TransactOpts ss) teleporterAddress s"

definition ERC20BridgeTransactor_UpdateMinTeleporterVersion ::
  "('s, 'o, 'tx) ERC20BridgeTransactor \<Rightarrow> 'o \<Rightarrow> int \<Rightarrow> 's
    \<Rightarrow> go_error + ('tx \<times> 's)" where
  "ERC20BridgeTransactor_UpdateMinTeleporterVersion c opts version s =
     bc_Transact (ERC20BridgeTransactor_contract c) opts ''updateMinTeleporterVersion''
       [GBigInt version] s"

definition ERC20BridgeSession_UpdateMinTeleporterVersion ::
  "('s, 'o, 'tx) ERC20BridgeSession \<Rightarrow> int \<Rightarrow> 's
    \<Rightarrow> go_error + ('tx \<times> 's)" where
  "ERC20BridgeSession_UpdateMinTeleporterVersion ss version s =
     ERC20BridgeTransactor_UpdateMinTeleporterVersion (ERC20Bridge_Transactor
         (ERC20BridgeSession_Contract ss))
       (ERC20BridgeSession_TransactOpts ss) version s"

definition ERC20BridgeTransactorSession_UpdateMinTeleporterVersion ::
  "('s, 'o, 'tx) ERC20BridgeTransactorSession \<Rightarrow> int \<Rightarrow> 's
    \<Rightarrow> go_error + ('tx \<times> 's)" where
  "ERC20BridgeTransactorSession_UpdateMinTeleporterVersion ss version s =
     ERC20BridgeTransactor_UpdateMinTeleporterVersion (ERC20BridgeTransactorSession_Contract ss)
       (ERC20BridgeTransactorSession_TransactOpts ss) version s"

subsection \<open>Events\<close>

text \<open>The event \<open>BridgeTokens\<close>.\<close>

record ERC20BridgeBridgeTokens =
  ERC20BridgeBridgeTokens_TokenContractAddress :: address
  ERC20BridgeBridgeTokens_DestinationBlockchainID :: bytes32
  ERC20BridgeBridgeTokens_TeleporterMessageID :: int
  ERC20BridgeBridgeTokens_DestinationBridgeAddress :: address
  ERC20BridgeBridgeTokens_Recipient :: address
  ERC20BridgeBridgeTokens_Amount :: int
  ERC20BridgeBridgeTokens_Raw :: log

definition filled_ERC20BridgeBridgeTokens :: "go_value \<Rightarrow> log \<Rightarrow> ERC20BridgeBridgeTokens" where
  "filled_ERC20BridgeBridgeTokens v raw =
     \<lparr>ERC20BridgeBridgeTokens_TokenContractAddress = filled as_address TAddress v 0,
       ERC20BridgeBridgeTokens_DestinationBlockchainID = filled as_bytes32 TBytes32 v 1,
       ERC20BridgeBridgeTokens_TeleporterMessageID = filled as_bigint TBigInt v 2,
       ERC20BridgeBridgeTokens_DestinationBridgeAddress = filled as_address TAddress v 3,
       ERC20BridgeBridgeTokens_Recipient = filled as_address TAddress v 4,
       ERC20BridgeBridgeTokens_Amount = filled as_bigint TBigInt v 5,
       ERC20BridgeBridgeTokens_Raw = raw\<rparr>"

definition unpack_ERC20BridgeBridgeTokens ::
  "('s, 'o, 'tx) bound_contract \<Rightarrow> string \<Rightarrow> log \<Rightarrow> go_error + ERC20BridgeBridgeTokens" where
  "unpack_ERC20BridgeBridgeTokens c event raw =
     bindE (bc_UnpackLog c (TStruct ''ERC20BridgeBridgeTokens'' [TAddress, TBytes32, TBigInt,
         TAddress, TAddress, TBigInt]) event raw) (\<lambda>v.
     Inr (filled_ERC20BridgeBridgeTokens v raw))"

definition ERC20BridgeBridgeTokensIterator_Next ::
  "('s, 'o, 'tx) bound_contract \<Rightarrow> bool \<Rightarrow> ERC20BridgeBridgeTokens iterator \<Rightarrow>
      ERC20BridgeBridgeTokens next_result" where
  "ERC20BridgeBridgeTokensIterator_Next c = iterator_Next (unpack_ERC20BridgeBridgeTokens c)"

definition ERC20BridgeBridgeTokensIterator_Error ::
  "ERC20BridgeBridgeTokens iterator \<Rightarrow> go_error option" where
  "ERC20BridgeBridgeTokensIterator_Error = iterator_Error"

definition ERC20BridgeBridgeTokensIterator_Close ::
  "ERC20BridgeBridgeTokens iterator \<Rightarrow> go_error option \<times> ERC20BridgeBridgeTokens iterator" where
  "ERC20BridgeBridgeTokensIterator_Close = iterator_Close"

definition ERC20BridgeFilterer_FilterBridgeTokens ::
  "('s, 'o, 'tx) ERC20BridgeFilterer \<Rightarrow> 'o \<Rightarrow> address list \<Rightarrow> bytes32 list \<Rightarrow> int list \<Rightarrow> 's
    \<Rightarrow> go_error + ERC20BridgeBridgeTokens iterator" where
  "ERC20BridgeFilterer_FilterBridgeTokens c opts tokenContractAddress destinationBlockchainID
      teleporterMessageID s =
     bindE (bc_FilterLogs (ERC20BridgeFilterer_contract c) opts ''BridgeTokens'' [map GAddress
         tokenContractAddress, map GBytes32 destinationBlockchainID, map GBigInt
         teleporterMessageID] s) (\<lambda>stream.
     Inr (new_iterator ''BridgeTokens'' stream))"

definition ERC20BridgeFilterer_WatchBridgeTokens ::
  "('s, 'o, 'tx) ERC20BridgeFilterer \<Rightarrow> 'o \<Rightarrow> address list \<Rightarrow> bytes32 list \<Rightarrow> int list \<Rightarrow> 's
    \<Rightarrow> go_error + ERC20BridgeBridgeTokens watcher" where
  "ERC20BridgeFilterer_WatchBridgeTokens c opts tokenContractAddress destinationBlockchainID
      teleporterMessageID s =
     bindE (bc_WatchLogs (ERC20BridgeFilterer_contract c) opts ''BridgeTokens'' [map GAddress
         tokenContractAddress, map GBytes32 destinationBlockchainID, map GBigInt
         teleporterMessageID] s) (\<lambda>stream.
     Inr (new_watcher (unpack_ERC20BridgeBridgeTokens (ERC20BridgeFilterer_contract c)
         ''BridgeTokens'') stream))"

definition ERC20BridgeFilterer_ParseBridgeTokens ::
  "('s, 'o, 'tx) ERC20BridgeFilterer \<Rightarrow> log \<Rightarrow> go_error + ERC20BridgeBridgeTokens" where
  "ERC20BridgeFilterer_ParseBridgeTokens c raw = unpack_ERC20BridgeBridgeTokens
      (ERC20BridgeFilterer_contract c) ''BridgeTokens'' raw"

text \<open>The event \<open>CreateBridgeToken\<close>.\<close>

record ERC20BridgeCreateBridgeToken =
  ERC20BridgeCreateBridgeToken_NativeBlockchainID :: bytes32
  ERC20BridgeCreateBridgeToken_NativeBridgeAddress :: address
  ERC20BridgeCreateBridgeToken_NativeContractAddress :: address
  ERC20BridgeCreateBridgeToken_BridgeTokenAddress :: address
  ERC20BridgeCreateBridgeToken_Raw :: log

definition filled_ERC20BridgeCreateBridgeToken :: "go_value \<Rightarrow> log \<Rightarrow> ERC20BridgeCreateBridgeToken"
    where
  "filled_ERC20BridgeCreateBridgeToken v raw =
     \<lparr>ERC20BridgeCreateBridgeToken_NativeBlockchainID = filled as_bytes32 TBytes32 v 0,
       ERC20BridgeCreateBridgeToken_NativeBridgeAddress = filled as_address TAddress v 1,
       ERC20BridgeCreateBridgeToken_NativeContractAddress = filled as_address TAddress v 2,
       ERC20BridgeCreateBridgeToken_BridgeTokenAddress = filled as_address TAddress v 3,
       ERC20BridgeCreateBridgeToken_Raw = raw\<rparr>"

definition unpack_ERC20BridgeCreateBridgeToken ::
  "('s, 'o, 'tx) bound_contract \<Rightarrow> string \<Rightarrow> log \<Rightarrow> go_error + ERC20BridgeCreateBridgeToken" where
  "unpack_ERC20BridgeCreateBridgeToken c event raw =
     bindE (bc_UnpackLog c (TStruct ''ERC20BridgeCreateBridgeToken'' [TBytes32, TAddress,
         TAddress, TAddress]) event raw) (\<lambda>v.
     Inr (filled_ERC20BridgeCreateBridgeToken v raw))"

definition ERC20BridgeCreateBridgeTokenIterator_Next ::
  "('s, 'o, 'tx) bound_contract \<Rightarrow> bool \<Rightarrow> ERC20BridgeCreateBridgeToken iterator \<Rightarrow>
      ERC20BridgeCreateBridgeToken next_result" where
  "ERC20BridgeCreateBridgeTokenIterator_Next c = iterator_Next
      (unpack_ERC20BridgeCreateBridgeToken c)"

definition ERC20BridgeCreateBridgeTokenIterator_Error ::
  "ERC20BridgeCreateBridgeToken iterator \<Rightarrow> go_error option" where
  "ERC20BridgeCreateBridgeTokenIterator_Error = iterator_Error"

definition ERC20BridgeCreateBridgeTokenIterator_Close ::
  "ERC20BridgeCreateBridgeToken iterator \<Rightarrow> go_error option \<times> ERC20BridgeCreateBridgeToken
      iterator" where
  "ERC20BridgeCreateBridgeTokenIterator_Close = iterator_Close"

definition ERC20BridgeFilterer_FilterCreateBridgeToken ::
  "('s, 'o, 'tx) ERC20BridgeFilterer \<Rightarrow> 'o \<Rightarrow> bytes32 list \<Rightarrow> address list \<Rightarrow> address list \<Rightarrow> 's
    \<Rightarrow> go_error + ERC20BridgeCreateBridgeToken iterator" where
  "ERC20BridgeFilterer_FilterCreateBridgeToken c opts nativeBlockchainID nativeBridgeAddress
      nativeContractAddress s =
     bindE (bc_FilterLogs (ERC20BridgeFilterer_contract c) opts ''CreateBridgeToken'' [map
         GBytes32 nativeBlockchainID, map GAddress nativeBridgeAddress, map GAddress
         nativeContractAddress] s) (\<lambda>stream.
     Inr (new_iterator ''CreateBridgeToken'' stream))"

definition ERC20BridgeFilterer_WatchCreateBridgeToken ::
  "('s, 'o, 'tx) ERC20BridgeFilterer \<Rightarrow> 'o \<Rightarrow> bytes32 list \<Rightarrow> address list \<Rightarrow> address list \<Rightarrow> 's
    \<Rightarrow> go_error + ERC20BridgeCreateBridgeToken watcher" where
  "ERC20BridgeFilterer_WatchCreateBridgeToken c opts nativeBlockchainID nativeBridgeAddress
      nativeContractAddress s =
     bindE (bc_WatchLogs (ERC20BridgeFilterer_contract c) opts ''CreateBridgeToken'' [map
         GBytes32 nativeBlockchainID, map GAddress nativeBridgeAddress, map GAddress
         nativeContractAddress] s) (\<lambda>stream.
     Inr (new_watcher (unpack_ERC20BridgeCreateBridgeToken (ERC20BridgeFilterer_contract c)
         ''CreateBridgeToken'') stream))"

definition ERC20BridgeFilterer_ParseCreateBridgeToken ::
  "('s, 'o, 'tx) ERC20BridgeFilterer \<Rightarrow> log \<Rightarrow> go_error + ERC20BridgeCreateBridgeToken" where
  "ERC20BridgeFilterer_ParseCreateBridgeToken c raw = unpack_ERC20BridgeCreateBridgeToken
      (ERC20BridgeFilterer_contract c) ''CreateBridgeToken'' raw"

text \<open>The event \<open>MinTeleporterVersionUpdated\<close>.\<close>

record ERC20BridgeMinTeleporterVersionUpdated =
  ERC20BridgeMinTeleporterVersionUpdated_OldMinTeleporterVersion :: int
  ERC20BridgeMinTeleporterVersionUpdated_NewMinTeleporterVersion :: int
  ERC20BridgeMinTeleporterVersionUpdated_Raw :: log

definition filled_ERC20BridgeMinTeleporterVersionUpdated :: "go_value \<Rightarrow> log \<Rightarrow>
    ERC20BridgeMinTeleporterVersionUpdated" where
  "filled_ERC20BridgeMinTeleporterVersionUpdated v raw =
     \<lparr>ERC20BridgeMinTeleporterVersionUpdated_OldMinTeleporterVersion = filled as_bigint TBigInt v
         0,
       ERC20BridgeMinTeleporterVersionUpdated_NewMinTeleporterVersion = filled as_bigint TBigInt
           v 1,
       ERC20BridgeMinTeleporterVersionUpdated_Raw = raw\<rparr>"

definition unpack_ERC20BridgeMinTeleporterVersionUpdated ::
  "('s, 'o, 'tx) bound_contract \<Rightarrow> string \<Rightarrow> log \<Rightarrow> go_error +
      ERC20BridgeMinTeleporterVersionUpdated" where
  "unpack_ERC20BridgeMinTeleporterVersionUpdated c event raw =
     bindE (bc_UnpackLog c (TStruct ''ERC20BridgeMinTeleporterVersionUpdated'' [TBigInt,
         TBigInt]) event raw) (\<lambda>v.
     Inr (filled_ERC20BridgeMinTeleporterVersionUpdated v raw))"

definition ERC20BridgeMinTeleporterVersionUpdatedIterator_Next ::
  "('s, 'o, 'tx) bound_contract \<Rightarrow> bool \<Rightarrow> ERC20BridgeMinTeleporterVersionUpdated iterator \<Rightarrow>
      ERC20BridgeMinTeleporterVersionUpdated next_result" where
  "ERC20BridgeMinTeleporterVersionUpdatedIterator_Next c = iterator_Next
      (unpack_ERC20BridgeMinTeleporterVersionUpdated c)"

definition ERC20BridgeMinTeleporterVersionUpdatedIterator_Error ::
  "ERC20BridgeMinTeleporterVersionUpdated iterator \<Rightarrow> go_error option" where
  "ERC20BridgeMinTeleporterVersionUpdatedIterator_Error = iterator_Error"

definition ERC20BridgeMinTeleporterVersionUpdatedIterator_Close ::
  "ERC20BridgeMinTeleporterVersionUpdated iterator \<Rightarrow> go_error option \<times>
      ERC20BridgeMinTeleporterVersionUpdated iterator" where
  "ERC20BridgeMinTeleporterVersionUpdatedIterator_Close = iterator_Close"

definition ERC20BridgeFilterer_FilterMinTeleporterVersionUpdated ::
  "('s, 'o, 'tx) ERC20BridgeFilterer \<Rightarrow> 'o \<Rightarrow> int list \<Rightarrow> int list \<Rightarrow> 's
    \<Rightarrow> go_error + ERC20BridgeMinTeleporterVersionUpdated iterator" where
  "ERC20BridgeFilterer_FilterMinTeleporterVersionUpdated c opts oldMinTeleporterVersion
      newMinTeleporterVersion s =
     bindE (bc_FilterLogs (ERC20BridgeFilterer_contract c) opts ''MinTeleporterVersionUpdated''
         [map GBigInt oldMinTeleporterVersion, map GBigInt newMinTeleporterVersion] s) (\<lambda>stream.
     Inr (new_iterator ''MinTeleporterVersionUpdated'' stream))"

definition ERC20BridgeFilterer_WatchMinTeleporterVersionUpdated ::
  "('s, 'o, 'tx) ERC20BridgeFilterer \<Rightarrow> 'o \<Rightarrow> int list \<Rightarrow> int list \<Rightarrow> 's
    \<Rightarrow> go_error + ERC20BridgeMinTeleporterVersionUpdated watcher" where
  "ERC20BridgeFilterer_WatchMinTeleporterVersionUpdated c opts oldMinTeleporterVersion
      newMinTeleporterVersion s =
     bindE (bc_WatchLogs (ERC20BridgeFilterer_contract c) opts ''MinTeleporterVersionUpdated''
         [map GBigInt oldMinTeleporterVersion, map GBigInt newMinTeleporterVersion] s) (\<lambda>stream.
     Inr (new_watcher (unpack_ERC20BridgeMinTeleporterVersionUpdated
         (ERC20BridgeFilterer_contract c) ''MinTeleporterVersionUpdated'') stream))"

definition ERC20BridgeFilterer_ParseMinTeleporterVersionUpdated ::
  "('s, 'o, 'tx) ERC20BridgeFilterer \<Rightarrow> log \<Rightarrow> go_error + ERC20BridgeMinTeleporterVersionUpdated"
      where
  "ERC20BridgeFilterer_ParseMinTeleporterVersionUpdated c raw =
      unpack_ERC20BridgeMinTeleporterVersionUpdated (ERC20BridgeFilterer_contract c)
      ''MinTeleporterVersionUpdated'' raw"

text \<open>The event \<open>MintBridgeTokens\<close>.\<close>

record ERC20BridgeMintBridgeTokens =
  ERC20BridgeMintBridgeTokens_ContractAddress :: address
  ERC20BridgeMintBridgeTokens_Recipient :: address
  ERC20BridgeMintBridgeTokens_Amount :: int
  ERC20BridgeMintBridgeTokens_Raw :: log

definition filled_ERC20BridgeMintBridgeTokens :: "go_value \<Rightarrow> log \<Rightarrow> ERC20BridgeMintBridgeTokens"
    where
  "filled_ERC20BridgeMintBridgeTokens v raw =
     \<lparr>ERC20BridgeMintBridgeTokens_ContractAddress = filled as_address TAddress v 0,
       ERC20BridgeMintBridgeTokens_Recipient = filled as_address TAddress v 1,
       ERC20BridgeMintBridgeTokens_Amount = filled as_bigint TBigInt v 2,
       ERC20BridgeMintBridgeTokens_Raw = raw\<rparr>"

definition unpack_ERC20BridgeMintBridgeTokens ::
  "('s, 'o, 'tx) bound_contract \<Rightarrow> string \<Rightarrow> log \<Rightarrow> go_error + ERC20BridgeMintBridgeTokens" where
  "unpack_ERC20BridgeMintBridgeTokens c event raw =
     bindE (bc_UnpackLog c (TStruct ''ERC20BridgeMintBridgeTokens'' [TAddress, TAddress,
         TBigInt]) event raw) (\<lambda>v.
     Inr (filled_ERC20BridgeMintBridgeTokens v raw))"

definition ERC20BridgeMintBridgeTokensIterator_Next ::
  "('s, 'o, 'tx) bound_contract \<Rightarrow> bool \<Rightarrow> ERC20BridgeMintBridgeTokens iterator \<Rightarrow>
      ERC20BridgeMintBridgeTokens next_result" where
  "ERC20BridgeMintBridgeTokensIterator_Next c = iterator_Next (unpack_ERC20BridgeMintBridgeTokens
      c)"

definition ERC20BridgeMintBridgeTokensIterator_Error ::
  "ERC20BridgeMintBridgeTokens iterator \<Rightarrow> go_error option" where
  "ERC20BridgeMintBridgeTokensIterator_Error = iterator_Error"

definition ERC20BridgeMintBridgeTokensIterator_Close ::
  "ERC20BridgeMintBridgeTokens iterator \<Rightarrow> go_error option \<times> ERC20BridgeMintBridgeTokens iterator"
      where
  "ERC20BridgeMintBridgeTokensIterator_Close = iterator_Close"

definition ERC20BridgeFilterer_FilterMintBridgeTokens ::
  "('s, 'o, 'tx) ERC20BridgeFilterer \<Rightarrow> 'o \<Rightarrow> address list \<Rightarrow> 's
    \<Rightarrow> go_error + ERC20BridgeMintBridgeTokens iterator" where
  "ERC20BridgeFilterer_FilterMintBridgeTokens c opts contractAddress s =
     bindE (bc_FilterLogs (ERC20BridgeFilterer_contract c) opts ''MintBridgeTokens'' [map
         GAddress contractAddress] s) (\<lambda>stream.
     Inr (new_iterator ''MintBridgeTokens'' stream))"

definition ERC20BridgeFilterer_WatchMintBridgeTokens ::
  "('s, 'o, 'tx) ERC20BridgeFilterer \<Rightarrow> 'o \<Rightarrow> address list \<Rightarrow> 's
    \<Rightarrow> go_error + ERC20BridgeMintBridgeTokens watcher" where
  "ERC20BridgeFilterer_WatchMintBridgeTokens c opts contractAddress s =
     bindE (bc_WatchLogs (ERC20BridgeFilterer_contract c) opts ''MintBridgeTokens'' [map GAddress
         contractAddress] s) (\<lambda>stream.
     Inr (new_watcher (unpack_ERC20BridgeMintBridgeTokens (ERC20BridgeFilterer_contract c)
         ''MintBridgeTokens'') stream))"

definition ERC20BridgeFilterer_ParseMintBridgeTokens ::
  "('s, 'o, 'tx) ERC20BridgeFilterer \<Rightarrow> log \<Rightarrow> go_error + ERC20BridgeMintBridgeTokens" where
  "ERC20BridgeFilterer_ParseMintBridgeTokens c raw = unpack_ERC20BridgeMintBridgeTokens
      (ERC20BridgeFilterer_contract c) ''MintBridgeTokens'' raw"

text \<open>The event \<open>OwnershipTransferred\<close>.\<close>

record ERC20BridgeOwnershipTransferred =
  ERC20BridgeOwnershipTransferred_PreviousOwner :: address
  ERC20BridgeOwnershipTransferred_NewOwner :: address
  ERC20BridgeOwnershipTransferred_Raw :: log

definition filled_ERC20BridgeOwnershipTransferred :: "go_value \<Rightarrow> log \<Rightarrow>
    ERC20BridgeOwnershipTransferred" where
  "filled_ERC20BridgeOwnershipTransferred v raw =
     \<lparr>ERC20BridgeOwnershipTransferred_PreviousOwner = filled as_address TAddress v 0,
       ERC20BridgeOwnershipTransferred_NewOwner = filled as_address TAddress v 1,
       ERC20BridgeOwnershipTransferred_Raw = raw\<rparr>"

definition unpack_ERC20BridgeOwnershipTransferred ::
  "('s, 'o, 'tx) bound_contract \<Rightarrow> string \<Rightarrow> log \<Rightarrow> go_error + ERC20BridgeOwnershipTransferred" where
  "unpack_ERC20BridgeOwnershipTransferred c event raw =
     bindE (bc_UnpackLog c (TStruct ''ERC20BridgeOwnershipTransferred'' [TAddress, TAddress])
         event raw) (\<lambda>v.
     Inr (filled_ERC20BridgeOwnershipTransferred v raw))"

definition ERC20BridgeOwnershipTransferredIterator_Next ::
  "('s, 'o, 'tx) bound_contract \<Rightarrow> bool \<Rightarrow> ERC20BridgeOwnershipTransferred iterator \<Rightarrow>
      ERC20BridgeOwnershipTransferred next_result" where
  "ERC20BridgeOwnershipTransferredIterator_Next c = iterator_Next
      (unpack_ERC20BridgeOwnershipTransferred c)"

definition ERC20BridgeOwnershipTransferredIterator_Error ::
  "ERC20BridgeOwnershipTransferred iterator \<Rightarrow> go_error option" where
  "ERC20BridgeOwnershipTransferredIterator_Error = iterator_Error"

definition ERC20BridgeOwnershipTransferredIterator_Close ::
  "ERC20BridgeOwnershipTransferred iterator \<Rightarrow> go_error option \<times> ERC20BridgeOwnershipTransferred
      iterator" where
  "ERC20BridgeOwnershipTransferredIterator_Close = iterator_Close"

definition ERC20BridgeFilterer_FilterOwnershipTransferred ::
  "('s, 'o, 'tx) ERC20BridgeFilterer \<Rightarrow> 'o \<Rightarrow> address list \<Rightarrow> address list \<Rightarrow> 's
    \<Rightarrow> go_error + ERC20BridgeOwnershipTransferred iterator" where
  "ERC20BridgeFilterer_FilterOwnershipTransferred c opts previousOwner newOwner s =
     bindE (bc_FilterLogs (ERC20BridgeFilterer_contract c) opts ''OwnershipTransferred'' [map
         GAddress previousOwner, map GAddress newOwner] s) (\<lambda>stream.
     Inr (new_iterator ''OwnershipTransferred'' stream))"

definition ERC20BridgeFilterer_WatchOwnershipTransferred ::
  "('s, 'o, 'tx) ERC20BridgeFilterer \<Rightarrow> 'o \<Rightarrow> address list \<Rightarrow> address list \<Rightarrow> 's
    \<Rightarrow> go_error + ERC20BridgeOwnershipTransferred watcher" where
  "ERC20BridgeFilterer_WatchOwnershipTransferred c opts previousOwner newOwner s =
     bindE (bc_WatchLogs (ERC20BridgeFilterer_contract c) opts ''OwnershipTransferred'' [map
         GAddress previousOwner, map GAddress newOwner] s) (\<lambda>stream.
     Inr (new_watcher (unpack_ERC20BridgeOwnershipTransferred (ERC20BridgeFilterer_contract c)
         ''OwnershipTransferred'') stream))"

definition ERC20BridgeFilterer_ParseOwnershipTransferred ::
  "('s, 'o, 'tx) ERC20BridgeFilterer \<Rightarrow> log \<Rightarrow> go_error + ERC20BridgeOwnershipTransferred" where
  "ERC20BridgeFilterer_ParseOwnershipTransferred c raw = unpack_ERC20BridgeOwnershipTransferred
      (ERC20BridgeFilterer_contract c) ''OwnershipTransferred'' raw"

text \<open>The event \<open>SubmitCreateBridgeToken\<close>.\<close>

record ERC20BridgeSubmitCreateBridgeToken =
  ERC20BridgeSubmitCreateBridgeToken_DestinationBlockchainID :: bytes32
  ERC20BridgeSubmitCreateBridgeToken_DestinationBridgeAddress :: address
  ERC20BridgeSubmitCreateBridgeToken_NativeContractAddress :: address
  ERC20BridgeSubmitCreateBridgeToken_TeleporterMessageID :: int
  ERC20BridgeSubmitCreateBridgeToken_Raw :: log

definition filled_ERC20BridgeSubmitCreateBridgeToken :: "go_value \<Rightarrow> log \<Rightarrow>
    ERC20BridgeSubmitCreateBridgeToken" where
  "filled_ERC20BridgeSubmitCreateBridgeToken v raw =
     \<lparr>ERC20BridgeSubmitCreateBridgeToken_DestinationBlockchainID = filled as_bytes32 TBytes32 v 0,
       ERC20BridgeSubmitCreateBridgeToken_DestinationBridgeAddress = filled as_address TAddress v
           1,
       ERC20BridgeSubmitCreateBridgeToken_NativeContractAddress = filled as_address TAddress v 2,
       ERC20BridgeSubmitCreateBridgeToken_TeleporterMessageID = filled as_bigint TBigInt v 3,
       ERC20BridgeSubmitCreateBridgeToken_Raw = raw\<rparr>"

definition unpack_ERC20BridgeSubmitCreateBridgeToken ::
  "('s, 'o, 'tx) bound_contract \<Rightarrow> string \<Rightarrow> log \<Rightarrow> go_error + ERC20BridgeSubmitCreateBridgeToken"
      where
  "unpack_ERC20BridgeSubmitCreateBridgeToken c event raw =
     bindE (bc_UnpackLog c (TStruct ''ERC20BridgeSubmitCreateBridgeToken'' [TBytes32, TAddress,
         TAddress, TBigInt]) event raw) (\<lambda>v.
     Inr (filled_ERC20BridgeSubmitCreateBridgeToken v raw))"

definition ERC20BridgeSubmitCreateBridgeTokenIterator_Next ::
  "('s, 'o, 'tx) bound_contract \<Rightarrow> bool \<Rightarrow> ERC20BridgeSubmitCreateBridgeToken iterator \<Rightarrow>
      ERC20BridgeSubmitCreateBridgeToken next_result" where
  "ERC20BridgeSubmitCreateBridgeTokenIterator_Next c = iterator_Next
      (unpack_ERC20BridgeSubmitCreateBridgeToken c)"

definition ERC20BridgeSubmitCreateBridgeTokenIterator_Error ::
  "ERC20BridgeSubmitCreateBridgeToken iterator \<Rightarrow> go_error option" where
  "ERC20BridgeSubmitCreateBridgeTokenIterator_Error = iterator_Error"

definition ERC20BridgeSubmitCreateBridgeTokenIterator_Close ::
  "ERC20BridgeSubmitCreateBridgeToken iterator \<Rightarrow> go_error option \<times>
      ERC20BridgeSubmitCreateBridgeToken iterator" where
  "ERC20BridgeSubmitCreateBridgeTokenIterator_Close = iterator_Close"

definition ERC20BridgeFilterer_FilterSubmitCreateBridgeToken ::
  "('s, 'o, 'tx) ERC20BridgeFilterer \<Rightarrow> 'o \<Rightarrow> bytes32 list \<Rightarrow> address list \<Rightarrow> address list \<Rightarrow> 's
    \<Rightarrow> go_error + ERC20BridgeSubmitCreateBridgeToken iterator" where
  "ERC20BridgeFilterer_FilterSubmitCreateBridgeToken c opts destinationBlockchainID
      destinationBridgeAddress nativeContractAddress s =
     bindE (bc_FilterLogs (ERC20BridgeFilterer_contract c) opts ''SubmitCreateBridgeToken'' [map
         GBytes32 destinationBlockchainID, map GAddress destinationBridgeAddress, map GAddress
         nativeContractAddress] s) (\<lambda>stream.
     Inr (new_iterator ''SubmitCreateBridgeToken'' stream))"

definition ERC20BridgeFilterer_WatchSubmitCreateBridgeToken ::
  "('s, 'o, 'tx) ERC20BridgeFilterer \<Rightarrow> 'o \<Rightarrow> bytes32 list \<Rightarrow> address list \<Rightarrow> address list \<Rightarrow> 's
    \<Rightarrow> go_error + ERC20BridgeSubmitCreateBridgeToken watcher" where
  "ERC20BridgeFilterer_WatchSubmitCreateBridgeToken c opts destinationBlockchainID
      destinationBridgeAddress nativeContractAddress s =
     bindE (bc_WatchLogs (ERC20BridgeFilterer_contract c) opts ''SubmitCreateBridgeToken'' [map
         GBytes32 destinationBlockchainID, map GAddress destinationBridgeAddress, map GAddress
         nativeContractAddress] s) (\<lambda>stream.
     Inr (new_watcher (unpack_ERC20BridgeSubmitCreateBridgeToken (ERC20BridgeFilterer_contract c)
         ''SubmitCreateBridgeToken'') stream))"

definition ERC20BridgeFilterer_ParseSubmitCreateBridgeToken ::
  "('s, 'o, 'tx) ERC20BridgeFilterer \<Rightarrow> log \<Rightarrow> go_error + ERC20BridgeSubmitCreateBridgeToken" where
  "ERC20BridgeFilterer_ParseSubmitCreateBridgeToken c raw =
      unpack_ERC20BridgeSubmitCreateBridgeToken (ERC20BridgeFilterer_contract c)
      ''SubmitCreateBridgeToken'' raw"

text \<open>The event \<open>TeleporterAddressPaused\<close>.\<close>

record ERC20BridgeTeleporterAddressPaused =
  ERC20BridgeTeleporterAddressPaused_TeleporterAddress :: address
  ERC20BridgeTeleporterAddressPaused_Raw :: log

definition filled_ERC20BridgeTeleporterAddressPaused :: "go_value \<Rightarrow> log \<Rightarrow>
    ERC20BridgeTeleporterAddressPaused" where
  "filled_ERC20BridgeTeleporterAddressPaused v raw =
     \<lparr>ERC20BridgeTeleporterAddressPaused_TeleporterAddress = filled as_address TAddress v 0,
       ERC20BridgeTeleporterAddressPaused_Raw = raw\<rparr>"

definition unpack_ERC20BridgeTeleporterAddressPaused ::
  "('s, 'o, 'tx) bound_contract \<Rightarrow> string \<Rightarrow> log \<Rightarrow> go_error + ERC20BridgeTeleporterAddressPaused"
      where
  "unpack_ERC20BridgeTeleporterAddressPaused c event raw =
     bindE (bc_UnpackLog c (TStruct ''ERC20BridgeTeleporterAddressPaused'' [TAddress]) event raw)
         (\<lambda>v.
     Inr (filled_ERC20BridgeTeleporterAddressPaused v raw))"

definition ERC20BridgeTeleporterAddressPausedIterator_Next ::
  "('s, 'o, 'tx) bound_contract \<Rightarrow> bool \<Rightarrow> ERC20BridgeTeleporterAddressPaused iterator \<Rightarrow>
      ERC20BridgeTeleporterAddressPaused next_result" where
  "ERC20BridgeTeleporterAddressPausedIterator_Next c = iterator_Next
      (unpack_ERC20BridgeTeleporterAddressPaused c)"

definition ERC20BridgeTeleporterAddressPausedIterator_Error ::
  "ERC20BridgeTeleporterAddressPaused iterator \<Rightarrow> go_error option" where
  "ERC20BridgeTeleporterAddressPausedIterator_Error = iterator_Error"

definition ERC20BridgeTeleporterAddressPausedIterator_Close ::
  "ERC20BridgeTeleporterAddressPaused iterator \<Rightarrow> go_error option \<times>
      ERC20BridgeTeleporterAddressPaused iterator" where
  "ERC20BridgeTeleporterAddressPausedIterator_Close = iterator_Close"

definition ERC20BridgeFilterer_FilterTeleporterAddressPaused ::
  "('s, 'o, 'tx) ERC20BridgeFilterer \<Rightarrow> 'o \<Rightarrow> address list \<Rightarrow> 's
    \<Rightarrow> go_error + ERC20BridgeTeleporterAddressPaused iterator" where
  "ERC20BridgeFilterer_FilterTeleporterAddressPaused c opts teleporterAddress s =
     bindE (bc_FilterLogs (ERC20BridgeFilterer_contract c) opts ''TeleporterAddressPaused'' [map
         GAddress teleporterAddress] s) (\<lambda>stream.
     Inr (new_iterator ''TeleporterAddressPaused'' stream))"

definition ERC20BridgeFilterer_WatchTeleporterAddressPaused ::
  "('s, 'o, 'tx) ERC20BridgeFilterer \<Rightarrow> 'o \<Rightarrow> address list \<Rightarrow> 's
    \<Rightarrow> go_error + ERC20BridgeTeleporterAddressPaused watcher" where
  "ERC20BridgeFilterer_WatchTeleporterAddressPaused c opts teleporterAddress s =
     bindE (bc_WatchLogs (ERC20BridgeFilterer_contract c) opts ''TeleporterAddressPaused'' [map
         GAddress teleporterAddress] s) (\<lambda>stream.
     Inr (new_watcher (unpack_ERC20BridgeTeleporterAddressPaused (ERC20BridgeFilterer_contract c)
         ''TeleporterAddressPaused'') stream))"

definition ERC20BridgeFilterer_ParseTeleporterAddressPaused ::
  "('s, 'o, 'tx) ERC20BridgeFilterer \<Rightarrow> log \<Rightarrow> go_error + ERC20BridgeTeleporterAddressPaused" where
  "ERC20BridgeFilterer_ParseTeleporterAddressPaused c raw =
      unpack_ERC20BridgeTeleporterAddressPaused (ERC20BridgeFilterer_contract c)
      ''TeleporterAddressPaused'' raw"

text \<open>The event \<open>TeleporterAddressUnpaused\<close>.\<close>

record ERC20BridgeTeleporterAddressUnpaused =
  ERC20BridgeTeleporterAddressUnpaused_TeleporterAddress :: address
  ERC20BridgeTeleporterAddressUnpaused_Raw :: log

definition filled_ERC20BridgeTeleporterAddressUnpaused :: "go_value \<Rightarrow> log \<Rightarrow>
    ERC20BridgeTeleporterAddressUnpaused" where
  "filled_ERC20BridgeTeleporterAddressUnpaused v raw =
     \<lparr>ERC20BridgeTeleporterAddressUnpaused_TeleporterAddress = filled as_address TAddress v 0,
       ERC20BridgeTeleporterAddressUnpaused_Raw = raw\<rparr>"

definition unpack_ERC20BridgeTeleporterAddressUnpaused ::
  "('s, 'o, 'tx) bound_contract \<Rightarrow> string \<Rightarrow> log \<Rightarrow> go_error + ERC20BridgeTeleporterAddressUnpaused"
      where
  "unpack_ERC20BridgeTeleporterAddressUnpaused c event raw =
     bindE (bc_UnpackLog c (TStruct ''ERC20BridgeTeleporterAddressUnpaused'' [TAddress]) event
         raw) (\<lambda>v.
     Inr (filled_ERC20BridgeTeleporterAddressUnpaused v raw))"

definition ERC20BridgeTeleporterAddressUnpausedIterator_Next ::
  "('s, 'o, 'tx) bound_contract \<Rightarrow> bool \<Rightarrow> ERC20BridgeTeleporterAddressUnpaused iterator \<Rightarrow>
      ERC20BridgeTeleporterAddressUnpaused next_result" where
  "ERC20BridgeTeleporterAddressUnpausedIterator_Next c = iterator_Next
      (unpack_ERC20BridgeTeleporterAddressUnpaused c)"

definition ERC20BridgeTeleporterAddressUnpausedIterator_Error ::
  "ERC20BridgeTeleporterAddressUnpaused iterator \<Rightarrow> go_error option" where
  "ERC20BridgeTeleporterAddressUnpausedIterator_Error = iterator_Error"

definition ERC20BridgeTeleporterAddressUnpausedIterator_Close ::
  "ERC20BridgeTeleporterAddressUnpaused iterator \<Rightarrow> go_error option \<times>
      ERC20BridgeTeleporterAddressUnpaused iterator" where
  "ERC20BridgeTeleporterAddressUnpausedIterator_Close = iterator_Close"

definition ERC20BridgeFilterer_FilterTeleporterAddressUnpaused ::
  "('s, 'o, 'tx) ERC20BridgeFilterer \<Rightarrow> 'o \<Rightarrow> address list \<Rightarrow> 's
    \<Rightarrow> go_error + ERC20BridgeTeleporterAddressUnpaused iterator" where
  "ERC20BridgeFilterer_FilterTeleporterAddressUnpaused c opts teleporterAddress s =
     bindE (bc_FilterLogs (ERC20BridgeFilterer_contract c) opts ''TeleporterAddressUnpaused''
         [map GAddress teleporterAddress] s) (\<lambda>stream.
     Inr (new_iterator ''TeleporterAddressUnpaused'' stream))"

definition ERC20BridgeFilterer_WatchTeleporterAddressUnpaused ::
  "('s, 'o, 'tx) ERC20BridgeFilterer \<Rightarrow> 'o \<Rightarrow> address list \<Rightarrow> 's
    \<Rightarrow> go_error + ERC20BridgeTeleporterAddressUnpaused watcher" where
  "ERC20BridgeFilterer_WatchTeleporterAddressUnpaused c opts teleporterAddress s =
     bindE (bc_WatchLogs (ERC20BridgeFilterer_contract c) opts ''TeleporterAddressUnpaused'' [map
         GAddress teleporterAddress] s) (\<lambda>stream.
     Inr (new_watcher (unpack_ERC20BridgeTeleporterAddressUnpaused (ERC20BridgeFilterer_contract
         c) ''TeleporterAddressUnpaused'') stream))"

definition ERC20BridgeFilterer_ParseTeleporterAddressUnpaused ::
  "('s, 'o, 'tx) ERC20BridgeFilterer \<Rightarrow> log \<Rightarrow> go_error + ERC20BridgeTeleporterAddressUnpaused"
      where
  "ERC20BridgeFilterer_ParseTeleporterAddressUnpaused c raw =
      unpack_ERC20BridgeTeleporterAddressUnpaused (ERC20BridgeFilterer_contract c)
      ''TeleporterAddressUnpaused'' raw"

end
