(* ===== verification/Bind_BridgeToken.thy ===== *)
theory Bind_BridgeToken
  imports Go_Bind
begin

section \<open>The Go binding of BridgeToken\<close>

text \<open>
  One definition per type and function of
  \<open>abi-bindings/go/CrossChainApplications/ERC20Bridge/BridgeToken/BridgeToken.go\<close>,
  in the order of the file: structs, the ABI of the metadata, the facets of the bound contract, the
  read-only methods, the transactions, and for each event its struct, iterator, filter,
  subscription and parser. The option structs, the chain and the library are parameters.
\<close>

subsection \<open>The ABI\<close>

definition BridgeTokenMetaData :: abi_meta where
  "BridgeTokenMetaData =
     \<lparr>meta_name = ''BridgeToken'',
      meta_constructor = [TBytes32, TAddress, TAddress, TString, TString, TUint8],
      meta_methods = [
        (''allowance'', [TAddress, TAddress], [TBigInt]),
        (''approve'', [TAddress, TBigInt], [TBool]),
        (''balanceOf'', [TAddress], [TBigInt]),
        (''bridgeContract'', [], [TAddress]),
        (''burn'', [TBigInt], []),
        (''burnFrom'', [TAddress, TBigInt], []),
        (''decimals'', [], [TUint8]),
        (''decreaseAllowance'', [TAddress, TBigInt], [TBool]),
        (''increaseAllowance'', [TAddress, TBigInt], [TBool]),
        (''mint'', [TAddress, TBigInt], []),
        (''name'', [], [TString]),
        (''nativeAsset'', [], [TAddress]),
        (''nativeBlockchainID'', [], [TBytes32]),
        (''nativeBridge'', [], [TAddress]),
        (''symbol'', [], [TString]),
        (''totalSupply'', [], [TBigInt]),
        (''transfer'', [TAddress, TBigInt], [TBool]),
        (''transferFrom'', [TAddress, TAddress, TBigInt], [TBool])],
      meta_events = [
        (''Approval'', [(TAddress, True), (TAddress, True), (TBigInt, False)]),
        (''Transfer'', [(TAddress, True), (TAddress, True), (TBigInt, False)])]\<rparr>"

subsection \<open>The bound contract and its facets\<close>

record ('s, 'o, 'tx) BridgeTokenCaller =
  BridgeTokenCaller_contract :: "('s, 'o, 'tx) bound_contract"

record ('s, 'o, 'tx) BridgeTokenTransactor =
  BridgeTokenTransactor_contract :: "('s, 'o, 'tx) bound_contract"

record ('s, 'o, 'tx) BridgeTokenFilterer =
  BridgeTokenFilterer_contract :: "('s, 'o, 'tx) bound_contract"

record ('s, 'o, 'tx) BridgeToken =
  BridgeToken_Caller :: "('s, 'o, 'tx) BridgeTokenCaller"
  BridgeToken_Transactor :: "('s, 'o, 'tx) BridgeTokenTransactor"
  BridgeToken_Filterer :: "('s, 'o, 'tx) BridgeTokenFilterer"

record ('s, 'o, 'tx) BridgeTokenSession =
  BridgeTokenSession_Contract :: "('s, 'o, 'tx) BridgeToken"
  BridgeTokenSession_CallOpts :: 'o
  BridgeTokenSession_TransactOpts :: 'o

record ('s, 'o, 'tx) BridgeTokenCallerSession =
  BridgeTokenCallerSession_Contract :: "('s, 'o, 'tx) BridgeTokenCaller"
  BridgeTokenCallerSession_CallOpts :: 'o

record ('s, 'o, 'tx) BridgeTokenTransactorSession =
  BridgeTokenTransactorSession_Contract :: "('s, 'o, 'tx) BridgeTokenTransactor"
  BridgeTokenTransactorSession_TransactOpts :: 'o

record ('s, 'o, 'tx) BridgeTokenRaw =
  BridgeTokenRaw_Contract :: "('s, 'o, 'tx) BridgeToken"

record ('s, 'o, 'tx) BridgeTokenCallerRaw =
  BridgeTokenCallerRaw_Contract :: "('s, 'o, 'tx) BridgeTokenCaller"

record ('s, 'o, 'tx) BridgeTokenTransactorRaw =
  BridgeTokenTransactorRaw_Contract :: "('s, 'o, 'tx) BridgeTokenTransactor"

definition bindBridgeToken ::
  "('s, 'o, 'tx, 'abi, 'k) bind_lib \<Rightarrow> address \<Rightarrow> 'k option \<Rightarrow> 'k option \<Rightarrow> 'k option
    \<Rightarrow> go_error + ('s, 'o, 'tx) bound_contract" where
  "bindBridgeToken lib addr caller transactor filterer =
     bindE (lib_GetAbi lib BridgeTokenMetaData) (\<lambda>parsed.
     case parsed of
       None \<Rightarrow> Inl (GoPanic ''nil pointer dereference'')
     | Some abi \<Rightarrow> Inr (lib_NewBoundContract lib addr abi caller transactor filterer))"

definition DeployBridgeToken ::
  "('s, 'o, 'tx, 'abi, 'k) bind_lib \<Rightarrow> 'o \<Rightarrow> 'k \<Rightarrow> bytes32 \<Rightarrow> address \<Rightarrow> address \<Rightarrow> string \<Rightarrow> string \<Rightarrow>
      byte \<Rightarrow> 's
    \<Rightarrow> go_error + (address \<times> 'tx \<times> ('s, 'o, 'tx) BridgeToken \<times> 's)" where
  "DeployBridgeToken lib auth backend sourceBlockchainID sourceBridge sourceAsset tokenName
      tokenSymbol tokenDecimals s =
     bindE (lib_GetAbi lib BridgeTokenMetaData) (\<lambda>parsed.
     case parsed of
       None \<Rightarrow> Inl (GoError ''GetABI returned nil'')
     | Some abi \<Rightarrow>
         bindE (lib_DeployContract lib auth abi (meta_name BridgeTokenMetaData) backend [GBytes32
             sourceBlockchainID, GAddress sourceBridge, GAddress sourceAsset, GString tokenName,
             GString tokenSymbol, GUint8 tokenDecimals] s)
         (\<lambda>(addr, tx, c, s').
         Inr (addr, tx, \<lparr>BridgeToken_Caller = \<lparr>BridgeTokenCaller_contract = c\<rparr>,
         BridgeToken_Transactor = \<lparr>BridgeTokenTransactor_contract = c\<rparr>,
         BridgeToken_Filterer = \<lparr>BridgeTokenFilterer_contract = c\<rparr>\<rparr>, s')))"

definition NewBridgeToken ::
  "('s, 'o, 'tx, 'abi, 'k) bind_lib \<Rightarrow> address \<Rightarrow> 'k \<Rightarrow> go_error + ('s, 'o, 'tx) BridgeToken" where
  "NewBridgeToken lib addr backend =
     bindE (bindBridgeToken lib addr (Some backend) (Some backend) (Some backend)) (\<lambda>c.
     Inr \<lparr>BridgeToken_Caller = \<lparr>BridgeTokenCaller_contract = c\<rparr>,
         BridgeToken_Transactor = \<lparr>BridgeTokenTransactor_contract = c\<rparr>,
         BridgeToken_Filterer = \<lparr>BridgeTokenFilterer_contract = c\<rparr>\<rparr>)"

definition NewBridgeTokenCaller ::
  "('s, 'o, 'tx, 'abi, 'k) bind_lib \<Rightarrow> address \<Rightarrow> 'k \<Rightarrow> go_error + ('s, 'o, 'tx) BridgeTokenCaller"
      where
  "NewBridgeTokenCaller lib addr b =
     bindE (bindBridgeToken lib addr (Some b) None None) (\<lambda>c.
     Inr \<lparr>BridgeTokenCaller_contract = c\<rparr>)"

definition NewBridgeTokenTransactor ::
  "('s, 'o, 'tx, 'abi, 'k) bind_lib \<Rightarrow> address \<Rightarrow> 'k \<Rightarrow> go_error + ('s, 'o, 'tx)
      BridgeTokenTransactor" where
  "NewBridgeTokenTransactor lib addr b =
     bindE (bindBridgeToken lib addr None (Some b) None) (\<lambda>c.
     Inr \<lparr>BridgeTokenTransactor_contract = c\<rparr>)"

definition NewBridgeTokenFilterer ::
  "('s, 'o, 'tx, 'abi, 'k) bind_lib \<Rightarrow> address \<Rightarrow> 'k \<Rightarrow> go_error + ('s, 'o, 'tx)
      BridgeTokenFilterer" where
  "NewBridgeTokenFilterer lib addr b =
     bindE (bindBridgeToken lib addr None None (Some b)) (\<lambda>c.
     Inr \<lparr>BridgeTokenFilterer_contract = c\<rparr>)"

definition BridgeTokenRaw_Call ::
  "('s, 'o, 'tx) BridgeTokenRaw \<Rightarrow> 'o \<Rightarrow> string \<Rightarrow> go_value list \<Rightarrow> 's
    \<Rightarrow> go_error + go_value list" where
  "BridgeTokenRaw_Call r opts method params s =
     bc_Call (BridgeTokenCaller_contract (BridgeToken_Caller (BridgeTokenRaw_Contract r))) opts
         method params s"

definition BridgeTokenRaw_Transfer ::
  "('s, 'o, 'tx) BridgeTokenRaw \<Rightarrow> 'o \<Rightarrow> 's \<Rightarrow> go_error + ('tx \<times> 's)" where
  "BridgeTokenRaw_Transfer r opts s =
     bc_Transfer (BridgeTokenTransactor_contract (BridgeToken_Transactor (BridgeTokenRaw_Contract
         r))) opts s"

definition BridgeTokenRaw_Transact ::
  "('s, 'o, 'tx) BridgeTokenRaw \<Rightarrow> 'o \<Rightarrow> string \<Rightarrow> go_value list \<Rightarrow> 's
    \<Rightarrow> go_error + ('tx \<times> 's)" where
  "BridgeTokenRaw_Transact r opts method params s =
     bc_Transact (BridgeTokenTransactor_contract (BridgeToken_Transactor (BridgeTokenRaw_Contract
         r))) opts method params s"

definition BridgeTokenCallerRaw_Call ::
  "('s, 'o, 'tx) BridgeTokenCallerRaw \<Rightarrow> 'o \<Rightarrow> string \<Rightarrow> go_value list \<Rightarrow> 's
    \<Rightarrow> go_error + go_value list" where
  "BridgeTokenCallerRaw_Call r opts method params s =
     bc_Call (BridgeTokenCaller_contract (BridgeTokenCallerRaw_Contract r)) opts method params s"

definition BridgeTokenTransactorRaw_Transfer ::
  "('s, 'o, 'tx) BridgeTokenTransactorRaw \<Rightarrow> 'o \<Rightarrow> 's \<Rightarrow> go_error + ('tx \<times> 's)" where
  "BridgeTokenTransactorRaw_Transfer r opts s =
     bc_Transfer (BridgeTokenTransactor_contract (BridgeTokenTransactorRaw_Contract r)) opts s"

definition BridgeTokenTransactorRaw_Transact ::
  "('s, 'o, 'tx) BridgeTokenTransactorRaw \<Rightarrow> 'o \<Rightarrow> string \<Rightarrow> go_value list \<Rightarrow> 's
    \<Rightarrow> go_error + ('tx \<times> 's)" where
  "BridgeTokenTransactorRaw_Transact r opts method params s =
     bc_Transact (BridgeTokenTransactor_contract (BridgeTokenTransactorRaw_Contract r)) opts
         method params s"

subsection \<open>Read-only methods\<close>

definition BridgeTokenCaller_Allowance ::
  "('s, 'o, 'tx) BridgeTokenCaller \<Rightarrow> 'o \<Rightarrow> address \<Rightarrow> address \<Rightarrow> 's
    \<Rightarrow> go_error + int" where
  "BridgeTokenCaller_Allowance c opts owner spender s =
     bindE (bc_Call (BridgeTokenCaller_contract c) opts ''allowance'' [GAddress owner, GAddress
         spender] s) (\<lambda>out.
     bindE (go_out (BridgeTokenCaller_contract c) out 0 TBigInt as_bigint) (\<lambda>out0.
     Inr out0))"

definition BridgeTokenSession_Allowance ::
  "('s, 'o, 'tx) BridgeTokenSession \<Rightarrow> address \<Rightarrow> address \<Rightarrow> 's
    \<Rightarrow> go_error + int" where
  "BridgeTokenSession_Allowance ss owner spender s =
     BridgeTokenCaller_Allowance (BridgeToken_Caller (BridgeTokenSession_Contract ss))
       (BridgeTokenSession_CallOpts ss) owner spender s"

definition BridgeTokenCallerSession_Allowance ::
  "('s, 'o, 'tx) BridgeTokenCallerSession \<Rightarrow> address \<Rightarrow> address \<Rightarrow> 's
    \<Rightarrow> go_error + int" where
  "BridgeTokenCallerSession_Allowance ss owner spender s =
     BridgeTokenCaller_Allowance (BridgeTokenCallerSession_Contract ss)
       (BridgeTokenCallerSession_CallOpts ss) owner spender s"

definition BridgeTokenCaller_BalanceOf ::
  "('s, 'o, 'tx) BridgeTokenCaller \<Rightarrow> 'o \<Rightarrow> address \<Rightarrow> 's
    \<Rightarrow> go_error + int" where
  "BridgeTokenCaller_BalanceOf c opts account s =
     bindE (bc_Call (BridgeTokenCaller_contract c) opts ''balanceOf'' [GAddress account] s) (\<lambda>out.
     bindE (go_out (BridgeTokenCaller_contract c) out 0 TBigInt as_bigint) (\<lambda>out0.
     Inr out0))"

definition BridgeTokenSession_BalanceOf ::
  "('s, 'o, 'tx) BridgeTokenSession \<Rightarrow> address \<Rightarrow> 's
    \<Rightarrow> go_error + int" where
  "BridgeTokenSession_BalanceOf ss account s =
     BridgeTokenCaller_BalanceOf (BridgeToken_Caller (BridgeTokenSession_Contract ss))
       (BridgeTokenSession_CallOpts ss) account s"

definition BridgeTokenCallerSession_BalanceOf ::
  "('s, 'o, 'tx) BridgeTokenCallerSession \<Rightarrow> address \<Rightarrow> 's
    \<Rightarrow> go_error + int" where
  "BridgeTokenCallerSession_BalanceOf ss account s =
     BridgeTokenCaller_BalanceOf (BridgeTokenCallerSession_Contract ss)
       (BridgeTokenCallerSession_CallOpts ss) account s"

definition BridgeTokenCaller_BridgeContract ::
  "('s, 'o, 'tx) BridgeTokenCaller \<Rightarrow> 'o \<Rightarrow> 's
    \<Rightarrow> go_error + address" where
  "BridgeTokenCaller_BridgeContract c opts s =
     bindE (bc_Call (BridgeTokenCaller_contract c) opts ''bridgeContract'' [] s) (\<lambda>out.
     bindE (go_out (BridgeTokenCaller_contract c) out 0 TAddress as_address) (\<lambda>out0.
     Inr out0))"

definition BridgeTokenSession_BridgeContract ::
  "('s, 'o, 'tx) BridgeTokenSession \<Rightarrow> 's
    \<Rightarrow> go_error + address" where
  "BridgeTokenSession_BridgeContract ss s =
     BridgeTokenCaller_BridgeContract (BridgeToken_Caller (BridgeTokenSession_Contract ss))
       (BridgeTokenSession_CallOpts ss) s"

definition BridgeTokenCallerSession_BridgeContract ::
  "('s, 'o, 'tx) BridgeTokenCallerSession \<Rightarrow> 's
    \<Rightarrow> go_error + address" where
  "BridgeTokenCallerSession_BridgeContract ss s =
     BridgeTokenCaller_BridgeContract (BridgeTokenCallerSession_Contract ss)
       (BridgeTokenCallerSession_CallOpts ss) s"

definition BridgeTokenCaller_Decimals ::
  "('s, 'o, 'tx) BridgeTokenCaller \<Rightarrow> 'o \<Rightarrow> 's
    \<Rightarrow> go_error + byte" where
  "BridgeTokenCaller_Decimals c opts s =
     bindE (bc_Call (BridgeTokenCaller_contract c) opts ''decimals'' [] s) (\<lambda>out.
     bindE (go_out (BridgeTokenCaller_contract c) out 0 TUint8 as_uint8) (\<lambda>out0.
     Inr out0))"

definition BridgeTokenSession_Decimals ::
  "('s, 'o, 'tx) BridgeTokenSession \<Rightarrow> 's
    \<Rightarrow> go_error + byte" where
  "BridgeTokenSession_Decimals ss s =
     BridgeTokenCaller_Decimals (BridgeToken_Caller (BridgeTokenSession_Contract ss))
       (BridgeTokenSession_CallOpts ss) s"

definition BridgeTokenCallerSession_Decimals ::
  "('s, 'o, 'tx) BridgeTokenCallerSession \<Rightarrow> 's
    \<Rightarrow> go_error + byte" where
  "BridgeTokenCallerSession_Decimals ss s =
     BridgeTokenCaller_Decimals (BridgeTokenCallerSession_Contract ss)
       (BridgeTokenCallerSession_CallOpts ss) s"

definition BridgeTokenCaller_Name ::
  "('s, 'o, 'tx) BridgeTokenCaller \<Rightarrow> 'o \<Rightarrow> 's
    \<Rightarrow> go_error + string" where
  "BridgeTokenCaller_Name c opts s =
     bindE (bc_Call (BridgeTokenCaller_contract c) opts ''name'' [] s) (\<lambda>out.
     bindE (go_out (BridgeTokenCaller_contract c) out 0 TString as_string) (\<lambda>out0.
     Inr out0))"

definition BridgeTokenSession_Name ::
  "('s, 'o, 'tx) BridgeTokenSession \<Rightarrow> 's
    \<Rightarrow> go_error + string" where
  "BridgeTokenSession_Name ss s =
     BridgeTokenCaller_Name (BridgeToken_Caller (BridgeTokenSession_Contract ss))
       (BridgeTokenSession_CallOpts ss) s"

definition BridgeTokenCallerSession_Name ::
  "('s, 'o, 'tx) BridgeTokenCallerSession \<Rightarrow> 's
    \<Rightarrow> go_error + string" where
  "BridgeTokenCallerSession_Name ss s =
     BridgeTokenCaller_Name (BridgeTokenCallerSession_Contract ss)
       (BridgeTokenCallerSession_CallOpts ss) s"

definition BridgeTokenCaller_NativeAsset ::
  "('s, 'o, 'tx) BridgeTokenCaller \<Rightarrow> 'o \<Rightarrow> 's
    \<Rightarrow> go_error + address" where
  "BridgeTokenCaller_NativeAsset c opts s =
     bindE (bc_Call (BridgeTokenCaller_contract c) opts ''nativeAsset'' [] s) (\<lambda>out.
     bindE (go_out (BridgeTokenCaller_contract c) out 0 TAddress as_address) (\<lambda>out0.
     Inr out0))"

definition BridgeTokenSession_NativeAsset ::
  "('s, 'o, 'tx) BridgeTokenSession \<Rightarrow> 's
    \<Rightarrow> go_error + address" where
  "BridgeTokenSession_NativeAsset ss s =
     BridgeTokenCaller_NativeAsset (BridgeToken_Caller (BridgeTokenSession_Contract ss))
       (BridgeTokenSession_CallOpts ss) s"

definition BridgeTokenCallerSession_NativeAsset ::
  "('s, 'o, 'tx) BridgeTokenCallerSession \<Rightarrow> 's
    \<Rightarrow> go_error + address" where
  "BridgeTokenCallerSession_NativeAsset ss s =
     BridgeTokenCaller_NativeAsset (BridgeTokenCallerSession_Contract ss)
       (BridgeTokenCallerSession_CallOpts ss) s"

definition BridgeTokenCaller_NativeBlockchainID ::
  "('s, 'o, 'tx) BridgeTokenCaller \<Rightarrow> 'o \<Rightarrow> 's
    \<Rightarrow> go_error + bytes32" where
  "BridgeTokenCaller_NativeBlockchainID c opts s =
     bindE (bc_Call (BridgeTokenCaller_contract c) opts ''nativeBlockchainID'' [] s) (\<lambda>out.
     bindE (go_out (BridgeTokenCaller_contract c) out 0 TBytes32 as_bytes32) (\<lambda>out0.
     Inr out0))"

definition BridgeTokenSession_NativeBlockchainID ::
  "('s, 'o, 'tx) BridgeTokenSession \<Rightarrow> 's
    \<Rightarrow> go_error + bytes32" where
  "BridgeTokenSession_NativeBlockchainID ss s =
     BridgeTokenCaller_NativeBlockchainID (BridgeToken_Caller (BridgeTokenSession_Contract ss))
       (BridgeTokenSession_CallOpts ss) s"

definition BridgeTokenCallerSession_NativeBlockchainID ::
  "('s, 'o, 'tx) BridgeTokenCallerSession \<Rightarrow> 's
    \<Rightarrow> go_error + bytes32" where
  "BridgeTokenCallerSession_NativeBlockchainID ss s =
     BridgeTokenCaller_NativeBlockchainID (BridgeTokenCallerSession_Contract ss)
       (BridgeTokenCallerSession_CallOpts ss) s"

definition BridgeTokenCaller_NativeBridge ::
  "('s, 'o, 'tx) BridgeTokenCaller \<Rightarrow> 'o \<Rightarrow> 's
    \<Rightarrow> go_error + address" where
  "BridgeTokenCaller_NativeBridge c opts s =
     bindE (bc_Call (BridgeTokenCaller_contract c) opts ''nativeBridge'' [] s) (\<lambda>out.
     bindE (go_out (BridgeTokenCaller_contract c) out 0 TAddress as_address) (\<lambda>out0.
     Inr out0))"

definition BridgeTokenSession_NativeBridge ::
  "('s, 'o, 'tx) BridgeTokenSession \<Rightarrow> 's
    \<Rightarrow> go_error + address" where
  "BridgeTokenSession_NativeBridge ss s =
     BridgeTokenCaller_NativeBridge (BridgeToken_Caller (BridgeTokenSession_Contract ss))
       (BridgeTokenSession_CallOpts ss) s"

definition BridgeTokenCallerSession_NativeBridge ::
  "('s, 'o, 'tx) BridgeTokenCallerSession \<Rightarrow> 's
    \<Rightarrow> go_error + address" where
  "BridgeTokenCallerSession_NativeBridge ss s =
     BridgeTokenCaller_NativeBridge (BridgeTokenCallerSession_Contract ss)
       (BridgeTokenCallerSession_CallOpts ss) s"

definition BridgeTokenCaller_Symbol ::
  "('s, 'o, 'tx) BridgeTokenCaller \<Rightarrow> 'o \<Rightarrow> 's
    \<Rightarrow> go_error + string" where
  "BridgeTokenCaller_Symbol c opts s =
     bindE (bc_Call (BridgeTokenCaller_contract c) opts ''symbol'' [] s) (\<lambda>out.
     bindE (go_out (BridgeTokenCaller_contract c) out 0 TString as_string) (\<lambda>out0.
     Inr out0))"

definition BridgeTokenSession_Symbol ::
  "('s, 'o, 'tx) BridgeTokenSession \<Rightarrow> 's
    \<Rightarrow> go_error + string" where
  "BridgeTokenSession_Symbol ss s =
     BridgeTokenCaller_Symbol (BridgeToken_Caller (BridgeTokenSession_Contract ss))
       (BridgeTokenSession_CallOpts ss) s"

definition BridgeTokenCallerSession_Symbol ::
  "('s, 'o, 'tx) BridgeTokenCallerSession \<Rightarrow> 's
    \<Rightarrow> go_error + string" where
  "BridgeTokenCallerSession_Symbol ss s =
     BridgeTokenCaller_Symbol (BridgeTokenCallerSession_Contract ss)
       (BridgeTokenCallerSession_CallOpts ss) s"

definition BridgeTokenCaller_TotalSupply ::
  "('s, 'o, 'tx) BridgeTokenCaller \<Rightarrow> 'o \<Rightarrow> 's
    \<Rightarrow> go_error + int" where
  "BridgeTokenCaller_TotalSupply c opts s =
     bindE (bc_Call (BridgeTokenCaller_contract c) opts ''totalSupply'' [] s) (\<lambda>out.
     bindE (go_out (BridgeTokenCaller_contract c) out 0 TBigInt as_bigint) (\<lambda>out0.
     Inr out0))"

definition BridgeTokenSession_TotalSupply ::
  "('s, 'o, 'tx) BridgeTokenSession \<Rightarrow> 's
    \<Rightarrow> go_error + int" where
  "BridgeTokenSession_TotalSupply ss s =
     BridgeTokenCaller_TotalSupply (BridgeToken_Caller (BridgeTokenSession_Contract ss))
       (BridgeTokenSession_CallOpts ss) s"

definition BridgeTokenCallerSession_TotalSupply ::
  "('s, 'o, 'tx) BridgeTokenCallerSession \<Rightarrow> 's
    \<Rightarrow> go_error + int" where
  "BridgeTokenCallerSession_TotalSupply ss s =
     BridgeTokenCaller_TotalSupply (BridgeTokenCallerSession_Contract ss)
       (BridgeTokenCallerSession_CallOpts ss) s"

subsection \<open>Transactions\<close>

definition BridgeTokenTransactor_Approve ::
  "('s, 'o, 'tx) BridgeTokenTransactor \<Rightarrow> 'o \<Rightarrow> address \<Rightarrow> int \<Rightarrow> 's
    \<Rightarrow> go_error + ('tx \<times> 's)" where
  "BridgeTokenTransactor_Approve c opts spender amount s =
     bc_Transact (BridgeTokenTransactor_contract c) opts ''approve''
       [GAddress spender, GBigInt amount] s"

definition BridgeTokenSession_Approve ::
  "('s, 'o, 'tx) BridgeTokenSession \<Rightarrow> address \<Rightarrow> int \<Rightarrow> 's
    \<Rightarrow> go_error + ('tx \<times> 's)" where
  "BridgeTokenSession_Approve ss spender amount s =
     BridgeTokenTransactor_Approve (BridgeToken_Transactor (BridgeTokenSession_Contract ss))
       (BridgeTokenSession_TransactOpts ss) spender amount s"

definition BridgeTokenTransactorSession_Approve ::
  "('s, 'o, 'tx) BridgeTokenTransactorSession \<Rightarrow> address \<Rightarrow> int \<Rightarrow> 's
    \<Rightarrow> go_error + ('tx \<times> 's)" where
  "BridgeTokenTransactorSession_Approve ss spender amount s =
     BridgeTokenTransactor_Approve (BridgeTokenTransactorSession_Contract ss)
       (BridgeTokenTransactorSession_TransactOpts ss) spender amount s"

definition BridgeTokenTransactor_Burn ::
  "('s, 'o, 'tx) BridgeTokenTransactor \<Rightarrow> 'o \<Rightarrow> int \<Rightarrow> 's
    \<Rightarrow> go_error + ('tx \<times> 's)" where
  "BridgeTokenTransactor_Burn c opts amount s =
     bc_Transact (BridgeTokenTransactor_contract c) opts ''burn''
       [GBigInt amount] s"

definition BridgeTokenSession_Burn ::
  "('s, 'o, 'tx) BridgeTokenSession \<Rightarrow> int \<Rightarrow> 's
    \<Rightarrow> go_error + ('tx \<times> 's)" where
  "BridgeTokenSession_Burn ss amount s =
     BridgeTokenTransactor_Burn (BridgeToken_Transactor (BridgeTokenSession_Contract ss))
       (BridgeTokenSession_TransactOpts ss) amount s"

definition BridgeTokenTransactorSession_Burn ::
  "('s, 'o, 'tx) BridgeTokenTransactorSession \<Rightarrow> int \<Rightarrow> 's
    \<Rightarrow> go_error + ('tx \<times> 's)" where
  "BridgeTokenTransactorSession_Burn ss amount s =
     BridgeTokenTransactor_Burn (BridgeTokenTransactorSession_Contract ss)
       (BridgeTokenTransactorSession_TransactOpts ss) amount s"

definition BridgeTokenTransactor_BurnFrom ::
  "('s, 'o, 'tx) BridgeTokenTransactor \<Rightarrow> 'o \<Rightarrow> address \<Rightarrow> int \<Rightarrow> 's
    \<Rightarrow> go_error + ('tx \<times> 's)" where
  "BridgeTokenTransactor_BurnFrom c opts account amount s =
     bc_Transact (BridgeTokenTransactor_contract c) opts ''burnFrom''
       [GAddress account, GBigInt amount] s"

definition BridgeTokenSession_BurnFrom ::
  "('s, 'o, 'tx) BridgeTokenSession \<Rightarrow> address \<Rightarrow> int \<Rightarrow> 's
    \<Rightarrow> go_error + ('tx \<times> 's)" where
  "BridgeTokenSession_BurnFrom ss account amount s =
     BridgeTokenTransactor_BurnFrom (BridgeToken_Transactor (BridgeTokenSession_Contract ss))
       (BridgeTokenSession_TransactOpts ss) account amount s"

definition BridgeTokenTransactorSession_BurnFrom ::
  "('s, 'o, 'tx) BridgeTokenTransactorSession \<Rightarrow> address \<Rightarrow> int \<Rightarrow> 's
    \<Rightarrow> go_error + ('tx \<times> 's)" where
  "BridgeTokenTransactorSession_BurnFrom ss account amount s =
     BridgeTokenTransactor_BurnFrom (BridgeTokenTransactorSession_Contract ss)
       (BridgeTokenTransactorSession_TransactOpts ss) account amount s"

definition BridgeTokenTransactor_DecreaseAllowance ::
  "('s, 'o, 'tx) BridgeTokenTransactor \<Rightarrow> 'o \<Rightarrow> address \<Rightarrow> int \<Rightarrow> 's
    \<Rightarrow> go_error + ('tx \<times> 's)" where
  "BridgeTokenTransactor_DecreaseAllowance c opts spender subtractedValue s =
     bc_Transact (BridgeTokenTransactor_contract c) opts ''decreaseAllowance''
       [GAddress spender, GBigInt subtractedValue] s"

definition BridgeTokenSession_DecreaseAllowance ::
  "('s, 'o, 'tx) BridgeTokenSession \<Rightarrow> address \<Rightarrow> int \<Rightarrow> 's
    \<Rightarrow> go_error + ('tx \<times> 's)" where
  "BridgeTokenSession_DecreaseAllowance ss spender subtractedValue s =
     BridgeTokenTransactor_DecreaseAllowance (BridgeToken_Transactor (BridgeTokenSession_Contract
         ss))
       (BridgeTokenSession_TransactOpts ss) spender subtractedValue s"

definition BridgeTokenTransactorSession_DecreaseAllowance ::
  "('s, 'o, 'tx) BridgeTokenTransactorSession \<Rightarrow> address \<Rightarrow> int \<Rightarrow> 's
    \<Rightarrow> go_error + ('tx \<times> 's)" where
  "BridgeTokenTransactorSession_DecreaseAllowance ss spender subtractedValue s =
     BridgeTokenTransactor_DecreaseAllowance (BridgeTokenTransactorSession_Contract ss)
       (BridgeTokenTransactorSession_TransactOpts ss) spender subtractedValue s"

definition BridgeTokenTransactor_IncreaseAllowance ::
  "('s, 'o, 'tx) BridgeTokenTransactor \<Rightarrow> 'o \<Rightarrow> address \<Rightarrow> int \<Rightarrow> 's
    \<Rightarrow> go_error + ('tx \<times> 's)" where
  "BridgeTokenTransactor_IncreaseAllowance c opts spender addedValue s =
     bc_Transact (BridgeTokenTransactor_contract c) opts ''increaseAllowance''
       [GAddress spender, GBigInt addedValue] s"

definition BridgeTokenSession_IncreaseAllowance ::
  "('s, 'o, 'tx) BridgeTokenSession \<Rightarrow> address \<Rightarrow> int \<Rightarrow> 's
    \<Rightarrow> go_error + ('tx \<times> 's)" where
  "BridgeTokenSession_IncreaseAllowance ss spender addedValue s =
     BridgeTokenTransactor_IncreaseAllowance (BridgeToken_Transactor (BridgeTokenSession_Contract
         ss))
       (BridgeTokenSession_TransactOpts ss) spender addedValue s"

definition BridgeTokenTransactorSession_IncreaseAllowance ::
  "('s, 'o, 'tx) BridgeTokenTransactorSession \<Rightarrow> address \<Rightarrow> int \<Rightarrow> 's
    \<Rightarrow> go_error + ('tx \<times> 's)" where
  "BridgeTokenTransactorSession_IncreaseAllowance ss spender addedValue s =
     BridgeTokenTransactor_IncreaseAllowance (BridgeTokenTransactorSession_Contract ss)
       (BridgeTokenTransactorSession_TransactOpts ss) spender addedValue s"

definition BridgeTokenTransactor_Mint ::
  "('s, 'o, 'tx) BridgeTokenTransactor \<Rightarrow> 'o \<Rightarrow> address \<Rightarrow> int \<Rightarrow> 's
    \<Rightarrow> go_error + ('tx \<times> 's)" where
  "BridgeTokenTransactor_Mint c opts account amount s =
     bc_Transact (BridgeTokenTransactor_contract c) opts ''mint''
       [GAddress account, GBigInt amount] s"

definition BridgeTokenSession_Mint ::
  "('s, 'o, 'tx) BridgeTokenSession \<Rightarrow> address \<Rightarrow> int \<Rightarrow> 's
    \<Rightarrow> go_error + ('tx \<times> 's)" where
  "BridgeTokenSession_Mint ss account amount s =
     BridgeTokenTransactor_Mint (BridgeToken_Transactor (BridgeTokenSession_Contract ss))
       (BridgeTokenSession_TransactOpts ss) account amount s"

definition BridgeTokenTransactorSession_Mint ::
  "('s, 'o, 'tx) BridgeTokenTransactorSession \<Rightarrow> address \<Rightarrow> int \<Rightarrow> 's
    \<Rightarrow> go_error + ('tx \<times> 's)" where
  "BridgeTokenTransactorSession_Mint ss account amount s =
     BridgeTokenTransactor_Mint (BridgeTokenTransactorSession_Contract ss)
       (BridgeTokenTransactorSession_TransactOpts ss) account amount s"

definition BridgeTokenTransactor_Transfer ::
  "('s, 'o, 'tx) BridgeTokenTransactor \<Rightarrow> 'o \<Rightarrow> address \<Rightarrow> int \<Rightarrow> 's
    \<Rightarrow> go_error + ('tx \<times> 's)" where
  "BridgeTokenTransactor_Transfer c opts to' amount s =
     bc_Transact (BridgeTokenTransactor_contract c) opts ''transfer''
       [GAddress to', GBigInt amount] s"

definition BridgeTokenSession_Transfer ::
  "('s, 'o, 'tx) BridgeTokenSession \<Rightarrow> address \<Rightarrow> int \<Rightarrow> 's
    \<Rightarrow> go_error + ('tx \<times> 's)" where
  "BridgeTokenSession_Transfer ss to' amount s =
     BridgeTokenTransactor_Transfer (BridgeToken_Transactor (BridgeTokenSession_Contract ss))
       (BridgeTokenSession_TransactOpts ss) to' amount s"

definition BridgeTokenTransactorSession_Transfer ::
  "('s, 'o, 'tx) BridgeTokenTransactorSession \<Rightarrow> address \<Rightarrow> int \<Rightarrow> 's
    \<Rightarrow> go_error + ('tx \<times> 's)" where
  "BridgeTokenTransactorSession_Transfer ss to' amount s =
     BridgeTokenTransactor_Transfer (BridgeTokenTransactorSession_Contract ss)
       (BridgeTokenTransactorSession_TransactOpts ss) to' amount s"

definition BridgeTokenTransactor_TransferFrom ::
  "('s, 'o, 'tx) BridgeTokenTransactor \<Rightarrow> 'o \<Rightarrow> address \<Rightarrow> address \<Rightarrow> int \<Rightarrow> 's
    \<Rightarrow> go_error + ('tx \<times> 's)" where
  "BridgeTokenTransactor_TransferFrom c opts from' to' amount s =
     bc_Transact (BridgeTokenTransactor_contract c) opts ''transferFrom''
       [GAddress from', GAddress to', GBigInt amount] s"

definition BridgeTokenSession_TransferFrom ::
  "('s, 'o, 'tx) BridgeTokenSession \<Rightarrow> address \<Rightarrow> address \<Rightarrow> int \<Rightarrow> 's
    \<Rightarrow> go_error + ('tx \<times> 's)" where
  "BridgeTokenSession_TransferFrom ss from' to' amount s =
     BridgeTokenTransactor_TransferFrom (BridgeToken_Transactor (BridgeTokenSession_Contract ss))
       (BridgeTokenSession_TransactOpts ss) from' to' amount s"

definition BridgeTokenTransactorSession_TransferFrom ::
  "('s, 'o, 'tx) BridgeTokenTransactorSession \<Rightarrow> address \<Rightarrow> address \<Rightarrow> int \<Rightarrow> 's
    \<Rightarrow> go_error + ('tx \<times> 's)" where
  "BridgeTokenTransactorSession_TransferFrom ss from' to' amount s =
     BridgeTokenTransactor_TransferFrom (BridgeTokenTransactorSession_Contract ss)
       (BridgeTokenTransactorSession_TransactOpts ss) from' to' amount s"

subsection \<open>Events\<close>

text \<open>The event \<open>Approval\<close>.\<close>

record BridgeTokenApproval =
  BridgeTokenApproval_Owner :: address
  BridgeTokenApproval_Spender :: address
  BridgeTokenApproval_Value :: int
  BridgeTokenApproval_Raw :: log

definition filled_BridgeTokenApproval :: "go_value \<Rightarrow> log \<Rightarrow> BridgeTokenApproval" where
  "filled_BridgeTokenApproval v raw =
     \<lparr>BridgeTokenApproval_Owner = filled as_address TAddress v 0,
       BridgeTokenApproval_Spender = filled as_address TAddress v 1,
       BridgeTokenApproval_Value = filled as_bigint TBigInt v 2,
       BridgeTokenApproval_Raw = raw\<rparr>"

definition unpack_BridgeTokenApproval ::
  "('s, 'o, 'tx) bound_contract \<Rightarrow> string \<Rightarrow> log \<Rightarrow> go_error + BridgeTokenApproval" where
  "unpack_BridgeTokenApproval c event raw =
     bindE (bc_UnpackLog c (TStruct ''BridgeTokenApproval'' [TAddress, TAddress, TBigInt]) event
         raw) (\<lambda>v.
     Inr (filled_BridgeTokenApproval v raw))"

definition BridgeTokenApprovalIterator_Next ::
  "('s, 'o, 'tx) bound_contract \<Rightarrow> bool \<Rightarrow> BridgeTokenApproval iterator \<Rightarrow> BridgeTokenApproval
      next_result" where
  "BridgeTokenApprovalIterator_Next c = iterator_Next (unpack_BridgeTokenApproval c)"

definition BridgeTokenApprovalIterator_Error ::
  "BridgeTokenApproval iterator \<Rightarrow> go_error option" where
  "BridgeTokenApprovalIterator_Error = iterator_Error"

definition BridgeTokenApprovalIterator_Close ::
  "BridgeTokenApproval iterator \<Rightarrow> go_error option \<times> BridgeTokenApproval iterator" where
  "BridgeTokenApprovalIterator_Close = iterator_Close"

definition BridgeTokenFilterer_FilterApproval ::
  "('s, 'o, 'tx) BridgeTokenFilterer \<Rightarrow> 'o \<Rightarrow> address list \<Rightarrow> address list \<Rightarrow> 's
    \<Rightarrow> go_error + BridgeTokenApproval iterator" where
  "BridgeTokenFilterer_FilterApproval c opts owner spender s =
     bindE (bc_FilterLogs (BridgeTokenFilterer_contract c) opts ''Approval'' [map GAddress owner,
         map GAddress spender] s) (\<lambda>stream.
     Inr (new_iterator ''Approval'' stream))"

definition BridgeTokenFilterer_WatchApproval ::
  "('s, 'o, 'tx) BridgeTokenFilterer \<Rightarrow> 'o \<Rightarrow> address list \<Rightarrow> address list \<Rightarrow> 's
    \<Rightarrow> go_error + BridgeTokenApproval watcher" where
  "BridgeTokenFilterer_WatchApproval c opts owner spender s =
     bindE (bc_WatchLogs (BridgeTokenFilterer_contract c) opts ''Approval'' [map GAddress owner,
         map GAddress spender] s) (\<lambda>stream.
     Inr (new_watcher (unpack_BridgeTokenApproval (BridgeTokenFilterer_contract c) ''Approval'')
         stream))"

definition BridgeTokenFilterer_ParseApproval ::
  "('s, 'o, 'tx) BridgeTokenFilterer \<Rightarrow> log \<Rightarrow> go_error + BridgeTokenApproval" where
  "BridgeTokenFilterer_ParseApproval c raw = unpack_BridgeTokenApproval
      (BridgeTokenFilterer_contract c) ''Approval'' raw"

text \<open>The event \<open>Transfer\<close>.\<close>

record BridgeTokenTransfer =
  BridgeTokenTransfer_From :: address
  BridgeTokenTransfer_To :: address
  BridgeTokenTransfer_Value :: int
  BridgeTokenTransfer_Raw :: log

definition filled_BridgeTokenTransfer :: "go_value \<Rightarrow> log \<Rightarrow> BridgeTokenTransfer" where
  "filled_BridgeTokenTransfer v raw =
     \<lparr>BridgeTokenTransfer_From = filled as_address TAddress v 0,
       BridgeTokenTransfer_To = filled as_address TAddress v 1,
       BridgeTokenTransfer_Value = filled as_bigint TBigInt v 2,
       BridgeTokenTransfer_Raw = raw\<rparr>"

definition unpack_BridgeTokenTransfer ::
  "('s, 'o, 'tx) bound_contract \<Rightarrow> string \<Rightarrow> log \<Rightarrow> go_error + BridgeTokenTransfer" where
  "unpack_BridgeTokenTransfer c event raw =
     bindE (bc_UnpackLog c (TStruct ''BridgeTokenTransfer'' [TAddress, TAddress, TBigInt]) event
         raw) (\<lambda>v.
     Inr (filled_BridgeTokenTransfer v raw))"

definition BridgeTokenTransferIterator_Next ::
  "('s, 'o, 'tx) bound_contract \<Rightarrow> bool \<Rightarrow> BridgeTokenTransfer iterator \<Rightarrow> BridgeTokenTransfer
      next_result" where
  "BridgeTokenTransferIterator_Next c = iterator_Next (unpack_BridgeTokenTransfer c)"

definition BridgeTokenTransferIterator_Error ::
  "BridgeTokenTransfer iterator \<Rightarrow> go_error option" where
  "BridgeTokenTransferIterator_Error = iterator_Error"

definition BridgeTokenTransferIterator_Close ::
  "BridgeTokenTransfer iterator \<Rightarrow> go_error option \<times> BridgeTokenTransfer iterator" where
  "BridgeTokenTransferIterator_Close = iterator_Close"

definition BridgeTokenFilterer_FilterTransfer ::
  "('s, 'o, 'tx) BridgeTokenFilterer \<Rightarrow> 'o \<Rightarrow> address list \<Rightarrow> address list \<Rightarrow> 's
    \<Rightarrow> go_error + BridgeTokenTransfer iterator" where
  "BridgeTokenFilterer_FilterTransfer c opts from' to' s =
     bindE (bc_FilterLogs (BridgeTokenFilterer_contract c) opts ''Transfer'' [map GAddress from',
         map GAddress to'] s) (\<lambda>stream.
     Inr (new_iterator ''Transfer'' stream))"

definition BridgeTokenFilterer_WatchTransfer ::
  "('s, 'o, 'tx) BridgeTokenFilterer \<Rightarrow> 'o \<Rightarrow> address list \<Rightarrow> address list \<Rightarrow> 's
    \<Rightarrow> go_error + BridgeTokenTransfer watcher" where
  "BridgeTokenFilterer_WatchTransfer c opts from' to' s =
     bindE (bc_WatchLogs (BridgeTokenFilterer_contract c) opts ''Transfer'' [map GAddress from',
         map GAddress to'] s) (\<lambda>stream.
     Inr (new_watcher (unpack_BridgeTokenTransfer (BridgeTokenFilterer_contract c) ''Transfer'')
         stream))"

definition BridgeTokenFilterer_ParseTransfer ::
  "('s, 'o, 'tx) BridgeTokenFilterer \<Rightarrow> log \<Rightarrow> go_error + BridgeTokenTransfer" where
  "BridgeTokenFilterer_ParseTransfer c raw = unpack_BridgeTokenTransfer
      (BridgeTokenFilterer_contract c) ''Transfer'' raw"

end
