(* ===== verification/Bind_ERC20TokenSource.thy ===== *)
theory Bind_ERC20TokenSource
  imports Go_Bind
begin

section \<open>The Go binding of ERC20TokenSource\<close>

text \<open>
  One definition per type and function of
  \<open>abi-bindings/go/CrossChainApplications/NativeTokenBridge/ERC20TokenSource/ERC20TokenSource.go\<close>,
  in the order of the file: structs, the ABI of the metadata, the facets of the bound contract, the
  read-only methods, the transactions, and for each event its struct, iterator, filter,
  subscription and parser. The option structs, the chain and the library are parameters.
\<close>

subsection \<open>The ABI\<close>

definition ERC20TokenSourceMetaData :: abi_meta where
  "ERC20TokenSourceMetaData =
     \<lparr>meta_name = ''ERC20TokenSource'',
      meta_constructor = [TAddress, TBytes32, TAddress, TAddress],
      meta_methods = [
        (''BURNED_TX_FEES_ADDRESS'', [], [TAddress]),
        (''MINT_NATIVE_TOKENS_REQUIRED_GAS'', [], [TBigInt]),
        (''destinationBlockchainID'', [], [TBytes32]),
        (''destinationBurnedTotal'', [], [TBigInt]),
        (''erc20ContractAddress'', [], [TAddress]),
        (''nativeTokenDestinationAddress'', [], [TAddress]),
        (''receiveTeleporterMessage'', [TBytes32, TAddress, TBytes], []),
        (''teleporterMessenger'', [], [TAddress]),
        (''transferToDestination'', [TAddress, TBigInt, TBigInt, TSlice TAddress], [])],
      meta_events = [
        (''BurnTokens'', [(TBigInt, False)]),
        (''TransferToDestination'', [(TAddress, True), (TAddress, True), (TBigInt, True),
            (TBigInt, False)]),
        (''UnlockTokens'', [(TAddress, False), (TBigInt, False)])]\<rparr>"

subsection \<open>The bound contract and its facets\<close>

record ('s, 'o, 'tx) ERC20TokenSourceCaller =
  ERC20TokenSourceCaller_contract :: "('s, 'o, 'tx) bound_contract"

record ('s, 'o, 'tx) ERC20TokenSourceTransactor =
  ERC20TokenSourceTransactor_contract :: "('s, 'o, 'tx) bound_contract"

record ('s, 'o, 'tx) ERC20TokenSourceFilterer =
  ERC20TokenSourceFilterer_contract :: "('s, 'o, 'tx) bound_contract"

record ('s, 'o, 'tx) ERC20TokenSource =
  ERC20TokenSource_Caller :: "('s, 'o, 'tx) ERC20TokenSourceCaller"
  ERC20TokenSource_Transactor :: "('s, 'o, 'tx) ERC20TokenSourceTransactor"
  ERC20TokenSource_Filterer :: "('s, 'o, 'tx) ERC20TokenSourceFilterer"

record ('s, 'o, 'tx) ERC20TokenSourceSession =
  ERC20TokenSourceSession_Contract :: "('s, 'o, 'tx) ERC20TokenSource"
  ERC20TokenSourceSession_CallOpts :: 'o
  ERC20TokenSourceSession_TransactOpts :: 'o

record ('s, 'o, 'tx) ERC20TokenSourceCallerSession =
  ERC20TokenSourceCallerSession_Contract :: "('s, 'o, 'tx) ERC20TokenSourceCaller"
  ERC20TokenSourceCallerSession_CallOpts :: 'o

record ('s, 'o, 'tx) ERC20TokenSourceTransactorSession =
  ERC20TokenSourceTransactorSession_Contract :: "('s, 'o, 'tx) ERC20TokenSourceTransactor"
  ERC20TokenSourceTransactorSession_TransactOpts :: 'o

record ('s, 'o, 'tx) ERC20TokenSourceRaw =
  ERC20TokenSourceRaw_Contract :: "('s, 'o, 'tx) ERC20TokenSource"

record ('s, 'o, 'tx) ERC20TokenSourceCallerRaw =
  ERC20TokenSourceCallerRaw_Contract :: "('s, 'o, 'tx) ERC20TokenSourceCaller"

record ('s, 'o, 'tx) ERC20TokenSourceTransactorRaw =
  ERC20TokenSourceTransactorRaw_Contract :: "('s, 'o, 'tx) ERC20TokenSourceTransactor"

definition bindERC20TokenSource ::
  "('s, 'o, 'tx, 'abi, 'k) bind_lib \<Rightarrow> address \<Rightarrow> 'k option \<Rightarrow> 'k option \<Rightarrow> 'k option
    \<Rightarrow> go_error + ('s, 'o, 'tx) bound_contract" where
  "bindERC20TokenSource lib addr caller transactor filterer =
     bindE (lib_GetAbi lib ERC20TokenSourceMetaData) (\<lambda>parsed.
     case parsed of
       None \<Rightarrow> Inl (GoPanic ''nil pointer dereference'')
     | Some abi \<Rightarrow> Inr (lib_NewBoundContract lib addr abi caller transactor filterer))"

definition DeployERC20TokenSource ::
  "('s, 'o, 'tx, 'abi, 'k) bind_lib \<Rightarrow> 'o \<Rightarrow> 'k \<Rightarrow> address \<Rightarrow> bytes32 \<Rightarrow> address \<Rightarrow> address \<Rightarrow> 's
    \<Rightarrow> go_error + (address \<times> 'tx \<times> ('s, 'o, 'tx) ERC20TokenSource \<times> 's)" where
  "DeployERC20TokenSource lib auth backend teleporterMessengerAddress destinationBlockchainID'
      nativeTokenDestinationAddress' erc20ContractAddress' s =
     bindE (lib_GetAbi lib ERC20TokenSourceMetaData) (\<lambda>parsed.
     case parsed of
       None \<Rightarrow> Inl (GoError ''GetABI returned nil'')
     | Some abi \<Rightarrow>
         bindE (lib_DeployContract lib auth abi (meta_name ERC20TokenSourceMetaData) backend
             [GAddress teleporterMessengerAddress, GBytes32 destinationBlockchainID', GAddress
             nativeTokenDestinationAddress', GAddress erc20ContractAddress'] s)
         (\<lambda>(addr, tx, c, s').
         Inr (addr, tx, \<lparr>ERC20TokenSource_Caller = \<lparr>ERC20TokenSourceCaller_contract = c\<rparr>,
         ERC20TokenSource_Transactor = \<lparr>ERC20TokenSourceTransactor_contract = c\<rparr>,
         ERC20TokenSource_Filterer = \<lparr>ERC20TokenSourceFilterer_contract = c\<rparr>\<rparr>, s')))"

definition NewERC20TokenSource ::
  "('s, 'o, 'tx, 'abi, 'k) bind_lib \<Rightarrow> address \<Rightarrow> 'k \<Rightarrow> go_error + ('s, 'o, 'tx) ERC20TokenSource"
      where
  "NewERC20TokenSource lib addr backend =
     bindE (bindERC20TokenSource lib addr (Some backend) (Some backend) (Some backend)) (\<lambda>c.
     Inr \<lparr>ERC20TokenSource_Caller = \<lparr>ERC20TokenSourceCaller_contract = c\<rparr>,
         ERC20TokenSource_Transactor = \<lparr>ERC20TokenSourceTransactor_contract = c\<rparr>,
         ERC20TokenSource_Filterer = \<lparr>ERC20TokenSourceFilterer_contract = c\<rparr>\<rparr>)"

definition NewERC20TokenSourceCaller ::
  "('s, 'o, 'tx, 'abi, 'k) bind_lib \<Rightarrow> address \<Rightarrow> 'k \<Rightarrow> go_error + ('s, 'o, 'tx)
      ERC20TokenSourceCaller" where
  "NewERC20TokenSourceCaller lib addr b =
     bindE (bindERC20TokenSource lib addr (Some b) None None) (\<lambda>c.
     Inr \<lparr>ERC20TokenSourceCaller_contract = c\<rparr>)"

definition NewERC20TokenSourceTransactor ::
  "('s, 'o, 'tx, 'abi, 'k) bind_lib \<Rightarrow> address \<Rightarrow> 'k \<Rightarrow> go_error + ('s, 'o, 'tx)
      ERC20TokenSourceTransactor" where
  "NewERC20TokenSourceTransactor lib addr b =
     bindE (bindERC20TokenSource lib addr None (Some b) None) (\<lambda>c.
     Inr \<lparr>ERC20TokenSourceTransactor_contract = c\<rparr>)"

definition NewERC20TokenSourceFilterer ::
  "('s, 'o, 'tx, 'abi, 'k) bind_lib \<Rightarrow> address \<Rightarrow> 'k \<Rightarrow> go_error + ('s, 'o, 'tx)
      ERC20TokenSourceFilterer" where
  "NewERC20TokenSourceFilterer lib addr b =
     bindE (bindERC20TokenSource lib addr None None (Some b)) (\<lambda>c.
     Inr \<lparr>ERC20TokenSourceFilterer_contract = c\<rparr>)"

definition ERC20TokenSourceRaw_Call ::
  "('s, 'o, 'tx) ERC20TokenSourceRaw \<Rightarrow> 'o \<Rightarrow> string \<Rightarrow> go_value list \<Rightarrow> 's
    \<Rightarrow> go_error + go_value list" where
  "ERC20TokenSourceRaw_Call r opts method params s =
     bc_Call (ERC20TokenSourceCaller_contract (ERC20TokenSource_Caller
         (ERC20TokenSourceRaw_Contract r))) opts method params s"

definition ERC20TokenSourceRaw_Transfer ::
  "('s, 'o, 'tx) ERC20TokenSourceRaw \<Rightarrow> 'o \<Rightarrow> 's \<Rightarrow> go_error + ('tx \<times> 's)" where
  "ERC20TokenSourceRaw_Transfer r opts s =
     bc_Transfer (ERC20TokenSourceTransactor_contract (ERC20TokenSource_Transactor
         (ERC20TokenSourceRaw_Contract r))) opts s"

definition ERC20TokenSourceRaw_Transact ::
  "('s, 'o, 'tx) ERC20TokenSourceRaw \<Rightarrow> 'o \<Rightarrow> string \<Rightarrow> go_value list \<Rightarrow> 's
    \<Rightarrow> go_error + ('tx \<times> 's)" where
  "ERC20TokenSourceRaw_Transact r opts method params s =
     bc_Transact (ERC20TokenSourceTransactor_contract (ERC20TokenSource_Transactor
         (ERC20TokenSourceRaw_Contract r))) opts method params s"

definition ERC20TokenSourceCallerRaw_Call ::
  "('s, 'o, 'tx) ERC20TokenSourceCallerRaw \<Rightarrow> 'o \<Rightarrow> string \<Rightarrow> go_value list \<Rightarrow> 's
    \<Rightarrow> go_error + go_value list" where
  "ERC20TokenSourceCallerRaw_Call r opts method params s =
     bc_Call (ERC20TokenSourceCaller_contract (ERC20TokenSourceCallerRaw_Contract r)) opts method
         params s"

definition ERC20TokenSourceTransactorRaw_Transfer ::
  "('s, 'o, 'tx) ERC20TokenSourceTransactorRaw \<Rightarrow> 'o \<Rightarrow> 's \<Rightarrow> go_error + ('tx \<times> 's)" where
  "ERC20TokenSourceTransactorRaw_Transfer r opts s =
     bc_Transfer (ERC20TokenSourceTransactor_contract (ERC20TokenSourceTransactorRaw_Contract r))
         opts s"

definition ERC20TokenSourceTransactorRaw_Transact ::
  "('s, 'o, 'tx) ERC20TokenSourceTransactorRaw \<Rightarrow> 'o \<Rightarrow> string \<Rightarrow> go_value list \<Rightarrow> 's
    \<Rightarrow> go_error + ('tx \<times> 's)" where
  "ERC20TokenSourceTransactorRaw_Transact r opts method params s =
     bc_Transact (ERC20TokenSourceTransactor_contract (ERC20TokenSourceTransactorRaw_Contract r))
         opts method params s"

subsection \<open>Read-only methods\<close>

definition ERC20TokenSourceCaller_BURNEDTXFEESADDRESS ::
  "('s, 'o, 'tx) ERC20TokenSourceCaller \<Rightarrow> 'o \<Rightarrow> 's
    \<Rightarrow> go_error + address" where
  "ERC20TokenSourceCaller_BURNEDTXFEESADDRESS c opts s =
     bindE (bc_Call (ERC20TokenSourceCaller_contract c) opts ''BURNED_TX_FEES_ADDRESS'' [] s)
         (\<lambda>out.
     bindE (go_out (ERC20TokenSourceCaller_contract c) out 0 TAddress as_address) (\<lambda>out0.
     Inr out0))"

definition ERC20TokenSourceSession_BURNEDTXFEESADDRESS ::
  "('s, 'o, 'tx) ERC20TokenSourceSession \<Rightarrow> 's
    \<Rightarrow> go_error + address" where
  "ERC20TokenSourceSession_BURNEDTXFEESADDRESS ss s =
     ERC20TokenSourceCaller_BURNEDTXFEESADDRESS (ERC20TokenSource_Caller
         (ERC20TokenSourceSession_Contract ss))
       (ERC20TokenSourceSession_CallOpts ss) s"

definition ERC20TokenSourceCallerSession_BURNEDTXFEESADDRESS ::
  "('s, 'o, 'tx) ERC20TokenSourceCallerSession \<Rightarrow> 's
    \<Rightarrow> go_error + address" where
  "ERC20TokenSourceCallerSession_BURNEDTXFEESADDRESS ss s =
     ERC20TokenSourceCaller_BURNEDTXFEESADDRESS (ERC20TokenSourceCallerSession_Contract ss)
       (ERC20TokenSourceCallerSession_CallOpts ss) s"

definition ERC20TokenSourceCaller_MINTNATIVETOKENSREQUIREDGAS ::
  "('s, 'o, 'tx) ERC20TokenSourceCaller \<Rightarrow> 'o \<Rightarrow> 's
    \<Rightarrow> go_error + int" where
  "ERC20TokenSourceCaller_MINTNATIVETOKENSREQUIREDGAS c opts s =
     bindE (bc_Call (ERC20TokenSourceCaller_contract c) opts ''MINT_NATIVE_TOKENS_REQUIRED_GAS''
         [] s) (\<lambda>out.
     bindE (go_out (ERC20TokenSourceCaller_contract c) out 0 TBigInt as_bigint) (\<lambda>out0.
     Inr out0))"

definition ERC20TokenSourceSession_MINTNATIVETOKENSREQUIREDGAS ::
  "('s, 'o, 'tx) ERC20TokenSourceSession \<Rightarrow> 's
    \<Rightarrow> go_error + int" where
  "ERC20TokenSourceSession_MINTNATIVETOKENSREQUIREDGAS ss s =
     ERC20TokenSourceCaller_MINTNATIVETOKENSREQUIREDGAS (ERC20TokenSource_Caller
         (ERC20TokenSourceSession_Contract ss))
       (ERC20TokenSourceSession_CallOpts ss) s"

definition ERC20TokenSourceCallerSession_MINTNATIVETOKENSREQUIREDGAS ::
  "('s, 'o, 'tx) ERC20TokenSourceCallerSession \<Rightarrow> 's
    \<Rightarrow> go_error + int" where
  "ERC20TokenSourceCallerSession_MINTNATIVETOKENSREQUIREDGAS ss s =
     ERC20TokenSourceCaller_MINTNATIVETOKENSREQUIREDGAS (ERC20TokenSourceCallerSession_Contract
         ss)
       (ERC20TokenSourceCallerSession_CallOpts ss) s"

definition ERC20TokenSourceCaller_DestinationBlockchainID ::
  "('s, 'o, 'tx) ERC20TokenSourceCaller \<Rightarrow> 'o \<Rightarrow> 's
    \<Rightarrow> go_error + bytes32" where
  "ERC20TokenSourceCaller_DestinationBlockchainID c opts s =
     bindE (bc_Call (ERC20TokenSourceCaller_contract c) opts ''destinationBlockchainID'' [] s)
         (\<lambda>out.
     bindE (go_out (ERC20TokenSourceCaller_contract c) out 0 TBytes32 as_bytes32) (\<lambda>out0.
     Inr out0))"

definition ERC20TokenSourceSession_DestinationBlockchainID ::
  "('s, 'o, 'tx) ERC20TokenSourceSession \<Rightarrow> 's
    \<Rightarrow> go_error + bytes32" where
  "ERC20TokenSourceSession_DestinationBlockchainID ss s =
     ERC20TokenSourceCaller_DestinationBlockchainID (ERC20TokenSource_Caller
         (ERC20TokenSourceSession_Contract ss))
       (ERC20TokenSourceSession_CallOpts ss) s"

definition ERC20TokenSourceCallerSession_DestinationBlockchainID ::
  "('s, 'o, 'tx) ERC20TokenSourceCallerSession \<Rightarrow> 's
    \<Rightarrow> go_error + bytes32" where
  "ERC20TokenSourceCallerSession_DestinationBlockchainID ss s =
     ERC20TokenSourceCaller_DestinationBlockchainID (ERC20TokenSourceCallerSession_Contract ss)
       (ERC20TokenSourceCallerSession_CallOpts ss) s"

definition ERC20TokenSourceCaller_DestinationBurnedTotal ::
  "('s, 'o, 'tx) ERC20TokenSourceCaller \<Rightarrow> 'o \<Rightarrow> 's
    \<Rightarrow> go_error + int" where
  "ERC20TokenSourceCaller_DestinationBurnedTotal c opts s =
     bindE (bc_Call (ERC20TokenSourceCaller_contract c) opts ''destinationBurnedTotal'' [] s)
         (\<lambda>out.
     bindE (go_out (ERC20TokenSourceCaller_contract c) out 0 TBigInt as_bigint) (\<lambda>out0.
     Inr out0))"

definition ERC20TokenSourceSession_DestinationBurnedTotal ::
  "('s, 'o, 'tx) ERC20TokenSourceSession \<Rightarrow> 's
    \<Rightarrow> go_error + int" where
  "ERC20TokenSourceSession_DestinationBurnedTotal ss s =
     ERC20TokenSourceCaller_DestinationBurnedTotal (ERC20TokenSource_Caller
         (ERC20TokenSourceSession_Contract ss))
       (ERC20TokenSourceSession_CallOpts ss) s"

definition ERC20TokenSourceCallerSession_DestinationBurnedTotal ::
  "('s, 'o, 'tx) ERC20TokenSourceCallerSession \<Rightarrow> 's
    \<Rightarrow> go_error + int" where
  "ERC20TokenSourceCallerSession_DestinationBurnedTotal ss s =
     ERC20TokenSourceCaller_DestinationBurnedTotal (ERC20TokenSourceCallerSession_Contract ss)
       (ERC20TokenSourceCallerSession_CallOpts ss) s"

definition ERC20TokenSourceCaller_Erc20ContractAddress ::
  "('s, 'o, 'tx) ERC20TokenSourceCaller \<Rightarrow> 'o \<Rightarrow> 's
    \<Rightarrow> go_error + address" where
  "ERC20TokenSourceCaller_Erc20ContractAddress c opts s =
     bindE (bc_Call (ERC20TokenSourceCaller_contract c) opts ''erc20ContractAddress'' [] s) (\<lambda>out.
     bindE (go_out (ERC20TokenSourceCaller_contract c) out 0 TAddress as_address) (\<lambda>out0.
     Inr out0))"

definition ERC20TokenSourceSession_Erc20ContractAddress ::
  "('s, 'o, 'tx) ERC20TokenSourceSession \<Rightarrow> 's
    \<Rightarrow> go_error + address" where
  "ERC20TokenSourceSession_Erc20ContractAddress ss s =
     ERC20TokenSourceCaller_Erc20ContractAddress (ERC20TokenSource_Caller
         (ERC20TokenSourceSession_Contract ss))
       (ERC20TokenSourceSession_CallOpts ss) s"

definition ERC20TokenSourceCallerSession_Erc20ContractAddress ::
  "('s, 'o, 'tx) ERC20TokenSourceCallerSession \<Rightarrow> 's
    \<Rightarrow> go_error + address" where
  "ERC20TokenSourceCallerSession_Erc20ContractAddress ss s =
     ERC20TokenSourceCaller_Erc20ContractAddress (ERC20TokenSourceCallerSession_Contract ss)
       (ERC20TokenSourceCallerSession_CallOpts ss) s"

definition ERC20TokenSourceCaller_NativeTokenDestinationAddress ::
  "('s, 'o, 'tx) ERC20TokenSourceCaller \<Rightarrow> 'o \<Rightarrow> 's
    \<Rightarrow> go_error + address" where
  "ERC20TokenSourceCaller_NativeTokenDestinationAddress c opts s =
     bindE (bc_Call (ERC20TokenSourceCaller_contract c) opts ''nativeTokenDestinationAddress'' []
         s) (\<lambda>out.
     bindE (go_out (ERC20TokenSourceCaller_contract c) out 0 TAddress as_address) (\<lambda>out0.
     Inr out0))"

definition ERC20TokenSourceSession_NativeTokenDestinationAddress ::
  "('s, 'o, 'tx) ERC20TokenSourceSession \<Rightarrow> 's
    \<Rightarrow> go_error + address" where
  "ERC20TokenSourceSession_NativeTokenDestinationAddress ss s =
     ERC20TokenSourceCaller_NativeTokenDestinationAddress (ERC20TokenSource_Caller
         (ERC20TokenSourceSession_Contract ss))
       (ERC20TokenSourceSession_CallOpts ss) s"

definition ERC20TokenSourceCallerSession_NativeTokenDestinationAddress ::
  "('s, 'o, 'tx) ERC20TokenSourceCallerSession \<Rightarrow> 's
    \<Rightarrow> go_error + address" where
  "ERC20TokenSourceCallerSession_NativeTokenDestinationAddress ss s =
     ERC20TokenSourceCaller_NativeTokenDestinationAddress (ERC20TokenSourceCallerSession_Contract
         ss)
       (ERC20TokenSourceCallerSession_CallOpts ss) s"

definition ERC20TokenSourceCaller_TeleporterMessenger ::
  "('s, 'o, 'tx) ERC20TokenSourceCaller \<Rightarrow> 'o \<Rightarrow> 's
    \<Rightarrow> go_error + address" where
  "ERC20TokenSourceCaller_TeleporterMessenger c opts s =
     bindE (bc_Call (ERC20TokenSourceCaller_contract c) opts ''teleporterMessenger'' [] s) (\<lambda>out.
     bindE (go_out (ERC20TokenSourceCaller_contract c) out 0 TAddress as_address) (\<lambda>out0.
     Inr out0))"

definition ERC20TokenSourceSession_TeleporterMessenger ::
  "('s, 'o, 'tx) ERC20TokenSourceSession \<Rightarrow> 's
    \<Rightarrow> go_error + address" where
  "ERC20TokenSourceSession_TeleporterMessenger ss s =
     ERC20TokenSourceCaller_TeleporterMessenger (ERC20TokenSource_Caller
         (ERC20TokenSourceSession_Contract ss))
       (ERC20TokenSourceSession_CallOpts ss) s"

definition ERC20TokenSourceCallerSession_TeleporterMessenger ::
  "('s, 'o, 'tx) ERC20TokenSourceCallerSession \<Rightarrow> 's
    \<Rightarrow> go_error + address" where
  "ERC20TokenSourceCallerSession_TeleporterMessenger ss s =
     ERC20TokenSourceCaller_TeleporterMessenger (ERC20TokenSourceCallerSession_Contract ss)
       (ERC20TokenSourceCallerSession_CallOpts ss) s"

subsection \<open>Transactions\<close>

definition ERC20TokenSourceTransactor_ReceiveTeleporterMessage ::
  "('s, 'o, 'tx) ERC20TokenSourceTransactor \<Rightarrow> 'o \<Rightarrow> bytes32 \<Rightarrow> address \<Rightarrow> bytes \<Rightarrow> 's
    \<Rightarrow> go_error + ('tx \<times> 's)" where
  "ERC20TokenSourceTransactor_ReceiveTeleporterMessage c opts senderBlockchainID senderAddress
      message s =
     bc_Transact (ERC20TokenSourceTransactor_contract c) opts ''receiveTeleporterMessage''
       [GBytes32 senderBlockchainID, GAddress senderAddress, GBytes message] s"

definition ERC20TokenSourceSession_ReceiveTeleporterMessage ::
  "('s, 'o, 'tx) ERC20TokenSourceSession \<Rightarrow> bytes32 \<Rightarrow> address \<Rightarrow> bytes \<Rightarrow> 's
    \<Rightarrow> go_error + ('tx \<times> 's)" where
  "ERC20TokenSourceSession_ReceiveTeleporterMessage ss senderBlockchainID senderAddress message s
      =
     ERC20TokenSourceTransactor_ReceiveTeleporterMessage (ERC20TokenSource_Transactor
         (ERC20TokenSourceSession_Contract ss))
       (ERC20TokenSourceSession_TransactOpts ss) senderBlockchainID senderAddress message s"

definition ERC20TokenSourceTransactorSession_ReceiveTeleporterMessage ::
  "('s, 'o, 'tx) ERC20TokenSourceTransactorSession \<Rightarrow> bytes32 \<Rightarrow> address \<Rightarrow> bytes \<Rightarrow> 's
    \<Rightarrow> go_error + ('tx \<times> 's)" where
  "ERC20TokenSourceTransactorSession_ReceiveTeleporterMessage ss senderBlockchainID senderAddress
      message s =
     ERC20TokenSourceTransactor_ReceiveTeleporterMessage
         (ERC20TokenSourceTransactorSession_Contract ss)
       (ERC20TokenSourceTransactorSession_TransactOpts ss) senderBlockchainID senderAddress
           message s"

definition ERC20TokenSourceTransactor_TransferToDestination ::
  "('s, 'o, 'tx) ERC20TokenSourceTransactor \<Rightarrow> 'o \<Rightarrow> address \<Rightarrow> int \<Rightarrow> int \<Rightarrow> address list \<Rightarrow> 's
    \<Rightarrow> go_error + ('tx \<times> 's)" where
  "ERC20TokenSourceTransactor_TransferToDestination c opts recipient totalAmount feeAmount
      allowedRelayerAddresses s =
     bc_Transact (ERC20TokenSourceTransactor_contract c) opts ''transferToDestination''
       [GAddress recipient, GBigInt totalAmount, GBigInt feeAmount, GSlice (map GAddress
           allowedRelayerAddresses)] s"

definition ERC20TokenSourceSession_TransferToDestination ::
  "('s, 'o, 'tx) ERC20TokenSourceSession \<Rightarrow> address \<Rightarrow> int \<Rightarrow> int \<Rightarrow> address list \<Rightarrow> 's
    \<Rightarrow> go_error + ('tx \<times> 's)" where
  "ERC20TokenSourceSession_TransferToDestination ss recipient totalAmount feeAmount
      allowedRelayerAddresses s =
     ERC20TokenSourceTransactor_TransferToDestination (ERC20TokenSource_Transactor
         (ERC20TokenSourceSession_Contract ss))
       (ERC20TokenSourceSession_TransactOpts ss) recipient totalAmount feeAmount
           allowedRelayerAddresses s"

definition ERC20TokenSourceTransactorSession_TransferToDestination ::
  "('s, 'o, 'tx) ERC20TokenSourceTransactorSession \<Rightarrow> address \<Rightarrow> int \<Rightarrow> int \<Rightarrow> address list \<Rightarrow> 's
    \<Rightarrow> go_error + ('tx \<times> 's)" where
  "ERC20TokenSourceTransactorSession_TransferToDestination ss recipient totalAmount feeAmount
      allowedRelayerAddresses s =
     ERC20TokenSourceTransactor_TransferToDestination (ERC20TokenSourceTransactorSession_Contract
         ss)
       (ERC20TokenSourceTransactorSession_TransactOpts ss) recipient totalAmount feeAmount
           allowedRelayerAddresses s"

subsection \<open>Events\<close>

text \<open>The event \<open>BurnTokens\<close>.\<close>

record ERC20TokenSourceBurnTokens =
  ERC20TokenSourceBurnTokens_Amount :: int
  ERC20TokenSourceBurnTokens_Raw :: log

definition filled_ERC20TokenSourceBurnTokens :: "go_value \<Rightarrow> log \<Rightarrow> ERC20TokenSourceBurnTokens"
    where
  "filled_ERC20TokenSourceBurnTokens v raw =
     \<lparr>ERC20TokenSourceBurnTokens_Amount = filled as_bigint TBigInt v 0,
       ERC20TokenSourceBurnTokens_Raw = raw\<rparr>"

definition unpack_ERC20TokenSourceBurnTokens ::
  "('s, 'o, 'tx) bound_contract \<Rightarrow> string \<Rightarrow> log \<Rightarrow> go_error + ERC20TokenSourceBurnTokens" where
  "unpack_ERC20TokenSourceBurnTokens c event raw =
     bindE (bc_UnpackLog c (TStruct ''ERC20TokenSourceBurnTokens'' [TBigInt]) event raw) (\<lambda>v.
     Inr (filled_ERC20TokenSourceBurnTokens v raw))"

definition ERC20TokenSourceBurnTokensIterator_Next ::
  "('s, 'o, 'tx) bound_contract \<Rightarrow> bool \<Rightarrow> ERC20TokenSourceBurnTokens iterator \<Rightarrow>
      ERC20TokenSourceBurnTokens next_result" where
  "ERC20TokenSourceBurnTokensIterator_Next c = iterator_Next (unpack_ERC20TokenSourceBurnTokens
      c)"

definition ERC20TokenSourceBurnTokensIterator_Error ::
  "ERC20TokenSourceBurnTokens iterator \<Rightarrow> go_error option" where
  "ERC20TokenSourceBurnTokensIterator_Error = iterator_Error"

definition ERC20TokenSourceBurnTokensIterator_Close ::
  "ERC20TokenSourceBurnTokens iterator \<Rightarrow> go_error option \<times> ERC20TokenSourceBurnTokens iterator"
      where
  "ERC20TokenSourceBurnTokensIterator_Close = iterator_Close"

definition ERC20TokenSourceFilterer_FilterBurnTokens ::
  "('s, 'o, 'tx) ERC20TokenSourceFilterer \<Rightarrow> 'o \<Rightarrow> 's
    \<Rightarrow> go_error + ERC20TokenSourceBurnTokens iterator" where
  "ERC20TokenSourceFilterer_FilterBurnTokens c opts s =
     bindE (bc_FilterLogs (ERC20TokenSourceFilterer_contract c) opts ''BurnTokens'' [] s)
         (\<lambda>stream.
     Inr (new_iterator ''BurnTokens'' stream))"

definition ERC20TokenSourceFilterer_WatchBurnTokens ::
  "('s, 'o, 'tx) ERC20TokenSourceFilterer \<Rightarrow> 'o \<Rightarrow> 's
    \<Rightarrow> go_error + ERC20TokenSourceBurnTokens watcher" where
  "ERC20TokenSourceFilterer_WatchBurnTokens c opts s =
     bindE (bc_WatchLogs (ERC20TokenSourceFilterer_contract c) opts ''BurnTokens'' [] s) (\<lambda>stream.
     Inr (new_watcher (unpack_ERC20TokenSourceBurnTokens (ERC20TokenSourceFilterer_contract c)
         ''BurnTokens'') stream))"

definition ERC20TokenSourceFilterer_ParseBurnTokens ::
  "('s, 'o, 'tx) ERC20TokenSourceFilterer \<Rightarrow> log \<Rightarrow> go_error + ERC20TokenSourceBurnTokens" where
  "ERC20TokenSourceFilterer_ParseBurnTokens c raw = unpack_ERC20TokenSourceBurnTokens
      (ERC20TokenSourceFilterer_contract c) ''BurnTokens'' raw"

text \<open>The event \<open>TransferToDestination\<close>.\<close>

record ERC20TokenSourceTransferToDestination =
  ERC20TokenSourceTransferToDestination_Sender :: address
  ERC20TokenSourceTransferToDestination_Recipient :: address
  ERC20TokenSourceTransferToDestination_TeleporterMessageID :: int
  ERC20TokenSourceTransferToDestination_Amount :: int
  ERC20TokenSourceTransferToDestination_Raw :: log

definition filled_ERC20TokenSourceTransferToDestination :: "go_value \<Rightarrow> log \<Rightarrow>
    ERC20TokenSourceTransferToDestination" where
  "filled_ERC20TokenSourceTransferToDestination v raw =
     \<lparr>ERC20TokenSourceTransferToDestination_Sender = filled as_address TAddress v 0,
       ERC20TokenSourceTransferToDestination_Recipient = filled as_address TAddress v 1,
       ERC20TokenSourceTransferToDestination_TeleporterMessageID = filled as_bigint TBigInt v 2,
       ERC20TokenSourceTransferToDestination_Amount = filled as_bigint TBigInt v 3,
       ERC20TokenSourceTransferToDestination_Raw = raw\<rparr>"

definition unpack_ERC20TokenSourceTransferToDestination ::
  "('s, 'o, 'tx) bound_contract \<Rightarrow> string \<Rightarrow> log \<Rightarrow> go_error +
      ERC20TokenSourceTransferToDestination" where
  "unpack_ERC20TokenSourceTransferToDestination c event raw =
     bindE (bc_UnpackLog c (TStruct ''ERC20TokenSourceTransferToDestination'' [TAddress,
         TAddress, TBigInt, TBigInt]) event raw) (\<lambda>v.
     Inr (filled_ERC20TokenSourceTransferToDestination v raw))"

definition ERC20TokenSourceTransferToDestinationIterator_Next ::
  "('s, 'o, 'tx) bound_contract \<Rightarrow> bool \<Rightarrow> ERC20TokenSourceTransferToDestination iterator \<Rightarrow>
      ERC20TokenSourceTransferToDestination next_result" where
  "ERC20TokenSourceTransferToDestinationIterator_Next c = iterator_Next
      (unpack_ERC20TokenSourceTransferToDestination c)"

definition ERC20TokenSourceTransferToDestinationIterator_Error ::
  "ERC20TokenSourceTransferToDestination iterator \<Rightarrow> go_error option" where
  "ERC20TokenSourceTransferToDestinationIterator_Error = iterator_Error"

definition ERC20TokenSourceTransferToDestinationIterator_Close ::
  "ERC20TokenSourceTransferToDestination iterator \<Rightarrow> go_error option \<times>
      ERC20TokenSourceTransferToDestination iterator" where
  "ERC20TokenSourceTransferToDestinationIterator_Close = iterator_Close"

definition ERC20TokenSourceFilterer_FilterTransferToDestination ::
  "('s, 'o, 'tx) ERC20TokenSourceFilterer \<Rightarrow> 'o \<Rightarrow> address list \<Rightarrow> address list \<Rightarrow> int list \<Rightarrow> 's
    \<Rightarrow> go_error + ERC20TokenSourceTransferToDestination iterator" where
  "ERC20TokenSourceFilterer_FilterTransferToDestination c opts sender recipient
      teleporterMessageID s =
     bindE (bc_FilterLogs (ERC20TokenSourceFilterer_contract c) opts ''TransferToDestination''
         [map GAddress sender, map GAddress recipient, map GBigInt teleporterMessageID] s)
         (\<lambda>stream.
     Inr (new_iterator ''TransferToDestination'' stream))"

definition ERC20TokenSourceFilterer_WatchTransferToDestination ::
  "('s, 'o, 'tx) ERC20TokenSourceFilterer \<Rightarrow> 'o \<Rightarrow> address list \<Rightarrow> address list \<Rightarrow> int list \<Rightarrow> 's
    \<Rightarrow> go_error + ERC20TokenSourceTransferToDestination watcher" where
  "ERC20TokenSourceFilterer_WatchTransferToDestination c opts sender recipient
      teleporterMessageID s =
     bindE (bc_WatchLogs (ERC20TokenSourceFilterer_contract c) opts ''TransferToDestination''
         [map GAddress sender, map GAddress recipient, map GBigInt teleporterMessageID] s)
         (\<lambda>stream.
     Inr (new_watcher (unpack_ERC20TokenSourceTransferToDestination
         (ERC20TokenSourceFilterer_contract c) ''TransferToDestination'') stream))"

definition ERC20TokenSourceFilterer_ParseTransferToDestination ::
  "('s, 'o, 'tx) ERC20TokenSourceFilterer \<Rightarrow> log \<Rightarrow> go_error +
      ERC20TokenSourceTransferToDestination" where
  "ERC20TokenSourceFilterer_ParseTransferToDestination c raw =
      unpack_ERC20TokenSourceTransferToDestination (ERC20TokenSourceFilterer_contract c)
      ''TransferToDestination'' raw"

text \<open>The event \<open>UnlockTokens\<close>.\<close>

record ERC20TokenSourceUnlockTokens =
  ERC20TokenSourceUnlockTokens_Recipient :: address
  ERC20TokenSourceUnlockTokens_Amount :: int
  ERC20TokenSourceUnlockTokens_Raw :: log

definition filled_ERC20TokenSourceUnlockTokens :: "go_value \<Rightarrow> log \<Rightarrow> ERC20TokenSourceUnlockTokens"
    where
  "filled_ERC20TokenSourceUnlockTokens v raw =
     \<lparr>ERC20TokenSourceUnlockTokens_Recipient = filled as_address TAddress v 0,
       ERC20TokenSourceUnlockTokens_Amount = filled as_bigint TBigInt v 1,
       ERC20TokenSourceUnlockTokens_Raw = raw\<rparr>"

definition unpack_ERC20TokenSourceUnlockTokens ::
  "('s, 'o, 'tx) bound_contract \<Rightarrow> string \<Rightarrow> log \<Rightarrow> go_error + ERC20TokenSourceUnlockTokens" where
  "unpack_ERC20TokenSourceUnlockTokens c event raw =
     bindE (bc_UnpackLog c (TStruct ''ERC20TokenSourceUnlockTokens'' [TAddress, TBigInt]) event
         raw) (\<lambda>v.
     Inr (filled_ERC20TokenSourceUnlockTokens v raw))"

definition ERC20TokenSourceUnlockTokensIterator_Next ::
  "('s, 'o, 'tx) bound_contract \<Rightarrow> bool \<Rightarrow> ERC20TokenSourceUnlockTokens iterator \<Rightarrow>
      ERC20TokenSourceUnlockTokens next_result" where
  "ERC20TokenSourceUnlockTokensIterator_Next c = iterator_Next
      (unpack_ERC20TokenSourceUnlockTokens c)"

definition ERC20TokenSourceUnlockTokensIterator_Error ::
  "ERC20TokenSourceUnlockTokens iterator \<Rightarrow> go_error option" where
  "ERC20TokenSourceUnlockTokensIterator_Error = iterator_Error"

definition ERC20TokenSourceUnlockTokensIterator_Close ::
  "ERC20TokenSourceUnlockTokens iterator \<Rightarrow> go_error option \<times> ERC20TokenSourceUnlockTokens
      iterator" where
  "ERC20TokenSourceUnlockTokensIterator_Close = iterator_Close"

definition ERC20TokenSourceFilterer_FilterUnlockTokens ::
  "('s, 'o, 'tx) ERC20TokenSourceFilterer \<Rightarrow> 'o \<Rightarrow> 's
    \<Rightarrow> go_error + ERC20TokenSourceUnlockTokens iterator" where
  "ERC20TokenSourceFilterer_FilterUnlockTokens c opts s =
     bindE (bc_FilterLogs (ERC20TokenSourceFilterer_contract c) opts ''UnlockTokens'' [] s)
         (\<lambda>stream.
     Inr (new_iterator ''UnlockTokens'' stream))"

definition ERC20TokenSourceFilterer_WatchUnlockTokens ::
  "('s, 'o, 'tx) ERC20TokenSourceFilterer \<Rightarrow> 'o \<Rightarrow> 's
    \<Rightarrow> go_error + ERC20TokenSourceUnlockTokens watcher" where
  "ERC20TokenSourceFilterer_WatchUnlockTokens c opts s =
     bindE (bc_WatchLogs (ERC20TokenSourceFilterer_contract c) opts ''UnlockTokens'' [] s)
         (\<lambda>stream.
     Inr (new_watcher (unpack_ERC20TokenSourceUnlockTokens (ERC20TokenSourceFilterer_contract c)
         ''UnlockTokens'') stream))"

definition ERC20TokenSourceFilterer_ParseUnlockTokens ::
  "('s, 'o, 'tx) ERC20TokenSourceFilterer \<Rightarrow> log \<Rightarrow> go_error + ERC20TokenSourceUnlockTokens" where
  "ERC20TokenSourceFilterer_ParseUnlockTokens c raw = unpack_ERC20TokenSourceUnlockTokens
      (ERC20TokenSourceFilterer_contract c) ''UnlockTokens'' raw"

end
