(* ===== verification/Bind_NativeTokenSource.thy ===== *)
theory Bind_NativeTokenSource
  imports Go_Bind
begin

section \<open>The Go binding of NativeTokenSource\<close>

text \<open>
  One definition per type and function of
  \<open>abi-bindings/go/CrossChainApplications/NativeTokenBridge/NativeTokenSource/NativeTokenSource.go\<close>,
  in the order of the file: structs, the ABI of the metadata, the facets of the bound contract, the
  read-only methods, the transactions, and for each event its struct, iterator, filter,
  subscription and parser. The option structs, the chain and the library are parameters.
\<close>

subsection \<open>Structs\<close>

record Go_TeleporterFeeInfo =
  Go_TeleporterFeeInfo_FeeTokenAddress :: address
  Go_TeleporterFeeInfo_Amount :: int

definition T_TeleporterFeeInfo :: go_type where
  "T_TeleporterFeeInfo = TStruct ''TeleporterFeeInfo'' [TAddress, TBigInt]"

definition of_TeleporterFeeInfo :: "Go_TeleporterFeeInfo \<Rightarrow> go_value" where
  "of_TeleporterFeeInfo x = GStruct ''TeleporterFeeInfo''
     [GAddress (Go_TeleporterFeeInfo_FeeTokenAddress x),
      GBigInt (Go_TeleporterFeeInfo_Amount x)]"

definition as_TeleporterFeeInfo :: "go_value \<Rightarrow> go_error + Go_TeleporterFeeInfo" where
  "as_TeleporterFeeInfo v =
     bindE (as_struct ''TeleporterFeeInfo'' v) (\<lambda>vs.
     bindE (bindE (go_index vs 0) as_address) (\<lambda>x0.
     bindE (bindE (go_index vs 1) as_bigint) (\<lambda>x1.
     Inr \<lparr>Go_TeleporterFeeInfo_FeeTokenAddress = x0,
       Go_TeleporterFeeInfo_Amount = x1\<rparr>)))"

subsection \<open>The ABI\<close>

definition NativeTokenSourceMetaData :: abi_meta where
  "NativeTokenSourceMetaData =
     \<lparr>meta_name = ''NativeTokenSource'',
      meta_constructor = [TAddress, TBytes32, TAddress],
      meta_methods = [
        (''BURNED_TX_FEES_ADDRESS'', [], [TAddress]),
        (''MINT_NATIVE_TOKENS_REQUIRED_GAS'', [], [TBigInt]),
        (''destinationBlockchainID'', [], [TBytes32]),
        (''destinationBurnedTotal'', [], [TBigInt]),
        (''nativeTokenDestinationAddress'', [], [TAddress]),
        (''receiveTeleporterMessage'', [TBytes32, TAddress, TBytes], []),
        (''teleporterMessenger'', [], [TAddress]),
        (''transferToDestination'', [TAddress, TStruct [] [TAddress, TBigInt], TSlice TAddress],
            [])],
      meta_events = [
        (''BurnTokens'', [(TBigInt, False)]),
        (''TransferToDestination'', [(TAddress, True), (TAddress, True), (TBigInt, True),
            (TBigInt, False)]),
        (''UnlockTokens'', [(TAddress, False), (TBigInt, False)])]\<rparr>"

subsection \<open>The bound contract and its facets\<close>

record ('s, 'o, 'tx) NativeTokenSourceCaller =
  NativeTokenSourceCaller_contract :: "('s, 'o, 'tx) bound_contract"

record ('s, 'o, 'tx) NativeTokenSourceTransactor =
  NativeTokenSourceTransactor_contract :: "('s, 'o, 'tx) bound_contract"

record ('s, 'o, 'tx) NativeTokenSourceFilterer =
  NativeTokenSourceFilterer_contract :: "('s, 'o, 'tx) bound_contract"

record ('s, 'o, 'tx) NativeTokenSource =
  NativeTokenSource_Caller :: "('s, 'o, 'tx) NativeTokenSourceCaller"
  NativeTokenSource_Transactor :: "('s, 'o, 'tx) NativeTokenSourceTransactor"
  NativeTokenSource_Filterer :: "('s, 'o, 'tx) NativeTokenSourceFilterer"

record ('s, 'o, 'tx) NativeTokenSourceSession =
  NativeTokenSourceSession_Contract :: "('s, 'o, 'tx) NativeTokenSource"
  NativeTokenSourceSession_CallOpts :: 'o
  NativeTokenSourceSession_TransactOpts :: 'o

record ('s, 'o, 'tx) NativeTokenSourceCallerSession =
  NativeTokenSourceCallerSession_Contract :: "('s, 'o, 'tx) NativeTokenSourceCaller"
  NativeTokenSourceCallerSession_CallOpts :: 'o

record ('s, 'o, 'tx) NativeTokenSourceTransactorSession =
  NativeTokenSourceTransactorSession_Contract :: "('s, 'o, 'tx) NativeTokenSourceTransactor"
  NativeTokenSourceTransactorSession_TransactOpts :: 'o

record ('s, 'o, 'tx) NativeTokenSourceRaw =
  NativeTokenSourceRaw_Contract :: "('s, 'o, 'tx) NativeTokenSource"

record ('s, 'o, 'tx) NativeTokenSourceCallerRaw =
  NativeTokenSourceCallerRaw_Contract :: "('s, 'o, 'tx) NativeTokenSourceCaller"

record ('s, 'o, 'tx) NativeTokenSourceTransactorRaw =
  NativeTokenSourceTransactorRaw_Contract :: "('s, 'o, 'tx) NativeTokenSourceTransactor"

definition bindNativeTokenSource ::
  "('s, 'o, 'tx, 'abi, 'k) bind_lib \<Rightarrow> address \<Rightarrow> 'k option \<Rightarrow> 'k option \<Rightarrow> 'k option
    \<Rightarrow> go_error + ('s, 'o, 'tx) bound_contract" where
  "bindNativeTokenSource lib addr caller transactor filterer =
     bindE (lib_GetAbi lib NativeTokenSourceMetaData) (\<lambda>parsed.
     case parsed of
       None \<Rightarrow> Inl (GoPanic ''nil pointer dereference'')
     | Some abi \<Rightarrow> Inr (lib_NewBoundContract lib addr abi caller transactor filterer))"

definition DeployNativeTokenSource ::
  "('s, 'o, 'tx, 'abi, 'k) bind_lib \<Rightarrow> 'o \<Rightarrow> 'k \<Rightarrow> address \<Rightarrow> bytes32 \<Rightarrow> address \<Rightarrow> 's
    \<Rightarrow> go_error + (address \<times> 'tx \<times> ('s, 'o, 'tx) NativeTokenSource \<times> 's)" where
  "DeployNativeTokenSource lib auth backend teleporterMessengerAddress destinationBlockchainID'
      nativeTokenDestinationAddress' s =
     bindE (lib_GetAbi lib NativeTokenSourceMetaData) (\<lambda>parsed.
     case parsed of
       None \<Rightarrow> Inl (GoError ''GetABI returned nil'')
     | Some abi \<Rightarrow>
         bindE (lib_DeployContract lib auth abi (meta_name NativeTokenSourceMetaData) backend
             [GAddress teleporterMessengerAddress, GBytes32 destinationBlockchainID', GAddress
             nativeTokenDestinationAddress'] s)
         (\<lambda>(addr, tx, c, s').
         Inr (addr, tx, \<lparr>NativeTokenSource_Caller = \<lparr>NativeTokenSourceCaller_contract = c\<rparr>,
         NativeTokenSource_Transactor = \<lparr>NativeTokenSourceTransactor_contract = c\<rparr>,
         NativeTokenSource_Filterer = \<lparr>NativeTokenSourceFilterer_contract = c\<rparr>\<rparr>, s')))"

definition NewNativeTokenSource ::
  "('s, 'o, 'tx, 'abi, 'k) bind_lib \<Rightarrow> address \<Rightarrow> 'k \<Rightarrow> go_error + ('s, 'o, 'tx) NativeTokenSource"
      where
  "NewNativeTokenSource lib addr backend =
     bindE (bindNativeTokenSource lib addr (Some backend) (Some backend) (Some backend)) (\<lambda>c.
     Inr \<lparr>NativeTokenSource_Caller = \<lparr>NativeTokenSourceCaller_contract = c\<rparr>,
         NativeTokenSource_Transactor = \<lparr>NativeTokenSourceTransactor_contract = c\<rparr>,
         NativeTokenSource_Filterer = \<lparr>NativeTokenSourceFilterer_contract = c\<rparr>\<rparr>)"

definition NewNativeTokenSourceCaller ::
  "('s, 'o, 'tx, 'abi, 'k) bind_lib \<Rightarrow> address \<Rightarrow> 'k \<Rightarrow> go_error + ('s, 'o, 'tx)
      NativeTokenSourceCaller" where
  "NewNativeTokenSourceCaller lib addr b =
     bindE (bindNativeTokenSource lib addr (Some b) None None) (\<lambda>c.
     Inr \<lparr>NativeTokenSourceCaller_contract = c\<rparr>)"

definition NewNativeTokenSourceTransactor ::
  "('s, 'o, 'tx, 'abi, 'k) bind_lib \<Rightarrow> address \<Rightarrow> 'k \<Rightarrow> go_error + ('s, 'o, 'tx)
      NativeTokenSourceTransactor" where
  "NewNativeTokenSourceTransactor lib addr b =
     bindE (bindNativeTokenSource lib addr None (Some b) None) (\<lambda>c.
     Inr \<lparr>NativeTokenSourceTransactor_contract = c\<rparr>)"

definition NewNativeTokenSourceFilterer ::
  "('s, 'o, 'tx, 'abi, 'k) bind_lib \<Rightarrow> address \<Rightarrow> 'k \<Rightarrow> go_error + ('s, 'o, 'tx)
      NativeTokenSourceFilterer" where
  "NewNativeTokenSourceFilterer lib addr b =
     bindE (bindNativeTokenSource lib addr None None (Some b)) (\<lambda>c.
     Inr \<lparr>NativeTokenSourceFilterer_contract = c\<rparr>)"

definition NativeTokenSourceRaw_Call ::
  "('s, 'o, 'tx) NativeTokenSourceRaw \<Rightarrow> 'o \<Rightarrow> string \<Rightarrow> go_value list \<Rightarrow> 's
    \<Rightarrow> go_error + go_value list" where
  "NativeTokenSourceRaw_Call r opts method params s =
     bc_Call (NativeTokenSourceCaller_contract (NativeTokenSource_Caller
         (NativeTokenSourceRaw_Contract r))) opts method params s"

definition NativeTokenSourceRaw_Transfer ::
  "('s, 'o, 'tx) NativeTokenSourceRaw \<Rightarrow> 'o \<Rightarrow> 's \<Rightarrow> go_error + ('tx \<times> 's)" where
  "NativeTokenSourceRaw_Transfer r opts s =
     bc_Transfer (NativeTokenSourceTransactor_contract (NativeTokenSource_Transactor
         (NativeTokenSourceRaw_Contract r))) opts s"

definition NativeTokenSourceRaw_Transact ::
  "('s, 'o, 'tx) NativeTokenSourceRaw \<Rightarrow> 'o \<Rightarrow> string \<Rightarrow> go_value list \<Rightarrow> 's
    \<Rightarrow> go_error + ('tx \<times> 's)" where
  "NativeTokenSourceRaw_Transact r opts method params s =
     bc_Transact (NativeTokenSourceTransactor_contract (NativeTokenSource_Transactor
         (NativeTokenSourceRaw_Contract r))) opts method params s"

definition NativeTokenSourceCallerRaw_Call ::
  "('s, 'o, 'tx) NativeTokenSourceCallerRaw \<Rightarrow> 'o \<Rightarrow> string \<Rightarrow> go_value list \<Rightarrow> 's
    \<Rightarrow> go_error + go_value list" where
  "NativeTokenSourceCallerRaw_Call r opts method params s =
     bc_Call (NativeTokenSourceCaller_contract (NativeTokenSourceCallerRaw_Contract r)) opts
         method params s"

definition NativeTokenSourceTransactorRaw_Transfer ::
  "('s, 'o, 'tx) NativeTokenSourceTransactorRaw \<Rightarrow> 'o \<Rightarrow> 's \<Rightarrow> go_error + ('tx \<times> 's)" where
  "NativeTokenSourceTransactorRaw_Transfer r opts s =
     bc_Transfer (NativeTokenSourceTransactor_contract (NativeTokenSourceTransactorRaw_Contract
         r)) opts s"

definition NativeTokenSourceTransactorRaw_Transact ::
  "('s, 'o, 'tx) NativeTokenSourceTransactorRaw \<Rightarrow> 'o \<Rightarrow> string \<Rightarrow> go_value list \<Rightarrow> 's
    \<Rightarrow> go_error + ('tx \<times> 's)" where
  "NativeTokenSourceTransactorRaw_Transact r opts method params s =
     bc_Transact (NativeTokenSourceTransactor_contract (NativeTokenSourceTransactorRaw_Contract
         r)) opts method params s"

subsection \<open>Read-only methods\<close>

definition NativeTokenSourceCaller_BURNEDTXFEESADDRESS ::
  "('s, 'o, 'tx) NativeTokenSourceCaller \<Rightarrow> 'o \<Rightarrow> 's
    \<Rightarrow> go_error + address" where
  "NativeTokenSourceCaller_BURNEDTXFEESADDRESS c opts s =
     bindE (bc_Call (NativeTokenSourceCaller_contract c) opts ''BURNED_TX_FEES_ADDRESS'' [] s)
         (\<lambda>out.
     bindE (go_out (NativeTokenSourceCaller_contract c) out 0 TAddress as_address) (\<lambda>out0.
     Inr out0))"

definition NativeTokenSourceSession_BURNEDTXFEESADDRESS ::
  "('s, 'o, 'tx) NativeTokenSourceSession \<Rightarrow> 's
    \<Rightarrow> go_error + address" where
  "NativeTokenSourceSession_BURNEDTXFEESADDRESS ss s =
     NativeTokenSourceCaller_BURNEDTXFEESADDRESS (NativeTokenSource_Caller
         (NativeTokenSourceSession_Contract ss))
       (NativeTokenSourceSession_CallOpts ss) s"

definition NativeTokenSourceCallerSession_BURNEDTXFEESADDRESS ::
  "('s, 'o, 'tx) NativeTokenSourceCallerSession \<Rightarrow> 's
    \<Rightarrow> go_error + address" where
  "NativeTokenSourceCallerSession_BURNEDTXFEESADDRESS ss s =
     NativeTokenSourceCaller_BURNEDTXFEESADDRESS (NativeTokenSourceCallerSession_Contract ss)
       (NativeTokenSourceCallerSession_CallOpts ss) s"

definition NativeTokenSourceCaller_MINTNATIVETOKENSREQUIREDGAS ::
  "('s, 'o, 'tx) NativeTokenSourceCaller \<Rightarrow> 'o \<Rightarrow> 's
    \<Rightarrow> go_error + int" where
  "NativeTokenSourceCaller_MINTNATIVETOKENSREQUIREDGAS c opts s =
     bindE (bc_Call (NativeTokenSourceCaller_contract c) opts ''MINT_NATIVE_TOKENS_REQUIRED_GAS''
         [] s) (\<lambda>out.
     bindE (go_out (NativeTokenSourceCaller_contract c) out 0 TBigInt as_bigint) (\<lambda>out0.
     Inr out0))"

definition NativeTokenSourceSession_MINTNATIVETOKENSREQUIREDGAS ::
  "('s, 'o, 'tx) NativeTokenSourceSession \<Rightarrow> 's
    \<Rightarrow> go_error + int" where
  "NativeTokenSourceSession_MINTNATIVETOKENSREQUIREDGAS ss s =
     NativeTokenSourceCaller_MINTNATIVETOKENSREQUIREDGAS (NativeTokenSource_Caller
         (NativeTokenSourceSession_Contract ss))
       (NativeTokenSourceSession_CallOpts ss) s"

definition NativeTokenSourceCallerSession_MINTNATIVETOKENSREQUIREDGAS ::
  "('s, 'o, 'tx) NativeTokenSourceCallerSession \<Rightarrow> 's
    \<Rightarrow> go_error + int" where
  "NativeTokenSourceCallerSession_MINTNATIVETOKENSREQUIREDGAS ss s =
     NativeTokenSourceCaller_MINTNATIVETOKENSREQUIREDGAS (NativeTokenSourceCallerSession_Contract
         ss)
       (NativeTokenSourceCallerSession_CallOpts ss) s"

definition NativeTokenSourceCaller_DestinationBlockchainID ::
  "('s, 'o, 'tx) NativeTokenSourceCaller \<Rightarrow> 'o \<Rightarrow> 's
    \<Rightarrow> go_error + bytes32" where
  "NativeTokenSourceCaller_DestinationBlockchainID c opts s =
     bindE (bc_Call (NativeTokenSourceCaller_contract c) opts ''destinationBlockchainID'' [] s)
         (\<lambda>out.
     bindE (go_out (NativeTokenSourceCaller_contract c) out 0 TBytes32 as_bytes32) (\<lambda>out0.
     Inr out0))"

definition NativeTokenSourceSession_DestinationBlockchainID ::
  "('s, 'o, 'tx) NativeTokenSourceSession \<Rightarrow> 's
    \<Rightarrow> go_error + bytes32" where
  "NativeTokenSourceSession_DestinationBlockchainID ss s =
     NativeTokenSourceCaller_DestinationBlockchainID (NativeTokenSource_Caller
         (NativeTokenSourceSession_Contract ss))
       (NativeTokenSourceSession_CallOpts ss) s"

definition NativeTokenSourceCallerSession_DestinationBlockchainID ::
  "('s, 'o, 'tx) NativeTokenSourceCallerSession \<Rightarrow> 's
    \<Rightarrow> go_error + bytes32" where
  "NativeTokenSourceCallerSession_DestinationBlockchainID ss s =
     NativeTokenSourceCaller_DestinationBlockchainID (NativeTokenSourceCallerSession_Contract ss)
       (NativeTokenSourceCallerSession_CallOpts ss) s"

definition NativeTokenSourceCaller_DestinationBurnedTotal ::
  "('s, 'o, 'tx) NativeTokenSourceCaller \<Rightarrow> 'o \<Rightarrow> 's
    \<Rightarrow> go_error + int" where
  "NativeTokenSourceCaller_DestinationBurnedTotal c opts s =
     bindE (bc_Call (NativeTokenSourceCaller_contract c) opts ''destinationBurnedTotal'' [] s)
         (\<lambda>out.
     bindE (go_out (NativeTokenSourceCaller_contract c) out 0 TBigInt as_bigint) (\<lambda>out0.
     Inr out0))"

definition NativeTokenSourceSession_DestinationBurnedTotal ::
  "('s, 'o, 'tx) NativeTokenSourceSession \<Rightarrow> 's
    \<Rightarrow> go_error + int" where
  "NativeTokenSourceSession_DestinationBurnedTotal ss s =
     NativeTokenSourceCaller_DestinationBurnedTotal (NativeTokenSource_Caller
         (NativeTokenSourceSession_Contract ss))
       (NativeTokenSourceSession_CallOpts ss) s"

definition NativeTokenSourceCallerSession_DestinationBurnedTotal ::
  "('s, 'o, 'tx) NativeTokenSourceCallerSession \<Rightarrow> 's
    \<Rightarrow> go_error + int" where
  "NativeTokenSourceCallerSession_DestinationBurnedTotal ss s =
     NativeTokenSourceCaller_DestinationBurnedTotal (NativeTokenSourceCallerSession_Contract ss)
       (NativeTokenSourceCallerSession_CallOpts ss) s"

definition NativeTokenSourceCaller_NativeTokenDestinationAddress ::
  "('s, 'o, 'tx) NativeTokenSourceCaller \<Rightarrow> 'o \<Rightarrow> 's
    \<Rightarrow> go_error + address" where
  "NativeTokenSourceCaller_NativeTokenDestinationAddress c opts s =
     bindE (bc_Call (NativeTokenSourceCaller_contract c) opts ''nativeTokenDestinationAddress''
         [] s) (\<lambda>out.
     bindE (go_out (NativeTokenSourceCaller_contract c) out 0 TAddress as_address) (\<lambda>out0.
     Inr out0))"

definition NativeTokenSourceSession_NativeTokenDestinationAddress ::
  "('s, 'o, 'tx) NativeTokenSourceSession \<Rightarrow> 's
    \<Rightarrow> go_error + address" where
  "NativeTokenSourceSession_NativeTokenDestinationAddress ss s =
     NativeTokenSourceCaller_NativeTokenDestinationAddress (NativeTokenSource_Caller
         (NativeTokenSourceSession_Contract ss))
       (NativeTokenSourceSession_CallOpts ss) s"

definition NativeTokenSourceCallerSession_NativeTokenDestinationAddress ::
  "('s, 'o, 'tx) NativeTokenSourceCallerSession \<Rightarrow> 's
    \<Rightarrow> go_error + address" where
  "NativeTokenSourceCallerSession_NativeTokenDestinationAddress ss s =
     NativeTokenSourceCaller_NativeTokenDestinationAddress
         (NativeTokenSourceCallerSession_Contract ss)
       (NativeTokenSourceCallerSession_CallOpts ss) s"

definition NativeTokenSourceCaller_TeleporterMessenger ::
  "('s, 'o, 'tx) NativeTokenSourceCaller \<Rightarrow> 'o \<Rightarrow> 's
    \<Rightarrow> go_error + address" where
  "NativeTokenSourceCaller_TeleporterMessenger c opts s =
     bindE (bc_Call (NativeTokenSourceCaller_contract c) opts ''teleporterMessenger'' [] s) (\<lambda>out.
     bindE (go_out (NativeTokenSourceCaller_contract c) out 0 TAddress as_address) (\<lambda>out0.
     Inr out0))"

definition NativeTokenSourceSession_TeleporterMessenger ::
  "('s, 'o, 'tx) NativeTokenSourceSession \<Rightarrow> 's
    \<Rightarrow> go_error + address" where
  "NativeTokenSourceSession_TeleporterMessenger ss s =
     NativeTokenSourceCaller_TeleporterMessenger (NativeTokenSource_Caller
         (NativeTokenSourceSession_Contract ss))
       (NativeTokenSourceSession_CallOpts ss) s"

definition NativeTokenSourceCallerSession_TeleporterMessenger ::
  "('s, 'o, 'tx) NativeTokenSourceCallerSession \<Rightarrow> 's
    \<Rightarrow> go_error + address" where
  "NativeTokenSourceCallerSession_TeleporterMessenger ss s =
     NativeTokenSourceCaller_TeleporterMessenger (NativeTokenSourceCallerSession_Contract ss)
       (NativeTokenSourceCallerSession_CallOpts ss) s"

subsection \<open>Transactions\<close>

definition NativeTokenSourceTransactor_ReceiveTeleporterMessage ::
  "('s, 'o, 'tx) NativeTokenSourceTransactor \<Rightarrow> 'o \<Rightarrow> bytes32 \<Rightarrow> address \<Rightarrow> bytes \<Rightarrow> 's
    \<Rightarrow> go_error + ('tx \<times> 's)" where
  "NativeTokenSourceTransactor_ReceiveTeleporterMessage c opts senderBlockchainID senderAddress
      message s =
     bc_Transact (NativeTokenSourceTransactor_contract c) opts ''receiveTeleporterMessage''
       [GBytes32 senderBlockchainID, GAddress senderAddress, GBytes message] s"

definition NativeTokenSourceSession_ReceiveTeleporterMessage ::
  "('s, 'o, 'tx) NativeTokenSourceSession \<Rightarrow> bytes32 \<Rightarrow> address \<Rightarrow> bytes \<Rightarrow> 's
    \<Rightarrow> go_error + ('tx \<times> 's)" where
  "NativeTokenSourceSession_ReceiveTeleporterMessage ss senderBlockchainID senderAddress message
      s =
     NativeTokenSourceTransactor_ReceiveTeleporterMessage (NativeTokenSource_Transactor
         (NativeTokenSourceSession_Contract ss))
       (NativeTokenSourceSession_TransactOpts ss) senderBlockchainID senderAddress message s"

definition NativeTokenSourceTransactorSession_ReceiveTeleporterMessage ::
  "('s, 'o, 'tx) NativeTokenSourceTransactorSession \<Rightarrow> bytes32 \<Rightarrow> address \<Rightarrow> bytes \<Rightarrow> 's
    \<Rightarrow> go_error + ('tx \<times> 's)" where
  "NativeTokenSourceTransactorSession_ReceiveTeleporterMessage ss senderBlockchainID
      senderAddress message s =
     NativeTokenSourceTransactor_ReceiveTeleporterMessage
         (NativeTokenSourceTransactorSession_Contract ss)
       (NativeTokenSourceTransactorSession_TransactOpts ss) senderBlockchainID senderAddress
           message s"

definition NativeTokenSourceTransactor_TransferToDestination ::
  "('s, 'o, 'tx) NativeTokenSourceTransactor \<Rightarrow> 'o \<Rightarrow> address \<Rightarrow> Go_TeleporterFeeInfo \<Rightarrow> address list
      \<Rightarrow> 's
    \<Rightarrow> go_error + ('tx \<times> 's)" where
  "NativeTokenSourceTransactor_TransferToDestination c opts recipient feeInfo
      allowedRelayerAddresses s =
     bc_Transact (NativeTokenSourceTransactor_contract c) opts ''transferToDestination''
       [GAddress recipient, of_TeleporterFeeInfo feeInfo, GSlice (map GAddress
           allowedRelayerAddresses)] s"

definition NativeTokenSourceSession_TransferToDestination ::
  "('s, 'o, 'tx) NativeTokenSourceSession \<Rightarrow> address \<Rightarrow> Go_TeleporterFeeInfo \<Rightarrow> address list \<Rightarrow> 's
    \<Rightarrow> go_error + ('tx \<times> 's)" where
  "NativeTokenSourceSession_TransferToDestination ss recipient feeInfo allowedRelayerAddresses s =
     NativeTokenSourceTransactor_TransferToDestination (NativeTokenSource_Transactor
         (NativeTokenSourceSession_Contract ss))
       (NativeTokenSourceSession_TransactOpts ss) recipient feeInfo allowedRelayerAddresses s"

definition NativeTokenSourceTransactorSession_TransferToDestination ::
  "('s, 'o, 'tx) NativeTokenSourceTransactorSession \<Rightarrow> address \<Rightarrow> Go_TeleporterFeeInfo \<Rightarrow> address
      list \<Rightarrow> 's
    \<Rightarrow> go_error + ('tx \<times> 's)" where
  "NativeTokenSourceTransactorSession_TransferToDestination ss recipient feeInfo
      allowedRelayerAddresses s =
     NativeTokenSourceTransactor_TransferToDestination
         (NativeTokenSourceTransactorSession_Contract ss)
       (NativeTokenSourceTransactorSession_TransactOpts ss) recipient feeInfo
           allowedRelayerAddresses s"

subsection \<open>Events\<close>

text \<open>The event \<open>BurnTokens\<close>.\<close>

record NativeTokenSourceBurnTokens =
  NativeTokenSourceBurnTokens_Amount :: int
  NativeTokenSourceBurnTokens_Raw :: log

definition filled_NativeTokenSourceBurnTokens :: "go_value \<Rightarrow> log \<Rightarrow> NativeTokenSourceBurnTokens"
    where
  "filled_NativeTokenSourceBurnTokens v raw =
     \<lparr>NativeTokenSourceBurnTokens_Amount = filled as_bigint TBigInt v 0,
       NativeTokenSourceBurnTokens_Raw = raw\<rparr>"

definition unpack_NativeTokenSourceBurnTokens ::
  "('s, 'o, 'tx) bound_contract \<Rightarrow> string \<Rightarrow> log \<Rightarrow> go_error + NativeTokenSourceBurnTokens" where
  "unpack_NativeTokenSourceBurnTokens c event raw =
     bindE (bc_UnpackLog c (TStruct ''NativeTokenSourceBurnTokens'' [TBigInt]) event raw) (\<lambda>v.
     Inr (filled_NativeTokenSourceBurnTokens v raw))"

definition NativeTokenSourceBurnTokensIterator_Next ::
  "('s, 'o, 'tx) bound_contract \<Rightarrow> bool \<Rightarrow> NativeTokenSourceBurnTokens iterator \<Rightarrow>
      NativeTokenSourceBurnTokens next_result" where
  "NativeTokenSourceBurnTokensIterator_Next c = iterator_Next (unpack_NativeTokenSourceBurnTokens
      c)"

definition NativeTokenSourceBurnTokensIterator_Error ::
  "NativeTokenSourceBurnTokens iterator \<Rightarrow> go_error option" where
  "NativeTokenSourceBurnTokensIterator_Error = iterator_Error"

definition NativeTokenSourceBurnTokensIterator_Close ::
  "NativeTokenSourceBurnTokens iterator \<Rightarrow> go_error option \<times> NativeTokenSourceBurnTokens iterator"
      where
  "NativeTokenSourceBurnTokensIterator_Close = iterator_Close"

definition NativeTokenSourceFilterer_FilterBurnTokens ::
  "('s, 'o, 'tx) NativeTokenSourceFilterer \<Rightarrow> 'o \<Rightarrow> 's
    \<Rightarrow> go_error + NativeTokenSourceBurnTokens iterator" where
  "NativeTokenSourceFilterer_FilterBurnTokens c opts s =
     bindE (bc_FilterLogs (NativeTokenSourceFilterer_contract c) opts ''BurnTokens'' [] s)
         (\<lambda>stream.
     Inr (new_iterator ''BurnTokens'' stream))"

definition NativeTokenSourceFilterer_WatchBurnTokens ::
  "('s, 'o, 'tx) NativeTokenSourceFilterer \<Rightarrow> 'o \<Rightarrow> 's
    \<Rightarrow> go_error + NativeTokenSourceBurnTokens watcher" where
  "NativeTokenSourceFilterer_WatchBurnTokens c opts s =
     bindE (bc_WatchLogs (NativeTokenSourceFilterer_contract c) opts ''BurnTokens'' [] s)
         (\<lambda>stream.
     Inr (new_watcher (unpack_NativeTokenSourceBurnTokens (NativeTokenSourceFilterer_contract c)
         ''BurnTokens'') stream))"

definition NativeTokenSourceFilterer_ParseBurnTokens ::
  "('s, 'o, 'tx) NativeTokenSourceFilterer \<Rightarrow> log \<Rightarrow> go_error + NativeTokenSourceBurnTokens" where
  "NativeTokenSourceFilterer_ParseBurnTokens c raw = unpack_NativeTokenSourceBurnTokens
      (NativeTokenSourceFilterer_contract c) ''BurnTokens'' raw"

text \<open>The event \<open>TransferToDestination\<close>.\<close>

record NativeTokenSourceTransferToDestination =
  NativeTokenSourceTransferToDestination_Sender :: address
  NativeTokenSourceTransferToDestination_Recipient :: address
  NativeTokenSourceTransferToDestination_TeleporterMessageID :: int
  NativeTokenSourceTransferToDestination_Amount :: int
  NativeTokenSourceTransferToDestination_Raw :: log

definition filled_NativeTokenSourceTransferToDestination :: "go_value \<Rightarrow> log \<Rightarrow>
    NativeTokenSourceTransferToDestination" where
  "filled_NativeTokenSourceTransferToDestination v raw =
     \<lparr>NativeTokenSourceTransferToDestination_Sender = filled as_address TAddress v 0,
       NativeTokenSourceTransferToDestination_Recipient = filled as_address TAddress v 1,
       NativeTokenSourceTransferToDestination_TeleporterMessageID = filled as_bigint TBigInt v 2,
       NativeTokenSourceTransferToDestination_Amount = filled as_bigint TBigInt v 3,
       NativeTokenSourceTransferToDestination_Raw = raw\<rparr>"

definition unpack_NativeTokenSourceTransferToDestination ::
  "('s, 'o, 'tx) bound_contract \<Rightarrow> string \<Rightarrow> log \<Rightarrow> go_error +
      NativeTokenSourceTransferToDestination" where
  "unpack_NativeTokenSourceTransferToDestination c event raw =
     bindE (bc_UnpackLog c (TStruct ''NativeTokenSourceTransferToDestination'' [TAddress,
         TAddress, TBigInt, TBigInt]) event raw) (\<lambda>v.
     Inr (filled_NativeTokenSourceTransferToDestination v raw))"

definition NativeTokenSourceTransferToDestinationIterator_Next ::
  "('s, 'o, 'tx) bound_contract \<Rightarrow> bool \<Rightarrow> NativeTokenSourceTransferToDestination iterator \<Rightarrow>
      NativeTokenSourceTransferToDestination next_result" where
  "NativeTokenSourceTransferToDestinationIterator_Next c = iterator_Next
      (unpack_NativeTokenSourceTransferToDestination c)"

definition NativeTokenSourceTransferToDestinationIterator_Error ::
  "NativeTokenSourceTransferToDestination iterator \<Rightarrow> go_error option" where
  "NativeTokenSourceTransferToDestinationIterator_Error = iterator_Error"

definition NativeTokenSourceTransferToDestinationIterator_Close ::
  "NativeTokenSourceTransferToDestination iterator \<Rightarrow> go_error option \<times>
      NativeTokenSourceTransferToDestination iterator" where
  "NativeTokenSourceTransferToDestinationIterator_Close = iterator_Close"

definition NativeTokenSourceFilterer_FilterTransferToDestination ::
  "('s, 'o, 'tx) NativeTokenSourceFilterer \<Rightarrow> 'o \<Rightarrow> address list \<Rightarrow> address list \<Rightarrow> int list \<Rightarrow> 's
    \<Rightarrow> go_error + NativeTokenSourceTransferToDestination iterator" where
  "NativeTokenSourceFilterer_FilterTransferToDestination c opts sender recipient
      teleporterMessageID s =
     bindE (bc_FilterLogs (NativeTokenSourceFilterer_contract c) opts ''TransferToDestination''
         [map GAddress sender, map GAddress recipient, map GBigInt teleporterMessageID] s)
         (\<lambda>stream.
     Inr (new_iterator ''TransferToDestination'' stream))"

definition NativeTokenSourceFilterer_WatchTransferToDestination ::
  "('s, 'o, 'tx) NativeTokenSourceFilterer \<Rightarrow> 'o \<Rightarrow> address list \<Rightarrow> address list \<Rightarrow> int list \<Rightarrow> 's
    \<Rightarrow> go_error + NativeTokenSourceTransferToDestination watcher" where
  "NativeTokenSourceFilterer_WatchTransferToDestination c opts sender recipient
      teleporterMessageID s =
     bindE (bc_WatchLogs (NativeTokenSourceFilterer_contract c) opts ''TransferToDestination''
         [map GAddress sender, map GAddress recipient, map GBigInt teleporterMessageID] s)
         (\<lambda>stream.
     Inr (new_watcher (unpack_NativeTokenSourceTransferToDestination
         (NativeTokenSourceFilterer_contract c) ''TransferToDestination'') stream))"

definition NativeTokenSourceFilterer_ParseTransferToDestination ::
  "('s, 'o, 'tx) NativeTokenSourceFilterer \<Rightarrow> log \<Rightarrow> go_error +
      NativeTokenSourceTransferToDestination" where
  "NativeTokenSourceFilterer_ParseTransferToDestination c raw =
      unpack_NativeTokenSourceTransferToDestination (NativeTokenSourceFilterer_contract c)
      ''TransferToDestination'' raw"

text \<open>The event \<open>UnlockTokens\<close>.\<close>

record NativeTokenSourceUnlockTokens =
  NativeTokenSourceUnlockTokens_Recipient :: address
  NativeTokenSourceUnlockTokens_Amount :: int
  NativeTokenSourceUnlockTokens_Raw :: log

definition filled_NativeTokenSourceUnlockTokens :: "go_value \<Rightarrow> log \<Rightarrow>
    NativeTokenSourceUnlockTokens" where
  "filled_NativeTokenSourceUnlockTokens v raw =
     \<lparr>NativeTokenSourceUnlockTokens_Recipient = filled as_address TAddress v 0,
       NativeTokenSourceUnlockTokens_Amount = filled as_bigint TBigInt v 1,
       NativeTokenSourceUnlockTokens_Raw = raw\<rparr>"

definition unpack_NativeTokenSourceUnlockTokens ::
  "('s, 'o, 'tx) bound_contract \<Rightarrow> string \<Rightarrow> log \<Rightarrow> go_error + NativeTokenSourceUnlockTokens" where
  "unpack_NativeTokenSourceUnlockTokens c event raw =
     bindE (bc_UnpackLog c (TStruct ''NativeTokenSourceUnlockTokens'' [TAddress, TBigInt]) event
         raw) (\<lambda>v.
     Inr (filled_NativeTokenSourceUnlockTokens v raw))"

definition NativeTokenSourceUnlockTokensIterator_Next ::
  "('s, 'o, 'tx) bound_contract \<Rightarrow> bool \<Rightarrow> NativeTokenSourceUnlockTokens iterator \<Rightarrow>
      NativeTokenSourceUnlockTokens next_result" where
  "NativeTokenSourceUnlockTokensIterator_Next c = iterator_Next
      (unpack_NativeTokenSourceUnlockTokens c)"

definition NativeTokenSourceUnlockTokensIterator_Error ::
  "NativeTokenSourceUnlockTokens iterator \<Rightarrow> go_error option" where
  "NativeTokenSourceUnlockTokensIterator_Error = iterator_Error"

definition NativeTokenSourceUnlockTokensIterator_Close ::
  "NativeTokenSourceUnlockTokens iterator \<Rightarrow> go_error option \<times> NativeTokenSourceUnlockTokens
      iterator" where
  "NativeTokenSourceUnlockTokensIterator_Close = iterator_Close"

definition NativeTokenSourceFilterer_FilterUnlockTokens ::
  "('s, 'o, 'tx) NativeTokenSourceFilterer \<Rightarrow> 'o \<Rightarrow> 's
    \<Rightarrow> go_error + NativeTokenSourceUnlockTokens iterator" where
  "NativeTokenSourceFilterer_FilterUnlockTokens c opts s =
     bindE (bc_FilterLogs (NativeTokenSourceFilterer_contract c) opts ''UnlockTokens'' [] s)
         (\<lambda>stream.
     Inr (new_iterator ''UnlockTokens'' stream))"

definition NativeTokenSourceFilterer_WatchUnlockTokens ::
  "('s, 'o, 'tx) NativeTokenSourceFilterer \<Rightarrow> 'o \<Rightarrow> 's
    \<Rightarrow> go_error + NativeTokenSourceUnlockTokens watcher" where
  "NativeTokenSourceFilterer_WatchUnlockTokens c opts s =
     bindE (bc_WatchLogs (NativeTokenSourceFilterer_contract c) opts ''UnlockTokens'' [] s)
         (\<lambda>stream.
     Inr (new_watcher (unpack_NativeTokenSourceUnlockTokens (NativeTokenSourceFilterer_contract
         c) ''UnlockTokens'') stream))"

definition NativeTokenSourceFilterer_ParseUnlockTokens ::
  "('s, 'o, 'tx) NativeTokenSourceFilterer \<Rightarrow> log \<Rightarrow> go_error + NativeTokenSourceUnlockTokens" where
  "NativeTokenSourceFilterer_ParseUnlockTokens c raw = unpack_NativeTokenSourceUnlockTokens
      (NativeTokenSourceFilterer_contract c) ''UnlockTokens'' raw"

end
