(* ===== verification/Bind_NativeTokenDestination.thy ===== *)
theory Bind_NativeTokenDestination
  imports Go_Bind
begin

section \<open>The Go binding of NativeTokenDestination\<close>

text \<open>
  One definition per type and function of
  \<open>abi-bindings/go/CrossChainApplications/NativeTokenBridge/NativeTokenDestination/NativeTokenDestination.go\<close>,
  in the order of the file: structs, the ABI of the metadata, the facets of the bound contract, the
  read-only methods, the transactions, and for each event its struct, iterator, filter,
  subscription and parser. The option structs, the chain and the library are parameters.
\<close>

subsection \<open>Structs\<close>

record Go_TeleporterFeeInfo =
  Go_TeleporterFeeInfo_FeeTokenAddress :: address
  Go_TeleporterFeeInfo_Amount :: int

definition T_TeleporterFeeInfo :: go_type where
  "T_TeleporterFeeInfo = TStruct ''TeleporterFeeInfo'' [TAddress, TBigInt]"

definition of_TeleporterFeeInfo :: "Go_TeleporterFeeInfo \<Rightarrow> go_value" where
  "of_TeleporterFeeInfo x = GStruct ''TeleporterFeeInfo''
     [GAddress (Go_TeleporterFeeInfo_FeeTokenAddress x),
      GBigInt (Go_TeleporterFeeInfo_Amount x)]"

definition as_TeleporterFeeInfo :: "go_value \<Rightarrow> go_error + Go_TeleporterFeeInfo" where
  "as_TeleporterFeeInfo v =
     bindE (as_struct ''TeleporterFeeInfo'' v) (\<lambda>vs.
     bindE (bindE (go_index vs 0) as_address) (\<lambda>x0.
     bindE (bindE (go_index vs 1) as_bigint) (\<lambda>x1.
     Inr \<lparr>Go_TeleporterFeeInfo_FeeTokenAddress = x0,
       Go_TeleporterFeeInfo_Amount = x1\<rparr>)))"

subsection \<open>The ABI\<close>

definition NativeTokenDestinationMetaData :: abi_meta where
  "NativeTokenDestinationMetaData =
     \<lparr>meta_name = ''NativeTokenDestination'',
      meta_constructor = [TAddress, TBytes32, TAddress, TBigInt],
      meta_methods = [
        (''BURNED_TX_FEES_ADDRESS'', [], [TAddress]),
        (''BURN_FOR_TRANSFER_ADDRESS'', [], [TAddress]),
        (''REPORT_BURNED_TOKENS_REQUIRED_GAS'', [], [TBigInt]),
        (''TRANSFER_NATIVE_TOKENS_REQUIRED_GAS'', [], [TBigInt]),
        (''currentReserveImbalance'', [], [TBigInt]),
        (''initialReserveImbalance'', [], [TBigInt]),
        (''isCollateralized'', [], [TBool]),
        (''nativeTokenSourceAddress'', [], [TAddress]),
        (''receiveTeleporterMessage'', [TBytes32, TAddress, TBytes], []),
        (''reportTotalBurnedTxFees'', [TStruct [] [TAddress, TBigInt], TSlice TAddress], []),
        (''sourceBlockchainID'', [], [TBytes32]),
        (''teleporterMessenger'', [], [TAddress]),
        (''totalMinted'', [], [TBigInt]),
        (''totalSupply'', [], [TBigInt]),
        (''transferToSource'', [TAddress, TStruct [] [TAddress, TBigInt], TSlice TAddress], [])],
      meta_events = [
        (''CollateralAdded'', [(TBigInt, False), (TBigInt, False)]),
        (''NativeTokensMinted'', [(TAddress, True), (TBigInt, False)]),
        (''ReportTotalBurnedTxFees'', [(TBigInt, True), (TBigInt, False)]),
        (''TransferToSource'', [(TAddress, True), (TAddress, True), (TBigInt, True), (TBigInt,
            False)])]\<rparr>"

subsection \<open>The bound contract and its facets\<close>

record ('s, 'o, 'tx) NativeTokenDestinationCaller =
  NativeTokenDestinationCaller_contract :: "('s, 'o, 'tx) bound_contract"

record ('s, 'o, 'tx) NativeTokenDestinationTransactor =
  NativeTokenDestinationTransactor_contract :: "('s, 'o, 'tx) bound_contract"

record ('s, 'o, 'tx) NativeTokenDestinationFilterer =
  NativeTokenDestinationFilterer_contract :: "('s, 'o, 'tx) bound_contract"

record ('s, 'o, 'tx) NativeTokenDestination =
  NativeTokenDestination_Caller :: "('s, 'o, 'tx) NativeTokenDestinationCaller"
  NativeTokenDestination_Transactor :: "('s, 'o, 'tx) NativeTokenDestinationTransactor"
  NativeTokenDestination_Filterer :: "('s, 'o, 'tx) NativeTokenDestinationFilterer"

record ('s, 'o, 'tx) NativeTokenDestinationSession =
  NativeTokenDestinationSession_Contract :: "('s, 'o, 'tx) NativeTokenDestination"
  NativeTokenDestinationSession_CallOpts :: 'o
  NativeTokenDestinationSession_TransactOpts :: 'o

record ('s, 'o, 'tx) NativeTokenDestinationCallerSession =
  NativeTokenDestinationCallerSession_Contract :: "('s, 'o, 'tx) NativeTokenDestinationCaller"
  NativeTokenDestinationCallerSession_CallOpts :: 'o

record ('s, 'o, 'tx) NativeTokenDestinationTransactorSession =
  NativeTokenDestinationTransactorSession_Contract :: "('s, 'o, 'tx) NativeTokenDestinationTransactor"
  NativeTokenDestinationTransactorSession_TransactOpts :: 'o

record ('s, 'o, 'tx) NativeTokenDestinationRaw =
  NativeTokenDestinationRaw_Contract :: "('s, 'o, 'tx) NativeTokenDestination"

record ('s, 'o, 'tx) NativeTokenDestinationCallerRaw =
  NativeTokenDestinationCallerRaw_Contract :: "('s, 'o, 'tx) NativeTokenDestinationCaller"

record ('s, 'o, 'tx) NativeTokenDestinationTransactorRaw =
  NativeTokenDestinationTransactorRaw_Contract :: "('s, 'o, 'tx) NativeTokenDestinationTransactor"

definition bindNativeTokenDestination ::
  "('s, 'o, 'tx, 'abi, 'k) bind_lib \<Rightarrow> address \<Rightarrow> 'k option \<Rightarrow> 'k option \<Rightarrow> 'k option
    \<Rightarrow> go_error + ('s, 'o, 'tx) bound_contract" where
  "bindNativeTokenDestination lib addr caller transactor filterer =
     bindE (lib_GetAbi lib NativeTokenDestinationMetaData) (\<lambda>parsed.
     case parsed of
       None \<Rightarrow> Inl (GoPanic ''nil pointer dereference'')
     | Some abi \<Rightarrow> Inr (lib_NewBoundContract lib addr abi caller transactor filterer))"

definition DeployNativeTokenDestination ::
  "('s, 'o, 'tx, 'abi, 'k) bind_lib \<Rightarrow> 'o \<Rightarrow> 'k \<Rightarrow> address \<Rightarrow> bytes32 \<Rightarrow> address \<Rightarrow> int \<Rightarrow> 's
    \<Rightarrow> go_error + (address \<times> 'tx \<times> ('s, 'o, 'tx) NativeTokenDestination \<times> 's)" where
  "DeployNativeTokenDestination lib auth backend teleporterMessengerAddress sourceBlockchainID'
      nativeTokenSourceAddress' initialReserveImbalance' s =
     bindE (lib_GetAbi lib NativeTokenDestinationMetaData) (\<lambda>parsed.
     case parsed of
       None \<Rightarrow> Inl (GoError ''GetABI returned nil'')
     | Some abi \<Rightarrow>
         bindE (lib_DeployContract lib auth abi (meta_name NativeTokenDestinationMetaData)
             backend [GAddress teleporterMessengerAddress, GBytes32 sourceBlockchainID', GAddress
             nativeTokenSourceAddress', GBigInt initialReserveImbalance'] s)
         (\<lambda>(addr, tx, c, s').
         Inr (addr, tx, \<lparr>NativeTokenDestination_Caller = \<lparr>NativeTokenDestinationCaller_contract =
             c\<rparr>,
         NativeTokenDestination_Transactor = \<lparr>NativeTokenDestinationTransactor_contract = c\<rparr>,
         NativeTokenDestination_Filterer = \<lparr>NativeTokenDestinationFilterer_contract = c\<rparr>\<rparr>, s')))"

definition NewNativeTokenDestination ::
  "('s, 'o, 'tx, 'abi, 'k) bind_lib \<Rightarrow> address \<Rightarrow> 'k \<Rightarrow> go_error + ('s, 'o, 'tx)
      NativeTokenDestination" where
  "NewNativeTokenDestination lib addr backend =
     bindE (bindNativeTokenDestination lib addr (Some backend) (Some backend) (Some backend)) (\<lambda>c.
     Inr \<lparr>NativeTokenDestination_Caller = \<lparr>NativeTokenDestinationCaller_contract = c\<rparr>,
         NativeTokenDestination_Transactor = \<lparr>NativeTokenDestinationTransactor_contract = c\<rparr>,
         NativeTokenDestination_Filterer = \<lparr>NativeTokenDestinationFilterer_contract = c\<rparr>\<rparr>)"

definition NewNativeTokenDestinationCaller ::
  "('s, 'o, 'tx, 'abi, 'k) bind_lib \<Rightarrow> address \<Rightarrow> 'k \<Rightarrow> go_error + ('s, 'o, 'tx)
      NativeTokenDestinationCaller" where
  "NewNativeTokenDestinationCaller lib addr b =
     bindE (bindNativeTokenDestination lib addr (Some b) None None) (\<lambda>c.
     Inr \<lparr>NativeTokenDestinationCaller_contract = c\<rparr>)"

definition NewNativeTokenDestinationTransactor ::
  "('s, 'o, 'tx, 'abi, 'k) bind_lib \<Rightarrow> address \<Rightarrow> 'k \<Rightarrow> go_error + ('s, 'o, 'tx)
      NativeTokenDestinationTransactor" where
  "NewNativeTokenDestinationTransactor lib addr b =
     bindE (bindNativeTokenDestination lib addr None (Some b) None) (\<lambda>c.
     Inr \<lparr>NativeTokenDestinationTransactor_contract = c\<rparr>)"

definition NewNativeTokenDestinationFilterer ::
  "('s, 'o, 'tx, 'abi, 'k) bind_lib \<Rightarrow> address \<Rightarrow> 'k \<Rightarrow> go_error + ('s, 'o, 'tx)
      NativeTokenDestinationFilterer" where
  "NewNativeTokenDestinationFilterer lib addr b =
     bindE (bindNativeTokenDestination lib addr None None (Some b)) (\<lambda>c.
     Inr \<lparr>NativeTokenDestinationFilterer_contract = c\<rparr>)"

definition NativeTokenDestinationRaw_Call ::
  "('s, 'o, 'tx) NativeTokenDestinationRaw \<Rightarrow> 'o \<Rightarrow> string \<Rightarrow> go_value list \<Rightarrow> 's
    \<Rightarrow> go_error + go_value list" where
  "NativeTokenDestinationRaw_Call r opts method params s =
     bc_Call (NativeTokenDestinationCaller_contract (NativeTokenDestination_Caller
         (NativeTokenDestinationRaw_Contract r))) opts method params s"

definition NativeTokenDestinationRaw_Transfer ::
  "('s, 'o, 'tx) NativeTokenDestinationRaw \<Rightarrow> 'o \<Rightarrow> 's \<Rightarrow> go_error + ('tx \<times> 's)" where
  "NativeTokenDestinationRaw_Transfer r opts s =
     bc_Transfer (NativeTokenDestinationTransactor_contract (NativeTokenDestination_Transactor
         (NativeTokenDestinationRaw_Contract r))) opts s"

definition NativeTokenDestinationRaw_Transact ::
  "('s, 'o, 'tx) NativeTokenDestinationRaw \<Rightarrow> 'o \<Rightarrow> string \<Rightarrow> go_value list \<Rightarrow> 's
    \<Rightarrow> go_error + ('tx \<times> 's)" where
  "NativeTokenDestinationRaw_Transact r opts method params s =
     bc_Transact (NativeTokenDestinationTransactor_contract (NativeTokenDestination_Transactor
         (NativeTokenDestinationRaw_Contract r))) opts method params s"

definition NativeTokenDestinationCallerRaw_Call ::
  "('s, 'o, 'tx) NativeTokenDestinationCallerRaw \<Rightarrow> 'o \<Rightarrow> string \<Rightarrow> go_value list \<Rightarrow> 's
    \<Rightarrow> go_error + go_value list" where
  "NativeTokenDestinationCallerRaw_Call r opts method params s =
     bc_Call (NativeTokenDestinationCaller_contract (NativeTokenDestinationCallerRaw_Contract r))
         opts method params s"

definition NativeTokenDestinationTransactorRaw_Transfer ::
  "('s, 'o, 'tx) NativeTokenDestinationTransactorRaw \<Rightarrow> 'o \<Rightarrow> 's \<Rightarrow> go_error + ('tx \<times> 's)" where
  "NativeTokenDestinationTransactorRaw_Transfer r opts s =
     bc_Transfer (NativeTokenDestinationTransactor_contract
         (NativeTokenDestinationTransactorRaw_Contract r)) opts s"

definition NativeTokenDestinationTransactorRaw_Transact ::
  "('s, 'o, 'tx) NativeTokenDestinationTransactorRaw \<Rightarrow> 'o \<Rightarrow> string \<Rightarrow> go_value list \<Rightarrow> 's
    \<Rightarrow> go_error + ('tx \<times> 's)" where
  "NativeTokenDestinationTransactorRaw_Transact r opts method params s =
     bc_Transact (NativeTokenDestinationTransactor_contract
         (NativeTokenDestinationTransactorRaw_Contract r)) opts method params s"

subsection \<open>Read-only methods\<close>

definition NativeTokenDestinationCaller_BURNEDTXFEESADDRESS ::
  "('s, 'o, 'tx) NativeTokenDestinationCaller \<Rightarrow> 'o \<Rightarrow> 's
    \<Rightarrow> go_error + address" where
  "NativeTokenDestinationCaller_BURNEDTXFEESADDRESS c opts s =
     bindE (bc_Call (NativeTokenDestinationCaller_contract c) opts ''BURNED_TX_FEES_ADDRESS'' []
         s) (\<lambda>out.
     bindE (go_out (NativeTokenDestinationCaller_contract c) out 0 TAddress as_address) (\<lambda>out0.
     Inr out0))"

definition NativeTokenDestinationSession_BURNEDTXFEESADDRESS ::
  "('s, 'o, 'tx) NativeTokenDestinationSession \<Rightarrow> 's
    \<Rightarrow> go_error + address" where
  "NativeTokenDestinationSession_BURNEDTXFEESADDRESS ss s =
     NativeTokenDestinationCaller_BURNEDTXFEESADDRESS (NativeTokenDestination_Caller
         (NativeTokenDestinationSession_Contract ss))
       (NativeTokenDestinationSession_CallOpts ss) s"

definition NativeTokenDestinationCallerSession_BURNEDTXFEESADDRESS ::
  "('s, 'o, 'tx) NativeTokenDestinationCallerSession \<Rightarrow> 's
    \<Rightarrow> go_error + address" where
  "NativeTokenDestinationCallerSession_BURNEDTXFEESADDRESS ss s =
     NativeTokenDestinationCaller_BURNEDTXFEESADDRESS
         (NativeTokenDestinationCallerSession_Contract ss)
       (NativeTokenDestinationCallerSession_CallOpts ss) s"

definition NativeTokenDestinationCaller_BURNFORTRANSFERADDRESS ::
  "('s, 'o, 'tx) NativeTokenDestinationCaller \<Rightarrow> 'o \<Rightarrow> 's
    \<Rightarrow> go_error + address" where
  "NativeTokenDestinationCaller_BURNFORTRANSFERADDRESS c opts s =
     bindE (bc_Call (NativeTokenDestinationCaller_contract c) opts ''BURN_FOR_TRANSFER_ADDRESS''
         [] s) (\<lambda>out.
     bindE (go_out (NativeTokenDestinationCaller_contract c) out 0 TAddress as_address) (\<lambda>out0.
     Inr out0))"

definition NativeTokenDestinationSession_BURNFORTRANSFERADDRESS ::
  "('s, 'o, 'tx) NativeTokenDestinationSession \<Rightarrow> 's
    \<Rightarrow> go_error + address" where
  "NativeTokenDestinationSession_BURNFORTRANSFERADDRESS ss s =
     NativeTokenDestinationCaller_BURNFORTRANSFERADDRESS (NativeTokenDestination_Caller
         (NativeTokenDestinationSession_Contract ss))
       (NativeTokenDestinationSession_CallOpts ss) s"

definition NativeTokenDestinationCallerSession_BURNFORTRANSFERADDRESS ::
  "('s, 'o, 'tx) NativeTokenDestinationCallerSession \<Rightarrow> 's
    \<Rightarrow> go_error + address" where
  "NativeTokenDestinationCallerSession_BURNFORTRANSFERADDRESS ss s =
     NativeTokenDestinationCaller_BURNFORTRANSFERADDRESS
         (NativeTokenDestinationCallerSession_Contract ss)
       (NativeTokenDestinationCallerSession_CallOpts ss) s"

definition NativeTokenDestinationCaller_REPORTBURNEDTOKENSREQUIREDGAS ::
  "('s, 'o, 'tx) NativeTokenDestinationCaller \<Rightarrow> 'o \<Rightarrow> 's
    \<Rightarrow> go_error + int" where
  "NativeTokenDestinationCaller_REPORTBURNEDTOKENSREQUIREDGAS c opts s =
     bindE (bc_Call (NativeTokenDestinationCaller_contract c) opts
         ''REPORT_BURNED_TOKENS_REQUIRED_GAS'' [] s) (\<lambda>out.
     bindE (go_out (NativeTokenDestinationCaller_contract c) out 0 TBigInt as_bigint) (\<lambda>out0.
     Inr out0))"

definition NativeTokenDestinationSession_REPORTBURNEDTOKENSREQUIREDGAS ::
  "('s, 'o, 'tx) NativeTokenDestinationSession \<Rightarrow> 's
    \<Rightarrow> go_error + int" where
  "NativeTokenDestinationSession_REPORTBURNEDTOKENSREQUIREDGAS ss s =
     NativeTokenDestinationCaller_REPORTBURNEDTOKENSREQUIREDGAS (NativeTokenDestination_Caller
         (NativeTokenDestinationSession_Contract ss))
       (NativeTokenDestinationSession_CallOpts ss) s"

definition NativeTokenDestinationCallerSession_REPORTBURNEDTOKENSREQUIREDGAS ::
  "('s, 'o, 'tx) NativeTokenDestinationCallerSession \<Rightarrow> 's
    \<Rightarrow> go_error + int" where
  "NativeTokenDestinationCallerSession_REPORTBURNEDTOKENSREQUIREDGAS ss s =
     NativeTokenDestinationCaller_REPORTBURNEDTOKENSREQUIREDGAS
         (NativeTokenDestinationCallerSession_Contract ss)
       (NativeTokenDestinationCallerSession_CallOpts ss) s"

definition NativeTokenDestinationCaller_TRANSFERNATIVETOKENSREQUIREDGAS ::
  "('s, 'o, 'tx) NativeTokenDestinationCaller \<Rightarrow> 'o \<Rightarrow> 's
    \<Rightarrow> go_error + int" where
  "NativeTokenDestinationCaller_TRANSFERNATIVETOKENSREQUIREDGAS c opts s =
     bindE (bc_Call (NativeTokenDestinationCaller_contract c) opts
         ''TRANSFER_NATIVE_TOKENS_REQUIRED_GAS'' [] s) (\<lambda>out.
     bindE (go_out (NativeTokenDestinationCaller_contract c) out 0 TBigInt as_bigint) (\<lambda>out0.
     Inr out0))"

definition NativeTokenDestinationSession_TRANSFERNATIVETOKENSREQUIREDGAS ::
  "('s, 'o, 'tx) NativeTokenDestinationSession \<Rightarrow> 's
    \<Rightarrow> go_error + int" where
  "NativeTokenDestinationSession_TRANSFERNATIVETOKENSREQUIREDGAS ss s =
     NativeTokenDestinationCaller_TRANSFERNATIVETOKENSREQUIREDGAS (NativeTokenDestination_Caller
         (NativeTokenDestinationSession_Contract ss))
       (NativeTokenDestinationSession_CallOpts ss) s"

definition NativeTokenDestinationCallerSession_TRANSFERNATIVETOKENSREQUIREDGAS ::
  "('s, 'o, 'tx) NativeTokenDestinationCallerSession \<Rightarrow> 's
    \<Rightarrow> go_error + int" where
  "NativeTokenDestinationCallerSession_TRANSFERNATIVETOKENSREQUIREDGAS ss s =
     NativeTokenDestinationCaller_TRANSFERNATIVETOKENSREQUIREDGAS
         (NativeTokenDestinationCallerSession_Contract ss)
       (NativeTokenDestinationCallerSession_CallOpts ss) s"

definition NativeTokenDestinationCaller_CurrentReserveImbalance ::
  "('s, 'o, 'tx) NativeTokenDestinationCaller \<Rightarrow> 'o \<Rightarrow> 's
    \<Rightarrow> go_error + int" where
  "NativeTokenDestinationCaller_CurrentReserveImbalance c opts s =
     bindE (bc_Call (NativeTokenDestinationCaller_contract c) opts ''currentReserveImbalance'' []
         s) (\<lambda>out.
     bindE (go_out (NativeTokenDestinationCaller_contract c) out 0 TBigInt as_bigint) (\<lambda>out0.
     Inr out0))"

definition NativeTokenDestinationSession_CurrentReserveImbalance ::
  "('s, 'o, 'tx) NativeTokenDestinationSession \<Rightarrow> 's
    \<Rightarrow> go_error + int" where
  "NativeTokenDestinationSession_CurrentReserveImbalance ss s =
     NativeTokenDestinationCaller_CurrentReserveImbalance (NativeTokenDestination_Caller
         (NativeTokenDestinationSession_Contract ss))
       (NativeTokenDestinationSession_CallOpts ss) s"

definition NativeTokenDestinationCallerSession_CurrentReserveImbalance ::
  "('s, 'o, 'tx) NativeTokenDestinationCallerSession \<Rightarrow> 's
    \<Rightarrow> go_error + int" where
  "NativeTokenDestinationCallerSession_CurrentReserveImbalance ss s =
     NativeTokenDestinationCaller_CurrentReserveImbalance
         (NativeTokenDestinationCallerSession_Contract ss)
       (NativeTokenDestinationCallerSession_CallOpts ss) s"

definition NativeTokenDestinationCaller_InitialReserveImbalance ::
  "('s, 'o, 'tx) NativeTokenDestinationCaller \<Rightarrow> 'o \<Rightarrow> 's
    \<Rightarrow> go_error + int" where
  "NativeTokenDestinationCaller_InitialReserveImbalance c opts s =
     bindE (bc_Call (NativeTokenDestinationCaller_contract c) opts ''initialReserveImbalance'' []
         s) (\<lambda>out.
     bindE (go_out (NativeTokenDestinationCaller_contract c) out 0 TBigInt as_bigint) (\<lambda>out0.
     Inr out0))"

definition NativeTokenDestinationSession_InitialReserveImbalance ::
  "('s, 'o, 'tx) NativeTokenDestinationSession \<Rightarrow> 's
    \<Rightarrow> go_error + int" where
  "NativeTokenDestinationSession_InitialReserveImbalance ss s =
     NativeTokenDestinationCaller_InitialReserveImbalance (NativeTokenDestination_Caller
         (NativeTokenDestinationSession_Contract ss))
       (NativeTokenDestinationSession_CallOpts ss) s"

definition NativeTokenDestinationCallerSession_InitialReserveImbalance ::
  "('s, 'o, 'tx) NativeTokenDestinationCallerSession \<Rightarrow> 's
    \<Rightarrow> go_error + int" where
  "NativeTokenDestinationCallerSession_InitialReserveImbalance ss s =
     NativeTokenDestinationCaller_InitialReserveImbalance
         (NativeTokenDestinationCallerSession_Contract ss)
       (NativeTokenDestinationCallerSession_CallOpts ss) s"

definition NativeTokenDestinationCaller_IsCollateralized ::
  "('s, 'o, 'tx) NativeTokenDestinationCaller \<Rightarrow> 'o \<Rightarrow> 's
    \<Rightarrow> go_error + bool" where
  "NativeTokenDestinationCaller_IsCollateralized c opts s =
     bindE (bc_Call (NativeTokenDestinationCaller_contract c) opts ''isCollateralized'' [] s)
         (\<lambda>out.
     bindE (go_out (NativeTokenDestinationCaller_contract c) out 0 TBool as_bool) (\<lambda>out0.
     Inr out0))"

definition NativeTokenDestinationSession_IsCollateralized ::
  "('s, 'o, 'tx) NativeTokenDestinationSession \<Rightarrow> 's
    \<Rightarrow> go_error + bool" where
  "NativeTokenDestinationSession_IsCollateralized ss s =
     NativeTokenDestinationCaller_IsCollateralized (NativeTokenDestination_Caller
         (NativeTokenDestinationSession_Contract ss))
       (NativeTokenDestinationSession_CallOpts ss) s"

definition NativeTokenDestinationCallerSession_IsCollateralized ::
  "('s, 'o, 'tx) NativeTokenDestinationCallerSession \<Rightarrow> 's
    \<Rightarrow> go_error + bool" where
  "NativeTokenDestinationCallerSession_IsCollateralized ss s =
     NativeTokenDestinationCaller_IsCollateralized (NativeTokenDestinationCallerSession_Contract
         ss)
       (NativeTokenDestinationCallerSession_CallOpts ss) s"

definition NativeTokenDestinationCaller_NativeTokenSourceAddress ::
  "('s, 'o, 'tx) NativeTokenDestinationCaller \<Rightarrow> 'o \<Rightarrow> 's
    \<Rightarrow> go_error + address" where
  "NativeTokenDestinationCaller_NativeTokenSourceAddress c opts s =
     bindE (bc_Call (NativeTokenDestinationCaller_contract c) opts ''nativeTokenSourceAddress''
         [] s) (\<lambda>out.
     bindE (go_out (NativeTokenDestinationCaller_contract c) out 0 TAddress as_address) (\<lambda>out0.
     Inr out0))"

definition NativeTokenDestinationSession_NativeTokenSourceAddress ::
  "('s, 'o, 'tx) NativeTokenDestinationSession \<Rightarrow> 's
    \<Rightarrow> go_error + address" where
  "NativeTokenDestinationSession_NativeTokenSourceAddress ss s =
     NativeTokenDestinationCaller_NativeTokenSourceAddress (NativeTokenDestination_Caller
         (NativeTokenDestinationSession_Contract ss))
       (NativeTokenDestinationSession_CallOpts ss) s"

definition NativeTokenDestinationCallerSession_NativeTokenSourceAddress ::
  "('s, 'o, 'tx) NativeTokenDestinationCallerSession \<Rightarrow> 's
    \<Rightarrow> go_error + address" where
  "NativeTokenDestinationCallerSession_NativeTokenSourceAddress ss s =
     NativeTokenDestinationCaller_NativeTokenSourceAddress
         (NativeTokenDestinationCallerSession_Contract ss)
       (NativeTokenDestinationCallerSession_CallOpts ss) s"

definition NativeTokenDestinationCaller_SourceBlockchainID ::
  "('s, 'o, 'tx) NativeTokenDestinationCaller \<Rightarrow> 'o \<Rightarrow> 's
    \<Rightarrow> go_error + bytes32" where
  "NativeTokenDestinationCaller_SourceBlockchainID c opts s =
     bindE (bc_Call (NativeTokenDestinationCaller_contract c) opts ''sourceBlockchainID'' [] s)
         (\<lambda>out.
     bindE (go_out (NativeTokenDestinationCaller_contract c) out 0 TBytes32 as_bytes32) (\<lambda>out0.
     Inr out0))"

definition NativeTokenDestinationSession_SourceBlockchainID ::
  "('s, 'o, 'tx) NativeTokenDestinationSession \<Rightarrow> 's
    \<Rightarrow> go_error + bytes32" where
  "NativeTokenDestinationSession_SourceBlockchainID ss s =
     NativeTokenDestinationCaller_SourceBlockchainID (NativeTokenDestination_Caller
         (NativeTokenDestinationSession_Contract ss))
       (NativeTokenDestinationSession_CallOpts ss) s"

definition NativeTokenDestinationCallerSession_SourceBlockchainID ::
  "('s, 'o, 'tx) NativeTokenDestinationCallerSession \<Rightarrow> 's
    \<Rightarrow> go_error + bytes32" where
  "NativeTokenDestinationCallerSession_SourceBlockchainID ss s =
     NativeTokenDestinationCaller_SourceBlockchainID
         (NativeTokenDestinationCallerSession_Contract ss)
       (NativeTokenDestinationCallerSession_CallOpts ss) s"

definition NativeTokenDestinationCaller_TeleporterMessenger ::
  "('s, 'o, 'tx) NativeTokenDestinationCaller \<Rightarrow> 'o \<Rightarrow> 's
    \<Rightarrow> go_error + address" where
  "NativeTokenDestinationCaller_TeleporterMessenger c opts s =
     bindE (bc_Call (NativeTokenDestinationCaller_contract c) opts ''teleporterMessenger'' [] s)
         (\<lambda>out.
     bindE (go_out (NativeTokenDestinationCaller_contract c) out 0 TAddress as_address) (\<lambda>out0.
     Inr out0))"

definition NativeTokenDestinationSession_TeleporterMessenger ::
  "('s, 'o, 'tx) NativeTokenDestinationSession \<Rightarrow> 's
    \<Rightarrow> go_error + address" where
  "NativeTokenDestinationSession_TeleporterMessenger ss s =
     NativeTokenDestinationCaller_TeleporterMessenger (NativeTokenDestination_Caller
         (NativeTokenDestinationSession_Contract ss))
       (NativeTokenDestinationSession_CallOpts ss) s"

definition NativeTokenDestinationCallerSession_TeleporterMessenger ::
  "('s, 'o, 'tx) NativeTokenDestinationCallerSession \<Rightarrow> 's
    \<Rightarrow> go_error + address" where
  "NativeTokenDestinationCallerSession_TeleporterMessenger ss s =
     NativeTokenDestinationCaller_TeleporterMessenger
         (NativeTokenDestinationCallerSession_Contract ss)
       (NativeTokenDestinationCallerSession_CallOpts ss) s"

definition NativeTokenDestinationCaller_TotalMinted ::
  "('s, 'o, 'tx) NativeTokenDestinationCaller \<Rightarrow> 'o \<Rightarrow> 's
    \<Rightarrow> go_error + int" where
  "NativeTokenDestinationCaller_TotalMinted c opts s =
     bindE (bc_Call (NativeTokenDestinationCaller_contract c) opts ''totalMinted'' [] s) (\<lambda>out.
     bindE (go_out (NativeTokenDestinationCaller_contract c) out 0 TBigInt as_bigint) (\<lambda>out0.
     Inr out0))"

definition NativeTokenDestinationSession_TotalMinted ::
  "('s, 'o, 'tx) NativeTokenDestinationSession \<Rightarrow> 's
    \<Rightarrow> go_error + int" where
  "NativeTokenDestinationSession_TotalMinted ss s =
     NativeTokenDestinationCaller_TotalMinted (NativeTokenDestination_Caller
         (NativeTokenDestinationSession_Contract ss))
       (NativeTokenDestinationSession_CallOpts ss) s"

definition NativeTokenDestinationCallerSession_TotalMinted ::
  "('s, 'o, 'tx) NativeTokenDestinationCallerSession \<Rightarrow> 's
    \<Rightarrow> go_error + int" where
  "NativeTokenDestinationCallerSession_TotalMinted ss s =
     NativeTokenDestinationCaller_TotalMinted (NativeTokenDestinationCallerSession_Contract ss)
       (NativeTokenDestinationCallerSession_CallOpts ss) s"

definition NativeTokenDestinationCaller_TotalSupply ::
  "('s, 'o, 'tx) NativeTokenDestinationCaller \<Rightarrow> 'o \<Rightarrow> 's
    \<Rightarrow> go_error + int" where
  "NativeTokenDestinationCaller_TotalSupply c opts s =
     bindE (bc_Call (NativeTokenDestinationCaller_contract c) opts ''totalSupply'' [] s) (\<lambda>out.
     bindE (go_out (NativeTokenDestinationCaller_contract c) out 0 TBigInt as_bigint) (\<lambda>out0.
     Inr out0))"

definition NativeTokenDestinationSession_TotalSupply ::
  "('s, 'o, 'tx) NativeTokenDestinationSession \<Rightarrow> 's
    \<Rightarrow> go_error + int" where
  "NativeTokenDestinationSession_TotalSupply ss s =
     NativeTokenDestinationCaller_TotalSupply (NativeTokenDestination_Caller
         (NativeTokenDestinationSession_Contract ss))
       (NativeTokenDestinationSession_CallOpts ss) s"

definition NativeTokenDestinationCallerSession_TotalSupply ::
  "('s, 'o, 'tx) NativeTokenDestinationCallerSession \<Rightarrow> 's
    \<Rightarrow> go_error + int" where
  "NativeTokenDestinationCallerSession_TotalSupply ss s =
     NativeTokenDestinationCaller_TotalSupply (NativeTokenDestinationCallerSession_Contract ss)
       (NativeTokenDestinationCallerSession_CallOpts ss) s"

subsection \<open>Transactions\<close>

definition NativeTokenDestinationTransactor_ReceiveTeleporterMessage ::
  "('s, 'o, 'tx) NativeTokenDestinationTransactor \<Rightarrow> 'o \<Rightarrow> bytes32 \<Rightarrow> address \<Rightarrow> bytes \<Rightarrow> 's
    \<Rightarrow> go_error + ('tx \<times> 's)" where
  "NativeTokenDestinationTransactor_ReceiveTeleporterMessage c opts senderBlockchainID
      senderAddress message s =
     bc_Transact (NativeTokenDestinationTransactor_contract c) opts ''receiveTeleporterMessage''
       [GBytes32 senderBlockchainID, GAddress senderAddress, GBytes message] s"

definition NativeTokenDestinationSession_ReceiveTeleporterMessage ::
  "('s, 'o, 'tx) NativeTokenDestinationSession \<Rightarrow> bytes32 \<Rightarrow> address \<Rightarrow> bytes \<Rightarrow> 's
    \<Rightarrow> go_error + ('tx \<times> 's)" where
  "NativeTokenDestinationSession_ReceiveTeleporterMessage ss senderBlockchainID senderAddress
      message s =
     NativeTokenDestinationTransactor_ReceiveTeleporterMessage (NativeTokenDestination_Transactor
         (NativeTokenDestinationSession_Contract ss))
       (NativeTokenDestinationSession_TransactOpts ss) senderBlockchainID senderAddress message s"

definition NativeTokenDestinationTransactorSession_ReceiveTeleporterMessage ::
  "('s, 'o, 'tx) NativeTokenDestinationTransactorSession \<Rightarrow> bytes32 \<Rightarrow> address \<Rightarrow> bytes \<Rightarrow> 's
    \<Rightarrow> go_error + ('tx \<times> 's)" where
  "NativeTokenDestinationTransactorSession_ReceiveTeleporterMessage ss senderBlockchainID
      senderAddress message s =
     NativeTokenDestinationTransactor_ReceiveTeleporterMessage
         (NativeTokenDestinationTransactorSession_Contract ss)
       (NativeTokenDestinationTransactorSession_TransactOpts ss) senderBlockchainID senderAddress
           message s"

definition NativeTokenDestinationTransactor_ReportTotalBurnedTxFees ::
  "('s, 'o, 'tx) NativeTokenDestinationTransactor \<Rightarrow> 'o \<Rightarrow> Go_TeleporterFeeInfo \<Rightarrow> address list \<Rightarrow> 's
    \<Rightarrow> go_error + ('tx \<times> 's)" where
  "NativeTokenDestinationTransactor_ReportTotalBurnedTxFees c opts feeInfo
      allowedRelayerAddresses s =
     bc_Transact (NativeTokenDestinationTransactor_contract c) opts ''reportTotalBurnedTxFees''
       [of_TeleporterFeeInfo feeInfo, GSlice (map GAddress allowedRelayerAddresses)] s"

definition NativeTokenDestinationSession_ReportTotalBurnedTxFees ::
  "('s, 'o, 'tx) NativeTokenDestinationSession \<Rightarrow> Go_TeleporterFeeInfo \<Rightarrow> address list \<Rightarrow> 's
    \<Rightarrow> go_error + ('tx \<times> 's)" where
  "NativeTokenDestinationSession_ReportTotalBurnedTxFees ss feeInfo allowedRelayerAddresses s =
     NativeTokenDestinationTransactor_ReportTotalBurnedTxFees (NativeTokenDestination_Transactor
         (NativeTokenDestinationSession_Contract ss))
       (NativeTokenDestinationSession_TransactOpts ss) feeInfo allowedRelayerAddresses s"

definition NativeTokenDestinationTransactorSession_ReportTotalBurnedTxFees ::
  "('s, 'o, 'tx) NativeTokenDestinationTransactorSession \<Rightarrow> Go_TeleporterFeeInfo \<Rightarrow> address list \<Rightarrow>
      's
    \<Rightarrow> go_error + ('tx \<times> 's)" where
  "NativeTokenDestinationTransactorSession_ReportTotalBurnedTxFees ss feeInfo
      allowedRelayerAddresses s =
     NativeTokenDestinationTransactor_ReportTotalBurnedTxFees
         (NativeTokenDestinationTransactorSession_Contract ss)
       (NativeTokenDestinationTransactorSession_TransactOpts ss) feeInfo allowedRelayerAddresses
           s"

definition NativeTokenDestinationTransactor_TransferToSource ::
  "('s, 'o, 'tx) NativeTokenDestinationTransactor \<Rightarrow> 'o \<Rightarrow> address \<Rightarrow> Go_TeleporterFeeInfo \<Rightarrow> address
      list \<Rightarrow> 's
    \<Rightarrow> go_error + ('tx \<times> 's)" where
  "NativeTokenDestinationTransactor_TransferToSource c opts recipient feeInfo
      allowedRelayerAddresses s =
     bc_Transact (NativeTokenDestinationTransactor_contract c) opts ''transferToSource''
       [GAddress recipient, of_TeleporterFeeInfo feeInfo, GSlice (map GAddress
           allowedRelayerAddresses)] s"

definition NativeTokenDestinationSession_TransferToSource ::
  "('s, 'o, 'tx) NativeTokenDestinationSession \<Rightarrow> address \<Rightarrow> Go_TeleporterFeeInfo \<Rightarrow> address list \<Rightarrow>
      's
    \<Rightarrow> go_error + ('tx \<times> 's)" where
  "NativeTokenDestinationSession_TransferToSource ss recipient feeInfo allowedRelayerAddresses s =
     NativeTokenDestinationTransactor_TransferToSource (NativeTokenDestination_Transactor
         (NativeTokenDestinationSession_Contract ss))
       (NativeTokenDestinationSession_TransactOpts ss) recipient feeInfo allowedRelayerAddresses
           s"

definition NativeTokenDestinationTransactorSession_TransferToSource ::
  "('s, 'o, 'tx) NativeTokenDestinationTransactorSession \<Rightarrow> address \<Rightarrow> Go_TeleporterFeeInfo \<Rightarrow>
      address list \<Rightarrow> 's
    \<Rightarrow> go_error + ('tx \<times> 's)" where
  "NativeTokenDestinationTransactorSession_TransferToSource ss recipient feeInfo
      allowedRelayerAddresses s =
     NativeTokenDestinationTransactor_TransferToSource
         (NativeTokenDestinationTransactorSession_Contract ss)
       (NativeTokenDestinationTransactorSession_TransactOpts ss) recipient feeInfo
           allowedRelayerAddresses s"

subsection \<open>Events\<close>

text \<open>The event \<open>CollateralAdded\<close>.\<close>

record NativeTokenDestinationCollateralAdded =
  NativeTokenDestinationCollateralAdded_Amount :: int
  NativeTokenDestinationCollateralAdded_Remaining :: int
  NativeTokenDestinationCollateralAdded_Raw :: log

definition filled_NativeTokenDestinationCollateralAdded :: "go_value \<Rightarrow> log \<Rightarrow>
    NativeTokenDestinationCollateralAdded" where
  "filled_NativeTokenDestinationCollateralAdded v raw =
     \<lparr>NativeTokenDestinationCollateralAdded_Amount = filled as_bigint TBigInt v 0,
       NativeTokenDestinationCollateralAdded_Remaining = filled as_bigint TBigInt v 1,
       NativeTokenDestinationCollateralAdded_Raw = raw\<rparr>"

definition unpack_NativeTokenDestinationCollateralAdded ::
  "('s, 'o, 'tx) bound_contract \<Rightarrow> string \<Rightarrow> log \<Rightarrow> go_error +
      NativeTokenDestinationCollateralAdded" where
  "unpack_NativeTokenDestinationCollateralAdded c event raw =
     bindE (bc_UnpackLog c (TStruct ''NativeTokenDestinationCollateralAdded'' [TBigInt, TBigInt])
         event raw) (\<lambda>v.
     Inr (filled_NativeTokenDestinationCollateralAdded v raw))"

definition NativeTokenDestinationCollateralAddedIterator_Next ::
  "('s, 'o, 'tx) bound_contract \<Rightarrow> bool \<Rightarrow> NativeTokenDestinationCollateralAdded iterator \<Rightarrow>
      NativeTokenDestinationCollateralAdded next_result" where
  "NativeTokenDestinationCollateralAddedIterator_Next c = iterator_Next
      (unpack_NativeTokenDestinationCollateralAdded c)"

definition NativeTokenDestinationCollateralAddedIterator_Error ::
  "NativeTokenDestinationCollateralAdded iterator \<Rightarrow> go_error option" where
  "NativeTokenDestinationCollateralAddedIterator_Error = iterator_Error"

definition NativeTokenDestinationCollateralAddedIterator_Close ::
  "NativeTokenDestinationCollateralAdded iterator \<Rightarrow> go_error option \<times>
      NativeTokenDestinationCollateralAdded iterator" where
  "NativeTokenDestinationCollateralAddedIterator_Close = iterator_Close"

definition NativeTokenDestinationFilterer_FilterCollateralAdded ::
  "('s, 'o, 'tx) NativeTokenDestinationFilterer \<Rightarrow> 'o \<Rightarrow> 's
    \<Rightarrow> go_error + NativeTokenDestinationCollateralAdded iterator" where
  "NativeTokenDestinationFilterer_FilterCollateralAdded c opts s =
     bindE (bc_FilterLogs (NativeTokenDestinationFilterer_contract c) opts ''CollateralAdded'' []
         s) (\<lambda>stream.
     Inr (new_iterator ''CollateralAdded'' stream))"

definition NativeTokenDestinationFilterer_WatchCollateralAdded ::
  "('s, 'o, 'tx) NativeTokenDestinationFilterer \<Rightarrow> 'o \<Rightarrow> 's
    \<Rightarrow> go_error + NativeTokenDestinationCollateralAdded watcher" where
  "NativeTokenDestinationFilterer_WatchCollateralAdded c opts s =
     bindE (bc_WatchLogs (NativeTokenDestinationFilterer_contract c) opts ''CollateralAdded'' []
         s) (\<lambda>stream.
     Inr (new_watcher (unpack_NativeTokenDestinationCollateralAdded
         (NativeTokenDestinationFilterer_contract c) ''CollateralAdded'') stream))"

definition NativeTokenDestinationFilterer_ParseCollateralAdded ::
  "('s, 'o, 'tx) NativeTokenDestinationFilterer \<Rightarrow> log \<Rightarrow> go_error +
      NativeTokenDestinationCollateralAdded" where
  "NativeTokenDestinationFilterer_ParseCollateralAdded c raw =
      unpack_NativeTokenDestinationCollateralAdded (NativeTokenDestinationFilterer_contract c)
      ''CollateralAdded'' raw"

text \<open>The event \<open>NativeTokensMinted\<close>.\<close>

record NativeTokenDestinationNativeTokensMinted =
  NativeTokenDestinationNativeTokensMinted_Recipient :: address
  NativeTokenDestinationNativeTokensMinted_Amount :: int
  NativeTokenDestinationNativeTokensMinted_Raw :: log

definition filled_NativeTokenDestinationNativeTokensMinted :: "go_value \<Rightarrow> log \<Rightarrow>
    NativeTokenDestinationNativeTokensMinted" where
  "filled_NativeTokenDestinationNativeTokensMinted v raw =
     \<lparr>NativeTokenDestinationNativeTokensMinted_Recipient = filled as_address TAddress v 0,
       NativeTokenDestinationNativeTokensMinted_Amount = filled as_bigint TBigInt v 1,
       NativeTokenDestinationNativeTokensMinted_Raw = raw\<rparr>"

definition unpack_NativeTokenDestinationNativeTokensMinted ::
  "('s, 'o, 'tx) bound_contract \<Rightarrow> string \<Rightarrow> log \<Rightarrow> go_error +
      NativeTokenDestinationNativeTokensMinted" where
  "unpack_NativeTokenDestinationNativeTokensMinted c event raw =
     bindE (bc_UnpackLog c (TStruct ''NativeTokenDestinationNativeTokensMinted'' [TAddress,
         TBigInt]) event raw) (\<lambda>v.
     Inr (filled_NativeTokenDestinationNativeTokensMinted v raw))"

definition NativeTokenDestinationNativeTokensMintedIterator_Next ::
  "('s, 'o, 'tx) bound_contract \<Rightarrow> bool \<Rightarrow> NativeTokenDestinationNativeTokensMinted iterator \<Rightarrow>
      NativeTokenDestinationNativeTokensMinted next_result" where
  "NativeTokenDestinationNativeTokensMintedIterator_Next c = iterator_Next
      (unpack_NativeTokenDestinationNativeTokensMinted c)"

definition NativeTokenDestinationNativeTokensMintedIterator_Error ::
  "NativeTokenDestinationNativeTokensMinted iterator \<Rightarrow> go_error option" where
  "NativeTokenDestinationNativeTokensMintedIterator_Error = iterator_Error"

definition NativeTokenDestinationNativeTokensMintedIterator_Close ::
  "NativeTokenDestinationNativeTokensMinted iterator \<Rightarrow> go_error option \<times>
      NativeTokenDestinationNativeTokensMinted iterator" where
  "NativeTokenDestinationNativeTokensMintedIterator_Close = iterator_Close"

definition NativeTokenDestinationFilterer_FilterNativeTokensMinted ::
  "('s, 'o, 'tx) NativeTokenDestinationFilterer \<Rightarrow> 'o \<Rightarrow> address list \<Rightarrow> 's
    \<Rightarrow> go_error + NativeTokenDestinationNativeTokensMinted iterator" where
  "NativeTokenDestinationFilterer_FilterNativeTokensMinted c opts recipient s =
     bindE (bc_FilterLogs (NativeTokenDestinationFilterer_contract c) opts ''NativeTokensMinted''
         [map GAddress recipient] s) (\<lambda>stream.
     Inr (new_iterator ''NativeTokensMinted'' stream))"

definition NativeTokenDestinationFilterer_WatchNativeTokensMinted ::
  "('s, 'o, 'tx) NativeTokenDestinationFilterer \<Rightarrow> 'o \<Rightarrow> address list \<Rightarrow> 's
    \<Rightarrow> go_error + NativeTokenDestinationNativeTokensMinted watcher" where
  "NativeTokenDestinationFilterer_WatchNativeTokensMinted c opts recipient s =
     bindE (bc_WatchLogs (NativeTokenDestinationFilterer_contract c) opts ''NativeTokensMinted''
         [map GAddress recipient] s) (\<lambda>stream.
     Inr (new_watcher (unpack_NativeTokenDestinationNativeTokensMinted
         (NativeTokenDestinationFilterer_contract c) ''NativeTokensMinted'') stream))"

definition NativeTokenDestinationFilterer_ParseNativeTokensMinted ::
  "('s, 'o, 'tx) NativeTokenDestinationFilterer \<Rightarrow> log \<Rightarrow> go_error +
      NativeTokenDestinationNativeTokensMinted" where
  "NativeTokenDestinationFilterer_ParseNativeTokensMinted c raw =
      unpack_NativeTokenDestinationNativeTokensMinted (NativeTokenDestinationFilterer_contract c)
      ''NativeTokensMinted'' raw"

text \<open>The event \<open>ReportTotalBurnedTxFees\<close>.\<close>

record NativeTokenDestinationReportTotalBurnedTxFees =
  NativeTokenDestinationReportTotalBurnedTxFees_TeleporterMessageID :: int
  NativeTokenDestinationReportTotalBurnedTxFees_BurnAddressBalance :: int
  NativeTokenDestinationReportTotalBurnedTxFees_Raw :: log

definition filled_NativeTokenDestinationReportTotalBurnedTxFees :: "go_value \<Rightarrow> log \<Rightarrow>
    NativeTokenDestinationReportTotalBurnedTxFees" where
  "filled_NativeTokenDestinationReportTotalBurnedTxFees v raw =
     \<lparr>NativeTokenDestinationReportTotalBurnedTxFees_TeleporterMessageID = filled as_bigint
         TBigInt v 0,
       NativeTokenDestinationReportTotalBurnedTxFees_BurnAddressBalance = filled as_bigint
           TBigInt v 1,
       NativeTokenDestinationReportTotalBurnedTxFees_Raw = raw\<rparr>"

definition unpack_NativeTokenDestinationReportTotalBurnedTxFees ::
  "('s, 'o, 'tx) bound_contract \<Rightarrow> string \<Rightarrow> log \<Rightarrow> go_error +
      NativeTokenDestinationReportTotalBurnedTxFees" where
  "unpack_NativeTokenDestinationReportTotalBurnedTxFees c event raw =
     bindE (bc_UnpackLog c (TStruct ''NativeTokenDestinationReportTotalBurnedTxFees'' [TBigInt,
         TBigInt]) event raw) (\<lambda>v.
     Inr (filled_NativeTokenDestinationReportTotalBurnedTxFees v raw))"

definition NativeTokenDestinationReportTotalBurnedTxFeesIterator_Next ::
  "('s, 'o, 'tx) bound_contract \<Rightarrow> bool \<Rightarrow> NativeTokenDestinationReportTotalBurnedTxFees iterator \<Rightarrow>
      NativeTokenDestinationReportTotalBurnedTxFees next_result" where
  "NativeTokenDestinationReportTotalBurnedTxFeesIterator_Next c = iterator_Next
      (unpack_NativeTokenDestinationReportTotalBurnedTxFees c)"

definition NativeTokenDestinationReportTotalBurnedTxFeesIterator_Error ::
  "NativeTokenDestinationReportTotalBurnedTxFees iterator \<Rightarrow> go_error option" where
  "NativeTokenDestinationReportTotalBurnedTxFeesIterator_Error = iterator_Error"

definition NativeTokenDestinationReportTotalBurnedTxFeesIterator_Close ::
  "NativeTokenDestinationReportTotalBurnedTxFees iterator \<Rightarrow> go_error option \<times>
      NativeTokenDestinationReportTotalBurnedTxFees iterator" where
  "NativeTokenDestinationReportTotalBurnedTxFeesIterator_Close = iterator_Close"

definition NativeTokenDestinationFilterer_FilterReportTotalBurnedTxFees ::
  "('s, 'o, 'tx) NativeTokenDestinationFilterer \<Rightarrow> 'o \<Rightarrow> int list \<Rightarrow> 's
    \<Rightarrow> go_error + NativeTokenDestinationReportTotalBurnedTxFees iterator" where
  "NativeTokenDestinationFilterer_FilterReportTotalBurnedTxFees c opts teleporterMessageID s =
     bindE (bc_FilterLogs (NativeTokenDestinationFilterer_contract c) opts
         ''ReportTotalBurnedTxFees'' [map GBigInt teleporterMessageID] s) (\<lambda>stream.
     Inr (new_iterator ''ReportTotalBurnedTxFees'' stream))"

definition NativeTokenDestinationFilterer_WatchReportTotalBurnedTxFees ::
  "('s, 'o, 'tx) NativeTokenDestinationFilterer \<Rightarrow> 'o \<Rightarrow> int list \<Rightarrow> 's
    \<Rightarrow> go_error + NativeTokenDestinationReportTotalBurnedTxFees watcher" where
  "NativeTokenDestinationFilterer_WatchReportTotalBurnedTxFees c opts teleporterMessageID s =
     bindE (bc_WatchLogs (NativeTokenDestinationFilterer_contract c) opts
         ''ReportTotalBurnedTxFees'' [map GBigInt teleporterMessageID] s) (\<lambda>stream.
     Inr (new_watcher (unpack_NativeTokenDestinationReportTotalBurnedTxFees
         (NativeTokenDestinationFilterer_contract c) ''ReportTotalBurnedTxFees'') stream))"

definition NativeTokenDestinationFilterer_ParseReportTotalBurnedTxFees ::
  "('s, 'o, 'tx) NativeTokenDestinationFilterer \<Rightarrow> log \<Rightarrow> go_error +
      NativeTokenDestinationReportTotalBurnedTxFees" where
  "NativeTokenDestinationFilterer_ParseReportTotalBurnedTxFees c raw =
      unpack_NativeTokenDestinationReportTotalBurnedTxFees
      (NativeTokenDestinationFilterer_contract c) ''ReportTotalBurnedTxFees'' raw"

text \<open>The event \<open>TransferToSource\<close>.\<close>

record NativeTokenDestinationTransferToSource =
  NativeTokenDestinationTransferToSource_Sender :: address
  NativeTokenDestinationTransferToSource_Recipient :: address
  NativeTokenDestinationTransferToSource_TeleporterMessageID :: int
  NativeTokenDestinationTransferToSource_Amount :: int
  NativeTokenDestinationTransferToSource_Raw :: log

definition filled_NativeTokenDestinationTransferToSource :: "go_value \<Rightarrow> log \<Rightarrow>
    NativeTokenDestinationTransferToSource" where
  "filled_NativeTokenDestinationTransferToSource v raw =
     \<lparr>NativeTokenDestinationTransferToSource_Sender = filled as_address TAddress v 0,
       NativeTokenDestinationTransferToSource_Recipient = filled as_address TAddress v 1,
       NativeTokenDestinationTransferToSource_TeleporterMessageID = filled as_bigint TBigInt v 2,
       NativeTokenDestinationTransferToSource_Amount = filled as_bigint TBigInt v 3,
       NativeTokenDestinationTransferToSource_Raw = raw\<rparr>"

definition unpack_NativeTokenDestinationTransferToSource ::
  "('s, 'o, 'tx) bound_contract \<Rightarrow> string \<Rightarrow> log \<Rightarrow> go_error +
      NativeTokenDestinationTransferToSource" where
  "unpack_NativeTokenDestinationTransferToSource c event raw =
     bindE (bc_UnpackLog c (TStruct ''NativeTokenDestinationTransferToSource'' [TAddress,
         TAddress, TBigInt, TBigInt]) event raw) (\<lambda>v.
     Inr (filled_NativeTokenDestinationTransferToSource v raw))"

definition NativeTokenDestinationTransferToSourceIterator_Next ::
  "('s, 'o, 'tx) bound_contract \<Rightarrow> bool \<Rightarrow> NativeTokenDestinationTransferToSource iterator \<Rightarrow>
      NativeTokenDestinationTransferToSource next_result" where
  "NativeTokenDestinationTransferToSourceIterator_Next c = iterator_Next
      (unpack_NativeTokenDestinationTransferToSource c)"

definition NativeTokenDestinationTransferToSourceIterator_Error ::
  "NativeTokenDestinationTransferToSource iterator \<Rightarrow> go_error option" where
  "NativeTokenDestinationTransferToSourceIterator_Error = iterator_Error"

definition NativeTokenDestinationTransferToSourceIterator_Close ::
  "NativeTokenDestinationTransferToSource iterator \<Rightarrow> go_error option \<times>
      NativeTokenDestinationTransferToSource iterator" where
  "NativeTokenDestinationTransferToSourceIterator_Close = iterator_Close"

definition NativeTokenDestinationFilterer_FilterTransferToSource ::
  "('s, 'o, 'tx) NativeTokenDestinationFilterer \<Rightarrow> 'o \<Rightarrow> address list \<Rightarrow> address list \<Rightarrow> int list \<Rightarrow> 's
    \<Rightarrow> go_error + NativeTokenDestinationTransferToSource iterator" where
  "NativeTokenDestinationFilterer_FilterTransferToSource c opts sender recipient
      teleporterMessageID s =
     bindE (bc_FilterLogs (NativeTokenDestinationFilterer_contract c) opts ''TransferToSource''
         [map GAddress sender, map GAddress recipient, map GBigInt teleporterMessageID] s)
         (\<lambda>stream.
     Inr (new_iterator ''TransferToSource'' stream))"

definition NativeTokenDestinationFilterer_WatchTransferToSource ::
  "('s, 'o, 'tx) NativeTokenDestinationFilterer \<Rightarrow> 'o \<Rightarrow> address list \<Rightarrow> address list \<Rightarrow> int list \<Rightarrow> 's
    \<Rightarrow> go_error + NativeTokenDestinationTransferToSource watcher" where
  "NativeTokenDestinationFilterer_WatchTransferToSource c opts sender recipient
      teleporterMessageID s =
     bindE (bc_WatchLogs (NativeTokenDestinationFilterer_contract c) opts ''TransferToSource''
         [map GAddress sender, map GAddress recipient, map GBigInt teleporterMessageID] s)
         (\<lambda>stream.
     Inr (new_watcher (unpack_NativeTokenDestinationTransferToSource
         (NativeTokenDestinationFilterer_contract c) ''TransferToSource'') stream))"

definition NativeTokenDestinationFilterer_ParseTransferToSource ::
  "('s, 'o, 'tx) NativeTokenDestinationFilterer \<Rightarrow> log \<Rightarrow> go_error +
      NativeTokenDestinationTransferToSource" where
  "NativeTokenDestinationFilterer_ParseTransferToSource c raw =
      unpack_NativeTokenDestinationTransferToSource (NativeTokenDestinationFilterer_contract c)
      ''TransferToSource'' raw"

end
