(* ===== verification/Bind_ExampleERC20.thy ===== *)
theory Bind_ExampleERC20
  imports Go_Bind
begin

section \<open>The Go binding of ExampleERC20\<close>

text \<open>
  One definition per type and function of
  \<open>abi-bindings/go/Mocks/ExampleERC20/ExampleERC20.go\<close>,
  in the order of the file: structs, the ABI of the metadata, the facets of the bound contract, the
  read-only methods, the transactions, and for each event its struct, iterator, filter,
  subscription and parser. The option structs, the chain and the library are parameters.
\<close>

subsection \<open>The ABI\<close>

definition ExampleERC20MetaData :: abi_meta where
  "ExampleERC20MetaData =
     \<lparr>meta_name = ''ExampleERC20'',
      meta_constructor = [],
      meta_methods = [
        (''allowance'', [TAddress, TAddress], [TBigInt]),
        (''approve'', [TAddress, TBigInt], [TBool]),
        (''balanceOf'', [TAddress], [TBigInt]),
        (''burn'', [TBigInt], []),
        (''burnFrom'', [TAddress, TBigInt], []),
        (''decimals'', [], [TUint8]),
        (''decreaseAllowance'', [TAddress, TBigInt], [TBool]),
        (''increaseAllowance'', [TAddress, TBigInt], [TBool]),
        (''mint'', [TBigInt], []),
        (''name'', [], [TString]),
        (''symbol'', [], [TString]),
        (''totalSupply'', [], [TBigInt]),
        (''transfer'', [TAddress, TBigInt], [TBool]),
        (''transferFrom'', [TAddress, TAddress, TBigInt], [TBool])],
      meta_events = [
        (''Approval'', [(TAddress, True), (TAddress, True), (TBigInt, False)]),
        (''Transfer'', [(TAddress, True), (TAddress, True), (TBigInt, False)])]\<rparr>"

subsection \<open>The bound contract and its facets\<close>

record ('s, 'o, 'tx) ExampleERC20Caller =
  ExampleERC20Caller_contract :: "('s, 'o, 'tx) bound_contract"

record ('s, 'o, 'tx) ExampleERC20Transactor =
  ExampleERC20Transactor_contract :: "('s, 'o, 'tx) bound_contract"

record ('s, 'o, 'tx) ExampleERC20Filterer =
  ExampleERC20Filterer_contract :: "('s, 'o, 'tx) bound_contract"

record ('s, 'o, 'tx) ExampleERC20 =
  ExampleERC20_Caller :: "('s, 'o, 'tx) ExampleERC20Caller"
  ExampleERC20_Transactor :: "('s, 'o, 'tx) ExampleERC20Transactor"
  ExampleERC20_Filterer :: "('s, 'o, 'tx) ExampleERC20Filterer"

record ('s, 'o, 'tx) ExampleERC20Session =
  ExampleERC20Session_Contract :: "('s, 'o, 'tx) ExampleERC20"
  ExampleERC20Session_CallOpts :: 'o
  ExampleERC20Session_TransactOpts :: 'o

record ('s, 'o, 'tx) ExampleERC20CallerSession =
  ExampleERC20CallerSession_Contract :: "('s, 'o, 'tx) ExampleERC20Caller"
  ExampleERC20CallerSession_CallOpts :: 'o

record ('s, 'o, 'tx) ExampleERC20TransactorSession =
  ExampleERC20TransactorSession_Contract :: "('s, 'o, 'tx) ExampleERC20Transactor"
  ExampleERC20TransactorSession_TransactOpts :: 'o

record ('s, 'o, 'tx) ExampleERC20Raw =
  ExampleERC20Raw_Contract :: "('s, 'o, 'tx) ExampleERC20"

record ('s, 'o, 'tx) ExampleERC20CallerRaw =
  ExampleERC20CallerRaw_Contract :: "('s, 'o, 'tx) ExampleERC20Caller"

record ('s, 'o, 'tx) ExampleERC20TransactorRaw =
  ExampleERC20TransactorRaw_Contract :: "('s, 'o, 'tx) ExampleERC20Transactor"

definition bindExampleERC20 ::
  "('s, 'o, 'tx, 'abi, 'k) bind_lib \<Rightarrow> address \<Rightarrow> 'k option \<Rightarrow> 'k option \<Rightarrow> 'k option
    \<Rightarrow> go_error + ('s, 'o, 'tx) bound_contract" where
  "bindExampleERC20 lib addr caller transactor filterer =
     bindE (lib_GetAbi lib ExampleERC20MetaData) (\<lambda>parsed.
     case parsed of
       None \<Rightarrow> Inl (GoPanic ''nil pointer dereference'')
     | Some abi \<Rightarrow> Inr (lib_NewBoundContract lib addr abi caller transactor filterer))"

definition DeployExampleERC20 ::
  "('s, 'o, 'tx, 'abi, 'k) bind_lib \<Rightarrow> 'o \<Rightarrow> 'k \<Rightarrow> 's
    \<Rightarrow> go_error + (address \<times> 'tx \<times> ('s, 'o, 'tx) ExampleERC20 \<times> 's)" where
  "DeployExampleERC20 lib auth backend s =
     bindE (lib_GetAbi lib ExampleERC20MetaData) (\<lambda>parsed.
     case parsed of
       None \<Rightarrow> Inl (GoError ''GetABI returned nil'')
     | Some abi \<Rightarrow>
         bindE (lib_DeployContract lib auth abi (meta_name ExampleERC20MetaData) backend [] s)
         (\<lambda>(addr, tx, c, s').
         Inr (addr, tx, \<lparr>ExampleERC20_Caller = \<lparr>ExampleERC20Caller_contract = c\<rparr>,
         ExampleERC20_Transactor = \<lparr>ExampleERC20Transactor_contract = c\<rparr>,
         ExampleERC20_Filterer = \<lparr>ExampleERC20Filterer_contract = c\<rparr>\<rparr>, s')))"

definition NewExampleERC20 ::
  "('s, 'o, 'tx, 'abi, 'k) bind_lib \<Rightarrow> address \<Rightarrow> 'k \<Rightarrow> go_error + ('s, 'o, 'tx) ExampleERC20" where
  "NewExampleERC20 lib addr backend =
     bindE (bindExampleERC20 lib addr (Some backend) (Some backend) (Some backend)) (\<lambda>c.
     Inr \<lparr>ExampleERC20_Caller = \<lparr>ExampleERC20Caller_contract = c\<rparr>,
         ExampleERC20_Transactor = \<lparr>ExampleERC20Transactor_contract = c\<rparr>,
         ExampleERC20_Filterer = \<lparr>ExampleERC20Filterer_contract = c\<rparr>\<rparr>)"

definition NewExampleERC20Caller ::
  "('s, 'o, 'tx, 'abi, 'k) bind_lib \<Rightarrow> address \<Rightarrow> 'k \<Rightarrow> go_error + ('s, 'o, 'tx) ExampleERC20Caller"
      where
  "NewExampleERC20Caller lib addr b =
     bindE (bindExampleERC20 lib addr (Some b) None None) (\<lambda>c.
     Inr \<lparr>ExampleERC20Caller_contract = c\<rparr>)"

definition NewExampleERC20Transactor ::
  "('s, 'o, 'tx, 'abi, 'k) bind_lib \<Rightarrow> address \<Rightarrow> 'k \<Rightarrow> go_error + ('s, 'o, 'tx)
      ExampleERC20Transactor" where
  "NewExampleERC20Transactor lib addr b =
     bindE (bindExampleERC20 lib addr None (Some b) None) (\<lambda>c.
     Inr \<lparr>ExampleERC20Transactor_contract = c\<rparr>)"

definition NewExampleERC20Filterer ::
  "('s, 'o, 'tx, 'abi, 'k) bind_lib \<Rightarrow> address \<Rightarrow> 'k \<Rightarrow> go_error + ('s, 'o, 'tx)
      ExampleERC20Filterer" where
  "NewExampleERC20Filterer lib addr b =
     bindE (bindExampleERC20 lib addr None None (Some b)) (\<lambda>c.
     Inr \<lparr>ExampleERC20Filterer_contract = c\<rparr>)"

definition ExampleERC20Raw_Call ::
  "('s, 'o, 'tx) ExampleERC20Raw \<Rightarrow> 'o \<Rightarrow> string \<Rightarrow> go_value list \<Rightarrow> 's
    \<Rightarrow> go_error + go_value list" where
  "ExampleERC20Raw_Call r opts method params s =
     bc_Call (ExampleERC20Caller_contract (ExampleERC20_Caller (ExampleERC20Raw_Contract r)))
         opts method params s"

definition ExampleERC20Raw_Transfer ::
  "('s, 'o, 'tx) ExampleERC20Raw \<Rightarrow> 'o \<Rightarrow> 's \<Rightarrow> go_error + ('tx \<times> 's)" where
  "ExampleERC20Raw_Transfer r opts s =
     bc_Transfer (ExampleERC20Transactor_contract (ExampleERC20_Transactor
         (ExampleERC20Raw_Contract r))) opts s"

definition ExampleERC20Raw_Transact ::
  "('s, 'o, 'tx) ExampleERC20Raw \<Rightarrow> 'o \<Rightarrow> string \<Rightarrow> go_value list \<Rightarrow> 's
    \<Rightarrow> go_error + ('tx \<times> 's)" where
  "ExampleERC20Raw_Transact r opts method params s =
     bc_Transact (ExampleERC20Transactor_contract (ExampleERC20_Transactor
         (ExampleERC20Raw_Contract r))) opts method params s"

definition ExampleERC20CallerRaw_Call ::
  "('s, 'o, 'tx) ExampleERC20CallerRaw \<Rightarrow> 'o \<Rightarrow> string \<Rightarrow> go_value list \<Rightarrow> 's
    \<Rightarrow> go_error + go_value list" where
  "ExampleERC20CallerRaw_Call r opts method params s =
     bc_Call (ExampleERC20Caller_contract (ExampleERC20CallerRaw_Contract r)) opts method params
         s"

definition ExampleERC20TransactorRaw_Transfer ::
  "('s, 'o, 'tx) ExampleERC20TransactorRaw \<Rightarrow> 'o \<Rightarrow> 's \<Rightarrow> go_error + ('tx \<times> 's)" where
  "ExampleERC20TransactorRaw_Transfer r opts s =
     bc_Transfer (ExampleERC20Transactor_contract (ExampleERC20TransactorRaw_Contract r)) opts s"

definition ExampleERC20TransactorRaw_Transact ::
  "('s, 'o, 'tx) ExampleERC20TransactorRaw \<Rightarrow> 'o \<Rightarrow> string \<Rightarrow> go_value list \<Rightarrow> 's
    \<Rightarrow> go_error + ('tx \<times> 's)" where
  "ExampleERC20TransactorRaw_Transact r opts method params s =
     bc_Transact (ExampleERC20Transactor_contract (ExampleERC20TransactorRaw_Contract r)) opts
         method params s"

subsection \<open>Read-only methods\<close>

definition ExampleERC20Caller_Allowance ::
  "('s, 'o, 'tx) ExampleERC20Caller \<Rightarrow> 'o \<Rightarrow> address \<Rightarrow> address \<Rightarrow> 's
    \<Rightarrow> go_error + int" where
  "ExampleERC20Caller_Allowance c opts owner spender s =
     bindE (bc_Call (ExampleERC20Caller_contract c) opts ''allowance'' [GAddress owner, GAddress
         spender] s) (\<lambda>out.
     bindE (go_out (ExampleERC20Caller_contract c) out 0 TBigInt as_bigint) (\<lambda>out0.
     Inr out0))"

definition ExampleERC20Session_Allowance ::
  "('s, 'o, 'tx) ExampleERC20Session \<Rightarrow> address \<Rightarrow> address \<Rightarrow> 's
    \<Rightarrow> go_error + int" where
  "ExampleERC20Session_Allowance ss owner spender s =
     ExampleERC20Caller_Allowance (ExampleERC20_Caller (ExampleERC20Session_Contract ss))
       (ExampleERC20Session_CallOpts ss) owner spender s"

definition ExampleERC20CallerSession_Allowance ::
  "('s, 'o, 'tx) ExampleERC20CallerSession \<Rightarrow> address \<Rightarrow> address \<Rightarrow> 's
    \<Rightarrow> go_error + int" where
  "ExampleERC20CallerSession_Allowance ss owner spender s =
     ExampleERC20Caller_Allowance (ExampleERC20CallerSession_Contract ss)
       (ExampleERC20CallerSession_CallOpts ss) owner spender s"

definition ExampleERC20Caller_BalanceOf ::
  "('s, 'o, 'tx) ExampleERC20Caller \<Rightarrow> 'o \<Rightarrow> address \<Rightarrow> 's
    \<Rightarrow> go_error + int" where
  "ExampleERC20Caller_BalanceOf c opts account s =
     bindE (bc_Call (ExampleERC20Caller_contract c) opts ''balanceOf'' [GAddress account] s)
         (\<lambda>out.
     bindE (go_out (ExampleERC20Caller_contract c) out 0 TBigInt as_bigint) (\<lambda>out0.
     Inr out0))"

definition ExampleERC20Session_BalanceOf ::
  "('s, 'o, 'tx) ExampleERC20Session \<Rightarrow> address \<Rightarrow> 's
    \<Rightarrow> go_error + int" where
  "ExampleERC20Session_BalanceOf ss account s =
     ExampleERC20Caller_BalanceOf (ExampleERC20_Caller (ExampleERC20Session_Contract ss))
       (ExampleERC20Session_CallOpts ss) account s"

definition ExampleERC20CallerSession_BalanceOf ::
  "('s, 'o, 'tx) ExampleERC20CallerSession \<Rightarrow> address \<Rightarrow> 's
    \<Rightarrow> go_error + int" where
  "ExampleERC20CallerSession_BalanceOf ss account s =
     ExampleERC20Caller_BalanceOf (ExampleERC20CallerSession_Contract ss)
       (ExampleERC20CallerSession_CallOpts ss) account s"

definition ExampleERC20Caller_Decimals ::
  "('s, 'o, 'tx) ExampleERC20Caller \<Rightarrow> 'o \<Rightarrow> 's
    \<Rightarrow> go_error + byte" where
  "ExampleERC20Caller_Decimals c opts s =
     bindE (bc_Call (ExampleERC20Caller_contract c) opts ''decimals'' [] s) (\<lambda>out.
     bindE (go_out (ExampleERC20Caller_contract c) out 0 TUint8 as_uint8) (\<lambda>out0.
     Inr out0))"

definition ExampleERC20Session_Decimals ::
  "('s, 'o, 'tx) ExampleERC20Session \<Rightarrow> 's
    \<Rightarrow> go_error + byte" where
  "ExampleERC20Session_Decimals ss s =
     ExampleERC20Caller_Decimals (ExampleERC20_Caller (ExampleERC20Session_Contract ss))
       (ExampleERC20Session_CallOpts ss) s"

definition ExampleERC20CallerSession_Decimals ::
  "('s, 'o, 'tx) ExampleERC20CallerSession \<Rightarrow> 's
    \<Rightarrow> go_error + byte" where
  "ExampleERC20CallerSession_Decimals ss s =
     ExampleERC20Caller_Decimals (ExampleERC20CallerSession_Contract ss)
       (ExampleERC20CallerSession_CallOpts ss) s"

definition ExampleERC20Caller_Name ::
  "('s, 'o, 'tx) ExampleERC20Caller \<Rightarrow> 'o \<Rightarrow> 's
    \<Rightarrow> go_error + string" where
  "ExampleERC20Caller_Name c opts s =
     bindE (bc_Call (ExampleERC20Caller_contract c) opts ''name'' [] s) (\<lambda>out.
     bindE (go_out (ExampleERC20Caller_contract c) out 0 TString as_string) (\<lambda>out0.
     Inr out0))"

definition ExampleERC20Session_Name ::
  "('s, 'o, 'tx) ExampleERC20Session \<Rightarrow> 's
    \<Rightarrow> go_error + string" where
  "ExampleERC20Session_Name ss s =
     ExampleERC20Caller_Name (ExampleERC20_Caller (ExampleERC20Session_Contract ss))
       (ExampleERC20Session_CallOpts ss) s"

definition ExampleERC20CallerSession_Name ::
  "('s, 'o, 'tx) ExampleERC20CallerSession \<Rightarrow> 's
    \<Rightarrow> go_error + string" where
  "ExampleERC20CallerSession_Name ss s =
     ExampleERC20Caller_Name (ExampleERC20CallerSession_Contract ss)
       (ExampleERC20CallerSession_CallOpts ss) s"

definition ExampleERC20Caller_Symbol ::
  "('s, 'o, 'tx) ExampleERC20Caller \<Rightarrow> 'o \<Rightarrow> 's
    \<Rightarrow> go_error + string" where
  "ExampleERC20Caller_Symbol c opts s =
     bindE (bc_Call (ExampleERC20Caller_contract c) opts ''symbol'' [] s) (\<lambda>out.
     bindE (go_out (ExampleERC20Caller_contract c) out 0 TString as_string) (\<lambda>out0.
     Inr out0))"

definition ExampleERC20Session_Symbol ::
  "('s, 'o, 'tx) ExampleERC20Session \<Rightarrow> 's
    \<Rightarrow> go_error + string" where
  "ExampleERC20Session_Symbol ss s =
     ExampleERC20Caller_Symbol (ExampleERC20_Caller (ExampleERC20Session_Contract ss))
       (ExampleERC20Session_CallOpts ss) s"

definition ExampleERC20CallerSession_Symbol ::
  "('s, 'o, 'tx) ExampleERC20CallerSession \<Rightarrow> 's
    \<Rightarrow> go_error + string" where
  "ExampleERC20CallerSession_Symbol ss s =
     ExampleERC20Caller_Symbol (ExampleERC20CallerSession_Contract ss)
       (ExampleERC20CallerSession_CallOpts ss) s"

definition ExampleERC20Caller_TotalSupply ::
  "('s, 'o, 'tx) ExampleERC20Caller \<Rightarrow> 'o \<Rightarrow> 's
    \<Rightarrow> go_error + int" where
  "ExampleERC20Caller_TotalSupply c opts s =
     bindE (bc_Call (ExampleERC20Caller_contract c) opts ''totalSupply'' [] s) (\<lambda>out.
     bindE (go_out (ExampleERC20Caller_contract c) out 0 TBigInt as_bigint) (\<lambda>out0.
     Inr out0))"

definition ExampleERC20Session_TotalSupply ::
  "('s, 'o, 'tx) ExampleERC20Session \<Rightarrow> 's
    \<Rightarrow> go_error + int" where
  "ExampleERC20Session_TotalSupply ss s =
     ExampleERC20Caller_TotalSupply (ExampleERC20_Caller (ExampleERC20Session_Contract ss))
       (ExampleERC20Session_CallOpts ss) s"

definition ExampleERC20CallerSession_TotalSupply ::
  "('s, 'o, 'tx) ExampleERC20CallerSession \<Rightarrow> 's
    \<Rightarrow> go_error + int" where
  "ExampleERC20CallerSession_TotalSupply ss s =
     ExampleERC20Caller_TotalSupply (ExampleERC20CallerSession_Contract ss)
       (ExampleERC20CallerSession_CallOpts ss) s"

subsection \<open>Transactions\<close>

definition ExampleERC20Transactor_Approve ::
  "('s, 'o, 'tx) ExampleERC20Transactor \<Rightarrow> 'o \<Rightarrow> address \<Rightarrow> int \<Rightarrow> 's
    \<Rightarrow> go_error + ('tx \<times> 's)" where
  "ExampleERC20Transactor_Approve c opts spender amount s =
     bc_Transact (ExampleERC20Transactor_contract c) opts ''approve''
       [GAddress spender, GBigInt amount] s"

definition ExampleERC20Session_Approve ::
  "('s, 'o, 'tx) ExampleERC20Session \<Rightarrow> address \<Rightarrow> int \<Rightarrow> 's
    \<Rightarrow> go_error + ('tx \<times> 's)" where
  "ExampleERC20Session_Approve ss spender amount s =
     ExampleERC20Transactor_Approve (ExampleERC20_Transactor (ExampleERC20Session_Contract ss))
       (ExampleERC20Session_TransactOpts ss) spender amount s"

definition ExampleERC20TransactorSession_Approve ::
  "('s, 'o, 'tx) ExampleERC20TransactorSession \<Rightarrow> address \<Rightarrow> int \<Rightarrow> 's
    \<Rightarrow> go_error + ('tx \<times> 's)" where
  "ExampleERC20TransactorSession_Approve ss spender amount s =
     ExampleERC20Transactor_Approve (ExampleERC20TransactorSession_Contract ss)
       (ExampleERC20TransactorSession_TransactOpts ss) spender amount s"

definition ExampleERC20Transactor_Burn ::
  "('s, 'o, 'tx) ExampleERC20Transactor \<Rightarrow> 'o \<Rightarrow> int \<Rightarrow> 's
    \<Rightarrow> go_error + ('tx \<times> 's)" where
  "ExampleERC20Transactor_Burn c opts amount s =
     bc_Transact (ExampleERC20Transactor_contract c) opts ''burn''
       [GBigInt amount] s"

definition ExampleERC20Session_Burn ::
  "('s, 'o, 'tx) ExampleERC20Session \<Rightarrow> int \<Rightarrow> 's
    \<Rightarrow> go_error + ('tx \<times> 's)" where
  "ExampleERC20Session_Burn ss amount s =
     ExampleERC20Transactor_Burn (ExampleERC20_Transactor (ExampleERC20Session_Contract ss))
       (ExampleERC20Session_TransactOpts ss) amount s"

definition ExampleERC20TransactorSession_Burn ::
  "('s, 'o, 'tx) ExampleERC20TransactorSession \<Rightarrow> int \<Rightarrow> 's
    \<Rightarrow> go_error + ('tx \<times> 's)" where
  "ExampleERC20TransactorSession_Burn ss amount s =
     ExampleERC20Transactor_Burn (ExampleERC20TransactorSession_Contract ss)
       (ExampleERC20TransactorSession_TransactOpts ss) amount s"

definition ExampleERC20Transactor_BurnFrom ::
  "('s, 'o, 'tx) ExampleERC20Transactor \<Rightarrow> 'o \<Rightarrow> address \<Rightarrow> int \<Rightarrow> 's
    \<Rightarrow> go_error + ('tx \<times> 's)" where
  "ExampleERC20Transactor_BurnFrom c opts account amount s =
     bc_Transact (ExampleERC20Transactor_contract c) opts ''burnFrom''
       [GAddress account, GBigInt amount] s"

definition ExampleERC20Session_BurnFrom ::
  "('s, 'o, 'tx) ExampleERC20Session \<Rightarrow> address \<Rightarrow> int \<Rightarrow> 's
    \<Rightarrow> go_error + ('tx \<times> 's)" where
  "ExampleERC20Session_BurnFrom ss account amount s =
     ExampleERC20Transactor_BurnFrom (ExampleERC20_Transactor (ExampleERC20Session_Contract ss))
       (ExampleERC20Session_TransactOpts ss) account amount s"

definition ExampleERC20TransactorSession_BurnFrom ::
  "('s, 'o, 'tx) ExampleERC20TransactorSession \<Rightarrow> address \<Rightarrow> int \<Rightarrow> 's
    \<Rightarrow> go_error + ('tx \<times> 's)" where
  "ExampleERC20TransactorSession_BurnFrom ss account amount s =
     ExampleERC20Transactor_BurnFrom (ExampleERC20TransactorSession_Contract ss)
       (ExampleERC20TransactorSession_TransactOpts ss) account amount s"

definition ExampleERC20Transactor_DecreaseAllowance ::
  "('s, 'o, 'tx) ExampleERC20Transactor \<Rightarrow> 'o \<Rightarrow> address \<Rightarrow> int \<Rightarrow> 's
    \<Rightarrow> go_error + ('tx \<times> 's)" where
  "ExampleERC20Transactor_DecreaseAllowance c opts spender subtractedValue s =
     bc_Transact (ExampleERC20Transactor_contract c) opts ''decreaseAllowance''
       [GAddress spender, GBigInt subtractedValue] s"

definition ExampleERC20Session_DecreaseAllowance ::
  "('s, 'o, 'tx) ExampleERC20Session \<Rightarrow> address \<Rightarrow> int \<Rightarrow> 's
    \<Rightarrow> go_error + ('tx \<times> 's)" where
  "ExampleERC20Session_DecreaseAllowance ss spender subtractedValue s =
     ExampleERC20Transactor_DecreaseAllowance (ExampleERC20_Transactor
         (ExampleERC20Session_Contract ss))
       (ExampleERC20Session_TransactOpts ss) spender subtractedValue s"

definition ExampleERC20TransactorSession_DecreaseAllowance ::
  "('s, 'o, 'tx) ExampleERC20TransactorSession \<Rightarrow> address \<Rightarrow> int \<Rightarrow> 's
    \<Rightarrow> go_error + ('tx \<times> 's)" where
  "ExampleERC20TransactorSession_DecreaseAllowance ss spender subtractedValue s =
     ExampleERC20Transactor_DecreaseAllowance (ExampleERC20TransactorSession_Contract ss)
       (ExampleERC20TransactorSession_TransactOpts ss) spender subtractedValue s"

definition ExampleERC20Transactor_IncreaseAllowance ::
  "('s, 'o, 'tx) ExampleERC20Transactor \<Rightarrow> 'o \<Rightarrow> address \<Rightarrow> int \<Rightarrow> 's
    \<Rightarrow> go_error + ('tx \<times> 's)" where
  "ExampleERC20Transactor_IncreaseAllowance c opts spender addedValue s =
     bc_Transact (ExampleERC20Transactor_contract c) opts ''increaseAllowance''
       [GAddress spender, GBigInt addedValue] s"

definition ExampleERC20Session_IncreaseAllowance ::
  "('s, 'o, 'tx) ExampleERC20Session \<Rightarrow> address \<Rightarrow> int \<Rightarrow> 's
    \<Rightarrow> go_error + ('tx \<times> 's)" where
  "ExampleERC20Session_IncreaseAllowance ss spender addedValue s =
     ExampleERC20Transactor_IncreaseAllowance (ExampleERC20_Transactor
         (ExampleERC20Session_Contract ss))
       (ExampleERC20Session_TransactOpts ss) spender addedValue s"

definition ExampleERC20TransactorSession_IncreaseAllowance ::
  "('s, 'o, 'tx) ExampleERC20TransactorSession \<Rightarrow> address \<Rightarrow> int \<Rightarrow> 's
    \<Rightarrow> go_error + ('tx \<times> 's)" where
  "ExampleERC20TransactorSession_IncreaseAllowance ss spender addedValue s =
     ExampleERC20Transactor_IncreaseAllowance (ExampleERC20TransactorSession_Contract ss)
       (ExampleERC20TransactorSession_TransactOpts ss) spender addedValue s"

definition ExampleERC20Transactor_Mint ::
  "('s, 'o, 'tx) ExampleERC20Transactor \<Rightarrow> 'o \<Rightarrow> int \<Rightarrow> 's
    \<Rightarrow> go_error + ('tx \<times> 's)" where
  "ExampleERC20Transactor_Mint c opts amount s =
     bc_Transact (ExampleERC20Transactor_contract c) opts ''mint''
       [GBigInt amount] s"

definition ExampleERC20Session_Mint ::
  "('s, 'o, 'tx) ExampleERC20Session \<Rightarrow> int \<Rightarrow> 's
    \<Rightarrow> go_error + ('tx \<times> 's)" where
  "ExampleERC20Session_Mint ss amount s =
     ExampleERC20Transactor_Mint (ExampleERC20_Transactor (ExampleERC20Session_Contract ss))
       (ExampleERC20Session_TransactOpts ss) amount s"

definition ExampleERC20TransactorSession_Mint ::
  "('s, 'o, 'tx) ExampleERC20TransactorSession \<Rightarrow> int \<Rightarrow> 's
    \<Rightarrow> go_error + ('tx \<times> 's)" where
  "ExampleERC20TransactorSession_Mint ss amount s =
     ExampleERC20Transactor_Mint (ExampleERC20TransactorSession_Contract ss)
       (ExampleERC20TransactorSession_TransactOpts ss) amount s"

definition ExampleERC20Transactor_Transfer ::
  "('s, 'o, 'tx) ExampleERC20Transactor \<Rightarrow> 'o \<Rightarrow> address \<Rightarrow> int \<Rightarrow> 's
    \<Rightarrow> go_error + ('tx \<times> 's)" where
  "ExampleERC20Transactor_Transfer c opts to' amount s =
     bc_Transact (ExampleERC20Transactor_contract c) opts ''transfer''
       [GAddress to', GBigInt amount] s"

definition ExampleERC20Session_Transfer ::
  "('s, 'o, 'tx) ExampleERC20Session \<Rightarrow> address \<Rightarrow> int \<Rightarrow> 's
    \<Rightarrow> go_error + ('tx \<times> 's)" where
  "ExampleERC20Session_Transfer ss to' amount s =
     ExampleERC20Transactor_Transfer (ExampleERC20_Transactor (ExampleERC20Session_Contract ss))
       (ExampleERC20Session_TransactOpts ss) to' amount s"

definition ExampleERC20TransactorSession_Transfer ::
  "('s, 'o, 'tx) ExampleERC20TransactorSession \<Rightarrow> address \<Rightarrow> int \<Rightarrow> 's
    \<Rightarrow> go_error + ('tx \<times> 's)" where
  "ExampleERC20TransactorSession_Transfer ss to' amount s =
     ExampleERC20Transactor_Transfer (ExampleERC20TransactorSession_Contract ss)
       (ExampleERC20TransactorSession_TransactOpts ss) to' amount s"

definition ExampleERC20Transactor_TransferFrom ::
  "('s, 'o, 'tx) ExampleERC20Transactor \<Rightarrow> 'o \<Rightarrow> address \<Rightarrow> address \<Rightarrow> int \<Rightarrow> 's
    \<Rightarrow> go_error + ('tx \<times> 's)" where
  "ExampleERC20Transactor_TransferFrom c opts from' to' amount s =
     bc_Transact (ExampleERC20Transactor_contract c) opts ''transferFrom''
       [GAddress from', GAddress to', GBigInt amount] s"

definition ExampleERC20Session_TransferFrom ::
  "('s, 'o, 'tx) ExampleERC20Session \<Rightarrow> address \<Rightarrow> address \<Rightarrow> int \<Rightarrow> 's
    \<Rightarrow> go_error + ('tx \<times> 's)" where
  "ExampleERC20Session_TransferFrom ss from' to' amount s =
     ExampleERC20Transactor_TransferFrom (ExampleERC20_Transactor (ExampleERC20Session_Contract
         ss))
       (ExampleERC20Session_TransactOpts ss) from' to' amount s"

definition ExampleERC20TransactorSession_TransferFrom ::
  "('s, 'o, 'tx) ExampleERC20TransactorSession \<Rightarrow> address \<Rightarrow> address \<Rightarrow> int \<Rightarrow> 's
    \<Rightarrow> go_error + ('tx \<times> 's)" where
  "ExampleERC20TransactorSession_TransferFrom ss from' to' amount s =
     ExampleERC20Transactor_TransferFrom (ExampleERC20TransactorSession_Contract ss)
       (ExampleERC20TransactorSession_TransactOpts ss) from' to' amount s"

subsection \<open>Events\<close>

text \<open>The event \<open>Approval\<close>.\<close>

record ExampleERC20Approval =
  ExampleERC20Approval_Owner :: address
  ExampleERC20Approval_Spender :: address
  ExampleERC20Approval_Value :: int
  ExampleERC20Approval_Raw :: log

definition filled_ExampleERC20Approval :: "go_value \<Rightarrow> log \<Rightarrow> ExampleERC20Approval" where
  "filled_ExampleERC20Approval v raw =
     \<lparr>ExampleERC20Approval_Owner = filled as_address TAddress v 0,
       ExampleERC20Approval_Spender = filled as_address TAddress v 1,
       ExampleERC20Approval_Value = filled as_bigint TBigInt v 2,
       ExampleERC20Approval_Raw = raw\<rparr>"

definition unpack_ExampleERC20Approval ::
  "('s, 'o, 'tx) bound_contract \<Rightarrow> string \<Rightarrow> log \<Rightarrow> go_error + ExampleERC20Approval" where
  "unpack_ExampleERC20Approval c event raw =
     bindE (bc_UnpackLog c (TStruct ''ExampleERC20Approval'' [TAddress, TAddress, TBigInt]) event
         raw) (\<lambda>v.
     Inr (filled_ExampleERC20Approval v raw))"

definition ExampleERC20ApprovalIterator_Next ::
  "('s, 'o, 'tx) bound_contract \<Rightarrow> bool \<Rightarrow> ExampleERC20Approval iterator \<Rightarrow> ExampleERC20Approval
      next_result" where
  "ExampleERC20ApprovalIterator_Next c = iterator_Next (unpack_ExampleERC20Approval c)"

definition ExampleERC20ApprovalIterator_Error ::
  "ExampleERC20Approval iterator \<Rightarrow> go_error option" where
  "ExampleERC20ApprovalIterator_Error = iterator_Error"

definition ExampleERC20ApprovalIterator_Close ::
  "ExampleERC20Approval iterator \<Rightarrow> go_error option \<times> ExampleERC20Approval iterator" where
  "ExampleERC20ApprovalIterator_Close = iterator_Close"

definition ExampleERC20Filterer_FilterApproval ::
  "('s, 'o, 'tx) ExampleERC20Filterer \<Rightarrow> 'o \<Rightarrow> address list \<Rightarrow> address list \<Rightarrow> 's
    \<Rightarrow> go_error + ExampleERC20Approval iterator" where
  "ExampleERC20Filterer_FilterApproval c opts owner spender s =
     bindE (bc_FilterLogs (ExampleERC20Filterer_contract c) opts ''Approval'' [map GAddress
         owner, map GAddress spender] s) (\<lambda>stream.
     Inr (new_iterator ''Approval'' stream))"

definition ExampleERC20Filterer_WatchApproval ::
  "('s, 'o, 'tx) ExampleERC20Filterer \<Rightarrow> 'o \<Rightarrow> address list \<Rightarrow> address list \<Rightarrow> 's
    \<Rightarrow> go_error + ExampleERC20Approval watcher" where
  "ExampleERC20Filterer_WatchApproval c opts owner spender s =
     bindE (bc_WatchLogs (ExampleERC20Filterer_contract c) opts ''Approval'' [map GAddress owner,
         map GAddress spender] s) (\<lambda>stream.
     Inr (new_watcher (unpack_ExampleERC20Approval (ExampleERC20Filterer_contract c)
         ''Approval'') stream))"

definition ExampleERC20Filterer_ParseApproval ::
  "('s, 'o, 'tx) ExampleERC20Filterer \<Rightarrow> log \<Rightarrow> go_error + ExampleERC20Approval" where
  "ExampleERC20Filterer_ParseApproval c raw = unpack_ExampleERC20Approval
      (ExampleERC20Filterer_contract c) ''Approval'' raw"

text \<open>The event \<open>Transfer\<close>.\<close>

record ExampleERC20Transfer =
  ExampleERC20Transfer_From :: address
  ExampleERC20Transfer_To :: address
  ExampleERC20Transfer_Value :: int
  ExampleERC20Transfer_Raw :: log

definition filled_ExampleERC20Transfer :: "go_value \<Rightarrow> log \<Rightarrow> ExampleERC20Transfer" where
  "filled_ExampleERC20Transfer v raw =
     \<lparr>ExampleERC20Transfer_From = filled as_address TAddress v 0,
       ExampleERC20Transfer_To = filled as_address TAddress v 1,
       ExampleERC20Transfer_Value = filled as_bigint TBigInt v 2,
       ExampleERC20Transfer_Raw = raw\<rparr>"

definition unpack_ExampleERC20Transfer ::
  "('s, 'o, 'tx) bound_contract \<Rightarrow> string \<Rightarrow> log \<Rightarrow> go_error + ExampleERC20Transfer" where
  "unpack_ExampleERC20Transfer c event raw =
     bindE (bc_UnpackLog c (TStruct ''ExampleERC20Transfer'' [TAddress, TAddress, TBigInt]) event
         raw) (\<lambda>v.
     Inr (filled_ExampleERC20Transfer v raw))"

definition ExampleERC20TransferIterator_Next ::
  "('s, 'o, 'tx) bound_contract \<Rightarrow> bool \<Rightarrow> ExampleERC20Transfer iterator \<Rightarrow> ExampleERC20Transfer
      next_result" where
  "ExampleERC20TransferIterator_Next c = iterator_Next (unpack_ExampleERC20Transfer c)"

definition ExampleERC20TransferIterator_Error ::
  "ExampleERC20Transfer iterator \<Rightarrow> go_error option" where
  "ExampleERC20TransferIterator_Error = iterator_Error"

definition ExampleERC20TransferIterator_Close ::
  "ExampleERC20Transfer iterator \<Rightarrow> go_error option \<times> ExampleERC20Transfer iterator" where
  "ExampleERC20TransferIterator_Close = iterator_Close"

definition ExampleERC20Filterer_FilterTransfer ::
  "('s, 'o, 'tx) ExampleERC20Filterer \<Rightarrow> 'o \<Rightarrow> address list \<Rightarrow> address list \<Rightarrow> 's
    \<Rightarrow> go_error + ExampleERC20Transfer iterator" where
  "ExampleERC20Filterer_FilterTransfer c opts from' to' s =
     bindE (bc_FilterLogs (ExampleERC20Filterer_contract c) opts ''Transfer'' [map GAddress
         from', map GAddress to'] s) (\<lambda>stream.
     Inr (new_iterator ''Transfer'' stream))"

definition ExampleERC20Filterer_WatchTransfer ::
  "('s, 'o, 'tx) ExampleERC20Filterer \<Rightarrow> 'o \<Rightarrow> address list \<Rightarrow> address list \<Rightarrow> 's
    \<Rightarrow> go_error + ExampleERC20Transfer watcher" where
  "ExampleERC20Filterer_WatchTransfer c opts from' to' s =
     bindE (bc_WatchLogs (ExampleERC20Filterer_contract c) opts ''Transfer'' [map GAddress from',
         map GAddress to'] s) (\<lambda>stream.
     Inr (new_watcher (unpack_ExampleERC20Transfer (ExampleERC20Filterer_contract c)
         ''Transfer'') stream))"

definition ExampleERC20Filterer_ParseTransfer ::
  "('s, 'o, 'tx) ExampleERC20Filterer \<Rightarrow> log \<Rightarrow> go_error + ExampleERC20Transfer" where
  "ExampleERC20Filterer_ParseTransfer c raw = unpack_ExampleERC20Transfer
      (ExampleERC20Filterer_contract c) ''Transfer'' raw"

end
