(* ===== verification/Bind_Safety.thy ===== *)
theory Bind_Safety
  imports Bind_Correctness Event_Correctness Bind_TeleporterRegistry Bind_BlockHashPublisher Bind_BlockHashReceiver
    Bind_ExampleCrossChainMessenger Bind_ERC20Bridge Bind_BridgeToken Bind_ERC20TokenSource
    Bind_NativeTokenSource Bind_NativeTokenDestination Bind_ExampleERC20
begin

section \<open>Every binding follows its ABI\<close>

text \<open>
  For each of the eleven generated bindings: what it means that none of its methods panics over a
  bound contract, and that this is so if the contract follows the ABI.
\<close>

subsection \<open>TeleporterMessenger\<close>

definition TeleporterMessenger_calls_safe :: "('s, 'o, 'tx) TeleporterMessengerCaller \<Rightarrow> bool" where
  "TeleporterMessenger_calls_safe k \<longleftrightarrow> (\<forall>opts s.
       \<not> panics (TeleporterMessengerCaller_WARPMESSENGER k opts s) \<and>
       \<not> panics (TeleporterMessengerCaller_BlockchainID k opts s) \<and>
       (\<forall>relayer feeAsset. \<not> panics
           (TeleporterMessengerCaller_CheckRelayerRewardAmount k opts relayer feeAsset s)) \<and>
       (\<forall>destinationBlockchainID messageID. \<not> panics
           (TeleporterMessengerCaller_GetFeeInfo k opts destinationBlockchainID messageID s)) \<and>
       (\<forall>destinationBlockchainID messageID. \<not> panics
           (TeleporterMessengerCaller_GetMessageHash k opts destinationBlockchainID messageID s)) \<and>
       (\<forall>destinationBlockchainID. \<not> panics
           (TeleporterMessengerCaller_GetNextMessageID k opts destinationBlockchainID s)) \<and>
       (\<forall>originBlockchainID index. \<not> panics
           (TeleporterMessengerCaller_GetReceiptAtIndex k opts originBlockchainID index s)) \<and>
       (\<forall>originBlockchainID. \<not> panics (TeleporterMessengerCaller_GetReceiptQueueSize
           k opts originBlockchainID s)) \<and>
       (\<forall>originBlockchainID messageID. \<not> panics
           (TeleporterMessengerCaller_GetRelayerRewardAddress k opts originBlockchainID messageID
           s)) \<and>
       (\<forall>destinationBlockchainID. \<not> panics
           (TeleporterMessengerCaller_LatestMessageIDs k opts destinationBlockchainID s)) \<and>
       (\<forall>originBlockchainID messageID. \<not> panics
           (TeleporterMessengerCaller_MessageReceived k opts originBlockchainID messageID s)) \<and>
       (\<forall>sourceBlockchainID. \<not> panics (TeleporterMessengerCaller_ReceiptQueues k
           opts sourceBlockchainID s)) \<and>
       (\<forall>sourceBlockchainID messageID. \<not> panics
           (TeleporterMessengerCaller_ReceivedFailedMessageHashes k opts sourceBlockchainID
           messageID s)) \<and>
       (\<forall>destinationBlockchainID messageID. \<not> panics
           (TeleporterMessengerCaller_SentMessageInfo k opts destinationBlockchainID messageID
           s)))"

definition TeleporterMessenger_transactions_safe :: "('s, 'o, 'tx) TeleporterMessengerTransactor \<Rightarrow> bool" where
  "TeleporterMessenger_transactions_safe k \<longleftrightarrow> (\<forall>opts s.
       (\<forall>destinationBlockchainID messageID feeTokenAddress additionalFeeAmount. \<not>
           panics (TeleporterMessengerTransactor_AddFeeAmount k opts destinationBlockchainID
           messageID feeTokenAddress additionalFeeAmount s)) \<and>
       (\<forall>messageIndex relayerRewardAddress. \<not> panics
           (TeleporterMessengerTransactor_ReceiveCrossChainMessage k opts messageIndex
           relayerRewardAddress s)) \<and>
       (\<forall>feeAsset. \<not> panics (TeleporterMessengerTransactor_RedeemRelayerRewards k
           opts feeAsset s)) \<and>
       (\<forall>originBlockchainID message. \<not> panics
           (TeleporterMessengerTransactor_RetryMessageExecution k opts originBlockchainID message
           s)) \<and>
       (\<forall>destinationBlockchainID message. \<not> panics
           (TeleporterMessengerTransactor_RetrySendCrossChainMessage k opts
           destinationBlockchainID message s)) \<and>
       (\<forall>messageInput. \<not> panics (TeleporterMessengerTransactor_SendCrossChainMessage
           k opts messageInput s)) \<and>
       (\<forall>originBlockchainID messageIDs feeInfo allowedRelayerAddresses. \<not> panics
           (TeleporterMessengerTransactor_SendSpecifiedReceipts k opts originBlockchainID
           messageIDs feeInfo allowedRelayerAddresses s)))"

lemmas TeleporterMessenger_calls =
  TeleporterMessengerCaller_WARPMESSENGER_def TeleporterMessengerCaller_BlockchainID_def
      TeleporterMessengerCaller_CheckRelayerRewardAmount_def
      TeleporterMessengerCaller_GetFeeInfo_def TeleporterMessengerCaller_GetMessageHash_def
      TeleporterMessengerCaller_GetNextMessageID_def
      TeleporterMessengerCaller_GetReceiptAtIndex_def
      TeleporterMessengerCaller_GetReceiptQueueSize_def
      TeleporterMessengerCaller_GetRelayerRewardAddress_def
      TeleporterMessengerCaller_LatestMessageIDs_def
      TeleporterMessengerCaller_MessageReceived_def TeleporterMessengerCaller_ReceiptQueues_def
      TeleporterMessengerCaller_ReceivedFailedMessageHashes_def
      TeleporterMessengerCaller_SentMessageInfo_def

lemmas TeleporterMessenger_transactions =
  TeleporterMessengerTransactor_AddFeeAmount_def
      TeleporterMessengerTransactor_ReceiveCrossChainMessage_def
      TeleporterMessengerTransactor_RedeemRelayerRewards_def
      TeleporterMessengerTransactor_RetryMessageExecution_def
      TeleporterMessengerTransactor_RetrySendCrossChainMessage_def
      TeleporterMessengerTransactor_SendCrossChainMessage_def
      TeleporterMessengerTransactor_SendSpecifiedReceipts_def

lemma TeleporterMessenger_follows_abi:
  assumes "abi_contract TeleporterMessengerMetaData c"
  shows "TeleporterMessenger_calls_safe \<lparr>TeleporterMessengerCaller_contract = c\<rparr>"
    and "TeleporterMessenger_transactions_safe \<lparr>TeleporterMessengerTransactor_contract = c\<rparr>"
proof -
  note ok = abi_contract.call1_ok [OF assms] abi_contract.call2_ok [OF assms]
    abi_contract.transact_args_ok [OF assms]
  show "TeleporterMessenger_calls_safe \<lparr>TeleporterMessengerCaller_contract = c\<rparr>"
    unfolding TeleporterMessenger_calls_safe_def TeleporterMessenger_calls TeleporterMessengerCaller.select_convs
    by (intro conjI allI ok(1,2)) (simp_all add: follows_abi_def TeleporterMessengerMetaData_def as_typed)
  show "TeleporterMessenger_transactions_safe \<lparr>TeleporterMessengerTransactor_contract = c\<rparr>"
    unfolding TeleporterMessenger_transactions_safe_def TeleporterMessenger_transactions TeleporterMessengerTransactor.select_convs
    by (intro conjI allI ok(3))
      (simp_all add: accepts_args_def TeleporterMessengerMetaData_def)
qed

subsection \<open>TeleporterRegistry\<close>

definition TeleporterRegistry_calls_safe :: "('s, 'o, 'tx) TeleporterRegistryCaller \<Rightarrow> bool" where
  "TeleporterRegistry_calls_safe k \<longleftrightarrow> (\<forall>opts s.
       \<not> panics (TeleporterRegistryCaller_MAXVERSIONINCREMENT k opts s) \<and>
       \<not> panics (TeleporterRegistryCaller_VALIDATORSSOURCEADDRESS k opts s) \<and>
       \<not> panics (TeleporterRegistryCaller_WARPMESSENGER k opts s) \<and>
       \<not> panics (TeleporterRegistryCaller_BlockchainID k opts s) \<and>
       (\<forall>version. \<not> panics (TeleporterRegistryCaller_GetAddressFromVersion k opts
           version s)) \<and>
       \<not> panics (TeleporterRegistryCaller_GetLatestTeleporter k opts s) \<and>
       (\<forall>version. \<not> panics (TeleporterRegistryCaller_GetTeleporterFromVersion k opts
           version s)) \<and>
       (\<forall>protocolAddress. \<not> panics (TeleporterRegistryCaller_GetVersionFromAddress k
           opts protocolAddress s)) \<and>
       \<not> panics (TeleporterRegistryCaller_LatestVersion k opts s))"

definition TeleporterRegistry_transactions_safe :: "('s, 'o, 'tx) TeleporterRegistryTransactor \<Rightarrow> bool" where
  "TeleporterRegistry_transactions_safe k \<longleftrightarrow> (\<forall>opts s.
       (\<forall>messageIndex. \<not> panics (TeleporterRegistryTransactor_AddProtocolVersion k
           opts messageIndex s)))"

lemmas TeleporterRegistry_calls =
  TeleporterRegistryCaller_MAXVERSIONINCREMENT_def
      TeleporterRegistryCaller_VALIDATORSSOURCEADDRESS_def
      TeleporterRegistryCaller_WARPMESSENGER_def TeleporterRegistryCaller_BlockchainID_def
      TeleporterRegistryCaller_GetAddressFromVersion_def
      TeleporterRegistryCaller_GetLatestTeleporter_def
      TeleporterRegistryCaller_GetTeleporterFromVersion_def
      TeleporterRegistryCaller_GetVersionFromAddress_def
      TeleporterRegistryCaller_LatestVersion_def

lemmas TeleporterRegistry_transactions =
  TeleporterRegistryTransactor_AddProtocolVersion_def

lemma TeleporterRegistry_follows_abi:
  assumes "abi_contract TeleporterRegistryMetaData c"
  shows "TeleporterRegistry_calls_safe \<lparr>TeleporterRegistryCaller_contract = c\<rparr>"
    and "TeleporterRegistry_transactions_safe \<lparr>TeleporterRegistryTransactor_contract = c\<rparr>"
proof -
  note ok = abi_contract.call1_ok [OF assms] abi_contract.call2_ok [OF assms]
    abi_contract.transact_args_ok [OF assms]
  show "TeleporterRegistry_calls_safe \<lparr>TeleporterRegistryCaller_contract = c\<rparr>"
    unfolding TeleporterRegistry_calls_safe_def TeleporterRegistry_calls TeleporterRegistryCaller.select_convs
    by (intro conjI allI ok(1,2)) (simp_all add: follows_abi_def TeleporterRegistryMetaData_def)
  show "TeleporterRegistry_transactions_safe \<lparr>TeleporterRegistryTransactor_contract = c\<rparr>"
    unfolding TeleporterRegistry_transactions_safe_def TeleporterRegistry_transactions TeleporterRegistryTransactor.select_convs
    by (intro conjI allI ok(3))
      (simp_all add: accepts_args_def TeleporterRegistryMetaData_def has_type_struct list_all2_Cons2 Bind_TeleporterRegistry.of_ProtocolRegistryEntry_def)
qed

subsection \<open>BlockHashPublisher\<close>

definition BlockHashPublisher_calls_safe :: "('s, 'o, 'tx) BlockHashPublisherCaller \<Rightarrow> bool" where
  "BlockHashPublisher_calls_safe k \<longleftrightarrow> (\<forall>opts s.
       \<not> panics (BlockHashPublisherCaller_RECEIVEBLOCKHASHREQUIREDGASLIMIT k opts s) \<and>
       \<not> panics (BlockHashPublisherCaller_TeleporterRegistry k opts s))"

definition BlockHashPublisher_transactions_safe :: "('s, 'o, 'tx) BlockHashPublisherTransactor \<Rightarrow> bool" where
  "BlockHashPublisher_transactions_safe k \<longleftrightarrow> (\<forall>opts s.
       (\<forall>destinationBlockchainID destinationAddress. \<not> panics
           (BlockHashPublisherTransactor_PublishLatestBlockHash k opts destinationBlockchainID
           destinationAddress s)))"

lemmas BlockHashPublisher_calls =
  BlockHashPublisherCaller_RECEIVEBLOCKHASHREQUIREDGASLIMIT_def
      BlockHashPublisherCaller_TeleporterRegistry_def

lemmas BlockHashPublisher_transactions =
  BlockHashPublisherTransactor_PublishLatestBlockHash_def

lemma BlockHashPublisher_follows_abi:
  assumes "abi_contract BlockHashPublisherMetaData c"
  shows "BlockHashPublisher_calls_safe \<lparr>BlockHashPublisherCaller_contract = c\<rparr>"
    and "BlockHashPublisher_transactions_safe \<lparr>BlockHashPublisherTransactor_contract = c\<rparr>"
proof -
  note ok = abi_contract.call1_ok [OF assms] abi_contract.call2_ok [OF assms]
    abi_contract.transact_args_ok [OF assms]
  show "BlockHashPublisher_calls_safe \<lparr>BlockHashPublisherCaller_contract = c\<rparr>"
    unfolding BlockHashPublisher_calls_safe_def BlockHashPublisher_calls BlockHashPublisherCaller.select_convs
    by (intro conjI allI ok(1,2)) (simp_all add: follows_abi_def BlockHashPublisherMetaData_def)
  show "BlockHashPublisher_transactions_safe \<lparr>BlockHashPublisherTransactor_contract = c\<rparr>"
    unfolding BlockHashPublisher_transactions_safe_def BlockHashPublisher_transactions BlockHashPublisherTransactor.select_convs
    by (intro conjI allI ok(3))
      (simp_all add: accepts_args_def BlockHashPublisherMetaData_def)
qed

subsection \<open>BlockHashReceiver\<close>

definition BlockHashReceiver_calls_safe :: "('s, 'o, 'tx) BlockHashReceiverCaller \<Rightarrow> bool" where
  "BlockHashReceiver_calls_safe k \<longleftrightarrow> (\<forall>opts s.
       \<not> panics (BlockHashReceiverCaller_GetLatestBlockInfo k opts s) \<and>
       \<not> panics (BlockHashReceiverCaller_GetMinTeleporterVersion k opts s) \<and>
       (\<forall>teleporterAddress. \<not> panics
           (BlockHashReceiverCaller_IsTeleporterAddressPaused k opts teleporterAddress s)) \<and>
       \<not> panics (BlockHashReceiverCaller_LatestBlockHash k opts s) \<and>
       \<not> panics (BlockHashReceiverCaller_LatestBlockHeight k opts s) \<and>
       \<not> panics (BlockHashReceiverCaller_Owner k opts s) \<and>
       \<not> panics (BlockHashReceiverCaller_SourceBlockchainID k opts s) \<and>
       \<not> panics (BlockHashReceiverCaller_SourcePublisherContractAddress k opts s) \<and>
       \<not> panics (BlockHashReceiverCaller_TeleporterRegistry k opts s))"

definition BlockHashReceiver_transactions_safe :: "('s, 'o, 'tx) BlockHashReceiverTransactor \<Rightarrow> bool" where
  "BlockHashReceiver_transactions_safe k \<longleftrightarrow> (\<forall>opts s.
       (\<forall>teleporterAddress. \<not> panics
           (BlockHashReceiverTransactor_PauseTeleporterAddress k opts teleporterAddress s)) \<and>
       (\<forall>originBlockchainID originSenderAddress message. \<not> panics
           (BlockHashReceiverTransactor_ReceiveTeleporterMessage k opts originBlockchainID
           originSenderAddress message s)) \<and>
       \<not> panics (BlockHashReceiverTransactor_RenounceOwnership k opts s) \<and>
       (\<forall>newOwner. \<not> panics (BlockHashReceiverTransactor_TransferOwnership k opts
           newOwner s)) \<and>
       (\<forall>teleporterAddress. \<not> panics
           (BlockHashReceiverTransactor_UnpauseTeleporterAddress k opts teleporterAddress s)) \<and>
       (\<forall>version. \<not> panics (BlockHashReceiverTransactor_UpdateMinTeleporterVersion k
           opts version s)))"

lemmas BlockHashReceiver_calls =
  BlockHashReceiverCaller_GetLatestBlockInfo_def
      BlockHashReceiverCaller_GetMinTeleporterVersion_def
      BlockHashReceiverCaller_IsTeleporterAddressPaused_def
      BlockHashReceiverCaller_LatestBlockHash_def BlockHashReceiverCaller_LatestBlockHeight_def
      BlockHashReceiverCaller_Owner_def BlockHashReceiverCaller_SourceBlockchainID_def
      BlockHashReceiverCaller_SourcePublisherContractAddress_def
      BlockHashReceiverCaller_TeleporterRegistry_def

lemmas BlockHashReceiver_transactions =
  BlockHashReceiverTransactor_PauseTeleporterAddress_def
      BlockHashReceiverTransactor_ReceiveTeleporterMessage_def
      BlockHashReceiverTransactor_RenounceOwnership_def
      BlockHashReceiverTransactor_TransferOwnership_def
      BlockHashReceiverTransactor_UnpauseTeleporterAddress_def
      BlockHashReceiverTransactor_UpdateMinTeleporterVersion_def

lemma BlockHashReceiver_follows_abi:
  assumes "abi_contract BlockHashReceiverMetaData c"
  shows "BlockHashReceiver_calls_safe \<lparr>BlockHashReceiverCaller_contract = c\<rparr>"
    and "BlockHashReceiver_transactions_safe \<lparr>BlockHashReceiverTransactor_contract = c\<rparr>"
proof -
  note ok = abi_contract.call1_ok [OF assms] abi_contract.call2_ok [OF assms]
    abi_contract.transact_args_ok [OF assms]
  show "BlockHashReceiver_calls_safe \<lparr>BlockHashReceiverCaller_contract = c\<rparr>"
    unfolding BlockHashReceiver_calls_safe_def BlockHashReceiver_calls BlockHashReceiverCaller.select_convs
    by (intro conjI allI ok(1,2)) (simp_all add: follows_abi_def BlockHashReceiverMetaData_def)
  show "BlockHashReceiver_transactions_safe \<lparr>BlockHashReceiverTransactor_contract = c\<rparr>"
    unfolding BlockHashReceiver_transactions_safe_def BlockHashReceiver_transactions BlockHashReceiverTransactor.select_convs
    by (intro conjI allI ok(3))
      (simp_all add: accepts_args_def BlockHashReceiverMetaData_def)
qed

subsection \<open>ExampleCrossChainMessenger\<close>

definition ExampleCrossChainMessenger_calls_safe :: "('s, 'o, 'tx) ExampleCrossChainMessengerCaller \<Rightarrow> bool" where
  "ExampleCrossChainMessenger_calls_safe k \<longleftrightarrow> (\<forall>opts s.
       (\<forall>originBlockchainID. \<not> panics
           (ExampleCrossChainMessengerCaller_GetCurrentMessage k opts originBlockchainID s)) \<and>
       \<not> panics (ExampleCrossChainMessengerCaller_GetMinTeleporterVersion k opts s) \<and>
       (\<forall>teleporterAddress. \<not> panics
           (ExampleCrossChainMessengerCaller_IsTeleporterAddressPaused k opts teleporterAddress
           s)) \<and>
       \<not> panics (ExampleCrossChainMessengerCaller_Owner k opts s) \<and>
       \<not> panics (ExampleCrossChainMessengerCaller_TeleporterRegistry k opts s))"

definition ExampleCrossChainMessenger_transactions_safe :: "('s, 'o, 'tx) ExampleCrossChainMessengerTransactor \<Rightarrow> bool" where
  "ExampleCrossChainMessenger_transactions_safe k \<longleftrightarrow> (\<forall>opts s.
       (\<forall>teleporterAddress. \<not> panics
           (ExampleCrossChainMessengerTransactor_PauseTeleporterAddress k opts teleporterAddress
           s)) \<and>
       (\<forall>originBlockchainID originSenderAddress message. \<not> panics
           (ExampleCrossChainMessengerTransactor_ReceiveTeleporterMessage k opts
           originBlockchainID originSenderAddress message s)) \<and>
       \<not> panics (ExampleCrossChainMessengerTransactor_RenounceOwnership k opts s) \<and>
       (\<forall>destinationBlockchainID destinationAddress feeTokenAddress feeAmount
           requiredGasLimit message. \<not> panics
           (ExampleCrossChainMessengerTransactor_SendMessage k opts destinationBlockchainID
           destinationAddress feeTokenAddress feeAmount requiredGasLimit message s)) \<and>
       (\<forall>newOwner. \<not> panics (ExampleCrossChainMessengerTransactor_TransferOwnership
           k opts newOwner s)) \<and>
       (\<forall>teleporterAddress. \<not> panics
           (ExampleCrossChainMessengerTransactor_UnpauseTeleporterAddress k opts
           teleporterAddress s)) \<and>
       (\<forall>version. \<not> panics
           (ExampleCrossChainMessengerTransactor_UpdateMinTeleporterVersion k opts version s)))"

lemmas ExampleCrossChainMessenger_calls =
  ExampleCrossChainMessengerCaller_GetCurrentMessage_def
      ExampleCrossChainMessengerCaller_GetMinTeleporterVersion_def
      ExampleCrossChainMessengerCaller_IsTeleporterAddressPaused_def
      ExampleCrossChainMessengerCaller_Owner_def
      ExampleCrossChainMessengerCaller_TeleporterRegistry_def

lemmas ExampleCrossChainMessenger_transactions =
  ExampleCrossChainMessengerTransactor_PauseTeleporterAddress_def
      ExampleCrossChainMessengerTransactor_ReceiveTeleporterMessage_def
      ExampleCrossChainMessengerTransactor_RenounceOwnership_def
      ExampleCrossChainMessengerTransactor_SendMessage_def
      ExampleCrossChainMessengerTransactor_TransferOwnership_def
      ExampleCrossChainMessengerTransactor_UnpauseTeleporterAddress_def
      ExampleCrossChainMessengerTransactor_UpdateMinTeleporterVersion_def

lemma ExampleCrossChainMessenger_follows_abi:
  assumes "abi_contract ExampleCrossChainMessengerMetaData c"
  shows "ExampleCrossChainMessenger_calls_safe \<lparr>ExampleCrossChainMessengerCaller_contract = c\<rparr>"
    and "ExampleCrossChainMessenger_transactions_safe \<lparr>ExampleCrossChainMessengerTransactor_contract = c\<rparr>"
proof -
  note ok = abi_contract.call1_ok [OF assms] abi_contract.call2_ok [OF assms]
    abi_contract.transact_args_ok [OF assms]
  show "ExampleCrossChainMessenger_calls_safe \<lparr>ExampleCrossChainMessengerCaller_contract = c\<rparr>"
    unfolding ExampleCrossChainMessenger_calls_safe_def ExampleCrossChainMessenger_calls ExampleCrossChainMessengerCaller.select_convs
    by (intro conjI allI ok(1,2)) (simp_all add: follows_abi_def ExampleCrossChainMessengerMetaData_def)
  show "ExampleCrossChainMessenger_transactions_safe \<lparr>ExampleCrossChainMessengerTransactor_contract = c\<rparr>"
    unfolding ExampleCrossChainMessenger_transactions_safe_def ExampleCrossChainMessenger_transactions ExampleCrossChainMessengerTransactor.select_convs
    by (intro conjI allI ok(3))
      (simp_all add: accepts_args_def ExampleCrossChainMessengerMetaData_def)
qed

subsection \<open>ERC20Bridge\<close>

definition ERC20Bridge_calls_safe :: "('s, 'o, 'tx) ERC20BridgeCaller \<Rightarrow> bool" where
  "ERC20Bridge_calls_safe k \<longleftrightarrow> (\<forall>opts s.
       \<not> panics (ERC20BridgeCaller_CREATEBRIDGETOKENSREQUIREDGAS k opts s) \<and>
       \<not> panics (ERC20BridgeCaller_MINTBRIDGETOKENSREQUIREDGAS k opts s) \<and>
       \<not> panics (ERC20BridgeCaller_TRANSFERBRIDGETOKENSREQUIREDGAS k opts s) \<and>
       \<not> panics (ERC20BridgeCaller_WARPPRECOMPILEADDRESS k opts s) \<and>
       (\<forall>destinationBlockchainID destinationBridgeAddress nativeTokenContract. \<not>
           panics (ERC20BridgeCaller_BridgedBalances k opts destinationBlockchainID
           destinationBridgeAddress nativeTokenContract s)) \<and>
       \<not> panics (ERC20BridgeCaller_CurrentBlockchainID k opts s) \<and>
       (\<forall>nativeContractAddress nativeName nativeSymbol nativeDecimals. \<not> panics
           (ERC20BridgeCaller_EncodeCreateBridgeTokenData k opts nativeContractAddress nativeName
           nativeSymbol nativeDecimals s)) \<and>
       (\<forall>nativeContractAddress recipient bridgeAmount. \<not> panics
           (ERC20BridgeCaller_EncodeMintBridgeTokensData k opts nativeContractAddress recipient
           bridgeAmount s)) \<and>
       (\<forall>destinationBlockchainID destinationBridgeAddress nativeContractAddress recipient
           amount feeAmount. \<not> panics (ERC20BridgeCaller_EncodeTransferBridgeTokensData k
           opts destinationBlockchainID destinationBridgeAddress nativeContractAddress recipient
           amount feeAmount s)) \<and>
       \<not> panics (ERC20BridgeCaller_GetMinTeleporterVersion k opts s) \<and>
       (\<forall>teleporterAddress. \<not> panics (ERC20BridgeCaller_IsTeleporterAddressPaused k
           opts teleporterAddress s)) \<and>
       (\<forall>nativeBlockchainID nativeBridgeAddress nativeTokenAddress. \<not> panics
           (ERC20BridgeCaller_NativeToWrappedTokens k opts nativeBlockchainID nativeBridgeAddress
           nativeTokenAddress s)) \<and>
       \<not> panics (ERC20BridgeCaller_Owner k opts s) \<and>
       (\<forall>destinationBlockchainID destinationBridgeAddress nativeTokenContract. \<not>
           panics (ERC20BridgeCaller_SubmittedBridgeTokenCreations k opts destinationBlockchainID
           destinationBridgeAddress nativeTokenContract s)) \<and>
       \<not> panics (ERC20BridgeCaller_TeleporterRegistry k opts s) \<and>
       (\<forall>bridgeToken. \<not> panics (ERC20BridgeCaller_WrappedTokenContracts k opts
           bridgeToken s)))"

definition ERC20Bridge_transactions_safe :: "('s, 'o, 'tx) ERC20BridgeTransactor \<Rightarrow> bool" where
  "ERC20Bridge_transactions_safe k \<longleftrightarrow> (\<forall>opts s.
       (\<forall>destinationBlockchainID destinationBridgeAddress tokenContractAddress recipient
           totalAmount primaryFeeAmount secondaryFeeAmount. \<not> panics
           (ERC20BridgeTransactor_BridgeTokens k opts destinationBlockchainID
           destinationBridgeAddress tokenContractAddress recipient totalAmount primaryFeeAmount
           secondaryFeeAmount s)) \<and>
       (\<forall>teleporterAddress. \<not> panics (ERC20BridgeTransactor_PauseTeleporterAddress k
           opts teleporterAddress s)) \<and>
       (\<forall>originBlockchainID originSenderAddress message. \<not> panics
           (ERC20BridgeTransactor_ReceiveTeleporterMessage k opts originBlockchainID
           originSenderAddress message s)) \<and>
       \<not> panics (ERC20BridgeTransactor_RenounceOwnership k opts s) \<and>
       (\<forall>destinationBlockchainID destinationBridgeAddress nativeToken messageFeeAsset
           messageFeeAmount. \<not> panics (ERC20BridgeTransactor_SubmitCreateBridgeToken k opts
           destinationBlockchainID destinationBridgeAddress nativeToken messageFeeAsset
           messageFeeAmount s)) \<and>
       (\<forall>newOwner. \<not> panics (ERC20BridgeTransactor_TransferOwnership k opts newOwner
           s)) \<and>
       (\<forall>teleporterAddress. \<not> panics (ERC20BridgeTransactor_UnpauseTeleporterAddress
           k opts teleporterAddress s)) \<and>
       (\<forall>version. \<not> panics (ERC20BridgeTransactor_UpdateMinTeleporterVersion k opts
           version s)))"

lemmas ERC20Bridge_calls =
  ERC20BridgeCaller_CREATEBRIDGETOKENSREQUIREDGAS_def
      ERC20BridgeCaller_MINTBRIDGETOKENSREQUIREDGAS_def
      ERC20BridgeCaller_TRANSFERBRIDGETOKENSREQUIREDGAS_def
      ERC20BridgeCaller_WARPPRECOMPILEADDRESS_def ERC20BridgeCaller_BridgedBalances_def
      ERC20BridgeCaller_CurrentBlockchainID_def ERC20BridgeCaller_EncodeCreateBridgeTokenData_def
      ERC20BridgeCaller_EncodeMintBridgeTokensData_def
      ERC20BridgeCaller_EncodeTransferBridgeTokensData_def
      ERC20BridgeCaller_GetMinTeleporterVersion_def
      ERC20BridgeCaller_IsTeleporterAddressPaused_def ERC20BridgeCaller_NativeToWrappedTokens_def
      ERC20BridgeCaller_Owner_def ERC20BridgeCaller_SubmittedBridgeTokenCreations_def
      ERC20BridgeCaller_TeleporterRegistry_def ERC20BridgeCaller_WrappedTokenContracts_def

lemmas ERC20Bridge_transactions =
  ERC20BridgeTransactor_BridgeTokens_def ERC20BridgeTransactor_PauseTeleporterAddress_def
      ERC20BridgeTransactor_ReceiveTeleporterMessage_def
      ERC20BridgeTransactor_RenounceOwnership_def
      ERC20BridgeTransactor_SubmitCreateBridgeToken_def
      ERC20BridgeTransactor_TransferOwnership_def
      ERC20BridgeTransactor_UnpauseTeleporterAddress_def
      ERC20BridgeTransactor_UpdateMinTeleporterVersion_def

lemma ERC20Bridge_follows_abi:
  assumes "abi_contract ERC20BridgeMetaData c"
  shows "ERC20Bridge_calls_safe \<lparr>ERC20BridgeCaller_contract = c\<rparr>"
    and "ERC20Bridge_transactions_safe \<lparr>ERC20BridgeTransactor_contract = c\<rparr>"
proof -
  note ok = abi_contract.call1_ok [OF assms] abi_contract.call2_ok [OF assms]
    abi_contract.transact_args_ok [OF assms]
  show "ERC20Bridge_calls_safe \<lparr>ERC20BridgeCaller_contract = c\<rparr>"
    unfolding ERC20Bridge_calls_safe_def ERC20Bridge_calls ERC20BridgeCaller.select_convs
    by (intro conjI allI ok(1,2)) (simp_all add: follows_abi_def ERC20BridgeMetaData_def)
  show "ERC20Bridge_transactions_safe \<lparr>ERC20BridgeTransactor_contract = c\<rparr>"
    unfolding ERC20Bridge_transactions_safe_def ERC20Bridge_transactions ERC20BridgeTransactor.select_convs
    by (intro conjI allI ok(3))
      (simp_all add: accepts_args_def ERC20BridgeMetaData_def)
qed

subsection \<open>BridgeToken\<close>

definition BridgeToken_calls_safe :: "('s, 'o, 'tx) BridgeTokenCaller \<Rightarrow> bool" where
  "BridgeToken_calls_safe k \<longleftrightarrow> (\<forall>opts s.
       (\<forall>owner spender. \<not> panics (BridgeTokenCaller_Allowance k opts owner spender
           s)) \<and>
       (\<forall>account. \<not> panics (BridgeTokenCaller_BalanceOf k opts account s)) \<and>
       \<not> panics (BridgeTokenCaller_BridgeContract k opts s) \<and>
       \<not> panics (BridgeTokenCaller_Decimals k opts s) \<and>
       \<not> panics (BridgeTokenCaller_Name k opts s) \<and>
       \<not> panics (BridgeTokenCaller_NativeAsset k opts s) \<and>
       \<not> panics (BridgeTokenCaller_NativeBlockchainID k opts s) \<and>
       \<not> panics (BridgeTokenCaller_NativeBridge k opts s) \<and>
       \<not> panics (BridgeTokenCaller_Symbol k opts s) \<and>
       \<not> panics (BridgeTokenCaller_TotalSupply k opts s))"

definition BridgeToken_transactions_safe :: "('s, 'o, 'tx) BridgeTokenTransactor \<Rightarrow> bool" where
  "BridgeToken_transactions_safe k \<longleftrightarrow> (\<forall>opts s.
       (\<forall>spender amount. \<not> panics (BridgeTokenTransactor_Approve k opts spender
           amount s)) \<and>
       (\<forall>amount. \<not> panics (BridgeTokenTransactor_Burn k opts amount s)) \<and>
       (\<forall>account amount. \<not> panics (BridgeTokenTransactor_BurnFrom k opts account
           amount s)) \<and>
       (\<forall>spender subtractedValue. \<not> panics (BridgeTokenTransactor_DecreaseAllowance
           k opts spender subtractedValue s)) \<and>
       (\<forall>spender addedValue. \<not> panics (BridgeTokenTransactor_IncreaseAllowance k
           opts spender addedValue s)) \<and>
       (\<forall>account amount. \<not> panics (BridgeTokenTransactor_Mint k opts account amount
           s)) \<and>
       (\<forall>to' amount. \<not> panics (BridgeTokenTransactor_Transfer k opts to' amount s)) \<and>
       (\<forall>from' to' amount. \<not> panics (BridgeTokenTransactor_TransferFrom k opts from'
           to' amount s)))"

lemmas BridgeToken_calls =
  BridgeTokenCaller_Allowance_def BridgeTokenCaller_BalanceOf_def
      BridgeTokenCaller_BridgeContract_def BridgeTokenCaller_Decimals_def
      BridgeTokenCaller_Name_def BridgeTokenCaller_NativeAsset_def
      BridgeTokenCaller_NativeBlockchainID_def BridgeTokenCaller_NativeBridge_def
      BridgeTokenCaller_Symbol_def BridgeTokenCaller_TotalSupply_def

lemmas BridgeToken_transactions =
  BridgeTokenTransactor_Approve_def BridgeTokenTransactor_Burn_def
      BridgeTokenTransactor_BurnFrom_def BridgeTokenTransactor_DecreaseAllowance_def
      BridgeTokenTransactor_IncreaseAllowance_def BridgeTokenTransactor_Mint_def
      BridgeTokenTransactor_Transfer_def BridgeTokenTransactor_TransferFrom_def

lemma BridgeToken_follows_abi:
  assumes "abi_contract BridgeTokenMetaData c"
  shows "BridgeToken_calls_safe \<lparr>BridgeTokenCaller_contract = c\<rparr>"
    and "BridgeToken_transactions_safe \<lparr>BridgeTokenTransactor_contract = c\<rparr>"
proof -
  note ok = abi_contract.call1_ok [OF assms] abi_contract.call2_ok [OF assms]
    abi_contract.transact_args_ok [OF assms]
  show "BridgeToken_calls_safe \<lparr>BridgeTokenCaller_contract = c\<rparr>"
    unfolding BridgeToken_calls_safe_def BridgeToken_calls BridgeTokenCaller.select_convs
    by (intro conjI allI ok(1,2)) (simp_all add: follows_abi_def BridgeTokenMetaData_def)
  show "BridgeToken_transactions_safe \<lparr>BridgeTokenTransactor_contract = c\<rparr>"
    unfolding BridgeToken_transactions_safe_def BridgeToken_transactions BridgeTokenTransactor.select_convs
    by (intro conjI allI ok(3))
      (simp_all add: accepts_args_def BridgeTokenMetaData_def)
qed

subsection \<open>ERC20TokenSource\<close>

definition ERC20TokenSource_calls_safe :: "('s, 'o, 'tx) ERC20TokenSourceCaller \<Rightarrow> bool" where
  "ERC20TokenSource_calls_safe k \<longleftrightarrow> (\<forall>opts s.
       \<not> panics (ERC20TokenSourceCaller_BURNEDTXFEESADDRESS k opts s) \<and>
       \<not> panics (ERC20TokenSourceCaller_MINTNATIVETOKENSREQUIREDGAS k opts s) \<and>
       \<not> panics (ERC20TokenSourceCaller_DestinationBlockchainID k opts s) \<and>
       \<not> panics (ERC20TokenSourceCaller_DestinationBurnedTotal k opts s) \<and>
       \<not> panics (ERC20TokenSourceCaller_Erc20ContractAddress k opts s) \<and>
       \<not> panics (ERC20TokenSourceCaller_NativeTokenDestinationAddress k opts s) \<and>
       \<not> panics (ERC20TokenSourceCaller_TeleporterMessenger k opts s))"

definition ERC20TokenSource_transactions_safe :: "('s, 'o, 'tx) ERC20TokenSourceTransactor \<Rightarrow> bool" where
  "ERC20TokenSource_transactions_safe k \<longleftrightarrow> (\<forall>opts s.
       (\<forall>senderBlockchainID senderAddress message. \<not> panics
           (ERC20TokenSourceTransactor_ReceiveTeleporterMessage k opts senderBlockchainID
           senderAddress message s)) \<and>
       (\<forall>recipient totalAmount feeAmount allowedRelayerAddresses. \<not> panics
           (ERC20TokenSourceTransactor_TransferToDestination k opts recipient totalAmount
           feeAmount allowedRelayerAddresses s)))"

lemmas ERC20TokenSource_calls =
  ERC20TokenSourceCaller_BURNEDTXFEESADDRESS_def
      ERC20TokenSourceCaller_MINTNATIVETOKENSREQUIREDGAS_def
      ERC20TokenSourceCaller_DestinationBlockchainID_def
      ERC20TokenSourceCaller_DestinationBurnedTotal_def
      ERC20TokenSourceCaller_Erc20ContractAddress_def
      ERC20TokenSourceCaller_NativeTokenDestinationAddress_def
      ERC20TokenSourceCaller_TeleporterMessenger_def

lemmas ERC20TokenSource_transactions =
  ERC20TokenSourceTransactor_ReceiveTeleporterMessage_def
      ERC20TokenSourceTransactor_TransferToDestination_def

lemma ERC20TokenSource_follows_abi:
  assumes "abi_contract ERC20TokenSourceMetaData c"
  shows "ERC20TokenSource_calls_safe \<lparr>ERC20TokenSourceCaller_contract = c\<rparr>"
    and "ERC20TokenSource_transactions_safe \<lparr>ERC20TokenSourceTransactor_contract = c\<rparr>"
proof -
  note ok = abi_contract.call1_ok [OF assms] abi_contract.call2_ok [OF assms]
    abi_contract.transact_args_ok [OF assms]
  show "ERC20TokenSource_calls_safe \<lparr>ERC20TokenSourceCaller_contract = c\<rparr>"
    unfolding ERC20TokenSource_calls_safe_def ERC20TokenSource_calls ERC20TokenSourceCaller.select_convs
    by (intro conjI allI ok(1,2)) (simp_all add: follows_abi_def ERC20TokenSourceMetaData_def)
  show "ERC20TokenSource_transactions_safe \<lparr>ERC20TokenSourceTransactor_contract = c\<rparr>"
    unfolding ERC20TokenSource_transactions_safe_def ERC20TokenSource_transactions ERC20TokenSourceTransactor.select_convs
    by (intro conjI allI ok(3))
      (simp_all add: accepts_args_def ERC20TokenSourceMetaData_def)
qed

subsection \<open>NativeTokenSource\<close>

definition NativeTokenSource_calls_safe :: "('s, 'o, 'tx) NativeTokenSourceCaller \<Rightarrow> bool" where
  "NativeTokenSource_calls_safe k \<longleftrightarrow> (\<forall>opts s.
       \<not> panics (NativeTokenSourceCaller_BURNEDTXFEESADDRESS k opts s) \<and>
       \<not> panics (NativeTokenSourceCaller_MINTNATIVETOKENSREQUIREDGAS k opts s) \<and>
       \<not> panics (NativeTokenSourceCaller_DestinationBlockchainID k opts s) \<and>
       \<not> panics (NativeTokenSourceCaller_DestinationBurnedTotal k opts s) \<and>
       \<not> panics (NativeTokenSourceCaller_NativeTokenDestinationAddress k opts s) \<and>
       \<not> panics (NativeTokenSourceCaller_TeleporterMessenger k opts s))"

definition NativeTokenSource_transactions_safe :: "('s, 'o, 'tx) NativeTokenSourceTransactor \<Rightarrow> bool" where
  "NativeTokenSource_transactions_safe k \<longleftrightarrow> (\<forall>opts s.
       (\<forall>senderBlockchainID senderAddress message. \<not> panics
           (NativeTokenSourceTransactor_ReceiveTeleporterMessage k opts senderBlockchainID
           senderAddress message s)) \<and>
       (\<forall>recipient feeInfo allowedRelayerAddresses. \<not> panics
           (NativeTokenSourceTransactor_TransferToDestination k opts recipient feeInfo
           allowedRelayerAddresses s)))"

lemmas NativeTokenSource_calls =
  NativeTokenSourceCaller_BURNEDTXFEESADDRESS_def
      NativeTokenSourceCaller_MINTNATIVETOKENSREQUIREDGAS_def
      NativeTokenSourceCaller_DestinationBlockchainID_def
      NativeTokenSourceCaller_DestinationBurnedTotal_def
      NativeTokenSourceCaller_NativeTokenDestinationAddress_def
      NativeTokenSourceCaller_TeleporterMessenger_def

lemmas NativeTokenSource_transactions =
  NativeTokenSourceTransactor_ReceiveTeleporterMessage_def
      NativeTokenSourceTransactor_TransferToDestination_def

lemma NativeTokenSource_follows_abi:
  assumes "abi_contract NativeTokenSourceMetaData c"
  shows "NativeTokenSource_calls_safe \<lparr>NativeTokenSourceCaller_contract = c\<rparr>"
    and "NativeTokenSource_transactions_safe \<lparr>NativeTokenSourceTransactor_contract = c\<rparr>"
proof -
  note ok = abi_contract.call1_ok [OF assms] abi_contract.call2_ok [OF assms]
    abi_contract.transact_args_ok [OF assms]
  show "NativeTokenSource_calls_safe \<lparr>NativeTokenSourceCaller_contract = c\<rparr>"
    unfolding NativeTokenSource_calls_safe_def NativeTokenSource_calls NativeTokenSourceCaller.select_convs
    by (intro conjI allI ok(1,2)) (simp_all add: follows_abi_def NativeTokenSourceMetaData_def)
  show "NativeTokenSource_transactions_safe \<lparr>NativeTokenSourceTransactor_contract = c\<rparr>"
    unfolding NativeTokenSource_transactions_safe_def NativeTokenSource_transactions NativeTokenSourceTransactor.select_convs
    by (intro conjI allI ok(3))
      (simp_all add: accepts_args_def NativeTokenSourceMetaData_def has_type_struct list_all2_Cons2 Bind_NativeTokenSource.of_TeleporterFeeInfo_def)
qed

subsection \<open>NativeTokenDestination\<close>

definition NativeTokenDestination_calls_safe :: "('s, 'o, 'tx) NativeTokenDestinationCaller \<Rightarrow> bool" where
  "NativeTokenDestination_calls_safe k \<longleftrightarrow> (\<forall>opts s.
       \<not> panics (NativeTokenDestinationCaller_BURNEDTXFEESADDRESS k opts s) \<and>
       \<not> panics (NativeTokenDestinationCaller_BURNFORTRANSFERADDRESS k opts s) \<and>
       \<not> panics (NativeTokenDestinationCaller_REPORTBURNEDTOKENSREQUIREDGAS k opts s) \<and>
       \<not> panics (NativeTokenDestinationCaller_TRANSFERNATIVETOKENSREQUIREDGAS k opts s) \<and>
       \<not> panics (NativeTokenDestinationCaller_CurrentReserveImbalance k opts s) \<and>
       \<not> panics (NativeTokenDestinationCaller_InitialReserveImbalance k opts s) \<and>
       \<not> panics (NativeTokenDestinationCaller_IsCollateralized k opts s) \<and>
       \<not> panics (NativeTokenDestinationCaller_NativeTokenSourceAddress k opts s) \<and>
       \<not> panics (NativeTokenDestinationCaller_SourceBlockchainID k opts s) \<and>
       \<not> panics (NativeTokenDestinationCaller_TeleporterMessenger k opts s) \<and>
       \<not> panics (NativeTokenDestinationCaller_TotalMinted k opts s) \<and>
       \<not> panics (NativeTokenDestinationCaller_TotalSupply k opts s))"

definition NativeTokenDestination_transactions_safe :: "('s, 'o, 'tx) NativeTokenDestinationTransactor \<Rightarrow> bool" where
  "NativeTokenDestination_transactions_safe k \<longleftrightarrow> (\<forall>opts s.
       (\<forall>senderBlockchainID senderAddress message. \<not> panics
           (NativeTokenDestinationTransactor_ReceiveTeleporterMessage k opts senderBlockchainID
           senderAddress message s)) \<and>
       (\<forall>feeInfo allowedRelayerAddresses. \<not> panics
           (NativeTokenDestinationTransactor_ReportTotalBurnedTxFees k opts feeInfo
           allowedRelayerAddresses s)) \<and>
       (\<forall>recipient feeInfo allowedRelayerAddresses. \<not> panics
           (NativeTokenDestinationTransactor_TransferToSource k opts recipient feeInfo
           allowedRelayerAddresses s)))"

lemmas NativeTokenDestination_calls =
  NativeTokenDestinationCaller_BURNEDTXFEESADDRESS_def
      NativeTokenDestinationCaller_BURNFORTRANSFERADDRESS_def
      NativeTokenDestinationCaller_REPORTBURNEDTOKENSREQUIREDGAS_def
      NativeTokenDestinationCaller_TRANSFERNATIVETOKENSREQUIREDGAS_def
      NativeTokenDestinationCaller_CurrentReserveImbalance_def
      NativeTokenDestinationCaller_InitialReserveImbalance_def
      NativeTokenDestinationCaller_IsCollateralized_def
      NativeTokenDestinationCaller_NativeTokenSourceAddress_def
      NativeTokenDestinationCaller_SourceBlockchainID_def
      NativeTokenDestinationCaller_TeleporterMessenger_def
      NativeTokenDestinationCaller_TotalMinted_def NativeTokenDestinationCaller_TotalSupply_def

lemmas NativeTokenDestination_transactions =
  NativeTokenDestinationTransactor_ReceiveTeleporterMessage_def
      NativeTokenDestinationTransactor_ReportTotalBurnedTxFees_def
      NativeTokenDestinationTransactor_TransferToSource_def

lemma NativeTokenDestination_follows_abi:
  assumes "abi_contract NativeTokenDestinationMetaData c"
  shows "NativeTokenDestination_calls_safe \<lparr>NativeTokenDestinationCaller_contract = c\<rparr>"
    and "NativeTokenDestination_transactions_safe \<lparr>NativeTokenDestinationTransactor_contract = c\<rparr>"
proof -
  note ok = abi_contract.call1_ok [OF assms] abi_contract.call2_ok [OF assms]
    abi_contract.transact_args_ok [OF assms]
  show "NativeTokenDestination_calls_safe \<lparr>NativeTokenDestinationCaller_contract = c\<rparr>"
    unfolding NativeTokenDestination_calls_safe_def NativeTokenDestination_calls NativeTokenDestinationCaller.select_convs
    by (intro conjI allI ok(1,2)) (simp_all add: follows_abi_def NativeTokenDestinationMetaData_def)
  show "NativeTokenDestination_transactions_safe \<lparr>NativeTokenDestinationTransactor_contract = c\<rparr>"
    unfolding NativeTokenDestination_transactions_safe_def NativeTokenDestination_transactions NativeTokenDestinationTransactor.select_convs
    by (intro conjI allI ok(3))
      (simp_all add: accepts_args_def NativeTokenDestinationMetaData_def has_type_struct list_all2_Cons2 Bind_NativeTokenDestination.of_TeleporterFeeInfo_def)
qed

subsection \<open>ExampleERC20\<close>

definition ExampleERC20_calls_safe :: "('s, 'o, 'tx) ExampleERC20Caller \<Rightarrow> bool" where
  "ExampleERC20_calls_safe k \<longleftrightarrow> (\<forall>opts s.
       (\<forall>owner spender. \<not> panics (ExampleERC20Caller_Allowance k opts owner spender
           s)) \<and>
       (\<forall>account. \<not> panics (ExampleERC20Caller_BalanceOf k opts account s)) \<and>
       \<not> panics (ExampleERC20Caller_Decimals k opts s) \<and>
       \<not> panics (ExampleERC20Caller_Name k opts s) \<and>
       \<not> panics (ExampleERC20Caller_Symbol k opts s) \<and>
       \<not> panics (ExampleERC20Caller_TotalSupply k opts s))"

definition ExampleERC20_transactions_safe :: "('s, 'o, 'tx) ExampleERC20Transactor \<Rightarrow> bool" where
  "ExampleERC20_transactions_safe k \<longleftrightarrow> (\<forall>opts s.
       (\<forall>spender amount. \<not> panics (ExampleERC20Transactor_Approve k opts spender
           amount s)) \<and>
       (\<forall>amount. \<not> panics (ExampleERC20Transactor_Burn k opts amount s)) \<and>
       (\<forall>account amount. \<not> panics (ExampleERC20Transactor_BurnFrom k opts account
           amount s)) \<and>
       (\<forall>spender subtractedValue. \<not> panics (ExampleERC20Transactor_DecreaseAllowance
           k opts spender subtractedValue s)) \<and>
       (\<forall>spender addedValue. \<not> panics (ExampleERC20Transactor_IncreaseAllowance k
           opts spender addedValue s)) \<and>
       (\<forall>amount. \<not> panics (ExampleERC20Transactor_Mint k opts amount s)) \<and>
       (\<forall>to' amount. \<not> panics (ExampleERC20Transactor_Transfer k opts to' amount s)) \<and>
       (\<forall>from' to' amount. \<not> panics (ExampleERC20Transactor_TransferFrom k opts
           from' to' amount s)))"

lemmas ExampleERC20_calls =
  ExampleERC20Caller_Allowance_def ExampleERC20Caller_BalanceOf_def
      ExampleERC20Caller_Decimals_def ExampleERC20Caller_Name_def ExampleERC20Caller_Symbol_def
      ExampleERC20Caller_TotalSupply_def

lemmas ExampleERC20_transactions =
  ExampleERC20Transactor_Approve_def ExampleERC20Transactor_Burn_def
      ExampleERC20Transactor_BurnFrom_def ExampleERC20Transactor_DecreaseAllowance_def
      ExampleERC20Transactor_IncreaseAllowance_def ExampleERC20Transactor_Mint_def
      ExampleERC20Transactor_Transfer_def ExampleERC20Transactor_TransferFrom_def

lemma ExampleERC20_follows_abi:
  assumes "abi_contract ExampleERC20MetaData c"
  shows "ExampleERC20_calls_safe \<lparr>ExampleERC20Caller_contract = c\<rparr>"
    and "ExampleERC20_transactions_safe \<lparr>ExampleERC20Transactor_contract = c\<rparr>"
proof -
  note ok = abi_contract.call1_ok [OF assms] abi_contract.call2_ok [OF assms]
    abi_contract.transact_args_ok [OF assms]
  show "ExampleERC20_calls_safe \<lparr>ExampleERC20Caller_contract = c\<rparr>"
    unfolding ExampleERC20_calls_safe_def ExampleERC20_calls ExampleERC20Caller.select_convs
    by (intro conjI allI ok(1,2)) (simp_all add: follows_abi_def ExampleERC20MetaData_def)
  show "ExampleERC20_transactions_safe \<lparr>ExampleERC20Transactor_contract = c\<rparr>"
    unfolding ExampleERC20_transactions_safe_def ExampleERC20_transactions ExampleERC20Transactor.select_convs
    by (intro conjI allI ok(3))
      (simp_all add: accepts_args_def ExampleERC20MetaData_def)
qed

subsection \<open>All bindings\<close>

text \<open>A contract that answers every call of its ABI with zero values, for the witnesses.\<close>

definition typed_contract :: "abi_meta \<Rightarrow> (unit, unit, unit) bound_contract" where
  "typed_contract meta =
     \<lparr>bc_Call = (\<lambda>opts name args s. case map_of (meta_methods meta) name of
        Some (ins, outs) \<Rightarrow> Inr (map zero_value outs)
      | None \<Rightarrow> Inl (GoError ''method not found'')),
      bc_Transact = (\<lambda>opts name args s. case map_of (meta_methods meta) name of
        Some (ins, outs) \<Rightarrow> Inr ((), ())
      | None \<Rightarrow> Inl (GoError ''method not found'')),
      bc_RawTransact = (\<lambda>opts data s. Inr ((), ())), bc_Transfer = (\<lambda>opts s. Inr ((), ())),
      bc_FilterLogs = (\<lambda>opts event rules s. Inr \<lparr>stream_logs = [], stream_end = Some None\<rparr>),
      bc_WatchLogs = (\<lambda>opts event rules s. Inr \<lparr>stream_logs = [], stream_end = Some None\<rparr>),
      bc_UnpackLog = (\<lambda>T event l. Inr (zero_value T)), bc_ConvertType = (\<lambda>v T. Inr (retag v T))\<rparr>"

lemma typed_contract_abi: "abi_contract meta (typed_contract meta)"
  by unfold_locales
    (auto simp: typed_contract_def have_types_list_all2 list.rel_map list_all2_same has_type_zero)

text \<open>
  C27: Every method of every binding follows its ABI. Over any contract that follows the ABI of the
  binding's metadata, no read-only method and no transaction method of any of the eleven bindings
  panics: each calls a method that the ABI has, with arguments of the ABI's types, and asserts
  outputs of the ABI's types only.
\<close>

theorem bindings_never_panic:
  "(abi_contract TeleporterMessengerMetaData c \<longrightarrow>
       TeleporterMessenger_calls_safe \<lparr>TeleporterMessengerCaller_contract = c\<rparr> \<and>
       TeleporterMessenger_transactions_safe \<lparr>TeleporterMessengerTransactor_contract = c\<rparr>) \<and>
   (abi_contract TeleporterRegistryMetaData c \<longrightarrow>
       TeleporterRegistry_calls_safe \<lparr>TeleporterRegistryCaller_contract = c\<rparr> \<and>
       TeleporterRegistry_transactions_safe \<lparr>TeleporterRegistryTransactor_contract = c\<rparr>) \<and>
   (abi_contract BlockHashPublisherMetaData c \<longrightarrow>
       BlockHashPublisher_calls_safe \<lparr>BlockHashPublisherCaller_contract = c\<rparr> \<and>
       BlockHashPublisher_transactions_safe \<lparr>BlockHashPublisherTransactor_contract = c\<rparr>) \<and>
   (abi_contract BlockHashReceiverMetaData c \<longrightarrow>
       BlockHashReceiver_calls_safe \<lparr>BlockHashReceiverCaller_contract = c\<rparr> \<and>
       BlockHashReceiver_transactions_safe \<lparr>BlockHashReceiverTransactor_contract = c\<rparr>) \<and>
   (abi_contract ExampleCrossChainMessengerMetaData c \<longrightarrow>
       ExampleCrossChainMessenger_calls_safe \<lparr>ExampleCrossChainMessengerCaller_contract = c\<rparr> \<and>
       ExampleCrossChainMessenger_transactions_safe \<lparr>ExampleCrossChainMessengerTransactor_contract = c\<rparr>) \<and>
   (abi_contract ERC20BridgeMetaData c \<longrightarrow>
       ERC20Bridge_calls_safe \<lparr>ERC20BridgeCaller_contract = c\<rparr> \<and>
       ERC20Bridge_transactions_safe \<lparr>ERC20BridgeTransactor_contract = c\<rparr>) \<and>
   (abi_contract BridgeTokenMetaData c \<longrightarrow>
       BridgeToken_calls_safe \<lparr>BridgeTokenCaller_contract = c\<rparr> \<and>
       BridgeToken_transactions_safe \<lparr>BridgeTokenTransactor_contract = c\<rparr>) \<and>
   (abi_contract ERC20TokenSourceMetaData c \<longrightarrow>
       ERC20TokenSource_calls_safe \<lparr>ERC20TokenSourceCaller_contract = c\<rparr> \<and>
       ERC20TokenSource_transactions_safe \<lparr>ERC20TokenSourceTransactor_contract = c\<rparr>) \<and>
   (abi_contract NativeTokenSourceMetaData c \<longrightarrow>
       NativeTokenSource_calls_safe \<lparr>NativeTokenSourceCaller_contract = c\<rparr> \<and>
       NativeTokenSource_transactions_safe \<lparr>NativeTokenSourceTransactor_contract = c\<rparr>) \<and>
   (abi_contract NativeTokenDestinationMetaData c \<longrightarrow>
       NativeTokenDestination_calls_safe \<lparr>NativeTokenDestinationCaller_contract = c\<rparr> \<and>
       NativeTokenDestination_transactions_safe \<lparr>NativeTokenDestinationTransactor_contract = c\<rparr>) \<and>
   (abi_contract ExampleERC20MetaData c \<longrightarrow>
       ExampleERC20_calls_safe \<lparr>ExampleERC20Caller_contract = c\<rparr> \<and>
       ExampleERC20_transactions_safe \<lparr>ExampleERC20Transactor_contract = c\<rparr>)"
  by (intro conjI impI) (fact TeleporterMessenger_follows_abi TeleporterRegistry_follows_abi BlockHashPublisher_follows_abi
    BlockHashReceiver_follows_abi ExampleCrossChainMessenger_follows_abi ERC20Bridge_follows_abi
    BridgeToken_follows_abi ERC20TokenSource_follows_abi NativeTokenSource_follows_abi
    NativeTokenDestination_follows_abi ExampleERC20_follows_abi)+

theorem bindings_never_panic_witness:
  "TeleporterRegistry_calls_safe
     \<lparr>TeleporterRegistryCaller_contract = typed_contract TeleporterRegistryMetaData\<rparr> \<and>
   ERC20Bridge_calls_safe
     \<lparr>ERC20BridgeCaller_contract = typed_contract ERC20BridgeMetaData\<rparr> \<and>
   NativeTokenDestination_calls_safe
     \<lparr>NativeTokenDestinationCaller_contract = typed_contract NativeTokenDestinationMetaData\<rparr>"
proof (intro conjI)
  show "TeleporterRegistry_calls_safe \<lparr>TeleporterRegistryCaller_contract = typed_contract TeleporterRegistryMetaData\<rparr>"
    using bindings_never_panic [of "typed_contract TeleporterRegistryMetaData"] typed_contract_abi by blast
  show "ERC20Bridge_calls_safe \<lparr>ERC20BridgeCaller_contract = typed_contract ERC20BridgeMetaData\<rparr>"
    using bindings_never_panic [of "typed_contract ERC20BridgeMetaData"] typed_contract_abi by blast
  show "NativeTokenDestination_calls_safe \<lparr>NativeTokenDestinationCaller_contract = typed_contract NativeTokenDestinationMetaData\<rparr>"
    using bindings_never_panic [of "typed_contract NativeTokenDestinationMetaData"] typed_contract_abi by blast
qed

end
