(* ===== verification/Bind_Registry_Link.thy ===== *)
theory Bind_Registry_Link
  imports Bind_Messenger_Link Bind_TeleporterRegistry Upgrade_Correctness
begin

section \<open>The Go binding over the modelled registry\<close>

text \<open>
  \<open>registry_contract\<close> answers the calls and transactions of a bound contract with the model of
  TeleporterRegistry.sol. It provides the interface \<open>abi_contract\<close>; over it the generated methods
  compute what the registry computes, and a version that is added through the binding is what the
  binding then reads. The arguments \<open>this\<close>, \<open>verified\<close> and \<open>decode\<close> are those of \<open>addProtocolVersion\<close>.
\<close>

definition registry_tx ::
  "address \<Rightarrow> (uint32 \<Rightarrow> WarpMessage \<times> bool) \<Rightarrow> (bytes \<Rightarrow> (ProtocolRegistryEntry \<times> address) option)
    \<Rightarrow> string \<Rightarrow> go_value list \<Rightarrow> registry \<Rightarrow> go_error + (uint32 \<times> registry)" where
  "registry_tx this verified decode name args r =
     (if name = ''addProtocolVersion'' then
        bindE (arg_as args 0 as_uint32) (\<lambda>i.
        bindE (sol_result (addProtocolVersion this verified decode i r)) (\<lambda>r'. Inr (i, r')))
      else Inl (GoError ''method not found''))"

definition registry_call ::
  "address \<Rightarrow> (uint32 \<Rightarrow> WarpMessage \<times> bool) \<Rightarrow> (bytes \<Rightarrow> (ProtocolRegistryEntry \<times> address) option)
    \<Rightarrow> string \<Rightarrow> go_value list \<Rightarrow> registry \<Rightarrow> go_error + go_value list" where
  "registry_call this verified decode name args r =
     (if name = ''MAX_VERSION_INCREMENT'' then Inr [GBigInt (uint MAX_VERSION_INCREMENT)]
      else if name = ''VALIDATORS_SOURCE_ADDRESS'' then Inr [GAddress VALIDATORS_SOURCE_ADDRESS]
      else if name = ''WARP_MESSENGER'' then Inr [GAddress WARP_MESSENGER]
      else if name = ''blockchainID'' then Inr [GBytes32 (reg_blockchainID r)]
      else if name = ''getAddressFromVersion'' then
        bindE (arg_as args 0 as_bigint) (\<lambda>v.
        bindE (sol_result (getAddressFromVersion (word_of_int v) r)) (\<lambda>a. Inr [GAddress a]))
      else if name = ''getLatestTeleporter'' then
        bindE (sol_result (getLatestTeleporter r)) (\<lambda>a. Inr [GAddress a])
      else if name = ''getTeleporterFromVersion'' then
        bindE (arg_as args 0 as_bigint) (\<lambda>v.
        bindE (sol_result (getTeleporterFromVersion (word_of_int v) r)) (\<lambda>a. Inr [GAddress a]))
      else if name = ''getVersionFromAddress'' then
        bindE (arg_as args 0 as_address) (\<lambda>a.
        bindE (sol_result (getVersionFromAddress a r)) (\<lambda>v. Inr [GBigInt (uint v)]))
      else if name = ''latestVersion'' then Inr [GBigInt (uint (latestVersion r))]
      else bindE (registry_tx this verified decode name args r) (\<lambda>_. Inr []))"

definition registry_contract ::
  "address \<Rightarrow> (uint32 \<Rightarrow> WarpMessage \<times> bool) \<Rightarrow> (bytes \<Rightarrow> (ProtocolRegistryEntry \<times> address) option)
    \<Rightarrow> (go_type \<Rightarrow> string \<Rightarrow> log \<Rightarrow> go_error + go_value)
    \<Rightarrow> (string \<Rightarrow> go_value list list \<Rightarrow> registry \<Rightarrow> go_error + log_stream)
    \<Rightarrow> (registry, address, uint32) bound_contract" where
  "registry_contract this verified decode unpackLog findLogs =
     \<lparr>bc_Call = (\<lambda>from. registry_call this verified decode),
      bc_Transact = (\<lambda>from. registry_tx this verified decode),
      bc_RawTransact = (\<lambda>from bs w. Inl (GoError ''execution reverted'')),
      bc_Transfer = (\<lambda>from w. Inl (GoError ''execution reverted'')),
      bc_FilterLogs = (\<lambda>from. findLogs), bc_WatchLogs = (\<lambda>from. findLogs),
      bc_UnpackLog = unpackLog, bc_ConvertType = (\<lambda>v T. Inr (retag v T))\<rparr>"

subsection \<open>The interface\<close>

lemma sol_result_panics [simp]: "\<not> panics (sol_result r)"
  by (simp add: sol_result_def split: sum.split)

lemma registry_tx_no_panic:
  "map_of (meta_methods TeleporterRegistryMetaData) name = Some (ins, outs) \<Longrightarrow>
    have_types (map strip args) ins \<Longrightarrow> \<not> panics (registry_tx this verified decode name args r)"
  by (auto simp: TeleporterRegistryMetaData_def registry_tx_def map_eq_Cons_conv panics_bindE
      strip.simps split: if_splits)

lemma registry_call_typed:
  assumes "map_of (meta_methods TeleporterRegistryMetaData) name = Some (ins, outs)"
    and "have_types (map strip args) ins"
  shows "\<not> panics (registry_call this verified decode name args r) \<and>
    (\<forall>out. registry_call this verified decode name args r = Inr out \<longrightarrow> have_types out outs)"
  using map_of_SomeD [OF assms(1)] assms(2)
  unfolding TeleporterRegistryMetaData_def abi_meta.select_convs list.set insert_iff
    prod.inject empty_iff
  by (elim disjE conjE)
    (simp_all only: , auto simp: registry_call_def registry_tx_def map_eq_Cons_conv panics_bindE strip.simps)

interpretation registry_abi:
  abi_contract TeleporterRegistryMetaData "registry_contract this verified decode unpackLog findLogs"
  for this verified decode unpackLog findLogs
  by unfold_locales (simp_all add: registry_contract_def registry_call_typed registry_tx_no_panic)

subsection \<open>The binding runs the registry\<close>

lemmas registry_binding =
  TeleporterRegistryCaller_BlockchainID_def TeleporterRegistryCaller_GetAddressFromVersion_def
  TeleporterRegistryCaller_GetLatestTeleporter_def TeleporterRegistryCaller_GetTeleporterFromVersion_def
  TeleporterRegistryCaller_GetVersionFromAddress_def TeleporterRegistryCaller_LatestVersion_def
  TeleporterRegistryCaller_MAXVERSIONINCREMENT_def
  TeleporterRegistryCaller_VALIDATORSSOURCEADDRESS_def TeleporterRegistryCaller_WARPMESSENGER_def
  TeleporterRegistryTransactor_AddProtocolVersion_def

lemma registry_binding_reads:
  assumes "kc = \<lparr>TeleporterRegistryCaller_contract =
      registry_contract this verified decode unpackLog findLogs\<rparr>"
  shows "TeleporterRegistryCaller_GetAddressFromVersion kc from (uint v) r
      = sol_result (getAddressFromVersion v r)"
    and "TeleporterRegistryCaller_GetTeleporterFromVersion kc from (uint v) r
      = sol_result (getTeleporterFromVersion v r)"
    and "TeleporterRegistryCaller_GetLatestTeleporter kc from r = sol_result (getLatestTeleporter r)"
    and "TeleporterRegistryCaller_GetVersionFromAddress kc from a r
      = bindE (sol_result (getVersionFromAddress a r)) (\<lambda>v. Inr (uint v))"
    and "TeleporterRegistryCaller_LatestVersion kc from r = Inr (uint (latestVersion r))"
    and "TeleporterRegistryCaller_BlockchainID kc from r = Inr (reg_blockchainID r)"
    and "TeleporterRegistryCaller_MAXVERSIONINCREMENT kc from r = Inr 500"
  unfolding registry_binding assms TeleporterRegistryCaller.select_convs
  by (simp_all add: registry_contract_def registry_call_def go_out_def go_index_def sol_result_def
      arg_as_def MAX_VERSION_INCREMENT_def split: sum.splits)

lemma registry_binding_adds:
  "TeleporterRegistryTransactor_AddProtocolVersion \<lparr>TeleporterRegistryTransactor_contract =
      registry_contract this verified decode unpackLog findLogs\<rparr> from i r
    = bindE (sol_result (addProtocolVersion this verified decode i r)) (\<lambda>r'. Inr (i, r'))"
  unfolding registry_binding TeleporterRegistryTransactor.select_convs
  by (simp add: registry_contract_def registry_tx_def arg_as_def go_index_def)

text \<open>
  C26: The Go binding of TeleporterRegistry runs the registry: its read methods return what the
  getters return, an error when they revert, and \<open>AddProtocolVersion\<close> runs the function of its
  name. What is added through the binding is read through it: after a successful
  \<open>AddProtocolVersion\<close> the entry of the warp message is the protocol address of its version, that
  address has at least this version, and the latest version is the greater of the two.
\<close>

theorem binding_runs_the_registry:
  assumes "kc = \<lparr>TeleporterRegistryCaller_contract =
      registry_contract this verified decode unpackLog findLogs\<rparr>"
    and "kt = \<lparr>TeleporterRegistryTransactor_contract =
      registry_contract this verified decode unpackLog findLogs\<rparr>"
  shows "TeleporterRegistryCaller_GetAddressFromVersion kc from (uint v) r
      = sol_result (getAddressFromVersion v r) \<and>
    TeleporterRegistryCaller_GetTeleporterFromVersion kc from (uint v) r
      = sol_result (getTeleporterFromVersion v r) \<and>
    TeleporterRegistryCaller_GetLatestTeleporter kc from r = sol_result (getLatestTeleporter r) \<and>
    TeleporterRegistryCaller_GetVersionFromAddress kc from a r
      = bindE (sol_result (getVersionFromAddress a r)) (\<lambda>v. Inr (uint v)) \<and>
    TeleporterRegistryTransactor_AddProtocolVersion kt from i r
      = bindE (sol_result (addProtocolVersion this verified decode i r)) (\<lambda>r'. Inr (i, r')) \<and>
    (\<forall>tx r'. TeleporterRegistryTransactor_AddProtocolVersion kt from i r = Inr (tx, r') \<longrightarrow>
      (\<exists>msg entry. verified i = (msg, True) \<and> decode (payload msg) = Some (entry, this) \<and>
        TeleporterRegistryCaller_GetAddressFromVersion kc from (uint (entry_version entry)) r'
          = Inr (entry_protocolAddress entry) \<and>
        (\<exists>n \<ge> uint (entry_version entry).
          TeleporterRegistryCaller_GetVersionFromAddress kc from (entry_protocolAddress entry) r' = Inr n) \<and>
        TeleporterRegistryCaller_LatestVersion kc from r'
          = Inr (max (uint (entry_version entry)) (uint (latestVersion r)))))"
proof -
  note reads = registry_binding_reads [OF assms(1)] and adds = registry_binding_adds
    [of this verified decode unpackLog findLogs, folded assms(2)]
  have "\<exists>msg entry. verified i = (msg, True) \<and> decode (payload msg) = Some (entry, this) \<and>
      sol_result (getAddressFromVersion (entry_version entry) r') = Inr (entry_protocolAddress entry) \<and>
      (\<exists>n \<ge> uint (entry_version entry). bindE (sol_result (getVersionFromAddress
        (entry_protocolAddress entry) r')) (\<lambda>v. Inr (uint v)) = Inr n) \<and>
      uint (latestVersion r') = max (uint (entry_version entry)) (uint (latestVersion r))"
    if "addProtocolVersion this verified decode i r = Inr r'" for r'
    using that
  proof (rule addProtocolVersion_Inr)
    fix msg entry assume m: "verified i = (msg, True)" "decode (payload msg) = Some (entry, this)"
      and "addToRegistry entry r = Inr r'"
    from this(3) show ?thesis
    proof (rule addToRegistry_Inr)
      fix w b assume a: "w = entry_version entry" "b = entry_protocolAddress entry" "w \<noteq> 0" "b \<noteq> 0"
        "versionToAddress r' = (versionToAddress r)(w := b)"
        "addressToVersion r' = (addressToVersion r)(b := max w (addressToVersion r b))"
        "latestVersion r' = max w (latestVersion r)"
      have "uint w \<le> uint (max w (addressToVersion r b))" by (simp flip: word_le_def)
      moreover have "max w (addressToVersion r b) \<noteq> 0"
        using a(3) le_zero_word [of w "max w (addressToVersion r b)"] by simp
      moreover have "uint (max w (latestVersion r)) = max (uint w) (uint (latestVersion r))"
        by (simp add: max_def word_le_def)
      ultimately show ?thesis
        using m a by (auto simp: getAddressFromVersion_def getVersionFromAddress_def sol_result_def)
    qed
  qed
  then show ?thesis
    unfolding reads adds by (auto simp: sol_result_def split: sum.splits)
qed

theorem binding_runs_the_registry_witness:
  "\<exists>r. TeleporterRegistryTransactor_AddProtocolVersion \<lparr>TeleporterRegistryTransactor_contract =
      registry_contract 77 demo_offchain (\<lambda>bs. Some (demo_entry 2 13, 77))
        (\<lambda>T e l. Inl (GoError [])) (\<lambda>e q s. Inl (GoError []))\<rparr> 4 0 demo_registry = Inr (0, r) \<and>
    TeleporterRegistryCaller_GetAddressFromVersion \<lparr>TeleporterRegistryCaller_contract =
      registry_contract 77 demo_offchain (\<lambda>bs. Some (demo_entry 2 13, 77))
        (\<lambda>T e l. Inl (GoError [])) (\<lambda>e q s. Inl (GoError []))\<rparr> 4 2 r = Inr 13"
proof -
  have "getAddressFromVersion 2 demo_registry_next = Inr 13"
    by (simp add: getAddressFromVersion_def demo_registry_defs)
  moreover have "uint (2 :: uint256) = 2" by simp
  ultimately show ?thesis
    using binding_runs_the_registry [OF refl refl, of 77 demo_offchain "\<lambda>bs. Some (demo_entry 2 13, 77)"
        "\<lambda>T e l. Inl (GoError [])" "\<lambda>e q s. Inl (GoError [])" 4 2 demo_registry_next]
      binding_runs_the_registry [OF refl refl, of 77 demo_offchain "\<lambda>bs. Some (demo_entry 2 13, 77)"
        "\<lambda>T e l. Inl (GoError [])" "\<lambda>e q s. Inl (GoError [])" 4 2 demo_registry 0 0] demo_added
    by (auto simp: sol_result_def)
qed

end
