(* ===== verification/ERC20_Bridge.thy ===== *)
theory ERC20_Bridge
  imports Upgradeable
begin

section \<open>ERC20Bridge.sol and BridgeToken.sol\<close>

text \<open>
  Models \<open>contracts/src/CrossChainApplications/ERC20Bridge\<close>: the bridge of one chain and the tokens it
  deploys. The bridge is an upgradeable application, so its storage is the field \<open>app\<close> of
  \<open>upgradeable\<close>. The tokens of this bridge are a map from addresses to their immutable fields;
  the balances behind them are OpenZeppelin's ERC20 and belong, with all other accounts, to
  \<open>others\<close>. What the contract calls and does not define is the record \<open>benv\<close>: the caller, the
  ABI codec, OpenZeppelin's ERC20 and reentrancy guard, the tokens and the messenger. A call that
  runs foreign code takes and returns the whole state, because it may call the bridge again.
\<close>

subsection \<open>Data\<close>

datatype BridgeAction = Create | Mint | Transfer

datatype bridge_event =
    LogBridgeTokens address bytes32 uint256 address address uint256
  | LogSubmitCreateBridgeToken bytes32 address address uint256
  | LogCreateBridgeToken bytes32 address address address
  | LogMintBridgeTokens address address uint256

record WrappedTokenTransferInfo =
  wt_destinationBlockchainID :: bytes32
  wt_destinationBridgeAddress :: address
  wt_wrappedContractAddress :: address
  wt_recipient :: address
  wt_totalAmount :: uint256
  wt_primaryFeeAmount :: uint256
  wt_secondaryFeeAmount :: uint256

record BridgeToken_data =
  bt_bridgeContract :: address
  bt_nativeBlockchainID :: bytes32
  bt_nativeBridge :: address
  bt_nativeAsset :: address
  bt_decimals :: byte

record 'x bridge =
  guard_status :: uint256
  currentBlockchainID :: bytes32
  submittedBridgeTokenCreations :: "bytes32 \<Rightarrow> address \<Rightarrow> address \<Rightarrow> bool"
  bridgedBalances :: "bytes32 \<Rightarrow> address \<Rightarrow> address \<Rightarrow> uint256"
  wrappedTokenContracts :: "address \<Rightarrow> bool"
  nativeToWrappedTokens :: "bytes32 \<Rightarrow> address \<Rightarrow> address \<Rightarrow> address"
  bridge_logs :: "bridge_event list"
  bridge_tokens :: "address \<Rightarrow> BridgeToken_data option"
  others :: 'x

type_synonym 'x bworld = "'x bridge upgradeable"

definition CREATE_BRIDGE_TOKENS_REQUIRED_GAS :: uint256 where
  "CREATE_BRIDGE_TOKENS_REQUIRED_GAS = 2000000"

definition MINT_BRIDGE_TOKENS_REQUIRED_GAS :: uint256 where
  "MINT_BRIDGE_TOKENS_REQUIRED_GAS = 200000"

definition TRANSFER_BRIDGE_TOKENS_REQUIRED_GAS :: uint256 where
  "TRANSFER_BRIDGE_TOKENS_REQUIRED_GAS = 300000"

text \<open>Writing a nested mapping of three keys, and the storage of the bridge.\<close>

definition upd3 ::
  "('a \<Rightarrow> 'b \<Rightarrow> 'c \<Rightarrow> 'd) \<Rightarrow> 'a \<Rightarrow> 'b \<Rightarrow> 'c \<Rightarrow> 'd \<Rightarrow> 'a \<Rightarrow> 'b \<Rightarrow> 'c \<Rightarrow> 'd" where
  "upd3 f a b c d = f(a := upd2 (f a) b c d)"

lemma upd3_apply [simp]: "upd3 f a b c d x y z = (if x = a \<and> y = b \<and> z = c then d else f x y z)"
  by (simp add: upd3_def)

definition upd_app :: "('x bridge \<Rightarrow> 'x bridge) \<Rightarrow> 'x bworld \<Rightarrow> 'x bworld" where
  "upd_app f u = u\<lparr>app := f (app u)\<rparr>"

lemma upd_app_app [simp]: "app (upd_app f u) = f (app u)"
  by (simp add: upd_app_def)

lemma upd_app_frame [simp]:
  "reg_blockchainID (upd_app f u) = reg_blockchainID u" "latestVersion (upd_app f u) = latestVersion u"
  "versionToAddress (upd_app f u) = versionToAddress u"
  "addressToVersion (upd_app f u) = addressToVersion u"
  "pausedTeleporterAddresses (upd_app f u) = pausedTeleporterAddresses u"
  "minTeleporterVersion (upd_app f u) = minTeleporterVersion u"
  by (simp_all add: upd_app_def)

subsection \<open>What the bridge calls\<close>

record 'x benv =
  bridge_address :: address
  bridge_sender :: address
  encode_action :: "BridgeAction \<Rightarrow> bytes \<Rightarrow> bytes"
  decode_action :: "bytes \<Rightarrow> (BridgeAction \<times> bytes) option"
  encode_create :: "address \<Rightarrow> string \<Rightarrow> string \<Rightarrow> byte \<Rightarrow> bytes"
  decode_create :: "bytes \<Rightarrow> (address \<times> string \<times> string \<times> byte) option"
  encode_mint :: "address \<Rightarrow> address \<Rightarrow> uint256 \<Rightarrow> bytes"
  decode_mint :: "bytes \<Rightarrow> (address \<times> address \<times> uint256) option"
  encode_transfer :: "bytes32 \<Rightarrow> address \<Rightarrow> address \<Rightarrow> address \<Rightarrow> uint256 \<Rightarrow> uint256 \<Rightarrow> bytes"
  decode_transfer ::
    "bytes \<Rightarrow> (bytes32 \<times> address \<times> address \<times> address \<times> uint256 \<times> uint256) option"
  nonReentrantBefore :: "uint256 \<Rightarrow> sol_error + uint256"
  nonReentrantAfter :: "uint256 \<Rightarrow> uint256"
  new_address :: "'x bworld \<Rightarrow> sol_error + address"
  ERC20_constructor :: "address \<Rightarrow> string \<Rightarrow> string \<Rightarrow> 'x \<Rightarrow> 'x"
  ERC20_mint :: "address \<Rightarrow> address \<Rightarrow> uint256 \<Rightarrow> 'x \<Rightarrow> sol_error + 'x"
  ERC20_burnFrom :: "address \<Rightarrow> address \<Rightarrow> address \<Rightarrow> uint256 \<Rightarrow> 'x \<Rightarrow> sol_error + 'x"
  erc20_balanceOf :: "address \<Rightarrow> address \<Rightarrow> 'x bworld \<Rightarrow> sol_error + uint256"
  erc20_transferFrom ::
    "address \<Rightarrow> address \<Rightarrow> address \<Rightarrow> uint256 \<Rightarrow> 'x bworld \<Rightarrow> sol_error + 'x bworld"
  erc20_transfer :: "address \<Rightarrow> address \<Rightarrow> uint256 \<Rightarrow> 'x bworld \<Rightarrow> sol_error + 'x bworld"
  erc20_increaseAllowance ::
    "address \<Rightarrow> address \<Rightarrow> uint256 \<Rightarrow> 'x bworld \<Rightarrow> sol_error + 'x bworld"
  erc20_name :: "address \<Rightarrow> 'x bworld \<Rightarrow> sol_error + string"
  erc20_symbol :: "address \<Rightarrow> 'x bworld \<Rightarrow> sol_error + string"
  erc20_decimals :: "address \<Rightarrow> 'x bworld \<Rightarrow> sol_error + byte"
  messenger_send ::
    "address \<Rightarrow> TeleporterMessageInput \<Rightarrow> 'x bworld \<Rightarrow> sol_error + (uint256 \<times> 'x bworld)"

definition bridge_emit :: "bridge_event \<Rightarrow> 'x bworld \<Rightarrow> 'x bworld" where
  "bridge_emit e = upd_app (\<lambda>b. b\<lparr>bridge_logs := bridge_logs b @ [e]\<rparr>)"

text \<open>The modifier \<open>nonReentrant\<close>.\<close>

definition nonReentrant ::
  "'x benv \<Rightarrow> ('x bworld \<Rightarrow> sol_error + 'x bworld) \<Rightarrow> 'x bworld \<Rightarrow> sol_error + 'x bworld" where
  "nonReentrant E body u =
     bindE (nonReentrantBefore E (guard_status (app u))) (\<lambda>g.
     bindE (body (upd_app (\<lambda>b. b\<lparr>guard_status := g\<rparr>) u)) (\<lambda>u1.
     Inr (upd_app (\<lambda>b. b\<lparr>guard_status := nonReentrantAfter E (guard_status b)\<rparr>) u1)))"

text \<open>\<open>SafeERC20TransferFrom.safeTransferFrom\<close>, called by the bridge.\<close>

definition bridge_safeTransferFrom ::
  "'x benv \<Rightarrow> address \<Rightarrow> uint256 \<Rightarrow> 'x bworld \<Rightarrow> sol_error + (uint256 \<times> 'x bworld)" where
  "bridge_safeTransferFrom E erc20 amt u =
     bindE (erc20_balanceOf E erc20 (bridge_address E) u) (\<lambda>balanceBefore.
     bindE (erc20_transferFrom E erc20 (bridge_sender E) (bridge_address E) amt u) (\<lambda>u1.
     bindE (erc20_balanceOf E erc20 (bridge_address E) u1) (\<lambda>balanceAfter.
     requireE (balanceAfter > balanceBefore) ''SafeERC20TransferFrom: balance not increased'' (
     bindE (checked_sub balanceAfter balanceBefore) (\<lambda>d.
     Inr (d, u1))))))"

subsection \<open>BridgeToken.sol\<close>

definition BridgeToken_constructor ::
  "address \<Rightarrow> bytes32 \<Rightarrow> address \<Rightarrow> address \<Rightarrow> byte \<Rightarrow> sol_error + BridgeToken_data" where
  "BridgeToken_constructor sender sourceBlockchainID sourceBridge sourceAsset tokenDecimals =
     requireE (sourceBlockchainID \<noteq> 0) ''BridgeToken: zero source chain id'' (
     requireE (sourceBridge \<noteq> 0) ''BridgeToken: zero source bridge address'' (
     requireE (sourceAsset \<noteq> 0) ''BridgeToken: zero source asset address'' (
     Inr \<lparr>bt_bridgeContract = sender, bt_nativeBlockchainID = sourceBlockchainID,
          bt_nativeBridge = sourceBridge, bt_nativeAsset = sourceAsset,
          bt_decimals = tokenDecimals\<rparr>)))"

text \<open>A call to an address without code reverts.\<close>

definition BridgeToken_at :: "address \<Rightarrow> 'x bworld \<Rightarrow> sol_error + BridgeToken_data" where
  "BridgeToken_at token u =
     (case bridge_tokens (app u) token of None \<Rightarrow> Inl (ExternalRevert []) | Some t \<Rightarrow> Inr t)"

definition BridgeToken_mint ::
  "'x benv \<Rightarrow> address \<Rightarrow> address \<Rightarrow> address \<Rightarrow> uint256 \<Rightarrow> 'x bworld \<Rightarrow> sol_error + 'x bworld" where
  "BridgeToken_mint E sender token account amt u =
     bindE (BridgeToken_at token u) (\<lambda>t.
     requireE (sender = bt_bridgeContract t) ''BridgeToken: unauthorized'' (
     bindE (ERC20_mint E token account amt (others (app u))) (\<lambda>x.
     Inr (upd_app (\<lambda>b. b\<lparr>others := x\<rparr>) u))))"

definition BridgeToken_burnFrom ::
  "'x benv \<Rightarrow> address \<Rightarrow> address \<Rightarrow> address \<Rightarrow> uint256 \<Rightarrow> 'x bworld \<Rightarrow> sol_error + 'x bworld" where
  "BridgeToken_burnFrom E sender token account amt u =
     bindE (BridgeToken_at token u) (\<lambda>t.
     bindE (ERC20_burnFrom E token sender account amt (others (app u))) (\<lambda>x.
     Inr (upd_app (\<lambda>b. b\<lparr>others := x\<rparr>) u)))"

definition BridgeToken_decimals :: "BridgeToken_data \<Rightarrow> byte" where
  "BridgeToken_decimals t = bt_decimals t"

subsection \<open>Messages\<close>

definition encodeCreateBridgeTokenData ::
  "'x benv \<Rightarrow> address \<Rightarrow> string \<Rightarrow> string \<Rightarrow> byte \<Rightarrow> bytes" where
  "encodeCreateBridgeTokenData E nativeContract nativeName nativeSymbol nativeDecimals =
     encode_action E Create (encode_create E nativeContract nativeName nativeSymbol nativeDecimals)"

definition encodeMintBridgeTokensData :: "'x benv \<Rightarrow> address \<Rightarrow> address \<Rightarrow> uint256 \<Rightarrow> bytes" where
  "encodeMintBridgeTokensData E nativeContract recipient bridgeAmount =
     encode_action E Mint (encode_mint E nativeContract recipient bridgeAmount)"

definition encodeTransferBridgeTokensData ::
  "'x benv \<Rightarrow> bytes32 \<Rightarrow> address \<Rightarrow> address \<Rightarrow> address \<Rightarrow> uint256 \<Rightarrow> uint256 \<Rightarrow> bytes" where
  "encodeTransferBridgeTokensData E destChain destBridge nativeContract recipient amt feeAmt =
     encode_action E Transfer
       (encode_transfer E destChain destBridge nativeContract recipient amt feeAmt)"

subsection \<open>Sending\<close>

definition bridge_message ::
  "bytes32 \<Rightarrow> address \<Rightarrow> address \<Rightarrow> uint256 \<Rightarrow> uint256 \<Rightarrow> bytes \<Rightarrow> TeleporterMessageInput" where
  "bridge_message chain dest feeToken fee gas msg =
     \<lparr>in_destinationBlockchainID = chain, in_destinationAddress = dest,
      in_feeInfo = \<lparr>feeTokenAddress = feeToken, feeAmount = fee\<rparr>, in_requiredGasLimit = gas,
      in_allowedRelayerAddresses = [], in_message = msg\<rparr>"

definition processNativeTokenTransfer ::
  "'x benv \<Rightarrow> bytes32 \<Rightarrow> address \<Rightarrow> address \<Rightarrow> address \<Rightarrow> uint256 \<Rightarrow> uint256 \<Rightarrow> 'x bworld
    \<Rightarrow> sol_error + 'x bworld" where
  "processNativeTokenTransfer E destChain destBridge nativeContract recipient totalAmt feeAmt u =
     requireE (\<not> wrappedTokenContracts (app u) nativeContract)
       ''ERC20Bridge: cannot bridge wrapped token'' (
     requireE (destChain \<noteq> currentBlockchainID (app u))
       ''ERC20Bridge: cannot bridge to same chain'' (
     bindE (getTeleporterMessenger u) (\<lambda>messenger.
     bindE (if feeAmt > 0 then erc20_increaseAllowance E nativeContract messenger feeAmt u
            else Inr u) (\<lambda>u1.
     bindE (checked_sub totalAmt feeAmt) (\<lambda>bridgeAmount.
     bindE (checked_add (bridgedBalances (app u1) destChain destBridge nativeContract) bridgeAmount)
     (\<lambda>newBalance.
     let u2 = upd_app (\<lambda>b. b\<lparr>bridgedBalances :=
                upd3 (bridgedBalances b) destChain destBridge nativeContract newBalance\<rparr>) u1;
         messageData = encodeMintBridgeTokensData E nativeContract recipient bridgeAmount
     in bindE (messenger_send E messenger
          (bridge_message destChain destBridge nativeContract feeAmt
            MINT_BRIDGE_TOKENS_REQUIRED_GAS messageData) u2) (\<lambda>(mid, u3).
     Inr (bridge_emit
       (LogBridgeTokens nativeContract destChain mid destBridge recipient bridgeAmount) u3))))))))"

definition processWrappedTokenTransfer ::
  "'x benv \<Rightarrow> WrappedTokenTransferInfo \<Rightarrow> 'x bworld \<Rightarrow> sol_error + 'x bworld" where
  "processWrappedTokenTransfer E info u =
     bindE (getTeleporterMessenger u) (\<lambda>messenger.
     bindE (if wt_primaryFeeAmount info > 0 then
              bindE (bridge_safeTransferFrom E (wt_wrappedContractAddress info)
                       (wt_primaryFeeAmount info) u) (\<lambda>(adjusted, u1).
              bindE (erc20_increaseAllowance E (wt_wrappedContractAddress info) messenger adjusted u1)
              (\<lambda>u2. Inr (adjusted, u2)))
            else Inr (0, u)) (\<lambda>(adjustedPrimaryFeeAmount, u2).
     bindE (checked_sub (wt_totalAmount info) (wt_primaryFeeAmount info)) (\<lambda>bridgeAmount.
     bindE (BridgeToken_burnFrom E (bridge_address E) (wt_wrappedContractAddress info)
              (bridge_sender E) bridgeAmount u2) (\<lambda>u3.
     bindE (BridgeToken_at (wt_wrappedContractAddress info) u3) (\<lambda>t.
     requireE (wt_destinationBlockchainID info = bt_nativeBlockchainID t \<longrightarrow>
                 wt_destinationBridgeAddress info = bt_nativeBridge t)
       ''ERC20Bridge: invalid destination bridge address'' (
     let messageData = encodeTransferBridgeTokensData E (wt_destinationBlockchainID info)
           (wt_destinationBridgeAddress info) (bt_nativeAsset t) (wt_recipient info) bridgeAmount
           (wt_secondaryFeeAmount info)
     in bindE (messenger_send E messenger
          (bridge_message (bt_nativeBlockchainID t) (bt_nativeBridge t)
            (wt_wrappedContractAddress info) adjustedPrimaryFeeAmount
            TRANSFER_BRIDGE_TOKENS_REQUIRED_GAS messageData) u3) (\<lambda>(mid, u4).
     Inr (bridge_emit
       (LogBridgeTokens (wt_wrappedContractAddress info) (wt_destinationBlockchainID info) mid
         (wt_destinationBridgeAddress info) (wt_recipient info) bridgeAmount) u4))))))))"

definition bridgeTokens ::
  "'x benv \<Rightarrow> bytes32 \<Rightarrow> address \<Rightarrow> address \<Rightarrow> address \<Rightarrow> uint256 \<Rightarrow> uint256 \<Rightarrow> uint256 \<Rightarrow> 'x bworld
    \<Rightarrow> sol_error + 'x bworld" where
  "bridgeTokens E destChain destBridge token recipient totalAmt primaryFee secondaryFee =
     nonReentrant E (\<lambda>u.
     requireE (destChain \<noteq> currentBlockchainID (app u))
       ''ERC20Bridge: cannot bridge to same chain'' (
     requireE (recipient \<noteq> 0) ''ERC20Bridge: zero recipient address'' (
     requireE (destBridge \<noteq> 0) ''ERC20Bridge: zero destination bridge address'' (
     if wrappedTokenContracts (app u) token then
       bindE (checked_add primaryFee secondaryFee) (\<lambda>fees.
       requireE (totalAmt > fees) ''ERC20Bridge: insufficient total amount'' (
       processWrappedTokenTransfer E
         \<lparr>wt_destinationBlockchainID = destChain, wt_destinationBridgeAddress = destBridge,
          wt_wrappedContractAddress = token, wt_recipient = recipient, wt_totalAmount = totalAmt,
          wt_primaryFeeAmount = primaryFee, wt_secondaryFeeAmount = secondaryFee\<rparr> u))
     else
       requireE (submittedBridgeTokenCreations (app u) destChain destBridge token)
         ''ERC20Bridge: invalid bridge token address'' (
       bindE (bridge_safeTransferFrom E token totalAmt u) (\<lambda>(adjustedAmount, u1).
       requireE (adjustedAmount > primaryFee) ''ERC20Bridge: insufficient adjusted amount'' (
       processNativeTokenTransfer E destChain destBridge token recipient adjustedAmount primaryFee
         u1)))))))"

definition submitCreateBridgeToken ::
  "'x benv \<Rightarrow> bytes32 \<Rightarrow> address \<Rightarrow> address \<Rightarrow> address \<Rightarrow> uint256 \<Rightarrow> 'x bworld
    \<Rightarrow> sol_error + 'x bworld" where
  "submitCreateBridgeToken E destChain destBridge nativeToken feeAsset feeAmt =
     nonReentrant E (\<lambda>u.
     requireE (destBridge \<noteq> 0) ''ERC20Bridge: zero destination bridge address'' (
     bindE (getTeleporterMessenger u) (\<lambda>messenger.
     bindE (if feeAmt > 0 then
              bindE (bridge_safeTransferFrom E feeAsset feeAmt u) (\<lambda>(adjusted, u1).
              bindE (erc20_increaseAllowance E feeAsset messenger adjusted u1) (\<lambda>u2.
              Inr (adjusted, u2)))
            else Inr (0, u)) (\<lambda>(adjustedFeeAmount, u2).
     bindE (erc20_name E nativeToken u2) (\<lambda>nm.
     bindE (erc20_symbol E nativeToken u2) (\<lambda>symb.
     bindE (erc20_decimals E nativeToken u2) (\<lambda>dec.
     let messageData = encodeCreateBridgeTokenData E nativeToken nm symb dec
     in bindE (messenger_send E messenger
          (bridge_message destChain destBridge feeAsset adjustedFeeAmount
            CREATE_BRIDGE_TOKENS_REQUIRED_GAS messageData) u2) (\<lambda>(mid, u3).
     Inr (bridge_emit (LogSubmitCreateBridgeToken destChain destBridge nativeToken mid)
       (upd_app (\<lambda>b. b\<lparr>submittedBridgeTokenCreations :=
          upd3 (submittedBridgeTokenCreations b) destChain destBridge nativeToken True\<rparr>) u3))))))))))"

subsection \<open>Receiving\<close>

definition createBridgeToken ::
  "'x benv \<Rightarrow> bytes32 \<Rightarrow> address \<Rightarrow> address \<Rightarrow> string \<Rightarrow> string \<Rightarrow> byte \<Rightarrow> 'x bworld
    \<Rightarrow> sol_error + 'x bworld" where
  "createBridgeToken E nativeChain nativeBridge nativeContract nm symb dec u =
     requireE (nativeToWrappedTokens (app u) nativeChain nativeBridge nativeContract = 0)
       ''ERC20Bridge: bridge token already exists'' (
     bindE (BridgeToken_constructor (bridge_address E) nativeChain nativeBridge nativeContract dec)
     (\<lambda>t.
     bindE (new_address E u) (\<lambda>token.
     let u1 = upd_app (\<lambda>b. b\<lparr>bridge_tokens := (bridge_tokens b)(token \<mapsto> t),
                others := ERC20_constructor E token nm symb (others b)\<rparr>) u;
         u2 = upd_app (\<lambda>b. b\<lparr>wrappedTokenContracts := (wrappedTokenContracts b)(token := True)\<rparr>) u1;
         u3 = upd_app (\<lambda>b. b\<lparr>nativeToWrappedTokens :=
                upd3 (nativeToWrappedTokens b) nativeChain nativeBridge nativeContract token\<rparr>) u2
     in Inr (bridge_emit (LogCreateBridgeToken nativeChain nativeBridge nativeContract token) u3))))"

definition mintBridgeTokens ::
  "'x benv \<Rightarrow> bytes32 \<Rightarrow> address \<Rightarrow> address \<Rightarrow> address \<Rightarrow> uint256 \<Rightarrow> 'x bworld
    \<Rightarrow> sol_error + 'x bworld" where
  "mintBridgeTokens E nativeChain nativeBridge nativeContract recipient amt =
     nonReentrant E (\<lambda>u.
     requireE (recipient \<noteq> 0) ''ERC20Bridge: zero recipient address'' (
     let token = nativeToWrappedTokens (app u) nativeChain nativeBridge nativeContract in
     requireE (token \<noteq> 0) ''ERC20Bridge: bridge token does not exist'' (
     bindE (BridgeToken_mint E (bridge_address E) token recipient amt u) (\<lambda>u1.
     Inr (bridge_emit (LogMintBridgeTokens token recipient amt) u1)))))"

definition transferBridgeTokens ::
  "'x benv \<Rightarrow> bytes32 \<Rightarrow> address \<Rightarrow> bytes32 \<Rightarrow> address \<Rightarrow> address \<Rightarrow> address \<Rightarrow> uint256 \<Rightarrow> uint256
    \<Rightarrow> 'x bworld \<Rightarrow> sol_error + 'x bworld" where
  "transferBridgeTokens E sourceChain sourceBridge destChain destBridge nativeContract recipient
     totalAmt secondaryFee = nonReentrant E (\<lambda>u.
     requireE (recipient \<noteq> 0) ''ERC20Bridge: zero recipient address'' (
     requireE (destBridge \<noteq> 0) ''ERC20Bridge: zero destination bridge address'' (
     let currentBalance = bridgedBalances (app u) sourceChain sourceBridge nativeContract in
     requireE (currentBalance \<ge> totalAmt) ''ERC20Bridge: insufficient balance'' (
     bindE (checked_sub currentBalance totalAmt) (\<lambda>newBalance.
     let u1 = upd_app (\<lambda>b. b\<lparr>bridgedBalances :=
                upd3 (bridgedBalances b) sourceChain sourceBridge nativeContract newBalance\<rparr>) u
     in if destChain = currentBlockchainID (app u1) then
          requireE (destBridge = bridge_address E) ''ERC20Bridge: invalid destination bridge address''
            (erc20_transfer E nativeContract recipient totalAmt u1)
        else processNativeTokenTransfer E destChain destBridge nativeContract recipient totalAmt
               secondaryFee u1)))))"

text \<open>
  \<open>_receiveTeleporterMessage\<close>. Decoding an unknown action fails, as \<open>abi.decode\<close> checks the range
  of an enum, so the last \<open>revert\<close> of the code is never reached.
\<close>

definition bridge_receiveTeleporterMessage ::
  "'x benv \<Rightarrow> bytes32 \<Rightarrow> address \<Rightarrow> bytes \<Rightarrow> 'x bworld \<Rightarrow> sol_error + 'x bworld" where
  "bridge_receiveTeleporterMessage E originChain originSender msg u =
     (case decode_action E msg of
        None \<Rightarrow> Inl (ExternalRevert [])
      | Some (Create, actionData) \<Rightarrow>
          (case decode_create E actionData of
             None \<Rightarrow> Inl (ExternalRevert [])
           | Some (nativeContract, nm, symb, dec) \<Rightarrow>
               createBridgeToken E originChain originSender nativeContract nm symb dec u)
      | Some (Mint, actionData) \<Rightarrow>
          (case decode_mint E actionData of
             None \<Rightarrow> Inl (ExternalRevert [])
           | Some (nativeContract, recipient, amt) \<Rightarrow>
               mintBridgeTokens E originChain originSender nativeContract recipient amt u)
      | Some (Transfer, actionData) \<Rightarrow>
          (case decode_transfer E actionData of
             None \<Rightarrow> Inl (ExternalRevert [])
           | Some (destChain, destBridge, nativeContract, recipient, totalAmt, secondaryFee) \<Rightarrow>
               transferBridgeTokens E originChain originSender destChain destBridge nativeContract
                 recipient totalAmt secondaryFee u))"

text \<open>
  The constructor, in a storage where every word is zero; OpenZeppelin's constructors are the
  argument \<open>initial_guard\<close>.
\<close>

definition bridge_constructor ::
  "address \<Rightarrow> bytes32 \<Rightarrow> uint256 \<Rightarrow> 'x bworld \<Rightarrow> sol_error + 'x bworld" where
  "bridge_constructor registryAddress chain initial_guard u =
     bindE (upgradeable_constructor registryAddress u) (\<lambda>u1.
     Inr (upd_app (\<lambda>b. \<lparr>guard_status = initial_guard, currentBlockchainID = chain,
       submittedBridgeTokenCreations = (\<lambda>_ _ _. False), bridgedBalances = (\<lambda>_ _ _. 0),
       wrappedTokenContracts = (\<lambda>_. False), nativeToWrappedTokens = (\<lambda>_ _ _. 0),
       bridge_logs = [], bridge_tokens = (\<lambda>_. None), others = others b\<rparr>) u1))"

end
