(* ===== verification/Bridge_Solvency.thy ===== *)
theory Bridge_Solvency
  imports ERC20_Bridge Messenger_Solvency Message_Notes
begin

section \<open>Everything that can happen to a bridge, and what it keeps in its vault\<close>

text \<open>
  \<open>bridge_interacts\<close> relates a state to every state that can follow it, as \<open>interacts\<close> does for the
  messenger: other accounts, the registry and the owner act (\<open>elsewhere\<close>), and anyone calls one of
  the state-changing functions of the bridge (\<open>operation\<close>), in an environment whose calls to
  tokens and to the messenger may do anything that the relation allows before they return.
  On it rests the main safety property of the bridge: it holds at least as many tokens as it has
  promised to all other bridges together.
\<close>

subsection \<open>Operations and interactions\<close>

datatype bridge_op =
    BridgeTokens bytes32 address address address uint256 uint256 uint256
  | SubmitCreate bytes32 address address address uint256
  | ReceiveMessage bytes32 address bytes

fun run_bridge_op :: "'x benv \<Rightarrow> bridge_op \<Rightarrow> 'x bworld \<Rightarrow> sol_error + 'x bworld" where
  "run_bridge_op E (BridgeTokens chain dest token recipient amt fee1 fee2) u =
     bridgeTokens E chain dest token recipient amt fee1 fee2 u"
| "run_bridge_op E (SubmitCreate chain dest token feeAsset fee) u =
     submitCreateBridgeToken E chain dest token feeAsset fee u"
| "run_bridge_op E (ReceiveMessage chain origin msg) u =
     receiveTeleporterMessage (bridge_receiveTeleporterMessage E) (bridge_sender E) chain origin
       msg u"

abbreviation set_others :: "'x \<Rightarrow> 'x bworld \<Rightarrow> 'x bworld" where
  "set_others x \<equiv> upd_app (\<lambda>b. b\<lparr>others := x\<rparr>)"

text \<open>
  What the other accounts undergo in the calls of the bridge, as the bridge sees it: a token it
  pays out, a message it sends, a token of its own that it mints, burns or deploys, the call by
  which one of its functions is entered (in which the messenger has noted the delivery), and
  everything else. An instance of \<open>Eff\<close> says what it may do to the state of the other accounts.
\<close>

datatype bridge_effect =
    Pays address uint256
  | Sends TeleporterMessageInput
  | Mints address uint256
  | Burns address uint256
  | Deploys address
  | Called bridge_op
  | Elsewhere

definition bridge_externals ::
  "('x bworld \<Rightarrow> 'x bworld \<Rightarrow> bool) \<Rightarrow> (bridge_effect \<Rightarrow> 'x \<Rightarrow> 'x \<Rightarrow> bool) \<Rightarrow> 'x benv \<Rightarrow> bool"
  where
  "bridge_externals R Eff E \<longleftrightarrow>
     (\<forall>t from to amt a b. erc20_transferFrom E t from to amt a = Inr b \<longrightarrow> R a b) \<and>
     (\<forall>t sp amt a b. erc20_increaseAllowance E t sp amt a = Inr b \<longrightarrow> R a b) \<and>
     (\<forall>t to amt a b. erc20_transfer E t to amt a = Inr b \<longrightarrow>
        (\<exists>a1 x. R a a1 \<and> Eff (Pays t amt) (others (app a1)) x \<and> R (set_others x a1) b)) \<and>
     (\<forall>m inp a mid b. messenger_send E m inp a = Inr (mid, b) \<longrightarrow>
        (\<exists>a1 x. R a a1 \<and> Eff (Sends inp) (others (app a1)) x \<and> R (set_others x a1) b)) \<and>
     (\<forall>t acc amt x y. ERC20_mint E t acc amt x = Inr y \<longrightarrow> Eff (Mints t amt) x y) \<and>
     (\<forall>t sp acc amt x y. ERC20_burnFrom E t sp acc amt x = Inr y \<longrightarrow> Eff (Burns t amt) x y) \<and>
     (\<forall>t n s x. Eff (Deploys t) x (ERC20_constructor E t n s x))"

lemma bridge_externalsD:
  assumes "bridge_externals R Eff E"
  shows "erc20_transferFrom E t from to amt a = Inr b \<Longrightarrow> R a b"
    and "erc20_increaseAllowance E t sp amt a = Inr b \<Longrightarrow> R a b"
    and "erc20_transfer E t to amt a = Inr b \<Longrightarrow>
      \<exists>a1 x. R a a1 \<and> Eff (Pays t amt) (others (app a1)) x \<and> R (set_others x a1) b"
    and "messenger_send E m inp a = Inr (mid, b) \<Longrightarrow>
      \<exists>a1 x. R a a1 \<and> Eff (Sends inp) (others (app a1)) x \<and> R (set_others x a1) b"
    and "ERC20_mint E t acc amt x = Inr y \<Longrightarrow> Eff (Mints t amt) x y"
    and "ERC20_burnFrom E t sp acc amt x = Inr y \<Longrightarrow> Eff (Burns t amt) x y"
    and "Eff (Deploys t) x (ERC20_constructor E t n s x)"
  using assms unfolding bridge_externals_def by simp_all

lemma bridge_externals_weaken:
  assumes "\<And>a b. R a b \<Longrightarrow> S a b" and "\<And>e x y. Eff e x y \<Longrightarrow> Eff' e x y"
    and "bridge_externals R Eff E"
  shows "bridge_externals S Eff' E"
  unfolding bridge_externals_def
  using bridge_externalsD [OF assms(3)] assms(1,2) by meson

lemma bridge_externals_mono [mono]:
  "R \<le> S \<Longrightarrow> bridge_externals R Eff E \<longrightarrow> bridge_externals S Eff E"
  by (auto elim!: bridge_externals_weaken [rotated 2])

inductive bridge_interacts ::
  "(bridge_effect \<Rightarrow> 'x \<Rightarrow> 'x \<Rightarrow> bool) \<Rightarrow> ('x benv \<Rightarrow> bool) \<Rightarrow> 'x bworld \<Rightarrow> 'x bworld \<Rightarrow> bool"
  for Eff :: "bridge_effect \<Rightarrow> 'x \<Rightarrow> 'x \<Rightarrow> bool" and Hon :: "'x benv \<Rightarrow> bool" where
  stop: "bridge_interacts Eff Hon u u"
| elsewhere: "Eff Elsewhere (others (app u)) (others (app v)) \<Longrightarrow>
    app v = (app u)\<lparr>others := others (app v)\<rparr> \<Longrightarrow> bridge_interacts Eff Hon v u'
    \<Longrightarrow> bridge_interacts Eff Hon u u'"
| operation: "Hon E \<Longrightarrow> bridge_externals (bridge_interacts Eff Hon) Eff E
    \<Longrightarrow> Eff (Called op) (others (app u)) x \<Longrightarrow> run_bridge_op E op (set_others x u) = Inr v
    \<Longrightarrow> bridge_interacts Eff Hon v u' \<Longrightarrow> bridge_interacts Eff Hon u u'"

lemma bridge_interacts_weaken:
  assumes "bridge_interacts Eff Hon u u'"
    and Eff: "\<And>e x y. Eff e x y \<Longrightarrow> Eff' e x y" and Hon: "\<And>E. Hon E \<Longrightarrow> Hon' E"
  shows "bridge_interacts Eff' Hon' u u'"
  using assms(1)
proof (induction rule: bridge_interacts.induct)
  case (operation E op u x v u')
  have "bridge_externals (bridge_interacts Eff' Hon') Eff' E"
    using operation.IH(1) by (rule bridge_externals_weaken [rotated 2]) (simp_all add: Eff)
  then show ?case
    using operation.hyps operation.IH(2) Eff Hon by (blast intro: bridge_interacts.operation)
qed (blast intro: bridge_interacts.intros Eff)+

text \<open>The owner's and the registry's operations leave the bridge's storage alone: they are moves elsewhere.\<close>

lemma governance_elsewhere:
  "updateMinTeleporterVersion checkOwner sender version u = Inr v \<Longrightarrow> app v = app u"
  "pauseTeleporterAddress checkOwner sender a u = Inr v \<Longrightarrow> app v = app u"
  "unpauseTeleporterAddress checkOwner sender a u = Inr v \<Longrightarrow> app v = app u"
  "addProtocolVersion reg verified decode i u = Inr v \<Longrightarrow> app v = app u"
proof -
  show "addProtocolVersion reg verified decode i u = Inr v \<Longrightarrow> app v = app u"
    by (auto simp: addProtocolVersion_def addToRegistry_def Let_def
        split: prod.splits option.splits if_splits)
qed (auto simp: updateMinTeleporterVersion_def setMinTeleporterVersion_def Let_def
      pauseTeleporterAddress_def unpauseTeleporterAddress_def)

locale bridge_closed =
  fixes Eff :: "bridge_effect \<Rightarrow> 'x \<Rightarrow> 'x \<Rightarrow> bool"
    and Hon :: "'x benv \<Rightarrow> bool"
    and Q :: "'x bworld \<Rightarrow> 'x bworld \<Rightarrow> bool"
  assumes Q_refl: "Q u u"
    and Q_trans: "Q u v \<Longrightarrow> Q v w \<Longrightarrow> Q u w"
    and Q_elsewhere: "Eff Elsewhere (others (app u)) (others (app v)) \<Longrightarrow>
      app v = (app u)\<lparr>others := others (app v)\<rparr> \<Longrightarrow> Q u v"
    and Q_op: "Hon E \<Longrightarrow> bridge_externals Q Eff E \<Longrightarrow> Eff (Called op) (others (app u)) x \<Longrightarrow>
      run_bridge_op E op (set_others x u) = Inr v \<Longrightarrow> Q u v"
begin

lemma lift: "bridge_interacts Eff Hon u u' \<Longrightarrow> Q u u'"
proof (induction rule: bridge_interacts.induct)
  case (stop u)
  show ?case by (rule Q_refl)
next
  case (elsewhere u v u')
  then show ?case by (blast intro: Q_trans Q_elsewhere)
next
  case (operation E op u x v u')
  have "bridge_externals Q Eff E"
    using operation.IH(1) by (rule bridge_externals_weaken [rotated 2]) simp_all
  then show ?case using operation.hyps operation.IH(2) by (blast intro: Q_op Q_trans)
qed

text \<open>What a stronger environment does, a weaker one allows.\<close>

lemma lift_weaken:
  assumes "bridge_interacts Eff' Hon' u u'"
    and "\<And>e x y. Eff' e x y \<Longrightarrow> Eff e x y" and "\<And>E. Hon' E \<Longrightarrow> Hon E"
  shows "Q u u'"
  using bridge_interacts_weaken [OF assms] by (rule lift)

end

subsection \<open>The vault\<close>

text \<open>
  \<open>led x\<close> is the bridge's balance of the token \<open>T\<close> in the state \<open>x\<close> of the other accounts, and
  \<open>promised T u\<close> the sum of what the bridge has bridged of \<open>T\<close> to all other bridges.
\<close>

definition balance_table :: "address \<Rightarrow> 'x bworld \<Rightarrow> bytes32 \<times> address \<Rightarrow> nat" where
  "balance_table T u = (\<lambda>(c, b). unat (bridgedBalances (app u) c b T))"

definition promised :: "address \<Rightarrow> 'x bworld \<Rightarrow> nat" where
  "promised T u = total (balance_table T u)"

definition covers :: "address \<Rightarrow> ('x \<Rightarrow> nat) \<Rightarrow> 'x bworld \<Rightarrow> nat \<Rightarrow> bool" where
  "covers T led u n \<longleftrightarrow> finite (support (balance_table T u)) \<and>
     promised T u + n \<le> led (others (app u))"

text \<open>The documented behaviour of \<open>ReentrancyGuard\<close>: one entry at a time.\<close>

definition guard_works :: "(uint256 \<Rightarrow> bool) \<Rightarrow> 'x benv \<Rightarrow> bool" where
  "guard_works entered E \<longleftrightarrow> guard_pair entered (nonReentrantBefore E) (nonReentrantAfter E)"

lemmas guard_works_iff = guard_works_def [unfolded guard_pair_def]

definition vault_effect ::
  "address \<Rightarrow> ('x \<Rightarrow> nat) \<Rightarrow> bridge_effect \<Rightarrow> 'x \<Rightarrow> 'x \<Rightarrow> bool" where
  "vault_effect T led eff x y \<longleftrightarrow> led x \<le> led y + (case eff of
       Pays t amt \<Rightarrow> if t = T then unat amt else 0
     | Sends inp \<Rightarrow>
         if feeTokenAddress (in_feeInfo inp) = T then unat (feeAmount (in_feeInfo inp)) else 0
     | _ \<Rightarrow> 0)"

definition honest_asset :: "(uint256 \<Rightarrow> bool) \<Rightarrow> address \<Rightarrow> ('x \<Rightarrow> nat) \<Rightarrow> 'x benv \<Rightarrow> bool" where
  "honest_asset entered T led E \<longleftrightarrow> guard_works entered E \<and>
     (\<forall>u b. erc20_balanceOf E T (bridge_address E) u = Inr b \<longrightarrow> unat b = led (others (app u)))"

text \<open>
  What an interaction keeps: while the guard is held, the promises stand still and the balance
  does not fall; and a covered vault stays covered.
\<close>

definition vault_safe ::
  "(uint256 \<Rightarrow> bool) \<Rightarrow> address \<Rightarrow> ('x \<Rightarrow> nat) \<Rightarrow> 'x bworld \<Rightarrow> 'x bworld \<Rightarrow> bool" where
  "vault_safe entered T led u v \<longleftrightarrow>
     (entered (guard_status (app u)) \<longrightarrow> entered (guard_status (app v)) \<and>
        bridgedBalances (app v) = bridgedBalances (app u) \<and>
        led (others (app u)) \<le> led (others (app v))) \<and>
     (covers T led u 0 \<longrightarrow> covers T led v 0)"

lemma balance_table_cong:
  "bridgedBalances (app v) = bridgedBalances (app u) \<Longrightarrow> balance_table T v = balance_table T u"
  by (simp add: balance_table_def)

lemma covers_mono:
  "covers T led u n \<Longrightarrow> bridgedBalances (app v) = bridgedBalances (app u) \<Longrightarrow>
    led (others (app u)) + k \<le> led (others (app v)) + n \<Longrightarrow> covers T led v k"
  using balance_table_cong [of v u T] by (simp add: covers_def promised_def)

lemma vault_safe_refl: "vault_safe entered T led u u"
  by (simp add: vault_safe_def)

lemma vault_safe_trans:
  "vault_safe entered T led u v \<Longrightarrow> vault_safe entered T led v w \<Longrightarrow> vault_safe entered T led u w"
  by (auto simp: vault_safe_def)

lemma vault_safe_cong:
  "guard_status (app v) = guard_status (app u) \<Longrightarrow>
    bridgedBalances (app v) = bridgedBalances (app u) \<Longrightarrow>
    led (others (app u)) \<le> led (others (app v)) \<Longrightarrow> vault_safe entered T led u v"
  by (auto simp: vault_safe_def elim: covers_mono)

lemma vault_safe_locked:
  assumes "vault_safe entered T led u v" "entered (guard_status (app u))" "covers T led u n"
  shows "entered (guard_status (app v))" "covers T led v n"
  using assms by (auto simp: vault_safe_def elim: covers_mono)

text \<open>Changing one balance.\<close>

lemma covers_set_balance:
  assumes "covers T led u n" and "c' = unat (bridgedBalances (app u) c b t)"
    and "bridgedBalances (app v) = upd3 (bridgedBalances (app u)) c b t k"
    and "others (app v) = others (app u)" and "t = T \<Longrightarrow> unat k + m \<le> c' + n" and "t \<noteq> T \<Longrightarrow> m \<le> n"
  shows "covers T led v m"
proof (cases "t = T")
  case True
  have fin: "finite (support (balance_table T u))" using assms(1) by (simp add: covers_def)
  have t: "balance_table T v = (balance_table T u)((c, b) := unat k)"
    using assms(3) True by (auto simp: balance_table_def)
  have "balance_table T u (c, b) = c'" using assms(2) True by (simp add: balance_table_def)
  then have "promised T v + c' = promised T u + unat k"
    using total_upd [OF fin, of "(c, b)" "unat k"] by (simp add: promised_def t)
  then show ?thesis
    using assms(1,4,5) True fin by (simp add: covers_def t finite_support_upd)
next
  case False
  then have "balance_table T v = balance_table T u"
    using assms(3) by (auto simp: balance_table_def)
  then show ?thesis using assms(1,4,6) False by (simp add: covers_def promised_def)
qed

subsection \<open>Each operation keeps the vault covered\<close>

abbreviation share :: "address \<Rightarrow> address \<Rightarrow> uint256 \<Rightarrow> nat" where
  "share T t amt \<equiv> (if t = T then unat amt else 0)"

definition held :: "(uint256 \<Rightarrow> bool) \<Rightarrow> address \<Rightarrow> ('x \<Rightarrow> nat) \<Rightarrow> 'x bworld \<Rightarrow> nat \<Rightarrow> bool" where
  "held entered T led u n \<longleftrightarrow> entered (guard_status (app u)) \<and> covers T led u n"

lemma held_covers: "held entered T led u n \<Longrightarrow> covers T led u n"
  by (simp add: held_def)

lemma held_safe: "vault_safe entered T led u v \<Longrightarrow> held entered T led u n \<Longrightarrow> held entered T led v n"
  by (auto simp: held_def vault_safe_locked dest: vault_safe_locked)

lemma held_cong:
  "held entered T led u n \<Longrightarrow> guard_status (app v) = guard_status (app u) \<Longrightarrow>
    bridgedBalances (app v) = bridgedBalances (app u) \<Longrightarrow>
    led (others (app u)) + k \<le> led (others (app v)) + n \<Longrightarrow> held entered T led v k"
  by (auto simp: held_def elim: covers_mono)

text \<open>The environment of this section: an honest asset and calls that keep \<open>vault_safe\<close>.\<close>

definition vault_env :: "(uint256 \<Rightarrow> bool) \<Rightarrow> address \<Rightarrow> ('x \<Rightarrow> nat) \<Rightarrow> 'x benv \<Rightarrow> bool" where
  "vault_env entered T led E \<longleftrightarrow> honest_asset entered T led E \<and>
     bridge_externals (vault_safe entered T led) (vault_effect T led) E"

lemma vault_envD:
  assumes "vault_env entered T led E"
  shows "bridge_externals (vault_safe entered T led) (vault_effect T led) E"
    and "erc20_balanceOf E T (bridge_address E) u = Inr b \<Longrightarrow> unat b = led (others (app u))"
    and "nonReentrantBefore E g = Inr g' \<Longrightarrow> \<not> entered g \<and> entered g'"
    and "\<not> entered (nonReentrantAfter E g)"
  using assms by (simp_all add: vault_env_def honest_asset_def guard_works_iff)

lemma held_pull:
  assumes env: "vault_env entered T led E"
    and pull: "bridge_safeTransferFrom E t amt u = Inr (d, u1)" and u: "held entered T led u n"
  shows "held entered T led u1 (n + share T t d)"
proof -
  from pull obtain b0 b1 where b: "erc20_balanceOf E t (bridge_address E) u = Inr b0"
    "erc20_transferFrom E t (bridge_sender E) (bridge_address E) amt u = Inr u1"
    "erc20_balanceOf E t (bridge_address E) u1 = Inr b1" "b0 < b1" "checked_sub b1 b0 = Inr d"
    by (auto simp: bridge_safeTransferFrom_def)
  have Q: "vault_safe entered T led u u1"
    using bridge_externalsD(1) [OF vault_envD(1) [OF env] b(2)] .
  have "unat d = unat b1 - unat b0" "unat b0 < unat b1"
    using b(4,5) by (simp_all add: checked_sub_unat word_less_nat_alt)
  then have gain: "led (others (app u)) + share T t d \<le> led (others (app u1))"
    using b(1,3) vault_envD(2) [OF env] Q u by (auto simp: vault_safe_def held_def)
  have "bridgedBalances (app u1) = bridgedBalances (app u)" "entered (guard_status (app u1))"
    using Q u by (auto simp: vault_safe_def held_def)
  then show ?thesis
    using gain u by (auto simp: held_def elim: covers_mono)
qed

lemma held_allowance:
  assumes env: "vault_env entered T led E"
    and "erc20_increaseAllowance E t sp amt u = Inr u1" and "held entered T led u n"
  shows "held entered T led u1 n"
  using bridge_externalsD(2) [OF vault_envD(1) [OF env] assms(2)] assms(3) by (rule held_safe)

lemma held_pays:
  assumes "\<exists>a1 x. vault_safe entered T led u a1 \<and> vault_effect T led eff (others (app a1)) x \<and>
      vault_safe entered T led (set_others x a1) v"
    and "held entered T led u n"
    and "\<And>x y. vault_effect T led eff x y \<Longrightarrow> led x \<le> led y + n"
  shows "held entered T led v 0"
proof -
  from assms(1) obtain a1 x where a1: "vault_safe entered T led u a1"
    and x: "vault_effect T led eff (others (app a1)) x"
    and v: "vault_safe entered T led (set_others x a1) v" by blast
  have "held entered T led (set_others x a1) 0"
    using held_safe [OF a1 assms(2)] by (rule held_cong) (use assms(3) [OF x] in simp_all)
  with v show ?thesis by (rule held_safe)
qed

lemma held_send:
  assumes env: "vault_env entered T led E"
    and "messenger_send E m (bridge_message c b t fee gas msg) u = Inr (mid, v)"
    and "held entered T led u (share T t fee)"
  shows "held entered T led v 0"
  using bridge_externalsD(4) [OF vault_envD(1) [OF env] assms(2)] assms(3)
  by (rule held_pays) (simp add: vault_effect_def bridge_message_def split: if_splits)

lemma held_emit: "held entered T led u n \<Longrightarrow> held entered T led (bridge_emit e u) n"
  by (erule held_cong) (simp_all add: bridge_emit_def)

lemma held_native:
  assumes env: "vault_env entered T led E"
    and run: "processNativeTokenTransfer E chain dest t recipient amt fee u = Inr v"
    and u: "held entered T led u (share T t amt)"
  shows "held entered T led v 0"
proof -
  from run obtain m u1 d n mid u3 where
    a: "(if fee > 0 then erc20_increaseAllowance E t m fee u else Inr u) = Inr u1"
    and d: "checked_sub amt fee = Inr d"
    and n: "checked_add (bridgedBalances (app u1) chain dest t) d = Inr n"
    and s: "messenger_send E m (bridge_message chain dest t fee MINT_BRIDGE_TOKENS_REQUIRED_GAS
        (encodeMintBridgeTokensData E t recipient d))
      (upd_app (\<lambda>b. b\<lparr>bridgedBalances := upd3 (bridgedBalances b) chain dest t n\<rparr>) u1)
        = Inr (mid, u3)"
    and v: "v = bridge_emit (LogBridgeTokens t chain mid dest recipient d) u3"
    by (auto simp: processNativeTokenTransfer_def Let_def)
  let ?u2 = "upd_app (\<lambda>b. b\<lparr>bridgedBalances := upd3 (bridgedBalances b) chain dest t n\<rparr>) u1"
  have u1: "held entered T led u1 (share T t amt)"
    using a held_allowance [OF env] u by (auto split: if_splits)
  have am: "unat n = unat (bridgedBalances (app u1) chain dest t) + unat d"
    "unat d + unat fee = unat amt"
    using checked_add_unat [OF n] checked_sub_unat [OF d] d
    by (simp_all add: checked_sub_Inr word_le_nat_alt)
  have "covers T led ?u2 (share T t fee)"
    by (rule covers_set_balance [OF held_covers [OF u1] refl]) (use am in auto)
  then have "held entered T led ?u2 (share T t fee)" using u1 by (simp add: held_def)
  from held_send [OF env s this] show ?thesis unfolding v by (rule held_emit)
qed

lemma held_fee:
  assumes env: "vault_env entered T led E"
    and "(if fee > 0 then
        bindE (bridge_safeTransferFrom E t fee u) (\<lambda>(adjusted, u1).
        bindE (erc20_increaseAllowance E t m adjusted u1) (\<lambda>u2. Inr (adjusted, u2)))
      else Inr (0, u)) = Inr (adj, u2)"
    and u: "held entered T led u 0"
  shows "held entered T led u2 (share T t adj)"
proof (cases "fee > 0")
  case True
  then obtain u1 where "bridge_safeTransferFrom E t fee u = Inr (adj, u1)"
    "erc20_increaseAllowance E t m adj u1 = Inr u2" using assms(2) by auto
  then show ?thesis using held_pull [OF env _ u] held_allowance [OF env] by fastforce
next
  case False
  then show ?thesis using assms(2) u by auto
qed

lemma held_wrapped:
  assumes env: "vault_env entered T led E"
    and run: "processWrappedTokenTransfer E info u = Inr v" and u: "held entered T led u 0"
  shows "held entered T led v 0"
proof -
  let ?t = "wt_wrappedContractAddress info"
  from run obtain m adj u2 x u3 c b gas msg mid u4 e where
    f: "(if wt_primaryFeeAmount info > 0 then
        bindE (bridge_safeTransferFrom E ?t (wt_primaryFeeAmount info) u) (\<lambda>(adjusted, u1).
        bindE (erc20_increaseAllowance E ?t m adjusted u1) (\<lambda>u2. Inr (adjusted, u2)))
      else Inr (0, u)) = Inr (adj, u2)"
    and b: "ERC20_burnFrom E ?t (bridge_address E) (bridge_sender E)
        (wt_totalAmount info - wt_primaryFeeAmount info) (others (app u2)) = Inr x"
    and u3: "u3 = set_others x u2"
    and s: "messenger_send E m (bridge_message c b ?t adj gas msg) u3 = Inr (mid, u4)"
    and v: "v = bridge_emit e u4"
    by (auto simp: processWrappedTokenTransfer_def BridgeToken_burnFrom_def checked_sub_Inr Let_def)
  have "held entered T led u3 (share T ?t adj)"
    using held_fee [OF env f u]
    by (rule held_cong) (use bridge_externalsD(6) [OF vault_envD(1) [OF env] b] in
      \<open>simp_all add: u3 vault_effect_def\<close>)
  from held_send [OF env s this] show ?thesis unfolding v by (rule held_emit)
qed

lemma nonReentrant_safe:
  assumes env: "vault_env entered T led E" and run: "nonReentrant E body u = Inr v"
    and body: "\<And>u v. body u = Inr v \<Longrightarrow> held entered T led u 0 \<Longrightarrow> covers T led v 0"
  shows "vault_safe entered T led u v"
proof -
  from run obtain g u1 where g: "nonReentrantBefore E (guard_status (app u)) = Inr g"
    and b: "body (upd_app (\<lambda>b. b\<lparr>guard_status := g\<rparr>) u) = Inr u1"
    and v: "v = upd_app (\<lambda>b. b\<lparr>guard_status := nonReentrantAfter E (guard_status b)\<rparr>) u1"
    by (auto simp: nonReentrant_def)
  have e: "\<not> entered (guard_status (app u))" "entered g" using vault_envD(3) [OF env g] by auto
  have "covers T led v 0" if "covers T led u 0"
  proof -
    have "held entered T led (upd_app (\<lambda>b. b\<lparr>guard_status := g\<rparr>) u) 0"
      using that e(2) by (auto simp: held_def elim: covers_mono)
    from body [OF b this] show ?thesis by (rule covers_mono) (simp_all add: v)
  qed
  then show ?thesis using e(1) by (simp add: vault_safe_def)
qed

lemma safe_bridgeTokens:
  assumes env: "vault_env entered T led E"
    and run: "bridgeTokens E chain dest t recipient amt fee1 fee2 u = Inr v"
  shows "vault_safe entered T led u v"
  using env run [unfolded bridgeTokens_def]
proof (rule nonReentrant_safe, goal_cases)
  case (1 u v)
  show ?case
  proof (cases "wrappedTokenContracts (app u) t")
    case True
    then show ?thesis using 1 held_wrapped [OF env] by (auto simp: held_def)
  next
    case False
    then obtain adj u1 where "bridge_safeTransferFrom E t amt u = Inr (adj, u1)"
      "processNativeTokenTransfer E chain dest t recipient adj fee1 u1 = Inr v"
      using 1 by auto
    then have "held entered T led v 0"
      using held_native [OF env] held_pull [OF env _ 1(2)] by fastforce
    then show ?thesis by (rule held_covers)
  qed
qed

lemma safe_submitCreate:
  assumes env: "vault_env entered T led E"
    and run: "submitCreateBridgeToken E chain dest t feeAsset fee u = Inr v"
  shows "vault_safe entered T led u v"
  using env run [unfolded submitCreateBridgeToken_def]
proof (rule nonReentrant_safe, goal_cases)
  case (1 u v)
  then obtain m adj u2 msg mid u3 e f where
    f: "(if fee > 0 then
        bindE (bridge_safeTransferFrom E feeAsset fee u) (\<lambda>(adjusted, u1).
        bindE (erc20_increaseAllowance E feeAsset m adjusted u1) (\<lambda>u2. Inr (adjusted, u2)))
      else Inr (0, u)) = Inr (adj, u2)"
    and s: "messenger_send E m (bridge_message chain dest feeAsset adj
        CREATE_BRIDGE_TOKENS_REQUIRED_GAS msg) u2 = Inr (mid, u3)"
    and v: "v = bridge_emit e (upd_app (\<lambda>b. b\<lparr>submittedBridgeTokenCreations :=
          upd3 (submittedBridgeTokenCreations b) chain dest t True\<rparr>) u3)"
    by (auto simp: Let_def)
  have "held entered T led u3 0"
    using held_send [OF env s] held_fee [OF env f 1(2)] by blast
  then have "held entered T led v 0" by (rule held_cong) (simp_all add: v bridge_emit_def)
  then show ?case by (rule held_covers)
qed

lemma safe_create:
  assumes env: "vault_env entered T led E"
    and "createBridgeToken E chain origin t nm symb dec u = Inr v"
  shows "vault_safe entered T led u v"
  using assms(2) bridge_externalsD(7) [OF vault_envD(1) [OF env]]
  by (auto simp: createBridgeToken_def BridgeToken_constructor_def Let_def bridge_emit_def
      vault_effect_def intro!: vault_safe_cong)

lemma safe_mint:
  assumes env: "vault_env entered T led E"
    and run: "mintBridgeTokens E chain origin t recipient amt u = Inr v"
  shows "vault_safe entered T led u v"
  using env run [unfolded mintBridgeTokens_def]
proof (rule nonReentrant_safe, goal_cases)
  case (1 u v)
  then obtain w x e where "ERC20_mint E w recipient amt (others (app u)) = Inr x"
    and v: "v = bridge_emit e (set_others x u)"
    by (auto simp: BridgeToken_mint_def Let_def)
  from bridge_externalsD(5) [OF vault_envD(1) [OF env] this(1)]
  have "covers T led (set_others x u) 0"
    using 1(2) by (auto simp: held_def vault_effect_def elim: covers_mono)
  then show ?case by (rule covers_mono) (simp_all add: v bridge_emit_def)
qed

lemma safe_transfer:
  assumes env: "vault_env entered T led E"
    and run: "transferBridgeTokens E chain src chain' dest t recipient amt fee u = Inr v"
  shows "vault_safe entered T led u v"
  using env run [unfolded transferBridgeTokens_def]
proof (rule nonReentrant_safe, goal_cases)
  case (1 u v)
  let ?old = "bridgedBalances (app u) chain src t"
  let ?u1 = "upd_app (\<lambda>b. b\<lparr>bridgedBalances :=
      upd3 (bridgedBalances b) chain src t (?old - amt)\<rparr>) u"
  from 1(1) have le: "amt \<le> ?old"
    and run: "(if chain' = currentBlockchainID (app ?u1)
      then dest = bridge_address E \<and> erc20_transfer E t recipient amt ?u1 = Inr v
      else processNativeTokenTransfer E chain' dest t recipient amt fee ?u1 = Inr v)"
    by (auto simp: Let_def checked_sub_Inr split: if_splits)
  have "unat (?old - amt) + unat amt = unat ?old" using le by (simp add: unat_sub word_le_nat_alt)
  then have "covers T led ?u1 (share T t amt)"
    by (intro covers_set_balance [OF held_covers [OF 1(2)] refl]) auto
  then have u1: "held entered T led ?u1 (share T t amt)" using 1(2) by (simp add: held_def)
  have "held entered T led v 0"
  proof (cases "chain' = currentBlockchainID (app ?u1)")
    case True
    with run have "erc20_transfer E t recipient amt ?u1 = Inr v" by simp
    from bridge_externalsD(3) [OF vault_envD(1) [OF env] this] u1
    show ?thesis by (rule held_pays) (simp add: vault_effect_def)
  next
    case False
    with run u1 show ?thesis using held_native [OF env] by auto
  qed
  then show ?case by (rule held_covers)
qed

lemma safe_receive:
  assumes env: "vault_env entered T led E"
    and "bridge_receiveTeleporterMessage E chain origin msg u = Inr v"
  shows "vault_safe entered T led u v"
  using assms(2) safe_create [OF env] safe_mint [OF env] safe_transfer [OF env]
  by (auto simp: bridge_receiveTeleporterMessage_def split: option.splits BridgeAction.splits)

lemma vault_safe_op:
  assumes env: "vault_env entered T led E" and run: "run_bridge_op E op u = Inr v"
  shows "vault_safe entered T led u v"
proof (cases op)
  case BridgeTokens
  then show ?thesis using run safe_bridgeTokens [OF env] by simp
next
  case SubmitCreate
  then show ?thesis using run safe_submitCreate [OF env] by simp
next
  case (ReceiveMessage chain origin msg)
  then have "bridge_receiveTeleporterMessage E chain origin msg u = Inr v"
    using run by (auto elim: receiveTeleporterMessage_Inr)
  then show ?thesis by (rule safe_receive [OF env])
qed

lemma vault_safe_elsewhere:
  assumes "vault_effect T led Elsewhere (others (app u)) (others (app v))"
    and "app v = (app u)\<lparr>others := others (app v)\<rparr>"
  shows "vault_safe entered T led u v"
proof (rule vault_safe_cong)
  have "guard_status (app v) = guard_status ((app u)\<lparr>others := others (app v)\<rparr>)"
    "bridgedBalances (app v) = bridgedBalances ((app u)\<lparr>others := others (app v)\<rparr>)"
    using assms(2) by (rule arg_cong)+
  then show "guard_status (app v) = guard_status (app u)"
    "bridgedBalances (app v) = bridgedBalances (app u)" by simp_all
  show "led (others (app u)) \<le> led (others (app v))" using assms(1) by (simp add: vault_effect_def)
qed

lemma vault_safe_called:
  assumes "vault_env entered T led E" "vault_effect T led (Called op) (others (app u)) x"
    "run_bridge_op E op (set_others x u) = Inr v"
  shows "vault_safe entered T led u v"
proof (rule vault_safe_trans)
  show "vault_safe entered T led u (set_others x u)"
    using assms(2) by (intro vault_safe_cong) (simp_all add: vault_effect_def)
  show "vault_safe entered T led (set_others x u) v" using assms(1,3) by (rule vault_safe_op)
qed

interpretation vault: bridge_closed "vault_effect T led" "honest_asset entered T led"
    "vault_safe entered T led" for led T entered
proof unfold_locales
  fix E op u x v
  assume "honest_asset entered T led E"
    "bridge_externals (vault_safe entered T led) (vault_effect T led) E"
    "vault_effect T led (Called op) (others (app u)) x"
    "run_bridge_op E op (set_others x u) = Inr v"
  then show "vault_safe entered T led u v"
    by (intro vault_safe_called) (simp_all add: vault_env_def)
qed (fact vault_safe_refl vault_safe_trans vault_safe_elsewhere)+

lemma covers_constructed:
  "bridge_constructor registryAddress chain g u0 = Inr u \<Longrightarrow> covers T led u 0"
proof -
  assume "bridge_constructor registryAddress chain g u0 = Inr u"
  then have "balance_table T u = (\<lambda>_. 0)"
    by (auto simp: bridge_constructor_def balance_table_def fun_eq_iff)
  then show ?thesis by (simp add: covers_def promised_def)
qed

end
