(* ===== verification/Bridge_Tokens.thy ===== *)
theory Bridge_Tokens
  imports Bridge_Solvency
begin

section \<open>The tokens a bridge has created\<close>

text \<open>
  The registries \<open>wrappedTokenContracts\<close> and \<open>nativeToWrappedTokens\<close> and the deployed token contracts
  describe the same set of tokens, one for each native asset, and none is ever replaced. The
  proof separates the operations that do not touch the registries, of which only the external
  calls matter, from the creation of a token.
\<close>

definition token_for :: "address \<Rightarrow> BridgeToken_data \<Rightarrow> bytes32 \<Rightarrow> address \<Rightarrow> address \<Rightarrow> bool" where
  "token_for B d c b t \<longleftrightarrow> bt_bridgeContract d = B \<and> bt_nativeBlockchainID d = c \<and>
     bt_nativeBridge d = b \<and> bt_nativeAsset d = t"

definition tokens_inv :: "address \<Rightarrow> 'x bridge \<Rightarrow> bool" where
  "tokens_inv B r \<longleftrightarrow>
     (\<forall>c b t. nativeToWrappedTokens r c b t \<noteq> 0 \<longrightarrow>
        wrappedTokenContracts r (nativeToWrappedTokens r c b t) \<and>
        (\<exists>d. bridge_tokens r (nativeToWrappedTokens r c b t) = Some d \<and> token_for B d c b t)) \<and>
     (\<forall>a. wrappedTokenContracts r a \<longrightarrow> a \<noteq> 0 \<and>
        (\<exists>d c b t. bridge_tokens r a = Some d \<and> token_for B d c b t \<and>
           nativeToWrappedTokens r c b t = a))"

definition tokens_kept :: "'x bridge \<Rightarrow> 'x bridge \<Rightarrow> bool" where
  "tokens_kept r r' \<longleftrightarrow>
     (\<forall>c b t. nativeToWrappedTokens r c b t \<noteq> 0 \<longrightarrow>
        nativeToWrappedTokens r' c b t = nativeToWrappedTokens r c b t) \<and>
     (\<forall>a d. bridge_tokens r a = Some d \<longrightarrow> bridge_tokens r' a = Some d)"

definition tokens_safe :: "address \<Rightarrow> 'x bworld \<Rightarrow> 'x bworld \<Rightarrow> bool" where
  "tokens_safe B u v \<longleftrightarrow> (tokens_inv B (app u) \<longrightarrow> tokens_inv B (app v)) \<and> tokens_kept (app u) (app v)"

text \<open>
  The environment: the bridge's address, and \<open>CREATE\<close> fails or yields the address of no existing
  contract.
\<close>

definition creates_fresh :: "address \<Rightarrow> 'x benv \<Rightarrow> bool" where
  "creates_fresh B E \<longleftrightarrow> bridge_address E = B \<and>
     (\<forall>u a. new_address E u = Inr a \<longrightarrow> a \<noteq> 0 \<and> bridge_tokens (app u) a = None)"

lemma tokens_invD:
  "tokens_inv B r \<Longrightarrow> nativeToWrappedTokens r c b t \<noteq> 0 \<Longrightarrow>
    \<exists>d. bridge_tokens r (nativeToWrappedTokens r c b t) = Some d \<and> token_for B d c b t"
  by (simp add: tokens_inv_def)

lemma tokens_safe_refl: "tokens_safe B u u"
  by (simp add: tokens_safe_def tokens_kept_def)

lemma tokens_safe_trans: "tokens_safe B u v \<Longrightarrow> tokens_safe B v w \<Longrightarrow> tokens_safe B u w"
  unfolding tokens_safe_def tokens_kept_def by metis

lemma tokens_safe_cong:
  assumes "bridge_tokens (app v) = bridge_tokens (app u)"
    "wrappedTokenContracts (app v) = wrappedTokenContracts (app u)"
    "nativeToWrappedTokens (app v) = nativeToWrappedTokens (app u)"
  shows "tokens_safe B u v"
  using assms by (simp add: tokens_safe_def tokens_kept_def tokens_inv_def)

subsection \<open>Operations that leave the registries alone\<close>

abbreviation tokens_ext :: "address \<Rightarrow> 'x benv \<Rightarrow> bool" where
  "tokens_ext B \<equiv> bridge_externals (tokens_safe B) (\<lambda>_ _ _. True)"

lemma tokens_set_others: "tokens_safe B (set_others x u) v \<Longrightarrow> tokens_safe B u v"
  by (rule tokens_safe_trans [rotated]) (auto intro: tokens_safe_cong)

lemma tokens_emit: "tokens_safe B u v \<Longrightarrow> tokens_safe B u (bridge_emit e v)"
  by (erule tokens_safe_trans) (auto simp: bridge_emit_def intro: tokens_safe_cong)

lemma tokens_pull:
  "tokens_ext B E \<Longrightarrow> bridge_safeTransferFrom E t amt u = Inr (d, v) \<Longrightarrow> tokens_safe B u v"
  by (auto simp: bridge_safeTransferFrom_def dest: bridge_externalsD(1))

lemma tokens_send:
  "tokens_ext B E \<Longrightarrow> messenger_send E m inp u = Inr (mid, v) \<Longrightarrow> tokens_safe B u v"
  by (drule (1) bridge_externalsD(4)) (auto intro: tokens_safe_trans [OF _ tokens_set_others])

lemma tokens_fee:
  assumes "tokens_ext B E"
    and "(if fee > 0 then
        bindE (bridge_safeTransferFrom E t fee u) (\<lambda>(adjusted, u1).
        bindE (erc20_increaseAllowance E t m adjusted u1) (\<lambda>u2. Inr (adjusted, u2)))
      else Inr (0, u)) = Inr (adj, v)"
  shows "tokens_safe B u v"
proof (cases "fee > 0")
  case True
  then obtain u1 where "bridge_safeTransferFrom E t fee u = Inr (adj, u1)"
    "erc20_increaseAllowance E t m adj u1 = Inr v" using assms(2) by auto
  then show ?thesis
    using tokens_safe_trans [OF tokens_pull [OF assms(1)] bridge_externalsD(2) [OF assms(1)]]
    by blast
next
  case False
  then show ?thesis using assms(2) by (simp add: tokens_safe_refl)
qed

lemma tokens_native:
  assumes ext: "tokens_ext B E"
    and run: "processNativeTokenTransfer E chain dest t recipient amt fee u = Inr v"
  shows "tokens_safe B u v"
proof -
  from run obtain m u1 n inp mid u3 e where
    a: "(if fee > 0 then erc20_increaseAllowance E t m fee u else Inr u) = Inr u1"
    and s: "messenger_send E m inp
      (upd_app (\<lambda>b. b\<lparr>bridgedBalances := upd3 (bridgedBalances b) chain dest t n\<rparr>) u1)
        = Inr (mid, u3)"
    and v: "v = bridge_emit e u3"
    by (auto simp: processNativeTokenTransfer_def Let_def)
  let ?u2 = "upd_app (\<lambda>b. b\<lparr>bridgedBalances := upd3 (bridgedBalances b) chain dest t n\<rparr>) u1"
  have "tokens_safe B u u1"
    using a bridge_externalsD(2) [OF ext] by (auto split: if_splits intro: tokens_safe_refl)
  moreover have "tokens_safe B u1 ?u2" by (rule tokens_safe_cong) simp_all
  moreover have "tokens_safe B ?u2 u3" using ext s by (rule tokens_send)
  ultimately show ?thesis unfolding v by (blast intro: tokens_emit tokens_safe_trans)
qed

lemma tokens_wrapped:
  assumes ext: "tokens_ext B E" and run: "processWrappedTokenTransfer E info u = Inr v"
  shows "tokens_safe B u v"
proof -
  from run obtain m adj u2 x inp mid u4 e where
    f: "(if wt_primaryFeeAmount info > 0 then
        bindE (bridge_safeTransferFrom E (wt_wrappedContractAddress info)
          (wt_primaryFeeAmount info) u) (\<lambda>(adjusted, u1).
        bindE (erc20_increaseAllowance E (wt_wrappedContractAddress info) m adjusted u1) (\<lambda>u2.
        Inr (adjusted, u2)))
      else Inr (0, u)) = Inr (adj, u2)"
    and s: "messenger_send E m inp (set_others x u2) = Inr (mid, u4)" and v: "v = bridge_emit e u4"
    by (auto simp: processWrappedTokenTransfer_def BridgeToken_burnFrom_def Let_def)
  have "tokens_safe B u u2" using ext f by (rule tokens_fee)
  moreover have "tokens_safe B u2 u4" using tokens_send [OF ext s] by (rule tokens_set_others)
  ultimately show ?thesis unfolding v by (blast intro: tokens_emit tokens_safe_trans)
qed

lemma tokens_nonReentrant:
  assumes "nonReentrant E body u = Inr v" and "\<And>u v. body u = Inr v \<Longrightarrow> tokens_safe B u v"
  shows "tokens_safe B u v"
proof -
  from assms(1) obtain g w where b: "body (upd_app (\<lambda>b. b\<lparr>guard_status := g\<rparr>) u) = Inr w"
    and v: "v = upd_app (\<lambda>b. b\<lparr>guard_status := nonReentrantAfter E (guard_status b)\<rparr>) w"
    by (auto simp: nonReentrant_def)
  have "tokens_safe B u (upd_app (\<lambda>b. b\<lparr>guard_status := g\<rparr>) u)" "tokens_safe B w v"
    by (simp_all add: v tokens_safe_cong)
  with assms(2) [OF b] show ?thesis by (blast intro: tokens_safe_trans)
qed

lemma tokens_bridgeTokens:
  assumes ext: "tokens_ext B E"
    and run: "bridgeTokens E chain dest t recipient amt fee1 fee2 u = Inr v"
  shows "tokens_safe B u v"
  using run [unfolded bridgeTokens_def]
proof (rule tokens_nonReentrant, goal_cases)
  case (1 u v)
  show ?case
  proof (cases "wrappedTokenContracts (app u) t")
    case True
    then show ?thesis using 1 tokens_wrapped [OF ext] by auto
  next
    case False
    then obtain adj u1 where "bridge_safeTransferFrom E t amt u = Inr (adj, u1)"
      "processNativeTokenTransfer E chain dest t recipient adj fee1 u1 = Inr v"
      using 1 by auto
    then show ?thesis
      using tokens_safe_trans [OF tokens_pull [OF ext] tokens_native [OF ext]] by blast
  qed
qed

lemma tokens_submitCreate:
  assumes ext: "tokens_ext B E"
    and run: "submitCreateBridgeToken E chain dest t feeAsset fee u = Inr v"
  shows "tokens_safe B u v"
  using run [unfolded submitCreateBridgeToken_def]
proof (rule tokens_nonReentrant, goal_cases)
  case (1 u v)
  then obtain m adj u2 inp mid u3 e where
    f: "(if fee > 0 then
        bindE (bridge_safeTransferFrom E feeAsset fee u) (\<lambda>(adjusted, u1).
        bindE (erc20_increaseAllowance E feeAsset m adjusted u1) (\<lambda>u2. Inr (adjusted, u2)))
      else Inr (0, u)) = Inr (adj, u2)"
    and s: "messenger_send E m inp u2 = Inr (mid, u3)"
    and v: "v = bridge_emit e (upd_app (\<lambda>b. b\<lparr>submittedBridgeTokenCreations :=
          upd3 (submittedBridgeTokenCreations b) chain dest t True\<rparr>) u3)"
    by (auto simp: Let_def)
  have "tokens_safe B u u3"
    using tokens_fee [OF ext f] tokens_send [OF ext s] by (rule tokens_safe_trans)
  then show ?case
    unfolding v by (intro tokens_emit) (erule tokens_safe_trans, simp add: tokens_safe_cong)
qed

lemma tokens_mint:
  assumes run: "mintBridgeTokens E chain origin t recipient amt u = Inr v"
  shows "tokens_safe B u v"
  using run [unfolded mintBridgeTokens_def]
proof (rule tokens_nonReentrant, goal_cases)
  case (1 u v)
  then show ?case
    by (auto simp: BridgeToken_mint_def Let_def bridge_emit_def intro!: tokens_safe_cong)
qed

lemma tokens_transfer:
  assumes ext: "tokens_ext B E"
    and run: "transferBridgeTokens E chain src chain' dest t recipient amt fee u = Inr v"
  shows "tokens_safe B u v"
  using run [unfolded transferBridgeTokens_def]
proof (rule tokens_nonReentrant, goal_cases)
  case (1 u v)
  let ?u1 = "upd_app (\<lambda>b. b\<lparr>bridgedBalances := upd3 (bridgedBalances b) chain src t
      (bridgedBalances (app u) chain src t - amt)\<rparr>) u"
  have "erc20_transfer E t recipient amt ?u1 = Inr v \<or>
      processNativeTokenTransfer E chain' dest t recipient amt fee ?u1 = Inr v"
    using 1 by (auto simp: Let_def checked_sub_Inr split: if_splits)
  then have "tokens_safe B ?u1 v"
  proof
    assume "erc20_transfer E t recipient amt ?u1 = Inr v"
    from bridge_externalsD(3) [OF ext this] show ?thesis
      by (auto intro: tokens_safe_trans [OF _ tokens_set_others])
  qed (rule tokens_native [OF ext])
  moreover have "tokens_safe B u ?u1" by (rule tokens_safe_cong) simp_all
  ultimately show ?case by (blast intro: tokens_safe_trans)
qed

subsection \<open>Creating a token\<close>

lemma tokens_create:
  assumes B: "creates_fresh B E"
    and run: "createBridgeToken E chain b t nm symb dec u = Inr v"
  shows "tokens_safe B u v"
proof -
  from run obtain a where a: "new_address E u = Inr a"
    by (auto simp: createBridgeToken_def)
  with B have new: "a \<noteq> 0" "bridge_tokens (app u) a = None" and addr: "bridge_address E = B"
    by (simp_all add: creates_fresh_def)
  let ?d = "\<lparr>bt_bridgeContract = B, bt_nativeBlockchainID = chain, bt_nativeBridge = b,
    bt_nativeAsset = t, bt_decimals = dec\<rparr>"
  from run have free: "nativeToWrappedTokens (app u) chain b t = 0"
    and tok: "bridge_tokens (app v) = (bridge_tokens (app u))(a \<mapsto> ?d)"
    and wr: "wrappedTokenContracts (app v) = (wrappedTokenContracts (app u))(a := True)"
    and nat: "nativeToWrappedTokens (app v) = upd3 (nativeToWrappedTokens (app u)) chain b t a"
    by (auto simp: createBridgeToken_def BridgeToken_constructor_def Let_def bridge_emit_def addr a)
  have d: "token_for B ?d chain b t" by (simp add: token_for_def)
  have "tokens_kept (app u) (app v)" using new free by (auto simp: tokens_kept_def tok nat)
  moreover have "tokens_inv B (app v)" if inv: "tokens_inv B (app u)"
  proof -
    have old: "wrappedTokenContracts (app u) e \<Longrightarrow> e \<noteq> a" for e
      using inv new by (auto simp: tokens_inv_def)
    show ?thesis
      unfolding tokens_inv_def
    proof (intro conjI allI impI)
      fix c b' t' assume nz: "nativeToWrappedTokens (app v) c b' t' \<noteq> 0"
      show "wrappedTokenContracts (app v) (nativeToWrappedTokens (app v) c b' t')"
        using nz inv by (auto simp: nat wr tokens_inv_def split: if_splits)
      show "\<exists>d. bridge_tokens (app v) (nativeToWrappedTokens (app v) c b' t') = Some d \<and>
          token_for B d c b' t'"
        using nz inv d old by (auto simp: nat tok tokens_inv_def split: if_splits)
    next
      fix e assume e: "wrappedTokenContracts (app v) e"
      then show "e \<noteq> 0" using inv new by (auto simp: wr tokens_inv_def split: if_splits)
      show "\<exists>d c b t. bridge_tokens (app v) e = Some d \<and> token_for B d c b t \<and>
          nativeToWrappedTokens (app v) c b t = e"
      proof (cases "e = a")
        case True
        then show ?thesis using d by (auto simp: nat tok)
      next
        case False
        then obtain d c b' t' where *: "bridge_tokens (app u) e = Some d" "token_for B d c b' t'"
          "nativeToWrappedTokens (app u) c b' t' = e" "e \<noteq> 0"
          using e inv by (auto simp: wr tokens_inv_def)
        then have "nativeToWrappedTokens (app v) c b' t' = e" using free by (auto simp: nat)
        with * False show ?thesis by (auto simp: tok)
      qed
    qed
  qed
  ultimately show ?thesis by (simp add: tokens_safe_def)
qed

lemma tokens_receive:
  assumes ext: "tokens_ext B E" and B: "creates_fresh B E"
    and "bridge_receiveTeleporterMessage E chain origin msg u = Inr v"
  shows "tokens_safe B u v"
  using assms(3) tokens_create [OF B] tokens_mint tokens_transfer [OF ext]
  by (auto simp: bridge_receiveTeleporterMessage_def split: option.splits BridgeAction.splits)

lemma tokens_op:
  assumes "creates_fresh B E" "tokens_ext B E" "run_bridge_op E op u = Inr v"
  shows "tokens_safe B u v"
proof (cases op)
  case BridgeTokens
  then show ?thesis using assms tokens_bridgeTokens by simp
next
  case SubmitCreate
  then show ?thesis using assms tokens_submitCreate by simp
next
  case (ReceiveMessage chain origin msg)
  then have "bridge_receiveTeleporterMessage E chain origin msg u = Inr v"
    using assms(3) by (auto elim: receiveTeleporterMessage_Inr)
  then show ?thesis using assms(1,2) by (intro tokens_receive)
qed

lemma tokens_elsewhere:
  assumes "app v = (app u)\<lparr>others := others (app v)\<rparr>"
  shows "tokens_safe B u v"
proof (rule tokens_safe_cong)
  have "bridge_tokens (app v) = bridge_tokens ((app u)\<lparr>others := others (app v)\<rparr>)"
    "wrappedTokenContracts (app v) = wrappedTokenContracts ((app u)\<lparr>others := others (app v)\<rparr>)"
    "nativeToWrappedTokens (app v) = nativeToWrappedTokens ((app u)\<lparr>others := others (app v)\<rparr>)"
    using assms by (rule arg_cong)+
  then show "bridge_tokens (app v) = bridge_tokens (app u)"
    "wrappedTokenContracts (app v) = wrappedTokenContracts (app u)"
    "nativeToWrappedTokens (app v) = nativeToWrappedTokens (app u)" by simp_all
qed

lemma tokens_called:
  assumes "creates_fresh B E" "tokens_ext B E" "run_bridge_op E op (set_others x u) = Inr v"
  shows "tokens_safe B u v"
  using tokens_op [OF assms] by (rule tokens_set_others)

interpretation registry_of_tokens: bridge_closed "\<lambda>_ _ _. True" "creates_fresh B" "tokens_safe B"
    for B
  by unfold_locales
    (rule tokens_safe_refl, erule (1) tokens_safe_trans, erule tokens_elsewhere,
      erule (2) tokens_called)

lemma tokens_inv_constructed:
  "bridge_constructor registryAddress chain g u0 = Inr u \<Longrightarrow> tokens_inv B (app u)"
  by (auto simp: bridge_constructor_def tokens_inv_def)

lemma tokens_inv_unique:
  assumes "tokens_inv B r" "nativeToWrappedTokens r c b t = a" "nativeToWrappedTokens r c' b' t' = a"
    "a \<noteq> 0"
  shows "c = c' \<and> b = b' \<and> t = t'"
  using tokens_invD [OF assms(1), of c b t] tokens_invD [OF assms(1), of c' b' t'] assms(2-4)
  by (auto simp: token_for_def)

end
