(* ===== verification/Bridge_Ledger.thy ===== *)
theory Bridge_Ledger
  imports Bridge_Tokens Message_Notes
begin

section \<open>The books of a bridge\<close>

text \<open>
  Bookkeeping between two bridges. Each bridge keeps, towards every other bridge and for every
  native asset, two accounts that it can check on its own. As a home it has bridged exactly what
  it sent as mints less what it executed as releases; as a remote its token is covered by what it
  executed as mints less what it sent as releases. The messages sent and executed are noted by the
  messenger, so they are read from the state of the other accounts, as is the total supply of a
  token of the bridge.
\<close>

record 'x view =
  history :: "'x \<Rightarrow> message_note list"
  supply_of :: "address \<Rightarrow> 'x \<Rightarrow> nat"
  entered :: "uint256 \<Rightarrow> bool"
  here :: address
  codec :: "'x benv"

subsection \<open>What messages promise\<close>

definition mint_amount :: "'x benv \<Rightarrow> address \<Rightarrow> bytes \<Rightarrow> int" where
  "mint_amount D t m = (case decode_action D m of
      Some (Mint, d) \<Rightarrow> (case decode_mint D d of
          Some (t', recipient, amt) \<Rightarrow> if t' = t then uint amt else 0
        | None \<Rightarrow> 0)
    | _ \<Rightarrow> 0)"

definition release_amount :: "'x benv \<Rightarrow> address \<Rightarrow> bytes \<Rightarrow> int" where
  "release_amount D t m = (case decode_action D m of
      Some (Transfer, d) \<Rightarrow> (case decode_transfer D d of
          Some (chain, dest, t', recipient, amt, fee) \<Rightarrow> if t' = t then uint amt else 0
        | None \<Rightarrow> 0)
    | _ \<Rightarrow> 0)"

text \<open>The codec of the environment is the one of the books, and decoding inverts encoding.\<close>

definition codec_agrees :: "'x benv \<Rightarrow> 'x benv \<Rightarrow> bool" where
  "codec_agrees D E \<longleftrightarrow>
     decode_action E = decode_action D \<and> decode_mint E = decode_mint D \<and>
     decode_transfer E = decode_transfer D \<and> encode_action E = encode_action D \<and>
     encode_mint E = encode_mint D \<and> encode_transfer E = encode_transfer D \<and>
     (\<forall>a d. decode_action D (encode_action D a d) = Some (a, d)) \<and>
     (\<forall>t r amt. decode_mint D (encode_mint D t r amt) = Some (t, r, amt)) \<and>
     (\<forall>c b t r amt fee.
        decode_transfer D (encode_transfer D c b t r amt fee) = Some (c, b, t, r, amt, fee))"

lemma amounts_encoded:
  assumes "codec_agrees D E"
  shows "mint_amount D t (encodeMintBridgeTokensData E t' r amt) = (if t' = t then uint amt else 0)"
    and "release_amount D t (encodeMintBridgeTokensData E t' r amt) = 0"
    and "release_amount D t (encodeTransferBridgeTokensData E c b t' r amt fee)
      = (if t' = t then uint amt else 0)"
    and "mint_amount D t (encodeTransferBridgeTokensData E c b t' r amt fee) = 0"
    and "mint_amount D t (encodeCreateBridgeTokenData E t' nm symb dec) = 0"
    and "release_amount D t (encodeCreateBridgeTokenData E t' nm symb dec) = 0"
  using assms
  by (auto simp: codec_agrees_def mint_amount_def release_amount_def
      encodeMintBridgeTokensData_def encodeTransferBridgeTokensData_def
      encodeCreateBridgeTokenData_def)

lemma amounts_nonneg: "0 \<le> mint_amount D t m" "0 \<le> release_amount D t m"
  by (auto simp: mint_amount_def release_amount_def split: option.splits BridgeAction.splits)

subsection \<open>Accounts\<close>

definition home_debt :: "'x view \<Rightarrow> 'x bworld \<Rightarrow> bytes32 \<Rightarrow> address \<Rightarrow> address \<Rightarrow> int" where
  "home_debt V u c b t = uint (bridgedBalances (app u) c b t) +
     sum_list (map (release_amount (codec V) t) (executed_from c b (history V (others (app u))))) -
     sum_list (map (mint_amount (codec V) t) (sent_to c b (history V (others (app u)))))"

definition wrapped_supply :: "'x view \<Rightarrow> 'x bworld \<Rightarrow> bytes32 \<Rightarrow> address \<Rightarrow> address \<Rightarrow> nat" where
  "wrapped_supply V u c b t =
     (if nativeToWrappedTokens (app u) c b t = 0 then 0
      else supply_of V (nativeToWrappedTokens (app u) c b t) (others (app u)))"

definition wrapped_debt :: "'x view \<Rightarrow> 'x bworld \<Rightarrow> bytes32 \<Rightarrow> address \<Rightarrow> address \<Rightarrow> int" where
  "wrapped_debt V u c b t = int (wrapped_supply V u c b t) +
     sum_list (map (release_amount (codec V) t) (sent_to c b (history V (others (app u))))) -
     sum_list (map (mint_amount (codec V) t) (executed_from c b (history V (others (app u)))))"

definition balanced :: "'x view \<Rightarrow> 'x bworld \<Rightarrow> bool" where
  "balanced V u \<longleftrightarrow> (\<forall>c b t. home_debt V u c b t = 0 \<and> wrapped_debt V u c b t \<le> 0)"

subsection \<open>What the calls do to the books\<close>

fun noted :: "bridge_effect \<Rightarrow> message_note list" where
  "noted (Sends inp) = [Sent (in_destinationBlockchainID inp) (in_destinationAddress inp) (in_message inp)]"
| "noted (Called (ReceiveMessage c b m)) = [Executed c b m]"
| "noted _ = []"

fun supply_after :: "bridge_effect \<Rightarrow> address \<Rightarrow> int \<Rightarrow> int" where
  "supply_after (Mints t amt) a n = (if t = a then n + uint amt else n)"
| "supply_after (Burns t amt) a n = (if t = a then n - uint amt else n)"
| "supply_after (Deploys t) a n = (if t = a then 0 else n)"
| "supply_after _ a n = n"

definition ledger_effect :: "'x view \<Rightarrow> bridge_effect \<Rightarrow> 'x \<Rightarrow> 'x \<Rightarrow> bool" where
  "ledger_effect V eff x y \<longleftrightarrow> history V y = history V x @ noted eff \<and>
     (\<forall>a. int (supply_of V a y) \<le> supply_after eff a (int (supply_of V a x)))"

fun home_change :: "'x benv \<Rightarrow> bridge_effect \<Rightarrow> bytes32 \<Rightarrow> address \<Rightarrow> address \<Rightarrow> int" where
  "home_change D (Sends inp) c b t =
     (if in_destinationBlockchainID inp = c \<and> in_destinationAddress inp = b
      then - mint_amount D t (in_message inp) else 0)"
| "home_change D (Called (ReceiveMessage c' b' m)) c b t =
     (if c' = c \<and> b' = b then release_amount D t m else 0)"
| "home_change D _ c b t = 0"

fun wrapped_change ::
  "'x benv \<Rightarrow> bridge_effect \<Rightarrow> address \<Rightarrow> bytes32 \<Rightarrow> address \<Rightarrow> address \<Rightarrow> int" where
  "wrapped_change D (Sends inp) w c b t =
     (if in_destinationBlockchainID inp = c \<and> in_destinationAddress inp = b
      then release_amount D t (in_message inp) else 0)"
| "wrapped_change D (Called (ReceiveMessage c' b' m)) w c b t =
     (if c' = c \<and> b' = b then - mint_amount D t m else 0)"
| "wrapped_change D (Mints a amt) w c b t = (if a = w \<and> w \<noteq> 0 then uint amt else 0)"
| "wrapped_change D (Burns a amt) w c b t = (if a = w \<and> w \<noteq> 0 then - uint amt else 0)"
| "wrapped_change D _ w c b t = 0"

lemma home_debt_effect:
  "ledger_effect V eff (others (app u)) x \<Longrightarrow>
    home_debt V (set_others x u) c b t = home_debt V u c b t + home_change (codec V) eff c b t"
  by (induction "codec V" eff c b t rule: home_change.induct)
    (simp_all add: home_debt_def ledger_effect_def)

lemma wrapped_debt_effect:
  assumes "ledger_effect V eff (others (app u)) x"
  shows "wrapped_debt V (set_others x u) c b t \<le> wrapped_debt V u c b t +
    wrapped_change (codec V) eff (nativeToWrappedTokens (app u) c b t) c b t"
proof -
  let ?w = "nativeToWrappedTokens (app u) c b t"
  have "history V x = history V (others (app u)) @ noted eff"
    and "int (supply_of V ?w x) \<le> supply_after eff ?w (int (supply_of V ?w (others (app u))))"
    using assms by (simp_all add: ledger_effect_def)
  then show ?thesis
    by (cases "(codec V, eff, ?w, c, b, t)"
        rule: wrapped_change.cases)
      (auto simp: wrapped_debt_def wrapped_supply_def Let_def sent_to_def
        executed_from_def split: if_splits)
qed

subsection \<open>What an interaction keeps\<close>

definition ledger_safe :: "'x view \<Rightarrow> 'x bworld \<Rightarrow> 'x bworld \<Rightarrow> bool" where
  "ledger_safe V u v \<longleftrightarrow> tokens_safe (here V) u v \<and>
     (entered V (guard_status (app u)) \<longrightarrow> entered V (guard_status (app v)) \<and>
        home_debt V v = home_debt V u \<and> wrapped_debt V v \<le> wrapped_debt V u) \<and>
     (tokens_inv (here V) (app u) \<longrightarrow> balanced V u \<longrightarrow> balanced V v)"

lemma ledger_safe_refl: "ledger_safe V u u"
  by (simp add: ledger_safe_def tokens_safe_refl)

lemma ledger_safe_trans:
  assumes "ledger_safe V u v" "ledger_safe V v w"
  shows "ledger_safe V u w"
  unfolding ledger_safe_def
proof (intro conjI impI)
  show "tokens_safe (here V) u w"
    using assms by (auto simp: ledger_safe_def intro: tokens_safe_trans)
  show "wrapped_debt V w \<le> wrapped_debt V u" if "entered V (guard_status (app u))"
    using assms that by (auto simp: ledger_safe_def intro: order_trans)
qed (use assms in \<open>auto simp: ledger_safe_def tokens_safe_def\<close>)

lemma ledger_safe_tokens: "ledger_safe V u v \<Longrightarrow> tokens_safe (here V) u v"
  by (simp add: ledger_safe_def)

text \<open>A step that moves no account.\<close>

lemma ledger_safe_frame:
  assumes "tokens_safe (here V) u v" "guard_status (app v) = guard_status (app u)"
    "home_debt V v = home_debt V u" "wrapped_debt V v \<le> wrapped_debt V u"
  shows "ledger_safe V u v"
proof -
  have "wrapped_debt V v c b t \<le> wrapped_debt V u c b t" for c b t
    using assms(4) by (simp add: le_fun_def)
  then have "balanced V v" if "balanced V u"
    using that assms(3) unfolding balanced_def by (metis order_trans)
  then show ?thesis using assms by (simp add: ledger_safe_def)
qed

lemma ledger_safe_elsewhere:
  assumes eff: "ledger_effect V Elsewhere (others (app u)) (others (app v))"
    and app: "app v = (app u)\<lparr>others := others (app v)\<rparr>"
  shows "ledger_safe V u v"
proof -
  let ?v = "set_others (others (app v)) u"
  have same: "app v = app ?v" using app by simp
  have "home_debt V v = home_debt V ?v" "wrapped_debt V v = wrapped_debt V ?v"
    unfolding home_debt_def wrapped_debt_def wrapped_supply_def fun_eq_iff same [symmetric]
    by simp_all
  moreover have "guard_status (app v) = guard_status (app ?v)" by (rule arg_cong [OF same])
  ultimately show ?thesis
    using home_debt_effect [OF eff] wrapped_debt_effect [OF eff] tokens_elsewhere [OF app]
    by (intro ledger_safe_frame) (simp_all add: fun_eq_iff le_fun_def)
qed

subsection \<open>Inside a guarded function\<close>

definition books :: "'x view \<Rightarrow> 'x bworld \<Rightarrow> (bytes32 \<Rightarrow> address \<Rightarrow> address \<Rightarrow> int)
    \<Rightarrow> (bytes32 \<Rightarrow> address \<Rightarrow> address \<Rightarrow> int) \<Rightarrow> bool" where
  "books V u H W \<longleftrightarrow> entered V (guard_status (app u)) \<and> tokens_inv (here V) (app u) \<and>
     home_debt V u = H \<and> wrapped_debt V u \<le> W"

lemma books_safe: "ledger_safe V u v \<Longrightarrow> books V u H W \<Longrightarrow> books V v H W"
  by (auto simp: books_def ledger_safe_def tokens_safe_def intro: order_trans)

lemma books_balanced: "books V u (\<lambda>_ _ _. 0) (\<lambda>_ _ _. 0) \<Longrightarrow> balanced V u"
  by (simp add: books_def balanced_def le_fun_def)

text \<open>The environment of this section.\<close>

definition honest_books :: "'x view \<Rightarrow> 'x benv \<Rightarrow> bool" where
  "honest_books V E \<longleftrightarrow> creates_fresh (here V) E \<and> guard_works (entered V) E \<and>
     codec_agrees (codec V) E"

definition ledger_env :: "'x view \<Rightarrow> 'x benv \<Rightarrow> bool" where
  "ledger_env V E \<longleftrightarrow> honest_books V E \<and>
     bridge_externals (ledger_safe V) (ledger_effect V) E"

lemma ledger_envD:
  assumes "ledger_env V E"
  shows "bridge_externals (ledger_safe V) (ledger_effect V) E" "creates_fresh (here V) E"
    "codec_agrees (codec V) E" "bridge_address E = here V"
    "nonReentrantBefore E g = Inr g' \<Longrightarrow> \<not> entered V g \<and> entered V g'"
    "\<not> entered V (nonReentrantAfter E g)"
    "tokens_ext (here V) E"
proof -
  show ext: "bridge_externals (ledger_safe V) (ledger_effect V) E"
    using assms by (simp add: ledger_env_def)
  show "tokens_ext (here V) E"
    by (rule bridge_externals_weaken [OF ledger_safe_tokens TrueI ext])
qed (use assms in \<open>simp_all add: ledger_env_def honest_books_def creates_fresh_def guard_works_iff\<close>)

lemma books_pull:
  "ledger_env V E \<Longrightarrow> bridge_safeTransferFrom E t amt u = Inr (d, v) \<Longrightarrow> books V u H W \<Longrightarrow>
    books V v H W"
  by (auto simp: bridge_safeTransferFrom_def dest!: ledger_envD(1) bridge_externalsD(1)
      elim: books_safe)

lemma books_allowance:
  "ledger_env V E \<Longrightarrow> erc20_increaseAllowance E t sp amt u = Inr v \<Longrightarrow> books V u H W \<Longrightarrow>
    books V v H W"
  by (auto dest!: ledger_envD(1) bridge_externalsD(2) elim: books_safe)

lemma books_effect:
  assumes "\<exists>a1 x. ledger_safe V u a1 \<and> ledger_effect V eff (others (app a1)) x \<and>
      ledger_safe V (set_others x a1) v"
    and "books V u H W" and "\<forall>a amt. eff \<noteq> Mints a amt \<and> eff \<noteq> Burns a amt"
  shows "books V v (\<lambda>c b t. H c b t + home_change (codec V) eff c b t)
    (\<lambda>c b t. W c b t + wrapped_change (codec V) eff 0 c b t)"
proof -
  from assms(1) obtain a1 x where a1: "ledger_safe V u a1"
    and x: "ledger_effect V eff (others (app a1)) x" and v: "ledger_safe V (set_others x a1) v"
    by blast
  have b: "books V a1 H W" using a1 assms(2) by (rule books_safe)
  have "wrapped_change (codec V) eff w c b t = wrapped_change (codec V) eff 0 c b t" for w c b t
    using assms(3) by (cases "(codec V, eff, w, c, b, t)" rule: wrapped_change.cases) auto
  then have "wrapped_debt V (set_others x a1) c b t
      \<le> wrapped_debt V a1 c b t + wrapped_change (codec V) eff 0 c b t" for c b t
    using wrapped_debt_effect [OF x, of c b t] by metis
  moreover have "wrapped_debt V a1 c b t \<le> W c b t" for c b t
    using b by (simp add: books_def le_fun_def)
  ultimately have "wrapped_debt V (set_others x a1) c b t
      \<le> W c b t + wrapped_change (codec V) eff 0 c b t" for c b t
    by (meson add_right_mono order_trans)
  moreover have "tokens_inv (here V) (app (set_others x a1))"
    using b by (simp add: books_def tokens_inv_def)
  ultimately show ?thesis
    using b home_debt_effect [OF x]
    by (intro books_safe [OF v]) (auto simp: books_def fun_eq_iff le_fun_def)
qed

lemma books_cong:
  assumes "books V u H W" "\<And>c b t. H c b t = H' c b t" "\<And>c b t. W c b t \<le> W' c b t"
  shows "books V u H' W'"
proof -
  have "H = H'" "W \<le> W'" using assms(2,3) by (simp_all add: fun_eq_iff le_fun_def)
  then show ?thesis using assms(1) by (auto simp: books_def intro: order_trans)
qed

lemma wrapped_debt_cong:
  "others (app v) = others (app u) \<Longrightarrow>
    nativeToWrappedTokens (app v) = nativeToWrappedTokens (app u) \<Longrightarrow> wrapped_debt V v = wrapped_debt V u"
  by (simp add: wrapped_debt_def wrapped_supply_def fun_eq_iff)

lemma home_debt_cong:
  "others (app v) = others (app u) \<Longrightarrow> bridgedBalances (app v) = bridgedBalances (app u) \<Longrightarrow>
    home_debt V v = home_debt V u"
  by (simp add: home_debt_def fun_eq_iff)

lemma tokens_inv_fields [simp]:
  "tokens_inv B (r\<lparr>bridge_logs := ls\<rparr>) = tokens_inv B r"
  "tokens_inv B (r\<lparr>submittedBridgeTokenCreations := f\<rparr>) = tokens_inv B r"
  "tokens_inv B (r\<lparr>bridgedBalances := g\<rparr>) = tokens_inv B r"
  "tokens_inv B (r\<lparr>guard_status := n\<rparr>) = tokens_inv B r"
  "tokens_inv B (r\<lparr>others := x\<rparr>) = tokens_inv B r"
  by (simp_all add: tokens_inv_def)

lemma books_same:
  assumes "books V u H W" "app v = (app u)\<lparr>bridge_logs := ls\<rparr> \<or>
      app v = (app u)\<lparr>submittedBridgeTokenCreations := f\<rparr>"
  shows "books V v H W"
  using assms wrapped_debt_cong [of v u V] home_debt_cong [of v u V] by (auto simp: books_def)

lemma books_emit: "books V u H W \<Longrightarrow> books V (bridge_emit e u) H W"
  by (erule books_same) (auto simp: bridge_emit_def)

lemma books_send:
  assumes env: "ledger_env V E"
    and "messenger_send E m (bridge_message c b f fee gas msg) u = Inr (mid, v)"
    and "books V u H W"
    and "\<And>t. H' c b t = H c b t - mint_amount (codec V) t msg"
    and "\<And>t. W c b t + release_amount (codec V) t msg \<le> W' c b t"
    and "\<And>c' b' t. \<not> (c' = c \<and> b' = b) \<Longrightarrow> H' c' b' t = H c' b' t"
    and "\<And>c' b' t. \<not> (c' = c \<and> b' = b) \<Longrightarrow> W c' b' t \<le> W' c' b' t"
  shows "books V v H' W'"
  using books_effect [OF bridge_externalsD(4) [OF ledger_envD(1) [OF env] assms(2)] assms(3)]
  by (rule books_cong) (use assms(4-) in \<open>auto simp: bridge_message_def\<close>)

lemma books_bridged:
  assumes "books V u H W"
    and "H' c b t = H c b t + uint k - uint (bridgedBalances (app u) c b t)"
    and "\<And>c' b' t'. \<not> (c' = c \<and> b' = b \<and> t' = t) \<Longrightarrow> H' c' b' t' = H c' b' t'"
  shows "books V (upd_app (\<lambda>r. r\<lparr>bridgedBalances := upd3 (bridgedBalances r) c b t k\<rparr>) u) H' W"
proof -
  let ?v = "upd_app (\<lambda>r. r\<lparr>bridgedBalances := upd3 (bridgedBalances r) c b t k\<rparr>) u"
  have "home_debt V ?v c' b' t' = H' c' b' t'" for c' b' t'
    using assms by (cases "c' = c \<and> b' = b \<and> t' = t") (auto simp: home_debt_def books_def)
  then have "home_debt V ?v = H'" by (simp add: fun_eq_iff)
  moreover have "wrapped_debt V ?v = wrapped_debt V u" by (rule wrapped_debt_cong) simp_all
  ultimately show ?thesis using assms(1) by (simp add: books_def)
qed

subsection \<open>Each operation keeps the books\<close>

lemma books_native:
  assumes env: "ledger_env V E"
    and run: "processNativeTokenTransfer E chain dest t recipient amt fee u = Inr v"
    and u: "books V u H W"
  shows "books V v H W"
proof -
  from run obtain m u1 d n mid u3 where
    a: "(if fee > 0 then erc20_increaseAllowance E t m fee u else Inr u) = Inr u1"
    and n: "checked_add (bridgedBalances (app u1) chain dest t) d = Inr n"
    and s: "messenger_send E m (bridge_message chain dest t fee MINT_BRIDGE_TOKENS_REQUIRED_GAS
        (encodeMintBridgeTokensData E t recipient d))
      (upd_app (\<lambda>b. b\<lparr>bridgedBalances := upd3 (bridgedBalances b) chain dest t n\<rparr>) u1)
        = Inr (mid, u3)"
    and v: "v = bridge_emit (LogBridgeTokens t chain mid dest recipient d) u3"
    by (auto simp: processNativeTokenTransfer_def Let_def)
  let ?H = "\<lambda>c b t'. if c = chain \<and> b = dest \<and> t' = t then H c b t' + uint d else H c b t'"
  have u1: "books V u1 H W"
    using a books_allowance [OF env] u by (auto split: if_splits)
  have "books V (upd_app (\<lambda>b. b\<lparr>bridgedBalances := upd3 (bridgedBalances b) chain dest t n\<rparr>) u1) ?H W"
    using u1 by (rule books_bridged) (use checked_add_uint [OF n] in auto)
  then have "books V u3 H W"
    by (rule books_send [OF env s]) (auto simp: amounts_encoded [OF ledger_envD(3) [OF env]])
  then show ?thesis unfolding v by (rule books_emit)
qed

lemma books_fee:
  assumes env: "ledger_env V E"
    and "(if fee > 0 then
        bindE (bridge_safeTransferFrom E t fee u) (\<lambda>(adjusted, u1).
        bindE (erc20_increaseAllowance E t m adjusted u1) (\<lambda>u2. Inr (adjusted, u2)))
      else Inr (0, u)) = Inr (adj, v)"
    and u: "books V u H W"
  shows "books V v H W"
proof (cases "fee > 0")
  case True
  then obtain u1 where "bridge_safeTransferFrom E t fee u = Inr (adj, u1)"
    "erc20_increaseAllowance E t m adj u1 = Inr v" using assms(2) by auto
  then show ?thesis using books_pull [OF env _ u] books_allowance [OF env] by blast
next
  case False
  then show ?thesis using assms(2) u by simp
qed

lemma books_wrapped:
  assumes env: "ledger_env V E"
    and run: "processWrappedTokenTransfer E info u = Inr v"
    and reg: "wrappedTokenContracts (app u) (wt_wrappedContractAddress info)"
    and u: "books V u H W"
  shows "books V v H W"
proof -
  let ?w = "wt_wrappedContractAddress info"
  from run obtain m adj u2 d x u3 k mid u4 e where
    f: "(if wt_primaryFeeAmount info > 0 then
        bindE (bridge_safeTransferFrom E ?w (wt_primaryFeeAmount info) u) (\<lambda>(adjusted, u1).
        bindE (erc20_increaseAllowance E ?w m adjusted u1) (\<lambda>u2. Inr (adjusted, u2)))
      else Inr (0, u)) = Inr (adj, u2)"
    and burn: "ERC20_burnFrom E ?w (bridge_address E) (bridge_sender E) d (others (app u2)) = Inr x"
    and u3: "u3 = set_others x u2" and k: "bridge_tokens (app u2) ?w = Some k"
    and s: "messenger_send E m (bridge_message (bt_nativeBlockchainID k) (bt_nativeBridge k) ?w adj
        TRANSFER_BRIDGE_TOKENS_REQUIRED_GAS (encodeTransferBridgeTokensData E
          (wt_destinationBlockchainID info) (wt_destinationBridgeAddress info) (bt_nativeAsset k)
          (wt_recipient info) d (wt_secondaryFeeAmount info))) u3 = Inr (mid, u4)"
    and v: "v = bridge_emit e u4"
    by (auto simp: processWrappedTokenTransfer_def BridgeToken_burnFrom_def BridgeToken_at_def
        Let_def split: option.splits)
  let ?c = "bt_nativeBlockchainID k" and ?b = "bt_nativeBridge k" and ?t = "bt_nativeAsset k"
  have u2: "books V u2 H W" using books_fee [OF env f u] .
  from u reg obtain k0 c b t where 0: "?w \<noteq> 0" "bridge_tokens (app u) ?w = Some k0"
    "token_for (here V) k0 c b t" "nativeToWrappedTokens (app u) c b t = ?w"
    by (auto simp: books_def tokens_inv_def)
  have "tokens_kept (app u) (app u2)"
    using tokens_fee [OF ledger_envD(7) [OF env] f] by (simp add: tokens_safe_def)
  with 0 k have nat: "nativeToWrappedTokens (app u2) ?c ?b ?t = ?w"
    by (auto simp: tokens_kept_def token_for_def)
  have only: "nativeToWrappedTokens (app u2) c' b' t' = ?w \<longleftrightarrow> c' = ?c \<and> b' = ?b \<and> t' = ?t" for c' b' t'
    using u2 nat 0(1) tokens_inv_unique [OF _ _ nat] by (auto simp: books_def)
  have eff: "ledger_effect V (Burns ?w d) (others (app u2)) x"
    using bridge_externalsD(6) [OF ledger_envD(1) [OF env] burn] .
  let ?W = "\<lambda>c' b' t'. if c' = ?c \<and> b' = ?b \<and> t' = ?t then W c' b' t' - uint d else W c' b' t'"
  have "wrapped_debt V u3 c' b' t' \<le> ?W c' b' t'" for c' b' t'
  proof -
    have "wrapped_debt V u2 c' b' t' \<le> W c' b' t'" using u2 by (simp add: books_def le_fun_def)
    then show ?thesis
      using wrapped_debt_effect [OF eff, of c' b' t'] only [of c' b' t'] 0(1)
      by (auto simp: u3 split: if_splits)
  qed
  then have "books V u3 H ?W"
    using u2 home_debt_effect [OF eff] by (auto simp: books_def u3 le_fun_def fun_eq_iff)
  then have "books V u4 H W"
    by (rule books_send [OF env s]) (auto simp: amounts_encoded [OF ledger_envD(3) [OF env]])
  then show ?thesis unfolding v by (rule books_emit)
qed

lemma balanced_cong:
  assumes "others (app v) = others (app u)" "bridgedBalances (app v) = bridgedBalances (app u)"
    "nativeToWrappedTokens (app v) = nativeToWrappedTokens (app u)"
  shows "balanced V v = balanced V u"
  using wrapped_debt_cong [OF assms(1,3)] home_debt_cong [OF assms(1,2)] by (simp add: balanced_def)

text \<open>
  A guarded function that is called from outside. Its body starts with the accounts as the call
  left them and has to end with balanced ones.
\<close>

lemma ledger_guarded:
  assumes env: "ledger_env V E" and eff: "ledger_effect V (Called op) (others (app u)) x"
    and run: "nonReentrant E body (set_others x u) = Inr v" and tok: "tokens_safe (here V) u v"
    and body: "\<And>u v. body u = Inr v \<Longrightarrow> books V u (home_change (codec V) (Called op))
      (wrapped_change (codec V) (Called op) 0) \<Longrightarrow> balanced V v"
  shows "ledger_safe V u v"
proof -
  let ?enter = "\<lambda>g. upd_app (\<lambda>b. b\<lparr>guard_status := g\<rparr>) (set_others x u)"
  from run obtain g w where g: "nonReentrantBefore E (guard_status (app u)) = Inr g"
    and b: "body (?enter g) = Inr w"
    and v: "v = upd_app (\<lambda>b. b\<lparr>guard_status := nonReentrantAfter E (guard_status b)\<rparr>) w"
    by (auto simp: nonReentrant_def)
  have e: "\<not> entered V (guard_status (app u))" "entered V g"
    using ledger_envD(5) [OF env g] by auto
  have "balanced V v" if inv: "tokens_inv (here V) (app u)" and bal: "balanced V u"
  proof -
    have "home_debt V (set_others x u) = home_change (codec V) (Called op)"
      using home_debt_effect [OF eff] bal by (simp add: fun_eq_iff balanced_def)
    then have h: "home_debt V (?enter g) = home_change (codec V) (Called op)"
      using home_debt_cong [of "?enter g" "set_others x u" V] by simp
    have "wrapped_debt V (set_others x u) c b t \<le> wrapped_change (codec V) (Called op) 0 c b t"
      for c b t
    proof -
      have "wrapped_debt V u c b t \<le> 0" using bal by (simp add: balanced_def)
      moreover have "wrapped_change (codec V) (Called op) w c b t
          = wrapped_change (codec V) (Called op) 0 c b t" for w by (cases op) simp_all
      ultimately show ?thesis using wrapped_debt_effect [OF eff, of c b t] by smt
    qed
    then have "wrapped_debt V (?enter g) \<le> wrapped_change (codec V) (Called op) 0"
      using wrapped_debt_cong [of "?enter g" "set_others x u" V] by (simp add: le_fun_def)
    with h e inv have "balanced V w" by (intro body [OF b]) (simp add: books_def)
    then show ?thesis using balanced_cong [of v w V] by (simp add: v)
  qed
  then show ?thesis using tok e(1) by (simp add: ledger_safe_def)
qed

lemma ledger_bridgeTokens:
  assumes env: "ledger_env V E"
    and eff: "ledger_effect V (Called (BridgeTokens chain dest t recipient amt fee1 fee2))
      (others (app u)) x"
    and run: "bridgeTokens E chain dest t recipient amt fee1 fee2 (set_others x u) = Inr v"
  shows "ledger_safe V u v"
  using env eff run [unfolded bridgeTokens_def]
    tokens_set_others [OF tokens_bridgeTokens [OF ledger_envD(7) [OF env] run]]
proof (rule ledger_guarded, goal_cases)
  case (1 u v)
  from 1(2) have u: "books V u (\<lambda>_ _ _. 0) (\<lambda>_ _ _. 0)" by (rule books_cong) simp_all
  have "books V v (\<lambda>_ _ _. 0) (\<lambda>_ _ _. 0)"
  proof (cases "wrappedTokenContracts (app u) t")
    case True
    then show ?thesis using 1(1) books_wrapped [OF env _ _ u] by auto
  next
    case False
    then obtain adj u1 where "bridge_safeTransferFrom E t amt u = Inr (adj, u1)"
      "processNativeTokenTransfer E chain dest t recipient adj fee1 u1 = Inr v"
      using 1(1) by auto
    then show ?thesis using books_pull [OF env _ u] books_native [OF env] by blast
  qed
  then show ?case by (rule books_balanced)
qed

lemma ledger_submitCreate:
  assumes env: "ledger_env V E"
    and eff: "ledger_effect V (Called (SubmitCreate chain dest t feeAsset fee)) (others (app u)) x"
    and run: "submitCreateBridgeToken E chain dest t feeAsset fee (set_others x u) = Inr v"
  shows "ledger_safe V u v"
  using env eff run [unfolded submitCreateBridgeToken_def]
    tokens_set_others [OF tokens_submitCreate [OF ledger_envD(7) [OF env] run]]
proof (rule ledger_guarded, goal_cases)
  case (1 u v)
  from 1(2) have u: "books V u (\<lambda>_ _ _. 0) (\<lambda>_ _ _. 0)" by (rule books_cong) simp_all
  from 1(1) obtain m adj u2 nm symb dec mid u3 e where
    f: "(if fee > 0 then
        bindE (bridge_safeTransferFrom E feeAsset fee u) (\<lambda>(adjusted, u1).
        bindE (erc20_increaseAllowance E feeAsset m adjusted u1) (\<lambda>u2. Inr (adjusted, u2)))
      else Inr (0, u)) = Inr (adj, u2)"
    and s: "messenger_send E m (bridge_message chain dest feeAsset adj
        CREATE_BRIDGE_TOKENS_REQUIRED_GAS (encodeCreateBridgeTokenData E t nm symb dec)) u2
      = Inr (mid, u3)"
    and v: "v = bridge_emit e (upd_app (\<lambda>b. b\<lparr>submittedBridgeTokenCreations :=
          upd3 (submittedBridgeTokenCreations b) chain dest t True\<rparr>) u3)"
    by (auto simp: Let_def)
  from books_fee [OF env f u] have "books V u3 (\<lambda>_ _ _. 0) (\<lambda>_ _ _. 0)"
    by (rule books_send [OF env s]) (simp_all add: amounts_encoded [OF ledger_envD(3) [OF env]])
  then have "balanced V u3" by (rule books_balanced)
  then show ?case using balanced_cong [of v u3 V] by (simp add: v bridge_emit_def)
qed

lemma ledger_mint:
  assumes env: "ledger_env V E"
    and eff: "ledger_effect V (Called (ReceiveMessage chain origin msg)) (others (app u)) x"
    and msg: "decode_action E msg = Some (Mint, d)" "decode_mint E d = Some (t, recipient, amt)"
    and run: "mintBridgeTokens E chain origin t recipient amt (set_others x u) = Inr v"
  shows "ledger_safe V u v"
  using env eff run [unfolded mintBridgeTokens_def] tokens_set_others [OF tokens_mint [OF run]]
proof (rule ledger_guarded, goal_cases)
  case (1 u v)
  have amounts: "mint_amount (codec V) t' msg = (if t = t' then uint amt else 0)"
    "release_amount (codec V) t' msg = 0" for t'
    using msg ledger_envD(3) [OF env]
    by (auto simp: mint_amount_def release_amount_def codec_agrees_def)
  let ?w = "nativeToWrappedTokens (app u) chain origin t"
  from 1(1) obtain y e where nz: "?w \<noteq> 0" and v: "v = bridge_emit e (set_others y u)"
    and mint: "ERC20_mint E ?w recipient amt (others (app u)) = Inr y"
    by (auto simp: BridgeToken_mint_def Let_def)
  have eff: "ledger_effect V (Mints ?w amt) (others (app u)) y"
    using bridge_externalsD(5) [OF ledger_envD(1) [OF env] mint] .
  have "home_debt V u c b t' = 0" for c b t' using 1(2) by (simp add: books_def amounts)
  moreover have "wrapped_debt V (set_others y u) c b t' \<le> 0" for c b t'
  proof -
    have "nativeToWrappedTokens (app u) c b t' = ?w \<longleftrightarrow> c = chain \<and> b = origin \<and> t' = t"
      using 1(2) nz by (auto simp: books_def dest: tokens_inv_unique)
    moreover have "wrapped_debt V u c b t' \<le> wrapped_change (codec V)
        (Called (ReceiveMessage chain origin msg)) 0 c b t'"
      using 1(2) by (simp add: books_def le_fun_def del: wrapped_change.simps)
    ultimately show ?thesis
      using wrapped_debt_effect [OF eff, of c b t'] nz by (auto simp: amounts split: if_splits)
  qed
  ultimately have "balanced V (set_others y u)"
    using home_debt_effect [OF eff] by (simp add: balanced_def)
  then show ?case using balanced_cong [of v "set_others y u" V] by (simp add: v bridge_emit_def)
qed

lemma ledger_transfer:
  assumes env: "ledger_env V E"
    and eff: "ledger_effect V (Called (ReceiveMessage chain origin msg)) (others (app u)) x"
    and msg: "decode_action E msg = Some (Transfer, d)"
      "decode_transfer E d = Some (chain', dest, t, recipient, amt, fee)"
    and run: "transferBridgeTokens E chain origin chain' dest t recipient amt fee (set_others x u)
      = Inr v"
  shows "ledger_safe V u v"
  using env eff run [unfolded transferBridgeTokens_def]
    tokens_set_others [OF tokens_transfer [OF ledger_envD(7) [OF env] run]]
proof (rule ledger_guarded, goal_cases)
  case (1 u v)
  have amounts: "release_amount (codec V) t' msg = (if t = t' then uint amt else 0)"
    "mint_amount (codec V) t' msg = 0" for t'
    using msg ledger_envD(3) [OF env]
    by (auto simp: mint_amount_def release_amount_def codec_agrees_def)
  let ?old = "bridgedBalances (app u) chain origin t"
  let ?u1 = "upd_app (\<lambda>b. b\<lparr>bridgedBalances :=
      upd3 (bridgedBalances b) chain origin t (?old - amt)\<rparr>) u"
  from 1(1) have sub: "checked_sub ?old amt = Inr (?old - amt)"
    and run: "erc20_transfer E t recipient amt ?u1 = Inr v \<or>
      processNativeTokenTransfer E chain' dest t recipient amt fee ?u1 = Inr v"
    by (auto simp: Let_def checked_sub_Inr split: if_splits)
  have "books V ?u1 (\<lambda>_ _ _. 0) (wrapped_change (codec V)
      (Called (ReceiveMessage chain origin msg)) 0)"
    using 1(2) by (rule books_bridged) (use checked_sub_uint [OF sub] in \<open>auto simp: amounts\<close>)
  then have u1: "books V ?u1 (\<lambda>_ _ _. 0) (\<lambda>_ _ _. 0)"
    by (rule books_cong) (auto simp: amounts)
  from run have "books V v (\<lambda>_ _ _. 0) (\<lambda>_ _ _. 0)"
  proof
    assume "erc20_transfer E t recipient amt ?u1 = Inr v"
    from books_effect [OF bridge_externalsD(3) [OF ledger_envD(1) [OF env] this] u1]
    show ?thesis by (rule books_cong) auto
  qed (rule books_native [OF env _ u1])
  then show ?case by (rule books_balanced)
qed

lemma ledger_create:
  assumes env: "ledger_env V E"
    and run: "createBridgeToken E chain origin t nm symb dec u = Inr v"
  shows "ledger_safe V u v"
proof (rule ledger_safe_frame)
  show "tokens_safe (here V) u v" using ledger_envD(2) [OF env] run by (rule tokens_create)
  from run obtain a where a: "new_address E u = Inr a"
    by (auto simp: createBridgeToken_def)
  have ev: "guard_status (app v) = guard_status (app u)"
    "bridgedBalances (app v) = bridgedBalances (app u)"
    "nativeToWrappedTokens (app v) = upd3 (nativeToWrappedTokens (app u)) chain origin t a"
    "others (app v) = ERC20_constructor E a nm symb (others (app u))"
    using run a
    by (auto simp: createBridgeToken_def BridgeToken_constructor_def Let_def bridge_emit_def)
  show "guard_status (app v) = guard_status (app u)" by (fact ev)
  have "ledger_effect V (Deploys a) (others (app u)) (others (app v))"
    using bridge_externalsD(7) [OF ledger_envD(1) [OF env]] by (simp add: ev)
  then have h: "history V (others (app v)) = history V (others (app u))"
    and s: "\<And>e. int (supply_of V e (others (app v)))
      \<le> (if a = e then 0 else int (supply_of V e (others (app u))))"
    by (simp_all add: ledger_effect_def)
  show "home_debt V v = home_debt V u" by (simp add: home_debt_def fun_eq_iff ev(2) h)
  have "wrapped_supply V v c b t' \<le> wrapped_supply V u c b t'" for c b t'
    using s [of a] s [of "nativeToWrappedTokens (app u) c b t'"]
    by (auto simp: wrapped_supply_def ev(3) split: if_splits)
  then show "wrapped_debt V v \<le> wrapped_debt V u" by (simp add: wrapped_debt_def le_fun_def h)
qed

lemma ledger_safe_called:
  assumes env: "ledger_env V E" and eff: "ledger_effect V (Called op) (others (app u)) x"
    and run: "run_bridge_op E op (set_others x u) = Inr v"
  shows "ledger_safe V u v"
proof (cases op)
  case BridgeTokens
  then show ?thesis using eff run ledger_bridgeTokens [OF env] by simp
next
  case SubmitCreate
  then show ?thesis using eff run ledger_submitCreate [OF env] by simp
next
  case (ReceiveMessage chain origin msg)
  then have "bridge_receiveTeleporterMessage E chain origin msg (set_others x u) = Inr v"
    using run by (auto elim: receiveTeleporterMessage_Inr)
  then consider
      (create) d t nm symb dec where "decode_action E msg = Some (Create, d)"
        "createBridgeToken E chain origin t nm symb dec (set_others x u) = Inr v"
    | (mint) d t recipient amt where "decode_action E msg = Some (Mint, d)"
        "decode_mint E d = Some (t, recipient, amt)"
        "mintBridgeTokens E chain origin t recipient amt (set_others x u) = Inr v"
    | (transfer) d chain' dest t recipient amt fee where "decode_action E msg = Some (Transfer, d)"
        "decode_transfer E d = Some (chain', dest, t, recipient, amt, fee)"
        "transferBridgeTokens E chain origin chain' dest t recipient amt fee (set_others x u) = Inr v"
    by (auto simp: bridge_receiveTeleporterMessage_def split: option.splits BridgeAction.splits)
  then show ?thesis
  proof cases
    case create
    have none: "mint_amount (codec V) t msg = 0" "release_amount (codec V) t msg = 0" for t
      using create(1) ledger_envD(3) [OF env]
      by (auto simp: mint_amount_def release_amount_def codec_agrees_def)
    have "wrapped_debt V (set_others x u) c b t \<le> wrapped_debt V u c b t" for c b t
      using wrapped_debt_effect [OF eff, of c b t] by (simp add: ReceiveMessage none split: if_splits)
    then have "ledger_safe V u (set_others x u)"
      using home_debt_effect [OF eff]
      by (intro ledger_safe_frame)
        (simp_all add: fun_eq_iff le_fun_def ReceiveMessage none tokens_safe_cong)
    then show ?thesis using ledger_create [OF env create(2)] by (rule ledger_safe_trans)
  next
    case mint
    then show ?thesis using eff ledger_mint [OF env] by (simp add: ReceiveMessage)
  next
    case transfer
    then show ?thesis using eff ledger_transfer [OF env] by (simp add: ReceiveMessage)
  qed
qed

interpretation ledger: bridge_closed "ledger_effect V" "honest_books V" "ledger_safe V" for V
proof unfold_locales
  fix E op u x v
  assume "honest_books V E" "bridge_externals (ledger_safe V) (ledger_effect V) E"
    "ledger_effect V (Called op) (others (app u)) x" "run_bridge_op E op (set_others x u) = Inr v"
  then show "ledger_safe V u v" by (intro ledger_safe_called) (simp_all add: ledger_env_def)
qed (fact ledger_safe_refl ledger_safe_trans ledger_safe_elsewhere)+

lemma balanced_constructed:
  assumes "bridge_constructor registryAddress chain g u0 = Inr u" and "history V (others (app u)) = []"
  shows "balanced V u"
proof -
  have "bridgedBalances (app u) = (\<lambda>_ _ _. 0)" "nativeToWrappedTokens (app u) = (\<lambda>_ _ _. 0)"
    using assms(1) by (auto simp: bridge_constructor_def)
  then show ?thesis
    by (simp add: balanced_def home_debt_def wrapped_debt_def wrapped_supply_def assms(2))
qed

end
