(* ===== verification/Bridge_Example.thy ===== *)
theory Bridge_Example
  imports Bridge_Ledger Demo_Codec
begin

section \<open>Two bridges that transfer a token\<close>

text \<open>
  A run of two bridges, the home bridge 10 on chain 5 and the remote bridge 11 on chain 9, on which
  the properties of the bridge are checked. The other accounts of a chain are reduced to the vault
  of the native token 7, the supplies of the bridge's tokens and the notes of the messenger. The
  home submits the creation of a wrapped token and bridges 1000 of token 7; the remote executes
  both messages.
\<close>

record demo_chain =
  dc_vault :: uint256
  dc_supply :: "address \<Rightarrow> nat"
  dc_notes :: "message_note list"

text \<open>The action is the first byte of a message, its arguments are coded by the rest.\<close>

fun demo_decode_action :: "bytes \<Rightarrow> (BridgeAction \<times> bytes) option" where
  "demo_decode_action [] = None"
| "demo_decode_action (b # d) =
     (if b = 0 then Some (Create, d) else if b = 1 then Some (Mint, d)
      else if b = 2 then Some (Transfer, d) else None)"

definition demo_pull :: "address \<Rightarrow> uint256 \<Rightarrow> demo_chain bworld \<Rightarrow> sol_error + demo_chain bworld" where
  "demo_pull t amt u =
     (if t = 7 then bindE (checked_add (dc_vault (others (app u))) amt) (\<lambda>n.
        Inr (set_others ((others (app u))\<lparr>dc_vault := n\<rparr>) u))
      else Inl (ExternalRevert []))"

definition demo_release ::
  "address \<Rightarrow> uint256 \<Rightarrow> demo_chain bworld \<Rightarrow> sol_error + demo_chain bworld" where
  "demo_release t amt u =
     (if t = 7 then bindE (checked_sub (dc_vault (others (app u))) amt) (\<lambda>n.
        Inr (set_others ((others (app u))\<lparr>dc_vault := n\<rparr>) u))
      else Inl (ExternalRevert []))"

definition demo_send ::
  "TeleporterMessageInput \<Rightarrow> demo_chain bworld \<Rightarrow> sol_error + (uint256 \<times> demo_chain bworld)" where
  "demo_send inp u =
     (if feeAmount (in_feeInfo inp) = 0
      then Inr (1, set_others ((others (app u))\<lparr>dc_notes := dc_notes (others (app u)) @ noted (Sends inp)\<rparr>) u)
      else Inl (ExternalRevert []))"

definition demo_create :: "demo_chain bworld \<Rightarrow> sol_error + address" where
  "demo_create u = (if bridge_tokens (app u) 21 = None then Inr 21 else Inl (ExternalRevert []))"

definition demo_bridge :: "address \<Rightarrow> address \<Rightarrow> demo_chain benv" where
  "demo_bridge B sender =
     \<lparr>bridge_address = B, bridge_sender = sender,
      encode_action = (\<lambda>a d. (case a of Create \<Rightarrow> 0 | Mint \<Rightarrow> 1 | Transfer \<Rightarrow> 2) # d),
      decode_action = demo_decode_action,
      encode_create = (\<lambda>t n s d. demo_encode (t, n, s, d)), decode_create = demo_decode,
      encode_mint = (\<lambda>t r amt. demo_encode (t, r, amt)), decode_mint = demo_decode,
      encode_transfer = (\<lambda>c b t r amt fee. demo_encode (c, b, t, r, amt, fee)),
      decode_transfer = demo_decode,
      nonReentrantBefore = (\<lambda>g. if g = 2 then Inl (Revert ''ReentrancyGuard: reentrant call'') else Inr 2),
      nonReentrantAfter = (\<lambda>_. 1), new_address = demo_create,
      ERC20_constructor = (\<lambda>t n s x. x\<lparr>dc_supply := (dc_supply x)(t := 0)\<rparr>),
      ERC20_mint = (\<lambda>t acc amt x.
        Inr (x\<lparr>dc_supply := (dc_supply x)(t := dc_supply x t + unat amt)\<rparr>)),
      ERC20_burnFrom = (\<lambda>t sp acc amt x. if unat amt \<le> dc_supply x t
        then Inr (x\<lparr>dc_supply := (dc_supply x)(t := dc_supply x t - unat amt)\<rparr>)
        else Inl (ExternalRevert [])),
      erc20_balanceOf = (\<lambda>t a u. Inr (dc_vault (others (app u)))),
      erc20_transferFrom = (\<lambda>t from to amt u. demo_pull t amt u),
      erc20_transfer = (\<lambda>t to amt u. demo_release t amt u),
      erc20_increaseAllowance = (\<lambda>t sp amt u. Inr u),
      erc20_name = (\<lambda>t u. Inr ''Asset''), erc20_symbol = (\<lambda>t u. Inr ''AST''),
      erc20_decimals = (\<lambda>t u. Inr 18),
      messenger_send = (\<lambda>m inp u. demo_send inp u)\<rparr>"

definition demo_view :: "address \<Rightarrow> demo_chain view" where
  "demo_view B = \<lparr>history = dc_notes, supply_of = (\<lambda>a x. dc_supply x a), entered = (\<lambda>g. g = 2),
     here = B, codec = demo_bridge 0 0\<rparr>"

lemma demo_view_simps [simp]:
  "history (demo_view B) = dc_notes" "supply_of (demo_view B) = (\<lambda>a x. dc_supply x a)"
  "entered (demo_view B) = (\<lambda>g. g = 2)" "here (demo_view B) = B"
  "codec (demo_view B) = demo_bridge 0 0"
  by (simp_all add: demo_view_def)

lemma demo_codec: "codec_agrees (demo_bridge 0 0) (demo_bridge B s)"
  by (auto simp: codec_agrees_def demo_bridge_def split: BridgeAction.splits)

lemma demo_honest_books: "honest_books (demo_view B) (demo_bridge B s)"
  by (auto simp: honest_books_def creates_fresh_def guard_works_iff demo_codec)
    (auto simp: demo_bridge_def demo_create_def split: if_splits)

lemma demo_honest_asset:
  "honest_asset (entered (demo_view B)) 7 (\<lambda>x. unat (dc_vault x)) (demo_bridge B s)"
  by (auto simp: honest_asset_def guard_works_iff demo_bridge_def split: if_splits)

text \<open>What the calls of the example do is what the bridge's environment may do.\<close>

definition demo_effect :: "bridge_effect \<Rightarrow> demo_chain \<Rightarrow> demo_chain \<Rightarrow> bool" where
  "demo_effect eff x y \<longleftrightarrow> vault_effect 7 (\<lambda>x. unat (dc_vault x)) eff x y \<and>
     ledger_effect (demo_view 0) eff x y"

lemma demo_elsewhere:
  "demo_effect Elsewhere (others (app u)) x \<Longrightarrow> bridge_interacts demo_effect Hon u (set_others x u)"
  by (rule bridge_interacts.elsewhere [where v = "set_others x u"])
    (simp_all add: bridge_interacts.stop)

lemma bridges_externals:
  "bridge_externals (bridge_interacts demo_effect Hon) demo_effect (demo_bridge B s)"
  unfolding bridge_externals_def
proof (intro conjI allI impI, goal_cases)
  case (1 t p q amt a b)
  then obtain n where "checked_add (dc_vault (others (app a))) amt = Inr n"
    and b: "b = set_others ((others (app a))\<lparr>dc_vault := n\<rparr>) a"
    by (auto simp: demo_bridge_def demo_pull_def split: if_splits)
  from checked_add_unat [OF this(1)] show ?case
    unfolding b by (intro demo_elsewhere) (simp add: demo_effect_def vault_effect_def ledger_effect_def)
next
  case (2 t sp amt a b)
  then show ?case by (simp add: demo_bridge_def bridge_interacts.stop)
next
  case (3 t q amt a b)
  then obtain n where n: "checked_sub (dc_vault (others (app a))) amt = Inr n" and "t = 7"
    and b: "b = set_others ((others (app a))\<lparr>dc_vault := n\<rparr>) a"
    by (auto simp: demo_bridge_def demo_release_def split: if_splits)
  have "amt \<le> dc_vault (others (app a))" using n by (simp add: checked_sub_Inr)
  then have "demo_effect (Pays t amt) (others (app a)) ((others (app a))\<lparr>dc_vault := n\<rparr>)"
    using checked_sub_unat [OF n] \<open>t = 7\<close>
    by (simp add: demo_effect_def vault_effect_def ledger_effect_def word_le_nat_alt)
  then show ?case unfolding b by (blast intro: bridge_interacts.stop)
next
  case (4 m inp a mid b)
  let ?x = "(others (app a))\<lparr>dc_notes := dc_notes (others (app a)) @ noted (Sends inp)\<rparr>"
  have "b = set_others ?x a"
    using 4 by (auto simp: demo_bridge_def demo_send_def split: if_splits)
  moreover have "demo_effect (Sends inp) (others (app a)) ?x"
    by (simp add: demo_effect_def vault_effect_def ledger_effect_def)
  ultimately show ?case by (blast intro: bridge_interacts.stop)
qed (auto simp: demo_bridge_def demo_effect_def vault_effect_def ledger_effect_def split: if_splits)

subsection \<open>The run\<close>

definition demo_start :: "demo_chain bworld" where
  "demo_start = \<lparr>reg_blockchainID = 0, latestVersion = 1,
     versionToAddress = (\<lambda>v. if v = 1 then 13 else 0),
     addressToVersion = (\<lambda>a. if a = 13 then 1 else 0), reg_logs = [],
     minTeleporterVersion = 0, pausedTeleporterAddresses = (\<lambda>_. False), upg_logs = [],
     app = \<lparr>guard_status = 0, currentBlockchainID = 0,
       submittedBridgeTokenCreations = (\<lambda>_ _ _. False), bridgedBalances = (\<lambda>_ _ _. 0),
       wrappedTokenContracts = (\<lambda>_. False), nativeToWrappedTokens = (\<lambda>_ _ _. 0),
       bridge_logs = [], bridge_tokens = (\<lambda>_. None),
       others = \<lparr>dc_vault = 0, dc_supply = (\<lambda>_. 0), dc_notes = []\<rparr>\<rparr>\<rparr>"

definition demo_called :: "bridge_op \<Rightarrow> demo_chain bworld \<Rightarrow> demo_chain bworld" where
  "demo_called op u = set_others
     ((others (app u))\<lparr>dc_notes := dc_notes (others (app u)) @ noted (Called op)\<rparr>) u"

definition demo_run ::
  "address \<Rightarrow> address \<Rightarrow> bridge_op \<Rightarrow> demo_chain bworld \<Rightarrow> sol_error + demo_chain bworld" where
  "demo_run B s op u = run_bridge_op (demo_bridge B s) op (demo_called op u)"

definition demo_hon :: "address \<Rightarrow> demo_chain benv \<Rightarrow> bool" where
  "demo_hon B E \<longleftrightarrow> (\<exists>s. E = demo_bridge B s)"

lemma demo_step:
  assumes "demo_run B s op u = Inr v" and "bridge_interacts demo_effect (demo_hon B) v w"
  shows "bridge_interacts demo_effect (demo_hon B) u w"
proof (rule bridge_interacts.operation)
  show "demo_hon B (demo_bridge B s)" by (auto simp: demo_hon_def)
  show "bridge_externals (bridge_interacts demo_effect (demo_hon B)) demo_effect (demo_bridge B s)"
    by (rule bridges_externals)
  show "demo_effect (Called op) (others (app u))
      ((others (app u))\<lparr>dc_notes := dc_notes (others (app u)) @ noted (Called op)\<rparr>)"
    by (simp add: demo_effect_def vault_effect_def ledger_effect_def)
  show "run_bridge_op (demo_bridge B s) op (set_others
      ((others (app u))\<lparr>dc_notes := dc_notes (others (app u)) @ noted (Called op)\<rparr>) u) = Inr v"
    using assms(1) by (simp add: demo_run_def demo_called_def)
qed (fact assms(2))

definition create_message :: bytes where
  "create_message = encodeCreateBridgeTokenData (demo_bridge 0 0) 7 ''Asset'' ''AST'' 18"

definition mint_message :: bytes where
  "mint_message = encodeMintBridgeTokensData (demo_bridge 0 0) 7 99 1000"

definition home0 :: "demo_chain bworld" where
  "home0 = projr (bridge_constructor 77 5 1 demo_start)"

definition home1 :: "demo_chain bworld" where
  "home1 = projr (demo_run 10 42 (SubmitCreate 9 11 7 0 0) home0)"

definition home2 :: "demo_chain bworld" where
  "home2 = projr (demo_run 10 42 (BridgeTokens 9 11 7 99 1000 0 0) home1)"

definition remote0 :: "demo_chain bworld" where
  "remote0 = projr (bridge_constructor 77 9 1 demo_start)"

definition remote1 :: "demo_chain bworld" where
  "remote1 = projr (demo_run 11 13 (ReceiveMessage 5 10 create_message) remote0)"

definition remote2 :: "demo_chain bworld" where
  "remote2 = projr (demo_run 11 13 (ReceiveMessage 5 10 mint_message) remote1)"

lemma bridges_constructed:
  "bridge_constructor 77 5 1 demo_start = Inr home0"
  "bridge_constructor 77 9 1 demo_start = Inr remote0"
  by (simp_all add: home0_def remote0_def bridge_constructor_def upgradeable_constructor_def)

lemmas demo_eval = demo_run_def demo_called_def nonReentrant_def upd_app_def bridge_emit_def
  home0_def remote0_def demo_start_def bridge_constructor_def upgradeable_constructor_def
  getTeleporterMessenger_def getLatestTeleporter_def getAddressFromVersion_def
  isTeleporterAddressPaused_def getVersionFromAddress_def receiveTeleporterMessage_def

lemma home1_run: "demo_run 10 42 (SubmitCreate 9 11 7 0 0) home0 = Inr home1"
  by (simp add: home1_def demo_eval submitCreateBridgeToken_def demo_bridge_def demo_send_def
      bridge_message_def)

lemmas home1_eval = home1_def submitCreateBridgeToken_def demo_bridge_def demo_send_def
  bridge_message_def demo_eval

lemma home2_run: "demo_run 10 42 (BridgeTokens 9 11 7 99 1000 0 0) home1 = Inr home2"
  by (simp add: home2_def home1_eval bridgeTokens_def bridge_safeTransferFrom_def demo_pull_def
      checked_add_def checked_sub_def processNativeTokenTransfer_def)

lemma remote1_run: "demo_run 11 13 (ReceiveMessage 5 10 create_message) remote0 = Inr remote1"
  by (simp add: remote1_def demo_eval bridge_receiveTeleporterMessage_def create_message_def
      encodeCreateBridgeTokenData_def demo_bridge_def createBridgeToken_def
      BridgeToken_constructor_def demo_create_def)

lemma home2_others:
  "others (app home2) = \<lparr>dc_vault = 1000, dc_supply = (\<lambda>_. 0),
     dc_notes = [Sent 9 11 create_message, Sent 9 11 mint_message]\<rparr>"
  by (simp add: home2_def home1_eval bridgeTokens_def bridge_safeTransferFrom_def demo_pull_def
      checked_add_def checked_sub_def processNativeTokenTransfer_def create_message_def
      mint_message_def encodeCreateBridgeTokenData_def encodeMintBridgeTokensData_def)

lemma remote2_run: "demo_run 11 13 (ReceiveMessage 5 10 mint_message) remote1 = Inr remote2"
  by (simp add: remote2_def remote1_def demo_eval bridge_receiveTeleporterMessage_def
      create_message_def mint_message_def encodeCreateBridgeTokenData_def
      encodeMintBridgeTokensData_def demo_bridge_def createBridgeToken_def
      BridgeToken_constructor_def demo_create_def mintBridgeTokens_def BridgeToken_mint_def
      BridgeToken_at_def)

lemma remote2_state:
  "others (app remote2) = \<lparr>dc_vault = 0, dc_supply = (\<lambda>_. 0)(21 := 1000),
     dc_notes = [Executed 5 10 create_message, Executed 5 10 mint_message]\<rparr>"
  "nativeToWrappedTokens (app remote2) 5 10 7 = 21"
  by (simp_all add: remote2_def remote1_def demo_eval bridge_receiveTeleporterMessage_def
      create_message_def mint_message_def encodeCreateBridgeTokenData_def
      encodeMintBridgeTokensData_def demo_bridge_def createBridgeToken_def
      BridgeToken_constructor_def demo_create_def mintBridgeTokens_def BridgeToken_mint_def
      BridgeToken_at_def fun_eq_iff)

lemma home_reachable: "bridge_interacts demo_effect (demo_hon 10) home0 home2"
  by (intro demo_step [OF home1_run] demo_step [OF home2_run] bridge_interacts.stop)

lemma remote_reachable: "bridge_interacts demo_effect (demo_hon 11) remote0 remote2"
  by (intro demo_step [OF remote1_run] demo_step [OF remote2_run] bridge_interacts.stop)

end
