(* ===== verification/Bridge_Correctness.thy ===== *)
theory Bridge_Correctness
  imports Bridge_Example
begin

section \<open>What the bridge guarantees\<close>

text \<open>
  A bridge in use: constructed, with no message noted for it yet, and then anything that the
  environment allows.
\<close>

definition in_use ::
  "(bridge_effect \<Rightarrow> 'x \<Rightarrow> 'x \<Rightarrow> bool) \<Rightarrow> ('x benv \<Rightarrow> bool) \<Rightarrow> 'x view \<Rightarrow> 'x bworld \<Rightarrow> bool" where
  "in_use Eff Hon V u \<longleftrightarrow> (\<exists>registryAddress chain g u0 u1.
     bridge_constructor registryAddress chain g u0 = Inr u1 \<and> history V (others (app u1)) = [] \<and>
     bridge_interacts Eff Hon u1 u)"

lemma in_use_weaken:
  assumes "in_use Eff Hon V u" "\<And>e x y. Eff e x y \<Longrightarrow> Eff' e x y" "\<And>E. Hon E \<Longrightarrow> Hon' E"
  shows "in_use Eff' Hon' V u"
proof -
  from assms(1) obtain a c g u0 u1 where "bridge_constructor a c g u0 = Inr u1"
    "history V (others (app u1)) = []" and i: "bridge_interacts Eff Hon u1 u"
    by (auto simp: in_use_def)
  moreover have "bridge_interacts Eff' Hon' u1 u"
    using i assms(2,3) by (rule bridge_interacts_weaken)
  ultimately show ?thesis unfolding in_use_def by blast
qed

lemma in_use_balanced:
  assumes "in_use (ledger_effect V) (honest_books V) V u"
  shows "balanced V u"
proof -
  from assms obtain a c g u0 u1 where c: "bridge_constructor a c g u0 = Inr u1"
    and h: "history V (others (app u1)) = []"
    and i: "bridge_interacts (ledger_effect V) (honest_books V) u1 u" by (auto simp: in_use_def)
  then show ?thesis
    using ledger.lift [OF i] balanced_constructed [OF c h] tokens_inv_constructed [OF c]
    by (simp add: ledger_safe_def)
qed

lemma in_use_covers:
  assumes "in_use (vault_effect T led) (honest_asset ent T led) V u"
  shows "covers T led u 0"
proof -
  from assms obtain a c g u0 u1 where c: "bridge_constructor a c g u0 = Inr u1"
    and i: "bridge_interacts (vault_effect T led) (honest_asset ent T led) u1 u"
    by (auto simp: in_use_def)
  then show ?thesis
    using vault.lift [OF i] covers_constructed [OF c] by (simp add: vault_safe_def)
qed

lemma sum_le_total: "finite (support f) \<Longrightarrow> finite K \<Longrightarrow> sum f K \<le> total f"
proof -
  assume fin: "finite (support f)" "finite K"
  have "sum f K \<le> sum f (support f \<union> K)" by (rule sum_mono2) (use fin in auto)
  also have "\<dots> = total f" by (rule total_superset [symmetric]) (use fin in auto)
  finally show ?thesis .
qed

subsection \<open>Conservation between bridges\<close>

lemma wrapped_le_bridged:
  assumes "home_debt V u c' b' t = 0" "wrapped_debt V' u' c b t \<le> 0"
    and "delivered (history V (others (app u))) c b (history V' (others (app u'))) c' b'"
    and "codec V' = codec V"
  shows "wrapped_supply V' u' c b t \<le> unat (bridgedBalances (app u) c' b' t)"
proof -
  let ?h = "history V (others (app u))" and ?h' = "history V' (others (app u'))"
  note delivered_sums [OF assms(3), where f = "mint_amount (codec V) t"]
    delivered_sums [OF assms(3), where f = "release_amount (codec V) t"]
  then have "int (wrapped_supply V' u' c b t) \<le> uint (bridgedBalances (app u) c' b' t)"
    using assms(1,2) amounts_nonneg unfolding home_debt_def wrapped_debt_def assms(4)
    by (smt (verit))
  then show ?thesis unfolding uint_nat of_nat_le_iff .
qed

text \<open>
  C6: Every wrapped token anywhere is backed by a native token in the vault. Take a home bridge and
  any finite set of remote bridges, all in use in arbitrary interleavings with arbitrary
  reentrant callers, and let messages be delivered at most once: the total supply of the wrapped
  tokens of one asset on all remote bridges never exceeds the home bridge's balance of the asset.
\<close>

theorem wrapped_tokens_are_backed:
  assumes "in_use (\<lambda>e x y. vault_effect T led e x y \<and> ledger_effect V e x y)
      (\<lambda>E. honest_asset ent T led E \<and> honest_books V E) V u"
    and "\<And>k. k \<in> K \<Longrightarrow> in_use (ledger_effect (W k)) (honest_books (W k)) (W k) (R k)"
    and "\<And>k. k \<in> K \<Longrightarrow> codec (W k) = codec V"
    and "\<And>c b. (c, b) \<in> K \<Longrightarrow> delivered (history V (others (app u))) home B
        (history (W (c, b)) (others (app (R (c, b))))) c b" and "finite K"
  shows "(\<Sum>k\<in>K. wrapped_supply (W k) (R k) home B T) \<le> led (others (app u))"
proof -
  have "in_use (ledger_effect V) (honest_books V) V u"
    using assms(1) by (rule in_use_weaken) simp_all
  then have "balanced V u" by (rule in_use_balanced)
  then have home_debt: "home_debt V u c b T = 0" for c b by (simp add: balanced_def)
  have "wrapped_supply (W (c, b)) (R (c, b)) home B T \<le> unat (bridgedBalances (app u) c b T)"
    if k: "(c, b) \<in> K" for c b
  proof (rule wrapped_le_bridged [OF home_debt])
    have "balanced (W (c, b)) (R (c, b))" using assms(2) [OF k] by (rule in_use_balanced)
    then show "wrapped_debt (W (c, b)) (R (c, b)) home B T \<le> 0" by (simp add: balanced_def)
  qed (fact assms(4) [OF k] assms(3) [OF k])+
  then have "wrapped_supply (W k) (R k) home B T \<le> balance_table T u k" if "k \<in> K" for k
    using that by (cases k) (simp add: balance_table_def)
  then have "(\<Sum>k\<in>K. wrapped_supply (W k) (R k) home B T) \<le> sum (balance_table T u) K"
    by (rule sum_mono)
  also have "in_use (vault_effect T led) (honest_asset ent T led) V u"
    using assms(1) by (rule in_use_weaken) simp_all
  then have "covers T led u 0" by (rule in_use_covers)
  then have "sum (balance_table T u) K \<le> led (others (app u))"
    using sum_le_total [OF _ assms(5), of "balance_table T u"]
    by (auto simp: covers_def promised_def)
  finally show ?thesis .
qed

lemma demo_in_use:
  "in_use (\<lambda>e x y. vault_effect 7 (\<lambda>x. unat (dc_vault x)) e x y \<and> ledger_effect (demo_view 10) e x y)
    (\<lambda>E. honest_asset (\<lambda>g. g = 2) 7 (\<lambda>x. unat (dc_vault x)) E \<and> honest_books (demo_view 10) E)
    (demo_view 10) home2"
  "in_use (ledger_effect (demo_view 11)) (honest_books (demo_view 11)) (demo_view 11) remote2"
proof -
  have E: "demo_effect e x y \<Longrightarrow> vault_effect 7 (\<lambda>x. unat (dc_vault x)) e x y"
    "demo_effect e x y \<Longrightarrow> ledger_effect (demo_view B) e x y" for e x y B
    by (simp_all add: demo_effect_def ledger_effect_def)
  have H: "demo_hon B E \<Longrightarrow> honest_asset (\<lambda>g. g = 2) 7 (\<lambda>x. unat (dc_vault x)) E"
    "demo_hon B E \<Longrightarrow> honest_books (demo_view B) E" for B E
    using demo_honest_books demo_honest_asset by (auto simp: demo_hon_def)
  have "history (demo_view 10) (others (app home0)) = []"
    "history (demo_view 11) (others (app remote0)) = []"
    by (simp_all add: home0_def remote0_def demo_start_def bridge_constructor_def
        upgradeable_constructor_def)
  with bridges_constructed home_reachable remote_reachable
  have "in_use demo_effect (demo_hon 10) (demo_view 10) home2"
    "in_use demo_effect (demo_hon 11) (demo_view 11) remote2"
    unfolding in_use_def by blast+
  note uses = this
  show "in_use (\<lambda>e x y. vault_effect 7 (\<lambda>x. unat (dc_vault x)) e x y \<and>
        ledger_effect (demo_view 10) e x y)
      (\<lambda>E. honest_asset (\<lambda>g. g = 2) 7 (\<lambda>x. unat (dc_vault x)) E \<and> honest_books (demo_view 10) E)
      (demo_view 10) home2"
    using uses(1) by (rule in_use_weaken) (simp_all add: E H)
  show "in_use (ledger_effect (demo_view 11)) (honest_books (demo_view 11)) (demo_view 11) remote2"
    using uses(2) by (rule in_use_weaken) (simp_all add: E H)
qed

theorem wrapped_tokens_are_backed_witness:
  "wrapped_supply (demo_view 11) remote2 5 10 7 = 1000 \<and> 1000 \<le> unat (dc_vault (others (app home2)))"
proof -
  have s: "wrapped_supply (demo_view 11) remote2 5 10 7 = 1000"
    by (simp add: wrapped_supply_def remote2_state)
  have d: "delivered (history (demo_view 10) (others (app home2))) 5 10
      (history (demo_view 11) (others (app remote2))) 9 11"
    by (simp add: delivered_def home2_others remote2_state sent_to_def executed_from_def)
  have "(\<Sum>k\<in>{(9, 11) :: bytes32 \<times> address}. wrapped_supply (demo_view 11) remote2 5 10 7)
      \<le> unat (dc_vault (others (app home2)))"
    by (rule wrapped_tokens_are_backed [where W = "\<lambda>_. demo_view 11" and R = "\<lambda>_. remote2",
          OF demo_in_use(1)])
      (use demo_in_use(2) d in auto)
  with s show ?thesis by simp
qed

subsection \<open>One bridge\<close>

text \<open>
  C7: The vault of a bridge covers all its promises. Whatever callers, the owner and the bridge's
  peers do, malicious bridges included, the amounts bridged of an honest asset to all other
  bridges together never exceed the bridge's balance of the asset. So a peer can draw at most what
  was bridged to it, and draws it from its own share.
\<close>

theorem bridge_stays_backed:
  assumes "in_use (vault_effect T led) (honest_asset ent T led) V u" and "finite K"
  shows "(\<Sum>(c, b)\<in>K. unat (bridgedBalances (app u) c b T)) \<le> led (others (app u)) \<and>
    finite {(c, b). bridgedBalances (app u) c b T \<noteq> 0}"
proof -
  have c: "covers T led u 0" using assms(1) by (rule in_use_covers)
  have s: "support (balance_table T u) = {(c, b). bridgedBalances (app u) c b T \<noteq> 0}"
    by (auto simp: support_def balance_table_def unat_gt_0)
  have "(\<Sum>(c, b)\<in>K. unat (bridgedBalances (app u) c b T)) \<le> promised T u"
    using sum_le_total [of "balance_table T u" K] c assms(2)
    by (simp add: covers_def promised_def balance_table_def)
  also have "\<dots> \<le> led (others (app u))" using c by (simp add: covers_def)
  finally show ?thesis using c by (simp add: covers_def s)
qed

lemma demo_home_backed:
  "in_use (vault_effect 7 (\<lambda>x. unat (dc_vault x))) (honest_asset (\<lambda>g. g = 2) 7 (\<lambda>x. unat (dc_vault x)))
    (demo_view 10) home2"
  using demo_in_use(1) by (rule in_use_weaken) simp_all

theorem bridge_stays_backed_witness:
  "unat (bridgedBalances (app home2) 9 11 7) \<le> 1000"
  using bridge_stays_backed [OF demo_home_backed, of "{(9, 11)}"] by (simp add: home2_others)

text \<open>
  C8: The books of a bridge balance. For every peer and asset, what the bridge has on account for the
  peer is exactly what it announced to the peer in mint messages less what it released for the
  peer; and the supply of its own wrapped token is at most what it was told to mint less what it
  has sent back.
\<close>

theorem bridge_books_balance:
  assumes "in_use (ledger_effect V) (honest_books V) V u"
  shows "uint (bridgedBalances (app u) c b t) =
      (\<Sum>m\<leftarrow>sent_to c b (history V (others (app u))). mint_amount (codec V) t m) -
      (\<Sum>m\<leftarrow>executed_from c b (history V (others (app u))). release_amount (codec V) t m) \<and>
    int (wrapped_supply V u c b t) \<le>
      (\<Sum>m\<leftarrow>executed_from c b (history V (others (app u))). mint_amount (codec V) t m) -
      (\<Sum>m\<leftarrow>sent_to c b (history V (others (app u))). release_amount (codec V) t m)"
proof -
  have "home_debt V u c b t = 0" "wrapped_debt V u c b t \<le> 0"
    using in_use_balanced [OF assms] by (simp_all add: balanced_def)
  then show ?thesis unfolding home_debt_def wrapped_debt_def by linarith
qed

theorem bridge_books_balance_witness:
  "uint (bridgedBalances (app home2) 9 11 7) = 1000"
proof -
  have "in_use (ledger_effect (demo_view 10)) (honest_books (demo_view 10)) (demo_view 10) home2"
    using demo_in_use(1) by (rule in_use_weaken) simp_all
  from bridge_books_balance [OF this, of 9 11 7] show ?thesis
    by (simp add: home2_others sent_to_def executed_from_def create_message_def mint_message_def
        amounts_encoded [OF demo_codec])
qed

text \<open>
  C22: The registries of a bridge describe genuine tokens. At any time of a bridge in use: the token
  registered for an asset is one of the bridge's own contracts, records exactly that asset, stands
  for no other asset, and stays registered for ever; a second creation for the asset reverts.
\<close>

theorem bridge_tokens_genuine:
  assumes "in_use (\<lambda>_ _ _. True) (creates_fresh B) V u"
    and "bridge_interacts (\<lambda>_ _ _. True) (creates_fresh B) u u'"
    and "nativeToWrappedTokens (app u) c b t = a" and "a \<noteq> 0"
  shows "wrappedTokenContracts (app u) a \<and> nativeToWrappedTokens (app u') c b t = a \<and>
    (\<exists>d. bridge_tokens (app u') a = Some d \<and> token_for B d c b t) \<and>
    (nativeToWrappedTokens (app u') c' b' t' = a \<longrightarrow> c' = c \<and> b' = b \<and> t' = t) \<and>
    createBridgeToken E c b t nm symb dec u'
      = Inl (Revert ''ERC20Bridge: bridge token already exists'')"
proof -
  from assms(1) obtain x n g u0 u1 where con: "bridge_constructor x n g u0 = Inr u1"
    and i: "bridge_interacts (\<lambda>_ _ _. True) (creates_fresh B) u1 u" by (auto simp: in_use_def)
  have inv: "tokens_inv B (app u)"
    using registry_of_tokens.lift [OF i] tokens_inv_constructed [OF con]
    by (simp add: tokens_safe_def)
  with registry_of_tokens.lift [OF assms(2)]
  have inv': "tokens_inv B (app u')" and kept: "tokens_kept (app u) (app u')"
    by (simp_all add: tokens_safe_def)
  have w: "nativeToWrappedTokens (app u') c b t = a"
    using kept assms(3,4) by (simp add: tokens_kept_def)
  moreover have "wrappedTokenContracts (app u) a"
    using inv assms(3,4) by (auto simp: tokens_inv_def)
  moreover have "\<exists>d. bridge_tokens (app u') a = Some d \<and> token_for B d c b t"
    using tokens_invD [OF inv', of c b t] w assms(4) by simp
  moreover have "createBridgeToken E c b t nm symb dec u'
      = Inl (Revert ''ERC20Bridge: bridge token already exists'')"
    using w assms(4) by (simp add: createBridgeToken_def)
  ultimately show ?thesis using tokens_inv_unique [OF inv' _ w assms(4)] by blast
qed

theorem bridge_tokens_genuine_witness:
  "wrappedTokenContracts (app remote2) 21 \<and>
   createBridgeToken (demo_bridge 11 13) 5 10 7 ''A'' ''B'' 0 remote2
     = Inl (Revert ''ERC20Bridge: bridge token already exists'')"
proof -
  have "in_use (\<lambda>_ _ _. True) (creates_fresh 11) (demo_view 11) remote2"
    using demo_in_use(2) by (rule in_use_weaken) (simp_all add: honest_books_def)
  from bridge_tokens_genuine [OF this bridge_interacts.stop remote2_state(2)]
  show ?thesis by simp
qed

text \<open>
  Messages reach the function they were encoded for. What the three encoders of the bridge write,
  the receiving bridge hands, with the origin that the messenger vouches for, to the creation,
  the minting and the release of tokens; bytes that do not decode revert.
\<close>

theorem bridge_message_routes:
  assumes "codec_agrees D E"
    and "\<And>t n s d. decode_create E (encode_create E t n s d) = Some (t, n, s, d)"
  shows "bridge_receiveTeleporterMessage E chain origin (encodeCreateBridgeTokenData E t nm symb dec) u
      = createBridgeToken E chain origin t nm symb dec u \<and>
    bridge_receiveTeleporterMessage E chain origin (encodeMintBridgeTokensData E t recipient amt) u
      = mintBridgeTokens E chain origin t recipient amt u \<and>
    bridge_receiveTeleporterMessage E chain origin
        (encodeTransferBridgeTokensData E chain' dest t recipient amt fee) u
      = transferBridgeTokens E chain origin chain' dest t recipient amt fee u \<and>
    (decode_action E msg = None \<longrightarrow> (\<exists>e. bridge_receiveTeleporterMessage E chain origin msg u = Inl e))"
  using assms
  by (simp add: codec_agrees_def bridge_receiveTeleporterMessage_def encodeCreateBridgeTokenData_def
      encodeMintBridgeTokensData_def encodeTransferBridgeTokensData_def)

theorem bridge_message_routes_witness:
  "bridge_receiveTeleporterMessage (demo_bridge 11 13) 5 10
      (encodeMintBridgeTokensData (demo_bridge 11 13) 7 99 1000) remote1
    = mintBridgeTokens (demo_bridge 11 13) 5 10 7 99 1000 remote1"
proof -
  have "decode_create (demo_bridge 11 13) (encode_create (demo_bridge 11 13) t n s d)
      = Some (t, n, s, d)" for t n s d by (simp add: demo_bridge_def)
  with bridge_message_routes [OF demo_codec] show ?thesis by blast
qed

text \<open>
  C23: A bridge is not reentrant. While one of its guarded functions runs, whatever the tokens and the
  messenger do in between: nothing is credited or debited, and every nested attempt to bridge, to
  submit a creation, to mint or to release fails.
\<close>

theorem bridge_not_reentrant:
  assumes "ent (guard_status (app u))"
    and "bridge_interacts (vault_effect T led) (honest_asset ent T led) u v"
    and "honest_asset ent T led E"
  shows "bridgedBalances (app v) = bridgedBalances (app u) \<and>
    bridgeTokens E chain dest t recipient amt fee1 fee2 v \<noteq> Inr w \<and>
    submitCreateBridgeToken E chain dest t feeAsset fee1 v \<noteq> Inr w \<and>
    mintBridgeTokens E chain dest t recipient amt v \<noteq> Inr w \<and>
    transferBridgeTokens E chain dest chain' dest' t recipient amt fee1 v \<noteq> Inr w"
proof -
  have e: "ent (guard_status (app v))" "bridgedBalances (app v) = bridgedBalances (app u)"
    using vault.lift [OF assms(2)] assms(1) by (simp_all add: vault_safe_def)
  have "nonReentrant E body v \<noteq> Inr w" for body
    using assms(3) e(1) by (auto simp: nonReentrant_def honest_asset_def guard_works_iff)
  with e(2) show ?thesis
    by (simp add: bridgeTokens_def submitCreateBridgeToken_def mintBridgeTokens_def
        transferBridgeTokens_def)
qed

theorem bridge_not_reentrant_witness:
  "mintBridgeTokens (demo_bridge 11 13) 5 10 7 99 1000
     (upd_app (\<lambda>b. b\<lparr>guard_status := 2\<rparr>) remote1) \<noteq> Inr remote2"
proof -
  have "honest_asset (\<lambda>g. g = 2) 7 (\<lambda>x. unat (dc_vault x)) (demo_bridge 11 13)"
    using demo_honest_asset [of 11 13] by simp
  from bridge_not_reentrant [OF _ bridge_interacts.stop this] show ?thesis by simp
qed

end
