(* ===== verification/Native_Token_Bridge.thy ===== *)
theory Native_Token_Bridge
  imports Contract_Calls Messenger_State
begin

section \<open>NativeTokenSource.sol, ERC20TokenSource.sol and NativeTokenDestination.sol\<close>

text \<open>
  Models \<open>contracts/src/CrossChainApplications/NativeTokenBridge\<close>: the bridge that makes a token of
  one chain the native coin of another. The two kinds of source have the same storage; the field
  \<open>erc20ContractAddress\<close> is that of ERC20TokenSource. Immutable variables are fields that only the
  constructors set. What the contracts call is the record \<open>tenv\<close>; a call that runs foreign code
  takes and returns the whole state. A payable function starts in a state in which the contract
  has already received \<open>t_value\<close>, as in the EVM.
\<close>

subsection \<open>Data\<close>

datatype SourceAction = Unlock | Burn

datatype source_event =
    LogTransferToDestination address address uint256 uint256
  | LogUnlockTokens address uint256
  | LogBurnTokens uint256

datatype destination_event =
    LogTransferToSource address address uint256 uint256
  | LogCollateralAdded uint256 uint256
  | LogNativeTokensMinted address uint256
  | LogReportTotalBurnedTxFees uint256 uint256

record 'x token_source =
  ts_guard :: uint256
  destinationBurnedTotal :: uint256
  ts_destinationBlockchainID :: bytes32
  nativeTokenDestinationAddress :: address
  ts_teleporterMessenger :: address
  erc20ContractAddress :: address
  ts_logs :: "source_event list"
  ts_others :: 'x

record 'x token_destination =
  td_guard :: uint256
  sourceBlockchainID :: bytes32
  nativeTokenSourceAddress :: address
  initialReserveImbalance :: uint256
  currentReserveImbalance :: uint256
  totalMinted :: uint256
  td_teleporterMessenger :: address
  td_logs :: "destination_event list"
  td_others :: 'x

definition BURNED_TX_FEES_ADDRESS :: address where
  "BURNED_TX_FEES_ADDRESS = 0x0100000000000000000000000000000000000000"

definition BURN_FOR_TRANSFER_ADDRESS :: address where
  "BURN_FOR_TRANSFER_ADDRESS = 0x0100000000000000000000000000000000000001"

definition MINT_NATIVE_TOKENS_REQUIRED_GAS :: uint256 where
  "MINT_NATIVE_TOKENS_REQUIRED_GAS = 100000"

definition TRANSFER_NATIVE_TOKENS_REQUIRED_GAS :: uint256 where
  "TRANSFER_NATIVE_TOKENS_REQUIRED_GAS = 100000"

definition REPORT_BURNED_TOKENS_REQUIRED_GAS :: uint256 where
  "REPORT_BURNED_TOKENS_REQUIRED_GAS = 100000"

subsection \<open>What the contracts call\<close>

record 'w tenv =
  t_this :: address
  t_sender :: address
  t_value :: uint256
  t_blockchainID :: bytes32
  t_guardBefore :: "uint256 \<Rightarrow> sol_error + uint256"
  t_guardAfter :: "uint256 \<Rightarrow> uint256"
  encode_payment :: "address \<Rightarrow> uint256 \<Rightarrow> bytes"
  decode_payment :: "bytes \<Rightarrow> (address \<times> uint256) option"
  encode_source_action :: "SourceAction \<Rightarrow> bytes \<Rightarrow> bytes"
  decode_source_action :: "bytes \<Rightarrow> (SourceAction \<times> bytes) option"
  encode_total :: "uint256 \<Rightarrow> bytes"
  decode_total :: "bytes \<Rightarrow> uint256 option"
  coin_balance :: "address \<Rightarrow> 'w \<Rightarrow> uint256"
  sendValue :: "address \<Rightarrow> uint256 \<Rightarrow> 'w \<Rightarrow> sol_error + 'w"
  mintNativeCoin :: "address \<Rightarrow> uint256 \<Rightarrow> 'w \<Rightarrow> sol_error + 'w"
  t_balanceOf :: "address \<Rightarrow> address \<Rightarrow> 'w \<Rightarrow> sol_error + uint256"
  t_transferFrom :: "address \<Rightarrow> address \<Rightarrow> address \<Rightarrow> uint256 \<Rightarrow> 'w \<Rightarrow> sol_error + 'w"
  t_transfer :: "address \<Rightarrow> address \<Rightarrow> uint256 \<Rightarrow> 'w \<Rightarrow> sol_error + 'w"
  t_increaseAllowance :: "address \<Rightarrow> address \<Rightarrow> uint256 \<Rightarrow> 'w \<Rightarrow> sol_error + 'w"
  t_send :: "address \<Rightarrow> TeleporterMessageInput \<Rightarrow> 'w \<Rightarrow> sol_error + (uint256 \<times> 'w)"

text \<open>\<open>SafeERC20TransferFrom.safeTransferFrom\<close>, called by one of these contracts.\<close>

definition t_safeTransferFrom ::
  "'w tenv \<Rightarrow> address \<Rightarrow> uint256 \<Rightarrow> 'w \<Rightarrow> sol_error + (uint256 \<times> 'w)" where
  "t_safeTransferFrom E erc20 amt u =
     bindE (t_balanceOf E erc20 (t_this E) u) (\<lambda>balanceBefore.
     bindE (t_transferFrom E erc20 (t_sender E) (t_this E) amt u) (\<lambda>u1.
     bindE (t_balanceOf E erc20 (t_this E) u1) (\<lambda>balanceAfter.
     requireE (balanceAfter > balanceBefore) ''SafeERC20TransferFrom: balance not increased'' (
     bindE (checked_sub balanceAfter balanceBefore) (\<lambda>d.
     Inr (d, u1))))))"

text \<open>Taking the fee of a transfer from the caller, and letting the messenger have it.\<close>

definition t_takeFee ::
  "'w tenv \<Rightarrow> address \<Rightarrow> TeleporterFeeInfo \<Rightarrow> 'w \<Rightarrow> sol_error + (uint256 \<times> 'w)" where
  "t_takeFee E messenger fee u =
     (if feeAmount fee > 0 then
        bindE (t_safeTransferFrom E (feeTokenAddress fee) (feeAmount fee) u) (\<lambda>(adjusted, u1).
        bindE (t_increaseAllowance E (feeTokenAddress fee) messenger adjusted u1) (\<lambda>u2.
        Inr (adjusted, u2)))
      else Inr (0, u))"

definition t_message ::
  "bytes32 \<Rightarrow> address \<Rightarrow> TeleporterFeeInfo \<Rightarrow> uint256 \<Rightarrow> address list \<Rightarrow> bytes \<Rightarrow> TeleporterMessageInput"
  where
  "t_message chain dest fee gas allowed msg =
     \<lparr>in_destinationBlockchainID = chain, in_destinationAddress = dest, in_feeInfo = fee,
      in_requiredGasLimit = gas, in_allowedRelayerAddresses = allowed, in_message = msg\<rparr>"

text \<open>The modifier \<open>nonReentrant\<close> on both kinds of storage.\<close>

definition ts_nonReentrant ::
  "'x token_source tenv \<Rightarrow> ('x token_source \<Rightarrow> sol_error + 'x token_source)
    \<Rightarrow> 'x token_source \<Rightarrow> sol_error + 'x token_source" where
  "ts_nonReentrant E body u =
     bindE (t_guardBefore E (ts_guard u)) (\<lambda>g.
     bindE (body (u\<lparr>ts_guard := g\<rparr>)) (\<lambda>u1.
     Inr (u1\<lparr>ts_guard := t_guardAfter E (ts_guard u1)\<rparr>)))"

definition td_nonReentrant ::
  "'x token_destination tenv \<Rightarrow> ('x token_destination \<Rightarrow> sol_error + 'x token_destination)
    \<Rightarrow> 'x token_destination \<Rightarrow> sol_error + 'x token_destination" where
  "td_nonReentrant E body u =
     bindE (t_guardBefore E (td_guard u)) (\<lambda>g.
     bindE (body (u\<lparr>td_guard := g\<rparr>)) (\<lambda>u1.
     Inr (u1\<lparr>td_guard := t_guardAfter E (td_guard u1)\<rparr>)))"

definition ts_emit :: "source_event \<Rightarrow> 'x token_source \<Rightarrow> 'x token_source" where
  "ts_emit e u = u\<lparr>ts_logs := ts_logs u @ [e]\<rparr>"

definition td_emit :: "destination_event \<Rightarrow> 'x token_destination \<Rightarrow> 'x token_destination" where
  "td_emit e u = u\<lparr>td_logs := td_logs u @ [e]\<rparr>"

subsection \<open>NativeTokenSource.sol\<close>

definition native_source_constructor ::
  "'x token_source tenv \<Rightarrow> address \<Rightarrow> bytes32 \<Rightarrow> address \<Rightarrow> uint256 \<Rightarrow> 'x
    \<Rightarrow> sol_error + 'x token_source" where
  "native_source_constructor E messenger chain dest initial_guard x =
     requireE (messenger \<noteq> 0) ''NativeTokenSource: zero TeleporterMessenger address'' (
     requireE (chain \<noteq> 0) ''NativeTokenSource: zero destination blockchain ID'' (
     requireE (chain \<noteq> t_blockchainID E) ''NativeTokenSource: cannot bridge with same blockchain'' (
     requireE (dest \<noteq> 0) ''NativeTokenSource: zero destination contract address'' (
     Inr \<lparr>ts_guard = initial_guard, destinationBurnedTotal = 0, ts_destinationBlockchainID = chain,
          nativeTokenDestinationAddress = dest, ts_teleporterMessenger = messenger,
          erc20ContractAddress = 0, ts_logs = [], ts_others = x\<rparr>))))"

definition native_unlockTokens ::
  "'x token_source tenv \<Rightarrow> address \<Rightarrow> uint256 \<Rightarrow> 'x token_source \<Rightarrow> sol_error + 'x token_source" where
  "native_unlockTokens E recipient amt u =
     requireE (recipient \<noteq> 0) ''NativeTokenSource: zero recipient address'' (
     requireE (coin_balance E (t_this E) u \<ge> amt) ''NativeTokenSource: insufficient collateral'' (
     sendValue E recipient amt (ts_emit (LogUnlockTokens recipient amt) u)))"

definition native_burnTokens ::
  "'x token_source tenv \<Rightarrow> uint256 \<Rightarrow> 'x token_source \<Rightarrow> sol_error + 'x token_source" where
  "native_burnTokens E amt u = sendValue E BURNED_TX_FEES_ADDRESS amt (ts_emit (LogBurnTokens amt) u)"

definition native_handleBurnTokens ::
  "'x token_source tenv \<Rightarrow> uint256 \<Rightarrow> 'x token_source \<Rightarrow> sol_error + 'x token_source" where
  "native_handleBurnTokens E newBurnTotal u =
     (if newBurnTotal > destinationBurnedTotal u then
        bindE (checked_sub newBurnTotal (destinationBurnedTotal u)) (\<lambda>difference.
        bindE (native_burnTokens E difference u) (\<lambda>u1.
        Inr (u1\<lparr>destinationBurnedTotal := newBurnTotal\<rparr>)))
      else Inr u)"

text \<open>
  Decoding an unknown action fails, as \<open>abi.decode\<close> checks the range of an enum, so the last
  \<open>revert\<close> of the code is never reached.
\<close>

definition native_source_receive ::
  "'x token_source tenv \<Rightarrow> bytes32 \<Rightarrow> address \<Rightarrow> bytes \<Rightarrow> 'x token_source
    \<Rightarrow> sol_error + 'x token_source" where
  "native_source_receive E originChain originSender msg = ts_nonReentrant E (\<lambda>u.
     requireE (t_sender E = ts_teleporterMessenger u)
       ''NativeTokenSource: unauthorized TeleporterMessenger contract'' (
     requireE (originChain = ts_destinationBlockchainID u)
       ''NativeTokenSource: invalid destination chain'' (
     requireE (originSender = nativeTokenDestinationAddress u)
       ''NativeTokenSource: unauthorized sender'' (
     case decode_source_action E msg of
       None \<Rightarrow> Inl (ExternalRevert [])
     | Some (Unlock, actionData) \<Rightarrow>
         (case decode_payment E actionData of
            None \<Rightarrow> Inl (ExternalRevert [])
          | Some (recipient, amt) \<Rightarrow> native_unlockTokens E recipient amt u)
     | Some (Burn, actionData) \<Rightarrow>
         (case decode_total E actionData of
            None \<Rightarrow> Inl (ExternalRevert [])
          | Some newBurnTotal \<Rightarrow> native_handleBurnTokens E newBurnTotal u)))))"

text \<open>The message carries the fee as requested, not the amount that arrived.\<close>

definition native_transferToDestination ::
  "'x token_source tenv \<Rightarrow> address \<Rightarrow> TeleporterFeeInfo \<Rightarrow> address list \<Rightarrow> 'x token_source
    \<Rightarrow> sol_error + 'x token_source" where
  "native_transferToDestination E recipient fee allowed = ts_nonReentrant E (\<lambda>u.
     requireE (recipient \<noteq> 0) ''NativeTokenSource: zero recipient address'' (
     bindE (t_takeFee E (ts_teleporterMessenger u) fee u) (\<lambda>(adjustedFeeAmount, u1).
     bindE (t_send E (ts_teleporterMessenger u1)
              (t_message (ts_destinationBlockchainID u1) (nativeTokenDestinationAddress u1) fee
                MINT_NATIVE_TOKENS_REQUIRED_GAS allowed (encode_payment E recipient (t_value E))) u1)
     (\<lambda>(mid, u2).
     Inr (ts_emit (LogTransferToDestination (t_sender E) recipient mid (t_value E)) u2)))))"

subsection \<open>ERC20TokenSource.sol\<close>

definition erc20_source_constructor ::
  "'x token_source tenv \<Rightarrow> address \<Rightarrow> bytes32 \<Rightarrow> address \<Rightarrow> address \<Rightarrow> uint256 \<Rightarrow> 'x
    \<Rightarrow> sol_error + 'x token_source" where
  "erc20_source_constructor E messenger chain dest token initial_guard x =
     requireE (messenger \<noteq> 0) ''ERC20TokenSource: zero TeleporterMessenger address'' (
     requireE (chain \<noteq> 0) ''ERC20TokenSource: zero destination blockchain ID'' (
     requireE (chain \<noteq> t_blockchainID E) ''ERC20TokenSource: cannot bridge with same blockchain'' (
     requireE (dest \<noteq> 0) ''ERC20TokenSource: zero destination contract address'' (
     requireE (token \<noteq> 0) ''ERC20TokenSource: zero ERC20 contract address'' (
     Inr \<lparr>ts_guard = initial_guard, destinationBurnedTotal = 0, ts_destinationBlockchainID = chain,
          nativeTokenDestinationAddress = dest, ts_teleporterMessenger = messenger,
          erc20ContractAddress = token, ts_logs = [], ts_others = x\<rparr>)))))"

definition erc20_unlockTokens ::
  "'x token_source tenv \<Rightarrow> address \<Rightarrow> uint256 \<Rightarrow> 'x token_source \<Rightarrow> sol_error + 'x token_source" where
  "erc20_unlockTokens E recipient amt u =
     requireE (recipient \<noteq> 0) ''ERC20TokenSource: zero recipient address'' (
     t_transfer E (erc20ContractAddress u) recipient amt (ts_emit (LogUnlockTokens recipient amt) u))"

definition erc20_burnTokens ::
  "'x token_source tenv \<Rightarrow> uint256 \<Rightarrow> 'x token_source \<Rightarrow> sol_error + 'x token_source" where
  "erc20_burnTokens E amt u =
     t_transfer E (erc20ContractAddress u) BURNED_TX_FEES_ADDRESS amt (ts_emit (LogBurnTokens amt) u)"

definition erc20_handleBurnTokens ::
  "'x token_source tenv \<Rightarrow> uint256 \<Rightarrow> 'x token_source \<Rightarrow> sol_error + 'x token_source" where
  "erc20_handleBurnTokens E newBurnTotal u =
     (if newBurnTotal > destinationBurnedTotal u then
        bindE (checked_sub newBurnTotal (destinationBurnedTotal u)) (\<lambda>difference.
        bindE (erc20_burnTokens E difference u) (\<lambda>u1.
        Inr (u1\<lparr>destinationBurnedTotal := newBurnTotal\<rparr>)))
      else Inr u)"

definition erc20_source_receive ::
  "'x token_source tenv \<Rightarrow> bytes32 \<Rightarrow> address \<Rightarrow> bytes \<Rightarrow> 'x token_source
    \<Rightarrow> sol_error + 'x token_source" where
  "erc20_source_receive E originChain originSender msg = ts_nonReentrant E (\<lambda>u.
     requireE (t_sender E = ts_teleporterMessenger u)
       ''ERC20TokenSource: unauthorized TeleporterMessenger contract'' (
     requireE (originChain = ts_destinationBlockchainID u)
       ''ERC20TokenSource: invalid destination chain'' (
     requireE (originSender = nativeTokenDestinationAddress u)
       ''ERC20TokenSource: unauthorized sender'' (
     case decode_source_action E msg of
       None \<Rightarrow> Inl (ExternalRevert [])
     | Some (Unlock, actionData) \<Rightarrow>
         (case decode_payment E actionData of
            None \<Rightarrow> Inl (ExternalRevert [])
          | Some (recipient, amt) \<Rightarrow> erc20_unlockTokens E recipient amt u)
     | Some (Burn, actionData) \<Rightarrow>
         (case decode_total E actionData of
            None \<Rightarrow> Inl (ExternalRevert [])
          | Some newBurnTotal \<Rightarrow> erc20_handleBurnTokens E newBurnTotal u)))))"

definition erc20_transferToDestination ::
  "'x token_source tenv \<Rightarrow> address \<Rightarrow> uint256 \<Rightarrow> uint256 \<Rightarrow> address list \<Rightarrow> 'x token_source
    \<Rightarrow> sol_error + 'x token_source" where
  "erc20_transferToDestination E recipient totalAmt feeAmt allowed = ts_nonReentrant E (\<lambda>u.
     requireE (recipient \<noteq> 0) ''ERC20TokenSource: zero recipient address'' (
     bindE (t_safeTransferFrom E (erc20ContractAddress u) totalAmt u) (\<lambda>(adjustedAmount, u1).
     requireE (adjustedAmount > feeAmt) ''ERC20TokenSource: insufficient adjusted amount'' (
     bindE (if feeAmt > 0
            then t_increaseAllowance E (erc20ContractAddress u1) (ts_teleporterMessenger u1) feeAmt u1
            else Inr u1) (\<lambda>u2.
     bindE (checked_sub adjustedAmount feeAmt) (\<lambda>transferAmount.
     bindE (t_send E (ts_teleporterMessenger u2)
              (t_message (ts_destinationBlockchainID u2) (nativeTokenDestinationAddress u2)
                \<lparr>feeTokenAddress = erc20ContractAddress u2, feeAmount = feeAmt\<rparr>
                MINT_NATIVE_TOKENS_REQUIRED_GAS allowed (encode_payment E recipient transferAmount))
              u2) (\<lambda>(mid, u3).
     Inr (ts_emit (LogTransferToDestination (t_sender E) recipient mid transferAmount) u3))))))))"

subsection \<open>NativeTokenDestination.sol\<close>

definition destination_constructor ::
  "'x token_destination tenv \<Rightarrow> address \<Rightarrow> bytes32 \<Rightarrow> address \<Rightarrow> uint256 \<Rightarrow> uint256 \<Rightarrow> 'x
    \<Rightarrow> sol_error + 'x token_destination" where
  "destination_constructor E messenger chain source imbalance initial_guard x =
     requireE (messenger \<noteq> 0) ''NativeTokenDestination: zero TeleporterMessenger address'' (
     requireE (chain \<noteq> 0) ''NativeTokenDestination: zero source blockchain ID'' (
     requireE (chain \<noteq> t_blockchainID E)
       ''NativeTokenDestination: cannot bridge with same blockchain'' (
     requireE (source \<noteq> 0) ''NativeTokenDestination: zero source contract address'' (
     requireE (imbalance \<noteq> 0) ''NativeTokenDestination: zero initial reserve imbalance'' (
     Inr \<lparr>td_guard = initial_guard, sourceBlockchainID = chain, nativeTokenSourceAddress = source,
          initialReserveImbalance = imbalance, currentReserveImbalance = imbalance,
          totalMinted = 0, td_teleporterMessenger = messenger, td_logs = [], td_others = x\<rparr>)))))"

text \<open>The end of \<open>receiveTeleporterMessage\<close>, after the collateral has been accounted for.\<close>

definition destination_mint ::
  "'x token_destination tenv \<Rightarrow> address \<Rightarrow> uint256 \<Rightarrow> 'x token_destination
    \<Rightarrow> sol_error + 'x token_destination" where
  "destination_mint E recipient adjustedAmount u =
     bindE (checked_add (totalMinted u) adjustedAmount) (\<lambda>n.
     mintNativeCoin E recipient adjustedAmount
       (td_emit (LogNativeTokensMinted recipient adjustedAmount) (u\<lparr>totalMinted := n\<rparr>)))"

definition destination_receive ::
  "'x token_destination tenv \<Rightarrow> bytes32 \<Rightarrow> address \<Rightarrow> bytes \<Rightarrow> 'x token_destination
    \<Rightarrow> sol_error + 'x token_destination" where
  "destination_receive E originChain originSender msg = td_nonReentrant E (\<lambda>u.
     requireE (t_sender E = td_teleporterMessenger u)
       ''NativeTokenDestination: unauthorized TeleporterMessenger contract'' (
     requireE (originChain = sourceBlockchainID u)
       ''NativeTokenDestination: invalid source chain'' (
     requireE (originSender = nativeTokenSourceAddress u)
       ''NativeTokenDestination: unauthorized sender'' (
     case decode_payment E msg of
       None \<Rightarrow> Inl (ExternalRevert [])
     | Some (recipient, amt) \<Rightarrow>
         requireE (recipient \<noteq> 0) ''NativeTokenDestination: zero recipient address'' (
         requireE (amt \<noteq> 0) ''NativeTokenDestination: zero transfer value'' (
         if currentReserveImbalance u > 0 then
           if amt > currentReserveImbalance u then
             let u1 = td_emit (LogCollateralAdded (currentReserveImbalance u) 0) u
             in bindE (checked_sub amt (currentReserveImbalance u1)) (\<lambda>adjustedAmount.
                destination_mint E recipient adjustedAmount (u1\<lparr>currentReserveImbalance := 0\<rparr>))
           else
             bindE (checked_sub (currentReserveImbalance u) amt) (\<lambda>n.
             let u1 = u\<lparr>currentReserveImbalance := n\<rparr>
             in Inr (td_emit (LogCollateralAdded amt (currentReserveImbalance u1)) u1))
         else destination_mint E recipient amt u))))))"

definition transferToSource ::
  "'x token_destination tenv \<Rightarrow> address \<Rightarrow> TeleporterFeeInfo \<Rightarrow> address list \<Rightarrow> 'x token_destination
    \<Rightarrow> sol_error + 'x token_destination" where
  "transferToSource E recipient fee allowed = td_nonReentrant E (\<lambda>u.
     requireE (recipient \<noteq> 0) ''NativeTokenDestination: zero recipient address'' (
     requireE (currentReserveImbalance u = 0) ''NativeTokenDestination: contract undercollateralized'' (
     bindE (t_takeFee E (td_teleporterMessenger u) fee u) (\<lambda>(adjustedFeeAmount, u1).
     bindE (sendValue E BURN_FOR_TRANSFER_ADDRESS (t_value E) u1) (\<lambda>u2.
     bindE (t_send E (td_teleporterMessenger u2)
              (t_message (sourceBlockchainID u2) (nativeTokenSourceAddress u2) fee
                TRANSFER_NATIVE_TOKENS_REQUIRED_GAS allowed
                (encode_source_action E Unlock (encode_payment E recipient (t_value E)))) u2)
     (\<lambda>(mid, u3).
     Inr (td_emit (LogTransferToSource (t_sender E) recipient mid (t_value E)) u3)))))))"

definition reportTotalBurnedTxFees ::
  "'x token_destination tenv \<Rightarrow> TeleporterFeeInfo \<Rightarrow> address list \<Rightarrow> 'x token_destination
    \<Rightarrow> sol_error + 'x token_destination" where
  "reportTotalBurnedTxFees E fee allowed u =
     (let totalBurnedTxFees = coin_balance E BURNED_TX_FEES_ADDRESS u
      in bindE (t_send E (td_teleporterMessenger u)
           (t_message (sourceBlockchainID u) (nativeTokenSourceAddress u) fee
             REPORT_BURNED_TOKENS_REQUIRED_GAS allowed
             (encode_source_action E Burn (encode_total E totalBurnedTxFees))) u) (\<lambda>(mid, u1).
      Inr (td_emit (LogReportTotalBurnedTxFees mid totalBurnedTxFees) u1)))"

definition isCollateralized :: "'x token_destination \<Rightarrow> bool" where
  "isCollateralized u \<longleftrightarrow> currentReserveImbalance u = 0"

definition totalSupply ::
  "'x token_destination tenv \<Rightarrow> 'x token_destination \<Rightarrow> sol_error + uint256" where
  "totalSupply E u =
     bindE (checked_add (coin_balance E BURNED_TX_FEES_ADDRESS u)
              (coin_balance E BURN_FOR_TRANSFER_ADDRESS u)) (\<lambda>burned.
     bindE (checked_add (totalMinted u) (initialReserveImbalance u)) (\<lambda>created.
     checked_sub created burned))"

end
