(* ===== verification/Native_Token_Source.thy ===== *)
theory Native_Token_Source
  imports Native_Token_Bridge Message_Notes
begin

section \<open>The collateral of a token source\<close>

text \<open>
  Both kinds of source keep their collateral: the balance in the locked asset is at least what the
  source has announced to its destination, less what it has unlocked and burned. The asset is the
  native coin or an ERC20 token; the two contracts are two instances of the relation \<open>happens\<close>, and
  share the bookkeeping and the lemmas about it.
\<close>

subsection \<open>Effects and environments\<close>

datatype coin_effect =
    PaysCoin address uint256
  | PaysToken address address uint256
  | MintsCoin address uint256
  | SendsMessage TeleporterMessageInput
  | Enters uint256 "(bytes32 \<times> address \<times> bytes) option"
  | Away

definition tenv_calls ::
  "'w tenv \<Rightarrow> (('w \<Rightarrow> sol_error + 'w) \<times> coin_effect option) set" where
  "tenv_calls E =
     {(t_transferFrom E t p q amt, None) | t p q amt. True} \<union>
     {(t_increaseAllowance E t p amt, None) | t p amt. True} \<union>
     {(t_transfer E t q amt, Some (PaysToken t q amt)) | t q amt. True} \<union>
     {(sendValue E q amt, Some (PaysCoin q amt)) | q amt. True} \<union>
     {(mintNativeCoin E q amt, Some (MintsCoin q amt)) | q amt. True} \<union>
     {(\<lambda>u. bindE (t_send E m inp u) (\<lambda>(mid, v). Inr v), Some (SendsMessage inp)) | m inp. True}"

lemma tenv_callsD:
  assumes "external_calls R get put Eff (tenv_calls E)"
  shows "t_transferFrom E t p q amt a = Inr b \<Longrightarrow> R a b"
    and "t_increaseAllowance E t p amt a = Inr b \<Longrightarrow> R a b"
    and "t_transfer E t q amt a = Inr b \<Longrightarrow>
      \<exists>a1 x. R a a1 \<and> Eff (PaysToken t q amt) (get a1) x \<and> R (put x a1) b"
    and "sendValue E q amt a = Inr b \<Longrightarrow>
      \<exists>a1 x. R a a1 \<and> Eff (PaysCoin q amt) (get a1) x \<and> R (put x a1) b"
    and "mintNativeCoin E q amt a = Inr b \<Longrightarrow>
      \<exists>a1 x. R a a1 \<and> Eff (MintsCoin q amt) (get a1) x \<and> R (put x a1) b"
    and "t_send E m inp a = Inr (mid, b) \<Longrightarrow>
      \<exists>a1 x. R a a1 \<and> Eff (SendsMessage inp) (get a1) x \<and> R (put x a1) b"
proof -
  have cs: "(t_transferFrom E t p q amt, None) \<in> tenv_calls E"
    "(t_increaseAllowance E t p amt, None) \<in> tenv_calls E"
    "(t_transfer E t q amt, Some (PaysToken t q amt)) \<in> tenv_calls E"
    "(sendValue E q amt, Some (PaysCoin q amt)) \<in> tenv_calls E"
    "(mintNativeCoin E q amt, Some (MintsCoin q amt)) \<in> tenv_calls E"
    "(\<lambda>u. bindE (t_send E m inp u) (\<lambda>(mid, v). Inr v), Some (SendsMessage inp)) \<in> tenv_calls E"
    unfolding tenv_calls_def by blast+
  note D = external_callsD(1) [OF assms] external_callsD(2) [OF assms]
  show "t_transferFrom E t p q amt a = Inr b \<Longrightarrow> R a b" by (rule D(1) [OF cs(1)])
  show "t_increaseAllowance E t p amt a = Inr b \<Longrightarrow> R a b" by (rule D(1) [OF cs(2)])
  show "t_transfer E t q amt a = Inr b \<Longrightarrow>
      \<exists>a1 x. R a a1 \<and> Eff (PaysToken t q amt) (get a1) x \<and> R (put x a1) b" by (rule D(2) [OF cs(3)])
  show "sendValue E q amt a = Inr b \<Longrightarrow>
      \<exists>a1 x. R a a1 \<and> Eff (PaysCoin q amt) (get a1) x \<and> R (put x a1) b" by (rule D(2) [OF cs(4)])
  show "mintNativeCoin E q amt a = Inr b \<Longrightarrow>
      \<exists>a1 x. R a a1 \<and> Eff (MintsCoin q amt) (get a1) x \<and> R (put x a1) b" by (rule D(2) [OF cs(5)])
  show "t_send E m inp a = Inr (mid, b) \<Longrightarrow>
      \<exists>a1 x. R a a1 \<and> Eff (SendsMessage inp) (get a1) x \<and> R (put x a1) b"
    by (rule D(2) [OF cs(6)]) simp
qed

text \<open>What messages between a source and its destination promise.\<close>

record payment_codec =
  pc_payment :: "bytes \<Rightarrow> (address \<times> uint256) option"
  pc_action :: "bytes \<Rightarrow> (SourceAction \<times> bytes) option"
  pc_total :: "bytes \<Rightarrow> uint256 option"

definition codec_follows :: "payment_codec \<Rightarrow> 'w tenv \<Rightarrow> bool" where
  "codec_follows C E \<longleftrightarrow> decode_payment E = pc_payment C \<and> decode_source_action E = pc_action C \<and>
     decode_total E = pc_total C \<and>
     (\<forall>r amt. pc_payment C (encode_payment E r amt) = Some (r, amt)) \<and>
     (\<forall>a d. pc_action C (encode_source_action E a d) = Some (a, d)) \<and>
     (\<forall>n. pc_total C (encode_total E n) = Some n)"

definition paid :: "payment_codec \<Rightarrow> bytes \<Rightarrow> int" where
  "paid C m = (case pc_payment C m of Some (r, amt) \<Rightarrow> uint amt | None \<Rightarrow> 0)"

definition unlocked :: "payment_codec \<Rightarrow> bytes \<Rightarrow> int" where
  "unlocked C m = (case pc_action C m of Some (Unlock, d) \<Rightarrow> paid C d | _ \<Rightarrow> 0)"

definition reported :: "payment_codec \<Rightarrow> bytes \<Rightarrow> uint256 option" where
  "reported C m = (case pc_action C m of Some (Burn, d) \<Rightarrow> pc_total C d | _ \<Rightarrow> None)"

lemma amounts_encode:
  assumes "codec_follows C E"
  shows "paid C (encode_payment E r amt) = uint amt"
    and "unlocked C (encode_source_action E Unlock (encode_payment E r amt)) = uint amt"
    and "unlocked C (encode_source_action E Burn d) = 0"
    and "reported C (encode_source_action E Burn (encode_total E n)) = Some n"
    and "reported C (encode_source_action E Unlock d) = None"
  using assms by (simp_all add: codec_follows_def paid_def unlocked_def reported_def)

lemma amounts_not_negative: "0 \<le> paid C m" "0 \<le> unlocked C m"
  by (auto simp: paid_def unlocked_def split: option.splits SourceAction.splits)

subsection \<open>The books of a source\<close>

datatype asset = Coin | Token address

record 'x source_view =
  sv_notes :: "'x \<Rightarrow> message_note list"
  sv_balance :: "'x \<Rightarrow> nat"
  sv_paid :: "'x \<Rightarrow> (address \<times> uint256) list"
  sv_asset :: asset
  sv_entered :: "uint256 \<Rightarrow> bool"
  sv_codec :: payment_codec

fun noted_by :: "coin_effect \<Rightarrow> message_note list" where
  "noted_by (SendsMessage inp) =
     [Sent (in_destinationBlockchainID inp) (in_destinationAddress inp) (in_message inp)]"
| "noted_by (Enters v (Some (c, b, m))) = [Executed c b m]"
| "noted_by _ = []"

fun asset_change :: "asset \<Rightarrow> coin_effect \<Rightarrow> int" where
  "asset_change A (PaysCoin q amt) = (if A = Coin then - uint amt else 0)"
| "asset_change A (PaysToken t q amt) = (if A = Token t then - uint amt else 0)"
| "asset_change A (SendsMessage inp) =
     (if A = Token (feeTokenAddress (in_feeInfo inp)) then - uint (feeAmount (in_feeInfo inp)) else 0)"
| "asset_change A (Enters v c) = (if A = Coin then uint v else 0)"
| "asset_change A _ = 0"

text \<open>What the contract itself pays in the asset: to whom, and how much.\<close>

fun payments :: "asset \<Rightarrow> coin_effect \<Rightarrow> (address \<times> uint256) list" where
  "payments Coin (PaysCoin q amt) = [(q, amt)]"
| "payments (Token T) (PaysToken t q amt) = (if t = T then [(q, amt)] else [])"
| "payments _ _ = []"

definition source_effect :: "'x source_view \<Rightarrow> coin_effect \<Rightarrow> 'x \<Rightarrow> 'x \<Rightarrow> bool" where
  "source_effect V eff x y \<longleftrightarrow> sv_notes V y = sv_notes V x @ noted_by eff \<and>
     sv_paid V y = sv_paid V x @ payments (sv_asset V) eff \<and>
     int (sv_balance V x) + asset_change (sv_asset V) eff \<le> int (sv_balance V y)"

abbreviation source_sent :: "'x source_view \<Rightarrow> 'x token_source \<Rightarrow> bytes list" where
  "source_sent V u \<equiv> sent_to (ts_destinationBlockchainID u) (nativeTokenDestinationAddress u)
     (sv_notes V (ts_others u))"

abbreviation source_executed :: "'x source_view \<Rightarrow> 'x token_source \<Rightarrow> bytes list" where
  "source_executed V u \<equiv> executed_from (ts_destinationBlockchainID u)
     (nativeTokenDestinationAddress u) (sv_notes V (ts_others u))"

definition collateral :: "'x source_view \<Rightarrow> 'x token_source \<Rightarrow> int" where
  "collateral V u = int (sv_balance V (ts_others u)) + uint (destinationBurnedTotal u) +
     sum_list (map (unlocked (sv_codec V)) (source_executed V u)) -
     sum_list (map (paid (sv_codec V)) (source_sent V u))"

text \<open>The total burned is one that the destination has reported.\<close>

definition burn_reported :: "'x source_view \<Rightarrow> 'x token_source \<Rightarrow> bool" where
  "burn_reported V u \<longleftrightarrow> destinationBurnedTotal u = 0 \<or>
     (\<exists>m \<in> set (source_executed V u). reported (sv_codec V) m = Some (destinationBurnedTotal u))"

abbreviation ts_set_others :: "'x \<Rightarrow> 'x token_source \<Rightarrow> 'x token_source" where
  "ts_set_others x u \<equiv> u\<lparr>ts_others := x\<rparr>"

definition same_source :: "'x source_view \<Rightarrow> 'x token_source \<Rightarrow> 'x token_source \<Rightarrow> bool" where
  "same_source V u v \<longleftrightarrow> ts_destinationBlockchainID v = ts_destinationBlockchainID u \<and>
     nativeTokenDestinationAddress v = nativeTokenDestinationAddress u \<and>
     ts_teleporterMessenger v = ts_teleporterMessenger u \<and>
     erc20ContractAddress v = erc20ContractAddress u \<and>
     set (source_executed V u) \<subseteq> set (source_executed V v)"

lemma same_source_refl: "same_source V u u"
  by (simp add: same_source_def)

lemma same_source_trans: "same_source V u v \<Longrightarrow> same_source V v w \<Longrightarrow> same_source V u w"
  unfolding same_source_def by (elim conjE, intro conjI) simp_all

text \<open>The asset of the books is the token of the contract, if it is a token.\<close>

definition right_asset :: "'x source_view \<Rightarrow> 'x token_source \<Rightarrow> bool" where
  "right_asset V u \<longleftrightarrow> (\<forall>T. sv_asset V = Token T \<longrightarrow> erc20ContractAddress u = T)"

definition source_safe :: "'x source_view \<Rightarrow> 'x token_source \<Rightarrow> 'x token_source \<Rightarrow> bool" where
  "source_safe V u v \<longleftrightarrow> same_source V u v \<and>
     (sv_entered V (ts_guard u) \<longrightarrow> sv_entered V (ts_guard v) \<and>
        source_sent V v = source_sent V u \<and> source_executed V v = source_executed V u \<and>
        sv_balance V (ts_others u) \<le> sv_balance V (ts_others v) \<and>
        destinationBurnedTotal v = destinationBurnedTotal u) \<and>
     (right_asset V u \<longrightarrow> 0 \<le> collateral V u \<longrightarrow> 0 \<le> collateral V v) \<and>
     (burn_reported V u \<longrightarrow> burn_reported V v)"

lemma source_safe_refl: "source_safe V u u"
  by (simp add: source_safe_def same_source_refl)

lemma source_safe_trans: "source_safe V u v \<Longrightarrow> source_safe V v w \<Longrightarrow> source_safe V u w"
  by (auto simp: source_safe_def right_asset_def same_source_def [of V u v]
      intro: same_source_trans [of V u v])

definition peer_change :: "'x source_view \<Rightarrow> 'x token_source \<Rightarrow> coin_effect \<Rightarrow> int" where
  "peer_change V u eff = (case eff of
       SendsMessage inp \<Rightarrow>
         if in_destinationBlockchainID inp = ts_destinationBlockchainID u \<and>
           in_destinationAddress inp = nativeTokenDestinationAddress u
         then - paid (sv_codec V) (in_message inp) else 0
     | Enters v (Some (c, b, m)) \<Rightarrow>
         if c = ts_destinationBlockchainID u \<and> b = nativeTokenDestinationAddress u
         then unlocked (sv_codec V) m else 0
     | _ \<Rightarrow> 0)"

lemma collateral_effect:
  assumes "source_effect V eff (ts_others u) x"
  shows "collateral V u + asset_change (sv_asset V) eff + peer_change V u eff
    \<le> collateral V (ts_set_others x u)"
  using assms
  by (cases "(sv_asset V, eff)" rule: asset_change.cases)
    (auto simp: source_effect_def collateral_def peer_change_def split: option.splits)

lemma same_source_effect:
  "source_effect V eff (ts_others u) x \<Longrightarrow> same_source V u (ts_set_others x u)"
  by (simp add: same_source_def source_effect_def)

lemma burn_reported_mono:
  "same_source V u v \<Longrightarrow> destinationBurnedTotal v = destinationBurnedTotal u \<Longrightarrow>
    burn_reported V u \<Longrightarrow> burn_reported V v"
  by (auto simp: same_source_def burn_reported_def)

lemma source_safe_locked:
  assumes "source_safe V u v" "sv_entered V (ts_guard u)"
  shows "collateral V u + int (sv_balance V (ts_others v)) - int (sv_balance V (ts_others u))
      = collateral V v"
    and "sv_balance V (ts_others u) \<le> sv_balance V (ts_others v)"
    and "sv_entered V (ts_guard v)" "destinationBurnedTotal v = destinationBurnedTotal u"
  using assms by (simp_all add: source_safe_def collateral_def)

lemma source_safe_away:
  assumes "source_effect V Away (ts_others u) x"
  shows "source_safe V u (ts_set_others x u)"
  using collateral_effect [OF assms] same_source_effect [OF assms] assms
    burn_reported_mono [OF same_source_effect [OF assms]]
  by (simp add: source_safe_def peer_change_def source_effect_def)

subsection \<open>Inside a guarded function\<close>

text \<open>\<open>u\<close> is a state inside a guarded function that was entered in \<open>u0\<close>, with \<open>n\<close> of collateral.\<close>

definition inside :: "'x source_view \<Rightarrow> 'x token_source \<Rightarrow> 'x token_source \<Rightarrow> int \<Rightarrow> bool" where
  "inside V u0 u n \<longleftrightarrow> sv_entered V (ts_guard u) \<and> same_source V u0 u \<and>
     destinationBurnedTotal u = destinationBurnedTotal u0 \<and> n \<le> collateral V u"

definition source_honest :: "'x source_view \<Rightarrow> 'x token_source tenv \<Rightarrow> bool" where
  "source_honest V E \<longleftrightarrow> guard_pair (sv_entered V) (t_guardBefore E) (t_guardAfter E) \<and>
     codec_follows (sv_codec V) E \<and>
     (\<forall>T u b. sv_asset V = Token T \<longrightarrow> t_balanceOf E T (t_this E) u = Inr b \<longrightarrow>
        unat b = sv_balance V (ts_others u))"

definition source_env :: "'x source_view \<Rightarrow> 'x token_source tenv \<Rightarrow> bool" where
  "source_env V E \<longleftrightarrow> source_honest V E \<and>
     external_calls (source_safe V) ts_others ts_set_others (source_effect V) (tenv_calls E)"

lemma source_envD:
  assumes "source_env V E"
  shows "external_calls (source_safe V) ts_others ts_set_others (source_effect V) (tenv_calls E)"
    and "codec_follows (sv_codec V) E"
    and "t_guardBefore E g = Inr g' \<Longrightarrow> \<not> sv_entered V g \<and> sv_entered V g'"
    and "\<not> sv_entered V (t_guardAfter E g)"
    and "sv_asset V = Token T \<Longrightarrow> t_balanceOf E T (t_this E) u = Inr b \<Longrightarrow>
      unat b = sv_balance V (ts_others u)"
  using assms by (auto simp: source_env_def source_honest_def guard_pair_def)

lemma inside_safe:
  assumes safe: "source_safe V u v" and u: "inside V u0 u n"
  shows "inside V u0 v n"
proof -
  have "sv_entered V (ts_guard u)" "same_source V u0 u" using u by (simp_all add: inside_def)
  moreover have "same_source V u v" using safe by (simp add: source_safe_def)
  ultimately show ?thesis
    using source_safe_locked [OF safe] u same_source_trans [of V u0 u v] by (simp add: inside_def)
qed

lemma inside_mono: "inside V u0 u n \<Longrightarrow> m \<le> n \<Longrightarrow> inside V u0 u m"
  by (simp add: inside_def)

lemma inside_effect:
  assumes "\<exists>a1 x. source_safe V u a1 \<and> source_effect V eff (ts_others a1) x \<and>
      source_safe V (ts_set_others x a1) v"
    and "inside V u0 u n" and "m \<le> n + asset_change (sv_asset V) eff + peer_change V u0 eff"
  shows "inside V u0 v m"
proof -
  from assms(1) obtain a1 x where a1: "source_safe V u a1"
    and x: "source_effect V eff (ts_others a1) x" and v: "source_safe V (ts_set_others x a1) v"
    by blast
  have a: "inside V u0 a1 n" using a1 assms(2) by (rule inside_safe)
  have "peer_change V a1 eff = peer_change V u0 eff"
    using a by (auto simp: inside_def same_source_def peer_change_def split: coin_effect.splits)
  then have "m \<le> collateral V (ts_set_others x a1)"
    using collateral_effect [OF x] a assms(3) by (simp add: inside_def)
  moreover have "same_source V u0 (ts_set_others x a1)"
    using a same_source_effect [OF x] by (auto simp: inside_def intro: same_source_trans)
  ultimately have "inside V u0 (ts_set_others x a1) m" using a by (simp add: inside_def)
  with v show ?thesis by (rule inside_safe)
qed

lemma inside_emit: "inside V u0 u n \<Longrightarrow> inside V u0 (ts_emit e u) n"
  by (auto simp: inside_def ts_emit_def same_source_def collateral_def)

lemma inside_pull:
  assumes env: "source_env V E" and run: "t_safeTransferFrom E t amt u = Inr (d, v)"
    and u: "inside V u0 u n"
  shows "inside V u0 v (n + (if sv_asset V = Token t then uint d else 0))"
proof -
  from run obtain b0 b1 where b: "t_balanceOf E t (t_this E) u = Inr b0"
    "t_transferFrom E t (t_sender E) (t_this E) amt u = Inr v"
    "t_balanceOf E t (t_this E) v = Inr b1" "b0 < b1" "checked_sub b1 b0 = Inr d"
    by (auto simp: t_safeTransferFrom_def)
  have safe: "source_safe V u v" using tenv_callsD(1) [OF source_envD(1) [OF env] b(2)] .
  then have v: "inside V u0 v n" using u by (rule inside_safe)
  show ?thesis
  proof (cases "sv_asset V = Token t")
    case True
    then have bal: "unat b0 = sv_balance V (ts_others u)" "unat b1 = sv_balance V (ts_others v)"
      using source_envD(5) [OF env True] b(1,3) by simp_all
    have "uint d = int (unat b1) - int (unat b0)"
      using checked_sub_uint [OF b(5)] unfolding uint_nat .
    then show ?thesis
      using True u v bal source_safe_locked(1) [OF safe] by (simp add: inside_def)
  qed (use v in simp)
qed

lemma inside_send:
  assumes env: "source_env V E"
    and "t_send E m (t_message c b fee gas allowed msg) u = Inr (mid, v)"
    and "inside V u0 u n"
    and "c = ts_destinationBlockchainID u" "b = nativeTokenDestinationAddress u"
    and "k = (if sv_asset V = Token (feeTokenAddress fee) then uint (feeAmount fee) else 0)"
  shows "inside V u0 v (n - k - paid (sv_codec V) msg)"
  using tenv_callsD(6) [OF source_envD(1) [OF env] assms(2)] assms(3)
  by (rule inside_effect)
    (use assms(3-) in \<open>auto simp: t_message_def peer_change_def inside_def same_source_def\<close>)

lemma inside_allowance:
  "source_env V E \<Longrightarrow> t_increaseAllowance E t m amt u = Inr v \<Longrightarrow> inside V u0 u n \<Longrightarrow> inside V u0 v n"
  by (rule inside_safe [OF tenv_callsD(2) [OF source_envD(1)]])

lemma inside_fee:
  assumes env: "source_env V E" and run: "t_takeFee E m fee u = Inr (adj, v)"
    and "inside V u0 u n"
  shows "inside V u0 v n"
proof (cases "feeAmount fee > 0")
  case True
  then obtain u1 where "t_safeTransferFrom E (feeTokenAddress fee) (feeAmount fee) u = Inr (adj, u1)"
    "t_increaseAllowance E (feeTokenAddress fee) m adj u1 = Inr v"
    using run by (auto simp: t_takeFee_def)
  then show ?thesis
    using inside_allowance [OF env] inside_mono [OF inside_pull [OF env _ assms(3)]] by fastforce
next
  case False
  then show ?thesis using run assms(3) by (simp add: t_takeFee_def)
qed

lemma inside_finish:
  "inside V u0 u n \<Longrightarrow>
    same_source V u0 u \<and> n \<le> collateral V u \<and> (burn_reported V u0 \<longrightarrow> burn_reported V u)"
  using burn_reported_mono by (auto simp: inside_def)

text \<open>
  A guarded function called from outside. Its body starts with the collateral \<open>n\<close> that the call has
  brought, and has to end with what there was before.
\<close>

definition keeps_collateral ::
  "'x source_view \<Rightarrow> 'x token_source \<Rightarrow> 'x token_source \<Rightarrow> int \<Rightarrow> bool" where
  "keeps_collateral V w r n \<longleftrightarrow> same_source V w r \<and> (burn_reported V w \<longrightarrow> burn_reported V r) \<and>
     (right_asset V w \<longrightarrow> n \<le> collateral V r)"

lemma inside_keeps:
  "inside V w r m \<Longrightarrow> (right_asset V w \<Longrightarrow> n \<le> m) \<Longrightarrow> keeps_collateral V w r n"
  using burn_reported_mono [of V w r] by (auto simp: inside_def keeps_collateral_def)

definition call_noted ::
  "'x source_view \<Rightarrow> 'x token_source \<Rightarrow> (bytes32 \<times> address \<times> bytes) option \<Rightarrow> bool" where
  "call_noted V w call \<longleftrightarrow>
     (\<forall>m. call = Some (ts_destinationBlockchainID w, nativeTokenDestinationAddress w, m) \<longrightarrow>
       m \<in> set (source_executed V w))"

lemma source_guarded:
  assumes env: "source_env V E" and eff: "source_effect V (Enters val call) (ts_others u) x"
    and run: "ts_nonReentrant E body (ts_set_others x u) = Inr v"
    and body: "\<And>w r n. body w = Inr r \<Longrightarrow> inside V w w n \<Longrightarrow> call_noted V w call \<Longrightarrow>
      keeps_collateral V w r
        (n - asset_change (sv_asset V) (Enters val call) - peer_change V w (Enters val call))"
  shows "source_safe V u v"
proof -
  from run obtain g r where g: "t_guardBefore E (ts_guard u) = Inr g"
    and b: "body ((ts_set_others x u)\<lparr>ts_guard := g\<rparr>) = Inr r"
    and v: "v = r\<lparr>ts_guard := t_guardAfter E (ts_guard r)\<rparr>"
    by (auto simp: ts_nonReentrant_def)
  let ?w = "(ts_set_others x u)\<lparr>ts_guard := g\<rparr>"
  have e: "\<not> sv_entered V (ts_guard u)" "sv_entered V g"
    using source_envD(3) [OF env g] by auto
  have uw: "same_source V u ?w" using same_source_effect [OF eff] by (simp add: same_source_def)
  have cw: "collateral V ?w = collateral V (ts_set_others x u)" by (simp add: collateral_def)
  have "inside V ?w ?w (collateral V ?w)"
    using e by (simp add: inside_def same_source_refl)
  moreover have "call_noted V ?w call"
    using eff by (auto simp: call_noted_def source_effect_def)
  ultimately have k: "keeps_collateral V ?w r (collateral V ?w -
      asset_change (sv_asset V) (Enters val call) - peer_change V ?w (Enters val call))"
    by (rule body [OF b])
  have "peer_change V ?w (Enters val call) = peer_change V u (Enters val call)"
    by (simp add: peer_change_def)
  then have n: "collateral V u \<le> collateral V r" if "right_asset V u"
    using k collateral_effect [OF eff] that
    by (simp add: keeps_collateral_def cw right_asset_def del: asset_change.simps)
  have "burn_reported V u \<longrightarrow> burn_reported V r"
    using k burn_reported_mono [OF uw] by (simp add: keeps_collateral_def)
  moreover have "same_source V u r"
    using k same_source_trans [OF uw] by (simp add: keeps_collateral_def)
  moreover have "collateral V v = collateral V r" "burn_reported V v = burn_reported V r"
    "same_source V u v = same_source V u r"
    by (simp_all add: v collateral_def burn_reported_def same_source_def)
  ultimately show ?thesis using n e(1) by (auto simp: source_safe_def)
qed

subsection \<open>NativeTokenSource\<close>

datatype native_source_op =
    NativeTransfer address TeleporterFeeInfo "address list"
  | NativeReceive bytes32 address bytes

fun run_native_source ::
  "'x token_source tenv \<Rightarrow> native_source_op \<Rightarrow> 'x token_source \<Rightarrow> sol_error + 'x token_source" where
  "run_native_source E (NativeTransfer recipient fee allowed) u =
     native_transferToDestination E recipient fee allowed u"
| "run_native_source E (NativeReceive chain origin msg) u = native_source_receive E chain origin msg u"

text \<open>Only \<open>transferToDestination\<close> is payable.\<close>

fun native_source_called :: "'x token_source tenv \<Rightarrow> native_source_op \<Rightarrow> coin_effect" where
  "native_source_called E (NativeTransfer recipient fee allowed) = Enters (t_value E) None"
| "native_source_called E (NativeReceive chain origin msg) = Enters 0 (Some (chain, origin, msg))"

lemma native_transfer_safe:
  assumes env: "source_env V E" and coin: "sv_asset V = Coin"
    and eff: "source_effect V (Enters (t_value E) None) (ts_others u) x"
    and run: "native_transferToDestination E recipient fee allowed (ts_set_others x u) = Inr v"
  shows "source_safe V u v"
  using env eff run [unfolded native_transferToDestination_def]
proof (rule source_guarded, goal_cases)
  case (1 w r n)
  then obtain adj u1 mid u2 e where
    f: "t_takeFee E (ts_teleporterMessenger w) fee w = Inr (adj, u1)"
    and s: "t_send E (ts_teleporterMessenger u1) (t_message (ts_destinationBlockchainID u1)
        (nativeTokenDestinationAddress u1) fee MINT_NATIVE_TOKENS_REQUIRED_GAS allowed
        (encode_payment E recipient (t_value E))) u1 = Inr (mid, u2)"
    and r: "r = ts_emit e u2" by auto
  have "inside V w u2 (n - 0 - paid (sv_codec V) (encode_payment E recipient (t_value E)))"
    by (rule inside_send [OF env s inside_fee [OF env f 1(2)]]) (simp_all add: coin)
  then have "inside V w r (n - uint (t_value E))"
    unfolding r by (intro inside_emit) (simp add: amounts_encode [OF source_envD(2) [OF env]])
  then show ?case by (rule inside_keeps) (simp add: coin peer_change_def)
qed

lemma inside_pays_coin:
  assumes env: "source_env V E" and coin: "sv_asset V = Coin"
    and "sendValue E q amt u = Inr v" "inside V w u n"
  shows "inside V w v (n - uint amt)"
  using tenv_callsD(4) [OF source_envD(1) [OF env] assms(3)] assms(4)
  by (rule inside_effect) (simp add: coin peer_change_def)

text \<open>After a burn the total is raised to the one reported.\<close>

lemma burn_keeps:
  assumes r: "inside V w r (n - (uint new - uint (destinationBurnedTotal w)))"
    and m: "m \<in> set (source_executed V w)" "reported (sv_codec V) m = Some new"
  shows "keeps_collateral V w (r\<lparr>destinationBurnedTotal := new\<rparr>) n"
proof -
  have "m \<in> set (source_executed V r)" "same_source V w r"
    using m(1) r by (auto simp: inside_def same_source_def)
  moreover from this(1) have "burn_reported V (r\<lparr>destinationBurnedTotal := new\<rparr>)"
    using m(2) by (auto simp: burn_reported_def)
  moreover have "n \<le> collateral V (r\<lparr>destinationBurnedTotal := new\<rparr>)"
    using r by (auto simp: inside_def collateral_def)
  moreover have "same_source V r (r\<lparr>destinationBurnedTotal := new\<rparr>)"
    by (simp add: same_source_def)
  ultimately show ?thesis
    using same_source_trans [of V w r] by (simp add: keeps_collateral_def)
qed

lemma native_receive_safe:
  assumes env: "source_env V E" and coin: "sv_asset V = Coin"
    and eff: "source_effect V (Enters 0 (Some (chain, origin, msg))) (ts_others u) x"
    and run: "native_source_receive E chain origin msg (ts_set_others x u) = Inr v"
  shows "source_safe V u v"
  using env eff run [unfolded native_source_receive_def]
proof (rule source_guarded, goal_cases)
  case (1 w r n)
  note C = source_envD(2) [OF env]
  have peer: "chain = ts_destinationBlockchainID w" "origin = nativeTokenDestinationAddress w"
    using 1(1) by auto
  with 1(3) have m: "msg \<in> set (source_executed V w)" by (simp add: call_noted_def)
  from 1(1) consider
      (unlock) d q amt where "decode_source_action E msg = Some (Unlock, d)"
        "decode_payment E d = Some (q, amt)" "native_unlockTokens E q amt w = Inr r"
    | (burn) d new where "decode_source_action E msg = Some (Burn, d)"
        "decode_total E d = Some new" "native_handleBurnTokens E new w = Inr r"
    by (auto split: option.splits SourceAction.splits)
  then show ?case
  proof cases
    case unlock
    then have "sendValue E q amt (ts_emit (LogUnlockTokens q amt) w) = Inr r"
      by (simp add: native_unlockTokens_def)
    from inside_pays_coin [OF env coin this inside_emit [OF 1(2)]]
    show ?thesis
      by (rule inside_keeps)
        (use unlock C in \<open>simp add: coin peer_change_def peer unlocked_def paid_def codec_follows_def\<close>)
  next
    case burn
    have none: "unlocked (sv_codec V) msg = 0" and rep: "reported (sv_codec V) msg = Some new"
      using burn C by (simp_all add: unlocked_def reported_def codec_follows_def)
    show ?thesis
    proof (cases "new > destinationBurnedTotal w")
      case True
      then obtain d r1 where d: "checked_sub new (destinationBurnedTotal w) = Inr d"
        and p: "sendValue E BURNED_TX_FEES_ADDRESS d (ts_emit (LogBurnTokens d) w) = Inr r1"
        and r: "r = r1\<lparr>destinationBurnedTotal := new\<rparr>"
        using burn(3) by (auto simp: native_handleBurnTokens_def native_burnTokens_def)
      from inside_pays_coin [OF env coin p inside_emit [OF 1(2)]]
      have "keeps_collateral V w r n"
        unfolding r by (intro burn_keeps [OF _ m rep]) (simp add: checked_sub_uint [OF d])
      then show ?thesis by (simp add: coin peer_change_def none)
    next
      case False
      then have "r = w" using burn(3) by (simp add: native_handleBurnTokens_def)
      then show ?thesis
        using 1(2) by (intro inside_keeps [of V w r n]) (simp_all add: coin peer_change_def none)
    qed
  qed
qed

definition native_source_honest :: "'x source_view \<Rightarrow> 'x token_source tenv \<Rightarrow> bool" where
  "native_source_honest V E \<longleftrightarrow> source_honest V E \<and> sv_asset V = Coin"

interpretation native_source: contract_closed tenv_calls run_native_source ts_others ts_set_others
    native_source_called Away "source_effect V" "native_source_honest V" "source_safe V" for V
proof unfold_locales
  fix E op u x v
  assume a: "native_source_honest V E"
    "external_calls (source_safe V) ts_others ts_set_others (source_effect V) (tenv_calls E)"
    "source_effect V (native_source_called E op) (ts_others u) x"
    "run_native_source E op (ts_set_others x u) = Inr v"
  then have "source_env V E" "sv_asset V = Coin"
    by (simp_all add: source_env_def native_source_honest_def)
  then show "source_safe V u v"
    using a(3,4) by (cases op) (auto intro: native_transfer_safe native_receive_safe)
qed (fact source_safe_refl source_safe_trans source_safe_away)+

subsection \<open>ERC20TokenSource\<close>

datatype erc20_source_op =
    ERC20Transfer address uint256 uint256 "address list"
  | ERC20Receive bytes32 address bytes

fun run_erc20_source ::
  "'x token_source tenv \<Rightarrow> erc20_source_op \<Rightarrow> 'x token_source \<Rightarrow> sol_error + 'x token_source" where
  "run_erc20_source E (ERC20Transfer recipient totalAmt feeAmt allowed) u =
     erc20_transferToDestination E recipient totalAmt feeAmt allowed u"
| "run_erc20_source E (ERC20Receive chain origin msg) u = erc20_source_receive E chain origin msg u"

fun erc20_source_called :: "'x token_source tenv \<Rightarrow> erc20_source_op \<Rightarrow> coin_effect" where
  "erc20_source_called E (ERC20Transfer recipient totalAmt feeAmt allowed) = Enters 0 None"
| "erc20_source_called E (ERC20Receive chain origin msg) = Enters 0 (Some (chain, origin, msg))"

lemma erc20_transfer_safe:
  assumes env: "source_env V E" and asset: "sv_asset V \<noteq> Coin"
    and eff: "source_effect V (Enters 0 None) (ts_others u) x"
    and run: "erc20_transferToDestination E recipient totalAmt feeAmt allowed (ts_set_others x u) = Inr v"
  shows "source_safe V u v"
  using env eff run [unfolded erc20_transferToDestination_def]
proof (rule source_guarded, goal_cases)
  case (1 w r n)
  let ?T = "erc20ContractAddress w"
  let ?if = "\<lambda>n :: int. if sv_asset V = Token ?T then n else 0"
  from 1(1) obtain adj u1 u2 k mid u3 e where
    p: "t_safeTransferFrom E ?T totalAmt w = Inr (adj, u1)"
    and a: "(if feeAmt > 0
        then t_increaseAllowance E (erc20ContractAddress u1) (ts_teleporterMessenger u1) feeAmt u1
        else Inr u1) = Inr u2"
    and k: "checked_sub adj feeAmt = Inr k"
    and s: "t_send E (ts_teleporterMessenger u2) (t_message (ts_destinationBlockchainID u2)
        (nativeTokenDestinationAddress u2)
        \<lparr>feeTokenAddress = erc20ContractAddress u2, feeAmount = feeAmt\<rparr>
        MINT_NATIVE_TOKENS_REQUIRED_GAS allowed (encode_payment E recipient k)) u2 = Inr (mid, u3)"
    and r: "r = ts_emit e u3" by auto
  have "inside V w u1 (n + ?if (uint adj))" by (rule inside_pull [OF env p 1(2)])
  then have u2: "inside V w u2 (n + ?if (uint adj))"
    using a inside_allowance [OF env] by (auto split: if_splits)
  then have "erc20ContractAddress u2 = ?T" by (simp add: inside_def same_source_def)
  then have "inside V w u3 (n + ?if (uint adj) - ?if (uint feeAmt)
      - paid (sv_codec V) (encode_payment E recipient k))"
    by (intro inside_send [OF env s u2]) simp_all
  then have "inside V w r (n + ?if (uint adj) - ?if (uint feeAmt) - uint k)"
    unfolding r by (intro inside_emit) (simp add: amounts_encode [OF source_envD(2) [OF env]])
  then show ?case
  proof (rule inside_keeps)
    assume "right_asset V w"
    then have "sv_asset V = Token ?T" using asset by (cases "sv_asset V") (auto simp: right_asset_def)
    then show "n - asset_change (sv_asset V) (Enters 0 None) - peer_change V w (Enters 0 None)
        \<le> n + ?if (uint adj) - ?if (uint feeAmt) - uint k"
      using checked_sub_uint [OF k] by (simp add: peer_change_def)
  qed
qed

lemma inside_pays_token:
  assumes env: "source_env V E" and "t_transfer E t q amt u = Inr v" "inside V w u n"
  shows "inside V w v (n - (if sv_asset V = Token t then uint amt else 0))"
  using tenv_callsD(3) [OF source_envD(1) [OF env] assms(2)] assms(3)
  by (rule inside_effect) (simp add: peer_change_def)

lemma erc20_receive_safe:
  assumes env: "source_env V E" and asset: "sv_asset V \<noteq> Coin"
    and eff: "source_effect V (Enters 0 (Some (chain, origin, msg))) (ts_others u) x"
    and run: "erc20_source_receive E chain origin msg (ts_set_others x u) = Inr v"
  shows "source_safe V u v"
  using env eff run [unfolded erc20_source_receive_def]
proof (rule source_guarded, goal_cases)
  case (1 w r n)
  note C = source_envD(2) [OF env]
  have peer: "chain = ts_destinationBlockchainID w" "origin = nativeTokenDestinationAddress w"
    using 1(1) by auto
  with 1(3) have m: "msg \<in> set (source_executed V w)" by (simp add: call_noted_def)
  from 1(1) consider
      (unlock) d q amt where "decode_source_action E msg = Some (Unlock, d)"
        "decode_payment E d = Some (q, amt)" "erc20_unlockTokens E q amt w = Inr r"
    | (burn) d new where "decode_source_action E msg = Some (Burn, d)"
        "decode_total E d = Some new" "erc20_handleBurnTokens E new w = Inr r"
    by (auto split: option.splits SourceAction.splits)
  then show ?case
  proof cases
    case unlock
    then have "t_transfer E (erc20ContractAddress w) q amt (ts_emit (LogUnlockTokens q amt) w) = Inr r"
      by (simp add: erc20_unlockTokens_def)
    from inside_pays_token [OF env this inside_emit [OF 1(2)]]
    show ?thesis
      by (rule inside_keeps)
        (use unlock C asset in \<open>simp add: peer_change_def peer unlocked_def paid_def codec_follows_def\<close>)
  next
    case burn
    have none: "unlocked (sv_codec V) msg = 0" and rep: "reported (sv_codec V) msg = Some new"
      using burn C by (simp_all add: unlocked_def reported_def codec_follows_def)
    show ?thesis
    proof (cases "new > destinationBurnedTotal w")
      case True
      then obtain d r1 where d: "checked_sub new (destinationBurnedTotal w) = Inr d"
        and p: "t_transfer E (erc20ContractAddress w) BURNED_TX_FEES_ADDRESS d
          (ts_emit (LogBurnTokens d) w) = Inr r1"
        and r: "r = r1\<lparr>destinationBurnedTotal := new\<rparr>"
        using burn(3) by (auto simp: erc20_handleBurnTokens_def erc20_burnTokens_def)
      have "inside V w r1 (n - (uint new - uint (destinationBurnedTotal w)))"
        using inside_pays_token [OF env p inside_emit [OF 1(2)]] checked_sub_uint [OF d]
          uint_ge_0 [of d]
        by (rule_tac inside_mono) auto
      then have "keeps_collateral V w r n" unfolding r by (intro burn_keeps [OF _ m rep])
      then show ?thesis by (simp add: asset peer_change_def none)
    next
      case False
      then have "r = w" using burn(3) by (simp add: erc20_handleBurnTokens_def)
      then show ?thesis
        using 1(2) by (intro inside_keeps [of V w r n]) (simp_all add: asset peer_change_def none)
    qed
  qed
qed

definition erc20_source_honest :: "'x source_view \<Rightarrow> 'x token_source tenv \<Rightarrow> bool" where
  "erc20_source_honest V E \<longleftrightarrow> source_honest V E \<and> sv_asset V \<noteq> Coin"

interpretation erc20_source: contract_closed tenv_calls run_erc20_source ts_others ts_set_others
    erc20_source_called Away "source_effect V" "erc20_source_honest V" "source_safe V" for V
proof unfold_locales
  fix E op u x v
  assume a: "erc20_source_honest V E"
    "external_calls (source_safe V) ts_others ts_set_others (source_effect V) (tenv_calls E)"
    "source_effect V (erc20_source_called E op) (ts_others u) x"
    "run_erc20_source E op (ts_set_others x u) = Inr v"
  then have "source_env V E" "sv_asset V \<noteq> Coin"
    by (simp_all add: source_env_def erc20_source_honest_def)
  then show "source_safe V u v"
    using a(3,4) by (cases op) (auto intro: erc20_transfer_safe erc20_receive_safe)
qed (fact source_safe_refl source_safe_trans source_safe_away)+

subsection \<open>New sources\<close>

lemma new_source:
  assumes "native_source_constructor E m c b g x = Inr u \<or> erc20_source_constructor E m c b t g x = Inr u"
    and "sv_notes V x = []"
  shows "0 \<le> collateral V u" "burn_reported V u"
  using assms
  by (auto simp: native_source_constructor_def erc20_source_constructor_def collateral_def
      burn_reported_def)

end
