(* ===== verification/Native_Token_Destination.thy ===== *)
theory Native_Token_Destination
  imports Native_Token_Source
begin

section \<open>The books of a token destination\<close>

text \<open>
  What NativeTokenDestination keeps: it has minted, or counted as collateral, exactly what the
  messages it executed pay; it has burned at least what the messages it sent unlock; and it has
  reported no more burned fees than the burn address holds. \<open>reportTotalBurnedTxFees\<close> has no
  reentrancy guard, so it can also run in the middle of the other functions.
\<close>

record 'x dest_view =
  dv_notes :: "'x \<Rightarrow> message_note list"
  dv_minted :: "'x \<Rightarrow> (address \<times> uint256) list"
  dv_fees :: "'x \<Rightarrow> nat"
  dv_burned :: "'x \<Rightarrow> nat"
  dv_entered :: "uint256 \<Rightarrow> bool"
  dv_codec :: payment_codec

text \<open>What the contract mints: for whom, and how much.\<close>

fun mints :: "coin_effect \<Rightarrow> (address \<times> uint256) list" where
  "mints (MintsCoin q amt) = [(q, amt)]"
| "mints _ = []"

definition dest_effect :: "'x dest_view \<Rightarrow> coin_effect \<Rightarrow> 'x \<Rightarrow> 'x \<Rightarrow> bool" where
  "dest_effect V eff x y \<longleftrightarrow> dv_notes V y = dv_notes V x @ noted_by eff \<and>
     dv_minted V y = dv_minted V x @ mints eff \<and> dv_fees V x \<le> dv_fees V y \<and>
     int (dv_burned V x) + (case eff of
         PaysCoin q amt \<Rightarrow> if q = BURN_FOR_TRANSFER_ADDRESS then uint amt else 0
       | _ \<Rightarrow> 0) \<le> int (dv_burned V y)"

abbreviation dest_sent :: "'x dest_view \<Rightarrow> 'x token_destination \<Rightarrow> bytes list" where
  "dest_sent V u \<equiv> sent_to (sourceBlockchainID u) (nativeTokenSourceAddress u)
     (dv_notes V (td_others u))"

abbreviation dest_executed :: "'x dest_view \<Rightarrow> 'x token_destination \<Rightarrow> bytes list" where
  "dest_executed V u \<equiv> executed_from (sourceBlockchainID u) (nativeTokenSourceAddress u)
     (dv_notes V (td_others u))"

definition minted_gap :: "'x dest_view \<Rightarrow> 'x token_destination \<Rightarrow> int" where
  "minted_gap V u = uint (totalMinted u) + uint (initialReserveImbalance u) -
     uint (currentReserveImbalance u) - sum_list (map (paid (dv_codec V)) (dest_executed V u))"

definition burned_gap :: "'x dest_view \<Rightarrow> 'x token_destination \<Rightarrow> int" where
  "burned_gap V u = int (dv_burned V (td_others u)) -
     sum_list (map (unlocked (dv_codec V)) (dest_sent V u))"

definition dest_ok :: "'x dest_view \<Rightarrow> 'x token_destination \<Rightarrow> bool" where
  "dest_ok V u \<longleftrightarrow> minted_gap V u = 0 \<and> 0 \<le> burned_gap V u"

definition reports_ok :: "'x dest_view \<Rightarrow> 'x token_destination \<Rightarrow> bool" where
  "reports_ok V u \<longleftrightarrow> (\<forall>m \<in> set (dest_sent V u). \<forall>n. reported (dv_codec V) m = Some n \<longrightarrow>
     unat n \<le> dv_fees V (td_others u))"

abbreviation td_set_others :: "'x \<Rightarrow> 'x token_destination \<Rightarrow> 'x token_destination" where
  "td_set_others x u \<equiv> u\<lparr>td_others := x\<rparr>"

text \<open>Nothing is minted before the initial imbalance has been made up for.\<close>

definition collateral_first :: "'x token_destination \<Rightarrow> bool" where
  "collateral_first u \<longleftrightarrow> currentReserveImbalance u = 0 \<or> totalMinted u = 0"

definition same_dest :: "'x dest_view \<Rightarrow> 'x token_destination \<Rightarrow> 'x token_destination \<Rightarrow> bool" where
  "same_dest V u v \<longleftrightarrow> sourceBlockchainID v = sourceBlockchainID u \<and>
     nativeTokenSourceAddress v = nativeTokenSourceAddress u \<and>
     initialReserveImbalance v = initialReserveImbalance u \<and>
     td_teleporterMessenger v = td_teleporterMessenger u \<and>
     currentReserveImbalance v \<le> currentReserveImbalance u \<and> totalMinted u \<le> totalMinted v \<and>
     (collateral_first u \<longrightarrow> collateral_first v) \<and>
     dv_fees V (td_others u) \<le> dv_fees V (td_others v)"

definition dest_safe :: "'x dest_view \<Rightarrow> 'x token_destination \<Rightarrow> 'x token_destination \<Rightarrow> bool" where
  "dest_safe V u v \<longleftrightarrow> same_dest V u v \<and>
     (dv_entered V (td_guard u) \<longrightarrow> dv_entered V (td_guard v) \<and> minted_gap V v = minted_gap V u \<and>
        totalMinted v = totalMinted u \<and> currentReserveImbalance v = currentReserveImbalance u \<and>
        burned_gap V u \<le> burned_gap V v) \<and>
     (dest_ok V u \<longrightarrow> dest_ok V v) \<and> (reports_ok V u \<longrightarrow> reports_ok V v)"

lemma same_dest_trans: "same_dest V u v \<Longrightarrow> same_dest V v w \<Longrightarrow> same_dest V u w"
  by (auto simp: same_dest_def)

lemma dest_safe_refl: "dest_safe V u u"
  by (simp add: dest_safe_def same_dest_def)

lemma dest_safe_trans: "dest_safe V u v \<Longrightarrow> dest_safe V v w \<Longrightarrow> dest_safe V u w"
  by (auto simp: dest_safe_def intro: same_dest_trans)

lemma td_emit_frame [simp]:
  "minted_gap V (td_emit e u) = minted_gap V u" "burned_gap V (td_emit e u) = burned_gap V u"
  "dest_ok V (td_emit e u) = dest_ok V u" "reports_ok V (td_emit e u) = reports_ok V u"
  "same_dest V w (td_emit e u) = same_dest V w u"
  "td_guard (td_emit e u) = td_guard u" "totalMinted (td_emit e u) = totalMinted u"
  "currentReserveImbalance (td_emit e u) = currentReserveImbalance u"
  by (simp_all add: td_emit_def minted_gap_def burned_gap_def dest_ok_def reports_ok_def same_dest_def
      collateral_first_def)

lemma td_emit_safe: "dest_safe V u v \<Longrightarrow> dest_safe V u (td_emit e v)"
  by (simp add: dest_safe_def)

lemma dest_effect_same: "dest_effect V eff (td_others u) x \<Longrightarrow> same_dest V u (td_set_others x u)"
  by (simp add: dest_effect_def same_dest_def collateral_first_def)

lemma dest_effect_burned:
  assumes "dest_effect V eff x y"
  shows "dv_burned V x \<le> dv_burned V y"
proof -
  have "0 \<le> (case eff of
      PaysCoin q amt \<Rightarrow> if q = BURN_FOR_TRANSFER_ADDRESS then uint amt else 0 | _ \<Rightarrow> 0)"
    by (simp split: coin_effect.split)
  then show ?thesis using assms unfolding dest_effect_def by linarith
qed

text \<open>An effect that neither pays nor unlocks: everything else, and the sending of a report.\<close>

lemma dest_effect_quiet:
  assumes eff: "dest_effect V eff (td_others u) x"
    and "\<forall>v call. eff = Enters v call \<longrightarrow> call = None"
    and "\<forall>inp. eff = SendsMessage inp \<longrightarrow> unlocked (dv_codec V) (in_message inp) = 0 \<and>
      (\<forall>n. reported (dv_codec V) (in_message inp) = Some n \<longrightarrow> unat n \<le> dv_fees V (td_others u))"
  shows "dest_safe V u (td_set_others x u)"
proof -
  have "minted_gap V (td_set_others x u) = minted_gap V u"
    using eff assms(2) by (cases eff) (auto simp: minted_gap_def dest_effect_def)
  moreover have "burned_gap V u \<le> burned_gap V (td_set_others x u)"
    using eff dest_effect_burned [OF eff] assms(2,3)
    by (cases eff) (auto simp: burned_gap_def dest_effect_def)
  moreover have "reports_ok V u \<longrightarrow> reports_ok V (td_set_others x u)"
    using eff assms(2,3)
    by (cases eff) (fastforce simp: reports_ok_def dest_effect_def intro: order_trans)+
  ultimately show ?thesis
    using dest_effect_same [OF eff] by (auto simp: dest_safe_def dest_ok_def)
qed

subsection \<open>Inside a guarded function\<close>

definition dinside ::
  "'x dest_view \<Rightarrow> 'x token_destination \<Rightarrow> 'x token_destination \<Rightarrow> int \<Rightarrow> int \<Rightarrow> bool" where
  "dinside V u0 u k n \<longleftrightarrow> dv_entered V (td_guard u) \<and> same_dest V u0 u \<and> minted_gap V u = k \<and>
     n \<le> burned_gap V u \<and> (reports_ok V u0 \<longrightarrow> reports_ok V u)"

definition dest_honest :: "'x dest_view \<Rightarrow> 'x token_destination tenv \<Rightarrow> bool" where
  "dest_honest V E \<longleftrightarrow> guard_pair (dv_entered V) (t_guardBefore E) (t_guardAfter E) \<and>
     codec_follows (dv_codec V) E \<and>
     (\<forall>u. unat (coin_balance E BURNED_TX_FEES_ADDRESS u) = dv_fees V (td_others u))"

definition dest_env :: "'x dest_view \<Rightarrow> 'x token_destination tenv \<Rightarrow> bool" where
  "dest_env V E \<longleftrightarrow> dest_honest V E \<and>
     external_calls (dest_safe V) td_others td_set_others (dest_effect V) (tenv_calls E)"

lemma dest_envD:
  assumes "dest_env V E"
  shows "external_calls (dest_safe V) td_others td_set_others (dest_effect V) (tenv_calls E)"
    and "codec_follows (dv_codec V) E"
    and "t_guardBefore E g = Inr g' \<Longrightarrow> \<not> dv_entered V g \<and> dv_entered V g'"
    and "\<not> dv_entered V (t_guardAfter E g)"
    and "unat (coin_balance E BURNED_TX_FEES_ADDRESS u) = dv_fees V (td_others u)"
  using assms by (auto simp: dest_env_def dest_honest_def guard_pair_def)

lemma dinside_safe: "dest_safe V u v \<Longrightarrow> dinside V u0 u k n \<Longrightarrow> dinside V u0 v k n"
  by (auto simp: dest_safe_def [of V u v] dinside_def intro: same_dest_trans)

lemma dinside_fee:
  assumes env: "dest_env V E" and run: "t_takeFee E m fee u = Inr (adj, v)"
    and "dinside V u0 u k n"
  shows "dinside V u0 v k n"
  using run tenv_callsD(1,2) [OF dest_envD(1) [OF env]] dinside_safe [OF _ assms(3)] dinside_safe
    assms(3)
  by (auto simp: t_takeFee_def t_safeTransferFrom_def split: if_splits; blast)

lemma dinside_effect:
  assumes "\<exists>a1 x. dest_safe V u a1 \<and> dest_effect V eff (td_others a1) x \<and>
      dest_safe V (td_set_others x a1) v"
    and u: "dinside V u0 u k n" and eff: "\<forall>v call. eff \<noteq> Enters v call"
    and rep: "\<forall>inp. eff = SendsMessage inp \<longrightarrow> reported (dv_codec V) (in_message inp) = None"
    and n: "m \<le> n + (case eff of
        PaysCoin q amt \<Rightarrow> if q = BURN_FOR_TRANSFER_ADDRESS then uint amt else 0
      | SendsMessage inp \<Rightarrow> - unlocked (dv_codec V) (in_message inp) | _ \<Rightarrow> 0)"
  shows "dinside V u0 v k m"
proof -
  from assms(1) obtain a1 x where a1: "dest_safe V u a1"
    and x: "dest_effect V eff (td_others a1) x" and v: "dest_safe V (td_set_others x a1) v" by blast
  have a: "dinside V u0 a1 k n" using a1 u by (rule dinside_safe)
  have "minted_gap V (td_set_others x a1) = minted_gap V a1"
    using x eff by (cases eff) (auto simp: minted_gap_def dest_effect_def)
  moreover have "m \<le> burned_gap V (td_set_others x a1)"
  proof -
    have "n \<le> burned_gap V a1" using a by (simp add: dinside_def)
    moreover have "burned_gap V a1 + (m - n) \<le> burned_gap V (td_set_others x a1)"
      using x n eff amounts_not_negative(2) [of "dv_codec V"
          "case eff of SendsMessage inp \<Rightarrow> in_message inp | _ \<Rightarrow> []"]
      by (cases eff) (auto simp: burned_gap_def dest_effect_def split: if_splits)
    ultimately show ?thesis by linarith
  qed
  moreover have "reports_ok V a1 \<longrightarrow> reports_ok V (td_set_others x a1)"
    using x eff rep
    by (cases eff) (fastforce simp: reports_ok_def dest_effect_def intro: order_trans)+
  moreover have "same_dest V u0 (td_set_others x a1)"
    using a dest_effect_same [OF x] by (auto simp: dinside_def intro: same_dest_trans)
  ultimately have "dinside V u0 (td_set_others x a1) k m" using a by (simp add: dinside_def)
  with v show ?thesis by (rule dinside_safe)
qed

text \<open>A guarded function called from outside, with a message that pays \<open>paid_in\<close>.\<close>

definition paid_in ::
  "'x dest_view \<Rightarrow> 'x token_destination \<Rightarrow> (bytes32 \<times> address \<times> bytes) option \<Rightarrow> int" where
  "paid_in V u call = (case call of
       Some (c, b, m) \<Rightarrow>
         if c = sourceBlockchainID u \<and> b = nativeTokenSourceAddress u then paid (dv_codec V) m else 0
     | None \<Rightarrow> 0)"

definition dest_done ::
  "'x dest_view \<Rightarrow> 'x token_destination \<Rightarrow> 'x token_destination \<Rightarrow> int \<Rightarrow> int \<Rightarrow> bool" where
  "dest_done V w r k n \<longleftrightarrow> same_dest V w r \<and> minted_gap V r = k \<and> n \<le> burned_gap V r \<and>
     (reports_ok V w \<longrightarrow> reports_ok V r)"

lemma dinside_done: "dinside V w r k n \<Longrightarrow> dest_done V w r k n"
  by (simp add: dinside_def dest_done_def)

lemma dest_guarded:
  assumes env: "dest_env V E" and eff: "dest_effect V (Enters val call) (td_others u) x"
    and run: "td_nonReentrant E body (td_set_others x u) = Inr v"
    and body: "\<And>w r k n. body w = Inr r \<Longrightarrow> dinside V w w k n \<Longrightarrow>
      dest_done V w r (k + paid_in V w call) n"
  shows "dest_safe V u v"
proof -
  from run obtain g r where g: "t_guardBefore E (td_guard u) = Inr g"
    and b: "body ((td_set_others x u)\<lparr>td_guard := g\<rparr>) = Inr r"
    and v: "v = r\<lparr>td_guard := t_guardAfter E (td_guard r)\<rparr>"
    by (auto simp: td_nonReentrant_def)
  let ?w = "(td_set_others x u)\<lparr>td_guard := g\<rparr>"
  have e: "\<not> dv_entered V (td_guard u)" "dv_entered V g"
    using dest_envD(3) [OF env g] by auto
  have "minted_gap V ?w = minted_gap V u - paid_in V ?w call"
    using eff by (auto simp: minted_gap_def dest_effect_def paid_in_def split: option.splits)
  then have "dinside V ?w ?w (minted_gap V u - paid_in V ?w call) (burned_gap V ?w)"
    using e(2) by (simp add: dinside_def same_dest_def)
  from body [OF b this] have r: "dest_done V ?w r (minted_gap V u) (burned_gap V ?w)" by simp
  have "burned_gap V u \<le> burned_gap V ?w"
    using eff dest_effect_burned [OF eff] by (cases call) (auto simp: burned_gap_def dest_effect_def)
  moreover have "reports_ok V u \<longrightarrow> reports_ok V ?w"
    using eff by (cases call) (fastforce simp: reports_ok_def dest_effect_def intro: order_trans)+
  moreover have "same_dest V u ?w" using dest_effect_same [OF eff] by (simp add: same_dest_def collateral_first_def)
  moreover have "minted_gap V v = minted_gap V r" "burned_gap V v = burned_gap V r"
    "reports_ok V v = reports_ok V r" "same_dest V u v = same_dest V u r"
    by (simp_all add: v minted_gap_def burned_gap_def reports_ok_def same_dest_def collateral_first_def)
  ultimately show ?thesis
    using r e(1) same_dest_trans [of V u ?w r] by (auto simp: dest_safe_def dest_ok_def dest_done_def)
qed

subsection \<open>Each operation keeps the books\<close>

datatype destination_op =
    ToSource address TeleporterFeeInfo "address list"
  | ReportBurned TeleporterFeeInfo "address list"
  | DestinationReceive bytes32 address bytes

fun run_destination ::
  "'x token_destination tenv \<Rightarrow> destination_op \<Rightarrow> 'x token_destination
    \<Rightarrow> sol_error + 'x token_destination" where
  "run_destination E (ToSource recipient fee allowed) u = transferToSource E recipient fee allowed u"
| "run_destination E (ReportBurned fee allowed) u = reportTotalBurnedTxFees E fee allowed u"
| "run_destination E (DestinationReceive chain origin msg) u = destination_receive E chain origin msg u"

fun destination_called :: "'x token_destination tenv \<Rightarrow> destination_op \<Rightarrow> coin_effect" where
  "destination_called E (ToSource recipient fee allowed) = Enters (t_value E) None"
| "destination_called E (ReportBurned fee allowed) = Enters 0 None"
| "destination_called E (DestinationReceive chain origin msg) = Enters 0 (Some (chain, origin, msg))"

lemma transferToSource_safe:
  assumes env: "dest_env V E" and eff: "dest_effect V (Enters val None) (td_others u) x"
    and run: "transferToSource E recipient fee allowed (td_set_others x u) = Inr v"
  shows "dest_safe V u v"
  using env eff run [unfolded transferToSource_def]
proof (rule dest_guarded, goal_cases)
  case (1 w r k n)
  note C = amounts_encode [OF dest_envD(2) [OF env]]
  from 1(1) obtain adj u1 u2 mid u3 e where
    f: "t_takeFee E (td_teleporterMessenger w) fee w = Inr (adj, u1)"
    and p: "sendValue E BURN_FOR_TRANSFER_ADDRESS (t_value E) u1 = Inr u2"
    and s: "t_send E (td_teleporterMessenger u2) (t_message (sourceBlockchainID u2)
        (nativeTokenSourceAddress u2) fee TRANSFER_NATIVE_TOKENS_REQUIRED_GAS allowed
        (encode_source_action E Unlock (encode_payment E recipient (t_value E)))) u2
      = Inr (mid, u3)"
    and r: "r = td_emit e u3" by auto
  have u1: "dinside V w u1 k n" by (rule dinside_fee [OF env f 1(2)])
  have u2: "dinside V w u2 k (n + uint (t_value E))"
    using tenv_callsD(4) [OF dest_envD(1) [OF env] p] u1 by (rule dinside_effect) simp_all
  have "dinside V w u3 k n"
    using tenv_callsD(6) [OF dest_envD(1) [OF env] s] u2
    by (rule dinside_effect) (simp_all add: t_message_def C)
  then have "dinside V w r k n" by (simp add: r dinside_def)
  then show ?case by (simp add: dinside_done paid_in_def)
qed

lemma report_safe:
  assumes env: "dest_env V E"
    and run: "reportTotalBurnedTxFees E fee allowed u = Inr v"
  shows "dest_safe V u v"
proof -
  note C = amounts_encode [OF dest_envD(2) [OF env]]
  from run obtain n mid u1 e where n: "n = coin_balance E BURNED_TX_FEES_ADDRESS u"
    and s: "t_send E (td_teleporterMessenger u) (t_message (sourceBlockchainID u)
        (nativeTokenSourceAddress u) fee REPORT_BURNED_TOKENS_REQUIRED_GAS allowed
        (encode_source_action E Burn (encode_total E n))) u = Inr (mid, u1)"
    and v: "v = td_emit e u1"
    by (auto simp: reportTotalBurnedTxFees_def Let_def)
  from tenv_callsD(6) [OF dest_envD(1) [OF env] s] obtain a1 x where a1: "dest_safe V u a1"
    and x: "dest_effect V (SendsMessage (t_message (sourceBlockchainID u)
        (nativeTokenSourceAddress u) fee REPORT_BURNED_TOKENS_REQUIRED_GAS allowed
        (encode_source_action E Burn (encode_total E n)))) (td_others a1) x"
    and u1: "dest_safe V (td_set_others x a1) u1" by blast
  have "unat n \<le> dv_fees V (td_others a1)"
    using a1 by (simp add: n dest_envD(5) [OF env] dest_safe_def same_dest_def)
  then have "dest_safe V a1 (td_set_others x a1)"
    by (intro dest_effect_quiet [OF x]) (simp_all add: t_message_def C)
  with a1 u1 have "dest_safe V u u1" by (blast intro: dest_safe_trans)
  then show ?thesis unfolding v by (rule td_emit_safe)
qed

lemma mint_done:
  assumes env: "dest_env V E" and run: "destination_mint E q amt u = Inr r"
    and u: "dinside V w u k n" and ready: "currentReserveImbalance u = 0"
  shows "dest_done V w r (k + uint amt) n"
proof -
  from run obtain m where m: "checked_add (totalMinted u) amt = Inr m"
    and mint: "mintNativeCoin E q amt (td_emit (LogNativeTokensMinted q amt) (u\<lparr>totalMinted := m\<rparr>))
      = Inr r"
    by (auto simp: destination_mint_def)
  have "totalMinted u \<le> m"
    using checked_add_uint [OF m] uint_ge_0 [of amt] by (simp add: word_le_def)
  then have "same_dest V u (u\<lparr>totalMinted := m\<rparr>)"
    using ready by (simp add: same_dest_def collateral_first_def)
  then have "dinside V w (u\<lparr>totalMinted := m\<rparr>) (k + uint amt) n"
    using u checked_add_uint [OF m] same_dest_trans [of V w u]
    by (auto simp: dinside_def minted_gap_def burned_gap_def reports_ok_def)
  then have "dinside V w (td_emit (LogNativeTokensMinted q amt) (u\<lparr>totalMinted := m\<rparr>)) (k + uint amt) n"
    by (simp add: dinside_def)
  with tenv_callsD(5) [OF dest_envD(1) [OF env] mint]
  have "dinside V w r (k + uint amt) n" by (rule dinside_effect) simp_all
  then show ?thesis by (rule dinside_done)
qed

lemma destination_receive_safe:
  assumes env: "dest_env V E"
    and eff: "dest_effect V (Enters 0 (Some (chain, origin, msg))) (td_others u) x"
    and run: "destination_receive E chain origin msg (td_set_others x u) = Inr v"
  shows "dest_safe V u v"
  using env eff run [unfolded destination_receive_def]
proof (rule dest_guarded, goal_cases)
  case (1 w r k n)
  from 1(1) obtain q amt where d: "decode_payment E msg = Some (q, amt)"
    and peer: "chain = sourceBlockchainID w" "origin = nativeTokenSourceAddress w"
    and body: "(if currentReserveImbalance w > 0 then
           if amt > currentReserveImbalance w then
             let u1 = td_emit (LogCollateralAdded (currentReserveImbalance w) 0) w
             in bindE (checked_sub amt (currentReserveImbalance u1)) (\<lambda>adjustedAmount.
                destination_mint E q adjustedAmount (u1\<lparr>currentReserveImbalance := 0\<rparr>))
           else
             bindE (checked_sub (currentReserveImbalance w) amt) (\<lambda>n.
             let u1 = w\<lparr>currentReserveImbalance := n\<rparr>
             in Inr (td_emit (LogCollateralAdded amt (currentReserveImbalance u1)) u1))
         else destination_mint E q amt w) = Inr r"
    by (auto split: option.splits)
  have p: "paid_in V w (Some (chain, origin, msg)) = uint amt"
    using d dest_envD(2) [OF env] by (simp add: paid_in_def peer paid_def codec_follows_def)
  consider (mint) "destination_mint E q amt w = Inr r" "currentReserveImbalance w = 0"
    | (both) d where "checked_sub amt (currentReserveImbalance w) = Inr d"
        "destination_mint E q d (td_emit (LogCollateralAdded (currentReserveImbalance w) 0) w
          \<lparr>currentReserveImbalance := 0\<rparr>) = Inr r"
    | (collateral) m e where "checked_sub (currentReserveImbalance w) amt = Inr m"
        "r = td_emit e (w\<lparr>currentReserveImbalance := m\<rparr>)"
    using body by (auto simp: Let_def td_emit_def word_gt_0 split: if_splits)
  then have "dest_done V w r (k + uint amt) n"
  proof cases
    case mint
    from mint_done [OF env mint(1) 1(2) mint(2)] show ?thesis .
  next
    case both
    have "dinside V w (td_emit (LogCollateralAdded (currentReserveImbalance w) 0) w
        \<lparr>currentReserveImbalance := 0\<rparr>) (k + uint (currentReserveImbalance w)) n"
      using 1(2)
      by (auto simp: td_emit_def dinside_def same_dest_def minted_gap_def burned_gap_def reports_ok_def
          collateral_first_def)
    from mint_done [OF env both(2) this] show ?thesis
      by (simp add: checked_sub_uint [OF both(1)])
  next
    case collateral
    have "m \<le> currentReserveImbalance w"
      using checked_sub_uint [OF collateral(1)] uint_ge_0 [of amt] by (simp add: word_le_def)
    then have "same_dest V w (w\<lparr>currentReserveImbalance := m\<rparr>)"
      by (auto simp: same_dest_def collateral_first_def)
    then have "dest_done V w (w\<lparr>currentReserveImbalance := m\<rparr>) (k + uint amt) n"
      using 1(2) checked_sub_uint [OF collateral(1)]
      by (auto simp: dest_done_def dinside_def minted_gap_def burned_gap_def reports_ok_def)
    then show ?thesis by (simp add: collateral(2) dest_done_def)
  qed
  then show ?case by (simp add: p)
qed

lemma dest_safe_away:
  "dest_effect V Away (td_others u) x \<Longrightarrow> dest_safe V u (td_set_others x u)"
  by (erule dest_effect_quiet) simp_all

interpretation destination: contract_closed tenv_calls run_destination td_others td_set_others
    destination_called Away "dest_effect V" "dest_honest V" "dest_safe V" for V
proof unfold_locales
  fix E op u x v
  assume a: "dest_honest V E"
    "external_calls (dest_safe V) td_others td_set_others (dest_effect V) (tenv_calls E)"
    "dest_effect V (destination_called E op) (td_others u) x"
    "run_destination E op (td_set_others x u) = Inr v"
  then have env: "dest_env V E" by (simp add: dest_env_def)
  show "dest_safe V u v"
  proof (cases op)
    case (ReportBurned fee allowed)
    then have "dest_safe V u (td_set_others x u)"
      using a(3) by (intro dest_effect_quiet [of V "Enters 0 None"]) simp_all
    moreover have "dest_safe V (td_set_others x u) v"
      using a(4) ReportBurned by (intro report_safe [OF env]) simp
    ultimately show ?thesis by (rule dest_safe_trans)
  qed (use env a(3,4) in \<open>auto intro: transferToSource_safe destination_receive_safe\<close>)
qed (fact dest_safe_refl dest_safe_trans dest_safe_away)+

lemma new_destination:
  assumes "destination_constructor E m c b i g x = Inr u" and "dv_notes V x = []"
  shows "dest_ok V u" "reports_ok V u" "collateral_first u"
  using assms
  by (auto simp: destination_constructor_def dest_ok_def minted_gap_def burned_gap_def reports_ok_def
      collateral_first_def)

end
