(* ===== verification/Native_Token_Example.thy ===== *)
theory Native_Token_Example
  imports Native_Token_Destination Demo_Codec
begin

section \<open>A native coin that is bridged and comes back\<close>

text \<open>
  A run of a NativeTokenSource, at address 10 of chain 5, and its destination, at address 11 of
  chain 9, on which the properties of the native token bridge are checked. The other accounts of a
  chain are reduced to the coins of the contract, the two burn addresses and the notes of the
  messenger. The source locks 1000 coins, of which the destination counts 100 as collateral and
  mints 900; 300 of them come back, 50 are burned as fees, and both are settled at the source.
\<close>

record demo_coins =
  coins :: uint256
  burned_fees :: uint256
  burned_here :: uint256
  coins_paid :: "(address \<times> uint256) list"
  coins_minted :: "(address \<times> uint256) list"
  coin_notes :: "message_note list"

fun demo_coin_action :: "bytes \<Rightarrow> (SourceAction \<times> bytes) option" where
  "demo_coin_action [] = None"
| "demo_coin_action (b # d) = (if b = 0 then Some (Unlock, d) else if b = 1 then Some (Burn, d) else None)"

definition demo_pay :: "address \<Rightarrow> uint256 \<Rightarrow> demo_coins \<Rightarrow> sol_error + demo_coins" where
  "demo_pay q amt x =
     bindE (checked_sub (coins x) amt) (\<lambda>n.
     let y = x\<lparr>coins := n, coins_paid := coins_paid x @ [(q, amt)]\<rparr>
     in if q = BURN_FOR_TRANSFER_ADDRESS then
       bindE (checked_add (burned_here x) amt) (\<lambda>b. Inr (y\<lparr>burned_here := b\<rparr>))
     else Inr y)"

definition demo_mint :: "address \<Rightarrow> uint256 \<Rightarrow> demo_coins \<Rightarrow> demo_coins" where
  "demo_mint q amt x = x\<lparr>coins_minted := coins_minted x @ [(q, amt)]\<rparr>"

definition demo_note :: "TeleporterMessageInput \<Rightarrow> demo_coins \<Rightarrow> demo_coins" where
  "demo_note inp x = x\<lparr>coin_notes := coin_notes x @ noted_by (SendsMessage inp)\<rparr>"

definition demo_tenv ::
  "('w \<Rightarrow> demo_coins) \<Rightarrow> (demo_coins \<Rightarrow> 'w \<Rightarrow> 'w) \<Rightarrow> address \<Rightarrow> uint256 \<Rightarrow> 'w tenv" where
  "demo_tenv get put sender value =
     \<lparr>t_this = 10, t_sender = sender, t_value = value, t_blockchainID = 77,
      t_guardBefore = (\<lambda>g. if g = 2 then Inl (Revert ''ReentrancyGuard: reentrant call'') else Inr 2),
      t_guardAfter = (\<lambda>_. 1),
      encode_payment = (\<lambda>r amt. demo_encode (r, amt)), decode_payment = demo_decode,
      encode_source_action = (\<lambda>a d. (case a of Unlock \<Rightarrow> 0 | Burn \<Rightarrow> 1) # d),
      decode_source_action = demo_coin_action,
      encode_total = demo_encode, decode_total = demo_decode,
      coin_balance = (\<lambda>a u. if a = BURNED_TX_FEES_ADDRESS then burned_fees (get u)
        else if a = BURN_FOR_TRANSFER_ADDRESS then burned_here (get u) else coins (get u)),
      sendValue = (\<lambda>q amt u. bindE (demo_pay q amt (get u)) (\<lambda>x. Inr (put x u))),
      mintNativeCoin = (\<lambda>q amt u. Inr (put (demo_mint q amt (get u)) u)),
      t_balanceOf = (\<lambda>t a u. Inl (ExternalRevert [])),
      t_transferFrom = (\<lambda>t a b amt u. Inl (ExternalRevert [])),
      t_transfer = (\<lambda>t a amt u. Inl (ExternalRevert [])),
      t_increaseAllowance = (\<lambda>t a amt u. Inl (ExternalRevert [])),
      t_send = (\<lambda>m inp u. Inr (1, put (demo_note inp (get u)) u))\<rparr>"

definition demo_payments :: payment_codec where
  "demo_payments = \<lparr>pc_payment = demo_decode, pc_action = demo_coin_action, pc_total = demo_decode\<rparr>"

lemma demo_payment_codec: "codec_follows demo_payments (demo_tenv get put s v)"
  by (auto simp: codec_follows_def demo_payments_def demo_tenv_def split: SourceAction.splits)

lemma demo_tenv_calls:
  assumes "\<And>u. R u u"
    and "\<And>q amt x y. demo_pay q amt x = Inr y \<Longrightarrow> Eff (PaysCoin q amt) x y"
    and "\<And>q amt x. Eff (MintsCoin q amt) x (demo_mint q amt x)" and "\<And>inp x. Eff (SendsMessage inp) x (demo_note inp x)"
  shows "external_calls R get put Eff (tenv_calls (demo_tenv get put s v))"
  unfolding external_calls_def tenv_calls_def
proof (intro ballI allI impI, elim UnE CollectE exE conjE, goal_cases)
  case (4 c a b q amt)
  then obtain x where "demo_pay q amt (get a) = Inr x" "b = put x a"
    by (auto simp: demo_tenv_def)
  then show ?case using 4 assms(1,2) by fastforce
next
  case (5 c a b q amt)
  then have "b = put (demo_mint q amt (get a)) a" by (simp add: demo_tenv_def)
  then show ?case using 5 assms(1,3) by fastforce
next
  case (6 c a b m inp)
  then have "b = put (demo_note inp (get a)) a" by (simp add: demo_tenv_def)
  then show ?case using 6 assms(1,4) by fastforce
qed (simp_all add: demo_tenv_def)

fun demo_enter :: "coin_effect \<Rightarrow> demo_coins \<Rightarrow> demo_coins" where
  "demo_enter (Enters v call) x =
     x\<lparr>coins := coins x + v, coin_notes := coin_notes x @ noted_by (Enters v call)\<rparr>"
| "demo_enter _ x = x"

subsection \<open>The source\<close>

definition demo_source_view :: "demo_coins source_view" where
  "demo_source_view = \<lparr>sv_notes = coin_notes, sv_balance = (\<lambda>x. unat (coins x)), sv_paid = coins_paid,
     sv_asset = Coin,
     sv_entered = (\<lambda>g. g = 2), sv_codec = demo_payments\<rparr>"

abbreviation source_tenv :: "address \<Rightarrow> uint256 \<Rightarrow> demo_coins token_source tenv" where
  "source_tenv \<equiv> demo_tenv ts_others (\<lambda>x u. u\<lparr>ts_others := x\<rparr>)"

definition demo_source_run ::
  "address \<Rightarrow> uint256 \<Rightarrow> native_source_op \<Rightarrow> demo_coins token_source
    \<Rightarrow> sol_error + demo_coins token_source" where
  "demo_source_run s v op u = run_native_source (source_tenv s v) op
     (u\<lparr>ts_others := demo_enter (native_source_called (source_tenv s v) op) (ts_others u)\<rparr>)"

abbreviation demo_source_happens ::
  "demo_coins token_source \<Rightarrow> demo_coins token_source \<Rightarrow> bool" where
  "demo_source_happens \<equiv> happens tenv_calls run_native_source ts_others ts_set_others
     native_source_called Away (source_effect demo_source_view) (native_source_honest demo_source_view)"

lemma demo_source_honest: "native_source_honest demo_source_view (source_tenv s v)"
  using demo_payment_codec [of ts_others]
  by (auto simp: native_source_honest_def source_honest_def guard_pair_def demo_source_view_def)
    (auto simp: demo_tenv_def split: if_splits)

lemma demo_pay_source: "demo_pay q amt x = Inr y \<Longrightarrow> source_effect demo_source_view (PaysCoin q amt) x y"
  by (auto simp: demo_pay_def source_effect_def demo_source_view_def Let_def dest!: checked_sub_uint
      split: if_splits)

lemma demo_source_step:
  assumes "demo_source_run s v op u = Inr u1" and "demo_source_happens u1 u'"
    and "uint (coins (ts_others u) + v) = uint (coins (ts_others u)) + uint v"
  shows "demo_source_happens u u'"
proof (rule happens.operation)
  show "native_source_honest demo_source_view (source_tenv s v)" by (rule demo_source_honest)
  show "external_calls demo_source_happens ts_others ts_set_others (source_effect demo_source_view)
      (tenv_calls (source_tenv s v))"
  proof (rule demo_tenv_calls)
    show "demo_source_happens a a" for a by (rule happens.stop)
  qed (auto dest: demo_pay_source simp: source_effect_def demo_source_view_def demo_note_def demo_mint_def)
  show "source_effect demo_source_view (native_source_called (source_tenv s v) op) (ts_others u)
      (demo_enter (native_source_called (source_tenv s v) op) (ts_others u))"
    using assms(3) by (cases op) (simp_all add: source_effect_def demo_source_view_def demo_tenv_def)
  show "run_native_source (source_tenv s v) op
      (u\<lparr>ts_others := demo_enter (native_source_called (source_tenv s v) op) (ts_others u)\<rparr>) = Inr u1"
    using assms(1) by (simp add: demo_source_run_def)
qed (fact assms(2))

subsection \<open>The destination\<close>

definition demo_dest_view :: "demo_coins dest_view" where
  "demo_dest_view = \<lparr>dv_notes = coin_notes, dv_minted = coins_minted, dv_fees = (\<lambda>x. unat (burned_fees x)),
     dv_burned = (\<lambda>x. unat (burned_here x)), dv_entered = (\<lambda>g. g = 2), dv_codec = demo_payments\<rparr>"

abbreviation dest_tenv :: "address \<Rightarrow> uint256 \<Rightarrow> demo_coins token_destination tenv" where
  "dest_tenv \<equiv> demo_tenv td_others (\<lambda>x u. u\<lparr>td_others := x\<rparr>)"

definition demo_dest_run ::
  "address \<Rightarrow> uint256 \<Rightarrow> destination_op \<Rightarrow> demo_coins token_destination
    \<Rightarrow> sol_error + demo_coins token_destination" where
  "demo_dest_run s v op u = run_destination (dest_tenv s v) op
     (u\<lparr>td_others := demo_enter (destination_called (dest_tenv s v) op) (td_others u)\<rparr>)"

abbreviation demo_dest_happens ::
  "demo_coins token_destination \<Rightarrow> demo_coins token_destination \<Rightarrow> bool" where
  "demo_dest_happens \<equiv> happens tenv_calls run_destination td_others td_set_others
     destination_called Away (dest_effect demo_dest_view) (dest_honest demo_dest_view)"

lemma demo_dest_honest: "dest_honest demo_dest_view (dest_tenv s v)"
  using demo_payment_codec [of td_others]
  by (auto simp: dest_honest_def guard_pair_def demo_dest_view_def)
    (auto simp: demo_tenv_def split: if_splits)

lemma demo_pay_dest:
  "demo_pay q amt x = Inr y \<Longrightarrow> dest_effect demo_dest_view (PaysCoin q amt) x y"
  by (cases "q = BURN_FOR_TRANSFER_ADDRESS")
    (auto simp: demo_pay_def dest_effect_def demo_dest_view_def Let_def dest!: checked_add_uint)

lemma demo_dest_step:
  assumes "demo_dest_run s v op u = Inr u1" and "demo_dest_happens u1 u'"
  shows "demo_dest_happens u u'"
proof (rule happens.operation)
  show "dest_honest demo_dest_view (dest_tenv s v)" by (rule demo_dest_honest)
  show "external_calls demo_dest_happens td_others td_set_others (dest_effect demo_dest_view)
      (tenv_calls (dest_tenv s v))"
  proof (rule demo_tenv_calls)
    show "demo_dest_happens a a" for a by (rule happens.stop)
  qed (auto dest: demo_pay_dest simp: dest_effect_def demo_dest_view_def demo_note_def demo_mint_def)
  show "dest_effect demo_dest_view (destination_called (dest_tenv s v) op) (td_others u)
      (demo_enter (destination_called (dest_tenv s v) op) (td_others u))"
    by (cases op) (simp_all add: dest_effect_def demo_dest_view_def)
  show "run_destination (dest_tenv s v) op
      (u\<lparr>td_others := demo_enter (destination_called (dest_tenv s v) op) (td_others u)\<rparr>) = Inr u1"
    using assms(1) by (simp add: demo_dest_run_def)
qed (fact assms(2))

lemma demo_dest_away:
  assumes "burned_fees (td_others u) \<le> n"
    and "demo_dest_happens (u\<lparr>td_others := (td_others u)\<lparr>burned_fees := n\<rparr>\<rparr>) u'"
  shows "demo_dest_happens u u'"
  using assms
  by (intro happens.elsewhere [OF _ assms(2)])
    (simp_all add: dest_effect_def demo_dest_view_def word_le_nat_alt)

subsection \<open>The run\<close>

definition no_fee :: TeleporterFeeInfo where
  "no_fee = \<lparr>feeTokenAddress = 0, feeAmount = 0\<rparr>"

definition no_coins :: demo_coins where
  "no_coins = \<lparr>coins = 0, burned_fees = 0, burned_here = 0, coins_paid = [],
     coins_minted = [], coin_notes = []\<rparr>"

definition payment_message :: bytes where
  "payment_message = encode_payment (source_tenv 0 0) 99 1000"

definition unlock_message :: bytes where
  "unlock_message = encode_source_action (dest_tenv 0 0) Unlock
     (encode_payment (dest_tenv 0 0) 88 300)"

definition burn_message :: bytes where
  "burn_message = encode_source_action (dest_tenv 0 0) Burn (encode_total (dest_tenv 0 0) 50)"

definition coin_source0 :: "demo_coins token_source" where
  "coin_source0 = projr (native_source_constructor (source_tenv 1 0) 13 9 11 1 no_coins)"

definition coin_source1 :: "demo_coins token_source" where
  "coin_source1 = projr (demo_source_run 42 1000 (NativeTransfer 99 no_fee []) coin_source0)"

definition coin_source2 :: "demo_coins token_source" where
  "coin_source2 = projr (demo_source_run 13 0 (NativeReceive 9 11 unlock_message) coin_source1)"

definition coin_source3 :: "demo_coins token_source" where
  "coin_source3 = projr (demo_source_run 13 0 (NativeReceive 9 11 burn_message) coin_source2)"

definition coin_dest0 :: "demo_coins token_destination" where
  "coin_dest0 = projr (destination_constructor (dest_tenv 1 0) 13 5 10 100 1 no_coins)"

definition coin_dest1 :: "demo_coins token_destination" where
  "coin_dest1 = projr (demo_dest_run 13 0 (DestinationReceive 5 10 payment_message) coin_dest0)"

definition coin_dest2 :: "demo_coins token_destination" where
  "coin_dest2 = projr (demo_dest_run 99 300 (ToSource 88 no_fee []) coin_dest1)"

definition coin_dest3 :: "demo_coins token_destination" where
  "coin_dest3 = projr (demo_dest_run 7 0 (ReportBurned no_fee [])
     (coin_dest2\<lparr>td_others := (td_others coin_dest2)\<lparr>burned_fees := 50\<rparr>\<rparr>))"

lemma coins_constructed:
  "native_source_constructor (source_tenv 1 0) 13 9 11 1 no_coins = Inr coin_source0"
  "destination_constructor (dest_tenv 1 0) 13 5 10 100 1 no_coins = Inr coin_dest0"
  by (simp_all add: coin_source0_def coin_dest0_def native_source_constructor_def
      destination_constructor_def demo_tenv_def)

lemmas coin_eval = demo_source_run_def demo_dest_run_def ts_nonReentrant_def td_nonReentrant_def
  ts_emit_def td_emit_def demo_tenv_def demo_note_def demo_mint_def demo_pay_def Let_def t_takeFee_def t_message_def
  checked_add_def checked_sub_def no_fee_def payment_message_def unlock_message_def burn_message_def
  native_transferToDestination_def native_source_receive_def native_unlockTokens_def
  native_handleBurnTokens_def native_burnTokens_def destination_receive_def destination_mint_def
  transferToSource_def reportTotalBurnedTxFees_def BURNED_TX_FEES_ADDRESS_def
  BURN_FOR_TRANSFER_ADDRESS_def

lemma coin_source0_state:
  "coin_source0 = \<lparr>ts_guard = 1, destinationBurnedTotal = 0, ts_destinationBlockchainID = 9,
     nativeTokenDestinationAddress = 11, ts_teleporterMessenger = 13, erc20ContractAddress = 0,
     ts_logs = [], ts_others = no_coins\<rparr>"
  by (simp add: coin_source0_def native_source_constructor_def demo_tenv_def)

lemma coin_source1_state:
  "demo_source_run 42 1000 (NativeTransfer 99 no_fee []) coin_source0 = Inr coin_source1"
  "coin_source1 = \<lparr>ts_guard = 1, destinationBurnedTotal = 0, ts_destinationBlockchainID = 9,
     nativeTokenDestinationAddress = 11, ts_teleporterMessenger = 13, erc20ContractAddress = 0,
     ts_logs = [LogTransferToDestination 42 99 1 1000],
     ts_others = \<lparr>coins = 1000, burned_fees = 0, burned_here = 0, coins_paid = [], coins_minted = [],
       coin_notes = [Sent 9 11 payment_message]\<rparr>\<rparr>"
  by (simp_all add: coin_source1_def coin_source0_state no_coins_def coin_eval)

lemma coin_source2_state:
  "demo_source_run 13 0 (NativeReceive 9 11 unlock_message) coin_source1 = Inr coin_source2"
  "coin_source2 = \<lparr>ts_guard = 1, destinationBurnedTotal = 0, ts_destinationBlockchainID = 9,
     nativeTokenDestinationAddress = 11, ts_teleporterMessenger = 13, erc20ContractAddress = 0,
     ts_logs = [LogTransferToDestination 42 99 1 1000, LogUnlockTokens 88 300],
     ts_others = \<lparr>coins = 700, burned_fees = 0, burned_here = 0, coins_paid = [(88, 300)], coins_minted = [],
       coin_notes = [Sent 9 11 payment_message, Executed 9 11 unlock_message]\<rparr>\<rparr>"
  by (simp_all add: coin_source2_def coin_source1_state coin_eval)

lemma coin_source3_state:
  "demo_source_run 13 0 (NativeReceive 9 11 burn_message) coin_source2 = Inr coin_source3"
  "coin_source3 = \<lparr>ts_guard = 1, destinationBurnedTotal = 50, ts_destinationBlockchainID = 9,
     nativeTokenDestinationAddress = 11, ts_teleporterMessenger = 13, erc20ContractAddress = 0,
     ts_logs = [LogTransferToDestination 42 99 1 1000, LogUnlockTokens 88 300, LogBurnTokens 50],
     ts_others = \<lparr>coins = 650, burned_fees = 0, burned_here = 0, coins_paid = [(88, 300), (BURNED_TX_FEES_ADDRESS, 50)], coins_minted = [],
       coin_notes = [Sent 9 11 payment_message, Executed 9 11 unlock_message,
         Executed 9 11 burn_message]\<rparr>\<rparr>"
  by (simp_all add: coin_source3_def coin_source2_state coin_eval)

lemma coin_dest1_state:
  "demo_dest_run 13 0 (DestinationReceive 5 10 payment_message) coin_dest0 = Inr coin_dest1"
  "coin_dest1 = \<lparr>td_guard = 1, sourceBlockchainID = 5, nativeTokenSourceAddress = 10,
     initialReserveImbalance = 100, currentReserveImbalance = 0, totalMinted = 900,
     td_teleporterMessenger = 13, td_logs = [LogCollateralAdded 100 0, LogNativeTokensMinted 99 900],
     td_others = \<lparr>coins = 0, burned_fees = 0, burned_here = 0, coins_paid = [], coins_minted = [(99, 900)],
       coin_notes = [Executed 5 10 payment_message]\<rparr>\<rparr>"
  by (simp_all add: coin_dest1_def coin_dest0_def destination_constructor_def no_coins_def coin_eval)

lemma coin_dest2_state:
  "demo_dest_run 99 300 (ToSource 88 no_fee []) coin_dest1 = Inr coin_dest2"
  "coin_dest2 = \<lparr>td_guard = 1, sourceBlockchainID = 5, nativeTokenSourceAddress = 10,
     initialReserveImbalance = 100, currentReserveImbalance = 0, totalMinted = 900,
     td_teleporterMessenger = 13, td_logs = [LogCollateralAdded 100 0, LogNativeTokensMinted 99 900,
       LogTransferToSource 99 88 1 300],
     td_others = \<lparr>coins = 0, burned_fees = 0, burned_here = 300, coins_paid = [(BURN_FOR_TRANSFER_ADDRESS, 300)], coins_minted = [(99, 900)],
       coin_notes = [Executed 5 10 payment_message, Sent 5 10 unlock_message]\<rparr>\<rparr>"
  by (simp_all add: coin_dest2_def coin_dest1_state coin_eval)

lemma coin_dest3_state:
  "demo_dest_run 7 0 (ReportBurned no_fee [])
     (coin_dest2\<lparr>td_others := (td_others coin_dest2)\<lparr>burned_fees := 50\<rparr>\<rparr>) = Inr coin_dest3"
  "coin_dest3 = \<lparr>td_guard = 1, sourceBlockchainID = 5, nativeTokenSourceAddress = 10,
     initialReserveImbalance = 100, currentReserveImbalance = 0, totalMinted = 900,
     td_teleporterMessenger = 13, td_logs = [LogCollateralAdded 100 0, LogNativeTokensMinted 99 900,
       LogTransferToSource 99 88 1 300, LogReportTotalBurnedTxFees 1 50],
     td_others = \<lparr>coins = 0, burned_fees = 50, burned_here = 300, coins_paid = [(BURN_FOR_TRANSFER_ADDRESS, 300)], coins_minted = [(99, 900)],
       coin_notes = [Executed 5 10 payment_message, Sent 5 10 unlock_message,
         Sent 5 10 burn_message]\<rparr>\<rparr>"
  by (simp_all add: coin_dest3_def coin_dest2_state coin_eval)

lemma coin_source_reached: "demo_source_happens coin_source0 coin_source3"
  by (intro demo_source_step [OF coin_source1_state(1)] demo_source_step [OF coin_source2_state(1)]
      demo_source_step [OF coin_source3_state(1)] happens.stop)
    (simp_all add: coin_source0_state coin_source1_state coin_source2_state no_coins_def)

lemma coin_dest_reached: "demo_dest_happens coin_dest0 coin_dest3"
  by (intro demo_dest_step [OF coin_dest1_state(1)] demo_dest_step [OF coin_dest2_state(1)]
      demo_dest_away [of coin_dest2 50] demo_dest_step [OF coin_dest3_state(1)] happens.stop)
    (simp add: coin_dest2_state)

end
