(* ===== verification/Native_Token_Payments.thy ===== *)
theory Native_Token_Payments
  imports Native_Token_Destination
begin

section \<open>What a token source pays and what a token destination mints\<close>

text \<open>
  The views of the two contracts record every payment that a source makes in its asset, and every
  coin that the destination mints, with the recipient and the amount given to the call. Here these
  records are shown to be exactly what the executed messages say, in their order: \<open>settled\<close> is the
  list of payments that a list of messages calls for, \<open>minting\<close> the list of mints.
\<close>

subsection \<open>What a list of messages calls for\<close>

fun settle ::
  "payment_codec \<Rightarrow> (address \<times> uint256) list \<times> uint256 \<Rightarrow> bytes \<Rightarrow> (address \<times> uint256) list \<times> uint256" where
  "settle C (ps, before) m = (case pc_action C m of
     None \<Rightarrow> (ps, before)
   | Some (Unlock, d) \<Rightarrow> (case pc_payment C d of None \<Rightarrow> (ps, before) | Some p \<Rightarrow> (ps @ [p], before))
   | Some (Burn, d) \<Rightarrow> (case pc_total C d of
       None \<Rightarrow> (ps, before)
     | Some n \<Rightarrow> if n > before then (ps @ [(BURNED_TX_FEES_ADDRESS, n - before)], n) else (ps, before)))"

definition settled :: "payment_codec \<Rightarrow> bytes list \<Rightarrow> (address \<times> uint256) list \<times> uint256" where
  "settled C ms = foldl (settle C) ([], 0) ms"

abbreviation amounts :: "(address \<times> uint256) list \<Rightarrow> int" where
  "amounts ps \<equiv> \<Sum>p\<leftarrow>ps. uint (snd p)"

lemma uint_difference: "(b :: 'a :: len word) \<le> a \<Longrightarrow> uint (a - b) = uint a - uint b"
  by (simp add: uint_sub_if_size word_le_def)

lemma settled_amounts:
  "settled C ms = (ps, t) \<Longrightarrow> amounts ps = (\<Sum>m\<leftarrow>ms. unlocked C m) + uint t"
proof (induction ms arbitrary: ps t rule: rev_induct)
  case (snoc m ms)
  obtain ps0 t0 where s: "settled C ms = (ps0, t0)" by force
  then have "settle C (ps0, t0) m = (ps, t)" using snoc.prems by (simp add: settled_def)
  then show ?case
    using snoc.IH [OF s]
    by (auto simp: unlocked_def paid_def uint_difference less_imp_le
        split: option.splits SourceAction.splits if_splits)
qed (simp add: settled_def)

fun mint_step ::
  "payment_codec \<Rightarrow> (address \<times> uint256) list \<times> uint256 \<Rightarrow> bytes \<Rightarrow> (address \<times> uint256) list \<times> uint256" where
  "mint_step C (ps, missing) m = (case pc_payment C m of
     None \<Rightarrow> (ps, missing)
   | Some (q, amt) \<Rightarrow>
       if missing = 0 then (ps @ [(q, amt)], 0)
       else if amt > missing then (ps @ [(q, amt - missing)], 0)
       else (ps, missing - amt))"

definition minting ::
  "payment_codec \<Rightarrow> uint256 \<Rightarrow> bytes list \<Rightarrow> (address \<times> uint256) list \<times> uint256" where
  "minting C imbalance ms = foldl (mint_step C) ([], imbalance) ms"

lemma minting_amounts:
  "minting C i ms = (ps, c) \<Longrightarrow>
    amounts ps + uint i - uint c = (\<Sum>m\<leftarrow>ms. paid C m) \<and> (c = 0 \<or> ps = [])"
proof (induction ms arbitrary: ps c rule: rev_induct)
  case (snoc m ms)
  obtain ps0 c0 where s: "minting C i ms = (ps0, c0)" by force
  then have "mint_step C (ps0, c0) m = (ps, c)" using snoc.prems by (simp add: minting_def)
  then show ?case
    using snoc.IH [OF s]
    by (auto simp: paid_def uint_difference less_imp_le not_less split: option.splits if_splits)
qed (simp add: minting_def)

subsection \<open>The payments of a source\<close>

definition same_contract :: "'x token_source \<Rightarrow> 'x token_source \<Rightarrow> bool" where
  "same_contract u v \<longleftrightarrow> ts_destinationBlockchainID v = ts_destinationBlockchainID u \<and>
     nativeTokenDestinationAddress v = nativeTokenDestinationAddress u \<and>
     erc20ContractAddress v = erc20ContractAddress u"

text \<open>\<open>u\<close> is inside a guarded function that started in \<open>w\<close> and has paid \<open>ps\<close> so far.\<close>

definition paying ::
  "'x source_view \<Rightarrow> 'x token_source \<Rightarrow> 'x token_source \<Rightarrow> (address \<times> uint256) list \<Rightarrow> bool" where
  "paying V w u ps \<longleftrightarrow> sv_entered V (ts_guard u) \<and> same_contract w u \<and>
     source_executed V u = source_executed V w \<and>
     destinationBurnedTotal u = destinationBurnedTotal w \<and>
     sv_paid V (ts_others u) = sv_paid V (ts_others w) @ ps"

definition pays_as_told :: "'x source_view \<Rightarrow> 'x token_source \<Rightarrow> bool" where
  "pays_as_told V u \<longleftrightarrow>
     (sv_paid V (ts_others u), destinationBurnedTotal u) = settled (sv_codec V) (source_executed V u)"

definition pays_safe :: "'x source_view \<Rightarrow> 'x token_source \<Rightarrow> 'x token_source \<Rightarrow> bool" where
  "pays_safe V u v \<longleftrightarrow> same_contract u v \<and> (sv_entered V (ts_guard u) \<longrightarrow> paying V u v []) \<and>
     (right_asset V u \<longrightarrow> pays_as_told V u \<longrightarrow> pays_as_told V v)"

lemma same_contract_refl [simp]: "same_contract u u"
  by (simp add: same_contract_def)

lemma same_contract_trans: "same_contract u v \<Longrightarrow> same_contract v w \<Longrightarrow> same_contract u w"
  by (simp add: same_contract_def)

lemma paying_trans: "paying V w u ps \<Longrightarrow> paying V u v qs \<Longrightarrow> paying V w v (ps @ qs)"
  using same_contract_trans [of w u v] by (simp add: paying_def)

lemma paying_safe: "pays_safe V u v \<Longrightarrow> paying V w u ps \<Longrightarrow> paying V w v ps"
  using paying_trans [of V w u ps v "[]"] by (simp add: pays_safe_def paying_def [of V w u])

lemma pays_safe_refl: "pays_safe V u u"
  by (simp add: pays_safe_def paying_def)

lemma pays_safe_trans: "pays_safe V u v \<Longrightarrow> pays_safe V v w \<Longrightarrow> pays_safe V u w"
  using paying_safe [of V v w u "[]"] same_contract_trans [of u v w]
  by (auto simp: pays_safe_def [of V u] same_contract_def right_asset_def) (auto simp: pays_safe_def same_contract_def right_asset_def)

lemma pays_effect:
  assumes "source_effect V eff (ts_others u) x" and "\<forall>v call. eff \<noteq> Enters v call"
  shows "source_executed V (ts_set_others x u) = source_executed V u"
    and "sv_paid V x = sv_paid V (ts_others u) @ payments (sv_asset V) eff"
  using assms by (cases eff; simp add: source_effect_def)+

lemma pays_safe_away:
  assumes "source_effect V Away (ts_others u) x"
  shows "pays_safe V u (ts_set_others x u)"
  using pays_effect [OF assms]
  by (simp add: pays_safe_def paying_def same_contract_def pays_as_told_def)

lemma paying_effect:
  assumes "\<exists>a1 x. pays_safe V u a1 \<and> source_effect V eff (ts_others a1) x \<and>
      pays_safe V (ts_set_others x a1) v"
    and "paying V w u ps" and "\<forall>v call. eff \<noteq> Enters v call"
  shows "paying V w v (ps @ payments (sv_asset V) eff)"
proof -
  from assms(1) obtain a1 x where a1: "pays_safe V u a1"
    and x: "source_effect V eff (ts_others a1) x" and v: "pays_safe V (ts_set_others x a1) v"
    by blast
  have a: "paying V w a1 ps" using a1 assms(2) by (rule paying_safe)
  have "paying V w (ts_set_others x a1) (ps @ payments (sv_asset V) eff)"
    using a pays_effect [OF x assms(3)] by (auto simp: paying_def same_contract_def)
  with v show ?thesis by (rule paying_safe)
qed

lemma paying_emit: "paying V w u ps \<Longrightarrow> paying V w (ts_emit e u) ps"
  by (auto simp: paying_def ts_emit_def same_contract_def)

definition pays_env :: "'x source_view \<Rightarrow> 'x token_source tenv \<Rightarrow> bool" where
  "pays_env V E \<longleftrightarrow> source_honest V E \<and>
     external_calls (pays_safe V) ts_others ts_set_others (source_effect V) (tenv_calls E)"

lemma pays_envD:
  assumes "pays_env V E"
  shows "external_calls (pays_safe V) ts_others ts_set_others (source_effect V) (tenv_calls E)"
    and "codec_follows (sv_codec V) E"
    and "t_guardBefore E g = Inr g' \<Longrightarrow> \<not> sv_entered V g \<and> sv_entered V g'"
    and "\<not> sv_entered V (t_guardAfter E g)"
  using assms by (auto simp: pays_env_def source_honest_def guard_pair_def)

lemma paying_pull:
  assumes "pays_env V E" "t_safeTransferFrom E t amt u = Inr (d, v)" "paying V w u ps"
  shows "paying V w v ps"
  using assms(2) tenv_callsD(1) [OF pays_envD(1) [OF assms(1)]] paying_safe [OF _ assms(3)]
  by (auto simp: t_safeTransferFrom_def)

lemma paying_allowance:
  "pays_env V E \<Longrightarrow> t_increaseAllowance E t m amt u = Inr v \<Longrightarrow> paying V w u ps \<Longrightarrow> paying V w v ps"
  by (rule paying_safe [OF tenv_callsD(2) [OF pays_envD(1)]])

lemma paying_fee:
  assumes env: "pays_env V E" and run: "t_takeFee E m fee u = Inr (adj, v)" and "paying V w u ps"
  shows "paying V w v ps"
proof (cases "feeAmount fee > 0")
  case True
  then obtain u1 where "t_safeTransferFrom E (feeTokenAddress fee) (feeAmount fee) u = Inr (adj, u1)"
    "t_increaseAllowance E (feeTokenAddress fee) m adj u1 = Inr v"
    using run by (auto simp: t_takeFee_def)
  then show ?thesis
    using paying_allowance [OF env _ paying_pull [OF env _ assms(3)]] by blast
next
  case False
  then show ?thesis using run assms(3) by (simp add: t_takeFee_def)
qed

lemma paying_send:
  assumes "pays_env V E" "t_send E m inp u = Inr (mid, v)" "paying V w u ps"
  shows "paying V w v ps"
proof -
  have "payments (sv_asset V) (SendsMessage inp) = []" by (cases "sv_asset V") simp_all
  then show ?thesis
    using paying_effect [OF tenv_callsD(6) [OF pays_envD(1) [OF assms(1)] assms(2)] assms(3)] by simp
qed

lemma paying_coin:
  assumes "pays_env V E" "sv_asset V = Coin" "sendValue E q amt u = Inr v" "paying V w u ps"
  shows "paying V w v (ps @ [(q, amt)])"
  using paying_effect [OF tenv_callsD(4) [OF pays_envD(1) [OF assms(1)] assms(3)] assms(4)]
  by (simp add: assms(2))

lemma paying_token:
  assumes "pays_env V E" "t_transfer E t q amt u = Inr v" "paying V w u ps"
  shows "paying V w v (ps @ payments (sv_asset V) (PaysToken t q amt))"
  using paying_effect [OF tenv_callsD(3) [OF pays_envD(1) [OF assms(1)] assms(2)] assms(3)] by simp

text \<open>A guarded function has to pay what the message with which it was called says.\<close>

definition call_messages ::
  "'x token_source \<Rightarrow> (bytes32 \<times> address \<times> bytes) option \<Rightarrow> bytes list" where
  "call_messages u call = (case call of
       Some (c, b, m) \<Rightarrow>
         if c = ts_destinationBlockchainID u \<and> b = nativeTokenDestinationAddress u then [m] else []
     | None \<Rightarrow> [])"

definition pays_done ::
  "'x source_view \<Rightarrow> 'x token_source \<Rightarrow> 'x token_source \<Rightarrow> (bytes32 \<times> address \<times> bytes) option \<Rightarrow> bool" where
  "pays_done V w r call \<longleftrightarrow> same_contract w r \<and> source_executed V r = source_executed V w \<and>
     (right_asset V w \<longrightarrow> (sv_paid V (ts_others r), destinationBurnedTotal r) =
        foldl (settle (sv_codec V)) (sv_paid V (ts_others w), destinationBurnedTotal w)
          (call_messages w call))"

lemma paying_done:
  assumes "paying V w r ps"
    and "right_asset V w \<Longrightarrow> (sv_paid V (ts_others w) @ ps, destinationBurnedTotal w) =
      foldl (settle (sv_codec V)) (sv_paid V (ts_others w), destinationBurnedTotal w)
        (call_messages w call)"
  shows "pays_done V w r call"
  using assms by (auto simp: paying_def pays_done_def)

lemma pays_guarded:
  assumes env: "pays_env V E" and eff: "source_effect V (Enters val call) (ts_others u) x"
    and run: "ts_nonReentrant E body (ts_set_others x u) = Inr v"
    and body: "\<And>w r. body w = Inr r \<Longrightarrow> paying V w w [] \<Longrightarrow> pays_done V w r call"
  shows "pays_safe V u v"
proof -
  from run obtain g r where g: "t_guardBefore E (ts_guard u) = Inr g"
    and b: "body ((ts_set_others x u)\<lparr>ts_guard := g\<rparr>) = Inr r"
    and v: "v = r\<lparr>ts_guard := t_guardAfter E (ts_guard r)\<rparr>"
    by (auto simp: ts_nonReentrant_def)
  let ?w = "(ts_set_others x u)\<lparr>ts_guard := g\<rparr>"
  have e: "\<not> sv_entered V (ts_guard u)" "sv_entered V g"
    using pays_envD(3) [OF env g] by auto
  have "payments (sv_asset V) (Enters val call) = []" by (cases "sv_asset V") simp_all
  then have p: "sv_paid V x = sv_paid V (ts_others u)" using eff by (simp add: source_effect_def)
  have ex: "source_executed V ?w = source_executed V u @ call_messages u call"
    using eff by (auto simp: source_effect_def call_messages_def split: option.splits)
  have "call_messages ?w call = call_messages u call"
    by (cases call) (simp_all add: call_messages_def split_def)
  moreover have "pays_done V ?w r call"
    using b e(2) by (intro body) (simp_all add: paying_def)
  ultimately have "same_contract u v" "source_executed V v = source_executed V u @ call_messages u call"
    and "right_asset V u \<longrightarrow> (sv_paid V (ts_others v), destinationBurnedTotal v) =
      foldl (settle (sv_codec V)) (sv_paid V (ts_others u), destinationBurnedTotal u)
        (call_messages u call)"
    using ex p by (auto simp: v pays_done_def same_contract_def right_asset_def)
  then show ?thesis
    using e(1) by (simp add: pays_safe_def pays_as_told_def settled_def)
qed

subsection \<open>The two kinds of source\<close>

lemma native_transfer_pays:
  assumes env: "pays_env V E"
    and eff: "source_effect V (Enters (t_value E) None) (ts_others u) x"
    and run: "native_transferToDestination E recipient fee allowed (ts_set_others x u) = Inr v"
  shows "pays_safe V u v"
  using env eff run [unfolded native_transferToDestination_def]
proof (rule pays_guarded, goal_cases)
  case (1 w r)
  then obtain adj u1 inp mid u2 e where
    f: "t_takeFee E (ts_teleporterMessenger w) fee w = Inr (adj, u1)"
    and s: "t_send E (ts_teleporterMessenger u1) inp u1 = Inr (mid, u2)"
    and r: "r = ts_emit e u2" by auto
  have "paying V w r []"
    unfolding r by (intro paying_emit paying_send [OF env s] paying_fee [OF env f 1(2)])
  then show ?case by (rule paying_done) (simp add: call_messages_def)
qed

lemma erc20_transfer_pays:
  assumes env: "pays_env V E" and eff: "source_effect V (Enters 0 None) (ts_others u) x"
    and run: "erc20_transferToDestination E recipient totalAmt feeAmt allowed (ts_set_others x u) = Inr v"
  shows "pays_safe V u v"
  using env eff run [unfolded erc20_transferToDestination_def]
proof (rule pays_guarded, goal_cases)
  case (1 w r)
  then obtain adj u1 u2 inp mid u3 e where
    p: "t_safeTransferFrom E (erc20ContractAddress w) totalAmt w = Inr (adj, u1)"
    and a: "(if feeAmt > 0
        then t_increaseAllowance E (erc20ContractAddress u1) (ts_teleporterMessenger u1) feeAmt u1
        else Inr u1) = Inr u2"
    and s: "t_send E (ts_teleporterMessenger u2) inp u2 = Inr (mid, u3)"
    and r: "r = ts_emit e u3" by auto
  have "paying V w u2 []"
    using a paying_allowance [OF env] paying_pull [OF env p 1(2)] by (auto split: if_splits)
  then have "paying V w r []" unfolding r by (intro paying_emit paying_send [OF env s])
  then show ?case by (rule paying_done) (simp add: call_messages_def)
qed

text \<open>The end of both receiving functions: one payment of a message, or none.\<close>

lemma unlock_done:
  assumes "paying V w r ps" and "right_asset V w \<Longrightarrow> ps = [(q, amt)]"
    and "codec_follows (sv_codec V) E"
    and "decode_source_action E msg = Some (Unlock, d)" "decode_payment E d = Some (q, amt)"
  shows "pays_done V w r (Some (ts_destinationBlockchainID w, nativeTokenDestinationAddress w, msg))"
  using assms(1)
  by (rule paying_done) (use assms(2-) in \<open>simp add: call_messages_def codec_follows_def\<close>)

lemma burn_done:
  assumes "paying V w r1 ps" and "right_asset V w \<Longrightarrow> ps = [(BURNED_TX_FEES_ADDRESS, d')]"
    and "codec_follows (sv_codec V) E"
    and "decode_source_action E msg = Some (Burn, d)" "decode_total E d = Some new"
    and "new > destinationBurnedTotal w" "checked_sub new (destinationBurnedTotal w) = Inr d'"
  shows "pays_done V w (r1\<lparr>destinationBurnedTotal := new\<rparr>)
    (Some (ts_destinationBlockchainID w, nativeTokenDestinationAddress w, msg))"
  using assms
  by (auto simp: pays_done_def paying_def same_contract_def call_messages_def codec_follows_def checked_sub_Inr)

lemma no_burn_done:
  assumes "paying V w w []" and "codec_follows (sv_codec V) E"
    and "decode_source_action E msg = Some (Burn, d)" "decode_total E d = Some new"
    and "\<not> new > destinationBurnedTotal w"
  shows "pays_done V w w (Some (ts_destinationBlockchainID w, nativeTokenDestinationAddress w, msg))"
  using assms(1)
  by (rule paying_done) (use assms(2-) in \<open>simp add: call_messages_def codec_follows_def\<close>)

lemma native_receive_pays:
  assumes env: "pays_env V E" and coin: "sv_asset V = Coin"
    and eff: "source_effect V (Enters 0 (Some (chain, origin, msg))) (ts_others u) x"
    and run: "native_source_receive E chain origin msg (ts_set_others x u) = Inr v"
  shows "pays_safe V u v"
  using env eff run [unfolded native_source_receive_def]
proof (rule pays_guarded, goal_cases)
  case (1 w r)
  note C = pays_envD(2) [OF env]
  have peer: "chain = ts_destinationBlockchainID w" "origin = nativeTokenDestinationAddress w"
    using 1(1) by auto
  from 1(1) consider
      (unlock) d q amt where "decode_source_action E msg = Some (Unlock, d)"
        "decode_payment E d = Some (q, amt)" "native_unlockTokens E q amt w = Inr r"
    | (burn) d new where "decode_source_action E msg = Some (Burn, d)"
        "decode_total E d = Some new" "native_handleBurnTokens E new w = Inr r"
    by (auto split: option.splits SourceAction.splits)
  then show ?case
  proof cases
    case unlock
    then have "sendValue E q amt (ts_emit (LogUnlockTokens q amt) w) = Inr r"
      by (simp add: native_unlockTokens_def)
    from paying_coin [OF env coin this paying_emit [OF 1(2)]]
    show ?thesis unfolding peer by (rule unlock_done [OF _ _ C unlock(1,2)]) simp
  next
    case burn
    show ?thesis
    proof (cases "new > destinationBurnedTotal w")
      case True
      then obtain d' r1 where d: "checked_sub new (destinationBurnedTotal w) = Inr d'"
        and p: "sendValue E BURNED_TX_FEES_ADDRESS d' (ts_emit (LogBurnTokens d') w) = Inr r1"
        and r: "r = r1\<lparr>destinationBurnedTotal := new\<rparr>"
        using burn(3) by (auto simp: native_handleBurnTokens_def native_burnTokens_def)
      from paying_coin [OF env coin p paying_emit [OF 1(2)]]
      show ?thesis unfolding peer r by (rule burn_done [OF _ _ C burn(1,2) True d]) simp
    next
      case False
      then have "r = w" using burn(3) by (simp add: native_handleBurnTokens_def)
      then show ?thesis unfolding peer using no_burn_done [OF 1(2) C burn(1,2) False] by simp
    qed
  qed
qed

lemma erc20_receive_pays:
  assumes env: "pays_env V E" and asset: "sv_asset V \<noteq> Coin"
    and eff: "source_effect V (Enters 0 (Some (chain, origin, msg))) (ts_others u) x"
    and run: "erc20_source_receive E chain origin msg (ts_set_others x u) = Inr v"
  shows "pays_safe V u v"
  using env eff run [unfolded erc20_source_receive_def]
proof (rule pays_guarded, goal_cases)
  case (1 w r)
  note C = pays_envD(2) [OF env]
  have one: "right_asset V w \<Longrightarrow> payments (sv_asset V) (PaysToken (erc20ContractAddress w) q amt) = [(q, amt)]"
    for q amt using asset by (cases "sv_asset V") (simp_all add: right_asset_def)
  have peer: "chain = ts_destinationBlockchainID w" "origin = nativeTokenDestinationAddress w"
    using 1(1) by auto
  from 1(1) consider
      (unlock) d q amt where "decode_source_action E msg = Some (Unlock, d)"
        "decode_payment E d = Some (q, amt)" "erc20_unlockTokens E q amt w = Inr r"
    | (burn) d new where "decode_source_action E msg = Some (Burn, d)"
        "decode_total E d = Some new" "erc20_handleBurnTokens E new w = Inr r"
    by (auto split: option.splits SourceAction.splits)
  then show ?case
  proof cases
    case unlock
    then have "t_transfer E (erc20ContractAddress w) q amt (ts_emit (LogUnlockTokens q amt) w) = Inr r"
      by (simp add: erc20_unlockTokens_def)
    from paying_token [OF env this paying_emit [OF 1(2)]]
    show ?thesis unfolding peer by (rule unlock_done [OF _ _ C unlock(1,2)]) (simp add: one)
  next
    case burn
    show ?thesis
    proof (cases "new > destinationBurnedTotal w")
      case True
      then obtain d' r1 where d: "checked_sub new (destinationBurnedTotal w) = Inr d'"
        and p: "t_transfer E (erc20ContractAddress w) BURNED_TX_FEES_ADDRESS d'
          (ts_emit (LogBurnTokens d') w) = Inr r1"
        and r: "r = r1\<lparr>destinationBurnedTotal := new\<rparr>"
        using burn(3) by (auto simp: erc20_handleBurnTokens_def erc20_burnTokens_def)
      from paying_token [OF env p paying_emit [OF 1(2)]]
      show ?thesis unfolding peer r by (rule burn_done [OF _ _ C burn(1,2) True d]) (simp add: one)
    next
      case False
      then have "r = w" using burn(3) by (simp add: erc20_handleBurnTokens_def)
      then show ?thesis unfolding peer using no_burn_done [OF 1(2) C burn(1,2) False] by simp
    qed
  qed
qed

interpretation native_pays: contract_closed tenv_calls run_native_source ts_others ts_set_others
    native_source_called Away "source_effect V" "native_source_honest V" "pays_safe V" for V
proof unfold_locales
  fix E op u x v
  assume a: "native_source_honest V E"
    "external_calls (pays_safe V) ts_others ts_set_others (source_effect V) (tenv_calls E)"
    "source_effect V (native_source_called E op) (ts_others u) x"
    "run_native_source E op (ts_set_others x u) = Inr v"
  then have "pays_env V E" "sv_asset V = Coin"
    by (simp_all add: pays_env_def native_source_honest_def)
  then show "pays_safe V u v"
    using a(3,4) by (cases op) (auto intro: native_transfer_pays native_receive_pays)
qed (fact pays_safe_refl pays_safe_trans pays_safe_away)+

interpretation erc20_pays: contract_closed tenv_calls run_erc20_source ts_others ts_set_others
    erc20_source_called Away "source_effect V" "erc20_source_honest V" "pays_safe V" for V
proof unfold_locales
  fix E op u x v
  assume a: "erc20_source_honest V E"
    "external_calls (pays_safe V) ts_others ts_set_others (source_effect V) (tenv_calls E)"
    "source_effect V (erc20_source_called E op) (ts_others u) x"
    "run_erc20_source E op (ts_set_others x u) = Inr v"
  then have "pays_env V E" "sv_asset V \<noteq> Coin"
    by (simp_all add: pays_env_def erc20_source_honest_def)
  then show "pays_safe V u v"
    using a(3,4) by (cases op) (auto intro: erc20_transfer_pays erc20_receive_pays)
qed (fact pays_safe_refl pays_safe_trans pays_safe_away)+

lemma new_source_pays:
  assumes "native_source_constructor E m c b g x = Inr u \<or> erc20_source_constructor E m c b t g x = Inr u"
    and "sv_notes V x = []" and "sv_paid V x = []"
  shows "pays_as_told V u"
  using assms
  by (auto simp: native_source_constructor_def erc20_source_constructor_def pays_as_told_def settled_def)

subsection \<open>The mints of a destination\<close>

definition same_peer :: "'x token_destination \<Rightarrow> 'x token_destination \<Rightarrow> bool" where
  "same_peer u v \<longleftrightarrow> sourceBlockchainID v = sourceBlockchainID u \<and>
     nativeTokenSourceAddress v = nativeTokenSourceAddress u \<and>
     initialReserveImbalance v = initialReserveImbalance u"

definition mint_books :: "'x dest_view \<Rightarrow> 'x token_destination \<Rightarrow> (address \<times> uint256) list \<times> uint256" where
  "mint_books V u = (dv_minted V (td_others u), currentReserveImbalance u)"

definition mint_frame :: "'x dest_view \<Rightarrow> 'x token_destination \<Rightarrow> 'x token_destination \<Rightarrow> bool" where
  "mint_frame V w u \<longleftrightarrow> same_peer w u \<and> dest_executed V u = dest_executed V w \<and>
     mint_books V u = mint_books V w"

definition mints_as_told :: "'x dest_view \<Rightarrow> 'x token_destination \<Rightarrow> bool" where
  "mints_as_told V u \<longleftrightarrow>
     mint_books V u = minting (dv_codec V) (initialReserveImbalance u) (dest_executed V u)"

definition mints_safe :: "'x dest_view \<Rightarrow> 'x token_destination \<Rightarrow> 'x token_destination \<Rightarrow> bool" where
  "mints_safe V u v \<longleftrightarrow> same_peer u v \<and>
     (dv_entered V (td_guard u) \<longrightarrow> dv_entered V (td_guard v) \<and> mint_frame V u v) \<and>
     (mints_as_told V u \<longrightarrow> mints_as_told V v)"

lemma same_peer_trans: "same_peer u v \<Longrightarrow> same_peer v w \<Longrightarrow> same_peer u w"
  by (simp add: same_peer_def)

lemma mint_frame_trans: "mint_frame V u v \<Longrightarrow> mint_frame V v w \<Longrightarrow> mint_frame V u w"
  by (auto simp: mint_frame_def intro: same_peer_trans)

lemma mints_safe_refl: "mints_safe V u u"
  by (simp add: mints_safe_def mint_frame_def same_peer_def)

lemma mints_safe_trans: "mints_safe V u v \<Longrightarrow> mints_safe V v w \<Longrightarrow> mints_safe V u w"
  by (auto simp: mints_safe_def intro: same_peer_trans mint_frame_trans)

lemma mint_frame_told: "mint_frame V u v \<Longrightarrow> mints_as_told V v = mints_as_told V u"
  by (auto simp: mint_frame_def mints_as_told_def same_peer_def)

text \<open>An effect that is not a mint, and not the delivery of a message.\<close>

lemma quiet_mint_frame:
  assumes "dest_effect V eff (td_others u) x" and "mints eff = []"
    and "\<forall>v call. eff = Enters v call \<longrightarrow> call = None"
  shows "mint_frame V u (td_set_others x u)"
  using assms by (cases eff) (auto simp: mint_frame_def mint_books_def same_peer_def dest_effect_def)

lemma mint_frame_safe:
  "mint_frame V u v \<Longrightarrow> td_guard v = td_guard u \<Longrightarrow> mints_safe V u v"
  using mint_frame_told [of V u v] by (simp add: mints_safe_def mint_frame_def)

lemma mints_safe_away:
  "dest_effect V Away (td_others u) x \<Longrightarrow> mints_safe V u (td_set_others x u)"
  by (rule mint_frame_safe, erule quiet_mint_frame) simp_all

lemma mint_frame_emit: "mint_frame V w u \<Longrightarrow> mint_frame V w (td_emit e u)"
  by (auto simp: mint_frame_def td_emit_def same_peer_def mint_books_def)

definition mints_env :: "'x dest_view \<Rightarrow> 'x token_destination tenv \<Rightarrow> bool" where
  "mints_env V E \<longleftrightarrow> dest_honest V E \<and>
     external_calls (mints_safe V) td_others td_set_others (dest_effect V) (tenv_calls E)"

lemma mints_envD:
  assumes "mints_env V E"
  shows "external_calls (mints_safe V) td_others td_set_others (dest_effect V) (tenv_calls E)"
    and "codec_follows (dv_codec V) E"
    and "t_guardBefore E g = Inr g' \<Longrightarrow> \<not> dv_entered V g \<and> dv_entered V g'"
    and "\<not> dv_entered V (t_guardAfter E g)"
  using assms by (auto simp: mints_env_def dest_honest_def guard_pair_def)

text \<open>\<open>u\<close> is inside a guarded function that started in \<open>w\<close> and has minted nothing yet.\<close>

definition minting_held :: "'x dest_view \<Rightarrow> 'x token_destination \<Rightarrow> 'x token_destination \<Rightarrow> bool" where
  "minting_held V w u \<longleftrightarrow> dv_entered V (td_guard u) \<and> mint_frame V w u"

lemma minting_held_safe: "mints_safe V u v \<Longrightarrow> minting_held V w u \<Longrightarrow> minting_held V w v"
  by (auto simp: minting_held_def mints_safe_def intro: mint_frame_trans)

lemma minting_held_effect:
  assumes "\<exists>a1 x. mints_safe V u a1 \<and> dest_effect V eff (td_others a1) x \<and>
      mints_safe V (td_set_others x a1) v"
    and "minting_held V w u" and "\<forall>v call. eff \<noteq> Enters v call" and "mints eff = []"
  shows "minting_held V w v"
proof -
  from assms(1) obtain a1 x where a1: "mints_safe V u a1"
    and x: "dest_effect V eff (td_others a1) x" and v: "mints_safe V (td_set_others x a1) v" by blast
  have a: "minting_held V w a1" using a1 assms(2) by (rule minting_held_safe)
  have "mint_frame V a1 (td_set_others x a1)"
    using quiet_mint_frame [OF x assms(4)] assms(3) by blast
  then have "minting_held V w (td_set_others x a1)" using a by (auto simp: minting_held_def intro: mint_frame_trans)
  with v show ?thesis by (rule minting_held_safe)
qed

lemma minting_held_fee:
  assumes env: "mints_env V E" and run: "t_takeFee E m fee u = Inr (adj, v)" and "minting_held V w u"
  shows "minting_held V w v"
  using run tenv_callsD(1,2) [OF mints_envD(1) [OF env]] minting_held_safe [OF _ assms(3)] minting_held_safe
    assms(3)
  by (auto simp: t_takeFee_def t_safeTransferFrom_def split: if_splits; blast)

definition arrived ::
  "'x token_destination \<Rightarrow> (bytes32 \<times> address \<times> bytes) option \<Rightarrow> bytes list" where
  "arrived u call = (case call of
       Some (c, b, m) \<Rightarrow> if c = sourceBlockchainID u \<and> b = nativeTokenSourceAddress u then [m] else []
     | None \<Rightarrow> [])"

definition mints_done ::
  "'x dest_view \<Rightarrow> 'x token_destination \<Rightarrow> 'x token_destination \<Rightarrow> (bytes32 \<times> address \<times> bytes) option \<Rightarrow> bool" where
  "mints_done V w r call \<longleftrightarrow> same_peer w r \<and> dest_executed V r = dest_executed V w \<and>
     mint_books V r = foldl (mint_step (dv_codec V)) (mint_books V w) (arrived w call)"

lemma mints_guarded:
  assumes env: "mints_env V E" and eff: "dest_effect V (Enters val call) (td_others u) x"
    and run: "td_nonReentrant E body (td_set_others x u) = Inr v"
    and body: "\<And>w r. body w = Inr r \<Longrightarrow> minting_held V w w \<Longrightarrow> mints_done V w r call"
  shows "mints_safe V u v"
proof -
  from run obtain g r where g: "t_guardBefore E (td_guard u) = Inr g"
    and b: "body ((td_set_others x u)\<lparr>td_guard := g\<rparr>) = Inr r"
    and v: "v = r\<lparr>td_guard := t_guardAfter E (td_guard r)\<rparr>"
    by (auto simp: td_nonReentrant_def)
  let ?w = "(td_set_others x u)\<lparr>td_guard := g\<rparr>"
  have e: "\<not> dv_entered V (td_guard u)" "dv_entered V g"
    using mints_envD(3) [OF env g] by auto
  have ex: "dest_executed V ?w = dest_executed V u @ arrived u call"
    using eff by (auto simp: dest_effect_def arrived_def split: option.splits)
  have bw: "mint_books V ?w = mint_books V u" using eff by (simp add: mint_books_def dest_effect_def)
  have "arrived ?w call = arrived u call" by (cases call) (simp_all add: arrived_def split_def)
  moreover have "mints_done V ?w r call"
    using b e(2) by (intro body) (simp_all add: minting_held_def mint_frame_def same_peer_def)
  ultimately have "same_peer u v" "dest_executed V v = dest_executed V u @ arrived u call"
    and "mint_books V v = foldl (mint_step (dv_codec V)) (mint_books V u) (arrived u call)"
    using ex bw by (auto simp: v mints_done_def same_peer_def mint_books_def)
  then show ?thesis
    using e(1) by (simp add: mints_safe_def mints_as_told_def minting_def same_peer_def)
qed

lemma minting_held_done: "minting_held V w r \<Longrightarrow> arrived w call = [] \<Longrightarrow> mints_done V w r call"
  by (simp add: minting_held_def mint_frame_def mints_done_def)

lemma to_source_mints:
  assumes env: "mints_env V E" and eff: "dest_effect V (Enters val None) (td_others u) x"
    and run: "transferToSource E recipient fee allowed (td_set_others x u) = Inr v"
  shows "mints_safe V u v"
  using env eff run [unfolded transferToSource_def]
proof (rule mints_guarded, goal_cases)
  case (1 w r)
  then obtain adj u1 u2 inp mid u3 e where
    f: "t_takeFee E (td_teleporterMessenger w) fee w = Inr (adj, u1)"
    and p: "sendValue E BURN_FOR_TRANSFER_ADDRESS (t_value E) u1 = Inr u2"
    and s: "t_send E (td_teleporterMessenger u2) inp u2 = Inr (mid, u3)"
    and r: "r = td_emit e u3" by auto
  have u1: "minting_held V w u1" by (rule minting_held_fee [OF env f 1(2)])
  have u2: "minting_held V w u2"
    using tenv_callsD(4) [OF mints_envD(1) [OF env] p] u1 by (rule minting_held_effect) simp_all
  have "minting_held V w u3"
    using tenv_callsD(6) [OF mints_envD(1) [OF env] s] u2 by (rule minting_held_effect) simp_all
  then have "minting_held V w r" unfolding r by (simp add: minting_held_def mint_frame_emit)
  then show ?case by (rule minting_held_done) (simp add: arrived_def)
qed

lemma report_mints:
  assumes env: "mints_env V E" and run: "reportTotalBurnedTxFees E fee allowed u = Inr v"
  shows "mints_safe V u v"
proof -
  from run obtain inp mid u1 e where
    s: "t_send E (td_teleporterMessenger u) inp u = Inr (mid, u1)" and v: "v = td_emit e u1"
    by (auto simp: reportTotalBurnedTxFees_def Let_def)
  from tenv_callsD(6) [OF mints_envD(1) [OF env] s] obtain a1 x where a1: "mints_safe V u a1"
    and x: "dest_effect V (SendsMessage inp) (td_others a1) x"
    and u1: "mints_safe V (td_set_others x a1) u1" by blast
  have "mints_safe V a1 (td_set_others x a1)"
    by (rule mint_frame_safe [OF quiet_mint_frame [OF x]]) simp_all
  with a1 u1 have "mints_safe V u u1" by (blast intro: mints_safe_trans)
  moreover have "mints_safe V u1 v"
    unfolding v
    by (rule mint_frame_safe [OF mint_frame_emit]) (simp_all add: mint_frame_def same_peer_def)
  ultimately show ?thesis by (rule mints_safe_trans)
qed

text \<open>The end of \<open>receiveTeleporterMessage\<close>: one mint, of the amount given.\<close>

lemma mint_once:
  assumes env: "mints_env V E" and run: "destination_mint E q amt u = Inr r"
    and "dv_entered V (td_guard u)"
  shows "same_peer u r" "dest_executed V r = dest_executed V u"
    "mint_books V r = (dv_minted V (td_others u) @ [(q, amt)], currentReserveImbalance u)"
proof -
  from run obtain m where "mintNativeCoin E q amt (td_emit (LogNativeTokensMinted q amt) (u\<lparr>totalMinted := m\<rparr>))
      = Inr r"
    by (auto simp: destination_mint_def)
  from tenv_callsD(5) [OF mints_envD(1) [OF env] this] obtain a1 x where
    a1: "mints_safe V (td_emit (LogNativeTokensMinted q amt) (u\<lparr>totalMinted := m\<rparr>)) a1"
    and x: "dest_effect V (MintsCoin q amt) (td_others a1) x"
    and r: "mints_safe V (td_set_others x a1) r" by blast
  have "dv_entered V (td_guard a1)" "same_peer u a1" "dest_executed V a1 = dest_executed V u"
    "mint_books V a1 = mint_books V u"
    using a1 assms(3) by (auto simp: mints_safe_def mint_frame_def td_emit_def same_peer_def mint_books_def)
  moreover from this(1) r have "mint_frame V (td_set_others x a1) r" by (simp add: mints_safe_def)
  ultimately show "same_peer u r" "dest_executed V r = dest_executed V u"
    "mint_books V r = (dv_minted V (td_others u) @ [(q, amt)], currentReserveImbalance u)"
    using x by (auto simp: mint_frame_def same_peer_def mint_books_def dest_effect_def)
qed

lemma destination_receive_mints:
  assumes env: "mints_env V E"
    and eff: "dest_effect V (Enters 0 (Some (chain, origin, msg))) (td_others u) x"
    and run: "destination_receive E chain origin msg (td_set_others x u) = Inr v"
  shows "mints_safe V u v"
  using env eff run [unfolded destination_receive_def]
proof (rule mints_guarded, goal_cases)
  case (1 w r)
  from 1(1) obtain q amt where d: "decode_payment E msg = Some (q, amt)"
    and peer: "chain = sourceBlockchainID w" "origin = nativeTokenSourceAddress w"
    and body: "(if currentReserveImbalance w > 0 then
           if amt > currentReserveImbalance w then
             let u1 = td_emit (LogCollateralAdded (currentReserveImbalance w) 0) w
             in bindE (checked_sub amt (currentReserveImbalance u1)) (\<lambda>adjustedAmount.
                destination_mint E q adjustedAmount (u1\<lparr>currentReserveImbalance := 0\<rparr>))
           else
             bindE (checked_sub (currentReserveImbalance w) amt) (\<lambda>n.
             let u1 = w\<lparr>currentReserveImbalance := n\<rparr>
             in Inr (td_emit (LogCollateralAdded amt (currentReserveImbalance u1)) u1))
         else destination_mint E q amt w) = Inr r"
    by (auto split: option.splits)
  have e: "dv_entered V (td_guard w)" using 1(2) by (simp add: minting_held_def)
  have m: "foldl (mint_step (dv_codec V)) (mint_books V w) (arrived w (Some (chain, origin, msg)))
      = mint_step (dv_codec V) (mint_books V w) msg" "pc_payment (dv_codec V) msg = Some (q, amt)"
    using d mints_envD(2) [OF env] by (simp_all add: arrived_def peer codec_follows_def)
  consider (mint) "destination_mint E q amt w = Inr r" "currentReserveImbalance w = 0"
    | (both) "destination_mint E q (amt - currentReserveImbalance w)
        (td_emit (LogCollateralAdded (currentReserveImbalance w) 0) w\<lparr>currentReserveImbalance := 0\<rparr>) = Inr r"
        "currentReserveImbalance w \<noteq> 0" "amt > currentReserveImbalance w"
    | (collateral) e where "r = td_emit e (w\<lparr>currentReserveImbalance := currentReserveImbalance w - amt\<rparr>)"
        "currentReserveImbalance w \<noteq> 0" "\<not> amt > currentReserveImbalance w"
    using body by (auto simp: Let_def td_emit_def word_gt_0 checked_sub_Inr split: if_splits)
  then show ?case
  proof cases
    case mint
    from mint_once [OF env mint(1) e] show ?thesis
      unfolding mints_done_def m(1) by (simp add: m(2) mint_books_def mint(2))
  next
    case both
    let ?u = "td_emit (LogCollateralAdded (currentReserveImbalance w) 0) w\<lparr>currentReserveImbalance := 0\<rparr>"
    have "dv_entered V (td_guard ?u)" using e by (simp add: td_emit_def)
    from mint_once [OF env both(1) this] show ?thesis
      using both(2,3) unfolding mints_done_def m(1)
      by (simp add: m(2) mint_books_def td_emit_def same_peer_def)
  next
    case collateral
    then show ?thesis
      unfolding mints_done_def m(1) by (simp add: m(2) mint_books_def td_emit_def same_peer_def)
  qed
qed

interpretation destination_mints: contract_closed tenv_calls run_destination td_others td_set_others
    destination_called Away "dest_effect V" "dest_honest V" "mints_safe V" for V
proof unfold_locales
  fix E op u x v
  assume a: "dest_honest V E"
    "external_calls (mints_safe V) td_others td_set_others (dest_effect V) (tenv_calls E)"
    "dest_effect V (destination_called E op) (td_others u) x"
    "run_destination E op (td_set_others x u) = Inr v"
  then have env: "mints_env V E" by (simp add: mints_env_def)
  show "mints_safe V u v"
  proof (cases op)
    case (ReportBurned fee allowed)
    then have "mints_safe V u (td_set_others x u)"
      using a(3) by (intro mint_frame_safe [OF quiet_mint_frame [of V "Enters 0 None"]]) simp_all
    moreover have "mints_safe V (td_set_others x u) v"
      using a(4) ReportBurned by (intro report_mints [OF env]) simp
    ultimately show ?thesis by (rule mints_safe_trans)
  qed (use env a(3,4) in \<open>auto intro: to_source_mints destination_receive_mints\<close>)
qed (fact mints_safe_refl mints_safe_trans mints_safe_away)+

lemma new_destination_mints:
  assumes "destination_constructor E m c b i g x = Inr u" and "dv_notes V x = []" and "dv_minted V x = []"
  shows "mints_as_told V u"
  using assms
  by (auto simp: destination_constructor_def mints_as_told_def mint_books_def minting_def)

end
