(* ===== verification/Native_Token_Correctness.thy ===== *)
theory Native_Token_Correctness
  imports Native_Token_Example Native_Token_Payments
begin

section \<open>What the native token bridge guarantees\<close>

text \<open>
  A source or a destination in use: constructed, with no message, payment or mint noted for it yet,
  and then anything that its environment allows.
\<close>

definition source_in_use :: "'x source_view \<Rightarrow> 'x token_source \<Rightarrow> bool" where
  "source_in_use V u \<longleftrightarrow>
     (\<exists>E m c b g x u0. native_source_constructor E m c b g x = Inr u0 \<and> sv_notes V x = [] \<and>
        sv_paid V x = [] \<and> sv_asset V = Coin \<and> happens tenv_calls run_native_source ts_others ts_set_others
          native_source_called Away (source_effect V) (native_source_honest V) u0 u) \<or>
     (\<exists>E m c b T g x u0. erc20_source_constructor E m c b T g x = Inr u0 \<and> sv_notes V x = [] \<and>
        sv_paid V x = [] \<and> sv_asset V = Token T \<and> happens tenv_calls run_erc20_source ts_others ts_set_others
          erc20_source_called Away (source_effect V) (erc20_source_honest V) u0 u)"

definition dest_in_use :: "'x dest_view \<Rightarrow> 'x token_destination \<Rightarrow> bool" where
  "dest_in_use V u \<longleftrightarrow>
     (\<exists>E m c b i g x u0. destination_constructor E m c b i g x = Inr u0 \<and> dv_notes V x = [] \<and>
        dv_minted V x = [] \<and> happens tenv_calls run_destination td_others td_set_others destination_called Away
          (dest_effect V) (dest_honest V) u0 u)"

lemma source_in_use_books:
  assumes "source_in_use V u"
  shows "0 \<le> collateral V u" and "burn_reported V u"
proof -
  have *: "0 \<le> collateral V u \<and> burn_reported V u"
    if "source_safe V u0 u" "right_asset V u0" "0 \<le> collateral V u0" "burn_reported V u0" for u0
    using that by (simp add: source_safe_def)
  from assms consider
      E m c b g x u0 where "native_source_constructor E m c b g x = Inr u0" "sv_notes V x = []"
        "sv_asset V = Coin" "source_safe V u0 u"
    | E m c b T g x u0 where "erc20_source_constructor E m c b T g x = Inr u0" "sv_notes V x = []"
        "sv_asset V = Token T" "source_safe V u0 u"
    unfolding source_in_use_def by (blast dest: native_source.lift erc20_source.lift)
  then have "0 \<le> collateral V u \<and> burn_reported V u"
  proof cases
    case 1
    from 1(1) have "native_source_constructor E m c b g x = Inr u0
        \<or> erc20_source_constructor E m c b 0 g x = Inr u0" by simp
    from * [OF 1(4) _ new_source [OF this 1(2)]] 1(3) show ?thesis by (simp add: right_asset_def)
  next
    case 2
    then have "erc20ContractAddress u0 = T" by (auto simp: erc20_source_constructor_def)
    moreover from 2(1) have "native_source_constructor E m c b g x = Inr u0
        \<or> erc20_source_constructor E m c b T g x = Inr u0" by simp
    ultimately show ?thesis
      using * [OF 2(4) _ new_source [OF _ 2(2)]] 2(3) by (auto simp: right_asset_def)
  qed
  then show "0 \<le> collateral V u" "burn_reported V u" by simp_all
qed

lemma dest_in_use_books:
  assumes "dest_in_use V u"
  shows "dest_ok V u" "reports_ok V u" "collateral_first u"
proof -
  from assms obtain E m c b i g x u0 where new: "destination_constructor E m c b i g x = Inr u0"
    "dv_notes V x = []" and safe: "dest_safe V u0 u"
    unfolding dest_in_use_def by (blast dest: destination.lift)
  from new_destination [OF new] safe
  show "dest_ok V u" "reports_ok V u" "collateral_first u"
    by (simp_all add: dest_safe_def same_dest_def)
qed

lemma source_in_use_pays:
  assumes "source_in_use V u"
  shows "pays_as_told V u"
proof -
  have *: "pays_as_told V u" if "pays_safe V u0 u" "right_asset V u0" "pays_as_told V u0" for u0
    using that by (simp add: pays_safe_def)
  from assms consider
      E m c b g x u0 where "native_source_constructor E m c b g x = Inr u0" "sv_notes V x = []"
        "sv_paid V x = []" "sv_asset V = Coin" "pays_safe V u0 u"
    | E m c b T g x u0 where "erc20_source_constructor E m c b T g x = Inr u0" "sv_notes V x = []"
        "sv_paid V x = []" "sv_asset V = Token T" "pays_safe V u0 u"
    unfolding source_in_use_def by (blast dest: native_pays.lift erc20_pays.lift)
  then show ?thesis
  proof cases
    case 1
    then have "pays_as_told V u0" by (intro new_source_pays disjI1)
    with 1 show ?thesis by (intro * [of u0]) (simp_all add: right_asset_def)
  next
    case 2
    then have "pays_as_told V u0" by (intro new_source_pays disjI2)
    moreover have "right_asset V u0"
      using 2(1,4) by (auto simp: erc20_source_constructor_def right_asset_def)
    ultimately show ?thesis using 2(5) by (intro * [of u0])
  qed
qed

lemma dest_in_use_mints:
  assumes "dest_in_use V u"
  shows "mints_as_told V u"
proof -
  from assms obtain E m c b i g x u0 where "destination_constructor E m c b i g x = Inr u0"
    "dv_notes V x = []" "dv_minted V x = []" and safe: "mints_safe V u0 u"
    unfolding dest_in_use_def by (blast dest: destination_mints.lift)
  then have "mints_as_told V u0" by (intro new_destination_mints)
  then show ?thesis using safe by (simp add: mints_safe_def)
qed

text \<open>The two contracts are each other's peers, and messages between them arrive at most once.\<close>

definition peered ::
  "'x source_view \<Rightarrow> 'x token_source \<Rightarrow> 'y dest_view \<Rightarrow> 'y token_destination \<Rightarrow> bool" where
  "peered V us W ud \<longleftrightarrow> dv_codec W = sv_codec V \<and>
     delivered (sv_notes V (ts_others us)) (sourceBlockchainID ud) (nativeTokenSourceAddress ud)
       (dv_notes W (td_others ud)) (ts_destinationBlockchainID us) (nativeTokenDestinationAddress us)"

lemma peered_books:
  assumes "source_in_use V us" "dest_in_use W ud" "peered V us W ud"
  shows "sum_list (map (unlocked (sv_codec V)) (source_executed V us)) \<le> int (dv_burned W (td_others ud))"
    and "sum_list (map (paid (sv_codec V)) (dest_executed W ud))
      \<le> sum_list (map (paid (sv_codec V)) (source_sent V us))"
    and "uint (destinationBurnedTotal us) \<le> int (dv_fees W (td_others ud))"
proof -
  from assms(3) have codec: "dv_codec W = sv_codec V"
    and d: "delivered (sv_notes V (ts_others us)) (sourceBlockchainID ud)
        (nativeTokenSourceAddress ud) (dv_notes W (td_others ud)) (ts_destinationBlockchainID us)
        (nativeTokenDestinationAddress us)" by (simp_all add: peered_def)
  show "sum_list (map (unlocked (sv_codec V)) (source_executed V us)) \<le> int (dv_burned W (td_others ud))"
    using delivered_sums(2) [OF d, of "unlocked (sv_codec V)"] amounts_not_negative(2)
      dest_in_use_books(1) [OF assms(2)]
    by (force simp: dest_ok_def burned_gap_def codec)
  show "sum_list (map (paid (sv_codec V)) (dest_executed W ud))
      \<le> sum_list (map (paid (sv_codec V)) (source_sent V us))"
    using delivered_sums(1) [OF d amounts_not_negative(1)] .
  have "unat (destinationBurnedTotal us) \<le> dv_fees W (td_others ud)"
    using source_in_use_books(2) [OF assms(1)] delivered_sets(2) [OF d]
      dest_in_use_books(2) [OF assms(2)]
    by (auto simp: burn_reported_def reports_ok_def codec)
  then show "uint (destinationBurnedTotal us) \<le> int (dv_fees W (td_others ud))"
    unfolding uint_nat of_nat_le_iff .
qed

subsection \<open>The pair of contracts\<close>

text \<open>
  C9: Every coin of the destination is backed. Take a source, of coins or of an ERC20 token, and its
  destination, both in use in arbitrary interleavings with arbitrary reentrant callers, and let
  messages be delivered at most once: what \<open>totalSupply\<close> of the destination returns never exceeds
  the balance that the source holds, plus the part of the initial imbalance that has not been made
  up for.
\<close>

theorem native_supply_is_backed:
  assumes "source_in_use V us" and "dest_in_use W ud" and "peered V us W ud"
    and "totalSupply E ud = Inr n"
    and "unat (coin_balance E BURNED_TX_FEES_ADDRESS ud) = dv_fees W (td_others ud)"
    and "unat (coin_balance E BURN_FOR_TRANSFER_ADDRESS ud) = dv_burned W (td_others ud)"
  shows "unat n \<le> sv_balance V (ts_others us) + unat (currentReserveImbalance ud)"
proof -
  from assms(4) obtain p q where
    p: "checked_add (coin_balance E BURNED_TX_FEES_ADDRESS ud)
          (coin_balance E BURN_FOR_TRANSFER_ADDRESS ud) = Inr p"
    and q: "checked_add (totalMinted ud) (initialReserveImbalance ud) = Inr q"
    and n: "checked_sub q p = Inr n" by (auto simp: totalSupply_def)
  have "uint p = int (dv_fees W (td_others ud)) + int (dv_burned W (td_others ud))"
    using checked_add_uint [OF p] assms(5,6) unfolding uint_nat by simp
  then have "uint n = uint (totalMinted ud) + uint (initialReserveImbalance ud) -
      int (dv_fees W (td_others ud)) - int (dv_burned W (td_others ud))"
    using checked_sub_uint [OF n] checked_add_uint [OF q] by simp
  moreover have "uint (totalMinted ud) + uint (initialReserveImbalance ud) =
      uint (currentReserveImbalance ud) + sum_list (map (paid (sv_codec V)) (dest_executed W ud))"
    using dest_in_use_books(1) [OF assms(2)] assms(3)
    by (simp add: dest_ok_def minted_gap_def peered_def)
  moreover have "sum_list (map (paid (sv_codec V)) (source_sent V us)) \<le>
      int (sv_balance V (ts_others us)) + uint (destinationBurnedTotal us) +
      sum_list (map (unlocked (sv_codec V)) (source_executed V us))"
    using source_in_use_books(1) [OF assms(1)] by (simp add: collateral_def)
  ultimately have "uint n \<le> int (sv_balance V (ts_others us)) + uint (currentReserveImbalance ud)"
    using peered_books [OF assms(1-3)] by linarith
  then show ?thesis unfolding uint_nat of_nat_add [symmetric] of_nat_le_iff .
qed

lemma coins_in_use:
  "source_in_use demo_source_view coin_source3" "dest_in_use demo_dest_view coin_dest3"
  "peered demo_source_view coin_source3 demo_dest_view coin_dest3"
proof -
  have "sv_notes demo_source_view no_coins = []" "sv_paid demo_source_view no_coins = []"
    "sv_asset demo_source_view = Coin"
    "dv_notes demo_dest_view no_coins = []" "dv_minted demo_dest_view no_coins = []"
    by (simp_all add: demo_source_view_def demo_dest_view_def no_coins_def)
  with coins_constructed coin_source_reached coin_dest_reached
  show "source_in_use demo_source_view coin_source3" "dest_in_use demo_dest_view coin_dest3"
    unfolding source_in_use_def dest_in_use_def by blast+
  show "peered demo_source_view coin_source3 demo_dest_view coin_dest3"
    by (simp add: peered_def demo_source_view_def demo_dest_view_def delivered_def
        coin_source3_state(2) coin_dest3_state(2) sent_to_def executed_from_def)
qed

theorem native_supply_is_backed_witness:
  "totalSupply (dest_tenv 0 0) coin_dest3 = Inr 650 \<and>
   (650 :: nat) \<le> sv_balance demo_source_view (ts_others coin_source3)"
proof -
  have s: "totalSupply (dest_tenv 0 0) coin_dest3 = Inr 650"
    by (simp add: totalSupply_def coin_dest3_state(2) coin_eval)
  have "unat (coin_balance (dest_tenv 0 0) BURNED_TX_FEES_ADDRESS coin_dest3)
      = dv_fees demo_dest_view (td_others coin_dest3)"
    "unat (coin_balance (dest_tenv 0 0) BURN_FOR_TRANSFER_ADDRESS coin_dest3)
      = dv_burned demo_dest_view (td_others coin_dest3)"
    by (simp_all add: coin_dest3_state(2) demo_dest_view_def coin_eval)
  from native_supply_is_backed [OF coins_in_use s this] s show ?thesis
    by (simp add: coin_dest3_state(2))
qed

text \<open>
  C10: The source pays out only what was burned. The payments that it makes in its asset, to whom and
  how much, are exactly those that the messages executed from the destination call for, in their
  order: each unlocked amount to its recipient, and to the burn address what a reported total adds
  to the largest one before. Their sum is what was unlocked and burned, and it never exceeds what
  the two burn addresses of the destination's chain hold.
\<close>

theorem source_pays_only_what_was_burned:
  assumes "source_in_use V us" and "dest_in_use W ud" and "peered V us W ud"
  shows "sv_paid V (ts_others us) = fst (settled (sv_codec V) (source_executed V us)) \<and>
    amounts (sv_paid V (ts_others us)) =
      (\<Sum>m\<leftarrow>source_executed V us. unlocked (sv_codec V) m) + uint (destinationBurnedTotal us) \<and>
    amounts (sv_paid V (ts_others us)) \<le> int (dv_burned W (td_others ud)) + int (dv_fees W (td_others ud))"
proof -
  have p: "settled (sv_codec V) (source_executed V us)
      = (sv_paid V (ts_others us), destinationBurnedTotal us)"
    using source_in_use_pays [OF assms(1)] by (simp add: pays_as_told_def)
  from settled_amounts [OF this] peered_books(1,3) [OF assms] show ?thesis by (simp add: p)
qed

theorem source_pays_only_what_was_burned_witness:
  "amounts [(88, 300), (BURNED_TX_FEES_ADDRESS, 50)] \<le> 350 \<and>
   [(88, 300), (BURNED_TX_FEES_ADDRESS, 50)]
     = fst (settled demo_payments (source_executed demo_source_view coin_source3))"
proof -
  have "sv_codec demo_source_view = demo_payments" by (simp add: demo_source_view_def)
  moreover have "sv_paid demo_source_view (ts_others coin_source3)
      = [(88, 300), (BURNED_TX_FEES_ADDRESS, 50)]"
    "dv_burned demo_dest_view (td_others coin_dest3) = 300"
    "dv_fees demo_dest_view (td_others coin_dest3) = 50"
    by (simp_all add: demo_source_view_def demo_dest_view_def coin_source3_state(2) coin_dest3_state(2))
  ultimately show ?thesis using source_pays_only_what_was_burned [OF coins_in_use] by simp
qed

subsection \<open>Single contracts\<close>

lemma excess_over:
  "t + i - c = (s :: int) \<Longrightarrow> c = 0 \<or> t = 0 \<Longrightarrow> 0 \<le> t \<Longrightarrow> 0 \<le> c \<Longrightarrow>
    t = max 0 (s - i) \<and> c = max 0 (i - s)"
  by auto

text \<open>
  C11: The destination mints exactly what exceeds its initial imbalance. The coins it mints, for whom
  and how many, are those that the messages executed from the source call for, in their order: the
  first part of what they have paid makes up for the initial imbalance, and only the rest is minted.
  The sum of the coins minted and both counters are functions of the sum of the payments. So nothing
  is minted, and by \<open>transferToSource\<close> nothing can leave, before the bridge is collateralized.
\<close>

theorem destination_mints_the_excess:
  assumes "dest_in_use W u"
  shows "dv_minted W (td_others u)
      = fst (minting (dv_codec W) (initialReserveImbalance u) (dest_executed W u)) \<and>
    amounts (dv_minted W (td_others u)) = uint (totalMinted u) \<and>
    uint (totalMinted u) = max 0 ((\<Sum>m\<leftarrow>dest_executed W u. paid (dv_codec W) m)
      - uint (initialReserveImbalance u)) \<and>
    uint (currentReserveImbalance u) = max 0 (uint (initialReserveImbalance u)
      - (\<Sum>m\<leftarrow>dest_executed W u. paid (dv_codec W) m)) \<and>
    (\<not> isCollateralized u \<longrightarrow> totalMinted u = 0 \<and> transferToSource E recipient fee allowed u \<noteq> Inr v)"
proof -
  have m: "minting (dv_codec W) (initialReserveImbalance u) (dest_executed W u)
      = (dv_minted W (td_others u), currentReserveImbalance u)"
    using dest_in_use_mints [OF assms] by (simp add: mints_as_told_def mint_books_def)
  have gap: "uint (totalMinted u) + uint (initialReserveImbalance u) -
      uint (currentReserveImbalance u) = (\<Sum>m\<leftarrow>dest_executed W u. paid (dv_codec W) m)"
    using dest_in_use_books(1) [OF assms] by (simp add: dest_ok_def minted_gap_def)
  have real: "amounts (dv_minted W (td_others u)) = uint (totalMinted u)"
    using minting_amounts [OF m] gap by simp
  have first: "uint (currentReserveImbalance u) = 0 \<or> uint (totalMinted u) = 0"
    using dest_in_use_books(3) [OF assms] by (auto simp: collateral_first_def)
  have "\<not> isCollateralized u \<Longrightarrow> transferToSource E recipient fee allowed u \<noteq> Inr v"
    by (simp add: isCollateralized_def transferToSource_def td_nonReentrant_def)
  moreover have "\<not> isCollateralized u \<Longrightarrow> totalMinted u = 0"
    using dest_in_use_books(3) [OF assms] by (simp add: isCollateralized_def collateral_first_def)
  moreover have "dv_minted W (td_others u)
      = fst (minting (dv_codec W) (initialReserveImbalance u) (dest_executed W u))" by (simp add: m)
  ultimately show ?thesis
    using excess_over [OF gap first uint_ge_0 uint_ge_0] real by blast
qed

theorem destination_mints_the_excess_witness:
  "uint (totalMinted coin_dest3) = 900 \<and> (\<Sum>m\<leftarrow>dest_executed demo_dest_view coin_dest3.
      paid (dv_codec demo_dest_view) m) = 1000 \<and>
   [(99, 900)] = fst (minting (dv_codec demo_dest_view) 100 (dest_executed demo_dest_view coin_dest3))"
proof -
  have "dv_minted demo_dest_view (td_others coin_dest3) = [(99, 900)]"
    "initialReserveImbalance coin_dest3 = 100" "totalMinted coin_dest3 = 900"
    by (simp_all add: demo_dest_view_def coin_dest3_state(2))
  then show ?thesis
    using destination_mints_the_excess [OF coins_in_use(2)]
    by (simp add: max_def split: if_splits)
qed

text \<open>
  C12: A contract executes messages of its peer only. Whatever state and environment it is in, each
  of the three contracts executes a message only if its own messenger delivers it, and only if it
  comes from the chain and the address the contract was constructed with.
\<close>

theorem native_bridge_accepts_only_its_peer:
  assumes "native_source_receive E c b msg u = Inr v \<or> erc20_source_receive E c b msg u = Inr v"
    and "destination_receive E' c' b' msg' w = Inr w'"
  shows "t_sender E = ts_teleporterMessenger u \<and> c = ts_destinationBlockchainID u \<and>
      b = nativeTokenDestinationAddress u \<and> t_sender E' = td_teleporterMessenger w \<and>
      c' = sourceBlockchainID w \<and> b' = nativeTokenSourceAddress w"
  using assms
  by (auto simp: native_source_receive_def erc20_source_receive_def destination_receive_def
      ts_nonReentrant_def td_nonReentrant_def)

theorem native_bridge_accepts_only_its_peer_witness:
  "t_sender (source_tenv 13 0) = ts_teleporterMessenger coin_source1 \<and>
   t_sender (dest_tenv 13 0) = td_teleporterMessenger coin_dest0"
proof -
  obtain u v w w' where
    "native_source_receive (source_tenv 13 0) 9 11 unlock_message u = Inr v"
    "destination_receive (dest_tenv 13 0) 5 10 payment_message w = Inr w'"
    "ts_teleporterMessenger u = ts_teleporterMessenger coin_source1"
    "td_teleporterMessenger w = td_teleporterMessenger coin_dest0"
    using coin_source2_state(1) coin_dest1_state(1)
    by (auto simp: demo_source_run_def demo_dest_run_def)
  with native_bridge_accepts_only_its_peer [of "source_tenv 13 0" 9 11 unlock_message u v
      "dest_tenv 13 0" 5 10 payment_message w w'] show ?thesis by simp
qed

end
