(* ===== verification/Example_Apps.thy ===== *)
theory Example_Apps
  imports Upgradeable Native_Token_Bridge Demo_Codec
begin

section \<open>BlockHashPublisher.sol, BlockHashReceiver.sol and ExampleCrossChainMessenger.sol\<close>

text \<open>
  The two smaller example applications: one publishes the hashes of a chain's blocks to another
  chain, one stores the last message received from each chain. \<open>abi.encode\<close>, the block hashes and
  the calls of other contracts are arguments.
\<close>

subsection \<open>BlockHashPublisher.sol\<close>

datatype publisher_event = LogPublishBlockHash bytes32 address uint256 bytes32

record 'x publisher = registry +
  pub_logs :: "publisher_event list"
  pub_others :: 'x

definition RECEIVE_BLOCK_HASH_REQUIRED_GAS_LIMIT :: uint256 where
  "RECEIVE_BLOCK_HASH_REQUIRED_GAS_LIMIT = 150000"

definition publisher_constructor :: "address \<Rightarrow> 'x publisher \<Rightarrow> sol_error + 'x publisher" where
  "publisher_constructor registryAddress u =
     requireE (registryAddress \<noteq> 0) ''BlockHashPublisher: zero teleporter registry address'' (
     Inr (u\<lparr>pub_logs := []\<rparr>))"

text \<open>The message published in block \<open>number\<close>, with the height it is about.\<close>

definition publish_input ::
  "uint256 \<Rightarrow> (uint256 \<Rightarrow> bytes32) \<Rightarrow> (uint256 \<Rightarrow> bytes32 \<Rightarrow> bytes) \<Rightarrow> bytes32 \<Rightarrow> address
    \<Rightarrow> sol_error + (uint256 \<times> TeleporterMessageInput)" where
  "publish_input number blockhash enc chain dest =
     bindE (checked_sub number 1) (\<lambda>blockHeight.
     Inr (blockHeight, \<lparr>in_destinationBlockchainID = chain, in_destinationAddress = dest,
       in_feeInfo = \<lparr>feeTokenAddress = 0, feeAmount = 0\<rparr>,
       in_requiredGasLimit = RECEIVE_BLOCK_HASH_REQUIRED_GAS_LIMIT,
       in_allowedRelayerAddresses = [], in_message = enc blockHeight (blockhash blockHeight)\<rparr>))"

definition publishLatestBlockHash ::
  "uint256 \<Rightarrow> (uint256 \<Rightarrow> bytes32) \<Rightarrow> (uint256 \<Rightarrow> bytes32 \<Rightarrow> bytes)
    \<Rightarrow> (address \<Rightarrow> TeleporterMessageInput \<Rightarrow> 'x publisher \<Rightarrow> sol_error + (uint256 \<times> 'x publisher))
    \<Rightarrow> bytes32 \<Rightarrow> address \<Rightarrow> 'x publisher \<Rightarrow> sol_error + (uint256 \<times> 'x publisher)" where
  "publishLatestBlockHash number blockhash enc send chain dest u =
     bindE (publish_input number blockhash enc chain dest) (\<lambda>(blockHeight, inp).
     bindE (getLatestTeleporter u) (\<lambda>teleporter.
     send teleporter inp (u\<lparr>pub_logs := pub_logs u @
       [LogPublishBlockHash chain dest blockHeight (blockhash blockHeight)]\<rparr>)))"

subsection \<open>BlockHashReceiver.sol\<close>

datatype receiver_event = LogReceiveBlockHash bytes32 address uint256 bytes32

record block_receiver =
  publisherBlockchainID :: bytes32
  sourcePublisherContractAddress :: address
  latestBlockHeight :: uint256
  latestBlockHash :: bytes32
  receiver_logs :: "receiver_event list"

definition receiver_constructor ::
  "address \<Rightarrow> bytes32 \<Rightarrow> address \<Rightarrow> block_receiver upgradeable
    \<Rightarrow> sol_error + block_receiver upgradeable" where
  "receiver_constructor registryAddress chain publisher u =
     bindE (upgradeable_constructor registryAddress u) (\<lambda>u1.
     Inr (u1\<lparr>app := \<lparr>publisherBlockchainID = chain, sourcePublisherContractAddress = publisher,
       latestBlockHeight = 0, latestBlockHash = 0, receiver_logs = []\<rparr>\<rparr>))"

definition getLatestBlockInfo :: "block_receiver upgradeable \<Rightarrow> uint256 \<times> bytes32" where
  "getLatestBlockInfo u = (latestBlockHeight (app u), latestBlockHash (app u))"

definition receiver_receive ::
  "(bytes \<Rightarrow> (uint256 \<times> bytes32) option) \<Rightarrow> bytes32 \<Rightarrow> address \<Rightarrow> bytes
    \<Rightarrow> block_receiver upgradeable \<Rightarrow> sol_error + block_receiver upgradeable" where
  "receiver_receive dec originChain originSender msg u =
     requireE (originChain = publisherBlockchainID (app u))
       ''BlockHashReceiver: invalid source chain ID'' (
     requireE (originSender = sourcePublisherContractAddress (app u))
       ''BlockHashReceiver: invalid source chain publisher'' (
     case dec msg of
       None \<Rightarrow> Inl (ExternalRevert [])
     | Some (blockHeight, blockHash) \<Rightarrow>
         if blockHeight > latestBlockHeight (app u) then
           Inr (u\<lparr>app := (app u)\<lparr>latestBlockHeight := blockHeight, latestBlockHash := blockHash,
             receiver_logs := receiver_logs (app u) @
               [LogReceiveBlockHash originChain originSender blockHeight blockHash]\<rparr>\<rparr>)
         else Inr u))"

subsection \<open>ExampleCrossChainMessenger.sol\<close>

datatype example_event =
    LogSendMessage bytes32 address address uint256 uint256 string
  | LogReceiveMessage bytes32 address string

record 'x example_app =
  ex_guard :: uint256
  ex_messages :: "bytes32 \<Rightarrow> address \<times> string"
  ex_logs :: "example_event list"
  ex_others :: 'x

definition ex_emit :: "example_event \<Rightarrow> 'x example_app upgradeable \<Rightarrow> 'x example_app upgradeable" where
  "ex_emit e u = u\<lparr>app := (app u)\<lparr>ex_logs := ex_logs (app u) @ [e]\<rparr>\<rparr>"

definition sendMessage ::
  "'x example_app upgradeable tenv \<Rightarrow> (string \<Rightarrow> bytes) \<Rightarrow> bytes32 \<Rightarrow> address \<Rightarrow> address \<Rightarrow> uint256
    \<Rightarrow> uint256 \<Rightarrow> string \<Rightarrow> 'x example_app upgradeable
    \<Rightarrow> sol_error + (uint256 \<times> 'x example_app upgradeable)" where
  "sendMessage E enc chain dest feeToken feeAmt gas msg u =
     bindE (t_guardBefore E (ex_guard (app u))) (\<lambda>g.
     bindE (getTeleporterMessenger (u\<lparr>app := (app u)\<lparr>ex_guard := g\<rparr>\<rparr>)) (\<lambda>messenger.
     bindE (t_takeFee E messenger \<lparr>feeTokenAddress = feeToken, feeAmount = feeAmt\<rparr>
              (u\<lparr>app := (app u)\<lparr>ex_guard := g\<rparr>\<rparr>)) (\<lambda>(adjusted, u1).
     bindE (t_send E messenger
              (t_message chain dest \<lparr>feeTokenAddress = feeToken, feeAmount = adjusted\<rparr> gas []
                (enc msg))
              (ex_emit (LogSendMessage chain dest feeToken adjusted gas msg) u1)) (\<lambda>(mid, u2).
     Inr (mid, u2\<lparr>app := (app u2)\<lparr>ex_guard := t_guardAfter E (ex_guard (app u2))\<rparr>\<rparr>)))))"

definition getCurrentMessage :: "bytes32 \<Rightarrow> 'x example_app upgradeable \<Rightarrow> address \<times> string" where
  "getCurrentMessage originChain u = ex_messages (app u) originChain"

definition example_receive ::
  "(bytes \<Rightarrow> string option) \<Rightarrow> bytes32 \<Rightarrow> address \<Rightarrow> bytes \<Rightarrow> 'x example_app upgradeable
    \<Rightarrow> sol_error + 'x example_app upgradeable" where
  "example_receive dec originChain originSender msg u =
     (case dec msg of
        None \<Rightarrow> Inl (ExternalRevert [])
      | Some s \<Rightarrow> Inr (ex_emit (LogReceiveMessage originChain originSender s)
          (u\<lparr>app := (app u)\<lparr>ex_messages := (ex_messages (app u))(originChain := (originSender, s))\<rparr>\<rparr>)))"

subsection \<open>Deliveries\<close>

text \<open>
  An application of either kind in operation: a list of messages has been delivered by any
  messengers, in any order, while the registry and the owner did anything they may.
\<close>

inductive deliveries ::
  "(bytes32 \<Rightarrow> address \<Rightarrow> bytes \<Rightarrow> 'app upgradeable \<Rightarrow> sol_error + 'app upgradeable) \<Rightarrow> address
    \<Rightarrow> (address \<Rightarrow> 'app \<Rightarrow> sol_error + unit) \<Rightarrow> 'app upgradeable \<Rightarrow> (bytes32 \<times> address \<times> bytes) list
    \<Rightarrow> 'app upgradeable \<Rightarrow> bool"
  for hook :: "bytes32 \<Rightarrow> address \<Rightarrow> bytes \<Rightarrow> 'app upgradeable \<Rightarrow> sol_error + 'app upgradeable"
    and reg :: address and checkOwner :: "address \<Rightarrow> 'app \<Rightarrow> sol_error + unit"
    and u0 :: "'app upgradeable" where
  none: "deliveries hook reg checkOwner u0 [] u0"
| upgrade: "deliveries hook reg checkOwner u0 ms u \<Longrightarrow> upgrade_step reg checkOwner u v \<Longrightarrow>
    app v = app u \<Longrightarrow> deliveries hook reg checkOwner u0 ms v"
| deliver: "deliveries hook reg checkOwner u0 ms u \<Longrightarrow>
    receiveTeleporterMessage hook sender c b m u = Inr v \<Longrightarrow>
    deliveries hook reg checkOwner u0 (ms @ [(c, b, m)]) v"

lemma receive_runs_hook:
  "receiveTeleporterMessage hook sender c b m u = Inr v \<Longrightarrow> hook c b m u = Inr v"
  by (auto simp: receiveTeleporterMessage_def)

definition heights :: "(bytes \<Rightarrow> (uint256 \<times> bytes32) option) \<Rightarrow> (bytes32 \<times> address \<times> bytes) list
    \<Rightarrow> uint256 list" where
  "heights dec ms = map (\<lambda>(c, b, m). case dec m of Some (h, x) \<Rightarrow> h | None \<Rightarrow> 0) ms"

lemma foldr_max_snoc: "foldr max (xs @ [y]) (0 :: uint256) = max (foldr max xs 0) y"
  by (induction xs) (simp_all add: max.assoc)

text \<open>What the receiver stores, as a function of the messages it was given.\<close>

lemma receiver_deliveries:
  assumes "deliveries (receiver_receive dec) reg checkOwner u0 ms u"
    and "latestBlockHeight (app u0) = 0"
  shows "publisherBlockchainID (app u) = publisherBlockchainID (app u0) \<and>
    sourcePublisherContractAddress (app u) = sourcePublisherContractAddress (app u0) \<and>
    (\<forall>(c, b, m) \<in> set ms. c = publisherBlockchainID (app u0) \<and>
       b = sourcePublisherContractAddress (app u0)) \<and>
    latestBlockHeight (app u) = foldr max (heights dec ms) 0 \<and>
    (latestBlockHeight (app u) = 0 \<or>
       (\<exists>(c, b, m) \<in> set ms. dec m = Some (getLatestBlockInfo u)))"
  using assms
proof (induction rule: deliveries.induct)
  case none
  then show ?case by (simp add: heights_def)
next
  case (upgrade ms u v)
  show ?case
    using upgrade.IH [OF upgrade.prems] unfolding getLatestBlockInfo_def upgrade.hyps(3) .
next
  case (deliver ms u sender c b m v)
  have "receiver_receive dec c b m u = Inr v" by (rule receive_runs_hook [OF deliver.hyps(2)])
  then obtain h x where dec: "dec m = Some (h, x)"
    and cb: "c = publisherBlockchainID (app u)" "b = sourcePublisherContractAddress (app u)"
    and v: "v = (if h > latestBlockHeight (app u) then
        u\<lparr>app := (app u)\<lparr>latestBlockHeight := h, latestBlockHash := x,
          receiver_logs := receiver_logs (app u) @ [LogReceiveBlockHash c b h x]\<rparr>\<rparr> else u)"
    by (auto simp: receiver_receive_def split: option.splits if_splits)
  have h: "heights dec (ms @ [(c, b, m)]) = heights dec ms @ [h]" by (simp add: heights_def dec)
  note IH = deliver.IH [OF deliver.prems]
  show ?case
  proof (cases "h > latestBlockHeight (app u)")
    case True
    then have "foldr max (heights dec ms) 0 < h" using IH by simp
    moreover from this have "foldr max (heights dec (ms @ [(c, b, m)])) 0 = h"
      unfolding h foldr_max_snoc by simp
    ultimately show ?thesis
      using IH True cb dec unfolding v getLatestBlockInfo_def by (elim conjE, intro conjI) auto
  next
    case False
    then have v: "v = u" and "foldr max (heights dec (ms @ [(c, b, m)])) 0 = foldr max (heights dec ms) 0"
      using IH unfolding h foldr_max_snoc by (simp_all add: v)
    then show ?thesis using IH cb unfolding v by (elim conjE, intro conjI) auto
  qed
qed

lemma receiver_hash_zero:
  assumes "deliveries (receiver_receive dec) reg checkOwner u0 ms u"
    and "latestBlockHeight (app u0) = 0" "latestBlockHash (app u0) = 0"
  shows "latestBlockHeight (app u) = 0 \<Longrightarrow> latestBlockHash (app u) = 0"
  using assms
proof (induction rule: deliveries.induct)
  case (deliver ms u sender c b m v)
  have "receiver_receive dec c b m u = Inr v" by (rule receive_runs_hook [OF deliver.hyps(2)])
  then show ?case
    using deliver by (auto simp: receiver_receive_def split: option.splits if_splits)
qed simp_all

lemma example_deliveries:
  assumes "deliveries (example_receive dec) reg checkOwner u0 ms u"
  shows "getCurrentMessage c u = (case filter (\<lambda>(c', b, m). c' = c) (rev ms) of
      [] \<Rightarrow> getCurrentMessage c u0 | (c', b, m) # _ \<Rightarrow> (b, the (dec m)))"
  using assms
proof (induction rule: deliveries.induct)
  case (deliver ms u sender c' b m v)
  have "example_receive dec c' b m u = Inr v" by (rule receive_runs_hook [OF deliver.hyps(2)])
  then show ?case
    using deliver.IH by (auto simp: example_receive_def ex_emit_def getCurrentMessage_def
        split: option.splits)
qed (simp_all add: getCurrentMessage_def)

subsection \<open>The receiver follows the publisher\<close>

text \<open>A message that the publisher has sent in some block of its chain.\<close>

definition published_by ::
  "(uint256 \<Rightarrow> bytes32) \<Rightarrow> (uint256 \<Rightarrow> bytes32 \<Rightarrow> bytes) \<Rightarrow> bytes \<Rightarrow> bool" where
  "published_by blockhash enc m \<longleftrightarrow> (\<exists>number chain dest h inp.
     publish_input number blockhash enc chain dest = Inr (h, inp) \<and> in_message inp = m)"

text \<open>
  C40: A receiver of block hashes follows the publisher. Take a newly constructed receiver to which
  messages are delivered in any order and any number of times, while its registry and its owner do
  anything they may; let what arrives from the publisher be what the publisher has sent. Then all
  executed messages are the publisher's, the stored height is the highest one delivered, and the
  stored hash is the hash of the publisher's block at that height.
\<close>

theorem block_receiver_follows_publisher:
  assumes "receiver_constructor registryAddress chain publisher s = Inr u0"
    and "deliveries (receiver_receive dec) reg checkOwner u0 ms u"
    and "\<And>h x. dec (enc h x) = Some (h, x)"
    and "\<And>m. (chain, publisher, m) \<in> set ms \<Longrightarrow> published_by blockhash enc m"
  shows "(\<forall>(c, b, m) \<in> set ms. c = chain \<and> b = publisher) \<and>
    (\<exists>H. getLatestBlockInfo u = (H, if H = 0 then 0 else blockhash H) \<and>
       H = foldr max (heights dec ms) 0)"
proof -
  have u0: "latestBlockHeight (app u0) = 0" "publisherBlockchainID (app u0) = chain"
    "sourcePublisherContractAddress (app u0) = publisher" "latestBlockHash (app u0) = 0"
    using assms(1) by (auto simp: receiver_constructor_def)
  note D = receiver_deliveries [OF assms(2) u0(1), unfolded u0(2,3)]
  have zero: "latestBlockHeight (app u) = 0 \<Longrightarrow> latestBlockHash (app u) = 0"
    using receiver_hash_zero [OF assms(2) u0(1,4)] .
  have "latestBlockHash (app u) = blockhash (latestBlockHeight (app u))"
    if "latestBlockHeight (app u) \<noteq> 0"
  proof -
    from that D obtain m where m: "(chain, publisher, m) \<in> set ms"
      "dec m = Some (getLatestBlockInfo u)" by auto
    from assms(4) [OF m(1)] obtain h where "m = enc h (blockhash h)"
      by (auto simp: published_by_def publish_input_def)
    with m(2) assms(3) [of h "blockhash h"] show ?thesis by (auto simp: getLatestBlockInfo_def)
  qed
  with D zero show ?thesis by (auto simp: getLatestBlockInfo_def)
qed

text \<open>
  A receiver on a chain whose registry knows the messenger 13: the hash of block 7 arrives before
  the one of block 3.
\<close>

definition demo_hash :: "uint256 \<Rightarrow> bytes32" where
  "demo_hash h = h + 1000"

definition demo_hash_message :: "uint256 \<Rightarrow> bytes" where
  "demo_hash_message h = demo_encode (h, demo_hash h)"

definition receiver_start :: "block_receiver upgradeable" where
  "receiver_start = \<lparr>reg_blockchainID = 0, latestVersion = 1,
     versionToAddress = (\<lambda>v. if v = 1 then 13 else 0),
     addressToVersion = (\<lambda>a. if a = 13 then 1 else 0), reg_logs = [],
     minTeleporterVersion = 0, pausedTeleporterAddresses = (\<lambda>_. False), upg_logs = [],
     app = \<lparr>publisherBlockchainID = 0, sourcePublisherContractAddress = 0, latestBlockHeight = 0,
       latestBlockHash = 0, receiver_logs = []\<rparr>\<rparr>"

definition receiver0 :: "block_receiver upgradeable" where
  "receiver0 = projr (receiver_constructor 77 5 10 receiver_start)"

definition demo_deliver ::
  "uint256 \<Rightarrow> block_receiver upgradeable \<Rightarrow> sol_error + block_receiver upgradeable" where
  "demo_deliver h = receiveTeleporterMessage (receiver_receive demo_decode) 13 5 10 (demo_hash_message h)"

definition receiver1 :: "block_receiver upgradeable" where
  "receiver1 = projr (demo_deliver 7 receiver0)"

lemmas receiver_eval = receiver0_def receiver1_def receiver_start_def receiver_constructor_def
  upgradeable_constructor_def demo_deliver_def receiveTeleporterMessage_def receiver_receive_def
  getVersionFromAddress_def isTeleporterAddressPaused_def demo_hash_message_def demo_hash_def

lemma receiver_runs:
  "receiver_constructor 77 5 10 receiver_start = Inr receiver0"
  "demo_deliver 7 receiver0 = Inr receiver1" "demo_deliver 3 receiver1 = Inr receiver1"
  by (simp_all add: receiver_eval)

theorem block_receiver_follows_publisher_witness:
  "getLatestBlockInfo receiver1 = (7, 1007)"
proof -
  let ?ms = "[(5, 10, demo_hash_message 7), (5, 10, demo_hash_message 3)]"
  let ?d = "deliveries (receiver_receive demo_decode) 77 (\<lambda>_ _. Inl (ExternalRevert []))"
  have "?d receiver0 ([] @ [(5, 10, demo_hash_message 7)]) receiver1"
    by (rule deliveries.deliver [OF deliveries.none receiver_runs(2) [unfolded demo_deliver_def]])
  from deliveries.deliver [OF this receiver_runs(3) [unfolded demo_deliver_def]]
  have d: "?d receiver0 ?ms receiver1" by simp
  have p: "published_by demo_hash (\<lambda>h x. demo_encode (h, x)) (demo_hash_message 7)"
    "published_by demo_hash (\<lambda>h x. demo_encode (h, x)) (demo_hash_message 3)"
    unfolding published_by_def publish_input_def
    by (rule exI [of _ 8], simp add: demo_hash_message_def checked_sub_def)
      (rule exI [of _ 4], simp add: demo_hash_message_def checked_sub_def)
  have "heights demo_decode ?ms = [7, 3]"
    by (simp add: heights_def demo_hash_message_def)
  with block_receiver_follows_publisher [OF receiver_runs(1) d, of "\<lambda>h x. demo_encode (h, x)" demo_hash]
    p
  show ?thesis by (auto simp: demo_hash_def max_def)
qed

end
