(* ===== verification/Deployment_Utils.thy ===== *)
theory Deployment_Utils
  imports Prelude
begin

section \<open>Deploying the contract at a universal address\<close>

text \<open>
  \<open>utils/deployment-utils/deployment_utils.go\<close> and its command
  \<open>utils/contract-deployment/contractDeploymentTools.go\<close>. What they use of Go's standard
  library is defined here: hexadecimal coding, number parsing, files and standard output. The
  packages of go-ethereum and subnet-evm are the fields of \<open>eth_lib\<close>, and so is the extraction of
  the field \<open>bytecode.object\<close> from JSON.
\<close>

subsection \<open>encoding/hex, math/big and strconv\<close>

definition hex_digit :: "char \<Rightarrow> nat option" where
  "hex_digit c =
     (let n = of_char c :: nat in
      if 48 \<le> n \<and> n \<le> 57 then Some (n - 48)
      else if 97 \<le> n \<and> n \<le> 102 then Some (n - 87)
      else if 65 \<le> n \<and> n \<le> 70 then Some (n - 55)
      else None)"

fun hex_DecodeString :: "string \<Rightarrow> go_error + bytes" where
  "hex_DecodeString [] = Inr []"
| "hex_DecodeString [p] =
     (case hex_digit p of
        None \<Rightarrow> Inl (GoError ''encoding/hex: invalid byte'')
      | Some a \<Rightarrow> Inl (GoError ''encoding/hex: odd length hex string''))"
| "hex_DecodeString (p # q # s) =
     (case hex_digit p of
        None \<Rightarrow> Inl (GoError ''encoding/hex: invalid byte'')
      | Some a \<Rightarrow>
          (case hex_digit q of
             None \<Rightarrow> Inl (GoError ''encoding/hex: invalid byte'')
           | Some b \<Rightarrow> bindE (hex_DecodeString s) (\<lambda>bs. Inr (word_of_nat (16 * a + b) # bs))))"

definition hexit :: "nat \<Rightarrow> char" where
  "hexit n = ''0123456789abcdef'' ! n"

fun hex_EncodeToString :: "bytes \<Rightarrow> string" where
  "hex_EncodeToString [] = []"
| "hex_EncodeToString (b # bs) =
     hexit (unat b div 16) # hexit (unat b mod 16) # hex_EncodeToString bs"

text \<open>\<open>new(big.Int).SetString(s, 16)\<close> for a string without a sign.\<close>

definition SetString_16 :: "string \<Rightarrow> int option" where
  "SetString_16 s =
     (if s = [] \<or> (\<exists>c \<in> set s. hex_digit c = None) then None
      else Some (foldl (\<lambda>n c. 16 * n + int (the (hex_digit c))) 0 s))"

text \<open>\<open>strconv.ParseUint(s, 10, 64)\<close>\<close>

definition is_decimal :: "char \<Rightarrow> bool" where
  "is_decimal c \<longleftrightarrow> (48 :: nat) \<le> of_char c \<and> of_char c \<le> (57 :: nat)"

definition ParseUint_10_64 :: "string \<Rightarrow> go_error + uint64" where
  "ParseUint_10_64 s =
     (if s = [] \<or> (\<exists>c \<in> set s. \<not> is_decimal c) then Inl (GoError ''invalid syntax'')
      else let n = foldl (\<lambda>n c. 10 * n + (of_char c - 48)) (0 :: nat) s in
        if n < 2 ^ 64 then Inr (word_of_nat n) else Inl (GoError ''value out of range''))"

subsection \<open>Files and output\<close>

record os_world =
  os_files :: "string \<Rightarrow> bytes option"
  os_writable :: "string \<Rightarrow> bool"
  os_log :: "string list"
  os_stdout :: "string list"

definition os_ReadFile :: "string \<Rightarrow> os_world \<Rightarrow> go_error + bytes" where
  "os_ReadFile name w =
     (case os_files w name of None \<Rightarrow> Inl (GoError ''no such file'') | Some bs \<Rightarrow> Inr bs)"

definition os_WriteFile :: "string \<Rightarrow> bytes \<Rightarrow> os_world \<Rightarrow> (go_error + unit) \<times> os_world" where
  "os_WriteFile name bs w =
     (if os_writable w name then (Inr (), w\<lparr>os_files := (os_files w)(name \<mapsto> bs)\<rparr>)
      else (Inl (GoError ''permission denied''), w))"

definition log_Println :: "string \<Rightarrow> os_world \<Rightarrow> os_world" where
  "log_Println s w = w\<lparr>os_log := os_log w @ [s]\<rparr>"

definition string_bytes :: "string \<Rightarrow> bytes" where
  "string_bytes s = map of_char s"

text \<open>Sequencing results in a world.\<close>

definition bindW ::
  "(go_error + 'a) \<times> 'w \<Rightarrow> ('a \<Rightarrow> 'w \<Rightarrow> (go_error + 'b) \<times> 'w) \<Rightarrow> (go_error + 'b) \<times> 'w" where
  "bindW r k = (case fst r of Inl e \<Rightarrow> (Inl e, snd r) | Inr x \<Rightarrow> k x (snd r))"

lemma bindW_simps [simp]: "bindW (Inl e, w) k = (Inl e, w)" "bindW (Inr x, w) k = k x w"
  by (simp_all add: bindW_def)

subsection \<open>The packages of go-ethereum and subnet-evm\<close>

record legacy_tx =
  tx_Nonce :: uint64
  tx_Gas :: uint64
  tx_GasPrice :: int
  tx_To :: "address option"
  tx_Value :: int
  tx_Data :: bytes
  tx_V :: int
  tx_R :: int
  tx_S :: int

record eth_lib =
  rlp_EncodeToBytes :: "address \<Rightarrow> uint64 \<Rightarrow> go_error + bytes"
  crypto_Keccak256Hash :: "bytes \<Rightarrow> bytes"
  common_HexToAddress :: "string \<Rightarrow> address"
  address_Hex :: "address \<Rightarrow> string"
  json_bytecode_object :: "bytes \<Rightarrow> go_error + string"
  homestead_Sender :: "legacy_tx \<Rightarrow> go_error + address"
  tx_MarshalBinary :: "legacy_tx \<Rightarrow> go_error + bytes"

subsection \<open>deployment_utils.go\<close>

definition contractCreationGasLimit :: uint64 where
  "contractCreationGasLimit = 4000000"

definition rsValueHex :: string where
  "rsValueHex = ''3333333333333333333333333333333333333333333333333333333333333333''"

definition contractCreationTxFileName :: string where
  "contractCreationTxFileName = ''UniversalTeleporterDeployerTransaction.txt''"

definition contractCreationAddrFileName :: string where
  "contractCreationAddrFileName = ''UniversalTeleporterDeployerAddress.txt''"

definition universalContractAddressFileName :: string where
  "universalContractAddressFileName = ''UniversalTeleporterMessengerContractAddress.txt''"

definition vValue :: int where
  "vValue = 27"

definition contractCreationGasPrice :: int where
  "contractCreationGasPrice = 2500000000000"

definition DeriveEVMContractAddress ::
  "eth_lib \<Rightarrow> address \<Rightarrow> uint64 \<Rightarrow> go_error + address" where
  "DeriveEVMContractAddress lib sender nonce =
     bindE (wrapE ''Failed to RLP encode address and nonce value.'' (rlp_EncodeToBytes lib sender nonce))
     (\<lambda>rlpEncoded.
     let hash = crypto_Keccak256Hash lib rlpEncoded in
     Inr (common_HexToAddress lib (''0x'' @ hex_EncodeToString (drop 12 hash))))"

definition ExtractByteCode ::
  "eth_lib \<Rightarrow> string \<Rightarrow> os_world \<Rightarrow> (go_error + bytes) \<times> os_world" where
  "ExtractByteCode lib byteCodeFileName w =
     (let w1 = log_Println (''Using bytecode file at '' @ byteCodeFileName) w in
      (bindE (wrapE ''Failed to read bytecode file contents'' (os_ReadFile byteCodeFileName w1))
       (\<lambda>contents.
       bindE (wrapE ''Failed to unmarshal bytecode file contents as JSON''
                (json_bytecode_object lib contents)) (\<lambda>byteCodeString.
       if length byteCodeString < 2 then Inl (GoError ''Invalid byte code length.'')
       else
         let stripped = (if take 2 byteCodeString = ''0x'' \<or> take 2 byteCodeString = ''0X''
                         then drop 2 byteCodeString else byteCodeString)
         in wrapE ''Failed to decode bytecode string as hexadecimal.'' (hex_DecodeString stripped))),
      w1))"

definition keyless_tx :: "int \<Rightarrow> bytes \<Rightarrow> legacy_tx" where
  "keyless_tx rsValue byteCode =
     \<lparr>tx_Nonce = 0, tx_Gas = contractCreationGasLimit, tx_GasPrice = contractCreationGasPrice,
      tx_To = None, tx_Value = 0, tx_Data = byteCode, tx_V = vValue, tx_R = rsValue,
      tx_S = rsValue\<rparr>"

text \<open>Writing the three files, one after another, stopping at the first failure.\<close>

definition write_results ::
  "string \<Rightarrow> string \<Rightarrow> string \<Rightarrow> os_world \<Rightarrow> (go_error + unit) \<times> os_world" where
  "write_results txString senderString contractString w =
     bindW (map_prod (wrapE ''Failed to write to contract creation tx file'') id
       (os_WriteFile contractCreationTxFileName (string_bytes txString) w)) (\<lambda>_ w1.
     bindW (map_prod (wrapE ''Failed to write to deployer address file'') id
       (os_WriteFile contractCreationAddrFileName (string_bytes senderString) w1)) (\<lambda>_ w2.
     map_prod (wrapE ''Failed to write to contract address'') id
       (os_WriteFile universalContractAddressFileName (string_bytes contractString) w2)))"

definition ConstructKeylessTransaction ::
  "eth_lib \<Rightarrow> string \<Rightarrow> bool \<Rightarrow> os_world
    \<Rightarrow> (go_error + (bytes \<times> address \<times> address)) \<times> os_world" where
  "ConstructKeylessTransaction lib byteCodeFileName writeFile w =
     (case SetString_16 rsValueHex of
        None \<Rightarrow> (Inl (GoError ''Failed to convert R and S value to big.Int.''), w)
      | Some rsValue \<Rightarrow>
     bindW (ExtractByteCode lib byteCodeFileName w) (\<lambda>byteCode w1.
     let tx = keyless_tx rsValue byteCode in
     bindW (wrapE ''Failed to recover the sender address of transaction''
              (homestead_Sender lib tx), w1) (\<lambda>sender w1.
     bindW (wrapE ''Failed to serialize raw transaction'' (tx_MarshalBinary lib tx), w1)
     (\<lambda>txBytes w1.
     let txString = ''0x'' @ hex_EncodeToString txBytes;
         senderString = address_Hex lib sender in
     bindW (wrapE ''Failed to derive contract address''
              (DeriveEVMContractAddress lib sender 0), w1) (\<lambda>contract w1.
     let contractString = address_Hex lib contract;
         w2 = fold log_Println
           [''Raw Teleporter Contract Creation Transaction:'', txString,
            ''Teleporter Contract Keyless Deployer Address:  '' @ senderString,
            ''Teleporter Messenger Universal Contract Address:  '' @ contractString] w1
     in bindW (if writeFile then write_results txString senderString contractString w2
               else (Inr (), w2)) (\<lambda>_ w3.
     (Inr (txBytes, sender, contract), w3)))))))"

subsection \<open>contractDeploymentTools.go\<close>

definition log_Panic :: "string \<Rightarrow> os_world \<Rightarrow> (go_error + 'a) \<times> os_world" where
  "log_Panic msg w = (Inl (GoPanic msg), log_Println msg w)"

definition deployment_main ::
  "eth_lib \<Rightarrow> string list \<Rightarrow> os_world \<Rightarrow> (go_error + unit) \<times> os_world" where
  "deployment_main lib os_Args w =
     (if length os_Args < 2 then
        log_Panic ''Invalid argument count. Must provide at least one argument to specify command type.'' w
      else if os_Args ! 1 = ''constructKeylessTx'' then
        if length os_Args \<noteq> 3 then
          log_Panic ''Invalid argument count. Must provide JSON file containing contract bytecode.'' w
        else
          (case ConstructKeylessTransaction lib (os_Args ! 2) True w of
             (Inl (GoError e), w1) \<Rightarrow> log_Panic (''Failed to construct keyless transaction.'' @ e) w1
           | (Inl (GoPanic e), w1) \<Rightarrow> (Inl (GoPanic e), w1)
           | (Inr _, w1) \<Rightarrow> (Inr (), w1))
      else if os_Args ! 1 = ''deriveContractAddress'' then
        if length os_Args \<noteq> 4 then
          log_Panic ''Invalid argument count. Must provide address and nonce.'' w
        else
          let deployerAddress = common_HexToAddress lib (os_Args ! 2) in
          (case ParseUint_10_64 (os_Args ! 3) of
             Inl (GoError e) \<Rightarrow> log_Panic (''Failed to parse nonce as uint'' @ e) w
           | Inl (GoPanic e) \<Rightarrow> (Inl (GoPanic e), w)
           | Inr nonce \<Rightarrow>
               (case DeriveEVMContractAddress lib deployerAddress nonce of
                  Inl (GoError e) \<Rightarrow> log_Panic (''Failed to derive contract address.'' @ e) w
                | Inl (GoPanic e) \<Rightarrow> (Inl (GoPanic e), w)
                | Inr resultAddress \<Rightarrow>
                    (Inr (), w\<lparr>os_stdout := os_stdout w @ [address_Hex lib resultAddress]\<rparr>)))
      else log_Panic ''Invalid command type. Supported options are \"constructKeylessTx\" and \"deriveContractAddress\".'' w)"

end
