(* ===== verification/Teleporter_CLI.thy ===== *)
theory Teleporter_CLI
  imports Deployment_Utils Go_Event
begin

section \<open>The command line tool\<close>

text \<open>
  \<open>cmd/teleporter-cli\<close>: \<open>root.go\<close>, \<open>event.go\<close>, \<open>message.go\<close> and \<open>transaction.go\<close>. The package's
  variables are the fields of \<open>cli_state\<close>, nil pointers and interfaces are \<open>None\<close>. The third-party
  packages they call (avalanchego's logging and warp payloads, subnet-evm's client and warp
  precompile, go-ethereum's hashes and addresses) are the fields of \<open>cli_lib\<close>; what runs the
  commands, cobra, is the argument of \<open>Execute\<close>.
\<close>

subsection \<open>Libraries and state\<close>

type_synonym eth_client = "bytes32 \<Rightarrow> go_error + log list"

record unsigned_message =
  um_ID_Hex :: string
  um_Payload :: bytes

record cli_lib =
  lib_abi :: abi_pkg
  lib_messageType :: go_type
  lib_unicode_lower :: "string \<Rightarrow> string"
  lib_Info_LowerString :: string
  lib_ToLevel :: "string \<Rightarrow> go_error + int"
  lib_HexToHash :: "string \<Rightarrow> bytes32"
  lib_HexToAddress :: "string \<Rightarrow> address"
  lib_Dial :: "string \<Rightarrow> go_error + eth_client"
  lib_UnpackSendWarpEventDataToMessage :: "bytes \<Rightarrow> go_error + unsigned_message"
  lib_ParseAddressedCall :: "bytes \<Rightarrow> go_error + bytes"

datatype zap_field =
    ZapString string string
  | ZapEvent go_value
  | ZapLog log
  | ZapMessage Go_TeleporterMessage

datatype log_entry =
    LogInfo string "zap_field list"
  | LogDebug string "zap_field list"

text \<open>\<open>cli_logged\<close> are the calls made on the logger, \<open>cli_printed\<close> the lines of \<open>cmd.Println\<close>.\<close>

record cli_state =
  cli_logger :: "int option"
  cli_teleporterABI :: "go_abi option"
  cli_topicArgs :: "string list"
  cli_data :: bytes
  cli_rpcEndpoint :: string
  cli_teleporterAddress :: address
  cli_client :: "eth_client option"
  cli_logged :: "log_entry list"
  cli_printed :: "string list"

text \<open>A command stops early with an exit status or with a panic.\<close>

datatype cli_stop =
    Exit nat string
  | Panicked string

type_synonym 'a cli_result = "(cli_stop + 'a) \<times> cli_state"

definition bindC :: "'a cli_result \<Rightarrow> ('a \<Rightarrow> cli_state \<Rightarrow> 'b cli_result) \<Rightarrow> 'b cli_result" where
  "bindC r k = (case fst r of Inl e \<Rightarrow> (Inl e, snd r) | Inr x \<Rightarrow> k x (snd r))"

text \<open>
  \<open>cobra.CheckErr\<close> prints a non-nil error and exits with status 1; a panic of the code that
  computed the value passes through it.
\<close>

fun check_err :: "go_error + 'a \<Rightarrow> cli_state \<Rightarrow> 'a cli_result" where
  "check_err (Inl (GoError e)) s = (Inl (Exit 1 e), s)"
| "check_err (Inl (GoPanic e)) s = (Inl (Panicked e), s)"
| "check_err (Inr x) s = (Inr x, s)"

text \<open>A method called on a nil pointer or interface panics.\<close>

fun not_nil :: "'a option \<Rightarrow> cli_state \<Rightarrow> 'a cli_result" where
  "not_nil None s = (Inl (Panicked ''nil pointer dereference''), s)"
| "not_nil (Some x) s = (Inr x, s)"

definition log_call :: "log_entry \<Rightarrow> cli_state \<Rightarrow> unit cli_result" where
  "log_call c s =
     bindC (not_nil (cli_logger s) s) (\<lambda>_ s. (Inr (), s\<lparr>cli_logged := cli_logged s @ [c]\<rparr>))"

definition cmd_Println :: "string \<Rightarrow> cli_state \<Rightarrow> unit cli_result" where
  "cmd_Println t s = (Inr (), s\<lparr>cli_printed := cli_printed s @ [t]\<rparr>)"

text \<open>\<open>topics[0]\<close>\<close>

fun first_topic :: "bytes32 list \<Rightarrow> cli_state \<Rightarrow> bytes32 cli_result" where
  "first_topic [] s = (Inl (Panicked ''index out of range [0] with length 0''), s)"
| "first_topic (t # ts) s = (Inr t, s)"

text \<open>\<open>(*big.Int).String\<close>\<close>

fun nat_decimal :: "nat \<Rightarrow> string" where
  "nat_decimal n =
     (if n < 10 then [hexit n] else nat_decimal (n div 10) @ [hexit (n mod 10)])"

definition big_Int_String :: "int \<Rightarrow> string" where
  "big_Int_String i = (if i < 0 then ''-'' @ nat_decimal (nat (- i)) else nat_decimal (nat i))"

subsection \<open>root.go\<close>

text \<open>
  \<open>Execute\<close> (and \<open>main\<close>, which only calls it) runs the root command and turns its error into exit
  status 1.
\<close>

definition Execute ::
  "(cli_state \<Rightarrow> (cli_stop + go_error option) \<times> cli_state) \<Rightarrow> cli_state \<Rightarrow> unit cli_result" where
  "Execute rootCmd_Execute s =
     bindC (rootCmd_Execute s) (\<lambda>err s.
     case err of
       None \<Rightarrow> (Inr (), s)
     | Some (GoError e) \<Rightarrow> (Inl (Exit 1 e), s)
     | Some (GoPanic e) \<Rightarrow> (Inl (Panicked e), s))"

definition cli_main ::
  "(cli_state \<Rightarrow> (cli_stop + go_error option) \<times> cli_state) \<Rightarrow> cli_state \<Rightarrow> unit cli_result" where
  "cli_main rootCmd_Execute s = Execute rootCmd_Execute s"

text \<open>
  A pre-run handler returns an error and a state. \<open>rootPreRunE\<close> also writes the default level
  through the pointer \<open>logLevelArg\<close>, which nothing reads again; the logger is set before the ABI is
  read.
\<close>

definition rootPreRunE ::
  "cli_lib \<Rightarrow> string \<Rightarrow> cli_state \<Rightarrow> (go_error + unit) \<times> cli_state" where
  "rootPreRunE lib logLevelArg s =
     (let arg = (if logLevelArg = '''' then lib_Info_LowerString lib else logLevelArg) in
      case lib_ToLevel lib arg of
        Inl e \<Rightarrow> (Inl e, s)
      | Inr logLevel \<Rightarrow>
          let s1 = s\<lparr>cli_logger := Some logLevel\<rparr> in
          (case pkg_GetAbi (lib_abi lib) TeleporterMessengerMetaData of
             Inl e \<Rightarrow> (Inl e, s1)
           | Inr abi \<Rightarrow> (Inr (), s1\<lparr>cli_teleporterABI := abi\<rparr>)))"

text \<open>
  A command's parent and the parent's \<open>PersistentPreRunE\<close>, each of which may be nil; \<open>init\<close> of
  \<open>root.go\<close> sets the one of the root command.
\<close>

type_synonym pre_run = "cli_state \<Rightarrow> (go_error + unit) \<times> cli_state"

definition callPersistentPreRunE ::
  "pre_run option option \<Rightarrow> cli_state \<Rightarrow> (go_error + unit) \<times> cli_state" where
  "callPersistentPreRunE parent s =
     (case parent of
        Some (Some PersistentPreRunE) \<Rightarrow> PersistentPreRunE s
      | _ \<Rightarrow> (Inr (), s))"

definition root_PersistentPreRunE :: "cli_lib \<Rightarrow> string \<Rightarrow> pre_run" where
  "root_PersistentPreRunE lib logLevelArg = rootPreRunE lib logLevelArg"

subsection \<open>event.go\<close>

text \<open>Parsing one log: the event by its first topic, then its fields.\<close>

definition eventRun :: "cli_lib \<Rightarrow> cli_state \<Rightarrow> unit cli_result" where
  "eventRun lib s =
     (let topics = map (lib_HexToHash lib) (cli_topicArgs s) in
      bindC (first_topic topics s) (\<lambda>topic s.
      bindC (not_nil (cli_teleporterABI s) s) (\<lambda>abi s.
      bindC (check_err (abi_EventByID abi topic) s) (\<lambda>name s.
      bindC (check_err (FilterTeleporterEvents (lib_unicode_lower lib) (lib_abi lib) topics
               (cli_data s) name) s) (\<lambda>out s.
      bindC (log_call (LogInfo ''Parsed Teleporter event'' [ZapString ''name'' name, ZapEvent out]) s)
      (\<lambda>_ s. cmd_Println (''Event command ran successfully for '' @ name) s))))))"

subsection \<open>message.go\<close>

definition messageRun :: "cli_lib \<Rightarrow> string \<Rightarrow> cli_state \<Rightarrow> unit cli_result" where
  "messageRun lib encodedMsg s =
     bindC (check_err (hex_DecodeString encodedMsg) s) (\<lambda>b s.
     bindC (check_err (UnpackTeleporterMessage (lib_abi lib) (lib_messageType lib) b) s) (\<lambda>msg s.
     bindC (log_call (LogInfo ''Teleporter Message unpacked'' [ZapMessage msg]) s) (\<lambda>_ s.
     cmd_Println ''Message command ran successfully'' s)))"

subsection \<open>transaction.go\<close>

definition warpPrecompileAddress :: string where
  "warpPrecompileAddress = ''0x0200000000000000000000000000000000000005''"

text \<open>The two branches of the loop's body, each guarded by the address of the log.\<close>

definition process_teleporter_log :: "cli_lib \<Rightarrow> log \<Rightarrow> cli_state \<Rightarrow> unit cli_result" where
  "process_teleporter_log lib log s =
     (if log_Address log = cli_teleporterAddress s then
        bindC (log_call (LogInfo ''Processing Teleporter log'' [ZapLog log]) s) (\<lambda>_ s.
        bindC (first_topic (log_Topics log) s) (\<lambda>topic s.
        bindC (not_nil (cli_teleporterABI s) s) (\<lambda>abi s.
        bindC (check_err (abi_EventByID abi topic) s) (\<lambda>name s.
        bindC (check_err (FilterTeleporterEvents (lib_unicode_lower lib) (lib_abi lib)
                 (log_Topics log) (log_Data log) name) s) (\<lambda>out s.
        log_call (LogInfo ''Parsed Teleporter event'' [ZapString ''name'' name, ZapEvent out]) s)))))
      else (Inr (), s))"

definition process_warp_log :: "cli_lib \<Rightarrow> log \<Rightarrow> cli_state \<Rightarrow> unit cli_result" where
  "process_warp_log lib log s =
     (if log_Address log = lib_HexToAddress lib warpPrecompileAddress then
        bindC (log_call (LogDebug ''Processing Warp log'' [ZapLog log]) s) (\<lambda>_ s.
        bindC (check_err (lib_UnpackSendWarpEventDataToMessage lib (log_Data log)) s)
        (\<lambda>unsignedMsg s.
        bindC (check_err (lib_ParseAddressedCall lib (um_Payload unsignedMsg)) s) (\<lambda>payload s.
        bindC (check_err (UnpackTeleporterMessage (lib_abi lib) (lib_messageType lib) payload) s)
        (\<lambda>msg s.
        log_call (LogInfo ''Parsed Teleporter message''
          [ZapString ''warpMessageID'' (um_ID_Hex unsignedMsg),
           ZapString ''teleporterMessageID''
             (big_Int_String (Go_TeleporterMessage_MessageID msg)),
           ZapMessage msg]) s))))
      else (Inr (), s))"

fun process_logs :: "cli_lib \<Rightarrow> log list \<Rightarrow> cli_state \<Rightarrow> unit cli_result" where
  "process_logs lib [] s = (Inr (), s)"
| "process_logs lib (log # logs) s =
     bindC (process_teleporter_log lib log s) (\<lambda>_ s.
     bindC (process_warp_log lib log s) (\<lambda>_ s.
     process_logs lib logs s))"

definition transactionRun :: "cli_lib \<Rightarrow> string \<Rightarrow> cli_state \<Rightarrow> unit cli_result" where
  "transactionRun lib arg s =
     bindC (not_nil (cli_client s) s) (\<lambda>client s.
     bindC (check_err (client (lib_HexToHash lib arg)) s) (\<lambda>logs s.
     bindC (process_logs lib logs s) (\<lambda>_ s.
     cmd_Println ''Transaction command ran successfully'' s)))"

text \<open>
  \<open>transactionPreRunE\<close>; \<open>init\<close> makes it the \<open>PersistentPreRunE\<close> of a command whose parent is the root
  command.
\<close>

definition transactionPreRunE ::
  "cli_lib \<Rightarrow> pre_run option option \<Rightarrow> string \<Rightarrow> cli_state \<Rightarrow> (go_error + unit) \<times> cli_state" where
  "transactionPreRunE lib parent addressArg s =
     bindW (callPersistentPreRunE parent s) (\<lambda>_ s.
     let s1 = s\<lparr>cli_teleporterAddress := lib_HexToAddress lib addressArg\<rparr> in
     case lib_Dial lib (cli_rpcEndpoint s1) of
       Inl e \<Rightarrow> (Inl e, s1)
     | Inr c \<Rightarrow> (Inr (), s1\<lparr>cli_client := Some c\<rparr>))"

end
