(* ===== verification/Deployment_Correctness.thy ===== *)
theory Deployment_Correctness
  imports Deployment_Utils Go_Event
begin

section \<open>What the deployment tools guarantee\<close>

text \<open>
  Hexadecimal coding is a round trip up to the case of the digits; on it rest the properties of
  the bytecode reader, of the keyless transaction and of the two commands.
\<close>

subsection \<open>Hexadecimal coding\<close>

lemma hexit_cases: "(n :: nat) < 16 \<Longrightarrow> n \<in> {0,1,2,3,4,5,6,7,8,9,10,11,12,13,14,15}"
  unfolding insert_iff empty_iff by presburger

lemma hex_digit_hexit [simp]: "n < 16 \<Longrightarrow> hex_digit (hexit n) = Some n"
  by (drule hexit_cases) (elim insertE emptyE; simp add: hex_digit_def hexit_def)

lemma hex_digit_lower: "hex_digit (ascii_lower c) = hex_digit c"
  by (simp add: hex_digit_def ascii_lower_def Let_def)

lemma hex_digit_char:
  "(k :: nat) \<in> {48,49,50,51,52,53,54,55,56,57,97,98,99,100,101,102,65,66,67,68,69,70} \<Longrightarrow>
    hex_digit (char_of k) = Some n \<longrightarrow> n < 16 \<and> ascii_lower (char_of k) = hexit n"
  by (elim insertE emptyE; hypsubst)
    (auto simp: hex_digit_def ascii_lower_def hexit_def char_of_def bit_0)

lemma hex_digit_Some:
  assumes "hex_digit c = Some n"
  shows "n < 16 \<and> ascii_lower c = hexit n"
proof -
  let ?k = "of_char c :: nat"
  have "48 \<le> ?k \<and> ?k \<le> 57 \<or> 97 \<le> ?k \<and> ?k \<le> 102 \<or> 65 \<le> ?k \<and> ?k \<le> 70"
    using assms by (auto simp: hex_digit_def Let_def split: if_splits)
  then have "?k \<in> {48,49,50,51,52,53,54,55,56,57,97,98,99,100,101,102,65,66,67,68,69,70}"
    unfolding insert_iff empty_iff by presburger
  from hex_digit_char [OF this, of n] assms show ?thesis by simp
qed

lemma div_mod_16: "n < 16 \<Longrightarrow> 16 * m + n = k \<longleftrightarrow> m = k div 16 \<and> n = k mod (16 :: nat)"
  by auto

lemma hex_digit_iff: "n < 16 \<Longrightarrow> hex_digit c = Some n \<longleftrightarrow> ascii_lower c = hexit n"
  by (metis hex_digit_Some hex_digit_hexit hex_digit_lower)

lemma unat_byte: "unat (b :: byte) < 256"
  using unsigned_less [of b, where ?'a = nat] by simp

lemma hex_DecodeString_iff:
  "hex_DecodeString s = Inr bs \<longleftrightarrow> map ascii_lower s = hex_EncodeToString bs"
proof (induction s arbitrary: bs rule: hex_DecodeString.induct)
  case 1
  show ?case by (cases bs) auto
next
  case (2 p)
  show ?case by (cases bs) (auto split: option.splits)
next
  case (3 p q s)
  show ?case
  proof (cases bs)
    case Nil
    then show ?thesis by (auto split: option.splits)
  next
    case (Cons b bs')
    have d: "unat b div 16 < 16" "unat b mod 16 < 16" using unat_byte [of b] by auto
    have "word_of_nat (16 * m + n) = b \<longleftrightarrow> m = unat b div 16 \<and> n = unat b mod 16"
      if "m < 16" "n < 16" for m n
    proof -
      have "16 * m + n < 2 ^ 8" using that by simp
      then have "unat (word_of_nat (16 * m + n) :: byte) = 16 * m + n"
        by (simp only: unsigned_of_nat take_bit_nat_eq_self len_num1 len_bit0 len_num0)
          (simp add: take_bit_nat_eq_self)
      then have "word_of_nat (16 * m + n) = b \<longleftrightarrow> 16 * m + n = unat b"
        by (simp only: word_unat_eq_iff)
      then show ?thesis using that(2) by (simp only: div_mod_16)
    qed
    then have "hex_DecodeString (p # q # s) = Inr bs \<longleftrightarrow>
        hex_digit p = Some (unat b div 16) \<and> hex_digit q = Some (unat b mod 16) \<and>
        hex_DecodeString s = Inr bs'"
      using d hex_digit_Some [of p] hex_digit_Some [of q]
      by (auto simp: Cons split: option.splits)
    also have "\<dots> \<longleftrightarrow> map ascii_lower (p # q # s) = hex_EncodeToString bs"
      using "3.IH" hex_digit_iff [OF d(1), of p] hex_digit_iff [OF d(2), of q]
      by (cases "hex_digit p"; cases "hex_digit q") (auto simp: Cons)
    finally show ?thesis .
  qed
qed

subsection \<open>Reading the bytecode\<close>

lemma lower_char:
  "ascii_lower c = CHR ''x'' \<longleftrightarrow> c = CHR ''x'' \<or> c = CHR ''X''"
  "ascii_lower c = CHR ''0'' \<longleftrightarrow> c = CHR ''0''"
proof -
  have c: "c = char_of (of_char c :: nat)" by simp
  have x: "char_of (88 :: nat) = CHR ''X''" "char_of (120 :: nat) = CHR ''x''"
    "char_of (48 :: nat) = CHR ''0''"
    by (simp_all add: char_of_def bit_0)
  have "(of_char c :: nat) < 256" by (rule nat_of_char_less_256)
  then have "of_char (ascii_lower c) = (120 :: nat) \<longleftrightarrow> of_char c = (120 :: nat) \<or> of_char c = (88 :: nat)"
    "of_char (ascii_lower c) = (48 :: nat) \<longleftrightarrow> of_char c = (48 :: nat)"
    by (auto simp: ascii_lower_def)
  moreover have "of_char d = (n :: nat) \<longleftrightarrow> d = char_of n" if "n < 256" for d n
    using that by (auto simp: of_char_of)
  ultimately show "ascii_lower c = CHR ''x'' \<longleftrightarrow> c = CHR ''x'' \<or> c = CHR ''X''"
    "ascii_lower c = CHR ''0'' \<longleftrightarrow> c = CHR ''0''"
    by (simp_all add: x)
qed

definition strip_0x :: "string \<Rightarrow> string" where
  "strip_0x s = (if take 2 s = ''0x'' \<or> take 2 s = ''0X'' then drop 2 s else s)"

lemma decode_stripped:
  "hex_DecodeString (strip_0x s) = Inr bs \<longleftrightarrow>
     map ascii_lower s = hex_EncodeToString bs \<or> map ascii_lower s = ''0x'' @ hex_EncodeToString bs"
proof (cases "\<exists>c t. s = CHR ''0'' # c # t \<and> (c = CHR ''x'' \<or> c = CHR ''X'')")
  case True
  then obtain c t where s: "s = CHR ''0'' # c # t" and c: "c = CHR ''x'' \<or> c = CHR ''X''" by blast
  then have "hex_digit c = None" by (auto simp: hex_digit_def)
  then have "hex_DecodeString s \<noteq> Inr bs" by (simp add: s split: option.splits)
  then have "map ascii_lower s \<noteq> hex_EncodeToString bs" by (simp add: hex_DecodeString_iff)
  moreover have "strip_0x s = t" using s c by (auto simp: strip_0x_def)
  moreover have "map ascii_lower s = ''0x'' @ map ascii_lower t"
    using c lower_char by (auto simp: s)
  ultimately show ?thesis by (simp add: hex_DecodeString_iff)
next
  case False
  then have "map ascii_lower s \<noteq> ''0x'' @ hex_EncodeToString bs"
    by (auto simp: map_eq_Cons_conv lower_char)
  moreover have "take 2 s \<noteq> ''0x'' \<and> take 2 s \<noteq> ''0X''"
  proof (cases s rule: hex_DecodeString.cases)
    case (3 p q r)
    then show ?thesis using False by auto
  qed auto
  then have "strip_0x s = s" by (simp add: strip_0x_def)
  ultimately show ?thesis by (simp add: hex_DecodeString_iff)
qed

lemma ExtractByteCode_world:
  "snd (ExtractByteCode lib f w) = log_Println (''Using bytecode file at '' @ f) w"
  by (simp add: ExtractByteCode_def Let_def)

text \<open>
  C36: The bytecode reader accepts exactly the files whose field \<open>bytecode.object\<close> is the
  hexadecimal form of some bytes, in any case, with or without a leading 0x or 0X and at least
  two characters long, and then returns these bytes. It changes nothing but the log.
\<close>

theorem extract_byte_code:
  "(fst (ExtractByteCode lib f w) = Inr bs \<longleftrightarrow>
     (\<exists>contents s. os_files w f = Some contents \<and> json_bytecode_object lib contents = Inr s \<and>
        2 \<le> length s \<and> (map ascii_lower s = hex_EncodeToString bs \<or>
          map ascii_lower s = ''0x'' @ hex_EncodeToString bs))) \<and>
   snd (ExtractByteCode lib f w)
     = w\<lparr>os_log := os_log w @ [''Using bytecode file at '' @ f]\<rparr>"
proof -
  have "fst (ExtractByteCode lib f w) = Inr bs \<longleftrightarrow>
     (\<exists>contents s. os_files w f = Some contents \<and> json_bytecode_object lib contents = Inr s \<and>
        2 \<le> length s \<and> hex_DecodeString (strip_0x s) = Inr bs)"
    by (auto simp: ExtractByteCode_def Let_def os_ReadFile_def log_Println_def strip_0x_def not_less
        split: option.splits if_splits)
  then show ?thesis
    by (simp only: decode_stripped ExtractByteCode_world) (simp add: log_Println_def)
qed

subsection \<open>The keyless transaction\<close>

definition result_files :: "string set" where
  "result_files =
     {contractCreationTxFileName, contractCreationAddrFileName, universalContractAddressFileName}"

lemma result_files_distinct [simp]:
  "contractCreationTxFileName \<noteq> contractCreationAddrFileName"
  "contractCreationTxFileName \<noteq> universalContractAddressFileName"
  "contractCreationAddrFileName \<noteq> universalContractAddressFileName"
  by (simp_all add: contractCreationTxFileName_def contractCreationAddrFileName_def
      universalContractAddressFileName_def)

lemma bindW_Inr:
  "bindW r k = (Inr y, w') \<longleftrightarrow> (\<exists>x w. r = (Inr x, w) \<and> k x w = (Inr y, w'))"
  by (cases r; cases "fst r") (auto simp: bindW_def)

lemma bindW_files:
  "(\<And>x. P (snd (k x (snd r)))) \<Longrightarrow> P (snd r) \<Longrightarrow> P (snd (bindW r k))"
  by (simp add: bindW_def split: sum.splits)

lemma log_Println_files [simp]: "os_files (log_Println s w) = os_files w"
  by (simp add: log_Println_def)

lemma os_WriteFile_frame:
  "name \<noteq> file \<Longrightarrow> os_files (snd (os_WriteFile file bs w)) name = os_files w name"
  by (simp add: os_WriteFile_def)

lemma write_results_Inr:
  "write_results tx a c w = (Inr (), w') \<Longrightarrow>
     w' = w\<lparr>os_files := (os_files w)(contractCreationTxFileName \<mapsto> string_bytes tx,
       contractCreationAddrFileName \<mapsto> string_bytes a,
       universalContractAddressFileName \<mapsto> string_bytes c)\<rparr>"
  by (auto simp: write_results_def bindW_def os_WriteFile_def split: if_splits)

lemma write_results_frame:
  "name \<notin> result_files \<Longrightarrow> os_files (snd (write_results tx a c w)) name = os_files w name"
  unfolding write_results_def result_files_def
  by (auto simp: bindW_def os_WriteFile_frame split: sum.splits)

lemma rsValue: "SetString_16 rsValueHex = Some ((2 ^ 256 - 1) div 5)"
  by (simp add: SetString_16_def rsValueHex_def hex_digit_def)

lemmas construct = ConstructKeylessTransaction_def [unfolded rsValue option.case Let_def]

text \<open>
  C34: A keyless transaction is determined by the bytecode alone. When the construction succeeds,
  the bytes are the encoding of the contract creation with that bytecode, nonce 0, V = 27 and
  R = S = 0x33...33, the deployer is its recovered sender and the contract address the one that
  sender reaches with nonce 0. With \<open>writeFile\<close> the three files then hold the three results,
  without it no file changes, and no run, failing or not, touches any other file.
\<close>

theorem keyless_transaction:
  "(ConstructKeylessTransaction lib f writeFile w = (Inr (txBytes, sender, contract), w') \<longrightarrow>
     (\<exists>byteCode. fst (ExtractByteCode lib f w) = Inr byteCode \<and>
        tx_MarshalBinary lib (keyless_tx ((2 ^ 256 - 1) div 5) byteCode) = Inr txBytes \<and>
        homestead_Sender lib (keyless_tx ((2 ^ 256 - 1) div 5) byteCode) = Inr sender \<and>
        DeriveEVMContractAddress lib sender 0 = Inr contract \<and>
        os_files w' = (if writeFile then (os_files w)
          (contractCreationTxFileName \<mapsto> string_bytes (''0x'' @ hex_EncodeToString txBytes),
           contractCreationAddrFileName \<mapsto> string_bytes (address_Hex lib sender),
           universalContractAddressFileName \<mapsto> string_bytes (address_Hex lib contract))
          else os_files w))) \<and>
   (\<not> writeFile \<or> name \<notin> result_files \<longrightarrow>
     os_files (snd (ConstructKeylessTransaction lib f writeFile w)) name = os_files w name)"
proof (intro conjI impI)
  assume "ConstructKeylessTransaction lib f writeFile w = (Inr (txBytes, sender, contract), w')"
  then show "\<exists>byteCode. fst (ExtractByteCode lib f w) = Inr byteCode \<and>
        tx_MarshalBinary lib (keyless_tx ((2 ^ 256 - 1) div 5) byteCode) = Inr txBytes \<and>
        homestead_Sender lib (keyless_tx ((2 ^ 256 - 1) div 5) byteCode) = Inr sender \<and>
        DeriveEVMContractAddress lib sender 0 = Inr contract \<and>
        os_files w' = (if writeFile then (os_files w)
          (contractCreationTxFileName \<mapsto> string_bytes (''0x'' @ hex_EncodeToString txBytes),
           contractCreationAddrFileName \<mapsto> string_bytes (address_Hex lib sender),
           universalContractAddressFileName \<mapsto> string_bytes (address_Hex lib contract))
          else os_files w)"
    unfolding construct
    by (cases writeFile)
      (auto simp add: bindW_Inr dest!: write_results_Inr, (metis ExtractByteCode_world fst_conv snd_conv log_Println_files)+)
next
  assume "\<not> writeFile \<or> name \<notin> result_files"
  then show "os_files (snd (ConstructKeylessTransaction lib f writeFile w)) name = os_files w name"
    unfolding construct
    by (intro bindW_files [where P = "\<lambda>w'. os_files w' name = os_files w name"])
      (auto simp: ExtractByteCode_world write_results_frame)
qed

text \<open>
  A library for the witnesses: addresses are written in unary, so that reading an address back
  is the inverse of printing it, and a JSON file is the string it contains.
\<close>

definition demo_eth :: eth_lib where
  "demo_eth = \<lparr>rlp_EncodeToBytes = (\<lambda>a n. Inr [ucast a, ucast n]),
     crypto_Keccak256Hash = (\<lambda>bs. replicate 32 (hd bs)),
     common_HexToAddress = (\<lambda>s. word_of_nat (length s)),
     address_Hex = (\<lambda>a. replicate (unat a) CHR ''1''),
     json_bytecode_object = (\<lambda>bs. Inr (map (char_of \<circ> unat) bs)),
     homestead_Sender = (\<lambda>tx. Inr (word_of_nat (length (tx_Data tx)))),
     tx_MarshalBinary = (\<lambda>tx. Inr (tx_Data tx))\<rparr>"

definition demo_os :: os_world where
  "demo_os = \<lparr>os_files = [''bytecode.json'' \<mapsto> [48, 88, 54, 48, 52, 65]], os_writable = (\<lambda>_. True),
     os_log = [], os_stdout = []\<rparr>"

lemma demo_extract:
  "fst (ExtractByteCode demo_eth ''bytecode.json'' demo_os) = Inr [96, 74]"
  by (simp add: ExtractByteCode_def os_ReadFile_def log_Println_def demo_os_def demo_eth_def
      hex_digit_def char_of_def bit_0)

lemma demo_extract_eq:
  "ExtractByteCode demo_eth ''bytecode.json'' demo_os
     = (Inr [96, 74], log_Println ''Using bytecode file at bytecode.json'' demo_os)"
  by (rule prod_eqI) (simp_all add: demo_extract ExtractByteCode_world)

lemma write_results_ok:
  "os_writable w = (\<lambda>_. True) \<Longrightarrow> \<exists>w'. write_results tx a c w = (Inr (), w')"
  by (simp add: write_results_def os_WriteFile_def)

lemma length_hex [simp]: "length (hex_EncodeToString bs) = 2 * length bs"
  by (induction bs) simp_all

lemma demo_lib_steps:
  "homestead_Sender demo_eth (keyless_tx r [96, 74]) = Inr 2"
  "tx_MarshalBinary demo_eth (keyless_tx r [96, 74]) = Inr [96, 74]"
  "DeriveEVMContractAddress demo_eth 2 0 = Inr 42"
  by (simp_all add: demo_eth_def keyless_tx_def DeriveEVMContractAddress_def
      del: bindE_Inr_conv)

lemma demo_keyless:
  "\<exists>w'. ConstructKeylessTransaction demo_eth ''bytecode.json'' True demo_os = (Inr ([96, 74], 2, 42), w')"
proof -
  let ?w = "fold log_Println
           [''Raw Teleporter Contract Creation Transaction:'', ''0x'' @ hex_EncodeToString [96, 74],
            ''Teleporter Contract Keyless Deployer Address:  '' @ address_Hex demo_eth 2,
            ''Teleporter Messenger Universal Contract Address:  '' @ address_Hex demo_eth 42]
          (log_Println ''Using bytecode file at bytecode.json'' demo_os)"
  have "os_writable ?w = (\<lambda>_. True)" by (simp add: log_Println_def demo_os_def)
  from write_results_ok [OF this, of "''0x'' @ hex_EncodeToString [96, 74]"
      "address_Hex demo_eth 2" "address_Hex demo_eth 42"]
  show ?thesis
    unfolding construct demo_extract_eq bindW_simps demo_lib_steps wrapE.simps if_True
    by (elim exE) (simp only: bindW_simps, blast)
qed

lemma demo_Hex_2: "address_Hex demo_eth 2 = ''11''"
proof -
  have "unat (2 :: address) = Suc (Suc 0)" by simp
  then show ?thesis by (simp only: demo_eth_def eth_lib.simps replicate.simps)
qed

theorem keyless_transaction_witness:
  "\<exists>w'. ConstructKeylessTransaction demo_eth ''bytecode.json'' True demo_os = (Inr ([96, 74], 2, 42), w') \<and>
     os_files w' contractCreationAddrFileName = Some (string_bytes ''11'') \<and>
     os_files w' ''bytecode.json'' = os_files demo_os ''bytecode.json''"
proof -
  obtain w' where w': "ConstructKeylessTransaction demo_eth ''bytecode.json'' True demo_os
      = (Inr ([96, 74], 2, 42), w')" using demo_keyless by blast
  have "''bytecode.json'' \<notin> result_files"
    by (simp add: result_files_def contractCreationTxFileName_def contractCreationAddrFileName_def
        universalContractAddressFileName_def)
  then have "os_files w' ''bytecode.json'' = os_files demo_os ''bytecode.json''"
    using keyless_transaction [of demo_eth "''bytecode.json''" True demo_os "[96, 74]" 2 42 w'
        "''bytecode.json''"] by (simp add: w')
  moreover have "os_files w' contractCreationAddrFileName = Some (string_bytes ''11'')"
    using keyless_transaction [of demo_eth "''bytecode.json''" True demo_os "[96, 74]" 2 42 w',
        THEN conjunct1, THEN mp, OF w'] demo_Hex_2 by auto
  ultimately show ?thesis using w' by blast
qed

subsection \<open>The two commands agree\<close>

lemma log_Panic_fails [simp]: "log_Panic msg w \<noteq> (Inr x, w')"
  by (simp add: log_Panic_def)

lemma ParseUint_0: "ParseUint_10_64 ''0'' = Inr 0"
  by (simp add: ParseUint_10_64_def is_decimal_def)

text \<open>
  C35: The two commands of the deployment tool agree. When \<open>constructKeylessTx\<close> ends without a
  panic, it has written an encoded transaction, the deployer's address and a contract address,
  and \<open>deriveContractAddress\<close>, run at any later time on the deployer's address and the nonce 0,
  prints just that contract address and changes no file.
\<close>

theorem commands_agree:
  assumes "\<And>a. common_HexToAddress lib (address_Hex lib a) = a"
    and "deployment_main lib [p, ''constructKeylessTx'', f] w = (Inr (), w1)"
  shows "\<exists>txBytes sender contract.
    os_files w1 = (os_files w)
      (contractCreationTxFileName \<mapsto> string_bytes (''0x'' @ hex_EncodeToString txBytes),
       contractCreationAddrFileName \<mapsto> string_bytes (address_Hex lib sender),
       universalContractAddressFileName \<mapsto> string_bytes (address_Hex lib contract)) \<and>
    (\<forall>w2. deployment_main lib [q, ''deriveContractAddress'', address_Hex lib sender, ''0''] w2
       = (Inr (), w2\<lparr>os_stdout := os_stdout w2 @ [address_Hex lib contract]\<rparr>))"
proof -
  obtain tx sender contract where
    c: "ConstructKeylessTransaction lib f True w = (Inr (tx, sender, contract), w1)"
    using assms(2) by (auto simp: deployment_main_def split: prod.splits sum.splits go_error.splits)
  have d: "DeriveEVMContractAddress lib sender 0 = Inr contract"
    using c unfolding construct by (auto simp: bindW_Inr)
  have "os_files w1 = (os_files w)
      (contractCreationTxFileName \<mapsto> string_bytes (''0x'' @ hex_EncodeToString tx),
       contractCreationAddrFileName \<mapsto> string_bytes (address_Hex lib sender),
       universalContractAddressFileName \<mapsto> string_bytes (address_Hex lib contract))"
    using c unfolding construct
    by (auto simp: bindW_Inr dest!: write_results_Inr)
      (metis ExtractByteCode_world snd_conv log_Println_files)
  moreover have "deployment_main lib [q, ''deriveContractAddress'', address_Hex lib sender, ''0''] w2
       = (Inr (), w2\<lparr>os_stdout := os_stdout w2 @ [address_Hex lib contract]\<rparr>)" for w2
    by (simp add: deployment_main_def ParseUint_0 assms(1) d)
  ultimately show ?thesis by blast
qed

theorem commands_agree_witness:
  "\<exists>sender contract. \<forall>w2.
     deployment_main demo_eth [''tool'', ''deriveContractAddress'', address_Hex demo_eth sender, ''0''] w2
       = (Inr (), w2\<lparr>os_stdout := os_stdout w2 @ [address_Hex demo_eth contract]\<rparr>)"
proof -
  have hex: "common_HexToAddress demo_eth (address_Hex demo_eth a) = a" for a
    by (simp add: demo_eth_def)
  obtain w1 where "deployment_main demo_eth [''tool'', ''constructKeylessTx'', ''bytecode.json''] demo_os
      = (Inr (), w1)" using demo_keyless by (auto simp: deployment_main_def)
  from commands_agree [OF hex this, of "''tool''"] show ?thesis by blast
qed

end
