(* ===== verification/CLI_Correctness.thy ===== *)
theory CLI_Correctness
  imports Teleporter_CLI Deployment_Correctness Event_Correctness Bind_Messenger_Link
begin

section \<open>What the commands of the tool guarantee\<close>

text \<open>
  What a command logs is described by functions of its input alone (\<open>event_report\<close>,
  \<open>warp_report\<close>, \<open>log_report\<close>), and the commands are shown to compute them.
\<close>

subsection \<open>Reports\<close>

definition event_report ::
  "cli_lib \<Rightarrow> go_abi \<Rightarrow> bytes32 list \<Rightarrow> bytes \<Rightarrow> go_error + string \<times> go_value" where
  "event_report lib abi topics data =
     (case topics of
        [] \<Rightarrow> Inl (GoPanic ''index out of range [0] with length 0'')
      | topic # _ \<Rightarrow>
          bindE (abi_EventByID abi topic) (\<lambda>name.
          bindE (FilterTeleporterEvents (lib_unicode_lower lib) (lib_abi lib) topics data name) (\<lambda>out.
          Inr (name, out))))"

definition warp_report ::
  "cli_lib \<Rightarrow> bytes \<Rightarrow> go_error + unsigned_message \<times> Go_TeleporterMessage" where
  "warp_report lib data =
     bindE (lib_UnpackSendWarpEventDataToMessage lib data) (\<lambda>u.
     bindE (lib_ParseAddressedCall lib (um_Payload u)) (\<lambda>payload.
     bindE (UnpackTeleporterMessage (lib_abi lib) (lib_messageType lib) payload) (\<lambda>msg.
     Inr (u, msg))))"

definition event_entry :: "string \<times> go_value \<Rightarrow> log_entry" where
  "event_entry r = LogInfo ''Parsed Teleporter event'' [ZapString ''name'' (fst r), ZapEvent (snd r)]"

definition warp_entry :: "unsigned_message \<times> Go_TeleporterMessage \<Rightarrow> log_entry" where
  "warp_entry r = LogInfo ''Parsed Teleporter message''
     [ZapString ''warpMessageID'' (um_ID_Hex (fst r)),
      ZapString ''teleporterMessageID'' (big_Int_String (Go_TeleporterMessage_MessageID (snd r))),
      ZapMessage (snd r)]"

text \<open>What the loop of the transaction command logs for one log of the receipt.\<close>

definition teleporter_part :: "cli_lib \<Rightarrow> go_abi \<Rightarrow> address \<Rightarrow> log \<Rightarrow> go_error + log_entry list" where
  "teleporter_part lib abi addr log =
     (if log_Address log = addr then
        bindE (event_report lib abi (log_Topics log) (log_Data log)) (\<lambda>r.
        Inr [LogInfo ''Processing Teleporter log'' [ZapLog log], event_entry r])
      else Inr [])"

definition warp_part :: "cli_lib \<Rightarrow> log \<Rightarrow> go_error + log_entry list" where
  "warp_part lib log =
     (if log_Address log = lib_HexToAddress lib warpPrecompileAddress then
        bindE (warp_report lib (log_Data log)) (\<lambda>r.
        Inr [LogDebug ''Processing Warp log'' [ZapLog log], warp_entry r])
      else Inr [])"

definition log_report :: "cli_lib \<Rightarrow> go_abi \<Rightarrow> address \<Rightarrow> log \<Rightarrow> go_error + log_entry list" where
  "log_report lib abi addr log =
     bindE (teleporter_part lib abi addr log) (\<lambda>a. bindE (warp_part lib log) (\<lambda>b. Inr (a @ b)))"

definition logging :: "log_entry list \<Rightarrow> cli_state \<Rightarrow> cli_state" where
  "logging r s = s\<lparr>cli_logged := cli_logged s @ r\<rparr>"

definition ready :: "go_abi \<Rightarrow> cli_state \<Rightarrow> bool" where
  "ready abi s \<longleftrightarrow> cli_logger s \<noteq> None \<and> cli_teleporterABI s = Some abi"

lemma logging_simps [simp]:
  "ready abi (logging r s) = ready abi s"
  "logging q (logging r s) = logging (r @ q) s"
  "cli_teleporterAddress (logging r s) = cli_teleporterAddress s"
  "cli_teleporterABI (logging r s) = cli_teleporterABI s"
  "cli_logger (logging r s) = cli_logger s"
  "cli_data (logging r s) = cli_data s"
  "logging [] s = s"
  by (simp_all add: logging_def ready_def)

lemma bindC_simps [simp]:
  "bindC (Inl e, s) k = (Inl e, s)" "bindC (Inr x, s) k = k x s"
  by (simp_all add: bindC_def)

lemma log_call_ready [simp]: "ready abi s \<Longrightarrow> log_call c s = (Inr (), logging [c] s)"
  by (auto simp: log_call_def ready_def logging_def)

fun stop_of :: "go_error \<Rightarrow> cli_stop" where
  "stop_of (GoError e) = Exit 1 e"
| "stop_of (GoPanic e) = Panicked e"

lemma check_err_conv: "check_err r s = (case r of Inl e \<Rightarrow> (Inl (stop_of e), s) | Inr x \<Rightarrow> (Inr x, s))"
  by (cases "(r, s)" rule: check_err.cases) simp_all

text \<open>A step of the command follows a report: it logs it, or stops as the report does.\<close>

definition follows :: "unit cli_result \<Rightarrow> go_error + log_entry list \<Rightarrow> cli_state \<Rightarrow> bool" where
  "follows res report s \<longleftrightarrow>
     (case report of Inl e \<Rightarrow> fst res = Inl (stop_of e) | Inr r \<Rightarrow> res = (Inr (), logging r s))"

lemma process_teleporter_log_follows:
  "ready abi s \<Longrightarrow>
    follows (process_teleporter_log lib log s)
      (teleporter_part lib abi (cli_teleporterAddress s) log) s"
  by (cases "log_Topics log"; cases "abi_EventByID abi (hd (log_Topics log))";
      cases "FilterTeleporterEvents (lib_unicode_lower lib) (lib_abi lib) (log_Topics log)
        (log_Data log) (projr (abi_EventByID abi (hd (log_Topics log))))")
    (auto simp: follows_def process_teleporter_log_def teleporter_part_def event_report_def
      check_err_conv event_entry_def ready_def simp del: bindE_Inr_conv)

lemma process_warp_log_follows:
  "ready abi s \<Longrightarrow> follows (process_warp_log lib log s) (warp_part lib log) s"
  by (auto simp: follows_def process_warp_log_def warp_part_def warp_report_def
      check_err_conv warp_entry_def simp del: bindE_Inr_conv split: sum.splits)

lemma follows_bindC:
  assumes "follows res a s" and "\<And>r. a = Inr r \<Longrightarrow> follows (k () (logging r s)) b (logging r s)"
  shows "follows (bindC res k) (bindE a (\<lambda>r. bindE b (\<lambda>q. Inr (r @ q)))) s"
  using assms by (cases a; cases b) (auto simp: follows_def bindC_def)

fun logs_report :: "cli_lib \<Rightarrow> go_abi \<Rightarrow> address \<Rightarrow> log list \<Rightarrow> go_error + log_entry list" where
  "logs_report lib abi addr [] = Inr []"
| "logs_report lib abi addr (log # ls) =
     bindE (log_report lib abi addr log) (\<lambda>a. bindE (logs_report lib abi addr ls) (\<lambda>b. Inr (a @ b)))"

lemma bindC_assoc: "bindC (bindC r k) h = bindC r (\<lambda>x s. bindC (k x s) h)"
  by (simp add: bindC_def split: sum.split)

lemma process_logs_follows:
  "ready abi s \<Longrightarrow>
    follows (process_logs lib ls s) (logs_report lib abi (cli_teleporterAddress s) ls) s"
proof (induction ls arbitrary: s)
  case Nil
  show ?case by (simp add: follows_def)
next
  case (Cons log ls)
  have one: "follows (bindC (process_teleporter_log lib log s) (\<lambda>_. process_warp_log lib log))
      (log_report lib abi (cli_teleporterAddress s) log) s"
    unfolding log_report_def
    by (rule follows_bindC [OF process_teleporter_log_follows [OF Cons.prems]])
      (rule process_warp_log_follows [of abi], simp add: Cons.prems)
  have "follows (process_logs lib ls (logging r s))
      (logs_report lib abi (cli_teleporterAddress s) ls) (logging r s)" for r
    using Cons.IH [of "logging r s"] Cons.prems by simp
  from follows_bindC [OF one, of "\<lambda>_. process_logs lib ls", OF this]
  show ?case by (simp add: bindC_assoc)
qed

lemma logs_report_iff:
  "logs_report lib abi addr ls = Inr r \<longleftrightarrow>
     (\<exists>rs. list_all2 (\<lambda>l q. log_report lib abi addr l = Inr q) ls rs \<and> r = concat rs)"
proof (induction ls arbitrary: r)
  case (Cons l ls)
  show ?case unfolding list_all2_Cons1 by (auto simp: Cons.IH) (metis concat.simps(2))
qed auto

subsection \<open>Where a command can panic\<close>

text \<open>
  The documented behaviour of the libraries: they report errors and do not panic, a filled struct
  has its type, and reading the ABI yields one or an error.
\<close>

definition errors_only :: "cli_lib \<Rightarrow> bool" where
  "errors_only lib \<longleftrightarrow>
     fills_structs (lib_abi lib) \<and>
     (\<forall>abi t. pkg_GetAbi (lib_abi lib) TeleporterMessengerMetaData = Inr (Some abi) \<longrightarrow>
        \<not> panics (abi_EventByID abi t)) \<and>
     (\<forall>T bs. \<not> panics (pkg_ArgsUnpack (lib_abi lib) T bs)) \<and>
     (\<forall>T vs. \<not> panics (pkg_ArgsCopy (lib_abi lib) T vs) \<and>
        (\<forall>v. pkg_ArgsCopy (lib_abi lib) T vs = Inr v \<longrightarrow> has_type v T)) \<and>
     (\<forall>bs. \<not> panics (lib_UnpackSendWarpEventDataToMessage lib bs)) \<and>
     (\<forall>bs. \<not> panics (lib_ParseAddressedCall lib bs))"

lemma errors_onlyD:
  assumes "errors_only lib"
  shows "fills_structs (lib_abi lib)"
    and "pkg_GetAbi (lib_abi lib) TeleporterMessengerMetaData = Inr (Some abi) \<Longrightarrow>
      \<not> panics (abi_EventByID abi t)"
    and "\<not> panics (pkg_ArgsUnpack (lib_abi lib) T bs)"
    and "\<not> panics (pkg_ArgsCopy (lib_abi lib) T vs)"
    and "pkg_ArgsCopy (lib_abi lib) T vs = Inr v \<Longrightarrow> has_type v T"
    and "\<not> panics (lib_UnpackSendWarpEventDataToMessage lib bs)"
    and "\<not> panics (lib_ParseAddressedCall lib bs)"
  using assms by (simp_all add: errors_only_def)

lemma unpack_no_panic:
  assumes "errors_only lib"
  shows "\<not> panics (UnpackTeleporterMessage (lib_abi lib) T bs)"
proof -
  let ?S = "TStruct ''teleporterMessageArg'' [T_TeleporterMessage]"
  let ?field = "\<lambda>v. bindE (as_struct ''teleporterMessageArg'' v) (\<lambda>fields.
      bindE (go_index fields 0) as_TeleporterMessage)"
  have field: "\<not> panics (?field v)" if v: "has_type v ?S" for v
  proof -
    from v obtain u where u: "v = GStruct ''teleporterMessageArg'' [u]" "has_type u T_TeleporterMessage"
      by (auto simp: has_type_struct list_all2_Cons2)
    obtain m where "as_TeleporterMessage u = Inr m" using as_typed_message [OF u(2)] by blast
    then have "?field v = Inr m" by (simp add: u(1))
    then show ?thesis by (simp only: panics_simps not_False_eq_True)
  qed
  have copy: "\<not> panics (bindE (pkg_ArgsCopy (lib_abi lib) ?S unpacked) ?field)" for unpacked
    unfolding panics_bindE [of "pkg_ArgsCopy _ _ _"]
    using errors_onlyD(4,5) [OF assms] field by blast
  show ?thesis
    unfolding UnpackTeleporterMessage_def
    unfolding panics_bindE [of "wrapE _ _"] panics_wrapE
    using errors_onlyD(3) [OF assms] copy by blast
qed

lemma log_report_panics:
  assumes lib: "errors_only lib"
    and abi: "pkg_GetAbi (lib_abi lib) TeleporterMessengerMetaData = Inr (Some abi)"
    and p: "panics (log_report lib abi addr log)"
  shows "log_Address log = addr \<and> log_Topics log = []"
proof -
  have "\<not> panics (warp_part lib log)"
    by (auto simp: warp_part_def warp_report_def panics_bindE unpack_no_panic [OF lib]
        errors_onlyD(6,7) [OF lib])
  then have t: "panics (teleporter_part lib abi addr log)"
    using p by (auto simp: log_report_def panics_bindE)
  have f: "panics (FilterTeleporterEvents u (lib_abi lib) topics data n) \<Longrightarrow> topics = []"
    for u topics data n
    using filter_events_no_panic [OF errors_onlyD(1) [OF lib]] by blast
  from t show ?thesis
    by (auto simp: teleporter_part_def event_report_def panics_bindE errors_onlyD(2) [OF lib abi]
        dest: f split: if_splits list.splits)
qed

lemma logs_report_panics:
  "panics (logs_report lib abi addr ls) \<Longrightarrow> \<exists>l \<in> set ls. panics (log_report lib abi addr l)"
  by (induction ls) (auto simp: panics_bindE)

subsection \<open>The transaction command\<close>

lemma rootPreRunE_Inr:
  assumes "rootPreRunE lib lvl s = (Inr (), s')"
  shows "cli_logger s' \<noteq> None \<and>
    pkg_GetAbi (lib_abi lib) TeleporterMessengerMetaData = Inr (cli_teleporterABI s')"
  using assms by (auto simp: rootPreRunE_def Let_def split: sum.splits)

definition root_command :: "cli_lib \<Rightarrow> string \<Rightarrow> pre_run option option" where
  "root_command lib lvl = Some (Some (root_PersistentPreRunE lib lvl))"

lemma transactionPreRunE_Inr:
  assumes "transactionPreRunE lib (root_command lib lvl) addr s = (Inr (), s')"
  shows "cli_logger s' \<noteq> None \<and> cli_client s' \<noteq> None \<and>
    cli_teleporterAddress s' = lib_HexToAddress lib addr \<and>
    pkg_GetAbi (lib_abi lib) TeleporterMessengerMetaData = Inr (cli_teleporterABI s')"
proof -
  obtain w where w: "rootPreRunE lib lvl s = (Inr (), w)" and
    "(case lib_Dial lib (cli_rpcEndpoint w) of
        Inl e \<Rightarrow> (Inl e, w\<lparr>cli_teleporterAddress := lib_HexToAddress lib addr\<rparr>)
      | Inr c \<Rightarrow> (Inr (), w\<lparr>cli_teleporterAddress := lib_HexToAddress lib addr,
          cli_client := Some c\<rparr>)) = (Inr (), s')"
    using assms by (auto simp: transactionPreRunE_def root_command_def callPersistentPreRunE_def
        bindW_Inr root_PersistentPreRunE_def Let_def)
  then show ?thesis
    using rootPreRunE_Inr [OF w] by (cases "lib_Dial lib (cli_rpcEndpoint w)") auto
qed

lemma ready_after_prerun:
  assumes "errors_only lib" "transactionPreRunE lib (root_command lib lvl) addr s = (Inr (), s')"
  obtains abi c where "ready abi s'" "cli_client s' = Some c"
    "pkg_GetAbi (lib_abi lib) TeleporterMessengerMetaData = Inr (Some abi)"
    "cli_teleporterAddress s' = lib_HexToAddress lib addr"
proof -
  note p = transactionPreRunE_Inr [OF assms(2)]
  have "pkg_GetAbi (lib_abi lib) TeleporterMessengerMetaData \<noteq> Inr None"
    using fills_structsD(1) [OF errors_onlyD(1) [OF assms(1)], of TeleporterMessengerMetaData]
    by auto
  with p that show ?thesis by (auto simp: ready_def)
qed

lemma fst_stop_of: "stop_of e = Panicked p \<longleftrightarrow> e = GoPanic p"
  by (cases e) auto

lemma transactionRun_follows:
  assumes "ready abi s" "cli_client s = Some client" "client (lib_HexToHash lib arg) = Inr ls"
  shows "case logs_report lib abi (cli_teleporterAddress s) ls of
      Inl e \<Rightarrow> fst (transactionRun lib arg s) = Inl (stop_of e)
    | Inr r \<Rightarrow> transactionRun lib arg s = (Inr (), s\<lparr>cli_logged := cli_logged s @ r,
        cli_printed := cli_printed s @ [''Transaction command ran successfully'']\<rparr>)"
  using process_logs_follows [OF assms(1), of lib ls]
  by (auto simp: transactionRun_def assms follows_def bindC_def cmd_Println_def logging_def
      split: sum.splits)

text \<open>
  C33: After a successful pre-run the transaction command succeeds exactly when every log of the
  receipt can be reported, and then it has logged the reports of all logs in the order of the
  receipt and nothing else; a log of any other contract reports nothing. The command never
  dereferences a nil logger, ABI or client, and its only panic is the one on a log of the
  messenger without topics.
\<close>

theorem transaction_command:
  assumes "errors_only lib"
    and "transactionPreRunE lib (root_command lib lvl) addr s0 = (Inr (), s)"
    and "cli_client s = Some client" and "client (lib_HexToHash lib arg) = Inr ls"
  shows "\<exists>abi. cli_teleporterABI s = Some abi \<and>
    (transactionRun lib arg s = (Inr (), s') \<longleftrightarrow>
      (\<exists>rs. list_all2 (\<lambda>l r. log_report lib abi (lib_HexToAddress lib addr) l = Inr r) ls rs \<and>
        s' = s\<lparr>cli_logged := cli_logged s @ concat rs,
          cli_printed := cli_printed s @ [''Transaction command ran successfully'']\<rparr>)) \<and>
    (\<forall>l. log_Address l \<noteq> lib_HexToAddress lib addr \<and>
        log_Address l \<noteq> lib_HexToAddress lib warpPrecompileAddress \<longrightarrow>
        log_report lib abi (lib_HexToAddress lib addr) l = Inr []) \<and>
    (\<forall>p. fst (transactionRun lib arg s) = Inl (Panicked p) \<longrightarrow>
      (\<exists>l \<in> set ls. log_Address l = lib_HexToAddress lib addr \<and> log_Topics l = []))"
proof -
  obtain abi where r: "ready abi s"
    and abi: "pkg_GetAbi (lib_abi lib) TeleporterMessengerMetaData = Inr (Some abi)"
    and a: "cli_teleporterAddress s = lib_HexToAddress lib addr"
    using ready_after_prerun [OF assms(1,2)] by metis
  note f = transactionRun_follows [OF r assms(3,4), unfolded a]
  let ?report = "logs_report lib abi (lib_HexToAddress lib addr) ls"
  have "transactionRun lib arg s = (Inr (), s') \<longleftrightarrow>
      (\<exists>r. ?report = Inr r \<and> s' = s\<lparr>cli_logged := cli_logged s @ r,
        cli_printed := cli_printed s @ [''Transaction command ran successfully'']\<rparr>)"
    using f by (cases ?report) auto
  moreover have "\<exists>l \<in> set ls. log_Address l = lib_HexToAddress lib addr \<and> log_Topics l = []"
    if "fst (transactionRun lib arg s) = Inl (Panicked p)" for p
  proof -
    have "panics ?report" using f that by (cases ?report) (auto simp: fst_stop_of dest!: sym [of "Panicked p"])
    then show ?thesis using logs_report_panics log_report_panics [OF assms(1) abi] by blast
  qed
  ultimately show ?thesis
    using r by (auto simp: logs_report_iff ready_def log_report_def teleporter_part_def warp_part_def)
qed

text \<open>
  A library for the witnesses. \<open>Copy\<close> fills the struct when the values have its shape and fails
  otherwise. The receipt has a log of the messenger (5), one of the warp precompile (7) and one of
  another contract (9).
\<close>

definition demo_copy :: "go_type \<Rightarrow> go_value list \<Rightarrow> go_error + go_value" where
  "demo_copy T vs =
     (case T of
        TStruct n Ts \<Rightarrow> if has_type (GStruct n (retags vs Ts)) T then Inr (GStruct n (retags vs Ts))
          else Inl (GoError ''abi: cannot unmarshal'')
      | _ \<Rightarrow> Inl (GoError ''abi: cannot unmarshal''))"

definition demo_cli :: cli_lib where
  "demo_cli = \<lparr>lib_abi = (demo_codec (of_TeleporterMessage demo_go_message))\<lparr>pkg_ArgsCopy := demo_copy\<rparr>,
     lib_messageType = teleporterMessage_components, lib_unicode_lower = id,
     lib_Info_LowerString = ''info'', lib_ToLevel = (\<lambda>l. Inr 0),
     lib_HexToHash = (\<lambda>h. word_of_nat (length h)),
     lib_HexToAddress = (\<lambda>h. if h = warpPrecompileAddress then 7 else 5),
     lib_Dial = (\<lambda>e. Inr (\<lambda>h. Inr
       [\<lparr>log_Address = 9, log_Topics = [], log_Data = []\<rparr>,
        \<lparr>log_Address = 7, log_Topics = [1], log_Data = [1]\<rparr>,
        \<lparr>log_Address = 5, log_Topics = [5, 7, 1], log_Data = []\<rparr>])),
     lib_UnpackSendWarpEventDataToMessage = (\<lambda>d. Inr \<lparr>um_ID_Hex = ''1f'', um_Payload = d\<rparr>),
     lib_ParseAddressedCall = Inr\<rparr>"

definition demo_cli_state :: cli_state where
  "demo_cli_state = \<lparr>cli_logger = None, cli_teleporterABI = None, cli_topicArgs = [],
     cli_data = [], cli_rpcEndpoint = ''http://localhost'', cli_teleporterAddress = 0,
     cli_client = None, cli_logged = [], cli_printed = []\<rparr>"

lemma demo_cli_errors_only: "errors_only demo_cli"
  by (auto simp: errors_only_def demo_cli_def demo_codec_def demo_pkg_def demo_copy_def
      fills_structs_def split: go_value.splits go_type.splits if_splits)

lemma demo_go_wrapped: "wrapped_message demo_go_message = demo_go_message"
  by (rule wrapped_in_range) (simp add: message_in_range_def demo_go_message_def)

lemma demo_cli_wraps: "codec_wraps (lib_abi demo_cli)"
proof -
  have "wrapped (strip (of_TeleporterMessage demo_go_message)) = strip (of_TeleporterMessage demo_go_message)"
    by (simp only: wrapped_struct demo_go_wrapped)
  then show ?thesis
    by (auto simp: codec_wraps_def demo_cli_def demo_codec_def demo_pkg_def demo_copy_def
        has_type_retag split: if_splits)
qed

lemma demo_cli_prerun:
  "\<exists>s c abi. transactionPreRunE demo_cli (root_command demo_cli '''') ''0x05'' demo_cli_state = (Inr (), s) \<and>
    cli_client s = Some c \<and> c (lib_HexToHash demo_cli ''0xaa'') = Inr
       [\<lparr>log_Address = 9, log_Topics = [], log_Data = []\<rparr>,
        \<lparr>log_Address = 7, log_Topics = [1], log_Data = [1]\<rparr>,
        \<lparr>log_Address = 5, log_Topics = [5, 7, 1], log_Data = []\<rparr>] \<and>
    cli_teleporterABI s = Some abi \<and>
    pkg_GetAbi (lib_abi demo_cli) TeleporterMessengerMetaData = Inr (Some abi) \<and>
    cli_logged s = []"
  by (simp add: transactionPreRunE_def root_command_def callPersistentPreRunE_def
      root_PersistentPreRunE_def rootPreRunE_def demo_cli_def demo_codec_def demo_pkg_def
      demo_cli_state_def)

lemma demo_cli_unpacks:
  "UnpackTeleporterMessage (lib_abi demo_cli) teleporterMessage_components [1] = Inr demo_go_message"
proof -
  have "PackTeleporterMessage (lib_abi demo_cli) teleporterMessage_components demo_go_message = Inr [1]"
    by (simp add: PackTeleporterMessage_def demo_cli_def demo_codec_def)
  from message_unpacks [OF demo_cli_wraps this] show ?thesis by (simp add: demo_go_wrapped)
qed

lemma demo_cli_event:
  assumes "pkg_GetAbi (lib_abi demo_cli) TeleporterMessengerMetaData = Inr (Some abi)"
  shows "\<exists>out. event_report demo_cli abi (5 # ts) [] = Inr (''MessageExecuted'', out)"
proof -
  have n: "Event_String MessageExecuted = ''MessageExecuted''"
    by (simp add: Event_String_def event_consts)
  have e: "ToEvent unicode_lower ''MessageExecuted'' = Inr MessageExecuted" for unicode_lower
    using ToEvent_name [of MessageExecuted unicode_lower] by (simp add: n known_event_def)
  have T: "event_type MessageExecuted
      = Some (TStruct ''TeleporterMessengerMessageExecuted'' [TBytes32, TBigInt])"
    by (simp add: event_type_def event_consts)
  have abi: "abi_EventByID abi 5 = Inr ''MessageExecuted''"
    using assms by (auto simp: demo_cli_def demo_codec_def demo_pkg_def)
  have "\<exists>out. FilterTeleporterEvents id (lib_abi demo_cli) (5 # ts) [] ''MessageExecuted'' = Inr out"
    by (simp add: FilterTeleporterEvents_def e n T UnpackEvent_def with_abi_def demo_cli_def
        demo_codec_def demo_pkg_def topics_from_1_def)
  moreover have "lib_unicode_lower demo_cli = id" by (simp add: demo_cli_def)
  ultimately show ?thesis by (auto simp: event_report_def abi)
qed

theorem transaction_command_witness:
  "\<exists>s abi out. transactionPreRunE demo_cli (root_command demo_cli '''') ''0x05'' demo_cli_state = (Inr (), s) \<and>
     transactionRun demo_cli ''0xaa'' s = (Inr (), s\<lparr>
       cli_logged := [
         LogDebug ''Processing Warp log''
           [ZapLog \<lparr>log_Address = 7, log_Topics = [1], log_Data = [1]\<rparr>],
         warp_entry (\<lparr>um_ID_Hex = ''1f'', um_Payload = [1]\<rparr>, demo_go_message),
         LogInfo ''Processing Teleporter log''
           [ZapLog \<lparr>log_Address = 5, log_Topics = [5, 7, 1], log_Data = []\<rparr>],
         event_entry (''MessageExecuted'', out)],
       cli_printed := cli_printed s @ [''Transaction command ran successfully'']\<rparr>)"
proof -
  obtain s c abi where p: "transactionPreRunE demo_cli (root_command demo_cli '''') ''0x05'' demo_cli_state
      = (Inr (), s)" and c: "cli_client s = Some c"
    and l: "c (lib_HexToHash demo_cli ''0xaa'') = Inr
       [\<lparr>log_Address = 9, log_Topics = [], log_Data = []\<rparr>,
        \<lparr>log_Address = 7, log_Topics = [1], log_Data = [1]\<rparr>,
        \<lparr>log_Address = 5, log_Topics = [5, 7, 1], log_Data = []\<rparr>]"
    and a: "cli_teleporterABI s = Some abi"
    and g: "pkg_GetAbi (lib_abi demo_cli) TeleporterMessengerMetaData = Inr (Some abi)"
    and e: "cli_logged s = []"
    using demo_cli_prerun by blast
  obtain out where out: "event_report demo_cli abi [5, 7, 1] [] = Inr (''MessageExecuted'', out)"
    using demo_cli_event [OF g] by blast
  have A: "lib_HexToAddress demo_cli ''0x05'' = 5"
    "lib_HexToAddress demo_cli warpPrecompileAddress = 7"
    by (simp_all add: demo_cli_def warpPrecompileAddress_def)
  have w: "warp_report demo_cli [1] = Inr (\<lparr>um_ID_Hex = ''1f'', um_Payload = [1]\<rparr>, demo_go_message)"
    using demo_cli_unpacks by (simp add: warp_report_def demo_cli_def)
  let ?r = "\<lambda>l. log_report demo_cli abi 5 l"
  have r: "?r \<lparr>log_Address = 9, log_Topics = [], log_Data = []\<rparr> = Inr []"
    "?r \<lparr>log_Address = 7, log_Topics = [1], log_Data = [1]\<rparr> = Inr
       [LogDebug ''Processing Warp log''
          [ZapLog \<lparr>log_Address = 7, log_Topics = [1], log_Data = [1]\<rparr>],
        warp_entry (\<lparr>um_ID_Hex = ''1f'', um_Payload = [1]\<rparr>, demo_go_message)]"
    "?r \<lparr>log_Address = 5, log_Topics = [5, 7, 1], log_Data = []\<rparr> = Inr
       [LogInfo ''Processing Teleporter log''
          [ZapLog \<lparr>log_Address = 5, log_Topics = [5, 7, 1], log_Data = []\<rparr>],
        event_entry (''MessageExecuted'', out)]"
    by (simp_all add: log_report_def teleporter_part_def warp_part_def A w out)
  note t = transaction_command [OF demo_cli_errors_only p c l, unfolded A a option.inject
      list_all2_Cons1 list_all2_Nil]
  show ?thesis
    by (intro exI [of _ s] exI [of _ abi] exI [of _ out] conjI)
      (use p t in \<open>auto simp: r e list_all2_Cons1\<close>)
qed

subsection \<open>The message command\<close>

lemma hex_DecodeString_error: "hex_DecodeString t = Inl e \<Longrightarrow> \<exists>msg. e = GoError msg"
  by (induction t rule: hex_DecodeString.induct) (auto simp: bindE_Inl_conv split: option.splits)

text \<open>
  The message command is the inverse of packing: on the hexadecimal form of a packed message,
  in any case of the digits, it logs exactly that message, with its integers as words; on a text that is not the hexadecimal
  form of any bytes it exits with status 1 and logs nothing.
\<close>

theorem message_command:
  assumes "codec_wraps (lib_abi lib)"
    and "lib_messageType lib = teleporterMessage_components"
    and "PackTeleporterMessage (lib_abi lib) teleporterMessage_components msg = Inr bs"
    and "cli_logger s \<noteq> None"
  shows "(map ascii_lower t = hex_EncodeToString bs \<longrightarrow>
      messageRun lib t s = (Inr (), s\<lparr>
        cli_logged := cli_logged s @ [LogInfo ''Teleporter Message unpacked'' [ZapMessage (wrapped_message msg)]],
        cli_printed := cli_printed s @ [''Message command ran successfully'']\<rparr>)) \<and>
    ((\<forall>cs. map ascii_lower t \<noteq> hex_EncodeToString cs) \<longrightarrow>
      (\<exists>e. messageRun lib t s = (Inl (Exit 1 e), s)))"
proof (intro conjI impI)
  assume "map ascii_lower t = hex_EncodeToString bs"
  then have "hex_DecodeString t = Inr bs" by (simp add: hex_DecodeString_iff)
  moreover have "UnpackTeleporterMessage (lib_abi lib) (lib_messageType lib) bs = Inr (wrapped_message msg)"
    using message_unpacks [OF assms(1,3)] assms(2) by simp
  ultimately show "messageRun lib t s = (Inr (), s\<lparr>
      cli_logged := cli_logged s @ [LogInfo ''Teleporter Message unpacked'' [ZapMessage (wrapped_message msg)]],
      cli_printed := cli_printed s @ [''Message command ran successfully'']\<rparr>)"
    using assms(4) by (auto simp: messageRun_def log_call_def cmd_Println_def)
next
  assume n: "\<forall>cs. map ascii_lower t \<noteq> hex_EncodeToString cs"
  then obtain e where "hex_DecodeString t = Inl e"
    by (cases "hex_DecodeString t") (auto simp: hex_DecodeString_iff)
  with hex_DecodeString_error [OF this] show "\<exists>e. messageRun lib t s = (Inl (Exit 1 e), s)"
    by (auto simp: messageRun_def)
qed

theorem message_command_witness:
  "messageRun demo_cli ''01'' (demo_cli_state\<lparr>cli_logger := Some 0\<rparr>)
     = (Inr (), demo_cli_state\<lparr>cli_logger := Some 0,
         cli_logged := [LogInfo ''Teleporter Message unpacked'' [ZapMessage demo_go_message]],
         cli_printed := [''Message command ran successfully'']\<rparr>)"
proof -
  have t: "lib_messageType demo_cli = teleporterMessage_components" by (simp add: demo_cli_def)
  have p: "PackTeleporterMessage (lib_abi demo_cli) teleporterMessage_components demo_go_message
      = Inr [1]"
    by (simp add: PackTeleporterMessage_def demo_cli_def demo_codec_def)
  have l: "map ascii_lower ''01'' = hex_EncodeToString [1]"
    by (simp add: ascii_lower_def hexit_def)
  show ?thesis
    using message_command [OF demo_cli_wraps t p,
        of "demo_cli_state\<lparr>cli_logger := Some 0\<rparr>" "''01''", THEN conjunct1, THEN mp, OF _ l]
    by (simp add: demo_cli_state_def demo_go_wrapped)
qed

subsection \<open>The event command\<close>

text \<open>
  The event command agrees with the transaction command: given the topics and the data of a
  log of the messenger, it logs the entry the transaction command logs for that log, and it
  stops as the transaction command does when the log cannot be parsed.
\<close>

theorem event_command:
  assumes "ready abi s"
    and "log_Address l = cli_teleporterAddress s"
    and "log_Address l \<noteq> lib_HexToAddress lib warpPrecompileAddress"
    and "log_Topics l = map (lib_HexToHash lib) (cli_topicArgs s)" "log_Data l = cli_data s"
  shows "case log_report lib abi (cli_teleporterAddress s) l of
      Inl e \<Rightarrow> fst (eventRun lib s) = Inl (stop_of e)
    | Inr r \<Rightarrow> \<exists>name out. r = [LogInfo ''Processing Teleporter log'' [ZapLog l],
          LogInfo ''Parsed Teleporter event'' [ZapString ''name'' name, ZapEvent out]] \<and>
        process_logs lib [l] s = (Inr (), s\<lparr>cli_logged := cli_logged s @ r\<rparr>) \<and>
        eventRun lib s = (Inr (), s\<lparr>cli_logged := cli_logged s @ tl r,
          cli_printed := cli_printed s @ [''Event command ran successfully for '' @ name]\<rparr>)"
proof -
  have rep: "log_report lib abi (cli_teleporterAddress s) l =
      bindE (event_report lib abi (log_Topics l) (log_Data l)) (\<lambda>r.
        Inr [LogInfo ''Processing Teleporter log'' [ZapLog l], event_entry r])"
    using assms(2,3)
    by (cases "event_report lib abi (log_Topics l) (log_Data l)")
      (simp_all add: log_report_def teleporter_part_def warp_part_def)
  have run: "case event_report lib abi (log_Topics l) (log_Data l) of
      Inl e \<Rightarrow> fst (eventRun lib s) = Inl (stop_of e)
    | Inr r \<Rightarrow> eventRun lib s = (Inr (), s\<lparr>cli_logged := cli_logged s @ [event_entry r],
          cli_printed := cli_printed s @ [''Event command ran successfully for '' @ fst r]\<rparr>)"
    using assms(1)
    by (cases "log_Topics l") (auto simp: assms(4,5) [symmetric] eventRun_def event_report_def
        Let_def check_err_conv cmd_Println_def event_entry_def ready_def log_call_def
        split: sum.splits)
  have "follows (process_logs lib [l] s) (logs_report lib abi (cli_teleporterAddress s) [l]) s"
    by (rule process_logs_follows [OF assms(1)])
  then show ?thesis
    using run by (cases "event_report lib abi (log_Topics l) (log_Data l)")
      (auto simp: rep follows_def event_entry_def logging_def simp del: process_logs.simps)
qed

theorem event_command_witness:
  "\<exists>abi out. let s = demo_cli_state\<lparr>cli_logger := Some 0, cli_teleporterABI := Some abi,
        cli_topicArgs := [''12345'', ''x'']\<rparr> in
     eventRun demo_cli s = (Inr (), s\<lparr>
       cli_logged := [event_entry (''MessageExecuted'', out)],
       cli_printed := [''Event command ran successfully for MessageExecuted'']\<rparr>)"
proof -
  obtain abi where g: "pkg_GetAbi (lib_abi demo_cli) TeleporterMessengerMetaData = Inr (Some abi)"
    using demo_cli_prerun by blast
  obtain out where out: "event_report demo_cli abi [5, 1] [] = Inr (''MessageExecuted'', out)"
    using demo_cli_event [OF g] by blast
  let ?s = "demo_cli_state\<lparr>cli_logger := Some 0, cli_teleporterABI := Some abi,
        cli_topicArgs := [''12345'', ''x'']\<rparr>"
  let ?l = "\<lparr>log_Address = 0, log_Topics = [5, 1], log_Data = []\<rparr>"
  have A: "lib_HexToAddress demo_cli warpPrecompileAddress = 7" by (simp add: demo_cli_def)
  have "ready abi ?s" by (simp add: ready_def)
  moreover have "log_Address ?l = cli_teleporterAddress ?s" "log_Data ?l = cli_data ?s"
    by (simp_all add: demo_cli_state_def)
  moreover have "log_Address ?l \<noteq> lib_HexToAddress demo_cli warpPrecompileAddress"
    by (simp add: A)
  moreover have "log_Topics ?l = map (lib_HexToHash demo_cli) (cli_topicArgs ?s)"
    by (simp add: demo_cli_def)
  ultimately have "eventRun demo_cli ?s = (Inr (), ?s\<lparr>
       cli_logged := cli_logged ?s @ [event_entry (''MessageExecuted'', out)],
       cli_printed := cli_printed ?s @ [''Event command ran successfully for MessageExecuted'']\<rparr>)"
    using event_command [of abi ?s ?l demo_cli]
    by (simp add: log_report_def teleporter_part_def warp_part_def A out event_entry_def
        demo_cli_state_def)
  then show ?thesis by (auto simp: Let_def demo_cli_state_def)
qed

end
