(* ===== verification/Gas_Utils.thy ===== *)
theory Gas_Utils
  imports Prelude
begin

section \<open>gas_utils.go: the gas limit of a delivery\<close>

text \<open>
  \<open>utils/gas-utils/gas_utils.go\<close> estimates the gas of one \<open>receiveCrossChainMessage\<close> call. Go's
  \<open>int\<close> is a signed 64-bit word, whose conversion to \<open>uint64\<close> keeps the bits and whose product
  wraps; the sum is built with avalanchego's \<open>math.Add64\<close>, the argument \<open>Add64\<close>.
\<close>

definition ReceiveCrossChainMessageStaticGasCost :: uint64 where
  "ReceiveCrossChainMessageStaticGasCost = 2000000"

definition ReceiveCrossChainMessageGasCostPerAggregatedKey :: uint64 where
  "ReceiveCrossChainMessageGasCostPerAggregatedKey = 1000"

definition ReceiveMessageGasLimitBufferAmount :: uint64 where
  "ReceiveMessageGasLimitBufferAmount = 100000"

lemmas gas_consts = ReceiveCrossChainMessageStaticGasCost_def
  ReceiveCrossChainMessageGasCostPerAggregatedKey_def ReceiveMessageGasLimitBufferAmount_def

text \<open>The loop adds the amounts after the first to it and returns the first error.\<close>

fun add_amounts ::
  "(uint64 \<Rightarrow> uint64 \<Rightarrow> go_error + uint64) \<Rightarrow> uint64 \<Rightarrow> uint64 list \<Rightarrow> go_error + uint64" where
  "add_amounts Add64 res [] = Inr res"
| "add_amounts Add64 res (a # as) = bindE (Add64 res a) (\<lambda>r. add_amounts Add64 r as)"

definition CalculateReceiveMessageGasLimit ::
  "(uint64 \<Rightarrow> uint64 \<Rightarrow> go_error + uint64) \<Rightarrow> uint64 \<Rightarrow> int \<Rightarrow> go_error + uint64" where
  "CalculateReceiveMessageGasLimit Add64 numSigners executionRequiredGasLimit =
     (if \<not> (0 \<le> executionRequiredGasLimit \<and> executionRequiredGasLimit < 2 ^ 64)
      then Inl (GoError ''required gas limit too high'')
      else
        let gasAmounts = [word_of_int executionRequiredGasLimit,
              ReceiveCrossChainMessageStaticGasCost,
              numSigners * ReceiveCrossChainMessageGasCostPerAggregatedKey,
              ReceiveMessageGasLimitBufferAmount]
        in add_amounts Add64 (hd gasAmounts) (tl gasAmounts))"

subsection \<open>The limit is exact or an error\<close>

text \<open>What \<open>math.Add64\<close> promises: the sum, or an error when it does not fit.\<close>

definition adds_or_fails :: "(uint64 \<Rightarrow> uint64 \<Rightarrow> go_error + uint64) \<Rightarrow> bool" where
  "adds_or_fails Add64 \<longleftrightarrow> (\<forall>a b. if unat a + unat b < 2 ^ 64 then Add64 a b = Inr (a + b)
     else \<exists>msg. Add64 a b = Inl (GoError msg))"

lemma unat_add_64: "unat (a :: uint64) + unat b < 2 ^ 64 \<Longrightarrow> unat (a + b) = unat a + unat b"
  by (simp add: unat_word_ariths)

lemma add_amounts_exact:
  "adds_or_fails Add64 \<Longrightarrow>
    (if unat res + sum_list (map unat as) < 2 ^ 64
     then \<exists>r. add_amounts Add64 res as = Inr r \<and> unat r = unat res + sum_list (map unat as)
     else \<exists>msg. add_amounts Add64 res as = Inl (GoError msg))"
proof (induction as arbitrary: res)
  case Nil
  have "unat res < 2 ^ 64" using unsigned_less [of res, where ?'a = nat] by simp
  then show ?case by simp
next
  case (Cons a as)
  show ?case
  proof (cases "unat res + unat a < 2 ^ 64")
    case True
    then have "Add64 res a = Inr (res + a)" and "unat (res + a) = unat res + unat a"
      using Cons.prems by (auto simp: adds_or_fails_def unat_add_64 split: if_splits)
    then show ?thesis using Cons.IH [OF Cons.prems, of "res + a"]
      by (auto simp: add.assoc split: if_splits)
  next
    case False
    then obtain msg where "Add64 res a = Inl (GoError msg)"
      using Cons.prems unfolding adds_or_fails_def by meson
    then show ?thesis using False by simp
  qed
qed

lemma unat_keys:
  "unat n * 1000 < 2 ^ 64 \<Longrightarrow> unat (n * (1000 :: uint64)) = unat n * 1000"
  by (simp add: unat_word_ariths)

text \<open>
  C37: For a number of signers whose cost fits into 64 bits, the gas limit is exactly the required
  limit plus 2,000,000 plus 1,000 per signer plus 100,000; when that sum does not fit, or the
  required limit does not, the function returns an error and never a smaller number.
\<close>

theorem gas_limit_exact:
  assumes "adds_or_fails Add64" and "unat numSigners * 1000 < 2 ^ 64"
  shows "if 0 \<le> required \<and> required + 2000000 + 1000 * uint numSigners + 100000 < 2 ^ 64
     then \<exists>limit. CalculateReceiveMessageGasLimit Add64 numSigners required = Inr limit \<and>
       uint limit = required + 2000000 + 1000 * uint numSigners + 100000
     else \<exists>msg. CalculateReceiveMessageGasLimit Add64 numSigners required = Inl (GoError msg)"
proof (cases "0 \<le> required \<and> required < 2 ^ 64")
  case False
  moreover have "0 \<le> uint numSigners" by simp
  ultimately have "\<not> (0 \<le> required \<and> required + 2000000 + 1000 * uint numSigners + 100000 < 2 ^ 64)"
    by linarith
  with False show ?thesis
    by (simp only: if_False) (simp add: CalculateReceiveMessageGasLimit_def)
next
  case True
  let ?r = "word_of_int required :: uint64"
  let ?amounts = "[2000000, numSigners * 1000, 100000] :: uint64 list"
  have r: "int (unat ?r) = required"
    using True by (simp add: unsigned_of_int take_bit_int_eq_self)
  have s: "int (unat numSigners) = uint numSigners" by simp
  define N where "N = unat ?r + 2000000 + 1000 * unat numSigners + 100000"
  have N: "unat ?r + sum_list (map unat ?amounts) = N"
    using unat_keys [OF assms(2)] by (simp add: N_def)
  have R: "int N = required + 2000000 + 1000 * uint numSigners + 100000"
    using r s by (simp add: N_def)
  have c: "CalculateReceiveMessageGasLimit Add64 numSigners required = add_amounts Add64 ?r ?amounts"
    using True by (simp add: CalculateReceiveMessageGasLimit_def gas_consts)
  have e: "if N < 2 ^ 64 then \<exists>l. add_amounts Add64 ?r ?amounts = Inr l \<and> unat l = N
      else \<exists>msg. add_amounts Add64 ?r ?amounts = Inl (GoError msg)"
    using add_amounts_exact [OF assms(1), of ?r ?amounts] by (simp only: N)
  show ?thesis
  proof (cases "N < 2 ^ 64")
    case True
    then obtain l where l: "add_amounts Add64 ?r ?amounts = Inr l" "unat l = N"
      using e by auto
    then have "uint l = int N" by (metis uint_nat)
    moreover have "int N < 2 ^ 64" using True by simp
    moreover have "CalculateReceiveMessageGasLimit Add64 numSigners required = Inr l"
      using c l(1) by (rule trans)
    ultimately show ?thesis
      using \<open>0 \<le> required \<and> required < 2 ^ 64\<close> R by auto
  next
    case False
    then have "\<not> int N < 2 ^ 64" by simp
    moreover have "\<exists>msg. CalculateReceiveMessageGasLimit Add64 numSigners required
        = Inl (GoError msg)"
      using e False by (simp only: c if_False)
    ultimately show ?thesis using R by auto
  qed
qed

definition demo_Add64 :: "uint64 \<Rightarrow> uint64 \<Rightarrow> go_error + uint64" where
  "demo_Add64 a b = (if unat a + unat b < 2 ^ 64 then Inr (a + b) else Inl (GoError ''overflow''))"

lemma demo_Add64_ok: "adds_or_fails demo_Add64"
  by (simp add: adds_or_fails_def demo_Add64_def)

theorem gas_limit_exact_witness:
  "\<exists>limit. CalculateReceiveMessageGasLimit demo_Add64 5 300000 = Inr limit \<and> uint limit = 2405000"
  using gas_limit_exact [OF demo_Add64_ok, of 5 300000] by simp

text \<open>
  The bound on the number of signers is needed: the product is not checked, so a count that
  is a valid Go \<open>int\<close> but exceeds it yields a limit that is too small instead of an error.
\<close>

theorem gas_limit_wraps:
  "CalculateReceiveMessageGasLimit demo_Add64 18446744073709552 300000 = Inr 2400384 \<and>
   sint (18446744073709552 :: uint64) = 18446744073709552"
  by (simp add: CalculateReceiveMessageGasLimit_def demo_Add64_def gas_consts)

end
