(* ===== verification/Spec2Isabelle.thy ===== *)
theory Spec2Isabelle
  imports Messenger_Correctness Messenger_Crossing Messenger_Calls Upgrade_Correctness Bind_Correctness Bind_Safety Bind_Registry_Link Bind_TeleporterRegistry
    Bind_BlockHashPublisher Bind_BlockHashReceiver Bind_ExampleCrossChainMessenger
    Bind_ERC20Bridge Bind_BridgeToken Bind_ERC20TokenSource Bind_NativeTokenSource
    Bind_NativeTokenDestination Bind_ExampleERC20 Bridge_Correctness
    Native_Token_Correctness Example_Apps
    Event_Correctness CLI_Correctness Deployment_Correctness Gas_Utils
begin

text \<open>
  A verification library of the Teleporter repository.

  \<^bold>\<open>The program.\<close> Teleporter sends messages between the chains of an Avalanche network. The contract
  \<open>TeleporterMessenger\<close> (contracts/src/Teleporter) gives every message an ID, keeps its hash and its
  fee until a receipt of its delivery comes back, and hands it to the warp precompile. On the
  other chain a relayer delivers it: the contract checks the warp message, executes the call to
  the recipient or stores it for a retry, pays the fees that the attached receipts earn, and
  queues a receipt of its own. Applications follow the versions of the contract through
  \<open>TeleporterRegistry\<close> and \<open>TeleporterUpgradeable\<close>. The Go code binds the contracts
  (abi-bindings/go), decodes their events and messages (\<open>event.go\<close>, \<open>packing.go\<close>), estimates gas,
  deploys the contract at a universal address (utils) and offers a command line tool
  (cmd/teleporter-cli).

  \<^bold>\<open>The contract.\<close>
    \<^item> \<open>Receipt_Queue\<close>, \<open>Reentrancy_Guards\<close>: the library ReceiptQueue.sol and the two modifiers of
      ReentrancyGuards.sol, with the locales \<open>fifo\<close> and \<open>nonreentrant\<close> they provide.
    \<^item> \<open>Messenger_State\<close>, \<open>Messenger_Ops\<close>: structs, events, storage and one definition per function of
      TeleporterMessenger.sol. A mapping is a total function, a revert is \<open>Inl\<close>, a word is a
      \<open>word\<close> with Solidity's checked arithmetic. A call to another contract takes and returns the whole
      world, since the callee may call back.
    \<^item> \<open>Messenger_Reentrancy\<close>: the closure of all sequences of calls, nested calls included, as the
      relation \<open>interacts\<close>, and the locale \<open>call_closed\<close> that lifts a relation kept by every operation
      to all of them. \<open>Messenger_Inversion\<close> says what each successful operation has done.
    \<^item> \<open>Messenger_Safety\<close>, \<open>Messenger_Locks\<close>, \<open>Messenger_Execution\<close>, \<open>Messenger_Solvency\<close>, \<open>Messenger_Queues\<close>:
      interpretations of \<open>call_closed\<close> for message IDs, deliveries, the two locks, executions, the
      balance of a token and the shape of the queues. \<open>Messenger_Delivery\<close> adds two: what a messenger has
      sent, and that what it has received is genuine; \<open>Messenger_Crossing\<close> composes the messengers of
      two chains (C3). \<open>Messenger_Calls\<close> records the calls that a messenger makes to applications, as
      an interpretation of \<open>contract_closed\<close>, and shows that each is for a message of its own that was
      sent (C4). \<open>Messenger_Correctness\<close> holds the other properties,
      \<open>Messenger_Example\<close> the concrete states of their witnesses.
    \<^item> \<open>Registry\<close>, \<open>Upgradeable\<close>, \<open>Upgrade_Correctness\<close>: the registry, the base contracts of
      applications as a step relation, and their properties.

  \<^bold>\<open>The applications\<close> (contracts/src/CrossChainApplications).
    \<^item> \<open>ERC20_Bridge\<close>: ERC20Bridge.sol and BridgeToken.sol, over the base contract of \<open>Upgradeable\<close>.
      \<open>Bridge_Solvency\<close> closes their operations, with reentrant tokens and messengers, into the relation
      \<open>bridge_interacts\<close> and the locale \<open>bridge_closed\<close>; its interpretations there, in \<open>Bridge_Tokens\<close> and in
      \<open>Bridge_Ledger\<close> are the vault of an asset, the registries of tokens and the books of a bridge.
      \<open>Bridge_Correctness\<close> composes a home bridge with its remote bridges; \<open>Bridge_Example\<close> is a run.
    \<^item> \<open>Message_Notes\<close>: what two messengers have carried between two applications, the only link that the
      properties of pairs of contracts assume (\<open>delivered\<close>: what is executed was sent, once each). That
      two messengers provide it is C4.
    \<^item> \<open>Native_Token_Bridge\<close>: NativeTokenSource.sol, ERC20TokenSource.sol, NativeTokenDestination.sol.
      \<open>Contract_Calls\<close> is the closure \<open>happens\<close> and the locale \<open>contract_closed\<close> for any contract;
      \<open>Native_Token_Source\<close> interprets it for the collateral of both sources, \<open>Native_Token_Destination\<close>
      for what a destination counts as minted, burns and reports. \<open>Native_Token_Payments\<close> interprets
      it again, for the payments that a source makes and the coins that a destination mints, call by
      call: they are what the executed messages say. \<open>Native_Token_Correctness\<close> composes the two.
    \<^item> \<open>Example_Apps\<close>: BlockHashPublisher.sol, BlockHashReceiver.sol, ExampleCrossChainMessenger.sol.
      \<open>Demo_Codec\<close> is the codec of the examples.

  \<^bold>\<open>The Go code.\<close>
    \<^item> \<open>Go_Bind\<close>: Go values and types, the library the generated code calls (a record of functions),
      and the code every event repeats: iterators, and watch loops as a step relation.
    \<^item> \<open>Bind_<contract>\<close>: one theory per generated file, one definition per method. \<open>Go_Typing\<close> states in
      the locale \<open>abi_contract\<close> what this code relies on; \<open>Bind_Messenger_Link\<close> shows that the model of
      TeleporterMessenger.sol provides it, \<open>Bind_Correctness\<close> that the binding runs that contract,
      \<open>Bind_Registry_Link\<close> that the one of the registry runs \<open>Registry\<close>, and
      \<open>Bind_Safety\<close> that no method of any binding panics. A parser fills its struct
      in place (\<open>filled_<event>\<close>), so it needs no such theorem.
    \<^item> \<open>Go_Event\<close>, \<open>Event_Correctness\<close>: event.go and packing.go. \<open>Gas_Utils\<close>: gas_utils.go.
      \<open>Deployment_Utils\<close>, \<open>Deployment_Correctness\<close>: deployment_utils.go and contractDeploymentTools.go.
      \<open>Teleporter_CLI\<close>, \<open>CLI_Correctness\<close>: the command line tool.

  \<^bold>\<open>Parameters.\<close> The EVM's hash function, gas and ABI codec, the warp precompile and the called
  contracts, and the third-party Go packages (go-ethereum, subnet-evm, avalanchego, cobra) are
  arguments of the definitions. Where a property needs their documented behaviour, it is a named
  hypothesis (\<open>honest_token\<close>, \<open>abi_contract\<close>, \<open>codec_wraps\<close>, \<open>fills_structs\<close>,
  \<open>errors_only\<close>, \<open>adds_or_fails\<close>; for the applications \<open>guard_pair\<close>, \<open>honest_asset\<close>, \<open>honest_books\<close>,
  \<open>creates_fresh\<close>, \<open>codec_agrees\<close>, \<open>codec_follows\<close>, \<open>source_honest\<close>, \<open>dest_honest\<close>; for two messengers
  \<open>hashes_with\<close>, \<open>genuine_warp\<close>, \<open>calls_env\<close> and that the messages sent or retried have different hashes),
  and the property has a witness with a concrete instance. The balances of the accounts around a
  contract, and the payments, mints and calls that it has made, are read off the rest of the world by
  a view, and an effect says how a call may change them.

  \<^bold>\<open>Termination.\<close> There is no fuel: every loop of the modelled code runs over a list or a counter.
  Iterators and watch loops, which may wait for ever, are steps; a loop over an iterator stops or
  blocks within one call more than there are logs (C28), and a watch loop makes at most two steps
  per log and can always be stopped (C30).

  \<^bold>\<open>Not modelled.\<close> OpenZeppelin's contracts (parameters), the integration tests (drivers of external
  nodes), the registration of commands with cobra, and the scripts.
\<close>

end
